(* ===== verification/Prelude.thy ===== *)
theory Prelude
  imports Main "HOL-Library.AList" "HOL-Library.Sublist"
begin

text \<open>
  Shared vocabulary of the development: the theorem collections the components add to,
  Go's maps and optional pointers, the writer discipline in which every pass threads
  its diagnostics, and the generic list and map facts the component proofs rest on.

  \<^item> A Go \<open>map[string]V\<close> is an association list with distinct keys. Its order is the
    order in which \<open>range\<close> visits the map; Go leaves that order open, so a statement
    about every such list is a statement about every iteration order.
  \<^item> A Go pointer that may be nil is an option.
  \<^item> A pass that appends to an error slice returns its value together with the
    diagnostics it appended (\<open>'a \<times> 'd list\<close>); \<open>bindW\<close> keeps them in program order.
  \<^item> Go's \<open>int\<close> is a 64-bit two's complement integer: \<open>wrap64\<close> is its wrap-around.
\<close>

section \<open>Theorem collections\<close>

named_theorems writer_simps \<open>projections of the writer operations\<close>
named_theorems shape_simps \<open>what a pass leaves unchanged\<close>
named_theorems pos_mono \<open>cursor positions never move back\<close>

section \<open>Go maps as association lists\<close>

type_synonym 'v gomap = "(string \<times> 'v) list"

definition has_key :: "string \<Rightarrow> 'v gomap \<Rightarrow> bool" where
  "has_key k m \<longleftrightarrow> map_of m k \<noteq> None"

text \<open>\<open>m[k] = v\<close>: an existing key keeps its place, a new key goes to the end.\<close>

abbreviation gomap_put :: "string \<Rightarrow> 'v \<Rightarrow> 'v gomap \<Rightarrow> 'v gomap" where
  "gomap_put k v m \<equiv> AList.update k v m"

abbreviation gomap_ok :: "'v gomap \<Rightarrow> bool" where
  "gomap_ok m \<equiv> distinct (map fst m)"

lemma has_key_iff: "has_key k m \<longleftrightarrow> k \<in> fst ` set m"
  by (simp add: has_key_def map_of_eq_None_iff)

lemma has_key_put [simp]: "has_key k (gomap_put k' v m) \<longleftrightarrow> k = k' \<or> has_key k m"
  by (auto simp: has_key_def update_conv)

lemma has_key_Nil [simp]: "\<not> has_key k []"
  by (simp add: has_key_def)

section \<open>Threading diagnostics\<close>

definition returnW :: "'a \<Rightarrow> 'a \<times> 'd list" where
  "returnW x = (x, [])"

definition tellW :: "'d list \<Rightarrow> unit \<times> 'd list" where
  "tellW ds = ((), ds)"

definition bindW :: "'a \<times> 'd list \<Rightarrow> ('a \<Rightarrow> 'b \<times> 'd list) \<Rightarrow> 'b \<times> 'd list" where
  "bindW m f = (let (x, ds) = m; (y, ds') = f x in (y, ds @ ds'))"

primrec mapW :: "('a \<Rightarrow> 'b \<times> 'd list) \<Rightarrow> 'a list \<Rightarrow> 'b list \<times> 'd list" where
  "mapW f [] = ([], [])"
| "mapW f (x # xs) =
     (let (y, ds) = f x; (ys, ds') = mapW f xs in (y # ys, ds @ ds'))"

lemma fst_returnW [simp, writer_simps]: "fst (returnW x) = x"
  by (simp add: returnW_def)

lemma snd_returnW [simp, writer_simps]: "snd (returnW x) = []"
  by (simp add: returnW_def)

lemma snd_tellW [simp, writer_simps]: "snd (tellW ds) = ds"
  by (simp add: tellW_def)

lemma fst_bindW [writer_simps]: "fst (bindW m f) = fst (f (fst m))"
  by (simp add: bindW_def split_beta)

lemma snd_bindW [writer_simps]: "snd (bindW m f) = snd m @ snd (f (fst m))"
  by (simp add: bindW_def split_beta)

lemma fst_mapW [writer_simps]: "fst (mapW f xs) = map (\<lambda>x. fst (f x)) xs"
  by (induction xs) (auto simp: split_beta)

lemma snd_mapW [writer_simps]: "snd (mapW f xs) = concat (map (\<lambda>x. snd (f x)) xs)"
  by (induction xs) (auto simp: split_beta)

text \<open>The writer is a monad.\<close>

lemma bindW_return_left: "bindW (returnW x) f = f x"
  by (simp add: bindW_def returnW_def split_beta)

lemma bindW_return_right: "bindW m returnW = m"
  by (simp add: bindW_def returnW_def split_beta)

lemma bindW_assoc: "bindW (bindW m f) g = bindW m (\<lambda>x. bindW (f x) g)"
  by (simp add: bindW_def split_beta)

text \<open>Recursive passes use the writer inside their definitions.\<close>

lemma mapW_cong [fundef_cong]:
  assumes "xs = ys" and "\<And>x. x \<in> set ys \<Longrightarrow> f x = g x"
  shows "mapW f xs = mapW g ys"
  using assms by (induction ys arbitrary: xs) auto

lemma bindW_cong [fundef_cong]:
  assumes "m = m'" and "\<And>x. x = fst m' \<Longrightarrow> f x = g x"
  shows "bindW m f = bindW m' g"
  using assms by (simp add: bindW_def split_beta)

text \<open>
  A step of a pass that updates a state \<open>'s\<close> and reports: steps run one after the other
  and in a loop over a list.
\<close>

type_synonym ('s, 'd) step = "'s \<Rightarrow> 's \<times> 'd list"

definition skipS :: "('s, 'd) step" where
  "skipS s = (s, [])"

definition updateS :: "('s \<Rightarrow> 's) \<Rightarrow> ('s, 'd) step" where
  "updateS f s = (f s, [])"

definition thenS :: "('s, 'd) step \<Rightarrow> ('s, 'd) step \<Rightarrow> ('s, 'd) step" where
  "thenS f g s = (let (s1, ds1) = f s; (s2, ds2) = g s1 in (s2, ds1 @ ds2))"

primrec stepsS :: "('s, 'd) step list \<Rightarrow> ('s, 'd) step" where
  "stepsS [] = skipS"
| "stepsS (f # fs) = thenS f (stepsS fs)"

definition forS :: "('a \<Rightarrow> ('s, 'd) step) \<Rightarrow> 'a list \<Rightarrow> ('s, 'd) step" where
  "forS f xs = stepsS (map f xs)"

definition ifSomeS :: "'a option \<Rightarrow> ('a \<Rightarrow> ('s, 'd) step) \<Rightarrow> ('s, 'd) step" where
  "ifSomeS m f = (case m of None \<Rightarrow> skipS | Some x \<Rightarrow> f x)"

lemma forS_simps [simp]:
  "forS f [] = skipS" "forS f (x # xs) = thenS (f x) (forS f xs)"
  by (simp_all add: forS_def)

section \<open>Go's int\<close>

definition wrap64 :: "int \<Rightarrow> int" where
  "wrap64 x = (x + 2 ^ 63) mod 2 ^ 64 - 2 ^ 63"

definition in_int64 :: "int \<Rightarrow> bool" where
  "in_int64 x \<longleftrightarrow> - (2 ^ 63) \<le> x \<and> x < 2 ^ 63"

lemma wrap64_id: "in_int64 x \<Longrightarrow> wrap64 x = x"
  by (simp add: wrap64_def in_int64_def)

lemma wrap64_in_int64: "in_int64 (wrap64 x)"
proof -
  have "0 \<le> (x + 2 ^ 63) mod 2 ^ 64" and "(x + 2 ^ 63) mod 2 ^ 64 < 2 ^ 64"
    by (simp_all del: mod_add_self2)
  then show ?thesis by (simp add: wrap64_def in_int64_def)
qed

section \<open>Lists\<close>

lemma distinct_map_filter: "distinct (map f xs) \<Longrightarrow> distinct (map f (filter P xs))"
  by (induction xs) auto

lemma sorted_wrt_append_single:
  "sorted_wrt P (xs @ [x]) \<longleftrightarrow> sorted_wrt P xs \<and> (\<forall>y\<in>set xs. P y x)"
  by (simp add: sorted_wrt_append)

text \<open>Two strings joined by a separator the left one does not contain split uniquely.\<close>

lemma sep_inject:
  assumes "c \<notin> set a" and "c \<notin> set a'"
  shows "a @ c # b = a' @ c # b' \<longleftrightarrow> a = a' \<and> b = b'"
proof
  assume eq: "a @ c # b = a' @ c # b'"
  have "takeWhile (\<lambda>x. x \<noteq> c) (a @ c # b) = a"
    using assms(1) by (subst takeWhile_append2) auto
  moreover have "takeWhile (\<lambda>x. x \<noteq> c) (a' @ c # b') = a'"
    using assms(2) by (subst takeWhile_append2) auto
  ultimately have "a = a'" using eq by metis
  with eq show "a = a' \<and> b = b'" by simp
qed simp

end
