(* ===== verification/Effects.thy ===== *)
theory Effects
  imports Prelude "HOL-Library.State_Monad"
begin

text \<open>
  Code that updates a state: the state monad, Go's loops in it, and the discipline by which
  what a run leaves alone is proved from its steps. The compiler and the billing handlers are
  written in it.
\<close>

section \<open>Operations\<close>

definition ret :: "'a \<Rightarrow> ('s, 'a) state" where
  "ret x = State (\<lambda>s. (x, s))"

definition asks :: "('s \<Rightarrow> 'a) \<Rightarrow> ('s, 'a) state" where
  "asks f = State (\<lambda>s. (f s, s))"

definition modifies :: "('s \<Rightarrow> 's) \<Rightarrow> ('s, unit) state" where
  "modifies f = State (\<lambda>s. ((), f s))"

primrec foldC :: "('b \<Rightarrow> 'a \<Rightarrow> ('s, 'b) state) \<Rightarrow> 'b \<Rightarrow> 'a list \<Rightarrow> ('s, 'b) state" where
  "foldC f b [] = ret b"
| "foldC f b (x # xs) = do { b' \<leftarrow> f b x; foldC f b' xs }"

primrec mapC :: "('a \<Rightarrow> ('s, 'b) state) \<Rightarrow> 'a list \<Rightarrow> ('s, 'b list) state" where
  "mapC f [] = ret []"
| "mapC f (x # xs) = do { y \<leftarrow> f x; ys \<leftarrow> mapC f xs; ret (y # ys) }"

lemma foldC_cong [fundef_cong]:
  assumes "b = b'" and "xs = ys" and "\<And>a x. x \<in> set ys \<Longrightarrow> f a x = g a x"
  shows "foldC f b xs = foldC g b' ys"
proof -
  have "foldC f a ys = foldC g a ys" for a
    using assms(3) by (induction ys arbitrary: a) (auto intro!: state_ext)
  with assms(1,2) show ?thesis by simp
qed

definition optC :: "('a \<Rightarrow> ('s, 'b) state) \<Rightarrow> 'a option \<Rightarrow> ('s, 'b option) state" where
  "optC f m = (case m of None \<Rightarrow> ret None | Some x \<Rightarrow> do { y \<leftarrow> f x; ret (Some y) })"

text \<open>\<open>for i, x := range xs\<close> with \<open>i + 1\<close> passed on.\<close>

definition numberedC :: "(int \<Rightarrow> 'a \<Rightarrow> ('s, 'b) state) \<Rightarrow> 'a list \<Rightarrow> ('s, 'b list) state" where
  "numberedC f xs = mapC (\<lambda>(i, x). f (int i + 1) x) (zip [0..<length xs] xs)"

section \<open>What a run returns\<close>

lemma run_ret [simp]: "run_state (ret x) s = (x, s)"
  by (simp add: ret_def)

lemma run_asks [simp]: "run_state (asks f) s = (f s, s)"
  by (simp add: asks_def)

lemma run_modifies [simp]: "run_state (modifies f) s = ((), f s)"
  by (simp add: modifies_def)

definition yields :: "('s, 'a) state \<Rightarrow> ('a \<Rightarrow> bool) \<Rightarrow> bool" where
  "yields m Q \<longleftrightarrow> (\<forall>s. Q (fst (run_state m s)))"

lemma yields_ret: "Q x \<Longrightarrow> yields (ret x) Q"
  by (simp add: yields_def)

lemma yields_bind: "(\<And>x. yields (k x) Q) \<Longrightarrow> yields (m \<bind> k) Q"
  by (simp add: yields_def split_beta)

lemmas yields_intros = yields_ret yields_bind

section \<open>What a run leaves alone\<close>

text \<open>
  A relation between the state before and after every run; the special case of an observation
  that stays the same.
\<close>

definition keeps :: "('s \<Rightarrow> 's \<Rightarrow> bool) \<Rightarrow> ('s, 'a) state \<Rightarrow> bool" where
  "keeps R m \<longleftrightarrow> (\<forall>s. R s (snd (run_state m s)))"

abbreviation preserves :: "('s \<Rightarrow> 'g) \<Rightarrow> ('s, 'a) state \<Rightarrow> bool" where
  "preserves g \<equiv> keeps (\<lambda>s s'. g s' = g s)"

lemma preserves_def: "preserves g m \<longleftrightarrow> (\<forall>s. g (snd (run_state m s)) = g s)"
  by (simp add: keeps_def)

lemma keepsD: "keeps R m \<Longrightarrow> run_state m s = (x, s') \<Longrightarrow> R s s'"
  by (metis keeps_def snd_conv)

named_theorems preserves_intros

lemma preserves_ret [preserves_intros]: "preserves g (ret x)"
  by (simp add: preserves_def)

lemma preserves_asks [preserves_intros]: "preserves g (asks f)"
  by (simp add: preserves_def)

lemma preserves_modifies: "(\<And>s. g (f s) = g s) \<Longrightarrow> preserves g (modifies f)"
  by (simp add: preserves_def)

lemma preserves_bind [preserves_intros]:
  "preserves g m \<Longrightarrow> (\<And>x. preserves g (k x)) \<Longrightarrow> preserves g (m \<bind> k)"
  by (simp add: preserves_def split_beta)

lemma preserves_mapC [preserves_intros]:
  "(\<And>x. preserves g (f x)) \<Longrightarrow> preserves g (mapC f xs)"
  by (induction xs) (auto intro!: preserves_intros)

lemma preserves_foldC [preserves_intros]:
  "(\<And>b x. x \<in> set xs \<Longrightarrow> preserves g (f b x)) \<Longrightarrow> preserves g (foldC f b xs)"
  by (induction xs arbitrary: b) (auto intro: preserves_bind preserves_ret)

lemma preserves_optC [preserves_intros]:
  "(\<And>x. preserves g (f x)) \<Longrightarrow> preserves g (optC f m)"
  by (auto simp: optC_def intro!: preserves_intros split: option.splits)

lemma preserves_numberedC [preserves_intros]:
  "(\<And>i x. preserves g (f i x)) \<Longrightarrow> preserves g (numberedC f xs)"
  by (auto simp: numberedC_def intro!: preserves_intros split: prod.splits)

text \<open>A reflexive and transitive relation is kept by sequences and loops of steps that keep it.\<close>

locale step_relation =
  fixes R :: "'s \<Rightarrow> 's \<Rightarrow> bool"
  assumes refl: "R s s"
    and trans: "R s t \<Longrightarrow> R t u \<Longrightarrow> R s u"
begin

lemma basic [preserves_intros]: "keeps R (ret x)" "keeps R (asks f)"
  by (simp_all add: keeps_def refl)

lemma modify: "(\<And>s. R s (f s)) \<Longrightarrow> keeps R (modifies f)"
  by (simp add: keeps_def)

lemma bind [preserves_intros]:
  "keeps R m \<Longrightarrow> (\<And>x. keeps R (k x)) \<Longrightarrow> keeps R (m \<bind> k)"
  unfolding keeps_def by (auto simp: split_beta intro: trans)

lemma bind_yields:
  "keeps R m \<Longrightarrow> yields m Q \<Longrightarrow> (\<And>x. Q x \<Longrightarrow> keeps R (k x)) \<Longrightarrow> keeps R (m \<bind> k)"
  unfolding keeps_def yields_def by (auto simp: split_beta intro: trans)

lemma loops [preserves_intros]:
  "(\<And>x. keeps R (f x)) \<Longrightarrow> keeps R (mapC f xs)"
  "(\<And>x. keeps R (f x)) \<Longrightarrow> keeps R (optC f m)"
  "(\<And>i x. keeps R (h i x)) \<Longrightarrow> keeps R (numberedC h xs)"
proof -
  show map: "keeps R (mapC f xs)" if "\<And>x. keeps R (f x)" for f :: "'x \<Rightarrow> ('s, 'y) state" and xs
    using that by (induction xs) (auto intro!: preserves_intros)
  show "keeps R (optC f m)" if "\<And>x. keeps R (f x)"
    using that by (cases m) (auto simp: optC_def intro!: preserves_intros)
  show "keeps R (numberedC h xs)" if "\<And>i x. keeps R (h i x)"
    using that by (auto simp: numberedC_def intro!: map split: prod.splits)
qed

lemma fold [preserves_intros]:
  "(\<And>b x. x \<in> set xs \<Longrightarrow> keeps R (f b x)) \<Longrightarrow> keeps R (foldC f b xs)"
  by (induction xs arbitrary: b) (auto intro: bind basic)

end

end
