(* ===== verification/GoStrings.thy ===== *)
theory GoStrings
  imports Prelude
begin

text \<open>
  What the program uses of Go's strings. A Go string is a sequence of bytes, so a
  \<open>string\<close> here is a list of \<open>char\<close>s read as bytes. The theory gives
  \<open>unicode/utf8\<close> decoding and encoding (invalid bytes decode to U+FFFD with width 1),
  the \<open>unicode\<close> character classes (the Latin-1 part written out, the tables above it a
  parameter) and the functions of \<open>strings\<close> and \<open>strconv\<close> the scripting package calls.
  The main lemmas are the UTF-8 round trip, the width bounds that make every cursor loop
  terminate, and the effect of \<open>ReplaceAll\<close> on strings without the pattern.
\<close>

section \<open>UTF-8\<close>

abbreviation rune_error :: nat where
  "rune_error \<equiv> 65533"

definition cont_byte :: "nat \<Rightarrow> bool" where
  "cont_byte b \<longleftrightarrow> 128 \<le> b \<and> b < 192"

text \<open>The range the second byte must lie in depends on the first.\<close>

definition second_ok :: "nat \<Rightarrow> nat \<Rightarrow> bool" where
  "second_ok b0 b1 \<longleftrightarrow>
     (if b0 = 224 then 160 \<le> b1 \<and> b1 < 192
      else if b0 = 237 then 128 \<le> b1 \<and> b1 < 160
      else if b0 = 240 then 144 \<le> b1 \<and> b1 < 192
      else if b0 = 244 then 128 \<le> b1 \<and> b1 < 144
      else cont_byte b1)"

definition decode_rune :: "string \<Rightarrow> nat \<times> nat" where
  "decode_rune s =
     (case s of
        [] \<Rightarrow> (rune_error, 0)
      | c0 # s1 \<Rightarrow>
         (let b0 = of_char c0 :: nat in
          if b0 < 128 then (b0, 1)
          else if b0 < 194 \<or> 244 < b0 then (rune_error, 1)
          else (case s1 of
             [] \<Rightarrow> (rune_error, 1)
           | c1 # s2 \<Rightarrow>
              (let b1 = of_char c1 :: nat in
               if \<not> second_ok b0 b1 then (rune_error, 1)
               else if b0 < 224 then ((b0 - 192) * 64 + (b1 - 128), 2)
               else (case s2 of
                  [] \<Rightarrow> (rune_error, 1)
                | c2 # s3 \<Rightarrow>
                   (let b2 = of_char c2 :: nat in
                    if \<not> cont_byte b2 then (rune_error, 1)
                    else if b0 < 240 then
                      ((b0 - 224) * 4096 + (b1 - 128) * 64 + (b2 - 128), 3)
                    else (case s3 of
                       [] \<Rightarrow> (rune_error, 1)
                     | c3 # _ \<Rightarrow>
                        (let b3 = of_char c3 :: nat in
                         if \<not> cont_byte b3 then (rune_error, 1)
                         else ((b0 - 240) * 262144 + (b1 - 128) * 4096
                               + (b2 - 128) * 64 + (b3 - 128), 4)))))))))"

definition valid_rune :: "nat \<Rightarrow> bool" where
  "valid_rune r \<longleftrightarrow> r < 55296 \<or> (57344 \<le> r \<and> r < 1114112)"

definition encode_valid :: "nat \<Rightarrow> string" where
  "encode_valid r =
     (if r < 128 then [char_of r]
      else if r < 2048 then [char_of (192 + r div 64), char_of (128 + r mod 64)]
      else if r < 65536 then
        [char_of (224 + r div 4096), char_of (128 + r div 64 mod 64),
         char_of (128 + r mod 64)]
      else
        [char_of (240 + r div 262144), char_of (128 + r div 4096 mod 64),
         char_of (128 + r div 64 mod 64), char_of (128 + r mod 64)])"

definition encode_rune :: "nat \<Rightarrow> string" where
  "encode_rune r = encode_valid (if valid_rune r then r else rune_error)"

lemma decode_rune_Nil [simp]: "decode_rune [] = (rune_error, 0)"
  by (simp add: decode_rune_def)

lemma decode_rune_ascii [simp]:
  "(of_char c :: nat) < 128 \<Longrightarrow> decode_rune (c # s) = (of_char c, 1)"
  by (simp add: decode_rune_def)

lemma decode_width:
  "s \<noteq> [] \<Longrightarrow> 1 \<le> snd (decode_rune s) \<and> snd (decode_rune s) \<le> length s"
  by (auto simp: decode_rune_def Let_def split: list.splits)

lemma decode_width_pos: "s \<noteq> [] \<Longrightarrow> 0 < snd (decode_rune s)"
  using decode_width [of s] by simp

lemma decode_width_le: "snd (decode_rune s) \<le> length s"
  by (cases "s = []") (simp_all add: decode_width)

text \<open>A rune below 128 is a single byte: multi-byte sequences and errors decode higher.\<close>

lemma second_ok_low:
  "second_ok b0 b1 \<Longrightarrow> 128 \<le> b1"
  "second_ok 224 b1 \<Longrightarrow> 160 \<le> b1"
  "second_ok 240 b1 \<Longrightarrow> 144 \<le> b1"
  by (auto simp: second_ok_def cont_byte_def split: if_splits)

lemma decode_rune_big:
  assumes "\<not> (of_char c :: nat) < 128"
  shows "128 \<le> fst (decode_rune (c # s))"
proof -
  have three: "128 \<le> (b0 - 224) * 4096 + (b1 - 128) * 64 + (b2 - 128)"
    if "\<not> b0 < 224" "second_ok b0 b1" for b0 b1 b2 :: nat
    using that second_ok_low(2) [of b1] by (cases "b0 = 224") auto
  have four: "128 \<le> (b0 - 240) * 262144 + (b1 - 128) * 4096 + (b2 - 128) * 64 + (b3 - 128)"
    if "\<not> b0 < 240" "second_ok b0 b1" for b0 b1 b2 b3 :: nat
    using that second_ok_low(3) [of b1] by (cases "b0 = 240") auto
  have two: "128 \<le> (b0 - 192) * 64 + x" if "\<not> b0 < 194" for b0 x :: nat
    using that by simp
  show ?thesis
    using assms two three four by (simp add: decode_rune_def Let_def split: list.split)
qed

lemma decode_rune_small:
  assumes "fst (decode_rune (c # s)) < 128"
  shows "fst (decode_rune (c # s)) = of_char c" "snd (decode_rune (c # s)) = 1"
  using assms decode_rune_big [of c s] by (cases "(of_char c :: nat) < 128"; simp)+

lemma decode_seq2:
  assumes "2 \<le> a" "a < 32" "b < 64"
  shows "decode_rune (char_of (192 + a) # char_of (128 + b) # s) = (a * 64 + b, 2)"
  using assms by (simp add: decode_rune_def second_ok_def cont_byte_def)

lemma decode_seq3:
  assumes "a < 16" "b < 64" "c < 64" "a = 0 \<Longrightarrow> 32 \<le> b" "a = 13 \<Longrightarrow> b < 32"
  shows "decode_rune (char_of (224 + a) # char_of (128 + b) # char_of (128 + c) # s)
    = (a * 4096 + b * 64 + c, 3)"
proof -
  have "second_ok (224 + a) (128 + b)"
    using assms by (auto simp: second_ok_def cont_byte_def)
  then show ?thesis using assms(1-3) by (simp add: decode_rune_def cont_byte_def)
qed

lemma decode_seq4:
  assumes "a < 5" "b < 64" "c < 64" "d < 64" "a = 0 \<Longrightarrow> 16 \<le> b" "a = 4 \<Longrightarrow> b < 16"
  shows "decode_rune (char_of (240 + a) # char_of (128 + b) # char_of (128 + c)
      # char_of (128 + d) # s) = (a * 262144 + b * 4096 + c * 64 + d, 4)"
proof -
  have "second_ok (240 + a) (128 + b)"
    using assms by (auto simp: second_ok_def cont_byte_def)
  then show ?thesis using assms(1-4) by (simp add: decode_rune_def cont_byte_def)
qed

lemma split_base64:
  fixes r :: nat
  shows "r div 4096 * 4096 + r div 64 mod 64 * 64 + r mod 64 = r"
proof -
  have q: "r div 4096 = r div 64 div 64" by (simp add: div_mult2_eq [symmetric])
  have "r div 64 div 64 * 64 + r div 64 mod 64 = r div 64" by (rule div_mult_mod_eq)
  then have "(r div 4096 * 64 + r div 64 mod 64) * 64 + r mod 64 = r div 64 * 64 + r mod 64"
    by (simp only: q)
  then show ?thesis by (simp only: div_mult_mod_eq) simp
qed

lemma split_base64_4:
  fixes r :: nat
  shows "r div 262144 * 262144 + r div 4096 mod 64 * 4096 + r div 64 mod 64 * 64 + r mod 64 = r"
proof -
  have q: "r div 262144 = r div 4096 div 64" by (simp add: div_mult2_eq [symmetric])
  have "r div 4096 div 64 * 64 + r div 4096 mod 64 = r div 4096" by (rule div_mult_mod_eq)
  then have "r div 262144 * 262144 + r div 4096 mod 64 * 4096 = r div 4096 * 4096"
    unfolding q by arith
  with split_base64 [of r] show ?thesis by simp
qed

theorem decode_encode_valid:
  assumes "valid_rune r"
  shows "decode_rune (encode_valid r @ s) = (r, length (encode_valid r))"
proof -
  consider "r < 128" | "128 \<le> r" "r < 2048" | "2048 \<le> r" "r < 65536"
    | "65536 \<le> r" "r < 1114112"
    using assms by (force simp: valid_rune_def)
  then show ?thesis
  proof cases
    case 1
    then show ?thesis by (simp add: encode_valid_def)
  next
    case 2
    then have "2 \<le> r div 64" "r div 64 < 32" by auto
    from decode_seq2 [OF this, of "r mod 64" s] 2 show ?thesis
      by (simp add: encode_valid_def)
  next
    case 3
    define a b c where "a = r div 4096" and "b = r div 64 mod 64" and "c = r mod 64"
    have r: "a * 4096 + b * 64 + c = r"
      unfolding a_def b_def c_def by (rule split_base64)
    have bc: "b < 64" "c < 64" by (simp_all add: b_def c_def)
    have "a < 16" "a = 0 \<Longrightarrow> 32 \<le> b" "a = 13 \<Longrightarrow> b < 32"
      using 3 r bc assms by (auto simp: valid_rune_def)
    from decode_seq3 [OF this(1) bc this(2,3), of s] 3 r show ?thesis
      by (simp add: encode_valid_def a_def b_def c_def)
  next
    case 4
    define a b c d where "a = r div 262144" and "b = r div 4096 mod 64"
      and "c = r div 64 mod 64" and "d = r mod 64"
    have r: "a * 262144 + b * 4096 + c * 64 + d = r"
      unfolding a_def b_def c_def d_def by (rule split_base64_4)
    have bcd: "b < 64" "c < 64" "d < 64" by (simp_all add: b_def c_def d_def)
    have "a < 5" "a = 0 \<Longrightarrow> 16 \<le> b" "a = 4 \<Longrightarrow> b < 16"
      using 4 r bcd by auto
    from decode_seq4 [OF this(1) bcd this(2,3), of s] 4 r show ?thesis
      by (simp add: encode_valid_def a_def b_def c_def d_def)
  qed
qed

lemma encode_rune_valid: "valid_rune r \<Longrightarrow> encode_rune r = encode_valid r"
  by (simp add: encode_rune_def)

lemma decode_encode:
  "valid_rune r \<Longrightarrow> decode_rune (encode_rune r @ s) = (r, length (encode_rune r))"
  by (simp add: encode_rune_valid decode_encode_valid)

lemma encode_rune_nonempty [simp]: "encode_rune r \<noteq> []"
  by (simp add: encode_rune_def encode_valid_def)

section \<open>Character classes\<close>

text \<open>
  \<open>unicode.IsLetter\<close> and \<open>unicode.IsDigit\<close> look Latin-1 runes up in a property
  array, written out here, and the others in the tables of the Unicode version the Go
  release ships. Those tables are the parameter.
\<close>

record unicode =
  uc_letter :: "nat \<Rightarrow> bool"
  uc_digit :: "nat \<Rightarrow> bool"

definition is_letter :: "unicode \<Rightarrow> nat \<Rightarrow> bool" where
  "is_letter u r =
     (if r < 256 then
        65 \<le> r \<and> r \<le> 90 \<or> 97 \<le> r \<and> r \<le> 122 \<or> r = 170 \<or> r = 181 \<or> r = 186
        \<or> 192 \<le> r \<and> r \<noteq> 215 \<and> r \<noteq> 247
      else uc_letter u r)"

definition is_digit :: "unicode \<Rightarrow> nat \<Rightarrow> bool" where
  "is_digit u r = (if r < 256 then 48 \<le> r \<and> r \<le> 57 else uc_digit u r)"

text \<open>\<open>unicode.IsSpace\<close> is the White_Space property.\<close>

definition is_space :: "nat \<Rightarrow> bool" where
  "is_space r \<longleftrightarrow>
     9 \<le> r \<and> r \<le> 13 \<or> r \<in> {32, 133, 160, 5760, 8232, 8233, 8239, 8287, 12288}
     \<or> 8192 \<le> r \<and> r \<le> 8202"

section \<open>Package strings\<close>

function runes :: "string \<Rightarrow> (nat \<times> string) list" where
  "runes s =
     (if s = [] then []
      else (fst (decode_rune s), take (snd (decode_rune s)) s)
           # runes (drop (snd (decode_rune s)) s))"
  by pat_completeness auto
termination
  by (relation "measure length") (simp_all add: decode_width_pos)

declare runes.simps [simp del]

lemma runes_Nil [simp]: "runes [] = []"
  by (simp add: runes.simps)

lemma concat_runes: "concat (map snd (runes s)) = s"
proof (induction s rule: runes.induct)
  case (1 s)
  then show ?case
    by (cases "s = []") (simp_all add: runes.simps [of s])
qed

lemma runes_ascii_Cons: "(of_char c :: nat) < 128 \<Longrightarrow> runes (c # s) = (of_char c, [c]) # runes s"
  by (simp add: runes.simps [of "c # s"])

fun contains_str :: "string \<Rightarrow> string \<Rightarrow> bool" where
  "contains_str sub [] \<longleftrightarrow> sub = []"
| "contains_str sub (c # s) \<longleftrightarrow> prefix sub (c # s) \<or> contains_str sub s"

text \<open>\<open>strings.ReplaceAll\<close> with a non-empty pattern, the only way it is called.\<close>

function replace_all :: "string \<Rightarrow> string \<Rightarrow> string \<Rightarrow> string" where
  "replace_all old new [] = []"
| "replace_all old new (c # s) =
     (if old \<noteq> [] \<and> prefix old (c # s)
      then new @ replace_all old new (drop (length old) (c # s))
      else c # replace_all old new s)"
  by pat_completeness auto
termination
  by (relation "measure (\<lambda>(old, new, s). length s)") auto

lemma contains_str_iff: "contains_str sub s \<longleftrightarrow> sublist sub s"
  by (induction s) (auto simp: sublist_Cons_right)

lemma replace_all_absent: "\<not> contains_str old s \<Longrightarrow> replace_all old new s = s"
  by (induction old new s rule: replace_all.induct) auto

lemma replace_all_head:
  assumes "old \<noteq> []"
  shows "replace_all old new (old @ s) = new @ replace_all old new s"
  using assms by (cases old) auto

fun fields_aux :: "(nat \<times> string) list \<Rightarrow> string \<Rightarrow> string list" where
  "fields_aux [] cur = (if cur = [] then [] else [cur])"
| "fields_aux ((r, b) # rs) cur =
     (if is_space r then (if cur = [] then fields_aux rs [] else cur # fields_aux rs [])
      else fields_aux rs (cur @ b))"

definition fields :: "string \<Rightarrow> string list" where
  "fields s = fields_aux (runes s) []"

definition trim_space :: "string \<Rightarrow> string" where
  "trim_space s =
     (let space = (\<lambda>(r, b). is_space r) in
      concat (map snd (rev (dropWhile space (rev (dropWhile space (runes s)))))))"

text \<open>
  \<open>strings.ToLower\<close>, exact on ASCII and on the two other runes whose lower case is an
  ASCII letter (U+0130 and the Kelvin sign U+212A). Any other rune stays non-ASCII; it is
  left as it is here, and the callers only compare the result with ASCII words.
\<close>

definition to_lower :: "string \<Rightarrow> string" where
  "to_lower s =
     concat (map (\<lambda>(r, b). if 65 \<le> r \<and> r \<le> 90 then [char_of (r + 32)]
                          else if r = 304 then ''i'' else if r = 8490 then ''k'' else b)
                 (runes s))"

text \<open>
  \<open>strings.ToLower\<close> where the result is kept: \<open>lower\<close> is the lower case of the runes above ASCII.
  A byte that is no rune becomes the replacement character, as in \<open>strings.Map\<close>.
\<close>

definition lower_text :: "(nat \<Rightarrow> nat) \<Rightarrow> string \<Rightarrow> string" where
  "lower_text lower s =
     concat (map (\<lambda>(r, b). if r < 128 then [char_of (if 65 \<le> r \<and> r \<le> 90 then r + 32 else r)]
                          else encode_rune (lower r)) (runes s))"

section \<open>Package strconv\<close>

fun itoa_nat :: "nat \<Rightarrow> string" where
  "itoa_nat n =
     (if n < 10 then [char_of (48 + n)] else itoa_nat (n div 10) @ [char_of (48 + n mod 10)])"

declare itoa_nat.simps [simp del]

definition itoa :: "int \<Rightarrow> string" where
  "itoa i = (if i < 0 then CHR ''-'' # itoa_nat (nat (- i)) else itoa_nat (nat i))"

definition ascii_digit :: "char \<Rightarrow> bool" where
  "ascii_digit c \<longleftrightarrow> 48 \<le> (of_char c :: nat) \<and> (of_char c :: nat) \<le> 57"

definition digits_val :: "string \<Rightarrow> nat" where
  "digits_val s = foldl (\<lambda>n c. 10 * n + (of_char c - 48)) 0 s"

text \<open>\<open>strconv.Atoi\<close>; None is a non-nil error (syntax or range).\<close>

definition atoi :: "string \<Rightarrow> int option" where
  "atoi s =
     (let (neg, ds) = (case s of
            c # t \<Rightarrow> if c = CHR ''-'' then (True, t)
                     else if c = CHR ''+'' then (False, t) else (False, s)
          | [] \<Rightarrow> (False, [])) in
      if ds = [] \<or> \<not> list_all ascii_digit ds then None
      else (let v = (if neg then - int (digits_val ds) else int (digits_val ds)) in
            if in_int64 v then Some v else None))"

lemma itoa_nat_nonempty [simp]: "itoa_nat n \<noteq> []"
  by (subst itoa_nat.simps) simp

lemma itoa_nat_digits: "list_all ascii_digit (itoa_nat n)"
proof (induction n rule: itoa_nat.induct)
  case (1 n)
  show ?case
  proof (cases "n < 10")
    case True
    then show ?thesis by (simp add: itoa_nat.simps [of n] ascii_digit_def)
  next
    case False
    have "n mod 10 < 10" by simp
    then have "48 + n mod 10 < 256" by linarith
    then show ?thesis
      using False 1 by (simp add: itoa_nat.simps [of n] ascii_digit_def)
  qed
qed

lemma digits_val_snoc: "digits_val (s @ [c]) = 10 * digits_val s + (of_char c - 48)"
  by (simp add: digits_val_def)

lemma digits_val_itoa: "digits_val (itoa_nat n) = n"
proof (induction n rule: itoa_nat.induct)
  case (1 n)
  show ?case
  proof (cases "n < 10")
    case True
    then show ?thesis by (simp add: itoa_nat.simps [of n] digits_val_def)
  next
    case False
    have "n mod 10 < 10" by simp
    then have "48 + n mod 10 < 256" by linarith
    then show ?thesis
      using False 1 by (simp add: itoa_nat.simps [of n] digits_val_snoc)
  qed
qed

lemma hd_itoa_digit: "ascii_digit (hd (itoa_nat n))"
  using itoa_nat_digits [of n] by (cases "itoa_nat n") auto

lemma itoa_nat_hd_sign: "hd (itoa_nat n) \<noteq> CHR ''-''" "hd (itoa_nat n) \<noteq> CHR ''+''"
  using hd_itoa_digit [of n] by (auto simp: ascii_digit_def)

lemma atoi_itoa: "in_int64 i \<Longrightarrow> atoi (itoa i) = Some i"
proof -
  assume i: "in_int64 i"
  show ?thesis
  proof (cases "i < 0")
    case True
    with i show ?thesis
      by (simp add: atoi_def itoa_def itoa_nat_digits digits_val_itoa)
  next
    case False
    obtain c t where ct: "itoa_nat (nat i) = c # t"
      by (cases "itoa_nat (nat i)") simp_all
    have "c \<noteq> CHR ''-''" "c \<noteq> CHR ''+''"
      using itoa_nat_hd_sign [of "nat i"] by (simp_all add: ct)
    with False i itoa_nat_digits [of "nat i"] digits_val_itoa [of "nat i"] show ?thesis
      by (simp add: atoi_def itoa_def ct)
  qed
qed

lemma itoa_inject: "in_int64 i \<Longrightarrow> in_int64 j \<Longrightarrow> itoa i = itoa j \<Longrightarrow> i = j"
  by (metis atoi_itoa option.inject)

lemma itoa_nat_inject: "itoa_nat m = itoa_nat n \<longleftrightarrow> m = n"
  by (metis digits_val_itoa)

end
