(* ===== verification/Mail.thy ===== *)
theory Mail
  imports GoStrings
begin

text \<open>
  The text of a story email (\<open>RewriteLinksForTracking\<close> of \<open>src/routes/tracking.go\<close>,
  \<open>injectOpenPixel\<close>, \<open>sanitize\<close> and \<open>sendStoryEmail\<close> of
  \<open>src/routes/story_engine.go\<close>). The tracking token of a link is a parameter: the empty
  string stands for a link that gets none.
\<close>

section \<open>Links\<close>

definition quote :: "char \<Rightarrow> bool" where
  "quote c \<longleftrightarrow> c = CHR 0x22 \<or> c = CHR 0x27"

text \<open>The prefix \<open>href=\<close> in any case, and a quote.\<close>

definition href_open :: "string \<Rightarrow> bool" where
  "href_open s \<longleftrightarrow>
     (case s of
        h # r # e # f # eq # q # _ \<Rightarrow>
          (h = CHR ''h'' \<or> h = CHR ''H'') \<and> (r = CHR ''r'' \<or> r = CHR ''R'')
          \<and> (e = CHR ''e'' \<or> e = CHR ''E'') \<and> (f = CHR ''f'' \<or> f = CHR ''F'') \<and> eq = CHR ''='' \<and> quote q
      | _ \<Rightarrow> False)"

text \<open>
  A match of the regular expression at the start of a string: the first group, the address,
  the closing quote and what follows.
\<close>

definition match_href :: "string \<Rightarrow> (string \<times> string \<times> char \<times> string) option" where
  "match_href s =
     (if href_open s then
        (let u = takeWhile (\<lambda>c. \<not> quote c) (drop 6 s) in
         case dropWhile (\<lambda>c. \<not> quote c) (drop 6 s) of
           [] \<Rightarrow> None
         | q # rest \<Rightarrow> if u = [] then None else Some (take 6 s, u, q, rest))
      else None)"

lemma match_href_split:
  "match_href s = Some (p, u, q, rest) \<Longrightarrow>
   s = p @ u @ q # rest \<and> length p = 6 \<and> href_open p \<and> u \<noteq> [] \<and> list_all (\<lambda>c. \<not> quote c) u \<and> quote q"
proof -
  assume m: "match_href s = Some (p, u, q, rest)"
  then have o: "href_open s" and d: "dropWhile (\<lambda>c. \<not> quote c) (drop 6 s) = q # rest"
    and u: "u = takeWhile (\<lambda>c. \<not> quote c) (drop 6 s)" "u \<noteq> []" and p: "p = take 6 s"
    by (auto simp: match_href_def Let_def split: if_splits list.splits)
  have "drop 6 s = u @ q # rest" using d u(1) by (metis takeWhile_dropWhile_id)
  moreover have "quote q" using d by (metis (mono_tags, lifting) dropWhile_eq_Cons_conv)
  moreover have "list_all (\<lambda>c. \<not> quote c) u" by (auto simp: u(1) list_all_iff dest: set_takeWhileD)
  moreover have "length p = 6 \<and> href_open p"
    using o by (auto simp: p href_open_def split: list.splits)
  ultimately show ?thesis using u(2) p by (metis append_take_drop_id)
qed

lemma match_href_shorter: "match_href s = Some (p, u, q, rest) \<Longrightarrow> length rest < length s"
  by (drule match_href_split) auto

text \<open>The pieces of a document: single characters and links.\<close>

datatype piece = Text char | Href string string char

primrec show_piece :: "piece \<Rightarrow> string" where
  "show_piece (Text c) = [c]"
| "show_piece (Href p u q) = p @ u @ [q]"

function scan :: "string \<Rightarrow> piece list" where
  "scan [] = []"
| "scan (c # cs) =
     (case match_href (c # cs) of
        Some (p, u, q, rest) \<Rightarrow> Href p u q # scan rest
      | None \<Rightarrow> Text c # scan cs)"
  by pat_completeness auto
termination
  by (relation "measure length") (auto dest: match_href_shorter)

primrec map_piece :: "(string \<Rightarrow> string) \<Rightarrow> piece \<Rightarrow> piece" where
  "map_piece g (Text c) = Text c"
| "map_piece g (Href p u q) = Href p (g u) q"

definition ReplaceAllHrefs :: "(string \<Rightarrow> string) \<Rightarrow> string \<Rightarrow> string" where
  "ReplaceAllHrefs g html = concat (map (show_piece \<circ> map_piece g) (scan html))"

text \<open>\<open>strings.TrimRight(s, "/")\<close>\<close>

definition trimSlashes :: "string \<Rightarrow> string" where
  "trimSlashes s = rev (dropWhile (\<lambda>c. c = CHR ''/'') (rev s))"

definition trackedURL :: "(string \<Rightarrow> string) \<Rightarrow> string \<Rightarrow> string \<Rightarrow> string" where
  "trackedURL token baseURL url =
     (if prefix ''mailto:'' url \<or> prefix ''#'' url then url
      else if token url = [] then url
      else trimSlashes baseURL @ ''/api/v1/tracking/click/'' @ token url)"

definition RewriteLinksForTracking ::
  "(string \<Rightarrow> string \<Rightarrow> string \<Rightarrow> string) \<Rightarrow> string \<Rightarrow> string \<Rightarrow> string \<Rightarrow> string \<Rightarrow> string" where
  "RewriteLinksForTracking encode html userPublicId baseURL sendPublicId =
     (if baseURL = [] \<or> userPublicId = [] then html
      else ReplaceAllHrefs (trackedURL (\<lambda>url. encode url userPublicId sendPublicId) baseURL) html)"

section \<open>Rewriting changes the addresses of the links and nothing else\<close>

definition link_text :: "string \<Rightarrow> bool" where
  "link_text u \<longleftrightarrow> u \<noteq> [] \<and> list_all (\<lambda>c. \<not> quote c) u"

lemma match_href_pieces:
  assumes "href_open p" and "length p = 6" and "link_text u" and "quote q"
  shows "match_href (p @ u @ q # rest) = Some (p, u, q, rest)"
proof -
  have "href_open (p @ xs)" for xs using assms(1) by (auto simp: href_open_def split: list.splits)
  moreover have "takeWhile (\<lambda>c. \<not> quote c) (u @ q # rest) = u"
    and "dropWhile (\<lambda>c. \<not> quote c) (u @ q # rest) = q # rest"
    using assms(3,4) by (simp_all add: link_text_def list_all_iff takeWhile_append2 dropWhile_append2)
  ultimately show ?thesis
    using assms(2,3) by (simp add: match_href_def link_text_def)
qed

lemma scan_link:
  assumes "href_open p" and "length p = 6" and "link_text u" and "quote q"
  shows "scan (p @ u @ q # rest) = Href p u q # scan rest"
proof -
  obtain c cs where "p @ u @ q # rest = c # cs" using assms(2) by (cases p) auto
  with match_href_pieces [OF assms, of rest] show ?thesis by simp
qed

lemma ReplaceAllHrefs_Nil [simp]: "ReplaceAllHrefs g [] = []"
  by (simp add: ReplaceAllHrefs_def)

lemma ReplaceAllHrefs_link:
  "match_href (c # cs) = Some (p, u, q, rest) \<Longrightarrow>
   ReplaceAllHrefs g (c # cs) = p @ g u @ q # ReplaceAllHrefs g rest"
  by (simp add: ReplaceAllHrefs_def)

lemma ReplaceAllHrefs_text:
  "match_href (c # cs) = None \<Longrightarrow> ReplaceAllHrefs g (c # cs) = c # ReplaceAllHrefs g cs"
  by (simp add: ReplaceAllHrefs_def)

text \<open>The first characters of a document are not changed, nor is a document without quotes.\<close>

lemma ReplaceAllHrefs_take: "take 6 (ReplaceAllHrefs g s) = take 6 s"
proof (induction s rule: scan.induct)
  case (2 c cs)
  show ?case
  proof (cases "match_href (c # cs)")
    case None
    have "take 5 (take 6 (ReplaceAllHrefs g cs)) = take 5 (take 6 cs)"
      using 2 None by (simp del: take_take)
    with None show ?thesis by (simp add: ReplaceAllHrefs_text take_Cons' min_def)
  next
    case (Some m)
    obtain p u q rest where m: "m = (p, u, q, rest)" by (cases m)
    note split = match_href_split [OF Some [unfolded m]]
    then have "take 6 (p @ g u @ q # ReplaceAllHrefs g rest) = p" and "take 6 (p @ u @ q # rest) = p"
      by auto
    then show ?thesis
      unfolding ReplaceAllHrefs_link [OF Some [unfolded m]] using split by argo
  qed
qed simp

lemma ReplaceAllHrefs_no_quote: "list_all (\<lambda>c. \<not> quote c) s \<Longrightarrow> ReplaceAllHrefs g s = s"
proof (induction s)
  case (Cons c cs)
  have "match_href (c # cs) = None"
  proof (cases "match_href (c # cs)")
    case (Some m)
    obtain p u q rest where m: "m = (p, u, q, rest)" by (cases m)
    with match_href_split [of "c # cs" p u q rest] Some have "q \<in> set (c # cs)" "quote q" by auto
    with Cons.prems show ?thesis by (metis list_all_iff)
  qed
  with Cons show ?case by (simp add: ReplaceAllHrefs_text)
qed simp


lemma ReplaceAllHrefs_not_h:
  "c \<noteq> CHR ''h'' \<Longrightarrow> c \<noteq> CHR ''H'' \<Longrightarrow> ReplaceAllHrefs g (c # cs) = c # ReplaceAllHrefs g cs"
  by (rule ReplaceAllHrefs_text) (auto simp: match_href_def href_open_def split: list.splits)

lemma href_open_take: "href_open s = href_open (take 6 s)"
  by (auto simp: href_open_def split: list.splits)

lemma match_href_None:
  assumes "match_href (c # cs) = None"
  shows "match_href (c # ReplaceAllHrefs g cs) = None"
proof (cases "href_open (c # cs)")
  case False
  have "take 6 (c # ReplaceAllHrefs g cs) = take 6 (c # cs)"
    using arg_cong [where f = "take 5", OF ReplaceAllHrefs_take [of g cs]] by simp
  with False have "\<not> href_open (c # ReplaceAllHrefs g cs)" by (metis href_open_take)
  then show ?thesis by (simp add: match_href_def)
next
  case True
  then obtain r e f q rest where cs: "cs = r # e # f # CHR ''='' # q # rest"
    and ref: "r \<in> {CHR ''r'', CHR ''R''}" "e \<in> {CHR ''e'', CHR ''E''}" "f \<in> {CHR ''f'', CHR ''F''}" "quote q"
    by (auto simp: href_open_def split: list.splits)
  have R: "ReplaceAllHrefs g cs = r # e # f # CHR ''='' # q # ReplaceAllHrefs g rest"
    using ref by (auto simp: cs ReplaceAllHrefs_not_h quote_def)
  show ?thesis
  proof (cases rest)
    case Nil
    then show ?thesis by (simp add: match_href_def R)
  next
    case (Cons x xs)
    show ?thesis
    proof (cases "quote x")
      case True
      then have "ReplaceAllHrefs g rest = x # ReplaceAllHrefs g xs"
        unfolding Cons by (intro ReplaceAllHrefs_not_h) (auto simp: quote_def)
      with True show ?thesis by (simp add: match_href_def R split: list.splits)
    next
      case False
      then have "dropWhile (\<lambda>c. \<not> quote c) rest = []"
        using assms \<open>href_open (c # cs)\<close> unfolding match_href_def cs Cons
        by (cases "dropWhile (\<lambda>c. \<not> quote c) xs") (simp_all add: Let_def)
      then have "list_all (\<lambda>c. \<not> quote c) rest" by (simp add: list_all_iff dropWhile_eq_Nil_conv)
      then have "c # ReplaceAllHrefs g cs = c # cs" unfolding R by (simp add: ReplaceAllHrefs_no_quote cs)
      then show ?thesis using assms by simp
    qed
  qed
qed

lemma scan_ReplaceAllHrefs:
  assumes "\<And>u. link_text u \<Longrightarrow> link_text (g u)"
  shows "scan (ReplaceAllHrefs g s) = map (map_piece g) (scan s)"
proof (induction s rule: scan.induct)
  case (2 c cs)
  show ?case
  proof (cases "match_href (c # cs)")
    case None
    then show ?thesis
      using 2 by (simp add: ReplaceAllHrefs_text match_href_None)
  next
    case (Some m)
    obtain p u q rest where m: "m = (p, u, q, rest)" by (cases m)
    note split = match_href_split [of "c # cs" p u q rest, OF Some [unfolded m]]
    then have "link_text (g u)" using assms by (auto simp: link_text_def)
    with split have "scan (p @ g u @ q # ReplaceAllHrefs g rest) = Href p (g u) q # scan (ReplaceAllHrefs g rest)"
      by (intro scan_link) auto
    with 2 Some m show ?thesis by (simp add: ReplaceAllHrefs_link)
  qed
qed simp

text \<open>The addresses of the links of a document.\<close>

definition hrefs :: "string \<Rightarrow> string list" where
  "hrefs html = concat (map (\<lambda>x. case x of Text c \<Rightarrow> [] | Href p u q \<Rightarrow> [u]) (scan html))"

text \<open>The document with its addresses left out.\<close>

definition around :: "string \<Rightarrow> string" where
  "around html = concat (map (\<lambda>x. case x of Text c \<Rightarrow> [c] | Href p u q \<Rightarrow> p @ [q]) (scan html))"

lemma hrefs_around_map:
  assumes "scan t = map (map_piece g) (scan s)"
  shows "hrefs t = map g (hrefs s)" and "around t = around s"
proof -
  have "concat (map (\<lambda>x. case x of Text c \<Rightarrow> [] | Href p u q \<Rightarrow> [u]) (map (map_piece g) ps))
      = map g (concat (map (\<lambda>x. case x of Text c \<Rightarrow> [] | Href p u q \<Rightarrow> [u]) ps))" for ps
    by (induction ps) (auto split: piece.splits)
  then show "hrefs t = map g (hrefs s)" by (simp add: hrefs_def assms)
  have "concat (map (\<lambda>x. case x of Text c \<Rightarrow> [c] | Href p u q \<Rightarrow> p @ [q]) (map (map_piece g) ps))
      = concat (map (\<lambda>x. case x of Text c \<Rightarrow> [c] | Href p u q \<Rightarrow> p @ [q]) ps)" for ps
    by (induction ps) (auto split: piece.splits)
  then show "around t = around s" by (simp add: around_def assms)
qed

lemma trimSlashes_no_quote: "list_all (\<lambda>c. \<not> quote c) s \<Longrightarrow> list_all (\<lambda>c. \<not> quote c) (trimSlashes s)"
  by (auto simp: trimSlashes_def list_all_iff dest: set_dropWhileD)

text \<open>
  Rewriting the links of an email for tracking changes the addresses of the links and
  nothing else: the links stay where they are, each address becomes its tracked form (mail
  addresses and fragments keep theirs), and the text around the addresses is untouched, for
  tokens and a base address that hold no quote.
\<close>

theorem RewriteLinksForTracking_links:
  assumes "baseURL \<noteq> []" and "user \<noteq> []" and "list_all (\<lambda>c. \<not> quote c) baseURL"
    and "\<And>url. list_all (\<lambda>c. \<not> quote c) (encode url user send)"
  shows "let out = RewriteLinksForTracking encode html user baseURL send in
    hrefs out = map (trackedURL (\<lambda>url. encode url user send) baseURL) (hrefs html)
    \<and> around out = around html"
proof -
  have "list_all (\<lambda>c. \<not> quote c) ''/api/v1/tracking/click/''" by code_simp
  then have "link_text (trackedURL (\<lambda>url. encode url user send) baseURL u)" if "link_text u" for u
    using that assms(3,4) trimSlashes_no_quote by (auto simp: trackedURL_def link_text_def)
  then show ?thesis
    using hrefs_around_map [OF scan_ReplaceAllHrefs] assms(1,2)
    by (simp add: RewriteLinksForTracking_def Let_def)
qed

definition demo_html :: string where
  "demo_html = ''<a href=\"http://x/\">x</a> <A HREF=\"mailto:a\">a</A>''"

lemma RewriteLinksForTracking_links_witness:
  "hrefs (RewriteLinksForTracking (\<lambda>url user send. ''T'') demo_html ''u'' ''http://b/'' ''s'')
   = [''http://b/api/v1/tracking/click/T'', ''mailto:a'']"
proof -
  have "list_all (\<lambda>c. \<not> quote c) ''http://b/''" "list_all (\<lambda>c. \<not> quote c) ''T''" by code_simp+
  then have "hrefs (RewriteLinksForTracking (\<lambda>url user send. ''T'') demo_html ''u'' ''http://b/'' ''s'')
    = map (trackedURL (\<lambda>url. ''T'') ''http://b/'') (hrefs demo_html)"
    using RewriteLinksForTracking_links [of "''http://b/''" "''u''" "\<lambda>url user send. ''T''" "''s''" demo_html]
    by (simp add: Let_def)
  also have "\<dots> = [''http://b/api/v1/tracking/click/T'', ''mailto:a'']" by code_simp
  finally show ?thesis .
qed


section \<open>The open pixel\<close>

text \<open>\<open>strings.LastIndex\<close>\<close>

fun lastIndex :: "string \<Rightarrow> string \<Rightarrow> nat option" where
  "lastIndex sub [] = (if sub = [] then Some 0 else None)"
| "lastIndex sub (c # cs) =
     (case lastIndex sub cs of
        Some i \<Rightarrow> Some (Suc i)
      | None \<Rightarrow> if prefix sub (c # cs) then Some 0 else None)"

definition openPixel :: "string \<Rightarrow> string \<Rightarrow> string" where
  "openPixel baseURL sendPublicId =
     ''<img src=\"'' @ trimSlashes baseURL @ ''/api/marketing/track/open?e='' @ sendPublicId
     @ ''\" width=\"1\" height=\"1\" style=\"display:none\" alt=\"\"/>''"

definition injectOpenPixel :: "string \<Rightarrow> string \<Rightarrow> string \<Rightarrow> string" where
  "injectOpenPixel html baseURL sendPublicId =
     (if sendPublicId = [] then html
      else case lastIndex ''</body>'' html of
        Some i \<Rightarrow> take i html @ openPixel baseURL sendPublicId @ drop i html
      | None \<Rightarrow> html @ openPixel baseURL sendPublicId)"

section \<open>The message\<close>

definition crlf :: string where
  "crlf = [CHR 0x0D, CHR 0x0A]"

definition sanitize :: "string \<Rightarrow> string" where
  "sanitize s = filter (\<lambda>c. c \<noteq> CHR 0x0A) (filter (\<lambda>c. c \<noteq> CHR 0x0D) s)"

definition defaultFrom :: "string \<Rightarrow> string" where
  "defaultFrom from = (if from = [] then ''noreply@sentanyl.local'' else from)"

text \<open>
  The header lines of a message, each ended by CR LF. The extra headers come in the order in
  which the map is visited.
\<close>

definition messageHeaders :: "string \<Rightarrow> string \<Rightarrow> string \<Rightarrow> string \<Rightarrow> string gomap \<Rightarrow> string list" where
  "messageHeaders from to subject replyTo extra =
     [''From: '' @ sanitize (defaultFrom from), ''To: '' @ sanitize to]
     @ (if replyTo \<noteq> [] then [''Reply-To: '' @ sanitize replyTo] else [])
     @ [''Subject: '' @ sanitize subject]
     @ map (\<lambda>(k, v). sanitize k @ '': '' @ sanitize v) extra
     @ [''MIME-Version: 1.0'', ''Content-Type: text/html; charset=\"UTF-8\"'']"

definition storyMessage ::
  "string \<Rightarrow> string \<Rightarrow> string \<Rightarrow> string \<Rightarrow> string \<Rightarrow> string gomap \<Rightarrow> string" where
  "storyMessage from to subject htmlBody replyTo extra =
     concat (map (\<lambda>l. l @ crlf) (messageHeaders from to subject replyTo extra)) @ crlf @ htmlBody"

text \<open>How a receiver reads a message: lines ended by CR LF up to the first empty one.\<close>

fun read_line :: "string \<Rightarrow> (string \<times> string) option" where
  "read_line [] = None"
| "read_line [c] = None"
| "read_line (c # d # cs) =
     (if c = CHR 0x0D \<and> d = CHR 0x0A then Some ([], cs)
      else case read_line (d # cs) of None \<Rightarrow> None | Some (l, r) \<Rightarrow> Some (c # l, r))"

lemma read_line_shorter: "read_line s = Some (l, r) \<Longrightarrow> length r < length s"
  by (induction s arbitrary: l r rule: read_line.induct) (fastforce split: if_splits option.splits)+

function read_message :: "string \<Rightarrow> string list \<times> string" where
  "read_message s =
     (case read_line s of
        None \<Rightarrow> ([], s)
      | Some ([], r) \<Rightarrow> ([], r)
      | Some (l, r) \<Rightarrow> (let (ls, body) = read_message r in (l # ls, body)))"
  by pat_completeness auto
termination
  by (relation "measure length") (auto dest: read_line_shorter)

declare read_message.simps [simp del]

definition one_line :: "string \<Rightarrow> bool" where
  "one_line l = list_all (\<lambda>c. c \<noteq> CHR 0x0D \<and> c \<noteq> CHR 0x0A) l"

lemma one_line_sanitize [simp]: "one_line (sanitize s)"
  by (simp add: one_line_def sanitize_def list_all_iff)

lemma one_line_Cons [simp]:
  "one_line []" "one_line (c # l) \<longleftrightarrow> c \<noteq> CHR 0x0D \<and> c \<noteq> CHR 0x0A \<and> one_line l"
  by (auto simp: one_line_def)

lemma one_line_append [simp]: "one_line (a @ b) \<longleftrightarrow> one_line a \<and> one_line b"
  by (auto simp: one_line_def)

lemma read_line_crlf: "one_line l \<Longrightarrow> read_line (l @ crlf @ r) = Some (l, r)"
proof (induction l)
  case (Cons c l)
  obtain d ds where d: "l @ crlf @ r = d # ds" by (cases "l @ crlf @ r") (auto simp: crlf_def)
  with Cons show ?case by (auto simp: one_line_def)
qed (simp add: crlf_def)

lemma read_message_lines:
  "list_all (\<lambda>l. l \<noteq> [] \<and> one_line l) ls \<Longrightarrow>
   read_message (concat (map (\<lambda>l. l @ crlf) ls) @ crlf @ body) = (ls, body)"
proof (induction ls)
  case Nil
  then show ?case
    using read_line_crlf [of "[]" body] by (subst read_message.simps) (simp add: one_line_def)
next
  case (Cons l ls)
  let ?rest = "concat (map (\<lambda>l. l @ crlf) ls) @ crlf @ body"
  have "read_line (l @ crlf @ ?rest) = Some (l, ?rest)" using Cons.prems by (intro read_line_crlf) simp
  with Cons show ?case by (subst read_message.simps) (auto split: list.splits)
qed

text \<open>
  No header can be injected into a story email: whatever the addresses, the subject, the
  reply address and the extra headers hold, a receiver reads from the message exactly the
  header lines the code writes, one for each, and the body.
\<close>

theorem storyMessage_read:
  "read_message (storyMessage from to subject htmlBody replyTo extra)
   = (messageHeaders from to subject replyTo extra, htmlBody)"
proof -
  have "list_all (\<lambda>l. l \<noteq> [] \<and> one_line l) (messageHeaders from to subject replyTo extra)"
    by (auto simp: messageHeaders_def list_all_iff)
  then show ?thesis unfolding storyMessage_def by (rule read_message_lines)
qed

end
