(* ===== verification/Stripe.thy ===== *)
theory Stripe
  imports Effects Mail
begin

text \<open>
  The client of the payment service for platform billing (\<open>src/internal/billing/stripe.go\<close>):
  one request with its retries, and the calls the handlers make. What comes back over the wire
  is a parameter: the n-th reading of the outside world is the n-th exchange. The state holds
  the number of readings and the requests sent so far, in order; a handler's state extends it.

  The pause between two attempts and the encoding of a form on the wire are not modelled: a
  request carries its form as a list of keys and values.
\<close>

section \<open>Times\<close>

text \<open>
  \<open>time.Unix(sec, 0)\<close>: Go counts seconds from year 1 in an \<open>int64\<close>, so the sum wraps. The zero
  time is the first second of year 1.
\<close>

definition zeroTime :: int where
  "zeroTime = - 62135596800 * 1000000000"

definition unixTime :: "int \<Rightarrow> int" where
  "unixTime sec = (wrap64 (sec + 62135596800) - 62135596800) * 1000000000"

definition unixSeconds :: "int \<Rightarrow> int" where
  "unixSeconds t = t div 1000000000"

section \<open>Errors\<close>

record StripeError =
  se_StatusCode :: int
  se_Type :: string
  se_Code :: string
  se_Message :: string
  se_RequestID :: string

datatype ApiError = StripeErr StripeError | PlainErr string

fun StripeError_Error :: "ApiError \<Rightarrow> string" where
  "StripeError_Error (StripeErr e) = ''stripe error ['' @ itoa (se_StatusCode e) @ '' '' @ se_Type e @ ''/'' @ se_Code e
     @ '']: '' @ se_Message e @ '' (request '' @ se_RequestID e @ '')''"
| "StripeError_Error (PlainErr e) = e"

section \<open>Requests\<close>

record Request =
  rq_Method :: string
  rq_Base :: string
  rq_SecretKey :: string
  rq_Path :: string
  rq_Form :: "string gomap option"
  rq_IdempotencyKey :: string

text \<open>What one attempt meets: no answer, an answer whose body cannot be read, or an answer.\<close>

datatype Exchange = NetworkError string | BodyError string | Reply int string string

text \<open>The documents of the service the client reads.\<close>

record SubscriptionDoc =
  sd_Status :: string
  sd_CurrentPeriodEnd :: int
  sd_CancelAtPeriodEnd :: bool
  sd_Items :: "(string \<times> string) list"

record Net =
  net_apiBase :: string
  net_badRequest :: "string \<Rightarrow> string \<Rightarrow> string option"
  net_exchange :: "nat \<Rightarrow> Request \<Rightarrow> Exchange"
  net_random :: "nat \<Rightarrow> nat list"
  net_error :: "string \<Rightarrow> string + (string \<times> string \<times> string) option"
  net_id :: "string \<Rightarrow> string + string"
  net_url :: "string \<Rightarrow> string + string"
  net_subscription :: "string \<Rightarrow> string + SubscriptionDoc"

record Calls =
  sc_reads :: nat
  sc_requests :: "Request list"

text \<open>The number of readings so far, counted up.\<close>

definition reading :: "('x Calls_scheme, nat) state" where
  "reading = State (\<lambda>s. (sc_reads s, s\<lparr>sc_reads := Suc (sc_reads s)\<rparr>))"

definition stripeMaxRetries :: nat where "stripeMaxRetries = 3"

definition stripeMaxBodyRead :: nat where "stripeMaxBodyRead = 4 * 2 ^ 20"

definition transient :: "int \<Rightarrow> bool" where
  "transient status \<longleftrightarrow> status = 429 \<or> status \<ge> 500"

datatype 'b Outcome = Retry ApiError | Final "ApiError + 'b"

text \<open>The answer to one attempt, as the client classifies it.\<close>

definition classify :: "Net \<Rightarrow> (string \<Rightarrow> string + 'b) \<Rightarrow> Exchange \<Rightarrow> 'b Outcome" where
  "classify net out x =
     (case x of
        NetworkError e \<Rightarrow> Retry (PlainErr (''stripe API request failed: '' @ e))
      | BodyError e \<Rightarrow> Retry (PlainErr (''failed to read stripe response: '' @ e))
      | Reply status body reqID \<Rightarrow>
          if transient status then
            Retry (StripeErr \<lparr>se_StatusCode = status, se_Type = [], se_Code = [],
              se_Message = ''stripe transient error'', se_RequestID = reqID\<rparr>)
          else
            (let raw = take stripeMaxBodyRead body in
             case net_error net raw of
               Inl e \<Rightarrow> Final (Inl (PlainErr (''failed to decode stripe response: '' @ e)))
             | Inr (Some (type, code, message)) \<Rightarrow>
                 Final (Inl (StripeErr \<lparr>se_StatusCode = status, se_Type = type, se_Code = code,
                   se_Message = message, se_RequestID = reqID\<rparr>))
             | Inr None \<Rightarrow>
                 (case out raw of
                    Inl e \<Rightarrow> Final (Inl (PlainErr (''failed to decode stripe response: '' @ e)))
                  | Inr v \<Rightarrow> Final (Inr v))))"

definition stripeAttempt ::
  "Net \<Rightarrow> (string \<Rightarrow> string + 'b) \<Rightarrow> Request \<Rightarrow> ('x Calls_scheme, 'b Outcome) state" where
  "stripeAttempt net out rq =
     (case net_badRequest net (rq_Method rq) (rq_Base rq @ rq_Path rq) of
        Some e \<Rightarrow> ret (Final (Inl (PlainErr e)))
      | None \<Rightarrow> do {
          n \<leftarrow> reading;
          modifies (\<lambda>s. s\<lparr>sc_requests := sc_requests s @ [rq]\<rparr>);
          ret (classify net out (net_exchange net n rq))
        })"

text \<open>One attempt and up to so many more; the error of the last one is returned.\<close>

primrec stripeAttempts ::
  "Net \<Rightarrow> (string \<Rightarrow> string + 'b) \<Rightarrow> Request \<Rightarrow> nat \<Rightarrow> ('x Calls_scheme, ApiError + 'b) state" where
  "stripeAttempts net out rq 0 = do {
     x \<leftarrow> stripeAttempt net out rq;
     ret (case x of Retry e \<Rightarrow> Inl e | Final r \<Rightarrow> r)
   }"
| "stripeAttempts net out rq (Suc n) = do {
     x \<leftarrow> stripeAttempt net out rq;
     case x of Retry e \<Rightarrow> stripeAttempts net out rq n | Final r \<Rightarrow> ret r
   }"

definition stripeDoBase ::
  "Net \<Rightarrow> string \<Rightarrow> string \<Rightarrow> string \<Rightarrow> string \<Rightarrow> string gomap option \<Rightarrow> string
     \<Rightarrow> (string \<Rightarrow> string + 'b) \<Rightarrow> ('x Calls_scheme, ApiError + 'b) state" where
  "stripeDoBase net base method key path form idem out =
     stripeAttempts net out
       \<lparr>rq_Method = method, rq_Base = base, rq_SecretKey = key, rq_Path = path, rq_Form = form,
        rq_IdempotencyKey = idem\<rparr>
       (stripeMaxRetries - 1)"

definition stripeDo ::
  "Net \<Rightarrow> string \<Rightarrow> string \<Rightarrow> string \<Rightarrow> string gomap option \<Rightarrow> string
     \<Rightarrow> (string \<Rightarrow> string + 'b) \<Rightarrow> ('x Calls_scheme, ApiError + 'b) state" where
  "stripeDo net method key path form idem out =
     (let base = (if net_apiBase net = [] then ''https://api.stripe.com'' else net_apiBase net) in
      stripeDoBase net (trimSlashes base) method key path form idem out)"

section \<open>Idempotency keys\<close>

definition hexDigit :: "nat \<Rightarrow> char" where
  "hexDigit n = (''0123456789abcdef'' ! (n mod 16))"

definition hexEncode :: "nat list \<Rightarrow> string" where
  "hexEncode bs = concat (map (\<lambda>b. [hexDigit (b div 16), hexDigit b]) bs)"

text \<open>\<open>newIdempotencyKey\<close>: 16 random bytes; zeros stay where the source of randomness gives less.\<close>

definition newIdempotencyKey :: "Net \<Rightarrow> ('x Calls_scheme, string) state" where
  "newIdempotencyKey net = do {
     n \<leftarrow> reading;
     ret (''sntl_'' @ hexEncode (take 16 (net_random net n @ replicate 16 0)))
   }"

definition stripePost ::
  "Net \<Rightarrow> string \<Rightarrow> string \<Rightarrow> string gomap \<Rightarrow> (string \<Rightarrow> string + 'b) \<Rightarrow> ('x Calls_scheme, ApiError + 'b) state" where
  "stripePost net key path form out = do {
     idem \<leftarrow> newIdempotencyKey net;
     stripeDo net ''POST'' key path (Some form) idem out
   }"

definition stripePostIdem ::
  "Net \<Rightarrow> string \<Rightarrow> string \<Rightarrow> string gomap \<Rightarrow> string \<Rightarrow> (string \<Rightarrow> string + 'b) \<Rightarrow> ('x Calls_scheme, ApiError + 'b) state" where
  "stripePostIdem net key path form idem out = stripeDo net ''POST'' key path (Some form) idem out"

definition stripeGet ::
  "Net \<Rightarrow> string \<Rightarrow> string \<Rightarrow> (string \<Rightarrow> string + 'b) \<Rightarrow> ('x Calls_scheme, ApiError + 'b) state" where
  "stripeGet net key path out = stripeDo net ''GET'' key path None [] out"

text \<open>A call whose answer is not decoded.\<close>

definition no_out :: "string \<Rightarrow> string + unit" where
  "no_out raw = Inr ()"

section \<open>The calls of the handlers\<close>

definition CreateCustomer ::
  "Net \<Rightarrow> string \<Rightarrow> string \<Rightarrow> string \<Rightarrow> string \<Rightarrow> ('x Calls_scheme, ApiError + string) state" where
  "CreateCustomer net key email businessName tenantHex =
     (let form = gomap_put ''email'' email [];
          form = (if businessName \<noteq> [] then gomap_put ''name'' businessName form else form);
          form = gomap_put ''metadata[tenant_id]'' tenantHex form in
      do {
        r \<leftarrow> stripePost net key ''/v1/customers'' form (net_id net);
        ret (case r of
               Inl e \<Rightarrow> Inl e
             | Inr i \<Rightarrow> if i = [] then Inl (PlainErr ''stripe returned no customer id'') else Inr i)
      })"

definition minTrialLead :: int where
  "minTrialLead = 48 * 3600 * 1000000000"

definition CreateSubscriptionCheckoutSession ::
  "Net \<Rightarrow> (nat \<Rightarrow> int) \<Rightarrow> string \<Rightarrow> string \<Rightarrow> string \<Rightarrow> string \<Rightarrow> string \<Rightarrow> string \<Rightarrow> string \<Rightarrow> string
     \<Rightarrow> int option \<Rightarrow> ('x Calls_scheme, ApiError + string) state" where
  "CreateSubscriptionCheckoutSession net clock key priceID customerID tenantHex planTier successURL cancelURL idem trialEnd =
     (let form = gomap_put ''mode'' ''subscription'' [];
          form = gomap_put ''customer'' customerID form;
          form = gomap_put ''line_items[0][price]'' priceID form;
          form = gomap_put ''line_items[0][quantity]'' ''1'' form;
          form = gomap_put ''client_reference_id'' tenantHex form;
          form = gomap_put ''subscription_data[metadata][tenant_id]'' tenantHex form;
          form = (if planTier \<noteq> [] then gomap_put ''subscription_data[metadata][plan_tier]'' planTier form else form);
          form = gomap_put ''success_url'' successURL form;
          form = gomap_put ''cancel_url'' cancelURL form in
      do {
        form \<leftarrow> (case trialEnd of
                   None \<Rightarrow> ret form
                 | Some t \<Rightarrow> do {
                     n \<leftarrow> reading;
                     ret (if t - clock n > minTrialLead
                          then gomap_put ''subscription_data[trial_end]'' (itoa (unixSeconds t)) form else form)
                   });
        idem \<leftarrow> (if idem = [] then newIdempotencyKey net else ret idem);
        r \<leftarrow> stripePostIdem net key ''/v1/checkout/sessions'' form idem (net_url net);
        ret (case r of
               Inl e \<Rightarrow> Inl e
             | Inr url \<Rightarrow> if url = [] then Inl (PlainErr ''stripe returned no checkout URL'') else Inr url)
      })"

record SubscriptionItem =
  si_ItemID :: string
  si_PriceID :: string
  si_Status :: string
  si_CurrentPeriodEnd :: int
  si_CancelAtPeriodEnd :: bool

definition GetSubscriptionItem ::
  "Net \<Rightarrow> string \<Rightarrow> string \<Rightarrow> ('x Calls_scheme, ApiError + SubscriptionItem) state" where
  "GetSubscriptionItem net key subID = do {
     r \<leftarrow> stripeGet net key (''/v1/subscriptions/'' @ subID) (net_subscription net);
     ret (case r of
            Inl e \<Rightarrow> Inl e
          | Inr doc \<Rightarrow>
              (case sd_Items doc of
                 [] \<Rightarrow> Inl (PlainErr (''subscription '' @ subID @ '' has no items''))
               | (itemID, priceID) # _ \<Rightarrow>
                   Inr \<lparr>si_ItemID = itemID, si_PriceID = priceID, si_Status = sd_Status doc,
                        si_CurrentPeriodEnd = unixTime (sd_CurrentPeriodEnd doc),
                        si_CancelAtPeriodEnd = sd_CancelAtPeriodEnd doc\<rparr>))
   }"

definition SetSubscriptionCancelAtPeriodEnd ::
  "Net \<Rightarrow> string \<Rightarrow> string \<Rightarrow> bool \<Rightarrow> ('x Calls_scheme, ApiError + unit) state" where
  "SetSubscriptionCancelAtPeriodEnd net key subID cancel =
     stripePost net key (''/v1/subscriptions/'' @ subID)
       (gomap_put ''cancel_at_period_end'' (if cancel then ''true'' else ''false'') []) no_out"

definition UpdateSubscriptionPrice ::
  "Net \<Rightarrow> string \<Rightarrow> string \<Rightarrow> string \<Rightarrow> string \<Rightarrow> ('x Calls_scheme, ApiError + unit) state" where
  "UpdateSubscriptionPrice net key subID itemID newPriceID =
     stripePost net key (''/v1/subscriptions/'' @ subID)
       (gomap_put ''proration_behavior'' ''create_prorations''
         (gomap_put ''items[0][price]'' newPriceID (gomap_put ''items[0][id]'' itemID []))) no_out"

definition CreatePortalSession ::
  "Net \<Rightarrow> string \<Rightarrow> string \<Rightarrow> string \<Rightarrow> ('x Calls_scheme, ApiError + string) state" where
  "CreatePortalSession net key customerID returnURL = do {
     r \<leftarrow> stripePost net key ''/v1/billing_portal/sessions''
            (gomap_put ''return_url'' returnURL (gomap_put ''customer'' customerID [])) (net_url net);
     ret (case r of
            Inl e \<Rightarrow> Inl e
          | Inr url \<Rightarrow> if url = [] then Inl (PlainErr ''stripe returned no portal URL'') else Inr url)
   }"

section \<open>The retries\<close>

definition is_Retry :: "'b Outcome \<Rightarrow> bool" where
  "is_Retry x \<longleftrightarrow> (\<exists>e. x = Retry e)"

definition verdict :: "'b Outcome \<Rightarrow> ApiError + 'b" where
  "verdict x = (case x of Retry e \<Rightarrow> Inl e | Final r \<Rightarrow> r)"

lemma run_reading [simp]: "run_state reading s = (sc_reads s, s\<lparr>sc_reads := Suc (sc_reads s)\<rparr>)"
  by (simp add: reading_def)

lemma stripeAttempts_run:
  assumes ok: "net_badRequest net (rq_Method rq) (rq_Base rq @ rq_Path rq) = None"
    and run: "run_state (stripeAttempts net out rq n) s = (r, s')"
  shows "\<exists>k\<le>n. (\<forall>j<k. is_Retry (classify net out (net_exchange net (sc_reads s + j) rq)))
    \<and> (k < n \<longrightarrow> \<not> is_Retry (classify net out (net_exchange net (sc_reads s + k) rq)))
    \<and> r = verdict (classify net out (net_exchange net (sc_reads s + k) rq))
    \<and> s' = s\<lparr>sc_reads := sc_reads s + Suc k, sc_requests := sc_requests s @ replicate (Suc k) rq\<rparr>"
  using run
proof (induction n arbitrary: s)
  case 0
  then show ?case
    by (auto simp: stripeAttempt_def ok verdict_def split: Outcome.splits)
next
  case (Suc n)
  let ?x = "classify net out (net_exchange net (sc_reads s) rq)"
  let ?t = "s\<lparr>sc_reads := Suc (sc_reads s), sc_requests := sc_requests s @ [rq]\<rparr>"
  show ?case
  proof (cases ?x)
    case (Final v)
    with Suc.prems show ?thesis
      by (intro exI [of _ 0]) (auto simp: stripeAttempt_def ok verdict_def is_Retry_def)
  next
    case (Retry e)
    with Suc.prems have "run_state (stripeAttempts net out rq n) ?t = (r, s')"
      by (simp add: stripeAttempt_def ok)
    from Suc.IH [OF this] obtain k where k: "k \<le> n"
      "\<forall>j<k. is_Retry (classify net out (net_exchange net (sc_reads ?t + j) rq))"
      "k < n \<longrightarrow> \<not> is_Retry (classify net out (net_exchange net (sc_reads ?t + k) rq))"
      "r = verdict (classify net out (net_exchange net (sc_reads ?t + k) rq))"
      "s' = ?t\<lparr>sc_reads := sc_reads ?t + Suc k, sc_requests := sc_requests ?t @ replicate (Suc k) rq\<rparr>"
      by blast
    have "is_Retry (classify net out (net_exchange net (sc_reads s + j) rq))" if "j < Suc k" for j
      using that k(2) Retry by (cases j) (auto simp: is_Retry_def)
    with k show ?thesis
      by (intro exI [of _ "Suc k"]) simp
  qed
qed

text \<open>
  One call makes between one and three attempts, all with the same request and so the same
  idempotency key. Each attempt before the last met no answer, an unreadable one, a 429 or a
  5xx; an attempt before the third is the last only if it did not. The result is what the last
  attempt is classified as.
\<close>

theorem stripeDoBase_attempts:
  assumes "net_badRequest net method (base @ path) = None"
    and "rq = \<lparr>rq_Method = method, rq_Base = base, rq_SecretKey = key, rq_Path = path, rq_Form = form,
      rq_IdempotencyKey = idem\<rparr>"
    and "run_state (stripeDoBase net base method key path form idem out) s = (r, s')"
  shows "\<exists>k<3. (\<forall>j<k. is_Retry (classify net out (net_exchange net (sc_reads s + j) rq)))
    \<and> (k < 2 \<longrightarrow> \<not> is_Retry (classify net out (net_exchange net (sc_reads s + k) rq)))
    \<and> r = verdict (classify net out (net_exchange net (sc_reads s + k) rq))
    \<and> s' = s\<lparr>sc_reads := sc_reads s + Suc k, sc_requests := sc_requests s @ replicate (Suc k) rq\<rparr>"
proof -
  from assms have "net_badRequest net (rq_Method rq) (rq_Base rq @ rq_Path rq) = None"
    and "run_state (stripeAttempts net out rq (stripeMaxRetries - 1)) s = (r, s')"
    by (simp_all add: stripeDoBase_def)
  from stripeAttempts_run [OF this] obtain k where "k \<le> stripeMaxRetries - 1" and
    "(\<forall>j<k. is_Retry (classify net out (net_exchange net (sc_reads s + j) rq)))
    \<and> (k < stripeMaxRetries - 1 \<longrightarrow> \<not> is_Retry (classify net out (net_exchange net (sc_reads s + k) rq)))
    \<and> r = verdict (classify net out (net_exchange net (sc_reads s + k) rq))
    \<and> s' = s\<lparr>sc_reads := sc_reads s + Suc k, sc_requests := sc_requests s @ replicate (Suc k) rq\<rparr>"
    by blast
  then show ?thesis by (intro exI [of _ k]) (simp add: stripeMaxRetries_def)
qed

section \<open>Times from the wire\<close>

lemma unixTime_zero:
  assumes "in_int64 sec"
  shows "unixTime sec = zeroTime \<longleftrightarrow> sec = - 62135596800"
proof -
  let ?x = "sec + 62135596800"
  have "wrap64 ?x = 0 \<longleftrightarrow> ?x = 0"
  proof (cases "in_int64 ?x")
    case False
    then have "in_int64 (?x - 2 ^ 64)" and "?x < 2 ^ 64"
      using assms by (auto simp: in_int64_def)
    moreover have "wrap64 ?x = wrap64 (?x - 2 ^ 64)"
      using minus_mod_self2 [of "?x + 2 ^ 63" "2 ^ 64"] by (simp only: wrap64_def diff_add_eq)
    ultimately have "wrap64 ?x = ?x - 2 ^ 64" using wrap64_id by metis
    with \<open>?x < 2 ^ 64\<close> show ?thesis using False by (auto simp: in_int64_def)
  qed (simp add: wrap64_id)
  then show ?thesis by (auto simp: unixTime_def zeroTime_def)
qed

end
