(* ===== verification/Mongo.thy ===== *)
theory Mongo
  imports Prelude
begin

text \<open>
  The document database as the handlers see it. A collection is the list of its rows in
  natural order; an operation is a function on the rows that says which error the driver
  returns. The server applies a write and answers, refuses it, or applies it and loses the
  answer; a read that fails returns an error.

  A time is a number of nanoseconds since the epoch; BSON keeps milliseconds.
\<close>

definition bsonTime :: "int \<Rightarrow> int" where
  "bsonTime t = t div 1000000 * 1000000"

section \<open>Errors and answers\<close>

datatype db_error = NotFound | DuplicateKey | DbError string

datatype db_reply = Done | Refused string | Lost string

section \<open>Operations on the rows of a collection\<close>

text \<open>\<open>Update\<close> changes the first document that matches; None when there is none.\<close>

fun updateFirst :: "('a \<Rightarrow> bool) \<Rightarrow> ('a \<Rightarrow> 'a) \<Rightarrow> 'a list \<Rightarrow> 'a list option" where
  "updateFirst P f [] = None"
| "updateFirst P f (x # xs) = (if P x then Some (f x # xs) else map_option ((#) x) (updateFirst P f xs))"

lemma updateFirst_None: "updateFirst P f xs = None \<longleftrightarrow> list_all (\<lambda>x. \<not> P x) xs"
  by (induction xs) auto

lemma updateFirst_Some:
  "updateFirst P f xs = Some ys \<Longrightarrow> \<exists>as x bs. xs = as @ x # bs \<and> ys = as @ f x # bs \<and> P x \<and> list_all (\<lambda>x. \<not> P x) as"
proof (induction xs arbitrary: ys)
  case (Cons a xs)
  show ?case
  proof (cases "P a")
    case True
    with Cons.prems show ?thesis by (intro exI [of _ "[]"]) auto
  next
    case False
    then obtain zs where "updateFirst P f xs = Some zs" "ys = a # zs" using Cons.prems by auto
    with Cons.IH obtain as x bs where "xs = as @ x # bs \<and> zs = as @ f x # bs \<and> P x \<and> list_all (\<lambda>x. \<not> P x) as"
      by blast
    with False \<open>ys = a # zs\<close> show ?thesis by (intro exI [of _ "a # as"]) auto
  qed
qed simp

lemma updateFirst_at:
  "list_all (\<lambda>x. \<not> P x) as \<Longrightarrow> P x \<Longrightarrow> updateFirst P f (as @ x # bs) = Some (as @ f x # bs)"
  by (induction as) auto

lemma updateFirst_map:
  "updateFirst P f xs = Some ys \<Longrightarrow> (\<And>x. P x \<Longrightarrow> g (f x) = g x) \<Longrightarrow> map g ys = map g xs"
  using updateFirst_Some [of P f xs ys] by auto

definition updateOne :: "('a \<Rightarrow> bool) \<Rightarrow> ('a \<Rightarrow> 'a) \<Rightarrow> 'a list \<Rightarrow> db_error option \<times> 'a list" where
  "updateOne P f rows =
     (case updateFirst P f rows of None \<Rightarrow> (Some NotFound, rows) | Some rows' \<Rightarrow> (None, rows'))"

definition updateAll :: "('a \<Rightarrow> bool) \<Rightarrow> ('a \<Rightarrow> 'a) \<Rightarrow> 'a list \<Rightarrow> db_error option \<times> 'a list" where
  "updateAll P f rows = (None, map (\<lambda>x. if P x then f x else x) rows)"

text \<open>A row is inserted unless a row it clashes with in a unique index is there.\<close>

definition insertRow :: "('a \<Rightarrow> 'a \<Rightarrow> bool) \<Rightarrow> 'a \<Rightarrow> 'a list \<Rightarrow> db_error option \<times> 'a list" where
  "insertRow clash x rows =
     (if list_ex (clash x) rows then (Some DuplicateKey, rows) else (None, rows @ [x]))"

text \<open>\<open>Upsert\<close>: the first row that matches is changed, or the new row is added.\<close>

definition upsertRow :: "('a \<Rightarrow> bool) \<Rightarrow> ('a \<Rightarrow> 'a) \<Rightarrow> 'a \<Rightarrow> 'a list \<Rightarrow> db_error option \<times> 'a list" where
  "upsertRow P f x rows =
     (case updateFirst P f rows of None \<Rightarrow> (None, rows @ [x]) | Some rows' \<Rightarrow> (None, rows'))"

section \<open>What the operations do to the rows\<close>

lemma updateOne_map:
  "(\<And>x. P x \<Longrightarrow> g (f x) = g x) \<Longrightarrow> map g (snd (updateOne P f rows)) = map g rows"
  by (auto simp: updateOne_def updateFirst_map split: option.splits)

lemma updateAll_map:
  "(\<And>x. P x \<Longrightarrow> g (f x) = g x) \<Longrightarrow> map g (snd (updateAll P f rows)) = map g rows"
  by (simp add: updateAll_def)

lemma updateFirst_list_all2:
  assumes "updateFirst P f xs = Some ys" and "\<And>x. T x x" and "\<And>x. P x \<Longrightarrow> T x (f x)"
  shows "list_all2 T xs ys"
  using updateFirst_Some [OF assms(1)] assms(2,3) by (auto intro!: list_all2_appendI simp: list_all2_refl)

lemma updateOne_list_all2:
  "(\<And>x. T x x) \<Longrightarrow> (\<And>x. P x \<Longrightarrow> T x (f x)) \<Longrightarrow> list_all2 T rows (snd (updateOne P f rows))"
  by (auto simp: updateOne_def list_all2_refl intro: updateFirst_list_all2 split: option.splits)

lemma updateAll_list_all2:
  "(\<And>x. T x x) \<Longrightarrow> (\<And>x. P x \<Longrightarrow> T x (f x)) \<Longrightarrow> list_all2 T rows (snd (updateAll P f rows))"
  by (simp add: updateAll_def list_all2_conv_all_nth)

lemma find_updateOne:
  assumes "find P rows = Some x" and "P (f x)"
  shows "find P (snd (updateOne P f rows)) = Some (f x)"
proof -
  have "\<exists>ys. updateFirst P f rows = Some ys \<and> find P ys = Some (f x)"
    using assms by (induction rows) (auto split: if_splits)
  then show ?thesis by (auto simp: updateOne_def)
qed

text \<open>A unique index over a key stays unique.\<close>

lemma insertRow_distinct:
  assumes "\<And>a b. clash a b \<longleftrightarrow> g a = g b" and "distinct (map g rows)"
  shows "distinct (map g (snd (insertRow clash x rows)))"
  using assms by (auto simp: insertRow_def list_ex_iff)

lemma upsertRow_distinct:
  assumes "\<And>a. P a \<longleftrightarrow> g a = k" and "\<And>a. P a \<Longrightarrow> g (f a) = k" and "g x = k" and "distinct (map g rows)"
  shows "distinct (map g (snd (upsertRow P f x rows)))"
proof (cases "updateFirst P f rows")
  case None
  then have "\<forall>a\<in>set rows. g a \<noteq> k" using assms(1) by (simp add: updateFirst_None list_all_iff)
  with None assms(3,4) show ?thesis by (auto simp: upsertRow_def)
next
  case (Some ys)
  then have "map g ys = map g rows" using assms(1,2) by (auto intro: updateFirst_map)
  with Some assms(4) show ?thesis by (simp add: upsertRow_def)
qed

text \<open>The rows there are stay, related one by one; new ones come at the end.\<close>

definition appends :: "('a \<Rightarrow> 'a \<Rightarrow> bool) \<Rightarrow> 'a list \<Rightarrow> 'a list \<Rightarrow> bool" where
  "appends T xs ys \<longleftrightarrow> (\<exists>old new. ys = old @ new \<and> list_all2 T xs old)"

lemma appends_list_all2: "list_all2 T xs ys \<Longrightarrow> appends T xs ys"
  by (auto simp: appends_def)

lemma appends_refl: "(\<And>x. T x x) \<Longrightarrow> appends T xs xs"
  by (simp add: appends_list_all2 list_all2_refl)

lemma appends_insertRow: "(\<And>x. T x x) \<Longrightarrow> appends T xs (snd (insertRow clash x xs))"
  by (auto simp: appends_def insertRow_def list_all2_refl intro: exI [of _ xs])

lemma appends_trans:
  assumes "\<And>a b c. T a b \<Longrightarrow> T b c \<Longrightarrow> T a c" and "appends T xs ys" and "appends T ys zs"
  shows "appends T xs zs"
proof -
  from assms(2,3) obtain old new old' new' where o: "ys = old @ new" "list_all2 T xs old"
    "zs = old' @ new'" "list_all2 T (old @ new) old'" by (auto simp: appends_def)
  then obtain a b where "old' = a @ b" "list_all2 T old a" by (auto simp: list_all2_append1)
  moreover from this o(2) have "list_all2 T xs a" by (blast intro: list_all2_trans assms(1))
  ultimately show ?thesis using o(3) by (auto simp: appends_def)
qed

end
