(* ===== verification/Tokens.thy ===== *)
theory Tokens
  imports GoStrings "HOL-Library.Char_ord"
begin

text \<open>
  \<open>scripting/token.go\<close>: source positions, token kinds, tokens, the keyword table and
  \<open>LookupIdent\<close>. \<open>TokenKind\<close> is Go's \<open>type TokenKind int\<close>; the constants are the
  \<open>iota\<close> block in its order, as abbreviations, so that two kinds are compared as the
  integers they are. The lemmas show what the lexer needs of the keyword table: every
  keyword is a lower-case word, none stands for one of the kinds the lexer reserves for
  itself, and \<open>LookupIdent\<close> is \<open>TokIdent\<close> exactly outside the table.
\<close>

section \<open>Positions\<close>

record Pos =
  pos_Line :: nat
  pos_Col :: nat
  pos_Offset :: nat

definition zero_Pos :: Pos where
  "zero_Pos = \<lparr>pos_Line = 0, pos_Col = 0, pos_Offset = 0\<rparr>"

definition Pos_String :: "Pos \<Rightarrow> string" where
  "Pos_String p = itoa_nat (pos_Line p) @ '':'' @ itoa_nat (pos_Col p)"

section \<open>Token kinds\<close>

datatype TokenKind = TokenKind (kind_code: nat)

instantiation TokenKind :: linorder
begin

definition less_eq_TokenKind :: "TokenKind \<Rightarrow> TokenKind \<Rightarrow> bool" where
  "less_eq_TokenKind a b \<longleftrightarrow> kind_code a \<le> kind_code b"

definition less_TokenKind :: "TokenKind \<Rightarrow> TokenKind \<Rightarrow> bool" where
  "less_TokenKind a b \<longleftrightarrow> kind_code a < kind_code b"

instance
  by standard (auto simp: less_eq_TokenKind_def less_TokenKind_def TokenKind.expand)

end

abbreviation TokEOF :: TokenKind where "TokEOF \<equiv> TokenKind 0"
abbreviation TokIllegal :: TokenKind where "TokIllegal \<equiv> TokenKind 1"
abbreviation TokIdent :: TokenKind where "TokIdent \<equiv> TokenKind 2"
abbreviation TokString :: TokenKind where "TokString \<equiv> TokenKind 3"
abbreviation TokInt :: TokenKind where "TokInt \<equiv> TokenKind 4"
abbreviation TokFloat :: TokenKind where "TokFloat \<equiv> TokenKind 5"
abbreviation TokBool :: TokenKind where "TokBool \<equiv> TokenKind 6"
abbreviation TokDuration :: TokenKind where "TokDuration \<equiv> TokenKind 7"
abbreviation TokLBrace :: TokenKind where "TokLBrace \<equiv> TokenKind 8"
abbreviation TokRBrace :: TokenKind where "TokRBrace \<equiv> TokenKind 9"
abbreviation TokLParen :: TokenKind where "TokLParen \<equiv> TokenKind 10"
abbreviation TokRParen :: TokenKind where "TokRParen \<equiv> TokenKind 11"
abbreviation TokLBracket :: TokenKind where "TokLBracket \<equiv> TokenKind 12"
abbreviation TokRBracket :: TokenKind where "TokRBracket \<equiv> TokenKind 13"
abbreviation TokComma :: TokenKind where "TokComma \<equiv> TokenKind 14"
abbreviation TokDot :: TokenKind where "TokDot \<equiv> TokenKind 15"
abbreviation TokColon :: TokenKind where "TokColon \<equiv> TokenKind 16"
abbreviation TokEquals :: TokenKind where "TokEquals \<equiv> TokenKind 17"
abbreviation TokBang :: TokenKind where "TokBang \<equiv> TokenKind 18"
abbreviation TokLT :: TokenKind where "TokLT \<equiv> TokenKind 19"
abbreviation TokGT :: TokenKind where "TokGT \<equiv> TokenKind 20"
abbreviation TokLTEQ :: TokenKind where "TokLTEQ \<equiv> TokenKind 21"
abbreviation TokGTEQ :: TokenKind where "TokGTEQ \<equiv> TokenKind 22"
abbreviation TokEQEQ :: TokenKind where "TokEQEQ \<equiv> TokenKind 23"
abbreviation TokNEQ :: TokenKind where "TokNEQ \<equiv> TokenKind 24"
abbreviation TokAmpAmp :: TokenKind where "TokAmpAmp \<equiv> TokenKind 25"
abbreviation TokPipePipe :: TokenKind where "TokPipePipe \<equiv> TokenKind 26"
abbreviation TokPlus :: TokenKind where "TokPlus \<equiv> TokenKind 27"
abbreviation TokMinus :: TokenKind where "TokMinus \<equiv> TokenKind 28"
abbreviation TokStar :: TokenKind where "TokStar \<equiv> TokenKind 29"
abbreviation TokSlash :: TokenKind where "TokSlash \<equiv> TokenKind 30"
abbreviation TokStory :: TokenKind where "TokStory \<equiv> TokenKind 31"
abbreviation TokStoryline :: TokenKind where "TokStoryline \<equiv> TokenKind 32"
abbreviation TokEnactment :: TokenKind where "TokEnactment \<equiv> TokenKind 33"
abbreviation TokScene :: TokenKind where "TokScene \<equiv> TokenKind 34"
abbreviation TokMessage :: TokenKind where "TokMessage \<equiv> TokenKind 35"
abbreviation TokTemplate :: TokenKind where "TokTemplate \<equiv> TokenKind 36"
abbreviation TokEmail :: TokenKind where "TokEmail \<equiv> TokenKind 37"
abbreviation TokName :: TokenKind where "TokName \<equiv> TokenKind 38"
abbreviation TokPriority :: TokenKind where "TokPriority \<equiv> TokenKind 39"
abbreviation TokOrder :: TokenKind where "TokOrder \<equiv> TokenKind 40"
abbreviation TokLevel :: TokenKind where "TokLevel \<equiv> TokenKind 41"
abbreviation TokAllowInterruption :: TokenKind where "TokAllowInterruption \<equiv> TokenKind 42"
abbreviation TokSkipToNextStorylineOnExpiry :: TokenKind where "TokSkipToNextStorylineOnExpiry \<equiv> TokenKind 43"
abbreviation TokSubject :: TokenKind where "TokSubject \<equiv> TokenKind 44"
abbreviation TokBody :: TokenKind where "TokBody \<equiv> TokenKind 45"
abbreviation TokFromEmail :: TokenKind where "TokFromEmail \<equiv> TokenKind 46"
abbreviation TokFromName :: TokenKind where "TokFromName \<equiv> TokenKind 47"
abbreviation TokReplyTo :: TokenKind where "TokReplyTo \<equiv> TokenKind 48"
abbreviation TokTags :: TokenKind where "TokTags \<equiv> TokenKind 49"
abbreviation TokVars :: TokenKind where "TokVars \<equiv> TokenKind 50"
abbreviation TokOnBegin :: TokenKind where "TokOnBegin \<equiv> TokenKind 51"
abbreviation TokOnComplete :: TokenKind where "TokOnComplete \<equiv> TokenKind 52"
abbreviation TokOnFail :: TokenKind where "TokOnFail \<equiv> TokenKind 53"
abbreviation TokRequiredBadges :: TokenKind where "TokRequiredBadges \<equiv> TokenKind 54"
abbreviation TokMustHave :: TokenKind where "TokMustHave \<equiv> TokenKind 55"
abbreviation TokMustNotHave :: TokenKind where "TokMustNotHave \<equiv> TokenKind 56"
abbreviation TokGiveBadge :: TokenKind where "TokGiveBadge \<equiv> TokenKind 57"
abbreviation TokRemoveBadge :: TokenKind where "TokRemoveBadge \<equiv> TokenKind 58"
abbreviation TokBadge :: TokenKind where "TokBadge \<equiv> TokenKind 59"
abbreviation TokStartTrigger :: TokenKind where "TokStartTrigger \<equiv> TokenKind 60"
abbreviation TokCompleteTrigger :: TokenKind where "TokCompleteTrigger \<equiv> TokenKind 61"
abbreviation TokNextStory :: TokenKind where "TokNextStory \<equiv> TokenKind 62"
abbreviation TokNextStoryline :: TokenKind where "TokNextStoryline \<equiv> TokenKind 63"
abbreviation TokNextEnactment :: TokenKind where "TokNextEnactment \<equiv> TokenKind 64"
abbreviation TokAdvanceToNextStoryline :: TokenKind where "TokAdvanceToNextStoryline \<equiv> TokenKind 65"
abbreviation TokEndStory :: TokenKind where "TokEndStory \<equiv> TokenKind 66"
abbreviation TokMarkComplete :: TokenKind where "TokMarkComplete \<equiv> TokenKind 67"
abbreviation TokMarkFailed :: TokenKind where "TokMarkFailed \<equiv> TokenKind 68"
abbreviation TokOn :: TokenKind where "TokOn \<equiv> TokenKind 69"
abbreviation TokDo :: TokenKind where "TokDo \<equiv> TokenKind 70"
abbreviation TokWhen :: TokenKind where "TokWhen \<equiv> TokenKind 71"
abbreviation TokWithin :: TokenKind where "TokWithin \<equiv> TokenKind 72"
abbreviation TokClick :: TokenKind where "TokClick \<equiv> TokenKind 73"
abbreviation TokNotClick :: TokenKind where "TokNotClick \<equiv> TokenKind 74"
abbreviation TokOpen :: TokenKind where "TokOpen \<equiv> TokenKind 75"
abbreviation TokNotOpen :: TokenKind where "TokNotOpen \<equiv> TokenKind 76"
abbreviation TokSent :: TokenKind where "TokSent \<equiv> TokenKind 77"
abbreviation TokWebhook :: TokenKind where "TokWebhook \<equiv> TokenKind 78"
abbreviation TokNothing :: TokenKind where "TokNothing \<equiv> TokenKind 79"
abbreviation TokElse :: TokenKind where "TokElse \<equiv> TokenKind 80"
abbreviation TokBounce :: TokenKind where "TokBounce \<equiv> TokenKind 81"
abbreviation TokSpam :: TokenKind where "TokSpam \<equiv> TokenKind 82"
abbreviation TokUnsubscribe :: TokenKind where "TokUnsubscribe \<equiv> TokenKind 83"
abbreviation TokFailure :: TokenKind where "TokFailure \<equiv> TokenKind 84"
abbreviation TokEmailValidated :: TokenKind where "TokEmailValidated \<equiv> TokenKind 85"
abbreviation TokUserHasTag :: TokenKind where "TokUserHasTag \<equiv> TokenKind 86"
abbreviation TokSendImmediate :: TokenKind where "TokSendImmediate \<equiv> TokenKind 87"
abbreviation TokWait :: TokenKind where "TokWait \<equiv> TokenKind 88"
abbreviation TokJumpToEnactment :: TokenKind where "TokJumpToEnactment \<equiv> TokenKind 89"
abbreviation TokJumpToStoryline :: TokenKind where "TokJumpToStoryline \<equiv> TokenKind 90"
abbreviation TokNextScene :: TokenKind where "TokNextScene \<equiv> TokenKind 91"
abbreviation TokPrevScene :: TokenKind where "TokPrevScene \<equiv> TokenKind 92"
abbreviation TokRetryScene :: TokenKind where "TokRetryScene \<equiv> TokenKind 93"
abbreviation TokRetryEnactment :: TokenKind where "TokRetryEnactment \<equiv> TokenKind 94"
abbreviation TokLoopToEnactment :: TokenKind where "TokLoopToEnactment \<equiv> TokenKind 95"
abbreviation TokLoopToStoryline :: TokenKind where "TokLoopToStoryline \<equiv> TokenKind 96"
abbreviation TokLoopToStartEnactment :: TokenKind where "TokLoopToStartEnactment \<equiv> TokenKind 97"
abbreviation TokLoopToStartStoryline :: TokenKind where "TokLoopToStartStoryline \<equiv> TokenKind 98"
abbreviation TokUpTo :: TokenKind where "TokUpTo \<equiv> TokenKind 99"
abbreviation TokTimes :: TokenKind where "TokTimes \<equiv> TokenKind 100"
abbreviation TokPersistScope :: TokenKind where "TokPersistScope \<equiv> TokenKind 101"
abbreviation TokTriggerPriority :: TokenKind where "TokTriggerPriority \<equiv> TokenKind 102"
abbreviation TokConditionalRoute :: TokenKind where "TokConditionalRoute \<equiv> TokenKind 103"
abbreviation TokRoute :: TokenKind where "TokRoute \<equiv> TokenKind 104"
abbreviation TokHasBadge :: TokenKind where "TokHasBadge \<equiv> TokenKind 105"
abbreviation TokNotHasBadge :: TokenKind where "TokNotHasBadge \<equiv> TokenKind 106"
abbreviation TokHasTag :: TokenKind where "TokHasTag \<equiv> TokenKind 107"
abbreviation TokNotHasTag :: TokenKind where "TokNotHasTag \<equiv> TokenKind 108"
abbreviation TokIf :: TokenKind where "TokIf \<equiv> TokenKind 109"
abbreviation TokElseIf :: TokenKind where "TokElseIf \<equiv> TokenKind 110"
abbreviation TokAnd :: TokenKind where "TokAnd \<equiv> TokenKind 111"
abbreviation TokOr :: TokenKind where "TokOr \<equiv> TokenKind 112"
abbreviation TokNot :: TokenKind where "TokNot \<equiv> TokenKind 113"
abbreviation TokFor :: TokenKind where "TokFor \<equiv> TokenKind 114"
abbreviation TokIn :: TokenKind where "TokIn \<equiv> TokenKind 115"
abbreviation TokRange :: TokenKind where "TokRange \<equiv> TokenKind 116"
abbreviation TokWhile :: TokenKind where "TokWhile \<equiv> TokenKind 117"
abbreviation TokBreak :: TokenKind where "TokBreak \<equiv> TokenKind 118"
abbreviation TokContinue :: TokenKind where "TokContinue \<equiv> TokenKind 119"
abbreviation TokDefault :: TokenKind where "TokDefault \<equiv> TokenKind 120"
abbreviation TokSender :: TokenKind where "TokSender \<equiv> TokenKind 121"
abbreviation TokLinks :: TokenKind where "TokLinks \<equiv> TokenKind 122"
abbreviation TokPattern :: TokenKind where "TokPattern \<equiv> TokenKind 123"
abbreviation TokPolicy :: TokenKind where "TokPolicy \<equiv> TokenKind 124"
abbreviation TokUse :: TokenKind where "TokUse \<equiv> TokenKind 125"
abbreviation TokAs :: TokenKind where "TokAs \<equiv> TokenKind 126"
abbreviation TokScenes :: TokenKind where "TokScenes \<equiv> TokenKind 127"
abbreviation TokDotDot :: TokenKind where "TokDotDot \<equiv> TokenKind 128"
abbreviation TokDollarLBrace :: TokenKind where "TokDollarLBrace \<equiv> TokenKind 129"
abbreviation TokData :: TokenKind where "TokData \<equiv> TokenKind 130"
abbreviation TokSceneDefaults :: TokenKind where "TokSceneDefaults \<equiv> TokenKind 131"
abbreviation TokEnactmentDefaults :: TokenKind where "TokEnactmentDefaults \<equiv> TokenKind 132"
abbreviation TokFunnel :: TokenKind where "TokFunnel \<equiv> TokenKind 133"
abbreviation TokStage :: TokenKind where "TokStage \<equiv> TokenKind 134"
abbreviation TokPage :: TokenKind where "TokPage \<equiv> TokenKind 135"
abbreviation TokBlock :: TokenKind where "TokBlock \<equiv> TokenKind 136"
abbreviation TokForm :: TokenKind where "TokForm \<equiv> TokenKind 137"
abbreviation TokField :: TokenKind where "TokField \<equiv> TokenKind 138"
abbreviation TokPath :: TokenKind where "TokPath \<equiv> TokenKind 139"
abbreviation TokDomain :: TokenKind where "TokDomain \<equiv> TokenKind 140"
abbreviation TokAI :: TokenKind where "TokAI \<equiv> TokenKind 141"
abbreviation TokContext :: TokenKind where "TokContext \<equiv> TokenKind 142"
abbreviation TokGlobal :: TokenKind where "TokGlobal \<equiv> TokenKind 143"
abbreviation TokExtend :: TokenKind where "TokExtend \<equiv> TokenKind 144"
abbreviation TokLength :: TokenKind where "TokLength \<equiv> TokenKind 145"
abbreviation TokPrompt :: TokenKind where "TokPrompt \<equiv> TokenKind 146"
abbreviation TokSubmit :: TokenKind where "TokSubmit \<equiv> TokenKind 147"
abbreviation TokAbandon :: TokenKind where "TokAbandon \<equiv> TokenKind 148"
abbreviation TokPurchase :: TokenKind where "TokPurchase \<equiv> TokenKind 149"
abbreviation TokProductId :: TokenKind where "TokProductId \<equiv> TokenKind 150"
abbreviation TokType :: TokenKind where "TokType \<equiv> TokenKind 151"
abbreviation TokCheckout :: TokenKind where "TokCheckout \<equiv> TokenKind 152"
abbreviation TokUpsell :: TokenKind where "TokUpsell \<equiv> TokenKind 153"
abbreviation TokLeadCapture :: TokenKind where "TokLeadCapture \<equiv> TokenKind 154"
abbreviation TokRequired :: TokenKind where "TokRequired \<equiv> TokenKind 155"
abbreviation TokNew :: TokenKind where "TokNew \<equiv> TokenKind 156"
abbreviation TokPdf :: TokenKind where "TokPdf \<equiv> TokenKind 157"
abbreviation TokLeadMagnet :: TokenKind where "TokLeadMagnet \<equiv> TokenKind 158"
abbreviation TokReference :: TokenKind where "TokReference \<equiv> TokenKind 159"
abbreviation TokJumpToStage :: TokenKind where "TokJumpToStage \<equiv> TokenKind 160"
abbreviation TokStartStory :: TokenKind where "TokStartStory \<equiv> TokenKind 161"
abbreviation TokSendEmailAction :: TokenKind where "TokSendEmailAction \<equiv> TokenKind 162"
abbreviation TokRedirect :: TokenKind where "TokRedirect \<equiv> TokenKind 163"
abbreviation TokProvideDownload :: TokenKind where "TokProvideDownload \<equiv> TokenKind 164"
abbreviation TokMustHaveBadge :: TokenKind where "TokMustHaveBadge \<equiv> TokenKind 165"
abbreviation TokMustNotHaveBadge :: TokenKind where "TokMustNotHaveBadge \<equiv> TokenKind 166"
abbreviation TokWatch :: TokenKind where "TokWatch \<equiv> TokenKind 167"
abbreviation TokVideo :: TokenKind where "TokVideo \<equiv> TokenKind 168"
abbreviation TokAutoplay :: TokenKind where "TokAutoplay \<equiv> TokenKind 169"
abbreviation TokSourceURL :: TokenKind where "TokSourceURL \<equiv> TokenKind 170"
abbreviation TokPercent :: TokenKind where "TokPercent \<equiv> TokenKind 171"
abbreviation TokProduct :: TokenKind where "TokProduct \<equiv> TokenKind 172"
abbreviation TokOffer :: TokenKind where "TokOffer \<equiv> TokenKind 173"
abbreviation TokPricingModel :: TokenKind where "TokPricingModel \<equiv> TokenKind 174"
abbreviation TokPrice :: TokenKind where "TokPrice \<equiv> TokenKind 175"
abbreviation TokCurrency :: TokenKind where "TokCurrency \<equiv> TokenKind 176"
abbreviation TokIncludesProduct :: TokenKind where "TokIncludesProduct \<equiv> TokenKind 177"
abbreviation TokGrantsBadge :: TokenKind where "TokGrantsBadge \<equiv> TokenKind 178"
abbreviation TokOrderBump :: TokenKind where "TokOrderBump \<equiv> TokenKind 179"
abbreviation TokOneClickUpsell :: TokenKind where "TokOneClickUpsell \<equiv> TokenKind 180"
abbreviation TokDecline :: TokenKind where "TokDecline \<equiv> TokenKind 181"
abbreviation TokCustom :: TokenKind where "TokCustom \<equiv> TokenKind 182"
abbreviation TokQuiz :: TokenKind where "TokQuiz \<equiv> TokenKind 183"
abbreviation TokQuestion :: TokenKind where "TokQuestion \<equiv> TokenKind 184"
abbreviation TokAnswer :: TokenKind where "TokAnswer \<equiv> TokenKind 185"
abbreviation TokAddScore :: TokenKind where "TokAddScore \<equiv> TokenKind 186"
abbreviation TokScore :: TokenKind where "TokScore \<equiv> TokenKind 187"
abbreviation TokSite :: TokenKind where "TokSite \<equiv> TokenKind 188"
abbreviation TokSEO :: TokenKind where "TokSEO \<equiv> TokenKind 189"
abbreviation TokNavigation :: TokenKind where "TokNavigation \<equiv> TokenKind 190"
abbreviation TokHeader :: TokenKind where "TokHeader \<equiv> TokenKind 191"
abbreviation TokFooter :: TokenKind where "TokFooter \<equiv> TokenKind 192"
abbreviation TokTheme :: TokenKind where "TokTheme \<equiv> TokenKind 193"
abbreviation TokTitle :: TokenKind where "TokTitle \<equiv> TokenKind 194"
abbreviation TokDescription :: TokenKind where "TokDescription \<equiv> TokenKind 195"
abbreviation TokModule :: TokenKind where "TokModule \<equiv> TokenKind 196"
abbreviation TokLesson :: TokenKind where "TokLesson \<equiv> TokenKind 197"
abbreviation TokVideoURL :: TokenKind where "TokVideoURL \<equiv> TokenKind 198"
abbreviation TokContent :: TokenKind where "TokContent \<equiv> TokenKind 199"
abbreviation TokDraft :: TokenKind where "TokDraft \<equiv> TokenKind 200"
abbreviation TokInstructor :: TokenKind where "TokInstructor \<equiv> TokenKind 201"
abbreviation TokLMSDuration :: TokenKind where "TokLMSDuration \<equiv> TokenKind 202"
abbreviation TokIsFree :: TokenKind where "TokIsFree \<equiv> TokenKind 203"
abbreviation TokIsDraft :: TokenKind where "TokIsDraft \<equiv> TokenKind 204"
abbreviation TokDripDays :: TokenKind where "TokDripDays \<equiv> TokenKind 205"
abbreviation TokDripHours :: TokenKind where "TokDripHours \<equiv> TokenKind 206"
abbreviation TokDripMinutes :: TokenKind where "TokDripMinutes \<equiv> TokenKind 207"
abbreviation TokContentGen :: TokenKind where "TokContentGen \<equiv> TokenKind 208"
abbreviation TokDescriptionGen :: TokenKind where "TokDescriptionGen \<equiv> TokenKind 209"
abbreviation TokPassThreshold :: TokenKind where "TokPassThreshold \<equiv> TokenKind 210"
abbreviation TokMaxAttempts :: TokenKind where "TokMaxAttempts \<equiv> TokenKind 211"
abbreviation TokOptions :: TokenKind where "TokOptions \<equiv> TokenKind 212"
abbreviation TokMultipleChoice :: TokenKind where "TokMultipleChoice \<equiv> TokenKind 213"
abbreviation TokShortAnswer :: TokenKind where "TokShortAnswer \<equiv> TokenKind 214"
abbreviation TokCertificate :: TokenKind where "TokCertificate \<equiv> TokenKind 215"
abbreviation TokCourseRef :: TokenKind where "TokCourseRef \<equiv> TokenKind 216"
abbreviation TokCourse :: TokenKind where "TokCourse \<equiv> TokenKind 217"
abbreviation TokDurationKw :: TokenKind where "TokDurationKw \<equiv> TokenKind 218"
abbreviation TokAudience :: TokenKind where "TokAudience \<equiv> TokenKind 219"
abbreviation TokOutcome :: TokenKind where "TokOutcome \<equiv> TokenKind 220"
abbreviation TokTone :: TokenKind where "TokTone \<equiv> TokenKind 221"
abbreviation TokDefaultMedia :: TokenKind where "TokDefaultMedia \<equiv> TokenKind 222"
abbreviation TokGenMode :: TokenKind where "TokGenMode \<equiv> TokenKind 223"
abbreviation TokMedia :: TokenKind where "TokMedia \<equiv> TokenKind 224"
abbreviation TokPlayerPreset :: TokenKind where "TokPlayerPreset \<equiv> TokenKind 225"
abbreviation TokChannel :: TokenKind where "TokChannel \<equiv> TokenKind 226"
abbreviation TokChapter :: TokenKind where "TokChapter \<equiv> TokenKind 227"
abbreviation TokTurnstile :: TokenKind where "TokTurnstile \<equiv> TokenKind 228"
abbreviation TokCTA :: TokenKind where "TokCTA \<equiv> TokenKind 229"
abbreviation TokAnnotation :: TokenKind where "TokAnnotation \<equiv> TokenKind 230"
abbreviation TokBadgeRule :: TokenKind where "TokBadgeRule \<equiv> TokenKind 231"
abbreviation TokMediaWebhook :: TokenKind where "TokMediaWebhook \<equiv> TokenKind 232"
abbreviation TokMediaRef :: TokenKind where "TokMediaRef \<equiv> TokenKind 233"
abbreviation TokStartSec :: TokenKind where "TokStartSec \<equiv> TokenKind 234"
abbreviation TokEndSec :: TokenKind where "TokEndSec \<equiv> TokenKind 235"
abbreviation TokThreshold :: TokenKind where "TokThreshold \<equiv> TokenKind 236"
abbreviation TokOperator :: TokenKind where "TokOperator \<equiv> TokenKind 237"
abbreviation TokEnabled :: TokenKind where "TokEnabled \<equiv> TokenKind 238"
abbreviation TokProgress :: TokenKind where "TokProgress \<equiv> TokenKind 239"
abbreviation TokComplete :: TokenKind where "TokComplete \<equiv> TokenKind 240"
abbreviation TokPlay :: TokenKind where "TokPlay \<equiv> TokenKind 241"
abbreviation TokPause :: TokenKind where "TokPause \<equiv> TokenKind 242"
abbreviation TokRewatch :: TokenKind where "TokRewatch \<equiv> TokenKind 243"
abbreviation TokPosterURL :: TokenKind where "TokPosterURL \<equiv> TokenKind 244"
abbreviation TokPlayerColor :: TokenKind where "TokPlayerColor \<equiv> TokenKind 245"
abbreviation TokContextPack :: TokenKind where "TokContextPack \<equiv> TokenKind 246"
abbreviation TokSubjectGen :: TokenKind where "TokSubjectGen \<equiv> TokenKind 247"
abbreviation TokBodyGen :: TokenKind where "TokBodyGen \<equiv> TokenKind 248"
abbreviation TokCampaign :: TokenKind where "TokCampaign \<equiv> TokenKind 249"
abbreviation TokOnClick :: TokenKind where "TokOnClick \<equiv> TokenKind 250"
abbreviation TokOnOpen :: TokenKind where "TokOnOpen \<equiv> TokenKind 251"
abbreviation TokTrue :: TokenKind where "TokTrue \<equiv> TokenKind 252"
abbreviation TokFalse :: TokenKind where "TokFalse \<equiv> TokenKind 253"
abbreviation TokNil :: TokenKind where "TokNil \<equiv> TokenKind 254"

text \<open>\<open>tokenNames\<close>: the spelling used in messages.\<close>

definition tokenNames :: "(TokenKind \<times> string) list" where
  "tokenNames = [
     (TokEOF, ''EOF''),
     (TokIllegal, ''ILLEGAL''),
     (TokIdent, ''IDENT''),
     (TokString, ''STRING''),
     (TokInt, ''INT''),
     (TokFloat, ''FLOAT''),
     (TokBool, ''BOOL''),
     (TokDuration, ''DURATION''),
     (TokLBrace, ''{''),
     (TokRBrace, ''}''),
     (TokLParen, ''(''),
     (TokRParen, '')''),
     (TokLBracket, ''[''),
     (TokRBracket, '']''),
     (TokComma, '',''),
     (TokDot, ''.''),
     (TokColon, '':''),
     (TokEquals, ''=''),
     (TokBang, ''!''),
     (TokLT, ''<''),
     (TokGT, ''>''),
     (TokLTEQ, ''<=''),
     (TokGTEQ, ''>=''),
     (TokEQEQ, ''==''),
     (TokNEQ, ''!=''),
     (TokAmpAmp, ''&&''),
     (TokPipePipe, ''||''),
     (TokPlus, ''+''),
     (TokMinus, ''-''),
     (TokStar, ''*''),
     (TokSlash, ''/''),
     (TokStory, ''story''),
     (TokStoryline, ''storyline''),
     (TokEnactment, ''enactment''),
     (TokScene, ''scene''),
     (TokMessage, ''message''),
     (TokTemplate, ''template''),
     (TokEmail, ''email''),
     (TokName, ''name''),
     (TokPriority, ''priority''),
     (TokOrder, ''order''),
     (TokLevel, ''level''),
     (TokAllowInterruption, ''allow_interruption''),
     (TokSkipToNextStorylineOnExpiry, ''skip_to_next_storyline_on_expiry''),
     (TokSubject, ''subject''),
     (TokBody, ''body''),
     (TokFromEmail, ''from_email''),
     (TokFromName, ''from_name''),
     (TokReplyTo, ''reply_to''),
     (TokTags, ''tags''),
     (TokVars, ''vars''),
     (TokOnBegin, ''on_begin''),
     (TokOnComplete, ''on_complete''),
     (TokOnFail, ''on_fail''),
     (TokRequiredBadges, ''required_badges''),
     (TokMustHave, ''must_have''),
     (TokMustNotHave, ''must_not_have''),
     (TokGiveBadge, ''give_badge''),
     (TokRemoveBadge, ''remove_badge''),
     (TokBadge, ''badge''),
     (TokStartTrigger, ''start_trigger''),
     (TokCompleteTrigger, ''complete_trigger''),
     (TokNextStory, ''next_story''),
     (TokNextStoryline, ''next_storyline''),
     (TokNextEnactment, ''next_enactment''),
     (TokAdvanceToNextStoryline, ''advance_to_next_storyline''),
     (TokEndStory, ''end_story''),
     (TokMarkComplete, ''mark_complete''),
     (TokMarkFailed, ''mark_failed''),
     (TokOn, ''on''),
     (TokDo, ''do''),
     (TokWhen, ''when''),
     (TokWithin, ''within''),
     (TokClick, ''click''),
     (TokNotClick, ''not_click''),
     (TokOpen, ''open''),
     (TokNotOpen, ''not_open''),
     (TokSent, ''sent''),
     (TokWebhook, ''webhook''),
     (TokNothing, ''nothing''),
     (TokElse, ''else''),
     (TokBounce, ''bounce''),
     (TokSpam, ''spam''),
     (TokUnsubscribe, ''unsubscribe''),
     (TokFailure, ''failure''),
     (TokEmailValidated, ''email_validated''),
     (TokUserHasTag, ''user_has_tag''),
     (TokSendImmediate, ''send_immediate''),
     (TokWait, ''wait''),
     (TokJumpToEnactment, ''jump_to_enactment''),
     (TokJumpToStoryline, ''jump_to_storyline''),
     (TokNextScene, ''next_scene''),
     (TokPrevScene, ''prev_scene''),
     (TokRetryScene, ''retry_scene''),
     (TokRetryEnactment, ''retry_enactment''),
     (TokLoopToEnactment, ''loop_to_enactment''),
     (TokLoopToStoryline, ''loop_to_storyline''),
     (TokLoopToStartEnactment, ''loop_to_start_enactment''),
     (TokLoopToStartStoryline, ''loop_to_start_storyline''),
     (TokUpTo, ''up_to''),
     (TokTimes, ''times''),
     (TokPersistScope, ''persist_scope''),
     (TokTriggerPriority, ''trigger_priority''),
     (TokConditionalRoute, ''conditional_route''),
     (TokRoute, ''route''),
     (TokHasBadge, ''has_badge''),
     (TokNotHasBadge, ''not_has_badge''),
     (TokHasTag, ''has_tag''),
     (TokNotHasTag, ''not_has_tag''),
     (TokIf, ''if''),
     (TokElseIf, ''else_if''),
     (TokAnd, ''and''),
     (TokOr, ''or''),
     (TokNot, ''not''),
     (TokFor, ''for''),
     (TokIn, ''in''),
     (TokRange, ''range''),
     (TokWhile, ''while''),
     (TokBreak, ''break''),
     (TokContinue, ''continue''),
     (TokDefault, ''default''),
     (TokSender, ''sender''),
     (TokLinks, ''links''),
     (TokPattern, ''pattern''),
     (TokPolicy, ''policy''),
     (TokUse, ''use''),
     (TokAs, ''as''),
     (TokScenes, ''scenes''),
     (TokDotDot, ''..''),
     (TokDollarLBrace, ''${''),
     (TokData, ''data''),
     (TokSceneDefaults, ''scene_defaults''),
     (TokEnactmentDefaults, ''enactment_defaults''),
     (TokFunnel, ''funnel''),
     (TokStage, ''stage''),
     (TokPage, ''page''),
     (TokBlock, ''block''),
     (TokForm, ''form''),
     (TokField, ''field''),
     (TokPath, ''path''),
     (TokDomain, ''domain''),
     (TokAI, ''ai''),
     (TokContext, ''context''),
     (TokGlobal, ''global''),
     (TokExtend, ''extend''),
     (TokLength, ''length''),
     (TokPrompt, ''prompt''),
     (TokSubmit, ''submit''),
     (TokAbandon, ''abandon''),
     (TokPurchase, ''purchase''),
     (TokProductId, ''product_id''),
     (TokType, ''type''),
     (TokCheckout, ''checkout''),
     (TokUpsell, ''upsell''),
     (TokLeadCapture, ''lead_capture''),
     (TokRequired, ''required''),
     (TokNew, ''new''),
     (TokPdf, ''pdf''),
     (TokLeadMagnet, ''lead_magnet''),
     (TokReference, ''reference''),
     (TokJumpToStage, ''jump_to_stage''),
     (TokStartStory, ''start_story''),
     (TokSendEmailAction, ''send_email''),
     (TokRedirect, ''redirect''),
     (TokProvideDownload, ''provide_download''),
     (TokMustHaveBadge, ''must_have_badge''),
     (TokMustNotHaveBadge, ''must_not_have_badge''),
     (TokWatch, ''watch''),
     (TokVideo, ''video''),
     (TokAutoplay, ''autoplay''),
     (TokSourceURL, ''source_url''),
     (TokPercent, ''%''),
     (TokContextPack, ''context_pack''),
     (TokSubjectGen, ''subject_gen''),
     (TokBodyGen, ''body_gen''),
     (TokCampaign, ''campaign''),
     (TokOnClick, ''on_click''),
     (TokOnOpen, ''on_open''),
     (TokTrue, ''true''),
     (TokFalse, ''false''),
     (TokNil, ''nil''),
     (TokSite, ''site''),
     (TokSEO, ''seo''),
     (TokNavigation, ''navigation''),
     (TokHeader, ''header''),
     (TokFooter, ''footer''),
     (TokTheme, ''theme''),
     (TokTitle, ''title''),
     (TokDescription, ''description''),
     (TokModule, ''module''),
     (TokLesson, ''lesson''),
     (TokVideoURL, ''video_url''),
     (TokContent, ''content''),
     (TokDraft, ''draft''),
     (TokInstructor, ''instructor''),
     (TokLMSDuration, ''duration''),
     (TokIsFree, ''is_free''),
     (TokIsDraft, ''is_draft''),
     (TokDripDays, ''drip_days''),
     (TokDripHours, ''drip_hours''),
     (TokDripMinutes, ''drip_minutes''),
     (TokContentGen, ''content_gen''),
     (TokDescriptionGen, ''description_gen''),
     (TokPassThreshold, ''pass_threshold''),
     (TokMaxAttempts, ''max_attempts''),
     (TokOptions, ''options''),
     (TokMultipleChoice, ''multiple_choice''),
     (TokShortAnswer, ''short_answer''),
     (TokCertificate, ''certificate''),
     (TokCourseRef, ''course_ref''),
     (TokCourse, ''course''),
     (TokDurationKw, ''duration''),
     (TokMedia, ''media''),
     (TokPlayerPreset, ''player_preset''),
     (TokChannel, ''channel''),
     (TokChapter, ''chapter''),
     (TokTurnstile, ''turnstile''),
     (TokCTA, ''cta''),
     (TokAnnotation, ''annotation''),
     (TokBadgeRule, ''badge_rule''),
     (TokMediaWebhook, ''media_webhook''),
     (TokMediaRef, ''media_ref''),
     (TokStartSec, ''start_sec''),
     (TokEndSec, ''end_sec''),
     (TokThreshold, ''threshold''),
     (TokOperator, ''operator''),
     (TokEnabled, ''enabled''),
     (TokProgress, ''progress''),
     (TokComplete, ''complete''),
     (TokPlay, ''play''),
     (TokPause, ''pause''),
     (TokRewatch, ''rewatch''),
     (TokPosterURL, ''poster_url''),
     (TokPlayerColor, ''player_color''),
     (TokAudience, ''audience''),
     (TokOutcome, ''outcome''),
     (TokTone, ''tone''),
     (TokDefaultMedia, ''default_media''),
     (TokGenMode, ''mode''),
     (TokProduct, ''product''),
     (TokOffer, ''offer''),
     (TokPricingModel, ''pricing_model''),
     (TokPrice, ''price''),
     (TokCurrency, ''currency''),
     (TokIncludesProduct, ''includes_product''),
     (TokGrantsBadge, ''grants_badge''),
     (TokOrderBump, ''order_bump''),
     (TokOneClickUpsell, ''one_click_upsell''),
     (TokDecline, ''decline''),
     (TokCustom, ''custom''),
     (TokQuiz, ''quiz''),
     (TokQuestion, ''question''),
     (TokAnswer, ''answer''),
     (TokAddScore, ''add_score''),
     (TokScore, ''score'')]"

text \<open>\<open>keywords\<close>: the reserved words.\<close>

definition keyword_table :: "(string \<times> TokenKind) list" where
  "keyword_table = [
     (''story'', TokStory),
     (''storyline'', TokStoryline),
     (''enactment'', TokEnactment),
     (''scene'', TokScene),
     (''message'', TokMessage),
     (''template'', TokTemplate),
     (''email'', TokEmail),
     (''name'', TokName),
     (''priority'', TokPriority),
     (''order'', TokOrder),
     (''level'', TokLevel),
     (''allow_interruption'', TokAllowInterruption),
     (''skip_to_next_storyline_on_expiry'', TokSkipToNextStorylineOnExpiry),
     (''subject'', TokSubject),
     (''body'', TokBody),
     (''from_email'', TokFromEmail),
     (''from_name'', TokFromName),
     (''reply_to'', TokReplyTo),
     (''tags'', TokTags),
     (''vars'', TokVars),
     (''on_begin'', TokOnBegin),
     (''on_complete'', TokOnComplete),
     (''on_fail'', TokOnFail),
     (''required_badges'', TokRequiredBadges),
     (''must_have'', TokMustHave),
     (''must_not_have'', TokMustNotHave),
     (''give_badge'', TokGiveBadge),
     (''remove_badge'', TokRemoveBadge),
     (''badge'', TokBadge),
     (''start_trigger'', TokStartTrigger),
     (''complete_trigger'', TokCompleteTrigger),
     (''next_story'', TokNextStory),
     (''next_storyline'', TokNextStoryline),
     (''next_enactment'', TokNextEnactment),
     (''advance_to_next_storyline'', TokAdvanceToNextStoryline),
     (''end_story'', TokEndStory),
     (''mark_complete'', TokMarkComplete),
     (''mark_failed'', TokMarkFailed),
     (''on'', TokOn),
     (''do'', TokDo),
     (''when'', TokWhen),
     (''within'', TokWithin),
     (''click'', TokClick),
     (''not_click'', TokNotClick),
     (''open'', TokOpen),
     (''not_open'', TokNotOpen),
     (''sent'', TokSent),
     (''webhook'', TokWebhook),
     (''nothing'', TokNothing),
     (''else'', TokElse),
     (''bounce'', TokBounce),
     (''spam'', TokSpam),
     (''unsubscribe'', TokUnsubscribe),
     (''failure'', TokFailure),
     (''email_validated'', TokEmailValidated),
     (''user_has_tag'', TokUserHasTag),
     (''send_immediate'', TokSendImmediate),
     (''wait'', TokWait),
     (''jump_to_enactment'', TokJumpToEnactment),
     (''jump_to_storyline'', TokJumpToStoryline),
     (''next_scene'', TokNextScene),
     (''prev_scene'', TokPrevScene),
     (''retry_scene'', TokRetryScene),
     (''retry_enactment'', TokRetryEnactment),
     (''loop_to_enactment'', TokLoopToEnactment),
     (''loop_to_storyline'', TokLoopToStoryline),
     (''loop_to_start_enactment'', TokLoopToStartEnactment),
     (''loop_to_start_storyline'', TokLoopToStartStoryline),
     (''up_to'', TokUpTo),
     (''times'', TokTimes),
     (''persist_scope'', TokPersistScope),
     (''trigger_priority'', TokTriggerPriority),
     (''conditional_route'', TokConditionalRoute),
     (''route'', TokRoute),
     (''has_badge'', TokHasBadge),
     (''not_has_badge'', TokNotHasBadge),
     (''has_tag'', TokHasTag),
     (''not_has_tag'', TokNotHasTag),
     (''if'', TokIf),
     (''else_if'', TokElseIf),
     (''and'', TokAnd),
     (''or'', TokOr),
     (''not'', TokNot),
     (''for'', TokFor),
     (''in'', TokIn),
     (''range'', TokRange),
     (''while'', TokWhile),
     (''break'', TokBreak),
     (''continue'', TokContinue),
     (''default'', TokDefault),
     (''sender'', TokSender),
     (''links'', TokLinks),
     (''pattern'', TokPattern),
     (''policy'', TokPolicy),
     (''use'', TokUse),
     (''as'', TokAs),
     (''scenes'', TokScenes),
     (''true'', TokTrue),
     (''data'', TokData),
     (''scene_defaults'', TokSceneDefaults),
     (''enactment_defaults'', TokEnactmentDefaults),
     (''funnel'', TokFunnel),
     (''stage'', TokStage),
     (''page'', TokPage),
     (''block'', TokBlock),
     (''form'', TokForm),
     (''field'', TokField),
     (''path'', TokPath),
     (''domain'', TokDomain),
     (''ai'', TokAI),
     (''context'', TokContext),
     (''global'', TokGlobal),
     (''extend'', TokExtend),
     (''length'', TokLength),
     (''prompt'', TokPrompt),
     (''submit'', TokSubmit),
     (''abandon'', TokAbandon),
     (''purchase'', TokPurchase),
     (''product_id'', TokProductId),
     (''type'', TokType),
     (''checkout'', TokCheckout),
     (''upsell'', TokUpsell),
     (''lead_capture'', TokLeadCapture),
     (''required'', TokRequired),
     (''new'', TokNew),
     (''pdf'', TokPdf),
     (''lead_magnet'', TokLeadMagnet),
     (''reference'', TokReference),
     (''jump_to_stage'', TokJumpToStage),
     (''start_story'', TokStartStory),
     (''send_email'', TokSendEmailAction),
     (''redirect'', TokRedirect),
     (''provide_download'', TokProvideDownload),
     (''must_have_badge'', TokMustHaveBadge),
     (''must_not_have_badge'', TokMustNotHaveBadge),
     (''watch'', TokWatch),
     (''video'', TokVideo),
     (''autoplay'', TokAutoplay),
     (''source_url'', TokSourceURL),
     (''false'', TokFalse),
     (''nil'', TokNil),
     (''product'', TokProduct),
     (''offer'', TokOffer),
     (''pricing_model'', TokPricingModel),
     (''price'', TokPrice),
     (''currency'', TokCurrency),
     (''includes_product'', TokIncludesProduct),
     (''grants_badge'', TokGrantsBadge),
     (''order_bump'', TokOrderBump),
     (''one_click_upsell'', TokOneClickUpsell),
     (''decline'', TokDecline),
     (''custom'', TokCustom),
     (''quiz'', TokQuiz),
     (''question'', TokQuestion),
     (''answer'', TokAnswer),
     (''add_score'', TokAddScore),
     (''score'', TokScore),
     (''site'', TokSite),
     (''seo'', TokSEO),
     (''navigation'', TokNavigation),
     (''header'', TokHeader),
     (''footer'', TokFooter),
     (''theme'', TokTheme),
     (''title'', TokTitle),
     (''description'', TokDescription),
     (''module'', TokModule),
     (''lesson'', TokLesson),
     (''video_url'', TokVideoURL),
     (''content'', TokContent),
     (''draft'', TokDraft),
     (''instructor'', TokInstructor),
     (''duration'', TokDurationKw),
     (''is_free'', TokIsFree),
     (''is_draft'', TokIsDraft),
     (''drip_days'', TokDripDays),
     (''drip_hours'', TokDripHours),
     (''drip_minutes'', TokDripMinutes),
     (''content_gen'', TokContentGen),
     (''description_gen'', TokDescriptionGen),
     (''pass_threshold'', TokPassThreshold),
     (''max_attempts'', TokMaxAttempts),
     (''options'', TokOptions),
     (''multiple_choice'', TokMultipleChoice),
     (''short_answer'', TokShortAnswer),
     (''certificate'', TokCertificate),
     (''course_ref'', TokCourseRef),
     (''course'', TokCourse),
     (''audience'', TokAudience),
     (''outcome'', TokOutcome),
     (''tone'', TokTone),
     (''default_media'', TokDefaultMedia),
     (''mode'', TokGenMode),
     (''media'', TokMedia),
     (''player_preset'', TokPlayerPreset),
     (''channel'', TokChannel),
     (''chapter'', TokChapter),
     (''turnstile'', TokTurnstile),
     (''cta'', TokCTA),
     (''annotation'', TokAnnotation),
     (''badge_rule'', TokBadgeRule),
     (''media_webhook'', TokMediaWebhook),
     (''media_ref'', TokMediaRef),
     (''start_sec'', TokStartSec),
     (''end_sec'', TokEndSec),
     (''threshold'', TokThreshold),
     (''operator'', TokOperator),
     (''enabled'', TokEnabled),
     (''progress'', TokProgress),
     (''complete'', TokComplete),
     (''play'', TokPlay),
     (''pause'', TokPause),
     (''rewatch'', TokRewatch),
     (''poster_url'', TokPosterURL),
     (''player_color'', TokPlayerColor),
     (''context_pack'', TokContextPack),
     (''subject_gen'', TokSubjectGen),
     (''body_gen'', TokBodyGen),
     (''campaign'', TokCampaign),
     (''on_click'', TokOnClick),
     (''on_open'', TokOnOpen)]"

definition TokenKind_String :: "TokenKind \<Rightarrow> string" where
  "TokenKind_String k =
     (case map_of tokenNames k of
        Some s \<Rightarrow> s
      | None \<Rightarrow> ''TokenKind('' @ itoa_nat (kind_code k) @ '')'')"

record Token =
  Kind :: TokenKind
  Literal :: string
  tok_Pos :: Pos

definition LookupIdent :: "string \<Rightarrow> TokenKind" where
  "LookupIdent ident = (case map_of keyword_table ident of Some tok \<Rightarrow> tok | None \<Rightarrow> TokIdent)"

section \<open>What the tables promise\<close>

text \<open>The kinds the lexer produces by itself and never through the keyword table.\<close>

definition lexer_kinds :: "TokenKind set" where
  "lexer_kinds =
     {TokEOF, TokIllegal, TokIdent, TokString, TokInt, TokFloat, TokBool, TokDuration}"

lemma keyword_kinds_reserved: "list_all (\<lambda>(w, k). k \<notin> lexer_kinds) keyword_table"
  unfolding keyword_table_def lexer_kinds_def by code_simp

lemma keyword_ident_chars:
  "list_all (\<lambda>(w, k). w \<noteq> [] \<and> list_all (\<lambda>c. c = CHR ''_'' \<or> CHR ''a'' \<le> c \<and> c \<le> CHR ''z'') w)
     keyword_table"
  unfolding keyword_table_def by code_simp

lemma keyword_in_table: "map_of keyword_table w = Some k \<Longrightarrow> (w, k) \<in> set keyword_table"
  by (rule map_of_SomeD)

lemma LookupIdent_reserved: "LookupIdent w \<noteq> TokIdent \<Longrightarrow> LookupIdent w \<notin> lexer_kinds"
  using keyword_kinds_reserved
  by (auto simp: LookupIdent_def list_all_iff split: option.splits dest!: keyword_in_table)

lemma LookupIdent_kinds:
  "LookupIdent w \<noteq> TokEOF" "LookupIdent w \<noteq> TokIllegal" "LookupIdent w \<noteq> TokString"
  "LookupIdent w \<noteq> TokInt" "LookupIdent w \<noteq> TokFloat" "LookupIdent w \<noteq> TokBool"
  "LookupIdent w \<noteq> TokDuration"
  using LookupIdent_reserved [of w] by (auto simp: lexer_kinds_def)

lemma LookupIdent_keyword:
  assumes "LookupIdent w \<noteq> TokIdent"
  shows "map_of keyword_table w = Some (LookupIdent w)"
  using assms by (simp add: LookupIdent_def split: option.splits)

end
