(* ===== verification/GoFloat.thy ===== *)
theory GoFloat
  imports GoStrings
begin

text \<open>
  Go's \<open>float64\<close> as far as the prices of a script need it. A finite value is
  \<open>m * 2 ^ e\<close> for integers \<open>m\<close> and \<open>e\<close>; the lexer produces no sign and no NaN, so the
  only other value is the positive overflow.
\<close>

datatype float64 = Finite (f_mant: int) (f_exp: int) | PosInf

definition float_zero :: float64 where
  "float_zero = Finite 0 0"

section \<open>Rounding\<close>

text \<open>The number of binary digits of a number.\<close>

fun bits :: "nat \<Rightarrow> nat" where
  "bits n = (if n = 0 then 0 else Suc (bits (n div 2)))"

declare bits.simps [simp del]

text \<open>The integer nearest to \<open>n / d\<close>, the even one of two.\<close>

definition round_even :: "nat \<Rightarrow> nat \<Rightarrow> nat" where
  "round_even n d =
     (let q = n div d; r = n mod d in
      if 2 * r > d \<or> 2 * r = d \<and> odd q then q + 1 else q)"

text \<open>\<open>n / d / 2 ^ e\<close> as a fraction.\<close>

definition scale_down :: "nat \<Rightarrow> nat \<Rightarrow> int \<Rightarrow> nat \<times> nat" where
  "scale_down n d e = (if 0 \<le> e then (n, d * 2 ^ nat e) else (n * 2 ^ nat (- e), d))"

text \<open>The exponent that leaves 53 binary digits of \<open>n / d\<close>, or the smallest one there is.\<close>

definition float_exp :: "nat \<Rightarrow> nat \<Rightarrow> int" where
  "float_exp n d =
     (let e = int (bits n) - int (bits d) - 53; (a, b) = scale_down n d e in
      max (if b * 2 ^ 53 \<le> a then e + 1 else e) (- 1074))"

text \<open>The \<open>float64\<close> nearest to \<open>n / d\<close>, ties to even.\<close>

definition float_of_ratio :: "nat \<Rightarrow> nat \<Rightarrow> float64" where
  "float_of_ratio n d =
     (if n = 0 then float_zero
      else (let e = float_exp n d; (a, b) = scale_down n d e; m = round_even a b in
            if bits m + nat (e + 1074) > 2098 then PosInf else Finite (int m) e))"

text \<open>The conversion \<open>float64(i)\<close>.\<close>

definition float_of_int :: "int \<Rightarrow> float64" where
  "float_of_int i =
     (if 0 \<le> i then float_of_ratio (nat i) 1
      else (case float_of_ratio (nat (- i)) 1 of Finite m e \<Rightarrow> Finite (- m) e | PosInf \<Rightarrow> PosInf))"

text \<open>The \<open>float64\<close> nearest to \<open>m * 2 ^ e\<close>.\<close>

definition float_of_dyadic :: "nat \<Rightarrow> int \<Rightarrow> float64" where
  "float_of_dyadic m e = (if 0 \<le> e then float_of_ratio (m * 2 ^ nat e) 1 else float_of_ratio m (2 ^ nat (- e)))"

text \<open>The product of a float with a positive constant.\<close>

definition float_times :: "float64 \<Rightarrow> nat \<Rightarrow> float64" where
  "float_times f k =
     (case f of
        Finite m e \<Rightarrow>
          (if 0 \<le> m then float_of_dyadic (nat m * k) e
           else (case float_of_dyadic (nat (- m) * k) e of Finite m' e' \<Rightarrow> Finite (- m') e' | PosInf \<Rightarrow> PosInf))
      | PosInf \<Rightarrow> PosInf)"

text \<open>The whole part of \<open>m * 2 ^ e\<close>.\<close>

definition trunc_int :: "int \<Rightarrow> int \<Rightarrow> int" where
  "trunc_int m e =
     (if 0 \<le> e then m * 2 ^ nat e
      else if 0 \<le> m then m div 2 ^ nat (- e) else - (- m div 2 ^ nat (- e)))"

text \<open>
  \<open>strconv.ParseFloat(s, 64)\<close> on the literals of the lexer, digits with a point: the value
  and whether there is no error. Any other text is a syntax error, a value out of range
  comes with an error.
\<close>

definition ParseFloat :: "string \<Rightarrow> float64 \<times> bool" where
  "ParseFloat s =
     (let whole = takeWhile ascii_digit s; rest = drop (length whole) s;
          frac = (if rest \<noteq> [] \<and> hd rest = CHR ''.'' then tl rest else []) in
      if (rest = [] \<or> hd rest = CHR ''.'') \<and> list_all ascii_digit frac \<and> whole @ frac \<noteq> []
      then (let f = float_of_ratio (digits_val (whole @ frac)) (10 ^ length frac) in (f, f \<noteq> PosInf))
      else (float_zero, False))"

end
