(* ===== verification/Ast.thy ===== *)
theory Ast
  imports Tokens GoFloat
begin

text \<open>
  The syntax tree of a script (\<open>src/scripting/ast.go\<close>). Every node keeps the fields of its
  struct in their order, with the embedded \<open>NodeBase\<close> as the leading position field; the
  field names carry a prefix that names their node. A node that no other node contains
  recursively is a record; actions (retry fallbacks), conditions (and/or/not) and the
  storylines with the loops that generate them are datatypes with the fields as selectors.
  A slice is a list, so a nil slice and an empty one are the same value, and a
  \<open>map[string]string\<close> is an association list, a nil map the empty one: the code below the
  tree only ranges over them, indexes them and tests whether they are nil before it copies
  them.
\<close>

text \<open>The answer of a quiz question is an \<open>interface{}\<close>: nil, an option's index or a text.\<close>

datatype QuizAnswer = AnswerNil | AnswerIndex int | AnswerText string

section \<open>Scenes, badges, conditions, actions and triggers\<close>

record CertificateNode =
  ce_Pos :: Pos
  ce_CourseRef :: string
  ce_Template :: string

record SceneNode =
  sc_Pos :: Pos
  sc_Name :: string
  sc_Subject :: string
  sc_Body :: string
  sc_FromEmail :: string
  sc_FromName :: string
  sc_ReplyTo :: string
  sc_TemplateName :: string
  sc_Vars :: "string gomap"
  sc_Tags :: "string list"
  sc_Certificate :: "CertificateNode option"
  sc_ContextPackRefs :: "string list"
  sc_SubjectGen :: string
  sc_BodyGen :: string

record RequiredBadgesNode =
  rb_Pos :: Pos
  rb_MustHave :: "string list"
  rb_MustNotHave :: "string list"

record BadgeTransactionNode =
  bt_Pos :: Pos
  bt_GiveBadges :: "string list"
  bt_RemoveBadges :: "string list"

record DurationNode =
  du_Pos :: Pos
  du_Amount :: int
  du_Unit :: string
  du_RawValue :: string

datatype ActionNode =
  ActionNode
    (ac_Pos: Pos)
    (ac_ActionType: string)
    (ac_Target: string)
    (ac_SendImmediate: "bool option")
    (ac_Wait: "DurationNode option")
    (ac_BadgeTransaction: "BadgeTransactionNode option")
    (ac_Unsubscribe: bool)
    (ac_EndStory: bool)
    (ac_MarkComplete: bool)
    (ac_MarkFailed: bool)
    (ac_AdvanceToNextStoryline: bool)
    (ac_RetryMaxCount: "int option")
    (ac_RetryFallback: "ActionNode list")

datatype ConditionNode =
  ConditionNode
    (cd_Pos: Pos)
    (cd_ConditionType: string)
    (cd_Value: string)
    (cd_Children: "ConditionNode list")

record TriggerNode =
  tr_Pos :: Pos
  tr_TriggerType :: string
  tr_UserActionValue :: string
  tr_Within :: "DurationNode option"
  tr_Priority :: "int option"
  tr_PersistScope :: string
  tr_MarkComplete :: bool
  tr_MarkFailed :: bool
  tr_RequiredBadges :: "RequiredBadgesNode option"
  tr_Conditions :: "ConditionNode list"
  tr_Actions :: "ActionNode list"
  tr_ElseActions :: "ActionNode list"
  tr_WatchBlockID :: string
  tr_WatchOperator :: string
  tr_WatchPercent :: int

section \<open>Enactments, storylines and loops\<close>

record UseStatementNode =
  us_Pos :: Pos
  us_Kind :: string
  us_Target :: string
  us_Args :: "string list"

record ScenesRangeNode =
  sr_Pos :: Pos
  sr_RangeStart :: int
  sr_RangeEnd :: int
  sr_Variable :: string
  sr_Body :: "SceneNode option"

record EnactmentNode =
  en_Pos :: Pos
  en_Name :: string
  en_Level :: "int option"
  en_LevelExpr :: string
  en_Order :: "int option"
  en_OrderExpr :: string
  en_SkipToNextStorylineOnExpiry :: "bool option"
  en_Scenes :: "SceneNode list"
  en_Triggers :: "TriggerNode list"
  en_UseStatements :: "UseStatementNode list"
  en_ScenesRange :: "ScenesRangeNode option"

record LifecycleBlock =
  lb_Pos :: Pos
  lb_BadgeTransaction :: "BadgeTransactionNode option"

record ConditionalRouteNode =
  crt_Pos :: Pos
  crt_RequiredBadges :: "RequiredBadgesNode option"
  crt_NextStoryline :: string
  crt_Priority :: "int option"

record StorylineCompleteBlock =
  slc_Pos :: Pos
  slc_BadgeTransaction :: "BadgeTransactionNode option"
  slc_NextStoryline :: string
  slc_ConditionalRoutes :: "ConditionalRouteNode list"

record StorylineFailBlock =
  slf_Pos :: Pos
  slf_BadgeTransaction :: "BadgeTransactionNode option"
  slf_NextStoryline :: string
  slf_ConditionalRoutes :: "ConditionalRouteNode list"

record DataObjectLiteral =
  dob_Pos :: Pos
  dob_Fields :: "string gomap"

datatype StorylineNode =
  StorylineNode
    (sl_Pos: Pos)
    (sl_Name: string)
    (sl_Order: "int option")
    (sl_OrderExpr: string)
    (sl_RequiredBadges: "RequiredBadgesNode option")
    (sl_OnBegin: "LifecycleBlock option")
    (sl_OnComplete: "StorylineCompleteBlock option")
    (sl_OnFail: "StorylineFailBlock option")
    (sl_Enactments: "EnactmentNode list")
    (sl_ForLoops: "ForNode list")
    (sl_UseStatements: "UseStatementNode list")
and ForNode =
  ForNode
    (fl_Pos: Pos)
    (fl_Variable: string)
    (fl_DataRef: string)
    (fl_Items: "string list")
    (fl_ObjectItems: "DataObjectLiteral list")
    (fl_RangeStart: int)
    (fl_RangeEnd: int)
    (fl_IsRange: bool)
    (fl_Body: "StorylineNode list")
    (fl_BodyEnactments: "EnactmentNode list")
    (fl_BodyScenes: "SceneNode list")
    (fl_BodyUseStatements: "UseStatementNode list")

section \<open>Stories and campaigns\<close>

record OnCompleteBlock =
  oc_Pos :: Pos
  oc_BadgeTransaction :: "BadgeTransactionNode option"
  oc_NextStory :: string

record OnFailBlock =
  ofb_Pos :: Pos
  ofb_BadgeTransaction :: "BadgeTransactionNode option"
  ofb_NextStory :: string

record DefaultSenderNode =
  ds_Pos :: Pos
  ds_Name :: string
  ds_FromEmail :: string
  ds_FromName :: string
  ds_ReplyTo :: string

record StoryNode =
  st_Pos :: Pos
  st_Name :: string
  st_Priority :: "int option"
  st_AllowInterruption :: "bool option"
  st_OnBegin :: "LifecycleBlock option"
  st_OnComplete :: "OnCompleteBlock option"
  st_OnFail :: "OnFailBlock option"
  st_RequiredBadges :: "RequiredBadgesNode option"
  st_StartTrigger :: "string option"
  st_CompleteTrigger :: "string option"
  st_Storylines :: "StorylineNode list"
  st_ForLoops :: "ForNode list"
  st_DefaultSender :: "DefaultSenderNode option"
  st_UseStatements :: "UseStatementNode list"

record CampaignAudienceNode =
  ca_Pos :: Pos
  ca_MustHave :: "string list"
  ca_MustNotHave :: "string list"

record CampaignClickRuleNode =
  cr_Pos :: Pos
  cr_URLPattern :: string
  cr_AwardBadge :: string

record CampaignNode =
  cp_Pos :: Pos
  cp_Name :: string
  cp_Subject :: string
  cp_Body :: string
  cp_FromEmail :: string
  cp_FromName :: string
  cp_ReplyTo :: string
  cp_ContextPackRefs :: "string list"
  cp_SubjectGen :: string
  cp_BodyGen :: string
  cp_Audience :: "CampaignAudienceNode option"
  cp_OnClick :: "CampaignClickRuleNode list"

section \<open>Data blocks, defaults, patterns and policies\<close>

record DataBlockNode =
  db_Pos :: Pos
  db_Name :: string
  db_Items :: "DataObjectLiteral list"

record SceneDefaultsNode =
  sd_Pos :: Pos
  sd_Triggers :: "TriggerNode list"
  sd_UseStatements :: "UseStatementNode list"

record EnactmentDefaultsNode =
  ed_Pos :: Pos
  ed_Triggers :: "TriggerNode list"
  ed_UseStatements :: "UseStatementNode list"

record LinksBlockNode =
  lk_Pos :: Pos
  lk_Links :: "string gomap"

record PatternDefNode =
  pat_Pos :: Pos
  pat_Name :: string
  pat_Params :: "string list"
  pat_Enactments :: "EnactmentNode list"
  pat_Scenes :: "SceneNode list"
  pat_Triggers :: "TriggerNode list"
  pat_ScenesRange :: "ScenesRangeNode option"

record PolicyDefNode =
  pol_Pos :: Pos
  pol_Name :: string
  pol_Params :: "string list"
  pol_Triggers :: "TriggerNode list"

section \<open>Funnels\<close>

record LeadMagnetNode =
  lm_Pos :: Pos
  lm_AssetType :: string
  lm_References :: "string list"
  lm_Instruction :: string
  lm_Theme :: string

record ContentGenNode =
  cg_Pos :: Pos
  cg_Length :: string
  cg_ContextURLs :: "string list"
  cg_PromptAppend :: string

record AIContextNode =
  ai_Pos :: Pos
  ai_Mode :: string
  ai_ContextURLs :: "string list"
  ai_ContextRefs :: "string list"

record BlockNode =
  bl_Pos :: Pos
  bl_SectionID :: string
  bl_BlockType :: string
  bl_SourceURL :: string
  bl_MediaPublicId :: string
  bl_PlayerPresetId :: string
  bl_Autoplay :: bool
  bl_ContentGen :: "ContentGenNode option"
  bl_AIContext :: "AIContextNode option"

record FormFieldNode =
  ff_Pos :: Pos
  ff_FieldName :: string
  ff_FieldType :: string
  ff_Required :: bool
  ff_CustomField :: string

record OrderBumpNode =
  ob_Pos :: Pos
  ob_Name :: string
  ob_OfferID :: string
  ob_Text :: string

record FormNode =
  fm_Pos :: Pos
  fm_Name :: string
  fm_FormType :: string
  fm_Fields :: "FormFieldNode list"
  fm_ProductID :: string
  fm_OfferID :: string
  fm_OrderBumps :: "OrderBumpNode list"

record PageNode =
  pg_Pos :: Pos
  pg_Name :: string
  pg_TemplateName :: string
  pg_Blocks :: "BlockNode list"
  pg_Forms :: "FormNode list"
  pg_AIContext :: "AIContextNode option"
  pg_LeadMagnets :: "LeadMagnetNode list"

record PDFConfigNode =
  pdf_Pos :: Pos
  pdf_AIGenerated :: bool
  pdf_AIContext :: "AIContextNode option"

record StageNode =
  sg_Pos :: Pos
  sg_Name :: string
  sg_Order :: "int option"
  sg_Path :: string
  sg_Pages :: "PageNode list"
  sg_Triggers :: "TriggerNode list"
  sg_PDFConfig :: "PDFConfigNode option"
  sg_LeadMagnets :: "LeadMagnetNode list"

record RouteNode =
  rt_Pos :: Pos
  rt_Name :: string
  rt_Order :: "int option"
  rt_RequiredBadges :: "RequiredBadgesNode option"
  rt_Stages :: "StageNode list"

record FunnelNode =
  fn_Pos :: Pos
  fn_Name :: string
  fn_Domain :: string
  fn_AIContext :: "AIContextNode option"
  fn_Routes :: "RouteNode list"

section \<open>Courses and products\<close>

record LMSContentGenNode =
  lcg_Pos :: Pos
  lcg_Instruction :: string
  lcg_References :: "string list"
  lcg_Theme :: string

record LessonNode =
  ls_Pos :: Pos
  ls_Slug :: string
  ls_Title :: string
  ls_Order :: int
  ls_VideoURL :: string
  ls_MediaPublicId :: string
  ls_Duration :: string
  ls_ContentHTML :: string
  ls_ContentGen :: "LMSContentGenNode option"
  ls_IsFree :: bool
  ls_IsDraft :: bool
  ls_DripDays :: int
  ls_DripHours :: int
  ls_DripMinutes :: int
  ls_VideoMode :: string
  ls_VideoStubScript :: string
  ls_VideoStubDescription :: string
  ls_ContentMarkdown :: string

record LMSQuestionNode =
  lqn_Pos :: Pos
  lqn_Slug :: string
  lqn_Type :: string
  lqn_Title :: string
  lqn_Options :: "string list"
  lqn_Answer :: QuizAnswer

record LMSQuizNode =
  lq_Pos :: Pos
  lq_Slug :: string
  lq_Title :: string
  lq_PassThreshold :: int
  lq_MaxAttempts :: int
  lq_Questions :: "LMSQuestionNode list"

record ModuleNode =
  mo_Pos :: Pos
  mo_Slug :: string
  mo_Title :: string
  mo_Order :: int
  mo_Lessons :: "LessonNode list"
  mo_Quizzes :: "LMSQuizNode list"

record DescriptionGenNode =
  dg_Pos :: Pos
  dg_Instruction :: string
  dg_References :: "string list"

record ProductDeclNode =
  pd_Pos :: Pos
  pd_Name :: string
  pd_ProductType :: string
  pd_Title :: string
  pd_Description :: string
  pd_Instructor :: string
  pd_ThumbnailURL :: string
  pd_Status :: string
  pd_DescriptionGen :: "DescriptionGenNode option"
  pd_Modules :: "ModuleNode list"

section \<open>Offers and quizzes\<close>

record OfferDeclNode =
  off_Pos :: Pos
  off_Name :: string
  off_PricingModel :: string
  off_Price :: float64
  off_Currency :: string
  off_IncludedProducts :: "string list"
  off_GrantedBadges :: "string list"
  off_OnPurchase :: "LifecycleBlock option"

record AnswerNode =
  an_Pos :: Pos
  an_Text :: string
  an_AddScore :: int

record QuestionNode =
  qn_Pos :: Pos
  qn_Text :: string
  qn_Answers :: "AnswerNode list"

record ScoreRuleNode =
  sru_Pos :: Pos
  sru_Operator :: string
  sru_Threshold :: int
  sru_Actions :: "ActionNode list"

record QuizOnCompleteNode =
  qc_Pos :: Pos
  qc_ScoreRules :: "ScoreRuleNode list"

record QuizNode =
  qz_Pos :: Pos
  qz_Name :: string
  qz_Questions :: "QuestionNode list"
  qz_OnComplete :: "QuizOnCompleteNode option"

section \<open>Sites\<close>

record SEONode =
  seo_Pos :: Pos
  seo_MetaTitle :: string
  seo_MetaDescription :: string
  seo_OpenGraphImageURL :: string

record NavigationNode =
  nv_Pos :: Pos
  nv_HeaderLinks :: "string gomap"
  nv_FooterLinks :: "string gomap"

record SiteNode =
  si_Pos :: Pos
  si_Name :: string
  si_Domain :: string
  si_Theme :: string
  si_SEO :: "SEONode option"
  si_Navigation :: "NavigationNode option"
  si_Pages :: "PageNode list"

section \<open>Courses as declarations\<close>

record CourseCertConfigNode =
  cc_Pos :: Pos
  cc_Enabled :: bool
  cc_TemplateName :: string
  cc_Title :: string
  cc_LogoURL :: string
  cc_AccentColor :: string

record CourseDeclNode =
  co_Pos :: Pos
  co_Name :: string
  co_Description :: string
  co_Instructor :: string
  co_ThumbnailURL :: string
  co_Status :: string
  co_Mode :: string
  co_DescriptionGen :: "DescriptionGenNode option"
  co_Modules :: "ModuleNode list"
  co_CertConfig :: "CourseCertConfigNode option"
  co_Audience :: string
  co_Outcome :: string
  co_Tone :: string
  co_ExtraContext :: string
  co_References :: "string list"
  co_DefaultMedia :: string

section \<open>Media\<close>

record ChapterDeclNode =
  ch_Pos :: Pos
  ch_Title :: string
  ch_StartSec :: int
  ch_EndSec :: int

record InteractionDeclNode =
  inr_Pos :: Pos
  inr_Kind :: string
  inr_StartSec :: int
  inr_EndSec :: int
  inr_Required :: bool
  inr_Fields :: "string list"
  inr_Text :: string
  inr_URL :: string
  inr_ButtonText :: string

record BadgeRuleDeclNode =
  br_Pos :: Pos
  br_EventName :: string
  br_Operator :: string
  br_Threshold :: int
  br_BadgeName :: string
  br_Enabled :: bool

record MediaDeclNode =
  md_Pos :: Pos
  md_Name :: string
  md_Title :: string
  md_Description :: string
  md_Kind :: string
  md_SourceURL :: string
  md_PosterURL :: string
  md_Chapters :: "ChapterDeclNode list"
  md_Interactions :: "InteractionDeclNode list"
  md_BadgeRules :: "BadgeRuleDeclNode list"
  md_PlayerPreset :: string
  md_Tags :: "string list"
  md_Folder :: string

record PlayerPresetDeclNode =
  pp_Pos :: Pos
  pp_Name :: string
  pp_PlayerColor :: string
  pp_ShowControls :: bool
  pp_ShowRewind :: bool
  pp_ShowFastForward :: bool
  pp_ShowSkip :: bool
  pp_ShowDownload :: bool
  pp_HideProgressBar :: bool
  pp_ShowBigPlayButton :: bool
  pp_AllowFullscreen :: bool
  pp_AllowPlaybackRate :: bool
  pp_AllowSeeking :: bool
  pp_Autoplay :: bool
  pp_MutedDefault :: bool
  pp_DisablePause :: bool
  pp_Loop :: bool
  pp_EndBehavior :: string
  pp_RoundedPlayer :: bool
  pp_ChapterStyle :: string
  pp_ChapterPosition :: string
  pp_ChapterClickJump :: bool

record ChannelDeclNode =
  cn_Pos :: Pos
  cn_Name :: string
  cn_Title :: string
  cn_Description :: string
  cn_Layout :: string
  cn_Theme :: string
  cn_Items :: "string list"

record MediaWebhookDeclNode =
  mw_Pos :: Pos
  mw_Name :: string
  mw_URL :: string
  mw_EventTypes :: "string list"
  mw_Enabled :: bool

section \<open>The script\<close>

record ScriptAST =
  ast_Pos :: Pos
  ast_DefaultSenders :: "DefaultSenderNode list"
  ast_Links :: "LinksBlockNode option"
  ast_Patterns :: "PatternDefNode list"
  ast_Policies :: "PolicyDefNode list"
  ast_DataBlocks :: "DataBlockNode list"
  ast_SceneDefaults :: "SceneDefaultsNode option"
  ast_EnactmentDefaults :: "EnactmentDefaultsNode option"
  ast_Stories :: "StoryNode list"
  ast_Funnels :: "FunnelNode list"
  ast_Sites :: "SiteNode list"
  ast_Products :: "ProductDeclNode list"
  ast_Offers :: "OfferDeclNode list"
  ast_Quizzes :: "QuizNode list"
  ast_Courses :: "CourseDeclNode list"
  ast_MediaDecls :: "MediaDeclNode list"
  ast_PlayerPresets :: "PlayerPresetDeclNode list"
  ast_ChannelDecls :: "ChannelDeclNode list"
  ast_MediaWebhookDecls :: "MediaWebhookDeclNode list"
  ast_Campaigns :: "CampaignNode list"


section \<open>Assignments to the fields of the recursive nodes\<close>

text \<open>The assignments \<open>sl.Order = ...\<close> and the like, for the nodes that are datatypes.\<close>

primrec set_sl_Order :: "int option \<Rightarrow> StorylineNode \<Rightarrow> StorylineNode" where
  "set_sl_Order v (StorylineNode p n ord oe rb ob oc ofl ens fls us) =
     StorylineNode p n v oe rb ob oc ofl ens fls us"

text \<open>\<open>sl.ForLoops = nil; sl.Enactments = ens; sl.UseStatements = nil\<close>\<close>

primrec set_sl_expanded :: "EnactmentNode list \<Rightarrow> StorylineNode \<Rightarrow> StorylineNode" where
  "set_sl_expanded ens' (StorylineNode p n ord oe rb ob oc ofl ens fls us) =
     StorylineNode p n ord oe rb ob oc ofl ens' [] []"

primrec set_sl_Enactments :: "EnactmentNode list \<Rightarrow> StorylineNode \<Rightarrow> StorylineNode" where
  "set_sl_Enactments ens' (StorylineNode p n ord oe rb ob oc ofl ens fls us) =
     StorylineNode p n ord oe rb ob oc ofl ens' fls us"

lemma set_sl_Order_sels [simp]:
  "sl_Pos (set_sl_Order v sl) = sl_Pos sl" "sl_Name (set_sl_Order v sl) = sl_Name sl"
  "sl_Order (set_sl_Order v sl) = v" "sl_OrderExpr (set_sl_Order v sl) = sl_OrderExpr sl"
  "sl_RequiredBadges (set_sl_Order v sl) = sl_RequiredBadges sl"
  "sl_OnBegin (set_sl_Order v sl) = sl_OnBegin sl"
  "sl_OnComplete (set_sl_Order v sl) = sl_OnComplete sl"
  "sl_OnFail (set_sl_Order v sl) = sl_OnFail sl"
  "sl_Enactments (set_sl_Order v sl) = sl_Enactments sl"
  "sl_ForLoops (set_sl_Order v sl) = sl_ForLoops sl"
  "sl_UseStatements (set_sl_Order v sl) = sl_UseStatements sl"
  by (cases sl; simp)+

lemma set_sl_expanded_sels [simp]:
  "sl_Pos (set_sl_expanded ens sl) = sl_Pos sl" "sl_Name (set_sl_expanded ens sl) = sl_Name sl"
  "sl_Order (set_sl_expanded ens sl) = sl_Order sl"
  "sl_RequiredBadges (set_sl_expanded ens sl) = sl_RequiredBadges sl"
  "sl_OnBegin (set_sl_expanded ens sl) = sl_OnBegin sl"
  "sl_OnComplete (set_sl_expanded ens sl) = sl_OnComplete sl"
  "sl_OnFail (set_sl_expanded ens sl) = sl_OnFail sl"
  "sl_Enactments (set_sl_expanded ens sl) = ens"
  "sl_ForLoops (set_sl_expanded ens sl) = []"
  "sl_UseStatements (set_sl_expanded ens sl) = []"
  by (cases sl; simp)+

lemma set_sl_Enactments_sels [simp]:
  "sl_Pos (set_sl_Enactments ens sl) = sl_Pos sl" "sl_Name (set_sl_Enactments ens sl) = sl_Name sl"
  "sl_Order (set_sl_Enactments ens sl) = sl_Order sl"
  "sl_Enactments (set_sl_Enactments ens sl) = ens"
  "sl_ForLoops (set_sl_Enactments ens sl) = sl_ForLoops sl"
  "sl_UseStatements (set_sl_Enactments ens sl) = sl_UseStatements sl"
  by (cases sl; simp)+

section \<open>Zero values\<close>

text \<open>
  What Go's \<open>&StoryNode{}\<close> holds: the parser starts every node from its zero value, and the
  concrete scripts of the witnesses name only the fields that differ from it.
\<close>

named_theorems zero_simps

definition zero_CertificateNode :: CertificateNode where [zero_simps]:
  "zero_CertificateNode =
     \<lparr>ce_Pos = zero_Pos, ce_CourseRef = [], ce_Template = []\<rparr>"

definition zero_SceneNode :: SceneNode where [zero_simps]:
  "zero_SceneNode =
     \<lparr>sc_Pos = zero_Pos, sc_Name = [], sc_Subject = [], sc_Body = [], sc_FromEmail = [],
      sc_FromName = [], sc_ReplyTo = [], sc_TemplateName = [], sc_Vars = [], sc_Tags = [],
      sc_Certificate = None, sc_ContextPackRefs = [], sc_SubjectGen = [], sc_BodyGen = []\<rparr>"

definition zero_RequiredBadgesNode :: RequiredBadgesNode where [zero_simps]:
  "zero_RequiredBadgesNode =
     \<lparr>rb_Pos = zero_Pos, rb_MustHave = [], rb_MustNotHave = []\<rparr>"

definition zero_BadgeTransactionNode :: BadgeTransactionNode where [zero_simps]:
  "zero_BadgeTransactionNode =
     \<lparr>bt_Pos = zero_Pos, bt_GiveBadges = [], bt_RemoveBadges = []\<rparr>"

definition zero_DurationNode :: DurationNode where [zero_simps]:
  "zero_DurationNode =
     \<lparr>du_Pos = zero_Pos, du_Amount = 0, du_Unit = [], du_RawValue = []\<rparr>"

definition zero_ActionNode :: ActionNode where [zero_simps]:
  "zero_ActionNode =
     ActionNode zero_Pos [] [] None None None False False False False False None []"

definition zero_ConditionNode :: ConditionNode where [zero_simps]:
  "zero_ConditionNode =
     ConditionNode zero_Pos [] [] []"

definition zero_TriggerNode :: TriggerNode where [zero_simps]:
  "zero_TriggerNode =
     \<lparr>tr_Pos = zero_Pos, tr_TriggerType = [], tr_UserActionValue = [], tr_Within = None,
      tr_Priority = None, tr_PersistScope = [], tr_MarkComplete = False, tr_MarkFailed = False,
      tr_RequiredBadges = None, tr_Conditions = [], tr_Actions = [], tr_ElseActions = [],
      tr_WatchBlockID = [], tr_WatchOperator = [], tr_WatchPercent = 0\<rparr>"

definition zero_UseStatementNode :: UseStatementNode where [zero_simps]:
  "zero_UseStatementNode =
     \<lparr>us_Pos = zero_Pos, us_Kind = [], us_Target = [], us_Args = []\<rparr>"

definition zero_ScenesRangeNode :: ScenesRangeNode where [zero_simps]:
  "zero_ScenesRangeNode =
     \<lparr>sr_Pos = zero_Pos, sr_RangeStart = 0, sr_RangeEnd = 0, sr_Variable = [], sr_Body =
      None\<rparr>"

definition zero_EnactmentNode :: EnactmentNode where [zero_simps]:
  "zero_EnactmentNode =
     \<lparr>en_Pos = zero_Pos, en_Name = [], en_Level = None, en_LevelExpr = [], en_Order = None,
      en_OrderExpr = [], en_SkipToNextStorylineOnExpiry = None, en_Scenes = [], en_Triggers = [],
      en_UseStatements = [], en_ScenesRange = None\<rparr>"

definition zero_LifecycleBlock :: LifecycleBlock where [zero_simps]:
  "zero_LifecycleBlock =
     \<lparr>lb_Pos = zero_Pos, lb_BadgeTransaction = None\<rparr>"

definition zero_ConditionalRouteNode :: ConditionalRouteNode where [zero_simps]:
  "zero_ConditionalRouteNode =
     \<lparr>crt_Pos = zero_Pos, crt_RequiredBadges = None, crt_NextStoryline = [], crt_Priority =
      None\<rparr>"

definition zero_StorylineCompleteBlock :: StorylineCompleteBlock where [zero_simps]:
  "zero_StorylineCompleteBlock =
     \<lparr>slc_Pos = zero_Pos, slc_BadgeTransaction = None, slc_NextStoryline = [],
      slc_ConditionalRoutes = []\<rparr>"

definition zero_StorylineFailBlock :: StorylineFailBlock where [zero_simps]:
  "zero_StorylineFailBlock =
     \<lparr>slf_Pos = zero_Pos, slf_BadgeTransaction = None, slf_NextStoryline = [],
      slf_ConditionalRoutes = []\<rparr>"

definition zero_DataObjectLiteral :: DataObjectLiteral where [zero_simps]:
  "zero_DataObjectLiteral =
     \<lparr>dob_Pos = zero_Pos, dob_Fields = []\<rparr>"

definition zero_StorylineNode :: StorylineNode where [zero_simps]:
  "zero_StorylineNode =
     StorylineNode zero_Pos [] None [] None None None None [] [] []"

definition zero_ForNode :: ForNode where [zero_simps]:
  "zero_ForNode =
     ForNode zero_Pos [] [] [] [] 0 0 False [] [] [] []"

definition zero_OnCompleteBlock :: OnCompleteBlock where [zero_simps]:
  "zero_OnCompleteBlock =
     \<lparr>oc_Pos = zero_Pos, oc_BadgeTransaction = None, oc_NextStory = []\<rparr>"

definition zero_OnFailBlock :: OnFailBlock where [zero_simps]:
  "zero_OnFailBlock =
     \<lparr>ofb_Pos = zero_Pos, ofb_BadgeTransaction = None, ofb_NextStory = []\<rparr>"

definition zero_DefaultSenderNode :: DefaultSenderNode where [zero_simps]:
  "zero_DefaultSenderNode =
     \<lparr>ds_Pos = zero_Pos, ds_Name = [], ds_FromEmail = [], ds_FromName = [], ds_ReplyTo =
      []\<rparr>"

definition zero_StoryNode :: StoryNode where [zero_simps]:
  "zero_StoryNode =
     \<lparr>st_Pos = zero_Pos, st_Name = [], st_Priority = None, st_AllowInterruption = None,
      st_OnBegin = None, st_OnComplete = None, st_OnFail = None, st_RequiredBadges = None,
      st_StartTrigger = None, st_CompleteTrigger = None, st_Storylines = [], st_ForLoops = [],
      st_DefaultSender = None, st_UseStatements = []\<rparr>"

definition zero_CampaignAudienceNode :: CampaignAudienceNode where [zero_simps]:
  "zero_CampaignAudienceNode =
     \<lparr>ca_Pos = zero_Pos, ca_MustHave = [], ca_MustNotHave = []\<rparr>"

definition zero_CampaignClickRuleNode :: CampaignClickRuleNode where [zero_simps]:
  "zero_CampaignClickRuleNode =
     \<lparr>cr_Pos = zero_Pos, cr_URLPattern = [], cr_AwardBadge = []\<rparr>"

definition zero_CampaignNode :: CampaignNode where [zero_simps]:
  "zero_CampaignNode =
     \<lparr>cp_Pos = zero_Pos, cp_Name = [], cp_Subject = [], cp_Body = [], cp_FromEmail = [],
      cp_FromName = [], cp_ReplyTo = [], cp_ContextPackRefs = [], cp_SubjectGen = [], cp_BodyGen =
      [], cp_Audience = None, cp_OnClick = []\<rparr>"

definition zero_DataBlockNode :: DataBlockNode where [zero_simps]:
  "zero_DataBlockNode =
     \<lparr>db_Pos = zero_Pos, db_Name = [], db_Items = []\<rparr>"

definition zero_SceneDefaultsNode :: SceneDefaultsNode where [zero_simps]:
  "zero_SceneDefaultsNode =
     \<lparr>sd_Pos = zero_Pos, sd_Triggers = [], sd_UseStatements = []\<rparr>"

definition zero_EnactmentDefaultsNode :: EnactmentDefaultsNode where [zero_simps]:
  "zero_EnactmentDefaultsNode =
     \<lparr>ed_Pos = zero_Pos, ed_Triggers = [], ed_UseStatements = []\<rparr>"

definition zero_LinksBlockNode :: LinksBlockNode where [zero_simps]:
  "zero_LinksBlockNode =
     \<lparr>lk_Pos = zero_Pos, lk_Links = []\<rparr>"

definition zero_PatternDefNode :: PatternDefNode where [zero_simps]:
  "zero_PatternDefNode =
     \<lparr>pat_Pos = zero_Pos, pat_Name = [], pat_Params = [], pat_Enactments = [], pat_Scenes =
      [], pat_Triggers = [], pat_ScenesRange = None\<rparr>"

definition zero_PolicyDefNode :: PolicyDefNode where [zero_simps]:
  "zero_PolicyDefNode =
     \<lparr>pol_Pos = zero_Pos, pol_Name = [], pol_Params = [], pol_Triggers = []\<rparr>"

definition zero_LeadMagnetNode :: LeadMagnetNode where [zero_simps]:
  "zero_LeadMagnetNode =
     \<lparr>lm_Pos = zero_Pos, lm_AssetType = [], lm_References = [], lm_Instruction = [],
      lm_Theme = []\<rparr>"

definition zero_ContentGenNode :: ContentGenNode where [zero_simps]:
  "zero_ContentGenNode =
     \<lparr>cg_Pos = zero_Pos, cg_Length = [], cg_ContextURLs = [], cg_PromptAppend = []\<rparr>"

definition zero_AIContextNode :: AIContextNode where [zero_simps]:
  "zero_AIContextNode =
     \<lparr>ai_Pos = zero_Pos, ai_Mode = [], ai_ContextURLs = [], ai_ContextRefs = []\<rparr>"

definition zero_BlockNode :: BlockNode where [zero_simps]:
  "zero_BlockNode =
     \<lparr>bl_Pos = zero_Pos, bl_SectionID = [], bl_BlockType = [], bl_SourceURL = [],
      bl_MediaPublicId = [], bl_PlayerPresetId = [], bl_Autoplay = False, bl_ContentGen = None,
      bl_AIContext = None\<rparr>"

definition zero_FormFieldNode :: FormFieldNode where [zero_simps]:
  "zero_FormFieldNode =
     \<lparr>ff_Pos = zero_Pos, ff_FieldName = [], ff_FieldType = [], ff_Required = False,
      ff_CustomField = []\<rparr>"

definition zero_OrderBumpNode :: OrderBumpNode where [zero_simps]:
  "zero_OrderBumpNode =
     \<lparr>ob_Pos = zero_Pos, ob_Name = [], ob_OfferID = [], ob_Text = []\<rparr>"

definition zero_FormNode :: FormNode where [zero_simps]:
  "zero_FormNode =
     \<lparr>fm_Pos = zero_Pos, fm_Name = [], fm_FormType = [], fm_Fields = [], fm_ProductID = [],
      fm_OfferID = [], fm_OrderBumps = []\<rparr>"

definition zero_PageNode :: PageNode where [zero_simps]:
  "zero_PageNode =
     \<lparr>pg_Pos = zero_Pos, pg_Name = [], pg_TemplateName = [], pg_Blocks = [], pg_Forms = [],
      pg_AIContext = None, pg_LeadMagnets = []\<rparr>"

definition zero_PDFConfigNode :: PDFConfigNode where [zero_simps]:
  "zero_PDFConfigNode =
     \<lparr>pdf_Pos = zero_Pos, pdf_AIGenerated = False, pdf_AIContext = None\<rparr>"

definition zero_StageNode :: StageNode where [zero_simps]:
  "zero_StageNode =
     \<lparr>sg_Pos = zero_Pos, sg_Name = [], sg_Order = None, sg_Path = [], sg_Pages = [],
      sg_Triggers = [], sg_PDFConfig = None, sg_LeadMagnets = []\<rparr>"

definition zero_RouteNode :: RouteNode where [zero_simps]:
  "zero_RouteNode =
     \<lparr>rt_Pos = zero_Pos, rt_Name = [], rt_Order = None, rt_RequiredBadges = None, rt_Stages
      = []\<rparr>"

definition zero_FunnelNode :: FunnelNode where [zero_simps]:
  "zero_FunnelNode =
     \<lparr>fn_Pos = zero_Pos, fn_Name = [], fn_Domain = [], fn_AIContext = None, fn_Routes =
      []\<rparr>"

definition zero_LMSContentGenNode :: LMSContentGenNode where [zero_simps]:
  "zero_LMSContentGenNode =
     \<lparr>lcg_Pos = zero_Pos, lcg_Instruction = [], lcg_References = [], lcg_Theme = []\<rparr>"

definition zero_LessonNode :: LessonNode where [zero_simps]:
  "zero_LessonNode =
     \<lparr>ls_Pos = zero_Pos, ls_Slug = [], ls_Title = [], ls_Order = 0, ls_VideoURL = [],
      ls_MediaPublicId = [], ls_Duration = [], ls_ContentHTML = [], ls_ContentGen = None, ls_IsFree
      = False, ls_IsDraft = False, ls_DripDays = 0, ls_DripHours = 0, ls_DripMinutes = 0,
      ls_VideoMode = [], ls_VideoStubScript = [], ls_VideoStubDescription = [], ls_ContentMarkdown
      = []\<rparr>"

definition zero_LMSQuestionNode :: LMSQuestionNode where [zero_simps]:
  "zero_LMSQuestionNode =
     \<lparr>lqn_Pos = zero_Pos, lqn_Slug = [], lqn_Type = [], lqn_Title = [], lqn_Options = [],
      lqn_Answer = AnswerNil\<rparr>"

definition zero_LMSQuizNode :: LMSQuizNode where [zero_simps]:
  "zero_LMSQuizNode =
     \<lparr>lq_Pos = zero_Pos, lq_Slug = [], lq_Title = [], lq_PassThreshold = 0, lq_MaxAttempts
      = 0, lq_Questions = []\<rparr>"

definition zero_ModuleNode :: ModuleNode where [zero_simps]:
  "zero_ModuleNode =
     \<lparr>mo_Pos = zero_Pos, mo_Slug = [], mo_Title = [], mo_Order = 0, mo_Lessons = [],
      mo_Quizzes = []\<rparr>"

definition zero_DescriptionGenNode :: DescriptionGenNode where [zero_simps]:
  "zero_DescriptionGenNode =
     \<lparr>dg_Pos = zero_Pos, dg_Instruction = [], dg_References = []\<rparr>"

definition zero_ProductDeclNode :: ProductDeclNode where [zero_simps]:
  "zero_ProductDeclNode =
     \<lparr>pd_Pos = zero_Pos, pd_Name = [], pd_ProductType = [], pd_Title = [], pd_Description =
      [], pd_Instructor = [], pd_ThumbnailURL = [], pd_Status = [], pd_DescriptionGen = None,
      pd_Modules = []\<rparr>"

definition zero_OfferDeclNode :: OfferDeclNode where [zero_simps]:
  "zero_OfferDeclNode =
     \<lparr>off_Pos = zero_Pos, off_Name = [], off_PricingModel = [], off_Price = float_zero,
      off_Currency = [], off_IncludedProducts = [], off_GrantedBadges = [], off_OnPurchase =
      None\<rparr>"

definition zero_AnswerNode :: AnswerNode where [zero_simps]:
  "zero_AnswerNode =
     \<lparr>an_Pos = zero_Pos, an_Text = [], an_AddScore = 0\<rparr>"

definition zero_QuestionNode :: QuestionNode where [zero_simps]:
  "zero_QuestionNode =
     \<lparr>qn_Pos = zero_Pos, qn_Text = [], qn_Answers = []\<rparr>"

definition zero_ScoreRuleNode :: ScoreRuleNode where [zero_simps]:
  "zero_ScoreRuleNode =
     \<lparr>sru_Pos = zero_Pos, sru_Operator = [], sru_Threshold = 0, sru_Actions = []\<rparr>"

definition zero_QuizOnCompleteNode :: QuizOnCompleteNode where [zero_simps]:
  "zero_QuizOnCompleteNode =
     \<lparr>qc_Pos = zero_Pos, qc_ScoreRules = []\<rparr>"

definition zero_QuizNode :: QuizNode where [zero_simps]:
  "zero_QuizNode =
     \<lparr>qz_Pos = zero_Pos, qz_Name = [], qz_Questions = [], qz_OnComplete = None\<rparr>"

definition zero_SEONode :: SEONode where [zero_simps]:
  "zero_SEONode =
     \<lparr>seo_Pos = zero_Pos, seo_MetaTitle = [], seo_MetaDescription = [],
      seo_OpenGraphImageURL = []\<rparr>"

definition zero_NavigationNode :: NavigationNode where [zero_simps]:
  "zero_NavigationNode =
     \<lparr>nv_Pos = zero_Pos, nv_HeaderLinks = [], nv_FooterLinks = []\<rparr>"

definition zero_SiteNode :: SiteNode where [zero_simps]:
  "zero_SiteNode =
     \<lparr>si_Pos = zero_Pos, si_Name = [], si_Domain = [], si_Theme = [], si_SEO = None,
      si_Navigation = None, si_Pages = []\<rparr>"

definition zero_CourseCertConfigNode :: CourseCertConfigNode where [zero_simps]:
  "zero_CourseCertConfigNode =
     \<lparr>cc_Pos = zero_Pos, cc_Enabled = False, cc_TemplateName = [], cc_Title = [],
      cc_LogoURL = [], cc_AccentColor = []\<rparr>"

definition zero_CourseDeclNode :: CourseDeclNode where [zero_simps]:
  "zero_CourseDeclNode =
     \<lparr>co_Pos = zero_Pos, co_Name = [], co_Description = [], co_Instructor = [],
      co_ThumbnailURL = [], co_Status = [], co_Mode = [], co_DescriptionGen = None, co_Modules =
      [], co_CertConfig = None, co_Audience = [], co_Outcome = [], co_Tone = [], co_ExtraContext =
      [], co_References = [], co_DefaultMedia = []\<rparr>"

definition zero_ChapterDeclNode :: ChapterDeclNode where [zero_simps]:
  "zero_ChapterDeclNode =
     \<lparr>ch_Pos = zero_Pos, ch_Title = [], ch_StartSec = 0, ch_EndSec = 0\<rparr>"

definition zero_InteractionDeclNode :: InteractionDeclNode where [zero_simps]:
  "zero_InteractionDeclNode =
     \<lparr>inr_Pos = zero_Pos, inr_Kind = [], inr_StartSec = 0, inr_EndSec = 0, inr_Required =
      False, inr_Fields = [], inr_Text = [], inr_URL = [], inr_ButtonText = []\<rparr>"

definition zero_BadgeRuleDeclNode :: BadgeRuleDeclNode where [zero_simps]:
  "zero_BadgeRuleDeclNode =
     \<lparr>br_Pos = zero_Pos, br_EventName = [], br_Operator = [], br_Threshold = 0,
      br_BadgeName = [], br_Enabled = False\<rparr>"

definition zero_MediaDeclNode :: MediaDeclNode where [zero_simps]:
  "zero_MediaDeclNode =
     \<lparr>md_Pos = zero_Pos, md_Name = [], md_Title = [], md_Description = [], md_Kind = [],
      md_SourceURL = [], md_PosterURL = [], md_Chapters = [], md_Interactions = [], md_BadgeRules =
      [], md_PlayerPreset = [], md_Tags = [], md_Folder = []\<rparr>"

definition zero_PlayerPresetDeclNode :: PlayerPresetDeclNode where [zero_simps]:
  "zero_PlayerPresetDeclNode =
     \<lparr>pp_Pos = zero_Pos, pp_Name = [], pp_PlayerColor = [], pp_ShowControls = False,
      pp_ShowRewind = False, pp_ShowFastForward = False, pp_ShowSkip = False, pp_ShowDownload =
      False, pp_HideProgressBar = False, pp_ShowBigPlayButton = False, pp_AllowFullscreen = False,
      pp_AllowPlaybackRate = False, pp_AllowSeeking = False, pp_Autoplay = False, pp_MutedDefault =
      False, pp_DisablePause = False, pp_Loop = False, pp_EndBehavior = [], pp_RoundedPlayer =
      False, pp_ChapterStyle = [], pp_ChapterPosition = [], pp_ChapterClickJump = False\<rparr>"

definition zero_ChannelDeclNode :: ChannelDeclNode where [zero_simps]:
  "zero_ChannelDeclNode =
     \<lparr>cn_Pos = zero_Pos, cn_Name = [], cn_Title = [], cn_Description = [], cn_Layout = [],
      cn_Theme = [], cn_Items = []\<rparr>"

definition zero_MediaWebhookDeclNode :: MediaWebhookDeclNode where [zero_simps]:
  "zero_MediaWebhookDeclNode =
     \<lparr>mw_Pos = zero_Pos, mw_Name = [], mw_URL = [], mw_EventTypes = [], mw_Enabled =
      False\<rparr>"

definition zero_ScriptAST :: ScriptAST where [zero_simps]:
  "zero_ScriptAST =
     \<lparr>ast_Pos = zero_Pos, ast_DefaultSenders = [], ast_Links = None, ast_Patterns = [],
      ast_Policies = [], ast_DataBlocks = [], ast_SceneDefaults = None, ast_EnactmentDefaults =
      None, ast_Stories = [], ast_Funnels = [], ast_Sites = [], ast_Products = [], ast_Offers = [],
      ast_Quizzes = [], ast_Courses = [], ast_MediaDecls = [], ast_PlayerPresets = [],
      ast_ChannelDecls = [], ast_MediaWebhookDecls = [], ast_Campaigns = []\<rparr>"

end
