(* ===== verification/Entities.thy ===== *)
theory Entities
  imports Ast
begin

text \<open>
  The entities a script compiles to. Their structs live in the module
  \<open>sentanyl/pkg/models\<close>, which is not part of this repository: each record below has the
  fields the compiler writes and the story engine reads, and the string constants of that module are a parameter
  \<open>pk\<close> that gives the value of a constant by its name. A pointer from one entity to another that
  the compiler also stores elsewhere (the target of a jump, the next storyline or story) is
  the target's object id; a pointer to an entity that nobody changes any more is the entity.

  \<open>bson.NewObjectId\<close> returns a new id at every call: \<open>Oid n\<close> is the result of the call
  number \<open>n\<close>, so all it is taken to promise is that different calls give different ids.
\<close>

datatype ObjectId = Oid nat

record BsonCollectionId =
  ci_CollectionName :: string
  ci_Id :: ObjectId

record BsonCollectionIds =
  cis_CollectionName :: string
  cis_Ids :: "ObjectId list"

record Badge =
  bdg_Id :: ObjectId
  bdg_PublicId :: string
  bdg_SubscriberId :: string
  bdg_CreatorId :: ObjectId
  bdg_Name :: string
  bdg_Description :: string

record Tag =
  tag_Id :: ObjectId
  tag_PublicId :: string
  tag_SubscriberId :: string
  tag_CreatorId :: ObjectId
  tag_Name :: string

record RequiredBadge =
  rqb_Id :: ObjectId
  rqb_Name :: string
  rqb_BadgeID :: BsonCollectionId
  rqb_Badge :: Badge

record RequiredBadges =
  rbs_MustHave :: "RequiredBadge list"
  rbs_MustNotHave :: "RequiredBadge list"

record BadgeTransaction =
  btx_Id :: ObjectId
  btx_GiveBadges :: "Badge list"
  btx_GiveBadgesIds :: "BsonCollectionIds option"
  btx_RemoveBadges :: "Badge list"
  btx_RemoveBadgesIds :: "BsonCollectionIds option"

record Timeframe =
  tf_Amount :: int
  tf_TimeUnit :: string

record ActionWhen =
  aw_WaitType :: string
  aw_WaitUntil :: "Timeframe option"

record Action =
  act_Id :: ObjectId
  act_PublicId :: string
  act_SubscriberId :: string
  act_CreatorId :: ObjectId
  act_ActionName :: string
  act_ExtraActions :: "string list"
  act_NextEnactment :: "ObjectId option"
  act_NextEnactmentId :: "BsonCollectionId option"
  act_AdvanceToNextStoryline :: bool
  act_EndStory :: bool
  act_Unsubscribe :: bool
  act_BadgeTransaction :: "BadgeTransaction option"
  act_BadgeTransactionIds :: "BsonCollectionId option"
  act_When :: "ActionWhen option"
  act_SendImmediate :: "bool option"

record Trigger =
  trg_Id :: ObjectId
  trg_PublicId :: string
  trg_SubscriberId :: string
  trg_CreatorId :: ObjectId
  trg_TriggerType :: string
  trg_UserAction :: string
  trg_UserActionValue :: string
  trg_MarkComplete :: bool
  trg_MarkFailed :: bool
  trg_Priority :: int
  trg_PersistScope :: string
  trg_RequiredBadges :: RequiredBadges
  trg_WatchBlockID :: string
  trg_WatchOperator :: string
  trg_WatchPercent :: int
  trg_DoAction :: "Action option"
  trg_DoActionId :: "BsonCollectionId option"

record EmailGenConfig =
  egc_SubjectInstruction :: string
  egc_BodyInstruction :: string
  egc_ContextPackRefs :: "string list"

record Template =
  tpl_Id :: ObjectId
  tpl_PublicId :: string
  tpl_SubscriberId :: string
  tpl_CreatorId :: ObjectId
  tpl_Name :: string

record MessageContent =
  mc_Id :: ObjectId
  mc_PublicId :: string
  mc_SubscriberId :: string
  mc_CreatorId :: ObjectId
  mc_Subject :: string
  mc_Body :: string
  mc_FromEmail :: string
  mc_FromName :: string
  mc_ReplyTo :: string
  mc_GivenVars :: "string gomap"
  mc_EmailGenConfig :: "EmailGenConfig option"
  mc_Template :: "Template option"
  mc_TemplateId :: "BsonCollectionId option"

record Message =
  msg_Id :: ObjectId
  msg_PublicId :: string
  msg_SubscriberId :: string
  msg_CreatorId :: ObjectId
  msg_Content :: "MessageContent option"

record Scene =
  scn_Id :: ObjectId
  scn_PublicId :: string
  scn_SubscriberId :: string
  scn_CreatorId :: ObjectId
  scn_Name :: string
  scn_Message :: "Message option"
  scn_MessageId :: "BsonCollectionId option"
  scn_Subject :: string
  scn_Body :: string
  scn_FromEmail :: string
  scn_FromName :: string
  scn_ReplyTo :: string
  scn_Tags :: "Tag list"
  scn_TagsIds :: "BsonCollectionIds option"

record Enactment =
  ent_Id :: ObjectId
  ent_PublicId :: string
  ent_SubscriberId :: string
  ent_CreatorId :: ObjectId
  ent_Name :: string
  ent_Level :: int
  ent_NaturalOrder :: int
  ent_SkipToNextStorylineOnExpiry :: bool
  ent_SendScene :: "Scene option"
  ent_SendSceneId :: "BsonCollectionId option"
  ent_SendScenes :: "Scene list"
  ent_SendScenesIds :: "BsonCollectionIds option"
  ent_OnEvent :: "Trigger list gomap"
  ent_OnEventIds :: "BsonCollectionIds option"

record ConditionalRoute =
  crr_RequiredBadges :: RequiredBadges
  crr_Priority :: int
  crr_NextStoryline :: "ObjectId option"
  crr_NextStorylineId :: "BsonCollectionId option"

record StorylineEnd =
  sle_BadgeTransaction :: "BadgeTransaction option"
  sle_NextStoryline :: "ObjectId option"
  sle_NextStorylineId :: "BsonCollectionId option"
  sle_ConditionalRoutes :: "ConditionalRoute list"

record Storyline =
  stl_Id :: ObjectId
  stl_PublicId :: string
  stl_SubscriberId :: string
  stl_CreatorId :: ObjectId
  stl_Name :: string
  stl_NaturalOrder :: int
  stl_RequiredUserBadges :: RequiredBadges
  stl_OnBegin :: "BadgeTransaction option"
  stl_OnComplete :: StorylineEnd
  stl_OnFail :: StorylineEnd
  stl_Acts :: "Enactment list"
  stl_ActIds :: "BsonCollectionIds option"

record StoryEnd =
  ste_BadgeTransaction :: "BadgeTransaction option"
  ste_NextStory :: "ObjectId option"
  ste_NextStoryId :: "BsonCollectionId option"

record Story =
  sto_Id :: ObjectId
  sto_PublicId :: string
  sto_SubscriberId :: string
  sto_CreatorId :: ObjectId
  sto_Name :: string
  sto_Priority :: int
  sto_AllowInterruption :: bool
  sto_OnBegin :: "BadgeTransaction option"
  sto_OnComplete :: StoryEnd
  sto_OnFail :: StoryEnd
  sto_RequiredUserBadges :: RequiredBadges
  sto_StartTrigger :: "RequiredBadge option"
  sto_CompleteTrigger :: "RequiredBadge option"
  sto_Storylines :: "Storyline list"
  sto_StorylineIds :: "BsonCollectionIds option"
  sto_TenantID :: "ObjectId option"

text \<open>Zero values of the embedded structs.\<close>

definition no_badges :: RequiredBadges where
  "no_badges = \<lparr>rbs_MustHave = [], rbs_MustNotHave = []\<rparr>"

definition no_storyline_end :: StorylineEnd where
  "no_storyline_end = \<lparr>sle_BadgeTransaction = None, sle_NextStoryline = None,
     sle_NextStorylineId = None, sle_ConditionalRoutes = []\<rparr>"

definition no_story_end :: StoryEnd where
  "no_story_end = \<lparr>ste_BadgeTransaction = None, ste_NextStory = None, ste_NextStoryId = None\<rparr>"

end
