(* ===== verification/Billing.thy ===== *)
theory Billing
  imports Stripe Mongo Entities
begin

text \<open>
  The state of platform billing, what the tenants pay the service for, and the saga of a plan
  change (\<open>src/routes/plan_change_intent.go\<close>): intents are written before the payment service
  is asked, and settled by the request, by a webhook or by the sweep.

  A handler runs in the state monad over the collections it writes. What it meets outside is
  read off \<open>Cloud\<close>: the n-th reading is the answer of the database to one operation, an
  exchange with the payment service, the clock or a random key. The packages \<open>models\<close>,
  \<open>plans\<close>, \<open>auth\<close>, \<open>httputil\<close> and \<open>audit\<close>, which are not in the repository, are its other
  fields. The constants of \<open>models\<close> for kinds and statuses are constructors: all the code
  needs of them is that they differ and are not empty.
\<close>

section \<open>Documents\<close>

datatype ChangeKind = NoChange | ChangePlan | ChangeCancel | ChangeReactivate

datatype IntentStatus = Pending | Scheduled | Confirmed | Failed | Canceled

datatype EventStatus = EventReceived | EventProcessed | EventFailed

text \<open>The fields of a tenant that billing reads or writes; a missing kind reads as none.\<close>

record Tenant =
  tn_Id :: ObjectId
  tn_BusinessName :: string
  tn_CustomerID :: string
  tn_SubscriptionID :: string
  tn_SubscriptionStatus :: string
  tn_TrialEndsAt :: "int option"
  tn_PastDueAt :: "int option"
  tn_PlanTier :: string
  tn_PlanContract :: string
  tn_ChangeKind :: ChangeKind
  tn_PendingTier :: string
  tn_ChangeAt :: "int option"
  tn_LimitGraceAt :: "int option"

record PlanChangeIntent =
  in_Id :: ObjectId
  in_TenantID :: ObjectId
  in_Kind :: ChangeKind
  in_FromTier :: string
  in_ToTier :: string
  in_SubID :: string
  in_Status :: IntentStatus
  in_EffectiveAt :: "int option"
  in_ResolvedTier :: string
  in_Note :: string
  in_CreatedAt :: int
  in_ResolvedAt :: "int option"

record ProviderEvent =
  pe_Id :: ObjectId
  pe_Provider :: string
  pe_EventID :: string
  pe_Type :: string
  pe_Livemode :: bool
  pe_ProviderCreated :: int
  pe_Status :: EventStatus
  pe_Attempts :: int
  pe_LastError :: string
  pe_CreatedAt :: int
  pe_UpdatedAt :: int

record InvoiceProjection =
  iv_TenantID :: ObjectId
  iv_InvoiceID :: string
  iv_Number :: string
  iv_Status :: string
  iv_AmountDue :: int
  iv_AmountPaid :: int
  iv_Currency :: string
  iv_HostedURL :: string
  iv_PeriodStart :: "int option"
  iv_PeriodEnd :: "int option"
  iv_UpdatedAt :: int
  iv_CreatedAt :: int

section \<open>What the webhook and the plans deliver\<close>

record Plan =
  pn_Tier :: string
  pn_PriceUSD :: int
  pn_ContactLimit :: int
  pn_DomainLimit :: int

record WebhookEvent =
  we_ID :: string
  we_Type :: string
  we_Livemode :: bool
  we_Created :: int
  we_Object :: string

record CheckoutSession =
  co_Mode :: string
  co_ClientReferenceID :: string
  co_Customer :: string
  co_Subscription :: string
  co_Metadata :: "string gomap"

record SubscriptionEvent =
  su_ID :: string
  su_Status :: string
  su_Customer :: string
  su_Metadata :: "string gomap"
  su_CancelAtPeriodEnd :: bool
  su_CurrentPeriodEnd :: int
  su_Prices :: "string list"

record InvoiceDoc =
  io_ID :: string
  io_Number :: string
  io_AmountDue :: int
  io_AmountPaid :: int
  io_Currency :: string
  io_HostedURL :: string
  io_PeriodStart :: int
  io_PeriodEnd :: int

record Cloud =
  cl_net :: Net
  cl_db :: "nat \<Rightarrow> db_reply"
  cl_now :: "nat \<Rightarrow> int"
  cl_webhookSecret :: string
  cl_platformKey :: string
  cl_publicBase :: string
  cl_VerifySignature :: "string \<Rightarrow> string \<Rightarrow> string \<Rightarrow> string option"
  cl_event :: "string \<Rightarrow> string + WebhookEvent"
  cl_checkout :: "string \<Rightarrow> string + CheckoutSession"
  cl_subscription :: "string \<Rightarrow> string + SubscriptionEvent"
  cl_deleted :: "string \<Rightarrow> string + (string \<times> string gomap)"
  cl_customer :: "string \<Rightarrow> string + string"
  cl_invoice :: "string \<Rightarrow> string + InvoiceDoc"
  cl_ObjectIdHex :: "string \<Rightarrow> ObjectId option"
  cl_Hex :: "ObjectId \<Rightarrow> string"
  cl_NewPlanChangeIntent :: "ObjectId \<Rightarrow> int \<Rightarrow> ObjectId \<Rightarrow> string \<Rightarrow> string \<Rightarrow> string \<Rightarrow> PlanChangeIntent"
  cl_NewScheduledBillingChange ::
    "ObjectId \<Rightarrow> int \<Rightarrow> ObjectId \<Rightarrow> ChangeKind \<Rightarrow> string \<Rightarrow> string \<Rightarrow> string \<Rightarrow> int \<Rightarrow> PlanChangeIntent"
  cl_ByTier :: "string \<Rightarrow> Plan option"
  cl_TierForPriceID :: "string \<Rightarrow> string option"
  cl_StripePriceID :: "string \<Rightarrow> string"
  cl_ForTenant :: "string \<Rightarrow> Plan"
  cl_SnapshotContract :: "string \<Rightarrow> string"
  cl_All :: "Plan list"
  cl_DefaultTier :: string
  cl_GetUsage :: "nat \<Rightarrow> ObjectId \<Rightarrow> (int \<times> int) option"
  cl_Released :: "nat \<Rightarrow> int"

text \<open>
  What the package \<open>models\<close> promises of the two constructors of an intent: a new id, the
  fields as given, and the status the name says.
\<close>

definition intent_models :: "Cloud \<Rightarrow> bool" where
  "intent_models cl \<longleftrightarrow>
     (\<forall>i now t from to sub.
        (let x = cl_NewPlanChangeIntent cl i now t from to sub in
         in_Id x = i \<and> in_TenantID x = t \<and> in_FromTier x = from \<and> in_ToTier x = to \<and> in_SubID x = sub
         \<and> in_Status x = Pending \<and> in_CreatedAt x = now)) \<and>
     (\<forall>i now t kind from to sub at.
        (let x = cl_NewScheduledBillingChange cl i now t kind from to sub at in
         in_Id x = i \<and> in_TenantID x = t \<and> in_Kind x = kind \<and> in_FromTier x = from \<and> in_ToTier x = to
         \<and> in_SubID x = sub \<and> in_Status x = Scheduled \<and> in_EffectiveAt x = Some at \<and> in_CreatedAt x = now))"

section \<open>State\<close>

datatype Effect =
    ReleaseHeldContacts ObjectId
  | Invalidate ObjectId
  | AuditRecord string string "int option"

record Platform = Calls +
  pl_oids :: nat
  pl_tenants :: "Tenant list"
  pl_intents :: "PlanChangeIntent list"
  pl_events :: "ProviderEvent list"
  pl_invoices :: "InvoiceProjection list"
  pl_effects :: "Effect list"

type_synonym 'a billing = "(Platform, 'a) state"

definition time_Now :: "Cloud \<Rightarrow> int billing" where
  "time_Now cl = do { n \<leftarrow> reading; ret (cl_now cl n) }"

definition newId :: "ObjectId billing" where
  "newId = State (\<lambda>s. (Oid (pl_oids s), s\<lparr>pl_oids := Suc (pl_oids s)\<rparr>))"

definition effect :: "Effect \<Rightarrow> unit billing" where
  "effect e = modifies (\<lambda>s. s\<lparr>pl_effects := pl_effects s @ [e]\<rparr>)"

text \<open>One write: the error the driver returns, if any.\<close>

definition dbWrite :: "Cloud \<Rightarrow> (Platform \<Rightarrow> db_error option \<times> Platform) \<Rightarrow> db_error option billing" where
  "dbWrite cl w = do {
     n \<leftarrow> reading;
     case cl_db cl n of
       Done \<Rightarrow> State w
     | Refused e \<Rightarrow> ret (Some (DbError e))
     | Lost e \<Rightarrow> do { _ \<leftarrow> State w; ret (Some (DbError e)) }
   }"

text \<open>One read: an error, or what the query finds.\<close>

definition dbRead :: "Cloud \<Rightarrow> (Platform \<Rightarrow> db_error + 'a) \<Rightarrow> (db_error + 'a) billing" where
  "dbRead cl q = do {
     n \<leftarrow> reading;
     case cl_db cl n of
       Done \<Rightarrow> asks q
     | Refused e \<Rightarrow> ret (Inl (DbError e))
     | Lost e \<Rightarrow> ret (Inl (DbError e))
   }"

definition findOne :: "('a \<Rightarrow> bool) \<Rightarrow> 'a list \<Rightarrow> db_error + 'a" where
  "findOne P rows = (case find P rows of None \<Rightarrow> Inl NotFound | Some x \<Rightarrow> Inr x)"

definition updateTenant :: "Cloud \<Rightarrow> (Tenant \<Rightarrow> bool) \<Rightarrow> (Tenant \<Rightarrow> Tenant) \<Rightarrow> db_error option billing" where
  "updateTenant cl P f = dbWrite cl (\<lambda>s.
     let (e, rows) = updateOne P f (pl_tenants s) in (e, s\<lparr>pl_tenants := rows\<rparr>))"

definition updateTenantId :: "Cloud \<Rightarrow> ObjectId \<Rightarrow> (Tenant \<Rightarrow> Tenant) \<Rightarrow> db_error option billing" where
  "updateTenantId cl t f = updateTenant cl (\<lambda>x. tn_Id x = t) f"

definition findTenant :: "Cloud \<Rightarrow> (Tenant \<Rightarrow> bool) \<Rightarrow> (db_error + Tenant) billing" where
  "findTenant cl P = dbRead cl (\<lambda>s. findOne P (pl_tenants s))"

definition findTenantId :: "Cloud \<Rightarrow> ObjectId \<Rightarrow> (db_error + Tenant) billing" where
  "findTenantId cl t = findTenant cl (\<lambda>x. tn_Id x = t)"

text \<open>A row as BSON stores it.\<close>

definition storedIntent :: "PlanChangeIntent \<Rightarrow> PlanChangeIntent" where
  "storedIntent x = x\<lparr>in_EffectiveAt := map_option bsonTime (in_EffectiveAt x),
     in_CreatedAt := bsonTime (in_CreatedAt x), in_ResolvedAt := map_option bsonTime (in_ResolvedAt x)\<rparr>"

definition insertIntent :: "Cloud \<Rightarrow> PlanChangeIntent \<Rightarrow> db_error option billing" where
  "insertIntent cl x = dbWrite cl (\<lambda>s.
     let (e, rows) = insertRow (\<lambda>a b. in_Id a = in_Id b) (storedIntent x) (pl_intents s) in (e, s\<lparr>pl_intents := rows\<rparr>))"

text \<open>A query that reads at most so many intents.\<close>

definition findIntents :: "Cloud \<Rightarrow> nat option \<Rightarrow> (PlanChangeIntent \<Rightarrow> bool) \<Rightarrow> PlanChangeIntent list option billing" where
  "findIntents cl limit P = do {
     r \<leftarrow> dbRead cl (\<lambda>s. let rows = filter P (pl_intents s) in
            Inr (case limit of None \<Rightarrow> rows | Some n \<Rightarrow> take n rows));
     ret (case r of Inl _ \<Rightarrow> None | Inr rows \<Rightarrow> Some rows)
   }"

section \<open>Settling intents\<close>

definition resolvePlanIntent :: "Cloud \<Rightarrow> ObjectId \<Rightarrow> IntentStatus \<Rightarrow> string \<Rightarrow> string \<Rightarrow> unit billing" where
  "resolvePlanIntent cl i status resolvedTier note = do {
     now \<leftarrow> time_Now cl;
     _ \<leftarrow> dbWrite cl (\<lambda>s.
       let (e, rows) = updateOne (\<lambda>x. in_Id x = i \<and> (in_Status x = Pending \<or> in_Status x = Scheduled))
             (\<lambda>x. x\<lparr>in_Status := status, in_ResolvedTier := resolvedTier, in_Note := note,
                    in_ResolvedAt := Some (bsonTime now)\<rparr>) (pl_intents s) in
       (e, s\<lparr>pl_intents := rows\<rparr>));
     ret ()
   }"

definition markScheduledIntents :: "Cloud \<Rightarrow> ObjectId \<Rightarrow> ChangeKind \<Rightarrow> IntentStatus \<Rightarrow> string \<Rightarrow> unit billing" where
  "markScheduledIntents cl t kind status note = do {
     now \<leftarrow> time_Now cl;
     _ \<leftarrow> dbWrite cl (\<lambda>s.
       let (e, rows) = updateAll (\<lambda>x. in_TenantID x = t \<and> in_Kind x = kind \<and> in_Status x = Scheduled)
             (\<lambda>x. x\<lparr>in_Status := status, in_Note := note, in_ResolvedAt := Some (bsonTime now)\<rparr>) (pl_intents s) in
       (e, s\<lparr>pl_intents := rows\<rparr>));
     ret ()
   }"

definition confirmPlanIntents :: "Cloud \<Rightarrow> ObjectId \<Rightarrow> string \<Rightarrow> unit billing" where
  "confirmPlanIntents cl t authoritativeTier = do {
     pending \<leftarrow> findIntents cl None (\<lambda>x. in_TenantID x = t \<and> in_Status x = Pending);
     case pending of
       None \<Rightarrow> ret ()
     | Some xs \<Rightarrow>
         foldC (\<lambda>_ x. resolvePlanIntent cl (in_Id x) Confirmed authoritativeTier ''authoritative state applied'') () xs
   }"

definition clearBillingChange :: "Cloud \<Rightarrow> ObjectId \<Rightarrow> db_error option billing" where
  "clearBillingChange cl t = updateTenantId cl t
     (\<lambda>x. x\<lparr>tn_ChangeKind := NoChange, tn_PendingTier := [], tn_ChangeAt := None\<rparr>)"

section \<open>The sweep\<close>

text \<open>\<open>time.Since(created) > 24h\<close>: a difference that does not fit a duration saturates.\<close>

definition sinceExceeds :: "int \<Rightarrow> int \<Rightarrow> int \<Rightarrow> bool" where
  "sinceExceeds now t d \<longleftrightarrow> min (now - t) (2 ^ 63 - 1) > d"

definition intentGiveUp :: int where
  "intentGiveUp = 24 * 3600 * 1000000000"

definition reconcileIntent :: "Cloud \<Rightarrow> string \<Rightarrow> PlanChangeIntent \<Rightarrow> unit billing" where
  "reconcileIntent cl key x = do {
     item \<leftarrow> GetSubscriptionItem (cl_net cl) key (in_SubID x);
     case item of
       Inl err \<Rightarrow> do {
         now \<leftarrow> time_Now cl;
         if sinceExceeds now (in_CreatedAt x) intentGiveUp
         then resolvePlanIntent cl (in_Id x) Failed [] (''stripe lookup failed: '' @ StripeError_Error err)
         else ret ()
       }
     | Inr item \<Rightarrow>
         (case cl_TierForPriceID cl (si_PriceID item) of
            None \<Rightarrow> resolvePlanIntent cl (in_Id x) Failed [] (''unmapped stripe price '' @ si_PriceID item)
          | Some tier \<Rightarrow> do {
              err \<leftarrow> updateTenantId cl (in_TenantID x)
                 (\<lambda>t. t\<lparr>tn_PlanTier := tier, tn_PlanContract := cl_SnapshotContract cl tier\<rparr>);
              case err of
                Some _ \<Rightarrow> ret ()
              | None \<Rightarrow> do {
                  effect (Invalidate (in_TenantID x));
                  resolvePlanIntent cl (in_Id x) Confirmed tier ''reconciled from stripe''
                }
            })
   }"

definition applyDueChange :: "Cloud \<Rightarrow> string \<Rightarrow> PlanChangeIntent \<Rightarrow> unit billing" where
  "applyDueChange cl key x =
     (case cl_ByTier cl (in_ToTier x) of
        None \<Rightarrow> do {
          resolvePlanIntent cl (in_Id x) Failed [] ''unknown target tier'';
          _ \<leftarrow> clearBillingChange cl (in_TenantID x);
          ret ()
        }
      | Some target \<Rightarrow> do {
          item \<leftarrow> GetSubscriptionItem (cl_net cl) key (in_SubID x);
          case item of
            Inl _ \<Rightarrow> ret ()
          | Inr item \<Rightarrow> do {
              let priceID = cl_StripePriceID cl (pn_Tier target);
              err \<leftarrow> (if si_PriceID item \<noteq> priceID
                      then do { r \<leftarrow> UpdateSubscriptionPrice (cl_net cl) key (in_SubID x) (si_ItemID item) priceID;
                                ret (case r of Inl e \<Rightarrow> Some e | Inr _ \<Rightarrow> None) }
                      else ret None);
              case err of
                Some _ \<Rightarrow> ret ()
              | None \<Rightarrow> do {
                  e \<leftarrow> updateTenantId cl (in_TenantID x)
                    (\<lambda>t. t\<lparr>tn_PlanTier := pn_Tier target,
                           tn_PlanContract := cl_SnapshotContract cl (pn_Tier target),
                           tn_ChangeKind := NoChange, tn_PendingTier := [], tn_ChangeAt := None\<rparr>);
                  case e of
                    Some _ \<Rightarrow> ret ()
                  | None \<Rightarrow> do {
                      effect (Invalidate (in_TenantID x));
                      resolvePlanIntent cl (in_Id x) Confirmed (pn_Tier target) ''effective-dated downgrade applied''
                    }
                }
            }
        })"

definition is_due :: "int \<Rightarrow> PlanChangeIntent \<Rightarrow> bool" where
  "is_due now x \<longleftrightarrow> in_Kind x = ChangePlan \<and> in_Status x = Scheduled
     \<and> (case in_EffectiveAt x of None \<Rightarrow> False | Some t \<Rightarrow> t \<le> bsonTime now)"

definition applyDueBillingChanges :: "Cloud \<Rightarrow> int \<Rightarrow> unit billing" where
  "applyDueBillingChanges cl now =
     (if cl_platformKey cl = [] then ret ()
      else do {
        due \<leftarrow> findIntents cl (Some 50) (is_due now);
        case due of
          None \<Rightarrow> ret ()
        | Some xs \<Rightarrow> foldC (\<lambda>_ x. applyDueChange cl (cl_platformKey cl) x) () xs
      })"

definition reconcileCancellation :: "Cloud \<Rightarrow> string \<Rightarrow> PlanChangeIntent \<Rightarrow> unit billing" where
  "reconcileCancellation cl key x = do {
     item \<leftarrow> GetSubscriptionItem (cl_net cl) key (in_SubID x);
     case item of
       Inl _ \<Rightarrow> ret ()
     | Inr item \<Rightarrow>
         if \<not> si_CancelAtPeriodEnd item then do {
           resolvePlanIntent cl (in_Id x) Canceled [] ''Stripe cancellation no longer scheduled'';
           _ \<leftarrow> clearBillingChange cl (in_TenantID x);
           ret ()
         }
         else do {
           let effective = (case in_EffectiveAt x of
                 Some t \<Rightarrow> if si_CurrentPeriodEnd item = zeroTime then t else si_CurrentPeriodEnd item
               | None \<Rightarrow> si_CurrentPeriodEnd item);
           _ \<leftarrow> updateTenantId cl (in_TenantID x)
             (\<lambda>t. t\<lparr>tn_ChangeKind := ChangeCancel, tn_ChangeAt := Some (bsonTime effective), tn_PendingTier := []\<rparr>);
           ret ()
         }
   }"

definition reconcileScheduledCancellations :: "Cloud \<Rightarrow> int \<Rightarrow> unit billing" where
  "reconcileScheduledCancellations cl now =
     (if cl_platformKey cl = [] then ret ()
      else do {
        scheduled \<leftarrow> findIntents cl (Some 50) (\<lambda>x. in_Kind x = ChangeCancel \<and> in_Status x = Scheduled);
        case scheduled of
          None \<Rightarrow> ret ()
        | Some xs \<Rightarrow> foldC (\<lambda>_ x. reconcileCancellation cl (cl_platformKey cl) x) () xs
      })"

definition is_stale :: "int \<Rightarrow> PlanChangeIntent \<Rightarrow> bool" where
  "is_stale olderThan x \<longleftrightarrow> in_Status x = Pending \<and> in_CreatedAt x \<le> bsonTime olderThan"

definition reconcileStalePlanIntents :: "Cloud \<Rightarrow> int \<Rightarrow> unit billing" where
  "reconcileStalePlanIntents cl olderThan =
     (if cl_platformKey cl = [] then ret ()
      else do {
        stale \<leftarrow> findIntents cl (Some 50) (is_stale olderThan);
        case stale of
          None \<Rightarrow> ret ()
        | Some xs \<Rightarrow> do {
            foldC (\<lambda>_ x. reconcileIntent cl (cl_platformKey cl) x) () xs;
            now \<leftarrow> time_Now cl;
            applyDueBillingChanges cl now;
            now \<leftarrow> time_Now cl;
            reconcileScheduledCancellations cl now
          }
      })"

definition planIntentStaleAfter :: int where
  "planIntentStaleAfter = 2 * 60 * 1000000000"

text \<open>The body of the sweep job.\<close>

definition sweepPlanIntents :: "Cloud \<Rightarrow> unit billing" where
  "sweepPlanIntents cl = do {
     now \<leftarrow> time_Now cl;
     reconcileStalePlanIntents cl (now - planIntentStaleAfter)
   }"

definition HandleTestReconcileBilling :: "Cloud \<Rightarrow> unit billing" where
  "HandleTestReconcileBilling cl = do {
     now \<leftarrow> time_Now cl;
     applyDueBillingChanges cl now;
     now \<leftarrow> time_Now cl;
     reconcileScheduledCancellations cl now
   }"

end
