(* ===== verification/BillingHandlers.thy ===== *)
theory BillingHandlers
  imports Billing
begin

text \<open>
  The endpoints of platform billing (\<open>src/routes/platform_billing.go\<close>): checkout, plan change,
  cancellation, reactivation, the portal and the two lists. A handler takes the tenant the
  token names, if any, and what the request's body binds to, and returns the answer it writes.
  The page with the status of the subscription is not modelled: it computes with floating
  hours and changes nothing.
\<close>

section \<open>Answers\<close>

datatype Value =
    VStr string
  | VBool bool
  | VInt int
  | VTime int
  | VPlan Plan
  | VPlans "(Plan \<times> bool) list"
  | VUsage "int \<times> int"
  | VInvoices "InvoiceProjection list"

type_synonym Response = "nat \<times> (string \<times> Value) list"

definition reject :: "nat \<Rightarrow> string \<Rightarrow> Response billing" where
  "reject code msg = ret (code, [(''error'', VStr msg)])"

text \<open>The dash in some messages.\<close>

definition dash :: string where
  "dash = [CHR 0x20, CHR 0xE2, CHR 0x80, CHR 0x94, CHR 0x20]"

definition unauthorized :: "Response billing" where
  "unauthorized = reject 401 ''unauthorized''"

definition publicAPIBase :: "Cloud \<Rightarrow> string" where
  "publicAPIBase cl = (if cl_publicBase cl \<noteq> [] then trimSlashes (cl_publicBase cl) else ''http://localhost'')"

definition HandleListBillingPlans :: "Cloud \<Rightarrow> Response" where
  "HandleListBillingPlans cl =
     (200, [(''plans'', VPlans (map (\<lambda>p. (p, cl_StripePriceID cl (pn_Tier p) \<noteq> [])) (cl_All cl)))])"

section \<open>Checkout\<close>

text \<open>The customer of the tenant, created when there is none.\<close>

definition ensureCustomer ::
  "Cloud \<Rightarrow> ObjectId \<Rightarrow> string \<Rightarrow> Tenant \<Rightarrow> (Response + string) billing" where
  "ensureCustomer cl t email tenant =
     (if tn_CustomerID tenant \<noteq> [] then ret (Inr (tn_CustomerID tenant))
      else do {
        r \<leftarrow> CreateCustomer (cl_net cl) (cl_platformKey cl) email (tn_BusinessName tenant) (cl_Hex cl t);
        case r of
          Inl _ \<Rightarrow> ret (Inl (502, [(''error'', VStr ''failed to create billing customer'')]))
        | Inr customerID \<Rightarrow> do {
            err \<leftarrow> updateTenantId cl t (\<lambda>x. x\<lparr>tn_CustomerID := customerID\<rparr>);
            ret (if err \<noteq> None then Inl (500, [(''error'', VStr ''failed to save billing customer'')])
                 else Inr customerID)
          }
      })"

definition checkoutKey :: "Cloud \<Rightarrow> ObjectId \<Rightarrow> string \<Rightarrow> string \<Rightarrow> string" where
  "checkoutKey cl t customerID tier = ''checkout:'' @ cl_Hex cl t @ '':'' @ customerID @ '':'' @ tier"

definition HandleCreateBillingCheckoutSession ::
  "Cloud \<Rightarrow> ObjectId option \<Rightarrow> string \<Rightarrow> string option \<Rightarrow> Response billing" where
  "HandleCreateBillingCheckoutSession cl tenantID email body =
     (case tenantID of
        None \<Rightarrow> unauthorized
      | Some t \<Rightarrow>
          (let tier = (case body of None \<Rightarrow> [] | Some b \<Rightarrow> b);
               tier = (if tier = [] then cl_DefaultTier cl else tier) in
           if cl_ByTier cl tier = None then reject 400 ''unknown plan tier''
           else
             (let key = cl_platformKey cl; priceID = cl_StripePriceID cl tier in
              if key = [] \<or> priceID = [] then reject 503 ''platform billing is not configured''
              else do {
                found \<leftarrow> findTenantId cl t;
                case found of
                  Inl _ \<Rightarrow> reject 404 ''tenant not found''
                | Inr tenant \<Rightarrow> do {
                    customer \<leftarrow> ensureCustomer cl t email tenant;
                    case customer of
                      Inl answer \<Rightarrow> ret answer
                    | Inr customerID \<Rightarrow> do {
                        let base = publicAPIBase cl;
                        r \<leftarrow> CreateSubscriptionCheckoutSession (cl_net cl) (cl_now cl) key priceID customerID
                               (cl_Hex cl t) tier (base @ ''/billing?checkout=success'')
                               (base @ ''/billing?checkout=cancel'') (checkoutKey cl t customerID tier)
                               (tn_TrialEndsAt tenant);
                        case r of
                          Inl _ \<Rightarrow> reject 502 ''failed to create checkout session''
                        | Inr url \<Rightarrow> ret (200, [(''url'', VStr url)])
                      }
                  }
              })))"

section \<open>Changing the plan\<close>

definition projectBillingChange :: "Cloud \<Rightarrow> ObjectId \<Rightarrow> ChangeKind \<Rightarrow> string \<Rightarrow> int \<Rightarrow> db_error option billing" where
  "projectBillingChange cl t kind toTier effectiveAt =
     updateTenant cl (\<lambda>x. tn_Id x = t \<and> tn_ChangeKind x = NoChange)
       (\<lambda>x. x\<lparr>tn_ChangeKind := kind, tn_PendingTier := toTier, tn_ChangeAt := Some (bsonTime effectiveAt)\<rparr>)"

definition recordBillingLifecycleAudit :: "string \<Rightarrow> string \<Rightarrow> int \<Rightarrow> unit billing" where
  "recordBillingLifecycleAudit action target effectiveAt = effect (AuditRecord action target (Some effectiveAt))"

text \<open>A downgrade: projected on the tenant, then recorded as a scheduled intent.\<close>

definition scheduleDowngrade ::
  "Cloud \<Rightarrow> ObjectId \<Rightarrow> Tenant \<Rightarrow> Plan \<Rightarrow> Plan \<Rightarrow> SubscriptionItem \<Rightarrow> Response billing" where
  "scheduleDowngrade cl t tenant current target item = do {
     now \<leftarrow> (if si_CurrentPeriodEnd item = zeroTime then ret zeroTime else time_Now cl);
     if si_CurrentPeriodEnd item = zeroTime \<or> \<not> si_CurrentPeriodEnd item > now
     then reject 502 ''subscription has no future billing boundary''
     else do {
       i \<leftarrow> newId;
       now \<leftarrow> time_Now cl;
       let intent = cl_NewScheduledBillingChange cl i now t ChangePlan (pn_Tier current) (pn_Tier target)
             (tn_SubscriptionID tenant) (si_CurrentPeriodEnd item);
       err \<leftarrow> projectBillingChange cl t ChangePlan (pn_Tier target) (si_CurrentPeriodEnd item);
       if err \<noteq> None then reject 409 ''a billing change is already scheduled''
       else do {
         err \<leftarrow> insertIntent cl intent;
         if err \<noteq> None then do {
           _ \<leftarrow> clearBillingChange cl t;
           reject 500 ''failed to record scheduled downgrade''
         }
         else do {
           recordBillingLifecycleAudit ''billing.plan.downgrade.schedule'' (pn_Tier target) (si_CurrentPeriodEnd item);
           ret (202, [(''plan_tier'', VStr (pn_Tier current)), (''to_tier'', VStr (pn_Tier target)),
                      (''scheduled'', VBool True), (''effective_at'', VTime (si_CurrentPeriodEnd item))])
         }
       }
     }
   }"

text \<open>The payment service has changed the price: the tenant's row, the intent, the held contacts.\<close>

definition applyInline ::
  "Cloud \<Rightarrow> ObjectId \<Rightarrow> Plan \<Rightarrow> Plan \<Rightarrow> PlanChangeIntent \<Rightarrow> Response billing" where
  "applyInline cl t current target intent = do {
     err \<leftarrow> updateTenantId cl t (\<lambda>x. x\<lparr>tn_PlanTier := pn_Tier target\<rparr>);
     if err \<noteq> None then reject 500 (''plan changed in Stripe but failed to save'' @ dash @ ''it will sync shortly'')
     else do {
       resolvePlanIntent cl (in_Id intent) Confirmed (pn_Tier target) ''applied inline'';
       effect (Invalidate t);
       released \<leftarrow> (if pn_PriceUSD target > pn_PriceUSD current then do {
           effect (ReleaseHeldContacts t);
           n \<leftarrow> reading;
           _ \<leftarrow> updateTenantId cl t (\<lambda>x. x\<lparr>tn_LimitGraceAt := None\<rparr>);
           ret (cl_Released cl n)
         } else ret 0);
       effect (AuditRecord ''billing.plan.change'' (pn_Tier target) None);
       ret (200, [(''plan_tier'', VStr (pn_Tier target)), (''changed'', VBool True),
                  (''contacts_released'', VInt released)])
     }
   }"

text \<open>A change that takes effect at once: the intent, the payment service, the tenant.\<close>

definition changePlanNow ::
  "Cloud \<Rightarrow> ObjectId \<Rightarrow> Tenant \<Rightarrow> Plan \<Rightarrow> Plan \<Rightarrow> SubscriptionItem \<Rightarrow> Response billing" where
  "changePlanNow cl t tenant current target item = do {
     i \<leftarrow> newId;
     now \<leftarrow> time_Now cl;
     let intent = cl_NewPlanChangeIntent cl i now t (pn_Tier current) (pn_Tier target) (tn_SubscriptionID tenant);
     err \<leftarrow> insertIntent cl intent;
     if err \<noteq> None then reject 500 ''failed to record plan change''
     else do {
       r \<leftarrow> UpdateSubscriptionPrice (cl_net cl) (cl_platformKey cl) (tn_SubscriptionID tenant) (si_ItemID item)
              (cl_StripePriceID cl (pn_Tier target));
       case r of
         Inl e \<Rightarrow> do {
           resolvePlanIntent cl (in_Id intent) Failed [] (''stripe update failed: '' @ StripeError_Error e);
           reject 502 ''failed to change plan''
         }
       | Inr _ \<Rightarrow> applyInline cl t current target intent
     }
   }"

text \<open>Whether the tenant's usage is above the limits of a cheaper plan; an unknown usage fits.\<close>

definition usageExceeds :: "Cloud \<Rightarrow> ObjectId \<Rightarrow> Plan \<Rightarrow> Plan \<Rightarrow> (int \<times> int) option billing" where
  "usageExceeds cl t current target =
     (if pn_PriceUSD target < pn_PriceUSD current then do {
        n \<leftarrow> reading;
        ret (case cl_GetUsage cl n t of
               None \<Rightarrow> None
             | Some (contacts, domains) \<Rightarrow>
                 if contacts > pn_ContactLimit target \<or> domains > pn_DomainLimit target
                 then Some (contacts, domains) else None)
      } else ret None)"

definition changePlan :: "Cloud \<Rightarrow> ObjectId \<Rightarrow> Tenant \<Rightarrow> Plan \<Rightarrow> Response billing" where
  "changePlan cl t tenant target =
     (if tn_SubscriptionID tenant = [] then reject 409 (''no active subscription'' @ dash @ ''subscribe first'')
      else
        (let current = cl_ForTenant cl (tn_PlanTier tenant) in
         if pn_Tier current = pn_Tier target
         then ret (200, [(''plan_tier'', VStr (pn_Tier current)), (''changed'', VBool False)])
         else if tn_ChangeKind tenant \<noteq> NoChange then reject 409 ''a billing change is already scheduled''
         else do {
           over \<leftarrow> usageExceeds cl t current target;
           case over of
             Some usage \<Rightarrow> ret (409, [(''error'', VStr ''current usage exceeds the limits of that plan''),
                                     (''usage'', VUsage usage), (''plan'', VPlan target)])
           | None \<Rightarrow> do {
               item \<leftarrow> GetSubscriptionItem (cl_net cl) (cl_platformKey cl) (tn_SubscriptionID tenant);
               case item of
                 Inl _ \<Rightarrow> reject 502 ''failed to load subscription''
               | Inr item \<Rightarrow>
                   if pn_PriceUSD target < pn_PriceUSD current
                   then scheduleDowngrade cl t tenant current target item
                   else changePlanNow cl t tenant current target item
             }
         }))"

definition HandleChangeBillingPlan :: "Cloud \<Rightarrow> ObjectId option \<Rightarrow> string option \<Rightarrow> Response billing" where
  "HandleChangeBillingPlan cl tenantID body =
     (case tenantID of
        None \<Rightarrow> unauthorized
      | Some t \<Rightarrow>
          (case body of
             None \<Rightarrow> reject 400 ''tier is required''
           | Some tier \<Rightarrow>
               if tier = [] then reject 400 ''tier is required''
               else
                 (case cl_ByTier cl tier of
                    None \<Rightarrow> reject 400 ''unknown plan tier''
                  | Some target \<Rightarrow>
                      if cl_platformKey cl = [] \<or> cl_StripePriceID cl (pn_Tier target) = []
                      then reject 503 ''this plan is not available yet''
                      else do {
                        found \<leftarrow> findTenantId cl t;
                        case found of
                          Inl _ \<Rightarrow> reject 404 ''tenant not found''
                        | Inr tenant \<Rightarrow> changePlan cl t tenant target
                      })))"

section \<open>Cancellation\<close>

definition scheduleCancellation :: "Cloud \<Rightarrow> ObjectId \<Rightarrow> Tenant \<Rightarrow> Response billing" where
  "scheduleCancellation cl t tenant =
     (if tn_SubscriptionID tenant = [] \<or> tn_ChangeKind tenant \<noteq> NoChange
      then reject 409 ''subscription cannot be scheduled for cancellation''
      else if cl_platformKey cl = [] then reject 503 ''platform billing is not configured''
      else do {
        item \<leftarrow> GetSubscriptionItem (cl_net cl) (cl_platformKey cl) (tn_SubscriptionID tenant);
        boundary \<leftarrow> (case item of
            Inl _ \<Rightarrow> ret None
          | Inr item \<Rightarrow> do {
              now \<leftarrow> time_Now cl;
              ret (if si_CurrentPeriodEnd item > now then Some (si_CurrentPeriodEnd item) else None)
            });
        case boundary of
          None \<Rightarrow> reject 502 ''failed to load subscription billing boundary''
        | Some end \<Rightarrow> do {
            i \<leftarrow> newId;
            now \<leftarrow> time_Now cl;
            let intent = cl_NewScheduledBillingChange cl i now t ChangeCancel (tn_PlanTier tenant) []
                  (tn_SubscriptionID tenant) end;
            err \<leftarrow> projectBillingChange cl t ChangeCancel [] end;
            if err \<noteq> None then reject 409 ''a billing change is already scheduled''
            else do {
              err \<leftarrow> insertIntent cl intent;
              if err \<noteq> None then do {
                _ \<leftarrow> clearBillingChange cl t;
                reject 500 ''failed to record cancellation''
              }
              else do {
                r \<leftarrow> SetSubscriptionCancelAtPeriodEnd (cl_net cl) (cl_platformKey cl) (tn_SubscriptionID tenant) True;
                case r of
                  Inl e \<Rightarrow> do {
                    resolvePlanIntent cl (in_Id intent) Failed [] (''stripe cancellation failed: '' @ StripeError_Error e);
                    _ \<leftarrow> clearBillingChange cl t;
                    reject 502 ''failed to schedule cancellation''
                  }
                | Inr _ \<Rightarrow> do {
                    recordBillingLifecycleAudit ''billing.subscription.cancel.schedule'' (tn_SubscriptionID tenant) end;
                    ret (202, [(''scheduled'', VBool True), (''effective_at'', VTime end)])
                  }
              }
            }
          }
      })"

text \<open>The tenant of a request: the token's, when the database finds it.\<close>

definition withTenant :: "Cloud \<Rightarrow> ObjectId option \<Rightarrow> (ObjectId \<Rightarrow> Tenant \<Rightarrow> Response billing) \<Rightarrow> Response billing" where
  "withTenant cl tenantID k =
     (case tenantID of
        None \<Rightarrow> unauthorized
      | Some t \<Rightarrow> do {
          found \<leftarrow> findTenantId cl t;
          case found of Inl _ \<Rightarrow> unauthorized | Inr tenant \<Rightarrow> k t tenant
        })"

definition HandleScheduleBillingCancellation :: "Cloud \<Rightarrow> ObjectId option \<Rightarrow> Response billing" where
  "HandleScheduleBillingCancellation cl tenantID = withTenant cl tenantID (scheduleCancellation cl)"

text \<open>The payment service has reversed the cancellation: what is left to record.\<close>

definition recordReversal :: "Cloud \<Rightarrow> ObjectId \<Rightarrow> Tenant \<Rightarrow> Response billing" where
  "recordReversal cl t tenant = do {
     markScheduledIntents cl t ChangeCancel Canceled ''cancellation reversed'';
     i \<leftarrow> newId;
     created \<leftarrow> time_Now cl;
     now \<leftarrow> time_Now cl;
     let intent = (cl_NewPlanChangeIntent cl i created t (tn_PlanTier tenant) (tn_PlanTier tenant)
           (tn_SubscriptionID tenant))
         \<lparr>in_Kind := ChangeReactivate, in_Status := Confirmed, in_ResolvedAt := Some now,
          in_Note := ''reactivated inline''\<rparr>;
     _ \<leftarrow> insertIntent cl intent;
     _ \<leftarrow> clearBillingChange cl t;
     recordBillingLifecycleAudit ''billing.subscription.reactivate'' (tn_SubscriptionID tenant) now;
     ret (200, [(''reactivated'', VBool True)])
   }"

definition reactivate :: "Cloud \<Rightarrow> ObjectId \<Rightarrow> Tenant \<Rightarrow> Response billing" where
  "reactivate cl t tenant =
     (if tn_ChangeKind tenant \<noteq> ChangeCancel \<or> tn_SubscriptionID tenant = []
      then reject 409 ''no scheduled cancellation to reverse''
      else if cl_platformKey cl = [] then reject 503 ''platform billing is not configured''
      else do {
        err \<leftarrow> updateTenant cl (\<lambda>x. tn_Id x = t \<and> tn_ChangeKind x = ChangeCancel)
                (\<lambda>x. x\<lparr>tn_ChangeKind := ChangeReactivate\<rparr>);
        if err \<noteq> None then reject 409 ''cancellation is already being reversed''
        else do {
          r \<leftarrow> SetSubscriptionCancelAtPeriodEnd (cl_net cl) (cl_platformKey cl) (tn_SubscriptionID tenant) False;
          case r of
            Inl _ \<Rightarrow> do {
              _ \<leftarrow> updateTenantId cl t (\<lambda>x. x\<lparr>tn_ChangeKind := ChangeCancel\<rparr>);
              reject 502 ''failed to reactivate subscription''
            }
          | Inr _ \<Rightarrow> recordReversal cl t tenant
        }
      })"

definition HandleReactivateBillingSubscription :: "Cloud \<Rightarrow> ObjectId option \<Rightarrow> Response billing" where
  "HandleReactivateBillingSubscription cl tenantID = withTenant cl tenantID (reactivate cl)"

definition cancelScheduledChange :: "Cloud \<Rightarrow> ObjectId \<Rightarrow> Tenant \<Rightarrow> Response billing" where
  "cancelScheduledChange cl t tenant =
     (if tn_ChangeKind tenant \<noteq> ChangePlan then reject 409 ''no scheduled downgrade to cancel''
      else do {
        markScheduledIntents cl t ChangePlan Canceled ''scheduled downgrade withdrawn'';
        _ \<leftarrow> clearBillingChange cl t;
        now \<leftarrow> time_Now cl;
        recordBillingLifecycleAudit ''billing.plan.downgrade.cancel'' (tn_PendingTier tenant) now;
        ret (200, [(''canceled'', VBool True)])
      })"

definition HandleCancelScheduledBillingChange :: "Cloud \<Rightarrow> ObjectId option \<Rightarrow> Response billing" where
  "HandleCancelScheduledBillingChange cl tenantID = withTenant cl tenantID (cancelScheduledChange cl)"

section \<open>The portal and the invoices\<close>

definition HandleCreateBillingPortalSession :: "Cloud \<Rightarrow> ObjectId option \<Rightarrow> Response billing" where
  "HandleCreateBillingPortalSession cl tenantID =
     (case tenantID of
        None \<Rightarrow> unauthorized
      | Some t \<Rightarrow>
          if cl_platformKey cl = [] then reject 503 ''platform billing is not configured''
          else do {
            found \<leftarrow> findTenantId cl t;
            case found of
              Inl _ \<Rightarrow> reject 404 ''tenant not found''
            | Inr tenant \<Rightarrow>
                if tn_CustomerID tenant = [] then reject 409 (''no billing customer yet'' @ dash @ ''add a payment method first'')
                else do {
                  r \<leftarrow> CreatePortalSession (cl_net cl) (cl_platformKey cl) (tn_CustomerID tenant)
                         (publicAPIBase cl @ ''/billing'');
                  case r of
                    Inl _ \<Rightarrow> reject 502 ''failed to create portal session''
                  | Inr url \<Rightarrow> ret (200, [(''url'', VStr url)])
                }
          })"

text \<open>Newest first; rows of one millisecond stay in natural order.\<close>

definition HandleGetBillingInvoices :: "Cloud \<Rightarrow> ObjectId option \<Rightarrow> Response billing" where
  "HandleGetBillingInvoices cl tenantID =
     (case tenantID of
        None \<Rightarrow> unauthorized
      | Some t \<Rightarrow> do {
          r \<leftarrow> dbRead cl (\<lambda>s. Inr (take 100 (sort_key (\<lambda>v. - iv_CreatedAt v)
                 (filter (\<lambda>v. iv_TenantID v = t) (pl_invoices s)))));
          ret (200, [(''invoices'', VInvoices (case r of Inl _ \<Rightarrow> [] | Inr vs \<Rightarrow> vs))])
        })"

end
