(* ===== verification/PlatformWebhook.thy ===== *)
theory PlatformWebhook
  imports BillingHandlers
begin

text \<open>
  The webhook of platform billing (\<open>src/routes/platform_webhook.go\<close>): each event is recorded
  before it is processed, a processed one is acknowledged without processing it again, and the
  handler of its type brings the tenant in line with what the payment service reports.
\<close>

section \<open>The record of an event\<close>

definition platform_provider :: string where
  "platform_provider = ''stripe_platform''"

definition is_event :: "string \<Rightarrow> ProviderEvent \<Rightarrow> bool" where
  "is_event eventID e \<longleftrightarrow> pe_Provider e = platform_provider \<and> pe_EventID e = eventID"

definition same_event :: "ProviderEvent \<Rightarrow> ProviderEvent \<Rightarrow> bool" where
  "same_event a b \<longleftrightarrow> pe_Provider a = pe_Provider b \<and> pe_EventID a = pe_EventID b"

definition updateEvent :: "Cloud \<Rightarrow> (ProviderEvent \<Rightarrow> bool) \<Rightarrow> (ProviderEvent \<Rightarrow> ProviderEvent) \<Rightarrow> db_error option billing" where
  "updateEvent cl P f = dbWrite cl (\<lambda>s.
     let (e, rows) = updateOne P f (pl_events s) in (e, s\<lparr>pl_events := rows\<rparr>))"

fun db_message :: "db_error \<Rightarrow> string" where
  "db_message NotFound = ''not found''"
| "db_message DuplicateKey = ''duplicate key''"
| "db_message (DbError e) = e"

text \<open>The error, or whether the event has been processed before.\<close>

definition recordProviderEvent :: "Cloud \<Rightarrow> WebhookEvent \<Rightarrow> (db_error + bool) billing" where
  "recordProviderEvent cl evt = do {
     now \<leftarrow> time_Now cl;
     i \<leftarrow> newId;
     insertErr \<leftarrow> dbWrite cl (\<lambda>s.
       let (e, rows) = insertRow same_event
             \<lparr>pe_Id = i, pe_Provider = platform_provider, pe_EventID = we_ID evt, pe_Type = we_Type evt,
              pe_Livemode = we_Livemode evt, pe_ProviderCreated = we_Created evt, pe_Status = EventReceived,
              pe_Attempts = 1, pe_LastError = [], pe_CreatedAt = bsonTime now, pe_UpdatedAt = bsonTime now\<rparr>
             (pl_events s) in
       (e, s\<lparr>pl_events := rows\<rparr>));
     case insertErr of
       None \<Rightarrow> ret (Inr False)
     | Some e \<Rightarrow>
         if e \<noteq> DuplicateKey then ret (Inl e)
         else do {
           found \<leftarrow> dbRead cl (\<lambda>s. findOne (is_event (we_ID evt)) (pl_events s));
           case found of
             Inl e \<Rightarrow> ret (Inl e)
           | Inr existing \<Rightarrow>
               if pe_Status existing = EventProcessed then ret (Inr True)
               else do {
                 _ \<leftarrow> updateEvent cl (\<lambda>x. pe_Id x = pe_Id existing)
                   (\<lambda>x. x\<lparr>pe_Attempts := pe_Attempts x + 1, pe_UpdatedAt := bsonTime now\<rparr>);
                 ret (Inr False)
               }
         }
   }"

definition markProviderEventProcessed :: "Cloud \<Rightarrow> string \<Rightarrow> unit billing" where
  "markProviderEventProcessed cl eventID =
     (if eventID = [] then ret ()
      else do {
        now \<leftarrow> time_Now cl;
        _ \<leftarrow> updateEvent cl (is_event eventID)
          (\<lambda>x. x\<lparr>pe_Status := EventProcessed, pe_LastError := [], pe_UpdatedAt := bsonTime now\<rparr>);
        ret ()
      })"

definition markProviderEventFailed :: "Cloud \<Rightarrow> string \<Rightarrow> string \<Rightarrow> unit billing" where
  "markProviderEventFailed cl eventID cause =
     (if eventID = [] then ret ()
      else do {
        now \<leftarrow> time_Now cl;
        _ \<leftarrow> updateEvent cl (is_event eventID)
          (\<lambda>x. x\<lparr>pe_Status := EventFailed, pe_LastError := cause, pe_UpdatedAt := bsonTime now\<rparr>);
        ret ()
      })"

section \<open>Which tenant, since when\<close>

fun firstNonEmpty :: "string list \<Rightarrow> string" where
  "firstNonEmpty [] = []"
| "firstNonEmpty (v # vs) = (if v \<noteq> [] then v else firstNonEmpty vs)"

text \<open>A map of strings: a missing key reads as the empty string.\<close>

definition meta :: "string gomap \<Rightarrow> string \<Rightarrow> string" where
  "meta m k = (case map_of m k of None \<Rightarrow> [] | Some v \<Rightarrow> v)"

definition resolvePlatformTenant :: "Cloud \<Rightarrow> string \<Rightarrow> string \<Rightarrow> ObjectId option billing" where
  "resolvePlatformTenant cl tenantHex customerID =
     (case cl_ObjectIdHex cl tenantHex of
        Some t \<Rightarrow> ret (Some t)
      | None \<Rightarrow>
          if customerID = [] then ret None
          else do {
            found \<leftarrow> findTenant cl (\<lambda>x. tn_CustomerID x = customerID);
            ret (case found of Inl _ \<Rightarrow> None | Inr x \<Rightarrow> Some (tn_Id x))
          })"

text \<open>The error that is returned; no row means that the time is stamped already.\<close>

definition stampPastDueIfUnset :: "Cloud \<Rightarrow> ObjectId \<Rightarrow> db_error option billing" where
  "stampPastDueIfUnset cl t = do {
     now \<leftarrow> time_Now cl;
     err \<leftarrow> updateTenant cl (\<lambda>x. tn_Id x = t \<and> tn_PastDueAt x = None)
       (\<lambda>x. x\<lparr>tn_PastDueAt := Some (bsonTime now)\<rparr>);
     ret (if err = Some NotFound then None else err)
   }"

section \<open>The events\<close>

text \<open>The error of a handler, as its message.\<close>

type_synonym handled = "string option billing"

definition written :: "db_error option \<Rightarrow> string option" where
  "written = map_option db_message"

text \<open>A subscription that is still on trial keeps its status: the payment service flips it later.\<close>

definition checkoutStatus :: "Cloud \<Rightarrow> db_error + Tenant \<Rightarrow> string billing" where
  "checkoutStatus cl found =
     (case found of
        Inl _ \<Rightarrow> ret ''active''
      | Inr x \<Rightarrow>
          (case tn_TrialEndsAt x of
             None \<Rightarrow> ret ''active''
           | Some trialEnd \<Rightarrow> do {
               now \<leftarrow> time_Now cl;
               ret (if now < trialEnd then ''trial'' else ''active'')
             }))"

definition platformCheckoutCompleted :: "Cloud \<Rightarrow> string \<Rightarrow> handled" where
  "platformCheckoutCompleted cl raw =
     (case cl_checkout cl raw of
        Inl e \<Rightarrow> ret (Some e)
      | Inr session \<Rightarrow>
          if co_Mode session \<noteq> ''subscription'' then ret None
          else do {
            tenant \<leftarrow> resolvePlatformTenant cl
              (firstNonEmpty [co_ClientReferenceID session, meta (co_Metadata session) ''tenant_id''])
              (co_Customer session);
            case tenant of
              None \<Rightarrow> ret None
            | Some t \<Rightarrow> do {
                found \<leftarrow> findTenantId cl t;
                status \<leftarrow> checkoutStatus cl found;
                err \<leftarrow> updateTenantId cl t
                  (\<lambda>x. x\<lparr>tn_CustomerID := co_Customer session, tn_SubscriptionID := co_Subscription session,
                         tn_SubscriptionStatus := status, tn_PastDueAt := None\<rparr>);
                ret (written err)
              }
          })"

text \<open>The tier a subscription is on: that of its price, or of its metadata.\<close>

definition metadataTier :: "Cloud \<Rightarrow> SubscriptionEvent \<Rightarrow> string option" where
  "metadataTier cl sub =
     (let tier = meta (su_Metadata sub) ''plan_tier'' in
      if cl_ByTier cl tier = None then None else Some tier)"

definition subscriptionTier :: "Cloud \<Rightarrow> SubscriptionEvent \<Rightarrow> string option" where
  "subscriptionTier cl sub =
     (case su_Prices sub of
        [] \<Rightarrow> metadataTier cl sub
      | price # _ \<Rightarrow>
          (case cl_TierForPriceID cl price of Some tier \<Rightarrow> Some tier | None \<Rightarrow> metadataTier cl sub))"

text \<open>The part of the update that concerns a scheduled cancellation.\<close>

definition cancellationUpdate :: "Cloud \<Rightarrow> ObjectId \<Rightarrow> SubscriptionEvent \<Rightarrow> (Tenant \<Rightarrow> Tenant) billing" where
  "cancellationUpdate cl t sub =
     (if su_CancelAtPeriodEnd sub \<and> su_CurrentPeriodEnd sub > 0
      then ret (\<lambda>x. x\<lparr>tn_ChangeKind := ChangeCancel,
                      tn_ChangeAt := Some (bsonTime (unixTime (su_CurrentPeriodEnd sub))), tn_PendingTier := []\<rparr>)
      else do {
        found \<leftarrow> findTenantId cl t;
        case found of
          Inl _ \<Rightarrow> ret (\<lambda>x. x)
        | Inr current \<Rightarrow>
            if tn_ChangeKind current = ChangeCancel then do {
              markScheduledIntents cl t ChangeCancel Canceled ''cancellation reversed at Stripe'';
              ret (\<lambda>x. x\<lparr>tn_ChangeKind := NoChange, tn_ChangeAt := None, tn_PendingTier := []\<rparr>)
            }
            else ret (\<lambda>x. x)
      })"

text \<open>The part that concerns the status: an error, nothing to write, or the update.\<close>

datatype StatusUpdate = StatusError string | StatusSkip | StatusSet "Tenant \<Rightarrow> Tenant"

definition statusUpdate :: "Cloud \<Rightarrow> ObjectId \<Rightarrow> SubscriptionEvent \<Rightarrow> StatusUpdate billing" where
  "statusUpdate cl t sub =
     (if su_Status sub = ''trialing''
      then ret (StatusSet (\<lambda>x. x\<lparr>tn_SubscriptionStatus := ''trial'', tn_PastDueAt := None\<rparr>))
      else if su_Status sub = ''active''
      then ret (StatusSet (\<lambda>x. x\<lparr>tn_SubscriptionStatus := ''active'', tn_PastDueAt := None\<rparr>))
      else if su_Status sub = ''past_due'' then do {
        err \<leftarrow> stampPastDueIfUnset cl t;
        ret (case err of
               Some e \<Rightarrow> StatusError (db_message e)
             | None \<Rightarrow> StatusSet (\<lambda>x. x\<lparr>tn_SubscriptionStatus := ''past_due''\<rparr>))
      }
      else if su_Status sub = ''canceled'' \<or> su_Status sub = ''unpaid'' \<or> su_Status sub = ''incomplete_expired''
      then ret (StatusSet (\<lambda>x. x\<lparr>tn_SubscriptionStatus := ''canceled''\<rparr>))
      else ret StatusSkip)"

text \<open>The part that concerns the tier; an upgrade frees the held contacts and restarts the limit clock.\<close>

definition tierUpdate :: "Cloud \<Rightarrow> ObjectId \<Rightarrow> string option \<Rightarrow> (Tenant \<Rightarrow> Tenant) billing" where
  "tierUpdate cl t tier =
     (case tier of
        None \<Rightarrow> ret (\<lambda>x. x)
      | Some newTier \<Rightarrow> do {
          let f = (\<lambda>x. x\<lparr>tn_PlanTier := newTier, tn_PlanContract := cl_SnapshotContract cl newTier\<rparr>);
          found \<leftarrow> findTenantId cl t;
          case found of
            Inl _ \<Rightarrow> ret f
          | Inr current \<Rightarrow>
              if pn_ContactLimit (cl_ForTenant cl newTier) > pn_ContactLimit (cl_ForTenant cl (tn_PlanTier current))
              then do {
                effect (ReleaseHeldContacts t);
                ret (\<lambda>x. (f x)\<lparr>tn_LimitGraceAt := None\<rparr>)
              }
              else ret f
        })"

definition platformSubscriptionUpdated :: "Cloud \<Rightarrow> string \<Rightarrow> handled" where
  "platformSubscriptionUpdated cl raw =
     (case cl_subscription cl raw of
        Inl e \<Rightarrow> ret (Some e)
      | Inr sub \<Rightarrow> do {
          tenant \<leftarrow> resolvePlatformTenant cl (meta (su_Metadata sub) ''tenant_id'') (su_Customer sub);
          case tenant of
            None \<Rightarrow> ret None
          | Some t \<Rightarrow> do {
              let tier = subscriptionTier cl sub;
              cancellation \<leftarrow> cancellationUpdate cl t sub;
              status \<leftarrow> statusUpdate cl t sub;
              case status of
                StatusError e \<Rightarrow> ret (Some e)
              | StatusSkip \<Rightarrow> ret None
              | StatusSet setStatus \<Rightarrow> do {
                  setTier \<leftarrow> tierUpdate cl t tier;
                  err \<leftarrow> updateTenantId cl t
                    (\<lambda>x. (setTier (setStatus (cancellation x)))\<lparr>tn_SubscriptionID := su_ID sub\<rparr>);
                  if err \<noteq> None then ret (written err)
                  else
                    (case tier of
                       None \<Rightarrow> ret None
                     | Some tier \<Rightarrow> do {
                         confirmPlanIntents cl t tier;
                         effect (Invalidate t);
                         ret None
                       })
                }
            }
        })"

definition platformSubscriptionDeleted :: "Cloud \<Rightarrow> string \<Rightarrow> handled" where
  "platformSubscriptionDeleted cl raw =
     (case cl_deleted cl raw of
        Inl e \<Rightarrow> ret (Some e)
      | Inr (customer, metadata) \<Rightarrow> do {
          tenant \<leftarrow> resolvePlatformTenant cl (meta metadata ''tenant_id'') customer;
          case tenant of
            None \<Rightarrow> ret None
          | Some t \<Rightarrow> do {
              err \<leftarrow> updateTenantId cl t
                (\<lambda>x. x\<lparr>tn_SubscriptionStatus := ''canceled'', tn_ChangeKind := NoChange, tn_ChangeAt := None,
                       tn_PendingTier := []\<rparr>);
              if err \<noteq> None then ret (written err)
              else do {
                markScheduledIntents cl t ChangeCancel Confirmed ''subscription ended at paid-through boundary'';
                ret None
              }
            }
        })"

definition same_invoice :: "ObjectId \<Rightarrow> string \<Rightarrow> InvoiceProjection \<Rightarrow> bool" where
  "same_invoice t invoiceID v \<longleftrightarrow> iv_TenantID v = t \<and> iv_InvoiceID v = invoiceID"

text \<open>What an invoice writes; a period the invoice lacks stays as it was.\<close>

definition invoiceSet :: "ObjectId \<Rightarrow> InvoiceDoc \<Rightarrow> string \<Rightarrow> int \<Rightarrow> InvoiceProjection \<Rightarrow> InvoiceProjection" where
  "invoiceSet t doc status now v =
     (let v = v\<lparr>iv_TenantID := t, iv_InvoiceID := io_ID doc, iv_Number := io_Number doc, iv_Status := status,
          iv_AmountDue := io_AmountDue doc, iv_AmountPaid := io_AmountPaid doc, iv_Currency := io_Currency doc,
          iv_HostedURL := io_HostedURL doc, iv_UpdatedAt := bsonTime now\<rparr>;
        v = (if io_PeriodStart doc > 0
             then v\<lparr>iv_PeriodStart := Some (bsonTime (unixTime (io_PeriodStart doc)))\<rparr> else v) in
      if io_PeriodEnd doc > 0
      then v\<lparr>iv_PeriodEnd := Some (bsonTime (unixTime (io_PeriodEnd doc)))\<rparr> else v)"

definition newInvoice :: "ObjectId \<Rightarrow> string \<Rightarrow> int \<Rightarrow> InvoiceProjection" where
  "newInvoice t invoiceID now =
     \<lparr>iv_TenantID = t, iv_InvoiceID = invoiceID, iv_Number = [], iv_Status = [], iv_AmountDue = 0,
      iv_AmountPaid = 0, iv_Currency = [], iv_HostedURL = [], iv_PeriodStart = None, iv_PeriodEnd = None,
      iv_UpdatedAt = bsonTime now, iv_CreatedAt = bsonTime now\<rparr>"

definition upsertInvoiceProjection :: "Cloud \<Rightarrow> ObjectId \<Rightarrow> string \<Rightarrow> string \<Rightarrow> unit billing" where
  "upsertInvoiceProjection cl t raw status =
     (case cl_invoice cl raw of
        Inl _ \<Rightarrow> ret ()
      | Inr doc \<Rightarrow>
          if io_ID doc = [] then ret ()
          else do {
            now \<leftarrow> time_Now cl;
            _ \<leftarrow> dbWrite cl (\<lambda>s.
              let (e, rows) = upsertRow (same_invoice t (io_ID doc)) (invoiceSet t doc status now)
                    (invoiceSet t doc status now (newInvoice t (io_ID doc) now)) (pl_invoices s) in
              (e, s\<lparr>pl_invoices := rows\<rparr>));
            ret ()
          })"

definition platformInvoicePaymentFailed :: "Cloud \<Rightarrow> string \<Rightarrow> handled" where
  "platformInvoicePaymentFailed cl raw =
     (case cl_customer cl raw of
        Inl e \<Rightarrow> ret (Some e)
      | Inr customer \<Rightarrow> do {
          tenant \<leftarrow> resolvePlatformTenant cl [] customer;
          case tenant of
            None \<Rightarrow> ret None
          | Some t \<Rightarrow> do {
              upsertInvoiceProjection cl t raw ''payment_failed'';
              err \<leftarrow> updateTenantId cl t (\<lambda>x. x\<lparr>tn_SubscriptionStatus := ''past_due''\<rparr>);
              if err \<noteq> None then ret (written err)
              else do {
                err \<leftarrow> stampPastDueIfUnset cl t;
                ret (written err)
              }
            }
        })"

definition platformInvoicePaid :: "Cloud \<Rightarrow> string \<Rightarrow> handled" where
  "platformInvoicePaid cl raw =
     (case cl_customer cl raw of
        Inl e \<Rightarrow> ret (Some e)
      | Inr customer \<Rightarrow> do {
          tenant \<leftarrow> resolvePlatformTenant cl [] customer;
          case tenant of
            None \<Rightarrow> ret None
          | Some t \<Rightarrow> do {
              upsertInvoiceProjection cl t raw ''paid'';
              ret None
            }
        })"

section \<open>One delivery\<close>

definition processEvent :: "Cloud \<Rightarrow> WebhookEvent \<Rightarrow> handled" where
  "processEvent cl evt =
     (if we_Type evt = ''checkout.session.completed'' then platformCheckoutCompleted cl (we_Object evt)
      else if we_Type evt = ''customer.subscription.created'' \<or> we_Type evt = ''customer.subscription.updated''
      then platformSubscriptionUpdated cl (we_Object evt)
      else if we_Type evt = ''customer.subscription.deleted'' then platformSubscriptionDeleted cl (we_Object evt)
      else if we_Type evt = ''invoice.paid'' \<or> we_Type evt = ''invoice.payment_succeeded''
      then platformInvoicePaid cl (we_Object evt)
      else if we_Type evt = ''invoice.payment_failed'' then platformInvoicePaymentFailed cl (we_Object evt)
      else ret None)"

text \<open>The event after its record: processed, and marked by the outcome.\<close>

definition deliver :: "Cloud \<Rightarrow> WebhookEvent \<Rightarrow> Response billing" where
  "deliver cl evt = do {
     err \<leftarrow> processEvent cl evt;
     case err of
       Some e \<Rightarrow> do {
         markProviderEventFailed cl (we_ID evt) e;
         reject 500 ''processing failed''
       }
     | None \<Rightarrow> do {
         markProviderEventProcessed cl (we_ID evt);
         ret (200, [(''received'', VBool True)])
       }
   }"

definition receive :: "Cloud \<Rightarrow> WebhookEvent \<Rightarrow> Response billing" where
  "receive cl evt =
     (if we_ID evt = [] then deliver cl evt
      else do {
        recorded \<leftarrow> recordProviderEvent cl evt;
        case recorded of
          Inl _ \<Rightarrow> reject 500 ''event not persisted''
        | Inr already \<Rightarrow>
            if already then ret (200, [(''received'', VBool True), (''duplicate'', VBool True)])
            else deliver cl evt
      })"

text \<open>The request: its signature header and its body, or the error of reading it.\<close>

definition HandlePlatformStripeWebhook :: "Cloud \<Rightarrow> string \<Rightarrow> string + string \<Rightarrow> Response billing" where
  "HandlePlatformStripeWebhook cl signature body =
     (if cl_webhookSecret cl = [] then reject 503 ''platform webhook not configured''
      else
        (case body of
           Inl _ \<Rightarrow> reject 400 ''failed to read body''
         | Inr rawBody \<Rightarrow>
             if cl_VerifySignature cl signature rawBody (cl_webhookSecret cl) \<noteq> None
             then reject 400 ''invalid signature''
             else
               (case cl_event cl rawBody of
                  Inl _ \<Rightarrow> reject 400 ''invalid json''
                | Inr evt \<Rightarrow> receive cl evt)))"

end
