(* ===== verification/BillingFrames.thy ===== *)
theory BillingFrames
  imports PlatformWebhook
begin

text \<open>
  The writes of platform billing, and what every operation keeps if every write keeps it. A
  write to a tenant is one of the updates the code contains; the flag says whether the updates
  that settle a debt (a checkout, a subscription that is active or trialing) are among them.
\<close>

section \<open>The updates of a tenant\<close>

text \<open>A tier the code writes: one the package \<open>plans\<close> knows or gives for a price.\<close>

inductive known_tier :: "Cloud \<Rightarrow> string \<Rightarrow> bool" for cl :: Cloud where
  plan: "cl_ByTier cl tier = Some p \<Longrightarrow> known_tier cl (pn_Tier p)"
| name: "cl_ByTier cl tier \<noteq> None \<Longrightarrow> known_tier cl tier"
| price: "cl_TierForPriceID cl priceID = Some tier \<Longrightarrow> known_tier cl tier"

inductive cancellation_part :: "(Tenant \<Rightarrow> Tenant) \<Rightarrow> bool" where
  same: "cancellation_part (\<lambda>x. x)"
| cancel: "cancellation_part (\<lambda>x. x\<lparr>tn_ChangeKind := ChangeCancel, tn_ChangeAt := Some at, tn_PendingTier := []\<rparr>)"
| clear: "cancellation_part (\<lambda>x. x\<lparr>tn_ChangeKind := NoChange, tn_ChangeAt := None, tn_PendingTier := []\<rparr>)"

inductive status_part :: "bool \<Rightarrow> (Tenant \<Rightarrow> Tenant) \<Rightarrow> bool" for settle :: bool where
  paid: "settle \<Longrightarrow> status \<in> {''trial'', ''active''}
    \<Longrightarrow> status_part settle (\<lambda>x. x\<lparr>tn_SubscriptionStatus := status, tn_PastDueAt := None\<rparr>)"
| unpaid: "status \<in> {''past_due'', ''canceled''}
    \<Longrightarrow> status_part settle (\<lambda>x. x\<lparr>tn_SubscriptionStatus := status\<rparr>)"

inductive tier_part :: "Cloud \<Rightarrow> (Tenant \<Rightarrow> Tenant) \<Rightarrow> bool" for cl :: Cloud where
  same: "tier_part cl (\<lambda>x. x)"
| tier: "known_tier cl tier \<Longrightarrow> tier_part cl (\<lambda>x. x\<lparr>tn_PlanTier := tier, tn_PlanContract := c\<rparr>)"
| upgrade: "known_tier cl tier
    \<Longrightarrow> tier_part cl (\<lambda>x. x\<lparr>tn_PlanTier := tier, tn_PlanContract := c, tn_LimitGraceAt := None\<rparr>)"

inductive tenant_write :: "bool \<Rightarrow> Cloud \<Rightarrow> (Tenant \<Rightarrow> bool) \<Rightarrow> (Tenant \<Rightarrow> Tenant) \<Rightarrow> bool"
  for settle :: bool and cl :: Cloud where
  customer: "tenant_write settle cl P (\<lambda>x. x\<lparr>tn_CustomerID := c\<rparr>)"
| project: "kind \<in> {ChangePlan, ChangeCancel} \<Longrightarrow> (\<And>x. P x \<Longrightarrow> tn_ChangeKind x = NoChange)
    \<Longrightarrow> tenant_write settle cl P (\<lambda>x. x\<lparr>tn_ChangeKind := kind, tn_PendingTier := tier, tn_ChangeAt := Some at\<rparr>)"
| clear: "tenant_write settle cl P (\<lambda>x. x\<lparr>tn_ChangeKind := NoChange, tn_PendingTier := [], tn_ChangeAt := None\<rparr>)"
| cancel: "tenant_write settle cl P
    (\<lambda>x. x\<lparr>tn_ChangeKind := ChangeCancel, tn_ChangeAt := Some at, tn_PendingTier := []\<rparr>)"
| reverse: "(\<And>x. P x \<Longrightarrow> tn_ChangeKind x = ChangeCancel)
    \<Longrightarrow> tenant_write settle cl P (\<lambda>x. x\<lparr>tn_ChangeKind := ChangeReactivate\<rparr>)"
| rollback: "tenant_write settle cl P (\<lambda>x. x\<lparr>tn_ChangeKind := ChangeCancel\<rparr>)"
| inline: "known_tier cl tier \<Longrightarrow> tenant_write settle cl P (\<lambda>x. x\<lparr>tn_PlanTier := tier\<rparr>)"
| tier: "known_tier cl tier \<Longrightarrow> tenant_write settle cl P (\<lambda>x. x\<lparr>tn_PlanTier := tier, tn_PlanContract := c\<rparr>)"
| due: "known_tier cl tier \<Longrightarrow> tenant_write settle cl P
    (\<lambda>x. x\<lparr>tn_PlanTier := tier, tn_PlanContract := c, tn_ChangeKind := NoChange, tn_PendingTier := [],
           tn_ChangeAt := None\<rparr>)"
| grace: "tenant_write settle cl P (\<lambda>x. x\<lparr>tn_LimitGraceAt := None\<rparr>)"
| stamp: "(\<And>x. P x \<Longrightarrow> tn_PastDueAt x = None) \<Longrightarrow> tenant_write settle cl P (\<lambda>x. x\<lparr>tn_PastDueAt := Some at\<rparr>)"
| checkout: "settle \<Longrightarrow> status \<in> {''trial'', ''active''} \<Longrightarrow> tenant_write settle cl P
    (\<lambda>x. x\<lparr>tn_CustomerID := c, tn_SubscriptionID := sub, tn_SubscriptionStatus := status, tn_PastDueAt := None\<rparr>)"
| subscription: "cancellation_part f \<Longrightarrow> status_part settle g \<Longrightarrow> tier_part cl h
    \<Longrightarrow> tenant_write settle cl P (\<lambda>x. (h (g (f x)))\<lparr>tn_SubscriptionID := sub\<rparr>)"
| deleted: "tenant_write settle cl P
    (\<lambda>x. x\<lparr>tn_SubscriptionStatus := ''canceled'', tn_ChangeKind := NoChange, tn_ChangeAt := None, tn_PendingTier := []\<rparr>)"
| pastDue: "tenant_write settle cl P (\<lambda>x. x\<lparr>tn_SubscriptionStatus := ''past_due''\<rparr>)"

text \<open>The updates of an intent settle it for good.\<close>

definition is_open :: "IntentStatus \<Rightarrow> bool" where
  "is_open st \<longleftrightarrow> st = Pending \<or> st = Scheduled"

inductive intent_write :: "(PlanChangeIntent \<Rightarrow> PlanChangeIntent) \<Rightarrow> bool" where
  resolve: "\<not> is_open st \<Longrightarrow> intent_write
    (\<lambda>x. x\<lparr>in_Status := st, in_ResolvedTier := tier, in_Note := note, in_ResolvedAt := Some at\<rparr>)"
| mark: "\<not> is_open st \<Longrightarrow> intent_write (\<lambda>x. x\<lparr>in_Status := st, in_Note := note, in_ResolvedAt := Some at\<rparr>)"

inductive event_write :: "(ProviderEvent \<Rightarrow> ProviderEvent) \<Rightarrow> bool" where
  attempt: "event_write (\<lambda>x. x\<lparr>pe_Attempts := pe_Attempts x + 1, pe_UpdatedAt := at\<rparr>)"
| mark: "event_write (\<lambda>x. x\<lparr>pe_Status := st, pe_LastError := e, pe_UpdatedAt := at\<rparr>)"

text \<open>The events that settle a debt.\<close>

definition settling :: "Cloud \<Rightarrow> string \<Rightarrow> bool" where
  "settling cl raw \<longleftrightarrow> (case cl_subscription cl raw of
     Inl _ \<Rightarrow> False | Inr sub \<Rightarrow> su_Status sub = ''trialing'' \<or> su_Status sub = ''active'')"

definition settles :: "Cloud \<Rightarrow> WebhookEvent \<Rightarrow> bool" where
  "settles cl evt \<longleftrightarrow> we_Type evt = ''checkout.session.completed''
     \<or> (we_Type evt = ''customer.subscription.created'' \<or> we_Type evt = ''customer.subscription.updated'')
        \<and> settling cl (we_Object evt)"

section \<open>Runs of the basic steps\<close>

lemma run_dbWrite:
  "run_state (dbWrite cl w) s =
     (let s1 = s\<lparr>sc_reads := Suc (sc_reads s)\<rparr> in
      case cl_db cl (sc_reads s) of
        Done \<Rightarrow> w s1
      | Refused e \<Rightarrow> (Some (DbError e), s1)
      | Lost e \<Rightarrow> (Some (DbError e), snd (w s1)))"
  by (auto simp: dbWrite_def Let_def split: db_reply.splits prod.splits)

lemma run_dbRead:
  "run_state (dbRead cl q) s =
     (let s1 = s\<lparr>sc_reads := Suc (sc_reads s)\<rparr> in
      (case cl_db cl (sc_reads s) of Done \<Rightarrow> q s1 | Refused e \<Rightarrow> Inl (DbError e) | Lost e \<Rightarrow> Inl (DbError e), s1))"
  by (auto simp: dbRead_def Let_def split: db_reply.splits)

lemma run_time_Now: "run_state (time_Now cl) s = (cl_now cl (sc_reads s), s\<lparr>sc_reads := Suc (sc_reads s)\<rparr>)"
  by (simp add: time_Now_def)

lemma run_newId: "run_state newId s = (Oid (pl_oids s), s\<lparr>pl_oids := Suc (pl_oids s)\<rparr>)"
  by (simp add: newId_def)

lemma run_effect: "run_state (effect e) s = ((), s\<lparr>pl_effects := pl_effects s @ [e]\<rparr>)"
  by (simp add: effect_def)

lemma run_reject: "run_state (reject code msg) s = ((code, [(''error'', VStr msg)]), s)"
  by (simp add: reject_def)

lemmas billing_runs = run_dbWrite run_dbRead run_time_Now run_newId run_effect run_reject

section \<open>The parts of a subscription's update\<close>

lemma yields_checkout: "yields (checkoutStatus cl found) (\<lambda>st. st \<in> {''trial'', ''active''})"
  by (auto simp: checkoutStatus_def yields_def split_beta split: sum.splits option.splits)

lemma yields_cancellation: "yields (cancellationUpdate cl t sub) cancellation_part"
  by (auto simp: cancellationUpdate_def intro!: yields_intros cancellation_part.intros split: sum.splits)

lemma yields_status:
  assumes "su_Status sub \<in> {''trialing'', ''active''} \<Longrightarrow> settle"
  shows "yields (statusUpdate cl t sub) (\<lambda>u. case u of StatusSet g \<Rightarrow> status_part settle g | _ \<Rightarrow> True)"
  using assms by (auto simp: statusUpdate_def intro!: yields_intros status_part.intros split: option.splits)

lemma subscriptionTier_known: "subscriptionTier cl sub = Some tier \<Longrightarrow> known_tier cl tier"
  by (auto simp: subscriptionTier_def metadataTier_def Let_def intro: known_tier.intros
      split: list.splits option.splits if_splits)

lemma yields_tier:
  assumes "\<And>n. tier = Some n \<Longrightarrow> known_tier cl n"
  shows "yields (tierUpdate cl t tier) (tier_part cl)"
  using assms by (auto simp: tierUpdate_def Let_def intro!: yields_intros tier_part.intros
      split: option.splits sum.splits)

section \<open>What the operations keep\<close>

text \<open>A relation that the calls of the payment service respect.\<close>

locale calls_relation = step_relation R
  for R :: "'x Calls_scheme \<Rightarrow> 'x Calls_scheme \<Rightarrow> bool" +
  assumes calls: "R s (s\<lparr>sc_reads := Suc (sc_reads s)\<rparr>)" "R s (s\<lparr>sc_requests := sc_requests s @ [rq]\<rparr>)"
begin

lemma exchange [preserves_intros]:
  "keeps R reading" "keeps R (modifies (\<lambda>s. s\<lparr>sc_requests := sc_requests s @ [rq]\<rparr>))"
  by (auto simp: reading_def keeps_def calls intro: modify)

lemma attempts [preserves_intros]: "keeps R (stripeAttempts net out rq n)"
  by (induction n) (auto simp: stripeAttempt_def intro!: preserves_intros split: option.splits Outcome.splits)

lemma stripe [preserves_intros]:
  "keeps R (stripeDo net m key path form idem out)" "keeps R (stripeGet net key path out)"
  "keeps R (stripePost net key path f out)" "keeps R (stripePostIdem net key path f idem out)"
  "keeps R (newIdempotencyKey net)"
  by (auto simp: stripeDo_def stripeDoBase_def stripeGet_def stripePost_def stripePostIdem_def
      newIdempotencyKey_def Let_def intro!: preserves_intros)

lemma client [preserves_intros]:
  "keeps R (GetSubscriptionItem net key sub)" "keeps R (UpdateSubscriptionPrice net key sub item price)"
  "keeps R (SetSubscriptionCancelAtPeriodEnd net key sub c)" "keeps R (CreatePortalSession net key cus url)"
  "keeps R (CreateCustomer net key email name hex)"
  "keeps R (CreateSubscriptionCheckoutSession net clock key price cus hex tier ok no idem trial)"
  by (auto simp: GetSubscriptionItem_def UpdateSubscriptionPrice_def SetSubscriptionCancelAtPeriodEnd_def
      CreatePortalSession_def CreateCustomer_def CreateSubscriptionCheckoutSession_def Let_def
      intro!: preserves_intros split: option.splits)

end

locale platform_relation = calls_relation R
  for R :: "Platform \<Rightarrow> Platform \<Rightarrow> bool" and settle :: bool and cl :: Cloud +
  assumes effects: "R s (s\<lparr>pl_effects := es\<rparr>)" "R s (s\<lparr>pl_oids := Suc (pl_oids s)\<rparr>)"
    and tenants: "tenant_write settle cl P f \<Longrightarrow> R s (s\<lparr>pl_tenants := snd (updateOne P f (pl_tenants s))\<rparr>)"
    and intent: "intent_write g \<Longrightarrow> (\<And>x. Q x \<Longrightarrow> is_open (in_Status x))
      \<Longrightarrow> R s (s\<lparr>pl_intents := snd (updateOne Q g (pl_intents s))\<rparr>)"
    and intents: "intent_write g \<Longrightarrow> (\<And>x. Q x \<Longrightarrow> is_open (in_Status x))
      \<Longrightarrow> R s (s\<lparr>pl_intents := snd (updateAll Q g (pl_intents s))\<rparr>)"
    and newIntent: "R s (s\<lparr>pl_intents := snd (insertRow (\<lambda>a b. in_Id a = in_Id b) x (pl_intents s))\<rparr>)"
    and events: "event_write h \<Longrightarrow> R s (s\<lparr>pl_events := snd (updateOne E h (pl_events s))\<rparr>)"
    and newEvent: "R s (s\<lparr>pl_events := snd (insertRow same_event e (pl_events s))\<rparr>)"
    and invoice: "R s (s\<lparr>pl_invoices := snd (upsertRow (same_invoice t (io_ID doc)) (invoiceSet t doc st now)
        (invoiceSet t doc st now (newInvoice t (io_ID doc) now)) (pl_invoices s))\<rparr>)"
begin

lemma outside [preserves_intros]:
  "keeps R (time_Now cl')" "keeps R newId" "keeps R (effect e)"
  by (simp_all add: keeps_def billing_runs calls effects)

lemma read [preserves_intros]:
  "keeps R (dbRead cl' q)" "keeps R (findTenant cl' P)" "keeps R (findTenantId cl' t)"
  "keeps R (findIntents cl' limit Q)"
  by (auto simp: dbRead_def findTenant_def findTenantId_def findIntents_def intro!: preserves_intros
      split: db_reply.splits)

lemma written: "(\<And>s. R s (snd (w s))) \<Longrightarrow> keeps R (dbWrite cl' w)"
  by (auto simp: dbWrite_def keeps_def [of R "State w"] intro!: preserves_intros split: db_reply.splits)

lemma tenantUpdate: "tenant_write settle cl P f \<Longrightarrow> keeps R (updateTenant cl' P f)"
  by (auto simp: updateTenant_def Let_def split_beta intro!: written tenants)

lemma tenantIdUpdate: "tenant_write settle cl (\<lambda>x. tn_Id x = t) f \<Longrightarrow> keeps R (updateTenantId cl' t f)"
  by (simp add: updateTenantId_def tenantUpdate)

lemma intentOps [preserves_intros]:
  "\<not> is_open st \<Longrightarrow> keeps R (resolvePlanIntent cl' i st tier note)"
  "\<not> is_open st \<Longrightarrow> keeps R (markScheduledIntents cl' t kind st note)"
  "keeps R (insertIntent cl' x)"
  by (auto simp: resolvePlanIntent_def markScheduledIntents_def insertIntent_def Let_def split_beta is_open_def
      intro!: preserves_intros written intent intents newIntent intent_write.intros)

lemma open_cases [simp]: "\<not> is_open Confirmed" "\<not> is_open Failed" "\<not> is_open Canceled"
  by (simp_all add: is_open_def)

lemma settled [preserves_intros]:
  "keeps R (confirmPlanIntents cl' t tier)" "keeps R (clearBillingChange cl' t)"
  by (auto simp: confirmPlanIntents_def clearBillingChange_def
      intro!: preserves_intros tenantIdUpdate tenant_write.intros split: option.splits)

lemma sweepSteps [preserves_intros]:
  "keeps R (reconcileIntent cl key x)" "keeps R (applyDueChange cl key x)"
  "keeps R (reconcileCancellation cl key x)"
  by (auto simp: reconcileIntent_def applyDueChange_def reconcileCancellation_def Let_def
      intro!: preserves_intros tenantIdUpdate tenant_write.intros split: option.splits sum.splits)
    (auto intro: known_tier.intros)

lemma sweeps [preserves_intros]:
  "keeps R (applyDueBillingChanges cl now)" "keeps R (reconcileScheduledCancellations cl now)"
  "keeps R (reconcileStalePlanIntents cl old)" "keeps R (sweepPlanIntents cl)"
  "keeps R (HandleTestReconcileBilling cl)"
  by (auto simp: applyDueBillingChanges_def reconcileScheduledCancellations_def reconcileStalePlanIntents_def
      sweepPlanIntents_def HandleTestReconcileBilling_def intro!: preserves_intros split: option.splits)

lemma answers [preserves_intros]: "keeps R (reject code msg)" "keeps R unauthorized"
  by (simp_all add: reject_def unauthorized_def basic)

lemma checkout [preserves_intros]:
  "keeps R (ensureCustomer cl t email tenant)" "keeps R (HandleCreateBillingCheckoutSession cl who email body)"
  by (auto simp: ensureCustomer_def HandleCreateBillingCheckoutSession_def Let_def
      intro!: preserves_intros tenantIdUpdate tenant_write.customer split: option.splits sum.splits)

lemma projected [preserves_intros]:
  "kind \<in> {ChangePlan, ChangeCancel} \<Longrightarrow> keeps R (projectBillingChange cl t kind tier at)"
  by (auto simp: projectBillingChange_def intro!: tenantUpdate tenant_write.project)

lemma audit [preserves_intros]: "keeps R (recordBillingLifecycleAudit action target at)"
  by (simp add: recordBillingLifecycleAudit_def outside)

lemma planSteps:
  "keeps R (scheduleDowngrade cl t tenant current target item)"
  "known_tier cl (pn_Tier target) \<Longrightarrow> keeps R (changePlanNow cl t tenant current target item)"
  "keeps R (usageExceeds cl t current target)"
  by (auto simp: scheduleDowngrade_def changePlanNow_def applyInline_def usageExceeds_def Let_def
      intro!: preserves_intros tenantIdUpdate tenant_write.inline tenant_write.grace
      split: option.splits sum.splits)

lemma changePlan [preserves_intros]:
  "known_tier cl (pn_Tier target) \<Longrightarrow> keeps R (changePlan cl t tenant target)"
  by (auto simp: changePlan_def Let_def intro!: preserves_intros planSteps split: option.splits sum.splits)

lemma withTenant: "(\<And>t tenant. keeps R (k t tenant)) \<Longrightarrow> keeps R (withTenant cl who k)"
  by (auto simp: withTenant_def intro!: preserves_intros split: option.splits sum.splits)

lemma requests [preserves_intros]:
  "keeps R (HandleChangeBillingPlan cl who body)" "keeps R (HandleScheduleBillingCancellation cl who)"
  "keeps R (HandleReactivateBillingSubscription cl who)" "keeps R (HandleCancelScheduledBillingChange cl who)"
  "keeps R (HandleCreateBillingPortalSession cl who)" "keeps R (HandleGetBillingInvoices cl who)"
  subgoal
    by (auto simp: HandleChangeBillingPlan_def intro!: preserves_intros intro: known_tier.intros
        split: option.splits sum.splits)
  subgoal
    by (auto simp: HandleScheduleBillingCancellation_def scheduleCancellation_def Let_def
        intro!: preserves_intros withTenant split: option.splits sum.splits)
  subgoal
    by (auto simp: HandleReactivateBillingSubscription_def reactivate_def recordReversal_def Let_def
        intro!: preserves_intros withTenant tenantIdUpdate tenantUpdate tenant_write.reverse tenant_write.rollback
        split: option.splits sum.splits)
  subgoal
    by (auto simp: HandleCancelScheduledBillingChange_def cancelScheduledChange_def
        intro!: preserves_intros withTenant)
  subgoal
    by (auto simp: HandleCreateBillingPortalSession_def intro!: preserves_intros split: option.splits sum.splits)
  subgoal
    by (auto simp: HandleGetBillingInvoices_def intro!: preserves_intros split: option.splits)
  done

lemma eventOps [preserves_intros]:
  "keeps R (recordProviderEvent cl' evt)" "keeps R (markProviderEventProcessed cl' i)"
  "keeps R (markProviderEventFailed cl' i e)"
  by (auto simp: recordProviderEvent_def markProviderEventProcessed_def markProviderEventFailed_def
      updateEvent_def Let_def split_beta
      intro!: preserves_intros written events newEvent event_write.intros split: option.splits sum.splits)

lemma tenantOf [preserves_intros]:
  "keeps R (resolvePlatformTenant cl' hex customer)" "keeps R (stampPastDueIfUnset cl' t)"
  by (auto simp: resolvePlatformTenant_def stampPastDueIfUnset_def
      intro!: preserves_intros tenantUpdate tenant_write.stamp split: option.splits)

lemma invoices [preserves_intros]: "keeps R (upsertInvoiceProjection cl' t raw st)"
  by (auto simp: upsertInvoiceProjection_def Let_def split_beta intro!: preserves_intros written invoice
      split: sum.splits)

lemma updateParts:
  "keeps R (cancellationUpdate cl' t sub)" "keeps R (statusUpdate cl' t sub)" "keeps R (tierUpdate cl' t tier)"
  by (auto simp: cancellationUpdate_def statusUpdate_def tierUpdate_def Let_def
      intro!: preserves_intros split: option.splits sum.splits)

lemma invoiceEvents [preserves_intros]:
  "keeps R (platformInvoicePaid cl raw)" "keeps R (platformInvoicePaymentFailed cl raw)"
  "keeps R (platformSubscriptionDeleted cl raw)"
  by (auto simp: platformInvoicePaid_def platformInvoicePaymentFailed_def platformSubscriptionDeleted_def
      intro!: preserves_intros tenantIdUpdate tenant_write.pastDue tenant_write.deleted
      split: sum.splits option.splits)

lemma checkoutEvent: "settle \<Longrightarrow> keeps R (platformCheckoutCompleted cl raw)"
proof -
  have "keeps R (checkoutStatus cl found)" for found
    by (auto simp: checkoutStatus_def intro!: preserves_intros split: sum.splits option.splits)
  note status = bind_yields [OF this yields_checkout]
  assume settle
  then show ?thesis
    unfolding platformCheckoutCompleted_def
    by (auto intro!: bind tenantOf read status tenantIdUpdate tenant_write.checkout basic
        split: sum.split option.split)
qed

lemma subscriptionEvent:
  assumes "settle \<or> \<not> settling cl raw"
  shows "keeps R (platformSubscriptionUpdated cl raw)"
proof (cases "cl_subscription cl raw")
  case (Inr sub)
  have st: "settle" if "su_Status sub \<in> {''trialing'', ''active''}"
    using assms that Inr by (cases settle) (simp_all add: settling_def)
  have rest: "keeps R (tierUpdate cl t (subscriptionTier cl sub) \<bind> (\<lambda>h. updateTenantId cl t
      (\<lambda>x. (h (g (f x)))\<lparr>tn_SubscriptionID := i\<rparr>) \<bind> k))"
    if "cancellation_part f" "status_part settle g" "\<And>e. keeps R (k e)" for f g i k t
    using that by (intro bind_yields [OF updateParts(3) yields_tier] bind tenantIdUpdate
        tenant_write.subscription) (auto intro: subscriptionTier_known)
  have status: "keeps R (statusUpdate cl t sub \<bind> k)"
    if "\<And>g. status_part settle g \<Longrightarrow> keeps R (k (StatusSet g))"
      and "\<And>e. keeps R (k (StatusError e))" and "keeps R (k StatusSkip)" for k t
    by (rule bind_yields [OF updateParts(2) yields_status [OF st]])
      (use that in \<open>auto split: StatusUpdate.splits\<close>)
  show ?thesis
    unfolding platformSubscriptionUpdated_def Inr sum.case Let_def
    apply (intro bind tenantOf)
    apply (split option.split, intro conjI impI allI basic)
    apply (rule bind_yields [OF updateParts(1) yields_cancellation], rule status)
      apply (simp, erule (1) rest)
      apply (auto intro!: preserves_intros split: option.split)
    done
qed (simp add: platformSubscriptionUpdated_def basic)

lemma webhook:
  assumes "settle \<or> \<not> settles cl evt"
  shows "keeps R (processEvent cl evt)" and "keeps R (deliver cl evt)" and "keeps R (receive cl evt)"
proof -
  show p: "keeps R (processEvent cl evt)"
    using assms by (auto simp: processEvent_def settles_def intro!: preserves_intros checkoutEvent subscriptionEvent)
  then show d: "keeps R (deliver cl evt)"
    by (auto simp: deliver_def intro!: preserves_intros split: option.splits)
  show "keeps R (receive cl evt)"
    using d by (auto simp: receive_def intro!: preserves_intros split: sum.splits)
qed

end

end
