(* ===== verification/BillingProps.thy ===== *)
theory BillingProps
  imports BillingFrames "HOL-Library.Multiset"
begin

text \<open>
  Platform billing as a system: deliveries of the webhook that overlap, the requests of the
  tenants and the sweep, in any order. What holds in every run is proved from the frames of
  the operations; then the properties of single handlers.
\<close>

section \<open>Relations between the rows\<close>

text \<open>A relation between a tenant's row before and after.\<close>

locale tenant_rows =
  fixes T :: "Tenant \<Rightarrow> Tenant \<Rightarrow> bool" and settle :: bool and cl :: Cloud
  assumes refl: "T x x"
    and trans: "T x y \<Longrightarrow> T y z \<Longrightarrow> T x z"
    and change: "tenant_write settle cl P f \<Longrightarrow> P x \<Longrightarrow> T x (f x)"

sublocale tenant_rows \<subseteq> rows: platform_relation "\<lambda>s s'. list_all2 T (pl_tenants s) (pl_tenants s')" settle cl
  by unfold_locales
    (auto simp: list_all2_refl [of T, OF refl] intro: list_all2_trans [OF trans] updateOne_list_all2 refl change)

lemma tenant_write_id: "tenant_write settle cl P f \<Longrightarrow> tn_Id (f x) = tn_Id x"
  by (erule tenant_write.cases) (auto elim!: cancellation_part.cases status_part.cases tier_part.cases)

text \<open>
  The type of a tenant's row: the status is one of four, the tier is one of the plans, and a
  tenant without a change has no date and no tier pending.
\<close>

definition known_status :: "string \<Rightarrow> bool" where
  "known_status st \<longleftrightarrow> st \<in> {''trial'', ''active'', ''past_due'', ''canceled''}"

definition tenant_typed :: "Cloud \<Rightarrow> Tenant \<Rightarrow> bool" where
  "tenant_typed cl x \<longleftrightarrow> known_status (tn_SubscriptionStatus x) \<and> known_tier cl (tn_PlanTier x)
     \<and> (tn_ChangeKind x = NoChange \<longrightarrow> tn_ChangeAt x = None \<and> tn_PendingTier x = [])"

lemma known_status_intros [simp]:
  "known_status ''trial''" "known_status ''active''" "known_status ''past_due''" "known_status ''canceled''"
  by (auto simp: known_status_def)

lemma parts_typed:
  "cancellation_part f \<Longrightarrow> tenant_typed cl x \<Longrightarrow> tenant_typed cl (f x)"
  "status_part settle f \<Longrightarrow> tenant_typed cl x \<Longrightarrow> tenant_typed cl (f x)"
  "tier_part cl f \<Longrightarrow> tenant_typed cl x \<Longrightarrow> tenant_typed cl (f x)"
  by (auto simp: tenant_typed_def
      elim!: cancellation_part.cases status_part.cases tier_part.cases)

lemma subscribed_typed: "tenant_typed cl (x\<lparr>tn_SubscriptionID := i\<rparr>) = tenant_typed cl x"
  by (simp add: tenant_typed_def)

interpretation typed: tenant_rows "\<lambda>x x'. tenant_typed cl x \<longrightarrow> tenant_typed cl x'" True cl for cl :: Cloud
proof (unfold_locales, safe)
  fix P f x
  assume "tenant_write True cl P f" "P x" "tenant_typed cl x"
  then show "tenant_typed cl (f x)"
  proof (cases rule: tenant_write.cases)
    case (subscription f g h sub)
    then show ?thesis using \<open>tenant_typed cl x\<close> by (simp add: subscribed_typed parts_typed)
  qed (auto simp: tenant_typed_def)
qed

text \<open>The clock of a debt: once stamped it stays.\<close>

definition clock_kept :: "Tenant \<Rightarrow> Tenant \<Rightarrow> bool" where
  "clock_kept x x' \<longleftrightarrow> tn_Id x' = tn_Id x \<and> (tn_PastDueAt x \<noteq> None \<longrightarrow> tn_PastDueAt x' = tn_PastDueAt x)"

interpretation clock: tenant_rows clock_kept False cl for cl :: Cloud
proof unfold_locales
  fix P f x
  assume "tenant_write False cl P f" "P x"
  then show "clock_kept x (f x)"
    by (cases rule: tenant_write.cases)
      (auto simp: clock_kept_def elim!: cancellation_part.cases status_part.cases tier_part.cases)
qed (auto simp: clock_kept_def)

text \<open>An intent changes once, when it is settled, and then only in how it was settled.\<close>

definition advances :: "PlanChangeIntent \<Rightarrow> PlanChangeIntent \<Rightarrow> bool" where
  "advances x x' \<longleftrightarrow> x' = x
     \<or> is_open (in_Status x) \<and> \<not> is_open (in_Status x')
       \<and> (in_Id x', in_TenantID x', in_Kind x', in_FromTier x', in_ToTier x', in_SubID x', in_EffectiveAt x', in_CreatedAt x')
         = (in_Id x, in_TenantID x, in_Kind x, in_FromTier x, in_ToTier x, in_SubID x, in_EffectiveAt x, in_CreatedAt x)"

lemma intent_write_advances: "intent_write f \<Longrightarrow> is_open (in_Status x) \<Longrightarrow> advances x (f x)"
  by (auto simp: advances_def elim!: intent_write.cases)

lemma advances_refl [simp]: "advances x x"
  by (simp add: advances_def)

lemma appends_advances_trans:
  "appends advances xs ys \<Longrightarrow> appends advances ys zs \<Longrightarrow> appends advances xs zs"
  by (rule appends_trans) (auto simp: advances_def)

interpretation settled: platform_relation "\<lambda>s s'. appends advances (pl_intents s) (pl_intents s')" True cl
  for cl :: Cloud
proof unfold_locales
  fix s g and Q :: "PlanChangeIntent \<Rightarrow> bool"
  assume "intent_write g" and "\<And>x. Q x \<Longrightarrow> is_open (in_Status x)"
  then have "advances x (g x)" if "Q x" for x using that by (blast intro: intent_write_advances)
  then show "appends advances (pl_intents s) (pl_intents (s\<lparr>pl_intents := snd (updateOne Q g (pl_intents s))\<rparr>))"
    "appends advances (pl_intents s) (pl_intents (s\<lparr>pl_intents := snd (updateAll Q g (pl_intents s))\<rparr>))"
    by (simp_all add: appends_list_all2 updateOne_list_all2 updateAll_list_all2)
qed (auto intro: appends_refl appends_advances_trans appends_insertRow)

text \<open>The unique indexes.\<close>

definition keys_unique :: "Platform \<Rightarrow> bool" where
  "keys_unique s \<longleftrightarrow> distinct (map tn_Id (pl_tenants s)) \<and> distinct (map in_Id (pl_intents s))
     \<and> distinct (map (\<lambda>e. (pe_Provider e, pe_EventID e)) (pl_events s))
     \<and> distinct (map (\<lambda>v. (iv_TenantID v, iv_InvoiceID v)) (pl_invoices s))"

lemma invoiceSet_key: "iv_TenantID (invoiceSet t doc st now v) = t" "iv_InvoiceID (invoiceSet t doc st now v) = io_ID doc"
  by (simp_all add: invoiceSet_def Let_def)

interpretation unique: platform_relation "\<lambda>s s'. keys_unique s \<longrightarrow> keys_unique s'" True cl for cl :: Cloud
proof unfold_locales
  fix s
  show "keys_unique s \<longrightarrow> keys_unique (s\<lparr>pl_tenants := snd (updateOne P f (pl_tenants s))\<rparr>)"
    if "tenant_write True cl P f" for P f
    using that by (simp add: keys_unique_def updateOne_map tenant_write_id)
  show "keys_unique s \<longrightarrow> keys_unique (s\<lparr>pl_intents := snd (updateOne Q g (pl_intents s))\<rparr>)"
    "keys_unique s \<longrightarrow> keys_unique (s\<lparr>pl_intents := snd (updateAll Q g (pl_intents s))\<rparr>)"
    if "intent_write g" for Q g
    using that by (auto simp: keys_unique_def updateOne_map updateAll_map elim!: intent_write.cases)
  show "keys_unique s \<longrightarrow> keys_unique (s\<lparr>pl_intents := snd (insertRow (\<lambda>a b. in_Id a = in_Id b) x (pl_intents s))\<rparr>)" for x
    by (simp add: keys_unique_def insertRow_distinct)
  show "keys_unique s \<longrightarrow> keys_unique (s\<lparr>pl_events := snd (updateOne E h (pl_events s))\<rparr>)"
    if "event_write h" for E h
    using that by (auto simp: keys_unique_def updateOne_map elim!: event_write.cases)
  show "keys_unique s \<longrightarrow> keys_unique (s\<lparr>pl_events := snd (insertRow same_event e (pl_events s))\<rparr>)" for e
    by (auto simp: keys_unique_def same_event_def intro!: insertRow_distinct)
  show "keys_unique s \<longrightarrow> keys_unique (s\<lparr>pl_invoices := snd (upsertRow (same_invoice t (io_ID doc))
      (invoiceSet t doc st now) (invoiceSet t doc st now (newInvoice t (io_ID doc) now)) (pl_invoices s))\<rparr>)" for t doc st now
    by (auto simp: keys_unique_def same_invoice_def invoiceSet_key intro!: upsertRow_distinct)
qed (auto simp: keys_unique_def)

section \<open>The system\<close>

datatype BillingRequest =
    Checkout "ObjectId option" string "string option"
  | ChangePlanTo "ObjectId option" "string option"
  | CancelSubscription "ObjectId option"
  | ReactivateSubscription "ObjectId option"
  | WithdrawChange "ObjectId option"
  | OpenPortal "ObjectId option"
  | ListInvoices "ObjectId option"
  | TestReconcile
  | Sweep

fun serve :: "Cloud \<Rightarrow> BillingRequest \<Rightarrow> Platform \<Rightarrow> Platform" where
  "serve cl (Checkout who email body) s = snd (run_state (HandleCreateBillingCheckoutSession cl who email body) s)"
| "serve cl (ChangePlanTo who body) s = snd (run_state (HandleChangeBillingPlan cl who body) s)"
| "serve cl (CancelSubscription who) s = snd (run_state (HandleScheduleBillingCancellation cl who) s)"
| "serve cl (ReactivateSubscription who) s = snd (run_state (HandleReactivateBillingSubscription cl who) s)"
| "serve cl (WithdrawChange who) s = snd (run_state (HandleCancelScheduledBillingChange cl who) s)"
| "serve cl (OpenPortal who) s = snd (run_state (HandleCreateBillingPortalSession cl who) s)"
| "serve cl (ListInvoices who) s = snd (run_state (HandleGetBillingInvoices cl who) s)"
| "serve cl TestReconcile s = snd (run_state (HandleTestReconcileBilling cl) s)"
| "serve cl Sweep s = snd (run_state (sweepPlanIntents cl) s)"

text \<open>
  A delivery is in flight between its record and its processing; others and requests may come
  between. The restriction says which events are delivered.
\<close>

record Service =
  sv_platform :: Platform
  sv_inflight :: "WebhookEvent multiset"

inductive billing_step :: "Cloud \<Rightarrow> (WebhookEvent \<Rightarrow> bool) \<Rightarrow> Service \<Rightarrow> Service \<Rightarrow> bool"
  for cl :: Cloud and allowed :: "WebhookEvent \<Rightarrow> bool" where
  arrive: "we_ID evt \<noteq> [] \<Longrightarrow> allowed evt \<Longrightarrow> run_state (recordProviderEvent cl evt) (sv_platform \<sigma>) = (Inr False, s)
    \<Longrightarrow> billing_step cl allowed \<sigma> (\<sigma>\<lparr>sv_platform := s, sv_inflight := add_mset evt (sv_inflight \<sigma>)\<rparr>)"
| turnedAway: "we_ID evt \<noteq> [] \<Longrightarrow> run_state (recordProviderEvent cl evt) (sv_platform \<sigma>) = (r, s) \<Longrightarrow> r \<noteq> Inr False
    \<Longrightarrow> billing_step cl allowed \<sigma> (\<sigma>\<lparr>sv_platform := s\<rparr>)"
| anonymous: "we_ID evt = [] \<Longrightarrow> allowed evt
    \<Longrightarrow> billing_step cl allowed \<sigma> (\<sigma>\<lparr>sv_inflight := add_mset evt (sv_inflight \<sigma>)\<rparr>)"
| finish: "evt \<in># sv_inflight \<sigma>
    \<Longrightarrow> billing_step cl allowed \<sigma> (\<sigma>\<lparr>sv_platform := snd (run_state (deliver cl evt) (sv_platform \<sigma>)),
          sv_inflight := sv_inflight \<sigma> - {#evt#}\<rparr>)"
| request: "billing_step cl allowed \<sigma> (\<sigma>\<lparr>sv_platform := serve cl req (sv_platform \<sigma>)\<rparr>)"

text \<open>What the operations keep holds from any state of a run to any later one.\<close>

context platform_relation
begin

lemma served: "R s (serve cl req s)"
proof (cases req)
  case (Checkout who email body)
  then show ?thesis using checkout(2) [unfolded keeps_def] by simp
qed (use requests sweeps in \<open>simp_all add: keeps_def\<close>)

lemma one_step:
  assumes "billing_step cl allowed \<sigma> \<sigma>'" and "\<And>evt. allowed evt \<Longrightarrow> settle \<or> \<not> settles cl evt"
    and "\<forall>evt\<in>#sv_inflight \<sigma>. settle \<or> \<not> settles cl evt"
  shows "R (sv_platform \<sigma>) (sv_platform \<sigma>') \<and> (\<forall>evt\<in>#sv_inflight \<sigma>'. settle \<or> \<not> settles cl evt)"
  using assms(1)
proof cases
  case (arrive evt s)
  have "R (sv_platform \<sigma>) (snd (run_state (recordProviderEvent cl evt) (sv_platform \<sigma>)))"
    using eventOps(1) [of cl evt] unfolding keeps_def by blast
  with arrive assms(2,3) show ?thesis by auto
next
  case (turnedAway evt r s)
  have "R (sv_platform \<sigma>) (snd (run_state (recordProviderEvent cl evt) (sv_platform \<sigma>)))"
    using eventOps(1) [of cl evt] unfolding keeps_def by blast
  with turnedAway assms(2,3) show ?thesis by auto
next
  case (anonymous evt)
  with assms(2,3) show ?thesis by (auto simp: refl)
next
  case (finish evt)
  with assms(3) have "keeps R (deliver cl evt)" by (intro webhook(2)) blast
  with finish assms(3) show ?thesis by (auto simp: keeps_def dest: in_diffD)
next
  case (request req)
  with assms(3) show ?thesis by (simp add: served)
qed

lemma run:
  assumes "(billing_step cl allowed)\<^sup>*\<^sup>* \<sigma> \<sigma>'" and "\<And>evt. allowed evt \<Longrightarrow> settle \<or> \<not> settles cl evt"
    and "\<forall>evt\<in>#sv_inflight \<sigma>. settle \<or> \<not> settles cl evt"
  shows "R (sv_platform \<sigma>) (sv_platform \<sigma>') \<and> (\<forall>evt\<in>#sv_inflight \<sigma>'. settle \<or> \<not> settles cl evt)"
  using assms(1)
proof (induction rule: rtranclp_induct)
  case (step \<sigma>1 \<sigma>2)
  with one_step [OF step.hyps(2) assms(2)] show ?case by (blast intro: trans)
qed (simp add: refl assms(3))

end

section \<open>An example\<close>

text \<open>Two plans, one tenant on the smaller one, a payment service that accepts everything.\<close>

definition demo_net :: Net where
  "demo_net = \<lparr>net_apiBase = ''http://stripe'', net_badRequest = (\<lambda>_ _. None),
     net_exchange = (\<lambda>_ _. Reply 200 [] []), net_random = (\<lambda>_. []), net_error = (\<lambda>_. Inr None),
     net_id = (\<lambda>_. Inr ''cus''), net_url = (\<lambda>_. Inr ''url''),
     net_subscription = (\<lambda>_. Inr \<lparr>sd_Status = ''active'', sd_CurrentPeriodEnd = 2000, sd_CancelAtPeriodEnd = False,
       sd_Items = [(''item'', ''price_basic'')]\<rparr>)\<rparr>"

definition demo_plan :: "string \<Rightarrow> Plan" where
  "demo_plan tier = (if tier = ''pro'' then \<lparr>pn_Tier = ''pro'', pn_PriceUSD = 99, pn_ContactLimit = 1000, pn_DomainLimit = 9\<rparr>
     else \<lparr>pn_Tier = ''basic'', pn_PriceUSD = 9, pn_ContactLimit = 10, pn_DomainLimit = 1\<rparr>)"

definition demo_intent :: PlanChangeIntent where
  "demo_intent = \<lparr>in_Id = Oid 0, in_TenantID = Oid 1, in_Kind = ChangePlan, in_FromTier = ''basic'', in_ToTier = ''pro'',
     in_SubID = ''sub'', in_Status = Pending, in_EffectiveAt = None, in_ResolvedTier = [], in_Note = [],
     in_CreatedAt = 0, in_ResolvedAt = None\<rparr>"

definition demo_event :: "string \<Rightarrow> WebhookEvent" where
  "demo_event type = \<lparr>we_ID = ''evt'', we_Type = type, we_Livemode = True, we_Created = 0, we_Object = []\<rparr>"

definition demo_cloud :: Cloud where
  "demo_cloud = \<lparr>cl_net = demo_net, cl_db = (\<lambda>_. Done), cl_now = (\<lambda>_. 0), cl_webhookSecret = ''whsec'',
     cl_platformKey = ''sk'', cl_publicBase = [], cl_VerifySignature = (\<lambda>_ _ _. None),
     cl_event = (\<lambda>_. Inr (demo_event ''invoice.payment_failed'')), cl_checkout = (\<lambda>_. Inl ''no object''),
     cl_subscription = (\<lambda>_. Inr \<lparr>su_ID = ''sub'', su_Status = ''incomplete'', su_Customer = ''cus'', su_Metadata = [],
       su_CancelAtPeriodEnd = False, su_CurrentPeriodEnd = 0, su_Prices = []\<rparr>),
     cl_deleted = (\<lambda>_. Inr (''cus'', [])), cl_customer = (\<lambda>_. Inr ''cus''), cl_invoice = (\<lambda>_. Inl ''no object''),
     cl_ObjectIdHex = (\<lambda>_. None), cl_Hex = (\<lambda>_. ''1''),
     cl_NewPlanChangeIntent = (\<lambda>i now t from to sub. demo_intent\<lparr>in_Id := i, in_TenantID := t, in_FromTier := from,
       in_ToTier := to, in_SubID := sub, in_CreatedAt := now\<rparr>),
     cl_NewScheduledBillingChange = (\<lambda>i now t kind from to sub at. demo_intent\<lparr>in_Id := i, in_TenantID := t,
       in_Kind := kind, in_FromTier := from, in_ToTier := to, in_SubID := sub, in_Status := Scheduled,
       in_EffectiveAt := Some at, in_CreatedAt := now\<rparr>),
     cl_ByTier = (\<lambda>t. if t = ''basic'' \<or> t = ''pro'' then Some (demo_plan t) else None),
     cl_TierForPriceID = (\<lambda>p. if p = ''price_basic'' then Some ''basic'' else if p = ''price_pro'' then Some ''pro'' else None),
     cl_StripePriceID = (\<lambda>t. if t = ''basic'' then ''price_basic'' else ''price_pro''), cl_ForTenant = demo_plan,
     cl_SnapshotContract = (\<lambda>t. t), cl_All = [demo_plan ''basic'', demo_plan ''pro''], cl_DefaultTier = ''basic'',
     cl_GetUsage = (\<lambda>_ _. Some (5, 1)), cl_Released = (\<lambda>_. 0)\<rparr>"

definition demo_tenant :: Tenant where
  "demo_tenant = \<lparr>tn_Id = Oid 1, tn_BusinessName = ''Acme'', tn_CustomerID = ''cus'', tn_SubscriptionID = ''sub'',
     tn_SubscriptionStatus = ''past_due'', tn_TrialEndsAt = None, tn_PastDueAt = Some 7, tn_PlanTier = ''basic'',
     tn_PlanContract = ''basic'', tn_ChangeKind = NoChange, tn_PendingTier = [], tn_ChangeAt = None, tn_LimitGraceAt = None\<rparr>"

definition demo_platform :: Platform where
  "demo_platform = \<lparr>sc_reads = 0, sc_requests = [], pl_oids = 5, pl_tenants = [demo_tenant], pl_intents = [],
     pl_events = [], pl_invoices = [], pl_effects = []\<rparr>"

lemmas demo_defs = demo_cloud_def demo_net_def demo_plan_def demo_intent_def demo_event_def demo_tenant_def
  demo_platform_def

lemma demo_models: "intent_models demo_cloud"
  by (simp add: intent_models_def demo_defs Let_def)

section \<open>What holds in every run\<close>

text \<open>
  C34: However deliveries overlap, requests and sweeps come between and operations of the
  database fail or lose their answer: the tenants and the intents keep distinct ids, there is
  one record per event of a provider and one invoice row per tenant and invoice.
\<close>

theorem billing_keys_unique:
  assumes "keys_unique (sv_platform \<sigma>)" and "(billing_step cl (\<lambda>_. True))\<^sup>*\<^sup>* \<sigma> \<sigma>'"
  shows "keys_unique (sv_platform \<sigma>')"
  using unique.run [OF assms(2)] assms(1) by simp

text \<open>
  C4: A plan-change intent is settled once. Every intent of a state is still there, at its place, in
  every later one; it is unchanged, or it was pending or scheduled and now carries its outcome.
\<close>

theorem intents_settled_once:
  assumes "(billing_step cl (\<lambda>_. True))\<^sup>*\<^sup>* \<sigma> \<sigma>'"
  shows "\<exists>old new. pl_intents (sv_platform \<sigma>') = old @ new
    \<and> list_all2 advances (pl_intents (sv_platform \<sigma>)) old"
  using settled.run [OF assms] by (simp add: appends_def)

text \<open>
  C8: The rows of the tenants stay well typed: one of the four statuses, a tier of the plans, no
  date and no tier pending without a change.
\<close>

theorem tenants_stay_typed:
  assumes "(billing_step cl (\<lambda>_. True))\<^sup>*\<^sup>* \<sigma> \<sigma>'" and "list_all (tenant_typed cl) (pl_tenants (sv_platform \<sigma>))"
  shows "list_all (tenant_typed cl) (pl_tenants (sv_platform \<sigma>'))"
  using typed.rows.run [OF assms(1)] assms(2) by (auto simp: list_all_length list_all2_conv_all_nth)

text \<open>
  C18: The grace clock. As long as no event arrives that settles a debt (a checkout, a subscription
  trialing or active), the time since which a tenant is past due, once stamped, is the same in
  every later state, however often payments fail.
\<close>

theorem past_due_clock_kept:
  assumes "(billing_step cl (\<lambda>evt. \<not> settles cl evt))\<^sup>*\<^sup>* \<sigma> \<sigma>'"
    and "\<forall>evt\<in>#sv_inflight \<sigma>. \<not> settles cl evt"
  shows "list_all2 clock_kept (pl_tenants (sv_platform \<sigma>)) (pl_tenants (sv_platform \<sigma>'))"
  using clock.rows.run [OF assms(1)] assms(2) by simp

section \<open>Deliveries\<close>

lemma find_event_clash:
  "find (is_event i) rows = Some row \<Longrightarrow> pe_Provider e = platform_provider \<Longrightarrow> pe_EventID e = i
    \<Longrightarrow> list_ex (same_event e) rows"
  by (induction rows) (auto simp: same_event_def is_event_def split: if_splits)

text \<open>
  C9: An event that has been processed is not processed again. A further delivery changes no row,
  sends no request and has no effect; it is acknowledged as a duplicate, or answered with 500
  when the database fails, so that it is delivered again.
\<close>

theorem duplicate_delivery:
  assumes "we_ID evt \<noteq> []" and "find (is_event (we_ID evt)) (pl_events s) = Some row"
    and "pe_Status row = EventProcessed" and "run_state (receive cl evt) s = (answer, s')"
  shows "s' = s\<lparr>sc_reads := sc_reads s', pl_oids := pl_oids s'\<rparr>
    \<and> (answer = (200, [(''received'', VBool True), (''duplicate'', VBool True)])
       \<or> answer = (500, [(''error'', VStr ''event not persisted'')]))"
  using assms
  by (auto simp: receive_def recordProviderEvent_def billing_runs Let_def insertRow_def find_event_clash findOne_def
      split: db_reply.splits if_splits)

text \<open>The record of an event stays, under its key.\<close>

lemma same_event_refl [simp]: "same_event e e"
  by (simp add: same_event_def)

interpretation recorded: platform_relation "\<lambda>s s'. appends same_event (pl_events s) (pl_events s')" True cl
  for cl :: Cloud
proof unfold_locales
  fix s t u :: Platform
  show "appends same_event (pl_events s) (pl_events u)"
    if "appends same_event (pl_events s) (pl_events t)" "appends same_event (pl_events t) (pl_events u)"
    using that by (rule appends_trans [rotated]) (auto simp: same_event_def)
  show "appends same_event (pl_events s) (pl_events (s\<lparr>pl_events := snd (updateOne E h (pl_events s))\<rparr>))"
    if "event_write h" for E h
  proof -
    have "same_event x (h x)" for x using that by (cases rule: event_write.cases) (auto simp: same_event_def)
    then show ?thesis by (simp add: appends_list_all2 updateOne_list_all2)
  qed
qed (auto intro: appends_refl appends_insertRow)

lemma find_appends:
  assumes "appends same_event xs ys" and "find (is_event i) xs \<noteq> None"
  shows "find (is_event i) ys \<noteq> None"
proof -
  have same: "is_event i a \<longleftrightarrow> is_event i b" if "same_event a b" for a b
    using that by (auto simp: same_event_def is_event_def)
  from assms(1) obtain old new where o: "ys = old @ new" "list_all2 same_event xs old"
    by (auto simp: appends_def)
  from o(2) assms(2) have "find (is_event i) old \<noteq> None"
    by (induction) (auto simp: same split: if_splits)
  then show ?thesis by (auto simp: o(1) find_None_iff)
qed

lemma find_snoc: "P x \<Longrightarrow> find P (xs @ [x]) = None \<longleftrightarrow> False"
  by (auto simp: find_None_iff)

lemma recorded_event:
  assumes "\<And>n. cl_db cl n = Done"
    and "\<And>row. find (is_event (we_ID evt)) (pl_events s) = Some row \<Longrightarrow> pe_Status row \<noteq> EventProcessed"
  obtains s1 where "run_state (recordProviderEvent cl evt) s = (Inr False, s1)"
    and "find (is_event (we_ID evt)) (pl_events s1) \<noteq> None"
proof (cases "find (is_event (we_ID evt)) (pl_events s)")
  case None
  then have "\<not> list_ex (same_event e) (pl_events s)"
    if "pe_Provider e = platform_provider" "pe_EventID e = we_ID evt" for e
    using that by (auto simp: list_ex_iff same_event_def is_event_def find_None_iff) metis
  then show ?thesis
    by (intro that [of "snd (run_state (recordProviderEvent cl evt) s)"])
      (simp_all add: recordProviderEvent_def billing_runs Let_def assms(1) insertRow_def find_snoc is_event_def
        del: not_None_eq)
next
  case (Some row)
  let ?m = "recordProviderEvent cl evt"
  from Some assms(2) have "fst (run_state ?m s) = Inr False"
    by (simp add: recordProviderEvent_def billing_runs Let_def assms(1) insertRow_def find_event_clash findOne_def
        updateEvent_def split_beta)
  moreover have "appends same_event (pl_events s) (pl_events (snd (run_state ?m s)))"
    using recorded.eventOps(1) by (simp add: keeps_def)
  ultimately show ?thesis using that [of "snd (run_state ?m s)"] find_appends Some by (metis option.distinct(1) prod.collapse)
qed

text \<open>
  C25: When the database answers, a delivery that is no duplicate is processed once and its record
  shows the outcome: processed and acknowledged when the handler of its type succeeds, failed with
  the handler's error and answered with 500 when it does not, so that it is delivered again.
\<close>

theorem delivery_outcome:
  assumes "\<And>n. cl_db cl n = Done" and "we_ID evt \<noteq> []"
    and "\<And>row. find (is_event (we_ID evt)) (pl_events s) = Some row \<Longrightarrow> pe_Status row \<noteq> EventProcessed"
    and "run_state (receive cl evt) s = (answer, s')"
  shows "\<exists>s1 err s2 row. run_state (recordProviderEvent cl evt) s = (Inr False, s1)
    \<and> run_state (processEvent cl evt) s1 = (err, s2) \<and> pl_tenants s' = pl_tenants s2
    \<and> find (is_event (we_ID evt)) (pl_events s') = Some row
    \<and> (case err of
          None \<Rightarrow> pe_Status row = EventProcessed \<and> answer = (200, [(''received'', VBool True)])
        | Some e \<Rightarrow> pe_Status row = EventFailed \<and> pe_LastError row = e
            \<and> answer = (500, [(''error'', VStr ''processing failed'')]))"
proof -
  obtain s1 where s1: "run_state (recordProviderEvent cl evt) s = (Inr False, s1)"
    "find (is_event (we_ID evt)) (pl_events s1) \<noteq> None"
    using recorded_event [OF assms(1,3)] .
  obtain err s2 where s2: "run_state (processEvent cl evt) s1 = (err, s2)" by fastforce
  have "appends same_event (pl_events s1) (pl_events s2)"
    using recorded.webhook(1) [of cl evt] s2 by (auto simp: keeps_def dest: spec [of _ s1])
  from find_appends [OF this s1(2)] obtain row where row: "find (is_event (we_ID evt)) (pl_events s2) = Some row"
    by auto
  then have "is_event (we_ID evt) row" by (auto simp: find_Some_iff)
  then have marked: "find (is_event (we_ID evt)) (snd (updateOne (is_event (we_ID evt))
      (\<lambda>x. x\<lparr>pe_Status := st, pe_LastError := e, pe_UpdatedAt := at\<rparr>) (pl_events s2)))
    = Some (row\<lparr>pe_Status := st, pe_LastError := e, pe_UpdatedAt := at\<rparr>)" for st e at
    by (intro find_updateOne row) (simp add: is_event_def)
  show ?thesis
    using assms(2,4) s1(1) s2
    by (cases err)
      (auto simp: receive_def deliver_def markProviderEventProcessed_def markProviderEventFailed_def updateEvent_def
        billing_runs Let_def split_beta assms(1) marked)
qed

end
