(* ===== verification/PlanProps.thy ===== *)
theory PlanProps
  imports BillingProps
begin

text \<open>
  Properties of the plan-change saga and of the scheduled changes: the order of record and
  payment, what repairs a lost write, and what excludes a second change.
\<close>

section \<open>What is sent\<close>

text \<open>All requests sent between two states are readings of the payment service.\<close>

definition only_gets :: "'x Calls_scheme \<Rightarrow> 'x Calls_scheme \<Rightarrow> bool" where
  "only_gets s s' \<longleftrightarrow> (\<exists>rqs. sc_requests s' = sc_requests s @ rqs \<and> (\<forall>rq\<in>set rqs. rq_Method rq = ''GET''))"

lemma only_gets_same: "sc_requests s' = sc_requests s \<Longrightarrow> only_gets s s'"
  by (simp add: only_gets_def)

interpretation gets: step_relation only_gets
proof
  fix s t u :: "'x Calls_scheme"
  assume "only_gets s t" "only_gets t u"
  then obtain a b where "sc_requests t = sc_requests s @ a" "\<forall>rq\<in>set a. rq_Method rq = ''GET''"
    "sc_requests u = sc_requests t @ b" "\<forall>rq\<in>set b. rq_Method rq = ''GET''"
    by (auto simp: only_gets_def)
  then show "only_gets s u" by (auto simp: only_gets_def intro!: exI [of _ "a @ b"])
qed (simp add: only_gets_same)

lemma gets_outside [preserves_intros]:
  "keeps only_gets reading" "keeps only_gets (time_Now cl)" "keeps only_gets newId" "keeps only_gets (effect e)"
  by (simp_all add: keeps_def billing_runs only_gets_same)

lemma gets_dbWrite:
  "(\<And>s. sc_requests (snd (w s)) = sc_requests s) \<Longrightarrow> keeps only_gets (dbWrite cl w)"
  by (auto simp: keeps_def run_dbWrite Let_def only_gets_same split: db_reply.splits)

lemma gets_db [preserves_intros]:
  "keeps only_gets (dbRead cl q)" "keeps only_gets (findTenantId cl t)" "keeps only_gets (updateTenant cl P f)"
  "keeps only_gets (updateTenantId cl t f)" "keeps only_gets (insertIntent cl x)" "keeps only_gets (clearBillingChange cl t)"
  "keeps only_gets (resolvePlanIntent cl i st tier note)"
proof -
  show u: "keeps only_gets (updateTenant cl P f)" for P f
    by (auto simp: updateTenant_def Let_def split_beta intro!: gets_dbWrite)
  show "keeps only_gets (updateTenantId cl t f)" for f
    by (simp add: updateTenantId_def u)
  show "keeps only_gets (clearBillingChange cl t)"
    by (simp add: clearBillingChange_def updateTenantId_def u)
qed (auto simp: keeps_def findTenantId_def findTenant_def run_dbRead Let_def only_gets_same insertIntent_def
    resolvePlanIntent_def run_dbWrite run_time_Now split_beta split: db_reply.splits)

lemma gets_attempts: "rq_Method rq = ''GET'' \<Longrightarrow> keeps only_gets (stripeAttempts net out rq n)"
proof (induction n)
  case (Suc n)
  have "keeps only_gets (stripeAttempt net out rq)" using Suc.prems
    by (auto simp: stripeAttempt_def keeps_def only_gets_def split: option.splits)
  with Suc show ?case by (auto intro!: gets.bind gets.basic split: Outcome.splits)
qed (auto simp: stripeAttempt_def keeps_def only_gets_def split: option.splits)

lemma gets_stripe [preserves_intros]: "keeps only_gets (GetSubscriptionItem net key sub)"
  by (auto simp: GetSubscriptionItem_def stripeGet_def stripeDo_def stripeDoBase_def Let_def
      intro!: gets.bind gets.basic gets_attempts)

lemma gets_downgrade:
  "keeps only_gets (usageExceeds cl t current target)"
  "keeps only_gets (scheduleDowngrade cl t tenant current target item)"
  by (auto simp: usageExceeds_def scheduleDowngrade_def projectBillingChange_def recordBillingLifecycleAudit_def
      reject_def Let_def intro!: gets.bind gets.basic gets_outside gets_db)

section \<open>A change that takes effect at once\<close>

text \<open>The payment service's calls change no row.\<close>

interpretation same_rows: calls_relation "\<lambda>s s'. (pl_tenants s', pl_intents s', pl_oids s') = (pl_tenants s, pl_intents s, pl_oids s)"
  by unfold_locales simp_all

lemma run_insertIntent:
  assumes "run_state (insertIntent cl x) s = (None, s')"
  shows "s' = s\<lparr>sc_reads := Suc (sc_reads s), pl_intents := pl_intents s @ [storedIntent x]\<rparr>"
  using assms
  by (auto simp: insertIntent_def run_dbWrite insertRow_def Let_def split: db_reply.splits if_splits)

lemma updateTenant_intents:
  "pl_intents (snd (run_state (updateTenantId cl t f) s)) = pl_intents s"
  by (auto simp: updateTenantId_def updateTenant_def run_dbWrite Let_def split_beta split: db_reply.splits)

lemma grown_intent:
  assumes "appends advances (pl_intents u) (pl_intents u')" and "x \<in> set (pl_intents u)"
  shows "\<exists>y\<in>set (pl_intents u'). advances x y"
  using assms by (fastforce simp: appends_def list_all2_conv_all_nth in_set_conv_nth)

lemma advances_fields:
  "advances x y \<Longrightarrow> in_Id y = in_Id x \<and> in_TenantID y = in_TenantID x \<and> in_ToTier y = in_ToTier x \<and> in_SubID y = in_SubID x"
  by (auto simp: advances_def)

lemma applyInline_recorded:
  assumes "run_state (applyInline cl t current target intent) s = (answer, s')" and "x \<in> set (pl_intents s)"
    and target: "known_tier cl (pn_Tier target)"
  shows "\<exists>y\<in>set (pl_intents s'). advances x y \<and> (fst answer = 500 \<longrightarrow> y = x)"
proof (cases "fst answer = 500")
  case True
  obtain err s1 where upd: "run_state (updateTenantId cl t (\<lambda>x. x\<lparr>tn_PlanTier := pn_Tier target\<rparr>)) s = (err, s1)"
    by fastforce
  from True assms(1) upd have "s' = s1" by (auto simp: applyInline_def billing_runs split_beta split: if_splits)
  with updateTenant_intents [of cl t _ s] upd have "pl_intents s' = pl_intents s" by (metis snd_conv)
  with assms(2) show ?thesis by (intro bexI [of _ x]) simp_all
next
  case False
  have "keeps (\<lambda>s s'. appends advances (pl_intents s) (pl_intents s')) (applyInline cl t current target intent)"
    by (auto simp: applyInline_def intro!: settled.bind settled.basic settled.intentOps settled.outside settled.answers
        settled.exchange settled.tenantIdUpdate tenant_write.grace tenant_write.inline target)
  then have "appends advances (pl_intents s) (pl_intents s')"
    using assms(1) by (rule keepsD)
  from grown_intent [OF this assms(2)] False show ?thesis by auto
qed

text \<open>
  A change at once: either nothing but readings are sent, or the intent is a row when the
  handler is done; when it answers 500 the intent is still as it was recorded.
\<close>

lemma changePlanNow_recorded:
  assumes run: "run_state (changePlanNow cl t tenant current target item) s = (answer, s')"
    and target: "known_tier cl (pn_Tier target)"
  defines "x \<equiv> cl_NewPlanChangeIntent cl (Oid (pl_oids s)) (cl_now cl (sc_reads s)) t
      (pn_Tier current) (pn_Tier target) (tn_SubscriptionID tenant)"
  shows "only_gets s s' \<or> (\<exists>y\<in>set (pl_intents s'). advances (storedIntent x) y
    \<and> (fst answer = 500 \<longrightarrow> y = storedIntent x))"
proof -
  let ?s1 = "s\<lparr>pl_oids := Suc (pl_oids s), sc_reads := Suc (sc_reads s)\<rparr>"
  obtain err s2 where ins: "run_state (insertIntent cl x) ?s1 = (err, s2)" by fastforce
  have gets: "only_gets ?s1 s2" by (rule keepsD [OF gets_db(5) ins])
  note start = run [unfolded changePlanNow_def, simplified billing_runs Let_def, folded x_def]
  show ?thesis
  proof (cases err)
    case (Some e)
    with start ins gets show ?thesis by (simp add: billing_runs only_gets_def x_def)
  next
    case None
    with ins have s2: "storedIntent x \<in> set (pl_intents s2)" by (auto dest: run_insertIntent)
    let ?post = "UpdateSubscriptionPrice (cl_net cl) (cl_platformKey cl) (tn_SubscriptionID tenant) (si_ItemID item)
        (cl_StripePriceID cl (pn_Tier target))"
    obtain r s3 where post: "run_state ?post s2 = (r, s3)" by fastforce
    have "pl_intents s3 = pl_intents s2"
      using keepsD [OF same_rows.client(2) post] by simp
    with s2 have s3: "storedIntent x \<in> set (pl_intents s3)" by simp
    show ?thesis
    proof (cases r)
      case (Inl e)
      let ?m = "resolvePlanIntent cl (in_Id x) Failed [] (''stripe update failed: '' @ StripeError_Error e)"
      from start ins None post Inl have "fst answer = 502" and "s' = snd (run_state ?m s3)"
        by (auto simp: billing_runs split_beta x_def)
      then show ?thesis
        using grown_intent [OF _ s3, of s'] settled.intentOps(1) by (auto simp: keeps_def)
    next
      case (Inr _)
      with start ins None post have "run_state (applyInline cl t current target x) s3 = (answer, s')"
        by (simp add: billing_runs x_def)
      from applyInline_recorded [OF this s3 target] show ?thesis by blast
    qed
  qed
qed

text \<open>A plan change that sends more than readings is a change at once.\<close>

lemma changePlan_posts:
  assumes run: "run_state (changePlan cl t tenant target) s = (answer, s')" and posts: "\<not> only_gets s s'"
  shows "\<exists>current item s2. only_gets s s2
    \<and> run_state (changePlanNow cl t tenant current target item) s2 = (answer, s')"
proof -
  let ?current = "cl_ForTenant cl (tn_PlanTier tenant)"
  have idle: "\<not> only_gets s u" if "s' = u" for u using posts that by simp
  have open_case: "tn_SubscriptionID tenant \<noteq> []" "pn_Tier ?current \<noteq> pn_Tier target" "tn_ChangeKind tenant = NoChange"
    using run posts by (auto simp: changePlan_def Let_def run_reject only_gets_same split: if_splits)
  obtain over s1 where over: "run_state (usageExceeds cl t ?current target) s = (over, s1)" by fastforce
  have g1: "only_gets s s1" by (rule keepsD [OF gets_downgrade(1) over])
  note start = run [unfolded changePlan_def, simplified open_case Let_def if_False, simplified over]
  from start open_case over g1 posts have "over = None"
    by (cases over) auto
  obtain item s2 where item: "run_state (GetSubscriptionItem (cl_net cl) (cl_platformKey cl) (tn_SubscriptionID tenant)) s1
      = (item, s2)" by fastforce
  have g2: "only_gets s s2"
    by (rule gets.trans [OF g1 keepsD [OF gets_stripe item]])
  from start open_case over item \<open>over = None\<close> g2 posts obtain it where "item = Inr it"
    by (cases item) (auto simp: run_reject)
  with start open_case over item \<open>over = None\<close>
  have next_step: "run_state (if pn_PriceUSD target < pn_PriceUSD ?current
      then scheduleDowngrade cl t tenant ?current target it
      else changePlanNow cl t tenant ?current target it) s2 = (answer, s')"
    by simp
  show ?thesis
  proof (cases "pn_PriceUSD target < pn_PriceUSD ?current")
    case True
    with next_step have "run_state (scheduleDowngrade cl t tenant ?current target it) s2 = (answer, s')" by simp
    from gets.trans [OF g2 keepsD [OF gets_downgrade(2) this]] posts show ?thesis by simp
  next
    case False
    with next_step g2 show ?thesis by auto
  qed
qed

text \<open>
  C3: The payment service is asked to change a price only for a change that is on record. If a
  plan change sends anything but readings, then when it is done there is a row for it, for this
  tenant and subscription and with the tier asked for. When the answer is 500, the price has changed
  but the tenant's row may not have: the intent is still pending, for the webhook or the sweep to settle.
\<close>

theorem price_change_recorded:
  assumes models: "intent_models cl" and "cl_ByTier cl tier = Some target"
    and run: "run_state (HandleChangeBillingPlan cl (Some t) (Some tier)) s = (answer, s')"
    and sent: "sc_requests s' = sc_requests s @ rqs" "\<exists>rq\<in>set rqs. rq_Method rq \<noteq> ''GET''"
  shows "\<exists>x\<in>set (pl_intents s'). in_TenantID x = t \<and> in_ToTier x = pn_Tier target
    \<and> (\<exists>tenant\<in>set (pl_tenants s). tn_Id tenant = t \<and> in_SubID x = tn_SubscriptionID tenant)
    \<and> (fst answer = 500 \<longrightarrow> in_Status x = Pending)"
proof -
  have posts: "\<not> only_gets s s'" using sent by (auto simp: only_gets_def)
  obtain found s1 where found: "run_state (findTenantId cl t) s = (found, s1)" by fastforce
  have g1: "only_gets s s1" by (rule keepsD [OF gets_db(2) found])
  obtain tenant where tenant: "found = Inr tenant" and plan: "run_state (changePlan cl t tenant target) s1 = (answer, s')"
    using run assms(2) found g1 posts
    by (cases found) (auto simp: HandleChangeBillingPlan_def run_reject only_gets_same split: if_splits)
  have tn: "tenant \<in> set (pl_tenants s)" "tn_Id tenant = t"
    using found tenant
    by (auto simp: findTenantId_def findTenant_def run_dbRead findOne_def Let_def find_Some_iff
        split: db_reply.splits option.splits)
  have "\<not> only_gets s1 s'" using gets.trans [OF g1] posts by blast
  from changePlan_posts [OF plan this] obtain current item s2
    where now: "run_state (changePlanNow cl t tenant current target item) s2 = (answer, s')" and g2: "only_gets s1 s2"
    by blast
  let ?x = "storedIntent (cl_NewPlanChangeIntent cl (Oid (pl_oids s2)) (cl_now cl (sc_reads s2)) t
      (pn_Tier current) (pn_Tier target) (tn_SubscriptionID tenant))"
  have "\<not> only_gets s2 s'" using gets.trans [OF gets.trans [OF g1 g2]] posts by blast
  with changePlanNow_recorded [OF now known_tier.plan [OF assms(2)]]
  obtain y where y: "y \<in> set (pl_intents s')" "advances ?x y" "fst answer = 500 \<longrightarrow> y = ?x" by blast
  have x: "in_TenantID ?x = t" "in_ToTier ?x = pn_Tier target" "in_SubID ?x = tn_SubscriptionID tenant" "in_Status ?x = Pending"
    using models by (simp_all add: intent_models_def Let_def storedIntent_def)
  show ?thesis
  proof (intro bexI [OF _ y(1)] conjI)
    show "in_TenantID y = t" "in_ToTier y = pn_Tier target" "fst answer = 500 \<longrightarrow> in_Status y = Pending"
      using advances_fields [OF y(2)] x y(3) by simp_all
    show "\<exists>tenant\<in>set (pl_tenants s). tn_Id tenant = t \<and> in_SubID y = tn_SubscriptionID tenant"
      using advances_fields [OF y(2)] x tn by auto
  qed
qed

text \<open>The handlers on the example: every call of the payment service succeeds at once.\<close>

definition demo_request :: "string \<Rightarrow> string \<Rightarrow> string \<Rightarrow> string gomap option \<Rightarrow> string \<Rightarrow> Request" where
  "demo_request method key sub form idem = \<lparr>rq_Method = method, rq_Base = ''http://stripe'', rq_SecretKey = key,
     rq_Path = ''/v1/subscriptions/'' @ sub, rq_Form = form, rq_IdempotencyKey = idem\<rparr>"

definition demo_key :: string where
  "demo_key = ''sntl_'' @ replicate 32 CHR ''0''"

lemma demo_do:
  "out [] = Inr v \<Longrightarrow> run_state (stripeDo demo_net method key (''/v1/subscriptions/'' @ sub) form idem out) s
    = (Inr v, s\<lparr>sc_reads := Suc (sc_reads s), sc_requests := sc_requests s @ [demo_request method key sub form idem]\<rparr>)"
  by (simp add: stripeDo_def stripeDoBase_def stripeAttempt_def stripeMaxRetries_def numeral_2_eq_2 classify_def Let_def
      transient_def demo_net_def demo_request_def trimSlashes_def)

lemma demo_get:
  "run_state (GetSubscriptionItem demo_net key sub) s
    = (Inr \<lparr>si_ItemID = ''item'', si_PriceID = ''price_basic'', si_Status = ''active'',
         si_CurrentPeriodEnd = 2000000000000, si_CancelAtPeriodEnd = False\<rparr>,
       s\<lparr>sc_reads := Suc (sc_reads s), sc_requests := sc_requests s @ [demo_request ''GET'' key sub None []]\<rparr>)"
  using demo_do [of "net_subscription demo_net" "\<lparr>sd_Status = ''active'', sd_CurrentPeriodEnd = 2000,
    sd_CancelAtPeriodEnd = False, sd_Items = [(''item'', ''price_basic'')]\<rparr>" "''GET''" key sub None "[]" s]
  by (simp add: GetSubscriptionItem_def stripeGet_def unixTime_def wrap64_def demo_net_def)

lemma demo_newKey: "run_state (newIdempotencyKey demo_net) s = (demo_key, s\<lparr>sc_reads := Suc (sc_reads s)\<rparr>)"
proof -
  have "hexEncode (replicate 16 0) = replicate 32 CHR ''0''" by code_simp
  then show ?thesis by (simp add: newIdempotencyKey_def demo_net_def demo_key_def)
qed

lemma demo_post:
  "run_state (stripePost demo_net key (''/v1/subscriptions/'' @ sub) form no_out) s
    = (Inr (), s\<lparr>sc_reads := Suc (Suc (sc_reads s)),
         sc_requests := sc_requests s @ [demo_request ''POST'' key sub (Some form) demo_key]\<rparr>)"
  unfolding stripePost_def
  by (simp only: run_state_bind demo_newKey prod.case demo_do [of no_out, OF no_out_def]) simp

lemma demo_price: "run_state (UpdateSubscriptionPrice demo_net key sub item price) s
    = (Inr (), s\<lparr>sc_reads := Suc (Suc (sc_reads s)), sc_requests := sc_requests s @
        [demo_request ''POST'' key sub (Some [(''items[0][id]'', item), (''items[0][price]'', price),
           (''proration_behavior'', ''create_prorations'')]) demo_key]\<rparr>)"
  unfolding UpdateSubscriptionPrice_def demo_post by simp

lemma demo_cancel: "run_state (SetSubscriptionCancelAtPeriodEnd demo_net key sub c) s
    = (Inr (), s\<lparr>sc_reads := Suc (Suc (sc_reads s)), sc_requests := sc_requests s @
        [demo_request ''POST'' key sub (Some [(''cancel_at_period_end'', if c then ''true'' else ''false'')]) demo_key]\<rparr>)"
  unfolding SetSubscriptionCancelAtPeriodEnd_def demo_post by simp

lemmas demo_calls = demo_get demo_price demo_cancel

lemmas intent_steps = insertIntent_def insertRow_def storedIntent_def resolvePlanIntent_def updateTenantId_def
  updateTenant_def updateOne_def updateAll_def findTenantId_def findTenant_def findOne_def findIntents_def

lemma demo_fields [simp]:
  "cl_net demo_cloud = demo_net" "cl_db demo_cloud n = Done" "cl_now demo_cloud n = 0" "cl_platformKey demo_cloud = ''sk''"
  "cl_ByTier demo_cloud ''pro'' = Some (demo_plan ''pro'')" "cl_ForTenant demo_cloud = demo_plan"
  "cl_StripePriceID demo_cloud ''pro'' = ''price_pro''"
  "cl_NewPlanChangeIntent demo_cloud i now t from to sub = demo_intent\<lparr>in_Id := i, in_TenantID := t, in_FromTier := from,
     in_ToTier := to, in_SubID := sub, in_CreatedAt := now\<rparr>"
  by (simp_all add: demo_cloud_def)

theorem price_change_recorded_witness:
  "let (answer, s') = run_state (HandleChangeBillingPlan demo_cloud (Some (Oid 1)) (Some ''pro'')) demo_platform in
   (\<exists>rq\<in>set (sc_requests s'). rq_Method rq = ''POST'') \<and> (\<exists>x\<in>set (pl_intents s'). in_ToTier x = ''pro'')"
proof -
  let ?r = "run_state (HandleChangeBillingPlan demo_cloud (Some (Oid 1)) (Some ''pro'')) demo_platform"
  have "\<exists>rq\<in>set (sc_requests (snd ?r)). rq_Method rq = ''POST''"
    by (simp add: HandleChangeBillingPlan_def changePlan_def usageExceeds_def changePlanNow_def applyInline_def
        billing_runs Let_def demo_calls intent_steps demo_plan_def demo_intent_def demo_tenant_def demo_platform_def
        demo_request_def)
  then have posted: "\<exists>rq\<in>set (sc_requests (snd ?r)). rq_Method rq = ''POST''" .
  have "?r = (fst ?r, snd ?r)" by simp
  moreover have "sc_requests (snd ?r) = sc_requests demo_platform @ sc_requests (snd ?r)"
    by (simp add: demo_platform_def)
  ultimately have "\<exists>x\<in>set (pl_intents (snd ?r)). in_ToTier x = ''pro''"
    using price_change_recorded [OF demo_models, of "''pro''" "demo_plan ''pro''" "Oid 1" demo_platform "fst ?r" "snd ?r"] posted
    by (fastforce simp: demo_plan_def)
  with posted show ?thesis by (simp add: split_beta)
qed

section \<open>Settling\<close>

text \<open>The database answers from now on.\<close>

definition db_up :: "Cloud \<Rightarrow> 'x Calls_scheme \<Rightarrow> bool" where
  "db_up cl s \<longleftrightarrow> (\<forall>n\<ge>sc_reads s. cl_db cl n = Done)"

lemma db_up_later: "db_up cl s \<Longrightarrow> sc_reads s \<le> sc_reads s' \<Longrightarrow> db_up cl s'"
  by (auto simp: db_up_def)

lemma db_up_now: "db_up cl s \<Longrightarrow> sc_reads s \<le> n \<Longrightarrow> cl_db cl n = Done"
  by (simp add: db_up_def)

definition resolved_rows :: "ObjectId \<Rightarrow> IntentStatus \<Rightarrow> string \<Rightarrow> string \<Rightarrow> int \<Rightarrow> PlanChangeIntent list \<Rightarrow> PlanChangeIntent list" where
  "resolved_rows i st tier note now rows = snd (updateOne
     (\<lambda>x. in_Id x = i \<and> (in_Status x = Pending \<or> in_Status x = Scheduled))
     (\<lambda>x. x\<lparr>in_Status := st, in_ResolvedTier := tier, in_Note := note, in_ResolvedAt := Some (bsonTime now)\<rparr>) rows)"

lemma run_resolve:
  "db_up cl s \<Longrightarrow> run_state (resolvePlanIntent cl i st tier note) s
    = ((), s\<lparr>sc_reads := Suc (Suc (sc_reads s)),
         pl_intents := resolved_rows i st tier note (cl_now cl (sc_reads s)) (pl_intents s)\<rparr>)"
  by (simp add: resolvePlanIntent_def resolved_rows_def billing_runs Let_def split_beta db_up_now)

lemma run_updateTenantId:
  "db_up cl s \<Longrightarrow> run_state (updateTenantId cl t f) s
    = (let (e, rows) = updateOne (\<lambda>x. tn_Id x = t) f (pl_tenants s) in
       (e, s\<lparr>sc_reads := Suc (sc_reads s), pl_tenants := rows\<rparr>))"
  by (simp add: updateTenantId_def updateTenant_def billing_runs Let_def split_beta db_up_now)

text \<open>With distinct ids the one row with the id is changed, and only it.\<close>

lemma updateOne_by_key:
  assumes "distinct (map g rows)" and "x \<in> set rows" and "g x = k" and "P x" and "\<And>y. P y \<Longrightarrow> g y = k"
  shows "updateOne P f rows = (None, map (\<lambda>y. if g y = k then f y else y) rows)"
  using assms(1,2)
proof (induction rows)
  case (Cons y rows)
  show ?case
  proof (cases "P y")
    case True
    with Cons.prems assms(5) have "g z \<noteq> k" if "z \<in> set rows" for z using that by force
    then have "map (\<lambda>z. if g z = k then f z else z) rows = rows" by (simp add: map_idI)
    with True assms(5) show ?thesis by (simp add: updateOne_def)
  next
    case False
    with Cons.prems assms(4) have x: "x \<in> set rows" by auto
    with Cons.prems assms(3) have "g y \<noteq> k" by (auto simp: image_iff)
    with Cons x False show ?thesis by (auto simp: updateOne_def split: option.splits)
  qed
qed simp

lemma resolved_rows_at:
  assumes "distinct (map in_Id rows)" and "x \<in> set rows" and "is_open (in_Status x)"
  shows "resolved_rows (in_Id x) st tier note now rows = map (\<lambda>y. if in_Id y = in_Id x then
      y\<lparr>in_Status := st, in_ResolvedTier := tier, in_Note := note, in_ResolvedAt := Some (bsonTime now)\<rparr> else y) rows"
  using assms by (subst resolved_rows_def, subst updateOne_by_key [where g = in_Id and x = x]) (auto simp: is_open_def)

interpretation reads_grow: calls_relation "\<lambda>s s'. sc_reads s \<le> sc_reads s'"
  by unfold_locales simp_all

lemma map_by_id_set:
  "x \<in> set rows \<Longrightarrow> g x = k \<Longrightarrow> f x \<in> set (map (\<lambda>y. if g y = k then f y else y) rows)"
  by force

text \<open>
  C26: What repairs a plan change whose last write was lost. When the sweep looks at a pending
  intent, the payment service names the price the tenant pays and the database answers, then the
  tenant is put on the tier of that price, with its contract, and the intent is confirmed with that
  tier; every other tenant and intent is left alone.
\<close>

theorem reconcileIntent_settles:
  assumes "keys_unique s" and up: "db_up cl s"
    and x: "x \<in> set (pl_intents s)" "in_Status x = Pending" and tn: "tn \<in> set (pl_tenants s)" "tn_Id tn = in_TenantID x"
    and item: "run_state (GetSubscriptionItem (cl_net cl) key (in_SubID x)) s = (Inr item, s1)"
    and tier: "cl_TierForPriceID cl (si_PriceID item) = Some tier"
  defines "s' \<equiv> snd (run_state (reconcileIntent cl key x) s)"
  shows "pl_tenants s' = map (\<lambda>y. if tn_Id y = in_TenantID x
      then y\<lparr>tn_PlanTier := tier, tn_PlanContract := cl_SnapshotContract cl tier\<rparr> else y) (pl_tenants s)
    \<and> (\<exists>now. pl_intents s' = map (\<lambda>y. if in_Id y = in_Id x
      then y\<lparr>in_Status := Confirmed, in_ResolvedTier := tier, in_Note := ''reconciled from stripe'',
             in_ResolvedAt := Some now\<rparr> else y) (pl_intents s))"
proof -
  have rows: "pl_tenants s1 = pl_tenants s" "pl_intents s1 = pl_intents s"
    using keepsD [OF same_rows.client(1) item] by simp_all
  have "db_up cl s1" by (rule db_up_later [OF up keepsD [OF reads_grow.client(1) item]])
  moreover have "db_up cl (s1\<lparr>sc_reads := n, pl_tenants := r, pl_effects := es\<rparr>)" if "n \<ge> sc_reads s1" for n r es
    using that \<open>db_up cl s1\<close> by (auto simp: db_up_def)
  moreover have "updateOne (\<lambda>y. tn_Id y = in_TenantID x)
      (\<lambda>t. t\<lparr>tn_PlanTier := tier, tn_PlanContract := cl_SnapshotContract cl tier\<rparr>) (pl_tenants s)
    = (None, map (\<lambda>y. if tn_Id y = in_TenantID x
        then y\<lparr>tn_PlanTier := tier, tn_PlanContract := cl_SnapshotContract cl tier\<rparr> else y) (pl_tenants s))"
    using assms(1) tn by (intro updateOne_by_key [where x = tn]) (auto simp: keys_unique_def)
  moreover have "resolved_rows (in_Id x) Confirmed tier msg now (pl_intents s) = map (\<lambda>y. if in_Id y = in_Id x
      then y\<lparr>in_Status := Confirmed, in_ResolvedTier := tier, in_Note := msg, in_ResolvedAt := Some (bsonTime now)\<rparr>
      else y) (pl_intents s)" for msg now
    using assms(1) x by (intro resolved_rows_at) (auto simp: keys_unique_def is_open_def)
  ultimately show ?thesis
    by (auto simp: s'_def reconcileIntent_def item tier run_updateTenantId run_resolve run_effect rows Let_def)
qed

theorem reconcileIntent_settles_witness:
  "let x = demo_intent; s = demo_platform\<lparr>pl_intents := [x]\<rparr>;
     s' = snd (run_state (reconcileIntent (demo_cloud\<lparr>cl_TierForPriceID := (\<lambda>_. Some ''pro'')\<rparr>) ''sk'' x) s) in
   map tn_PlanTier (pl_tenants s') = [''pro''] \<and> map in_Status (pl_intents s') = [Confirmed]"
proof -
  let ?cl = "demo_cloud\<lparr>cl_TierForPriceID := (\<lambda>_. Some ''pro'')\<rparr>"
  let ?s = "demo_platform\<lparr>pl_intents := [demo_intent]\<rparr>"
  have net: "cl_net ?cl = demo_net" by simp
  show ?thesis
    using reconcileIntent_settles [of ?s ?cl demo_intent demo_tenant "''sk''", unfolded net, OF _ _ _ _ _ _ demo_get, of "''pro''"]
    by (auto simp: keys_unique_def db_up_def demo_platform_def demo_intent_def demo_tenant_def Let_def)
qed

end
