(* ===== verification/ScheduleProps.thy ===== *)
theory ScheduleProps
  imports PlanProps
begin

text \<open>
  Properties of scheduled changes: a second change is refused, a cancellation can be taken back,
  the webhook settles what is pending, and the states from which no request leads out.
\<close>

section \<open>One change at a time\<close>

definition has_change :: "ObjectId \<Rightarrow> Platform \<Rightarrow> bool" where
  "has_change t s \<longleftrightarrow> (\<forall>x\<in>set (pl_tenants s). tn_Id x = t \<longrightarrow> tn_ChangeKind x \<noteq> NoChange)"

lemma has_change_frame [simp]:
  "has_change t (s\<lparr>sc_reads := n\<rparr>) = has_change t s" "has_change t (s\<lparr>pl_oids := i\<rparr>) = has_change t s"
  by (simp_all add: has_change_def)

definition refusal :: "Cloud \<Rightarrow> Platform \<Rightarrow> db_error" where
  "refusal cl s = (case cl_db cl (sc_reads s) of Done \<Rightarrow> NotFound | Refused e \<Rightarrow> DbError e | Lost e \<Rightarrow> DbError e)"

lemma project_refused:
  assumes "has_change t s"
  shows "run_state (projectBillingChange cl t kind tier at) s = (Some (refusal cl s), s\<lparr>sc_reads := Suc (sc_reads s)\<rparr>)"
proof -
  have "updateFirst (\<lambda>x. tn_Id x = t \<and> tn_ChangeKind x = NoChange) f (pl_tenants s) = None" for f
    using assms by (auto simp: updateFirst_None list_all_iff has_change_def)
  then show ?thesis
    by (simp add: projectBillingChange_def updateTenant_def run_dbWrite updateOne_def Let_def refusal_def split: db_reply.split)
qed

text \<open>
  C21: Two changes cannot be scheduled at once, even by requests that overlap. Whatever tenant a
  handler has read before, if by now the tenant's row has a change, then scheduling a downgrade or a
  cancellation is refused and leaves the tenants and the intents as they are.
\<close>

theorem scheduled_change_excludes:
  assumes "has_change t s"
  shows "(let (answer, s') = run_state (scheduleDowngrade cl t tenant current target item) s in
      fst answer \<ge> 400 \<and> pl_tenants s' = pl_tenants s \<and> pl_intents s' = pl_intents s)
    \<and> (let (answer, s') = run_state (scheduleCancellation cl t tenant) s in
      fst answer \<ge> 400 \<and> pl_tenants s' = pl_tenants s \<and> pl_intents s' = pl_intents s)"
proof
  show "let (answer, s') = run_state (scheduleDowngrade cl t tenant current target item) s in
      fst answer \<ge> 400 \<and> pl_tenants s' = pl_tenants s \<and> pl_intents s' = pl_intents s"
    using assms by (simp add: scheduleDowngrade_def billing_runs Let_def project_refused)
  obtain r s1 where r: "run_state (GetSubscriptionItem (cl_net cl) (cl_platformKey cl) (tn_SubscriptionID tenant)) s = (r, s1)"
    by fastforce
  have rows: "pl_tenants s1 = pl_tenants s" "pl_intents s1 = pl_intents s"
    using keepsD [OF same_rows.client(1) r] by simp_all
  then have "has_change t s1" using assms by (simp add: has_change_def)
  with rows show "let (answer, s') = run_state (scheduleCancellation cl t tenant) s in
      fst answer \<ge> 400 \<and> pl_tenants s' = pl_tenants s \<and> pl_intents s' = pl_intents s"
    by (cases r) (auto simp: scheduleCancellation_def r billing_runs Let_def project_refused)
qed

section \<open>Taking a cancellation back\<close>

definition scheduled_rows :: "ObjectId \<Rightarrow> ChangeKind \<Rightarrow> IntentStatus \<Rightarrow> string \<Rightarrow> int
    \<Rightarrow> PlanChangeIntent list \<Rightarrow> PlanChangeIntent list" where
  "scheduled_rows t kind st note now rows = map (\<lambda>x.
     if in_TenantID x = t \<and> in_Kind x = kind \<and> in_Status x = Scheduled
     then x\<lparr>in_Status := st, in_Note := note, in_ResolvedAt := Some (bsonTime now)\<rparr> else x) rows"

lemma scheduled_rows_done:
  assumes "x \<in> set (scheduled_rows t kind st note now rows)" and "in_TenantID x = t" and "in_Kind x = kind"
    and "st \<noteq> Scheduled"
  shows "in_Status x \<noteq> Scheduled"
proof -
  from assms(1) obtain y where "x = (if in_TenantID y = t \<and> in_Kind y = kind \<and> in_Status y = Scheduled
      then y\<lparr>in_Status := st, in_Note := note, in_ResolvedAt := Some (bsonTime now)\<rparr> else y)"
    unfolding scheduled_rows_def set_map by (elim imageE)
  with assms(2-4) show ?thesis by (cases "in_Status y = Scheduled") (simp_all split: if_splits)
qed

lemma scheduled_rows_other:
  "x \<in> set rows \<Longrightarrow> in_Kind x \<noteq> kind \<Longrightarrow> x \<in> set (scheduled_rows t kind st note now rows)"
  by (auto simp: scheduled_rows_def image_iff intro!: bexI [of _ x])

lemma scheduled_rows_ids: "map in_Id (scheduled_rows t kind st note now rows) = map in_Id rows"
  by (simp add: scheduled_rows_def)

lemma run_markScheduled:
  "db_up cl s \<Longrightarrow> run_state (markScheduledIntents cl t kind st note) s
    = ((), s\<lparr>sc_reads := Suc (Suc (sc_reads s)),
        pl_intents := scheduled_rows t kind st note (cl_now cl (sc_reads s)) (pl_intents s)\<rparr>)"
  by (simp add: markScheduledIntents_def updateAll_def billing_runs Let_def db_up_now scheduled_rows_def)

definition tenant_row :: "ObjectId \<Rightarrow> (Tenant \<Rightarrow> Tenant) \<Rightarrow> Tenant list \<Rightarrow> Tenant list" where
  "tenant_row t f rows = map (\<lambda>x. if tn_Id x = t then f x else x) rows"

lemma run_tenant_row:
  assumes "db_up cl s" and "distinct (map tn_Id (pl_tenants s))" and "tn \<in> set (pl_tenants s)" and "tn_Id tn = t"
  shows "run_state (updateTenantId cl t f) s
    = (None, s\<lparr>sc_reads := Suc (sc_reads s), pl_tenants := tenant_row t f (pl_tenants s)\<rparr>)"
  using assms updateOne_by_key [OF assms(2,3,4), of "\<lambda>x. tn_Id x = t" f]
  by (simp add: run_updateTenantId tenant_row_def)

lemma db_up_frames [simp]:
  assumes "db_up cl s"
  shows "db_up cl (s\<lparr>sc_reads := Suc (sc_reads s)\<rparr>)" "db_up cl (s\<lparr>sc_reads := Suc (Suc (sc_reads s))\<rparr>)"
    "db_up cl (s\<lparr>pl_tenants := a\<rparr>)" "db_up cl (s\<lparr>pl_intents := b\<rparr>)" "db_up cl (s\<lparr>pl_oids := c\<rparr>)"
  using assms by (auto simp: db_up_def)

lemma tenant_row_mem: "tn \<in> set rows \<Longrightarrow> tn_Id tn = t \<Longrightarrow> f tn \<in> set (tenant_row t f rows)"
  unfolding tenant_row_def by (rule map_by_id_set)

lemma tenant_row_changed:
  assumes "y \<in> set (tenant_row t f rows)" and "tn_Id y = t" and "\<And>x. tn_Id x = t \<Longrightarrow> P (f x)"
  shows "P y"
proof -
  from assms(1) obtain x where "y = (if tn_Id x = t then f x else x)"
    unfolding tenant_row_def set_map by (elim imageE)
  with assms(2,3) show ?thesis by (cases "tn_Id x = t") simp_all
qed

lemma tenant_row_ids: "(\<And>x. tn_Id (f x) = tn_Id x) \<Longrightarrow> map tn_Id (tenant_row t f rows) = map tn_Id rows"
  by (simp add: tenant_row_def)

lemma tenant_row_twice:
  "(\<And>x. tn_Id (f x) = tn_Id x) \<Longrightarrow> tenant_row t g (tenant_row t f rows) = tenant_row t (\<lambda>x. g (f x)) rows"
  by (simp add: tenant_row_def)

text \<open>The update of a row that has the change asked for.\<close>

lemma run_reverse:
  assumes "db_up cl s" and "distinct (map tn_Id (pl_tenants s))" and "tn \<in> set (pl_tenants s)" and "tn_Id tn = t"
    and "tn_ChangeKind tn = ChangeCancel"
  shows "run_state (updateTenant cl (\<lambda>x. tn_Id x = t \<and> tn_ChangeKind x = ChangeCancel) f) s
    = (None, s\<lparr>sc_reads := Suc (sc_reads s), pl_tenants := tenant_row t f (pl_tenants s)\<rparr>)"
  using assms updateOne_by_key [OF assms(2,3,4), of "\<lambda>x. tn_Id x = t \<and> tn_ChangeKind x = ChangeCancel" f]
  by (simp add: updateTenant_def billing_runs Let_def db_up_now tenant_row_def)

lemma run_insert:
  assumes "db_up cl s"
  obtains e rows where "run_state (insertIntent cl x) s = (e, s\<lparr>sc_reads := Suc (sc_reads s), pl_intents := rows\<rparr>)"
    and "set rows \<subseteq> insert (storedIntent x) (set (pl_intents s))"
proof -
  let ?rows = "snd (insertRow (\<lambda>a b. in_Id a = in_Id b) (storedIntent x) (pl_intents s))"
  have "snd (run_state (insertIntent cl x) s) = s\<lparr>sc_reads := Suc (sc_reads s), pl_intents := ?rows\<rparr>"
    using assms by (simp add: insertIntent_def billing_runs Let_def db_up_now split_beta)
  then show ?thesis
    by (intro that [of "fst (run_state (insertIntent cl x) s)" ?rows]) (auto simp: prod_eq_iff insertRow_def)
qed

lemma recordReversal_run:
  assumes up: "db_up cl s" and "distinct (map tn_Id (pl_tenants s))" and tn: "tn \<in> set (pl_tenants s)" "tn_Id tn = t"
    and run: "run_state (recordReversal cl t tenant) s = (answer, s')"
  shows "fst answer = 200
    \<and> pl_tenants s' = tenant_row t (\<lambda>x. x\<lparr>tn_ChangeKind := NoChange, tn_PendingTier := [], tn_ChangeAt := None\<rparr>)
        (pl_tenants s)
    \<and> (\<forall>x\<in>set (pl_intents s'). in_TenantID x = t \<and> in_Kind x = ChangeCancel \<longrightarrow> in_Status x \<noteq> Scheduled)"
proof -
  define marked where "marked = scheduled_rows t ChangeCancel Canceled ''cancellation reversed'' (cl_now cl (sc_reads s)) (pl_intents s)"
  define n where "n = Suc (Suc (sc_reads s))"
  define intent where "intent = (cl_NewPlanChangeIntent cl (Oid (pl_oids s)) (cl_now cl n) t (tn_PlanTier tenant)
    (tn_PlanTier tenant) (tn_SubscriptionID tenant))\<lparr>in_Kind := ChangeReactivate, in_Status := Confirmed,
      in_ResolvedAt := Some (cl_now cl (Suc n)), in_Note := ''reactivated inline''\<rparr>"
  let ?s1 = "s\<lparr>pl_intents := marked, pl_oids := Suc (pl_oids s), sc_reads := Suc (Suc n)\<rparr>"
  have up1: "db_up cl ?s1" using up by (simp add: db_up_def n_def)
  obtain e rows where ins: "run_state (insertIntent cl intent) ?s1 = (e, ?s1\<lparr>sc_reads := Suc (sc_reads ?s1), pl_intents := rows\<rparr>)"
    and rows: "set rows \<subseteq> insert (storedIntent intent) (set (pl_intents ?s1))"
    using run_insert [OF up1] .
  have up2: "db_up cl (?s1\<lparr>sc_reads := Suc (sc_reads ?s1), pl_intents := rows\<rparr>)" using up1 by (simp add: db_up_def)
  have clear: "run_state (clearBillingChange cl t) (?s1\<lparr>sc_reads := Suc (sc_reads ?s1), pl_intents := rows\<rparr>)
      = (None, (?s1\<lparr>sc_reads := Suc (sc_reads ?s1), pl_intents := rows\<rparr>)\<lparr>sc_reads := Suc (Suc (sc_reads ?s1)),
          pl_tenants := tenant_row t (\<lambda>x. x\<lparr>tn_ChangeKind := NoChange, tn_PendingTier := [], tn_ChangeAt := None\<rparr>) (pl_tenants s)\<rparr>)"
    unfolding clearBillingChange_def using run_tenant_row [OF up2] assms(2) tn by simp
  have mark: "run_state (markScheduledIntents cl t ChangeCancel Canceled ''cancellation reversed'') s
      = ((), s\<lparr>sc_reads := n, pl_intents := marked\<rparr>)"
    by (simp add: run_markScheduled up marked_def n_def)
  have "run_state (recordReversal cl t tenant) s = (case run_state (insertIntent cl intent) ?s1 of
      (e, s2) \<Rightarrow> (case run_state (clearBillingChange cl t) s2 of
        (e', s3) \<Rightarrow> ((200, [(''reactivated'', VBool True)]), s3\<lparr>pl_effects := pl_effects s3 @
          [AuditRecord ''billing.subscription.reactivate'' (tn_SubscriptionID tenant) (Some (cl_now cl (Suc n)))]\<rparr>)))"
    by (simp add: recordReversal_def mark billing_runs Let_def recordBillingLifecycleAudit_def intent_def split_beta)
  then have "answer = (200, [(''reactivated'', VBool True)]) \<and> pl_intents s' = rows
      \<and> pl_tenants s' = tenant_row t (\<lambda>x. x\<lparr>tn_ChangeKind := NoChange, tn_PendingTier := [], tn_ChangeAt := None\<rparr>) (pl_tenants s)"
    unfolding run ins prod.case clear by (elim Pair_inject) simp
  moreover have "in_Status x \<noteq> Scheduled" if "x \<in> set rows" "in_TenantID x = t" "in_Kind x = ChangeCancel" for x
  proof -
    have "in_Kind (storedIntent intent) = ChangeReactivate" by (simp add: intent_def storedIntent_def)
    with that(3) have "x \<noteq> storedIntent intent" by auto
    with subsetD [OF rows that(1)] have "x \<in> set marked" by simp
    from scheduled_rows_done [OF this [unfolded marked_def] that(2,3)] show ?thesis by simp
  qed
  ultimately show ?thesis by auto
qed

text \<open>
  C33: A cancellation can be taken back. When the tenant's row says that a cancellation is scheduled,
  the payment service accepts the reversal and the database answers, then the request is answered 200,
  the tenant has no change any more, every other tenant and every other field is as it was, and no
  cancellation of the tenant is still scheduled.
\<close>

theorem reactivate_undoes:
  assumes up: "db_up cl s" and keys: "keys_unique s" and tn: "tn \<in> set (pl_tenants s)" "tn_Id tn = t"
    and kind: "tn_ChangeKind tn = ChangeCancel" "tn_SubscriptionID tn \<noteq> []" and "cl_platformKey cl \<noteq> []"
    and accepted: "\<And>s :: Platform. fst (run_state (SetSubscriptionCancelAtPeriodEnd (cl_net cl) (cl_platformKey cl)
      (tn_SubscriptionID tn) False) s) = Inr ()"
    and run: "run_state (reactivate cl t tn) s = (answer, s')"
  shows "fst answer = 200
    \<and> pl_tenants s' = tenant_row t (\<lambda>x. x\<lparr>tn_ChangeKind := NoChange, tn_PendingTier := [], tn_ChangeAt := None\<rparr>)
        (pl_tenants s)
    \<and> (\<forall>x\<in>set (pl_intents s'). in_TenantID x = t \<and> in_Kind x = ChangeCancel \<longrightarrow> in_Status x \<noteq> Scheduled)"
proof -
  have dist: "distinct (map tn_Id (pl_tenants s))" using keys by (simp add: keys_unique_def)
  let ?s1 = "s\<lparr>sc_reads := Suc (sc_reads s),
    pl_tenants := tenant_row t (\<lambda>x. x\<lparr>tn_ChangeKind := ChangeReactivate\<rparr>) (pl_tenants s)\<rparr>"
  let ?set = "SetSubscriptionCancelAtPeriodEnd (cl_net cl) (cl_platformKey cl) (tn_SubscriptionID tn) False"
  obtain s2 where set: "run_state ?set ?s1 = (Inr (), s2)" using accepted [of ?s1] by (metis prod.collapse)
  have rows: "pl_tenants s2 = pl_tenants ?s1" using keepsD [OF same_rows.client(3) set] by simp
  have "db_up cl ?s1" using up by (simp add: db_up_def)
  then have up2: "db_up cl s2" by (rule db_up_later [OF _ keepsD [OF reads_grow.client(3) set]])
  have "run_state (recordReversal cl t tn) s2 = (answer, s')"
    using run kind \<open>cl_platformKey cl \<noteq> []\<close> set by (simp add: reactivate_def run_reverse [OF up dist tn kind(1)])
  note rest = this
  have ids: "distinct (map tn_Id (pl_tenants s2))" using rows dist by (simp add: tenant_row_ids)
  have mem: "tn\<lparr>tn_ChangeKind := ChangeReactivate\<rparr> \<in> set (pl_tenants s2)"
    using rows tenant_row_mem [OF tn, of "\<lambda>x. x\<lparr>tn_ChangeKind := ChangeReactivate\<rparr>"] by simp
  have "tn_Id (tn\<lparr>tn_ChangeKind := ChangeReactivate\<rparr>) = t" using tn by simp
  from recordReversal_run [OF up2 ids mem this rest] rows show ?thesis by (simp add: tenant_row_twice)
qed

section \<open>What the webhook settles\<close>

lemma resolved_rows_ids: "map in_Id (resolved_rows i st tier note now rows) = map in_Id rows"
  by (simp add: resolved_rows_def updateOne_map)

lemma resolved_rows_pending:
  assumes "distinct (map in_Id rows)" and "y \<in> set (resolved_rows i Confirmed tier note now rows)"
    and "in_Status y = Pending"
  shows "y \<in> set rows \<and> in_Id y \<noteq> i"
proof (cases "\<exists>x\<in>set rows. in_Id x = i \<and> is_open (in_Status x)")
  case True
  then obtain x where "x \<in> set rows" "in_Id x = i" "is_open (in_Status x)" by blast
  from resolved_rows_at [OF assms(1) this(1,3)] this(2) assms(2,3) show ?thesis
    by (auto split: if_splits)
next
  case False
  then have "updateFirst (\<lambda>x. in_Id x = i \<and> (in_Status x = Pending \<or> in_Status x = Scheduled)) f rows = None" for f
    by (auto simp: updateFirst_None list_all_iff is_open_def)
  then have "resolved_rows i Confirmed tier note now rows = rows"
    by (simp add: resolved_rows_def updateOne_def)
  with False assms(2,3) show ?thesis by (auto simp: is_open_def)
qed

lemma settle_all:
  assumes "db_up cl s" and "distinct (map in_Id (pl_intents s))"
  shows "\<exists>n rows. run_state (foldC (\<lambda>_ x. resolvePlanIntent cl (in_Id x) Confirmed tier note) () xs) s
      = ((), s\<lparr>sc_reads := n, pl_intents := rows\<rparr>) \<and> n \<ge> sc_reads s
    \<and> (\<forall>y\<in>set rows. in_Status y = Pending \<longrightarrow> y \<in> set (pl_intents s) \<and> y \<notin> set xs)"
  using assms
proof (induction xs arbitrary: s)
  case Nil
  then show ?case by (intro exI [of _ "sc_reads s"] exI [of _ "pl_intents s"]) simp
next
  case (Cons x xs)
  let ?rows = "resolved_rows (in_Id x) Confirmed tier note (cl_now cl (sc_reads s)) (pl_intents s)"
  let ?s1 = "s\<lparr>sc_reads := Suc (Suc (sc_reads s)), pl_intents := ?rows\<rparr>"
  have "db_up cl ?s1" "distinct (map in_Id (pl_intents ?s1))"
    using Cons.prems by (simp_all add: db_up_def resolved_rows_ids)
  from Cons.IH [OF this] obtain n rows where IH: "run_state (foldC (\<lambda>_ x. resolvePlanIntent cl (in_Id x) Confirmed tier note) () xs) ?s1
      = ((), ?s1\<lparr>sc_reads := n, pl_intents := rows\<rparr>)" "n \<ge> sc_reads ?s1"
    "\<forall>y\<in>set rows. in_Status y = Pending \<longrightarrow> y \<in> set (pl_intents ?s1) \<and> y \<notin> set xs" by blast
  have "run_state (foldC (\<lambda>_ x. resolvePlanIntent cl (in_Id x) Confirmed tier note) () (x # xs)) s
      = ((), s\<lparr>sc_reads := n, pl_intents := rows\<rparr>)"
    using IH(1) by (simp add: run_resolve Cons.prems(1))
  moreover have "y \<in> set (pl_intents s) \<and> y \<notin> set (x # xs)" if "y \<in> set rows" "in_Status y = Pending" for y
    using IH(3) that resolved_rows_pending [OF Cons.prems(2), of y "in_Id x"] by auto
  ultimately show ?case using IH(2) by (intro exI [of _ n] exI [of _ rows]) auto
qed

lemma run_confirmPlanIntents:
  assumes "db_up cl s" and "distinct (map in_Id (pl_intents s))"
  shows "\<exists>n rows. run_state (confirmPlanIntents cl t tier) s = ((), s\<lparr>sc_reads := n, pl_intents := rows\<rparr>)
    \<and> (\<forall>y\<in>set rows. in_TenantID y = t \<longrightarrow> in_Status y \<noteq> Pending)"
proof -
  let ?xs = "filter (\<lambda>x. in_TenantID x = t \<and> in_Status x = Pending) (pl_intents s)"
  have "db_up cl (s\<lparr>sc_reads := Suc (sc_reads s)\<rparr>)" using assms(1) by simp
  from settle_all [OF this, of tier "''authoritative state applied''" ?xs] assms(2)
  obtain n rows where r: "run_state (foldC (\<lambda>_ x. resolvePlanIntent cl (in_Id x) Confirmed tier ''authoritative state applied'') () ?xs)
      (s\<lparr>sc_reads := Suc (sc_reads s)\<rparr>) = ((), s\<lparr>sc_reads := n, pl_intents := rows\<rparr>)"
    "\<forall>y\<in>set rows. in_Status y = Pending \<longrightarrow> y \<in> set (pl_intents s) \<and> y \<notin> set ?xs" by auto
  have "run_state (confirmPlanIntents cl t tier) s = ((), s\<lparr>sc_reads := n, pl_intents := rows\<rparr>)"
    using r(1) by (simp add: confirmPlanIntents_def findIntents_def billing_runs Let_def db_up_now [OF assms(1)])
  with r(2) show ?thesis by auto
qed

lemma run_cancellationUpdate:
  assumes "db_up cl s"
  shows "\<exists>f n rows. run_state (cancellationUpdate cl t sub) s = (f, s\<lparr>sc_reads := n, pl_intents := rows\<rparr>)
    \<and> n \<ge> sc_reads s \<and> map in_Id rows = map in_Id (pl_intents s) \<and> (\<forall>x. tn_Id (f x) = tn_Id x)"
proof (cases "su_CancelAtPeriodEnd sub \<and> su_CurrentPeriodEnd sub > 0")
  case True
  then show ?thesis
    by (intro exI [of _ "fst (run_state (cancellationUpdate cl t sub) s)"] exI [of _ "sc_reads s"] exI [of _ "pl_intents s"])
      (simp add: cancellationUpdate_def)
next
  case False
  obtain r where r: "run_state (findTenantId cl t) s = (r, s\<lparr>sc_reads := Suc (sc_reads s)\<rparr>)"
    using assms by (simp add: findTenantId_def findTenant_def run_dbRead Let_def db_up_now)
  let ?cancel = "\<exists>x. r = Inr x \<and> tn_ChangeKind x = ChangeCancel"
  show ?thesis
  proof (cases ?cancel)
    case True
    with False r show ?thesis
      by (auto simp: cancellationUpdate_def run_markScheduled [OF db_up_frames(1) [OF assms]]
          intro!: exI [of _ "Suc (Suc (Suc (sc_reads s)))"] exI [of _ "scheduled_rows _ _ _ _ _ _"] simp: scheduled_rows_ids)
  next
    case no: False
    with False r show ?thesis
      by (intro exI [of _ "\<lambda>x. x"] exI [of _ "Suc (sc_reads s)"] exI [of _ "pl_intents s"])
        (auto simp: cancellationUpdate_def split: sum.splits)
  qed
qed

lemma run_tierUpdate:
  assumes "db_up cl s"
  shows "\<exists>h n es. run_state (tierUpdate cl t (Some tier)) s = (h, s\<lparr>sc_reads := n, pl_effects := es\<rparr>) \<and> n \<ge> sc_reads s
    \<and> (\<forall>x. tn_PlanTier (h x) = tier \<and> tn_PlanContract (h x) = cl_SnapshotContract cl tier \<and> tn_Id (h x) = tn_Id x
        \<and> tn_SubscriptionStatus (h x) = tn_SubscriptionStatus x \<and> tn_PastDueAt (h x) = tn_PastDueAt x)"
proof -
  obtain r where r: "run_state (findTenantId cl t) s = (r, s\<lparr>sc_reads := Suc (sc_reads s)\<rparr>)"
    using assms by (simp add: findTenantId_def findTenant_def run_dbRead Let_def db_up_now)
  show ?thesis
    by (intro exI [of _ "fst (run_state (tierUpdate cl t (Some tier)) s)"] exI [of _ "Suc (sc_reads s)"]
        exI [of _ "pl_effects (snd (run_state (tierUpdate cl t (Some tier)) s))"])
      (cases r; simp add: tierUpdate_def r run_effect Let_def)
qed

text \<open>
  C31: What an event for an active subscription brings in line. When it names the tenant and a tier
  and the database answers, the handler succeeds; the tenant's row then has the status active, no
  time past due, the tier and its contract and the subscription's id, no other tenant is changed, and
  no plan change of the tenant is pending any more.
\<close>

theorem subscription_active:
  assumes up: "db_up cl s" and keys: "keys_unique s" and tn: "tn \<in> set (pl_tenants s)" "tn_Id tn = t"
    and sub: "cl_subscription cl raw = Inr sub" "cl_ObjectIdHex cl (meta (su_Metadata sub) ''tenant_id'') = Some t"
      "su_Status sub = ''active''" "subscriptionTier cl sub = Some tier"
    and run: "run_state (platformSubscriptionUpdated cl raw) s = (err, s')"
  shows "err = None
    \<and> (\<exists>f. pl_tenants s' = tenant_row t f (pl_tenants s) \<and> (\<forall>x. tn_SubscriptionStatus (f x) = ''active''
        \<and> tn_PastDueAt (f x) = None \<and> tn_PlanTier (f x) = tier \<and> tn_PlanContract (f x) = cl_SnapshotContract cl tier
        \<and> tn_SubscriptionID (f x) = su_ID sub \<and> tn_Id (f x) = tn_Id x))
    \<and> (\<forall>x\<in>set (pl_intents s'). in_TenantID x = t \<longrightarrow> in_Status x \<noteq> Pending)"
proof -
  obtain f n rows where f: "run_state (cancellationUpdate cl t sub) s = (f, s\<lparr>sc_reads := n, pl_intents := rows\<rparr>)"
    "n \<ge> sc_reads s" "map in_Id rows = map in_Id (pl_intents s)" "\<forall>x. tn_Id (f x) = tn_Id x"
    using run_cancellationUpdate [OF up] by blast
  let ?s1 = "s\<lparr>sc_reads := n, pl_intents := rows\<rparr>"
  have "db_up cl ?s1" using up f(2) by (simp add: db_up_def)
  from run_tierUpdate [OF this] obtain h n' es where h: "run_state (tierUpdate cl t (Some tier)) ?s1 = (h, ?s1\<lparr>sc_reads := n', pl_effects := es\<rparr>)"
    "n' \<ge> n" "\<forall>x. tn_PlanTier (h x) = tier \<and> tn_PlanContract (h x) = cl_SnapshotContract cl tier \<and> tn_Id (h x) = tn_Id x
        \<and> tn_SubscriptionStatus (h x) = tn_SubscriptionStatus x \<and> tn_PastDueAt (h x) = tn_PastDueAt x" by fastforce
  let ?s2 = "?s1\<lparr>sc_reads := n', pl_effects := es\<rparr>"
  define g where "g = (\<lambda>x. (h ((f x)\<lparr>tn_SubscriptionStatus := ''active'', tn_PastDueAt := None\<rparr>))\<lparr>tn_SubscriptionID := su_ID sub\<rparr>)"
  have up2: "db_up cl ?s2" using up f(2) h(2) by (simp add: db_up_def)
  have upd: "run_state (updateTenantId cl t g) ?s2
      = (None, ?s2\<lparr>sc_reads := Suc (sc_reads ?s2), pl_tenants := tenant_row t g (pl_tenants s)\<rparr>)"
    using run_tenant_row [OF up2, of tn t g] keys tn by (simp add: keys_unique_def)
  let ?s3 = "?s2\<lparr>sc_reads := Suc (sc_reads ?s2), pl_tenants := tenant_row t g (pl_tenants s)\<rparr>"
  have "db_up cl ?s3" "distinct (map in_Id (pl_intents ?s3))"
    using up2 keys f(3) by (simp_all add: db_up_def keys_unique_def)
  from run_confirmPlanIntents [OF this] obtain m rows' where
    c: "run_state (confirmPlanIntents cl t tier) ?s3 = ((), ?s3\<lparr>sc_reads := m, pl_intents := rows'\<rparr>)"
      "\<forall>y\<in>set rows'. in_TenantID y = t \<longrightarrow> in_Status y \<noteq> Pending" by blast
  have "run_state (platformSubscriptionUpdated cl raw) s
      = (None, ?s3\<lparr>sc_reads := m, pl_intents := rows', pl_effects := es @ [Invalidate t]\<rparr>)"
    using f(1) h(1) upd c(1) by (simp add: platformSubscriptionUpdated_def sub resolvePlatformTenant_def statusUpdate_def
        run_effect Let_def g_def)
  with run have "err = None" "pl_tenants s' = tenant_row t g (pl_tenants s)" "pl_intents s' = rows'"
    by (metis Pair_inject Platform.select_convs Platform.update_convs, auto)
  then show ?thesis using c(2) h(3) f(4) by (auto intro!: exI [of _ g] simp: g_def)
qed

section \<open>States no request leads out of\<close>

text \<open>The tenant a handler finds.\<close>

lemma run_findTenantId:
  assumes "db_up cl s" and "find (\<lambda>x. tn_Id x = t) (pl_tenants s) = Some tn"
  shows "run_state (findTenantId cl t) s = (Inr tn, s\<lparr>sc_reads := Suc (sc_reads s)\<rparr>)"
  using assms by (simp add: findTenantId_def findTenant_def run_dbRead findOne_def Let_def db_up_now)

text \<open>
  A reactivation whose last write is lost locks the tenant. The kind stays at the transient
  value of the reversal, and from then on the tenant's requests to change the plan, to cancel,
  to reactivate and to withdraw the change are all answered 409 and change no tenant.
\<close>

theorem reactivation_lock:
  assumes up: "db_up cl s" and tn: "find (\<lambda>x. tn_Id x = t) (pl_tenants s) = Some tn"
    and "tn_ChangeKind tn = ChangeReactivate" and "tn_SubscriptionID tn \<noteq> []"
    and "cl_ByTier cl tier = Some target" and "tier \<noteq> []" and "cl_platformKey cl \<noteq> []"
    and "cl_StripePriceID cl (pn_Tier target) \<noteq> []"
    and "pn_Tier (cl_ForTenant cl (tn_PlanTier tn)) \<noteq> pn_Tier target"
  shows "list_all (\<lambda>m. fst (fst (run_state m s)) = 409 \<and> pl_tenants (snd (run_state m s)) = pl_tenants s)
    [HandleChangeBillingPlan cl (Some t) (Some tier), HandleScheduleBillingCancellation cl (Some t),
     HandleReactivateBillingSubscription cl (Some t), HandleCancelScheduledBillingChange cl (Some t)]"
  using assms(3-)
  by (simp add: HandleChangeBillingPlan_def changePlan_def HandleScheduleBillingCancellation_def scheduleCancellation_def
      HandleReactivateBillingSubscription_def reactivate_def HandleCancelScheduledBillingChange_def
      cancelScheduledChange_def withTenant_def run_findTenantId [OF up tn] run_reject Let_def)

text \<open>
  The date of a scheduled cancellation that the payment service no longer names at the top level
  of its answer is not taken from the intent. A missing end of the period reads as second 0, which is
  not Go's zero time, so the guard for it never holds and the tenant is told the first of January 1970.
\<close>

theorem reconcileCancellation_epoch:
  assumes up: "db_up cl s" and "keys_unique s" and tn: "tn \<in> set (pl_tenants s)" "tn_Id tn = in_TenantID x"
    and item: "run_state (GetSubscriptionItem (cl_net cl) key (in_SubID x)) s = (Inr item, s1)"
    and "si_CancelAtPeriodEnd item" and "si_CurrentPeriodEnd item = unixTime 0"
  defines "s' \<equiv> snd (run_state (reconcileCancellation cl key x) s)"
  shows "\<forall>y\<in>set (pl_tenants s'). tn_Id y = in_TenantID x \<longrightarrow> tn_ChangeKind y = ChangeCancel \<and> tn_ChangeAt y = Some 0"
proof -
  have "unixTime 0 = 0" by (simp add: unixTime_def wrap64_def)
  have rows: "pl_tenants s1 = pl_tenants s" using keepsD [OF same_rows.client(1) item] by simp
  have "db_up cl s1" by (rule db_up_later [OF up keepsD [OF reads_grow.client(1) item]])
  then show ?thesis
    using assms(2,6,7) tn rows \<open>unixTime 0 = 0\<close>
    by (auto simp: s'_def reconcileCancellation_def item run_tenant_row keys_unique_def Let_def zeroTime_def bsonTime_def
        tenant_row_def split: option.splits)
qed

text \<open>
  An event for a subscription whose status the handler does not know (incomplete) is half applied:
  it settles the tenant's scheduled cancellation as reversed but leaves the tenant's row, which still
  announces the cancellation, and no intent is left for the sweep to repair it from.
\<close>

theorem subscription_incomplete:
  assumes up: "db_up cl s" and tn: "find (\<lambda>x. tn_Id x = t) (pl_tenants s) = Some tn" "tn_ChangeKind tn = ChangeCancel"
    and sub: "cl_subscription cl raw = Inr sub" "cl_ObjectIdHex cl (meta (su_Metadata sub) ''tenant_id'') = Some t"
      "su_Status sub = ''incomplete''" "\<not> su_CancelAtPeriodEnd sub"
    and run: "run_state (platformSubscriptionUpdated cl raw) s = (err, s')"
  shows "err = None \<and> pl_tenants s' = pl_tenants s
    \<and> (\<forall>x\<in>set (pl_intents s'). in_TenantID x = t \<and> in_Kind x = ChangeCancel \<longrightarrow> in_Status x \<noteq> Scheduled)"
proof -
  let ?s1 = "s\<lparr>sc_reads := Suc (sc_reads s)\<rparr>"
  define rows where "rows = scheduled_rows t ChangeCancel Canceled ''cancellation reversed at Stripe''
    (cl_now cl (sc_reads ?s1)) (pl_intents s)"
  have upd: "run_state (platformSubscriptionUpdated cl raw) s
      = (None, ?s1\<lparr>sc_reads := Suc (Suc (sc_reads ?s1)), pl_intents := rows\<rparr>)"
    using up by (simp add: platformSubscriptionUpdated_def sub resolvePlatformTenant_def cancellationUpdate_def
        run_findTenantId [OF up tn(1)] tn(2) statusUpdate_def run_markScheduled rows_def Let_def)
  from trans [OF run [symmetric] upd]
  have "err = None" "pl_tenants s' = pl_tenants s" "pl_intents s' = rows"
    by (simp_all only: prod.inject) simp_all
  then show ?thesis using scheduled_rows_done [of _ t ChangeCancel Canceled] by (simp add: rows_def)
qed

text \<open>
  The end of a subscription does not end its scheduled downgrade. The tenant's row loses the
  change, but the intent stays scheduled, so the sweep takes it up every time once its date has passed.
\<close>

theorem deleted_keeps_downgrade:
  assumes up: "db_up cl s" and keys: "keys_unique s" and tn: "tn \<in> set (pl_tenants s)" "tn_Id tn = t"
    and raw: "cl_deleted cl raw = Inr (customer, metadata)" "cl_ObjectIdHex cl (meta metadata ''tenant_id'') = Some t"
    and x: "x \<in> set (pl_intents s)" "in_Kind x = ChangePlan" "in_Status x = Scheduled"
    and run: "run_state (platformSubscriptionDeleted cl raw) s = (err, s')"
  shows "err = None \<and> x \<in> set (pl_intents s') \<and> (\<forall>y\<in>set (pl_tenants s'). tn_Id y = t \<longrightarrow> tn_ChangeKind y = NoChange)"
proof -
  have dist: "distinct (map tn_Id (pl_tenants s))" using keys by (simp add: keys_unique_def)
  let ?clear = "\<lambda>x. x\<lparr>tn_SubscriptionStatus := ''canceled'', tn_ChangeKind := NoChange, tn_ChangeAt := None, tn_PendingTier := []\<rparr>"
  let ?s1 = "s\<lparr>sc_reads := Suc (sc_reads s), pl_tenants := tenant_row t ?clear (pl_tenants s)\<rparr>"
  define rows where "rows = scheduled_rows t ChangeCancel Confirmed ''subscription ended at paid-through boundary''
    (cl_now cl (sc_reads ?s1)) (pl_intents s)"
  have up1: "db_up cl ?s1" using up by (simp add: db_up_def)
  have upd: "run_state (platformSubscriptionDeleted cl raw) s
      = (None, ?s1\<lparr>sc_reads := Suc (Suc (sc_reads ?s1)), pl_intents := rows\<rparr>)"
    using run_markScheduled [OF up1, of t ChangeCancel Confirmed "''subscription ended at paid-through boundary''"]
    by (simp add: platformSubscriptionDeleted_def raw resolvePlatformTenant_def run_tenant_row [OF up dist tn] rows_def)
  from trans [OF run [symmetric] upd]
  have "err = None" "pl_tenants s' = tenant_row t ?clear (pl_tenants s)" "pl_intents s' = rows"
    by (simp_all only: prod.inject) simp_all
  moreover have "x \<in> set rows" using x by (simp add: rows_def scheduled_rows_other)
  moreover have "tn_ChangeKind y = NoChange" if "y \<in> set (tenant_row t ?clear (pl_tenants s))" "tn_Id y = t" for y
    by (rule tenant_row_changed [OF that]) simp
  ultimately show ?thesis by simp
qed

section \<open>Overlapping deliveries\<close>

lemma find_append_new: "find P xs = None \<Longrightarrow> find P (xs @ [x]) = (if P x then Some x else None)"
  by (induction xs) (auto split: if_splits)

text \<open>The first record of an event: it is received, and stays so until a delivery is through.\<close>

lemma run_first_record:
  assumes "\<And>n. cl_db cl n = Done" and "find (is_event (we_ID evt)) (pl_events s) = None"
    and "run_state (recordProviderEvent cl evt) s = (r, s1)"
  shows "r = Inr False \<and> (\<forall>row. find (is_event (we_ID evt)) (pl_events s1) = Some row \<longrightarrow> pe_Status row \<noteq> EventProcessed)"
proof -
  have fresh: "\<not> list_ex (same_event e) (pl_events s)"
    if "pe_Provider e = platform_provider" "pe_EventID e = we_ID evt" for e
    using that assms(2) by (auto simp: list_ex_iff same_event_def is_event_def find_None_iff) metis
  show ?thesis
    using assms fresh
    by (auto simp: recordProviderEvent_def billing_runs Let_def insertRow_def find_append_new split: if_splits)
qed

text \<open>
  The record of an event stops a delivery only once its processing has ended. Two deliveries of one
  event that overlap both pass the gate: neither finds it processed, and both are in flight at once.
\<close>

theorem overlapping_deliveries:
  assumes "\<And>n. cl_db cl n = Done" and "we_ID evt \<noteq> []"
    and "find (is_event (we_ID evt)) (pl_events (sv_platform \<sigma>)) = None"
  shows "\<exists>\<sigma>'. (billing_step cl (\<lambda>_. True))\<^sup>*\<^sup>* \<sigma> \<sigma>' \<and> sv_inflight \<sigma>' = sv_inflight \<sigma> + {#evt, evt#}"
proof -
  obtain r s1 where s1: "run_state (recordProviderEvent cl evt) (sv_platform \<sigma>) = (r, s1)" by fastforce
  note first = run_first_record [OF assms(1,3) s1]
  then have notyet: "pe_Status row \<noteq> EventProcessed" if "find (is_event (we_ID evt)) (pl_events s1) = Some row" for row
    using that by blast
  obtain s2 where s2: "run_state (recordProviderEvent cl evt) s1 = (Inr False, s2)"
    using recorded_event [OF assms(1) notyet] by blast
  let ?\<sigma>1 = "\<sigma>\<lparr>sv_platform := s1, sv_inflight := add_mset evt (sv_inflight \<sigma>)\<rparr>"
  let ?\<sigma>2 = "?\<sigma>1\<lparr>sv_platform := s2, sv_inflight := add_mset evt (sv_inflight ?\<sigma>1)\<rparr>"
  have "billing_step cl (\<lambda>_. True) \<sigma> ?\<sigma>1"
    using s1 first assms(2) by (intro billing_step.arrive) simp_all
  moreover have "billing_step cl (\<lambda>_. True) ?\<sigma>1 ?\<sigma>2"
    using s2 assms(2) by (intro billing_step.arrive) simp_all
  ultimately show ?thesis by (intro exI [of _ ?\<sigma>2]) (simp add: converse_rtranclp_into_rtranclp)
qed

end
