(* ===== verification/BillingExamples.thy ===== *)
theory BillingExamples
  imports ScheduleProps
begin

text \<open>
  The properties of platform billing on the example: one failed payment is delivered, once and
  twice, and the tenant's requests and the sweep meet the states the properties speak of.
\<close>

section \<open>A delivery\<close>

definition demo_failure :: WebhookEvent where
  "demo_failure = demo_event ''invoice.payment_failed''"

definition demo_record :: "EventStatus \<Rightarrow> ProviderEvent" where
  "demo_record st = \<lparr>pe_Id = Oid 5, pe_Provider = platform_provider, pe_EventID = ''evt'',
     pe_Type = ''invoice.payment_failed'', pe_Livemode = True, pe_ProviderCreated = 0, pe_Status = st, pe_Attempts = 1,
     pe_LastError = [], pe_CreatedAt = 0, pe_UpdatedAt = 0\<rparr>"

definition demo_received :: Platform where
  "demo_received = demo_platform\<lparr>sc_reads := 2, pl_oids := 6, pl_events := [demo_record EventReceived]\<rparr>"

lemma demo_failure: "we_ID demo_failure = ''evt''" "we_Type demo_failure = ''invoice.payment_failed''"
  "\<not> settles demo_cloud demo_failure"
  by (simp_all add: demo_failure_def demo_event_def settles_def)

lemma demo_recorded:
  "run_state (recordProviderEvent demo_cloud demo_failure) demo_platform = (Inr False, demo_received)"
  by (simp add: recordProviderEvent_def billing_runs Let_def insertRow_def demo_received_def demo_record_def
      demo_platform_def demo_failure_def demo_event_def bsonTime_def numeral_2_eq_2)

lemma demo_processed:
  "fst (run_state (processEvent demo_cloud demo_failure) demo_received) = None"
  "pl_tenants (snd (run_state (processEvent demo_cloud demo_failure) demo_received)) = [demo_tenant]"
proof -
  have "cl_customer demo_cloud x = Inr ''cus''" "cl_invoice demo_cloud x = Inl ''no object''"
    "cl_ObjectIdHex demo_cloud x = None" for x
    by (simp_all add: demo_cloud_def)
  then show "fst (run_state (processEvent demo_cloud demo_failure) demo_received) = None"
    "pl_tenants (snd (run_state (processEvent demo_cloud demo_failure) demo_received)) = [demo_tenant]"
    by (simp_all add: processEvent_def demo_failure platformInvoicePaymentFailed_def resolvePlatformTenant_def
        upsertInvoiceProjection_def stampPastDueIfUnset_def intent_steps billing_runs Let_def written_def
        demo_received_def demo_platform_def demo_tenant_def)
qed

definition demo_service :: Service where
  "demo_service = \<lparr>sv_platform = demo_platform, sv_inflight = {#}\<rparr>"

definition demo_served :: Service where
  "demo_served = \<lparr>sv_platform = snd (run_state (deliver demo_cloud demo_failure) demo_received), sv_inflight = {#}\<rparr>"

lemma demo_run:
  assumes "allowed demo_failure"
  shows "(billing_step demo_cloud allowed)\<^sup>*\<^sup>* demo_service demo_served"
proof -
  let ?mid = "demo_service\<lparr>sv_platform := demo_received, sv_inflight := add_mset demo_failure (sv_inflight demo_service)\<rparr>"
  have "billing_step demo_cloud allowed demo_service ?mid"
    using assms by (intro billing_step.arrive) (simp_all add: demo_failure demo_recorded demo_service_def)
  moreover have "billing_step demo_cloud allowed ?mid demo_served"
    using billing_step.finish [of demo_failure ?mid demo_cloud allowed] by (simp add: demo_served_def demo_service_def)
  ultimately show ?thesis by (meson converse_rtranclp_into_rtranclp rtranclp.rtrancl_refl)
qed

lemma demo_start: "keys_unique (sv_platform demo_service)" "list_all (tenant_typed demo_cloud) (pl_tenants (sv_platform demo_service))"
proof -
  have "known_tier demo_cloud ''basic''" by (rule known_tier.name) (simp add: demo_cloud_def)
  then show "keys_unique (sv_platform demo_service)" "list_all (tenant_typed demo_cloud) (pl_tenants (sv_platform demo_service))"
    by (simp_all add: keys_unique_def tenant_typed_def demo_service_def demo_platform_def demo_tenant_def)
qed

section \<open>The runs of the system\<close>

theorem billing_keys_unique_witness: "keys_unique (sv_platform demo_served)"
  by (rule billing_keys_unique [OF demo_start(1) demo_run]) simp

theorem tenants_stay_typed_witness: "list_all (tenant_typed demo_cloud) (pl_tenants (sv_platform demo_served))"
  by (rule tenants_stay_typed [OF demo_run demo_start(2)]) simp

theorem intents_settled_once_witness:
  "\<exists>old new. pl_intents (sv_platform demo_served) = old @ new \<and> list_all2 advances (pl_intents (sv_platform demo_service)) old"
  by (rule intents_settled_once [OF demo_run]) simp

theorem past_due_clock_kept_witness: "list_all2 clock_kept [demo_tenant] (pl_tenants (sv_platform demo_served))"
proof -
  have "pl_tenants (sv_platform demo_service) = [demo_tenant]" "sv_inflight demo_service = {#}"
    by (simp_all add: demo_service_def demo_platform_def)
  then show ?thesis using past_due_clock_kept [OF demo_run, OF demo_failure(3)] by simp
qed

section \<open>Single deliveries\<close>

theorem duplicate_delivery_witness:
  "let s = demo_platform\<lparr>pl_events := [demo_record EventProcessed]\<rparr> in
   pl_tenants (snd (run_state (receive demo_cloud demo_failure) s)) = [demo_tenant]"
proof -
  let ?s = "demo_platform\<lparr>pl_events := [demo_record EventProcessed]\<rparr>"
  have "find (is_event (we_ID demo_failure)) (pl_events ?s) = Some (demo_record EventProcessed)"
    by (simp add: is_event_def demo_record_def demo_failure)
  note same = conjunct1 [OF duplicate_delivery [OF _ this _ prod.collapse [symmetric], of demo_cloud]]
  have "pl_tenants (snd (run_state (receive demo_cloud demo_failure) ?s)) = pl_tenants ?s"
    by (subst same) (simp_all add: demo_failure demo_record_def)
  then show ?thesis by (simp add: demo_platform_def)
qed

theorem delivery_outcome_witness:
  "\<exists>row. find (is_event ''evt'') (pl_events (snd (run_state (receive demo_cloud demo_failure) demo_platform))) = Some row
     \<and> pe_Status row = EventProcessed"
proof -
  obtain answer s' where r: "run_state (receive demo_cloud demo_failure) demo_platform = (answer, s')" by fastforce
  have "pl_events demo_platform = []" by (simp add: demo_platform_def)
  then show ?thesis
    using delivery_outcome [OF _ _ _ r] demo_recorded demo_processed(1) r by (auto simp: demo_failure split: option.splits)
qed

theorem overlapping_deliveries_witness:
  "\<exists>\<sigma>'. (billing_step demo_cloud (\<lambda>_. True))\<^sup>*\<^sup>* demo_service \<sigma>' \<and> sv_inflight \<sigma>' = {#demo_failure, demo_failure#}"
proof -
  have "pl_events (sv_platform demo_service) = []" "sv_inflight demo_service = {#}"
    by (simp_all add: demo_service_def demo_platform_def)
  then show ?thesis using overlapping_deliveries [of demo_cloud demo_failure demo_service] by (simp add: demo_failure)
qed

section \<open>Scheduled changes\<close>

definition demo_changing :: "ChangeKind \<Rightarrow> Tenant" where
  "demo_changing kind = demo_tenant\<lparr>tn_ChangeKind := kind\<rparr>"

definition demo_changed :: "ChangeKind \<Rightarrow> Platform" where
  "demo_changed kind = demo_platform\<lparr>pl_tenants := [demo_changing kind]\<rparr>"

lemma demo_changed [simp]:
  "pl_tenants (demo_changed kind) = [demo_changing kind]" "pl_intents (demo_changed kind) = []"
  "tn_Id (demo_changing kind) = Oid 1" "tn_ChangeKind (demo_changing kind) = kind"
  "tn_SubscriptionID (demo_changing kind) = ''sub''" "tn_PlanTier (demo_changing kind) = ''basic''"
  "db_up demo_cloud s" "keys_unique (demo_changed kind)"
  by (simp_all add: demo_changed_def demo_changing_def demo_tenant_def demo_platform_def db_up_def keys_unique_def)

theorem scheduled_change_excludes_witness:
  "fst (fst (run_state (scheduleCancellation demo_cloud (Oid 1) demo_tenant) (demo_changed ChangePlan))) \<ge> 400"
proof -
  have "has_change (Oid 1) (demo_changed ChangePlan)" by (simp add: has_change_def)
  from scheduled_change_excludes [OF this, of demo_cloud demo_tenant] show ?thesis by (simp add: split_beta)
qed

theorem reactivate_undoes_witness:
  "map tn_ChangeKind (pl_tenants (snd (run_state (reactivate demo_cloud (Oid 1) (demo_changing ChangeCancel))
     (demo_changed ChangeCancel)))) = [NoChange]"
proof -
  obtain answer s' where r: "run_state (reactivate demo_cloud (Oid 1) (demo_changing ChangeCancel)) (demo_changed ChangeCancel)
      = (answer, s')" by fastforce
  have "fst (run_state (SetSubscriptionCancelAtPeriodEnd (cl_net demo_cloud) (cl_platformKey demo_cloud)
      (tn_SubscriptionID (demo_changing ChangeCancel)) False) s) = Inr ()" for s :: Platform
    by (simp add: demo_cancel)
  from reactivate_undoes [OF _ _ _ _ _ _ _ this r] r show ?thesis by (simp add: tenant_row_def)
qed

theorem subscription_active_witness:
  "let sub = \<lparr>su_ID = ''sub2'', su_Status = ''active'', su_Customer = ''cus'', su_Metadata = [], su_CancelAtPeriodEnd = False,
     su_CurrentPeriodEnd = 0, su_Prices = [''price_pro'']\<rparr>;
     cl = demo_cloud\<lparr>cl_subscription := (\<lambda>_. Inr sub), cl_ObjectIdHex := (\<lambda>_. Some (Oid 1))\<rparr> in
   map tn_PlanTier (pl_tenants (snd (run_state (platformSubscriptionUpdated cl []) demo_platform))) = [''pro'']"
proof -
  define sub where "sub = \<lparr>su_ID = ''sub2'', su_Status = ''active'', su_Customer = ''cus'', su_Metadata = [],
    su_CancelAtPeriodEnd = False, su_CurrentPeriodEnd = 0, su_Prices = [''price_pro'']\<rparr>"
  define cl where "cl = demo_cloud\<lparr>cl_subscription := (\<lambda>_. Inr sub), cl_ObjectIdHex := (\<lambda>_. Some (Oid 1))\<rparr>"
  obtain err s' where r: "run_state (platformSubscriptionUpdated cl []) demo_platform = (err, s')" by fastforce
  have "db_up cl demo_platform" "keys_unique demo_platform" "demo_tenant \<in> set (pl_tenants demo_platform)"
    "tn_Id demo_tenant = Oid 1"
    by (simp_all add: db_up_def keys_unique_def cl_def demo_platform_def demo_tenant_def)
  note facts = this
  have "cl_subscription cl [] = Inr sub" "cl_ObjectIdHex cl (meta (su_Metadata sub) ''tenant_id'') = Some (Oid 1)"
    "su_Status sub = ''active''" "subscriptionTier cl sub = Some ''pro''"
    by (simp_all add: cl_def sub_def subscriptionTier_def demo_cloud_def)
  from subscription_active [OF facts this r] obtain f where "pl_tenants s' = tenant_row (Oid 1) f (pl_tenants demo_platform)" "\<forall>x. tn_PlanTier (f x) = ''pro''" by blast
  then have "map tn_PlanTier (pl_tenants s') = [''pro'']"
    by (simp add: tenant_row_def demo_platform_def demo_tenant_def)
  with r show ?thesis by (simp add: cl_def sub_def Let_def)
qed

theorem reactivation_lock_witness:
  "fst (fst (run_state (HandleScheduleBillingCancellation demo_cloud (Some (Oid 1))) (demo_changed ChangeReactivate))) = 409"
  using reactivation_lock [of demo_cloud "demo_changed ChangeReactivate" "Oid 1" "demo_changing ChangeReactivate" "''pro''" "demo_plan ''pro''"]
  by (simp add: demo_plan_def)

section \<open>Calls of the payment service\<close>

definition demo_order :: Request where
  "demo_order = \<lparr>rq_Method = ''POST'', rq_Base = ''http://stripe'', rq_SecretKey = ''sk'', rq_Path = ''/v1/customers'',
     rq_Form = Some [], rq_IdempotencyKey = ''key''\<rparr>"

theorem stripeDoBase_attempts_witness:
  "let (r, s') = run_state (stripeDoBase demo_net ''http://stripe'' ''POST'' ''sk'' ''/v1/customers'' (Some []) ''key'' no_out)
     demo_platform in r = Inr () \<and> sc_requests s' = [demo_order]"
proof -
  obtain r s' where run: "run_state (stripeDoBase demo_net ''http://stripe'' ''POST'' ''sk'' ''/v1/customers'' (Some []) ''key'' no_out)
     demo_platform = (r, s')" by fastforce
  have c: "classify demo_net no_out (net_exchange demo_net n demo_order) = Final (Inr ())" for n
    by (simp add: demo_net_def classify_def no_out_def transient_def)
  have "net_badRequest demo_net ''POST'' (''http://stripe'' @ ''/v1/customers'') = None" by (simp add: demo_net_def)
  from stripeDoBase_attempts [OF this demo_order_def run] obtain k where
    "\<forall>j<k. is_Retry (classify demo_net no_out (net_exchange demo_net (sc_reads demo_platform + j) demo_order))"
    "r = verdict (classify demo_net no_out (net_exchange demo_net (sc_reads demo_platform + k) demo_order))"
    "s' = demo_platform\<lparr>sc_reads := sc_reads demo_platform + Suc k,
       sc_requests := sc_requests demo_platform @ replicate (Suc k) demo_order\<rparr>" by blast
  then show ?thesis unfolding run by (cases k) (auto simp: c is_Retry_def verdict_def demo_platform_def)
qed

end
