(* ===== verification/Diagnostics.thy ===== *)
theory Diagnostics
  imports Tokens
begin

text \<open>
  \<open>scripting/diagnostics.go\<close>: severities, diagnostics and the two queries on a list of
  them. A message is kept as the format string and the arguments given to
  \<open>fmt.Sprintf\<close>, a pure function of the two, so that no statement depends on how Go
  renders \<open>%q\<close>. \<open>errorAt\<close> and \<open>warnAt\<close> are the records the \<open>errorf\<close> and \<open>warnf\<close>
  methods of the passes append.
\<close>

datatype DiagLevel = DiagError | DiagWarning | DiagInfo

primrec level_code :: "DiagLevel \<Rightarrow> nat" where
  "level_code DiagError = 0"
| "level_code DiagWarning = 1"
| "level_code DiagInfo = 2"

lemma level_code_inject: "level_code a = level_code b \<longleftrightarrow> a = b"
  by (cases a; cases b) simp_all

instantiation DiagLevel :: linorder
begin

definition less_eq_DiagLevel :: "DiagLevel \<Rightarrow> DiagLevel \<Rightarrow> bool" where
  "less_eq_DiagLevel a b \<longleftrightarrow> level_code a \<le> level_code b"

definition less_DiagLevel :: "DiagLevel \<Rightarrow> DiagLevel \<Rightarrow> bool" where
  "less_DiagLevel a b \<longleftrightarrow> level_code a < level_code b"

instance
  by standard
    (auto simp: less_eq_DiagLevel_def less_DiagLevel_def level_code_inject [symmetric])

end

primrec DiagLevel_String :: "DiagLevel \<Rightarrow> string" where
  "DiagLevel_String DiagError = ''error''"
| "DiagLevel_String DiagWarning = ''warning''"
| "DiagLevel_String DiagInfo = ''info''"

text \<open>An argument of \<open>Sprintf\<close>.\<close>

datatype arg = AStr string | AInt int | APos Pos | AKind TokenKind | ARune nat

datatype message = Sprintf string "arg list"

record Diagnostic =
  diag_Pos :: Pos
  diag_Message :: message
  diag_Level :: DiagLevel

type_synonym Diagnostics = "Diagnostic list"

definition HasErrors :: "Diagnostics \<Rightarrow> bool" where
  "HasErrors ds = list_ex (\<lambda>d. diag_Level d = DiagError) ds"

definition Errors :: "Diagnostics \<Rightarrow> Diagnostics" where
  "Errors ds = filter (\<lambda>d. diag_Level d = DiagError) ds"

definition errorAt :: "Pos \<Rightarrow> string \<Rightarrow> arg list \<Rightarrow> Diagnostic" where
  "errorAt p fmt args =
     \<lparr>diag_Pos = p, diag_Message = Sprintf fmt args, diag_Level = DiagError\<rparr>"

definition warnAt :: "Pos \<Rightarrow> string \<Rightarrow> arg list \<Rightarrow> Diagnostic" where
  "warnAt p fmt args =
     \<lparr>diag_Pos = p, diag_Message = Sprintf fmt args, diag_Level = DiagWarning\<rparr>"

lemma errorAt_sel [simp]:
  "diag_Pos (errorAt p f a) = p" "diag_Level (errorAt p f a) = DiagError"
  "diag_Message (errorAt p f a) = Sprintf f a"
  by (simp_all add: errorAt_def)

lemma warnAt_sel [simp]:
  "diag_Pos (warnAt p f a) = p" "diag_Level (warnAt p f a) = DiagWarning"
  "diag_Message (warnAt p f a) = Sprintf f a"
  by (simp_all add: warnAt_def)

lemma HasErrors_simps [simp]:
  "\<not> HasErrors []"
  "HasErrors (d # ds) \<longleftrightarrow> diag_Level d = DiagError \<or> HasErrors ds"
  "HasErrors (ds @ ds') \<longleftrightarrow> HasErrors ds \<or> HasErrors ds'"
  by (auto simp: HasErrors_def)

lemma HasErrors_concat [simp]: "HasErrors (concat dss) \<longleftrightarrow> (\<exists>ds\<in>set dss. HasErrors ds)"
  by (induction dss) auto

lemma HasErrors_iff: "HasErrors ds \<longleftrightarrow> (\<exists>d\<in>set ds. diag_Level d = DiagError)"
  by (auto simp: HasErrors_def list_ex_iff)

lemma HasErrors_Errors: "HasErrors ds \<longleftrightarrow> Errors ds \<noteq> []"
  by (auto simp: HasErrors_iff Errors_def filter_empty_conv)

text \<open>A list whose entries are all errors has errors exactly when it is not empty.\<close>

definition all_errors :: "Diagnostics \<Rightarrow> bool" where
  "all_errors ds = list_all (\<lambda>d. diag_Level d = DiagError) ds"

lemma all_errors_simps [simp]:
  "all_errors []"
  "all_errors (d # ds) \<longleftrightarrow> diag_Level d = DiagError \<and> all_errors ds"
  "all_errors (ds @ ds') \<longleftrightarrow> all_errors ds \<and> all_errors ds'"
  by (auto simp: all_errors_def)

lemma all_errors_HasErrors: "all_errors ds \<Longrightarrow> HasErrors ds \<longleftrightarrow> ds \<noteq> []"
  by (cases ds) (auto simp: all_errors_def)

end
