(* ===== verification/Lexer.thy ===== *)
theory Lexer
  imports Diagnostics
begin

text \<open>
  \<open>scripting/lexer.go\<close>. The state is the record \<open>Lexer\<close> (source, cursor, line and
  column, tokens, errors); every method takes the state and returns it updated. The inner
  \<open>for\<close> loops are recursive functions whose measure is the number of bytes left.

  The theory shows: no operation moves the cursor back or past the end, so that
  \<open>Tokenize\<close> terminates (its definition needs exactly that); the token stream ends with
  the only \<open>TokEOF\<close>, its offsets increase and are bounded by the source; lines and
  columns are those of the offset, except after the one backtrack of
  \<open>readNumberOrDuration\<close>; a literal is the source text at its offset; and a string
  literal reads back what was escaped into it.
\<close>

section \<open>State and cursor\<close>

record Lexer =
  lx_src :: string
  lx_pos :: nat
  lx_line :: nat
  lx_col :: nat
  lx_tokens :: "Token list"
  lx_errors :: Diagnostics

definition NewLexer :: "string \<Rightarrow> Lexer" where
  "NewLexer src =
     \<lparr>lx_src = src, lx_pos = 0, lx_line = 1, lx_col = 1, lx_tokens = [], lx_errors = []\<rparr>"

abbreviation more :: "Lexer \<Rightarrow> bool" where
  "more l \<equiv> lx_pos l < length (lx_src l)"

abbreviation lx_left :: "Lexer \<Rightarrow> nat" where
  "lx_left l \<equiv> length (lx_src l) - lx_pos l"

abbreviation lx_rest :: "Lexer \<Rightarrow> string" where
  "lx_rest l \<equiv> drop (lx_pos l) (lx_src l)"

definition peek :: "Lexer \<Rightarrow> nat" where
  "peek l = (if more l then fst (decode_rune (lx_rest l)) else 0)"

definition advance :: "Lexer \<Rightarrow> nat \<times> Lexer" where
  "advance l =
     (if \<not> more l then (0, l)
      else (let (r, size) = decode_rune (lx_rest l) in
            (r, l\<lparr>lx_pos := lx_pos l + size,
                  lx_line := (if r = 10 then lx_line l + 1 else lx_line l),
                  lx_col := (if r = 10 then 1 else lx_col l + size)\<rparr>)))"

definition skip :: "Lexer \<Rightarrow> Lexer" where
  "skip l = snd (advance l)"

definition curPos :: "Lexer \<Rightarrow> Pos" where
  "curPos l = \<lparr>pos_Line = lx_line l, pos_Col = lx_col l, pos_Offset = lx_pos l\<rparr>"

definition makeToken :: "TokenKind \<Rightarrow> string \<Rightarrow> Pos \<Rightarrow> Token" where
  "makeToken k lit p = \<lparr>Kind = k, Literal = lit, tok_Pos = p\<rparr>"

definition lx_errorf :: "Pos \<Rightarrow> string \<Rightarrow> arg list \<Rightarrow> Lexer \<Rightarrow> Lexer" where
  "lx_errorf p fmt args l = l\<lparr>lx_errors := lx_errors l @ [errorAt p fmt args]\<rparr>"

text \<open>\<open>l.pos+off < len(l.src) && l.src[l.pos+off] == c\<close>.\<close>

definition byte_at :: "Lexer \<Rightarrow> nat \<Rightarrow> char \<Rightarrow> bool" where
  "byte_at l off c \<longleftrightarrow>
     lx_pos l + off < length (lx_src l) \<and> lx_src l ! (lx_pos l + off) = c"

definition slice :: "string \<Rightarrow> nat \<Rightarrow> nat \<Rightarrow> string" where
  "slice s a b = take (b - a) (drop a s)"

text \<open>
  \<open>ext l l'\<close>: \<open>l'\<close> is \<open>l\<close> with the cursor moved forward inside the same source.
\<close>

definition ext :: "Lexer \<Rightarrow> Lexer \<Rightarrow> bool" where
  "ext l l' \<longleftrightarrow> lx_src l' = lx_src l \<and> lx_tokens l' = lx_tokens l \<and> lx_pos l \<le> lx_pos l'
     \<and> (lx_pos l \<le> length (lx_src l) \<longrightarrow> lx_pos l' \<le> length (lx_src l))"

lemma ext_refl [simp, intro]: "ext l l"
  by (simp add: ext_def)

lemma ext_trans: "ext a b \<Longrightarrow> ext b c \<Longrightarrow> ext a c"
  by (auto simp: ext_def)

lemma ext_src: "ext l l' \<Longrightarrow> lx_src l' = lx_src l"
  and ext_pos: "ext l l' \<Longrightarrow> lx_pos l \<le> lx_pos l'"
  and ext_tokens: "ext l l' \<Longrightarrow> lx_tokens l' = lx_tokens l"
  by (simp_all add: ext_def)

lemma ext_errorf [simp]: "ext l (lx_errorf p f a l)"
  by (simp add: ext_def lx_errorf_def)

lemma lx_errorf_sel [simp]:
  "lx_src (lx_errorf p f a l) = lx_src l" "lx_pos (lx_errorf p f a l) = lx_pos l"
  "lx_line (lx_errorf p f a l) = lx_line l" "lx_col (lx_errorf p f a l) = lx_col l"
  "lx_tokens (lx_errorf p f a l) = lx_tokens l"
  by (simp_all add: lx_errorf_def)

lemma skip_end: "\<not> more l \<Longrightarrow> skip l = l"
  by (simp add: skip_def advance_def)

lemma skip_pos: "more l \<Longrightarrow> lx_pos (skip l) = lx_pos l + snd (decode_rune (lx_rest l))"
  by (simp add: skip_def advance_def split_beta)

lemma skip_src [simp]: "lx_src (skip l) = lx_src l"
  and skip_tokens [simp]: "lx_tokens (skip l) = lx_tokens l"
  and skip_errors [simp]: "lx_errors (skip l) = lx_errors l"
  by (simp_all add: skip_def advance_def split_beta)

lemma advance_fst: "more l \<Longrightarrow> fst (advance l) = peek l"
  by (simp add: advance_def peek_def split_beta)

lemma advance_snd [simp]: "snd (advance l) = skip l"
  by (simp add: skip_def)

lemma skip_less: "more l \<Longrightarrow> lx_pos l < lx_pos (skip l)"
  by (simp add: skip_pos decode_width_pos)

lemma skip_bound: "lx_pos l \<le> length (lx_src l) \<Longrightarrow> lx_pos (skip l) \<le> length (lx_src l)"
  using decode_width_le [of "lx_rest l"] by (cases "more l") (simp_all add: skip_pos skip_end)

lemma skip_ext [simp, intro]: "ext l (skip l)"
  unfolding ext_def
  by (cases "more l") (auto simp: skip_bound skip_end intro: less_imp_le skip_less)

lemma skip_left: "more l \<Longrightarrow> lx_left (skip l) < lx_left l"
  using skip_less [of l] by (simp add: diff_less_mono2)

lemma ext_left: "ext l l' \<Longrightarrow> lx_left l' \<le> lx_left l"
  by (simp add: ext_def diff_le_mono2)

section \<open>What every cursor operation keeps\<close>

text \<open>
  A relation between lexer states that is a preorder and holds across one \<open>advance\<close> and
  one reported error holds across every loop built from them. The loops are followed by
  their lemma in this locale; \<open>ext\<close> is the instance their termination proofs use, and the
  invariant on lines and columns below is the other.
\<close>

locale cursor_rel =
  fixes R :: "Lexer \<Rightarrow> Lexer \<Rightarrow> bool"
  assumes R_refl: "R l l"
    and R_trans: "R a b \<Longrightarrow> R b c \<Longrightarrow> R a c"
    and R_skip: "R l (skip l)"
    and R_errorf: "R l (lx_errorf p fmt args l)"
begin

lemma R_skip_then: "R (skip l) l' \<Longrightarrow> R l l'"
  by (rule R_trans [OF R_skip])

lemma R_skip2: "R l (skip (skip l))"
  by (rule R_trans [OF R_skip R_skip])

lemma R_errorf_skip: "R l (skip (lx_errorf p f a l))"
  by (rule R_trans [OF R_errorf R_skip])

end

interpretation ext: cursor_rel ext
  by unfold_locales (auto intro: ext_trans)

section \<open>Loops over the source\<close>

text \<open>\<open>for l.pos < len(l.src) \<and> P(l.peek()) { l.advance() }\<close>\<close>

function skip_while :: "(nat \<Rightarrow> bool) \<Rightarrow> Lexer \<Rightarrow> Lexer" where
  "skip_while P l = (if more l \<and> P (peek l) then skip_while P (skip l) else l)"
  by pat_completeness auto
termination
  by (relation "measure (\<lambda>(P, l). lx_left l)") (auto intro: skip_left simp del: skip_src)

declare skip_while.simps [simp del]

lemma skip_while_step: "more l \<Longrightarrow> P (peek l) \<Longrightarrow> skip_while P l = skip_while P (skip l)"
  and skip_while_done: "\<not> (more l \<and> P (peek l)) \<Longrightarrow> skip_while P l = l"
  by (simp_all only: skip_while.simps [of P l] simp_thms if_True if_False)

context cursor_rel
begin

lemma R_skip_while: "R l (skip_while P l)"
proof (induction P l rule: skip_while.induct)
  case (1 P l)
  then show ?case
    by (cases "more l \<and> P (peek l)")
      (simp_all add: skip_while_step skip_while_done R_refl R_skip_then)
qed

end

lemma skip_while_less:
  assumes "more l" "P (peek l)"
  shows "lx_pos l < lx_pos (skip_while P l)"
  using skip_less [OF assms(1)] ext_pos [OF ext.R_skip_while [of "skip l" P]]
  by (simp add: skip_while_step assms)

lemma skip_while_stop: "more (skip_while P l) \<Longrightarrow> \<not> P (peek (skip_while P l))"
proof (induction P l rule: skip_while.induct)
  case (1 P l)
  then show ?case
    by (cases "more l \<and> P (peek l)") (auto simp: skip_while_step skip_while_done)
qed

text \<open>The body of a block comment, after its \<open>/*\<close>.\<close>

function block_comment :: "Pos \<Rightarrow> Lexer \<Rightarrow> Lexer" where
  "block_comment start l =
     (if \<not> more l then l
      else if peek l = 42 \<and> byte_at l 1 CHR ''/'' then skip (skip l)
      else if lx_pos l \<ge> length (lx_src l) - 1 then
        skip (lx_errorf start ''unterminated block comment'' [] l)
      else block_comment start (skip l))"
  by pat_completeness auto
termination
  by (relation "measure (\<lambda>(p, l). lx_left l)") (auto intro: skip_left simp del: skip_src)

declare block_comment.simps [simp del]

context cursor_rel
begin

lemma R_block_comment: "R l (block_comment p l)"
proof (induction p l rule: block_comment.induct)
  case (1 p l)
  then show ?case
    unfolding block_comment.simps [of p l]
    by (auto intro: R_refl R_skip2 R_errorf_skip R_skip_then)
qed

end

definition is_blank :: "nat \<Rightarrow> bool" where
  "is_blank r \<longleftrightarrow> r = 32 \<or> r = 9 \<or> r = 13 \<or> r = 10"

abbreviation not_newline :: "nat \<Rightarrow> bool" where
  "not_newline r \<equiv> r \<noteq> 10"

function skipWhitespaceAndComments :: "Lexer \<Rightarrow> Lexer" where
  "skipWhitespaceAndComments l =
     (if \<not> more l then l
      else if is_blank (peek l) then skipWhitespaceAndComments (skip l)
      else if peek l = 35 then skipWhitespaceAndComments (skip_while not_newline l)
      else if peek l = 47 \<and> byte_at l 1 CHR ''/'' then
        skipWhitespaceAndComments (skip_while not_newline (skip (skip l)))
      else if peek l = 47 \<and> byte_at l 1 CHR ''*'' then
        skipWhitespaceAndComments (block_comment (curPos l) (skip (skip l)))
      else l)"
  by pat_completeness auto
termination
proof (relation "measure lx_left", goal_cases)
  case (2 l)
  then show ?case by (simp add: skip_left del: skip_src)
next
  case (3 l)
  then show ?case
    using skip_while_less [of l not_newline] ext_src [OF ext.R_skip_while [of l not_newline]]
    by (simp add: diff_less_mono2)
next
  case (4 l)
  then show ?case
    using skip_left [of l] ext_left [OF ext.R_skip [of "skip l"]]
      ext_left [OF ext.R_skip_while [of "skip (skip l)" not_newline]] by simp
next
  case (5 l)
  then show ?case
    using skip_left [of l] ext_left [OF ext.R_skip [of "skip l"]]
      ext_left [OF ext.R_block_comment [of "skip (skip l)" "curPos l"]] by simp
qed simp

declare skipWhitespaceAndComments.simps [simp del]

context cursor_rel
begin

lemma R_skipWhitespaceAndComments: "R l (skipWhitespaceAndComments l)"
proof (induction l rule: skipWhitespaceAndComments.induct)
  case (1 l)
  have "R l (skip_while P (skip (skip l)))" "R l (block_comment p (skip (skip l)))" for P p
    by (rule R_trans [OF R_skip2 R_skip_while], rule R_trans [OF R_skip2 R_block_comment])
  then show ?case
    using 1 unfolding skipWhitespaceAndComments.simps [of l]
    by (auto intro: R_refl R_skip_then R_trans [OF R_skip_while] R_trans)
qed

end

section \<open>String literals\<close>

text \<open>What a backslash and the rune after it write into the builder.\<close>

definition escape_bytes :: "nat \<Rightarrow> string" where
  "escape_bytes esc =
     (if esc = 34 then [CHR 0x22]
      else if esc = 92 then [CHR 0x5C]
      else if esc = 110 then [CHR 0x0A]
      else if esc = 116 then [CHR 0x09]
      else if esc = 114 then [CHR 0x0D]
      else CHR 0x5C # encode_rune esc)"

function readString_loop :: "Pos \<Rightarrow> string \<Rightarrow> Lexer \<Rightarrow> Token \<times> Lexer" where
  "readString_loop start b l =
     (if \<not> more l then
        (makeToken TokString b start, lx_errorf start ''unterminated string literal'' [] l)
      else if peek l = 34 then (makeToken TokString b start, skip l)
      else if peek l = 92 then
        (if \<not> more (skip l) then
           (makeToken TokString b start,
            lx_errorf start ''unterminated escape in string'' [] (skip l))
         else readString_loop start (b @ escape_bytes (peek (skip l))) (skip (skip l)))
      else readString_loop start (b @ encode_rune (peek l)) (skip l))"
  by pat_completeness auto
termination
proof (relation "measure (\<lambda>(p, b, l). lx_left l)", goal_cases)
  case (2 start b l)
  then show ?case
    using skip_left [of l] ext_left [OF ext.R_skip [of "skip l"]] by simp
qed (use skip_left in auto)

declare readString_loop.simps [simp del]

definition readString :: "Pos \<Rightarrow> Lexer \<Rightarrow> Token \<times> Lexer" where
  "readString start l = readString_loop start [] (skip l)"

context cursor_rel
begin

lemma R_readString_loop: "R l (snd (readString_loop p b l))"
proof (induction p b l rule: readString_loop.induct)
  case (1 p b l)
  have "R l (lx_errorf p m a (skip l))" for m a
    by (rule R_trans [OF R_skip R_errorf])
  then show ?case
    using 1 unfolding readString_loop.simps [of p b l]
    by (auto intro: R_skip R_errorf R_skip_then R_trans [OF R_skip2])
qed

lemma R_readString: "R l (snd (readString p l))"
  unfolding readString_def by (rule R_skip_then [OF R_readString_loop])

end

lemma readString_loop_token:
  "Kind (fst (readString_loop p b l)) = TokString \<and> tok_Pos (fst (readString_loop p b l)) = p"
proof (induction p b l rule: readString_loop.induct)
  case (1 p b l)
  then show ?case
    unfolding readString_loop.simps [of p b l] by (auto simp: makeToken_def)
qed

section \<open>Numbers and durations\<close>

definition digit_rune :: "nat \<Rightarrow> bool" where
  "digit_rune r \<longleftrightarrow> 48 \<le> r \<and> r \<le> 57"

definition unit_rune :: "nat \<Rightarrow> bool" where
  "unit_rune r \<longleftrightarrow> r = 100 \<or> r = 104 \<or> r = 109 \<or> r = 115"

definition isIdentStart :: "unicode \<Rightarrow> nat \<Rightarrow> bool" where
  "isIdentStart u r \<longleftrightarrow> r = 95 \<or> is_letter u r"

definition isIdentContinue :: "unicode \<Rightarrow> nat \<Rightarrow> bool" where
  "isIdentContinue u r \<longleftrightarrow> r = 95 \<or> is_letter u r \<or> is_digit u r"

text \<open>The loop over the rest of a compound duration: digits, a unit after each digit.\<close>

function compound_units :: "Lexer \<Rightarrow> Lexer" where
  "compound_units l =
     (if more l \<and> digit_rune (peek l)
      then compound_units
             (if more (skip l) \<and> unit_rune (peek (skip l)) then skip (skip l) else skip l)
      else l)"
  by pat_completeness auto
termination
proof (relation "measure lx_left", goal_cases)
  case (2 l)
  then show ?case
    using skip_left [of l] ext_left [OF ext.R_skip [of "skip l"]] by simp
qed simp

declare compound_units.simps [simp del]

context cursor_rel
begin

lemma R_compound_units: "R l (compound_units l)"
proof (induction l rule: compound_units.induct)
  case (1 l)
  then show ?case
    unfolding compound_units.simps [of l]
    by (auto intro: R_refl R_skip_then R_trans [OF R_skip2])
qed

end

text \<open>\<open>recalcLineCol\<close>: line and column at the first rune boundary at or after the target.\<close>

function recalc_loop :: "string \<Rightarrow> nat \<Rightarrow> nat \<Rightarrow> nat \<Rightarrow> nat \<Rightarrow> nat \<times> nat" where
  "recalc_loop src target i ln cl =
     (if i < target \<and> i < length src then
        (let r = fst (decode_rune (drop i src)); size = snd (decode_rune (drop i src)) in
         recalc_loop src target (i + size) (if r = 10 then ln + 1 else ln)
           (if r = 10 then 1 else cl + size))
      else (ln, cl))"
  by pat_completeness auto
termination
proof (relation "measure (\<lambda>(src, target, i, ln, cl). length src - i)", goal_cases)
  case (2 src target i ln cl r size)
  then show ?case using decode_width_pos [of "drop i src"] by auto
qed simp

declare recalc_loop.simps [simp del]

definition recalcLineCol :: "nat \<Rightarrow> Lexer \<Rightarrow> Lexer" where
  "recalcLineCol target l =
     (let (ln, cl) = recalc_loop (lx_src l) target 0 1 1 in l\<lparr>lx_line := ln, lx_col := cl\<rparr>)"

definition readNumberOrDuration :: "unicode \<Rightarrow> Pos \<Rightarrow> Lexer \<Rightarrow> Token \<times> Lexer" where
  "readNumberOrDuration u start l =
     (let numStart = lx_pos l;
          l1 = skip_while digit_rune l
      in if more l1 \<and> unit_rune (peek l1) then
           (let dStart = lx_pos l1;
                l2 = compound_units (skip l1);
                lit = slice (lx_src l) numStart (lx_pos l2)
            in if more l2 \<and> isIdentStart u (peek l2) then
                 (makeToken TokInt (slice (lx_src l) numStart dStart) start,
                  recalcLineCol numStart (l2\<lparr>lx_pos := dStart\<rparr>))
               else (makeToken TokDuration lit start, l2))
         else if more l1 \<and> peek l1 = 46 \<and> lx_pos l1 + 1 < length (lx_src l1)
                 \<and> ascii_digit (lx_src l1 ! (lx_pos l1 + 1)) then
           (let l2 = skip_while digit_rune (skip l1)
            in (makeToken TokFloat (slice (lx_src l) numStart (lx_pos l2)) start, l2))
         else (makeToken TokInt (slice (lx_src l) numStart (lx_pos l1)) start, l1))"

section \<open>Identifiers and the next token\<close>

definition readIdentOrKeyword :: "unicode \<Rightarrow> Pos \<Rightarrow> Lexer \<Rightarrow> Token \<times> Lexer" where
  "readIdentOrKeyword u start l =
     (let l1 = skip_while (isIdentContinue u) l;
          lit = slice (lx_src l) (lx_pos l) (lx_pos l1);
          kind = LookupIdent lit
      in if kind = TokTrue \<or> kind = TokFalse then (makeToken TokBool lit start, l1)
         else (makeToken kind lit start, l1))"

definition two_char_ops :: "(string \<times> TokenKind) list" where
  "two_char_ops =
     [(''..'', TokDotDot), (''${'', TokDollarLBrace), (''<='', TokLTEQ), (''>='', TokGTEQ),
      (''=='', TokEQEQ), (''!='', TokNEQ), (''&&'', TokAmpAmp), (''||'', TokPipePipe)]"

definition one_char_ops :: "(nat \<times> TokenKind) list" where
  "one_char_ops =
     [(123, TokLBrace), (125, TokRBrace), (40, TokLParen), (41, TokRParen),
      (91, TokLBracket), (93, TokRBracket), (44, TokComma), (46, TokDot), (58, TokColon),
      (61, TokEquals), (33, TokBang), (60, TokLT), (62, TokGT), (43, TokPlus),
      (45, TokMinus), (42, TokStar), (47, TokSlash), (37, TokPercent)]"

definition readOperator :: "Pos \<Rightarrow> Lexer \<Rightarrow> Token \<times> Lexer" where
  "readOperator p l =
     (case (if lx_pos l + 1 < length (lx_src l)
            then map_of two_char_ops (slice (lx_src l) (lx_pos l) (lx_pos l + 2)) else None) of
        Some k \<Rightarrow>
          (makeToken k (slice (lx_src l) (lx_pos l) (lx_pos l + 2)) p, skip (skip l))
      | None \<Rightarrow>
          (case map_of one_char_ops (peek l) of
             Some k \<Rightarrow> (makeToken k [char_of (peek l)] p, skip l)
           | None \<Rightarrow>
               (makeToken TokIllegal (encode_rune (peek l)) p,
                lx_errorf p ''unexpected character %q'' [ARune (peek l)] (skip l))))"

text \<open>The method \<open>next\<close>, on the state after blanks and comments.\<close>

definition next_token :: "unicode \<Rightarrow> Lexer \<Rightarrow> Token \<times> Lexer" where
  "next_token u l0 =
     (let l = skipWhitespaceAndComments l0; p = curPos l; r = peek l in
      if \<not> more l then (makeToken TokEOF [] p, l)
      else if r = 34 then readString p l
      else if digit_rune r then readNumberOrDuration u p l
      else if isIdentStart u r then readIdentOrKeyword u p l
      else readOperator p l)"

section \<open>Progress\<close>

text \<open>
  \<open>moved l l'\<close>: the cursor moved forward by at least a byte. Every token but \<open>TokEOF\<close>
  moves it, which is why the loop of \<open>Tokenize\<close> ends.
\<close>

definition moved :: "Lexer \<Rightarrow> Lexer \<Rightarrow> bool" where
  "moved l l' \<longleftrightarrow> ext l l' \<and> lx_pos l < lx_pos l'"

lemma moved_ext: "moved l l' \<Longrightarrow> ext l l'"
  by (simp add: moved_def)

lemma moved_then: "moved a b \<Longrightarrow> ext b c \<Longrightarrow> moved a c"
  by (auto simp: moved_def intro: ext_trans dest: ext_pos)

lemma ext_moved: "ext a b \<Longrightarrow> moved b c \<Longrightarrow> moved a c"
  by (auto simp: moved_def intro: ext_trans dest: ext_pos)

lemma moved_skip: "more l \<Longrightarrow> moved l (skip l)"
  by (simp add: moved_def skip_less)

lemma moved_skip_while: "more l \<Longrightarrow> P (peek l) \<Longrightarrow> moved l (skip_while P l)"
  by (simp add: moved_def skip_while_less ext.R_skip_while)

lemma moved_readString: "more l \<Longrightarrow> moved l (snd (readString p l))"
  unfolding readString_def by (rule moved_then [OF moved_skip ext.R_readString_loop])

lemma recalcLineCol_sel [simp]:
  "lx_src (recalcLineCol n l) = lx_src l" "lx_pos (recalcLineCol n l) = lx_pos l"
  "lx_tokens (recalcLineCol n l) = lx_tokens l" "lx_errors (recalcLineCol n l) = lx_errors l"
  by (simp_all add: recalcLineCol_def split_beta)

lemma moved_readNumberOrDuration:
  assumes "more l" "digit_rune (peek l)"
  shows "moved l (snd (readNumberOrDuration u p l))"
proof -
  let ?l1 = "skip_while digit_rune l"
  let ?l2 = "compound_units (skip ?l1)"
  have l1: "moved l ?l1" using assms by (rule moved_skip_while)
  have l2: "ext ?l1 ?l2" by (rule ext_trans [OF skip_ext ext.R_compound_units])
  have "ext ?l1 (skip_while digit_rune (skip ?l1))"
    by (rule ext_trans [OF skip_ext ext.R_skip_while])
  moreover have "ext ?l1 (recalcLineCol n (?l2\<lparr>lx_pos := lx_pos ?l1\<rparr>))" for n
    using l2 by (simp add: ext_def)
  ultimately show ?thesis
    using moved_then [OF l1] l1 l2
    by (simp add: readNumberOrDuration_def Let_def)
qed

lemma isIdentStart_Continue: "isIdentStart u r \<Longrightarrow> isIdentContinue u r"
  by (auto simp: isIdentStart_def isIdentContinue_def)

lemma moved_readIdentOrKeyword:
  "more l \<Longrightarrow> isIdentStart u (peek l) \<Longrightarrow> moved l (snd (readIdentOrKeyword u p l))"
  using moved_skip_while [of l "isIdentContinue u"]
  by (simp add: readIdentOrKeyword_def Let_def isIdentStart_Continue)

lemma moved_readOperator: "more l \<Longrightarrow> moved l (snd (readOperator p l))"
  using moved_skip [of l] moved_then [OF moved_skip skip_ext] moved_then [OF moved_skip ext_errorf]
  by (auto simp: readOperator_def split: option.split)

text \<open>The kinds and the position each reader gives its token.\<close>

lemma readers_pos:
  "tok_Pos (fst (readString p l)) = p"
  "tok_Pos (fst (readNumberOrDuration u p l)) = p"
  "tok_Pos (fst (readIdentOrKeyword u p l)) = p"
  "tok_Pos (fst (readOperator p l)) = p"
  using readString_loop_token
  by (auto simp: readString_def readNumberOrDuration_def readIdentOrKeyword_def
      readOperator_def Let_def makeToken_def split: option.split)

lemma two_char_ops_kinds: "map_of two_char_ops s = Some k \<Longrightarrow> k \<notin> lexer_kinds"
  by (auto simp: two_char_ops_def lexer_kinds_def split: if_splits)

lemma one_char_ops_kinds: "map_of one_char_ops r = Some k \<Longrightarrow> k \<notin> lexer_kinds"
  by (auto simp: one_char_ops_def lexer_kinds_def split: if_splits)

lemma readers_not_EOF:
  "Kind (fst (readString p l)) \<noteq> TokEOF"
  "Kind (fst (readNumberOrDuration u p l)) \<noteq> TokEOF"
  "Kind (fst (readIdentOrKeyword u p l)) \<noteq> TokEOF"
  "Kind (fst (readOperator p l)) \<noteq> TokEOF"
  using readString_loop_token LookupIdent_kinds
  by (auto simp: readString_def readNumberOrDuration_def readIdentOrKeyword_def
      readOperator_def Let_def makeToken_def lexer_kinds_def
      dest!: two_char_ops_kinds one_char_ops_kinds split: option.split)

lemma next_token_end:
  "\<not> more (skipWhitespaceAndComments l) \<Longrightarrow>
     next_token u l = (makeToken TokEOF [] (curPos (skipWhitespaceAndComments l)),
                       skipWhitespaceAndComments l)"
  by (simp add: next_token_def Let_def)

lemma next_token_more:
  assumes "more (skipWhitespaceAndComments l)"
  shows "moved (skipWhitespaceAndComments l) (snd (next_token u l))"
    and "Kind (fst (next_token u l)) \<noteq> TokEOF"
  using assms moved_readString moved_readNumberOrDuration moved_readIdentOrKeyword
    moved_readOperator readers_not_EOF
  by (simp_all add: next_token_def Let_def)

lemma next_token_tok_Pos:
  "tok_Pos (fst (next_token u l)) = curPos (skipWhitespaceAndComments l)"
  by (simp add: next_token_def Let_def readers_pos, simp add: makeToken_def)

lemma next_token_EOF_iff:
  "Kind (fst (next_token u l)) = TokEOF \<longleftrightarrow> \<not> more (skipWhitespaceAndComments l)"
  using next_token_more(2) [of l u] next_token_end [of l u]
  by (cases "more (skipWhitespaceAndComments l)") (simp_all add: makeToken_def)

lemma next_token_moved:
  "Kind (fst (next_token u l)) \<noteq> TokEOF \<Longrightarrow> moved l (snd (next_token u l))"
  using ext_moved [OF ext.R_skipWhitespaceAndComments next_token_more(1)]
  by (simp add: next_token_EOF_iff)

lemma next_token_ext: "ext l (snd (next_token u l))"
  using next_token_moved [of u l] next_token_end [of l u] ext.R_skipWhitespaceAndComments [of l]
  by (cases "Kind (fst (next_token u l)) = TokEOF") (auto simp: next_token_EOF_iff moved_ext)

lemma next_token_left:
  assumes "Kind (fst (next_token u l)) \<noteq> TokEOF"
  shows "lx_left (snd (next_token u l)) < lx_left l"
proof -
  have m: "moved l (snd (next_token u l))" using assms by (rule next_token_moved)
  have "more (skipWhitespaceAndComments l)" using assms by (simp add: next_token_EOF_iff)
  with m ext.R_skipWhitespaceAndComments [of l] show ?thesis
    by (auto simp: moved_def ext_def)
qed

section \<open>Tokenize\<close>

function Tokenize_loop :: "unicode \<Rightarrow> Lexer \<Rightarrow> Lexer" where
  "Tokenize_loop u l =
     (let tok = fst (next_token u l);
          l' = snd (next_token u l)\<lparr>lx_tokens := lx_tokens (snd (next_token u l)) @ [tok]\<rparr>
      in if Kind tok = TokEOF then l' else Tokenize_loop u l')"
  by pat_completeness auto
termination
  by (relation "measure (\<lambda>(u, l). lx_left l)") (simp_all add: next_token_left)

declare Tokenize_loop.simps [simp del]

definition Tokenize :: "unicode \<Rightarrow> Lexer \<Rightarrow> Token list \<times> Diagnostics" where
  "Tokenize u l = (lx_tokens (Tokenize_loop u l), lx_errors (Tokenize_loop u l))"

section \<open>The token stream\<close>

abbreviation tok_Offset :: "Token \<Rightarrow> nat" where
  "tok_Offset t \<equiv> pos_Offset (tok_Pos t)"

definition bump_tokens :: "unicode \<Rightarrow> Lexer \<Rightarrow> Lexer" where
  "bump_tokens u l =
     snd (next_token u l)\<lparr>lx_tokens := lx_tokens (snd (next_token u l)) @ [fst (next_token u l)]\<rparr>"

lemma bump_tokens_sel [simp]:
  "lx_src (bump_tokens u l) = lx_src l"
  "lx_pos (bump_tokens u l) = lx_pos (snd (next_token u l))"
  "lx_tokens (bump_tokens u l) = lx_tokens l @ [fst (next_token u l)]"
  "lx_line (bump_tokens u l) = lx_line (snd (next_token u l))"
  "lx_col (bump_tokens u l) = lx_col (snd (next_token u l))"
  using next_token_ext [of l u] by (simp_all add: bump_tokens_def ext_def)

lemma Tokenize_loop_eof:
  "Kind (fst (next_token u l)) = TokEOF \<Longrightarrow> Tokenize_loop u l = bump_tokens u l"
  and Tokenize_loop_step:
  "Kind (fst (next_token u l)) \<noteq> TokEOF \<Longrightarrow> Tokenize_loop u l = Tokenize_loop u (bump_tokens u l)"
  by (simp_all add: Tokenize_loop.simps [of u l] bump_tokens_def Let_def)

text \<open>Induction over the tokens of a run: the last one is \<open>TokEOF\<close>.\<close>

lemma Tokenize_loop_induct [case_names eof step]:
  assumes "\<And>l. Kind (fst (next_token u l)) = TokEOF \<Longrightarrow> P l"
    and "\<And>l. Kind (fst (next_token u l)) \<noteq> TokEOF \<Longrightarrow> P (bump_tokens u l) \<Longrightarrow> P l"
  shows "P l"
proof (induction "lx_left l" arbitrary: l rule: less_induct)
  case less
  show ?case
  proof (cases "Kind (fst (next_token u l)) = TokEOF")
    case True
    then show ?thesis by (rule assms(1))
  next
    case False
    then have "lx_left (bump_tokens u l) < lx_left l"
      using next_token_left [OF False] next_token_ext [of l u] by (simp add: ext_def)
    with False less show ?thesis by (blast intro: assms(2))
  qed
qed

lemma Tokenize_loop_prefix: "\<exists>ts. lx_tokens (Tokenize_loop u l) = lx_tokens l @ ts"
proof (induction l rule: Tokenize_loop_induct [of u])
  case (eof l)
  then show ?case by (simp add: Tokenize_loop_eof)
next
  case (step l)
  then show ?case by (auto simp: Tokenize_loop_step)
qed

text \<open>
  \<open>stream_from src i ts\<close>: offsets increase from \<open>i\<close> on, stay inside the source, and the
  stream is closed by its only \<open>TokEOF\<close>, at the end of the source.
\<close>

fun stream_from :: "nat \<Rightarrow> nat \<Rightarrow> Token list \<Rightarrow> bool" where
  "stream_from n i [] \<longleftrightarrow> False"
| "stream_from n i [t] \<longleftrightarrow> Kind t = TokEOF \<and> tok_Offset t = n"
| "stream_from n i (t # ts) \<longleftrightarrow>
     Kind t \<noteq> TokEOF \<and> i \<le> tok_Offset t \<and> tok_Offset t < n
     \<and> stream_from n (Suc (tok_Offset t)) ts"

lemma stream_from_Cons:
  "ts \<noteq> [] \<Longrightarrow> stream_from n i (t # ts) \<longleftrightarrow>
     Kind t \<noteq> TokEOF \<and> i \<le> tok_Offset t \<and> tok_Offset t < n
     \<and> stream_from n (Suc (tok_Offset t)) ts"
  by (cases ts) simp_all

lemma stream_from_mono: "stream_from n i ts \<Longrightarrow> j \<le> i \<Longrightarrow> stream_from n j ts"
  by (induction n i ts rule: stream_from.induct) auto

lemma stream_from_length: "stream_from n i ts \<Longrightarrow> i \<le> n \<Longrightarrow> length ts \<le> Suc (n - i)"
proof (induction n i ts rule: stream_from.induct)
  case (3 n i t v va)
  then have "Suc (tok_Offset t) \<le> n" "i \<le> tok_Offset t"
    and "length (v # va) \<le> Suc (n - Suc (tok_Offset t))" by auto
  then show ?case by simp
qed auto

lemma stream_from_last: "stream_from n i ts \<Longrightarrow> Kind (last ts) = TokEOF \<and> tok_Offset (last ts) = n"
  by (induction n i ts rule: stream_from.induct) auto

lemma stream_from_butlast: "stream_from n i ts \<Longrightarrow> \<forall>t\<in>set (butlast ts). Kind t \<noteq> TokEOF"
  by (induction n i ts rule: stream_from.induct) auto

lemma Tokenize_loop_stream:
  assumes "lx_pos l \<le> length (lx_src l)"
  shows "\<exists>ts. lx_tokens (Tokenize_loop u l) = lx_tokens l @ ts
    \<and> ts \<noteq> [] \<and> stream_from (length (lx_src l)) (lx_pos l) ts"
  using assms
proof (induction l rule: Tokenize_loop_induct [of u])
  case (eof l)
  then have "\<not> more (skipWhitespaceAndComments l)" by (simp add: next_token_EOF_iff)
  moreover have "ext l (skipWhitespaceAndComments l)" by (rule ext.R_skipWhitespaceAndComments)
  ultimately have "tok_Offset (fst (next_token u l)) = length (lx_src l)"
    using eof.prems by (simp add: next_token_tok_Pos curPos_def ext_def)
  with eof show ?case by (simp add: Tokenize_loop_eof)
next
  case (step l)
  let ?t = "fst (next_token u l)"
  have m: "more (skipWhitespaceAndComments l)" using step.hyps by (simp add: next_token_EOF_iff)
  have e: "ext l (skipWhitespaceAndComments l)" by (rule ext.R_skipWhitespaceAndComments)
  have off: "tok_Offset ?t = lx_pos (skipWhitespaceAndComments l)"
    by (simp add: next_token_tok_Pos curPos_def)
  have mv: "moved (skipWhitespaceAndComments l) (snd (next_token u l))"
    using m by (rule next_token_more)
  have "lx_pos (bump_tokens u l) \<le> length (lx_src (bump_tokens u l))"
    using next_token_ext [of l u] step.prems by (simp add: ext_def)
  from step.IH [OF this] obtain ts where ts:
    "lx_tokens (Tokenize_loop u (bump_tokens u l)) = lx_tokens l @ ?t # ts"
    "ts \<noteq> []" "stream_from (length (lx_src l)) (lx_pos (snd (next_token u l))) ts"
    by auto
  have "stream_from (length (lx_src l)) (Suc (tok_Offset ?t)) ts"
    by (rule stream_from_mono [OF ts(3)]) (use mv in \<open>simp add: off moved_def\<close>)
  with ts step.hyps m e off show ?case
    by (simp add: Tokenize_loop_step stream_from_Cons ext_def)
qed

section \<open>Lines and columns\<close>

text \<open>
  What a line and a column are, from the bytes before the offset: one more than the
  newlines there, and one more than the bytes since the last of them.
\<close>

definition line_of :: "string \<Rightarrow> nat \<Rightarrow> nat" where
  "line_of s n = Suc (count_list (take n s) (CHR 0x0A))"

definition col_of :: "string \<Rightarrow> nat \<Rightarrow> nat" where
  "col_of s n = Suc (length (takeWhile (\<lambda>c. c \<noteq> CHR 0x0A) (rev (take n s))))"

definition pos_of :: "string \<Rightarrow> nat \<Rightarrow> Pos" where
  "pos_of s n = \<lparr>pos_Line = line_of s n, pos_Col = col_of s n, pos_Offset = n\<rparr>"

lemma pos_of_Offset [simp]: "pos_Offset (pos_of s n) = n"
  by (simp add: pos_of_def)

text \<open>The offsets the decoder stops at.\<close>

definition rune_step :: "string \<Rightarrow> nat \<Rightarrow> nat" where
  "rune_step s i = i + snd (decode_rune (drop i s))"

definition boundary :: "string \<Rightarrow> nat \<Rightarrow> bool" where
  "boundary s i \<longleftrightarrow> (\<exists>k. i = (rune_step s ^^ k) 0)"

lemma boundary_0 [simp]: "boundary s 0"
  unfolding boundary_def by (rule exI [of _ 0]) simp

lemma boundary_step: "boundary s i \<Longrightarrow> boundary s (rune_step s i)"
  unfolding boundary_def by (metis funpow.simps(2) comp_apply)

lemma funpow_rune_step_le: "i \<le> (rune_step s ^^ k) i"
  by (induction k) (simp_all add: rune_step_def le_trans)

text \<open>No boundary lies strictly inside a step.\<close>

lemma boundary_next:
  assumes "boundary s i" "boundary s j" "i < j"
  shows "rune_step s i \<le> j"
proof -
  obtain a b where a: "i = (rune_step s ^^ a) 0" and b: "j = (rune_step s ^^ b) 0"
    using assms by (auto simp: boundary_def)
  have "a < b"
  proof (rule ccontr)
    assume "\<not> a < b"
    then have "a = (a - b) + b" by simp
    then have "i = (rune_step s ^^ (a - b)) j" using a b by (metis comp_apply funpow_add)
    with assms(3) funpow_rune_step_le [of j "a - b" s] show False by simp
  qed
  then have "b = (b - Suc a) + Suc a" by simp
  then have "j = (rune_step s ^^ (b - Suc a)) ((rune_step s ^^ Suc a) 0)"
    using b by (metis comp_apply funpow_add)
  then have "j = (rune_step s ^^ (b - Suc a)) (rune_step s i)" using a by simp
  with funpow_rune_step_le [of "rune_step s i" "b - Suc a" s] show ?thesis by simp
qed

lemma decode_high_bytes:
  assumes "\<not> (of_char c :: nat) < 128"
  shows "\<forall>x\<in>set (take (snd (decode_rune (c # s))) (c # s)). 128 \<le> (of_char x :: nat)"
  using assms second_ok_low(1)
  by (auto simp: decode_rune_def Let_def cont_byte_def not_less split: list.splits)

lemma decode_newline:
  assumes "fst (decode_rune (c # s)) = 10"
  shows "take (snd (decode_rune (c # s))) (c # s) = [CHR 0x0A]"
proof -
  have "of_char c = (10::nat)" "snd (decode_rune (c # s)) = 1"
    using decode_rune_small [of c s] assms by simp_all
  moreover have "c = char_of (10::nat)"
    using calculation(1) by (metis char_of_char)
  moreover have "char_of (10::nat) = CHR 0x0A" by code_simp
  ultimately show ?thesis by simp
qed

lemma decode_no_newline:
  assumes "fst (decode_rune (c # s)) \<noteq> 10"
  shows "CHR 0x0A \<notin> set (take (snd (decode_rune (c # s))) (c # s))"
proof (cases "(of_char c :: nat) < 128")
  case True
  with assms have "c \<noteq> CHR 0x0A" by auto
  with True show ?thesis by simp
next
  case False
  from decode_high_bytes [OF this, of s] show ?thesis by fastforce
qed

lemma line_col_step:
  assumes "i < length s"
  defines "r \<equiv> fst (decode_rune (drop i s))" and "w \<equiv> snd (decode_rune (drop i s))"
  shows "line_of s (i + w) = (if r = 10 then Suc (line_of s i) else line_of s i)"
    and "col_of s (i + w) = (if r = 10 then 1 else col_of s i + w)"
proof -
  obtain c t where ct: "drop i s = c # t"
    using assms(1) by (cases "drop i s") auto
  have w: "w \<le> length (drop i s)" unfolding w_def by (rule decode_width_le)
  have tk: "take (i + w) s = take i s @ take w (drop i s)" by (rule take_add)
  have nl: "take w (drop i s) = [CHR 0x0A]" "w = 1" if "r = 10"
    using decode_newline [of c t] decode_rune_small(2) [of c t] that
    by (simp_all add: r_def w_def ct)
  have no: "CHR 0x0A \<notin> set (take w (drop i s))" if "r \<noteq> 10"
    using decode_no_newline [of c t] that by (simp add: r_def w_def ct)
  show "line_of s (i + w) = (if r = 10 then Suc (line_of s i) else line_of s i)"
    using nl(1) no by (simp add: line_of_def tk)
  have "takeWhile (\<lambda>c. c \<noteq> CHR 0x0A) (rev (take w (drop i s)) @ rev (take i s))
      = rev (take w (drop i s)) @ takeWhile (\<lambda>c. c \<noteq> CHR 0x0A) (rev (take i s))"
    if "r \<noteq> 10"
    using no [OF that] by (subst takeWhile_append2) auto
  then show "col_of s (i + w) = (if r = 10 then 1 else col_of s i + w)"
    using nl w by (auto simp: col_of_def tk)
qed

text \<open>Line and column are right for the cursor, and the cursor is where the decoder stops.\<close>

definition lc_ok :: "Lexer \<Rightarrow> bool" where
  "lc_ok l \<longleftrightarrow> boundary (lx_src l) (lx_pos l) \<and> curPos l = pos_of (lx_src l) (lx_pos l)"

lemma lc_ok_skip: "lc_ok l \<Longrightarrow> lc_ok (skip l)"
proof (cases "more l")
  case True
  assume l: "lc_ok l"
  then have "boundary (lx_src l) (lx_pos (skip l))"
    using True boundary_step [of "lx_src l" "lx_pos l"]
    by (simp add: lc_ok_def skip_pos rune_step_def)
  with l True line_col_step [of "lx_pos l" "lx_src l"] show ?thesis
    by (simp add: lc_ok_def curPos_def pos_of_def skip_def advance_def split_beta)
qed (simp add: skip_end)

interpretation lc: cursor_rel "\<lambda>l l'. lc_ok l \<longrightarrow> lc_ok l'"
  by unfold_locales (auto simp: lc_ok_skip, simp add: lc_ok_def curPos_def)

text \<open>\<open>recalcLineCol\<close> computes the line and column of a boundary.\<close>

lemma recalc_loop_spec:
  assumes "boundary src i" "boundary src target" "i \<le> target" "target \<le> length src"
    "ln = line_of src i" "cl = col_of src i"
  shows "recalc_loop src target i ln cl = (line_of src target, col_of src target)"
  using assms
proof (induction src target i ln cl rule: recalc_loop.induct)
  case (1 src target i ln cl)
  show ?case
  proof (cases "i < target")
    case True
    then have i: "i < length src" using "1.prems" by simp
    have "rune_step src i \<le> target" using boundary_next "1.prems" True by blast
    moreover have "boundary src (rune_step src i)" using "1.prems" by (simp add: boundary_step)
    ultimately show ?thesis
      using "1.IH" [OF _ refl refl] "1.prems" True i line_col_step [OF i]
      by (cases "fst (decode_rune (drop i src)) = 10")
        (simp_all add: recalc_loop.simps [of src target i] rune_step_def)
  next
    case False
    with "1.prems" show ?thesis
      unfolding recalc_loop.simps [of src target i ln cl] by simp
  qed
qed

definition backtracks :: "unicode \<Rightarrow> Lexer \<Rightarrow> bool" where
  "backtracks u l \<longleftrightarrow>
     (let l1 = skip_while digit_rune l; l2 = compound_units (skip l1) in
      more l1 \<and> unit_rune (peek l1) \<and> more l2 \<and> isIdentStart u (peek l2))"

lemma recalcLineCol_pos:
  assumes "boundary (lx_src l) n" "n \<le> length (lx_src l)"
  shows "curPos (recalcLineCol n l) =
    \<lparr>pos_Line = line_of (lx_src l) n, pos_Col = col_of (lx_src l) n, pos_Offset = lx_pos l\<rparr>"
proof -
  have "recalc_loop (lx_src l) n 0 1 1 = (line_of (lx_src l) n, col_of (lx_src l) n)"
    by (rule recalc_loop_spec) (use assms in \<open>simp_all add: line_of_def col_of_def\<close>)
  then show ?thesis by (simp add: recalcLineCol_def curPos_def)
qed

lemma readNumber_backtrack:
  assumes "more l" "lc_ok l" "backtracks u l"
  shows "fst (readNumberOrDuration u p l) = makeToken TokInt
      (slice (lx_src l) (lx_pos l) (lx_pos (skip_while digit_rune l))) p"
    and "curPos (snd (readNumberOrDuration u p l)) =
      \<lparr>pos_Line = line_of (lx_src l) (lx_pos l), pos_Col = col_of (lx_src l) (lx_pos l),
       pos_Offset = lx_pos (skip_while digit_rune l)\<rparr>"
proof -
  let ?l1 = "skip_while digit_rune l"
  let ?l2 = "compound_units (skip ?l1)"
  have src: "lx_src ?l2 = lx_src l"
    using ext_src [OF ext.R_compound_units] ext_src [OF ext.R_skip_while [of l digit_rune]] by simp
  have run: "readNumberOrDuration u p l =
      (makeToken TokInt (slice (lx_src l) (lx_pos l) (lx_pos ?l1)) p,
       recalcLineCol (lx_pos l) (?l2\<lparr>lx_pos := lx_pos ?l1\<rparr>))"
    using assms(3) by (simp add: readNumberOrDuration_def backtracks_def Let_def)
  then show "fst (readNumberOrDuration u p l) = makeToken TokInt
      (slice (lx_src l) (lx_pos l) (lx_pos ?l1)) p" by simp
  show "curPos (snd (readNumberOrDuration u p l)) =
      \<lparr>pos_Line = line_of (lx_src l) (lx_pos l), pos_Col = col_of (lx_src l) (lx_pos l),
       pos_Offset = lx_pos ?l1\<rparr>"
    using assms(1,2) recalcLineCol_pos [of "?l2\<lparr>lx_pos := lx_pos ?l1\<rparr>" "lx_pos l"]
    by (simp add: run src lc_ok_def)
qed

lemma lc_ok_readNumber:
  assumes "lc_ok l" "\<not> backtracks u l"
  shows "lc_ok (snd (readNumberOrDuration u p l))"
  using assms lc.R_skip_while [of l digit_rune] lc.R_compound_units lc_ok_skip lc.R_skip_while
  by (auto simp: readNumberOrDuration_def backtracks_def Let_def)

lemma lc_ok_skipWhitespaceAndComments: "lc_ok l \<Longrightarrow> lc_ok (skipWhitespaceAndComments l)"
  using lc.R_skipWhitespaceAndComments by blast

abbreviation step_backtracks :: "unicode \<Rightarrow> Lexer \<Rightarrow> bool" where
  "step_backtracks u l \<equiv>
     more (skipWhitespaceAndComments l) \<and> digit_rune (peek (skipWhitespaceAndComments l))
     \<and> backtracks u (skipWhitespaceAndComments l)"

lemma lc_ok_next_token:
  assumes "lc_ok l" "\<not> step_backtracks u l"
  shows "lc_ok (snd (next_token u l))"
proof -
  let ?m = "skipWhitespaceAndComments l"
  have m: "lc_ok ?m" using assms(1) by (rule lc_ok_skipWhitespaceAndComments)
  have "lc_ok (snd (readString p ?m))" for p
    using m lc.R_readString by blast
  moreover have "lc_ok (snd (readIdentOrKeyword u p ?m))" for p
    using m lc.R_skip_while by (simp add: readIdentOrKeyword_def Let_def)
  moreover have "lc_ok (snd (readOperator p ?m))" for p
    using m lc_ok_skip lc.R_errorf by (simp add: readOperator_def split: option.split)
  ultimately show ?thesis
    using m assms(2) lc_ok_readNumber [OF m] by (auto simp: next_token_def Let_def)
qed

text \<open>
  The tokens after which the column may be wrong: an integer directly followed by a
  letter that is also a duration unit (\<open>5days\<close>).
\<close>

definition int_then_unit :: "string \<Rightarrow> Token \<Rightarrow> bool" where
  "int_then_unit src t \<longleftrightarrow>
     Kind t = TokInt \<and> unit_rune (fst (decode_rune (drop (tok_Offset t + length (Literal t)) src)))"

lemma length_slice: "b \<le> length s \<Longrightarrow> length (slice s a b) = b - a"
  by (simp add: slice_def)

lemma step_backtracks_int_then_unit:
  assumes "lc_ok l" "step_backtracks u l"
  shows "int_then_unit (lx_src l) (fst (next_token u l))"
proof -
  let ?m = "skipWhitespaceAndComments l"
  let ?l1 = "skip_while digit_rune ?m"
  have e: "ext ?m ?l1" by (rule ext.R_skip_while)
  have src: "lx_src ?m = lx_src l" by (rule ext_src [OF ext.R_skipWhitespaceAndComments])
  have l1: "more ?l1" "unit_rune (peek ?l1)" using assms(2) by (auto simp: backtracks_def Let_def)
  have "next_token u l = readNumberOrDuration u (curPos ?m) ?m"
    using assms(2) by (auto simp: next_token_def Let_def digit_rune_def)
  moreover have "lc_ok ?m" using assms(1) by (rule lc_ok_skipWhitespaceAndComments)
  ultimately have "fst (next_token u l) =
      makeToken TokInt (slice (lx_src ?m) (lx_pos ?m) (lx_pos ?l1)) (curPos ?m)"
    using readNumber_backtrack(1) assms(2) by simp
  then show ?thesis
    using l1 e by (simp add: int_then_unit_def makeToken_def curPos_def length_slice ext_def
        peek_def src)
qed

lemma Tokenize_loop_positions:
  assumes "lc_ok l" "lx_src l = src"
    and "\<forall>t\<in>set (lx_tokens (Tokenize_loop u l)). \<not> int_then_unit src t"
    and "\<forall>t\<in>set (lx_tokens l). tok_Pos t = pos_of src (tok_Offset t)"
  shows "\<forall>t\<in>set (lx_tokens (Tokenize_loop u l)). tok_Pos t = pos_of src (tok_Offset t)"
  using assms
proof (induction l rule: Tokenize_loop_induct [of u])
  case (eof l)
  have "lc_ok (skipWhitespaceAndComments l)"
    using eof.prems(1) by (rule lc_ok_skipWhitespaceAndComments)
  then have "tok_Pos (fst (next_token u l)) = pos_of src (tok_Offset (fst (next_token u l)))"
    using eof.prems(2) ext_src [OF ext.R_skipWhitespaceAndComments [of l]]
    by (simp add: next_token_tok_Pos lc_ok_def curPos_def)
  with eof show ?case by (simp add: Tokenize_loop_eof)
next
  case (step l)
  have m: "lc_ok (skipWhitespaceAndComments l)"
    using step.prems(1) by (rule lc_ok_skipWhitespaceAndComments)
  then have pos: "tok_Pos (fst (next_token u l)) = pos_of src (tok_Offset (fst (next_token u l)))"
    using step.prems(2) ext_src [OF ext.R_skipWhitespaceAndComments [of l]]
    by (simp add: next_token_tok_Pos lc_ok_def curPos_def)
  have tl: "Tokenize_loop u l = Tokenize_loop u (bump_tokens u l)"
    using step.hyps by (rule Tokenize_loop_step)
  obtain ts where "lx_tokens (Tokenize_loop u (bump_tokens u l)) = lx_tokens (bump_tokens u l) @ ts"
    using Tokenize_loop_prefix by blast
  then have "fst (next_token u l) \<in> set (lx_tokens (Tokenize_loop u l))" by (simp add: tl)
  with step.prems(2,3) have "\<not> step_backtracks u l"
    using step_backtracks_int_then_unit [OF step.prems(1)] by blast
  then have "lc_ok (snd (next_token u l))" using lc_ok_next_token step.prems(1) by blast
  then have "lc_ok (bump_tokens u l)"
    by (simp add: lc_ok_def curPos_def ext_src [OF next_token_ext])
  then show ?case
    using step.IH step.prems(2,3,4) pos by (simp add: tl)
qed

section \<open>Literals\<close>

text \<open>A literal that is copied from the source is the source text at the token's offset.\<close>

lemma prefix_slice: "prefix (slice s a b) (drop a s)"
  by (simp add: slice_def take_is_prefix)

lemma one_char_literal:
  assumes "more l" "map_of one_char_ops (peek l) = Some k"
  shows "prefix [char_of (peek l)] (lx_rest l)"
proof -
  obtain c t where ct: "lx_rest l = c # t" using assms(1) by (cases "lx_rest l") auto
  have "peek l < 128" using assms(2) by (auto simp: one_char_ops_def split: if_splits)
  then have "of_char c = peek l"
    using decode_rune_small(1) [of c t] assms(1) ct by (simp add: peek_def)
  then have "char_of (peek l) = c" by (metis char_of_char)
  with ct show ?thesis by simp
qed

lemma readers_literal:
  assumes "more l"
  shows "prefix (Literal (fst (readNumberOrDuration u p l))) (lx_rest l)"
    and "prefix (Literal (fst (readIdentOrKeyword u p l))) (lx_rest l)"
  by (simp_all add: readNumberOrDuration_def readIdentOrKeyword_def Let_def
      makeToken_def prefix_slice)

lemma readOperator_literal:
  assumes "more l" "Kind (fst (readOperator p l)) \<noteq> TokIllegal"
  shows "prefix (Literal (fst (readOperator p l))) (lx_rest l)"
proof -
  let ?two = "if lx_pos l + 1 < length (lx_src l)
      then map_of two_char_ops (slice (lx_src l) (lx_pos l) (lx_pos l + 2)) else None"
  show ?thesis
  proof (cases ?two)
    case None
    with assms one_char_literal [OF assms(1)] show ?thesis
      unfolding readOperator_def None
      by (cases "map_of one_char_ops (peek l)") (simp_all add: makeToken_def)
  next
    case (Some k)
    show ?thesis unfolding readOperator_def Some by (simp add: makeToken_def prefix_slice)
  qed
qed

lemma next_token_reader:
  assumes "more (skipWhitespaceAndComments l)"
  shows "next_token u l
      \<in> {readString (curPos (skipWhitespaceAndComments l)) (skipWhitespaceAndComments l),
         readNumberOrDuration u (curPos (skipWhitespaceAndComments l)) (skipWhitespaceAndComments l),
         readIdentOrKeyword u (curPos (skipWhitespaceAndComments l)) (skipWhitespaceAndComments l),
         readOperator (curPos (skipWhitespaceAndComments l)) (skipWhitespaceAndComments l)}"
  using assms unfolding next_token_def Let_def by (simp only: if_False split: if_split) blast

lemma next_token_literal:
  assumes "Kind (fst (next_token u l)) \<noteq> TokString" "Kind (fst (next_token u l)) \<noteq> TokIllegal"
  shows "prefix (Literal (fst (next_token u l)))
           (drop (tok_Offset (fst (next_token u l))) (lx_src l))"
proof -
  let ?m = "skipWhitespaceAndComments l"
  have src: "lx_src ?m = lx_src l" by (rule ext_src [OF ext.R_skipWhitespaceAndComments])
  show ?thesis
  proof (cases "more ?m")
    case True
    then consider (str) "next_token u l = readString (curPos ?m) ?m"
      | (num) "next_token u l = readNumberOrDuration u (curPos ?m) ?m"
      | (id) "next_token u l = readIdentOrKeyword u (curPos ?m) ?m"
      | (op) "next_token u l = readOperator (curPos ?m) ?m"
      using next_token_reader [of l u] by blast
    then have "prefix (Literal (fst (next_token u l))) (lx_rest ?m)"
    proof cases
      case str
      with assms(1) readString_loop_token show ?thesis by (simp add: readString_def)
    qed (use assms(2) True readers_literal readOperator_literal in \<open>simp_all only:\<close>)
    then show ?thesis by (simp add: next_token_tok_Pos curPos_def src)
  next
    case False
    then show ?thesis by (simp add: next_token_end makeToken_def)
  qed
qed

lemma Tokenize_loop_all:
  assumes "\<And>l. lx_src l = src \<Longrightarrow> P (fst (next_token u l))"
    and "lx_src l = src" "\<forall>t\<in>set (lx_tokens l). P t"
  shows "\<forall>t\<in>set (lx_tokens (Tokenize_loop u l)). P t"
  using assms(2,3)
proof (induction l rule: Tokenize_loop_induct [of u])
  case (eof l)
  with assms(1) [of l] show ?case by (simp add: Tokenize_loop_eof)
next
  case (step l)
  from step.prems assms(1) [of l] have "\<forall>t\<in>set (lx_tokens (bump_tokens u l)). P t"
    by auto
  with step.prems(1) show ?case
    unfolding Tokenize_loop_step [OF step.hyps(1)] by (intro step.IH) simp_all
qed

section \<open>String literals round trip\<close>

text \<open>How a rune is written inside double quotes so that \<open>readString\<close> reads it back.\<close>

definition quote_rune :: "nat \<Rightarrow> string" where
  "quote_rune r =
     (if r = 34 then [CHR 0x5C, CHR 0x22]
      else if r = 92 then [CHR 0x5C, CHR 0x5C]
      else if r = 10 then [CHR 0x5C, CHR ''n'']
      else if r = 9 then [CHR 0x5C, CHR ''t'']
      else if r = 13 then [CHR 0x5C, CHR ''r'']
      else encode_rune r)"

definition quote_runes :: "nat list \<Rightarrow> string" where
  "quote_runes rs = concat (map quote_rune rs)"

lemma lx_rest_skip:
  "drop (lx_pos (skip l)) (lx_src l) = drop (snd (decode_rune (lx_rest l))) (lx_rest l)"
  by (cases "more l") (simp_all add: skip_pos skip_end add.commute)

lemma lx_rest_more: "lx_rest l \<noteq> [] \<Longrightarrow> more l"
  by simp

lemma peek_rest: "lx_rest l \<noteq> [] \<Longrightarrow> peek l = fst (decode_rune (lx_rest l))"
  by (simp add: peek_def)

text \<open>A byte below 128 at the cursor is the rune there.\<close>

lemma peek_ascii:
  assumes "lx_rest l = c # t" "(of_char c :: nat) < 128"
  shows "more l" "peek l = of_char c" "lx_rest (skip l) = t"
  using assms lx_rest_more [of l] by (simp_all add: peek_rest lx_rest_skip)

lemma readString_loop_escape:
  assumes "lx_rest l = CHR 0x5C # c # t" "(of_char c :: nat) < 128"
  shows "readString_loop p b l = readString_loop p (b @ escape_bytes (of_char c)) (skip (skip l))"
    and "lx_rest (skip (skip l)) = t"
proof -
  have 1: "more l" "peek l = 92" "lx_rest (skip l) = c # t"
    using peek_ascii [OF assms(1)] by simp_all
  note 2 = peek_ascii [OF 1(3) assms(2)]
  show "readString_loop p b l = readString_loop p (b @ escape_bytes (of_char c)) (skip (skip l))"
    unfolding readString_loop.simps [of p b l] using 1 2 by simp
  show "lx_rest (skip (skip l)) = t" by (rule 2)
qed

lemma readString_loop_rune:
  assumes "lx_rest l = encode_rune r @ t" "valid_rune r" "r \<noteq> 34" "r \<noteq> 92"
  shows "readString_loop p b l = readString_loop p (b @ encode_rune r) (skip l)"
    and "lx_rest (skip l) = t"
proof -
  have ne: "lx_rest l \<noteq> []" by (simp add: assms(1))
  have "more l" "peek l = r"
    using lx_rest_more [OF ne] peek_rest [OF ne] decode_encode [OF assms(2), of t]
    by (simp_all add: assms(1))
  then show "readString_loop p b l = readString_loop p (b @ encode_rune r) (skip l)"
    unfolding readString_loop.simps [of p b l] using assms(3,4) by simp
  show "lx_rest (skip l) = t"
    using decode_encode [OF assms(2), of t] by (simp add: lx_rest_skip assms(1))
qed

lemma escape_quote:
  "escape_bytes 34 = encode_rune 34" "escape_bytes 92 = encode_rune 92"
  "escape_bytes 110 = encode_rune 10" "escape_bytes 116 = encode_rune 9"
  "escape_bytes 114 = encode_rune 13"
proof -
  have ascii: "encode_rune r = [char_of r]" if "r < 128" for r
    using that by (simp add: encode_rune_def encode_valid_def valid_rune_def)
  have chars: "char_of (34::nat) = CHR 0x22" "char_of (92::nat) = CHR 0x5C"
    "char_of (10::nat) = CHR 0x0A" "char_of (9::nat) = CHR 0x09" "char_of (13::nat) = CHR 0x0D"
    by code_simp+
  show "escape_bytes 34 = encode_rune 34" "escape_bytes 92 = encode_rune 92"
    "escape_bytes 110 = encode_rune 10" "escape_bytes 116 = encode_rune 9"
    "escape_bytes 114 = encode_rune 13"
    by (simp_all add: escape_bytes_def ascii chars)
qed

lemma readString_loop_quote_rune:
  assumes "lx_rest l = quote_rune r @ t" "valid_rune r"
  shows "\<exists>l'. readString_loop p b l = readString_loop p (b @ encode_rune r) l' \<and> lx_rest l' = t"
proof -
  consider (esc) c where "lx_rest l = CHR 0x5C # c # t" "(of_char c :: nat) < 128"
      "escape_bytes (of_char c) = encode_rune r"
    | (plain) "lx_rest l = encode_rune r @ t" "r \<noteq> 34" "r \<noteq> 92"
    using assms(1) escape_quote by (auto simp: quote_rune_def split: if_splits)
  then show ?thesis
  proof cases
    case esc
    with readString_loop_escape(1) [OF esc(1,2), of p b] readString_loop_escape(2) [OF esc(1,2)]
    show ?thesis by auto
  next
    case plain
    from readString_loop_rune(1) [OF plain(1) assms(2) plain(2,3), of p b]
      readString_loop_rune(2) [OF plain(1) assms(2) plain(2,3)]
    show ?thesis by blast
  qed
qed

lemma readString_loop_quoted:
  assumes "lx_rest l = quote_runes rs @ CHR 0x22 # t" "list_all valid_rune rs"
  shows "fst (readString_loop p b l) = makeToken TokString (b @ concat (map encode_rune rs)) p
    \<and> lx_rest (snd (readString_loop p b l)) = t"
  using assms
proof (induction rs arbitrary: l b)
  case Nil
  then have "lx_rest l = CHR 0x22 # t" by (simp add: quote_runes_def)
  from peek_ascii [OF this] show ?case
    unfolding readString_loop.simps [of p b l] by simp
next
  case (Cons r rs)
  then have "lx_rest l = quote_rune r @ quote_runes rs @ CHR 0x22 # t"
    by (simp add: quote_runes_def)
  then obtain l' where l': "readString_loop p b l = readString_loop p (b @ encode_rune r) l'"
    "lx_rest l' = quote_runes rs @ CHR 0x22 # t"
    using readString_loop_quote_rune Cons.prems(2) by (metis list.pred_inject(2))
  from Cons.IH [OF l'(2), of "b @ encode_rune r"] Cons.prems(2) show ?case
    by (simp add: l'(1))
qed

section \<open>The claims\<close>

definition ascii_unicode :: unicode where
  "ascii_unicode = \<lparr>uc_letter = (\<lambda>r. False), uc_digit = (\<lambda>r. False)\<rparr>"

lemma lc_ok_NewLexer: "lc_ok (NewLexer src)"
  by (simp add: lc_ok_def NewLexer_def curPos_def pos_of_def line_of_def col_of_def)

text \<open>
  C15: \<open>Tokenize\<close> terminates on every source, and its token stream is closed by exactly one
  \<open>TokEOF\<close>, placed at the end of the source; the offsets of the other tokens increase
  strictly and lie inside the source, so there are at most \<open>len(src) + 1\<close> tokens.
\<close>

theorem tokenize_stream:
  "stream_from (length src) 0 (fst (Tokenize u (NewLexer src)))
   \<and> length (fst (Tokenize u (NewLexer src))) \<le> Suc (length src)"
proof -
  have "lx_pos (NewLexer src) \<le> length (lx_src (NewLexer src))" by (simp add: NewLexer_def)
  from Tokenize_loop_stream [OF this, of u]
  have "stream_from (length src) 0 (fst (Tokenize u (NewLexer src)))"
    by (auto simp: Tokenize_def NewLexer_def)
  with stream_from_length [OF this] show ?thesis by simp
qed

text \<open>
  when no integer is directly followed by a letter that is a duration unit, every
  token carries the line and the column of its offset in the source.
\<close>

theorem tokenize_positions:
  assumes "\<forall>t\<in>set (fst (Tokenize u (NewLexer src))). \<not> int_then_unit src t"
  shows "\<forall>t\<in>set (fst (Tokenize u (NewLexer src))). tok_Pos t = pos_of src (tok_Offset t)"
  using Tokenize_loop_positions [OF lc_ok_NewLexer, of src src u] assms
  by (simp add: Tokenize_def NewLexer_def)

lemma tokenize_positions_witness:
  "list_all (\<lambda>t. \<not> int_then_unit ''{ 1d }'' t \<and> tok_Pos t = pos_of ''{ 1d }'' (tok_Offset t))
     (fst (Tokenize ascii_unicode (NewLexer ''{ 1d }'')))"
proof -
  have h: "\<forall>t\<in>set (fst (Tokenize ascii_unicode (NewLexer ''{ 1d }''))). \<not> int_then_unit ''{ 1d }'' t"
    by code_simp
  from tokenize_positions [OF h] h show ?thesis by (simp add: list_all_iff)
qed

lemma skip_while_digit_line_col:
  "lx_line (skip_while digit_rune l) = lx_line l
   \<and> lx_col (skip_while digit_rune l) + lx_pos l = lx_col l + lx_pos (skip_while digit_rune l)"
proof (induction digit_rune l rule: skip_while.induct)
  case (1 l)
  show ?case
  proof (cases "more l \<and> digit_rune (peek l)")
    case True
    then have "peek l \<noteq> 10" by (auto simp: digit_rune_def)
    with True have "lx_line (skip l) = lx_line l" "lx_col (skip l) + lx_pos l = lx_col l + lx_pos (skip l)"
      by (simp_all add: skip_def advance_def peek_def split_beta)
    with 1 True show ?thesis by (simp add: skip_while_step)
  next
    case False
    then show ?thesis by (simp add: skip_while_done)
  qed
qed

text \<open>
  where the lexer backtracks (digits, a duration unit, then more of a word, as in
  \<open>5days\<close>), it returns to the end of the digits but recomputes the column of their start:
  the line is right, the column is too small by exactly the number of digits, and so is
  every later column of that line.
\<close>

theorem duration_backtrack_column:
  fixes u :: unicode and p :: Pos and l :: Lexer
  assumes "lc_ok l" "more l" "digit_rune (peek l)" "backtracks u l"
  defines "l' \<equiv> snd (readNumberOrDuration u p l)"
  shows "lx_pos l < lx_pos l' \<and> lx_line l' = line_of (lx_src l) (lx_pos l')
    \<and> lx_col l' + (lx_pos l' - lx_pos l) = col_of (lx_src l) (lx_pos l')"
proof -
  let ?l1 = "skip_while digit_rune l"
  have cur: "curPos l' = \<lparr>pos_Line = line_of (lx_src l) (lx_pos l),
      pos_Col = col_of (lx_src l) (lx_pos l), pos_Offset = lx_pos ?l1\<rparr>"
    unfolding l'_def by (rule readNumber_backtrack) fact+
  have less: "lx_pos l < lx_pos ?l1" using assms(2,3) by (rule skip_while_less)
  have ok: "lc_ok ?l1" using lc.R_skip_while assms(1) by blast
  have src: "lx_src ?l1 = lx_src l" by (rule ext_src [OF ext.R_skip_while])
  show ?thesis
    using cur ok assms(1) skip_while_digit_line_col [of l] less
    by (auto simp: lc_ok_def curPos_def pos_of_def src)
qed

lemma duration_backtrack_column_witness:
  "backtracks ascii_unicode (NewLexer ''5days'')
   \<and> lx_col (snd (readNumberOrDuration ascii_unicode zero_Pos (NewLexer ''5days''))) = 1
   \<and> col_of ''5days'' (lx_pos (snd (readNumberOrDuration ascii_unicode zero_Pos (NewLexer ''5days'')))) = 2"
proof -
  have b: "backtracks ascii_unicode (NewLexer ''5days'')" by code_simp
  have m: "more (NewLexer ''5days'')" "digit_rune (peek (NewLexer ''5days''))" by code_simp+
  have pos: "lx_pos (snd (readNumberOrDuration ascii_unicode zero_Pos (NewLexer ''5days''))) = 1"
    by code_simp
  have src: "lx_src (NewLexer ''5days'') = ''5days''" "lx_pos (NewLexer ''5days'') = 0"
    by (simp_all add: NewLexer_def)
  have "col_of ''5days'' 1 = 2" by code_simp
  with duration_backtrack_column [OF lc_ok_NewLexer m b, of zero_Pos] b pos src
  show ?thesis by simp
qed

text \<open>
  every token that is neither a string literal nor an illegal character carries the
  source text at its offset as its literal.
\<close>

theorem tokenize_literals:
  "\<forall>t\<in>set (fst (Tokenize u (NewLexer src))).
     Kind t \<in> {TokString, TokIllegal} \<or> prefix (Literal t) (drop (tok_Offset t) src)"
  using Tokenize_loop_all [of src "\<lambda>t. Kind t \<in> {TokString, TokIllegal}
      \<or> prefix (Literal t) (drop (tok_Offset t) src)" u "NewLexer src"] next_token_literal
  by (auto simp: Tokenize_def NewLexer_def)

lemma tokenize_literals_witness:
  "prefix (Literal (fst (Tokenize ascii_unicode (NewLexer ''{ 1d }'')) ! 1)) (drop 2 ''{ 1d }'')"
proof -
  let ?ts = "fst (Tokenize ascii_unicode (NewLexer ''{ 1d }''))"
  have "1 < length ?ts" "tok_Offset (?ts ! 1) = 2" "Kind (?ts ! 1) = TokDuration" by code_simp+
  with tokenize_literals [of ascii_unicode "''{ 1d }''", THEN bspec, OF nth_mem [of 1 ?ts]]
  show ?thesis by simp
qed

text \<open>
  C27: quoting and reading are inverse: between double quotes, the escaped form of any
  list of valid runes is read as a \<open>TokString\<close> whose literal is their UTF-8 encoding,
  and scanning continues right after the closing quote.
\<close>

theorem string_literal_roundtrip:
  assumes "lx_rest l = CHR 0x22 # quote_runes rs @ CHR 0x22 # t" "list_all valid_rune rs"
  shows "fst (next_token u l) = makeToken TokString (concat (map encode_rune rs)) (curPos l)
    \<and> lx_rest (snd (next_token u l)) = t"
proof -
  have q: "more l" "peek l = 34" "lx_rest (skip l) = quote_runes rs @ CHR 0x22 # t"
    using peek_ascii [OF assms(1)] by simp_all
  then have m: "skipWhitespaceAndComments l = l"
    unfolding skipWhitespaceAndComments.simps [of l] by (simp add: is_blank_def)
  from q m have n: "next_token u l = readString (curPos l) l"
    by (simp add: next_token_def Let_def)
  from readString_loop_quoted [OF q(3) assms(2), of "curPos l" "[]"]
  show ?thesis by (simp add: n readString_def)
qed

lemma string_literal_roundtrip_witness:
  "list_all valid_rune [34, 955, 10]
   \<and> fst (next_token ascii_unicode (NewLexer (CHR 0x22 # quote_runes [34, 955, 10] @ [CHR 0x22])))
     = makeToken TokString [CHR 0x22, CHR 0xCE, CHR 0xBB, CHR 0x0A]
         \<lparr>pos_Line = 1, pos_Col = 1, pos_Offset = 0\<rparr>"
proof -
  let ?l = "NewLexer (CHR 0x22 # quote_runes [34, 955, 10] @ [CHR 0x22])"
  have v: "list_all valid_rune [34, 955, 10]" by (simp add: valid_rune_def)
  have r: "lx_rest ?l = CHR 0x22 # quote_runes [34, 955, 10] @ CHR 0x22 # []"
    by (simp add: NewLexer_def)
  have c: "char_of (34::nat) = CHR 0x22" "char_of (206::nat) = CHR 0xCE"
    "char_of (187::nat) = CHR 0xBB" "char_of (10::nat) = CHR 0x0A" by code_simp+
  have "concat (map encode_rune [34, 955, 10]) = [CHR 0x22, CHR 0xCE, CHR 0xBB, CHR 0x0A]"
    by (simp add: encode_rune_def encode_valid_def valid_rune_def c)
  with string_literal_roundtrip [OF r v, of ascii_unicode] v show ?thesis
    by (simp add: NewLexer_def curPos_def)
qed

text \<open>
  a block comment that ends with the source right after its \<open>/*\<close> is not reported,
  while one byte more is: the loop that would report it is not entered.
\<close>

theorem block_comment_at_end_unreported:
  "snd (Tokenize u (NewLexer ''/*'')) = []
   \<and> snd (Tokenize u (NewLexer ''/* '')) =
       [errorAt \<lparr>pos_Line = 1, pos_Col = 1, pos_Offset = 0\<rparr> ''unterminated block comment'' []]"
  by code_simp

end
