(* ===== verification/Catalog.thy ===== *)
theory Catalog
  imports Entities
begin

text \<open>
  The entities of funnels, sites, products, offers, media and campaigns, with the fields the
  compiler writes. Their structs are in the module \<open>sentanyl/pkg/models\<close> too; as in
  \<open>Entities\<close> an entity stored in two places is not changed after it is stored.
\<close>

section \<open>Funnels and sites\<close>

record AIContextBlock =
  aic_ContextURLs :: "string list"
  aic_ContextRefs :: "string list"
  aic_ContextMode :: string

record ContentGenConfig =
  cgc_Length :: string
  cgc_ContextURLs :: "string list"
  cgc_PromptAppend :: string
  cgc_Status :: string

record PageBlock =
  blk_Id :: ObjectId
  blk_PublicId :: string
  blk_SubscriberId :: string
  blk_SectionID :: string
  blk_BlockType :: string
  blk_SourceURL :: string
  blk_MediaPublicId :: string
  blk_PlayerPresetId :: string
  blk_Autoplay :: bool
  blk_ContentGen :: "ContentGenConfig option"
  blk_AIContext :: "AIContextBlock option"
  blk_PageId :: "ObjectId option"

record FormField =
  fld_FieldName :: string
  fld_FieldType :: string
  fld_Required :: bool
  fld_CustomField :: string

record OrderBump =
  bmp_Text :: string
  bmp_OfferID :: "ObjectId option"

record PageForm =
  frm_Id :: ObjectId
  frm_PublicId :: string
  frm_SubscriberId :: string
  frm_Name :: string
  frm_FormType :: string
  frm_ProductId :: string
  frm_OfferID :: string
  frm_Fields :: "FormField list"
  frm_OrderBumps :: "OrderBump list"
  frm_PageId :: "ObjectId option"

record FunnelPage =
  pag_Id :: ObjectId
  pag_PublicId :: string
  pag_SubscriberId :: string
  pag_Name :: string
  pag_TemplateName :: string
  pag_AIContext :: "AIContextBlock option"
  pag_Blocks :: "PageBlock list"
  pag_BlockIds :: "BsonCollectionIds option"
  pag_Forms :: "PageForm list"
  pag_FormIds :: "BsonCollectionIds option"
  pag_StageId :: "ObjectId option"

record PDFConfig =
  pdc_AIGenerated :: bool
  pdc_AIContext :: "AIContextBlock option"

record AssetGenConfig =
  agc_AssetType :: string
  agc_References :: "string list"
  agc_Instruction :: string
  agc_Theme :: string
  agc_Status :: string
  agc_StageID :: string

record Asset =
  asset_Id :: ObjectId
  asset_PublicId :: string
  asset_SubscriberId :: string
  asset_FileName :: string
  asset_FileType :: string
  asset_GenConfig :: AssetGenConfig

record FunnelStage =
  stg_Id :: ObjectId
  stg_PublicId :: string
  stg_SubscriberId :: string
  stg_Name :: string
  stg_Path :: string
  stg_Order :: int
  stg_Pages :: "FunnelPage list"
  stg_PageIds :: "BsonCollectionIds option"
  stg_Triggers :: "Trigger list"
  stg_TriggerIds :: "BsonCollectionIds option"
  stg_PDFConfig :: "PDFConfig option"
  stg_RouteId :: "ObjectId option"

record FunnelRoute =
  rou_Id :: ObjectId
  rou_PublicId :: string
  rou_SubscriberId :: string
  rou_Name :: string
  rou_Order :: int
  rou_RequiredUserBadges :: RequiredBadges
  rou_Stages :: "FunnelStage list"
  rou_StageIds :: "BsonCollectionIds option"
  rou_FunnelId :: "ObjectId option"

record Funnel =
  fun_Id :: ObjectId
  fun_PublicId :: string
  fun_SubscriberId :: string
  fun_CreatorId :: ObjectId
  fun_Name :: string
  fun_Domain :: string
  fun_Status :: string
  fun_DraftVersion :: int
  fun_PublishedVersion :: int
  fun_PublishedName :: string
  fun_PublishedDomain :: string
  fun_AIContext :: "AIContextBlock option"
  fun_Routes :: "FunnelRoute list"
  fun_RouteIds :: "BsonCollectionIds option"
  fun_PublishedRoutes :: "FunnelRoute list"
  fun_PublishedAt :: "int option"

record SEOConfig =
  sec_MetaTitle :: string
  sec_MetaDescription :: string
  sec_OpenGraphImageURL :: string

record NavigationConfig =
  nvc_HeaderLinks :: "string gomap"
  nvc_FooterLinks :: "string gomap"

record Site =
  sit_Id :: ObjectId
  sit_PublicId :: string
  sit_SubscriberId :: string
  sit_CreatorId :: ObjectId
  sit_Name :: string
  sit_Domain :: string
  sit_Theme :: string
  sit_SEO :: "SEOConfig option"
  sit_Navigation :: "NavigationConfig option"
  sit_Pages :: "FunnelPage list"
  sit_PageIds :: "BsonCollectionIds option"

section \<open>Products, courses and offers\<close>

record GenConfig =
  gcf_Instruction :: string
  gcf_References :: "string list"
  gcf_Theme :: string

record Lesson =
  les_Id :: ObjectId
  les_Title :: string
  les_VideoURL :: string
  les_MediaPublicId :: string
  les_ContentHTML :: string
  les_IsDraft :: bool
  les_Order :: int

record Module =
  mod_Id :: ObjectId
  mod_Title :: string
  mod_Order :: int
  mod_Lessons :: "Lesson list"

record CourseLesson =
  cle_Slug :: string
  cle_Title :: string
  cle_Order :: int
  cle_VideoURL :: string
  cle_MediaPublicId :: string
  cle_Duration :: string
  cle_ContentHTML :: string
  cle_IsFree :: bool
  cle_IsDraft :: bool
  cle_DripDays :: int
  cle_DripHours :: int
  cle_DripMinutes :: int
  cle_ContentGenStatus :: string
  cle_ContentGenConfig :: "GenConfig option"
  cle_VideoMode :: string
  cle_VideoStubScript :: string
  cle_VideoStubDescription :: string
  cle_ContentMarkdown :: string

record CourseModule =
  cmo_Slug :: string
  cmo_Title :: string
  cmo_Order :: int
  cmo_Lessons :: "CourseLesson list"
  cmo_QuizSlug :: string

record CourseGenConfig =
  cgn_Mode :: string
  cgn_Audience :: string
  cgn_Outcome :: string
  cgn_Tone :: string
  cgn_ExtraContext :: string
  cgn_DefaultMedia :: string
  cgn_References :: "string list"

record Product =
  pro_Id :: ObjectId
  pro_PublicId :: string
  pro_SubscriberId :: string
  pro_Name :: string
  pro_Description :: string
  pro_ProductType :: string
  pro_Status :: string
  pro_InstructorName :: string
  pro_ThumbnailURL :: string
  pro_DescriptionGenStatus :: string
  pro_DescriptionGenConfig :: "GenConfig option"
  pro_Modules :: "Module list"
  pro_CourseModules :: "CourseModule list"
  pro_TotalLessons :: int
  pro_CourseGenConfig :: "CourseGenConfig option"

record LMSQuizQuestion =
  qqn_Slug :: string
  qqn_Type :: string
  qqn_Title :: string
  qqn_Order :: int
  qqn_Options :: "string list"
  qqn_CorrectAnswer :: int
  qqn_CorrectText :: string

record LMSQuiz =
  qui_Id :: ObjectId
  qui_PublicId :: string
  qui_SubscriberId :: string
  qui_Slug :: string
  qui_Title :: string
  qui_ModuleSlug :: string
  qui_PassThreshold :: int
  qui_MaxAttempts :: int
  qui_ProductID :: ObjectId
  qui_Questions :: "LMSQuizQuestion list"

record CertificateTemplate =
  cer_Id :: ObjectId
  cer_PublicId :: string
  cer_ProductPublicId :: string
  cer_SubscriberId :: string
  cer_Title :: string
  cer_TemplateName :: string
  cer_LogoURL :: string
  cer_AccentColor :: string
  cer_Enabled :: bool

record Offer =
  ofr_Id :: ObjectId
  ofr_PublicId :: string
  ofr_SubscriberId :: string
  ofr_Title :: string
  ofr_PricingModel :: string
  ofr_Amount :: int
  ofr_Currency :: string
  ofr_GrantedBadges :: "string list"
  ofr_IncludedProducts :: "ObjectId list"

section \<open>Media and campaigns\<close>

record MediaChapter =
  mch_PublicId :: string
  mch_Title :: string
  mch_StartSec :: int
  mch_EndSec :: int

datatype InteractionConfig =
    NoConfig
  | TurnstileConfig bool "string list"
  | CTAConfig string string string
  | AnnotationConfig string string

record MediaInteraction =
  mit_PublicId :: string
  mit_Kind :: string
  mit_StartSec :: int
  mit_EndSec :: int
  mit_Config :: InteractionConfig

record MediaBadgeRule =
  mbr_PublicId :: string
  mbr_EventName :: string
  mbr_Operator :: string
  mbr_Threshold :: int
  mbr_BadgePublicId :: string
  mbr_Enabled :: bool

record Media =
  med_Id :: ObjectId
  med_PublicId :: string
  med_SubscriberId :: string
  med_Title :: string
  med_Description :: string
  med_Kind :: string
  med_SourceURL :: string
  med_PosterURL :: string
  med_Status :: string
  med_Tags :: "string list"
  med_Folder :: string
  med_Chapters :: "MediaChapter list"
  med_Interactions :: "MediaInteraction list"
  med_BadgeRules :: "MediaBadgeRule list"
  med_PlayerPresetID :: "ObjectId option"

record PlayerPreset =
  pre_Id :: ObjectId
  pre_PublicId :: string
  pre_SubscriberId :: string
  pre_Name :: string
  pre_PlayerColor :: string
  pre_ShowControls :: bool
  pre_ShowRewind :: bool
  pre_ShowFastForward :: bool
  pre_ShowSkip :: bool
  pre_ShowDownload :: bool
  pre_HideProgressBar :: bool
  pre_ShowBigPlayButton :: bool
  pre_AllowFullscreen :: bool
  pre_AllowPlaybackRate :: bool
  pre_AllowSeeking :: bool
  pre_Autoplay :: bool
  pre_MutedDefault :: bool
  pre_DisablePause :: bool
  pre_EndBehavior :: string
  pre_RoundedPlayer :: bool
  pre_ChapterStyle :: string
  pre_ChapterPosition :: string
  pre_ChapterClickJump :: bool

record MediaChannelItem =
  mci_MediaPublicId :: string
  mci_Order :: int

record MediaChannel =
  mcn_Id :: ObjectId
  mcn_PublicId :: string
  mcn_SubscriberId :: string
  mcn_Title :: string
  mcn_Description :: string
  mcn_Layout :: string
  mcn_Theme :: string
  mcn_Items :: "MediaChannelItem list"

record MediaWebhook =
  mwh_Id :: ObjectId
  mwh_PublicId :: string
  mwh_SubscriberId :: string
  mwh_Name :: string
  mwh_URL :: string
  mwh_EventTypes :: "string list"
  mwh_Enabled :: bool

record CampaignAudience =
  cau_MustHave :: "string list"
  cau_MustNotHave :: "string list"

record CampaignClickRule =
  ccr_URLPattern :: string
  ccr_AwardBadge :: string

record Campaign =
  cam_Id :: ObjectId
  cam_PublicId :: string
  cam_SubscriberId :: string
  cam_CreatorId :: ObjectId
  cam_Name :: string
  cam_Subject :: string
  cam_Body :: string
  cam_FromEmail :: string
  cam_FromName :: string
  cam_ReplyTo :: string
  cam_Status :: string
  cam_Audience :: CampaignAudience
  cam_EmailGenConfig :: "EmailGenConfig option"
  cam_ClickRules :: "CampaignClickRule list"

end
