(* ===== verification/Tables.thy ===== *)
theory Tables
  imports Diagnostics
begin

text \<open>
  The definition tables of the passes. The expander and the validator fill their maps with
  one idiom: range over the declarations, report a declaration whose key is already in the
  map and skip it, put the others in. \<open>collect_with\<close> is that loop over the operations of a
  map, the locale \<open>go_map\<close> states what the loop relies on, and the laws hold for
  the association lists that stand for Go's maps.
\<close>

fun collect_with ::
  "(string \<Rightarrow> 't \<Rightarrow> bool) \<Rightarrow> (string \<Rightarrow> 'v \<Rightarrow> 't \<Rightarrow> 't) \<Rightarrow>
   ('a \<Rightarrow> string) \<Rightarrow> ('a \<Rightarrow> 'v) \<Rightarrow> ('a \<Rightarrow> Diagnostic) \<Rightarrow> 'a list \<Rightarrow> 't \<Rightarrow> 't \<times> Diagnostics" where
  "collect_with exists put key val dup [] m = (m, [])"
| "collect_with exists put key val dup (x # xs) m =
     (if exists (key x) m
      then (let (m', ds) = collect_with exists put key val dup xs m in (m', dup x # ds))
      else collect_with exists put key val dup xs (put (key x) (val x) m))"

abbreviation collect ::
  "('a \<Rightarrow> string) \<Rightarrow> ('a \<Rightarrow> 'v) \<Rightarrow> ('a \<Rightarrow> Diagnostic) \<Rightarrow> 'a list \<Rightarrow> 'v gomap \<Rightarrow> 'v gomap \<times> Diagnostics"
where
  "collect \<equiv> collect_with has_key gomap_put"

text \<open>The declarations whose key an earlier one has, in order.\<close>

fun repeated :: "('a \<Rightarrow> string) \<Rightarrow> string set \<Rightarrow> 'a list \<Rightarrow> 'a list" where
  "repeated key seen [] = []"
| "repeated key seen (x # xs) =
     (if key x \<in> seen then x # repeated key seen xs else repeated key (insert (key x) seen) xs)"

lemma repeated_Nil_iff:
  "repeated key seen xs = [] \<longleftrightarrow> distinct (map key xs) \<and> key ` set xs \<inter> seen = {}"
  by (induction xs arbitrary: seen) auto

locale go_map =
  fixes present :: "string \<Rightarrow> 't \<Rightarrow> bool"
    and store :: "string \<Rightarrow> 'v \<Rightarrow> 't \<Rightarrow> 't"
    and fetch :: "string \<Rightarrow> 't \<Rightarrow> 'v option"
  assumes present_fetch: "present k m \<longleftrightarrow> fetch k m \<noteq> None"
    and fetch_store: "fetch k (store k' v m) = (if k = k' then Some v else fetch k m)"
begin

text \<open>The first declaration of a key wins, and what was in the map before stays.\<close>

lemma fetch_collect:
  "fetch k (fst (collect_with present store key val dup xs m))
   = (case fetch k m of
        Some v \<Rightarrow> Some v
      | None \<Rightarrow> map_option val (find (\<lambda>x. key x = k) xs))"
proof (induction xs arbitrary: m)
  case (Cons x xs)
  then show ?case
    by (auto simp: split_beta present_fetch fetch_store split: option.splits)
qed (simp split: option.splits)

text \<open>Exactly the later declarations of a key are reported.\<close>

lemma reports_collect:
  "snd (collect_with present store key val dup xs m)
   = map dup (repeated key {k. present k m} xs)"
proof (induction xs arbitrary: m)
  case (Cons x xs)
  have "{k. present k (store (key x) (val x) m)} = insert (key x) {k. present k m}"
    by (auto simp: present_fetch fetch_store)
  with Cons show ?case by (simp add: split_beta)
qed simp

lemma no_reports_iff:
  "snd (collect_with present store key val dup xs m) = []
   \<longleftrightarrow> distinct (map key xs) \<and> (\<forall>x\<in>set xs. \<not> present (key x) m)"
  by (auto simp: reports_collect repeated_Nil_iff)

end

interpretation gm: go_map has_key gomap_put "\<lambda>k m. map_of m k"
  by unfold_locales (auto simp: has_key_def update_conv)

lemma collect_Nil_iff:
  "snd (collect key val dup xs []) = [] \<longleftrightarrow> distinct (map key xs)"
  by (simp add: gm.no_reports_iff)

lemma map_of_collect:
  "map_of (fst (collect key val dup xs [])) k = map_option val (find (\<lambda>x. key x = k) xs)"
  by (simp add: gm.fetch_collect)

lemma collect_all_errors:
  "(\<And>x. diag_Level (dup x) = DiagError) \<Longrightarrow> all_errors (snd (collect key val dup xs m))"
  by (simp add: gm.reports_collect all_errors_def list_all_iff)

lemma find_key_iff: "find (\<lambda>x. key x = k) xs = None \<longleftrightarrow> k \<notin> key ` set xs"
  by (auto simp: find_None_iff)

lemma has_key_collect: "has_key k (fst (collect key val dup xs [])) \<longleftrightarrow> k \<in> key ` set xs"
proof -
  have "has_key k (fst (collect key val dup xs [])) \<longleftrightarrow> find (\<lambda>x. key x = k) xs \<noteq> None"
    by (simp add: has_key_def map_of_collect)
  then show ?thesis by (simp only: find_key_iff) simp
qed

end
