(* ===== verification/Validator.thy ===== *)
theory Validator
  imports Ast Tables
begin

text \<open>
  The validator (\<open>src/scripting/validator.go\<close>). Pass 1 fills the symbol table and reports
  duplicate names; it is a step on the table that returns its reports. Passes 2 and 3 only
  read the table and the tree, so their methods are the lists of diagnostics they append.
\<close>

section \<open>The symbol table\<close>

record SymbolTable =
  sy_StoryNames :: "Pos gomap"
  sy_StorylineNames :: "Pos gomap"
  sy_StorylineOrder :: "int gomap"
  sy_EnactmentNames :: "Pos gomap"
  sy_EnactmentLevels :: "int gomap"
  sy_EnactmentOrders :: "int gomap"
  sy_SceneNames :: "Pos gomap"
  sy_FunnelNames :: "Pos gomap"
  sy_RouteNames :: "Pos gomap"
  sy_StageNames :: "Pos gomap"
  sy_PageNames :: "Pos gomap"
  sy_FormNames :: "Pos gomap"
  sy_SiteNames :: "Pos gomap"
  sy_BadgeNames :: "bool gomap"
  sy_TagNames :: "bool gomap"
  sy_TemplateNames :: "bool gomap"

definition newSymbolTable :: SymbolTable where
  "newSymbolTable =
     \<lparr>sy_StoryNames = [], sy_StorylineNames = [], sy_StorylineOrder = [], sy_EnactmentNames = [],
      sy_EnactmentLevels = [], sy_EnactmentOrders = [], sy_SceneNames = [], sy_FunnelNames = [],
      sy_RouteNames = [], sy_StageNames = [], sy_PageNames = [], sy_FormNames = [],
      sy_SiteNames = [], sy_BadgeNames = [], sy_TagNames = [], sy_TemplateNames = []\<rparr>"

text \<open>The tables that hold declared names, as one family.\<close>

datatype table = StoryT | StorylineT | EnactmentT | SceneT | FunnelT | RouteT | StageT | PageT
  | FormT | SiteT

primrec get_table :: "table \<Rightarrow> SymbolTable \<Rightarrow> Pos gomap" where
  "get_table StoryT s = sy_StoryNames s"
| "get_table StorylineT s = sy_StorylineNames s"
| "get_table EnactmentT s = sy_EnactmentNames s"
| "get_table SceneT s = sy_SceneNames s"
| "get_table FunnelT s = sy_FunnelNames s"
| "get_table RouteT s = sy_RouteNames s"
| "get_table StageT s = sy_StageNames s"
| "get_table PageT s = sy_PageNames s"
| "get_table FormT s = sy_FormNames s"
| "get_table SiteT s = sy_SiteNames s"

primrec map_table :: "table \<Rightarrow> (Pos gomap \<Rightarrow> Pos gomap) \<Rightarrow> SymbolTable \<Rightarrow> SymbolTable" where
  "map_table StoryT f s = s\<lparr>sy_StoryNames := f (sy_StoryNames s)\<rparr>"
| "map_table StorylineT f s = s\<lparr>sy_StorylineNames := f (sy_StorylineNames s)\<rparr>"
| "map_table EnactmentT f s = s\<lparr>sy_EnactmentNames := f (sy_EnactmentNames s)\<rparr>"
| "map_table SceneT f s = s\<lparr>sy_SceneNames := f (sy_SceneNames s)\<rparr>"
| "map_table FunnelT f s = s\<lparr>sy_FunnelNames := f (sy_FunnelNames s)\<rparr>"
| "map_table RouteT f s = s\<lparr>sy_RouteNames := f (sy_RouteNames s)\<rparr>"
| "map_table StageT f s = s\<lparr>sy_StageNames := f (sy_StageNames s)\<rparr>"
| "map_table PageT f s = s\<lparr>sy_PageNames := f (sy_PageNames s)\<rparr>"
| "map_table FormT f s = s\<lparr>sy_FormNames := f (sy_FormNames s)\<rparr>"
| "map_table SiteT f s = s\<lparr>sy_SiteNames := f (sy_SiteNames s)\<rparr>"

type_synonym vstep = "(SymbolTable, Diagnostic) step"

text \<open>
  \<open>if existing, ok := names[key]; ok { v.errorf(...) }; names[key] = pos\<close>: the report has
  the name, the parent where there is one, and the position the key had.
\<close>

definition declareName ::
  "table \<Rightarrow> string \<Rightarrow> Pos \<Rightarrow> string \<Rightarrow> string list \<Rightarrow> vstep" where
  "declareName t key pos fmt names s =
     (map_table t (gomap_put key pos) s,
      case map_of (get_table t s) key of
        None \<Rightarrow> []
      | Some existing \<Rightarrow> [errorAt pos fmt (map AStr names @ [APos existing])])"

definition addBadge :: "string \<Rightarrow> vstep" where
  "addBadge b = updateS (\<lambda>s. s\<lparr>sy_BadgeNames := gomap_put b True (sy_BadgeNames s)\<rparr>)"

definition addTag :: "string \<Rightarrow> vstep" where
  "addTag b = updateS (\<lambda>s. s\<lparr>sy_TagNames := gomap_put b True (sy_TagNames s)\<rparr>)"

definition addTemplate :: "string \<Rightarrow> vstep" where
  "addTemplate b = updateS (\<lambda>s. s\<lparr>sy_TemplateNames := gomap_put b True (sy_TemplateNames s)\<rparr>)"

definition child_key :: "string \<Rightarrow> string \<Rightarrow> string" where
  "child_key parent name = parent @ '':'' @ name"

section \<open>Pass 1: collect names\<close>

definition collectBadgesFromRequiredBadges :: "RequiredBadgesNode option \<Rightarrow> vstep" where
  "collectBadgesFromRequiredBadges rb =
     ifSomeS rb (\<lambda>rb. thenS (forS addBadge (rb_MustHave rb)) (forS addBadge (rb_MustNotHave rb)))"

definition collectBadgesFromBadgeTransaction :: "BadgeTransactionNode \<Rightarrow> vstep" where
  "collectBadgesFromBadgeTransaction bt =
     thenS (forS addBadge (bt_GiveBadges bt)) (forS addBadge (bt_RemoveBadges bt))"

definition collectBadgesFromLifecycle :: "LifecycleBlock option \<Rightarrow> vstep" where
  "collectBadgesFromLifecycle lc =
     ifSomeS lc (\<lambda>lc. ifSomeS (lb_BadgeTransaction lc) collectBadgesFromBadgeTransaction)"

fun collectBadgesFromCondition :: "ConditionNode \<Rightarrow> vstep" where
  "collectBadgesFromCondition (ConditionNode p ctype val children) =
     stepsS
       [if ctype = ''has_badge'' \<or> ctype = ''not_has_badge'' then addBadge val else skipS,
        if ctype = ''has_tag'' \<or> ctype = ''not_has_tag'' then addTag val else skipS,
        stepsS (map collectBadgesFromCondition children)]"

fun collectBadgesFromAction :: "ActionNode \<Rightarrow> vstep" where
  "collectBadgesFromAction (ActionNode p atype tgt im w bt un es mc mf adv rm fallback) =
     thenS (ifSomeS bt collectBadgesFromBadgeTransaction)
       (stepsS (map collectBadgesFromAction fallback))"

definition collectFromTrigger :: "TriggerNode \<Rightarrow> vstep" where
  "collectFromTrigger tr =
     stepsS
       [collectBadgesFromRequiredBadges (tr_RequiredBadges tr),
        forS collectBadgesFromCondition (tr_Conditions tr),
        forS collectBadgesFromAction (tr_Actions tr),
        forS collectBadgesFromAction (tr_ElseActions tr)]"

definition collectScene :: "string \<Rightarrow> EnactmentNode \<Rightarrow> SceneNode \<Rightarrow> vstep" where
  "collectScene enKey en sc =
     stepsS
       [declareName SceneT (child_key enKey (sc_Name sc)) (sc_Pos sc)
          ''duplicate scene name %q in enactment %q (first defined at %s)'' [sc_Name sc, en_Name en],
        forS addTag (sc_Tags sc),
        if sc_TemplateName sc \<noteq> [] then addTemplate (sc_TemplateName sc) else skipS]"

definition collectEnactment :: "string \<Rightarrow> StorylineNode \<Rightarrow> EnactmentNode \<Rightarrow> vstep" where
  "collectEnactment slKey sl en =
     (let enKey = child_key slKey (en_Name en) in
      stepsS
       [declareName EnactmentT enKey (en_Pos en)
          ''duplicate enactment name %q in storyline %q (first defined at %s)'' [en_Name en, sl_Name sl],
        ifSomeS (en_Level en) (\<lambda>l. updateS (\<lambda>s. s\<lparr>sy_EnactmentLevels := gomap_put enKey l (sy_EnactmentLevels s)\<rparr>)),
        ifSomeS (en_Order en) (\<lambda>l. updateS (\<lambda>s. s\<lparr>sy_EnactmentOrders := gomap_put enKey l (sy_EnactmentOrders s)\<rparr>)),
        forS (collectScene enKey en) (en_Scenes en),
        forS collectFromTrigger (en_Triggers en)])"

definition collectStoryline :: "StoryNode \<Rightarrow> StorylineNode \<Rightarrow> vstep" where
  "collectStoryline story sl =
     (let slKey = child_key (st_Name story) (sl_Name sl) in
      stepsS
       [declareName StorylineT slKey (sl_Pos sl)
          ''duplicate storyline name %q in story %q (first defined at %s)'' [sl_Name sl, st_Name story],
        ifSomeS (sl_Order sl) (\<lambda>l. updateS (\<lambda>s. s\<lparr>sy_StorylineOrder := gomap_put slKey l (sy_StorylineOrder s)\<rparr>)),
        collectBadgesFromRequiredBadges (sl_RequiredBadges sl),
        collectBadgesFromLifecycle (sl_OnBegin sl),
        ifSomeS (sl_OnComplete sl) (\<lambda>c. thenS
          (ifSomeS (slc_BadgeTransaction c) collectBadgesFromBadgeTransaction)
          (forS (\<lambda>cr. collectBadgesFromRequiredBadges (crt_RequiredBadges cr)) (slc_ConditionalRoutes c))),
        ifSomeS (sl_OnFail sl) (\<lambda>c. thenS
          (ifSomeS (slf_BadgeTransaction c) collectBadgesFromBadgeTransaction)
          (forS (\<lambda>cr. collectBadgesFromRequiredBadges (crt_RequiredBadges cr)) (slf_ConditionalRoutes c))),
        forS (collectEnactment slKey sl) (sl_Enactments sl)])"

definition collectStory :: "StoryNode \<Rightarrow> vstep" where
  "collectStory story =
     stepsS
       [declareName StoryT (st_Name story) (st_Pos story)
          ''duplicate story name %q (first defined at %s)'' [st_Name story],
        collectBadgesFromRequiredBadges (st_RequiredBadges story),
        collectBadgesFromLifecycle (st_OnBegin story),
        ifSomeS (st_OnComplete story) (\<lambda>c. ifSomeS (oc_BadgeTransaction c) collectBadgesFromBadgeTransaction),
        ifSomeS (st_OnFail story) (\<lambda>c. ifSomeS (ofb_BadgeTransaction c) collectBadgesFromBadgeTransaction),
        ifSomeS (st_StartTrigger story) addBadge,
        ifSomeS (st_CompleteTrigger story) addBadge,
        forS (collectStoryline story) (st_Storylines story)]"

definition collectForm :: "string \<Rightarrow> PageNode \<Rightarrow> FormNode \<Rightarrow> vstep" where
  "collectForm pgKey pg fm =
     declareName FormT (child_key pgKey (fm_Name fm)) (fm_Pos fm)
       ''duplicate form name %q in page %q (first defined at %s)'' [fm_Name fm, pg_Name pg]"

definition collectPage :: "string \<Rightarrow> StageNode \<Rightarrow> PageNode \<Rightarrow> vstep" where
  "collectPage sKey stage pg =
     (let pgKey = child_key sKey (pg_Name pg) in
      thenS
        (declareName PageT pgKey (pg_Pos pg)
          ''duplicate page name %q in stage %q (first defined at %s)'' [pg_Name pg, sg_Name stage])
        (forS (collectForm pgKey pg) (pg_Forms pg)))"

definition collectStage :: "string \<Rightarrow> RouteNode \<Rightarrow> StageNode \<Rightarrow> vstep" where
  "collectStage rKey route stage =
     (let sKey = child_key rKey (sg_Name stage) in
      stepsS
       [declareName StageT sKey (sg_Pos stage)
          ''duplicate stage name %q in route %q (first defined at %s)'' [sg_Name stage, rt_Name route],
        forS (collectPage sKey stage) (sg_Pages stage),
        forS collectFromTrigger (sg_Triggers stage)])"

definition collectRoute :: "FunnelNode \<Rightarrow> RouteNode \<Rightarrow> vstep" where
  "collectRoute funnel route =
     (let rKey = child_key (fn_Name funnel) (rt_Name route) in
      stepsS
       [declareName RouteT rKey (rt_Pos route)
          ''duplicate route name %q in funnel %q (first defined at %s)'' [rt_Name route, fn_Name funnel],
        collectBadgesFromRequiredBadges (rt_RequiredBadges route),
        forS (collectStage rKey route) (rt_Stages route)])"

definition collectFunnel :: "FunnelNode \<Rightarrow> vstep" where
  "collectFunnel funnel =
     thenS
       (declareName FunnelT (fn_Name funnel) (fn_Pos funnel)
          ''duplicate funnel name %q (first defined at %s)'' [fn_Name funnel])
       (forS (collectRoute funnel) (fn_Routes funnel))"

definition collectFunnelNames :: "ScriptAST \<Rightarrow> vstep" where
  "collectFunnelNames ast = forS collectFunnel (ast_Funnels ast)"

definition collectSite :: "SiteNode \<Rightarrow> vstep" where
  "collectSite site =
     thenS
       (declareName SiteT (si_Name site) (si_Pos site)
          ''duplicate site name %q (first defined at %s)'' [si_Name site])
       (forS (\<lambda>pg. declareName PageT (child_key (si_Name site) (pg_Name pg)) (pg_Pos pg)
                ''duplicate page name %q in site %q (first defined at %s)'' [pg_Name pg, si_Name site])
          (si_Pages site))"

definition collectSiteNames :: "ScriptAST \<Rightarrow> vstep" where
  "collectSiteNames ast = forS collectSite (ast_Sites ast)"

definition collectNames :: "ScriptAST \<Rightarrow> vstep" where
  "collectNames ast =
     stepsS [forS collectStory (ast_Stories ast), collectFunnelNames ast, collectSiteNames ast]"

section \<open>Pass 2: resolve references\<close>

definition resolveStoryRef :: "SymbolTable \<Rightarrow> Pos \<Rightarrow> string \<Rightarrow> string \<Rightarrow> Diagnostics" where
  "resolveStoryRef sy pos fmt next =
     (if next \<noteq> [] \<and> \<not> has_key next (sy_StoryNames sy) then [errorAt pos fmt [AStr next]] else [])"

definition resolveStorylineRef ::
  "SymbolTable \<Rightarrow> StoryNode \<Rightarrow> Pos \<Rightarrow> string \<Rightarrow> string \<Rightarrow> Diagnostics" where
  "resolveStorylineRef sy story pos fmt next =
     (if next \<noteq> [] \<and> \<not> has_key (child_key (st_Name story) next) (sy_StorylineNames sy)
      then [errorAt pos fmt [AStr next, AStr (st_Name story)]] else [])"

definition resolveRoute :: "SymbolTable \<Rightarrow> StoryNode \<Rightarrow> ConditionalRouteNode \<Rightarrow> Diagnostics" where
  "resolveRoute sy story cr =
     resolveStorylineRef sy story (crt_Pos cr)
       ''conditional_route references unknown storyline %q in story %q'' (crt_NextStoryline cr)"

definition resolveStorylineCompleteRef :: "SymbolTable \<Rightarrow> StoryNode \<Rightarrow> StorylineNode \<Rightarrow> Diagnostics" where
  "resolveStorylineCompleteRef sy story sl =
     (case sl_OnComplete sl of
        None \<Rightarrow> []
      | Some c \<Rightarrow>
          resolveStorylineRef sy story (slc_Pos c)
            ''on_complete references unknown storyline %q in story %q'' (slc_NextStoryline c)
          @ concat (map (resolveRoute sy story) (slc_ConditionalRoutes c)))"

definition resolveStorylineFailRef :: "SymbolTable \<Rightarrow> StoryNode \<Rightarrow> StorylineNode \<Rightarrow> Diagnostics" where
  "resolveStorylineFailRef sy story sl =
     (case sl_OnFail sl of
        None \<Rightarrow> []
      | Some c \<Rightarrow>
          resolveStorylineRef sy story (slf_Pos c)
            ''on_fail references unknown storyline %q in story %q'' (slf_NextStoryline c)
          @ concat (map (resolveRoute sy story) (slf_ConditionalRoutes c)))"

definition is_enactment_jump :: "string \<Rightarrow> bool" where
  "is_enactment_jump t = List.member [''jump_to_enactment'', ''loop_to_enactment'', ''next_enactment''] t"

definition is_storyline_jump :: "string \<Rightarrow> bool" where
  "is_storyline_jump t = List.member [''jump_to_storyline'', ''loop_to_storyline''] t"

fun resolveTriggerAction :: "SymbolTable \<Rightarrow> StoryNode \<Rightarrow> StorylineNode \<Rightarrow> ActionNode \<Rightarrow> Diagnostics" where
  "resolveTriggerAction sy story sl
     (ActionNode p atype target im w bt un es mc mf adv rm fallback) =
   (if is_enactment_jump atype then
      (if list_ex (\<lambda>en. en_Name en = target) (sl_Enactments sl) then []
       else [errorAt p ''action references unknown enactment %q in storyline %q''
               [AStr target, AStr (sl_Name sl)]])
    else if is_storyline_jump atype then
      (if has_key (child_key (st_Name story) target) (sy_StorylineNames sy) then []
       else [errorAt p ''action references unknown storyline %q in story %q''
               [AStr target, AStr (st_Name story)]])
    else [])
   @ concat (map (resolveTriggerAction sy story sl) fallback)"

definition resolveTriggerActions ::
  "SymbolTable \<Rightarrow> StoryNode \<Rightarrow> StorylineNode \<Rightarrow> ActionNode list \<Rightarrow> Diagnostics" where
  "resolveTriggerActions sy story sl actions =
     concat (map (resolveTriggerAction sy story sl) actions)"

definition resolveStoryline :: "SymbolTable \<Rightarrow> StoryNode \<Rightarrow> StorylineNode \<Rightarrow> Diagnostics" where
  "resolveStoryline sy story sl =
     resolveStorylineCompleteRef sy story sl @ resolveStorylineFailRef sy story sl
     @ concat (map (\<lambda>en. concat (map (\<lambda>tr.
         resolveTriggerActions sy story sl (tr_Actions tr)
         @ resolveTriggerActions sy story sl (tr_ElseActions tr)) (en_Triggers en)))
         (sl_Enactments sl))"

definition resolveStory :: "SymbolTable \<Rightarrow> StoryNode \<Rightarrow> Diagnostics" where
  "resolveStory sy story =
     (case st_OnComplete story of None \<Rightarrow> []
      | Some c \<Rightarrow> resolveStoryRef sy (oc_Pos c) ''on_complete references unknown story %q'' (oc_NextStory c))
     @ (case st_OnFail story of None \<Rightarrow> []
      | Some c \<Rightarrow> resolveStoryRef sy (ofb_Pos c) ''on_fail references unknown story %q'' (ofb_NextStory c))
     @ concat (map (resolveStoryline sy story) (st_Storylines story))"

definition resolveReferences :: "SymbolTable \<Rightarrow> ScriptAST \<Rightarrow> Diagnostics" where
  "resolveReferences sy ast = concat (map (resolveStory sy) (ast_Stories ast))"

section \<open>Pass 3: validate structure\<close>

definition requireName :: "string \<Rightarrow> Pos \<Rightarrow> string \<Rightarrow> Diagnostics" where
  "requireName name pos fmt = (if name = [] then [errorAt pos fmt []] else [])"

text \<open>The maps \<open>orderSeen\<close> and \<open>levelSeen\<close>: number to the last name that had it.\<close>

fun checkSeen ::
  "('a \<Rightarrow> int option) \<Rightarrow> ('a \<Rightarrow> int \<Rightarrow> string \<Rightarrow> Diagnostic) \<Rightarrow> ('a \<Rightarrow> string) \<Rightarrow>
   (int \<times> string) list \<Rightarrow> 'a list \<Rightarrow> Diagnostics" where
  "checkSeen num report name seen [] = []"
| "checkSeen num report name seen (x # xs) =
     (case num x of
        None \<Rightarrow> checkSeen num report name seen xs
      | Some n \<Rightarrow>
          (case map_of seen n of None \<Rightarrow> [] | Some existing \<Rightarrow> [report x n existing])
          @ checkSeen num report name (AList.update n (name x) seen) xs)"

definition validateStoryOrders :: "StoryNode \<Rightarrow> Diagnostics" where
  "validateStoryOrders story =
     checkSeen sl_Order
       (\<lambda>sl n existing. errorAt (sl_Pos sl) ''storyline %q has duplicate order %d (conflicts with %q)''
          [AStr (sl_Name sl), AInt n, AStr existing])
       sl_Name [] (st_Storylines story)"

text \<open>Levels and orders are checked together, enactment by enactment.\<close>

fun checkEnactments ::
  "StorylineNode \<Rightarrow> (int \<times> string) list \<Rightarrow> (int \<times> string) list \<Rightarrow> EnactmentNode list \<Rightarrow> Diagnostics" where
  "checkEnactments sl levels orders [] = []"
| "checkEnactments sl levels orders (en # ens) =
     (case en_Level en of None \<Rightarrow> [] | Some l \<Rightarrow>
        (case map_of levels l of None \<Rightarrow> [] | Some existing \<Rightarrow>
           [errorAt (en_Pos en) ''enactment %q has duplicate level %d (conflicts with %q) in storyline %q''
              [AStr (en_Name en), AInt l, AStr existing, AStr (sl_Name sl)]]))
     @ (case en_Order en of None \<Rightarrow> [] | Some l \<Rightarrow>
        (case map_of orders l of None \<Rightarrow> [] | Some existing \<Rightarrow>
           [errorAt (en_Pos en) ''enactment %q has duplicate order %d (conflicts with %q) in storyline %q''
              [AStr (en_Name en), AInt l, AStr existing, AStr (sl_Name sl)]]))
     @ checkEnactments sl
         (case en_Level en of None \<Rightarrow> levels | Some l \<Rightarrow> AList.update l (en_Name en) levels)
         (case en_Order en of None \<Rightarrow> orders | Some l \<Rightarrow> AList.update l (en_Name en) orders) ens"

definition validateEnactmentOrders :: "StorylineNode \<Rightarrow> Diagnostics" where
  "validateEnactmentOrders sl = checkEnactments sl [] [] (sl_Enactments sl)"

definition validateScene :: "SceneNode \<Rightarrow> Diagnostics" where
  "validateScene sc =
     requireName (sc_Name sc) (sc_Pos sc) ''scene must have a name''
     @ (if sc_Subject sc = [] \<and> sc_TemplateName sc = []
        then [warnAt (sc_Pos sc) ''scene %q has no subject and no template reference'' [AStr (sc_Name sc)]]
        else [])"

definition valid_duration_units :: "string list" where
  "valid_duration_units = [''d'', ''h'', ''m'', ''s'', ''days'', ''hours'', ''minutes'', ''seconds'']"

definition validateDuration :: "DurationNode \<Rightarrow> Diagnostics" where
  "validateDuration d =
     (if du_Amount d \<le> 0
      then [errorAt (du_Pos d) ''duration amount must be positive, got %d'' [AInt (du_Amount d)]] else [])
     @ (if List.member valid_duration_units (du_Unit d) then []
        else [errorAt (du_Pos d) ''invalid duration unit %q'' [AStr (du_Unit d)]])"

definition isRetryAction :: "string \<Rightarrow> bool" where
  "isRetryAction t = List.member [''retry_scene'', ''retry_enactment'', ''loop_to_enactment'',
     ''loop_to_storyline'', ''loop_to_start_enactment'', ''loop_to_start_storyline''] t"

definition valid_action_types :: "string list" where
  "valid_action_types =
     [''next_scene'', ''prev_scene'', ''jump_to_enactment'', ''jump_to_storyline'',
      ''advance_to_next_storyline'', ''end_story'', ''mark_complete'', ''mark_failed'',
      ''unsubscribe'', ''give_badge'', ''remove_badge'', ''retry_scene'', ''retry_enactment'',
      ''loop_to_enactment'', ''loop_to_storyline'', ''loop_to_start_enactment'',
      ''loop_to_start_storyline'', ''wait'', ''send_immediate'', ''next_enactment'',
      ''jump_to_stage'', ''start_story'', ''send_email'', ''redirect'', ''provide_download'']"

fun validateAction :: "ActionNode \<Rightarrow> Diagnostics" where
  "validateAction (ActionNode p atype target im wait bt un es mc mf adv retryMax fallback) =
   (if List.member valid_action_types atype then []
    else [errorAt p ''unknown action type %q'' [AStr atype]])
   @ (if isRetryAction atype then
        (case retryMax of
           None \<Rightarrow> [warnAt p
             (''retry/loop action %q has no up_to bound '' @ [CHR 0xE2, CHR 0x80, CHR 0x94]
              @ '' this may create unbounded loops'') [AStr atype]]
         | Some n \<Rightarrow> (if n \<le> 0 then
             [errorAt p ''retry/loop action %q has non-positive max count %d'' [AStr atype, AInt n]]
             else []))
      else [])
   @ (case wait of None \<Rightarrow> [] | Some d \<Rightarrow> validateDuration d)
   @ concat (map validateAction fallback)"

definition valid_trigger_types :: "string list" where
  "valid_trigger_types =
     [''click'', ''not_click'', ''open'', ''not_open'', ''sent'', ''webhook'', ''nothing'', ''else'',
      ''bounce'', ''spam'', ''unsubscribe'', ''failure'', ''email_validated'', ''user_has_tag'',
      ''badge'', ''submit'', ''abandon'', ''purchase'']"

definition valid_scopes :: "string list" where
  "valid_scopes = [''scene'', ''enactment'', ''storyline'', ''story'', ''forever'']"

definition validateTrigger :: "TriggerNode \<Rightarrow> Diagnostics" where
  "validateTrigger tr =
     (if List.member valid_trigger_types (tr_TriggerType tr) then []
      else [errorAt (tr_Pos tr) ''unknown trigger type %q'' [AStr (tr_TriggerType tr)]])
     @ (if tr_PersistScope tr \<noteq> [] \<and> \<not> List.member valid_scopes (tr_PersistScope tr) then
          [errorAt (tr_Pos tr)
             ''invalid persist_scope %q (must be scene, enactment, storyline, story, or forever)''
             [AStr (tr_PersistScope tr)]] else [])
     @ (if prefix ''not_'' (tr_TriggerType tr) \<and> tr_Within tr = None then
          [warnAt (tr_Pos tr)
             (''negative trigger %q has no '' @ CHR 0x27 # ''within'' @ CHR 0x27 # '' duration ''
              @ [CHR 0xE2, CHR 0x80, CHR 0x94] @ '' this may be unintentional'')
             [AStr (tr_TriggerType tr)]] else [])
     @ (case tr_Within tr of None \<Rightarrow> [] | Some d \<Rightarrow> validateDuration d)
     @ concat (map validateAction (tr_Actions tr))
     @ concat (map validateAction (tr_ElseActions tr))
     @ (if tr_MarkComplete tr \<and> tr_MarkFailed tr
        then [errorAt (tr_Pos tr) ''trigger cannot both mark_complete and mark_failed'' []] else [])"

definition validateEnactment :: "EnactmentNode \<Rightarrow> Diagnostics" where
  "validateEnactment en =
     requireName (en_Name en) (en_Pos en) ''enactment must have a name''
     @ (if en_Scenes en = [] then
          [errorAt (en_Pos en) ''enactment %q must have at least one scene'' [AStr (en_Name en)]] else [])
     @ concat (map validateScene (en_Scenes en))
     @ concat (map validateTrigger (en_Triggers en))"

definition validateStoryline :: "StorylineNode \<Rightarrow> Diagnostics" where
  "validateStoryline sl =
     requireName (sl_Name sl) (sl_Pos sl) ''storyline must have a name''
     @ (if sl_Enactments sl = [] then
          [errorAt (sl_Pos sl) ''storyline %q must have at least one enactment'' [AStr (sl_Name sl)]] else [])
     @ validateEnactmentOrders sl
     @ concat (map validateEnactment (sl_Enactments sl))"

definition validateStory :: "StoryNode \<Rightarrow> Diagnostics" where
  "validateStory story =
     requireName (st_Name story) (st_Pos story) ''story must have a name''
     @ (if st_Storylines story = [] then
          [errorAt (st_Pos story) ''story %q must have at least one storyline'' [AStr (st_Name story)]] else [])
     @ validateStoryOrders story
     @ concat (map validateStoryline (st_Storylines story))"

definition validateFunnelAction :: "ActionNode \<Rightarrow> Diagnostics" where
  "validateFunnelAction action =
     (if List.member [''jump_to_stage'', ''start_story'', ''send_email'', ''redirect'',
           ''provide_download'', ''give_badge'', ''remove_badge'', ''mark_complete''] (ac_ActionType action)
      then []
      else [warnAt (ac_Pos action) ''action type %q may not be applicable in funnel context''
              [AStr (ac_ActionType action)]])"

definition validateFunnelTrigger :: "TriggerNode \<Rightarrow> Diagnostics" where
  "validateFunnelTrigger tr =
     (if List.member [''submit'', ''abandon'', ''purchase'', ''click'', ''webhook'', ''nothing'', ''else'']
           (tr_TriggerType tr)
      then []
      else [warnAt (tr_Pos tr) ''trigger type %q may not be applicable in funnel context''
              [AStr (tr_TriggerType tr)]])
     @ concat (map validateFunnelAction (tr_Actions tr))
     @ concat (map validateFunnelAction (tr_ElseActions tr))"

definition validateStage :: "StageNode \<Rightarrow> Diagnostics" where
  "validateStage stage =
     requireName (sg_Name stage) (sg_Pos stage) ''stage must have a name''
     @ (if sg_Path stage = [] then
          [warnAt (sg_Pos stage) ''stage %q has no path defined'' [AStr (sg_Name stage)]] else [])
     @ concat (map (\<lambda>pg. requireName (pg_Name pg) (pg_Pos pg) ''page must have a name'') (sg_Pages stage))
     @ concat (map validateFunnelTrigger (sg_Triggers stage))"

definition validateRoute :: "RouteNode \<Rightarrow> Diagnostics" where
  "validateRoute route =
     requireName (rt_Name route) (rt_Pos route) ''route must have a name''
     @ (if rt_Stages route = [] then
          [errorAt (rt_Pos route) ''route %q must have at least one stage'' [AStr (rt_Name route)]] else [])
     @ concat (map validateStage (rt_Stages route))"

definition validateFunnelStructure :: "ScriptAST \<Rightarrow> Diagnostics" where
  "validateFunnelStructure ast =
     concat (map (\<lambda>funnel.
       requireName (fn_Name funnel) (fn_Pos funnel) ''funnel must have a name''
       @ (if fn_Routes funnel = [] then
            [errorAt (fn_Pos funnel) ''funnel %q must have at least one route'' [AStr (fn_Name funnel)]] else [])
       @ concat (map validateRoute (fn_Routes funnel))) (ast_Funnels ast))"

definition validateSiteStructure :: "ScriptAST \<Rightarrow> Diagnostics" where
  "validateSiteStructure ast =
     concat (map (\<lambda>site.
       requireName (si_Name site) (si_Pos site) ''site must have a name''
       @ (if si_Pages site = [] then
            [warnAt (si_Pos site) ''site %q has no pages defined'' [AStr (si_Name site)]] else [])
       @ concat (map (\<lambda>pg. requireName (pg_Name pg) (pg_Pos pg) ''page must have a name'') (si_Pages site)))
       (ast_Sites ast))"

definition validateStructure :: "ScriptAST \<Rightarrow> Diagnostics" where
  "validateStructure ast =
     concat (map validateStory (ast_Stories ast))
     @ validateFunnelStructure ast @ validateSiteStructure ast"

definition Validate :: "ScriptAST \<Rightarrow> SymbolTable \<times> Diagnostics" where
  "Validate ast =
     (let (symbols, ds1) = collectNames ast newSymbolTable in
      (symbols, ds1 @ resolveReferences symbols ast @ validateStructure ast))"

section \<open>What pass 1 declares\<close>

definition keys :: "table \<Rightarrow> SymbolTable \<Rightarrow> string set" where
  "keys t s = {k. has_key k (get_table t s)}"

text \<open>
  \<open>declares f K\<close>: the step \<open>f\<close> adds the keys \<open>K t\<close> to each table \<open>t\<close> and reports an
  error exactly when one of them was there before or comes twice.
\<close>

definition declares :: "vstep \<Rightarrow> (table \<Rightarrow> string list) \<Rightarrow> bool" where
  "declares f K \<longleftrightarrow>
     (\<forall>s. (\<forall>t. keys t (fst (f s)) = keys t s \<union> set (K t))
          \<and> (HasErrors (snd (f s)) \<longleftrightarrow> (\<exists>t. \<not> distinct (K t) \<or> set (K t) \<inter> keys t s \<noteq> {})))"

named_theorems declared_steps

lemma declares_skip [declared_steps]: "declares skipS (\<lambda>_. [])"
  by (simp add: declares_def skipS_def)

lemma declares_update:
  "(\<And>s t. get_table t (g s) = get_table t s) \<Longrightarrow> declares (updateS g) (\<lambda>_. [])"
  by (simp add: declares_def updateS_def keys_def)

lemma declares_add [declared_steps]:
  "declares (addBadge b) (\<lambda>_. [])" "declares (addTag b) (\<lambda>_. [])" "declares (addTemplate b) (\<lambda>_. [])"
  unfolding addBadge_def addTag_def addTemplate_def
  by (rule declares_update, case_tac t, simp_all)+

lemma get_map_table: "get_table t' (map_table t f s) = (if t' = t then f (get_table t s) else get_table t' s)"
  by (cases t; cases t') simp_all

lemma declares_declareName:
  "declares (declareName t k p fmt ns) (\<lambda>t'. if t' = t then [k] else [])"
  unfolding declares_def
proof (intro allI conjI)
  fix s t'
  show "keys t' (fst (declareName t k p fmt ns s)) = keys t' s \<union> set (if t' = t then [k] else [])"
    by (auto simp: declareName_def keys_def get_map_table)
next
  fix s
  have "HasErrors (snd (declareName t k p fmt ns s)) \<longleftrightarrow> k \<in> keys t s"
    by (auto simp: declareName_def keys_def has_key_def split: option.splits)
  then show "HasErrors (snd (declareName t k p fmt ns s))
    \<longleftrightarrow> (\<exists>t'. \<not> distinct (if t' = t then [k] else []) \<or> set (if t' = t then [k] else []) \<inter> keys t' s \<noteq> {})"
    by auto
qed

lemma declares_then:
  assumes "declares f K" and "declares g L"
  shows "declares (thenS f g) (\<lambda>t. K t @ L t)"
  unfolding declares_def
proof (intro allI conjI)
  fix s t
  have g: "keys t (fst (g (fst (f s)))) = keys t s \<union> set (K t) \<union> set (L t)" for t
    using assms by (simp add: declares_def)
  then show "keys t (fst (thenS f g s)) = keys t s \<union> set (K t @ L t)"
    by (simp add: thenS_def split_beta Un_assoc)
next
  fix s
  have "HasErrors (snd (g (fst (f s))))
      \<longleftrightarrow> (\<exists>t. \<not> distinct (L t) \<or> set (L t) \<inter> (keys t s \<union> set (K t)) \<noteq> {})"
    using assms by (simp add: declares_def)
  moreover have "HasErrors (snd (f s)) \<longleftrightarrow> (\<exists>t. \<not> distinct (K t) \<or> set (K t) \<inter> keys t s \<noteq> {})"
    using assms by (simp add: declares_def)
  ultimately show "HasErrors (snd (thenS f g s))
      \<longleftrightarrow> (\<exists>t. \<not> distinct (K t @ L t) \<or> set (K t @ L t) \<inter> keys t s \<noteq> {})"
    by (simp add: thenS_def split_beta) blast
qed

text \<open>Steps that declare nothing stay so under the combinators.\<close>

lemma silent_then [declared_steps]:
  "declares f (\<lambda>_. []) \<Longrightarrow> declares g (\<lambda>_. []) \<Longrightarrow> declares (thenS f g) (\<lambda>_. [])"
  using declares_then [of f "\<lambda>_. []" g "\<lambda>_. []"] by simp

lemma silent_steps:
  "(\<And>f. f \<in> set fs \<Longrightarrow> declares f (\<lambda>_. [])) \<Longrightarrow> declares (stepsS fs) (\<lambda>_. [])"
  by (induction fs) (simp_all add: declared_steps)

lemma silent_for [declared_steps]:
  "(\<And>x. declares (f x) (\<lambda>_. [])) \<Longrightarrow> declares (forS f xs) (\<lambda>_. [])"
  unfolding forS_def by (rule silent_steps) auto

lemma silent_ifSome [declared_steps]:
  "(\<And>x. declares (f x) (\<lambda>_. [])) \<Longrightarrow> declares (ifSomeS m f) (\<lambda>_. [])"
  by (simp add: ifSomeS_def declared_steps split: option.splits)

lemma silent_badges [declared_steps]:
  "declares (collectBadgesFromRequiredBadges rb) (\<lambda>_. [])"
  "declares (collectBadgesFromBadgeTransaction bt) (\<lambda>_. [])"
  "declares (collectBadgesFromLifecycle lc) (\<lambda>_. [])"
  unfolding collectBadgesFromRequiredBadges_def collectBadgesFromLifecycle_def
    collectBadgesFromBadgeTransaction_def
  by (intro declared_steps)+

lemma silent_condition [declared_steps]: "declares (collectBadgesFromCondition c) (\<lambda>_. [])"
proof (induction c rule: collectBadgesFromCondition.induct)
  case (1 p ctype val children)
  then have "declares (stepsS (map collectBadgesFromCondition children)) (\<lambda>_. [])"
    by (intro silent_steps) auto
  then show ?case
    by (simp add: declared_steps)
qed

lemma silent_action [declared_steps]: "declares (collectBadgesFromAction a) (\<lambda>_. [])"
proof (induction a rule: collectBadgesFromAction.induct)
  case (1 p atype tgt im w bt un es mc mf adv rm fallback)
  then have "declares (stepsS (map collectBadgesFromAction fallback)) (\<lambda>_. [])"
    by (intro silent_steps) auto
  then show ?case
    by (simp add: declared_steps)
qed

lemma silent_trigger [declared_steps]: "declares (collectFromTrigger tr) (\<lambda>_. [])"
  by (simp add: collectFromTrigger_def declared_steps)

lemma declares_for:
  "(\<And>x. declares (f x) (K x)) \<Longrightarrow> declares (forS f xs) (\<lambda>t. concat (map (\<lambda>x. K x t) xs))"
proof (induction xs)
  case (Cons x xs)
  then show ?case using declares_then [of "f x" "K x" "forS f xs"] by simp
qed (simp add: declared_steps)

lemma declares_silent_then:
  "declares f (\<lambda>_. []) \<Longrightarrow> declares g K \<Longrightarrow> declares (thenS f g) K"
  "declares f K \<Longrightarrow> declares g (\<lambda>_. []) \<Longrightarrow> declares (thenS f g) K"
  using declares_then [of f "\<lambda>_. []" g K] declares_then [of f K g "\<lambda>_. []"] by simp_all

text \<open>The nodes below some keyed parents, with the keys the code builds for them.\<close>

definition children :: "('c \<Rightarrow> string) \<Rightarrow> ('p \<Rightarrow> 'c list) \<Rightarrow> (string \<times> 'p) list \<Rightarrow> (string \<times> 'c) list" where
  "children name kids ps =
     concat (map (\<lambda>(k, p). map (\<lambda>c. (child_key k (name c), c)) (kids p)) ps)"

lemma children_simps [simp]:
  "children name kids [] = []"
  "children name kids (kp # ps)
     = map (\<lambda>c. (child_key (fst kp) (name c), c)) (kids (snd kp)) @ children name kids ps"
  "children name kids (ps @ qs) = children name kids ps @ children name kids qs"
  by (simp_all add: children_def split_beta)

abbreviation enactment_kids where "enactment_kids \<equiv> children en_Name sl_Enactments"
abbreviation storyline_kids where "storyline_kids \<equiv> children sl_Name st_Storylines"
abbreviation scene_kids where "scene_kids \<equiv> children sc_Name en_Scenes"
abbreviation route_kids where "route_kids \<equiv> children rt_Name fn_Routes"
abbreviation stage_kids where "stage_kids \<equiv> children sg_Name rt_Stages"
abbreviation page_kids where "page_kids \<equiv> children pg_Name sg_Pages"
abbreviation form_kids where "form_kids \<equiv> children fm_Name pg_Forms"
abbreviation site_page_kids where "site_page_kids \<equiv> children pg_Name si_Pages"

text \<open>The keys of an enactment and what is below it, and so on upwards.\<close>

definition enactment_part :: "(string \<times> EnactmentNode) list \<Rightarrow> table \<Rightarrow> string list" where
  "enactment_part ps t =
     (if t = EnactmentT then map fst ps else if t = SceneT then map fst (scene_kids ps) else [])"

definition storyline_part :: "(string \<times> StorylineNode) list \<Rightarrow> table \<Rightarrow> string list" where
  "storyline_part ps t =
     (if t = StorylineT then map fst ps else enactment_part (enactment_kids ps) t)"

definition page_part :: "(string \<times> PageNode) list \<Rightarrow> table \<Rightarrow> string list" where
  "page_part ps t =
     (if t = PageT then map fst ps else if t = FormT then map fst (form_kids ps) else [])"

definition stage_part :: "(string \<times> StageNode) list \<Rightarrow> table \<Rightarrow> string list" where
  "stage_part ps t = (if t = StageT then map fst ps else page_part (page_kids ps) t)"

definition route_part :: "(string \<times> RouteNode) list \<Rightarrow> table \<Rightarrow> string list" where
  "route_part ps t = (if t = RouteT then map fst ps else stage_part (stage_kids ps) t)"

definition story_part :: "(string \<times> StoryNode) list \<Rightarrow> table \<Rightarrow> string list" where
  "story_part ps t = (if t = StoryT then map fst ps else storyline_part (storyline_kids ps) t)"

definition funnel_part :: "(string \<times> FunnelNode) list \<Rightarrow> table \<Rightarrow> string list" where
  "funnel_part ps t = (if t = FunnelT then map fst ps else route_part (route_kids ps) t)"

definition site_part :: "(string \<times> SiteNode) list \<Rightarrow> table \<Rightarrow> string list" where
  "site_part ps t =
     (if t = SiteT then map fst ps else if t = PageT then map fst (site_page_kids ps) else [])"

lemmas part_defs = enactment_part_def storyline_part_def story_part_def page_part_def stage_part_def
  route_part_def funnel_part_def site_part_def

lemma declares_parts:
  assumes "declares f K" and "\<And>t. K t = L t"
  shows "declares f L"
proof -
  have "K = L" using assms(2) by (rule ext)
  with assms(1) show ?thesis by simp
qed

lemma concat_singleton_if: "concat (map (\<lambda>x. if b then [f x] else []) xs) = (if b then map f xs else [])"
  by (induction xs) auto

lemma declares_scenes:
  "declares (forS (collectScene k en) scs)
     (\<lambda>t. if t = SceneT then map (\<lambda>sc. child_key k (sc_Name sc)) scs else [])"
proof -
  have "declares (collectScene k en sc) (\<lambda>t. if t = SceneT then [child_key k (sc_Name sc)] else [])" for sc
    unfolding collectScene_def stepsS.simps
    by (rule declares_silent_then(2) [OF declares_declareName]) (simp add: declared_steps)
  from declares_for [of "collectScene k en", OF this] show ?thesis
    by (rule declares_parts) (simp add: concat_singleton_if)
qed

lemma declares_enactment:
  "declares (collectEnactment k sl en) (enactment_part [(child_key k (en_Name en), en)])"
proof -
  let ?k = "child_key k (en_Name en)"
  have silent: "declares (ifSomeS (en_Level en) (\<lambda>l. updateS (\<lambda>s. s\<lparr>sy_EnactmentLevels := gomap_put ?k l (sy_EnactmentLevels s)\<rparr>))) (\<lambda>_. [])"
    "declares (ifSomeS (en_Order en) (\<lambda>l. updateS (\<lambda>s. s\<lparr>sy_EnactmentOrders := gomap_put ?k l (sy_EnactmentOrders s)\<rparr>))) (\<lambda>_. [])"
    by (rule silent_ifSome, rule declares_update, case_tac t, simp_all)+
  show ?thesis
    unfolding collectEnactment_def Let_def stepsS.simps
    by (rule declares_parts, rule declares_then, rule declares_declareName,
        rule declares_silent_then(1) [OF silent(1)], rule declares_silent_then(1) [OF silent(2)],
        rule declares_silent_then(2) [OF declares_scenes])
      (simp_all add: declared_steps enactment_part_def)
qed

text \<open>The parts distribute over the lists of parents.\<close>

lemma part_Nil:
  "enactment_part [] t = []" "storyline_part [] t = []" "page_part [] t = []" "stage_part [] t = []"
  "route_part [] t = []" "story_part [] t = []" "funnel_part [] t = []" "site_part [] t = []"
  by (simp_all add: part_defs)

lemma part_append:
  "enactment_part (ps @ qs) t = enactment_part ps t @ enactment_part qs t"
  "storyline_part (ss @ ss') t = storyline_part ss t @ storyline_part ss' t"
  "story_part (xs @ xs') t = story_part xs t @ story_part xs' t"
  "page_part (ps1 @ qs1) t = page_part ps1 t @ page_part qs1 t"
  "stage_part (ps2 @ qs2) t = stage_part ps2 t @ stage_part qs2 t"
  "route_part (ps3 @ qs3) t = route_part ps3 t @ route_part qs3 t"
  "funnel_part (ps4 @ qs4) t = funnel_part ps4 t @ funnel_part qs4 t"
  "site_part (ps5 @ qs5) t = site_part ps5 t @ site_part qs5 t"
  by (simp_all add: part_defs)

lemma concat_part:
  assumes "part [] t = []" and "\<And>ps qs. part (ps @ qs) t = part ps t @ part qs t"
  shows "concat (map (\<lambda>x. part [f x] t) xs) = part (map f xs) t"
proof (induction xs)
  case (Cons x xs)
  have "part (f x # map f xs) t = part [f x] t @ part (map f xs) t"
    using assms(2) [of "[f x]" "map f xs"] by simp
  with Cons show ?case by simp
qed (simp add: assms(1))

lemmas concat_parts =
  concat_part [of enactment_part, OF part_Nil(1) part_append(1)]
  concat_part [of storyline_part, OF part_Nil(2) part_append(2)]
  concat_part [of page_part, OF part_Nil(3) part_append(4)]
  concat_part [of stage_part, OF part_Nil(4) part_append(5)]
  concat_part [of route_part, OF part_Nil(5) part_append(6)]
  concat_part [of story_part, OF part_Nil(6) part_append(3)]
  concat_part [of funnel_part, OF part_Nil(7) part_append(7)]
  concat_part [of site_part, OF part_Nil(8) part_append(8)]

lemma declares_storyline:
  "declares (collectStoryline st sl) (storyline_part [(child_key (st_Name st) (sl_Name sl), sl)])"
proof -
  let ?k = "child_key (st_Name st) (sl_Name sl)"
  have silent: "declares (ifSomeS (sl_Order sl) (\<lambda>l. updateS (\<lambda>s. s\<lparr>sy_StorylineOrder := gomap_put ?k l (sy_StorylineOrder s)\<rparr>))) (\<lambda>_. [])"
    by (rule silent_ifSome, rule declares_update, case_tac t, simp_all)
  have ens: "declares (forS (collectEnactment ?k sl) (sl_Enactments sl))
      (enactment_part (map (\<lambda>en. (child_key ?k (en_Name en), en)) (sl_Enactments sl)))"
    by (rule declares_parts, rule declares_for, rule declares_enactment)
      (simp add: concat_parts)
  show ?thesis
    unfolding collectStoryline_def Let_def stepsS.simps
    by (rule declares_parts, rule declares_then, rule declares_declareName,
        rule declares_silent_then(1) [OF silent], (rule declares_silent_then(1), (intro declared_steps; fail)[1])+,
        rule declares_silent_then(2) [OF ens])
      (simp_all add: declared_steps storyline_part_def enactment_part_def)
qed

lemma declares_story: "declares (collectStory st) (story_part [(st_Name st, st)])"
proof -
  have sls: "declares (forS (collectStoryline st) (st_Storylines st))
      (storyline_part (map (\<lambda>sl. (child_key (st_Name st) (sl_Name sl), sl)) (st_Storylines st)))"
    by (rule declares_parts, rule declares_for, rule declares_storyline) (simp add: concat_parts)
  show ?thesis
    unfolding collectStory_def stepsS.simps
    by (rule declares_parts, rule declares_then, rule declares_declareName,
        (rule declares_silent_then(1), (intro declared_steps; fail)[1])+,
        rule declares_silent_then(2) [OF sls])
      (simp_all add: declared_steps part_defs)
qed

lemma declares_page: "declares (collectPage k stage pg) (page_part [(child_key k (pg_Name pg), pg)])"
proof -
  have forms: "declares (forS (collectForm pk pg) (pg_Forms pg))
      (\<lambda>t. if t = FormT then map (\<lambda>fm. child_key pk (fm_Name fm)) (pg_Forms pg) else [])" for pk
    by (rule declares_parts, rule declares_for, unfold collectForm_def, rule declares_declareName)
      (simp add: concat_singleton_if)
  show ?thesis
    unfolding collectPage_def Let_def
    by (rule declares_parts, rule declares_then [OF declares_declareName forms])
      (simp add: part_defs)
qed

lemma declares_stage: "declares (collectStage k route sg) (stage_part [(child_key k (sg_Name sg), sg)])"
proof -
  have pages: "declares (forS (collectPage pk sg) (sg_Pages sg))
      (page_part (map (\<lambda>pg. (child_key pk (pg_Name pg), pg)) (sg_Pages sg)))" for pk
    by (rule declares_parts, rule declares_for, rule declares_page) (simp add: concat_parts)
  show ?thesis
    unfolding collectStage_def Let_def stepsS.simps
    by (rule declares_parts, rule declares_then, rule declares_declareName,
        rule declares_silent_then(2) [OF pages])
      (simp_all add: declared_steps part_defs)
qed

lemma declares_route: "declares (collectRoute fn rt) (route_part [(child_key (fn_Name fn) (rt_Name rt), rt)])"
proof -
  have stages: "declares (forS (collectStage pk rt) (rt_Stages rt))
      (stage_part (map (\<lambda>sg. (child_key pk (sg_Name sg), sg)) (rt_Stages rt)))" for pk
    by (rule declares_parts, rule declares_for, rule declares_stage) (simp add: concat_parts)
  show ?thesis
    unfolding collectRoute_def Let_def stepsS.simps
    by (rule declares_parts, rule declares_then, rule declares_declareName,
        (rule declares_silent_then(1), (intro declared_steps; fail)[1])+,
        rule declares_silent_then(2) [OF stages])
      (simp_all add: declared_steps part_defs)
qed

lemma declares_funnel: "declares (collectFunnel fn) (funnel_part [(fn_Name fn, fn)])"
proof -
  have routes: "declares (forS (collectRoute fn) (fn_Routes fn))
      (route_part (map (\<lambda>rt. (child_key (fn_Name fn) (rt_Name rt), rt)) (fn_Routes fn)))"
    by (rule declares_parts, rule declares_for, rule declares_route) (simp add: concat_parts)
  show ?thesis
    unfolding collectFunnel_def
    by (rule declares_parts, rule declares_then [OF declares_declareName routes])
      (simp add: part_defs)
qed

lemma declares_site: "declares (collectSite si) (site_part [(si_Name si, si)])"
  unfolding collectSite_def
  by (rule declares_parts, rule declares_then [OF declares_declareName declares_for],
      rule declares_declareName)
    (simp add: part_defs concat_singleton_if)

definition named_stories :: "ScriptAST \<Rightarrow> (string \<times> StoryNode) list" where
  "named_stories ast = map (\<lambda>st. (st_Name st, st)) (ast_Stories ast)"

definition named_funnels :: "ScriptAST \<Rightarrow> (string \<times> FunnelNode) list" where
  "named_funnels ast = map (\<lambda>fn. (fn_Name fn, fn)) (ast_Funnels ast)"

definition named_sites :: "ScriptAST \<Rightarrow> (string \<times> SiteNode) list" where
  "named_sites ast = map (\<lambda>si. (si_Name si, si)) (ast_Sites ast)"

definition declared :: "ScriptAST \<Rightarrow> table \<Rightarrow> string list" where
  "declared ast t =
     story_part (named_stories ast) t @ funnel_part (named_funnels ast) t @ site_part (named_sites ast) t"

lemma declares_collectNames: "declares (collectNames ast) (declared ast)"
proof -
  have stories: "declares (forS collectStory (ast_Stories ast)) (story_part (named_stories ast))"
    by (rule declares_parts, rule declares_for, rule declares_story)
      (simp add: concat_parts named_stories_def)
  have funnels: "declares (collectFunnelNames ast) (funnel_part (named_funnels ast))"
    unfolding collectFunnelNames_def
    by (rule declares_parts, rule declares_for, rule declares_funnel)
      (simp add: concat_parts named_funnels_def)
  have sites: "declares (collectSiteNames ast) (site_part (named_sites ast))"
    unfolding collectSiteNames_def
    by (rule declares_parts, rule declares_for, rule declares_site)
      (simp add: concat_parts named_sites_def)
  show ?thesis
    unfolding collectNames_def stepsS.simps
    by (rule declares_parts,
        rule declares_then [OF stories declares_then [OF funnels declares_silent_then(2) [OF sites declares_skip]]])
      (simp add: declared_def)
qed

lemma keys_new: "keys t newSymbolTable = {}"
  by (cases t) (simp_all add: keys_def newSymbolTable_def)

lemma keys_collectNames: "keys t (fst (collectNames ast newSymbolTable)) = set (declared ast t)"
  using declares_collectNames [of ast] by (simp add: declares_def keys_new)

lemma collectNames_reports:
  "HasErrors (snd (collectNames ast newSymbolTable)) \<longleftrightarrow> \<not> (\<forall>t. distinct (declared ast t))"
  using declares_collectNames [of ast] by (simp add: declares_def keys_new)

section \<open>Names without colons\<close>

definition no_colon :: "string \<Rightarrow> bool" where
  "no_colon n \<longleftrightarrow> CHR '':'' \<notin> set n"

lemma child_key_first:
  "no_colon p \<Longrightarrow> no_colon p' \<Longrightarrow> child_key p n = child_key p' n' \<longleftrightarrow> p = p' \<and> n = n'"
  by (simp add: child_key_def no_colon_def sep_inject)

lemma child_key_last:
  assumes "no_colon n" and "no_colon n'"
  shows "child_key p n = child_key p' n' \<longleftrightarrow> p = p' \<and> n = n'"
proof -
  have "child_key p n = child_key p' n' \<longleftrightarrow> rev n @ CHR '':'' # rev p = rev n' @ CHR '':'' # rev p'"
    unfolding child_key_def by (metis append.assoc append_Cons append_Nil rev_append rev_rev_ident rev_singleton_conv)
  with assms show ?thesis by (auto simp: no_colon_def sep_inject)
qed

lemma children_set:
  "kc \<in> set (children name kids ps)
   \<longleftrightarrow> (\<exists>kp\<in>set ps. \<exists>c\<in>set (kids (snd kp)). kc = (child_key (fst kp) (name c), c))"
  by (auto simp: children_def image_iff split: prod.splits) force+

lemma children_distinct:
  assumes "distinct (map fst ps)"
    and "list_all (\<lambda>p. list_all (\<lambda>c. no_colon (name c)) (kids p)) (map snd ps)"
  shows "distinct (map fst (children name kids ps))
     \<longleftrightarrow> list_all (\<lambda>p. distinct (map name (kids p))) (map snd ps)"
  using assms
proof (induction ps)
  case (Cons kp ps)
  have nc: "no_colon (name c)" if "c \<in> set (kids (snd kq))" "kq \<in> set (kp # ps)" for kq c
    using Cons.prems(2) that by (auto simp: list_all_iff)
  have own: "distinct (map (\<lambda>c. child_key (fst kp) (name c)) (kids (snd kp)))
      \<longleftrightarrow> distinct (map name (kids (snd kp)))"
    using nc [of _ kp] by (auto simp: distinct_map inj_on_def child_key_last)
  have "child_key (fst kp) (name c) \<noteq> fst kc"
    if c: "c \<in> set (kids (snd kp))" and kc: "kc \<in> set (children name kids ps)" for c kc
  proof -
    obtain kq d where "kq \<in> set ps" "d \<in> set (kids (snd kq))" "kc = (child_key (fst kq) (name d), d)"
      using kc by (auto simp: children_set)
    moreover from this Cons.prems(1) have "fst kp \<noteq> fst kq" by force
    ultimately show ?thesis
      using c nc [of c kp] nc [of d kq] by (simp add: child_key_last)
  qed
  then have "(\<lambda>c. child_key (fst kp) (name c)) ` set (kids (snd kp)) \<inter> fst ` set (children name kids ps) = {}"
    by auto
  moreover have "distinct (map fst (children name kids ps))
      \<longleftrightarrow> list_all (\<lambda>p. distinct (map name (kids p))) (map snd ps)"
    by (rule Cons.IH) (use Cons.prems in auto)
  ultimately show ?case using own by (simp add: comp_def)
qed simp

lemma list_all_children:
  "list_all P (map snd (children name kids ps)) \<longleftrightarrow> list_all (\<lambda>p. list_all P (kids p)) (map snd ps)"
  by (induction ps) (auto simp: list_all_iff)

section \<open>Well-formed scripts\<close>

text \<open>
  What a script has to satisfy, written over the tree and without symbol tables: names are
  different among siblings, references name a sibling story, storyline or enactment, every
  level has children, orders and levels are different, and triggers, actions and durations
  are of the known kinds. An action is judged together with all of its nested fallbacks.
\<close>

fun all_actions :: "ActionNode \<Rightarrow> ActionNode list" where
  "all_actions (ActionNode p atype tgt im w bt un es mc mf adv rm fallback) =
     ActionNode p atype tgt im w bt un es mc mf adv rm fallback # concat (map all_actions fallback)"

definition duration_ok :: "DurationNode \<Rightarrow> bool" where
  "duration_ok d \<longleftrightarrow> 0 < du_Amount d \<and> List.member valid_duration_units (du_Unit d)"

definition action_ok :: "ActionNode \<Rightarrow> bool" where
  "action_ok a \<longleftrightarrow>
     List.member valid_action_types (ac_ActionType a)
     \<and> (isRetryAction (ac_ActionType a) \<longrightarrow> (case ac_RetryMaxCount a of None \<Rightarrow> True | Some n \<Rightarrow> 0 < n))
     \<and> (case ac_Wait a of None \<Rightarrow> True | Some d \<Rightarrow> duration_ok d)"

definition jump_ok :: "StoryNode \<Rightarrow> StorylineNode \<Rightarrow> ActionNode \<Rightarrow> bool" where
  "jump_ok story sl a \<longleftrightarrow>
     (is_enactment_jump (ac_ActionType a) \<longrightarrow> List.member (map en_Name (sl_Enactments sl)) (ac_Target a))
     \<and> (is_storyline_jump (ac_ActionType a) \<longrightarrow> List.member (map sl_Name (st_Storylines story)) (ac_Target a))"

definition trigger_ok :: "StoryNode \<Rightarrow> StorylineNode \<Rightarrow> TriggerNode \<Rightarrow> bool" where
  "trigger_ok story sl tr \<longleftrightarrow>
     List.member valid_trigger_types (tr_TriggerType tr)
     \<and> (tr_PersistScope tr = [] \<or> List.member valid_scopes (tr_PersistScope tr))
     \<and> (case tr_Within tr of None \<Rightarrow> True | Some d \<Rightarrow> duration_ok d)
     \<and> \<not> (tr_MarkComplete tr \<and> tr_MarkFailed tr)
     \<and> list_all (\<lambda>a. list_all (\<lambda>b. action_ok b \<and> jump_ok story sl b) (all_actions a))
         (tr_Actions tr @ tr_ElseActions tr)"

definition numbers :: "('a \<Rightarrow> int option) \<Rightarrow> 'a list \<Rightarrow> int list" where
  "numbers f xs = List.map_filter f xs"

definition next_ok :: "string list \<Rightarrow> string \<Rightarrow> bool" where
  "next_ok names next \<longleftrightarrow> next = [] \<or> List.member names next"

definition nexts_ok :: "StoryNode \<Rightarrow> StorylineNode \<Rightarrow> bool" where
  "nexts_ok story sl \<longleftrightarrow>
     (let next = next_ok (map sl_Name (st_Storylines story)) in
      (case sl_OnComplete sl of None \<Rightarrow> True
       | Some c \<Rightarrow> next (slc_NextStoryline c)
           \<and> list_all (\<lambda>cr. next (crt_NextStoryline cr)) (slc_ConditionalRoutes c))
      \<and> (case sl_OnFail sl of None \<Rightarrow> True
       | Some c \<Rightarrow> next (slf_NextStoryline c)
           \<and> list_all (\<lambda>cr. next (crt_NextStoryline cr)) (slf_ConditionalRoutes c)))"

definition wf_enactment :: "StoryNode \<Rightarrow> StorylineNode \<Rightarrow> EnactmentNode \<Rightarrow> bool" where
  "wf_enactment story sl en \<longleftrightarrow>
     en_Name en \<noteq> [] \<and> en_Scenes en \<noteq> []
     \<and> list_all (\<lambda>sc. sc_Name sc \<noteq> []) (en_Scenes en) \<and> distinct (map sc_Name (en_Scenes en))
     \<and> list_all (trigger_ok story sl) (en_Triggers en)"

definition wf_storyline :: "StoryNode \<Rightarrow> StorylineNode \<Rightarrow> bool" where
  "wf_storyline story sl \<longleftrightarrow>
     sl_Name sl \<noteq> [] \<and> sl_Enactments sl \<noteq> [] \<and> distinct (map en_Name (sl_Enactments sl))
     \<and> distinct (numbers en_Level (sl_Enactments sl)) \<and> distinct (numbers en_Order (sl_Enactments sl))
     \<and> nexts_ok story sl
     \<and> list_all (wf_enactment story sl) (sl_Enactments sl)"

definition story_nexts_ok :: "ScriptAST \<Rightarrow> StoryNode \<Rightarrow> bool" where
  "story_nexts_ok ast story \<longleftrightarrow>
     (let next = next_ok (map st_Name (ast_Stories ast)) in
      (case st_OnComplete story of None \<Rightarrow> True | Some c \<Rightarrow> next (oc_NextStory c))
      \<and> (case st_OnFail story of None \<Rightarrow> True | Some c \<Rightarrow> next (ofb_NextStory c)))"

definition wf_story :: "ScriptAST \<Rightarrow> StoryNode \<Rightarrow> bool" where
  "wf_story ast story \<longleftrightarrow>
     st_Name story \<noteq> [] \<and> st_Storylines story \<noteq> [] \<and> distinct (map sl_Name (st_Storylines story))
     \<and> distinct (numbers sl_Order (st_Storylines story))
     \<and> story_nexts_ok ast story
     \<and> list_all (wf_storyline story) (st_Storylines story)"

definition wf_page :: "PageNode \<Rightarrow> bool" where
  "wf_page pg \<longleftrightarrow> pg_Name pg \<noteq> [] \<and> distinct (map fm_Name (pg_Forms pg))"

definition wf_stage :: "StageNode \<Rightarrow> bool" where
  "wf_stage sg \<longleftrightarrow>
     sg_Name sg \<noteq> [] \<and> distinct (map pg_Name (sg_Pages sg)) \<and> list_all wf_page (sg_Pages sg)"

definition wf_route :: "RouteNode \<Rightarrow> bool" where
  "wf_route rt \<longleftrightarrow>
     rt_Name rt \<noteq> [] \<and> rt_Stages rt \<noteq> [] \<and> distinct (map sg_Name (rt_Stages rt))
     \<and> list_all wf_stage (rt_Stages rt)"

definition wf_funnel :: "FunnelNode \<Rightarrow> bool" where
  "wf_funnel fn \<longleftrightarrow>
     fn_Name fn \<noteq> [] \<and> fn_Routes fn \<noteq> [] \<and> distinct (map rt_Name (fn_Routes fn))
     \<and> list_all wf_route (fn_Routes fn)"

definition wf_site :: "SiteNode \<Rightarrow> bool" where
  "wf_site si \<longleftrightarrow>
     si_Name si \<noteq> [] \<and> distinct (map pg_Name (si_Pages si))
     \<and> list_all (\<lambda>pg. pg_Name pg \<noteq> []) (si_Pages si)"

definition wf_script :: "ScriptAST \<Rightarrow> bool" where
  "wf_script ast \<longleftrightarrow>
     distinct (map st_Name (ast_Stories ast)) \<and> list_all (wf_story ast) (ast_Stories ast)
     \<and> distinct (map fn_Name (ast_Funnels ast)) \<and> list_all wf_funnel (ast_Funnels ast)
     \<and> distinct (map si_Name (ast_Sites ast)) \<and> list_all wf_site (ast_Sites ast)"

text \<open>No name that becomes part of a key contains the separator of the keys.\<close>

definition colon_free :: "ScriptAST \<Rightarrow> bool" where
  "colon_free ast \<longleftrightarrow>
     list_all (\<lambda>st. no_colon (st_Name st)
       \<and> list_all (\<lambda>sl. no_colon (sl_Name sl)
           \<and> list_all (\<lambda>en. no_colon (en_Name en)
               \<and> list_all (\<lambda>sc. no_colon (sc_Name sc)) (en_Scenes en)) (sl_Enactments sl))
           (st_Storylines st)) (ast_Stories ast)
     \<and> list_all (\<lambda>fn. list_all (\<lambda>rt. no_colon (rt_Name rt)
         \<and> list_all (\<lambda>sg. no_colon (sg_Name sg)
             \<and> list_all (\<lambda>pg. no_colon (pg_Name pg)
                 \<and> list_all (\<lambda>fm. no_colon (fm_Name fm)) (pg_Forms pg)) (sg_Pages sg)) (rt_Stages rt))
         (fn_Routes fn)) (ast_Funnels ast)
     \<and> list_all (\<lambda>si. no_colon (si_Name si)
         \<and> list_all (\<lambda>pg. no_colon (pg_Name pg)) (si_Pages si)) (ast_Sites ast)"

text \<open>The sibling names of a script are different.\<close>

definition distinct_names :: "ScriptAST \<Rightarrow> bool" where
  "distinct_names ast \<longleftrightarrow>
     distinct (map st_Name (ast_Stories ast))
     \<and> list_all (\<lambda>st. distinct (map sl_Name (st_Storylines st))
         \<and> list_all (\<lambda>sl. distinct (map en_Name (sl_Enactments sl))
             \<and> list_all (\<lambda>en. distinct (map sc_Name (en_Scenes en))) (sl_Enactments sl))
           (st_Storylines st)) (ast_Stories ast)
     \<and> distinct (map fn_Name (ast_Funnels ast))
     \<and> list_all (\<lambda>fn. distinct (map rt_Name (fn_Routes fn))
         \<and> list_all (\<lambda>rt. distinct (map sg_Name (rt_Stages rt))
             \<and> list_all (\<lambda>sg. distinct (map pg_Name (sg_Pages sg))
                 \<and> list_all (\<lambda>pg. distinct (map fm_Name (pg_Forms pg))) (sg_Pages sg)) (rt_Stages rt))
         (fn_Routes fn)) (ast_Funnels ast)
     \<and> distinct (map si_Name (ast_Sites ast))
     \<and> list_all (\<lambda>si. distinct (map pg_Name (si_Pages si))) (ast_Sites ast)"

lemma declared_tables:
  "declared ast StoryT = map fst (named_stories ast)"
  "declared ast StorylineT = map fst (storyline_kids (named_stories ast))"
  "declared ast EnactmentT = map fst (enactment_kids (storyline_kids (named_stories ast)))"
  "declared ast SceneT = map fst (scene_kids (enactment_kids (storyline_kids (named_stories ast))))"
  "declared ast FunnelT = map fst (named_funnels ast)"
  "declared ast RouteT = map fst (route_kids (named_funnels ast))"
  "declared ast StageT = map fst (stage_kids (route_kids (named_funnels ast)))"
  "declared ast PageT = map fst (page_kids (stage_kids (route_kids (named_funnels ast))))
     @ map fst (site_page_kids (named_sites ast))"
  "declared ast FormT = map fst (form_kids (page_kids (stage_kids (route_kids (named_funnels ast)))))"
  "declared ast SiteT = map fst (named_sites ast)"
  by (simp_all add: declared_def part_defs)

lemma map_snd_named [simp]:
  "map snd (named_stories ast) = ast_Stories ast" "map snd (named_funnels ast) = ast_Funnels ast"
  "map snd (named_sites ast) = ast_Sites ast"
  by (simp_all add: named_stories_def named_funnels_def named_sites_def comp_def)

lemma map_fst_named:
  "map fst (named_stories ast) = map st_Name (ast_Stories ast)"
  "map fst (named_funnels ast) = map fn_Name (ast_Funnels ast)"
  "map fst (named_sites ast) = map si_Name (ast_Sites ast)"
  by (simp_all add: named_stories_def named_funnels_def named_sites_def comp_def)

lemma list_all_conj: "list_all (\<lambda>x. P x \<and> Q x) xs \<longleftrightarrow> list_all P xs \<and> list_all Q xs"
  by (auto simp: list_all_iff)

lemma page_tables_disjoint:
  assumes "colon_free ast"
  shows "fst ` set (page_kids (stage_kids (route_kids (named_funnels ast))))
         \<inter> fst ` set (site_page_kids (named_sites ast)) = {}"
proof -
  have "fst x \<noteq> fst y"
    if x: "x \<in> set (page_kids (stage_kids (route_kids (named_funnels ast))))"
      and y: "y \<in> set (site_page_kids (named_sites ast))" for x y
  proof -
    obtain ks pg where ks: "ks \<in> set (stage_kids (route_kids (named_funnels ast)))"
      and pg: "pg \<in> set (sg_Pages (snd ks))" and x': "x = (child_key (fst ks) (pg_Name pg), pg)"
      using x by (auto simp: children_set)
    obtain si pg' where si: "si \<in> set (ast_Sites ast)" and pg': "pg' \<in> set (si_Pages si)"
      and y': "y = (child_key (si_Name si) (pg_Name pg'), pg')"
      using y by (auto simp: children_set named_sites_def)
    have "snd ks \<in> set (map snd (stage_kids (route_kids (named_funnels ast))))" using ks by simp
    moreover have "list_all (\<lambda>sg. list_all (\<lambda>pg. no_colon (pg_Name pg)) (sg_Pages sg))
        (map snd (stage_kids (route_kids (named_funnels ast))))"
      using assms by (simp add: list_all_children colon_free_def list_all_conj)
    ultimately have "no_colon (pg_Name pg)" using pg by (auto simp: list_all_iff)
    moreover have "no_colon (pg_Name pg')" "no_colon (si_Name si)"
      using assms si pg' by (auto simp: colon_free_def list_all_iff)
    moreover have "\<not> no_colon (fst ks)"
      using ks by (auto simp: children_set child_key_def no_colon_def)
    ultimately show ?thesis by (auto simp: x' y' child_key_last)
  qed
  then show ?thesis by auto
qed

lemma distinct_declared:
  assumes "colon_free ast"
  shows "(\<forall>t. distinct (declared ast t)) \<longleftrightarrow> distinct_names ast"
proof -
  let ?st = "named_stories ast" and ?fn = "named_funnels ast" and ?si = "named_sites ast"
  note cf = assms [unfolded colon_free_def list_all_conj]
  note kids = children_distinct list_all_children
  have storylines: "distinct (map fst (storyline_kids ?st))
      \<longleftrightarrow> list_all (\<lambda>st. distinct (map sl_Name (st_Storylines st))) (ast_Stories ast)"
    if "distinct (map fst ?st)"
    using that cf by (simp add: kids)
  have enactments: "distinct (map fst (enactment_kids (storyline_kids ?st)))
      \<longleftrightarrow> list_all (\<lambda>st. list_all (\<lambda>sl. distinct (map en_Name (sl_Enactments sl))) (st_Storylines st)) (ast_Stories ast)"
    if "distinct (map fst (storyline_kids ?st))"
    using that cf by (simp add: kids)
  have scenes: "distinct (map fst (scene_kids (enactment_kids (storyline_kids ?st))))
      \<longleftrightarrow> list_all (\<lambda>st. list_all (\<lambda>sl. list_all (\<lambda>en. distinct (map sc_Name (en_Scenes en))) (sl_Enactments sl)) (st_Storylines st)) (ast_Stories ast)"
    if "distinct (map fst (enactment_kids (storyline_kids ?st)))"
    using that cf by (simp add: kids)
  have routes: "distinct (map fst (route_kids ?fn))
      \<longleftrightarrow> list_all (\<lambda>fn. distinct (map rt_Name (fn_Routes fn))) (ast_Funnels ast)"
    if "distinct (map fst ?fn)"
    using that cf by (simp add: kids)
  have stages: "distinct (map fst (stage_kids (route_kids ?fn)))
      \<longleftrightarrow> list_all (\<lambda>fn. list_all (\<lambda>rt. distinct (map sg_Name (rt_Stages rt))) (fn_Routes fn)) (ast_Funnels ast)"
    if "distinct (map fst (route_kids ?fn))"
    using that cf by (simp add: kids)
  have pages: "distinct (map fst (page_kids (stage_kids (route_kids ?fn))))
      \<longleftrightarrow> list_all (\<lambda>fn. list_all (\<lambda>rt. list_all (\<lambda>sg. distinct (map pg_Name (sg_Pages sg))) (rt_Stages rt)) (fn_Routes fn)) (ast_Funnels ast)"
    if "distinct (map fst (stage_kids (route_kids ?fn)))"
    using that cf by (simp add: kids)
  have forms: "distinct (map fst (form_kids (page_kids (stage_kids (route_kids ?fn)))))
      \<longleftrightarrow> list_all (\<lambda>fn. list_all (\<lambda>rt. list_all (\<lambda>sg. list_all (\<lambda>pg. distinct (map fm_Name (pg_Forms pg))) (sg_Pages sg)) (rt_Stages rt)) (fn_Routes fn)) (ast_Funnels ast)"
    if "distinct (map fst (page_kids (stage_kids (route_kids ?fn))))"
    using that cf by (simp add: kids)
  have site_pages: "distinct (map fst (site_page_kids ?si))
      \<longleftrightarrow> list_all (\<lambda>si. distinct (map pg_Name (si_Pages si))) (ast_Sites ast)"
    if "distinct (map fst ?si)"
    using that cf by (simp add: kids)
  have all: "(\<forall>t. distinct (declared ast t)) \<longleftrightarrow>
      distinct (map fst ?st) \<and> distinct (map fst (storyline_kids ?st))
      \<and> distinct (map fst (enactment_kids (storyline_kids ?st)))
      \<and> distinct (map fst (scene_kids (enactment_kids (storyline_kids ?st))))
      \<and> distinct (map fst ?fn) \<and> distinct (map fst (route_kids ?fn))
      \<and> distinct (map fst (stage_kids (route_kids ?fn)))
      \<and> distinct (map fst (page_kids (stage_kids (route_kids ?fn))))
      \<and> distinct (map fst (form_kids (page_kids (stage_kids (route_kids ?fn)))))
      \<and> distinct (map fst ?si) \<and> distinct (map fst (site_page_kids ?si))"
  proof -
    have "(\<forall>t. P t) \<longleftrightarrow> P StoryT \<and> P StorylineT \<and> P EnactmentT \<and> P SceneT \<and> P FunnelT \<and> P RouteT
        \<and> P StageT \<and> P PageT \<and> P FormT \<and> P SiteT" for P
      by (metis table.exhaust)
    then show ?thesis
      using page_tables_disjoint [OF assms] by (simp add: declared_tables) blast
  qed
  show ?thesis
    unfolding all distinct_names_def list_all_conj
    using storylines enactments scenes routes stages pages forms site_pages
    by (simp add: map_fst_named cong: conj_cong)
qed

section \<open>References and structure\<close>

abbreviation symbols_of :: "ScriptAST \<Rightarrow> SymbolTable" where
  "symbols_of ast \<equiv> fst (collectNames ast newSymbolTable)"

lemma story_known: "has_key n (sy_StoryNames (symbols_of ast)) \<longleftrightarrow> List.member (map st_Name (ast_Stories ast)) n"
  using keys_collectNames [of StoryT ast]
  by (auto simp: keys_def declared_tables map_fst_named)

lemma storyline_known:
  assumes "colon_free ast" and "distinct (map st_Name (ast_Stories ast))" and "st \<in> set (ast_Stories ast)"
  shows "has_key (child_key (st_Name st) n) (sy_StorylineNames (symbols_of ast))
         \<longleftrightarrow> List.member (map sl_Name (st_Storylines st)) n"
proof -
  have "has_key k (sy_StorylineNames (symbols_of ast)) \<longleftrightarrow> k \<in> set (declared ast StorylineT)" for k
    using keys_collectNames [of StorylineT ast] by (auto simp: keys_def)
  moreover have "child_key (st_Name st) n \<in> set (declared ast StorylineT)
      \<longleftrightarrow> (\<exists>st'\<in>set (ast_Stories ast). \<exists>sl\<in>set (st_Storylines st').
             child_key (st_Name st) n = child_key (st_Name st') (sl_Name sl))"
    by (force simp: declared_tables children_set named_stories_def image_iff)
  moreover have "child_key (st_Name st) n = child_key (st_Name st') m \<longleftrightarrow> st = st' \<and> n = m"
    if "st' \<in> set (ast_Stories ast)" for st' m
  proof -
    have "no_colon (st_Name st)" "no_colon (st_Name st')"
      using assms(1,3) that by (auto simp: colon_free_def list_all_iff)
    moreover have "st_Name st = st_Name st' \<longleftrightarrow> st = st'"
      using assms(2,3) that by (auto simp: distinct_map inj_on_def)
    ultimately show ?thesis by (simp add: child_key_first)
  qed
  ultimately show ?thesis using assms(3) by auto
qed

lemma list_all_all_actions:
  "list_all P (all_actions (ActionNode p atype tgt im w bt un es mc mf adv rm fallback))
   \<longleftrightarrow> P (ActionNode p atype tgt im w bt un es mc mf adv rm fallback)
       \<and> list_all (\<lambda>a. list_all P (all_actions a)) fallback"
  by (simp add: list_all_iff)

lemma jump_disjoint: "is_enactment_jump t \<Longrightarrow> \<not> is_storyline_jump t"
  by (auto simp: is_enactment_jump_def is_storyline_jump_def)

text \<open>What the resolution of a story's references relies on: the table answers for its storylines.\<close>

definition scope_of :: "SymbolTable \<Rightarrow> StoryNode \<Rightarrow> bool" where
  "scope_of sy st \<longleftrightarrow>
     (\<forall>n. has_key (child_key (st_Name st) n) (sy_StorylineNames sy)
          \<longleftrightarrow> List.member (map sl_Name (st_Storylines st)) n)"

lemma scope_of_collect:
  assumes "colon_free ast" and "distinct (map st_Name (ast_Stories ast))" and "st \<in> set (ast_Stories ast)"
  shows "scope_of (symbols_of ast) st"
  using storyline_known [OF assms] by (simp add: scope_of_def)

lemma resolveTriggerAction_reports:
  assumes "scope_of sy st"
  shows "HasErrors (resolveTriggerAction sy st sl a) \<longleftrightarrow> \<not> list_all (jump_ok st sl) (all_actions a)"
proof (induction a rule: all_actions.induct)
  case (1 p atype tgt im w bt un es mc mf adv rm fallback)
  have "HasErrors (concat (map (resolveTriggerAction sy st sl) fallback))
      \<longleftrightarrow> \<not> list_all (\<lambda>a. list_all (jump_ok st sl) (all_actions a)) fallback"
    using 1 by (auto simp: list_all_iff)
  then show ?case
    unfolding list_all_all_actions
    using jump_disjoint [of atype] assms
    by (auto simp: jump_ok_def scope_of_def list_ex_iff)
qed

lemma resolveStorylineRef_reports:
  "scope_of sy st \<Longrightarrow> HasErrors (resolveStorylineRef sy st p fmt n)
   \<longleftrightarrow> \<not> next_ok (map sl_Name (st_Storylines st)) n"
  by (auto simp: resolveStorylineRef_def next_ok_def scope_of_def)

definition jumps_ok :: "StoryNode \<Rightarrow> StorylineNode \<Rightarrow> bool" where
  "jumps_ok st sl \<longleftrightarrow>
     list_all (\<lambda>en. list_all (\<lambda>tr. list_all (\<lambda>a. list_all (jump_ok st sl) (all_actions a))
           (tr_Actions tr @ tr_ElseActions tr)) (en_Triggers en)) (sl_Enactments sl)"

lemma resolveStoryline_reports:
  assumes "scope_of sy st"
  shows "HasErrors (resolveStoryline sy st sl) \<longleftrightarrow> \<not> (nexts_ok st sl \<and> jumps_ok st sl)"
proof -
  have refs: "HasErrors (resolveStorylineCompleteRef sy st sl @ resolveStorylineFailRef sy st sl)
      \<longleftrightarrow> \<not> nexts_ok st sl"
    by (auto simp: resolveStorylineCompleteRef_def resolveStorylineFailRef_def nexts_ok_def
        resolveRoute_def resolveStorylineRef_reports [OF assms] list_all_iff Let_def
        split: option.splits)
  have acts: "HasErrors (resolveTriggerActions sy st sl xs)
      \<longleftrightarrow> \<not> list_all (\<lambda>a. list_all (jump_ok st sl) (all_actions a)) xs" for xs
    by (simp add: resolveTriggerActions_def resolveTriggerAction_reports [OF assms] list_all_iff)
  have "HasErrors (concat (map (\<lambda>en. concat (map (\<lambda>tr.
         resolveTriggerActions sy st sl (tr_Actions tr)
         @ resolveTriggerActions sy st sl (tr_ElseActions tr)) (en_Triggers en)))
         (sl_Enactments sl))) \<longleftrightarrow> \<not> jumps_ok st sl"
    by (simp add: acts jumps_ok_def) (simp add: list_all_iff imp_conv_disj)
  with refs show ?thesis by (simp add: resolveStoryline_def) blast
qed

lemma checkSeen_reports:
  assumes "\<And>x n e. diag_Level (report x n e) = DiagError"
  shows "HasErrors (checkSeen num report name seen xs)
    \<longleftrightarrow> \<not> distinct (numbers num xs) \<or> set (numbers num xs) \<inter> dom (map_of seen) \<noteq> {}"
  using assms
  by (induction xs arbitrary: seen)
    (auto simp: numbers_def map_filter_simps update_conv split: option.splits if_splits)

lemma checkEnactments_reports:
  "HasErrors (checkEnactments sl levels orders ens)
    \<longleftrightarrow> \<not> distinct (numbers en_Level ens) \<or> set (numbers en_Level ens) \<inter> dom (map_of levels) \<noteq> {}
      \<or> \<not> distinct (numbers en_Order ens) \<or> set (numbers en_Order ens) \<inter> dom (map_of orders) \<noteq> {}"
  by (induction sl levels orders ens rule: checkEnactments.induct)
    (auto simp: numbers_def map_filter_simps update_conv split: option.splits if_splits)

lemma requireName_reports [simp]: "HasErrors (requireName n p fmt) \<longleftrightarrow> n = []"
  by (simp add: requireName_def)

lemma validateDuration_reports [simp]: "HasErrors (validateDuration d) \<longleftrightarrow> \<not> duration_ok d"
  by (auto simp: validateDuration_def duration_ok_def)

lemma validateAction_reports: "HasErrors (validateAction a) \<longleftrightarrow> \<not> list_all action_ok (all_actions a)"
proof (induction a rule: all_actions.induct)
  case (1 p atype tgt im w bt un es mc mf adv rm fallback)
  have "HasErrors (concat (map validateAction fallback))
      \<longleftrightarrow> \<not> list_all (\<lambda>a. list_all action_ok (all_actions a)) fallback"
    using 1 by (auto simp: list_all_iff)
  then show ?case
    unfolding list_all_all_actions by (auto simp: action_ok_def split: option.splits)
qed

lemma validateTrigger_reports:
  "HasErrors (validateTrigger tr) \<or> \<not> list_all (\<lambda>a. list_all (jump_ok st sl) (all_actions a))
       (tr_Actions tr @ tr_ElseActions tr)
   \<longleftrightarrow> \<not> trigger_ok st sl tr"
proof -
  have "HasErrors (concat (map validateAction xs)) \<longleftrightarrow> \<not> list_all (\<lambda>a. list_all action_ok (all_actions a)) xs" for xs
    by (simp add: validateAction_reports list_all_iff)
  then show ?thesis
    by (cases "tr_Within tr") (auto simp: validateTrigger_def trigger_ok_def list_all_conj)
qed

lemma validateScene_reports [simp]: "HasErrors (validateScene sc) \<longleftrightarrow> sc_Name sc = []"
  by (simp add: validateScene_def)

lemma validateEnactment_reports:
  "HasErrors (validateEnactment en) \<or> \<not> distinct (map sc_Name (en_Scenes en))
     \<or> \<not> list_all (\<lambda>tr. list_all (\<lambda>a. list_all (jump_ok st sl) (all_actions a))
           (tr_Actions tr @ tr_ElseActions tr)) (en_Triggers en)
   \<longleftrightarrow> \<not> wf_enactment st sl en"
proof -
  have "list_all (trigger_ok st sl) trs
      \<longleftrightarrow> \<not> HasErrors (concat (map validateTrigger trs))
        \<and> list_all (\<lambda>tr. list_all (\<lambda>a. list_all (jump_ok st sl) (all_actions a))
             (tr_Actions tr @ tr_ElseActions tr)) trs" for trs
    using validateTrigger_reports [of _ st sl] by (simp only: list_all_iff HasErrors_concat set_map) blast
  then show ?thesis
    by (auto simp: validateEnactment_def wf_enactment_def list_all_iff)
qed

lemma validateStoryOrders_reports [simp]:
  "HasErrors (validateStoryOrders st) \<longleftrightarrow> \<not> distinct (numbers sl_Order (st_Storylines st))"
  by (simp add: validateStoryOrders_def checkSeen_reports)

lemma validateEnactmentOrders_reports [simp]:
  "HasErrors (validateEnactmentOrders sl)
   \<longleftrightarrow> \<not> (distinct (numbers en_Level (sl_Enactments sl)) \<and> distinct (numbers en_Order (sl_Enactments sl)))"
  by (simp add: validateEnactmentOrders_def checkEnactments_reports)

lemma validateStoryline_reports:
  "HasErrors (validateStoryline sl) \<or> \<not> (nexts_ok st sl \<and> jumps_ok st sl)
     \<or> \<not> distinct (map en_Name (sl_Enactments sl))
     \<or> \<not> list_all (\<lambda>en. distinct (map sc_Name (en_Scenes en))) (sl_Enactments sl)
   \<longleftrightarrow> \<not> wf_storyline st sl"
proof -
  have "list_all (wf_enactment st sl) ens
      \<longleftrightarrow> \<not> HasErrors (concat (map validateEnactment ens))
        \<and> list_all (\<lambda>en. distinct (map sc_Name (en_Scenes en))) ens
        \<and> list_all (\<lambda>en. list_all (\<lambda>tr. list_all (\<lambda>a. list_all (jump_ok st sl) (all_actions a))
             (tr_Actions tr @ tr_ElseActions tr)) (en_Triggers en)) ens" for ens
    using validateEnactment_reports [of _ st sl] by (simp only: list_all_iff HasErrors_concat set_map) blast
  then show ?thesis
    by (auto simp: validateStoryline_def wf_storyline_def jumps_ok_def)
qed

lemma validateStory_reports:
  "HasErrors (validateStory st) \<or> \<not> list_all (\<lambda>sl. nexts_ok st sl \<and> jumps_ok st sl) (st_Storylines st)
     \<or> \<not> distinct (map sl_Name (st_Storylines st))
     \<or> \<not> list_all (\<lambda>sl. distinct (map en_Name (sl_Enactments sl))
           \<and> list_all (\<lambda>en. distinct (map sc_Name (en_Scenes en))) (sl_Enactments sl)) (st_Storylines st)
     \<or> \<not> story_nexts_ok ast st
   \<longleftrightarrow> \<not> wf_story ast st"
proof -
  have "list_all (wf_storyline st) sls
      \<longleftrightarrow> \<not> HasErrors (concat (map validateStoryline sls))
        \<and> list_all (\<lambda>sl. nexts_ok st sl \<and> jumps_ok st sl) sls
        \<and> list_all (\<lambda>sl. distinct (map en_Name (sl_Enactments sl))
           \<and> list_all (\<lambda>en. distinct (map sc_Name (en_Scenes en))) (sl_Enactments sl)) sls" for sls
    using validateStoryline_reports [of _ st] by (simp only: list_all_iff HasErrors_concat set_map) blast
  then show ?thesis
    by (simp add: validateStory_def wf_story_def) blast
qed

lemma validateFunnelTrigger_reports [simp]: "\<not> HasErrors (validateFunnelTrigger tr)"
  by (auto simp: validateFunnelTrigger_def validateFunnelAction_def)

lemma funnel_reports:
  "HasErrors (validateFunnelStructure ast)
    \<or> \<not> list_all (\<lambda>fn. distinct (map rt_Name (fn_Routes fn))
         \<and> list_all (\<lambda>rt. distinct (map sg_Name (rt_Stages rt))
             \<and> list_all (\<lambda>sg. distinct (map pg_Name (sg_Pages sg))
                 \<and> list_all (\<lambda>pg. distinct (map fm_Name (pg_Forms pg))) (sg_Pages sg)) (rt_Stages rt))
         (fn_Routes fn)) (ast_Funnels ast)
   \<longleftrightarrow> \<not> list_all wf_funnel (ast_Funnels ast)"
proof -
  have stage: "wf_stage sg \<longleftrightarrow> \<not> HasErrors (validateStage sg) \<and> distinct (map pg_Name (sg_Pages sg))
      \<and> list_all (\<lambda>pg. distinct (map fm_Name (pg_Forms pg))) (sg_Pages sg)" for sg
    by (auto simp: validateStage_def wf_stage_def wf_page_def list_all_iff)
  have route: "wf_route rt \<longleftrightarrow> \<not> HasErrors (validateRoute rt) \<and> distinct (map sg_Name (rt_Stages rt))
      \<and> list_all (\<lambda>sg. distinct (map pg_Name (sg_Pages sg))
          \<and> list_all (\<lambda>pg. distinct (map fm_Name (pg_Forms pg))) (sg_Pages sg)) (rt_Stages rt)" for rt
    by (auto simp: validateRoute_def wf_route_def list_all_iff stage)
  show ?thesis
    by (auto simp: validateFunnelStructure_def wf_funnel_def list_all_iff route)
qed

lemma site_reports:
  "HasErrors (validateSiteStructure ast)
    \<or> \<not> list_all (\<lambda>si. distinct (map pg_Name (si_Pages si))) (ast_Sites ast)
   \<longleftrightarrow> \<not> list_all wf_site (ast_Sites ast)"
proof -
  have "HasErrors (requireName (si_Name site) (si_Pos site) ''site must have a name''
       @ (if si_Pages site = [] then
            [warnAt (si_Pos site) ''site %q has no pages defined'' [AStr (si_Name site)]] else [])
       @ concat (map (\<lambda>pg. requireName (pg_Name pg) (pg_Pos pg) ''page must have a name'') (si_Pages site)))
     \<or> \<not> distinct (map pg_Name (si_Pages site)) \<longleftrightarrow> \<not> wf_site site" for site
    by (auto simp: wf_site_def list_all_iff)
  then show ?thesis
    unfolding validateSiteStructure_def HasErrors_concat set_map list_all_iff by blast
qed

section \<open>The validator decides well-formedness\<close>

lemma resolveStory_reports:
  assumes "colon_free ast" and "distinct (map st_Name (ast_Stories ast))" and "st \<in> set (ast_Stories ast)"
  shows "HasErrors (resolveStory (symbols_of ast) st)
    \<longleftrightarrow> \<not> (list_all (\<lambda>sl. nexts_ok st sl \<and> jumps_ok st sl) (st_Storylines st) \<and> story_nexts_ok ast st)"
proof -
  have sl: "HasErrors (concat (map (resolveStoryline (symbols_of ast) st) (st_Storylines st)))
      \<longleftrightarrow> \<not> list_all (\<lambda>sl. nexts_ok st sl \<and> jumps_ok st sl) (st_Storylines st)"
    using resolveStoryline_reports [OF scope_of_collect [OF assms]] by (simp add: list_all_iff)
  have ref: "HasErrors (resolveStoryRef (symbols_of ast) p fmt n)
      \<longleftrightarrow> \<not> next_ok (map st_Name (ast_Stories ast)) n" for p fmt n
    by (auto simp: resolveStoryRef_def next_ok_def story_known)
  show ?thesis
    unfolding resolveStory_def story_nexts_ok_def HasErrors_simps sl
    by (auto simp: ref Let_def split: option.splits)
qed

text \<open>
  C5: For scripts whose names contain no colon the three passes of the validator together
  decide well-formedness: it reports an error exactly when two siblings share a name, a
  reference names nothing, a level has no children, two levels or orders agree, or a
  trigger, an action, a duration or one of its nested fallbacks is not of the known kinds.
\<close>

theorem Validate_decides:
  assumes "colon_free ast"
  shows "HasErrors (snd (Validate ast)) \<longleftrightarrow> \<not> wf_script ast"
proof (cases "distinct_names ast")
  case False
  then have "HasErrors (snd (collectNames ast newSymbolTable))"
    using distinct_declared [OF assms] by (simp add: collectNames_reports)
  moreover have "\<not> wf_script ast"
    using False
    by (auto simp: wf_script_def distinct_names_def list_all_iff wf_story_def wf_storyline_def
        wf_enactment_def wf_funnel_def wf_route_def wf_stage_def wf_page_def wf_site_def)
  ultimately show ?thesis by (simp add: Validate_def split_beta)
next
  case True
  then have "\<not> HasErrors (snd (collectNames ast newSymbolTable))"
    using distinct_declared [OF assms] by (simp add: collectNames_reports)
  moreover note dn = True [unfolded distinct_names_def]
  have "HasErrors (resolveStory (symbols_of ast) st) \<or> HasErrors (validateStory st) \<longleftrightarrow> \<not> wf_story ast st"
    if "st \<in> set (ast_Stories ast)" for st
  proof -
    have "distinct (map sl_Name (st_Storylines st))"
      and "list_all (\<lambda>sl. distinct (map en_Name (sl_Enactments sl))
           \<and> list_all (\<lambda>en. distinct (map sc_Name (en_Scenes en))) (sl_Enactments sl)) (st_Storylines st)"
      using dn that by (simp_all add: list_all_iff)
    with validateStory_reports [of st ast]
      resolveStory_reports [OF assms conjunct1 [OF dn] that] show ?thesis by argo
  qed
  then have "HasErrors (resolveReferences (symbols_of ast) ast @ concat (map validateStory (ast_Stories ast)))
      \<longleftrightarrow> \<not> list_all (wf_story ast) (ast_Stories ast)"
    by (simp add: resolveReferences_def list_all_iff) blast
  moreover have "HasErrors (validateFunnelStructure ast) \<longleftrightarrow> \<not> list_all wf_funnel (ast_Funnels ast)"
    using dn funnel_reports [of ast] by blast
  moreover have "HasErrors (validateSiteStructure ast) \<longleftrightarrow> \<not> list_all wf_site (ast_Sites ast)"
    using dn site_reports [of ast] by blast
  ultimately show ?thesis
    using dn by (auto simp: Validate_def split_beta validateStructure_def wf_script_def)
qed

text \<open>A story with one storyline, one enactment and the given triggers.\<close>

definition small_storyline :: "string \<Rightarrow> TriggerNode list \<Rightarrow> StorylineNode" where
  "small_storyline name trs =
     StorylineNode zero_Pos name None [] None None None None
       [zero_EnactmentNode\<lparr>en_Name := ''E'', en_Scenes := [zero_SceneNode\<lparr>sc_Name := ''M''\<rparr>],
          en_Triggers := trs\<rparr>] [] []"

definition small_story :: "string \<Rightarrow> string \<Rightarrow> TriggerNode list \<Rightarrow> StoryNode" where
  "small_story story storyline trs =
     zero_StoryNode\<lparr>st_Name := story, st_Storylines := [small_storyline storyline trs]\<rparr>"

definition jump_trigger :: "string \<Rightarrow> TriggerNode" where
  "jump_trigger target =
     zero_TriggerNode\<lparr>tr_TriggerType := ''click'',
       tr_Actions := [ActionNode zero_Pos ''jump_to_storyline'' target None None None False False
                        False False False None []]\<rparr>"

lemma Validate_decides_witness:
  "HasErrors (snd (Validate (zero_ScriptAST\<lparr>ast_Stories := [small_story ''S'' ''L'' [jump_trigger ''X'']]\<rparr>)))"
proof -
  have "colon_free (zero_ScriptAST\<lparr>ast_Stories := [small_story ''S'' ''L'' [jump_trigger ''X'']]\<rparr>)"
    by code_simp
  moreover have "\<not> wf_script (zero_ScriptAST\<lparr>ast_Stories := [small_story ''S'' ''L'' [jump_trigger ''X'']]\<rparr>)"
    by code_simp
  ultimately show ?thesis using Validate_decides by blast
qed

text \<open>
  With colons in names the keys of the symbol table collide: a well-formed script is
  rejected because a storyline of one story gets the key of another story's storyline, and
  a script that jumps to a storyline its story does not have is accepted.
\<close>

theorem Validate_colon_collision:
  "(let ok = zero_ScriptAST\<lparr>ast_Stories := [small_story ''a:b'' ''c'' [], small_story ''a'' ''b:c'' []]\<rparr>;
        bad = zero_ScriptAST\<lparr>ast_Stories := [small_story ''a:b'' ''c'' [],
                small_story ''a'' ''d'' [jump_trigger ''b:c'']]\<rparr> in
    wf_script ok \<and> HasErrors (snd (Validate ok)) \<and> \<not> wf_script bad \<and> \<not> HasErrors (snd (Validate bad)))"
  by code_simp

end
