(* ===== verification/Compiler.thy ===== *)
theory Compiler
  imports Effects Catalog Validator "HOL-Library.List_Lexorder" "HOL-Library.Char_ord"
begin

text \<open>
  The story half of the compiler (\<open>src/scripting/compiler.go\<close>): badges and tags, stories,
  storylines, enactments, scenes, triggers, actions and the passes that link them. The
  methods run in the state monad over the fields of the \<open>Compiler\<close> struct and the two
  package variables of the id generator; the maps from keys to entities hold the
  entities' object ids, so a pointer that two places share is one id.

  A trigger of a funnel stage is compiled with nil for the story, storyline and enactment;
  the actions that read the story's name then stop the program. The flag \<open>cs_panicked\<close> notes
  that, and nothing is claimed about a run that sets it.
\<close>

section \<open>State\<close>

text \<open>
  What a compilation is given: the constants of the package \<open>models\<close>, the tenant, the clock
  (its reading after some number of ids has been drawn), the lower case of runes above ASCII,
  and the value of a conversion from \<open>float64\<close> to \<open>int64\<close> out of range, which Go leaves open.
\<close>

record Context =
  cx_pk :: "string \<Rightarrow> string"
  cx_SecondPriority :: int
  cx_subscriberID :: string
  cx_creatorID :: ObjectId
  cx_now :: "nat \<Rightarrow> int"
  cx_lower :: "nat \<Rightarrow> nat"
  cx_int64 :: "float64 \<Rightarrow> int"

record CState =
  cs_oids :: nat
  cs_idCounter :: int
  cs_idSessionPrefix :: string
  cs_badges :: "Badge gomap"
  cs_tags :: "Tag gomap"
  cs_storyMap :: "ObjectId gomap"
  cs_storylineMap :: "ObjectId gomap"
  cs_enactmentMap :: "ObjectId gomap"
  cs_sceneMap :: "ObjectId gomap"
  cs_funnelMap :: "ObjectId gomap"
  cs_stageMap :: "ObjectId gomap"
  cs_productMap :: "Product gomap"
  cs_offerMap :: "Offer gomap"
  cs_mediaMap :: "Media gomap"
  cs_presetMap :: "PlayerPreset gomap"
  cs_pendingAssets :: "Asset list"
  cs_pendingQuizzes :: "LMSQuiz list"
  cs_certTemplates :: "CertificateTemplate list"
  cs_errors :: Diagnostics
  cs_panicked :: bool

type_synonym 'a compiler = "(CState, 'a) state"

definition newObjectId :: "ObjectId compiler" where
  "newObjectId = State (\<lambda>s. (Oid (cs_oids s), s\<lparr>cs_oids := Suc (cs_oids s)\<rparr>))"

definition generatePublicID :: "string \<Rightarrow> string compiler" where
  "generatePublicID kind = State (\<lambda>s.
     let n = cs_idCounter s + 1 in
     (''sscript_'' @ kind @ ''_'' @ cs_idSessionPrefix s @ ''_'' @ itoa n, s\<lparr>cs_idCounter := n\<rparr>))"

definition ResetIDCounter :: "string \<Rightarrow> unit compiler" where
  "ResetIDCounter session = modifies (\<lambda>s. s\<lparr>cs_idCounter := 0, cs_idSessionPrefix := session\<rparr>)"

definition collId :: "Context \<Rightarrow> string \<Rightarrow> ObjectId \<Rightarrow> BsonCollectionId" where
  "collId cx name i = \<lparr>ci_CollectionName = cx_pk cx name, ci_Id = i\<rparr>"

definition collIds :: "Context \<Rightarrow> string \<Rightarrow> ObjectId list \<Rightarrow> BsonCollectionIds" where
  "collIds cx name is = \<lparr>cis_CollectionName = cx_pk cx name, cis_Ids = is\<rparr>"

section \<open>Badges and tags\<close>

definition newBadge :: "Context \<Rightarrow> string \<Rightarrow> Badge compiler" where
  "newBadge cx name = do {
     oid \<leftarrow> newObjectId; pid \<leftarrow> generatePublicID ''badge'';
     ret \<lparr>bdg_Id = oid, bdg_PublicId = pid, bdg_SubscriberId = cx_subscriberID cx,
          bdg_CreatorId = cx_creatorID cx, bdg_Name = name,
          bdg_Description = ''Auto-generated badge: '' @ name\<rparr> }"

definition precreateBadge :: "Context \<Rightarrow> string \<Rightarrow> unit compiler" where
  "precreateBadge cx name = do {
     badge \<leftarrow> newBadge cx name;
     modifies (\<lambda>s. s\<lparr>cs_badges := gomap_put name badge (cs_badges s)\<rparr>) }"

definition precreateBadges :: "Context \<Rightarrow> SymbolTable \<Rightarrow> unit compiler" where
  "precreateBadges cx sy = do {
     _ \<leftarrow> mapC (precreateBadge cx) (sort (map fst (sy_BadgeNames sy))); ret () }"

definition precreateTag :: "Context \<Rightarrow> string \<Rightarrow> unit compiler" where
  "precreateTag cx name = do {
     oid \<leftarrow> newObjectId; pid \<leftarrow> generatePublicID ''tag'';
     modifies (\<lambda>s. s\<lparr>cs_tags := gomap_put name
       \<lparr>tag_Id = oid, tag_PublicId = pid, tag_SubscriberId = cx_subscriberID cx,
        tag_CreatorId = cx_creatorID cx, tag_Name = name\<rparr> (cs_tags s)\<rparr>) }"

definition precreateTags :: "Context \<Rightarrow> SymbolTable \<Rightarrow> unit compiler" where
  "precreateTags cx sy = do {
     _ \<leftarrow> mapC (precreateTag cx) (sort (map fst (sy_TagNames sy))); ret () }"

definition requiredBadge :: "Context \<Rightarrow> Badge \<Rightarrow> RequiredBadge compiler" where
  "requiredBadge cx badge = do {
     oid \<leftarrow> newObjectId;
     ret \<lparr>rqb_Id = oid, rqb_Name = bdg_Name badge,
          rqb_BadgeID = collId cx ''BadgeCollection'' (bdg_Id badge), rqb_Badge = badge\<rparr> }"

text \<open>The badges of some names that the table knows, in order.\<close>

definition known_badges :: "CState \<Rightarrow> string list \<Rightarrow> Badge list" where
  "known_badges s names = List.map_filter (map_of (cs_badges s)) names"

definition compileRequiredBadges :: "Context \<Rightarrow> string list \<Rightarrow> RequiredBadge list compiler" where
  "compileRequiredBadges cx names = do {
     badges \<leftarrow> asks (\<lambda>s. known_badges s names);
     mapC (requiredBadge cx) badges }"

definition compileRequiredBadgesNode :: "Context \<Rightarrow> RequiredBadgesNode option \<Rightarrow> RequiredBadges compiler" where
  "compileRequiredBadgesNode cx rb =
     (case rb of
        None \<Rightarrow> ret no_badges
      | Some rb \<Rightarrow> do {
          must \<leftarrow> compileRequiredBadges cx (rb_MustHave rb);
          mustNot \<leftarrow> compileRequiredBadges cx (rb_MustNotHave rb);
          ret \<lparr>rbs_MustHave = must, rbs_MustNotHave = mustNot\<rparr> })"

definition compileBadgeTransaction ::
  "Context \<Rightarrow> BadgeTransactionNode option \<Rightarrow> BadgeTransaction option compiler" where
  "compileBadgeTransaction cx node =
     (case node of
        None \<Rightarrow> ret None
      | Some node \<Rightarrow> do {
          oid \<leftarrow> newObjectId;
          give \<leftarrow> asks (\<lambda>s. known_badges s (bt_GiveBadges node));
          remove \<leftarrow> asks (\<lambda>s. known_badges s (bt_RemoveBadges node));
          ret (Some
            \<lparr>btx_Id = oid,
             btx_GiveBadges = give,
             btx_GiveBadgesIds = (if bt_GiveBadges node = [] then None
                                  else Some (collIds cx ''BadgeCollection'' (map bdg_Id give))),
             btx_RemoveBadges = remove,
             btx_RemoveBadgesIds = (if bt_RemoveBadges node = [] then None
                                    else Some (collIds cx ''BadgeCollection'' (map bdg_Id remove)))\<rparr>) })"

definition compileLifecycle ::
  "Context \<Rightarrow> BadgeTransactionNode option option \<Rightarrow> BadgeTransaction option compiler" where
  "compileLifecycle cx block =
     (case block of None \<Rightarrow> ret None | Some bt \<Rightarrow> compileBadgeTransaction cx bt)"

text \<open>A start or complete trigger: the badge of that name, if there is one.\<close>

definition compileBadgeRef :: "Context \<Rightarrow> string option \<Rightarrow> RequiredBadge option compiler" where
  "compileBadgeRef cx name =
     (case name of
        None \<Rightarrow> ret None
      | Some n \<Rightarrow> do {
          badge \<leftarrow> asks (\<lambda>s. map_of (cs_badges s) n);
          optC (requiredBadge cx) badge })"

section \<open>Durations, trigger types and conditions\<close>

definition mapDurationUnit :: "Context \<Rightarrow> string \<Rightarrow> string" where
  "mapDurationUnit cx unit =
     (if List.member [''d'', ''days''] unit then cx_pk cx ''Days''
      else if List.member [''h'', ''hours''] unit then cx_pk cx ''Hours''
      else if List.member [''m'', ''minutes''] unit then cx_pk cx ''Minutes''
      else if List.member [''s'', ''seconds''] unit then cx_pk cx ''Seconds''
      else cx_pk cx ''Days'')"

definition compileActionWhen :: "Context \<Rightarrow> DurationNode \<Rightarrow> ActionWhen" where
  "compileActionWhen cx dur =
     \<lparr>aw_WaitType = cx_pk cx ''ActionTaken'',
      aw_WaitUntil = Some \<lparr>tf_Amount = du_Amount dur, tf_TimeUnit = mapDurationUnit cx (du_Unit dur)\<rparr>\<rparr>"

text \<open>
  The switch of \<open>mapTriggerType\<close>: the constant of the type, whether the user action is that
  constant too, and whether the trigger's value is kept.
\<close>

definition trigger_types :: "(string \<times> string \<times> bool \<times> bool) list" where
  "trigger_types =
     [(''click'', ''OnClick'', True, True), (''not_click'', ''OnNotClick'', True, True),
      (''open'', ''OnOpen'', True, False), (''not_open'', ''OnNotOpen'', True, False),
      (''sent'', ''OnSent'', False, False), (''webhook'', ''OnWebhook'', False, True),
      (''nothing'', ''OnNothing'', False, False), (''else'', ''Else'', False, False),
      (''bounce'', ''OnBounce'', False, False), (''spam'', ''OnSpam'', False, False),
      (''unsubscribe'', ''OnUnsubscribe'', False, False), (''failure'', ''OnFailure'', False, False),
      (''email_validated'', ''OnEmailAddressValidated'', False, False),
      (''user_has_tag'', ''UserHasTag'', False, True), (''badge'', ''OnBadge'', False, True),
      (''submit'', ''OnSubmit'', True, True), (''abandon'', ''OnAbandon'', True, False),
      (''purchase'', ''OnPurchase'', True, True), (''watch'', ''OnWatch'', True, True),
      (''play'', ''OnPlay'', True, True), (''pause'', ''OnPause'', True, True),
      (''progress'', ''OnProgress'', True, True), (''complete'', ''OnComplete'', True, True),
      (''rewatch'', ''OnRewatch'', True, True), (''cta_click'', ''OnCTAClick'', True, True),
      (''turnstile_submit'', ''OnTurnstileSubmit'', True, True),
      (''chapter_click'', ''OnChapterClick'', True, True)]"

definition mapTriggerType :: "Context \<Rightarrow> TriggerNode \<Rightarrow> string \<times> string \<times> string" where
  "mapTriggerType cx node =
     (case map_of trigger_types (tr_TriggerType node) of
        Some (const, acts, value) \<Rightarrow>
          (cx_pk cx const, if acts then cx_pk cx const else [],
           if value then tr_UserActionValue node else [])
      | None \<Rightarrow> (tr_TriggerType node, [], tr_UserActionValue node))"

definition addMustHave :: "RequiredBadge \<Rightarrow> RequiredBadges \<Rightarrow> RequiredBadges" where
  "addMustHave rb r = r\<lparr>rbs_MustHave := rbs_MustHave r @ [rb]\<rparr>"

definition addMustNotHave :: "RequiredBadge \<Rightarrow> RequiredBadges \<Rightarrow> RequiredBadges" where
  "addMustNotHave rb r = r\<lparr>rbs_MustNotHave := rbs_MustNotHave r @ [rb]\<rparr>"

definition addRequired ::
  "Context \<Rightarrow> (RequiredBadge \<Rightarrow> RequiredBadges \<Rightarrow> RequiredBadges) \<Rightarrow> string \<Rightarrow> RequiredBadges \<Rightarrow>
   RequiredBadges compiler" where
  "addRequired cx add name r = do {
     badge \<leftarrow> asks (\<lambda>s. map_of (cs_badges s) name);
     (case badge of
        None \<Rightarrow> ret r
      | Some b \<Rightarrow> do { rb \<leftarrow> requiredBadge cx b; ret (add rb r) }) }"

text \<open>The condition with the type that \<open>not\<close> gives its first child.\<close>

fun flip_condition :: "ConditionNode \<Rightarrow> ConditionNode" where
  "flip_condition (ConditionNode p ctype val cs) =
     ConditionNode p
       (if ctype = ''has_badge'' then ''not_has_badge''
        else if ctype = ''not_has_badge'' then ''has_badge'' else ctype) val cs"

lemma size_flip_condition [simp]: "size (flip_condition c) = size c"
  by (cases c) simp

lemma size_child: "c \<in> set cs \<Longrightarrow> size c < Suc (size_list size cs)"
  by (induction cs) auto

function applyConditionToTrigger ::
  "Context \<Rightarrow> ConditionNode \<Rightarrow> RequiredBadges \<Rightarrow> RequiredBadges compiler" where
  "applyConditionToTrigger cx (ConditionNode p ctype val cs) r =
     (if ctype = ''has_badge'' then addRequired cx addMustHave val r
      else if ctype = ''not_has_badge'' then addRequired cx addMustNotHave val r
      else if ctype = ''and'' \<or> ctype = ''or'' then
        foldC (\<lambda>r c. applyConditionToTrigger cx c r) r cs
      else if ctype = ''not'' then
        (case cs of
           [] \<Rightarrow> ret r
         | c # _ \<Rightarrow> applyConditionToTrigger cx (flip_condition c) r)
      else ret r)"
  by pat_completeness auto
termination
  by (relation "measure (\<lambda>(cx, c, r). size c)") (auto simp: size_child)

section \<open>Actions\<close>

definition addActionName :: "Action \<Rightarrow> string \<Rightarrow> Action" where
  "addActionName action name =
     (if act_ActionName action = [] then action\<lparr>act_ActionName := name\<rparr>
      else action\<lparr>act_ExtraActions := act_ExtraActions action @ [name]\<rparr>)"

definition newAction :: "Context \<Rightarrow> Action compiler" where
  "newAction cx = do {
     oid \<leftarrow> newObjectId; pid \<leftarrow> generatePublicID ''action'';
     ret \<lparr>act_Id = oid, act_PublicId = pid, act_SubscriberId = cx_subscriberID cx,
          act_CreatorId = cx_creatorID cx, act_ActionName = [], act_ExtraActions = [],
          act_NextEnactment = None, act_NextEnactmentId = None,
          act_AdvanceToNextStoryline = False, act_EndStory = False, act_Unsubscribe = False,
          act_BadgeTransaction = None, act_BadgeTransactionIds = None,
          act_When = None, act_SendImmediate = None\<rparr> }"

text \<open>The names of the story and the storyline an action belongs to; None in a funnel.\<close>

type_synonym scope = "(string \<times> string) option"

definition panic :: "'a \<Rightarrow> 'a compiler" where
  "panic x = do { modifies (\<lambda>s. s\<lparr>cs_panicked := True\<rparr>); ret x }"

definition enactment_key :: "string \<Rightarrow> string \<Rightarrow> string \<Rightarrow> string" where
  "enactment_key story sl en = child_key (child_key story sl) en"

definition setBadgeTransaction :: "Context \<Rightarrow> BadgeTransactionNode \<Rightarrow> Action \<Rightarrow> Action compiler" where
  "setBadgeTransaction cx bt action = do {
     t \<leftarrow> compileBadgeTransaction cx (Some bt);
     ret (action\<lparr>act_BadgeTransaction := t,
                 act_BadgeTransactionIds :=
                   map_option (\<lambda>t. collId cx ''BadgeTransactionCollection'' (btx_Id t)) t\<rparr>) }"

definition withMax :: "string \<Rightarrow> int option \<Rightarrow> string" where
  "withMax name n = (case n of None \<Rightarrow> name | Some k \<Rightarrow> name @ '':max_'' @ itoa k)"

definition jump_prefix :: string where
  "jump_prefix = ''jump_to_enactment:''"

text \<open>The switch on the type of one action.\<close>

definition compileActionCase :: "Context \<Rightarrow> scope \<Rightarrow> ActionNode \<Rightarrow> Action \<Rightarrow> Action compiler" where
  "compileActionCase cx scope an action =
     (let t = ac_ActionType an in
      if t = ''next_scene'' then ret (action\<lparr>act_ActionName := ''next_scene''\<rparr>)
      else if t = ''prev_scene'' then ret (action\<lparr>act_ActionName := ''prev_scene''\<rparr>)
      else if t = ''jump_to_enactment'' \<or> t = ''next_enactment'' then
        (case scope of
           None \<Rightarrow> panic action
         | Some (story, sl) \<Rightarrow> do {
             target \<leftarrow> asks (\<lambda>s. map_of (cs_enactmentMap s) (enactment_key story sl (ac_Target an)));
             ret (case target of
               Some i \<Rightarrow> action\<lparr>act_NextEnactment := Some i,
                  act_NextEnactmentId := Some (collId cx ''EnactmentCollection'' i)\<rparr>
             | None \<Rightarrow> action\<lparr>act_ActionName := jump_prefix @ ac_Target an\<rparr>) })
      else if t = ''loop_to_enactment'' then
        (case scope of
           None \<Rightarrow> panic action
         | Some (story, sl) \<Rightarrow> do {
             target \<leftarrow> asks (\<lambda>s. map_of (cs_enactmentMap s) (enactment_key story sl (ac_Target an)));
             ret (case target of
               Some i \<Rightarrow> action\<lparr>act_NextEnactmentId := Some (collId cx ''EnactmentCollection'' i),
                  act_ActionName := withMax ''loop_to_enactment'' (ac_RetryMaxCount an)\<rparr>
             | None \<Rightarrow> action\<lparr>act_ActionName := withMax ''loop_to_enactment'' (ac_RetryMaxCount an)\<rparr>) })
      else if t = ''loop_to_start_enactment'' then
        ret (action\<lparr>act_ActionName := ''loop_to_start_enactment''\<rparr>)
      else if t = ''retry_scene'' then
        ret (action\<lparr>act_ActionName := withMax ''retry_scene'' (ac_RetryMaxCount an)\<rparr>)
      else if t = ''retry_enactment'' then
        ret (action\<lparr>act_ActionName := withMax ''retry_enactment'' (ac_RetryMaxCount an)\<rparr>)
      else if t = ''advance_to_next_storyline'' then
        ret (action\<lparr>act_AdvanceToNextStoryline := True\<rparr>)
      else if t = ''jump_to_storyline'' \<or> t = ''loop_to_storyline'' then
        ret (action\<lparr>act_AdvanceToNextStoryline := True,
                    act_ActionName := ''jump_to_storyline:'' @ ac_Target an\<rparr>)
      else if t = ''loop_to_start_storyline'' then
        ret (action\<lparr>act_ActionName := ''loop_to_start_storyline''\<rparr>)
      else if t = ''end_story'' then ret (action\<lparr>act_EndStory := True\<rparr>)
      else if t = ''mark_complete'' then ret (action\<lparr>act_ActionName := ''mark_complete''\<rparr>)
      else if t = ''mark_failed'' then ret (action\<lparr>act_ActionName := ''mark_failed''\<rparr>)
      else if t = ''unsubscribe'' then ret (action\<lparr>act_Unsubscribe := True\<rparr>)
      else if t = ''give_badge'' \<or> t = ''remove_badge'' then
        (case ac_BadgeTransaction an of
           None \<Rightarrow> ret action | Some bt \<Rightarrow> setBadgeTransaction cx bt action)
      else if t = ''wait'' then
        (case ac_Wait an of
           None \<Rightarrow> ret action
         | Some d \<Rightarrow> ret (action\<lparr>act_When := Some (compileActionWhen cx d)\<rparr>))
      else if t = ''send_immediate'' then ret (action\<lparr>act_SendImmediate := ac_SendImmediate an\<rparr>)
      else if t = ''jump_to_stage'' then
        ret (addActionName action (cx_pk cx ''ActionJumpToStage'' @ '':'' @ ac_Target an))
      else if t = ''start_story'' then
        ret (addActionName action (cx_pk cx ''ActionStartStory'' @ '':'' @ ac_Target an))
      else if t = ''send_email'' then
        ret (addActionName action (cx_pk cx ''ActionSendEmail'' @ '':'' @ ac_Target an))
      else if t = ''redirect'' then
        ret (addActionName action (cx_pk cx ''ActionRedirect'' @ '':'' @ ac_Target an))
      else if t = ''provide_download'' then
        ret (addActionName action (cx_pk cx ''ActionProvideDownload'' @ '':'' @ ac_Target an))
      else ret action)"

text \<open>What every action does after the switch.\<close>

definition compileActionRest :: "Context \<Rightarrow> ActionNode \<Rightarrow> Action \<Rightarrow> Action compiler" where
  "compileActionRest cx an action =
     (let action = (case ac_SendImmediate an of
            None \<Rightarrow> action | Some b \<Rightarrow> action\<lparr>act_SendImmediate := Some b\<rparr>);
          action = (case (ac_Wait an, act_When action) of
            (Some d, None) \<Rightarrow> action\<lparr>act_When := Some (compileActionWhen cx d)\<rparr> | _ \<Rightarrow> action) in
      case (ac_BadgeTransaction an, act_BadgeTransaction action) of
        (Some bt, None) \<Rightarrow> setBadgeTransaction cx bt action
      | _ \<Rightarrow> ret action)"

definition compileAction :: "Context \<Rightarrow> scope \<Rightarrow> Action \<Rightarrow> ActionNode \<Rightarrow> Action compiler" where
  "compileAction cx scope action an = do {
     a \<leftarrow> compileActionCase cx scope an action;
     compileActionRest cx an a }"

definition compileActions :: "Context \<Rightarrow> scope \<Rightarrow> ActionNode list \<Rightarrow> Action option compiler" where
  "compileActions cx scope actions =
     (if actions = [] then ret None
      else do {
        a0 \<leftarrow> newAction cx;
        a \<leftarrow> foldC (compileAction cx scope) a0 actions;
        ret (Some a) })"

section \<open>Triggers\<close>

definition newTrigger :: "Context \<Rightarrow> string \<Rightarrow> string \<Rightarrow> string \<Rightarrow> Trigger compiler" where
  "newTrigger cx ttype userAction val = do {
     oid \<leftarrow> newObjectId; pid \<leftarrow> generatePublicID ''trigger'';
     ret \<lparr>trg_Id = oid, trg_PublicId = pid, trg_SubscriberId = cx_subscriberID cx,
          trg_CreatorId = cx_creatorID cx, trg_TriggerType = ttype, trg_UserAction = userAction,
          trg_UserActionValue = val, trg_MarkComplete = False, trg_MarkFailed = False,
          trg_Priority = 0, trg_PersistScope = [], trg_RequiredBadges = no_badges,
          trg_WatchBlockID = [], trg_WatchOperator = [], trg_WatchPercent = 0,
          trg_DoAction = None, trg_DoActionId = None\<rparr> }"

text \<open>Attach the compiled actions and pass the marks of the actions on to the trigger.\<close>

definition attachActions :: "Context \<Rightarrow> ActionNode list \<Rightarrow> Action option \<Rightarrow> Trigger \<Rightarrow> Trigger" where
  "attachActions cx nodes act tr =
     (case act of
        None \<Rightarrow> tr
      | Some a \<Rightarrow> tr\<lparr>trg_DoAction := Some a,
                     trg_DoActionId := Some (collId cx ''ActionCollection'' (act_Id a)),
                     trg_MarkComplete := trg_MarkComplete tr \<or> list_ex ac_MarkComplete nodes,
                     trg_MarkFailed := trg_MarkFailed tr \<or> list_ex ac_MarkFailed nodes\<rparr>)"

definition applyWithin :: "Context \<Rightarrow> DurationNode option \<Rightarrow> Action \<Rightarrow> Action" where
  "applyWithin cx within a =
     (case (within, act_When a) of
        (Some d, None) \<Rightarrow> a\<lparr>act_When := Some (compileActionWhen cx d)\<rparr> | _ \<Rightarrow> a)"

text \<open>The else actions: the trigger's own, or the first non-empty retry fallback.\<close>

definition elseActions :: "TriggerNode \<Rightarrow> ActionNode list" where
  "elseActions node =
     (if tr_ElseActions node \<noteq> [] then tr_ElseActions node
      else case find (\<lambda>a. ac_RetryFallback a \<noteq> []) (tr_Actions node) of
        None \<Rightarrow> [] | Some a \<Rightarrow> ac_RetryFallback a)"

definition compileMainTrigger :: "Context \<Rightarrow> scope \<Rightarrow> TriggerNode \<Rightarrow> Trigger compiler" where
  "compileMainTrigger cx scope node = do {
     tr0 \<leftarrow> (case mapTriggerType cx node of (ttype, userAction, val) \<Rightarrow> newTrigger cx ttype userAction val);
     rb0 \<leftarrow> compileRequiredBadgesNode cx (tr_RequiredBadges node);
     rb \<leftarrow> foldC (\<lambda>r c. applyConditionToTrigger cx c r) rb0 (tr_Conditions node);
     act \<leftarrow> compileActions cx scope (tr_Actions node);
     (let watch = (tr_TriggerType node = ''watch'' \<or> tr_TriggerType node = ''progress'') in
      ret (attachActions cx (tr_Actions node) (map_option (applyWithin cx (tr_Within node)) act)
        (tr0\<lparr>trg_MarkComplete := tr_MarkComplete node, trg_MarkFailed := tr_MarkFailed node,
             trg_Priority := (case tr_Priority node of None \<Rightarrow> 0 | Some p \<Rightarrow> p),
             trg_PersistScope := tr_PersistScope node, trg_RequiredBadges := rb,
             trg_WatchBlockID := (if watch then tr_WatchBlockID node else []),
             trg_WatchOperator := (if watch then tr_WatchOperator node else []),
             trg_WatchPercent := (if watch then tr_WatchPercent node else 0)\<rparr>))) }"

definition compileElseTrigger :: "Context \<Rightarrow> scope \<Rightarrow> TriggerNode \<Rightarrow> Trigger compiler" where
  "compileElseTrigger cx scope node = do {
     tr0 \<leftarrow> (case mapTriggerType cx node of (ttype, userAction, val) \<Rightarrow>
               newTrigger cx (cx_pk cx ''Else'') userAction val);
     act \<leftarrow> compileActions cx scope (elseActions node);
     ret (attachActions cx (elseActions node) act
       (tr0\<lparr>trg_Priority := (case tr_Priority node of None \<Rightarrow> cx_SecondPriority cx | Some p \<Rightarrow> p + 1)\<rparr>)) }"

definition compileTrigger :: "Context \<Rightarrow> scope \<Rightarrow> TriggerNode \<Rightarrow> Trigger list compiler" where
  "compileTrigger cx scope node = do {
     main \<leftarrow> compileMainTrigger cx scope node;
     (if elseActions node = [] then ret [main]
      else do { els \<leftarrow> compileElseTrigger cx scope node; ret [main, els] }) }"

section \<open>Scenes and enactments\<close>

definition compileTemplate :: "Context \<Rightarrow> string \<Rightarrow> Template option compiler" where
  "compileTemplate cx name =
     (if name = [] then ret None
      else do {
        oid \<leftarrow> newObjectId; pid \<leftarrow> generatePublicID ''template'';
        ret (Some \<lparr>tpl_Id = oid, tpl_PublicId = pid, tpl_SubscriberId = cx_subscriberID cx,
                   tpl_CreatorId = cx_creatorID cx, tpl_Name = name\<rparr>) })"

definition sceneTags :: "CState \<Rightarrow> string list \<Rightarrow> Tag list" where
  "sceneTags s names = List.map_filter (map_of (cs_tags s)) names"

definition emailGenConfig :: "SceneNode \<Rightarrow> EmailGenConfig option" where
  "emailGenConfig node =
     (if sc_SubjectGen node \<noteq> [] \<or> sc_BodyGen node \<noteq> [] \<or> sc_ContextPackRefs node \<noteq> []
      then Some \<lparr>egc_SubjectInstruction = sc_SubjectGen node, egc_BodyInstruction = sc_BodyGen node,
                 egc_ContextPackRefs = sc_ContextPackRefs node\<rparr>
      else None)"

definition compileScene :: "Context \<Rightarrow> SceneNode \<Rightarrow> Scene compiler" where
  "compileScene cx node = do {
     oid \<leftarrow> newObjectId; pid \<leftarrow> generatePublicID ''scene'';
     moid \<leftarrow> newObjectId; mpid \<leftarrow> generatePublicID ''message'';
     coid \<leftarrow> newObjectId; cpid \<leftarrow> generatePublicID ''content'';
     tmpl \<leftarrow> compileTemplate cx (sc_TemplateName node);
     tags \<leftarrow> asks (\<lambda>s. sceneTags s (sc_Tags node));
     ret \<lparr>scn_Id = oid, scn_PublicId = pid, scn_SubscriberId = cx_subscriberID cx,
          scn_CreatorId = cx_creatorID cx, scn_Name = sc_Name node,
          scn_Message = Some \<lparr>msg_Id = moid, msg_PublicId = mpid, msg_SubscriberId = cx_subscriberID cx,
            msg_CreatorId = cx_creatorID cx,
            msg_Content = Some \<lparr>mc_Id = coid, mc_PublicId = cpid, mc_SubscriberId = cx_subscriberID cx,
              mc_CreatorId = cx_creatorID cx, mc_Subject = sc_Subject node, mc_Body = sc_Body node,
              mc_FromEmail = sc_FromEmail node, mc_FromName = sc_FromName node,
              mc_ReplyTo = sc_ReplyTo node, mc_GivenVars = sc_Vars node,
              mc_EmailGenConfig = emailGenConfig node, mc_Template = tmpl,
              mc_TemplateId = map_option (\<lambda>t. collId cx ''TemplateCollection'' (tpl_Id t)) tmpl\<rparr>\<rparr>,
          scn_MessageId = Some (collId cx ''MessageCollection'' moid),
          scn_Subject = [], scn_Body = [], scn_FromEmail = [], scn_FromName = [], scn_ReplyTo = [],
          scn_Tags = tags,
          scn_TagsIds = (if sc_Tags node = [] then None
                         else Some (collIds cx ''TagCollection'' (map tag_Id tags)))\<rparr> }"

definition compileSceneAt :: "Context \<Rightarrow> string \<Rightarrow> SceneNode \<Rightarrow> Scene compiler" where
  "compileSceneAt cx enKey node = do {
     scene \<leftarrow> compileScene cx node;
     modifies (\<lambda>s. s\<lparr>cs_sceneMap := gomap_put (child_key enKey (sc_Name node)) (scn_Id scene) (cs_sceneMap s)\<rparr>);
     ret scene }"

text \<open>\<open>en.OnEvent[t] = append(en.OnEvent[t], tr)\<close>\<close>

definition addEvent :: "Trigger list gomap \<Rightarrow> Trigger \<Rightarrow> Trigger list gomap" where
  "addEvent m tr =
     gomap_put (trg_TriggerType tr)
       ((case map_of m (trg_TriggerType tr) of None \<Rightarrow> [] | Some trs \<Rightarrow> trs) @ [tr]) m"

definition compileEnactment ::
  "Context \<Rightarrow> string \<Rightarrow> string \<Rightarrow> int \<Rightarrow> EnactmentNode \<Rightarrow> Enactment compiler" where
  "compileEnactment cx story sl defaultOrder node = do {
     oid \<leftarrow> newObjectId; pid \<leftarrow> generatePublicID ''enactment'';
     scenes \<leftarrow> mapC (compileSceneAt cx (enactment_key story sl (en_Name node))) (en_Scenes node);
     triggers \<leftarrow> mapC (compileTrigger cx (Some (story, sl))) (en_Triggers node);
     ret \<lparr>ent_Id = oid, ent_PublicId = pid, ent_SubscriberId = cx_subscriberID cx,
          ent_CreatorId = cx_creatorID cx, ent_Name = en_Name node,
          ent_Level = (case en_Level node of None \<Rightarrow> defaultOrder | Some l \<Rightarrow> l),
          ent_NaturalOrder = (case en_Order node of None \<Rightarrow> defaultOrder | Some l \<Rightarrow> l),
          ent_SkipToNextStorylineOnExpiry =
            (case en_SkipToNextStorylineOnExpiry node of None \<Rightarrow> False | Some b \<Rightarrow> b),
          ent_SendScene = (case scenes of [] \<Rightarrow> None | sc # _ \<Rightarrow> Some sc),
          ent_SendSceneId = (case scenes of [] \<Rightarrow> None
             | sc # _ \<Rightarrow> Some (collId cx ''SceneCollection'' (scn_Id sc))),
          ent_SendScenes = (if length scenes > 1 then scenes else []),
          ent_SendScenesIds = (if length scenes > 1
             then Some (collIds cx ''SceneCollection'' (map scn_Id scenes)) else None),
          ent_OnEvent = foldl addEvent [] (concat triggers),
          ent_OnEventIds = Some (collIds cx ''TriggerCollection'' (map trg_Id (concat triggers)))\<rparr> }"

section \<open>Storylines\<close>

definition resolveEnactmentRef :: "Context \<Rightarrow> string \<Rightarrow> string \<Rightarrow> ObjectId gomap \<Rightarrow> Action \<Rightarrow> Action" where
  "resolveEnactmentRef cx story sl enactments action =
     (if \<not> prefix jump_prefix (act_ActionName action) then action
      else
        (let target = drop (length jump_prefix) (act_ActionName action) in
         case map_of enactments (enactment_key story sl target) of
           Some i \<Rightarrow> action\<lparr>act_NextEnactmentId := Some (collId cx ''EnactmentCollection'' i),
                            act_ActionName := []\<rparr>
         | None \<Rightarrow> action))"

definition linkEnactment :: "(Action \<Rightarrow> Action) \<Rightarrow> Enactment \<Rightarrow> Enactment" where
  "linkEnactment f en =
     en\<lparr>ent_OnEvent := map (\<lambda>(t, trs). (t, map (\<lambda>tr.
          tr\<lparr>trg_DoAction := map_option f (trg_DoAction tr)\<rparr>) trs)) (ent_OnEvent en)\<rparr>"

text \<open>
  The linking pass: the enactments that some node's key leads to are the ones whose actions
  are resolved; two nodes with one key lead to the same enactment, the later one.
\<close>

definition linkEnactments ::
  "Context \<Rightarrow> string \<Rightarrow> string \<Rightarrow> ObjectId gomap \<Rightarrow> EnactmentNode list \<Rightarrow> Enactment list \<Rightarrow> Enactment list" where
  "linkEnactments cx story sl enactments nodes acts =
     (let linked = List.map_filter (\<lambda>en. map_of enactments (enactment_key story sl (en_Name en))) nodes in
      map (\<lambda>en. if List.member linked (ent_Id en)
                then linkEnactment (resolveEnactmentRef cx story sl enactments) en else en) acts)"

definition compileConditionalRoute :: "Context \<Rightarrow> ConditionalRouteNode \<Rightarrow> ConditionalRoute compiler" where
  "compileConditionalRoute cx node = do {
     rb \<leftarrow> compileRequiredBadgesNode cx (crt_RequiredBadges node);
     ret \<lparr>crr_RequiredBadges = rb,
          crr_Priority = (case crt_Priority node of None \<Rightarrow> 0 | Some p \<Rightarrow> p),
          crr_NextStoryline = None, crr_NextStorylineId = None\<rparr> }"

definition compileStorylineEnd ::
  "Context \<Rightarrow> (BadgeTransactionNode option \<times> ConditionalRouteNode list) option \<Rightarrow> StorylineEnd compiler" where
  "compileStorylineEnd cx block =
     (case block of
        None \<Rightarrow> ret no_storyline_end
      | Some (bt, routes) \<Rightarrow> do {
          t \<leftarrow> compileBadgeTransaction cx bt;
          crs \<leftarrow> mapC (compileConditionalRoute cx) routes;
          ret (no_storyline_end\<lparr>sle_BadgeTransaction := t, sle_ConditionalRoutes := crs\<rparr>) })"

definition compileEnactmentAt ::
  "Context \<Rightarrow> string \<Rightarrow> string \<Rightarrow> int \<Rightarrow> EnactmentNode \<Rightarrow> Enactment compiler" where
  "compileEnactmentAt cx story sl i node = do {
     en \<leftarrow> compileEnactment cx story sl i node;
     modifies (\<lambda>s. s\<lparr>cs_enactmentMap :=
       gomap_put (enactment_key story sl (en_Name node)) (ent_Id en) (cs_enactmentMap s)\<rparr>);
     ret en }"

definition compileStoryline :: "Context \<Rightarrow> string \<Rightarrow> int \<Rightarrow> StorylineNode \<Rightarrow> Storyline compiler" where
  "compileStoryline cx story defaultOrder node = do {
     oid \<leftarrow> newObjectId; pid \<leftarrow> generatePublicID ''storyline'';
     rb \<leftarrow> compileRequiredBadgesNode cx (sl_RequiredBadges node);
     begin_bt \<leftarrow> compileLifecycle cx (map_option lb_BadgeTransaction (sl_OnBegin node));
     complete \<leftarrow> compileStorylineEnd cx
       (map_option (\<lambda>c. (slc_BadgeTransaction c, slc_ConditionalRoutes c)) (sl_OnComplete node));
     fail \<leftarrow> compileStorylineEnd cx
       (map_option (\<lambda>c. (slf_BadgeTransaction c, slf_ConditionalRoutes c)) (sl_OnFail node));
     acts \<leftarrow> numberedC (compileEnactmentAt cx story (sl_Name node)) (sl_Enactments node);
     enactments \<leftarrow> asks cs_enactmentMap;
     ret \<lparr>stl_Id = oid, stl_PublicId = pid, stl_SubscriberId = cx_subscriberID cx,
          stl_CreatorId = cx_creatorID cx, stl_Name = sl_Name node,
          stl_NaturalOrder = (case sl_Order node of None \<Rightarrow> defaultOrder | Some k \<Rightarrow> k),
          stl_RequiredUserBadges = rb, stl_OnBegin = begin_bt,
          stl_OnComplete = complete, stl_OnFail = fail,
          stl_Acts = linkEnactments cx story (sl_Name node) enactments (sl_Enactments node) acts,
          stl_ActIds = Some (collIds cx ''EnactmentCollection'' (map ent_Id acts))\<rparr> }"

section \<open>Stories\<close>

definition linkRoute :: "Context \<Rightarrow> string \<Rightarrow> ObjectId gomap \<Rightarrow> ConditionalRouteNode \<Rightarrow> ConditionalRoute \<Rightarrow> ConditionalRoute" where
  "linkRoute cx story storylines node cr =
     (case map_of storylines (child_key story (crt_NextStoryline node)) of
        None \<Rightarrow> cr
      | Some i \<Rightarrow> cr\<lparr>crr_NextStoryline := Some i,
                    crr_NextStorylineId := Some (collId cx ''StorylineCollection'' i)\<rparr>)"

text \<open>One ending of a storyline: its next storyline and, route by route, its conditional ones.\<close>

definition linkStorylineEnd ::
  "Context \<Rightarrow> string \<Rightarrow> ObjectId gomap \<Rightarrow> (string \<times> ConditionalRouteNode list) option \<Rightarrow> StorylineEnd \<Rightarrow> StorylineEnd" where
  "linkStorylineEnd cx story storylines node ending =
     (case node of
        None \<Rightarrow> ending
      | Some (next, routes) \<Rightarrow>
          (let e1 = (if next = [] then ending
                else case map_of storylines (child_key story next) of
                  None \<Rightarrow> ending
                | Some i \<Rightarrow> ending\<lparr>sle_NextStoryline := Some i,
                    sle_NextStorylineId := Some (collId cx ''StorylineCollection'' i)\<rparr>);
               crs = sle_ConditionalRoutes e1 in
           e1\<lparr>sle_ConditionalRoutes :=
                map2 (linkRoute cx story storylines) routes crs @ drop (length routes) crs\<rparr>))"

definition linkStoryline :: "Context \<Rightarrow> string \<Rightarrow> ObjectId gomap \<Rightarrow> StorylineNode \<Rightarrow> Storyline \<Rightarrow> Storyline" where
  "linkStoryline cx story storylines node sl =
     sl\<lparr>stl_OnComplete := linkStorylineEnd cx story storylines
          (map_option (\<lambda>c. (slc_NextStoryline c, slc_ConditionalRoutes c)) (sl_OnComplete node))
          (stl_OnComplete sl),
        stl_OnFail := linkStorylineEnd cx story storylines
          (map_option (\<lambda>c. (slf_NextStoryline c, slf_ConditionalRoutes c)) (sl_OnFail node))
          (stl_OnFail sl)\<rparr>"

text \<open>The second pass of a story: each node updates the storyline its key leads to.\<close>

definition linkStorylines ::
  "Context \<Rightarrow> string \<Rightarrow> ObjectId gomap \<Rightarrow> StorylineNode list \<Rightarrow> Storyline list \<Rightarrow> Storyline list" where
  "linkStorylines cx story storylines nodes sls =
     foldl (\<lambda>acc node.
       case map_of storylines (child_key story (sl_Name node)) of
         None \<Rightarrow> acc
       | Some i \<Rightarrow> map (\<lambda>sl. if stl_Id sl = i then linkStoryline cx story storylines node sl else sl) acc)
       sls nodes"

definition compileStorylineAt :: "Context \<Rightarrow> string \<Rightarrow> int \<Rightarrow> StorylineNode \<Rightarrow> Storyline compiler" where
  "compileStorylineAt cx story i node = do {
     sl \<leftarrow> compileStoryline cx story i node;
     modifies (\<lambda>s. s\<lparr>cs_storylineMap :=
       gomap_put (child_key story (sl_Name node)) (stl_Id sl) (cs_storylineMap s)\<rparr>);
     ret sl }"

definition compileStory :: "Context \<Rightarrow> StoryNode \<Rightarrow> Story compiler" where
  "compileStory cx node = do {
     oid \<leftarrow> newObjectId; pid \<leftarrow> generatePublicID ''story'';
     begin_bt \<leftarrow> compileLifecycle cx (map_option lb_BadgeTransaction (st_OnBegin node));
     complete_bt \<leftarrow> compileLifecycle cx (map_option oc_BadgeTransaction (st_OnComplete node));
     fail_bt \<leftarrow> compileLifecycle cx (map_option ofb_BadgeTransaction (st_OnFail node));
     rb \<leftarrow> compileRequiredBadgesNode cx (st_RequiredBadges node);
     start \<leftarrow> compileBadgeRef cx (st_StartTrigger node);
     done \<leftarrow> compileBadgeRef cx (st_CompleteTrigger node);
     sls \<leftarrow> numberedC (compileStorylineAt cx (st_Name node)) (st_Storylines node);
     storylines \<leftarrow> asks cs_storylineMap;
     ret \<lparr>sto_Id = oid, sto_PublicId = pid, sto_SubscriberId = cx_subscriberID cx,
          sto_CreatorId = cx_creatorID cx, sto_Name = st_Name node,
          sto_Priority = (case st_Priority node of None \<Rightarrow> 0 | Some p \<Rightarrow> p),
          sto_AllowInterruption = (case st_AllowInterruption node of None \<Rightarrow> False | Some b \<Rightarrow> b),
          sto_OnBegin = begin_bt,
          sto_OnComplete = no_story_end\<lparr>ste_BadgeTransaction := complete_bt\<rparr>,
          sto_OnFail = no_story_end\<lparr>ste_BadgeTransaction := fail_bt\<rparr>,
          sto_RequiredUserBadges = rb, sto_StartTrigger = start, sto_CompleteTrigger = done,
          sto_Storylines = linkStorylines cx (st_Name node) storylines (st_Storylines node) sls,
          sto_StorylineIds = Some (collIds cx ''StorylineCollection'' (map stl_Id sls)), sto_TenantID = None\<rparr> }"

definition compileStoryAt :: "Context \<Rightarrow> StoryNode \<Rightarrow> Story compiler" where
  "compileStoryAt cx node = do {
     story \<leftarrow> compileStory cx node;
     modifies (\<lambda>s. s\<lparr>cs_storyMap := gomap_put (st_Name node) (sto_Id story) (cs_storyMap s)\<rparr>);
     ret story }"

text \<open>The pass over the stories that resolves \<open>next_story\<close>.\<close>

definition linkStoryEnd ::
  "Context \<Rightarrow> (Pos \<times> string) option \<Rightarrow> StoryEnd \<Rightarrow> StoryEnd compiler" where
  "linkStoryEnd cx node ending =
     (case node of
        None \<Rightarrow> ret ending
      | Some (pos, next) \<Rightarrow>
          (if next = [] then ret ending
           else do {
             target \<leftarrow> asks (\<lambda>s. map_of (cs_storyMap s) next);
             (case target of
                Some i \<Rightarrow> ret (ending\<lparr>ste_NextStory := Some i,
                   ste_NextStoryId := Some (collId cx ''StoryCollection'' i)\<rparr>)
              | None \<Rightarrow> do {
                  modifies (\<lambda>s. s\<lparr>cs_errors := cs_errors s @
                    [errorAt pos ''next_story %q not found'' [AStr next]]\<rparr>);
                  ret ending }) }))"

definition linkStory :: "Context \<Rightarrow> StoryNode \<times> Story \<Rightarrow> Story compiler" where
  "linkStory cx = (\<lambda>(node, story). do {
     c \<leftarrow> linkStoryEnd cx (map_option (\<lambda>c. (oc_Pos c, oc_NextStory c)) (st_OnComplete node)) (sto_OnComplete story);
     f \<leftarrow> linkStoryEnd cx (map_option (\<lambda>c. (ofb_Pos c, ofb_NextStory c)) (st_OnFail node)) (sto_OnFail story);
     ret (story\<lparr>sto_OnComplete := c, sto_OnFail := f\<rparr>) })"

definition compileStories :: "Context \<Rightarrow> StoryNode list \<Rightarrow> Story list compiler" where
  "compileStories cx nodes = do {
     stories \<leftarrow> mapC (compileStoryAt cx) nodes;
     mapC (linkStory cx) (zip nodes stories) }"

text \<open>What \<open>Compile\<close> does with a script that declares nothing but stories.\<close>

definition compileStoryScript :: "Context \<Rightarrow> SymbolTable \<Rightarrow> ScriptAST \<Rightarrow> Story list compiler" where
  "compileStoryScript cx sy ast = do {
     _ \<leftarrow> precreateBadges cx sy;
     _ \<leftarrow> precreateTags cx sy;
     compileStories cx (ast_Stories ast) }"

definition NewCompiler :: "nat \<Rightarrow> int \<Rightarrow> string \<Rightarrow> CState" where
  "NewCompiler oids counter session =
     \<lparr>cs_oids = oids, cs_idCounter = counter, cs_idSessionPrefix = session, cs_badges = [],
      cs_tags = [], cs_storyMap = [], cs_storylineMap = [], cs_enactmentMap = [], cs_sceneMap = [],
      cs_funnelMap = [], cs_stageMap = [], cs_productMap = [], cs_offerMap = [], cs_mediaMap = [],
      cs_presetMap = [], cs_pendingAssets = [], cs_pendingQuizzes = [], cs_certTemplates = [],
      cs_errors = [], cs_panicked = False\<rparr>"

section \<open>What a compilation leaves alone\<close>

text \<open>
  A reflexive and transitive relation that the id generators respect is respected by everything
  below a storyline that does not enter the maps.
\<close>

locale id_relation = step_relation R
  for R :: "CState \<Rightarrow> CState \<Rightarrow> bool" +
  assumes oids: "R s (s\<lparr>cs_oids := Suc (cs_oids s)\<rparr>)"
    and counter: "R s (s\<lparr>cs_idCounter := cs_idCounter s + 1\<rparr>)"
begin

lemma newObjectId [preserves_intros]: "keeps R newObjectId"
  by (simp add: keeps_def newObjectId_def oids)

lemma publicID [preserves_intros]: "keeps R (generatePublicID kind)"
  by (simp add: keeps_def generatePublicID_def counter Let_def)

lemma requiredBadges [preserves_intros]:
  "keeps R (requiredBadge cx b)" "keeps R (compileRequiredBadges cx names)"
  "keeps R (compileRequiredBadgesNode cx rb)" "keeps R (compileBadgeRef cx ref)"
  by (auto simp: requiredBadge_def compileRequiredBadges_def compileRequiredBadgesNode_def
      compileBadgeRef_def intro!: preserves_intros split: option.splits)

lemma badgeTransactions [preserves_intros]:
  "keeps R (compileBadgeTransaction cx bt)" "keeps R (compileLifecycle cx lc)"
  "keeps R (setBadgeTransaction cx t a)"
  by (auto simp: compileBadgeTransaction_def compileLifecycle_def setBadgeTransaction_def
      intro!: preserves_intros split: option.splits)

lemma addRequired [preserves_intros]: "keeps R (addRequired cx add name r)"
  by (auto simp: addRequired_def intro!: preserves_intros split: option.splits)

lemma conditions [preserves_intros]: "keeps R (applyConditionToTrigger cx c r)"
proof (induction cx c r rule: applyConditionToTrigger.induct)
  case (1 cx p ctype val cs r)
  then show ?case
    by (auto intro!: preserves_intros split: list.splits)
qed

lemma actionCase: "keeps R (compileActionCase cx (Some sc) an a)"
  by (auto simp: compileActionCase_def Let_def intro!: preserves_intros split: option.splits prod.splits)

lemma actionRest [preserves_intros]: "keeps R (compileActionRest cx an a)"
  by (auto simp: compileActionRest_def Let_def intro!: preserves_intros split: option.splits)

lemma actions [preserves_intros]: "keeps R (compileActions cx (Some sc) ans)"
  by (auto simp: compileActions_def compileAction_def newAction_def
      intro!: preserves_intros actionCase)

lemma triggers [preserves_intros]: "keeps R (compileTrigger cx (Some sc) node)"
  by (auto simp: compileTrigger_def compileMainTrigger_def compileElseTrigger_def newTrigger_def
      Let_def intro!: preserves_intros split: prod.splits)

lemma scenes [preserves_intros]: "keeps R (compileScene cx node)"
  by (auto simp: compileScene_def compileTemplate_def intro!: preserves_intros)

lemma storylineEnds [preserves_intros]: "keeps R (compileStorylineEnd cx block)"
  by (auto simp: compileStorylineEnd_def compileConditionalRoute_def
      intro!: preserves_intros split: option.splits)

end

text \<open>A relation that entering an entity in the maps of the stories respects too.\<close>

locale outer_relation = id_relation +
  assumes sceneMap: "R s (s\<lparr>cs_sceneMap := m\<rparr>)"
    and enactmentMap: "R s (s\<lparr>cs_enactmentMap := m\<rparr>)"
    and storylineMap: "R s (s\<lparr>cs_storylineMap := m\<rparr>)"
begin

lemma enactment [preserves_intros]: "keeps R (compileEnactmentAt cx story sl i node)"
  by (auto simp: compileEnactmentAt_def compileEnactment_def compileSceneAt_def
      intro!: preserves_intros modify simp: sceneMap enactmentMap)

lemma storyline [preserves_intros]: "keeps R (compileStorylineAt cx story i node)"
  by (auto simp: compileStorylineAt_def compileStoryline_def
      intro!: preserves_intros modify simp: storylineMap)

lemma story [preserves_intros]: "keeps R (compileStory cx node)"
  by (auto simp: compileStory_def intro!: preserves_intros)

end

interpretation errors: outer_relation "\<lambda>s s'. cs_errors s' = cs_errors s"
  by unfold_locales simp_all

interpretation storyMap: outer_relation "\<lambda>s s'. cs_storyMap s' = cs_storyMap s"
  by unfold_locales simp_all

interpretation panicked: outer_relation "\<lambda>s s'. cs_panicked s' = cs_panicked s"
  by unfold_locales simp_all

interpretation badges: outer_relation "\<lambda>s s'. cs_badges s' = cs_badges s"
  by unfold_locales simp_all

interpretation tags: outer_relation "\<lambda>s s'. cs_tags s' = cs_tags s"
  by unfold_locales simp_all

end
