(* ===== verification/CompilerFunnels.thy ===== *)
theory CompilerFunnels
  imports Compiler
begin

text \<open>
  The part of \<open>src/scripting/compiler.go\<close> for funnels and sites: routes, stages, pages, blocks,
  forms and the generation jobs of lead magnets. An owner's id is written into a part after
  the part is compiled.
\<close>

section \<open>Pages\<close>

definition compileContentGen :: "ContentGenNode \<Rightarrow> ContentGenConfig" where
  "compileContentGen node =
     \<lparr>cgc_Length = cg_Length node, cgc_ContextURLs = cg_ContextURLs node,
      cgc_PromptAppend = cg_PromptAppend node, cgc_Status = ''pending''\<rparr>"

definition compileAIContext :: "AIContextNode \<Rightarrow> AIContextBlock" where
  "compileAIContext node =
     \<lparr>aic_ContextURLs = ai_ContextURLs node, aic_ContextRefs = ai_ContextRefs node,
      aic_ContextMode = ai_Mode node\<rparr>"

text \<open>A name of the script that is the name of a compiled medium becomes its public id.\<close>

definition mediaRef :: "Media gomap \<Rightarrow> string \<Rightarrow> string" where
  "mediaRef media name =
     (case map_of media name of None \<Rightarrow> name | Some m \<Rightarrow> med_PublicId m)"

definition compileBlock :: "Context \<Rightarrow> BlockNode \<Rightarrow> PageBlock compiler" where
  "compileBlock cx node = do {
     media \<leftarrow> asks (\<lambda>s. mediaRef (cs_mediaMap s) (bl_MediaPublicId node));
     oid \<leftarrow> newObjectId; pid \<leftarrow> generatePublicID ''block'';
     ret \<lparr>blk_Id = oid, blk_PublicId = pid, blk_SubscriberId = cx_subscriberID cx,
          blk_SectionID = bl_SectionID node, blk_BlockType = bl_BlockType node,
          blk_SourceURL = bl_SourceURL node, blk_MediaPublicId = media,
          blk_PlayerPresetId = bl_PlayerPresetId node, blk_Autoplay = bl_Autoplay node,
          blk_ContentGen = map_option compileContentGen (bl_ContentGen node),
          blk_AIContext = map_option compileAIContext (bl_AIContext node), blk_PageId = None\<rparr> }"

definition compileFormField :: "FormFieldNode \<Rightarrow> FormField" where
  "compileFormField node =
     \<lparr>fld_FieldName = ff_FieldName node, fld_FieldType = ff_FieldType node,
      fld_Required = ff_Required node, fld_CustomField = ff_CustomField node\<rparr>"

definition compileOrderBump :: "Offer gomap \<Rightarrow> OrderBumpNode \<Rightarrow> OrderBump" where
  "compileOrderBump offers node =
     \<lparr>bmp_Text = ob_Text node,
      bmp_OfferID = map_option ofr_Id (map_of offers (ob_OfferID node))\<rparr>"

definition compileForm :: "Context \<Rightarrow> FormNode \<Rightarrow> PageForm compiler" where
  "compileForm cx node = do {
     oid \<leftarrow> newObjectId; pid \<leftarrow> generatePublicID ''form'';
     bumps \<leftarrow> asks (\<lambda>s. map (compileOrderBump (cs_offerMap s)) (fm_OrderBumps node));
     ret \<lparr>frm_Id = oid, frm_PublicId = pid, frm_SubscriberId = cx_subscriberID cx,
          frm_Name = fm_Name node, frm_FormType = fm_FormType node,
          frm_ProductId = fm_ProductID node, frm_OfferID = fm_OfferID node,
          frm_Fields = map compileFormField (fm_Fields node), frm_OrderBumps = bumps,
          frm_PageId = None\<rparr> }"

definition compilePage :: "Context \<Rightarrow> PageNode \<Rightarrow> FunnelPage compiler" where
  "compilePage cx node = do {
     oid \<leftarrow> newObjectId; pid \<leftarrow> generatePublicID ''page'';
     blocks \<leftarrow> mapC (compileBlock cx) (pg_Blocks node);
     forms \<leftarrow> mapC (compileForm cx) (pg_Forms node);
     ret \<lparr>pag_Id = oid, pag_PublicId = pid, pag_SubscriberId = cx_subscriberID cx,
          pag_Name = pg_Name node, pag_TemplateName = pg_TemplateName node,
          pag_AIContext = map_option compileAIContext (pg_AIContext node),
          pag_Blocks = map (\<lambda>b. b\<lparr>blk_PageId := Some oid\<rparr>) blocks,
          pag_BlockIds = Some (collIds cx ''PageBlockCollection'' (map blk_Id blocks)),
          pag_Forms = map (\<lambda>f. f\<lparr>frm_PageId := Some oid\<rparr>) forms,
          pag_FormIds = Some (collIds cx ''PageFormCollection'' (map frm_Id forms)),
          pag_StageId = None\<rparr> }"

section \<open>Stages, routes and funnels\<close>

definition orElse :: "string \<Rightarrow> string \<Rightarrow> string" where
  "orElse s d = (if s = [] then d else s)"

text \<open>The generation job of a lead magnet, for the stage with the given public id.\<close>

definition compileLeadMagnet :: "Context \<Rightarrow> string \<Rightarrow> LeadMagnetNode \<Rightarrow> unit compiler" where
  "compileLeadMagnet cx stage node =
     (let assetType = orElse (lm_AssetType node) ''guide''; theme = orElse (lm_Theme node) ''minimal'' in do {
     oid \<leftarrow> newObjectId; pid \<leftarrow> generatePublicID ''asset'';
     modifies (\<lambda>s. s\<lparr>cs_pendingAssets := cs_pendingAssets s @
       [\<lparr>asset_Id = oid, asset_PublicId = pid, asset_SubscriberId = cx_subscriberID cx,
         asset_FileName = assetType @ ''-'' @ stage @ ''.pdf'', asset_FileType = ''application/pdf'',
         asset_GenConfig =
           \<lparr>agc_AssetType = assetType, agc_References = lm_References node,
            agc_Instruction = lm_Instruction node, agc_Theme = theme, agc_Status = ''pending'',
            agc_StageID = stage\<rparr>\<rparr>]\<rparr>) })"

definition compilePDFConfig :: "PDFConfigNode \<Rightarrow> PDFConfig" where
  "compilePDFConfig node =
     \<lparr>pdc_AIGenerated = pdf_AIGenerated node, pdc_AIContext = map_option compileAIContext (pdf_AIContext node)\<rparr>"

definition compileStage :: "Context \<Rightarrow> int \<Rightarrow> StageNode \<Rightarrow> FunnelStage compiler" where
  "compileStage cx defaultOrder node = do {
     oid \<leftarrow> newObjectId; pid \<leftarrow> generatePublicID ''stage'';
     pages \<leftarrow> mapC (compilePage cx) (sg_Pages node);
     triggers \<leftarrow> mapC (compileTrigger cx None) (sg_Triggers node);
     _ \<leftarrow> mapC (compileLeadMagnet cx pid) (sg_LeadMagnets node);
     _ \<leftarrow> mapC (compileLeadMagnet cx pid) (concat (map pg_LeadMagnets (sg_Pages node)));
     ret \<lparr>stg_Id = oid, stg_PublicId = pid, stg_SubscriberId = cx_subscriberID cx,
          stg_Name = sg_Name node, stg_Path = sg_Path node,
          stg_Order = (case sg_Order node of None \<Rightarrow> defaultOrder | Some k \<Rightarrow> k),
          stg_Pages = map (\<lambda>p. p\<lparr>pag_StageId := Some oid\<rparr>) pages,
          stg_PageIds = Some (collIds cx ''FunnelPageCollection'' (map pag_Id pages)),
          stg_Triggers = concat triggers,
          stg_TriggerIds = Some (collIds cx ''TriggerCollection'' (map trg_Id (concat triggers))),
          stg_PDFConfig = map_option compilePDFConfig (sg_PDFConfig node),
          stg_RouteId = None\<rparr> }"

definition compileStageAt :: "Context \<Rightarrow> string \<Rightarrow> string \<Rightarrow> int \<Rightarrow> StageNode \<Rightarrow> FunnelStage compiler" where
  "compileStageAt cx funnel route i node = do {
     stage \<leftarrow> compileStage cx i node;
     modifies (\<lambda>s. s\<lparr>cs_stageMap :=
       gomap_put (child_key (child_key funnel route) (sg_Name node)) (stg_Id stage) (cs_stageMap s)\<rparr>);
     ret stage }"

definition compileRoute :: "Context \<Rightarrow> string \<Rightarrow> int \<Rightarrow> RouteNode \<Rightarrow> FunnelRoute compiler" where
  "compileRoute cx funnel defaultOrder node = do {
     oid \<leftarrow> newObjectId; pid \<leftarrow> generatePublicID ''route'';
     rb \<leftarrow> compileRequiredBadgesNode cx (rt_RequiredBadges node);
     stages \<leftarrow> numberedC (compileStageAt cx funnel (rt_Name node)) (rt_Stages node);
     ret \<lparr>rou_Id = oid, rou_PublicId = pid, rou_SubscriberId = cx_subscriberID cx,
          rou_Name = rt_Name node,
          rou_Order = (case rt_Order node of None \<Rightarrow> defaultOrder | Some k \<Rightarrow> k),
          rou_RequiredUserBadges = rb,
          rou_Stages = map (\<lambda>s. s\<lparr>stg_RouteId := Some oid\<rparr>) stages,
          rou_StageIds = Some (collIds cx ''FunnelStageCollection'' (map stg_Id stages)),
          rou_FunnelId = None\<rparr> }"

definition compileFunnel :: "Context \<Rightarrow> FunnelNode \<Rightarrow> Funnel compiler" where
  "compileFunnel cx node = do {
     oid \<leftarrow> newObjectId; pid \<leftarrow> generatePublicID ''funnel'';
     compiled \<leftarrow> numberedC (compileRoute cx (fn_Name node)) (fn_Routes node);
     now \<leftarrow> asks (\<lambda>s. cx_now cx (cs_oids s));
     modifies (\<lambda>s. s\<lparr>cs_funnelMap := gomap_put (fn_Name node) oid (cs_funnelMap s)\<rparr>);
     (let routes = map (\<lambda>r. r\<lparr>rou_FunnelId := Some oid\<rparr>) compiled in
      ret \<lparr>fun_Id = oid, fun_PublicId = pid, fun_SubscriberId = cx_subscriberID cx,
           fun_CreatorId = cx_creatorID cx, fun_Name = fn_Name node, fun_Domain = fn_Domain node,
           fun_Status = ''published'', fun_DraftVersion = 1, fun_PublishedVersion = 1,
           fun_PublishedName = fn_Name node, fun_PublishedDomain = fn_Domain node,
           fun_AIContext = map_option compileAIContext (fn_AIContext node),
           fun_Routes = routes,
           fun_RouteIds = Some (collIds cx ''FunnelRouteCollection'' (map rou_Id routes)),
           fun_PublishedRoutes = routes, fun_PublishedAt = Some now\<rparr>) }"

section \<open>Sites\<close>

definition compileSite :: "Context \<Rightarrow> SiteNode \<Rightarrow> Site compiler" where
  "compileSite cx node = do {
     oid \<leftarrow> newObjectId; pid \<leftarrow> generatePublicID ''site'';
     pages \<leftarrow> mapC (compilePage cx) (si_Pages node);
     ret \<lparr>sit_Id = oid, sit_PublicId = pid, sit_SubscriberId = cx_subscriberID cx,
          sit_CreatorId = cx_creatorID cx, sit_Name = si_Name node, sit_Domain = si_Domain node,
          sit_Theme = si_Theme node,
          sit_SEO = map_option (\<lambda>seo.
            \<lparr>sec_MetaTitle = seo_MetaTitle seo, sec_MetaDescription = seo_MetaDescription seo,
             sec_OpenGraphImageURL = seo_OpenGraphImageURL seo\<rparr>) (si_SEO node),
          sit_Navigation = map_option (\<lambda>nav.
            \<lparr>nvc_HeaderLinks = nv_HeaderLinks nav, nvc_FooterLinks = nv_FooterLinks nav\<rparr>) (si_Navigation node),
          sit_Pages = pages,
          sit_PageIds = Some (collIds cx ''FunnelPageCollection'' (map pag_Id pages))\<rparr> }"

end
