(* ===== verification/CompilerCourses.thy ===== *)
theory CompilerCourses
  imports CompilerFunnels
begin

text \<open>
  The part of \<open>src/scripting/compiler.go\<close> for products, courses, quizzes and offers.
\<close>

section \<open>Lessons and modules\<close>

definition compileLesson :: "int \<Rightarrow> LessonNode \<Rightarrow> Lesson compiler" where
  "compileLesson order node = do {
     oid \<leftarrow> newObjectId;
     ret \<lparr>les_Id = oid, les_Title = ls_Title node, les_VideoURL = ls_VideoURL node,
          les_MediaPublicId = ls_MediaPublicId node, les_ContentHTML = ls_ContentHTML node,
          les_IsDraft = ls_IsDraft node, les_Order = order\<rparr> }"

definition compileModule :: "int \<Rightarrow> ModuleNode \<Rightarrow> Module compiler" where
  "compileModule order node = do {
     oid \<leftarrow> newObjectId;
     lessons \<leftarrow> numberedC compileLesson (mo_Lessons node);
     ret \<lparr>mod_Id = oid, mod_Title = mo_Title node, mod_Order = order, mod_Lessons = lessons\<rparr> }"

definition orDefault :: "int \<Rightarrow> int \<Rightarrow> int" where
  "orDefault n d = (if n = 0 then d else n)"

definition compileCourseLesson :: "int \<Rightarrow> LessonNode \<Rightarrow> CourseLesson" where
  "compileCourseLesson defaultOrder node =
     \<lparr>cle_Slug = ls_Slug node,
      cle_Title = orElse (ls_Title node) (ls_Slug node),
      cle_Order = orDefault (ls_Order node) defaultOrder,
      cle_VideoURL = ls_VideoURL node, cle_MediaPublicId = ls_MediaPublicId node,
      cle_Duration = ls_Duration node, cle_ContentHTML = ls_ContentHTML node,
      cle_IsFree = ls_IsFree node, cle_IsDraft = ls_IsDraft node,
      cle_DripDays = ls_DripDays node, cle_DripHours = ls_DripHours node,
      cle_DripMinutes = ls_DripMinutes node,
      cle_ContentGenStatus = (if ls_ContentGen node = None then [] else ''pending''),
      cle_ContentGenConfig = map_option (\<lambda>g.
        \<lparr>gcf_Instruction = lcg_Instruction g, gcf_References = lcg_References g, gcf_Theme = lcg_Theme g\<rparr>)
        (ls_ContentGen node),
      cle_VideoMode = ls_VideoMode node, cle_VideoStubScript = ls_VideoStubScript node,
      cle_VideoStubDescription = ls_VideoStubDescription node,
      cle_ContentMarkdown = ls_ContentMarkdown node\<rparr>"

definition compileLMSQuestion :: "int \<Rightarrow> LMSQuestionNode \<Rightarrow> LMSQuizQuestion" where
  "compileLMSQuestion order node =
     \<lparr>qqn_Slug = lqn_Slug node, qqn_Type = lqn_Type node,
      qqn_Title = orElse (lqn_Title node) (lqn_Slug node), qqn_Order = order,
      qqn_Options = lqn_Options node,
      qqn_CorrectAnswer = (case lqn_Answer node of AnswerIndex i \<Rightarrow> i | _ \<Rightarrow> 0),
      qqn_CorrectText = (case lqn_Answer node of AnswerText t \<Rightarrow> t | _ \<Rightarrow> [])\<rparr>"

text \<open>\<open>strings.ToLower(strings.ReplaceAll(title, " ", "-"))\<close>\<close>

definition slugOf :: "Context \<Rightarrow> string \<Rightarrow> string" where
  "slugOf cx title = lower_text (cx_lower cx) (replace_all '' '' ''-'' title)"

definition numbered :: "(int \<Rightarrow> 'a \<Rightarrow> 'b) \<Rightarrow> 'a list \<Rightarrow> 'b list" where
  "numbered f xs = map (\<lambda>(i, x). f (int i + 1) x) (zip [0..<length xs] xs)"

definition compileLMSQuiz :: "Context \<Rightarrow> string \<Rightarrow> ObjectId \<Rightarrow> LMSQuizNode \<Rightarrow> LMSQuiz compiler" where
  "compileLMSQuiz cx moduleSlug product node =
     (let slug = orElse (lq_Slug node) (slugOf cx (lq_Title node)) in do {
     oid \<leftarrow> newObjectId; pid \<leftarrow> generatePublicID ''quiz'';
     ret \<lparr>qui_Id = oid, qui_PublicId = pid, qui_SubscriberId = cx_subscriberID cx,
          qui_Slug = slug, qui_Title = orElse (lq_Title node) slug, qui_ModuleSlug = moduleSlug,
          qui_PassThreshold = orDefault (lq_PassThreshold node) 70,
          qui_MaxAttempts = orDefault (lq_MaxAttempts node) 3,
          qui_ProductID = product,
          qui_Questions = numbered compileLMSQuestion (lq_Questions node)\<rparr> })"

definition compileQuizAt :: "Context \<Rightarrow> string \<Rightarrow> ObjectId \<Rightarrow> string \<Rightarrow> LMSQuizNode \<Rightarrow> string compiler" where
  "compileQuizAt cx moduleSlug product quizSlug node = do {
     quiz \<leftarrow> compileLMSQuiz cx moduleSlug product node;
     modifies (\<lambda>s. s\<lparr>cs_pendingQuizzes := cs_pendingQuizzes s @ [quiz]\<rparr>);
     ret (orElse quizSlug (qui_Slug quiz)) }"

definition compileCourseModule :: "Context \<Rightarrow> ObjectId \<Rightarrow> int \<Rightarrow> ModuleNode \<Rightarrow> CourseModule compiler" where
  "compileCourseModule cx product defaultOrder node =
     (let slug = orElse (mo_Slug node) (slugOf cx (mo_Title node)) in do {
     quizSlug \<leftarrow> foldC (compileQuizAt cx slug product) [] (mo_Quizzes node);
     ret \<lparr>cmo_Slug = slug, cmo_Title = orElse (mo_Title node) slug,
          cmo_Order = orDefault (mo_Order node) defaultOrder,
          cmo_Lessons = numbered compileCourseLesson (mo_Lessons node),
          cmo_QuizSlug = quizSlug\<rparr> })"

section \<open>Products and courses\<close>

definition compileProduct :: "Context \<Rightarrow> ProductDeclNode \<Rightarrow> Product compiler" where
  "compileProduct cx node = do {
     oid \<leftarrow> newObjectId; pid \<leftarrow> generatePublicID ''product'';
     modules \<leftarrow> numberedC compileModule (pd_Modules node);
     courseModules \<leftarrow> (if pd_ProductType node = ''course''
       then numberedC (compileCourseModule cx oid) (pd_Modules node) else ret []);
     ret \<lparr>pro_Id = oid, pro_PublicId = pid, pro_SubscriberId = cx_subscriberID cx,
          pro_Name = orElse (pd_Title node) (pd_Name node),
          pro_Description = pd_Description node, pro_ProductType = pd_ProductType node,
          pro_Status = orElse (pd_Status node) ''published'',
          pro_InstructorName = pd_Instructor node, pro_ThumbnailURL = pd_ThumbnailURL node,
          pro_DescriptionGenStatus = (if pd_DescriptionGen node = None then [] else ''pending''),
          pro_DescriptionGenConfig = map_option (\<lambda>g.
            \<lparr>gcf_Instruction = dg_Instruction g, gcf_References = dg_References g, gcf_Theme = []\<rparr>)
            (pd_DescriptionGen node),
          pro_Modules = modules, pro_CourseModules = courseModules,
          pro_TotalLessons = sum_list (map (\<lambda>m. int (length (cmo_Lessons m))) courseModules),
          pro_CourseGenConfig = None\<rparr> }"

text \<open>The product declaration a course stands for.\<close>

definition courseProduct :: "CourseDeclNode \<Rightarrow> ProductDeclNode" where
  "courseProduct node =
     \<lparr>pd_Pos = co_Pos node, pd_Name = co_Name node, pd_ProductType = ''course'', pd_Title = [],
      pd_Description = co_Description node, pd_Instructor = co_Instructor node,
      pd_ThumbnailURL = co_ThumbnailURL node, pd_Status = co_Status node,
      pd_DescriptionGen = co_DescriptionGen node, pd_Modules = co_Modules node\<rparr>"

definition courseGenConfig :: "CourseDeclNode \<Rightarrow> CourseGenConfig option" where
  "courseGenConfig node =
     (if co_Audience node \<noteq> [] \<or> co_Outcome node \<noteq> [] \<or> co_Tone node \<noteq> [] \<or> co_ExtraContext node \<noteq> []
         \<or> co_DefaultMedia node \<noteq> [] \<or> co_References node \<noteq> [] \<or> co_Mode node \<noteq> []
      then Some \<lparr>cgn_Mode = orElse (co_Mode node) ''authored'', cgn_Audience = co_Audience node,
                 cgn_Outcome = co_Outcome node, cgn_Tone = co_Tone node,
                 cgn_ExtraContext = co_ExtraContext node, cgn_DefaultMedia = co_DefaultMedia node,
                 cgn_References = co_References node\<rparr>
      else None)"

definition compileCertConfig :: "Context \<Rightarrow> Product \<Rightarrow> CourseCertConfigNode \<Rightarrow> unit compiler" where
  "compileCertConfig cx product node = do {
     oid \<leftarrow> newObjectId; pid \<leftarrow> generatePublicID ''cert-tmpl'';
     modifies (\<lambda>s. s\<lparr>cs_certTemplates := cs_certTemplates s @
       [\<lparr>cer_Id = oid, cer_PublicId = pid, cer_ProductPublicId = pro_PublicId product,
         cer_SubscriberId = cx_subscriberID cx,
         cer_Title = orElse (cc_Title node) (pro_Name product @ '' Certificate''),
         cer_TemplateName = orElse (cc_TemplateName node) ''default'',
         cer_LogoURL = cc_LogoURL node, cer_AccentColor = cc_AccentColor node,
         cer_Enabled = cc_Enabled node\<rparr>]\<rparr>) }"

definition compileCourseDecl :: "Context \<Rightarrow> CourseDeclNode \<Rightarrow> Product compiler" where
  "compileCourseDecl cx node = do {
     compiled \<leftarrow> compileProduct cx (courseProduct node);
     (let product = compiled\<lparr>pro_CourseGenConfig := courseGenConfig node\<rparr> in do {
      _ \<leftarrow> optC (compileCertConfig cx product) (co_CertConfig node);
      ret product }) }"

section \<open>References to courses\<close>

definition resolveCourseRef :: "CState \<Rightarrow> string \<Rightarrow> string" where
  "resolveCourseRef s name =
     (case map_of (cs_productMap s) name of Some p \<Rightarrow> pro_PublicId p | None \<Rightarrow> [])"

text \<open>The values of type \<open>interface{}\<close> a projection gives; an outline has title, slug, order and lessons.\<close>

datatype CourseValue =
    CourseNil
  | CourseText string
  | CourseTexts "string list"
  | CourseFlag bool
  | CourseNumber int
  | CourseOutline "(string \<times> string \<times> int \<times> string list) list"

definition resolveCourseRefProjection :: "CState \<Rightarrow> string \<Rightarrow> string \<Rightarrow> CourseValue" where
  "resolveCourseRefProjection s name projection =
     (case map_of (cs_productMap s) name of
        None \<Rightarrow> CourseNil
      | Some p \<Rightarrow>
          (if projection = ''title'' then CourseText (pro_Name p)
           else if projection = ''description'' then CourseText (pro_Description p)
           else if projection = ''outline'' then
             CourseOutline (map (\<lambda>m. (cmo_Title m, cmo_Slug m, cmo_Order m, map cle_Title (cmo_Lessons m)))
               (pro_CourseModules p))
           else if projection = ''lesson_titles'' then
             CourseTexts (concat (map (\<lambda>m. map cle_Title (cmo_Lessons m)) (pro_CourseModules p)))
           else if projection = ''certificate_enabled'' then
             CourseFlag (case find (\<lambda>t. cer_ProductPublicId t = pro_PublicId p) (cs_certTemplates s) of
               None \<Rightarrow> False | Some t \<Rightarrow> cer_Enabled t)
           else if projection = ''module_count'' then CourseNumber (int (length (pro_CourseModules p)))
           else if projection = ''total_lessons'' then CourseNumber (pro_TotalLessons p)
           else CourseText (pro_PublicId p)))"

section \<open>Offers\<close>

text \<open>\<open>int64(node.Price * 100)\<close>\<close>

definition priceCents :: "Context \<Rightarrow> float64 \<Rightarrow> int" where
  "priceCents cx price =
     (case float_times price 100 of
        Finite m e \<Rightarrow> (if in_int64 (trunc_int m e) then trunc_int m e else cx_int64 cx (Finite m e))
      | PosInf \<Rightarrow> cx_int64 cx PosInf)"

text \<open>One included product: its id, or an error.\<close>

definition includeProduct :: "Pos \<Rightarrow> ObjectId list \<Rightarrow> string \<Rightarrow> ObjectId list compiler" where
  "includeProduct pos ids name = do {
     product \<leftarrow> asks (\<lambda>s. map_of (cs_productMap s) name);
     (case product of
        Some p \<Rightarrow> ret (ids @ [pro_Id p])
      | None \<Rightarrow> do {
          modifies (\<lambda>s. s\<lparr>cs_errors := cs_errors s @
            [errorAt pos ''included product %q not found'' [AStr name]]\<rparr>);
          ret ids }) }"

text \<open>Create the badge of a name that has none.\<close>

definition ensureBadge :: "Context \<Rightarrow> string \<Rightarrow> unit compiler" where
  "ensureBadge cx name = do {
     known \<leftarrow> asks (\<lambda>s. map_of (cs_badges s) name);
     (case known of Some _ \<Rightarrow> ret () | None \<Rightarrow> precreateBadge cx name) }"

definition compileOffer :: "Context \<Rightarrow> OfferDeclNode \<Rightarrow> Offer compiler" where
  "compileOffer cx node = do {
     oid \<leftarrow> newObjectId; pid \<leftarrow> generatePublicID ''offer'';
     included \<leftarrow> foldC (includeProduct (off_Pos node)) [] (off_IncludedProducts node);
     _ \<leftarrow> mapC (ensureBadge cx) (off_GrantedBadges node);
     ret \<lparr>ofr_Id = oid, ofr_PublicId = pid, ofr_SubscriberId = cx_subscriberID cx,
          ofr_Title = off_Name node, ofr_PricingModel = off_PricingModel node,
          ofr_Amount = priceCents cx (off_Price node), ofr_Currency = off_Currency node,
          ofr_GrantedBadges = off_GrantedBadges node, ofr_IncludedProducts = included\<rparr> }"

end
