(* ===== verification/CompilerMedia.thy ===== *)
theory CompilerMedia
  imports CompilerCourses
begin

text \<open>
  The part of \<open>src/scripting/compiler.go\<close> for media, player presets, channels, webhooks and
  campaigns, and \<open>Compile\<close> itself, which runs the parts in order.
\<close>

section \<open>Media\<close>

definition compileChapter :: "ChapterDeclNode \<Rightarrow> MediaChapter compiler" where
  "compileChapter node = do {
     pid \<leftarrow> generatePublicID ''chapter'';
     ret \<lparr>mch_PublicId = pid, mch_Title = ch_Title node, mch_StartSec = ch_StartSec node,
          mch_EndSec = ch_EndSec node\<rparr> }"

definition interactionConfig :: "InteractionDeclNode \<Rightarrow> InteractionConfig" where
  "interactionConfig node =
     (if inr_Kind node = ''turnstile'' then TurnstileConfig (inr_Required node) (inr_Fields node)
      else if inr_Kind node = ''cta'' then CTAConfig (inr_Text node) (inr_URL node) (inr_ButtonText node)
      else if inr_Kind node = ''annotation'' then AnnotationConfig (inr_Text node) (inr_URL node)
      else NoConfig)"

definition compileInteraction :: "InteractionDeclNode \<Rightarrow> MediaInteraction compiler" where
  "compileInteraction node = do {
     pid \<leftarrow> generatePublicID ''interaction'';
     ret \<lparr>mit_PublicId = pid, mit_Kind = inr_Kind node, mit_StartSec = inr_StartSec node,
          mit_EndSec = inr_EndSec node, mit_Config = interactionConfig node\<rparr> }"

definition compileBadgeRule :: "Context \<Rightarrow> BadgeRuleDeclNode \<Rightarrow> MediaBadgeRule compiler" where
  "compileBadgeRule cx node = do {
     pid \<leftarrow> generatePublicID ''badge_rule'';
     (if br_BadgeName node = [] then ret () else ensureBadge cx (br_BadgeName node));
     ret \<lparr>mbr_PublicId = pid, mbr_EventName = br_EventName node, mbr_Operator = br_Operator node,
          mbr_Threshold = br_Threshold node, mbr_BadgePublicId = br_BadgeName node,
          mbr_Enabled = br_Enabled node\<rparr> }"

definition compileMediaDecl :: "Context \<Rightarrow> MediaDeclNode \<Rightarrow> Media compiler" where
  "compileMediaDecl cx node = do {
     oid \<leftarrow> newObjectId; pid \<leftarrow> generatePublicID ''media'';
     chapters \<leftarrow> mapC compileChapter (md_Chapters node);
     interactions \<leftarrow> mapC compileInteraction (md_Interactions node);
     rules \<leftarrow> mapC (compileBadgeRule cx) (md_BadgeRules node);
     preset \<leftarrow> asks (\<lambda>s. if md_PlayerPreset node = [] then None
                    else map_option pre_Id (map_of (cs_presetMap s) (md_PlayerPreset node)));
     ret \<lparr>med_Id = oid, med_PublicId = pid, med_SubscriberId = cx_subscriberID cx,
          med_Title = orElse (md_Title node) (md_Name node), med_Description = md_Description node,
          med_Kind = orElse (md_Kind node) ''video'', med_SourceURL = md_SourceURL node,
          med_PosterURL = md_PosterURL node, med_Status = ''draft'', med_Tags = md_Tags node,
          med_Folder = md_Folder node, med_Chapters = chapters, med_Interactions = interactions,
          med_BadgeRules = rules, med_PlayerPresetID = preset\<rparr> }"

definition compilePlayerPresetDecl :: "Context \<Rightarrow> PlayerPresetDeclNode \<Rightarrow> PlayerPreset compiler" where
  "compilePlayerPresetDecl cx node = do {
     oid \<leftarrow> newObjectId; pid \<leftarrow> generatePublicID ''preset'';
     ret \<lparr>pre_Id = oid, pre_PublicId = pid, pre_SubscriberId = cx_subscriberID cx,
          pre_Name = pp_Name node, pre_PlayerColor = pp_PlayerColor node,
          pre_ShowControls = pp_ShowControls node, pre_ShowRewind = pp_ShowRewind node,
          pre_ShowFastForward = pp_ShowFastForward node, pre_ShowSkip = pp_ShowSkip node,
          pre_ShowDownload = pp_ShowDownload node, pre_HideProgressBar = pp_HideProgressBar node,
          pre_ShowBigPlayButton = pp_ShowBigPlayButton node,
          pre_AllowFullscreen = pp_AllowFullscreen node,
          pre_AllowPlaybackRate = pp_AllowPlaybackRate node,
          pre_AllowSeeking = pp_AllowSeeking node, pre_Autoplay = pp_Autoplay node,
          pre_MutedDefault = pp_MutedDefault node, pre_DisablePause = pp_DisablePause node,
          pre_EndBehavior = pp_EndBehavior node, pre_RoundedPlayer = pp_RoundedPlayer node,
          pre_ChapterStyle = pp_ChapterStyle node, pre_ChapterPosition = pp_ChapterPosition node,
          pre_ChapterClickJump = pp_ChapterClickJump node\<rparr> }"

definition compileChannelDecl :: "Context \<Rightarrow> ChannelDeclNode \<Rightarrow> MediaChannel compiler" where
  "compileChannelDecl cx node = do {
     oid \<leftarrow> newObjectId; pid \<leftarrow> generatePublicID ''channel'';
     items \<leftarrow> asks (\<lambda>s. numbered (\<lambda>i name. \<lparr>mci_MediaPublicId = mediaRef (cs_mediaMap s) name, mci_Order = i\<rparr>) (cn_Items node));
     ret \<lparr>mcn_Id = oid, mcn_PublicId = pid, mcn_SubscriberId = cx_subscriberID cx,
          mcn_Title = orElse (cn_Title node) (cn_Name node), mcn_Description = cn_Description node,
          mcn_Layout = cn_Layout node, mcn_Theme = cn_Theme node, mcn_Items = items\<rparr> }"

definition compileMediaWebhookDecl :: "Context \<Rightarrow> MediaWebhookDeclNode \<Rightarrow> MediaWebhook compiler" where
  "compileMediaWebhookDecl cx node = do {
     oid \<leftarrow> newObjectId; pid \<leftarrow> generatePublicID ''webhook'';
     ret \<lparr>mwh_Id = oid, mwh_PublicId = pid, mwh_SubscriberId = cx_subscriberID cx,
          mwh_Name = mw_Name node, mwh_URL = mw_URL node, mwh_EventTypes = mw_EventTypes node,
          mwh_Enabled = mw_Enabled node\<rparr> }"

section \<open>Campaigns\<close>

definition campaignGenConfig :: "CampaignNode \<Rightarrow> EmailGenConfig option" where
  "campaignGenConfig node =
     (if cp_SubjectGen node \<noteq> [] \<or> cp_BodyGen node \<noteq> [] \<or> cp_ContextPackRefs node \<noteq> []
      then Some \<lparr>egc_SubjectInstruction = cp_SubjectGen node, egc_BodyInstruction = cp_BodyGen node,
                 egc_ContextPackRefs = cp_ContextPackRefs node\<rparr>
      else None)"

definition compileCampaign :: "Context \<Rightarrow> CampaignNode \<Rightarrow> Campaign compiler" where
  "compileCampaign cx node = do {
     oid \<leftarrow> newObjectId; pid \<leftarrow> generatePublicID ''campaign'';
     ret \<lparr>cam_Id = oid, cam_PublicId = pid, cam_SubscriberId = cx_subscriberID cx,
          cam_CreatorId = cx_creatorID cx, cam_Name = cp_Name node, cam_Subject = cp_Subject node,
          cam_Body = cp_Body node, cam_FromEmail = cp_FromEmail node, cam_FromName = cp_FromName node,
          cam_ReplyTo = cp_ReplyTo node, cam_Status = cx_pk cx ''CampaignStatusDraft'',
          cam_Audience = (case cp_Audience node of
              None \<Rightarrow> \<lparr>cau_MustHave = [], cau_MustNotHave = []\<rparr>
            | Some a \<Rightarrow> \<lparr>cau_MustHave = ca_MustHave a, cau_MustNotHave = ca_MustNotHave a\<rparr>),
          cam_EmailGenConfig = campaignGenConfig node,
          cam_ClickRules = map (\<lambda>r. \<lparr>ccr_URLPattern = cr_URLPattern r, ccr_AwardBadge = cr_AwardBadge r\<rparr>)
            (cp_OnClick node)\<rparr> }"

section \<open>The whole script\<close>

record CompileResult =
  res_Stories :: "Story list"
  res_Funnels :: "Funnel list"
  res_Sites :: "Site list"
  res_Products :: "Product list"
  res_Offers :: "Offer list"
  res_Assets :: "Asset list"
  res_MediaEntities :: "Media list"
  res_PlayerPresets :: "PlayerPreset list"
  res_Channels :: "MediaChannel list"
  res_MediaWebhooks :: "MediaWebhook list"
  res_Quizzes :: "LMSQuiz list"
  res_CertificateTemplates :: "CertificateTemplate list"
  res_Campaigns :: "Campaign list"
  res_Badges :: "Badge gomap"
  res_Tags :: "Tag gomap"
  res_Diagnostics :: Diagnostics

text \<open>Compile a declaration and enter the entity under its name.\<close>

definition compileMediaAt :: "Context \<Rightarrow> MediaDeclNode \<Rightarrow> Media compiler" where
  "compileMediaAt cx node = do {
     media \<leftarrow> compileMediaDecl cx node;
     modifies (\<lambda>s. s\<lparr>cs_mediaMap := gomap_put (md_Name node) media (cs_mediaMap s)\<rparr>);
     ret media }"

definition compilePresetAt :: "Context \<Rightarrow> PlayerPresetDeclNode \<Rightarrow> PlayerPreset compiler" where
  "compilePresetAt cx node = do {
     preset \<leftarrow> compilePlayerPresetDecl cx node;
     modifies (\<lambda>s. s\<lparr>cs_presetMap := gomap_put (pp_Name node) preset (cs_presetMap s)\<rparr>);
     ret preset }"

definition putProduct :: "string \<Rightarrow> Product \<Rightarrow> Product compiler" where
  "putProduct name product = do {
     modifies (\<lambda>s. s\<lparr>cs_productMap := gomap_put name product (cs_productMap s)\<rparr>);
     ret product }"

definition compileProductAt :: "Context \<Rightarrow> ProductDeclNode \<Rightarrow> Product compiler" where
  "compileProductAt cx node = do { product \<leftarrow> compileProduct cx node; putProduct (pd_Name node) product }"

definition compileCourseAt :: "Context \<Rightarrow> CourseDeclNode \<Rightarrow> Product compiler" where
  "compileCourseAt cx node = do { product \<leftarrow> compileCourseDecl cx node; putProduct (co_Name node) product }"

definition compileOfferAt :: "Context \<Rightarrow> OfferDeclNode \<Rightarrow> Offer compiler" where
  "compileOfferAt cx node = do {
     offer \<leftarrow> compileOffer cx node;
     modifies (\<lambda>s. s\<lparr>cs_offerMap := gomap_put (off_Name node) offer (cs_offerMap s)\<rparr>);
     ret offer }"

definition Compile :: "Context \<Rightarrow> SymbolTable \<Rightarrow> ScriptAST \<Rightarrow> CompileResult compiler" where
  "Compile cx sy ast = do {
     _ \<leftarrow> precreateBadges cx sy;
     _ \<leftarrow> precreateTags cx sy;
     media \<leftarrow> mapC (compileMediaAt cx) (ast_MediaDecls ast);
     presets \<leftarrow> mapC (compilePresetAt cx) (ast_PlayerPresets ast);
     stories \<leftarrow> compileStories cx (ast_Stories ast);
     funnels \<leftarrow> mapC (compileFunnel cx) (ast_Funnels ast);
     sites \<leftarrow> mapC (compileSite cx) (ast_Sites ast);
     products \<leftarrow> mapC (compileProductAt cx) (ast_Products ast);
     courses \<leftarrow> mapC (compileCourseAt cx) (ast_Courses ast);
     offers \<leftarrow> mapC (compileOfferAt cx) (ast_Offers ast);
     channels \<leftarrow> mapC (compileChannelDecl cx) (ast_ChannelDecls ast);
     webhooks \<leftarrow> mapC (compileMediaWebhookDecl cx) (ast_MediaWebhookDecls ast);
     campaigns \<leftarrow> mapC (compileCampaign cx) (ast_Campaigns ast);
     asks (\<lambda>s. \<lparr>res_Stories = stories, res_Funnels = funnels, res_Sites = sites,
       res_Products = products @ courses, res_Offers = offers, res_Assets = cs_pendingAssets s,
       res_MediaEntities = media, res_PlayerPresets = presets, res_Channels = channels,
       res_MediaWebhooks = webhooks, res_Quizzes = cs_pendingQuizzes s,
       res_CertificateTemplates = cs_certTemplates s, res_Campaigns = campaigns,
       res_Badges = cs_badges s, res_Tags = cs_tags s, res_Diagnostics = cs_errors s\<rparr>) }"

end
