(* ===== verification/Subst.thy ===== *)
theory Subst
  imports GoStrings
begin

text \<open>
  The string functions of the expander (\<open>src/scripting/expander.go\<close>): parameter and link
  substitution over \<open>${name}\<close> placeholders and the duration syntax of pattern arguments.
  The parameters are a Go map, here the association list in the order \<open>range\<close> visits it;
  a statement about every such list holds for every order.
\<close>

definition placeholder :: "string \<Rightarrow> string" where
  "placeholder name = ''${'' @ name @ ''}''"

text \<open>The loop \<open>for name, value := range params { result = strings.ReplaceAll(...) }\<close>.\<close>

fun substitute_loop :: "string gomap \<Rightarrow> string \<Rightarrow> string" where
  "substitute_loop [] result = result"
| "substitute_loop ((name, value) # params) result =
     substitute_loop params (replace_all (placeholder name) value result)"

definition substituteParams :: "string \<Rightarrow> string gomap \<Rightarrow> string" where
  "substituteParams s params =
     (if params = [] \<or> s = [] then s
      else case map_of params s of
        Some val \<Rightarrow> val
      | None \<Rightarrow> substitute_loop params s)"

definition substituteParamsWithDotAccess :: "string \<Rightarrow> string gomap \<Rightarrow> string" where
  "substituteParamsWithDotAccess s params =
     (if params = [] \<or> s = [] then s
      else case map_of params s of
        Some val \<Rightarrow> val
      | None \<Rightarrow> substitute_loop params s)"

fun substituteLinks_loop :: "string gomap \<Rightarrow> string \<Rightarrow> string" where
  "substituteLinks_loop [] result = result"
| "substituteLinks_loop ((name, url) # links) result =
     substituteLinks_loop links
       (if contains_str (''href=\"'' @ placeholder name @ ''\"'') result
           \<or> contains_str (''href='' @ CHR 0x27 # placeholder name @ [CHR 0x27]) result
        then replace_all (placeholder name) url result
        else replace_all (placeholder name) (''<a href=\"'' @ url @ ''\">'' @ url @ ''</a>'') result)"

definition substituteLinksAsHref :: "string \<Rightarrow> string gomap \<Rightarrow> string" where
  "substituteLinksAsHref s links =
     (if links = [] \<or> s = [] then s else substituteLinks_loop links s)"

definition compact_units :: "string list" where
  "compact_units = [''d'', ''h'', ''m'', ''s'']"

definition parseDurationCompact :: "string \<Rightarrow> (int \<times> string) option" where
  "parseDurationCompact s =
     (if 2 \<le> length s \<and> List.member compact_units [last s] then
        map_option (\<lambda>n. (n, [last s])) (atoi (trim_space (butlast s)))
      else None)"

definition duration_word :: "string \<Rightarrow> string option" where
  "duration_word w =
     (if List.member [''day'', ''days'', ''d''] w then Some ''d''
      else if List.member [''hour'', ''hours'', ''h''] w then Some ''h''
      else if List.member [''minute'', ''minutes'', ''m''] w then Some ''m''
      else if List.member [''second'', ''seconds'', ''s''] w then Some ''s''
      else None)"

definition parseDurationSpaced :: "string \<Rightarrow> (int \<times> string) option" where
  "parseDurationSpaced s =
     (case fields s of
        [num, word] \<Rightarrow>
          (case (atoi num, duration_word (to_lower word)) of
             (Some n, Some unit) \<Rightarrow> Some (n, unit)
           | _ \<Rightarrow> None)
      | _ \<Rightarrow> None)"

definition parseDurationParam :: "string \<Rightarrow> int \<times> string" where
  "parseDurationParam s0 =
     (let s = trim_space s0 in
      case parseDurationCompact s of
        Some r \<Rightarrow> r
      | None \<Rightarrow> (case parseDurationSpaced s of Some r \<Rightarrow> r | None \<Rightarrow> (0, [])))"

section \<open>Substitution in a template\<close>

text \<open>
  A template as its author writes it: literal text and holes. \<open>render\<close> is the string of the
  source, \<open>fill\<close> the intended result, which looks each hole up and knows no order.
\<close>

datatype segment = Lit string | Hole string

primrec seg_text :: "segment \<Rightarrow> string" where
  "seg_text (Lit t) = t"
| "seg_text (Hole n) = placeholder n"

definition render :: "segment list \<Rightarrow> string" where
  "render segs = concat (map seg_text segs)"

primrec fill :: "string gomap \<Rightarrow> segment \<Rightarrow> segment" where
  "fill params (Lit t) = Lit t"
| "fill params (Hole n) = (case map_of params n of Some v \<Rightarrow> Lit v | None \<Rightarrow> Hole n)"

definition plain_name :: "string \<Rightarrow> bool" where
  "plain_name n \<longleftrightarrow> CHR ''$'' \<notin> set n \<and> CHR ''}'' \<notin> set n"

primrec wf_segment :: "segment \<Rightarrow> bool" where
  "wf_segment (Lit t) \<longleftrightarrow> CHR ''$'' \<notin> set t"
| "wf_segment (Hole n) \<longleftrightarrow> plain_name n"

definition wf_params :: "string gomap \<Rightarrow> bool" where
  "wf_params params = list_all (\<lambda>(n, v). plain_name n \<and> CHR ''$'' \<notin> set v) params"

lemma render_simps [simp]:
  "render [] = []" "render (g # gs) = seg_text g @ render gs"
  by (simp_all add: render_def)

lemma placeholder_conv: "placeholder n = CHR ''$'' # CHR ''{'' # n @ [CHR ''}'']"
  by (simp add: placeholder_def)

lemma placeholder_nonempty [simp]: "placeholder n \<noteq> []"
  by (simp add: placeholder_conv)

lemma replace_all_skip:
  "CHR ''$'' \<notin> set t \<Longrightarrow>
   replace_all (placeholder n) v (t @ s) = t @ replace_all (placeholder n) v s"
  by (induction t) (auto simp: placeholder_conv)

lemma placeholder_prefix:
  assumes "plain_name m" and "plain_name n"
  shows "prefix (placeholder n) (placeholder m @ s) \<longleftrightarrow> n = m"
proof
  assume "prefix (placeholder n) (placeholder m @ s)"
  then obtain r where "m @ CHR ''}'' # s = n @ CHR ''}'' # r"
    by (auto simp: prefix_def placeholder_conv)
  with assms show "n = m" by (auto simp: sep_inject plain_name_def)
qed simp

lemma replace_all_hole:
  assumes "plain_name m" and "plain_name n" and "n \<noteq> m"
  shows "replace_all (placeholder n) v (placeholder m @ s)
         = placeholder m @ replace_all (placeholder n) v s"
proof -
  from placeholder_prefix [OF assms(1,2), of s] assms(3)
  have "replace_all (placeholder n) v (placeholder m @ s)
        = CHR ''$'' # replace_all (placeholder n) v ((CHR ''{'' # m @ [CHR ''}'']) @ s)"
    by (simp add: placeholder_conv [of m])
  also have "\<dots> = CHR ''$'' # (CHR ''{'' # m @ [CHR ''}'']) @ replace_all (placeholder n) v s"
    using assms(1) by (subst replace_all_skip) (auto simp: plain_name_def)
  finally show ?thesis by (simp add: placeholder_conv)
qed

lemma replace_all_render:
  assumes "list_all wf_segment segs" and "plain_name n"
  shows "replace_all (placeholder n) v (render segs) = render (map (fill [(n, v)]) segs)"
  using assms(1)
proof (induction segs)
  case (Cons g gs)
  then show ?case
    using assms(2) by (cases g) (auto simp: replace_all_skip replace_all_hole replace_all_head)
qed simp

lemma fill_wf: "wf_segment g \<Longrightarrow> CHR ''$'' \<notin> set v \<Longrightarrow> wf_segment (fill [(n, v)] g)"
  by (cases g) auto

lemma fill_step: "fill params (fill [(n, v)] g) = fill ((n, v) # params) g"
  by (cases g) auto

lemma fill_Nil [simp]: "fill [] g = g"
  by (cases g) simp_all

lemma substitute_loop_render:
  assumes "list_all wf_segment segs" and "wf_params params"
  shows "substitute_loop params (render segs) = render (map (fill params) segs)"
  using assms
proof (induction params "render segs" arbitrary: segs rule: substitute_loop.induct)
  case 1
  then show ?case by (simp add: map_idI)
next
  case (2 n v params)
  then have n: "plain_name n" "CHR ''$'' \<notin> set v" "wf_params params"
    by (simp_all add: wf_params_def)
  have "list_all wf_segment (map (fill [(n, v)]) segs)"
    using 2(2) n(2) by (auto simp: list_all_iff intro: fill_wf)
  from 2(1) [OF replace_all_render [OF 2(2) n(1)] this n(3)]
  show ?case by (simp add: replace_all_render [OF 2(2) n(1)] fill_step comp_def)
qed

lemma substitute_loop_Nil [simp]: "substitute_loop params [] = []"
  by (induction params "[] :: string" rule: substitute_loop.induct) simp_all

lemma substituteParams_render:
  assumes "list_all wf_segment segs" and "wf_params params"
    and "map_of params (render segs) = None"
  shows "substituteParams (render segs) params = render (map (fill params) segs)"
  using substitute_loop_render [OF assms(1,2)] assms(3)
  by (cases "params = []"; cases "render segs = []")
    (simp_all add: substituteParams_def map_idI)

lemma substituteParamsWithDotAccess_same: "substituteParamsWithDotAccess = substituteParams"
  by (rule ext)+ (simp add: substituteParams_def substituteParamsWithDotAccess_def)

text \<open>
  Substituting a map of parameters into a template, by either of the two substitution
  functions, replaces every hole whose name is a parameter by its value, once, and leaves
  the text and the other holes alone, in whatever order Go ranges over the map. The names
  may not contain a dollar sign or a closing brace and the values and the text no dollar
  sign; the template as a whole is not the bare name of a parameter, the case the code
  treats first.
\<close>

theorem substituteParams_template:
  assumes "list_all wf_segment segs" and "wf_params params"
    and "map_of params (render segs) = None"
  shows "substituteParams (render segs) params = render (map (fill params) segs)
    \<and> substituteParamsWithDotAccess (render segs) params = render (map (fill params) segs)"
  using substituteParams_render [OF assms] by (simp add: substituteParamsWithDotAccess_same)

lemma substituteParams_template_witness:
  "substituteParams (render [Lit ''Hi '', Hole ''a'', Lit '', '', Hole ''b''])
     [(''a'', ''Ann''), (''b'', ''bye'')] = ''Hi Ann, bye''"
  by (subst substituteParams_template [THEN conjunct1])
    (simp_all add: wf_params_def plain_name_def placeholder_conv)

text \<open>
  The result of a substitution is not determined by the parameters: when a value
  mentions another parameter, the order in which Go ranges over the map decides whether
  that mention is replaced too.
\<close>

theorem substituteParams_order_dependent:
  "substituteParams ''${a}!'' [(''a'', ''${b}''), (''b'', ''x'')] = ''x!''
   \<and> substituteParams ''${a}!'' [(''b'', ''x''), (''a'', ''${b}'')] = ''${b}!''"
  by (simp add: substituteParams_def placeholder_conv)

section \<open>Durations of pattern arguments\<close>

definition ascii_word :: "string \<Rightarrow> bool" where
  "ascii_word s = list_all (\<lambda>c. (of_char c :: nat) < 128 \<and> \<not> is_space (of_char c)) s"

lemma runes_ascii_word:
  "ascii_word s \<Longrightarrow> runes s = map (\<lambda>c. (of_char c, [c])) s"
  by (induction s) (simp_all add: ascii_word_def runes_ascii_Cons)

lemma ascii_word_append [simp]: "ascii_word (s @ t) \<longleftrightarrow> ascii_word s \<and> ascii_word t"
  by (simp add: ascii_word_def)

lemma trim_space_word:
  assumes "ascii_word s"
  shows "trim_space s = s"
proof -
  have "dropWhile (\<lambda>(r, b). is_space r) (map (\<lambda>c. (of_char c, [c :: char])) t)
        = map (\<lambda>c. (of_char c, [c])) t" if "ascii_word t" for t
    using that by (cases t) (simp_all add: ascii_word_def)
  from this [of s] this [of "rev s"] assms show ?thesis
    by (simp add: trim_space_def Let_def runes_ascii_word rev_map ascii_word_def comp_def)
qed

lemma ascii_digit_word: "ascii_digit c \<Longrightarrow> ascii_word [c]"
  by (auto simp: ascii_digit_def ascii_word_def is_space_def)

lemma itoa_word: "ascii_word (itoa n)"
proof -
  have "ascii_word (itoa_nat k)" for k
    using itoa_nat_digits [of k] ascii_digit_word by (auto simp: list_all_iff ascii_word_def)
  then show ?thesis by (simp add: itoa_def ascii_word_def is_space_def)
qed

lemma itoa_nonempty [simp]: "itoa n \<noteq> []"
  by (simp add: itoa_def)

text \<open>
  A duration argument in the compact form, a number followed by one of the unit
  letters, is read back exactly.
\<close>

theorem parseDurationParam_compact:
  assumes "in_int64 n" and "List.member compact_units [u]"
  shows "parseDurationParam (itoa n @ [u]) = (n, [u])"
proof -
  have "ascii_word [u]"
    using assms(2) by (auto simp: compact_units_def ascii_word_def is_space_def)
  then have "trim_space (itoa n @ [u]) = itoa n @ [u]"
    by (intro trim_space_word) (simp add: itoa_word)
  moreover have "2 \<le> length (itoa n @ [u])" by (simp add: Suc_le_eq)
  ultimately show ?thesis
    using assms
    by (simp add: parseDurationParam_def Let_def parseDurationCompact_def atoi_itoa
        trim_space_word itoa_word)
qed

lemma parseDurationParam_compact_witness:
  "parseDurationParam (itoa 30 @ ''m'') = (30, ''m'')"
  by (rule parseDurationParam_compact) (simp_all add: in_int64_def compact_units_def)

end
