(* ===== verification/Clone.thy ===== *)
theory Clone
  imports Ast Subst Diagnostics
begin

text \<open>
  The copying half of the expander (\<open>src/scripting/expander.go\<close>): every \<open>clone\<close> function
  with the parameters it substitutes on the way. The functions copy pointers to fresh
  ones, which on the tree is the identity, and build a node from the fields the code
  lists, so a field the code forgets is the zero value here.
\<close>

section \<open>Leaves\<close>

definition cloneIntPtr :: "int option \<Rightarrow> int option" where
  "cloneIntPtr p = (case p of None \<Rightarrow> None | Some v \<Rightarrow> Some v)"

definition cloneBoolPtr :: "bool option \<Rightarrow> bool option" where
  "cloneBoolPtr p = (case p of None \<Rightarrow> None | Some v \<Rightarrow> Some v)"

definition cloneRequiredBadges :: "RequiredBadgesNode option \<Rightarrow> RequiredBadgesNode option" where
  "cloneRequiredBadges rb =
     (case rb of
        None \<Rightarrow> None
      | Some rb \<Rightarrow> Some \<lparr>rb_Pos = rb_Pos rb, rb_MustHave = rb_MustHave rb,
                         rb_MustNotHave = rb_MustNotHave rb\<rparr>)"

fun cloneCondition :: "ConditionNode \<Rightarrow> ConditionNode" where
  "cloneCondition (ConditionNode p t v cs) = ConditionNode p t v (map cloneCondition cs)"

definition cloneBadgeTransactionWithParams ::
  "string gomap \<Rightarrow> BadgeTransactionNode option \<Rightarrow> BadgeTransactionNode option" where
  "cloneBadgeTransactionWithParams params bt =
     (case bt of
        None \<Rightarrow> None
      | Some bt \<Rightarrow> Some
          \<lparr>bt_Pos = bt_Pos bt,
           bt_GiveBadges = map (\<lambda>name. substituteParams name params) (bt_GiveBadges bt),
           bt_RemoveBadges = map (\<lambda>name. substituteParams name params) (bt_RemoveBadges bt)\<rparr>)"

definition cloneBadgeTransactionWithDotAccess ::
  "string gomap \<Rightarrow> BadgeTransactionNode option \<Rightarrow> BadgeTransactionNode option" where
  "cloneBadgeTransactionWithDotAccess params bt =
     (case bt of
        None \<Rightarrow> None
      | Some bt \<Rightarrow> Some
          \<lparr>bt_Pos = bt_Pos bt,
           bt_GiveBadges = map (\<lambda>name. substituteParamsWithDotAccess name params) (bt_GiveBadges bt),
           bt_RemoveBadges = map (\<lambda>name. substituteParamsWithDotAccess name params) (bt_RemoveBadges bt)\<rparr>)"

definition cloneDurationWithParams :: "string gomap \<Rightarrow> DurationNode \<Rightarrow> DurationNode" where
  "cloneDurationWithParams params tmpl =
     (let substituted = substituteParams (du_RawValue tmpl) params in
      if substituted \<noteq> du_RawValue tmpl then
        (let (amount, unit) = parseDurationParam substituted in
         if amount > 0
         then tmpl\<lparr>du_Amount := amount, du_Unit := unit, du_RawValue := substituted\<rparr>
         else tmpl)
      else tmpl)"

section \<open>Lifecycle blocks\<close>

definition cloneLifecycleBlockWithDotAccess ::
  "string gomap \<Rightarrow> LifecycleBlock option \<Rightarrow> LifecycleBlock option" where
  "cloneLifecycleBlockWithDotAccess params lb =
     (case lb of
        None \<Rightarrow> None
      | Some lb \<Rightarrow> Some
          \<lparr>lb_Pos = lb_Pos lb,
           lb_BadgeTransaction =
             cloneBadgeTransactionWithDotAccess params (lb_BadgeTransaction lb)\<rparr>)"

definition cloneStorylineCompleteBlockWithDotAccess ::
  "string gomap \<Rightarrow> StorylineCompleteBlock option \<Rightarrow> StorylineCompleteBlock option" where
  "cloneStorylineCompleteBlockWithDotAccess params cb =
     (case cb of
        None \<Rightarrow> None
      | Some cb \<Rightarrow> Some
          \<lparr>slc_Pos = slc_Pos cb,
           slc_BadgeTransaction =
             cloneBadgeTransactionWithDotAccess params (slc_BadgeTransaction cb),
           slc_NextStoryline = substituteParamsWithDotAccess (slc_NextStoryline cb) params,
           slc_ConditionalRoutes = slc_ConditionalRoutes cb\<rparr>)"

definition cloneStorylineFailBlockWithDotAccess ::
  "string gomap \<Rightarrow> StorylineFailBlock option \<Rightarrow> StorylineFailBlock option" where
  "cloneStorylineFailBlockWithDotAccess params fb =
     (case fb of
        None \<Rightarrow> None
      | Some fb \<Rightarrow> Some
          \<lparr>slf_Pos = slf_Pos fb,
           slf_BadgeTransaction =
             cloneBadgeTransactionWithDotAccess params (slf_BadgeTransaction fb),
           slf_NextStoryline = substituteParamsWithDotAccess (slf_NextStoryline fb) params,
           slf_ConditionalRoutes = slf_ConditionalRoutes fb\<rparr>)"

section \<open>Scenes, actions and triggers\<close>

definition cloneScene :: "string gomap \<Rightarrow> SceneNode \<Rightarrow> SceneNode" where
  "cloneScene params tmpl =
     \<lparr>sc_Pos = sc_Pos tmpl,
      sc_Name = substituteParams (sc_Name tmpl) params,
      sc_Subject = substituteParams (sc_Subject tmpl) params,
      sc_Body = substituteParams (sc_Body tmpl) params,
      sc_FromEmail = substituteParams (sc_FromEmail tmpl) params,
      sc_FromName = substituteParams (sc_FromName tmpl) params,
      sc_ReplyTo = substituteParams (sc_ReplyTo tmpl) params,
      sc_TemplateName = substituteParams (sc_TemplateName tmpl) params,
      sc_Vars = map (\<lambda>(k, v). (k, substituteParams v params)) (sc_Vars tmpl),
      sc_Tags = sc_Tags tmpl,
      sc_Certificate = None, sc_ContextPackRefs = [], sc_SubjectGen = [], sc_BodyGen = []\<rparr>"

definition cloneSceneWithDotAccess :: "string gomap \<Rightarrow> SceneNode \<Rightarrow> SceneNode" where
  "cloneSceneWithDotAccess params tmpl =
     \<lparr>sc_Pos = sc_Pos tmpl,
      sc_Name = substituteParamsWithDotAccess (sc_Name tmpl) params,
      sc_Subject = substituteParamsWithDotAccess (sc_Subject tmpl) params,
      sc_Body = substituteParamsWithDotAccess (sc_Body tmpl) params,
      sc_FromEmail = substituteParamsWithDotAccess (sc_FromEmail tmpl) params,
      sc_FromName = substituteParamsWithDotAccess (sc_FromName tmpl) params,
      sc_ReplyTo = substituteParamsWithDotAccess (sc_ReplyTo tmpl) params,
      sc_TemplateName = sc_TemplateName tmpl,
      sc_Vars = map (\<lambda>(k, v). (k, substituteParamsWithDotAccess v params)) (sc_Vars tmpl),
      sc_Tags = sc_Tags tmpl,
      sc_Certificate = None, sc_ContextPackRefs = [], sc_SubjectGen = [], sc_BodyGen = []\<rparr>"

fun cloneAction :: "string gomap \<Rightarrow> ActionNode \<Rightarrow> ActionNode" where
  "cloneAction params
     (ActionNode pos atype target sendImm wait bt unsub endStory markC markF adv retryMax fallback) =
   ActionNode pos atype (substituteParams target params) (cloneBoolPtr sendImm)
     (map_option (cloneDurationWithParams params) wait)
     (cloneBadgeTransactionWithParams params bt)
     unsub endStory markC markF adv (cloneIntPtr retryMax) (map (cloneAction params) fallback)"

definition cloneTrigger :: "string gomap \<Rightarrow> TriggerNode \<Rightarrow> TriggerNode" where
  "cloneTrigger params tmpl =
     \<lparr>tr_Pos = tr_Pos tmpl,
      tr_TriggerType = tr_TriggerType tmpl,
      tr_UserActionValue = substituteParamsWithDotAccess (tr_UserActionValue tmpl) params,
      tr_Within = map_option (cloneDurationWithParams params) (tr_Within tmpl),
      tr_Priority = cloneIntPtr (tr_Priority tmpl),
      tr_PersistScope = tr_PersistScope tmpl,
      tr_MarkComplete = tr_MarkComplete tmpl,
      tr_MarkFailed = tr_MarkFailed tmpl,
      tr_RequiredBadges = cloneRequiredBadges (tr_RequiredBadges tmpl),
      tr_Conditions = map cloneCondition (tr_Conditions tmpl),
      tr_Actions = map (cloneAction params) (tr_Actions tmpl),
      tr_ElseActions = map (cloneAction params) (tr_ElseActions tmpl),
      tr_WatchBlockID = [], tr_WatchOperator = [], tr_WatchPercent = 0\<rparr>"

section \<open>Ranges of scenes and use statements\<close>

text \<open>
  The loop \<open>for i := sr.RangeStart; i <= sr.RangeEnd; i++\<close>, for bounds below the largest
  \<open>int\<close> (at the largest one the increment wraps and the Go loop does not end).
\<close>

definition expandScenesRangeWithParams :: "string gomap \<Rightarrow> ScenesRangeNode \<Rightarrow> SceneNode list" where
  "expandScenesRangeWithParams params sr =
     (case sr_Body sr of
        None \<Rightarrow> []
      | Some body \<Rightarrow>
          map (\<lambda>i. cloneScene (gomap_put (sr_Variable sr) (itoa i) params) body)
            [sr_RangeStart sr .. sr_RangeEnd sr])"

definition expandScenesRange :: "ScenesRangeNode \<Rightarrow> SceneNode list" where
  "expandScenesRange sr = expandScenesRangeWithParams [] sr"

definition cloneScenesRangeWithDotAccess :: "string gomap \<Rightarrow> ScenesRangeNode \<Rightarrow> ScenesRangeNode" where
  "cloneScenesRangeWithDotAccess params tmpl =
     \<lparr>sr_Pos = sr_Pos tmpl, sr_RangeStart = sr_RangeStart tmpl, sr_RangeEnd = sr_RangeEnd tmpl,
      sr_Variable = sr_Variable tmpl,
      sr_Body = map_option (cloneSceneWithDotAccess params) (sr_Body tmpl)\<rparr>"

definition cloneUseStatement :: "string gomap \<Rightarrow> UseStatementNode \<Rightarrow> UseStatementNode" where
  "cloneUseStatement params us =
     \<lparr>us_Pos = us_Pos us, us_Kind = us_Kind us, us_Target = us_Target us,
      us_Args = map (\<lambda>arg. substituteParams arg params) (us_Args us)\<rparr>"

definition cloneUseStatementWithDotAccess :: "string gomap \<Rightarrow> UseStatementNode \<Rightarrow> UseStatementNode" where
  "cloneUseStatementWithDotAccess params tmpl =
     \<lparr>us_Pos = us_Pos tmpl, us_Kind = us_Kind tmpl, us_Target = us_Target tmpl,
      us_Args = map (\<lambda>arg. substituteParamsWithDotAccess arg params) (us_Args tmpl)\<rparr>"

section \<open>Enactments and loops\<close>

definition cloneEnactment :: "string gomap \<Rightarrow> EnactmentNode \<Rightarrow> EnactmentNode" where
  "cloneEnactment params tmpl =
     \<lparr>en_Pos = en_Pos tmpl,
      en_Name = substituteParams (en_Name tmpl) params,
      en_Level = cloneIntPtr (en_Level tmpl), en_LevelExpr = [],
      en_Order = cloneIntPtr (en_Order tmpl), en_OrderExpr = [],
      en_SkipToNextStorylineOnExpiry = cloneBoolPtr (en_SkipToNextStorylineOnExpiry tmpl),
      en_Scenes = map (cloneScene params) (en_Scenes tmpl)
        @ (case en_ScenesRange tmpl of
             None \<Rightarrow> [] | Some sr \<Rightarrow> expandScenesRangeWithParams params sr),
      en_Triggers = map (cloneTrigger params) (en_Triggers tmpl),
      en_UseStatements = map (cloneUseStatement params) (en_UseStatements tmpl),
      en_ScenesRange = None\<rparr>"

text \<open>
  A level or order: a literal is kept, otherwise an expression such as \<open>ws.order\<close> is
  resolved with the parameters and has to be an integer.
\<close>

definition resolveIntExpr ::
  "string \<Rightarrow> Pos \<Rightarrow> string gomap \<Rightarrow> int option \<Rightarrow> string \<Rightarrow> int option \<times> Diagnostics" where
  "resolveIntExpr fmt pos params literal expr =
     (if expr \<noteq> [] \<and> literal = None then
        (let resolved = substituteParamsWithDotAccess expr params in
         case atoi resolved of
           None \<Rightarrow> (None, [errorAt pos fmt [AStr expr, AStr resolved]])
         | Some v \<Rightarrow> (Some v, []))
      else (literal, []))"

definition cloneEnactmentWithDotAccess ::
  "string gomap \<Rightarrow> EnactmentNode \<Rightarrow> EnactmentNode \<times> Diagnostics" where
  "cloneEnactmentWithDotAccess params tmpl =
     (let (level, ds1) = resolveIntExpr ''level expression %q resolved to non-integer %q''
            (en_Pos tmpl) params (cloneIntPtr (en_Level tmpl)) (en_LevelExpr tmpl);
          (order, ds2) = resolveIntExpr ''order expression %q resolved to non-integer %q''
            (en_Pos tmpl) params (cloneIntPtr (en_Order tmpl)) (en_OrderExpr tmpl) in
      (\<lparr>en_Pos = en_Pos tmpl,
        en_Name = substituteParamsWithDotAccess (en_Name tmpl) params,
        en_Level = level, en_LevelExpr = [], en_Order = order, en_OrderExpr = [],
        en_SkipToNextStorylineOnExpiry = cloneBoolPtr (en_SkipToNextStorylineOnExpiry tmpl),
        en_Scenes = map (cloneSceneWithDotAccess params) (en_Scenes tmpl),
        en_Triggers = map (cloneTrigger params) (en_Triggers tmpl),
        en_UseStatements = map (cloneUseStatementWithDotAccess params) (en_UseStatements tmpl),
        en_ScenesRange = map_option (cloneScenesRangeWithDotAccess params) (en_ScenesRange tmpl)\<rparr>,
       ds1 @ ds2))"

definition cloneForLoopWithDotAccess :: "string gomap \<Rightarrow> ForNode \<Rightarrow> ForNode \<times> Diagnostics" where
  "cloneForLoopWithDotAccess params tmpl =
     (let (ens, ds) = mapW (cloneEnactmentWithDotAccess params) (fl_BodyEnactments tmpl) in
      (ForNode (fl_Pos tmpl) (fl_Variable tmpl) (fl_DataRef tmpl)
         (map (\<lambda>item. substituteParamsWithDotAccess item params) (fl_Items tmpl))
         (fl_ObjectItems tmpl) (fl_RangeStart tmpl) (fl_RangeEnd tmpl) (fl_IsRange tmpl)
         (fl_Body tmpl) ens []
         (map (cloneUseStatementWithDotAccess params) (fl_BodyUseStatements tmpl)),
       ds))"

section \<open>Copies without parameters\<close>

lemma clonePtr_id [simp]: "cloneIntPtr p = p" "cloneBoolPtr q = q"
  by (auto simp: cloneIntPtr_def cloneBoolPtr_def split: option.splits)

lemma cloneRequiredBadges_id [simp]: "cloneRequiredBadges rb = rb"
  by (simp add: cloneRequiredBadges_def split: option.splits)

lemma cloneCondition_id [simp]: "cloneCondition c = c"
  by (induction c rule: cloneCondition.induct) (simp add: map_idI)

lemma substitute_no_params [simp]:
  "substituteParams s [] = s" "substituteParamsWithDotAccess s [] = s"
  by (simp_all add: substituteParams_def substituteParamsWithDotAccess_def)

lemma cloneBadgeTransaction_no_params [simp]:
  "cloneBadgeTransactionWithParams [] bt = bt" "cloneBadgeTransactionWithDotAccess [] bt = bt"
  by (simp_all add: cloneBadgeTransactionWithParams_def cloneBadgeTransactionWithDotAccess_def
      split: option.splits)

lemma cloneDuration_no_params [simp]: "cloneDurationWithParams [] d = d"
  by (simp add: cloneDurationWithParams_def)

lemma map_option_ident: "(\<And>x. f x = x) \<Longrightarrow> map_option f m = m"
  by (cases m) simp_all

lemma cloneAction_no_params [simp]: "cloneAction [] a = a"
proof (induction a)
  case (ActionNode pos t tgt im w bt un es mc mf adv rm fb)
  then show ?case by (simp add: map_idI map_option_ident)
qed

text \<open>
  Copying a trigger without parameters, as the defaults of enactments and scenes are
  copied into every enactment, keeps everything of the trigger except the block, the
  operator and the percentage of a watch trigger, which are lost.
\<close>

theorem cloneTrigger_copy:
  "cloneTrigger [] t = t\<lparr>tr_WatchBlockID := [], tr_WatchOperator := [], tr_WatchPercent := 0\<rparr>"
  by (simp add: cloneTrigger_def map_idI map_option_ident)

text \<open>
  Copying a scene without parameters keeps its addressing and its texts but loses the
  certificate, the context packs and the generation instructions.
\<close>

theorem cloneScene_copy:
  "cloneScene [] s = s\<lparr>sc_Certificate := None, sc_ContextPackRefs := [],
                       sc_SubjectGen := [], sc_BodyGen := []\<rparr>
   \<and> cloneSceneWithDotAccess [] s = cloneScene [] s"
  by (simp add: cloneScene_def cloneSceneWithDotAccess_def map_idI)

section \<open>The names of a range of scenes\<close>

lemma itoa_no_dollar: "CHR ''$'' \<notin> set (itoa i)"
proof -
  have "CHR ''$'' \<notin> set (itoa_nat n)" for n
    using itoa_nat_digits [of n] by (auto simp: list_all_iff ascii_digit_def)
  then show ?thesis by (simp add: itoa_def)
qed

lemma itoa_inj: "itoa i = itoa j \<longleftrightarrow> i = j"
proof
  assume eq: "itoa i = itoa j"
  have "hd (itoa_nat n) \<noteq> CHR ''-''" for n by (rule itoa_nat_hd_sign)
  then have "(i < 0) = (j < 0)"
    using eq by (metis (no_types, lifting) itoa_def list.sel(1))
  with eq show "i = j"
    by (cases "i < 0") (auto simp: itoa_def itoa_nat_inject)
qed simp

lemma wf_params_put:
  "wf_params params \<Longrightarrow> plain_name n \<Longrightarrow> CHR ''$'' \<notin> set v \<Longrightarrow> wf_params (gomap_put n v params)"
  by (induction params) (auto simp: wf_params_def)

lemma hole_dollar: "Hole n \<in> set segs \<Longrightarrow> CHR ''$'' \<in> set (render segs)"
  by (auto simp: render_def placeholder_conv image_iff intro!: bexI)

lemma wf_params_key: "wf_params params \<Longrightarrow> k \<in> fst ` set params \<Longrightarrow> plain_name k"
  by (auto simp: wf_params_def list_all_iff)

text \<open>The part of a rendered template that depends on the loop variable.\<close>

lemma fill_put_other:
  "g \<noteq> Hole n \<Longrightarrow> fill (gomap_put n v params) g = fill (gomap_put n w params) g"
  by (cases g) (auto simp: update_conv)

lemma map_of_put [simp]: "map_of (gomap_put n v params) n = Some v"
  by (simp add: update_conv)

lemma fill_put_same: "fill (gomap_put n v params) (Hole n) = Lit v"
  by simp

lemma render_fill_length:
  "length (render (map (fill (gomap_put n v params)) segs)) + length w * count_list segs (Hole n)
   = length (render (map (fill (gomap_put n w params)) segs)) + length v * count_list segs (Hole n)"
proof (induction segs)
  case (Cons g gs)
  then show ?case
    by (cases "g = Hole n") (auto simp: fill_put_same fill_put_other [of g n v params w] algebra_simps)
qed simp

lemma render_fill_same_length:
  assumes "length v = length w" and "Hole n \<in> set segs"
    and "render (map (fill (gomap_put n v params)) segs)
         = render (map (fill (gomap_put n w params)) segs)"
  shows "v = w"
  using assms
proof (induction segs)
  case (Cons g gs)
  then show ?case
    by (cases "g = Hole n") (auto simp: fill_put_same fill_put_other [of g n v params w])
qed simp

lemma render_fill_inject:
  assumes "Hole n \<in> set segs"
    and eq: "render (map (fill (gomap_put n v params)) segs)
             = render (map (fill (gomap_put n w params)) segs)"
  shows "v = w"
proof -
  have "0 < count_list segs (Hole n)"
    using assms(1) by (induction segs) auto
  with render_fill_length [of n v params segs w] eq have "length v = length w" by simp
  then show ?thesis using assms by (rule render_fill_same_length)
qed

text \<open>
  The scenes of \<open>scenes a..b as n\<close> have different names when the name of the scene
  mentions the loop variable, so a range never makes two scenes of one enactment collide.
\<close>

theorem expandScenesRange_names:
  assumes "sr_Body sr = Some body" and "sc_Name body = render segs"
    and "list_all wf_segment segs" and "Hole (sr_Variable sr) \<in> set segs"
    and "wf_params params"
  shows "distinct (map sc_Name (expandScenesRangeWithParams params sr))
    \<and> length (expandScenesRangeWithParams params sr) = nat (sr_RangeEnd sr - sr_RangeStart sr + 1)"
proof -
  let ?subs = "\<lambda>i. gomap_put (sr_Variable sr) (itoa i) params"
  have var: "plain_name (sr_Variable sr)"
    using assms(3,4) by (auto simp: list_all_iff)
  have name: "sc_Name (cloneScene (?subs i) body) = render (map (fill (?subs i)) segs)" for i
  proof -
    have wf: "wf_params (?subs i)"
      using assms(5) var by (intro wf_params_put itoa_no_dollar)
    have "render segs \<notin> fst ` set (?subs i)"
      using wf_params_key [OF wf, of "render segs"] hole_dollar [OF assms(4)]
      by (auto simp: plain_name_def)
    then have "map_of (?subs i) (render segs) = None"
      by (simp add: map_of_eq_None_iff)
    from substituteParams_render [OF assms(3) wf this] show ?thesis
      by (simp add: cloneScene_def assms(2))
  qed
  have "inj_on (\<lambda>i. sc_Name (cloneScene (?subs i) body)) (set [sr_RangeStart sr .. sr_RangeEnd sr])"
    by (rule inj_onI) (metis name render_fill_inject [OF assms(4)] itoa_inj)
  then show ?thesis
    using assms(1) by (simp add: expandScenesRangeWithParams_def distinct_map comp_def)
qed

definition named_scene :: "string \<Rightarrow> SceneNode" where
  "named_scene n =
     \<lparr>sc_Pos = zero_Pos, sc_Name = n, sc_Subject = [], sc_Body = [], sc_FromEmail = [],
      sc_FromName = [], sc_ReplyTo = [], sc_TemplateName = [], sc_Vars = [], sc_Tags = [],
      sc_Certificate = None, sc_ContextPackRefs = [], sc_SubjectGen = [], sc_BodyGen = []\<rparr>"

lemma expandScenesRange_names_witness:
  "distinct (map sc_Name (expandScenesRangeWithParams []
     \<lparr>sr_Pos = zero_Pos, sr_RangeStart = 1, sr_RangeEnd = 3, sr_Variable = ''n'',
      sr_Body = Some (named_scene (render [Lit ''Mail '', Hole ''n'']))\<rparr>))"
  by (rule expandScenesRange_names
        [where segs = "[Lit ''Mail '', Hole ''n'']"
           and body = "named_scene (render [Lit ''Mail '', Hole ''n''])", THEN conjunct1])
    (simp_all add: wf_params_def plain_name_def named_scene_def)

end
