(* ===== verification/Expander.thy ===== *)
theory Expander
  imports Clone Tables
begin

text \<open>
  The expander (\<open>src/scripting/expander.go\<close>): it rewrites the compact constructs of a
  script (default senders, links, patterns, policies, data blocks, loops, ranges of scenes,
  defaults) into plain stories and funnels. The struct's tables are the record below; a
  method that reports errors returns them beside its result, in the order the code appends
  them, and a method that updates a node in place returns the updated node.
\<close>

section \<open>State and definitions\<close>

record Expander =
  ex_ast :: ScriptAST
  ex_defaultSenders :: "DefaultSenderNode gomap"
  ex_links :: "string gomap"
  ex_patterns :: "PatternDefNode gomap"
  ex_policies :: "PolicyDefNode gomap"
  ex_dataBlocks :: "DataBlockNode gomap"

definition NewExpander :: "ScriptAST \<Rightarrow> Expander" where
  "NewExpander ast =
     \<lparr>ex_ast = ast, ex_defaultSenders = [], ex_links = [], ex_patterns = [],
      ex_policies = [], ex_dataBlocks = []\<rparr>"

definition default_name :: "string \<Rightarrow> string" where
  "default_name name = (if name = [] then ''default'' else name)"

definition putLinks :: "string gomap \<Rightarrow> string gomap \<Rightarrow> string gomap" where
  "putLinks from to = foldl (\<lambda>m (name, url). gomap_put name url m) to from"

definition collectDefinitions :: "Expander \<Rightarrow> Expander \<times> Diagnostics" where
  "collectDefinitions e =
     (let ast = ex_ast e;
          (senders, ds1) = collect (\<lambda>d. default_name (ds_Name d)) id
             (\<lambda>d. errorAt (ds_Pos d) ''duplicate default sender %q'' [AStr (default_name (ds_Name d))])
             (ast_DefaultSenders ast) (ex_defaultSenders e);
          links = (case ast_Links ast of
             None \<Rightarrow> ex_links e | Some lk \<Rightarrow> putLinks (lk_Links lk) (ex_links e));
          (patterns, ds2) = collect pat_Name id
             (\<lambda>p. errorAt (pat_Pos p) ''duplicate pattern definition %q'' [AStr (pat_Name p)])
             (ast_Patterns ast) (ex_patterns e);
          (policies, ds3) = collect pol_Name id
             (\<lambda>p. errorAt (pol_Pos p) ''duplicate policy definition %q'' [AStr (pol_Name p)])
             (ast_Policies ast) (ex_policies e);
          (blocks, ds4) = collect db_Name id
             (\<lambda>d. errorAt (db_Pos d) ''duplicate data block %q'' [AStr (db_Name d)])
             (ast_DataBlocks ast) (ex_dataBlocks e) in
      (e\<lparr>ex_defaultSenders := senders, ex_links := links, ex_patterns := patterns,
         ex_policies := policies, ex_dataBlocks := blocks\<rparr>,
       ds1 @ ds2 @ ds3 @ ds4))"

section \<open>Senders, links and defaults\<close>

definition applySenderDefaults :: "DefaultSenderNode \<Rightarrow> SceneNode \<Rightarrow> SceneNode" where
  "applySenderDefaults sender sc =
     sc\<lparr>sc_FromEmail := (if sc_FromEmail sc = [] \<and> ds_FromEmail sender \<noteq> []
                         then ds_FromEmail sender else sc_FromEmail sc),
        sc_FromName := (if sc_FromName sc = [] \<and> ds_FromName sender \<noteq> []
                        then ds_FromName sender else sc_FromName sc),
        sc_ReplyTo := (if sc_ReplyTo sc = [] \<and> ds_ReplyTo sender \<noteq> []
                       then ds_ReplyTo sender else sc_ReplyTo sc)\<rparr>"

definition applySender :: "DefaultSenderNode option \<Rightarrow> SceneNode list \<Rightarrow> SceneNode list" where
  "applySender sender scs =
     (case sender of None \<Rightarrow> scs | Some d \<Rightarrow> map (applySenderDefaults d) scs)"

text \<open>A \<open>use sender\<close> statement: the new sender, or the old one and a report.\<close>

definition useSender ::
  "Expander \<Rightarrow> UseStatementNode \<Rightarrow> DefaultSenderNode option \<Rightarrow> DefaultSenderNode option \<times> Diagnostics"
where
  "useSender e us sender =
     (let target = default_name (us_Target us) in
      case map_of (ex_defaultSenders e) target of
        None \<Rightarrow> (sender, [errorAt (us_Pos us) ''unknown default sender %q'' [AStr target]])
      | Some d \<Rightarrow> (Some d, []))"

definition resolveLinksInTriggers :: "Expander \<Rightarrow> TriggerNode list \<Rightarrow> TriggerNode list" where
  "resolveLinksInTriggers e =
     map (\<lambda>tr. if tr_UserActionValue tr \<noteq> [] then
                 (case map_of (ex_links e) (tr_UserActionValue tr) of
                    Some url \<Rightarrow> tr\<lparr>tr_UserActionValue := url\<rparr>
                  | None \<Rightarrow> tr)
               else tr)"

definition copyUse :: "UseStatementNode \<Rightarrow> UseStatementNode" where
  "copyUse us = \<lparr>us_Pos = us_Pos us, us_Kind = us_Kind us, us_Target = us_Target us,
                 us_Args = us_Args us\<rparr>"

definition applyEnactmentDefaults :: "Expander \<Rightarrow> EnactmentNode list \<Rightarrow> EnactmentNode list" where
  "applyEnactmentDefaults e ens =
     (let eds = ast_EnactmentDefaults (ex_ast e); sds = ast_SceneDefaults (ex_ast e) in
      if eds = None \<and> sds = None then ens
      else map (\<lambda>en.
        (let en1 = (case eds of
               None \<Rightarrow> en
             | Some d \<Rightarrow> en\<lparr>en_Triggers := en_Triggers en @ map (cloneTrigger []) (ed_Triggers d),
                            en_UseStatements := en_UseStatements en @ map copyUse (ed_UseStatements d)\<rparr>) in
         case sds of
           None \<Rightarrow> en1
         | Some d \<Rightarrow> en1\<lparr>en_Triggers := en_Triggers en1 @ map (cloneTrigger []) (sd_Triggers d),
                         en_UseStatements := en_UseStatements en1 @ map copyUse (sd_UseStatements d)\<rparr>))
        ens)"

section \<open>Patterns and policies\<close>

definition resolveLink :: "Expander \<Rightarrow> string \<Rightarrow> string" where
  "resolveLink e v = (case map_of (ex_links e) v of Some url \<Rightarrow> url | None \<Rightarrow> v)"

definition bindParams :: "Expander \<Rightarrow> string list \<Rightarrow> string list \<Rightarrow> string gomap" where
  "bindParams e params args =
     foldl (\<lambda>m (name, val). gomap_put name (resolveLink e val) m) [] (zip params args)"

definition expandPattern ::
  "Expander \<Rightarrow> UseStatementNode \<Rightarrow> DefaultSenderNode option \<Rightarrow> EnactmentNode list \<times> Diagnostics" where
  "expandPattern e us sender =
     (case map_of (ex_patterns e) (us_Target us) of
        None \<Rightarrow> ([], [errorAt (us_Pos us) ''unknown pattern %q'' [AStr (us_Target us)]])
      | Some pat \<Rightarrow>
          if length (us_Args us) \<noteq> length (pat_Params pat) then
            ([], [errorAt (us_Pos us) ''pattern %q expects %d arguments, got %d''
                    [AStr (us_Target us), AInt (int (length (pat_Params pat))),
                     AInt (int (length (us_Args us)))]])
          else
            (let params = bindParams e (pat_Params pat) (us_Args us) in
             (map (\<lambda>enTmpl.
                (let en = cloneEnactment params enTmpl;
                     scenes = en_Scenes en @ (case pat_ScenesRange pat of
                        None \<Rightarrow> [] | Some sr \<Rightarrow> expandScenesRangeWithParams params sr) in
                 en\<lparr>en_Scenes := applySender sender scenes,
                    en_Triggers := en_Triggers en @ map (cloneTrigger params) (pat_Triggers pat)\<rparr>))
                (pat_Enactments pat), [])))"

definition expandPolicy :: "Expander \<Rightarrow> UseStatementNode \<Rightarrow> TriggerNode list \<times> Diagnostics" where
  "expandPolicy e us =
     (case map_of (ex_policies e) (us_Target us) of
        None \<Rightarrow> ([], [errorAt (us_Pos us) ''unknown policy %q'' [AStr (us_Target us)]])
      | Some pol \<Rightarrow>
          if length (us_Args us) \<noteq> length (pol_Params pol) then
            ([], [errorAt (us_Pos us) ''policy %q expects %d arguments, got %d''
                    [AStr (us_Target us), AInt (int (length (pol_Params pol))),
                     AInt (int (length (us_Args us)))]])
          else
            (map (cloneTrigger (bindParams e (pol_Params pol) (us_Args us))) (pol_Triggers pol), []))"

section \<open>Loops\<close>

definition resolveForLoopData :: "Expander \<Rightarrow> ForNode \<Rightarrow> DataObjectLiteral list \<times> Diagnostics" where
  "resolveForLoopData e fl =
     (if fl_ObjectItems fl \<noteq> [] then (fl_ObjectItems fl, [])
      else if fl_Items fl \<noteq> [] then
        (map (\<lambda>s. \<lparr>dob_Pos = zero_Pos, dob_Fields = [(''_value'', s)]\<rparr>) (fl_Items fl), [])
      else if fl_DataRef fl \<noteq> [] then
        (case map_of (ex_dataBlocks e) (fl_DataRef fl) of
           None \<Rightarrow> ([], [errorAt (fl_Pos fl) ''unknown data block %q'' [AStr (fl_DataRef fl)]])
         | Some db \<Rightarrow> (db_Items db, []))
      else ([], [errorAt (fl_Pos fl) ''for loop has no data source'' []]))"

definition buildObjectParams :: "Expander \<Rightarrow> string \<Rightarrow> DataObjectLiteral \<Rightarrow> string gomap" where
  "buildObjectParams e variable obj =
     foldl (\<lambda>m (k, v). gomap_put (variable @ ''.'' @ k) (resolveLink e v) m) [] (dob_Fields obj)"

text \<open>One storyline of a loop body for one item.\<close>

definition instantiateStoryline ::
  "string gomap \<Rightarrow> StorylineNode \<Rightarrow> StorylineNode \<times> Diagnostics" where
  "instantiateStoryline params slTmpl =
     (let (order, ds1) = resolveIntExpr ''order expression %q resolved to non-integer %q''
            (sl_Pos slTmpl) params (cloneIntPtr (sl_Order slTmpl)) (sl_OrderExpr slTmpl);
          (ens, ds2) = mapW (cloneEnactmentWithDotAccess params) (sl_Enactments slTmpl);
          (fls, ds3) = mapW (cloneForLoopWithDotAccess params) (sl_ForLoops slTmpl) in
      (StorylineNode (sl_Pos slTmpl) (substituteParamsWithDotAccess (sl_Name slTmpl) params)
         order [] (cloneRequiredBadges (sl_RequiredBadges slTmpl))
         (cloneLifecycleBlockWithDotAccess params (sl_OnBegin slTmpl))
         (cloneStorylineCompleteBlockWithDotAccess params (sl_OnComplete slTmpl))
         (cloneStorylineFailBlockWithDotAccess params (sl_OnFail slTmpl))
         ens fls (map (cloneUseStatementWithDotAccess params) (sl_UseStatements slTmpl)),
       ds1 @ ds2 @ ds3))"

definition expandForLoopStorylines :: "Expander \<Rightarrow> ForNode \<Rightarrow> StorylineNode list \<times> Diagnostics" where
  "expandForLoopStorylines e fl =
     (let (items, ds) = resolveForLoopData e fl;
          (slss, ds') = mapW (\<lambda>item.
             mapW (instantiateStoryline (buildObjectParams e (fl_Variable fl) item)) (fl_Body fl)) items in
      (concat slss, ds @ ds'))"

definition forBodyUse ::
  "Expander \<Rightarrow> DefaultSenderNode option \<Rightarrow> string gomap \<Rightarrow> UseStatementNode \<Rightarrow>
   EnactmentNode list \<times> Diagnostics" where
  "forBodyUse e sender params us =
     (let expandedUS = cloneUseStatementWithDotAccess params us in
      if us_Kind expandedUS = ''pattern'' then expandPattern e expandedUS sender
      else if us_Kind expandedUS = ''policy'' then
        ([], [errorAt (us_Pos us)
                (CHR 0x27 # ''use policy'' @ CHR 0x27 # '' should be inside an enactment, not a for loop body'') []])
      else ([], []))"

definition expandForLoopEnactments ::
  "Expander \<Rightarrow> ForNode \<Rightarrow> DefaultSenderNode option \<Rightarrow> EnactmentNode list \<times> Diagnostics" where
  "expandForLoopEnactments e fl sender =
     (let (items, ds) = resolveForLoopData e fl;
          (enss, ds') = mapW (\<lambda>item.
             (let params = buildObjectParams e (fl_Variable fl) item;
                  (used, ds1) = mapW (forBodyUse e sender params) (fl_BodyUseStatements fl);
                  (own, ds2) = mapW (cloneEnactmentWithDotAccess params) (fl_BodyEnactments fl) in
              (concat used @ own, ds1 @ ds2))) items in
      (concat enss, ds @ ds'))"

section \<open>Automatic levels and orders\<close>

text \<open>The scan of the levels in use: the map's keys and whether one came twice.\<close>

fun scanLevels :: "int list \<Rightarrow> bool \<Rightarrow> EnactmentNode list \<Rightarrow> int list \<times> bool" where
  "scanLevels used dup [] = (used, dup)"
| "scanLevels used dup (en # ens) =
     (case en_Level en of
        None \<Rightarrow> scanLevels used dup ens
      | Some l \<Rightarrow> if List.member used l then scanLevels used True ens
                  else scanLevels (l # used) dup ens)"

definition numberLevels :: "EnactmentNode list \<Rightarrow> EnactmentNode list" where
  "numberLevels ens = map2 (\<lambda>i en. en\<lparr>en_Level := Some (int i + 1)\<rparr>) [0..<length ens] ens"

definition autoAssignEnactmentLevels :: "EnactmentNode list \<Rightarrow> EnactmentNode list" where
  "autoAssignEnactmentLevels ens =
     (if ens = [] then ens
      else (let (used, dup) = scanLevels [] False ens in
            if dup \<or> length used < length ens then numberLevels ens else ens))"

definition autoAssignStorylineOrders :: "StorylineNode list \<Rightarrow> StorylineNode list" where
  "autoAssignStorylineOrders sls =
     (if list_ex (\<lambda>sl. sl_Order sl = None) sls
      then map2 (\<lambda>i sl. if sl_Order sl = None then set_sl_Order (Some (int i + 1)) sl else sl)
             [0..<length sls] sls
      else sls)"

section \<open>Enactments, storylines and stories\<close>

text \<open>The use statements of an enactment: the triggers they add and the sender they leave.\<close>

fun enactmentUses ::
  "Expander \<Rightarrow> UseStatementNode list \<Rightarrow> TriggerNode list \<Rightarrow> DefaultSenderNode option \<Rightarrow>
   (TriggerNode list \<times> DefaultSenderNode option) \<times> Diagnostics" where
  "enactmentUses e [] trs sender = ((trs, sender), [])"
| "enactmentUses e (us # uss) trs sender =
     (if us_Kind us = ''policy'' then
        (let (new, ds) = expandPolicy e us;
             (r, ds') = enactmentUses e uss (trs @ new) sender in (r, ds @ ds'))
      else if us_Kind us = ''sender'' then
        (let (sender', ds) = useSender e us sender;
             (r, ds') = enactmentUses e uss trs sender' in (r, ds @ ds'))
      else if us_Kind us = ''pattern'' then
        (let (r, ds') = enactmentUses e uss trs sender in
         (r, errorAt (us_Pos us)
               (CHR 0x27 # ''use pattern'' @ CHR 0x27 # '' should be inside a storyline, not an enactment'')
               [] # ds'))
      else enactmentUses e uss trs sender)"

definition expandEnactment ::
  "Expander \<Rightarrow> DefaultSenderNode option \<Rightarrow> EnactmentNode \<Rightarrow> EnactmentNode \<times> Diagnostics" where
  "expandEnactment e sender0 en =
     (let scenes = en_Scenes en @ (case en_ScenesRange en of
                                     None \<Rightarrow> [] | Some sr \<Rightarrow> expandScenesRange sr);
          ((trs, sender), ds) = enactmentUses e (en_UseStatements en) (en_Triggers en) sender0;
          sent = applySender sender scenes;
          linked = (if ex_links e = [] then sent
                    else map (\<lambda>sc. sc\<lparr>sc_Subject := substituteParams (sc_Subject sc) (ex_links e),
                                      sc_Body := substituteLinksAsHref (sc_Body sc) (ex_links e)\<rparr>)
                           sent) in
      (en\<lparr>en_Scenes := linked, en_ScenesRange := None, en_UseStatements := [],
          en_Triggers := resolveLinksInTriggers e trs\<rparr>, ds))"

fun storylineUses ::
  "Expander \<Rightarrow> UseStatementNode list \<Rightarrow> EnactmentNode list \<Rightarrow> DefaultSenderNode option \<Rightarrow>
   (EnactmentNode list \<times> DefaultSenderNode option) \<times> Diagnostics" where
  "storylineUses e [] ens sender = ((ens, sender), [])"
| "storylineUses e (us # uss) ens sender =
     (if us_Kind us = ''pattern'' then
        (let (new, ds) = expandPattern e us sender;
             (r, ds') = storylineUses e uss (ens @ new) sender in (r, ds @ ds'))
      else if us_Kind us = ''policy'' then
        (let (r, ds') = storylineUses e uss ens sender in
         (r, errorAt (us_Pos us)
               (CHR 0x27 # ''use policy'' @ CHR 0x27 # '' should be inside an enactment, not a storyline'')
               [] # ds'))
      else if us_Kind us = ''sender'' then
        (let (sender', ds) = useSender e us sender;
             (r, ds') = storylineUses e uss ens sender' in (r, ds @ ds'))
      else storylineUses e uss ens sender)"

definition expandStoryline ::
  "Expander \<Rightarrow> DefaultSenderNode option \<Rightarrow> StorylineNode \<Rightarrow> StorylineNode \<times> Diagnostics" where
  "expandStoryline e sender0 sl =
     (let directCount = length (sl_Enactments sl);
          ((ens1, sender), ds1) = storylineUses e (sl_UseStatements sl) (sl_Enactments sl) sender0;
          (loops, ds2) = mapW (\<lambda>fl. expandForLoopEnactments e fl sender) (sl_ForLoops sl);
          expanded = ens1 @ concat loops;
          levelled = (if directCount < length expanded
                      then autoAssignEnactmentLevels expanded else expanded);
          (ens, ds3) = mapW (expandEnactment e sender) (applyEnactmentDefaults e levelled) in
      (set_sl_expanded ens sl, ds1 @ ds2 @ ds3))"

fun storySender ::
  "Expander \<Rightarrow> UseStatementNode list \<Rightarrow> DefaultSenderNode option \<Rightarrow> DefaultSenderNode option \<times> Diagnostics"
where
  "storySender e [] sender = (sender, [])"
| "storySender e (us # uss) sender =
     (if us_Kind us = ''sender'' then
        (let (sender', ds) = useSender e us sender;
             (r, ds') = storySender e uss sender' in (r, ds @ ds'))
      else storySender e uss sender)"

definition expandStory :: "Expander \<Rightarrow> StoryNode \<Rightarrow> StoryNode \<times> Diagnostics" where
  "expandStory e story =
     (let (sender, ds1) = storySender e (st_UseStatements story)
            (map_of (ex_defaultSenders e) ''default'');
          (loops, ds2) = mapW (expandForLoopStorylines e) (st_ForLoops story);
          ordered = autoAssignStorylineOrders (st_Storylines story @ concat loops);
          (sls, ds3) = mapW (expandStoryline e sender) ordered in
      (story\<lparr>st_Storylines := sls, st_ForLoops := [], st_UseStatements := []\<rparr>,
       ds1 @ ds2 @ ds3))"

section \<open>Funnels and the script\<close>

definition expandBlock :: "AIContextNode option \<Rightarrow> BlockNode \<Rightarrow> BlockNode" where
  "expandBlock pageCtx block =
     (let ctx = (if bl_AIContext block = None \<and> pageCtx \<noteq> None then pageCtx
                 else bl_AIContext block);
          gen = (case (bl_ContentGen block, ctx) of
             (Some g, Some c) \<Rightarrow>
               Some (if cg_ContextURLs g = [] then g\<lparr>cg_ContextURLs := ai_ContextURLs c\<rparr> else g)
           | _ \<Rightarrow> bl_ContentGen block) in
      block\<lparr>bl_AIContext := ctx, bl_ContentGen := gen\<rparr>)"

definition expandPage :: "AIContextNode option \<Rightarrow> PageNode \<Rightarrow> PageNode" where
  "expandPage funnelCtx page =
     (let ctx = (if pg_AIContext page = None \<and> funnelCtx \<noteq> None then funnelCtx
                 else pg_AIContext page) in
      page\<lparr>pg_AIContext := ctx, pg_Blocks := map (expandBlock ctx) (pg_Blocks page)\<rparr>)"

definition expandFunnel :: "FunnelNode \<Rightarrow> FunnelNode" where
  "expandFunnel funnel =
     funnel\<lparr>fn_Routes := map (\<lambda>route.
       route\<lparr>rt_Stages := map (\<lambda>stage.
         stage\<lparr>sg_Pages := map (expandPage (fn_AIContext funnel)) (sg_Pages stage)\<rparr>)
         (rt_Stages route)\<rparr>) (fn_Routes funnel)\<rparr>"

definition Expand :: "ScriptAST \<Rightarrow> ScriptAST \<times> Diagnostics" where
  "Expand ast =
     (let (e, ds1) = collectDefinitions (NewExpander ast) in
      if HasErrors ds1 then (ast, ds1)
      else
        (let (stories, ds2) = mapW (expandStory e) (ast_Stories ast) in
         (ast\<lparr>ast_Stories := stories, ast_Funnels := map expandFunnel (ast_Funnels ast)\<rparr>,
          ds1 @ ds2)))"

section \<open>Definitions are collected or rejected\<close>

text \<open>No two default senders, patterns, policies or data blocks of a script share a name.\<close>

definition unique_definitions :: "ScriptAST \<Rightarrow> bool" where
  "unique_definitions ast \<longleftrightarrow>
     distinct (map (\<lambda>d. default_name (ds_Name d)) (ast_DefaultSenders ast))
     \<and> distinct (map pat_Name (ast_Patterns ast))
     \<and> distinct (map pol_Name (ast_Policies ast))
     \<and> distinct (map db_Name (ast_DataBlocks ast))"

lemma collectDefinitions_reports:
  "snd (collectDefinitions (NewExpander ast)) = [] \<longleftrightarrow> unique_definitions ast"
  by (simp add: collectDefinitions_def NewExpander_def split_beta unique_definitions_def
      collect_Nil_iff)

lemma collectDefinitions_all_errors:
  "all_errors (snd (collectDefinitions (NewExpander ast)))"
  by (simp add: collectDefinitions_def NewExpander_def split_beta collect_all_errors)

lemma collectDefinitions_HasErrors:
  "HasErrors (snd (collectDefinitions (NewExpander ast))) \<longleftrightarrow> \<not> unique_definitions ast"
  using collectDefinitions_reports [of ast] all_errors_HasErrors [OF collectDefinitions_all_errors]
  by simp

text \<open>
  A script in which two definitions of a kind share a name is returned as it was, with
  an error; the reports are exactly the later definitions of each name.
\<close>

theorem Expand_duplicates:
  assumes "\<not> unique_definitions ast"
  shows "fst (Expand ast) = ast \<and> HasErrors (snd (Expand ast))
    \<and> map diag_Pos (snd (Expand ast))
      = map ds_Pos (repeated (\<lambda>d. default_name (ds_Name d)) {} (ast_DefaultSenders ast))
        @ map pat_Pos (repeated pat_Name {} (ast_Patterns ast))
        @ map pol_Pos (repeated pol_Name {} (ast_Policies ast))
        @ map db_Pos (repeated db_Name {} (ast_DataBlocks ast))"
proof -
  have e: "HasErrors (snd (collectDefinitions (NewExpander ast)))"
    using assms by (simp add: collectDefinitions_HasErrors)
  then have "Expand ast = (ast, snd (collectDefinitions (NewExpander ast)))"
    by (simp add: Expand_def split_beta)
  with e show ?thesis
    by (simp add: collectDefinitions_def NewExpander_def split_beta gm.reports_collect comp_def)
qed

section \<open>Every report of the expander is an error\<close>

named_theorems reports_errors

lemma all_errors_mapW:
  "(\<And>x. x \<in> set xs \<Longrightarrow> all_errors (snd (f x))) \<Longrightarrow> all_errors (snd (mapW f xs))"
  by (induction xs) (auto simp: split_beta)

lemma resolveIntExpr_errors [reports_errors]:
  "all_errors (snd (resolveIntExpr fmt p params v expr))"
  by (simp add: resolveIntExpr_def Let_def split: option.splits)

lemma cloneEnactmentWithDotAccess_errors [reports_errors]:
  "all_errors (snd (cloneEnactmentWithDotAccess params en))"
  by (simp add: cloneEnactmentWithDotAccess_def split_beta reports_errors)

lemma cloneForLoopWithDotAccess_errors [reports_errors]:
  "all_errors (snd (cloneForLoopWithDotAccess params fl))"
  by (simp add: cloneForLoopWithDotAccess_def split_beta all_errors_mapW reports_errors)

lemma useSender_errors [reports_errors]: "all_errors (snd (useSender e us sender))"
  by (simp add: useSender_def Let_def split: option.splits)

lemma expandPattern_errors [reports_errors]: "all_errors (snd (expandPattern e us sender))"
  by (simp add: expandPattern_def Let_def split: option.splits)

lemma expandPolicy_errors [reports_errors]: "all_errors (snd (expandPolicy e us))"
  by (simp add: expandPolicy_def Let_def split: option.splits)

lemma resolveForLoopData_errors [reports_errors]: "all_errors (snd (resolveForLoopData e fl))"
  by (simp add: resolveForLoopData_def split: option.splits)

lemma instantiateStoryline_errors [reports_errors]:
  "all_errors (snd (instantiateStoryline params sl))"
  by (simp add: instantiateStoryline_def split_beta all_errors_mapW reports_errors)

lemma expandForLoopStorylines_errors [reports_errors]:
  "all_errors (snd (expandForLoopStorylines e fl))"
  by (simp add: expandForLoopStorylines_def split_beta all_errors_mapW reports_errors)

lemma forBodyUse_errors [reports_errors]: "all_errors (snd (forBodyUse e sender params us))"
  by (simp add: forBodyUse_def Let_def reports_errors)

lemma expandForLoopEnactments_errors [reports_errors]:
  "all_errors (snd (expandForLoopEnactments e fl sender))"
  by (simp add: expandForLoopEnactments_def split_beta Let_def all_errors_mapW reports_errors)

lemma enactmentUses_errors [reports_errors]:
  "all_errors (snd (enactmentUses e uss trs sender))"
  by (induction uss arbitrary: trs sender) (simp_all add: split_beta reports_errors)

lemma expandEnactment_errors [reports_errors]: "all_errors (snd (expandEnactment e sender en))"
  by (simp add: expandEnactment_def split_beta Let_def reports_errors)

lemma storylineUses_errors [reports_errors]:
  "all_errors (snd (storylineUses e uss ens sender))"
  by (induction uss arbitrary: ens sender) (simp_all add: split_beta reports_errors)

lemma expandStoryline_errors [reports_errors]: "all_errors (snd (expandStoryline e sender sl))"
  by (simp add: expandStoryline_def split_beta Let_def all_errors_mapW reports_errors)

lemma storySender_errors [reports_errors]: "all_errors (snd (storySender e uss sender))"
  by (induction uss arbitrary: sender) (simp_all add: split_beta reports_errors)

lemma expandStory_errors [reports_errors]: "all_errors (snd (expandStory e st))"
  by (simp add: expandStory_def split_beta Let_def all_errors_mapW reports_errors)

lemma Expand_all_errors: "all_errors (snd (Expand ast))"
  by (simp add: Expand_def split_beta collectDefinitions_all_errors all_errors_mapW reports_errors)

section \<open>After expansion the stories are flat\<close>

definition flat_enactment :: "EnactmentNode \<Rightarrow> bool" where
  "flat_enactment en \<longleftrightarrow> en_ScenesRange en = None \<and> en_UseStatements en = []"

definition flat_storyline :: "StorylineNode \<Rightarrow> bool" where
  "flat_storyline sl \<longleftrightarrow>
     sl_ForLoops sl = [] \<and> sl_UseStatements sl = [] \<and> sl_Order sl \<noteq> None
     \<and> list_all flat_enactment (sl_Enactments sl)"

definition flat_story :: "StoryNode \<Rightarrow> bool" where
  "flat_story st \<longleftrightarrow>
     st_ForLoops st = [] \<and> st_UseStatements st = [] \<and> list_all flat_storyline (st_Storylines st)"

lemma expandEnactment_flat: "flat_enactment (fst (expandEnactment e sender en))"
  by (simp add: expandEnactment_def split_beta Let_def flat_enactment_def)

lemma expandStoryline_flat:
  "sl_Order sl \<noteq> None \<Longrightarrow> flat_storyline (fst (expandStoryline e sender sl))"
  by (auto simp: expandStoryline_def split_beta Let_def flat_storyline_def writer_simps
      list_all_iff expandEnactment_flat)

lemma autoAssignStorylineOrders_set:
  "sl \<in> set (autoAssignStorylineOrders sls) \<Longrightarrow> sl_Order sl \<noteq> None"
  by (auto simp: autoAssignStorylineOrders_def list_ex_iff set_zip in_set_conv_nth split: if_splits)

lemma expandStory_flat: "flat_story (fst (expandStory e st))"
  by (auto simp: expandStory_def split_beta Let_def flat_story_def writer_simps list_all_iff
      intro!: expandStoryline_flat dest!: autoAssignStorylineOrders_set)

text \<open>
  C17: A successful expansion leaves flat stories: no loops, use statements or ranges of
  scenes remain anywhere below a story, and every storyline has an order.
\<close>

theorem Expand_flat:
  assumes "\<not> HasErrors (snd (Expand ast))"
  shows "list_all flat_story (ast_Stories (fst (Expand ast)))"
proof -
  have "\<not> HasErrors (snd (collectDefinitions (NewExpander ast)))"
    using assms by (auto simp: Expand_def split_beta split: if_splits)
  then show ?thesis
    by (simp add: Expand_def split_beta writer_simps list_all_iff expandStory_flat)
qed

text \<open>A story with a loop over inline objects, a range of scenes and a default sender.\<close>

definition loop_script :: ScriptAST where
  "loop_script = zero_ScriptAST\<lparr>
     ast_DefaultSenders := [zero_DefaultSenderNode\<lparr>ds_FromEmail := ''a@b.c''\<rparr>],
     ast_Stories := [zero_StoryNode\<lparr>st_Name := ''S'',
       st_ForLoops := [ForNode zero_Pos ''p'' [] []
          [zero_DataObjectLiteral\<lparr>dob_Fields := [(''name'', ''One'')]\<rparr>,
           zero_DataObjectLiteral\<lparr>dob_Fields := [(''name'', ''Two'')]\<rparr>] 0 0 False
          [StorylineNode zero_Pos ''L ${p.name}'' None [] None None None None
             [zero_EnactmentNode\<lparr>en_Name := ''E'',
                en_ScenesRange := Some (zero_ScenesRangeNode\<lparr>sr_RangeStart := 1, sr_RangeEnd := 2,
                  sr_Variable := ''n'', sr_Body := Some (named_scene ''s ${n}'')\<rparr>)\<rparr>] [] []]
          [] [] []]\<rparr>]\<rparr>"

lemma Expand_flat_witness:
  "list_all flat_story (ast_Stories (fst (Expand loop_script)))
   \<and> map (\<lambda>st. map sl_Name (st_Storylines st)) (ast_Stories (fst (Expand loop_script)))
     = [[''L One'', ''L Two'']]"
proof -
  have "snd (Expand loop_script) = []" by code_simp
  then have "\<not> HasErrors (snd (Expand loop_script))" by simp
  from Expand_flat [OF this]
  have "list_all flat_story (ast_Stories (fst (Expand loop_script)))" .
  moreover have "map (\<lambda>st. map sl_Name (st_Storylines st)) (ast_Stories (fst (Expand loop_script)))
     = [[''L One'', ''L Two'']]" by code_simp
  ultimately show ?thesis by blast
qed

definition two_patterns :: ScriptAST where
  "two_patterns = zero_ScriptAST\<lparr>
     ast_Patterns := [zero_PatternDefNode\<lparr>pat_Name := ''p''\<rparr>, zero_PatternDefNode\<lparr>pat_Name := ''p''\<rparr>]\<rparr>"

lemma Expand_duplicates_witness:
  "fst (Expand two_patterns) = two_patterns \<and> HasErrors (snd (Expand two_patterns))"
proof -
  have "\<not> unique_definitions two_patterns" by code_simp
  from Expand_duplicates [OF this] show ?thesis by blast
qed

section \<open>Levels and orders\<close>

definition levels_of :: "EnactmentNode list \<Rightarrow> int list" where
  "levels_of ens = List.map_filter en_Level ens"

lemma levels_of_simps [simp]:
  "levels_of [] = []"
  "levels_of (en # ens) = (case en_Level en of None \<Rightarrow> levels_of ens | Some l \<Rightarrow> l # levels_of ens)"
  by (simp_all add: levels_of_def map_filter_simps split: option.splits)

lemma scanLevels_used:
  "distinct used \<Longrightarrow>
   distinct (fst (scanLevels used dup ens))
   \<and> set (fst (scanLevels used dup ens)) = set used \<union> set (levels_of ens)"
  by (induction used dup ens rule: scanLevels.induct) (auto split: option.splits)

lemma scanLevels_dup:
  "snd (scanLevels used dup ens)
   \<longleftrightarrow> dup \<or> \<not> distinct (levels_of ens) \<or> set used \<inter> set (levels_of ens) \<noteq> {}"
  by (induction used dup ens rule: scanLevels.induct) (auto split: option.splits)

lemma length_levels_of: "length (levels_of ens) \<le> length ens"
  by (induction ens) (auto split: option.splits)

lemma levels_of_full: "length (levels_of ens) = length ens \<Longrightarrow> map en_Level ens = map Some (levels_of ens)"
proof (induction ens)
  case (Cons en ens)
  then show ?case using length_levels_of [of ens] by (auto split: option.splits)
qed simp

lemma length_scan: "length (fst (scanLevels [] False ens)) = card (set (levels_of ens))"
  using scanLevels_used [of "[]" False ens] by (metis distinct.simps(1) distinct_card list.set(1) sup_bot_left)

lemma none_missing: "None \<notin> set (map f xs) \<Longrightarrow> list_all (\<lambda>x. f x \<noteq> None) xs"
  by (induction xs) (auto simp: eq_commute [of None])

lemma numberLevels_Level: "map en_Level (numberLevels ens) = map (\<lambda>i. Some (int i + 1)) [0..<length ens]"
  by (rule nth_equalityI) (simp_all add: numberLevels_def)

text \<open>
  After the automatic assignment every enactment has a level and no two share one;
  levels that were already complete and different are kept, and the numbering is 1, 2, ...
  otherwise.
\<close>

theorem autoAssignEnactmentLevels_levels:
  "list_all (\<lambda>en. en_Level en \<noteq> None) (autoAssignEnactmentLevels ens)
   \<and> distinct (map en_Level (autoAssignEnactmentLevels ens))
   \<and> map en_Level (autoAssignEnactmentLevels ens)
     = (if distinct (levels_of ens) \<and> length (levels_of ens) = length ens then map en_Level ens
        else map (\<lambda>i. Some (int i + 1)) [0..<length ens])"
proof -
  have full: "distinct (levels_of ens) \<and> length (levels_of ens) = length ens
    \<longleftrightarrow> \<not> (snd (scanLevels [] False ens) \<or> length (fst (scanLevels [] False ens)) < length ens)"
    using length_levels_of [of ens] card_length [of "levels_of ens"]
    by (auto simp: scanLevels_dup length_scan distinct_card)
  have eq: "map en_Level (autoAssignEnactmentLevels ens)
     = (if distinct (levels_of ens) \<and> length (levels_of ens) = length ens then map en_Level ens
        else map (\<lambda>i. Some (int i + 1)) [0..<length ens])"
    unfolding full by (auto simp: autoAssignEnactmentLevels_def split_beta numberLevels_Level)
  have "distinct (map en_Level (autoAssignEnactmentLevels ens))
    \<and> None \<notin> set (map en_Level (autoAssignEnactmentLevels ens))"
    unfolding eq using levels_of_full [of ens] by (auto simp: distinct_map inj_on_def)
  moreover from this have "list_all (\<lambda>en. en_Level en \<noteq> None) (autoAssignEnactmentLevels ens)"
    by (blast intro: none_missing)
  ultimately show ?thesis using eq by blast
qed

text \<open>
  The automatic orders keep every order the author wrote and give the others their
  position, counted from one; the positions are not compared with the written orders, so
  two storylines can end up with the same order.
\<close>

theorem autoAssignStorylineOrders_orders:
  "map sl_Order (autoAssignStorylineOrders sls)
     = map2 (\<lambda>i sl. case sl_Order sl of None \<Rightarrow> Some (int i + 1) | Some k \<Rightarrow> Some k)
         [0..<length sls] sls
   \<and> map sl_Order (autoAssignStorylineOrders
        [set_sl_Order None zero_StorylineNode, set_sl_Order (Some 1) zero_StorylineNode])
     = [Some 1, Some 1]"
proof -
  have "map sl_Order (autoAssignStorylineOrders sls)
     = map2 (\<lambda>i sl. case sl_Order sl of None \<Rightarrow> Some (int i + 1) | Some k \<Rightarrow> Some k)
         [0..<length sls] sls"
  proof (cases "list_ex (\<lambda>sl. sl_Order sl = None) sls")
    case True
    then show ?thesis
      by (intro nth_equalityI) (auto simp: autoAssignStorylineOrders_def split: option.splits)
  next
    case False
    then have "sl_Order (sls ! i) \<noteq> None" if "i < length sls" for i
      using that nth_mem [OF that] by (auto simp: list_ex_iff)
    with False show ?thesis
      by (intro nth_equalityI) (auto simp: autoAssignStorylineOrders_def split: option.splits)
  qed
  moreover have "map sl_Order (autoAssignStorylineOrders
        [set_sl_Order None zero_StorylineNode, set_sl_Order (Some 1) zero_StorylineNode])
     = [Some 1, Some 1]" by code_simp
  ultimately show ?thesis by blast
qed

section \<open>Senders\<close>

text \<open>The sender in force after some use statements: the last known one, else the inherited.\<close>

definition effective_sender ::
  "Expander \<Rightarrow> UseStatementNode list \<Rightarrow> DefaultSenderNode option \<Rightarrow> DefaultSenderNode option" where
  "effective_sender e uss sender =
     foldl (\<lambda>s us. if us_Kind us = ''sender''
                   then (case map_of (ex_defaultSenders e) (default_name (us_Target us)) of
                           None \<Rightarrow> s | Some d \<Rightarrow> Some d)
                   else s) sender uss"

lemma useSender_fst:
  "fst (useSender e us sender)
   = (case map_of (ex_defaultSenders e) (default_name (us_Target us)) of
        None \<Rightarrow> sender | Some d \<Rightarrow> Some d)"
  by (simp add: useSender_def Let_def split: option.splits)

lemma enactmentUses_sender:
  "snd (fst (enactmentUses e uss trs sender)) = effective_sender e uss sender"
  by (induction uss arbitrary: trs sender)
    (simp_all add: split_beta effective_sender_def useSender_fst)

lemma enactmentUses_triggers:
  "fst (fst (enactmentUses e uss trs sender))
   = trs @ concat (map (\<lambda>us. fst (expandPolicy e us)) (filter (\<lambda>us. us_Kind us = ''policy'') uss))"
  by (induction uss arbitrary: trs sender) (simp_all add: split_beta)

definition inherit :: "string \<Rightarrow> string option \<Rightarrow> string" where
  "inherit own from_sender = (if own \<noteq> [] then own else case from_sender of None \<Rightarrow> [] | Some v \<Rightarrow> v)"

lemma applySender_fields:
  "map sc_FromEmail (applySender d scs) = map (\<lambda>sc. inherit (sc_FromEmail sc) (map_option ds_FromEmail d)) scs"
  "map sc_FromName (applySender d scs) = map (\<lambda>sc. inherit (sc_FromName sc) (map_option ds_FromName d)) scs"
  "map sc_ReplyTo (applySender d scs) = map (\<lambda>sc. inherit (sc_ReplyTo sc) (map_option ds_ReplyTo d)) scs"
  by (auto simp: applySender_def applySenderDefaults_def inherit_def split: option.splits)

definition all_scenes :: "EnactmentNode \<Rightarrow> SceneNode list" where
  "all_scenes en = en_Scenes en @ (case en_ScenesRange en of
                                     None \<Rightarrow> [] | Some sr \<Rightarrow> expandScenesRange sr)"

text \<open>
  After the expansion of an enactment each of its scenes, the generated ones included,
  sends from the address, name and reply address it wrote itself, and where it wrote none
  from those of the sender in force: the last \<open>use sender\<close> that names a known sender,
  else the one the storyline handed down.
\<close>

theorem expandEnactment_senders:
  "let scs = en_Scenes (fst (expandEnactment e sender en));
       d = effective_sender e (en_UseStatements en) sender in
   map sc_FromEmail scs = map (\<lambda>sc. inherit (sc_FromEmail sc) (map_option ds_FromEmail d)) (all_scenes en)
   \<and> map sc_FromName scs = map (\<lambda>sc. inherit (sc_FromName sc) (map_option ds_FromName d)) (all_scenes en)
   \<and> map sc_ReplyTo scs = map (\<lambda>sc. inherit (sc_ReplyTo sc) (map_option ds_ReplyTo d)) (all_scenes en)"
  by (simp add: expandEnactment_def split_beta Let_def enactmentUses_sender all_scenes_def
      applySender_fields comp_def)

section \<open>Policies\<close>

definition policy_use_ok :: "Expander \<Rightarrow> UseStatementNode \<Rightarrow> bool" where
  "policy_use_ok e us \<longleftrightarrow>
     (case map_of (ex_policies e) (us_Target us) of
        None \<Rightarrow> False | Some pol \<Rightarrow> length (us_Args us) = length (pol_Params pol))"

text \<open>The triggers a use of a policy stands for.\<close>

definition policy_triggers :: "Expander \<Rightarrow> UseStatementNode \<Rightarrow> TriggerNode list" where
  "policy_triggers e us =
     (case map_of (ex_policies e) (us_Target us) of
        None \<Rightarrow> []
      | Some pol \<Rightarrow> map (cloneTrigger (bindParams e (pol_Params pol) (us_Args us))) (pol_Triggers pol))"

definition enactment_use_ok :: "Expander \<Rightarrow> UseStatementNode \<Rightarrow> bool" where
  "enactment_use_ok e us \<longleftrightarrow>
     (if us_Kind us = ''policy'' then policy_use_ok e us
      else if us_Kind us = ''sender'' then has_key (default_name (us_Target us)) (ex_defaultSenders e)
      else us_Kind us \<noteq> ''pattern'')"

lemma expandPolicy_ok:
  "snd (expandPolicy e us) = [] \<longleftrightarrow> policy_use_ok e us"
  "policy_use_ok e us \<Longrightarrow> fst (expandPolicy e us) = policy_triggers e us"
  by (auto simp: expandPolicy_def policy_use_ok_def policy_triggers_def Let_def split: option.splits)

lemma enactmentUses_reports:
  "snd (enactmentUses e uss trs sender) = [] \<longleftrightarrow> list_all (enactment_use_ok e) uss"
  by (induction uss arbitrary: trs sender)
    (auto simp: split_beta expandPolicy_ok enactment_use_ok_def useSender_def Let_def has_key_def
      split: option.splits)

text \<open>
  An enactment expands without a report exactly when its use statements are in order:
  every policy is defined and gets as many arguments as it has parameters, every sender is
  known, and no pattern is used there.
\<close>

theorem expandEnactment_reports:
  "snd (expandEnactment e sender en) = [] \<longleftrightarrow> list_all (enactment_use_ok e) (en_UseStatements en)"
  by (simp add: expandEnactment_def split_beta Let_def enactmentUses_reports)

text \<open>
  The triggers of an expanded enactment are its own followed by those of its
  policies in the order of the use statements, with the arguments of each use bound to the
  parameters of its policy and symbolic links replaced by their addresses.
\<close>

theorem expandEnactment_policies:
  assumes "list_all (enactment_use_ok e) (en_UseStatements en)"
  shows "en_Triggers (fst (expandEnactment e sender en))
    = resolveLinksInTriggers e (en_Triggers en @ concat (map (policy_triggers e)
        (filter (\<lambda>us. us_Kind us = ''policy'') (en_UseStatements en))))"
proof -
  have "concat (map (\<lambda>us. fst (expandPolicy e us)) (filter (\<lambda>us. us_Kind us = ''policy'') uss))
      = concat (map (policy_triggers e) (filter (\<lambda>us. us_Kind us = ''policy'') uss))"
    if "list_all (enactment_use_ok e) uss" for uss
    using that by (intro arg_cong [where f = concat])
      (auto simp: enactment_use_ok_def expandPolicy_ok list_all_iff)
  from this [OF assms] show ?thesis
    by (simp add: expandEnactment_def split_beta Let_def enactmentUses_triggers)
qed

lemma expandEnactment_policies_witness:
  "map tr_UserActionValue (en_Triggers (fst (expandEnactment
     ((NewExpander zero_ScriptAST)\<lparr>ex_links := [(''offer'', ''http://x'')],
        ex_policies := [(''clicked'', zero_PolicyDefNode\<lparr>pol_Params := [''link''],
           pol_Triggers := [zero_TriggerNode\<lparr>tr_UserActionValue := ''link''\<rparr>]\<rparr>)]\<rparr>) None
     (zero_EnactmentNode\<lparr>en_UseStatements :=
        [zero_UseStatementNode\<lparr>us_Kind := ''policy'', us_Target := ''clicked'', us_Args := [''offer'']\<rparr>]\<rparr>))))
   = [''http://x'']"
  by (subst expandEnactment_policies) code_simp+

section \<open>Scripts without the constructs\<close>

definition plain_block :: "BlockNode \<Rightarrow> bool" where
  "plain_block b \<longleftrightarrow>
     (case (bl_ContentGen b, bl_AIContext b) of
        (Some g, Some c) \<Rightarrow> cg_ContextURLs g \<noteq> [] \<or> ai_ContextURLs c = [] | _ \<Rightarrow> True)"

definition plain_funnel :: "FunnelNode \<Rightarrow> bool" where
  "plain_funnel f \<longleftrightarrow>
     fn_AIContext f = None
     \<and> list_all (\<lambda>rt. list_all (\<lambda>sg. list_all (\<lambda>pg. pg_AIContext pg = None
          \<and> list_all plain_block (pg_Blocks pg)) (sg_Pages sg)) (rt_Stages rt)) (fn_Routes f)"

definition plain_script :: "ScriptAST \<Rightarrow> bool" where
  "plain_script ast \<longleftrightarrow>
     unique_definitions ast \<and> ast_DefaultSenders ast = []
     \<and> (case ast_Links ast of None \<Rightarrow> True | Some lk \<Rightarrow> lk_Links lk = [])
     \<and> ast_SceneDefaults ast = None \<and> ast_EnactmentDefaults ast = None
     \<and> list_all flat_story (ast_Stories ast) \<and> list_all plain_funnel (ast_Funnels ast)"

lemma expandBlock_plain: "plain_block b \<Longrightarrow> expandBlock None b = b"
  by (auto simp: expandBlock_def plain_block_def Let_def split: option.splits)

lemma expandFunnel_plain: "plain_funnel f \<Longrightarrow> expandFunnel f = f"
  by (simp add: expandFunnel_def plain_funnel_def expandPage_def expandBlock_plain
      list_all_iff map_idI)

lemma mapW_id: "(\<And>x. x \<in> set xs \<Longrightarrow> f x = (x, [])) \<Longrightarrow> mapW f xs = (xs, [])"
  by (induction xs) auto

lemma expandEnactment_plain:
  assumes "flat_enactment en" and "ex_links e = []"
  shows "expandEnactment e None en = (en, [])"
proof -
  have "resolveLinksInTriggers e trs = trs" for trs
    using assms(2) by (simp add: resolveLinksInTriggers_def map_idI)
  with assms show ?thesis
    by (simp add: expandEnactment_def flat_enactment_def applySender_def)
qed

lemma set_sl_expanded_plain:
  "sl_ForLoops sl = [] \<Longrightarrow> sl_UseStatements sl = [] \<Longrightarrow> set_sl_expanded (sl_Enactments sl) sl = sl"
  by (cases sl) simp

lemma expandStoryline_plain:
  assumes "flat_storyline sl" and "ex_links e = []"
    and "ast_EnactmentDefaults (ex_ast e) = None" and "ast_SceneDefaults (ex_ast e) = None"
  shows "expandStoryline e None sl = (sl, [])"
proof -
  have "mapW (expandEnactment e None) (sl_Enactments sl) = (sl_Enactments sl, [])"
    using assms by (intro mapW_id expandEnactment_plain) (auto simp: flat_storyline_def list_all_iff)
  with assms show ?thesis
    by (simp add: expandStoryline_def flat_storyline_def applyEnactmentDefaults_def
        set_sl_expanded_plain)
qed

lemma expandStory_plain:
  assumes "flat_story st" and "ex_links e = []" and "ex_defaultSenders e = []"
    and "ast_EnactmentDefaults (ex_ast e) = None" and "ast_SceneDefaults (ex_ast e) = None"
  shows "expandStory e st = (st, [])"
proof -
  have "mapW (expandStoryline e None) (st_Storylines st) = (st_Storylines st, [])"
    using assms by (intro mapW_id expandStoryline_plain) (auto simp: flat_story_def list_all_iff)
  moreover have "autoAssignStorylineOrders (st_Storylines st) = st_Storylines st"
    using assms(1)
    by (auto simp: autoAssignStorylineOrders_def flat_story_def flat_storyline_def list_ex_iff list_all_iff)
  ultimately show ?thesis
    using assms by (simp add: expandStory_def flat_story_def)
qed

text \<open>
  The expander is the identity on scripts that use none of its constructs: flat
  stories, no default senders, no links and no defaults, and funnels with no context to
  inherit come out as they went in, without a report.
\<close>

theorem Expand_plain:
  assumes "plain_script ast"
  shows "Expand ast = (ast, [])"
proof -
  define e where "e = fst (collectDefinitions (NewExpander ast))"
  have e: "ex_ast e = ast" "ex_links e = []" "ex_defaultSenders e = []"
    using assms
    by (auto simp: e_def collectDefinitions_def NewExpander_def split_beta plain_script_def
        putLinks_def split: option.splits)
  have nodup: "snd (collectDefinitions (NewExpander ast)) = []"
    using assms by (simp add: collectDefinitions_reports plain_script_def)
  have "mapW (expandStory e) (ast_Stories ast) = (ast_Stories ast, [])"
    using assms e
    by (intro mapW_id expandStory_plain) (auto simp: plain_script_def list_all_iff)
  moreover have "map expandFunnel (ast_Funnels ast) = ast_Funnels ast"
    using assms by (auto simp: plain_script_def list_all_iff expandFunnel_plain intro!: map_idI)
  ultimately show ?thesis
    by (simp add: Expand_def split_beta nodup e_def [symmetric])
qed

lemma Expand_plain_witness:
  "Expand (zero_ScriptAST\<lparr>ast_Stories := [zero_StoryNode\<lparr>st_Name := ''S''\<rparr>]\<rparr>)
   = (zero_ScriptAST\<lparr>ast_Stories := [zero_StoryNode\<lparr>st_Name := ''S''\<rparr>]\<rparr>, [])"
  by (rule Expand_plain) code_simp

section \<open>Patterns\<close>

lemma foldl_put_other:
  "k \<notin> fst ` set ps \<Longrightarrow>
   map_of (foldl (\<lambda>m (name, val). gomap_put name (f val) m) m0 ps) k = map_of m0 k"
  by (induction ps arbitrary: m0) (auto simp: update_conv)

lemma foldl_put_lookup:
  "distinct (map fst ps) \<Longrightarrow> (k, v) \<in> set ps \<Longrightarrow>
   map_of (foldl (\<lambda>m (name, val). gomap_put name (f val) m) m0 ps) k = Some (f v)"
  by (induction ps arbitrary: m0) (auto simp: foldl_put_other update_conv)

lemma bindParams_lookup:
  assumes "distinct params" and "length args = length params" and "i < length params"
  shows "map_of (bindParams e params args) (params ! i) = Some (resolveLink e (args ! i))"
  unfolding bindParams_def
  by (rule foldl_put_lookup) (use assms in \<open>auto simp: set_zip\<close>)

lemma bindParams_other:
  assumes "k \<notin> set params"
  shows "map_of (bindParams e params args) k = None"
proof -
  have "k \<notin> fst ` set (zip params args)"
    using assms by (auto dest: set_zip_leftD)
  then show ?thesis by (simp add: bindParams_def foldl_put_other)
qed

lemma wf_params_foldl:
  "wf_params m0 \<Longrightarrow> list_all (\<lambda>(n, v). plain_name n \<and> CHR ''$'' \<notin> set (f v)) ps \<Longrightarrow>
   wf_params (foldl (\<lambda>m (name, val). gomap_put name (f val) m) m0 ps)"
  by (induction ps arbitrary: m0) (auto intro: wf_params_put)

text \<open>The value a hole of a pattern stands for in a use with these arguments.\<close>

definition argument_of :: "Expander \<Rightarrow> string list \<Rightarrow> string list \<Rightarrow> segment \<Rightarrow> segment" where
  "argument_of e params args g =
     (case g of
        Lit t \<Rightarrow> Lit t
      | Hole n \<Rightarrow> (case map_of (zip params args) n of
                    None \<Rightarrow> Hole n | Some a \<Rightarrow> Lit (resolveLink e a)))"

lemma fill_bindParams:
  assumes "distinct params" and "length args = length params"
  shows "fill (bindParams e params args) g = argument_of e params args g"
proof (cases g)
  case (Hole n)
  show ?thesis
  proof (cases "n \<in> set params")
    case True
    then obtain i where i: "i < length params" "params ! i = n" by (auto simp: in_set_conv_nth)
    then have "map_of (zip params args) n = Some (args ! i)"
      using assms map_of_zip_nth [of params args i] by auto
    with i bindParams_lookup [OF assms i(1), of e] Hole show ?thesis by (simp add: argument_of_def)
  next
    case False
    then have "map_of (zip params args) n = None"
      using assms by (simp add: map_of_zip_is_None)
    moreover have "map_of (bindParams e params args) n = None"
      using False by (rule bindParams_other)
    ultimately show ?thesis using Hole by (simp add: argument_of_def)
  qed
qed (simp add: argument_of_def)

text \<open>
  A use of a pattern with as many arguments as the pattern has parameters yields one
  enactment per enactment of the pattern, named by its template with every hole replaced by
  the argument in the parameter's position, or by the address when the argument is the name
  of a link.
\<close>

theorem expandPattern_names:
  assumes "map_of (ex_patterns e) (us_Target us) = Some pat"
    and "length (us_Args us) = length (pat_Params pat)" and "distinct (pat_Params pat)"
    and "list_all plain_name (pat_Params pat)"
    and "list_all (\<lambda>a. CHR ''$'' \<notin> set (resolveLink e a)) (us_Args us)"
    and "map en_Name (pat_Enactments pat) = map render names"
    and "list_all (list_all wf_segment) names"
    and "list_all (\<lambda>n. render n \<notin> set (pat_Params pat)) names"
  shows "map en_Name (fst (expandPattern e us sender))
         = map (\<lambda>n. render (map (argument_of e (pat_Params pat) (us_Args us)) n)) names"
proof -
  let ?ps = "bindParams e (pat_Params pat) (us_Args us)"
  have wf: "wf_params ?ps"
    unfolding bindParams_def using assms(2,4,5)
    by (intro wf_params_foldl) (auto simp: wf_params_def list_all_iff set_zip)
  have "substituteParams (render n) ?ps
        = render (map (argument_of e (pat_Params pat) (us_Args us)) n)" if "n \<in> set names" for n
  proof -
    have "map_of ?ps (render n) = None"
      using that assms(8) by (simp add: bindParams_other list_all_iff)
    moreover have "argument_of e (pat_Params pat) (us_Args us) = fill ?ps"
      by (rule ext) (simp add: fill_bindParams [OF assms(3,2)])
    ultimately show ?thesis
      using substituteParams_render [OF _ wf, of n] that assms(7) by (simp add: list_all_iff)
  qed
  moreover have "map en_Name (fst (expandPattern e us sender))
      = map (\<lambda>s. substituteParams s ?ps) (map en_Name (pat_Enactments pat))"
    using assms(1,2) by (simp add: expandPattern_def Let_def cloneEnactment_def)
  ultimately show ?thesis using assms(6) by simp
qed

lemma expandPattern_names_witness:
  "map en_Name (fst (expandPattern
     ((NewExpander zero_ScriptAST)\<lparr>ex_patterns := [(''p'', zero_PatternDefNode\<lparr>pat_Params := [''x''],
        pat_Enactments := [zero_EnactmentNode\<lparr>en_Name := render [Lit ''Day '', Hole ''x'']\<rparr>]\<rparr>)]\<rparr>)
     (zero_UseStatementNode\<lparr>us_Target := ''p'', us_Args := [''one'']\<rparr>) None))
   = [''Day one'']"
  by (subst expandPattern_names
        [where pat = "zero_PatternDefNode\<lparr>pat_Params := [''x''],
           pat_Enactments := [zero_EnactmentNode\<lparr>en_Name := render [Lit ''Day '', Hole ''x'']\<rparr>]\<rparr>"
           and names = "[[Lit ''Day '', Hole ''x'']]"]) code_simp+

section \<open>Contexts of a funnel\<close>

definition or_else :: "'a option \<Rightarrow> 'a option \<Rightarrow> 'a option" where
  "or_else a b = (case a of None \<Rightarrow> b | Some _ \<Rightarrow> a)"

definition funnel_pages :: "FunnelNode \<Rightarrow> PageNode list" where
  "funnel_pages f = concat (map (\<lambda>rt. concat (map sg_Pages (rt_Stages rt))) (fn_Routes f))"

lemma funnel_pages_expand:
  "funnel_pages (expandFunnel f) = map (expandPage (fn_AIContext f)) (funnel_pages f)"
  by (simp add: funnel_pages_def expandFunnel_def map_concat comp_def)

lemma expandPage_context:
  "pg_AIContext (expandPage c pg) = or_else (pg_AIContext pg) c"
  by (auto simp: expandPage_def or_else_def Let_def split: option.splits)

lemma expandBlock_context:
  "bl_AIContext (expandBlock c b) = or_else (bl_AIContext b) c"
  by (auto simp: expandBlock_def or_else_def Let_def split: option.splits)

lemma expandBlock_urls: "plain_block (expandBlock c b)"
  by (auto simp: expandBlock_def plain_block_def Let_def split: option.splits)

text \<open>
  In an expanded funnel every page has its own context or the funnel's and every block
  its own or its page's, and a block whose content is generated without addresses of its
  own has taken those of its context.
\<close>

theorem expandFunnel_contexts:
  "map (\<lambda>pg. (pg_AIContext pg, map bl_AIContext (pg_Blocks pg))) (funnel_pages (expandFunnel f))
   = map (\<lambda>pg. let c = or_else (pg_AIContext pg) (fn_AIContext f) in
               (c, map (\<lambda>b. or_else (bl_AIContext b) c) (pg_Blocks pg))) (funnel_pages f)
   \<and> list_all (\<lambda>pg. list_all plain_block (pg_Blocks pg)) (funnel_pages (expandFunnel f))"
proof -
  have "pg_Blocks (expandPage c pg) = map (expandBlock (or_else (pg_AIContext pg) c)) (pg_Blocks pg)"
    for c pg by (auto simp: expandPage_def or_else_def Let_def split: option.splits)
  then show ?thesis
    by (simp add: funnel_pages_expand expandPage_context expandBlock_context Let_def comp_def
        list_all_iff expandBlock_urls)
qed

end
