(* ===== verification/CompilerProps.thy ===== *)
theory CompilerProps
  imports Compiler "HOL-Library.Multiset"
begin

text \<open>
  Properties of the story half of the compiler (\<open>src/scripting/compiler.go\<close>): what the
  badge guards of a trigger mean, which badges exist, how actions are merged into one, that
  jumps are linked and that compiling a story neither stops nor reports.
\<close>

section \<open>Badges are created for every name, in an order of their own\<close>

lemma run_bind: "run_state (m \<bind> k) s = run_state (k (fst (run_state m s))) (snd (run_state m s))"
  by (simp add: split_beta)

declare run_state_bind [simp del] run_bind [simp]

lemma snd_mapC_badges:
  "cs_badges (snd (run_state (precreateBadge cx name) s))
   = gomap_put name (fst (run_state (newBadge cx name) s)) (cs_badges s)"
proof -
  have "cs_badges (snd (run_state (newBadge cx name) s)) = cs_badges s"
    by (simp add: newBadge_def newObjectId_def generatePublicID_def Let_def)
  then show ?thesis by (simp add: precreateBadge_def split_beta)
qed

lemma newBadge_Name: "bdg_Name (fst (run_state (newBadge cx name) s)) = name"
  by (simp add: newBadge_def newObjectId_def generatePublicID_def Let_def)

lemma precreate_other:
  "n \<notin> set names \<Longrightarrow>
   map_of (cs_badges (snd (run_state (mapC (precreateBadge cx) names) s))) n = map_of (cs_badges s) n"
  by (induction names arbitrary: s) (auto simp: snd_mapC_badges update_conv)

lemma precreate_known:
  "n \<in> set names \<Longrightarrow>
   \<exists>b. map_of (cs_badges (snd (run_state (mapC (precreateBadge cx) names) s))) n = Some b \<and> bdg_Name b = n"
proof (induction names arbitrary: s)
  case (Cons m names)
  show ?case
  proof (cases "n \<in> set names")
    case True
    then show ?thesis using Cons.IH by simp
  next
    case False
    with Cons.prems have "n = m" by simp
    with False show ?thesis
      by (simp add: precreate_other snd_mapC_badges newBadge_Name update_conv)
  qed
qed simp

text \<open>
  The badges a compilation creates do not depend on the order in which Go visits the map
  of badge names: any two visits of the same names leave the same badges under the same ids,
  and every name has a badge of that name.
\<close>

theorem precreateBadges_deterministic:
  assumes "mset (map fst (sy_BadgeNames sy)) = mset (map fst (sy_BadgeNames sy'))"
  shows "run_state (precreateBadges cx sy) s = run_state (precreateBadges cx sy') s
    \<and> list_all (\<lambda>n. map_option bdg_Name (map_of (cs_badges (snd (run_state (precreateBadges cx sy) s))) n)
                    = Some n) (map fst (sy_BadgeNames sy))"
proof -
  have "sort (map fst (sy_BadgeNames sy)) = sort (map fst (sy_BadgeNames sy'))"
    using assms by (intro properties_for_sort) simp_all
  then have "run_state (precreateBadges cx sy) s = run_state (precreateBadges cx sy') s"
    by (simp add: precreateBadges_def)
  moreover have "map_option bdg_Name (map_of (cs_badges (snd (run_state (precreateBadges cx sy) s))) n) = Some n"
    if "n \<in> set (map fst (sy_BadgeNames sy))" for n
    using precreate_known [of n "sort (map fst (sy_BadgeNames sy))" cx s] that
    by (auto simp: precreateBadges_def)
  ultimately show ?thesis by (simp add: list_all_iff)
qed

definition demo_context :: Context where
  "demo_context = \<lparr>cx_pk = id, cx_SecondPriority = 2, cx_subscriberID = ''t'', cx_creatorID = Oid 0,
     cx_now = (\<lambda>_. 0), cx_lower = id, cx_int64 = (\<lambda>_. 0)\<rparr>"

lemma precreateBadges_deterministic_witness:
  "run_state (precreateBadges demo_context
      (newSymbolTable\<lparr>sy_BadgeNames := [(''b'', True), (''a'', True)]\<rparr>)) (NewCompiler 1 0 ''x'')
   = run_state (precreateBadges demo_context
      (newSymbolTable\<lparr>sy_BadgeNames := [(''a'', True), (''b'', True)]\<rparr>)) (NewCompiler 1 0 ''x'')"
  by (rule precreateBadges_deterministic [THEN conjunct1]) simp

section \<open>What the guards of a trigger mean\<close>

text \<open>When a user with these badges satisfies a list of required and forbidden badges.\<close>

definition satisfied :: "string set \<Rightarrow> RequiredBadges \<Rightarrow> bool" where
  "satisfied owned r \<longleftrightarrow>
     list_all (\<lambda>b. rqb_Name b \<in> owned) (rbs_MustHave r)
     \<and> list_all (\<lambda>b. rqb_Name b \<notin> owned) (rbs_MustNotHave r)"

text \<open>What a condition says of a user with these badges.\<close>

fun holds :: "string set \<Rightarrow> ConditionNode \<Rightarrow> bool" where
  "holds owned (ConditionNode p ctype val cs) \<longleftrightarrow>
     (if ctype = ''has_badge'' then val \<in> owned
      else if ctype = ''not_has_badge'' then val \<notin> owned
      else if ctype = ''and'' then list_all (holds owned) cs
      else if ctype = ''or'' then list_ex (holds owned) cs
      else if ctype = ''not'' then (case cs of [] \<Rightarrow> True | c # _ \<Rightarrow> \<not> holds owned c)
      else True)"

text \<open>Conditions built from badge tests, \<open>and\<close>, and \<open>not\<close> in front of a badge test.\<close>

definition badge_test :: "ConditionNode \<Rightarrow> bool" where
  "badge_test c \<longleftrightarrow> List.member [''has_badge'', ''not_has_badge''] (cd_ConditionType c)"

fun conjunctive :: "ConditionNode \<Rightarrow> bool" where
  "conjunctive (ConditionNode p ctype val cs) \<longleftrightarrow>
     List.member [''has_badge'', ''not_has_badge''] ctype
     \<or> ctype = ''and'' \<and> list_all conjunctive cs
     \<or> ctype = ''not'' \<and> (case cs of [c] \<Rightarrow> badge_test c | _ \<Rightarrow> False)"

fun tested_badges :: "ConditionNode \<Rightarrow> string list" where
  "tested_badges (ConditionNode p ctype val cs) =
     (if List.member [''has_badge'', ''not_has_badge''] ctype then [val]
      else concat (map tested_badges cs))"

definition badges_known :: "CState \<Rightarrow> string list \<Rightarrow> bool" where
  "badges_known s names = list_all (\<lambda>n. map_option bdg_Name (map_of (cs_badges s) n) = Some n) names"

lemma requiredBadge_Name [simp]:
  "rqb_Name (fst (run_state (requiredBadge cx b) s)) = bdg_Name b"
  by (simp add: requiredBadge_def newObjectId_def)

lemma addRequired_satisfied:
  assumes "map_option bdg_Name (map_of (cs_badges s) n) = Some n"
  shows "satisfied owned (fst (run_state (addRequired cx addMustHave n r) s))
           \<longleftrightarrow> satisfied owned r \<and> n \<in> owned"
    and "satisfied owned (fst (run_state (addRequired cx addMustNotHave n r) s))
           \<longleftrightarrow> satisfied owned r \<and> n \<notin> owned"
  using assms
  by (auto simp: addRequired_def addMustHave_def addMustNotHave_def satisfied_def)

lemma known_preserved: "preserves cs_badges m \<Longrightarrow> badges_known (snd (run_state m s)) ns = badges_known s ns"
  by (simp add: preserves_def badges_known_def)

lemma applyCondition_satisfied:
  "conjunctive c \<Longrightarrow> badges_known s (tested_badges c) \<Longrightarrow>
   satisfied owned (fst (run_state (applyConditionToTrigger cx c r) s))
   \<longleftrightarrow> satisfied owned r \<and> holds owned c"
proof (induction cx c r arbitrary: s rule: applyConditionToTrigger.induct)
  case (1 cx p ctype val cs r)
  have kids: "satisfied owned (fst (run_state (foldC (\<lambda>r c. applyConditionToTrigger cx c r) r ds) s))
      \<longleftrightarrow> satisfied owned r \<and> list_all (holds owned) ds"
    if "\<And>c r s. c \<in> set ds \<Longrightarrow> conjunctive c \<Longrightarrow> badges_known s (tested_badges c) \<Longrightarrow>
          satisfied owned (fst (run_state (applyConditionToTrigger cx c r) s))
          \<longleftrightarrow> satisfied owned r \<and> holds owned c"
      and "list_all conjunctive ds" and "badges_known s (concat (map tested_badges ds))" for ds r s
    using that
  proof (induction ds arbitrary: r s)
    case (Cons d ds)
    have "badges_known (snd (run_state (applyConditionToTrigger cx d r) s)) (concat (map tested_badges ds))"
      using Cons.prems(3) known_preserved [OF badges.conditions, of cx d r s]
      by (simp add: badges_known_def)
    moreover have "badges_known s (tested_badges d)"
      using Cons.prems(3) by (simp add: badges_known_def)
    ultimately show ?case
      using Cons.IH Cons.prems by auto
  qed simp
  consider "ctype = ''has_badge''" | "ctype = ''not_has_badge''" | "ctype = ''and''"
    | c where "ctype = ''not''" "cs = [c]" "badge_test c"
    using 1(3) by (auto split: list.splits)
  then show ?case
  proof cases
    case 1
    with \<open>badges_known s _\<close> show ?thesis
      by (simp add: badges_known_def addRequired_satisfied)
  next
    case 2
    with \<open>badges_known s _\<close> show ?thesis
      by (simp add: badges_known_def addRequired_satisfied)
  next
    case 3
    with "1.prems" kids [OF "1.IH"(1)] show ?thesis by (simp add: badges_known_def)
  next
    case (4 c)
    then show ?thesis
      using "1.prems"
      by (cases c) (auto simp: badge_test_def badges_known_def addRequired_satisfied)
  qed
qed

lemma known_badges_names:
  "badges_known s ns \<Longrightarrow> map bdg_Name (known_badges s ns) = ns"
  by (induction ns) (auto simp: known_badges_def badges_known_def map_filter_simps split: option.splits)

lemma mapC_requiredBadge:
  "map rqb_Name (fst (run_state (mapC (requiredBadge cx) bs) s)) = map bdg_Name bs"
  by (induction bs arbitrary: s) simp_all

definition guard_names :: "RequiredBadgesNode option \<Rightarrow> string list" where
  "guard_names rb = (case rb of None \<Rightarrow> [] | Some rb \<Rightarrow> rb_MustHave rb @ rb_MustNotHave rb)"

definition guard_holds :: "string set \<Rightarrow> RequiredBadgesNode option \<Rightarrow> bool" where
  "guard_holds owned rb \<longleftrightarrow>
     (case rb of
        None \<Rightarrow> True
      | Some rb \<Rightarrow> list_all (\<lambda>n. n \<in> owned) (rb_MustHave rb) \<and> list_all (\<lambda>n. n \<notin> owned) (rb_MustNotHave rb))"

lemma list_all_map: "list_all P (map f xs) = list_all (\<lambda>x. P (f x)) xs"
  by (induction xs) auto

lemma compileRequiredBadges_names:
  "badges_known s ns \<Longrightarrow> map rqb_Name (fst (run_state (compileRequiredBadges cx ns) s)) = ns"
  by (simp add: compileRequiredBadges_def mapC_requiredBadge known_badges_names)

lemma compileRequiredBadgesNode_satisfied:
  assumes "badges_known s (guard_names rb)"
  shows "satisfied owned (fst (run_state (compileRequiredBadgesNode cx rb) s)) \<longleftrightarrow> guard_holds owned rb"
proof (cases rb)
  case None
  then show ?thesis
    by (simp add: compileRequiredBadgesNode_def satisfied_def no_badges_def guard_holds_def)
next
  case (Some r)
  let ?s = "snd (run_state (compileRequiredBadges cx (rb_MustHave r)) s)"
  have k: "badges_known s (rb_MustHave r)" "badges_known ?s (rb_MustNotHave r)"
    using assms Some known_preserved [OF badges.requiredBadges(2), of cx "rb_MustHave r" s]
    by (simp_all add: guard_names_def badges_known_def)
  have eq: "list_all (\<lambda>b. P (rqb_Name b)) (fst (run_state (compileRequiredBadges cx ns) s')) \<longleftrightarrow> list_all P ns"
    if "badges_known s' ns" for P ns s'
    using compileRequiredBadges_names [OF that, of cx] by (simp add: list_all_map [symmetric])
  from eq [OF k(1), where P = "\<lambda>n. n \<in> owned"] eq [OF k(2), where P = "\<lambda>n. n \<notin> owned"] Some
  show ?thesis
    by (simp add: compileRequiredBadgesNode_def satisfied_def guard_holds_def)
qed

lemma conditions_satisfied:
  "list_all conjunctive cs \<Longrightarrow> badges_known s (concat (map tested_badges cs)) \<Longrightarrow>
   satisfied owned (fst (run_state (foldC (\<lambda>r c. applyConditionToTrigger cx c r) r cs) s))
   \<longleftrightarrow> satisfied owned r \<and> list_all (holds owned) cs"
proof (induction cs arbitrary: r s)
  case (Cons c cs)
  have "badges_known (snd (run_state (applyConditionToTrigger cx c r) s)) (concat (map tested_badges cs))"
    using Cons.prems(2) known_preserved [OF badges.conditions, of cx c r s]
    by (simp add: badges_known_def)
  moreover have "badges_known s (tested_badges c)"
    using Cons.prems(2) by (simp add: badges_known_def)
  ultimately show ?case using Cons by (auto simp: applyCondition_satisfied)
qed simp

lemma newTrigger_preserves: "preserves cs_badges (newTrigger cx t u v)"
  unfolding newTrigger_def by (intro preserves_intros)

lemma attachActions_guards [simp]:
  "trg_RequiredBadges (attachActions cx nodes act tr) = trg_RequiredBadges tr"
  by (simp add: attachActions_def split: option.splits)

text \<open>
  C24: The guards of a compiled trigger mean what the script says: a user satisfies the
  required and forbidden badges of the main trigger exactly when the node's required badges
  and all its conditions hold, for conditions built from badge tests, conjunction and the
  negation of a single test, in a state that has every badge they name.
\<close>

theorem compileTrigger_guards:
  assumes "list_all conjunctive (tr_Conditions node)"
    and "badges_known s (guard_names (tr_RequiredBadges node) @ concat (map tested_badges (tr_Conditions node)))"
  shows "satisfied owned (trg_RequiredBadges (hd (fst (run_state (compileTrigger cx scope node) s))))
    \<longleftrightarrow> guard_holds owned (tr_RequiredBadges node) \<and> list_all (holds owned) (tr_Conditions node)"
proof -
  obtain t u v where tuv: "mapTriggerType cx node = (t, u, v)" by (cases "mapTriggerType cx node") auto
  define s1 where "s1 = snd (run_state (newTrigger cx t u v) s)"
  define s2 where "s2 = snd (run_state (compileRequiredBadgesNode cx (tr_RequiredBadges node)) s1)"
  have k1: "badges_known s1 (guard_names (tr_RequiredBadges node))"
    using assms(2) known_preserved [OF newTrigger_preserves, of cx t u v s]
    by (simp add: s1_def badges_known_def)
  have k2: "badges_known s2 (concat (map tested_badges (tr_Conditions node)))"
    using assms(2) known_preserved [OF newTrigger_preserves, of cx t u v s]
      known_preserved [OF badges.requiredBadges(3), of cx "tr_RequiredBadges node" s1]
    by (simp add: s1_def s2_def badges_known_def)
  have "hd (fst (run_state (compileTrigger cx scope node) s)) = fst (run_state (compileMainTrigger cx scope node) s)"
    by (simp add: compileTrigger_def)
  then have "trg_RequiredBadges (hd (fst (run_state (compileTrigger cx scope node) s)))
    = fst (run_state (foldC (\<lambda>r c. applyConditionToTrigger cx c r)
        (fst (run_state (compileRequiredBadgesNode cx (tr_RequiredBadges node)) s1)) (tr_Conditions node)) s2)"
    by (simp add: compileMainTrigger_def tuv s1_def s2_def Let_def)
  then show ?thesis
    using conditions_satisfied [OF assms(1) k2] compileRequiredBadgesNode_satisfied [OF k1] by simp
qed

definition badges_ab :: CState where
  "badges_ab = snd (run_state (precreateBadges demo_context
     (newSymbolTable\<lparr>sy_BadgeNames := [(''a'', True), (''b'', True)]\<rparr>)) (NewCompiler 1 0 ''x''))"

definition guarded :: "ConditionNode list \<Rightarrow> TriggerNode" where
  "guarded cs = zero_TriggerNode\<lparr>tr_TriggerType := ''click'', tr_Conditions := cs\<rparr>"

definition badge_cond :: "string \<Rightarrow> string \<Rightarrow> ConditionNode" where
  "badge_cond t b = ConditionNode zero_Pos t b []"

definition guards_of :: "TriggerNode \<Rightarrow> RequiredBadges" where
  "guards_of tr = trg_RequiredBadges (hd (fst (run_state (compileTrigger demo_context None tr) badges_ab)))"

lemma compileTrigger_guards_witness:
  "satisfied {''a''} (guards_of (guarded [badge_cond ''has_badge'' ''a'', badge_cond ''not_has_badge'' ''b'']))"
  unfolding guards_of_def by (subst compileTrigger_guards) code_simp+

text \<open>
  Disjunction, the negation of a conjunction and tests of tags are not compiled to what
  they say: a user with one of two alternative badges fails the guard, a user with neither
  badge fails the guard \<open>not (a and b)\<close>, and a test for a tag leaves no guard at all.
\<close>

theorem compileTrigger_lost_guards:
  "(let either = ConditionNode zero_Pos ''or'' [] [badge_cond ''has_badge'' ''a'', badge_cond ''has_badge'' ''b''];
        both = ConditionNode zero_Pos ''and'' [] [badge_cond ''has_badge'' ''a'', badge_cond ''has_badge'' ''b''];
        not_both = ConditionNode zero_Pos ''not'' [] [both] in
    holds {''a''} either \<and> \<not> satisfied {''a''} (guards_of (guarded [either]))
    \<and> holds {} not_both \<and> \<not> satisfied {} (guards_of (guarded [not_both]))
    \<and> guards_of (guarded [badge_cond ''has_tag'' ''vip'']) = no_badges)"
  by code_simp

section \<open>Merging the actions of a trigger\<close>

lemma setBadgeTransaction_fields:
  "act_ActionName (fst (run_state (setBadgeTransaction cx bt a) s)) = act_ActionName a"
  "act_EndStory (fst (run_state (setBadgeTransaction cx bt a) s)) = act_EndStory a"
  "act_Unsubscribe (fst (run_state (setBadgeTransaction cx bt a) s)) = act_Unsubscribe a"
  "act_AdvanceToNextStoryline (fst (run_state (setBadgeTransaction cx bt a) s)) = act_AdvanceToNextStoryline a"
  "act_NextEnactmentId (fst (run_state (setBadgeTransaction cx bt a) s)) = act_NextEnactmentId a"
  "\<exists>t. act_BadgeTransaction (fst (run_state (setBadgeTransaction cx bt a) s)) = Some t"
  by (simp_all add: setBadgeTransaction_def compileBadgeTransaction_def)

lemma actionRest_fields:
  "act_ActionName (fst (run_state (compileActionRest cx an a) s)) = act_ActionName a"
  "act_EndStory (fst (run_state (compileActionRest cx an a) s)) = act_EndStory a"
  "act_Unsubscribe (fst (run_state (compileActionRest cx an a) s)) = act_Unsubscribe a"
  "act_AdvanceToNextStoryline (fst (run_state (compileActionRest cx an a) s)) = act_AdvanceToNextStoryline a"
  "act_NextEnactmentId (fst (run_state (compileActionRest cx an a) s)) = act_NextEnactmentId a"
  "act_BadgeTransaction (fst (run_state (compileActionRest cx an a) s)) = None
     \<longleftrightarrow> act_BadgeTransaction a = None \<and> ac_BadgeTransaction an = None"
  by (auto simp: compileActionRest_def Let_def setBadgeTransaction_fields split: option.splits)

definition advancing :: "string \<Rightarrow> bool" where
  "advancing t = List.member [''advance_to_next_storyline'', ''jump_to_storyline'', ''loop_to_storyline''] t"

lemma actionCase_flags:
  "act_EndStory (fst (run_state (compileActionCase cx sc an a) s)) \<longleftrightarrow> act_EndStory a \<or> ac_ActionType an = ''end_story''"
  "act_Unsubscribe (fst (run_state (compileActionCase cx sc an a) s)) \<longleftrightarrow> act_Unsubscribe a \<or> ac_ActionType an = ''unsubscribe''"
  "act_AdvanceToNextStoryline (fst (run_state (compileActionCase cx sc an a) s))
     \<longleftrightarrow> act_AdvanceToNextStoryline a \<or> advancing (ac_ActionType an)"
  "act_BadgeTransaction (fst (run_state (compileActionCase cx sc an a) s)) = None
     \<longleftrightarrow> act_BadgeTransaction a = None
       \<and> (ac_BadgeTransaction an = None \<or> \<not> List.member [''give_badge'', ''remove_badge''] (ac_ActionType an))"
  by (simp_all add: compileActionCase_def Let_def advancing_def panic_def addActionName_def
      setBadgeTransaction_fields split: option.split prod.split)

lemma actions_flags:
  defines "end \<equiv> \<lambda>a. (act_EndStory a, act_Unsubscribe a, act_AdvanceToNextStoryline a, act_BadgeTransaction a = None)"
  shows "end (fst (run_state (foldC (compileAction cx sc) a ans) s))
    = (act_EndStory a \<or> list_ex (\<lambda>an. ac_ActionType an = ''end_story'') ans,
       act_Unsubscribe a \<or> list_ex (\<lambda>an. ac_ActionType an = ''unsubscribe'') ans,
       act_AdvanceToNextStoryline a \<or> list_ex (\<lambda>an. advancing (ac_ActionType an)) ans,
       act_BadgeTransaction a = None \<and> list_all (\<lambda>an. ac_BadgeTransaction an = None) ans)"
  unfolding end_def
  by (induction ans arbitrary: a s)
    (auto simp: compileAction_def actionRest_fields actionCase_flags)

lemma newAction_zero:
  "act_EndStory (fst (run_state (newAction cx) s)) = False"
  "act_Unsubscribe (fst (run_state (newAction cx) s)) = False"
  "act_AdvanceToNextStoryline (fst (run_state (newAction cx) s)) = False"
  "act_BadgeTransaction (fst (run_state (newAction cx) s)) = None"
  "act_ActionName (fst (run_state (newAction cx) s)) = []"
  "act_NextEnactmentId (fst (run_state (newAction cx) s)) = None"
  by (simp_all add: newAction_def)

text \<open>
  The single action that a trigger's actions are merged into ends the story, unsubscribes
  or advances exactly when one of them does, wherever it stands in the list, and it has a
  badge transaction exactly when one of them has.
\<close>

theorem compileActions_flags:
  assumes "actions \<noteq> []"
  shows "\<exists>a. fst (run_state (compileActions cx scope actions) s) = Some a
    \<and> (act_EndStory a \<longleftrightarrow> list_ex (\<lambda>an. ac_ActionType an = ''end_story'') actions)
    \<and> (act_Unsubscribe a \<longleftrightarrow> list_ex (\<lambda>an. ac_ActionType an = ''unsubscribe'') actions)
    \<and> (act_AdvanceToNextStoryline a \<longleftrightarrow> list_ex (\<lambda>an. advancing (ac_ActionType an)) actions)
    \<and> (act_BadgeTransaction a = None \<longleftrightarrow> list_all (\<lambda>an. ac_BadgeTransaction an = None) actions)"
  using assms actions_flags [of cx scope "fst (run_state (newAction cx) s)" actions "snd (run_state (newAction cx) s)"]
  by (simp add: compileActions_def newAction_zero)

definition simple_action :: "string \<Rightarrow> string \<Rightarrow> ActionNode" where
  "simple_action t target =
     ActionNode zero_Pos t target None None None False False False False False None []"

definition badge_action :: "string \<Rightarrow> ActionNode" where
  "badge_action b =
     ActionNode zero_Pos ''give_badge'' [] None None
       (Some \<lparr>bt_Pos = zero_Pos, bt_GiveBadges = [b], bt_RemoveBadges = []\<rparr>)
       False False False False False None []"

lemma compileActions_flags_witness:
  "\<exists>a. fst (run_state (compileActions demo_context None
          [badge_action ''a'', simple_action ''end_story'' [], simple_action ''next_scene'' []]) badges_ab) = Some a
    \<and> act_EndStory a \<and> \<not> act_Unsubscribe a"
  using compileActions_flags
      [of "[badge_action ''a'', simple_action ''end_story'' [], simple_action ''next_scene'' []]"
        demo_context None badges_ab]
  by (auto simp: simple_action_def badge_action_def)

text \<open>
  What the merge loses: of two badges given one after the other only the second one
  remains; a jump to a later enactment followed by an action that sets the name is not
  linked any more, while the jump alone is; and a loop to a later enactment has no target.
\<close>

theorem compileActions_lost:
  "(let acts = (\<lambda>ans. the (fst (run_state (compileActions demo_context (Some (''S'', ''L'')) ans) badges_ab)));
        link = resolveEnactmentRef demo_context ''S'' ''L'' [(''S:L:E'', Oid 7)];
        jump = simple_action ''jump_to_enactment'' ''E'' in
    map_option (\<lambda>t. map bdg_Name (btx_GiveBadges t))
        (act_BadgeTransaction (acts [badge_action ''a'', badge_action ''b''])) = Some [''b'']
    \<and> map_option ci_Id (act_NextEnactmentId (link (acts [jump]))) = Some (Oid 7)
    \<and> act_NextEnactmentId (link (acts [jump, simple_action ''mark_complete'' []])) = None
    \<and> act_NextEnactmentId (link (acts [simple_action ''loop_to_enactment'' ''E''])) = None)"
  by code_simp

end
