(* ===== verification/Linking.thy ===== *)
theory Linking
  imports CompilerProps
begin

text \<open>
  Jumps between the enactments of a storyline (\<open>compileStoryline\<close> and
  \<open>resolveEnactmentRef\<close> of \<open>src/scripting/compiler.go\<close>): whether the target comes
  earlier or later, the compiled jump points at it.
\<close>

section \<open>Runs of a loop, element by element\<close>

lemma length_mapC [simp]: "length (fst (run_state (mapC f xs) s)) = length xs"
  by (induction xs arbitrary: s) simp_all

lemma mapC_nth:
  assumes "\<And>x. preserves g (f x)" and "j < length xs"
  shows "\<exists>s'. g s' = g s \<and> fst (run_state (mapC f xs) s) ! j = fst (run_state (f (xs ! j)) s')"
  using assms(2)
proof (induction xs arbitrary: j s)
  case (Cons x xs)
  show ?case
  proof (cases j)
    case 0
    then show ?thesis by auto
  next
    case (Suc i)
    with Cons.IH [of i "snd (run_state (f x) s)"] Cons.prems assms(1) [of x] show ?thesis
      by (auto simp: preserves_def)
  qed
qed simp

section \<open>One jump\<close>

definition jump_node :: "ActionNode \<Rightarrow> string \<Rightarrow> bool" where
  "jump_node an target \<longleftrightarrow>
     List.member [''jump_to_enactment'', ''next_enactment''] (ac_ActionType an) \<and> ac_Target an = target"

text \<open>How a jump looks before the linking pass.\<close>

definition jump_compiled :: "Context \<Rightarrow> ObjectId option \<Rightarrow> string \<Rightarrow> Action \<Rightarrow> bool" where
  "jump_compiled cx found target a \<longleftrightarrow>
     (case found of
        None \<Rightarrow> act_ActionName a = jump_prefix @ target
      | Some i \<Rightarrow> act_ActionName a = [] \<and> act_NextEnactmentId a = Some (collId cx ''EnactmentCollection'' i))"

lemma newAction_enactmentMap: "cs_enactmentMap (snd (run_state (newAction cx) s)) = cs_enactmentMap s"
  by (simp add: newAction_def newObjectId_def generatePublicID_def Let_def)

interpretation enactments: id_relation "\<lambda>s s'. cs_enactmentMap s' = cs_enactmentMap s"
  by unfold_locales simp_all

text \<open>Actions that leave the name and the target of the merged action alone.\<close>

definition leaves_jump :: "ActionNode \<Rightarrow> bool" where
  "leaves_jump an \<longleftrightarrow> List.member [''give_badge'', ''remove_badge'', ''wait'', ''send_immediate'', ''unsubscribe'',
     ''end_story'', ''advance_to_next_storyline''] (ac_ActionType an)"

lemma compileAction_leaves:
  "leaves_jump an \<Longrightarrow> act_ActionName (fst (run_state (compileAction cx sc a an) s)) = act_ActionName a
    \<and> act_NextEnactmentId (fst (run_state (compileAction cx sc a an) s)) = act_NextEnactmentId a"
  by (auto simp: compileAction_def actionRest_fields compileActionCase_def leaves_jump_def Let_def
      setBadgeTransaction_fields split: option.splits)

lemma compileAction_map:
  "cs_enactmentMap (snd (run_state (compileAction cx (Some sc) a an) s)) = cs_enactmentMap s"
  using enactments.actionCase [of cx sc an a] enactments.actionRest [of cx an]
  by (simp add: compileAction_def keeps_def split_beta)

lemma foldC_append:
  "run_state (foldC f b (xs @ ys)) s
   = run_state (foldC f (fst (run_state (foldC f b xs) s)) ys) (snd (run_state (foldC f b xs) s))"
  by (induction xs arbitrary: b s) simp_all

lemma fold_leaves:
  "list_all leaves_jump ans \<Longrightarrow>
   act_ActionName (fst (run_state (foldC (compileAction cx (Some sc)) a ans) s)) = act_ActionName a
   \<and> act_NextEnactmentId (fst (run_state (foldC (compileAction cx (Some sc)) a ans) s)) = act_NextEnactmentId a
   \<and> cs_enactmentMap (snd (run_state (foldC (compileAction cx (Some sc)) a ans) s)) = cs_enactmentMap s"
  by (induction ans arbitrary: a s) (simp_all add: compileAction_leaves compileAction_map)

lemma compileAction_jump:
  assumes "jump_node an target" and "act_ActionName a = []"
  shows "jump_compiled cx (map_of (cs_enactmentMap s) (enactment_key story sl target)) target
    (fst (run_state (compileAction cx (Some (story, sl)) a an) s))"
  using assms
  by (auto simp: compileAction_def compileActionCase_def jump_node_def Let_def jump_compiled_def actionRest_fields
      split: option.splits)

lemma compileActions_jump:
  assumes "jump_node an target" and "list_all leaves_jump (as @ bs)"
  shows "\<exists>a. fst (run_state (compileActions cx (Some (story, sl)) (as @ an # bs)) s) = Some a
    \<and> jump_compiled cx (map_of (cs_enactmentMap s) (enactment_key story sl target)) target a"
proof -
  let ?sc = "Some (story, sl)" and ?new = "run_state (newAction cx) s"
  let ?before = "run_state (foldC (compileAction cx ?sc) (fst ?new) as) (snd ?new)"
  let ?jump = "run_state (compileAction cx ?sc (fst ?before) an) (snd ?before)"
  let ?after = "run_state (foldC (compileAction cx ?sc) (fst ?jump) bs) (snd ?jump)"
  have before: "act_ActionName (fst ?before) = []" "cs_enactmentMap (snd ?before) = cs_enactmentMap s"
    using assms(2) fold_leaves [of as cx "(story, sl)" "fst ?new" "snd ?new"] by (simp_all add: newAction_zero newAction_enactmentMap)
  have "jump_compiled cx (map_of (cs_enactmentMap s) (enactment_key story sl target)) target (fst ?jump)"
    using compileAction_jump [OF assms(1) before(1), of cx "snd ?before" story sl] by (simp only: before(2))
  then have "jump_compiled cx (map_of (cs_enactmentMap s) (enactment_key story sl target)) target (fst ?after)"
    using assms(2) fold_leaves [of bs cx "(story, sl)" "fst ?jump" "snd ?jump"]
    by (simp add: jump_compiled_def split: option.splits)
  then show ?thesis by (simp add: compileActions_def foldC_append)
qed

lemma applyWithin_jump [simp]:
  "jump_compiled cx found target (applyWithin cx w a) = jump_compiled cx found target a"
  by (auto simp: applyWithin_def jump_compiled_def split: option.splits)

lemma attachActions_DoAction: "trg_DoAction (attachActions cx nodes (Some a) tr) = Some a"
  by (simp add: attachActions_def)

lemma attachActions_type: "trg_TriggerType (attachActions cx nodes act tr) = trg_TriggerType tr"
  by (simp add: attachActions_def split: option.split)

lemma newTrigger_type: "trg_TriggerType (fst (run_state (newTrigger cx t u v) s)) = t"
  by (simp add: newTrigger_def)

lemma preserves_run: "preserves g m \<Longrightarrow> g (snd (run_state m s)) = g s"
  by (simp add: preserves_def)

text \<open>The main trigger attaches the merged actions, compiled in a state with the same enactments.\<close>

lemma compileMainTrigger_run:
  "\<exists>s' tr0. cs_enactmentMap s' = cs_enactmentMap s \<and> trg_TriggerType tr0 = fst (mapTriggerType cx node)
    \<and> fst (run_state (compileMainTrigger cx sc node) s)
      = attachActions cx (tr_Actions node)
          (map_option (applyWithin cx (tr_Within node)) (fst (run_state (compileActions cx sc (tr_Actions node)) s'))) tr0"
proof -
  obtain t u v where tuv: "mapTriggerType cx node = (t, u, v)" by (cases "mapTriggerType cx node") auto
  define s1 where "s1 = snd (run_state (newTrigger cx t u v) s)"
  define m2 where "m2 = compileRequiredBadgesNode cx (tr_RequiredBadges node)"
  define s2 where "s2 = snd (run_state m2 s1)"
  define m3 where "m3 = foldC (\<lambda>r c. applyConditionToTrigger cx c r) (fst (run_state m2 s1)) (tr_Conditions node)"
  define s3 where "s3 = snd (run_state m3 s2)"
  have "preserves cs_enactmentMap (newTrigger cx t u v)" "preserves cs_enactmentMap m2"
    "preserves cs_enactmentMap m3"
    unfolding newTrigger_def m2_def m3_def by (intro preserves_intros)+
  then have "cs_enactmentMap s3 = cs_enactmentMap s"
    by (simp add: s1_def s2_def s3_def preserves_run)
  moreover have "\<exists>tr0. trg_TriggerType tr0 = t \<and> fst (run_state (compileMainTrigger cx sc node) s)
      = attachActions cx (tr_Actions node)
          (map_option (applyWithin cx (tr_Within node)) (fst (run_state (compileActions cx sc (tr_Actions node)) s3))) tr0"
    by (rule exI [of _ "(fst (run_state (newTrigger cx t u v) s))\<lparr>trg_MarkComplete := tr_MarkComplete node,
          trg_MarkFailed := tr_MarkFailed node,
          trg_Priority := (case tr_Priority node of None \<Rightarrow> 0 | Some p \<Rightarrow> p),
          trg_PersistScope := tr_PersistScope node, trg_RequiredBadges := fst (run_state m3 s2),
          trg_WatchBlockID := (if tr_TriggerType node = ''watch'' \<or> tr_TriggerType node = ''progress'' then tr_WatchBlockID node else []),
          trg_WatchOperator := (if tr_TriggerType node = ''watch'' \<or> tr_TriggerType node = ''progress'' then tr_WatchOperator node else []),
          trg_WatchPercent := (if tr_TriggerType node = ''watch'' \<or> tr_TriggerType node = ''progress'' then tr_WatchPercent node else 0)\<rparr>"])
      (simp add: compileMainTrigger_def tuv Let_def newTrigger_type s1_def s2_def s3_def m2_def m3_def)
  ultimately show ?thesis by (auto simp: tuv)
qed

lemma compileTrigger_main:
  "fst (run_state (compileMainTrigger cx sc node) s) \<in> set (fst (run_state (compileTrigger cx sc node) s))"
  by (simp add: compileTrigger_def)

text \<open>A trigger with a jump, among actions that leave it alone.\<close>

definition jump_trigger :: "TriggerNode \<Rightarrow> string \<Rightarrow> bool" where
  "jump_trigger node target \<longleftrightarrow>
     (\<exists>as an bs. tr_Actions node = as @ an # bs \<and> jump_node an target \<and> list_all leaves_jump (as @ bs))"

lemma compileTrigger_jump:
  assumes "jump_trigger node target"
  shows "\<exists>tr a. tr \<in> set (fst (run_state (compileTrigger cx (Some (story, sl)) node) s))
    \<and> trg_DoAction tr = Some a \<and> trg_TriggerType tr = fst (mapTriggerType cx node)
    \<and> jump_compiled cx (map_of (cs_enactmentMap s) (enactment_key story sl target)) target a"
proof -
  let ?sc = "Some (story, sl)" and ?ans = "tr_Actions node"
  obtain s' tr0 where main: "cs_enactmentMap s' = cs_enactmentMap s" "trg_TriggerType tr0 = fst (mapTriggerType cx node)"
    "fst (run_state (compileMainTrigger cx ?sc node) s)
      = attachActions cx ?ans (map_option (applyWithin cx (tr_Within node)) (fst (run_state (compileActions cx ?sc ?ans) s'))) tr0"
    using compileMainTrigger_run [of s cx node ?sc] by auto
  obtain a where a: "fst (run_state (compileActions cx ?sc ?ans) s') = Some a"
    "jump_compiled cx (map_of (cs_enactmentMap s') (enactment_key story sl target)) target a"
    using assms compileActions_jump [of _ target _ _ cx story sl s'] by (fastforce simp: jump_trigger_def)
  then show ?thesis
    using compileTrigger_main [of cx ?sc node s] main
    by (intro exI [of _ "attachActions cx ?ans (Some (applyWithin cx (tr_Within node) a)) tr0"]
        exI [of _ "applyWithin cx (tr_Within node) a"])
      (simp add: attachActions_DoAction attachActions_type)
qed

section \<open>The events of an enactment\<close>

definition event_triggers :: "Trigger list gomap \<Rightarrow> Trigger list" where
  "event_triggers m = concat (map snd m)"

lemma update_triggers:
  "gomap_ok m \<Longrightarrow>
   set (event_triggers (gomap_put t ((case map_of m t of None \<Rightarrow> [] | Some trs \<Rightarrow> trs) @ [tr]) m))
   = insert tr (set (event_triggers m))"
proof (induction m)
  case (Cons kv m)
  show ?case
  proof (cases "fst kv = t")
    case True
    with Cons.prems show ?thesis by (cases kv) (auto simp: event_triggers_def)
  next
    case False
    with Cons show ?thesis by (cases kv) (auto simp: event_triggers_def split: option.splits)
  qed
qed (simp add: event_triggers_def)

lemma addEvent_triggers:
  "gomap_ok m \<Longrightarrow> set (event_triggers (foldl addEvent m trs)) = set (event_triggers m) \<union> set trs"
proof (induction trs arbitrary: m)
  case (Cons tr trs)
  have "gomap_ok (addEvent m tr)"
    unfolding addEvent_def using Cons.prems by (rule distinct_update)
  with Cons update_triggers [OF Cons.prems, of "trg_TriggerType tr" tr] show ?case
    by (simp add: addEvent_def)
qed simp

definition ent_triggers :: "Enactment \<Rightarrow> Trigger list" where
  "ent_triggers en = event_triggers (ent_OnEvent en)"

lemma linkEnactment_triggers:
  "ent_triggers (linkEnactment f en) = map (\<lambda>tr. tr\<lparr>trg_DoAction := map_option f (trg_DoAction tr)\<rparr>) (ent_triggers en)"
  by (simp add: ent_triggers_def event_triggers_def linkEnactment_def map_concat comp_def split_beta)

lemma linkEnactment_Id [simp]: "ent_Id (linkEnactment f en) = ent_Id en"
  by (simp add: linkEnactment_def)

lemma compileEnactment_preserves: "preserves cs_enactmentMap (compileEnactment cx story sl i en)"
  unfolding compileEnactment_def compileSceneAt_def
  by (intro preserves_intros preserves_modifies) simp

lemma compileEnactment_jump:
  assumes "node \<in> set (en_Triggers en)" and "jump_trigger node target"
  shows "\<exists>tr a. tr \<in> set (ent_triggers (fst (run_state (compileEnactment cx story sl i en) s)))
    \<and> trg_DoAction tr = Some a \<and> trg_TriggerType tr = fst (mapTriggerType cx node)
    \<and> jump_compiled cx (map_of (cs_enactmentMap s) (enactment_key story sl target)) target a"
proof -
  define s1 where "s1 = snd (run_state (do { _ \<leftarrow> newObjectId; _ \<leftarrow> generatePublicID ''enactment'';
      mapC (compileSceneAt cx (enactment_key story sl (en_Name en))) (en_Scenes en) }) s)"
  have "preserves cs_enactmentMap (do { _ \<leftarrow> newObjectId; _ \<leftarrow> generatePublicID ''enactment'';
      mapC (compileSceneAt cx (enactment_key story sl (en_Name en))) (en_Scenes en) })"
    unfolding compileSceneAt_def by (intro preserves_intros preserves_modifies) simp
  then have s1: "cs_enactmentMap s1 = cs_enactmentMap s" unfolding s1_def by (rule preserves_run)
  obtain j where j: "j < length (en_Triggers en)" "en_Triggers en ! j = node"
    using assms(1) by (auto simp: in_set_conv_nth)
  let ?trs = "fst (run_state (mapC (compileTrigger cx (Some (story, sl))) (en_Triggers en)) s1)"
  obtain s' where s': "cs_enactmentMap s' = cs_enactmentMap s1"
    "?trs ! j = fst (run_state (compileTrigger cx (Some (story, sl)) node) s')"
    using mapC_nth [where f = "compileTrigger cx (Some (story, sl))" and s = s1,
        OF enactments.triggers j(1)] j(2) by auto
  obtain tr a where tr: "tr \<in> set (?trs ! j)" "trg_DoAction tr = Some a"
    "trg_TriggerType tr = fst (mapTriggerType cx node)"
    "jump_compiled cx (map_of (cs_enactmentMap s') (enactment_key story sl target)) target a"
    using compileTrigger_jump [OF assms(2), of cx story sl s'] s'(2) by auto
  have "tr \<in> set (concat ?trs)"
    using tr(1) j(1) by (auto simp: in_set_conv_nth intro!: bexI [of _ "?trs ! j"])
  moreover have "set (ent_triggers (fst (run_state (compileEnactment cx story sl i en) s))) = set (concat ?trs)"
  proof -
    have "ent_triggers (fst (run_state (compileEnactment cx story sl i en) s))
        = event_triggers (foldl addEvent [] (concat ?trs))"
      by (simp add: compileEnactment_def ent_triggers_def s1_def)
    then show ?thesis using addEvent_triggers [of "[]" "concat ?trs"] by (simp add: event_triggers_def)
  qed
  ultimately show ?thesis using tr s' s1 by auto
qed

section \<open>The enactments of a storyline\<close>

lemma enactment_key_inject [simp]: "enactment_key story sl a = enactment_key story sl b \<longleftrightarrow> a = b"
  by (simp add: enactment_key_def child_key_def)

lemma compileEnactmentAt_map:
  "cs_enactmentMap (snd (run_state (compileEnactmentAt cx story sl i en) s))
   = gomap_put (enactment_key story sl (en_Name en))
       (ent_Id (fst (run_state (compileEnactment cx story sl i en) s))) (cs_enactmentMap s)"
  using preserves_run [OF compileEnactment_preserves, of cx story sl i en s]
  by (simp add: compileEnactmentAt_def)

definition compileActs ::
  "Context \<Rightarrow> string \<Rightarrow> string \<Rightarrow> (nat \<times> EnactmentNode) list \<Rightarrow> Enactment list compiler" where
  "compileActs cx story sl = mapC (\<lambda>(i, x). compileEnactmentAt cx story sl (int i + 1) x)"

lemma compileActs_other:
  "k \<notin> set (map (\<lambda>p. enactment_key story sl (en_Name (snd p))) ps) \<Longrightarrow>
   map_of (cs_enactmentMap (snd (run_state (compileActs cx story sl ps) s))) k
   = map_of (cs_enactmentMap s) k"
  by (induction ps arbitrary: s)
    (auto simp: compileActs_def compileEnactmentAt_map update_conv split: prod.split)

lemma compileActs_extends:
  assumes "\<And>p. p \<in> set ps \<Longrightarrow> map_of (cs_enactmentMap s) (enactment_key story sl (en_Name (snd p))) = None"
  shows "map_of (cs_enactmentMap s) \<subseteq>\<^sub>m map_of (cs_enactmentMap (snd (run_state (compileActs cx story sl ps) s)))"
  unfolding map_le_def
proof (intro ballI)
  fix k
  assume "k \<in> dom (map_of (cs_enactmentMap s))"
  with assms have "k \<notin> set (map (\<lambda>p. enactment_key story sl (en_Name (snd p))) ps)" by force
  then show "map_of (cs_enactmentMap s) k
      = map_of (cs_enactmentMap (snd (run_state (compileActs cx story sl ps) s))) k"
    by (simp add: compileActs_other)
qed

definition act_linked ::
  "Context \<Rightarrow> string \<Rightarrow> string \<Rightarrow> ObjectId gomap \<Rightarrow> EnactmentNode \<Rightarrow> Enactment \<Rightarrow> bool" where
  "act_linked cx story sl final node en \<longleftrightarrow>
     map_of final (enactment_key story sl (en_Name node)) = Some (ent_Id en)
     \<and> (\<exists>i s. en = fst (run_state (compileEnactment cx story sl i node) s)
              \<and> map_of (cs_enactmentMap s) \<subseteq>\<^sub>m map_of final)"

lemma compileActs_linked:
  assumes "distinct (map (en_Name \<circ> snd) ps)"
    and "\<And>p. p \<in> set ps \<Longrightarrow> map_of (cs_enactmentMap s) (enactment_key story sl (en_Name (snd p))) = None"
  shows "list_all2 (act_linked cx story sl (cs_enactmentMap (snd (run_state (compileActs cx story sl ps) s))))
    (map snd ps) (fst (run_state (compileActs cx story sl ps) s))"
  using assms
proof (induction ps arbitrary: s)
  case Nil
  show ?case by (simp add: compileActs_def)
next
  case (Cons p ps)
  obtain i en where p: "p = (i, en)" by (cases p)
  let ?e = "fst (run_state (compileEnactment cx story sl (int i + 1) en) s)"
  let ?s = "snd (run_state (compileEnactmentAt cx story sl (int i + 1) en) s)"
  let ?final = "cs_enactmentMap (snd (run_state (compileActs cx story sl ps) ?s))"
  have run: "run_state (compileActs cx story sl (p # ps)) s
      = (?e # fst (run_state (compileActs cx story sl ps) ?s), snd (run_state (compileActs cx story sl ps) ?s))"
    by (simp add: compileActs_def compileEnactmentAt_def p)
  have "enactment_key story sl (en_Name en) \<notin> set (map (\<lambda>p. enactment_key story sl (en_Name (snd p))) ps)"
    using Cons.prems(1) p by force
  then have "map_of ?final (enactment_key story sl (en_Name en)) = Some (ent_Id ?e)"
    by (simp add: compileActs_other compileEnactmentAt_map update_conv)
  moreover have "map_of (cs_enactmentMap s) \<subseteq>\<^sub>m map_of ?final"
    using compileActs_extends [of "p # ps" s, OF Cons.prems(2), of cx] run by simp
  ultimately have "act_linked cx story sl ?final en ?e" by (auto simp: act_linked_def)
  moreover have "list_all2 (act_linked cx story sl ?final) (map snd ps) (fst (run_state (compileActs cx story sl ps) ?s))"
    using Cons.prems p by (intro Cons.IH) (force simp: compileEnactmentAt_map update_conv)+
  ultimately show ?case by (simp add: run [unfolded p] p)
qed

section \<open>The linking pass\<close>

lemma jump_prefix_drop [simp]: "drop (length jump_prefix) (jump_prefix @ t) = t"
  by simp

lemma resolve_jump:
  assumes "jump_compiled cx found target a"
    and "found = None \<or> found = map_of final (enactment_key story sl target)"
    and "map_of final (enactment_key story sl target) = Some i"
  shows "act_NextEnactmentId (resolveEnactmentRef cx story sl final a) = Some (collId cx ''EnactmentCollection'' i)
    \<and> act_ActionName (resolveEnactmentRef cx story sl final a) = []"
  using assms by (auto simp: jump_compiled_def resolveEnactmentRef_def Let_def jump_prefix_def)

lemma trigger_after:
  "trg_DoAction (tr\<lparr>trg_DoAction := x\<rparr>) = x"
  "trg_TriggerType (tr\<lparr>trg_DoAction := x\<rparr>) = trg_TriggerType tr"
  by simp_all

lemma linkEnactments_jump:
  assumes linked: "list_all2 (act_linked cx story sl final) nodes acts"
    and ij: "i < length nodes" "j < length nodes"
    and node: "node \<in> set (en_Triggers (nodes ! i))" "jump_trigger node (en_Name (nodes ! j))"
  shows "\<exists>tr a. tr \<in> set (ent_triggers (linkEnactments cx story sl final nodes acts ! i))
    \<and> trg_DoAction tr = Some a \<and> trg_TriggerType tr = fst (mapTriggerType cx node)
    \<and> act_NextEnactmentId a = Some (collId cx ''EnactmentCollection'' (ent_Id (acts ! j)))
    \<and> act_ActionName a = []"
proof -
  have len: "length acts = length nodes" using linked by (simp add: list_all2_lengthD)
  have act: "act_linked cx story sl final (nodes ! k) (acts ! k)" if "k < length nodes" for k
    using linked that by (simp add: list_all2_conv_all_nth)
  obtain n s where s: "acts ! i = fst (run_state (compileEnactment cx story sl n (nodes ! i)) s)"
    "map_of (cs_enactmentMap s) \<subseteq>\<^sub>m map_of final"
    using act [OF ij(1)] by (auto simp: act_linked_def)
  let ?key = "enactment_key story sl (en_Name (nodes ! j))"
  obtain tr a where tr: "tr \<in> set (ent_triggers (acts ! i))" "trg_DoAction tr = Some a"
    "trg_TriggerType tr = fst (mapTriggerType cx node)"
    "jump_compiled cx (map_of (cs_enactmentMap s) ?key) (en_Name (nodes ! j)) a"
    using compileEnactment_jump [OF node, of cx story sl n s] s(1) by auto
  have "map_of (cs_enactmentMap s) ?key = None \<or> map_of (cs_enactmentMap s) ?key = map_of final ?key"
    using s(2) by (auto simp: map_le_def)
  moreover have "map_of final ?key = Some (ent_Id (acts ! j))"
    using act [OF ij(2)] by (simp add: act_linked_def)
  ultimately have a: "act_NextEnactmentId (resolveEnactmentRef cx story sl final a)
      = Some (collId cx ''EnactmentCollection'' (ent_Id (acts ! j)))"
    "act_ActionName (resolveEnactmentRef cx story sl final a) = []"
    using resolve_jump [OF tr(4)] by simp_all
  have "ent_Id (acts ! i) \<in> set (List.map_filter (\<lambda>en. map_of final (enactment_key story sl (en_Name en))) nodes)"
    using act [OF ij(1)] ij(1) by (force simp: act_linked_def List.map_filter_def)
  then have "linkEnactments cx story sl final nodes acts ! i
      = linkEnactment (resolveEnactmentRef cx story sl final) (acts ! i)"
    using ij(1) len by (simp add: linkEnactments_def)
  then have "tr\<lparr>trg_DoAction := Some (resolveEnactmentRef cx story sl final a)\<rparr>
      \<in> set (ent_triggers (linkEnactments cx story sl final nodes acts ! i))"
    using tr(1,2) by (auto simp: linkEnactment_triggers intro!: image_eqI [of _ _ tr])
  with tr(3) a show ?thesis by (metis trigger_after)
qed

lemma linkEnactments_Id: "i < length acts \<Longrightarrow> ent_Id (linkEnactments cx story sl final nodes acts ! i) = ent_Id (acts ! i)"
  by (simp add: linkEnactments_def)

text \<open>
  C16: A jump between the enactments of a storyline is linked, whether its target comes earlier
  or later: the compiled trigger's action leads to the compiled enactment of that name, and
  no textual reference is left. Names must be distinct within the storyline, the keys new, and
  the other actions of the trigger, before and after the jump, of a kind that leaves the jump alone: badges,
  waits, immediate sending, unsubscribing, and the ends of storyline and story.
\<close>

theorem compileStoryline_jump:
  assumes "distinct (map en_Name (sl_Enactments node))"
    and "list_all (\<lambda>en. map_of (cs_enactmentMap s) (enactment_key story (sl_Name node) (en_Name en)) = None)
           (sl_Enactments node)"
    and "i < length (sl_Enactments node)" and "j < length (sl_Enactments node)"
    and "trigger \<in> set (en_Triggers (sl_Enactments node ! i))" and "tr_Actions trigger = before @ an # after"
    and "jump_node an (en_Name (sl_Enactments node ! j))" and "list_all leaves_jump (before @ after)"
  shows "let acts = stl_Acts (fst (run_state (compileStoryline cx story k node) s)) in
    \<exists>tr a. tr \<in> set (ent_triggers (acts ! i))
      \<and> trg_DoAction tr = Some a \<and> trg_TriggerType tr = fst (mapTriggerType cx trigger)
      \<and> act_NextEnactmentId a = Some (collId cx ''EnactmentCollection'' (ent_Id (acts ! j)))
      \<and> act_ActionName a = []"
proof -
  let ?nodes = "sl_Enactments node"
  let ?ps = "zip [0..<length ?nodes] ?nodes"
  let ?before = "do { oid \<leftarrow> newObjectId; pid \<leftarrow> generatePublicID ''storyline'';
     rb \<leftarrow> compileRequiredBadgesNode cx (sl_RequiredBadges node);
     begin_bt \<leftarrow> compileLifecycle cx (map_option lb_BadgeTransaction (sl_OnBegin node));
     complete \<leftarrow> compileStorylineEnd cx
       (map_option (\<lambda>c. (slc_BadgeTransaction c, slc_ConditionalRoutes c)) (sl_OnComplete node));
     compileStorylineEnd cx
       (map_option (\<lambda>c. (slf_BadgeTransaction c, slf_ConditionalRoutes c)) (sl_OnFail node)) }"
  define s1 where "s1 = snd (run_state ?before s)"
  have "preserves cs_enactmentMap ?before" by (intro preserves_intros)
  then have s1: "cs_enactmentMap s1 = cs_enactmentMap s" unfolding s1_def by (rule preserves_run)
  let ?run = "run_state (compileActs cx story (sl_Name node) ?ps) s1"
  have nodes: "map snd ?ps = ?nodes" by simp
  have "list_all2 (act_linked cx story (sl_Name node) (cs_enactmentMap (snd ?run))) (map snd ?ps) (fst ?run)"
  proof (rule compileActs_linked)
    show "distinct (map (en_Name \<circ> snd) ?ps)"
      using assms(1) nodes by (metis map_map)
    show "map_of (cs_enactmentMap s1) (enactment_key story (sl_Name node) (en_Name (snd p))) = None"
      if "p \<in> set ?ps" for p
    proof -
      have "snd p \<in> set ?nodes" using that nodes by (metis image_eqI list.set_map)
      with assms(2) show ?thesis by (auto simp: s1 list_all_iff)
    qed
  qed
  then have linked: "list_all2 (act_linked cx story (sl_Name node) (cs_enactmentMap (snd ?run))) ?nodes (fst ?run)"
    by (simp only: nodes)
  have acts: "stl_Acts (fst (run_state (compileStoryline cx story k node) s))
      = linkEnactments cx story (sl_Name node) (cs_enactmentMap (snd ?run)) ?nodes (fst ?run)"
    by (simp add: compileStoryline_def numberedC_def compileActs_def s1_def)
  have "j < length (fst ?run)" using assms(4) list_all2_lengthD [OF linked] by simp
  moreover have "jump_trigger trigger (en_Name (?nodes ! j))"
    using assms(6-8) unfolding jump_trigger_def by blast
  ultimately show ?thesis
    using linkEnactments_jump [OF linked assms(3-5)]
    by (simp only: acts Let_def linkEnactments_Id)
qed

definition jump_act :: "string \<Rightarrow> TriggerNode list \<Rightarrow> EnactmentNode" where
  "jump_act name trs = zero_EnactmentNode\<lparr>en_Name := name, en_Triggers := trs\<rparr>"

definition jump_line :: StorylineNode where
  "jump_line = set_sl_Enactments
     [jump_act ''A'' [zero_TriggerNode\<lparr>tr_TriggerType := ''click'',
        tr_Actions := [badge_action ''b'', simple_action ''jump_to_enactment'' ''B'', simple_action ''unsubscribe'' []]\<rparr>],
      jump_act ''B'' []] zero_StorylineNode"

lemma compileStoryline_jump_witness:
  "let acts = stl_Acts (fst (run_state (compileStoryline demo_context ''S'' 1 jump_line) (NewCompiler 1 0 ''x''))) in
    \<exists>tr a. tr \<in> set (ent_triggers (acts ! 0))
      \<and> trg_DoAction tr = Some a \<and> trg_TriggerType tr = ''OnClick''
      \<and> act_NextEnactmentId a = Some (collId demo_context ''EnactmentCollection'' (ent_Id (acts ! 1)))
      \<and> act_ActionName a = []"
proof -
  let ?tr = "zero_TriggerNode\<lparr>tr_TriggerType := ''click'',
    tr_Actions := [badge_action ''b'', simple_action ''jump_to_enactment'' ''B'', simple_action ''unsubscribe'' []]\<rparr>"
  have acts: "sl_Enactments jump_line = [jump_act ''A'' [?tr], jump_act ''B'' []]" by (simp add: jump_line_def)
  have "fst (mapTriggerType demo_context ?tr) = ''OnClick''" by code_simp
  with compileStoryline_jump [of jump_line "NewCompiler 1 0 ''x''" "''S''" 0 1 ?tr
      "[badge_action ''b'']" "simple_action ''jump_to_enactment'' ''B''" "[simple_action ''unsubscribe'' []]" demo_context 1]
  show ?thesis
    by (simp add: acts jump_act_def NewCompiler_def jump_node_def simple_action_def badge_action_def leaves_jump_def)
qed

end
