(* ===== verification/Pipeline.thy ===== *)
theory Pipeline
  imports Expander Linking
begin

text \<open>
  The pipeline of \<open>src/scripting/scripting.go\<close> from a parsed script on: each stage runs only
  when the stages before it reported no error. What the validator accepts, the compiler of
  stories compiles without an error of its own, and every \<open>next_story\<close> is linked.
\<close>

section \<open>The stages\<close>

record ParseResult =
  pr_AST :: ScriptAST
  pr_Diagnostics :: Diagnostics

record ValidateResult =
  vr_AST :: ScriptAST
  vr_Symbols :: "SymbolTable option"
  vr_Diagnostics :: Diagnostics

text \<open>\<open>ExpandScript\<close> after its call of \<open>ParseScript\<close>.\<close>

definition ExpandScript :: "ParseResult \<Rightarrow> ParseResult" where
  "ExpandScript pr =
     (if HasErrors (pr_Diagnostics pr) then pr
      else
        (let (ast, expandErrors) = Expand (pr_AST pr) in
         \<lparr>pr_AST = ast, pr_Diagnostics = pr_Diagnostics pr @ expandErrors\<rparr>))"

definition ValidateScript :: "ParseResult \<Rightarrow> ValidateResult" where
  "ValidateScript parsed =
     (let pr = ExpandScript parsed in
      if HasErrors (pr_Diagnostics pr) then
        \<lparr>vr_AST = pr_AST pr, vr_Symbols = None, vr_Diagnostics = pr_Diagnostics pr\<rparr>
      else
        (let (symbols, valErrors) = Validate (pr_AST pr) in
         \<lparr>vr_AST = pr_AST pr, vr_Symbols = Some symbols, vr_Diagnostics = pr_Diagnostics pr @ valErrors\<rparr>))"

text \<open>
  The story part of \<open>CompileScript\<close>: the compiled stories, none when a stage before
  reported an error, and the diagnostics of the result.
\<close>

definition CompileStoryScript ::
  "Context \<Rightarrow> nat \<Rightarrow> string \<Rightarrow> ParseResult \<Rightarrow> Story list \<times> Diagnostics" where
  "CompileStoryScript cx oids session parsed =
     (let vr = ValidateScript parsed in
      if HasErrors (vr_Diagnostics vr) then ([], vr_Diagnostics vr)
      else
        (case vr_Symbols vr of
           None \<Rightarrow> ([], vr_Diagnostics vr)
         | Some symbols \<Rightarrow>
             (let (stories, s) = run_state (compileStoryScript cx symbols (vr_AST vr)) (NewCompiler oids 0 session) in
              (stories, cs_errors s))))"

section \<open>The stories of a script\<close>

lemma mapC_Cons: "run_state (mapC f (x # xs)) s
  = (fst (run_state (f x) s) # fst (run_state (mapC f xs) (snd (run_state (f x) s))),
     snd (run_state (mapC f xs) (snd (run_state (f x) s))))"
  by simp

lemma compileStoryAt_map:
  "cs_storyMap (snd (run_state (compileStoryAt cx node) s))
   = gomap_put (st_Name node) (sto_Id (fst (run_state (compileStoryAt cx node) s))) (cs_storyMap s)"
  using preserves_run [OF storyMap.story, of cx node s] by (simp add: compileStoryAt_def)

lemma compileStoryAt_errors: "preserves cs_errors (compileStoryAt cx node)"
  unfolding compileStoryAt_def by (intro preserves_intros errors.story preserves_modifies) simp

lemma compileStoryAt_panicked: "preserves cs_panicked (compileStoryAt cx node)"
  unfolding compileStoryAt_def by (intro preserves_intros panicked.story preserves_modifies) simp

lemma stories_other:
  "n \<notin> set (map st_Name nodes) \<Longrightarrow>
   map_of (cs_storyMap (snd (run_state (mapC (compileStoryAt cx) nodes) s))) n = map_of (cs_storyMap s) n"
  by (induction nodes arbitrary: s) (auto simp: compileStoryAt_map update_conv)

lemma stories_entered:
  "distinct (map st_Name nodes) \<Longrightarrow>
   list_all2 (\<lambda>node story. map_of (cs_storyMap (snd (run_state (mapC (compileStoryAt cx) nodes) s))) (st_Name node)
                = Some (sto_Id story))
     nodes (fst (run_state (mapC (compileStoryAt cx) nodes) s))"
proof (induction nodes arbitrary: s)
  case (Cons node nodes)
  then show ?case
    unfolding mapC_Cons by (simp add: stories_other compileStoryAt_map update_conv)
qed simp

text \<open>One ending is linked, without a report, when its next story is known.\<close>

definition end_known :: "ObjectId gomap \<Rightarrow> (Pos \<times> string) option \<Rightarrow> bool" where
  "end_known m node =
     (case node of None \<Rightarrow> True | Some (_, next) \<Rightarrow> next = [] \<or> has_key next m)"

definition complete_ref :: "StoryNode \<Rightarrow> (Pos \<times> string) option" where
  "complete_ref node = map_option (\<lambda>c. (oc_Pos c, oc_NextStory c)) (st_OnComplete node)"

definition fail_ref :: "StoryNode \<Rightarrow> (Pos \<times> string) option" where
  "fail_ref node = map_option (\<lambda>c. (ofb_Pos c, ofb_NextStory c)) (st_OnFail node)"

definition story_linkable :: "ObjectId gomap \<Rightarrow> StoryNode \<Rightarrow> bool" where
  "story_linkable m node \<longleftrightarrow> end_known m (complete_ref node) \<and> end_known m (fail_ref node)"

definition linked_end :: "Context \<Rightarrow> ObjectId gomap \<Rightarrow> (Pos \<times> string) option \<Rightarrow> StoryEnd \<Rightarrow> StoryEnd" where
  "linked_end cx m node ending =
     (case node of
        None \<Rightarrow> ending
      | Some (_, next) \<Rightarrow>
          (if next = [] then ending
           else case map_of m next of
             None \<Rightarrow> ending
           | Some i \<Rightarrow> ending\<lparr>ste_NextStory := Some i,
               ste_NextStoryId := Some (collId cx ''StoryCollection'' i)\<rparr>))"

lemma run_linkStoryEnd:
  "end_known (cs_storyMap s) node \<Longrightarrow>
   run_state (linkStoryEnd cx node ending) s = (linked_end cx (cs_storyMap s) node ending, s)"
  by (auto simp: linkStoryEnd_def linked_end_def end_known_def has_key_def split: option.splits prod.splits)

definition linked_story :: "Context \<Rightarrow> ObjectId gomap \<Rightarrow> StoryNode \<times> Story \<Rightarrow> Story" where
  "linked_story cx m = (\<lambda>(node, story).
     story\<lparr>sto_OnComplete := linked_end cx m (complete_ref node) (sto_OnComplete story),
           sto_OnFail := linked_end cx m (fail_ref node) (sto_OnFail story)\<rparr>)"

lemma run_linkStory:
  "story_linkable (cs_storyMap s) node \<Longrightarrow>
   run_state (linkStory cx (node, story)) s = (linked_story cx (cs_storyMap s) (node, story), s)"
  by (simp add: linkStory_def linked_story_def story_linkable_def complete_ref_def [symmetric]
      fail_ref_def [symmetric] run_linkStoryEnd)

lemma run_linkStories:
  "list_all (\<lambda>p. story_linkable (cs_storyMap s) (fst p)) ps \<Longrightarrow>
   run_state (mapC (linkStory cx) ps) s = (map (linked_story cx (cs_storyMap s)) ps, s)"
proof (induction ps)
  case (Cons p ps)
  then show ?case by (cases p) (simp add: run_linkStory)
qed simp

section \<open>What the validator accepts links\<close>

lemma valid_story_names:
  assumes "\<not> HasErrors (snd (Validate ast))"
  shows "distinct (map st_Name (ast_Stories ast))"
proof -
  have "distinct (declared ast StoryT)"
    using assms by (auto simp: Validate_def split_beta collectNames_reports)
  then show ?thesis by (simp add: declared_tables map_fst_named)
qed

lemma valid_next_stories:
  assumes "\<not> HasErrors (snd (Validate ast))" and "st \<in> set (ast_Stories ast)"
    and "complete_ref st = Some (p, n) \<or> fail_ref st = Some (p, n)"
  shows "n = [] \<or> n \<in> set (map st_Name (ast_Stories ast))"
proof -
  have "\<not> HasErrors (resolveStory (symbols_of ast) st)"
    using assms(1,2) by (auto simp: Validate_def split_beta resolveReferences_def)
  then show ?thesis
    using assms(3) story_known [of n ast]
    by (auto simp: resolveStory_def resolveStoryRef_def complete_ref_def fail_ref_def split: if_splits)
qed

lemma has_key_entered:
  assumes "list_all2 (\<lambda>node story. map_of m (st_Name node) = Some (sto_Id story)) nodes stories"
    and "n \<in> set (map st_Name nodes)"
  shows "\<exists>j<length nodes. st_Name (nodes ! j) = n \<and> map_of m n = Some (sto_Id (stories ! j))"
  using assms by (fastforce simp: list_all2_conv_all_nth in_set_conv_nth)

text \<open>The run of the compiler on the stories of a script without validation errors.\<close>

lemma compileStories_valid:
  assumes valid: "\<not> HasErrors (snd (Validate ast))"
  shows "\<exists>s1 stories. run_state (mapC (compileStoryAt cx) (ast_Stories ast)) s = (stories, s1)
    \<and> list_all2 (\<lambda>node story. map_of (cs_storyMap s1) (st_Name node) = Some (sto_Id story)) (ast_Stories ast) stories
    \<and> cs_errors s1 = cs_errors s \<and> cs_panicked s1 = cs_panicked s
    \<and> run_state (compileStories cx (ast_Stories ast)) s
      = (map (linked_story cx (cs_storyMap s1)) (zip (ast_Stories ast) stories), s1)"
proof -
  let ?nodes = "ast_Stories ast"
  obtain stories s1 where run: "run_state (mapC (compileStoryAt cx) ?nodes) s = (stories, s1)"
    by (cases "run_state (mapC (compileStoryAt cx) ?nodes) s") auto
  have entered: "list_all2 (\<lambda>node story. map_of (cs_storyMap s1) (st_Name node) = Some (sto_Id story)) ?nodes stories"
    using stories_entered [OF valid_story_names [OF valid], of cx s] run by simp
  have known: "has_key n (cs_storyMap s1)" if "n \<in> set (map st_Name ?nodes)" for n
    using has_key_entered [OF entered that] by (auto simp: has_key_def)
  have "story_linkable (cs_storyMap s1) node" if "node \<in> set ?nodes" for node
    using valid_next_stories [OF valid that] known
    by (auto simp: story_linkable_def end_known_def split: option.splits)
  then have "list_all (\<lambda>p. story_linkable (cs_storyMap s1) (fst p)) (zip ?nodes stories)"
    by (auto simp: list_all_iff dest: set_zip_leftD)
  then have "run_state (compileStories cx ?nodes) s
      = (map (linked_story cx (cs_storyMap s1)) (zip ?nodes stories), s1)"
    by (simp add: compileStories_def run run_linkStories)
  moreover have "cs_errors s1 = cs_errors s"
    using preserves_run [OF preserves_mapC, of cs_errors "compileStoryAt cx" ?nodes s] compileStoryAt_errors run by simp
  moreover have "cs_panicked s1 = cs_panicked s"
    using preserves_run [OF preserves_mapC, of cs_panicked "compileStoryAt cx" ?nodes s] compileStoryAt_panicked run by simp
  ultimately show ?thesis using run entered by blast
qed

lemma precreate_outer:
  "cs_errors (snd (run_state (precreateBadges cx sy) s)) = cs_errors s"
  "cs_panicked (snd (run_state (precreateBadges cx sy) s)) = cs_panicked s"
  "cs_errors (snd (run_state (precreateTags cx sy) s)) = cs_errors s"
  "cs_panicked (snd (run_state (precreateTags cx sy) s)) = cs_panicked s"
  unfolding precreateBadges_def precreateBadge_def newBadge_def precreateTags_def precreateTag_def
  by ((rule preserves_run, intro preserves_intros preserves_modifies, simp)+)

text \<open>
  What the validator accepts, the compiler of stories compiles without an error of its
  own and without stopping, starting from any state and with any table of symbols; every
  \<open>next_story\<close> of a script that validates is found.
\<close>

theorem compileStoryScript_no_errors:
  assumes "\<not> HasErrors (snd (Validate ast))"
  shows "cs_errors (snd (run_state (compileStoryScript cx sy ast) s)) = cs_errors s
    \<and> cs_panicked (snd (run_state (compileStoryScript cx sy ast) s)) = cs_panicked s"
  using compileStories_valid [OF assms, of cx
      "snd (run_state (precreateTags cx sy) (snd (run_state (precreateBadges cx sy) s)))"]
  by (auto simp: compileStoryScript_def precreate_outer)

definition two_stories :: ScriptAST where
  "two_stories = zero_ScriptAST\<lparr>ast_Stories :=
     [(small_story ''S'' ''L'' [])\<lparr>st_OnComplete :=
        Some \<lparr>oc_Pos = zero_Pos, oc_BadgeTransaction = None, oc_NextStory = ''T''\<rparr>\<rparr>,
      small_story ''T'' ''L'' []]\<rparr>"

lemma two_stories_valid: "\<not> HasErrors (snd (Validate two_stories))"
  by code_simp

lemma compileStoryScript_no_errors_witness:
  "cs_errors (snd (run_state (compileStoryScript demo_context newSymbolTable two_stories) (NewCompiler 1 0 ''x''))) = []"
  using compileStoryScript_no_errors [OF two_stories_valid, of demo_context newSymbolTable "NewCompiler 1 0 ''x''"]
  by (simp add: NewCompiler_def)

text \<open>
  In the stories of a script that validates, a story that names a next story on
  completion leads to the compiled story of that name, whichever of the two comes first.
\<close>

theorem compileStories_next:
  assumes "\<not> HasErrors (snd (Validate ast))" and "i < length (ast_Stories ast)"
    and "st_OnComplete (ast_Stories ast ! i) = Some c" and "oc_NextStory c \<noteq> []"
  shows "let stories = fst (run_state (compileStories cx (ast_Stories ast)) s) in
    \<exists>j. j < length (ast_Stories ast) \<and> st_Name (ast_Stories ast ! j) = oc_NextStory c
      \<and> ste_NextStory (sto_OnComplete (stories ! i)) = Some (sto_Id (stories ! j))
      \<and> ste_NextStoryId (sto_OnComplete (stories ! i))
        = Some (collId cx ''StoryCollection'' (sto_Id (stories ! j)))"
proof -
  obtain s1 stories where run: "list_all2 (\<lambda>node story. map_of (cs_storyMap s1) (st_Name node) = Some (sto_Id story))
      (ast_Stories ast) stories"
    "run_state (compileStories cx (ast_Stories ast)) s
      = (map (linked_story cx (cs_storyMap s1)) (zip (ast_Stories ast) stories), s1)"
    using compileStories_valid [OF assms(1), of cx s] by auto
  have ref: "complete_ref (ast_Stories ast ! i) = Some (oc_Pos c, oc_NextStory c)"
    using assms(3) by (simp add: complete_ref_def)
  then have "oc_NextStory c \<in> set (map st_Name (ast_Stories ast))"
    using valid_next_stories [OF assms(1), of "ast_Stories ast ! i"] assms(2,4) by auto
  from has_key_entered [OF run(1) this] obtain j where j: "j < length (ast_Stories ast)"
    "st_Name (ast_Stories ast ! j) = oc_NextStory c"
    "map_of (cs_storyMap s1) (oc_NextStory c) = Some (sto_Id (stories ! j))" by blast
  have len: "length stories = length (ast_Stories ast)" using run(1) by (simp add: list_all2_lengthD)
  have "sto_Id (linked_story cx (cs_storyMap s1) (ast_Stories ast ! j, stories ! j)) = sto_Id (stories ! j)"
    by (simp add: linked_story_def)
  moreover have "linked_end cx (cs_storyMap s1) (complete_ref (ast_Stories ast ! i)) ending
      = ending\<lparr>ste_NextStory := Some (sto_Id (stories ! j)),
          ste_NextStoryId := Some (collId cx ''StoryCollection'' (sto_Id (stories ! j)))\<rparr>" for ending
    using j(3) assms(4) by (simp add: linked_end_def ref)
  then have "sto_OnComplete (linked_story cx (cs_storyMap s1) (ast_Stories ast ! i, stories ! i))
      = (sto_OnComplete (stories ! i))\<lparr>ste_NextStory := Some (sto_Id (stories ! j)),
          ste_NextStoryId := Some (collId cx ''StoryCollection'' (sto_Id (stories ! j)))\<rparr>"
    by (simp add: linked_story_def)
  ultimately show ?thesis
    using j(1,2) assms(2) len
    by (simp add: run(2) Let_def) (rule exI [of _ j], simp)
qed

lemma compileStories_next_witness:
  "let stories = fst (run_state (compileStories demo_context (ast_Stories two_stories)) (NewCompiler 1 0 ''x'')) in
    \<exists>j. j < length (ast_Stories two_stories) \<and> st_Name (ast_Stories two_stories ! j) = ''T''
      \<and> ste_NextStory (sto_OnComplete (stories ! 0)) = Some (sto_Id (stories ! j))"
proof -
  have "0 < length (ast_Stories two_stories)" by (simp add: two_stories_def)
  from compileStories_next [OF two_stories_valid this, of _ demo_context "NewCompiler 1 0 ''x''"]
  show ?thesis by (auto simp: two_stories_def Let_def)
qed

section \<open>Errors stop the pipeline\<close>

text \<open>
  The pipeline produces stories only from a script that no stage objects to: a parse
  error keeps the parser's diagnostics and nothing else, an error of the expander or the
  validator leaves no story, and otherwise the compiled stories are those of the expanded
  script, whose well-formedness the validator vouches for, and nothing is reported.
\<close>

theorem CompileStoryScript_stages:
  "CompileStoryScript cx oids session pr =
     (if HasErrors (pr_Diagnostics pr) then ([], pr_Diagnostics pr)
      else let (ast, ds1) = Expand (pr_AST pr); (sy, ds2) = Validate ast in
        if HasErrors ds1 then ([], pr_Diagnostics pr @ ds1)
        else if HasErrors ds2 then ([], pr_Diagnostics pr @ ds1 @ ds2)
        else (fst (run_state (compileStoryScript cx sy ast) (NewCompiler oids 0 session)), []))"
proof (cases "HasErrors (pr_Diagnostics pr)")
  case True
  then show ?thesis by (simp add: CompileStoryScript_def ValidateScript_def ExpandScript_def)
next
  case False
  obtain ast ds1 where e: "Expand (pr_AST pr) = (ast, ds1)" by (cases "Expand (pr_AST pr)") auto
  obtain sy ds2 where v: "Validate ast = (sy, ds2)" by (cases "Validate ast") auto
  have "cs_errors (snd (run_state (compileStoryScript cx sy ast) (NewCompiler oids 0 session))) = []"
    if "\<not> HasErrors ds2"
  proof -
    from that v have valid: "\<not> HasErrors (snd (Validate ast))" by simp
    from compileStories_valid [OF valid, of cx "snd (run_state (precreateTags cx sy)
        (snd (run_state (precreateBadges cx sy) (NewCompiler oids 0 session))))"]
    show ?thesis by (auto simp: compileStoryScript_def precreate_outer NewCompiler_def)
  qed
  with False e v show ?thesis
    by (auto simp: CompileStoryScript_def ValidateScript_def ExpandScript_def Let_def split_beta)
qed

end
