(* ===== verification/CompileProps.thy ===== *)
theory CompileProps
  imports CompilerMedia Pipeline
begin

text \<open>
  Properties of \<open>Compile\<close>: which references between the parts of a script are resolved, and
  what the compiler reports.
\<close>

section \<open>What the parts leave alone\<close>

text \<open>
  A relation that is respected by entering stories, and badges, tags and pending entities of the
  subscriber, is respected by every part of the compiler but the triggers of funnels, the passes
  that report errors and the loops that enter other names.
\<close>

locale catalog_relation = outer_relation R
  for R :: "CState \<Rightarrow> CState \<Rightarrow> bool" and cx :: Context +
  assumes storyMap: "R s (s\<lparr>cs_storyMap := sm\<rparr>)"
    and badges: "bdg_SubscriberId b = cx_subscriberID cx \<Longrightarrow> R s (s\<lparr>cs_badges := gomap_put n b (cs_badges s)\<rparr>)"
    and tags: "tag_SubscriberId t = cx_subscriberID cx \<Longrightarrow> R s (s\<lparr>cs_tags := gomap_put n t (cs_tags s)\<rparr>)"
    and pendingAssets: "asset_SubscriberId a = cx_subscriberID cx
      \<Longrightarrow> R s (s\<lparr>cs_pendingAssets := cs_pendingAssets s @ [a]\<rparr>)"
    and pendingQuizzes: "qui_SubscriberId q = cx_subscriberID cx
      \<Longrightarrow> R s (s\<lparr>cs_pendingQuizzes := cs_pendingQuizzes s @ [q]\<rparr>)"
    and certTemplates: "cer_SubscriberId c = cx_subscriberID cx
      \<Longrightarrow> R s (s\<lparr>cs_certTemplates := cs_certTemplates s @ [c]\<rparr>)"
begin

lemma precreateBadge [preserves_intros]: "keeps R (precreateBadge cx name)"
proof -
  have "keeps R (newBadge cx name)" by (auto simp: newBadge_def intro!: preserves_intros)
  moreover have "yields (newBadge cx name) (\<lambda>b. bdg_SubscriberId b = cx_subscriberID cx)"
    by (auto simp: newBadge_def intro!: yields_intros)
  ultimately show ?thesis
    unfolding precreateBadge_def by (rule bind_yields) (auto intro!: modify badges)
qed

lemma precreate [preserves_intros]:
  "keeps R (precreateBadges cx sy)" "keeps R (precreateTags cx sy)" "keeps R (ensureBadge cx name)"
  by (auto simp: precreateBadges_def precreateTags_def precreateTag_def ensureBadge_def tags
      intro!: preserves_intros modify split: option.splits)

lemma media [preserves_intros]:
  "keeps R (compileChapter ch)" "keeps R (compileInteraction inr)" "keeps R (compileBadgeRule cx br)"
  "keeps R (compileMediaDecl cx md)" "keeps R (compilePlayerPresetDecl cx pp)"
  "keeps R (compileChannelDecl cx cn)" "keeps R (compileMediaWebhookDecl cx mw)"
  "keeps R (compileCampaign cx cp)"
  by (auto simp: compileMediaDecl_def compileChapter_def compileInteraction_def compileBadgeRule_def
      compilePlayerPresetDecl_def compileChannelDecl_def compileMediaWebhookDecl_def compileCampaign_def
      intro!: preserves_intros)

lemma storyAt [preserves_intros]: "keeps R (compileStoryAt cx node)"
  by (auto simp: compileStoryAt_def storyMap intro!: preserves_intros modify)

lemma pages [preserves_intros]:
  "keeps R (compileBlock cx bl)" "keeps R (compileForm cx fm)" "keeps R (compilePage cx pg)"
  "keeps R (compileSite cx si)"
  by (auto simp: compileBlock_def compileForm_def compilePage_def compileSite_def intro!: preserves_intros)

lemma leadMagnet [preserves_intros]: "keeps R (compileLeadMagnet cx stage lm)"
  by (auto simp: compileLeadMagnet_def Let_def pendingAssets intro!: preserves_intros modify)

lemma quizAt [preserves_intros]: "keeps R (compileQuizAt cx ms pid slug node)"
proof -
  have "keeps R (compileLMSQuiz cx ms pid node)"
    by (auto simp: compileLMSQuiz_def Let_def intro!: preserves_intros)
  moreover have "yields (compileLMSQuiz cx ms pid node) (\<lambda>q. qui_SubscriberId q = cx_subscriberID cx)"
    by (auto simp: compileLMSQuiz_def Let_def intro!: yields_intros)
  ultimately show ?thesis
    unfolding compileQuizAt_def
    by (rule bind_yields) (auto intro!: preserves_intros modify pendingQuizzes)
qed

lemma modules [preserves_intros]:
  "keeps R (compileModule i mo)" "keeps R (compileCourseModule cx pid i mo)"
  by (auto simp: compileModule_def compileLesson_def compileCourseModule_def Let_def intro!: preserves_intros)

lemma products [preserves_intros]:
  "keeps R (compileProduct cx pd)" "keeps R (compileCourseDecl cx co)"
  by (auto simp: compileProduct_def compileCourseDecl_def compileCertConfig_def certTemplates Let_def
      intro!: preserves_intros modify)

lemma offerIds [preserves_intros]:
  "keeps R (mapC (ensureBadge cx) names)"
  by (auto intro!: preserves_intros)

end

text \<open>A relation that the compilation of funnels respects too.\<close>

locale funnel_relation = catalog_relation +
  assumes panicked: "R s (s\<lparr>cs_panicked := b\<rparr>)"
    and funnelMap: "R s (s\<lparr>cs_funnelMap := fm\<rparr>)"
    and stageMap: "R s (s\<lparr>cs_stageMap := gm\<rparr>)"
begin

lemma panic: "keeps R (panic x)"
  by (auto simp: panic_def panicked intro!: preserves_intros modify)

lemma stageTrigger [preserves_intros]: "keeps R (compileTrigger cx None node)"
proof -
  have "keeps R (compileActionCase cx None an a)" for an a
    by (auto simp: compileActionCase_def Let_def panic intro!: preserves_intros split: option.splits)
  then have "keeps R (compileActions cx None ans)" for ans
    by (auto simp: compileActions_def compileAction_def newAction_def intro!: preserves_intros)
  then show ?thesis
    by (auto simp: compileTrigger_def compileMainTrigger_def compileElseTrigger_def newTrigger_def
        Let_def intro!: preserves_intros split: prod.splits)
qed

lemma stages [preserves_intros]:
  "keeps R (compileStage cx i sg)" "keeps R (compileStageAt cx f r i sg)"
  by (auto simp: compileStage_def compileStageAt_def stageMap intro!: preserves_intros modify)

lemma funnels [preserves_intros]:
  "keeps R (compileRoute cx f i rt)" "keeps R (compileFunnel cx fn)"
  by (auto simp: compileRoute_def compileFunnel_def funnelMap Let_def
      intro!: preserves_intros modify)

end

text \<open>A relation that reporting an error respects.\<close>

locale quiet_relation = catalog_relation +
  assumes errors: "R s (s\<lparr>cs_errors := es\<rparr>)"
begin

lemma stories [preserves_intros]: "keeps R (compileStories cx nodes)"
  by (auto simp: compileStories_def linkStory_def linkStoryEnd_def errors
      intro!: preserves_intros modify split: option.splits prod.splits)

lemma offer [preserves_intros]: "keeps R (compileOffer cx node)"
  by (auto simp: compileOffer_def includeProduct_def errors
      intro!: preserves_intros modify split: option.splits)

end

locale full_relation = quiet_relation + funnel_relation

interpretation offers: full_relation "\<lambda>s s'. cs_offerMap s' = cs_offerMap s" cx for cx by unfold_locales simp_all
interpretation presets: full_relation "\<lambda>s s'. cs_presetMap s' = cs_presetMap s" cx for cx by unfold_locales simp_all
interpretation products: full_relation "\<lambda>s s'. cs_productMap s' = cs_productMap s" cx for cx by unfold_locales simp_all
interpretation media: full_relation "\<lambda>s s'. cs_mediaMap s' = cs_mediaMap s" cx for cx by unfold_locales simp_all
interpretation reports: funnel_relation "\<lambda>s s'. cs_errors s' = cs_errors s" cx for cx by unfold_locales simp_all

section \<open>References\<close>

text \<open>An operation whose outputs depend on what its state shows, run over a list.\<close>

lemma mapC_outputs:
  assumes "\<And>x. preserves g (f x)" and "\<And>x s. h (fst (run_state (f x) s)) = k (g s) x"
  shows "map h (fst (run_state (mapC f xs) s)) = map (k (g s)) xs"
proof (induction xs arbitrary: s)
  case (Cons x xs)
  show ?case
    using Cons [of "snd (run_state (f x) s)"] assms(2) preserves_run [OF assms(1)] by (simp add: mapC_Cons split_beta)
qed simp

lemma numberedC_outputs:
  assumes "\<And>i x. preserves g (f i x)" and "\<And>i x s. h (fst (run_state (f i x) s)) = k (g s) x"
  shows "map h (fst (run_state (numberedC f xs) s)) = map (k (g s)) xs"
proof -
  have "map h (fst (run_state (numberedC f xs) s)) = map (\<lambda>(i, x). k (g s) x) (zip [0..<length xs] xs)"
    unfolding numberedC_def
    by (rule mapC_outputs [where g = g and k = "\<lambda>m (i, x). k m x"]) (use assms in \<open>auto split: prod.splits\<close>)
  also have "\<dots> = map (k (g s)) xs" by (rule nth_equalityI) auto
  finally show ?thesis .
qed

lemma mapC_appends:
  assumes "\<And>x. preserves g (f x)" and "\<And>x s. l (snd (run_state (f x) s)) = l s @ k (g s) x"
  shows "l (snd (run_state (mapC f xs) s)) = l s @ concat (map (k (g s)) xs)"
proof (induction xs arbitrary: s)
  case (Cons x xs)
  show ?case
    using Cons [of "snd (run_state (f x) s)"] assms(2) preserves_run [OF assms(1)] by (simp add: mapC_Cons split_beta)
qed simp

text \<open>The pages of a compiled script and of its tree, in order.\<close>

definition funnel_pages :: "Funnel \<Rightarrow> FunnelPage list" where
  "funnel_pages f = concat (map (\<lambda>r. concat (map stg_Pages (rou_Stages r))) (fun_Routes f))"

definition result_pages :: "CompileResult \<Rightarrow> FunnelPage list" where
  "result_pages r = concat (map funnel_pages (res_Funnels r)) @ concat (map sit_Pages (res_Sites r))"

definition funnel_page_nodes :: "FunnelNode \<Rightarrow> PageNode list" where
  "funnel_page_nodes f = concat (map (\<lambda>r. concat (map sg_Pages (rt_Stages r))) (fn_Routes f))"

definition script_pages :: "ScriptAST \<Rightarrow> PageNode list" where
  "script_pages ast = concat (map funnel_page_nodes (ast_Funnels ast)) @ concat (map si_Pages (ast_Sites ast))"

text \<open>
  A view of a page that its compilation derives from the node and from something the
  compilation of pages, funnels and sites keeps, is the same for all pages of the result.
\<close>

locale page_view = funnel_relation "\<lambda>s s'. g s' = g s" cx for g :: "CState \<Rightarrow> 'g" and cx :: Context +
  fixes h :: "FunnelPage \<Rightarrow> 'h" and k :: "'g \<Rightarrow> PageNode \<Rightarrow> 'h"
  assumes page: "h (fst (run_state (compilePage cx node) s)) = k (g s) node"
    and owner: "h (p\<lparr>pag_StageId := o'\<rparr>) = h p"
begin

lemma ids: "g (s\<lparr>cs_oids := Suc (cs_oids s), cs_idCounter := cs_idCounter s + 1\<rparr>) = g s"
  using oids [of s] counter [of "s\<lparr>cs_oids := Suc (cs_oids s)\<rparr>"] by simp

lemma pages_view: "map h (fst (run_state (mapC (compilePage cx) nodes) s)) = map (k (g s)) nodes"
  by (rule mapC_outputs) (auto intro: pages page)

lemma stage_view: "map h (stg_Pages (fst (run_state (compileStage cx i node) s))) = map (k (g s)) (sg_Pages node)"
  using pages_view [of "sg_Pages node"]
  by (simp add: compileStage_def newObjectId_def generatePublicID_def Let_def split_beta comp_def owner ids)

lemma stageAt_view: "map h (stg_Pages (fst (run_state (compileStageAt cx f r i node) s))) = map (k (g s)) (sg_Pages node)"
  using stage_view by (simp add: compileStageAt_def split_beta)

lemma route_view: "map h (concat (map stg_Pages (rou_Stages (fst (run_state (compileRoute cx f i node) s)))))
  = map (k (g s)) (concat (map sg_Pages (rt_Stages node)))"
proof -
  let ?s = "snd (run_state (compileRequiredBadgesNode cx (rt_RequiredBadges node))
    (snd (run_state (generatePublicID ''route'') (snd (run_state newObjectId s)))))"
  have "map (\<lambda>g. map h (stg_Pages g)) (fst (run_state (numberedC (compileStageAt cx f (rt_Name node)) (rt_Stages node)) ?s))
      = map (\<lambda>n. map (k (g ?s)) (sg_Pages n)) (rt_Stages node)"
    by (rule numberedC_outputs) (auto intro: stages stageAt_view)
  moreover have "g ?s = g s"
    using preserves_run [OF requiredBadges(3)] preserves_run [OF publicID] preserves_run [OF newObjectId] by simp
  ultimately show ?thesis
    by (simp add: compileRoute_def split_beta map_concat comp_def)
qed

lemma funnel_view: "map h (funnel_pages (fst (run_state (compileFunnel cx node) s)))
  = map (k (g s)) (funnel_page_nodes node)"
proof -
  let ?s = "snd (run_state (generatePublicID ''funnel'') (snd (run_state newObjectId s)))"
  have "map (\<lambda>r. map h (concat (map stg_Pages (rou_Stages r))))
        (fst (run_state (numberedC (compileRoute cx (fn_Name node)) (fn_Routes node)) ?s))
      = map (\<lambda>n. map (k (g ?s)) (concat (map sg_Pages (rt_Stages n)))) (fn_Routes node)"
    by (rule numberedC_outputs) (auto intro: funnels route_view)
  moreover have "g ?s = g s"
    using preserves_run [OF publicID] preserves_run [OF newObjectId] by simp
  ultimately show ?thesis
    by (simp add: compileFunnel_def funnel_pages_def funnel_page_nodes_def Let_def split_beta map_concat comp_def)
qed

lemma site_view: "map h (sit_Pages (fst (run_state (compileSite cx node) s))) = map (k (g s)) (si_Pages node)"
  using pages_view [of "si_Pages node"]
  by (simp add: compileSite_def newObjectId_def generatePublicID_def Let_def split_beta ids)

text \<open>All pages of the result of a compilation, from the state at the funnels on.\<close>

lemma result_view:
  "map h (concat (map funnel_pages (fst (run_state (mapC (compileFunnel cx) fs) s)))
      @ concat (map sit_Pages (fst (run_state (mapC (compileSite cx) ss) (snd (run_state (mapC (compileFunnel cx) fs) s))))))
   = map (k (g s)) (concat (map funnel_page_nodes fs) @ concat (map si_Pages ss))"
proof -
  let ?s = "snd (run_state (mapC (compileFunnel cx) fs) s)"
  have "map (\<lambda>f. map h (funnel_pages f)) (fst (run_state (mapC (compileFunnel cx) fs) s))
      = map (\<lambda>n. map (k (g s)) (funnel_page_nodes n)) fs"
    by (rule mapC_outputs) (auto intro: funnels funnel_view)
  moreover have "map (\<lambda>f. map h (sit_Pages f)) (fst (run_state (mapC (compileSite cx) ss) ?s))
      = map (\<lambda>n. map (k (g ?s)) (si_Pages n)) ss"
    by (rule mapC_outputs) (auto intro: pages site_view)
  moreover have "g ?s = g s" by (rule preserves_run) (auto intro!: preserves_intros)
  ultimately show ?thesis by (simp add: map_concat comp_def)
qed

end

interpretation page_media: page_view cs_mediaMap cx
  "\<lambda>p. map blk_MediaPublicId (pag_Blocks p)" "\<lambda>m node. map (\<lambda>b. mediaRef m (bl_MediaPublicId b)) (pg_Blocks node)"
  for cx
proof
  fix node :: PageNode and s
  let ?s = "snd (run_state (generatePublicID ''page'') (snd (run_state newObjectId s)))"
  have "map blk_MediaPublicId (fst (run_state (mapC (compileBlock cx) (pg_Blocks node)) ?s))
      = map (\<lambda>b. mediaRef (cs_mediaMap ?s) (bl_MediaPublicId b)) (pg_Blocks node)"
    by (rule mapC_outputs [where g = cs_mediaMap and k = "\<lambda>m b. mediaRef m (bl_MediaPublicId b)"],
        rule media.pages, simp add: compileBlock_def split_beta)
  then show "map blk_MediaPublicId (pag_Blocks (fst (run_state (compilePage cx node) s)))
      = map (\<lambda>b. mediaRef (cs_mediaMap s) (bl_MediaPublicId b)) (pg_Blocks node)"
    by (simp add: compilePage_def newObjectId_def generatePublicID_def Let_def split_beta comp_def)
qed simp

interpretation page_bumps: page_view cs_offerMap cx
  "\<lambda>p. map (\<lambda>f. map bmp_OfferID (frm_OrderBumps f)) (pag_Forms p)"
  "\<lambda>m node. map (\<lambda>f. map (\<lambda>b. map_option ofr_Id (map_of m (ob_OfferID b))) (fm_OrderBumps f)) (pg_Forms node)"
  for cx
proof
  fix node :: PageNode and s
  let ?s = "snd (run_state (mapC (compileBlock cx) (pg_Blocks node))
    (snd (run_state (generatePublicID ''page'') (snd (run_state newObjectId s)))))"
  have "map (\<lambda>f. map bmp_OfferID (frm_OrderBumps f)) (fst (run_state (mapC (compileForm cx) (pg_Forms node)) ?s))
      = map (\<lambda>f. map (\<lambda>b. map_option ofr_Id (map_of (cs_offerMap ?s) (ob_OfferID b))) (fm_OrderBumps f)) (pg_Forms node)"
    by (rule mapC_outputs [where g = cs_offerMap
          and k = "\<lambda>m f. map (\<lambda>b. map_option ofr_Id (map_of m (ob_OfferID b))) (fm_OrderBumps f)"],
        rule offers.pages)
      (simp add: compileForm_def newObjectId_def generatePublicID_def Let_def split_beta
        compileOrderBump_def)
  moreover have "cs_offerMap ?s = cs_offerMap s"
    by (simp add: preserves_run [OF preserves_mapC [where f = "compileBlock cx", OF offers.pages(1)]]
        preserves_run [OF offers.publicID] preserves_run [OF offers.newObjectId])
  ultimately show "map (\<lambda>f. map bmp_OfferID (frm_OrderBumps f)) (pag_Forms (fst (run_state (compilePage cx node) s)))
      = map (\<lambda>f. map (\<lambda>b. map_option ofr_Id (map_of (cs_offerMap s) (ob_OfferID b))) (fm_OrderBumps f)) (pg_Forms node)"
    by (simp add: compilePage_def split_beta comp_def)
qed simp

section \<open>The states of a compilation\<close>

definition at_media :: "Context \<Rightarrow> SymbolTable \<Rightarrow> CState \<Rightarrow> CState" where
  "at_media cx sy s = snd (run_state (precreateTags cx sy) (snd (run_state (precreateBadges cx sy) s)))"

definition at_presets :: "Context \<Rightarrow> SymbolTable \<Rightarrow> ScriptAST \<Rightarrow> CState \<Rightarrow> CState" where
  "at_presets cx sy ast s = snd (run_state (mapC (compileMediaAt cx) (ast_MediaDecls ast)) (at_media cx sy s))"

definition at_stories :: "Context \<Rightarrow> SymbolTable \<Rightarrow> ScriptAST \<Rightarrow> CState \<Rightarrow> CState" where
  "at_stories cx sy ast s = snd (run_state (mapC (compilePresetAt cx) (ast_PlayerPresets ast)) (at_presets cx sy ast s))"

definition at_funnels :: "Context \<Rightarrow> SymbolTable \<Rightarrow> ScriptAST \<Rightarrow> CState \<Rightarrow> CState" where
  "at_funnels cx sy ast s = snd (run_state (compileStories cx (ast_Stories ast)) (at_stories cx sy ast s))"

definition at_sites :: "Context \<Rightarrow> SymbolTable \<Rightarrow> ScriptAST \<Rightarrow> CState \<Rightarrow> CState" where
  "at_sites cx sy ast s = snd (run_state (mapC (compileFunnel cx) (ast_Funnels ast)) (at_funnels cx sy ast s))"

definition at_products :: "Context \<Rightarrow> SymbolTable \<Rightarrow> ScriptAST \<Rightarrow> CState \<Rightarrow> CState" where
  "at_products cx sy ast s = snd (run_state (mapC (compileSite cx) (ast_Sites ast)) (at_sites cx sy ast s))"

definition at_courses :: "Context \<Rightarrow> SymbolTable \<Rightarrow> ScriptAST \<Rightarrow> CState \<Rightarrow> CState" where
  "at_courses cx sy ast s = snd (run_state (mapC (compileProductAt cx) (ast_Products ast)) (at_products cx sy ast s))"

definition at_offers :: "Context \<Rightarrow> SymbolTable \<Rightarrow> ScriptAST \<Rightarrow> CState \<Rightarrow> CState" where
  "at_offers cx sy ast s = snd (run_state (mapC (compileCourseAt cx) (ast_Courses ast)) (at_courses cx sy ast s))"

definition at_channels :: "Context \<Rightarrow> SymbolTable \<Rightarrow> ScriptAST \<Rightarrow> CState \<Rightarrow> CState" where
  "at_channels cx sy ast s = snd (run_state (mapC (compileOfferAt cx) (ast_Offers ast)) (at_offers cx sy ast s))"

lemmas at_defs = at_media_def at_presets_def at_stories_def at_funnels_def at_sites_def at_products_def
  at_courses_def at_offers_def at_channels_def

definition at_webhooks :: "Context \<Rightarrow> SymbolTable \<Rightarrow> ScriptAST \<Rightarrow> CState \<Rightarrow> CState" where
  "at_webhooks cx sy ast s = snd (run_state (mapC (compileChannelDecl cx) (ast_ChannelDecls ast)) (at_channels cx sy ast s))"

definition at_campaigns :: "Context \<Rightarrow> SymbolTable \<Rightarrow> ScriptAST \<Rightarrow> CState \<Rightarrow> CState" where
  "at_campaigns cx sy ast s = snd (run_state (mapC (compileMediaWebhookDecl cx) (ast_MediaWebhookDecls ast)) (at_webhooks cx sy ast s))"

definition at_end :: "Context \<Rightarrow> SymbolTable \<Rightarrow> ScriptAST \<Rightarrow> CState \<Rightarrow> CState" where
  "at_end cx sy ast s = snd (run_state (mapC (compileCampaign cx) (ast_Campaigns ast)) (at_campaigns cx sy ast s))"

lemma run_Compile:
  "run_state (Compile cx sy ast) s =
     (\<lparr>res_Stories = fst (run_state (compileStories cx (ast_Stories ast)) (at_stories cx sy ast s)),
       res_Funnels = fst (run_state (mapC (compileFunnel cx) (ast_Funnels ast)) (at_funnels cx sy ast s)),
       res_Sites = fst (run_state (mapC (compileSite cx) (ast_Sites ast)) (at_sites cx sy ast s)),
       res_Products = fst (run_state (mapC (compileProductAt cx) (ast_Products ast)) (at_products cx sy ast s))
         @ fst (run_state (mapC (compileCourseAt cx) (ast_Courses ast)) (at_courses cx sy ast s)),
       res_Offers = fst (run_state (mapC (compileOfferAt cx) (ast_Offers ast)) (at_offers cx sy ast s)),
       res_Assets = cs_pendingAssets (at_end cx sy ast s),
       res_MediaEntities = fst (run_state (mapC (compileMediaAt cx) (ast_MediaDecls ast)) (at_media cx sy s)),
       res_PlayerPresets = fst (run_state (mapC (compilePresetAt cx) (ast_PlayerPresets ast)) (at_presets cx sy ast s)),
       res_Channels = fst (run_state (mapC (compileChannelDecl cx) (ast_ChannelDecls ast)) (at_channels cx sy ast s)),
       res_MediaWebhooks = fst (run_state (mapC (compileMediaWebhookDecl cx) (ast_MediaWebhookDecls ast)) (at_webhooks cx sy ast s)),
       res_Quizzes = cs_pendingQuizzes (at_end cx sy ast s),
       res_CertificateTemplates = cs_certTemplates (at_end cx sy ast s),
       res_Campaigns = fst (run_state (mapC (compileCampaign cx) (ast_Campaigns ast)) (at_campaigns cx sy ast s)),
       res_Badges = cs_badges (at_end cx sy ast s), res_Tags = cs_tags (at_end cx sy ast s),
       res_Diagnostics = cs_errors (at_end cx sy ast s)\<rparr>, at_end cx sy ast s)"
  by (simp add: Compile_def at_defs at_webhooks_def at_campaigns_def at_end_def split_beta)

section \<open>Names of media, presets, products and offers\<close>

text \<open>What a loop enters under the names of its nodes; the last one of a name stays.\<close>

definition entered :: "string list \<Rightarrow> 'v list \<Rightarrow> 'v gomap" where
  "entered names entities = rev (zip names entities)"


lemma mapC_enters:
  assumes "\<And>x s. map_of (g (snd (run_state (f x) s))) = (map_of (g s))(n x \<mapsto> fst (run_state (f x) s))"
  shows "map_of (g (snd (run_state (mapC f xs) s)))
    = map_of (g s) ++ map_of (entered (map n xs) (fst (run_state (mapC f xs) s)))"
proof (induction xs arbitrary: s)
  case (Cons x xs)
  show ?case
    using Cons [of "snd (run_state (f x) s)"]
    by (simp add: mapC_Cons split_beta entered_def assms map_add_assoc [symmetric])
      (simp add: map_add_def fun_eq_iff split: option.splits)
qed (simp add: entered_def)

lemma entered_None: "length names = length entities \<Longrightarrow> map_of (entered names entities) n = None \<longleftrightarrow> n \<notin> set names"
  unfolding entered_def map_of_eq_None_iff set_rev set_map [symmetric] by (simp only: map_fst_zip)

lemma mediaRef_cong: "map_of m = map_of m' \<Longrightarrow> mediaRef m = mediaRef m'"
  by (simp add: mediaRef_def fun_eq_iff)

lemma mediaMap_at_presets:
  assumes "cs_mediaMap s = []"
  shows "map_of (cs_mediaMap (at_presets cx sy ast s))
    = map_of (entered (map md_Name (ast_MediaDecls ast)) (res_MediaEntities (fst (run_state (Compile cx sy ast) s))))"
proof -
  have "cs_mediaMap (at_media cx sy s) = []"
    using assms by (simp add: at_media_def preserves_run [OF media.precreate(1)] preserves_run [OF media.precreate(2)])
  moreover have "map_of (cs_mediaMap (snd (run_state (compileMediaAt cx node) t)))
      = (map_of (cs_mediaMap t))(md_Name node \<mapsto> fst (run_state (compileMediaAt cx node) t))" for node t
    by (simp add: compileMediaAt_def split_beta update_conv' preserves_run [OF media.media(4)])
  ultimately show ?thesis
    by (simp add: run_Compile at_presets_def mapC_enters [where g = cs_mediaMap and n = md_Name])
qed

lemma mediaMap_kept:
  "cs_mediaMap (at_funnels cx sy ast s) = cs_mediaMap (at_presets cx sy ast s)"
  "cs_mediaMap (at_channels cx sy ast s) = cs_mediaMap (at_presets cx sy ast s)"
proof -
  have step: "preserves cs_mediaMap (compilePresetAt cx pp)" "preserves cs_mediaMap (compileProductAt cx pd)"
    "preserves cs_mediaMap (compileCourseAt cx co)" "preserves cs_mediaMap (compileOfferAt cx off)" for pp pd co off
    by (auto simp: compilePresetAt_def compileProductAt_def compileCourseAt_def compileOfferAt_def putProduct_def
        intro!: preserves_intros media.media media.products media.offer preserves_modifies)
  show k1: "cs_mediaMap (at_funnels cx sy ast s) = cs_mediaMap (at_presets cx sy ast s)"
    by (simp add: at_funnels_def at_stories_def preserves_run [OF media.stories]
        preserves_run [OF preserves_mapC [where f = "compilePresetAt cx", OF step(1)]])
  show "cs_mediaMap (at_channels cx sy ast s) = cs_mediaMap (at_presets cx sy ast s)"
    by (simp add: at_channels_def at_offers_def at_courses_def at_products_def at_sites_def k1
        preserves_run [OF preserves_mapC [where f = "compileProductAt cx", OF step(2)]]
        preserves_run [OF preserves_mapC [where f = "compileCourseAt cx", OF step(3)]]
        preserves_run [OF preserves_mapC [where f = "compileOfferAt cx", OF step(4)]]
        preserves_run [OF preserves_mapC [where f = "compileFunnel cx", OF media.funnels(2)]]
        preserves_run [OF preserves_mapC [where f = "compileSite cx", OF media.pages(4)]])
qed

text \<open>
  C36: Every reference to a medium in a block of a funnel or a site and in a channel is the public
  id of the compiled medium that was declared last under the name, in whatever order the
  script declares them; a name of no medium stays as it is.
\<close>

theorem Compile_media_refs:
  "let r = fst (run_state (Compile cx sy ast) (NewCompiler oids n session));
       ref = mediaRef (entered (map md_Name (ast_MediaDecls ast)) (res_MediaEntities r)) in
   map (\<lambda>p. map blk_MediaPublicId (pag_Blocks p)) (result_pages r)
     = map (\<lambda>pg. map (\<lambda>b. ref (bl_MediaPublicId b)) (pg_Blocks pg)) (script_pages ast)
   \<and> map (\<lambda>c. map mci_MediaPublicId (mcn_Items c)) (res_Channels r)
     = map (\<lambda>cn. map ref (cn_Items cn)) (ast_ChannelDecls ast)"
proof -
  let ?s = "NewCompiler oids n session"
  let ?r = "fst (run_state (Compile cx sy ast) ?s)"
  have ref: "mediaRef (cs_mediaMap (at_presets cx sy ast ?s))
      = mediaRef (entered (map md_Name (ast_MediaDecls ast)) (res_MediaEntities ?r))"
    by (rule mediaRef_cong, rule mediaMap_at_presets) (simp add: NewCompiler_def)
  have "map (\<lambda>p. map blk_MediaPublicId (pag_Blocks p)) (result_pages ?r)
      = map (\<lambda>pg. map (\<lambda>b. mediaRef (cs_mediaMap (at_funnels cx sy ast ?s)) (bl_MediaPublicId b)) (pg_Blocks pg)) (script_pages ast)"
    using page_media.result_view [of cx "ast_Funnels ast" "at_funnels cx sy ast ?s" "ast_Sites ast"]
    by (simp add: run_Compile result_pages_def script_pages_def at_sites_def)
  moreover have "map (\<lambda>c. map mci_MediaPublicId (mcn_Items c)) (res_Channels ?r)
      = map (\<lambda>cn. map (mediaRef (cs_mediaMap (at_channels cx sy ast ?s))) (cn_Items cn)) (ast_ChannelDecls ast)"
    unfolding run_Compile
    by (simp del: length_mapC, rule mapC_outputs [where g = cs_mediaMap and k = "\<lambda>m cn. map (mediaRef m) (cn_Items cn)"],
        rule media.media(6))
      (auto simp: compileChannelDecl_def newObjectId_def generatePublicID_def Let_def split_beta numbered_def
        intro!: nth_equalityI)
  ultimately show ?thesis
    by (simp add: Let_def mediaMap_kept ref)
qed

text \<open>The order bumps of a compiled script.\<close>

definition result_bumps :: "CompileResult \<Rightarrow> OrderBump list" where
  "result_bumps r = concat (map frm_OrderBumps (concat (map pag_Forms (result_pages r))))"

lemma all_None: "map h xs = map (\<lambda>_. None) ys \<Longrightarrow> list_all (\<lambda>x. h x = None) xs"
  by (simp add: list_all_length list_eq_iff_nth_eq)

lemma media_presets:
  assumes "cs_presetMap s = []"
  shows "list_all (\<lambda>m. med_PlayerPresetID m = None) (fst (run_state (mapC (compileMediaAt cx) nodes) s))"
proof -
  have keeps: "preserves cs_presetMap (compileMediaAt cx md)" for md
    by (auto simp: compileMediaAt_def intro!: preserves_intros preserves_modifies presets.media)
  have "map med_PlayerPresetID (fst (run_state (mapC (compileMediaAt cx) nodes) s))
      = map (\<lambda>n. if md_PlayerPreset n = [] then None
          else map_option pre_Id (map_of (cs_presetMap s) (md_PlayerPreset n))) nodes"
    by (rule mapC_outputs [where g = cs_presetMap and k = "\<lambda>m n. if md_PlayerPreset n = [] then None
          else map_option pre_Id (map_of m (md_PlayerPreset n))"], rule keeps)
      (simp add: compileMediaAt_def compileMediaDecl_def split_beta preserves_run [OF presets.newObjectId]
        preserves_run [OF presets.publicID] preserves_run [OF preserves_mapC [where f = compileChapter, OF presets.media(1)]]
        preserves_run [OF preserves_mapC [where f = compileInteraction, OF presets.media(2)]]
        preserves_run [OF preserves_mapC [where f = "compileBadgeRule cx", OF presets.media(3)]])
  with assms show ?thesis by (intro all_None) (simp cong: if_cong)
qed

text \<open>
  No order bump of a funnel or a site is ever given its offer, and no medium its player
  preset, whatever the script declares: funnels and sites are compiled before the offers,
  and media before the presets, so the tables they look into are empty.
\<close>

theorem Compile_unresolved:
  "let r = fst (run_state (Compile cx sy ast) (NewCompiler oids n session)) in
   list_all (\<lambda>b. bmp_OfferID b = None) (result_bumps r)
   \<and> list_all (\<lambda>m. med_PlayerPresetID m = None) (res_MediaEntities r)"
proof -
  let ?s = "NewCompiler oids n session"
  let ?r = "fst (run_state (Compile cx sy ast) ?s)"
  have step: "preserves cs_offerMap (compilePresetAt cx pp)" "preserves cs_offerMap (compileMediaAt cx md)" for pp md
    by (auto simp: compilePresetAt_def compileMediaAt_def intro!: preserves_intros preserves_modifies offers.media)
  have "cs_offerMap (at_funnels cx sy ast ?s) = []"
    by (simp add: at_defs preserves_run [OF offers.stories] preserves_run [OF offers.precreate(1)]
        preserves_run [OF offers.precreate(2)] preserves_run [OF preserves_mapC [where f = "compilePresetAt cx", OF step(1)]]
        preserves_run [OF preserves_mapC [where f = "compileMediaAt cx", OF step(2)]] NewCompiler_def)
  then have "map (\<lambda>p. map (\<lambda>f. map bmp_OfferID (frm_OrderBumps f)) (pag_Forms p)) (result_pages ?r)
      = map (\<lambda>pg. map (\<lambda>f. map (\<lambda>_. None) (fm_OrderBumps f)) (pg_Forms pg)) (script_pages ast)"
    using page_bumps.result_view [of cx "ast_Funnels ast" "at_funnels cx sy ast ?s" "ast_Sites ast"]
    by (simp add: run_Compile result_pages_def script_pages_def at_sites_def)
  from arg_cong [OF this, of "\<lambda>x. concat (concat x)"]
  have "map bmp_OfferID (result_bumps ?r)
      = map (\<lambda>_. None) (concat (map fm_OrderBumps (concat (map pg_Forms (script_pages ast)))))"
    by (simp add: result_bumps_def map_concat comp_def)
  then have "list_all (\<lambda>b. bmp_OfferID b = None) (result_bumps ?r)" by (rule all_None)
  moreover have "cs_presetMap (at_media cx sy ?s) = []"
    by (simp add: at_media_def preserves_run [OF presets.precreate(1)] preserves_run [OF presets.precreate(2)] NewCompiler_def)
  then have "list_all (\<lambda>m. med_PlayerPresetID m = None) (res_MediaEntities ?r)"
    by (simp add: run_Compile media_presets)
  ultimately show ?thesis by (simp add: Let_def)
qed

section \<open>What the compiler reports\<close>

text \<open>The offers' products that the script does not declare.\<close>

definition missing_products :: "ScriptAST \<Rightarrow> Diagnostics" where
  "missing_products ast =
     concat (map (\<lambda>off. concat (map (\<lambda>name.
         if List.member (map pd_Name (ast_Products ast) @ map co_Name (ast_Courses ast)) name then []
         else [errorAt (off_Pos off) ''included product %q not found'' [AStr name]])
       (off_IncludedProducts off))) (ast_Offers ast))"

definition unknown_products :: "Product gomap \<Rightarrow> OfferDeclNode \<Rightarrow> Diagnostics" where
  "unknown_products m off = concat (map (\<lambda>name. if has_key name m then []
     else [errorAt (off_Pos off) ''included product %q not found'' [AStr name]]) (off_IncludedProducts off))"

lemma includeProducts_errors:
  "cs_errors (snd (run_state (foldC (includeProduct pos) ids names) s))
    = cs_errors s @ concat (map (\<lambda>name. if has_key name (cs_productMap s) then []
        else [errorAt pos ''included product %q not found'' [AStr name]]) names)
   \<and> cs_productMap (snd (run_state (foldC (includeProduct pos) ids names) s)) = cs_productMap s"
  by (induction names arbitrary: ids s)
    (auto simp: includeProduct_def split_beta has_key_def split: option.splits)

lemma compileOfferAt_errors:
  "cs_errors (snd (run_state (compileOfferAt cx off) s)) = cs_errors s @ unknown_products (cs_productMap s) off"
proof -
  let ?s = "snd (run_state (generatePublicID ''offer'') (snd (run_state newObjectId s)))"
  have "cs_errors (snd (run_state (mapC (ensureBadge cx) names) t)) = cs_errors t" for names t
    by (rule preserves_run, rule reports.offerIds)
  moreover have "cs_errors ?s = cs_errors s" "cs_productMap ?s = cs_productMap s"
    by (simp_all add: newObjectId_def generatePublicID_def Let_def)
  ultimately show ?thesis
    using includeProducts_errors [of "off_Pos off" "[]" "off_IncludedProducts off" ?s]
    by (simp add: compileOfferAt_def compileOffer_def split_beta unknown_products_def)
qed

lemma compileOfferAt_products: "preserves cs_productMap (compileOfferAt cx off)"
  by (auto simp: compileOfferAt_def intro!: preserves_intros preserves_modifies products.offer)

lemma productMap_at_offers:
  assumes "cs_productMap s = []"
  shows "has_key name (cs_productMap (at_offers cx sy ast s))
    \<longleftrightarrow> List.member (map pd_Name (ast_Products ast) @ map co_Name (ast_Courses ast)) name"
proof -
  have step: "preserves cs_productMap (compilePresetAt cx pp)" "preserves cs_productMap (compileMediaAt cx md)" for pp md
    by (auto simp: compilePresetAt_def compileMediaAt_def intro!: preserves_intros preserves_modifies products.media)
  have "cs_productMap (at_products cx sy ast s) = []"
    using assms by (simp add: at_defs preserves_run [OF products.stories] preserves_run [OF products.precreate(1)]
        preserves_run [OF products.precreate(2)]
        preserves_run [OF preserves_mapC [where f = "compilePresetAt cx", OF step(1)]]
        preserves_run [OF preserves_mapC [where f = "compileMediaAt cx", OF step(2)]]
        preserves_run [OF preserves_mapC [where f = "compileFunnel cx", OF products.funnels(2)]]
        preserves_run [OF preserves_mapC [where f = "compileSite cx", OF products.pages(4)]])
  moreover have "map_of (cs_productMap (snd (run_state (compileProductAt cx node) t)))
      = (map_of (cs_productMap t))(pd_Name node \<mapsto> fst (run_state (compileProductAt cx node) t))" for node t
    by (simp add: compileProductAt_def putProduct_def split_beta update_conv' preserves_run [OF products.products(1)])
  moreover have "map_of (cs_productMap (snd (run_state (compileCourseAt cx node) t)))
      = (map_of (cs_productMap t))(co_Name node \<mapsto> fst (run_state (compileCourseAt cx node) t))" for node t
    by (simp add: compileCourseAt_def putProduct_def split_beta update_conv' preserves_run [OF products.products(2)])
  ultimately show ?thesis
    by (auto simp: has_key_def at_offers_def at_courses_def mapC_enters [where g = cs_productMap and n = pd_Name]
        mapC_enters [where g = cs_productMap and n = co_Name] map_add_None entered_None
        simp del: not_None_eq not_Some_eq)
qed

text \<open>
  What a compilation of a script that validates reports is one error for every product an
  offer includes that no product and no course declares, in the order of the offers; in
  particular stories, funnels, sites and media are compiled without an error.
\<close>

theorem Compile_errors:
  assumes "\<not> HasErrors (snd (Validate ast))"
  shows "res_Diagnostics (fst (run_state (Compile cx sy ast) (NewCompiler oids n session))) = missing_products ast"
proof -
  let ?s = "NewCompiler oids n session"
  have step: "preserves cs_errors (compilePresetAt cx pp)" "preserves cs_errors (compileMediaAt cx md)"
    "preserves cs_errors (compileProductAt cx pd)" "preserves cs_errors (compileCourseAt cx co)" for pp md pd co
    by (auto simp: compilePresetAt_def compileMediaAt_def compileProductAt_def compileCourseAt_def putProduct_def
        intro!: preserves_intros preserves_modifies reports.media reports.products)
  have "cs_errors (at_stories cx sy ast ?s) = []"
    by (simp add: at_defs preserves_run [OF reports.precreate(1)] preserves_run [OF reports.precreate(2)]
        preserves_run [OF preserves_mapC [where f = "compilePresetAt cx", OF step(1)]]
        preserves_run [OF preserves_mapC [where f = "compileMediaAt cx", OF step(2)]] NewCompiler_def)
  moreover have "cs_errors (at_funnels cx sy ast ?s) = cs_errors (at_stories cx sy ast ?s)"
    using compileStories_valid [OF assms, of cx "at_stories cx sy ast ?s"] by (auto simp: at_funnels_def)
  ultimately have "cs_errors (at_offers cx sy ast ?s) = []"
    by (simp add: at_offers_def at_courses_def at_products_def at_sites_def
        preserves_run [OF preserves_mapC [where f = "compileProductAt cx", OF step(3)]]
        preserves_run [OF preserves_mapC [where f = "compileCourseAt cx", OF step(4)]]
        preserves_run [OF preserves_mapC [where f = "compileFunnel cx", OF reports.funnels(2)]]
        preserves_run [OF preserves_mapC [where f = "compileSite cx", OF reports.pages(4)]])
  then have "cs_errors (at_channels cx sy ast ?s)
      = concat (map (unknown_products (cs_productMap (at_offers cx sy ast ?s))) (ast_Offers ast))"
    by (simp add: at_channels_def mapC_appends [where g = cs_productMap and l = cs_errors and k = unknown_products,
          OF compileOfferAt_products compileOfferAt_errors])
  also have "\<dots> = missing_products ast"
    by (simp add: missing_products_def unknown_products_def [abs_def] productMap_at_offers NewCompiler_def)
  finally show ?thesis
    by (simp add: run_Compile at_end_def at_campaigns_def at_webhooks_def
        preserves_run [OF preserves_mapC [where f = "compileChannelDecl cx", OF reports.media(6)]]
        preserves_run [OF preserves_mapC [where f = "compileMediaWebhookDecl cx", OF reports.media(7)]]
        preserves_run [OF preserves_mapC [where f = "compileCampaign cx", OF reports.media(8)]])
qed

text \<open>A script with an offer of two products, one of them declared.\<close>

definition offer_script :: ScriptAST where
  "offer_script = two_stories\<lparr>ast_Products := [zero_ProductDeclNode\<lparr>pd_Name := ''book''\<rparr>],
     ast_Offers := [zero_OfferDeclNode\<lparr>off_Name := ''all'', off_IncludedProducts := [''book'', ''film'']\<rparr>]\<rparr>"

lemma offer_script_valid: "\<not> HasErrors (snd (Validate offer_script))"
  by code_simp

lemma Compile_errors_witness:
  "res_Diagnostics (fst (run_state (Compile demo_context newSymbolTable offer_script) (NewCompiler 1 0 ''x'')))
    = [errorAt zero_Pos ''included product %q not found'' [AStr ''film'']]"
  unfolding Compile_errors [OF offer_script_valid] by code_simp

section \<open>When the compiler stops\<close>

text \<open>The computation stops if it was to stop before or if \<open>Q\<close>.\<close>

definition stops :: "bool \<Rightarrow> 'a compiler \<Rightarrow> bool" where
  "stops Q m \<longleftrightarrow> (\<forall>s. cs_panicked (snd (run_state m s)) \<longleftrightarrow> cs_panicked s \<or> Q)"

lemma stops_run: "stops Q m \<Longrightarrow> cs_panicked (snd (run_state m s)) \<longleftrightarrow> cs_panicked s \<or> Q"
  by (simp add: stops_def)

lemma stops_not: "preserves cs_panicked m \<Longrightarrow> stops False m"
  by (simp add: stops_def preserves_def)

lemma stops_bind: "stops Q m \<Longrightarrow> (\<And>x. stops R (k x)) \<Longrightarrow> stops (Q \<or> R) (m \<bind> k)"
  by (auto simp: stops_def split_beta)

lemma stops_mapC: "(\<And>x. stops (Q x) (f x)) \<Longrightarrow> stops (list_ex Q xs) (mapC f xs)"
proof (induction xs)
  case Nil
  show ?case by (simp add: stops_def)
next
  case (Cons x xs)
  then show ?case by (simp add: stops_def mapC_Cons split_beta)
qed

lemma stops_foldC: "(\<And>b x. stops (Q x) (f b x)) \<Longrightarrow> stops (list_ex Q xs) (foldC f b xs)"
  by (induction xs arbitrary: b) (auto simp: stops_def split_beta)

lemma stops_numberedC: "(\<And>i x. stops (Q x) (f i x)) \<Longrightarrow> stops (list_ex Q xs) (numberedC f xs)"
proof -
  assume "\<And>i x. stops (Q x) (f i x)"
  then have "stops (list_ex (\<lambda>(i, x). Q x) (zip [0..<length xs] xs)) (numberedC f xs)"
    unfolding numberedC_def by (intro stops_mapC) (auto split: prod.splits)
  moreover have "list_ex (\<lambda>(i, x). Q x) (zip [0..<length xs] xs) = list_ex Q xs"
    by (auto simp: list_ex_length)
  ultimately show ?thesis by simp
qed

text \<open>The actions that look up an enactment of the story they are in.\<close>

definition is_jump :: "ActionNode \<Rightarrow> bool" where
  "is_jump an \<longleftrightarrow> List.member [''jump_to_enactment'', ''next_enactment'', ''loop_to_enactment''] (ac_ActionType an)"

definition trigger_jumps :: "TriggerNode \<Rightarrow> bool" where
  "trigger_jumps tr \<longleftrightarrow> list_ex is_jump (tr_Actions tr) \<or> list_ex is_jump (elseActions tr)"

definition funnel_jumps :: "FunnelNode \<Rightarrow> bool" where
  "funnel_jumps f \<longleftrightarrow> list_ex (\<lambda>r. list_ex (\<lambda>sg. list_ex trigger_jumps (sg_Triggers sg)) (rt_Stages r)) (fn_Routes f)"

lemma stops_actionCase: "stops (is_jump an) (compileActionCase cx None an a)"
proof (cases "is_jump an")
  case True
  then show ?thesis
    by (auto simp: is_jump_def compileActionCase_def panic_def stops_def)
next
  case False
  have "preserves cs_panicked (compileActionCase cx None an a)"
    using False by (auto simp: is_jump_def compileActionCase_def Let_def intro!: preserves_intros panicked.badgeTransactions
        split: option.splits)
  with False show ?thesis by (auto intro: stops_not)
qed

lemma stops_actions: "stops (list_ex is_jump ans) (compileActions cx None ans)"
proof -
  have "stops (is_jump an) (compileAction cx None a an)" for a an
    using stops_bind [OF stops_actionCase stops_not [OF panicked.actionRest]] by (simp add: compileAction_def)
  then have "stops (list_ex is_jump ans) (foldC (compileAction cx None) a0 ans)" for a0 by (rule stops_foldC)
  moreover have "preserves cs_panicked (newAction cx)"
    by (auto simp: newAction_def intro!: preserves_intros panicked.newObjectId panicked.publicID)
  ultimately show ?thesis
    by (auto simp: compileActions_def stops_def preserves_def split_beta)
qed

lemma stops_trigger: "stops (trigger_jumps tr) (compileTrigger cx None tr)"
proof -
  have new: "preserves cs_panicked (newTrigger cx a b c)" for a b c
    by (auto simp: newTrigger_def intro!: preserves_intros panicked.newObjectId panicked.publicID)
  have "stops (list_ex is_jump (tr_Actions tr)) (compileMainTrigger cx None tr)"
    unfolding compileMainTrigger_def stops_def split_beta
    by (simp add: split_beta Let_def stops_run [OF stops_actions] preserves_run [OF new]
        preserves_run [OF panicked.requiredBadges(3)] preserves_run [OF preserves_foldC [OF panicked.conditions]])
  moreover have "stops (list_ex is_jump (elseActions tr)) (compileElseTrigger cx None tr)"
    unfolding compileElseTrigger_def stops_def split_beta
    by (simp add: split_beta stops_run [OF stops_actions] preserves_run [OF new])
  ultimately show ?thesis
    by (auto simp: compileTrigger_def trigger_jumps_def stops_def split_beta)
qed

interpretation panicked_catalog: quiet_relation "\<lambda>s s'. cs_panicked s' = cs_panicked s" cx for cx by unfold_locales simp_all

lemma stops_stage: "stops (list_ex trigger_jumps (sg_Triggers sg)) (compileStageAt cx f r i sg)"
proof -
  have "preserves cs_panicked (mapC (compilePage cx) ps)" "preserves cs_panicked (mapC (compileLeadMagnet cx pid) lms)" for ps pid lms
    by (auto intro!: preserves_intros panicked_catalog.pages panicked_catalog.leadMagnet)
  then show ?thesis
    by (simp add: stops_def compileStageAt_def compileStage_def split_beta preserves_run
        stops_run [OF stops_mapC [OF stops_trigger]] preserves_run [OF panicked.newObjectId] preserves_run [OF panicked.publicID])
qed

lemma stops_funnel: "stops (funnel_jumps f) (compileFunnel cx f)"
proof -
  have "stops (list_ex (\<lambda>sg. list_ex trigger_jumps (sg_Triggers sg)) (rt_Stages r)) (compileRoute cx fname i r)" for fname i r
    by (simp add: stops_def compileRoute_def split_beta preserves_run [OF panicked.requiredBadges(3)]
        stops_run [OF stops_numberedC [OF stops_stage]] preserves_run [OF panicked.newObjectId] preserves_run [OF panicked.publicID])
  from stops_numberedC [where f = "compileRoute cx (fn_Name f)" and xs = "fn_Routes f", OF this] show ?thesis
    by (simp add: stops_def compileFunnel_def funnel_jumps_def split_beta Let_def preserves_run [OF panicked.newObjectId]
        preserves_run [OF panicked.publicID])
qed

text \<open>A funnel with a trigger that jumps to an enactment.\<close>

definition jumping_funnel :: ScriptAST where
  "jumping_funnel = zero_ScriptAST\<lparr>ast_Funnels := [zero_FunnelNode\<lparr>fn_Name := ''f'', fn_Domain := ''d'',
     fn_Routes := [zero_RouteNode\<lparr>rt_Name := ''r'', rt_Stages := [zero_StageNode\<lparr>sg_Name := ''s'', sg_Path := ''/'',
       sg_Pages := [zero_PageNode\<lparr>pg_Name := ''p''\<rparr>],
       sg_Triggers := [zero_TriggerNode\<lparr>tr_TriggerType := ''submit'',
         tr_Actions := [simple_action ''jump_to_enactment'' ''E'']\<rparr>]\<rparr>]\<rparr>]\<rparr>]\<rparr>"

lemma jumping_funnel_valid: "\<not> HasErrors (snd (Validate jumping_funnel)) \<and> list_ex funnel_jumps (ast_Funnels jumping_funnel)"
  by code_simp

text \<open>
  The compiler stops with a nil dereference exactly on the scripts with a jump or a loop to
  an enactment among the actions of a trigger of a funnel stage, which the validator lets
  through: a stage has no story to look the enactment up in.
\<close>

theorem Compile_stops:
  "cs_panicked (snd (run_state (Compile cx sy ast) (NewCompiler oids n session)))
    \<longleftrightarrow> list_ex funnel_jumps (ast_Funnels ast)"
proof -
  let ?s = "NewCompiler oids n session"
  have step: "preserves cs_panicked (compilePresetAt cx pp)" "preserves cs_panicked (compileMediaAt cx md)"
    "preserves cs_panicked (compileProductAt cx pd)" "preserves cs_panicked (compileCourseAt cx co)"
    "preserves cs_panicked (compileOfferAt cx off)" for pp md pd co off
    by (auto simp: compilePresetAt_def compileMediaAt_def compileProductAt_def compileCourseAt_def compileOfferAt_def
        putProduct_def intro!: preserves_intros preserves_modifies panicked_catalog.media panicked_catalog.products
        panicked_catalog.offer)
  have "\<not> cs_panicked (at_funnels cx sy ast ?s)"
    by (simp add: at_defs preserves_run [OF panicked_catalog.stories] preserves_run [OF panicked_catalog.precreate(1)]
        preserves_run [OF panicked_catalog.precreate(2)]
        preserves_run [OF preserves_mapC [where f = "compilePresetAt cx", OF step(1)]]
        preserves_run [OF preserves_mapC [where f = "compileMediaAt cx", OF step(2)]] NewCompiler_def)
  then have "cs_panicked (at_sites cx sy ast ?s) \<longleftrightarrow> list_ex funnel_jumps (ast_Funnels ast)"
    by (simp add: at_sites_def stops_run [OF stops_mapC [where f = "compileFunnel cx", OF stops_funnel]])
  then show ?thesis
    by (simp add: run_Compile at_end_def at_campaigns_def at_webhooks_def at_channels_def at_offers_def at_courses_def
        at_products_def
        preserves_run [OF preserves_mapC [where f = "compileSite cx", OF panicked_catalog.pages(4)]]
        preserves_run [OF preserves_mapC [where f = "compileProductAt cx", OF step(3)]]
        preserves_run [OF preserves_mapC [where f = "compileCourseAt cx", OF step(4)]]
        preserves_run [OF preserves_mapC [where f = "compileOfferAt cx", OF step(5)]]
        preserves_run [OF preserves_mapC [where f = "compileChannelDecl cx", OF panicked_catalog.media(6)]]
        preserves_run [OF preserves_mapC [where f = "compileMediaWebhookDecl cx", OF panicked_catalog.media(7)]]
        preserves_run [OF preserves_mapC [where f = "compileCampaign cx", OF panicked_catalog.media(8)]])
qed

end
