(* ===== verification/ParserBase.thy ===== *)
theory ParserBase
  imports Ast Diagnostics "HOL-Library.State_Monad" "HOL-Library.While_Combinator"
begin

text \<open>
  The machinery of the parser (\<open>src/scripting/parser.go\<close>): the struct \<open>Parser\<close>, the
  helpers that look at and consume tokens, and the forms of control its methods use. A
  method is a computation in the state monad over the struct; a Go loop is a while loop on
  the state. A loop that never ends sets \<open>ps_hung\<close>, which stops every loop around it, and
  nothing is claimed about a run that sets it except that the code does not return.
\<close>

section \<open>The state\<close>

record Parser =
  ps_tokens :: "Token list"
  ps_pos :: nat
  ps_errors :: Diagnostics
  ps_hung :: bool

type_synonym 'a parser = "(Parser, 'a) state"

definition NewParser :: "Token list \<Rightarrow> Parser" where
  "NewParser tokens = \<lparr>ps_tokens = tokens, ps_pos = 0, ps_errors = [], ps_hung = False\<rparr>"

definition retP :: "'a \<Rightarrow> 'a parser" where
  "retP x = State (\<lambda>p. (x, p))"

definition getsP :: "(Parser \<Rightarrow> 'a) \<Rightarrow> 'a parser" where
  "getsP f = State (\<lambda>p. (f p, p))"

text \<open>The token \<open>p.cur()\<close>; past the end a token EOF without a position.\<close>

definition cur :: "Parser \<Rightarrow> Token" where
  "cur p =
     (if ps_pos p \<ge> length (ps_tokens p) then \<lparr>Kind = TokEOF, Literal = [], tok_Pos = zero_Pos\<rparr>
      else ps_tokens p ! ps_pos p)"

definition atEnd :: "Parser \<Rightarrow> bool" where
  "atEnd p \<longleftrightarrow> ps_pos p \<ge> length (ps_tokens p) \<or> Kind (ps_tokens p ! ps_pos p) = TokEOF"

text \<open>\<open>p.check(kinds...)\<close>\<close>

definition at :: "TokenKind list \<Rightarrow> Parser \<Rightarrow> bool" where
  "at kinds p \<longleftrightarrow> List.member kinds (Kind (cur p))"

definition at_literal :: "string \<Rightarrow> Parser \<Rightarrow> bool" where
  "at_literal s p \<longleftrightarrow> Literal (cur p) = s"

definition curTok :: "Token parser" where "curTok = getsP cur"

definition curPosP :: "Pos parser" where "curPosP = getsP (\<lambda>p. tok_Pos (cur p))"

definition curLiteral :: "string parser" where "curLiteral = getsP (\<lambda>p. Literal (cur p))"

definition advanceP :: "Token parser" where
  "advanceP = State (\<lambda>p. (cur p, if atEnd p then p else p\<lparr>ps_pos := ps_pos p + 1\<rparr>))"

definition advanceLiteral :: "string parser" where
  "advanceLiteral = do { tok \<leftarrow> advanceP; retP (Literal tok) }"

text \<open>\<open>p.errorf\<close>; the arguments are read off the current token.\<close>

definition errorfP :: "string \<Rightarrow> (Token \<Rightarrow> arg list) \<Rightarrow> unit parser" where
  "errorfP fmt args = State (\<lambda>p.
     ((), p\<lparr>ps_errors := ps_errors p @ [errorAt (tok_Pos (cur p)) fmt (args (cur p))]\<rparr>))"

section \<open>Control\<close>

text \<open>A \<open>switch\<close> on the current token, or a chain of \<open>if\<close> and \<open>else if\<close>.\<close>

primrec branch :: "((Parser \<Rightarrow> bool) \<times> 'a parser) list \<Rightarrow> 'a parser \<Rightarrow> 'a parser" where
  "branch [] d = d"
| "branch (c # cs) d = State (\<lambda>p. if fst c p then run_state (snd c) p else run_state (branch cs d) p)"

text \<open>\<open>for c { body }\<close>, where the body updates \<open>x\<close>.\<close>

definition forP :: "('a \<Rightarrow> Parser \<Rightarrow> bool) \<Rightarrow> ('a \<Rightarrow> 'a parser) \<Rightarrow> 'a \<Rightarrow> 'a parser" where
  "forP c body x = State (\<lambda>p.
     (case while_option (\<lambda>(x, p). \<not> ps_hung p \<and> c x p) (\<lambda>(x, p). run_state (body x) p) (x, p) of
        Some r \<Rightarrow> r
      | None \<Rightarrow> (x, p\<lparr>ps_hung := True\<rparr>)))"

text \<open>\<open>for !p.check(kind) && !p.atEnd() { body }\<close>\<close>

definition untilP :: "TokenKind \<Rightarrow> ('a \<Rightarrow> 'a parser) \<Rightarrow> 'a \<Rightarrow> 'a parser" where
  "untilP kind body x = forP (\<lambda>_ p. \<not> at [kind] p \<and> \<not> atEnd p) body x"

text \<open>\<open>if p.check(kinds...) { p.advance() }\<close>\<close>

definition optionally :: "TokenKind list \<Rightarrow> unit parser" where
  "optionally kinds = branch [(at kinds, do { advanceP; retP () })] (retP ())"

text \<open>The default of a \<open>switch\<close>: report the token and skip it.\<close>

definition unexpected :: "string \<Rightarrow> 'a \<Rightarrow> 'a parser" where
  "unexpected fmt x = do { errorfP fmt (\<lambda>t. [AKind (Kind t)]); advanceP; retP x }"

text \<open>
  A method that calls itself: unfolded once more than there are tokens left, after which
  the state is marked. The marking is never reached (\<open>returns_recP\<close> below).
\<close>

definition hang :: "'a \<Rightarrow> 'a parser" where
  "hang x = State (\<lambda>p. (x, p\<lparr>ps_hung := True\<rparr>))"

primrec nest :: "('a option parser \<Rightarrow> 'a option parser) \<Rightarrow> nat \<Rightarrow> 'a option parser" where
  "nest F 0 = hang None"
| "nest F (Suc n) = F (nest F n)"

definition tokens_left :: "Parser \<Rightarrow> nat" where
  "tokens_left p = length (ps_tokens p) - ps_pos p"

definition recP :: "('a option parser \<Rightarrow> 'a option parser) \<Rightarrow> 'a option parser" where
  "recP F = do { n \<leftarrow> getsP tokens_left; nest F (Suc n) }"

definition opt_list :: "'a option \<Rightarrow> 'a list" where
  "opt_list x = (case x of None \<Rightarrow> [] | Some y \<Rightarrow> [y])"

text \<open>\<open>if x == nil { x = &new }\<close>\<close>

definition orNew :: "'a \<Rightarrow> 'a option \<Rightarrow> 'a option" where
  "orNew new x = Some (case x of None \<Rightarrow> new | Some y \<Rightarrow> y)"

section \<open>Tokens as values\<close>

definition expect :: "TokenKind \<Rightarrow> Token parser" where
  "expect kind = branch
     [((\<lambda>p. Kind (cur p) \<noteq> kind), do {
         errorfP ''expected %s, got %s (%q)'' (\<lambda>t. [AKind kind, AKind (Kind t), AStr (Literal t)]);
         pos \<leftarrow> curPosP;
         retP \<lparr>Kind = TokIllegal, Literal = [], tok_Pos = pos\<rparr> })]
     advanceP"

definition expectString :: "string parser" where
  "expectString = do { tok \<leftarrow> expect TokString; retP (Literal tok) }"

text \<open>
  The value of \<open>strconv.Atoi\<close> also when there is an error: on a value out of range it is the
  largest or smallest \<open>int\<close>.
\<close>

definition atoi_value :: "string \<Rightarrow> int" where
  "atoi_value s =
     (case atoi s of
        Some v \<Rightarrow> v
      | None \<Rightarrow>
          (case s of
             [] \<Rightarrow> 0
           | c # t \<Rightarrow>
               (let ds = (if c = CHR ''-'' \<or> c = CHR ''+'' then t else s) in
                if ds = [] \<or> \<not> list_all ascii_digit ds then 0
                else if c = CHR ''-'' then - (2 ^ 63) else 2 ^ 63 - 1)))"

definition expectInt :: "int parser" where
  "expectInt = do {
     tok \<leftarrow> expect TokInt;
     branch [((\<lambda>_. atoi (Literal tok) = None), errorfP ''invalid integer %q'' (\<lambda>_. [AStr (Literal tok)]))]
       (retP ());
     retP (atoi_value (Literal tok)) }"

definition expectFloat :: "float64 parser" where
  "expectFloat = do {
     tok \<leftarrow> expect TokFloat;
     branch [((\<lambda>_. \<not> snd (ParseFloat (Literal tok))), errorfP ''invalid float %q'' (\<lambda>_. [AStr (Literal tok)]))]
       (retP ());
     retP (fst (ParseFloat (Literal tok))) }"

definition expectBool :: "bool parser" where
  "expectBool = do {
     tok \<leftarrow> curTok;
     branch
       [((\<lambda>_. Kind tok = TokBool \<or> Kind tok = TokTrue \<or> Kind tok = TokFalse), do {
           advanceP;
           retP (Literal tok = ''true'') })]
       (do {
          errorfP ''expected boolean, got %s'' (\<lambda>_. [AKind (Kind tok)]);
          advanceP;
          retP False }) }"

text \<open>The keywords that may be used as names.\<close>

definition ident_like_kinds :: "TokenKind list" where
  "ident_like_kinds = [
    TokName, TokLinks, TokBody, TokSubject, TokOrder, TokLevel, TokPriority, TokMessage,
    TokTemplate, TokEmail, TokRoute, TokBadge, TokScene, TokTags, TokVars, TokData, TokDomain,
    TokField, TokType, TokPage, TokBlock, TokForm, TokStage, TokPath, TokLength, TokPrompt,
    TokRequired, TokNew, TokPdf, TokLeadMagnet, TokReference, TokContext, TokGlobal,
    TokExtend, TokFunnel, TokProduct, TokOffer, TokPrice, TokCurrency, TokQuestion, TokAnswer,
    TokQuiz, TokScore, TokCustom, TokSite, TokSEO, TokNavigation, TokHeader, TokFooter,
    TokTheme, TokTitle, TokDescription, TokModule, TokLesson, TokVideoURL, TokContent,
    TokDraft, TokInstructor, TokLMSDuration, TokIsFree, TokIsDraft, TokDripDays, TokDripHours,
    TokDripMinutes, TokContentGen, TokDescriptionGen, TokPassThreshold, TokMaxAttempts,
    TokOptions, TokMultipleChoice, TokShortAnswer, TokCertificate, TokCourseRef, TokCourse,
    TokDurationKw, TokAudience, TokOutcome, TokTone, TokDefaultMedia, TokMedia,
    TokPlayerPreset, TokChannel, TokChapter, TokTurnstile, TokCTA, TokAnnotation,
    TokBadgeRule, TokMediaWebhook, TokMediaRef, TokStartSec, TokEndSec, TokThreshold,
    TokOperator, TokEnabled, TokProgress, TokComplete, TokPlay, TokPause, TokRewatch,
    TokPosterURL, TokPlayerColor]"

definition isIdentLike :: "Parser \<Rightarrow> bool" where
  "isIdentLike p \<longleftrightarrow> Kind (cur p) = TokIdent \<or> List.member ident_like_kinds (Kind (cur p))"

definition advanceIdentLike :: "string parser" where
  "advanceIdentLike = do { tok \<leftarrow> advanceP; retP (Literal tok) }"

definition expectStringOrIdent :: "string parser" where
  "expectStringOrIdent = branch
     [(at [TokString], expectString),
      (isIdentLike, advanceIdentLike)]
     (unexpected ''expected string or identifier, got %s'' [])"

definition parseTriggerActionRef :: "string parser" where
  "parseTriggerActionRef = do {
     name \<leftarrow> advanceLiteral;
     branch
       [(at [TokDot], do {
           advanceP;
           branch
             [((\<lambda>p. at [TokIdent] p \<or> isIdentLike p), do { field \<leftarrow> advanceLiteral; retP (name @ ''.'' @ field) })]
             (do { errorfP ''expected field name after '.', got %s'' (\<lambda>t. [AKind (Kind t)]); retP name }) })]
       (retP name) }"

text \<open>\<open>parseBool\<close>: a missing value is true.\<close>

definition parseBool :: "bool parser" where
  "parseBool = branch
     [(at [TokBool], do { val \<leftarrow> curLiteral; advanceP; retP (val = ''true'') }),
      (at [TokTrue], do { advanceP; retP True }),
      (at [TokFalse], do { advanceP; retP False })]
     (retP True)"

end
