(* ===== verification/ParserRules.thy ===== *)
theory ParserRules
  imports ParserBase
begin

text \<open>
  How a parser moves. \<open>runs\<close> says that a computation returns, only appends to the errors and
  never moves the cursor back; \<open>eats\<close> says that it also consumes a token. The two have a rule
  for every form of control, so that a method is shown to return by following its text: a
  loop returns when every round eats. The number bounds the tokens left, which is what a
  method that calls itself needs.
\<close>

named_theorems parser_rules

section \<open>Where string lists are safe\<close>

text \<open>
  The loops over the elements of a list consume the kinds of tokens they expect and stop at
  the closing token or at the end. \<open>skips_to\<close> says that one of these two comes next behind
  the tokens such a loop consumes.
\<close>

definition skips_to :: "(Token \<Rightarrow> bool) \<Rightarrow> TokenKind \<Rightarrow> Token list \<Rightarrow> bool" where
  "skips_to eat stop ts =
     (case dropWhile eat ts of [] \<Rightarrow> True | t # _ \<Rightarrow> Kind t = stop \<or> Kind t = TokEOF)"

definition list_token :: "Token \<Rightarrow> bool" where
  "list_token t \<longleftrightarrow> Kind t = TokString \<or> Kind t = TokComma"

definition nav_token :: "Token \<Rightarrow> bool" where
  "nav_token t \<longleftrightarrow> Kind t = TokString \<or> Kind t = TokEquals \<or> Kind t = TokComma"

abbreviation list_closed :: "Token list \<Rightarrow> bool" where
  "list_closed \<equiv> skips_to list_token TokRBracket"

abbreviation nav_closed :: "Token list \<Rightarrow> bool" where
  "nav_closed \<equiv> skips_to nav_token TokRBrace"

text \<open>The tokens behind an optional first one.\<close>

definition skip_one :: "TokenKind \<Rightarrow> Token list \<Rightarrow> Token list" where
  "skip_one kind ts = (case ts of [] \<Rightarrow> [] | t # us \<Rightarrow> if Kind t = kind then us else ts)"

definition list_ready :: "Token list \<Rightarrow> bool" where
  "list_ready ts = list_closed (skip_one TokLBracket ts)"

definition single_or_list_ready :: "Token list \<Rightarrow> bool" where
  "single_or_list_ready ts =
     (case ts of [] \<Rightarrow> True | t # us \<Rightarrow> Kind t = TokLBracket \<longrightarrow> list_closed us)"

definition nav_ready :: "Token list \<Rightarrow> bool" where
  "nav_ready ts = nav_closed (skip_one TokLBrace ts)"

text \<open>What may follow the tokens behind which the parser reads a list.\<close>

definition ready_after :: "Token \<Rightarrow> Token list \<Rightarrow> bool" where
  "ready_after t ts \<longleftrightarrow>
     (List.member [TokTags, TokOptions, TokReference] (Kind t)
        \<or> Kind t = TokIdent \<and> Literal t = ''references'' \<longrightarrow> list_ready ts)
     \<and> (List.member [TokMustHave, TokMustNotHave] (Kind t) \<longrightarrow> single_or_list_ready ts)
     \<and> (List.member [TokHeader, TokFooter] (Kind t) \<longrightarrow> nav_ready ts)"

primrec lists_ok :: "Token list \<Rightarrow> bool" where
  "lists_ok [] \<longleftrightarrow> True"
| "lists_ok (t # ts) \<longleftrightarrow> ready_after t ts \<and> lists_ok ts"

lemma lists_ok_nth: "lists_ok ts \<Longrightarrow> i < length ts \<Longrightarrow> ready_after (ts ! i) (drop (Suc i) ts)"
  by (induction ts arbitrary: i) (auto simp: nth_Cons split: nat.splits)

section \<open>The two judgements\<close>

definition rest :: "Parser \<Rightarrow> Token list" where
  "rest p = drop (ps_pos p) (ps_tokens p)"

definition live :: "Parser \<Rightarrow> bool" where
  "live p \<longleftrightarrow> \<not> ps_hung p \<and> ps_pos p \<le> length (ps_tokens p)"

definition ok :: "Parser \<Rightarrow> bool" where
  "ok p \<longleftrightarrow> \<not> ps_hung p \<and> lists_ok (ps_tokens p) \<and> ps_pos p \<le> length (ps_tokens p)"

lemma ok_iff: "ok p \<longleftrightarrow> live p \<and> lists_ok (ps_tokens p)"
  by (auto simp: ok_def live_def)

definition grows :: "Parser \<Rightarrow> Parser \<Rightarrow> bool" where
  "grows p p' \<longleftrightarrow> ps_tokens p' = ps_tokens p \<and> ps_pos p \<le> ps_pos p'
     \<and> (\<exists>ds. ps_errors p' = ps_errors p @ ds \<and> all_errors ds)"

definition runs :: "nat \<Rightarrow> (Parser \<Rightarrow> bool) \<Rightarrow> 'a parser \<Rightarrow> bool" where
  "runs n t m \<longleftrightarrow> (\<forall>p. ok p \<longrightarrow> tokens_left p \<le> n \<longrightarrow> t p \<longrightarrow>
     ok (snd (run_state m p)) \<and> grows p (snd (run_state m p)))"

definition eats :: "nat \<Rightarrow> (Parser \<Rightarrow> bool) \<Rightarrow> 'a parser \<Rightarrow> bool" where
  "eats n t m \<longleftrightarrow> (\<forall>p. ok p \<longrightarrow> tokens_left p \<le> n \<longrightarrow> t p \<longrightarrow> \<not> atEnd p \<longrightarrow>
     ok (snd (run_state m p)) \<and> grows p (snd (run_state m p)) \<and> ps_pos p < ps_pos (snd (run_state m p)))"

lemma grows_refl [simp]: "grows p p"
  by (simp add: grows_def)

lemma grows_trans: "grows p q \<Longrightarrow> grows q r \<Longrightarrow> grows p r"
  by (force simp: grows_def)

lemma atEnd_cong: "ps_tokens q = ps_tokens p \<Longrightarrow> ps_pos q = ps_pos p \<Longrightarrow> atEnd q = atEnd p"
  by (simp add: atEnd_def)

lemma not_atEnd: "\<not> atEnd p \<Longrightarrow> ps_pos p < length (ps_tokens p) \<and> Kind (cur p) \<noteq> TokEOF"
  by (simp add: atEnd_def cur_def)

lemma atEnd_iff: "atEnd p \<longleftrightarrow> Kind (cur p) = TokEOF"
  by (auto simp: atEnd_def cur_def)

lemma run_bindP: "run_state (m \<bind> f) p = run_state (f (fst (run_state m p))) (snd (run_state m p))"
  by (simp add: split_beta)

lemma left_less: "grows p q \<Longrightarrow> ps_pos p < ps_pos q \<Longrightarrow> tokens_left p \<le> n \<Longrightarrow> tokens_left q \<le> n - 1"
  by (auto simp: grows_def tokens_left_def)

lemma left_le: "grows p q \<Longrightarrow> tokens_left p \<le> n \<Longrightarrow> tokens_left q \<le> n"
  by (auto simp: grows_def tokens_left_def)

lemma runs_mono: "runs n t m \<Longrightarrow> k \<le> n \<Longrightarrow> runs k t m"
  by (auto simp: runs_def)

lemma eats_mono: "eats n t m \<Longrightarrow> k \<le> n \<Longrightarrow> eats k t m"
  by (auto simp: eats_def)

lemma eats_0: "eats 0 t m"
  by (auto simp: eats_def tokens_left_def atEnd_def ok_def)

section \<open>Basic operations\<close>

lemma run_retP [simp]: "run_state (retP x) p = (x, p)"
  by (simp add: retP_def)

lemma run_getsP [simp]: "run_state (getsP f) p = (f p, p)"
  by (simp add: getsP_def)

lemma run_cur [simp]:
  "run_state curTok p = (cur p, p)" "run_state curPosP p = (tok_Pos (cur p), p)"
  "run_state curLiteral p = (Literal (cur p), p)"
  by (simp_all add: curTok_def curPosP_def curLiteral_def)

lemma run_advanceP: "run_state advanceP p = (cur p, if atEnd p then p else p\<lparr>ps_pos := ps_pos p + 1\<rparr>)"
  by (simp add: advanceP_def)

lemma run_advanceLiteral: "run_state advanceLiteral p = (Literal (cur p), snd (run_state advanceP p))"
  by (simp add: advanceLiteral_def run_advanceP)

lemma run_errorfP: "run_state (errorfP fmt args) p
  = ((), p\<lparr>ps_errors := ps_errors p @ [errorAt (tok_Pos (cur p)) fmt (args (cur p))]\<rparr>)"
  by (simp add: errorfP_def)

lemma runs_retP [parser_rules]: "runs n t (retP x)"
  by (simp add: runs_def)

lemma runs_getsP [parser_rules]: "runs n t (getsP f)"
  by (simp add: runs_def)

lemma runs_cur [parser_rules]: "runs n t curTok" "runs n t curPosP" "runs n t curLiteral"
  by (simp_all add: runs_def)

lemma runs_advanceP [parser_rules]: "runs n t advanceP"
  by (auto simp: runs_def run_advanceP grows_def ok_def atEnd_def)

lemma eats_advanceP [parser_rules]: "eats n t advanceP"
  by (auto simp: eats_def run_advanceP grows_def ok_def atEnd_def)

lemma runs_errorfP [parser_rules]: "runs n t (errorfP fmt args)"
  by (auto simp: runs_def run_errorfP grows_def ok_def)

section \<open>Sequencing\<close>

lemma runs_bind:
  assumes "runs n t m" and "\<And>x. runs n (\<lambda>_. True) (f x)"
  shows "runs n t (m \<bind> f)"
  unfolding runs_def
proof (intro allI impI)
  fix p assume p: "ok p" "tokens_left p \<le> n" "t p"
  let ?q = "snd (run_state m p)" and ?r = "snd (run_state (m \<bind> f) p)"
  have q: "ok ?q" "grows p ?q" using assms(1) p by (auto simp: runs_def)
  with p left_le have "tokens_left ?q \<le> n" by blast
  with q assms(2) have "ok ?r" "grows ?q ?r" unfolding runs_def run_bindP by blast+
  with q grows_trans show "ok ?r \<and> grows p ?r" by blast
qed

lemma eats_bind:
  assumes "eats n t m" and "\<And>x. runs (n - 1) (\<lambda>_. True) (f x)"
  shows "eats n t (m \<bind> f)"
  unfolding eats_def
proof (intro allI impI)
  fix p assume p: "ok p" "tokens_left p \<le> n" "t p" "\<not> atEnd p"
  let ?q = "snd (run_state m p)"
  have q: "ok ?q" "grows p ?q" "ps_pos p < ps_pos ?q" using assms(1) p by (auto simp: eats_def)
  with p left_less have "tokens_left ?q \<le> n - 1" by blast
  with q assms(2) have "ok (snd (run_state (m \<bind> f) p)) \<and> grows ?q (snd (run_state (m \<bind> f) p))"
    unfolding runs_def run_bindP by blast
  with q grows_trans show "ok (snd (run_state (m \<bind> f) p)) \<and> grows p (snd (run_state (m \<bind> f) p))
      \<and> ps_pos p < ps_pos (snd (run_state (m \<bind> f) p))"
    by (force simp: grows_def)
qed

text \<open>A first part that may leave the state alone.\<close>

lemma eats_bind_second:
  assumes "runs n t m" and "\<And>x. eats n (\<lambda>_. True) (f x)" and "\<And>x. runs n (\<lambda>_. True) (f x)"
  shows "eats n t (m \<bind> f)"
  unfolding eats_def
proof (intro allI impI)
  fix p assume p: "ok p" "tokens_left p \<le> n" "t p" "\<not> atEnd p"
  let ?q = "snd (run_state m p)" and ?r = "snd (run_state (m \<bind> f) p)"
  have q: "ok ?q" "grows p ?q" using assms(1) p by (auto simp: runs_def)
  with p left_le have l: "tokens_left ?q \<le> n" by blast
  with q assms(3) have r: "ok ?r" "grows ?q ?r" unfolding runs_def run_bindP by blast+
  moreover have "ps_pos p < ps_pos ?r"
  proof (cases "ps_pos p < ps_pos ?q")
    case True
    with r(2) show ?thesis by (auto simp: grows_def)
  next
    case False
    with q(2) have "ps_pos ?q = ps_pos p" "ps_tokens ?q = ps_tokens p" by (auto simp: grows_def)
    then have "\<not> atEnd ?q" using p(4) atEnd_cong by metis
    with q(1) l assms(2) have "ps_pos ?q < ps_pos ?r" unfolding eats_def run_bindP by blast
    with q(2) show ?thesis by (auto simp: grows_def)
  qed
  ultimately show "ok ?r \<and> grows p ?r \<and> ps_pos p < ps_pos ?r" using q(2) grows_trans by blast
qed

lemma eats_bind_gets:
  "(\<And>x. eats n t (f x)) \<Longrightarrow> eats n t (curPosP \<bind> f)"
  "(\<And>x. eats n t (g x)) \<Longrightarrow> eats n t (curTok \<bind> g)"
  "(\<And>x. eats n (\<lambda>p. t p \<and> Literal (cur p) = x) (h x)) \<Longrightarrow> eats n t (curLiteral \<bind> h)"
  by (auto simp: eats_def run_bindP simp del: run_state_bind)

lemma runs_Let [parser_rules]: "runs n t (f e) \<Longrightarrow> runs n t (Let e f)"
  by simp

lemma eats_Let [parser_rules]: "eats n t (f e) \<Longrightarrow> eats n t (Let e f)"
  by simp

lemma runs_option [parser_rules]:
  "runs n t a \<Longrightarrow> (\<And>x. runs n t (b x)) \<Longrightarrow> runs n t (case r of None \<Rightarrow> a | Some x \<Rightarrow> b x)"
  by (cases r) auto

lemma runs_prod [parser_rules]: "(\<And>a b. runs n t (f a b)) \<Longrightarrow> runs n t (case r of (a, b) \<Rightarrow> f a b)"
  by (cases r) auto

lemma eats_prod [parser_rules]: "(\<And>a b. eats n t (f a b)) \<Longrightarrow> eats n t (case r of (a, b) \<Rightarrow> f a b)"
  by (cases r) auto

section \<open>Branches and loops\<close>

lemma runs_branch [parser_rules]:
  "runs n t d \<Longrightarrow> runs n t (branch [] d)"
  "runs n (\<lambda>p. t p \<and> c p) m \<Longrightarrow> runs n t (branch cs d) \<Longrightarrow> runs n t (branch ((c, m) # cs) d)"
  by (auto simp: runs_def)

lemma eats_branch [parser_rules]:
  "eats n t d \<Longrightarrow> eats n t (branch [] d)"
  "eats n (\<lambda>p. t p \<and> c p) m \<Longrightarrow> eats n t (branch cs d) \<Longrightarrow> eats n t (branch ((c, m) # cs) d)"
  by (auto simp: eats_def)

lemma runs_unexpected [parser_rules]: "runs n t (unexpected fmt x)"
  unfolding unexpected_def by (intro parser_rules runs_bind)

lemma eats_unexpected [parser_rules]: "eats n t (unexpected fmt x)"
  unfolding unexpected_def by (intro eats_bind_second eats_bind parser_rules runs_bind)

lemma runs_optionally [parser_rules]: "runs n t (optionally kinds)"
  unfolding optionally_def by (intro parser_rules runs_bind)

lemma forP_end:
  assumes "while_option (\<lambda>(x, p). \<not> ps_hung p \<and> c x p) (\<lambda>(x, p). run_state (body x) p) (x, p) = Some r"
  shows "run_state (forP c body x) p = r"
  using assms by (simp add: forP_def)

text \<open>A loop returns when every round keeps an invariant and moves the cursor.\<close>

lemma forP_returns:
  assumes round: "\<And>x p. live p \<Longrightarrow> Q p \<Longrightarrow> c x p \<Longrightarrow>
      live (snd (run_state (body x) p)) \<and> grows p (snd (run_state (body x) p)) \<and> Q (snd (run_state (body x) p))
      \<and> ps_pos p < ps_pos (snd (run_state (body x) p))"
    and p: "live p" "Q p"
  shows "live (snd (run_state (forP c body x) p)) \<and> grows p (snd (run_state (forP c body x) p))"
proof -
  let ?b = "\<lambda>(x, p). \<not> ps_hung p \<and> c x p" and ?f = "\<lambda>(x, p). run_state (body x) p"
  let ?I = "\<lambda>(y, q). live q \<and> Q q \<and> grows p q"
  have step: "?I (?f s) \<and> tokens_left (snd (?f s)) < tokens_left (snd s)" if "?I s" "?b s" for s
  proof -
    obtain y q where s: "s = (y, q)" by (cases s)
    let ?r = "snd (run_state (body y) q)"
    have q: "live q" "Q q" "grows p q" "c y q" using that s by auto
    from round [OF q(1,2,4)] have r: "live ?r" "grows q ?r" "Q ?r" "ps_pos q < ps_pos ?r" by auto
    then have "tokens_left ?r < tokens_left q" by (auto simp: tokens_left_def grows_def live_def)
    moreover have "grows p ?r" using q(3) r(2) by (rule grows_trans)
    ultimately show ?thesis using r s by (simp add: split_beta)
  qed
  have "\<exists>r. while_option ?b ?f (x, p) = Some r"
    by (rule measure_while_option_Some [where P = ?I and f = "\<lambda>s. tokens_left (snd s)", OF step]) (use p in simp_all)
  then obtain y q where r: "while_option ?b ?f (x, p) = Some (y, q)" by auto
  have "?I (y, q)"
  proof (rule while_option_rule [where P = ?I and b = ?b and c = ?f, OF _ r])
    show "?I (?f s)" if "?I s" and "?b s" for s by (rule conjunct1 [OF step [OF that]])
    show "?I (x, p)" using p by simp
  qed
  with forP_end [OF r] show ?thesis by simp
qed

lemma runs_forP [parser_rules]:
  assumes "\<And>x p. c x p \<Longrightarrow> \<not> atEnd p" and "\<And>x. eats n (c x) (body x)"
  shows "runs n t (forP c body x)"
  unfolding runs_def
proof (intro allI impI)
  fix p assume p: "ok p" "tokens_left p \<le> n"
  let ?r = "snd (run_state (forP c body x) p)"
  have "live ?r \<and> grows p ?r"
  proof (rule forP_returns [where Q = "\<lambda>q. ok q \<and> tokens_left q \<le> n"])
    fix x q assume "ok q \<and> tokens_left q \<le> n" "c x q"
    with assms have "ok (snd (run_state (body x) q)) \<and> grows q (snd (run_state (body x) q))
        \<and> ps_pos q < ps_pos (snd (run_state (body x) q))" by (auto simp: eats_def)
    with left_le \<open>ok q \<and> tokens_left q \<le> n\<close> show "live (snd (run_state (body x) q)) \<and> grows q (snd (run_state (body x) q))
        \<and> (ok (snd (run_state (body x) q)) \<and> tokens_left (snd (run_state (body x) q)) \<le> n)
        \<and> ps_pos q < ps_pos (snd (run_state (body x) q))" unfolding ok_iff by blast
  qed (use p in \<open>simp_all add: ok_iff\<close>)
  with p(1) show "ok ?r \<and> grows p ?r" by (auto simp: ok_iff grows_def)
qed

lemma runs_untilP [parser_rules]:
  assumes "\<And>x. eats n (\<lambda>_. True) (body x)"
  shows "runs n t (untilP kind body x)"
  unfolding untilP_def using assms by (intro runs_forP) (auto simp: eats_def)

section \<open>Tokens as values\<close>

lemma runs_expect [parser_rules]: "runs n t (expect kind)"
  unfolding expect_def by (intro parser_rules runs_bind)

lemma eats_expect: "eats n (\<lambda>p. t p \<and> at [kind] p) (expect kind)"
  by (auto simp: eats_def expect_def at_def run_advanceP grows_def ok_def atEnd_def)

lemma runs_values [parser_rules]:
  "runs n t expectString" "runs n t expectInt" "runs n t expectFloat" "runs n t expectBool"
  "runs n t advanceLiteral" "runs n t advanceIdentLike"
  unfolding expectString_def expectInt_def expectFloat_def expectBool_def advanceLiteral_def advanceIdentLike_def
  by (intro parser_rules runs_bind)+

lemma eats_values [parser_rules]:
  "eats n (\<lambda>p. t p \<and> at [TokString] p) expectString" "eats n (\<lambda>p. t p \<and> at [TokInt] p) expectInt"
  "eats n t advanceLiteral" "eats n t advanceIdentLike"
  unfolding expectString_def expectInt_def advanceLiteral_def advanceIdentLike_def
  by (intro eats_bind eats_expect parser_rules runs_bind)+

lemma runs_names [parser_rules]: "runs n t expectStringOrIdent" "runs n t parseTriggerActionRef" "runs n t parseBool"
  unfolding expectStringOrIdent_def parseTriggerActionRef_def parseBool_def by (intro parser_rules runs_bind)+

lemma eats_parseTriggerActionRef [parser_rules]: "eats n t parseTriggerActionRef"
  unfolding parseTriggerActionRef_def by (intro eats_bind parser_rules runs_bind)

section \<open>Methods that call themselves\<close>

lemma nest_returns:
  assumes "\<And>k parse. (\<And>j. j < k \<Longrightarrow> runs j (\<lambda>_. True) parse) \<Longrightarrow> (\<And>j. j < k \<Longrightarrow> eats j (\<lambda>_. True) parse) \<Longrightarrow>
      runs k (\<lambda>_. True) (F parse) \<and> eats k (\<lambda>_. True) (F parse)"
  shows "k \<le> n \<Longrightarrow> runs k (\<lambda>_. True) (nest F (Suc n)) \<and> eats k (\<lambda>_. True) (nest F (Suc n))"
proof (induction n arbitrary: k)
  case 0
  with assms [of 0] show ?case by simp
next
  case (Suc n)
  have "runs j (\<lambda>_. True) (nest F (Suc n)) \<and> eats j (\<lambda>_. True) (nest F (Suc n))" if "j < k" for j
    using Suc that by simp
  with assms [of k] show ?case by simp
qed

lemma recP_returns:
  assumes "\<And>k parse. (\<And>j. j < k \<Longrightarrow> runs j (\<lambda>_. True) parse) \<Longrightarrow> (\<And>j. j < k \<Longrightarrow> eats j (\<lambda>_. True) parse) \<Longrightarrow>
      runs k (\<lambda>_. True) (F parse) \<and> eats k (\<lambda>_. True) (F parse)"
  shows "runs n t (recP F)" and "eats n t (recP F)"
proof -
  have "run_state (recP F) p = run_state (nest F (Suc (tokens_left p))) p" for p
    by (simp add: recP_def run_bindP del: nest.simps run_state_bind)
  moreover have "runs (tokens_left p) (\<lambda>_. True) (nest F (Suc (tokens_left p)))
      \<and> eats (tokens_left p) (\<lambda>_. True) (nest F (Suc (tokens_left p)))" for p
    by (rule nest_returns [OF assms]) auto
  ultimately show "runs n t (recP F)" "eats n t (recP F)"
    unfolding runs_def eats_def by auto
qed

end
