(* ===== verification/ParserStory.thy ===== *)
theory ParserStory
  imports ParserBase
begin

text \<open>
  The parser of triggers and below (\<open>src/scripting/parser.go\<close>): lists, badges, durations,
  conditions and actions. The fields of the nodes that are datatypes are set by the
  functions of the first section.
\<close>

section \<open>Assignments to fields\<close>

definition set_ac_Pos :: "Pos \<Rightarrow> ActionNode \<Rightarrow> ActionNode" where
  "set_ac_Pos x n = ActionNode x (ac_ActionType n) (ac_Target n) (ac_SendImmediate n) (ac_Wait
     n) (ac_BadgeTransaction n) (ac_Unsubscribe n) (ac_EndStory n) (ac_MarkComplete n)
     (ac_MarkFailed n) (ac_AdvanceToNextStoryline n) (ac_RetryMaxCount n) (ac_RetryFallback n)"

definition set_ac_ActionType :: "string \<Rightarrow> ActionNode \<Rightarrow> ActionNode" where
  "set_ac_ActionType x n = ActionNode (ac_Pos n) x (ac_Target n) (ac_SendImmediate n) (ac_Wait
     n) (ac_BadgeTransaction n) (ac_Unsubscribe n) (ac_EndStory n) (ac_MarkComplete n)
     (ac_MarkFailed n) (ac_AdvanceToNextStoryline n) (ac_RetryMaxCount n) (ac_RetryFallback n)"

definition set_ac_Target :: "string \<Rightarrow> ActionNode \<Rightarrow> ActionNode" where
  "set_ac_Target x n = ActionNode (ac_Pos n) (ac_ActionType n) x (ac_SendImmediate n) (ac_Wait
     n) (ac_BadgeTransaction n) (ac_Unsubscribe n) (ac_EndStory n) (ac_MarkComplete n)
     (ac_MarkFailed n) (ac_AdvanceToNextStoryline n) (ac_RetryMaxCount n) (ac_RetryFallback n)"

definition set_ac_SendImmediate :: "bool option \<Rightarrow> ActionNode \<Rightarrow> ActionNode" where
  "set_ac_SendImmediate x n = ActionNode (ac_Pos n) (ac_ActionType n) (ac_Target n) x (ac_Wait
     n) (ac_BadgeTransaction n) (ac_Unsubscribe n) (ac_EndStory n) (ac_MarkComplete n)
     (ac_MarkFailed n) (ac_AdvanceToNextStoryline n) (ac_RetryMaxCount n) (ac_RetryFallback n)"

definition set_ac_Wait :: "DurationNode option \<Rightarrow> ActionNode \<Rightarrow> ActionNode" where
  "set_ac_Wait x n = ActionNode (ac_Pos n) (ac_ActionType n) (ac_Target n) (ac_SendImmediate n)
     x (ac_BadgeTransaction n) (ac_Unsubscribe n) (ac_EndStory n) (ac_MarkComplete n)
     (ac_MarkFailed n) (ac_AdvanceToNextStoryline n) (ac_RetryMaxCount n) (ac_RetryFallback n)"

definition set_ac_BadgeTransaction :: "BadgeTransactionNode option \<Rightarrow> ActionNode \<Rightarrow> ActionNode" where
  "set_ac_BadgeTransaction x n = ActionNode (ac_Pos n) (ac_ActionType n) (ac_Target n)
     (ac_SendImmediate n) (ac_Wait n) x (ac_Unsubscribe n) (ac_EndStory n) (ac_MarkComplete n)
     (ac_MarkFailed n) (ac_AdvanceToNextStoryline n) (ac_RetryMaxCount n) (ac_RetryFallback n)"

definition set_ac_Unsubscribe :: "bool \<Rightarrow> ActionNode \<Rightarrow> ActionNode" where
  "set_ac_Unsubscribe x n = ActionNode (ac_Pos n) (ac_ActionType n) (ac_Target n)
     (ac_SendImmediate n) (ac_Wait n) (ac_BadgeTransaction n) x (ac_EndStory n) (ac_MarkComplete
     n) (ac_MarkFailed n) (ac_AdvanceToNextStoryline n) (ac_RetryMaxCount n) (ac_RetryFallback
     n)"

definition set_ac_EndStory :: "bool \<Rightarrow> ActionNode \<Rightarrow> ActionNode" where
  "set_ac_EndStory x n = ActionNode (ac_Pos n) (ac_ActionType n) (ac_Target n) (ac_SendImmediate
     n) (ac_Wait n) (ac_BadgeTransaction n) (ac_Unsubscribe n) x (ac_MarkComplete n)
     (ac_MarkFailed n) (ac_AdvanceToNextStoryline n) (ac_RetryMaxCount n) (ac_RetryFallback n)"

definition set_ac_MarkComplete :: "bool \<Rightarrow> ActionNode \<Rightarrow> ActionNode" where
  "set_ac_MarkComplete x n = ActionNode (ac_Pos n) (ac_ActionType n) (ac_Target n)
     (ac_SendImmediate n) (ac_Wait n) (ac_BadgeTransaction n) (ac_Unsubscribe n) (ac_EndStory n)
     x (ac_MarkFailed n) (ac_AdvanceToNextStoryline n) (ac_RetryMaxCount n) (ac_RetryFallback
     n)"

definition set_ac_MarkFailed :: "bool \<Rightarrow> ActionNode \<Rightarrow> ActionNode" where
  "set_ac_MarkFailed x n = ActionNode (ac_Pos n) (ac_ActionType n) (ac_Target n)
     (ac_SendImmediate n) (ac_Wait n) (ac_BadgeTransaction n) (ac_Unsubscribe n) (ac_EndStory n)
     (ac_MarkComplete n) x (ac_AdvanceToNextStoryline n) (ac_RetryMaxCount n) (ac_RetryFallback
     n)"

definition set_ac_AdvanceToNextStoryline :: "bool \<Rightarrow> ActionNode \<Rightarrow> ActionNode" where
  "set_ac_AdvanceToNextStoryline x n = ActionNode (ac_Pos n) (ac_ActionType n) (ac_Target n)
     (ac_SendImmediate n) (ac_Wait n) (ac_BadgeTransaction n) (ac_Unsubscribe n) (ac_EndStory n)
     (ac_MarkComplete n) (ac_MarkFailed n) x (ac_RetryMaxCount n) (ac_RetryFallback n)"

definition set_ac_RetryMaxCount :: "int option \<Rightarrow> ActionNode \<Rightarrow> ActionNode" where
  "set_ac_RetryMaxCount x n = ActionNode (ac_Pos n) (ac_ActionType n) (ac_Target n)
     (ac_SendImmediate n) (ac_Wait n) (ac_BadgeTransaction n) (ac_Unsubscribe n) (ac_EndStory n)
     (ac_MarkComplete n) (ac_MarkFailed n) (ac_AdvanceToNextStoryline n) x (ac_RetryFallback n)"

definition set_ac_RetryFallback :: "ActionNode list \<Rightarrow> ActionNode \<Rightarrow> ActionNode" where
  "set_ac_RetryFallback x n = ActionNode (ac_Pos n) (ac_ActionType n) (ac_Target n)
     (ac_SendImmediate n) (ac_Wait n) (ac_BadgeTransaction n) (ac_Unsubscribe n) (ac_EndStory n)
     (ac_MarkComplete n) (ac_MarkFailed n) (ac_AdvanceToNextStoryline n) (ac_RetryMaxCount n) x"

definition set_sl_Pos :: "Pos \<Rightarrow> StorylineNode \<Rightarrow> StorylineNode" where
  "set_sl_Pos x n = StorylineNode x (sl_Name n) (sl_Order n) (sl_OrderExpr n) (sl_RequiredBadges
     n) (sl_OnBegin n) (sl_OnComplete n) (sl_OnFail n) (sl_Enactments n) (sl_ForLoops n)
     (sl_UseStatements n)"

definition set_sl_Name :: "string \<Rightarrow> StorylineNode \<Rightarrow> StorylineNode" where
  "set_sl_Name x n = StorylineNode (sl_Pos n) x (sl_Order n) (sl_OrderExpr n) (sl_RequiredBadges
     n) (sl_OnBegin n) (sl_OnComplete n) (sl_OnFail n) (sl_Enactments n) (sl_ForLoops n)
     (sl_UseStatements n)"

definition set_sl_Order :: "int option \<Rightarrow> StorylineNode \<Rightarrow> StorylineNode" where
  "set_sl_Order x n = StorylineNode (sl_Pos n) (sl_Name n) x (sl_OrderExpr n) (sl_RequiredBadges
     n) (sl_OnBegin n) (sl_OnComplete n) (sl_OnFail n) (sl_Enactments n) (sl_ForLoops n)
     (sl_UseStatements n)"

definition set_sl_OrderExpr :: "string \<Rightarrow> StorylineNode \<Rightarrow> StorylineNode" where
  "set_sl_OrderExpr x n = StorylineNode (sl_Pos n) (sl_Name n) (sl_Order n) x (sl_RequiredBadges
     n) (sl_OnBegin n) (sl_OnComplete n) (sl_OnFail n) (sl_Enactments n) (sl_ForLoops n)
     (sl_UseStatements n)"

definition set_sl_RequiredBadges :: "RequiredBadgesNode option \<Rightarrow> StorylineNode \<Rightarrow> StorylineNode" where
  "set_sl_RequiredBadges x n = StorylineNode (sl_Pos n) (sl_Name n) (sl_Order n) (sl_OrderExpr
     n) x (sl_OnBegin n) (sl_OnComplete n) (sl_OnFail n) (sl_Enactments n) (sl_ForLoops n)
     (sl_UseStatements n)"

definition set_sl_OnBegin :: "LifecycleBlock option \<Rightarrow> StorylineNode \<Rightarrow> StorylineNode" where
  "set_sl_OnBegin x n = StorylineNode (sl_Pos n) (sl_Name n) (sl_Order n) (sl_OrderExpr n)
     (sl_RequiredBadges n) x (sl_OnComplete n) (sl_OnFail n) (sl_Enactments n) (sl_ForLoops n)
     (sl_UseStatements n)"

definition set_sl_OnComplete :: "StorylineCompleteBlock option \<Rightarrow> StorylineNode \<Rightarrow> StorylineNode" where
  "set_sl_OnComplete x n = StorylineNode (sl_Pos n) (sl_Name n) (sl_Order n) (sl_OrderExpr n)
     (sl_RequiredBadges n) (sl_OnBegin n) x (sl_OnFail n) (sl_Enactments n) (sl_ForLoops n)
     (sl_UseStatements n)"

definition set_sl_OnFail :: "StorylineFailBlock option \<Rightarrow> StorylineNode \<Rightarrow> StorylineNode" where
  "set_sl_OnFail x n = StorylineNode (sl_Pos n) (sl_Name n) (sl_Order n) (sl_OrderExpr n)
     (sl_RequiredBadges n) (sl_OnBegin n) (sl_OnComplete n) x (sl_Enactments n) (sl_ForLoops n)
     (sl_UseStatements n)"

definition set_sl_Enactments :: "EnactmentNode list \<Rightarrow> StorylineNode \<Rightarrow> StorylineNode" where
  "set_sl_Enactments x n = StorylineNode (sl_Pos n) (sl_Name n) (sl_Order n) (sl_OrderExpr n)
     (sl_RequiredBadges n) (sl_OnBegin n) (sl_OnComplete n) (sl_OnFail n) x (sl_ForLoops n)
     (sl_UseStatements n)"

definition set_sl_ForLoops :: "ForNode list \<Rightarrow> StorylineNode \<Rightarrow> StorylineNode" where
  "set_sl_ForLoops x n = StorylineNode (sl_Pos n) (sl_Name n) (sl_Order n) (sl_OrderExpr n)
     (sl_RequiredBadges n) (sl_OnBegin n) (sl_OnComplete n) (sl_OnFail n) (sl_Enactments n) x
     (sl_UseStatements n)"

definition set_sl_UseStatements :: "UseStatementNode list \<Rightarrow> StorylineNode \<Rightarrow> StorylineNode" where
  "set_sl_UseStatements x n = StorylineNode (sl_Pos n) (sl_Name n) (sl_Order n) (sl_OrderExpr n)
     (sl_RequiredBadges n) (sl_OnBegin n) (sl_OnComplete n) (sl_OnFail n) (sl_Enactments n)
     (sl_ForLoops n) x"

definition set_fl_Pos :: "Pos \<Rightarrow> ForNode \<Rightarrow> ForNode" where
  "set_fl_Pos x n = ForNode x (fl_Variable n) (fl_DataRef n) (fl_Items n) (fl_ObjectItems n)
     (fl_RangeStart n) (fl_RangeEnd n) (fl_IsRange n) (fl_Body n) (fl_BodyEnactments n)
     (fl_BodyScenes n) (fl_BodyUseStatements n)"

definition set_fl_Variable :: "string \<Rightarrow> ForNode \<Rightarrow> ForNode" where
  "set_fl_Variable x n = ForNode (fl_Pos n) x (fl_DataRef n) (fl_Items n) (fl_ObjectItems n)
     (fl_RangeStart n) (fl_RangeEnd n) (fl_IsRange n) (fl_Body n) (fl_BodyEnactments n)
     (fl_BodyScenes n) (fl_BodyUseStatements n)"

definition set_fl_DataRef :: "string \<Rightarrow> ForNode \<Rightarrow> ForNode" where
  "set_fl_DataRef x n = ForNode (fl_Pos n) (fl_Variable n) x (fl_Items n) (fl_ObjectItems n)
     (fl_RangeStart n) (fl_RangeEnd n) (fl_IsRange n) (fl_Body n) (fl_BodyEnactments n)
     (fl_BodyScenes n) (fl_BodyUseStatements n)"

definition set_fl_Items :: "string list \<Rightarrow> ForNode \<Rightarrow> ForNode" where
  "set_fl_Items x n = ForNode (fl_Pos n) (fl_Variable n) (fl_DataRef n) x (fl_ObjectItems n)
     (fl_RangeStart n) (fl_RangeEnd n) (fl_IsRange n) (fl_Body n) (fl_BodyEnactments n)
     (fl_BodyScenes n) (fl_BodyUseStatements n)"

definition set_fl_ObjectItems :: "DataObjectLiteral list \<Rightarrow> ForNode \<Rightarrow> ForNode" where
  "set_fl_ObjectItems x n = ForNode (fl_Pos n) (fl_Variable n) (fl_DataRef n) (fl_Items n) x
     (fl_RangeStart n) (fl_RangeEnd n) (fl_IsRange n) (fl_Body n) (fl_BodyEnactments n)
     (fl_BodyScenes n) (fl_BodyUseStatements n)"

definition set_fl_Body :: "StorylineNode list \<Rightarrow> ForNode \<Rightarrow> ForNode" where
  "set_fl_Body x n = ForNode (fl_Pos n) (fl_Variable n) (fl_DataRef n) (fl_Items n)
     (fl_ObjectItems n) (fl_RangeStart n) (fl_RangeEnd n) (fl_IsRange n) x (fl_BodyEnactments n)
     (fl_BodyScenes n) (fl_BodyUseStatements n)"

definition set_fl_BodyEnactments :: "EnactmentNode list \<Rightarrow> ForNode \<Rightarrow> ForNode" where
  "set_fl_BodyEnactments x n = ForNode (fl_Pos n) (fl_Variable n) (fl_DataRef n) (fl_Items n)
     (fl_ObjectItems n) (fl_RangeStart n) (fl_RangeEnd n) (fl_IsRange n) (fl_Body n) x
     (fl_BodyScenes n) (fl_BodyUseStatements n)"

definition set_fl_BodyUseStatements :: "UseStatementNode list \<Rightarrow> ForNode \<Rightarrow> ForNode" where
  "set_fl_BodyUseStatements x n = ForNode (fl_Pos n) (fl_Variable n) (fl_DataRef n) (fl_Items n)
     (fl_ObjectItems n) (fl_RangeStart n) (fl_RangeEnd n) (fl_IsRange n) (fl_Body n)
     (fl_BodyEnactments n) (fl_BodyScenes n) x"

section \<open>Lists, maps and badges\<close>

definition parseStringList :: "string list parser" where
  "parseStringList =
    do {
      let list = [];
      expect TokLBracket;
      list \<leftarrow> untilP TokRBracket (\<lambda>list. do { x \<leftarrow> expectString; let list = list @ [x]; optionally [TokComma]; retP list }) list;
      expect TokRBracket;
      retP list }"

definition parseStringListOrSingle :: "string list parser" where
  "parseStringListOrSingle =
    branch [(at [TokLBracket], parseStringList)] (do { x \<leftarrow> expectString; retP [x] })"

definition parseVarsMap :: "string gomap parser" where
  "parseVarsMap =
    do {
      let m = [];
      expect TokLBrace;
      m \<leftarrow> untilP TokRBrace (\<lambda>m. do {
            r \<leftarrow> branch
              [(at [TokString], do { key \<leftarrow> expectString; retP (Some key) }),
               (at [TokIdent], do { key \<leftarrow> advanceLiteral; retP (Some key) })]
              (unexpected ''expected key in vars map, got %s'' None);
            case r of None \<Rightarrow> retP m
              | Some key \<Rightarrow> do {
                  optionally [TokColon, TokEquals];
                  val \<leftarrow> expectString;
                  let m = gomap_put key val m;
                  optionally [TokComma];
                  retP m } }) m;
      expect TokRBrace;
      retP m }"

definition parseRequiredBadges :: "RequiredBadgesNode parser" where
  "parseRequiredBadges =
    do {
      pos \<leftarrow> curPosP;
      advanceP;
      let node = (zero_RequiredBadgesNode\<lparr>rb_Pos := pos\<rparr>);
      expect TokLBrace;
      node \<leftarrow> untilP TokRBrace (\<lambda>node. branch
              [(at [TokMustHave], do {
                  advanceP;
                  x \<leftarrow> parseStringListOrSingle;
                  retP (node\<lparr>rb_MustHave := rb_MustHave node @ x\<rparr>) }),
               (at [TokMustNotHave], do {
                  advanceP;
                  x \<leftarrow> parseStringListOrSingle;
                  retP (node\<lparr>rb_MustNotHave := rb_MustNotHave node @ x\<rparr>) })]
              (unexpected ''unexpected token %s in required_badges block'' node)) node;
      expect TokRBrace;
      retP node }"

section \<open>Durations, conditions and actions\<close>

text \<open>The digits and the rest of a literal such as \<open>30m\<close>.\<close>

definition parseDurationLiteral :: "string \<Rightarrow> int \<times> string" where
  "parseDurationLiteral s =
     (let ds = takeWhile ascii_digit s in
      if ds = [] then (0, []) else (atoi_value ds, drop (length ds) s))"

text \<open>The unit a word stands for.\<close>

definition duration_unit :: "string \<Rightarrow> string option" where
  "duration_unit w =
     (let u = to_lower w in
      if List.member [''day'', ''days'', ''d''] u then Some ''d''
      else if List.member [''hour'', ''hours'', ''h''] u then Some ''h''
      else if List.member [''minute'', ''minutes'', ''min'', ''m''] u then Some ''m''
      else if List.member [''second'', ''seconds'', ''sec'', ''s''] u then Some ''s''
      else None)"

definition parseDurationString :: "string \<Rightarrow> int \<times> string" where
  "parseDurationString s =
     (case GoStrings.fields s of
        amount # word # _ \<Rightarrow>
          (case atoi amount of
             None \<Rightarrow> (0, [])
           | Some n \<Rightarrow> (case duration_unit word of Some u \<Rightarrow> (n, u) | None \<Rightarrow> (n, word)))
      | _ \<Rightarrow> parseDurationLiteral s)"

definition parseDuration :: "DurationNode parser" where
  "parseDuration = do {
     pos \<leftarrow> curPosP;
     branch
       [(at [TokDuration], do {
           lit \<leftarrow> advanceLiteral;
           retP (case parseDurationLiteral lit of (amount, unit) \<Rightarrow>
             \<lparr>du_Pos = pos, du_Amount = amount, du_Unit = unit, du_RawValue = lit\<rparr>) }),
        (at [TokInt], do {
           amount \<leftarrow> expectInt;
           word \<leftarrow> curLiteral;
           branch
             [((\<lambda>_. duration_unit word \<noteq> None), do { advanceP; retP () })]
             (errorfP ''expected time unit (day/hour/minute/second), got %q'' (\<lambda>_. [AStr word]));
           retP (let unit = (case duration_unit word of None \<Rightarrow> [] | Some u \<Rightarrow> u) in
             \<lparr>du_Pos = pos, du_Amount = amount, du_Unit = unit, du_RawValue = itoa amount @ unit\<rparr>) }),
        (at [TokString], do {
           raw \<leftarrow> expectString;
           retP (case parseDurationString raw of (amount, unit) \<Rightarrow>
             \<lparr>du_Pos = pos, du_Amount = amount, du_Unit = unit, du_RawValue = raw\<rparr>) })]
       (do {
          errorfP ''expected duration, got %s'' (\<lambda>t. [AKind (Kind t)]);
          retP (zero_DurationNode\<lparr>du_Pos := pos\<rparr>) }) }"

text \<open>
  The body of \<open>parseCondition\<close>, with the method it calls recursively as its argument; the
  children between braces, and what follows \<open>and\<close> and \<open>or\<close> behind a condition.
\<close>

definition parseChildren :: "ConditionNode option parser \<Rightarrow> ConditionNode list parser" where
  "parseChildren parse = branch
     [(at [TokLBrace], do {
         expect TokLBrace;
         children \<leftarrow> untilP TokRBrace
           (\<lambda>children. do { child \<leftarrow> parse; retP (children @ opt_list child) }) [];
         expect TokRBrace;
         retP children })]
     (retP [])"

definition parseConditionChain ::
  "ConditionNode option parser \<Rightarrow> Pos \<Rightarrow> ConditionNode \<Rightarrow> ConditionNode option parser" where
  "parseConditionChain parse pos node = branch
     [((\<lambda>p. at [TokAnd] p \<and> cd_ConditionType node \<noteq> ''and''), do {
         advanceP;
         right \<leftarrow> parse;
         retP (Some (ConditionNode pos ''and'' [] (node # opt_list right))) }),
      ((\<lambda>p. at [TokOr] p \<and> cd_ConditionType node \<noteq> ''or''), do {
         advanceP;
         right \<leftarrow> parse;
         retP (Some (ConditionNode pos ''or'' [] (node # opt_list right))) })]
     (retP (Some node))"

definition parseConditionBody :: "ConditionNode option parser \<Rightarrow> ConditionNode option parser" where
  "parseConditionBody parse = do {
     pos \<leftarrow> curPosP;
     r \<leftarrow> branch
       [(at [TokHasBadge], do { advanceP; v \<leftarrow> expectString; retP (Some (ConditionNode pos ''has_badge'' v [])) }),
        (at [TokNotHasBadge], do { advanceP; v \<leftarrow> expectString; retP (Some (ConditionNode pos ''not_has_badge'' v [])) }),
        (at [TokHasTag], do { advanceP; v \<leftarrow> expectString; retP (Some (ConditionNode pos ''has_tag'' v [])) }),
        (at [TokNotHasTag], do { advanceP; v \<leftarrow> expectString; retP (Some (ConditionNode pos ''not_has_tag'' v [])) }),
        (at [TokAnd], do { advanceP; cs \<leftarrow> parseChildren parse; retP (Some (ConditionNode pos ''and'' [] cs)) }),
        (at [TokOr], do { advanceP; cs \<leftarrow> parseChildren parse; retP (Some (ConditionNode pos ''or'' [] cs)) }),
        (at [TokNot], do { advanceP; child \<leftarrow> parse; retP (Some (ConditionNode pos ''not'' [] (opt_list child))) })]
       (unexpected ''expected condition keyword, got %s'' None);
     case r of None \<Rightarrow> retP None
       | Some node \<Rightarrow> parseConditionChain parse pos node }"

definition parseCondition :: "ConditionNode option parser" where
  "parseCondition = recP parseConditionBody"

text \<open>\<open>parseAction\<close> and \<open>parseRetryModifiers\<close> call each other; the argument stands for \<open>parseAction\<close>.\<close>

definition parseRetryModifiers :: "ActionNode option parser \<Rightarrow> ActionNode \<Rightarrow> ActionNode parser" where
  "parseRetryModifiers parse node =
    do {
      node \<leftarrow> branch
        [(at [TokUpTo], do {
            advanceP;
            v \<leftarrow> expectInt;
            let node = (set_ac_RetryMaxCount (Some v) node);
            optionally [TokTimes];
            retP node })]
        (retP node);
      branch
        [(at [TokElse], do {
            advanceP;
            branch
              [(at [TokLBrace], do {
                  expect TokLBrace;
                  node \<leftarrow> untilP TokRBrace (\<lambda>node. do {
                        optionally [TokDo];
                        action \<leftarrow> parse;
                        retP (set_ac_RetryFallback (ac_RetryFallback node @ opt_list action) node) }) node;
                  expect TokRBrace;
                  retP node }),
               (at [TokDo], do {
                  advanceP;
                  action \<leftarrow> parse;
                  retP (set_ac_RetryFallback (ac_RetryFallback node @ opt_list action) node) })]
              (retP node) })]
        (retP node) }"

definition parseActionBody :: "ActionNode option parser \<Rightarrow> ActionNode option parser" where
  "parseActionBody parse =
    do {
      pos \<leftarrow> curPosP;
      let node = (set_ac_Pos pos zero_ActionNode);
      branch
        [(at [TokNextScene], do { advanceP; retP (Some (set_ac_ActionType ''next_scene'' node)) }),
         (at [TokPrevScene], do { advanceP; retP (Some (set_ac_ActionType ''prev_scene'' node)) }),
         (at [TokJumpToEnactment], do {
            advanceP;
            let node = (set_ac_ActionType ''jump_to_enactment'' node);
            x \<leftarrow> expectString;
            retP (Some (set_ac_Target x node)) }),
         (at [TokJumpToStoryline], do {
            advanceP;
            let node = (set_ac_ActionType ''jump_to_storyline'' node);
            x \<leftarrow> expectString;
            retP (Some (set_ac_Target x node)) }),
         (at [TokAdvanceToNextStoryline], do {
            advanceP;
            retP (Some (set_ac_AdvanceToNextStoryline True (set_ac_ActionType ''advance_to_next_storyline'' node))) }),
         (at [TokEndStory], do {
            advanceP;
            retP (Some (set_ac_EndStory True (set_ac_ActionType ''end_story'' node))) }),
         (at [TokMarkComplete], do {
            advanceP;
            retP (Some (set_ac_MarkComplete True (set_ac_ActionType ''mark_complete'' node))) }),
         (at [TokMarkFailed], do {
            advanceP;
            retP (Some (set_ac_MarkFailed True (set_ac_ActionType ''mark_failed'' node))) }),
         (at [TokUnsubscribe], do {
            advanceP;
            retP (Some (set_ac_Unsubscribe True (set_ac_ActionType ''unsubscribe'' node))) }),
         (at [TokGiveBadge], do {
            advanceP;
            name \<leftarrow> expectString;
            retP (Some (set_ac_BadgeTransaction (Some (zero_BadgeTransactionNode\<lparr>bt_Pos := pos, bt_GiveBadges := [name]\<rparr>)) (set_ac_ActionType ''give_badge'' node))) }),
         (at [TokRemoveBadge], do {
            advanceP;
            name \<leftarrow> expectString;
            retP (Some (set_ac_BadgeTransaction (Some (zero_BadgeTransactionNode\<lparr>bt_Pos := pos, bt_RemoveBadges := [name]\<rparr>)) (set_ac_ActionType ''remove_badge'' node))) }),
         (at [TokRetryScene], do {
            advanceP;
            let node = (set_ac_ActionType ''retry_scene'' node);
            node \<leftarrow> parseRetryModifiers parse node;
            retP (Some node) }),
         (at [TokRetryEnactment], do {
            advanceP;
            let node = (set_ac_ActionType ''retry_enactment'' node);
            node \<leftarrow> parseRetryModifiers parse node;
            retP (Some node) }),
         (at [TokLoopToEnactment], do {
            advanceP;
            let node = (set_ac_ActionType ''loop_to_enactment'' node);
            x \<leftarrow> expectString;
            let node = (set_ac_Target x node);
            node \<leftarrow> parseRetryModifiers parse node;
            retP (Some node) }),
         (at [TokLoopToStoryline], do {
            advanceP;
            let node = (set_ac_ActionType ''loop_to_storyline'' node);
            x \<leftarrow> expectString;
            let node = (set_ac_Target x node);
            node \<leftarrow> parseRetryModifiers parse node;
            retP (Some node) }),
         (at [TokLoopToStartEnactment], do {
            advanceP;
            let node = (set_ac_ActionType ''loop_to_start_enactment'' node);
            node \<leftarrow> parseRetryModifiers parse node;
            retP (Some node) }),
         (at [TokLoopToStartStoryline], do {
            advanceP;
            let node = (set_ac_ActionType ''loop_to_start_storyline'' node);
            node \<leftarrow> parseRetryModifiers parse node;
            retP (Some node) }),
         (at [TokWait], do {
            advanceP;
            let node = (set_ac_ActionType ''wait'' node);
            x \<leftarrow> parseDuration;
            retP (Some (set_ac_Wait (Some x) node)) }),
         (at [TokSendImmediate], do {
            advanceP;
            v \<leftarrow> expectBool;
            retP (Some (set_ac_SendImmediate (Some v) (set_ac_ActionType ''send_immediate'' node))) }),
         (at [TokNextEnactment], do {
            advanceP;
            let node = (set_ac_ActionType ''next_enactment'' node);
            x \<leftarrow> expectString;
            retP (Some (set_ac_Target x node)) }),
         (at [TokJumpToStage], do {
            advanceP;
            let node = (set_ac_ActionType ''jump_to_stage'' node);
            x \<leftarrow> expectString;
            retP (Some (set_ac_Target x node)) }),
         (at [TokStartStory], do {
            advanceP;
            let node = (set_ac_ActionType ''start_story'' node);
            x \<leftarrow> expectString;
            retP (Some (set_ac_Target x node)) }),
         (at [TokSendEmailAction], do {
            advanceP;
            let node = (set_ac_ActionType ''send_email'' node);
            x \<leftarrow> expectString;
            retP (Some (set_ac_Target x node)) }),
         (at [TokRedirect], do {
            advanceP;
            let node = (set_ac_ActionType ''redirect'' node);
            x \<leftarrow> expectString;
            retP (Some (set_ac_Target x node)) }),
         (at [TokProvideDownload], do {
            advanceP;
            let node = (set_ac_ActionType ''provide_download'' node);
            x \<leftarrow> expectString;
            retP (Some (set_ac_Target x node)) })]
        (do {
            errorfP ''expected action keyword, got %s (%q)'' (\<lambda>t. [AKind (Kind t), AStr (Literal t)]);
            advanceP;
            retP None }) }"

definition parseAction :: "ActionNode option parser" where
  "parseAction = recP parseActionBody"

section \<open>Triggers\<close>

definition parseTrigger :: "TriggerNode option parser" where
  "parseTrigger =
    do {
      pos \<leftarrow> curPosP;
      expect TokOn;
      let node = (zero_TriggerNode\<lparr>tr_Pos := pos\<rparr>);
      r \<leftarrow> branch
        [(at [TokClick], do {
            advanceP;
            let node = node\<lparr>tr_TriggerType := ''click''\<rparr>;
            node \<leftarrow> branch
              [(at [TokString], do { x \<leftarrow> expectString; retP (node\<lparr>tr_UserActionValue := x\<rparr>) }),
               ((\<lambda>p. at [TokIdent] p \<or> isIdentLike p), do { x \<leftarrow> parseTriggerActionRef; retP (node\<lparr>tr_UserActionValue := x\<rparr>) })]
              (retP node);
            retP (Some node) }),
         (at [TokNotClick], do {
            advanceP;
            let node = node\<lparr>tr_TriggerType := ''not_click''\<rparr>;
            node \<leftarrow> branch
              [(at [TokString], do { x \<leftarrow> expectString; retP (node\<lparr>tr_UserActionValue := x\<rparr>) }),
               ((\<lambda>p. at [TokIdent] p \<or> isIdentLike p), do { x \<leftarrow> parseTriggerActionRef; retP (node\<lparr>tr_UserActionValue := x\<rparr>) })]
              (retP node);
            retP (Some node) }),
         (at [TokOpen], do { advanceP; retP (Some (node\<lparr>tr_TriggerType := ''open''\<rparr>)) }),
         (at [TokNotOpen], do { advanceP; retP (Some (node\<lparr>tr_TriggerType := ''not_open''\<rparr>)) }),
         (at [TokSent], do { advanceP; retP (Some (node\<lparr>tr_TriggerType := ''sent''\<rparr>)) }),
         (at [TokWebhook], do {
            advanceP;
            let node = node\<lparr>tr_TriggerType := ''webhook''\<rparr>;
            node \<leftarrow> branch
              [(at [TokString], do { x \<leftarrow> expectString; retP (node\<lparr>tr_UserActionValue := x\<rparr>) }),
               (at [TokIdent], do { x \<leftarrow> advanceLiteral; retP (node\<lparr>tr_UserActionValue := x\<rparr>) })]
              (retP node);
            retP (Some node) }),
         (at [TokNothing], do { advanceP; retP (Some (node\<lparr>tr_TriggerType := ''nothing''\<rparr>)) }),
         (at [TokElse], do { advanceP; retP (Some (node\<lparr>tr_TriggerType := ''else''\<rparr>)) }),
         (at [TokBounce], do { advanceP; retP (Some (node\<lparr>tr_TriggerType := ''bounce''\<rparr>)) }),
         (at [TokSpam], do { advanceP; retP (Some (node\<lparr>tr_TriggerType := ''spam''\<rparr>)) }),
         (at [TokUnsubscribe], do { advanceP; retP (Some (node\<lparr>tr_TriggerType := ''unsubscribe''\<rparr>)) }),
         (at [TokFailure], do { advanceP; retP (Some (node\<lparr>tr_TriggerType := ''failure''\<rparr>)) }),
         (at [TokEmailValidated], do { advanceP; retP (Some (node\<lparr>tr_TriggerType := ''email_validated''\<rparr>)) }),
         (at [TokUserHasTag], do {
            advanceP;
            let node = node\<lparr>tr_TriggerType := ''user_has_tag''\<rparr>;
            node \<leftarrow> branch
              [(at [TokString], do { x \<leftarrow> expectString; retP (node\<lparr>tr_UserActionValue := x\<rparr>) })]
              (retP node);
            retP (Some node) }),
         (at [TokBadge], do {
            advanceP;
            let node = node\<lparr>tr_TriggerType := ''badge''\<rparr>;
            node \<leftarrow> branch
              [(at [TokString], do { x \<leftarrow> expectString; retP (node\<lparr>tr_UserActionValue := x\<rparr>) })]
              (retP node);
            retP (Some node) }),
         (at [TokSubmit], do {
            advanceP;
            let node = node\<lparr>tr_TriggerType := ''submit''\<rparr>;
            node \<leftarrow> branch
              [(at [TokString], do { x \<leftarrow> expectString; retP (node\<lparr>tr_UserActionValue := x\<rparr>) })]
              (retP node);
            retP (Some node) }),
         (at [TokAbandon], do { advanceP; retP (Some (node\<lparr>tr_TriggerType := ''abandon''\<rparr>)) }),
         (at [TokPurchase], do {
            advanceP;
            let node = node\<lparr>tr_TriggerType := ''purchase''\<rparr>;
            node \<leftarrow> branch
              [(at [TokString], do { x \<leftarrow> expectString; retP (node\<lparr>tr_UserActionValue := x\<rparr>) })]
              (retP node);
            retP (Some node) }),
         (at [TokDecline], do {
            advanceP;
            let node = node\<lparr>tr_TriggerType := ''decline''\<rparr>;
            node \<leftarrow> branch
              [(at [TokString], do { x \<leftarrow> expectString; retP (node\<lparr>tr_UserActionValue := x\<rparr>) })]
              (retP node);
            retP (Some node) }),
         (at [TokWatch], do {
            advanceP;
            let node = node\<lparr>tr_TriggerType := ''watch''\<rparr>;
            node \<leftarrow> branch
              [(at [TokString], do { x \<leftarrow> expectString; retP (node\<lparr>tr_WatchBlockID := x\<rparr>) })]
              (retP node);
            node \<leftarrow> branch
              [(at [TokGT, TokLT, TokGTEQ, TokLTEQ], do { x \<leftarrow> advanceLiteral; retP (node\<lparr>tr_WatchOperator := x\<rparr>) })]
              (retP node);
            node \<leftarrow> branch
              [(at [TokInt], do { x \<leftarrow> expectInt; retP (node\<lparr>tr_WatchPercent := x\<rparr>) })]
              (retP node);
            optionally [TokPercent];
            retP (Some node) }),
         (at [TokPlay], do {
            advanceP;
            let node = node\<lparr>tr_TriggerType := ''play''\<rparr>;
            node \<leftarrow> branch
              [(at [TokString], do { x \<leftarrow> expectString; retP (node\<lparr>tr_UserActionValue := x\<rparr>) })]
              (retP node);
            retP (Some node) }),
         (at [TokPause], do {
            advanceP;
            let node = node\<lparr>tr_TriggerType := ''pause''\<rparr>;
            node \<leftarrow> branch
              [(at [TokString], do { x \<leftarrow> expectString; retP (node\<lparr>tr_UserActionValue := x\<rparr>) })]
              (retP node);
            retP (Some node) }),
         (at [TokProgress], do {
            advanceP;
            let node = node\<lparr>tr_TriggerType := ''progress''\<rparr>;
            node \<leftarrow> branch
              [(at [TokString], do { x \<leftarrow> expectString; retP (node\<lparr>tr_WatchBlockID := x\<rparr>) })]
              (retP node);
            node \<leftarrow> branch
              [(at [TokGT, TokLT, TokGTEQ, TokLTEQ], do { x \<leftarrow> advanceLiteral; retP (node\<lparr>tr_WatchOperator := x\<rparr>) })]
              (retP node);
            node \<leftarrow> branch
              [(at [TokInt], do { x \<leftarrow> expectInt; retP (node\<lparr>tr_WatchPercent := x\<rparr>) })]
              (retP node);
            optionally [TokPercent];
            retP (Some node) }),
         (at [TokComplete], do {
            advanceP;
            let node = node\<lparr>tr_TriggerType := ''complete''\<rparr>;
            node \<leftarrow> branch
              [(at [TokString], do { x \<leftarrow> expectString; retP (node\<lparr>tr_UserActionValue := x\<rparr>) })]
              (retP node);
            retP (Some node) }),
         (at [TokRewatch], do {
            advanceP;
            let node = node\<lparr>tr_TriggerType := ''rewatch''\<rparr>;
            node \<leftarrow> branch
              [(at [TokString], do { x \<leftarrow> expectString; retP (node\<lparr>tr_UserActionValue := x\<rparr>) })]
              (retP node);
            retP (Some node) }),
         (at [TokCTA], do {
            advanceP;
            let node = node\<lparr>tr_TriggerType := ''cta_click''\<rparr>;
            node \<leftarrow> branch
              [(at [TokString], do { x \<leftarrow> expectString; retP (node\<lparr>tr_UserActionValue := x\<rparr>) })]
              (retP node);
            retP (Some node) }),
         (at [TokTurnstile], do {
            advanceP;
            let node = node\<lparr>tr_TriggerType := ''turnstile_submit''\<rparr>;
            node \<leftarrow> branch
              [(at [TokString], do { x \<leftarrow> expectString; retP (node\<lparr>tr_UserActionValue := x\<rparr>) })]
              (retP node);
            retP (Some node) }),
         (at [TokChapter], do {
            advanceP;
            let node = node\<lparr>tr_TriggerType := ''chapter_click''\<rparr>;
            node \<leftarrow> branch
              [(at [TokString], do { x \<leftarrow> expectString; retP (node\<lparr>tr_UserActionValue := x\<rparr>) })]
              (retP node);
            retP (Some node) })]
        (unexpected ''expected trigger type after 'on', got %s'' None);
      case r of None \<Rightarrow> retP None
        | Some node \<Rightarrow> do {
          expect TokLBrace;
          node \<leftarrow> untilP TokRBrace (\<lambda>node. branch
                  [(at [TokWithin], do { advanceP; x \<leftarrow> parseDuration; retP (node\<lparr>tr_Within := Some x\<rparr>) }),
                   (at [TokTriggerPriority], do { advanceP; v \<leftarrow> expectInt; retP (node\<lparr>tr_Priority := Some v\<rparr>) }),
                   (at [TokPersistScope], do { advanceP; x \<leftarrow> expectString; retP (node\<lparr>tr_PersistScope := x\<rparr>) }),
                   (at [TokMarkComplete], do { advanceP; x \<leftarrow> expectBool; retP (node\<lparr>tr_MarkComplete := x\<rparr>) }),
                   (at [TokMarkFailed], do { advanceP; x \<leftarrow> expectBool; retP (node\<lparr>tr_MarkFailed := x\<rparr>) }),
                   (at [TokRequiredBadges], do { x \<leftarrow> parseRequiredBadges; retP (node\<lparr>tr_RequiredBadges := Some x\<rparr>) }),
                   (at [TokWhen], do {
                      advanceP;
                      cond \<leftarrow> parseCondition;
                      retP (node\<lparr>tr_Conditions := tr_Conditions node @ opt_list cond\<rparr>) }),
                   (at [TokDo], do {
                      advanceP;
                      action \<leftarrow> parseAction;
                      retP (node\<lparr>tr_Actions := tr_Actions node @ opt_list action\<rparr>) }),
                   (at [TokElse], do {
                      advanceP;
                      branch
                        [(at [TokLBrace], do {
                            expect TokLBrace;
                            node \<leftarrow> untilP TokRBrace (\<lambda>node. do {
                                  optionally [TokDo];
                                  action \<leftarrow> parseAction;
                                  retP (node\<lparr>tr_ElseActions := tr_ElseActions node @ opt_list action\<rparr>) }) node;
                            expect TokRBrace;
                            retP node }),
                         (at [TokDo], do {
                            advanceP;
                            action \<leftarrow> parseAction;
                            retP (node\<lparr>tr_ElseActions := tr_ElseActions node @ opt_list action\<rparr>) })]
                        (retP node) }),
                   (at [TokSendImmediate], do {
                      advanceP;
                      v \<leftarrow> expectBool;
                      retP (node\<lparr>tr_Actions := map (set_ac_SendImmediate (Some v)) (tr_Actions node)\<rparr>) })]
                  (unexpected ''unexpected token %s in trigger block'' node)) node;
          expect TokRBrace;
          retP (Some node) } }"

end
