(* ===== verification/ParserScript.thy ===== *)
theory ParserScript
  imports ParserStory
begin

text \<open>
  The parser of stories, campaigns and the definitions that stories use
  (\<open>src/scripting/parser.go\<close>).
\<close>

section \<open>Lifecycle blocks\<close>

definition parseLifecycleBlock :: "LifecycleBlock parser" where
  "parseLifecycleBlock =
    do {
      pos \<leftarrow> curPosP;
      advanceP;
      let node = (zero_LifecycleBlock\<lparr>lb_Pos := pos\<rparr>);
      expect TokLBrace;
      node \<leftarrow> untilP TokRBrace (\<lambda>node. branch
              [(at [TokGiveBadge], do {
                  advanceP;
                  name \<leftarrow> expectString;
                  pos' \<leftarrow> curPosP;
                  let node = node\<lparr>lb_BadgeTransaction := orNew (zero_BadgeTransactionNode\<lparr>bt_Pos := pos'\<rparr>) (lb_BadgeTransaction node)\<rparr>;
                  retP (node\<lparr>lb_BadgeTransaction := map_option (\<lambda>b. b\<lparr>bt_GiveBadges := bt_GiveBadges b @ [name]\<rparr>) (lb_BadgeTransaction node)\<rparr>) }),
               (at [TokRemoveBadge], do {
                  advanceP;
                  name \<leftarrow> expectString;
                  pos' \<leftarrow> curPosP;
                  let node = node\<lparr>lb_BadgeTransaction := orNew (zero_BadgeTransactionNode\<lparr>bt_Pos := pos'\<rparr>) (lb_BadgeTransaction node)\<rparr>;
                  retP (node\<lparr>lb_BadgeTransaction := map_option (\<lambda>b. b\<lparr>bt_RemoveBadges := bt_RemoveBadges b @ [name]\<rparr>) (lb_BadgeTransaction node)\<rparr>) })]
              (unexpected ''unexpected token %s in on_begin block'' node)) node;
      expect TokRBrace;
      retP node }"

definition parseOnCompleteBlock :: "OnCompleteBlock parser" where
  "parseOnCompleteBlock =
    do {
      pos \<leftarrow> curPosP;
      advanceP;
      let node = (zero_OnCompleteBlock\<lparr>oc_Pos := pos\<rparr>);
      expect TokLBrace;
      node \<leftarrow> untilP TokRBrace (\<lambda>node. branch
              [(at [TokGiveBadge], do {
                  advanceP;
                  name \<leftarrow> expectString;
                  pos' \<leftarrow> curPosP;
                  let node = node\<lparr>oc_BadgeTransaction := orNew (zero_BadgeTransactionNode\<lparr>bt_Pos := pos'\<rparr>) (oc_BadgeTransaction node)\<rparr>;
                  retP (node\<lparr>oc_BadgeTransaction := map_option (\<lambda>b. b\<lparr>bt_GiveBadges := bt_GiveBadges b @ [name]\<rparr>) (oc_BadgeTransaction node)\<rparr>) }),
               (at [TokRemoveBadge], do {
                  advanceP;
                  name \<leftarrow> expectString;
                  pos' \<leftarrow> curPosP;
                  let node = node\<lparr>oc_BadgeTransaction := orNew (zero_BadgeTransactionNode\<lparr>bt_Pos := pos'\<rparr>) (oc_BadgeTransaction node)\<rparr>;
                  retP (node\<lparr>oc_BadgeTransaction := map_option (\<lambda>b. b\<lparr>bt_RemoveBadges := bt_RemoveBadges b @ [name]\<rparr>) (oc_BadgeTransaction node)\<rparr>) }),
               (at [TokNextStory], do { advanceP; x \<leftarrow> expectString; retP (node\<lparr>oc_NextStory := x\<rparr>) })]
              (unexpected ''unexpected token %s in on_complete block'' node)) node;
      expect TokRBrace;
      retP node }"

definition parseOnFailBlock :: "OnFailBlock parser" where
  "parseOnFailBlock =
    do {
      pos \<leftarrow> curPosP;
      advanceP;
      let node = (zero_OnFailBlock\<lparr>ofb_Pos := pos\<rparr>);
      expect TokLBrace;
      node \<leftarrow> untilP TokRBrace (\<lambda>node. branch
              [(at [TokGiveBadge], do {
                  advanceP;
                  name \<leftarrow> expectString;
                  pos' \<leftarrow> curPosP;
                  let node = node\<lparr>ofb_BadgeTransaction := orNew (zero_BadgeTransactionNode\<lparr>bt_Pos := pos'\<rparr>) (ofb_BadgeTransaction node)\<rparr>;
                  retP (node\<lparr>ofb_BadgeTransaction := map_option (\<lambda>b. b\<lparr>bt_GiveBadges := bt_GiveBadges b @ [name]\<rparr>) (ofb_BadgeTransaction node)\<rparr>) }),
               (at [TokRemoveBadge], do {
                  advanceP;
                  name \<leftarrow> expectString;
                  pos' \<leftarrow> curPosP;
                  let node = node\<lparr>ofb_BadgeTransaction := orNew (zero_BadgeTransactionNode\<lparr>bt_Pos := pos'\<rparr>) (ofb_BadgeTransaction node)\<rparr>;
                  retP (node\<lparr>ofb_BadgeTransaction := map_option (\<lambda>b. b\<lparr>bt_RemoveBadges := bt_RemoveBadges b @ [name]\<rparr>) (ofb_BadgeTransaction node)\<rparr>) }),
               (at [TokNextStory], do { advanceP; x \<leftarrow> expectString; retP (node\<lparr>ofb_NextStory := x\<rparr>) })]
              (unexpected ''unexpected token %s in on_fail block'' node)) node;
      expect TokRBrace;
      retP node }"

definition parseConditionalRoute :: "ConditionalRouteNode parser" where
  "parseConditionalRoute =
    do {
      pos \<leftarrow> curPosP;
      advanceP;
      let node = (zero_ConditionalRouteNode\<lparr>crt_Pos := pos\<rparr>);
      expect TokLBrace;
      node \<leftarrow> untilP TokRBrace (\<lambda>node. branch
              [(at [TokRequiredBadges], do { x \<leftarrow> parseRequiredBadges; retP (node\<lparr>crt_RequiredBadges := Some x\<rparr>) }),
               (at [TokNextStoryline], do { advanceP; x \<leftarrow> expectString; retP (node\<lparr>crt_NextStoryline := x\<rparr>) }),
               (at [TokPriority], do { advanceP; v \<leftarrow> expectInt; retP (node\<lparr>crt_Priority := Some v\<rparr>) })]
              (unexpected ''unexpected token %s in conditional_route block'' node)) node;
      expect TokRBrace;
      retP node }"

definition parseStorylineCompleteBlock :: "StorylineCompleteBlock parser" where
  "parseStorylineCompleteBlock =
    do {
      pos \<leftarrow> curPosP;
      advanceP;
      let node = (zero_StorylineCompleteBlock\<lparr>slc_Pos := pos\<rparr>);
      expect TokLBrace;
      node \<leftarrow> untilP TokRBrace (\<lambda>node. branch
              [(at [TokGiveBadge], do {
                  advanceP;
                  name \<leftarrow> expectString;
                  pos' \<leftarrow> curPosP;
                  let node = node\<lparr>slc_BadgeTransaction := orNew (zero_BadgeTransactionNode\<lparr>bt_Pos := pos'\<rparr>) (slc_BadgeTransaction node)\<rparr>;
                  retP (node\<lparr>slc_BadgeTransaction := map_option (\<lambda>b. b\<lparr>bt_GiveBadges := bt_GiveBadges b @ [name]\<rparr>) (slc_BadgeTransaction node)\<rparr>) }),
               (at [TokRemoveBadge], do {
                  advanceP;
                  name \<leftarrow> expectString;
                  pos' \<leftarrow> curPosP;
                  let node = node\<lparr>slc_BadgeTransaction := orNew (zero_BadgeTransactionNode\<lparr>bt_Pos := pos'\<rparr>) (slc_BadgeTransaction node)\<rparr>;
                  retP (node\<lparr>slc_BadgeTransaction := map_option (\<lambda>b. b\<lparr>bt_RemoveBadges := bt_RemoveBadges b @ [name]\<rparr>) (slc_BadgeTransaction node)\<rparr>) }),
               (at [TokNextStoryline], do { advanceP; x \<leftarrow> expectString; retP (node\<lparr>slc_NextStoryline := x\<rparr>) }),
               (at [TokConditionalRoute, TokRoute], do {
                  cr \<leftarrow> parseConditionalRoute;
                  retP (node\<lparr>slc_ConditionalRoutes := slc_ConditionalRoutes node @ [cr]\<rparr>) })]
              (unexpected ''unexpected token %s in storyline on_complete block'' node)) node;
      expect TokRBrace;
      retP node }"

definition parseStorylineFailBlock :: "StorylineFailBlock parser" where
  "parseStorylineFailBlock =
    do {
      pos \<leftarrow> curPosP;
      advanceP;
      let node = (zero_StorylineFailBlock\<lparr>slf_Pos := pos\<rparr>);
      expect TokLBrace;
      node \<leftarrow> untilP TokRBrace (\<lambda>node. branch
              [(at [TokGiveBadge], do {
                  advanceP;
                  name \<leftarrow> expectString;
                  pos' \<leftarrow> curPosP;
                  let node = node\<lparr>slf_BadgeTransaction := orNew (zero_BadgeTransactionNode\<lparr>bt_Pos := pos'\<rparr>) (slf_BadgeTransaction node)\<rparr>;
                  retP (node\<lparr>slf_BadgeTransaction := map_option (\<lambda>b. b\<lparr>bt_GiveBadges := bt_GiveBadges b @ [name]\<rparr>) (slf_BadgeTransaction node)\<rparr>) }),
               (at [TokRemoveBadge], do {
                  advanceP;
                  name \<leftarrow> expectString;
                  pos' \<leftarrow> curPosP;
                  let node = node\<lparr>slf_BadgeTransaction := orNew (zero_BadgeTransactionNode\<lparr>bt_Pos := pos'\<rparr>) (slf_BadgeTransaction node)\<rparr>;
                  retP (node\<lparr>slf_BadgeTransaction := map_option (\<lambda>b. b\<lparr>bt_RemoveBadges := bt_RemoveBadges b @ [name]\<rparr>) (slf_BadgeTransaction node)\<rparr>) }),
               (at [TokNextStoryline], do { advanceP; x \<leftarrow> expectString; retP (node\<lparr>slf_NextStoryline := x\<rparr>) }),
               (at [TokConditionalRoute, TokRoute], do {
                  cr \<leftarrow> parseConditionalRoute;
                  retP (node\<lparr>slf_ConditionalRoutes := slf_ConditionalRoutes node @ [cr]\<rparr>) })]
              (unexpected ''unexpected token %s in storyline on_fail block'' node)) node;
      expect TokRBrace;
      retP node }"

section \<open>Scenes and enactments\<close>

definition parseCertificate :: "CertificateNode parser" where
  "parseCertificate =
    do {
      pos \<leftarrow> curPosP;
      expect TokCertificate;
      let node = (zero_CertificateNode\<lparr>ce_Pos := pos\<rparr>);
      expect TokLBrace;
      node \<leftarrow> untilP TokRBrace (\<lambda>node. branch
              [(at [TokCourseRef], do { advanceP; x \<leftarrow> expectString; retP (node\<lparr>ce_CourseRef := x\<rparr>) }),
               (at [TokTemplate], do { advanceP; x \<leftarrow> expectString; retP (node\<lparr>ce_Template := x\<rparr>) })]
              (unexpected ''unexpected token %s in certificate block'' node)) node;
      expect TokRBrace;
      retP node }"

definition parseScene :: "SceneNode parser" where
  "parseScene =
    do {
      pos \<leftarrow> curPosP;
      expect TokScene;
      name \<leftarrow> expectString;
      let node = (zero_SceneNode\<lparr>sc_Pos := pos, sc_Name := name\<rparr>);
      expect TokLBrace;
      node \<leftarrow> untilP TokRBrace (\<lambda>node. branch
              [(at [TokSubject], do { advanceP; x \<leftarrow> expectStringOrIdent; retP (node\<lparr>sc_Subject := x\<rparr>) }),
               (at [TokBody], do { advanceP; x \<leftarrow> expectStringOrIdent; retP (node\<lparr>sc_Body := x\<rparr>) }),
               (at [TokFromEmail], do { advanceP; x \<leftarrow> expectStringOrIdent; retP (node\<lparr>sc_FromEmail := x\<rparr>) }),
               (at [TokFromName], do { advanceP; x \<leftarrow> expectStringOrIdent; retP (node\<lparr>sc_FromName := x\<rparr>) }),
               (at [TokReplyTo], do { advanceP; x \<leftarrow> expectStringOrIdent; retP (node\<lparr>sc_ReplyTo := x\<rparr>) }),
               (at [TokTemplate], do { advanceP; x \<leftarrow> expectString; retP (node\<lparr>sc_TemplateName := x\<rparr>) }),
               (at [TokVars], do { advanceP; x \<leftarrow> parseVarsMap; retP (node\<lparr>sc_Vars := x\<rparr>) }),
               (at [TokTags], do { advanceP; x \<leftarrow> parseStringList; retP (node\<lparr>sc_Tags := x\<rparr>) }),
               (at [TokCertificate], do { x \<leftarrow> parseCertificate; retP (node\<lparr>sc_Certificate := Some x\<rparr>) }),
               (at [TokContextPack], do {
                  advanceP;
                  packID \<leftarrow> expectString;
                  retP (node\<lparr>sc_ContextPackRefs := sc_ContextPackRefs node @ [packID]\<rparr>) }),
               (at [TokSubjectGen], do { advanceP; x \<leftarrow> expectString; retP (node\<lparr>sc_SubjectGen := x\<rparr>) }),
               (at [TokBodyGen], do { advanceP; x \<leftarrow> expectString; retP (node\<lparr>sc_BodyGen := x\<rparr>) })]
              (unexpected ''unexpected token %s in scene block'' node)) node;
      expect TokRBrace;
      retP node }"

definition parseScenesRange :: "ScenesRangeNode parser" where
  "parseScenesRange =
    do {
      pos \<leftarrow> curPosP;
      expect TokScenes;
      let node = (zero_ScenesRangeNode\<lparr>sr_Pos := pos\<rparr>);
      x \<leftarrow> expectInt;
      let node = node\<lparr>sr_RangeStart := x\<rparr>;
      expect TokDotDot;
      x \<leftarrow> expectInt;
      let node = node\<lparr>sr_RangeEnd := x\<rparr>;
      expect TokAs;
      node \<leftarrow> branch
        [(at [TokIdent], do { x \<leftarrow> advanceLiteral; retP (node\<lparr>sr_Variable := x\<rparr>) })]
        (do {
            errorfP ''expected variable name after 'as', got %s'' (\<lambda>t. [AKind (Kind t)]);
            retP node });
      expect TokLBrace;
      node \<leftarrow> untilP TokRBrace (\<lambda>node. branch
              [(at [TokScene], do { sc \<leftarrow> parseScene; retP (node\<lparr>sr_Body := Some sc\<rparr>) })]
              (unexpected ''expected 'scene' in scenes range body, got %s'' node)) node;
      expect TokRBrace;
      retP node }"

text \<open>An argument of a use statement: names joined by dots.\<close>

definition parseUseArg :: "string parser" where
  "parseUseArg = do {
     arg \<leftarrow> advanceIdentLike;
     (arg, _) \<leftarrow> forP (\<lambda>(arg, broken) p. \<not> broken \<and> at [TokDot] p) (\<lambda>(arg, broken). do {
         advanceP;
         branch
           [(isIdentLike, do { field \<leftarrow> advanceIdentLike; retP (arg @ ''.'' @ field, False) })]
           (do {
              errorfP ''expected field name after '.' in argument, got %s'' (\<lambda>t. [AKind (Kind t)]);
              retP (arg, True) }) }) (arg, False);
     retP arg }"

definition parseUseArgs :: "UseStatementNode \<Rightarrow> UseStatementNode parser" where
  "parseUseArgs node = branch
     [(at [TokLParen], do {
         advanceP;
         node \<leftarrow> untilP TokRParen (\<lambda>node. branch
             [(at [TokString], do { x \<leftarrow> expectString; retP (node\<lparr>us_Args := us_Args node @ [x]\<rparr>) }),
              (isIdentLike, do { arg \<leftarrow> parseUseArg; retP (node\<lparr>us_Args := us_Args node @ [arg]\<rparr>) }),
              (at [TokComma], do { advanceP; retP node })]
             (unexpected ''expected argument in use statement, got %s'' node)) node;
         expect TokRParen;
         retP node })]
     (retP node)"

text \<open>The name and the arguments after \<open>use pattern\<close> and \<open>use policy\<close>.\<close>

definition parseUseTarget :: "UseStatementNode \<Rightarrow> UseStatementNode option parser" where
  "parseUseTarget node = branch
     [(isIdentLike, do {
         x \<leftarrow> advanceIdentLike;
         node \<leftarrow> parseUseArgs (node\<lparr>us_Target := x\<rparr>);
         retP (Some node) })]
     (do {
        errorfP ''expected name after 'use %s', got %s'' (\<lambda>t. [AStr (us_Kind node), AKind (Kind t)]);
        retP None })"

definition parseUseStatement :: "UseStatementNode option parser" where
  "parseUseStatement = do {
     pos \<leftarrow> curPosP;
     expect TokUse;
     let node = (zero_UseStatementNode\<lparr>us_Pos := pos\<rparr>);
     branch
       [(at [TokPattern], do { advanceP; parseUseTarget (node\<lparr>us_Kind := ''pattern''\<rparr>) }),
        (at [TokPolicy], do { advanceP; parseUseTarget (node\<lparr>us_Kind := ''policy''\<rparr>) }),
        (at [TokSender], do {
           advanceP;
           let node = node\<lparr>us_Kind := ''sender''\<rparr>;
           branch
             [(at [TokDefault], do { advanceP; retP (Some (node\<lparr>us_Target := ''default''\<rparr>)) }),
              (at [TokIdent], do { x \<leftarrow> advanceLiteral; retP (Some (node\<lparr>us_Target := x\<rparr>)) }),
              (at [TokString], do { x \<leftarrow> expectString; retP (Some (node\<lparr>us_Target := x\<rparr>)) })]
             (retP (Some node)) })]
       (unexpected ''expected 'pattern', 'policy', or 'sender' after 'use', got %s'' None) }"

definition parseEnactment :: "EnactmentNode parser" where
  "parseEnactment =
    do {
      pos \<leftarrow> curPosP;
      expect TokEnactment;
      name \<leftarrow> branch
        [(at [TokString], do { name \<leftarrow> expectString; retP name }),
         (isIdentLike, do { name \<leftarrow> advanceIdentLike; retP name })]
        (do {
            errorfP ''expected enactment name (string or identifier), got %s'' (\<lambda>t. [AKind (Kind t)]);
            let name = '''';
            advanceP;
            retP name });
      let node = (zero_EnactmentNode\<lparr>en_Pos := pos, en_Name := name\<rparr>);
      expect TokLBrace;
      node \<leftarrow> untilP TokRBrace (\<lambda>node. branch
              [(at [TokLevel], do {
                  advanceP;
                  branch
                    [(at [TokInt], do { v \<leftarrow> expectInt; retP (node\<lparr>en_Level := Some v\<rparr>) }),
                     ((\<lambda>p. at [TokIdent] p \<or> isIdentLike p), do { x \<leftarrow> parseTriggerActionRef; retP (node\<lparr>en_LevelExpr := x\<rparr>) })]
                    (unexpected ''expected integer or expression after 'level', got %s'' node) }),
               (at [TokOrder], do {
                  advanceP;
                  branch
                    [(at [TokInt], do { v \<leftarrow> expectInt; retP (node\<lparr>en_Order := Some v\<rparr>) }),
                     ((\<lambda>p. at [TokIdent] p \<or> isIdentLike p), do { x \<leftarrow> parseTriggerActionRef; retP (node\<lparr>en_OrderExpr := x\<rparr>) })]
                    (unexpected ''expected integer or expression after 'order', got %s'' node) }),
               (at [TokSkipToNextStorylineOnExpiry], do {
                  advanceP;
                  v \<leftarrow> expectBool;
                  retP (node\<lparr>en_SkipToNextStorylineOnExpiry := Some v\<rparr>) }),
               (at [TokScene], do { sc \<leftarrow> parseScene; retP (node\<lparr>en_Scenes := en_Scenes node @ [sc]\<rparr>) }),
               (at [TokOn], do {
                  tr \<leftarrow> parseTrigger;
                  retP (node\<lparr>en_Triggers := en_Triggers node @ opt_list tr\<rparr>) }),
               (at [TokUse], do {
                  us \<leftarrow> parseUseStatement;
                  retP (node\<lparr>en_UseStatements := en_UseStatements node @ opt_list us\<rparr>) }),
               (at [TokScenes], do { x \<leftarrow> parseScenesRange; retP (node\<lparr>en_ScenesRange := Some x\<rparr>) })]
              (unexpected ''unexpected token %s in enactment block'' node)) node;
      expect TokRBrace;
      retP node }"

section \<open>Data, loops, storylines and stories\<close>

definition parseDataObjectLiteral :: "DataObjectLiteral parser" where
  "parseDataObjectLiteral =
    do {
      pos \<leftarrow> curPosP;
      expect TokLBrace;
      let obj = (zero_DataObjectLiteral\<lparr>dob_Pos := pos, dob_Fields := []\<rparr>);
      obj \<leftarrow> untilP TokRBrace (\<lambda>obj. branch
              [(isIdentLike, do {
                  key \<leftarrow> advanceIdentLike;
                  expect TokColon;
                  r \<leftarrow> branch
                    [(at [TokString], do { val \<leftarrow> expectString; retP (Some val) }),
                     (at [TokInt], do { val \<leftarrow> advanceLiteral; retP (Some val) }),
                     (isIdentLike, do { val \<leftarrow> advanceIdentLike; retP (Some val) })]
                    (unexpected ''expected string, integer, or identifier value in data object, got %s'' None);
                  case r of None \<Rightarrow> retP obj
                    | Some val \<Rightarrow> do {
                        let obj = obj\<lparr>dob_Fields := gomap_put key val (dob_Fields obj)\<rparr>;
                        optionally [TokComma];
                        retP obj } })]
              (unexpected ''expected field name in data object, got %s'' obj)) obj;
      expect TokRBrace;
      retP obj }"

definition parseDataBlock :: "DataBlockNode option parser" where
  "parseDataBlock =
    do {
      pos \<leftarrow> curPosP;
      expect TokData;
      let node = (zero_DataBlockNode\<lparr>db_Pos := pos\<rparr>);
      branch
        [(isIdentLike, do {
            x \<leftarrow> advanceIdentLike;
            let node = node\<lparr>db_Name := x\<rparr>;
            expect TokEquals;
            expect TokLBracket;
            node \<leftarrow> untilP TokRBracket (\<lambda>node. branch
                    [(at [TokLBrace], do {
                        obj \<leftarrow> parseDataObjectLiteral;
                        retP (node\<lparr>db_Items := db_Items node @ [obj]\<rparr>) }),
                     (at [TokComma], do { advanceP; retP node })]
                    (unexpected ''expected '{' or ']' in data array, got %s'' node)) node;
            expect TokRBracket;
            retP (Some node) })]
        (do { errorfP ''expected data block name, got %s'' (\<lambda>t. [AKind (Kind t)]); retP None }) }"

text \<open>
  \<open>parseForLoop(context)\<close> is called with two contexts. What they share is \<open>forLoop\<close>, with the
  body of the last loop as its argument.
\<close>

definition forLoop :: "(ForNode \<Rightarrow> ForNode parser) \<Rightarrow> ForNode option parser" where
  "forLoop body =
    do {
      pos \<leftarrow> curPosP;
      expect TokFor;
      let node = (set_fl_Pos pos zero_ForNode);
      branch
        [(isIdentLike, do {
            x \<leftarrow> advanceIdentLike;
            let node = (set_fl_Variable x node);
            expect TokIn;
            r \<leftarrow> branch
              [(at [TokLBracket], do {
                  advanceP;
                  node \<leftarrow> untilP TokRBracket (\<lambda>node. branch
                          [(at [TokLBrace], do {
                              obj \<leftarrow> parseDataObjectLiteral;
                              retP (set_fl_ObjectItems (fl_ObjectItems node @ [obj]) node) }),
                           (at [TokString], do { x \<leftarrow> expectString; retP (set_fl_Items (fl_Items node @ [x]) node) }),
                           (at [TokComma], do { advanceP; retP node })]
                          (unexpected ''expected '{', string, or ']' in for loop data, got %s'' node)) node;
                  expect TokRBracket;
                  retP (Some node) }),
               (isIdentLike, do { x \<leftarrow> advanceIdentLike; retP (Some (set_fl_DataRef x node)) })]
              (do {
                  errorfP ''expected data reference or inline array after 'in', got %s'' (\<lambda>t. [AKind (Kind t)]);
                  retP None });
            case r of None \<Rightarrow> retP None
              | Some node \<Rightarrow> do {
                  expect TokLBrace;
                  node \<leftarrow> untilP TokRBrace body node;
                  expect TokRBrace;
                  retP (Some node) } })]
        (do {
            errorfP ''expected loop variable name after 'for', got %s'' (\<lambda>t. [AKind (Kind t)]);
            retP None }) }"

definition parseForLoop_storyline :: "ForNode option parser" where
  "parseForLoop_storyline = forLoop (\<lambda>node. branch
     [(at [TokEnactment], do {
         en \<leftarrow> parseEnactment;
         retP (set_fl_BodyEnactments (fl_BodyEnactments node @ [en]) node) }),
      (at [TokUse], do {
         us \<leftarrow> parseUseStatement;
         retP (set_fl_BodyUseStatements (fl_BodyUseStatements node @ opt_list us) node) })]
     (unexpected ''expected 'enactment' or 'use' in for loop body (storyline context), got %s'' node))"

definition parseStoryline :: "StorylineNode parser" where
  "parseStoryline =
    do {
      pos \<leftarrow> curPosP;
      expect TokStoryline;
      name \<leftarrow> expectString;
      let node = (set_sl_Name name (set_sl_Pos pos zero_StorylineNode));
      expect TokLBrace;
      node \<leftarrow> untilP TokRBrace (\<lambda>node. branch
              [(at [TokOrder], do {
                  advanceP;
                  branch
                    [(at [TokInt], do { v \<leftarrow> expectInt; retP (set_sl_Order (Some v) node) }),
                     ((\<lambda>p. at [TokIdent] p \<or> isIdentLike p), do { x \<leftarrow> parseTriggerActionRef; retP (set_sl_OrderExpr x node) })]
                    (unexpected ''expected integer or expression after 'order', got %s'' node) }),
               (at [TokRequiredBadges], do { x \<leftarrow> parseRequiredBadges; retP (set_sl_RequiredBadges (Some x) node) }),
               (at [TokOnBegin], do { x \<leftarrow> parseLifecycleBlock; retP (set_sl_OnBegin (Some x) node) }),
               (at [TokOnComplete], do { x \<leftarrow> parseStorylineCompleteBlock; retP (set_sl_OnComplete (Some x) node) }),
               (at [TokOnFail], do { x \<leftarrow> parseStorylineFailBlock; retP (set_sl_OnFail (Some x) node) }),
               (at [TokEnactment], do {
                  en \<leftarrow> parseEnactment;
                  retP (set_sl_Enactments (sl_Enactments node @ [en]) node) }),
               (at [TokFor], do {
                  fl \<leftarrow> parseForLoop_storyline;
                  retP (set_sl_ForLoops (sl_ForLoops node @ opt_list fl) node) }),
               (at [TokUse], do {
                  us \<leftarrow> parseUseStatement;
                  retP (set_sl_UseStatements (sl_UseStatements node @ opt_list us) node) })]
              (unexpected ''unexpected token %s in storyline block'' node)) node;
      expect TokRBrace;
      retP node }"

definition parseForLoop_story :: "ForNode option parser" where
  "parseForLoop_story = forLoop (\<lambda>node. branch
     [(at [TokStoryline], do { sl \<leftarrow> parseStoryline; retP (set_fl_Body (fl_Body node @ [sl]) node) })]
     (unexpected ''expected 'storyline' in for loop body (story context), got %s'' node))"

definition parseStory :: "StoryNode parser" where
  "parseStory =
    do {
      pos \<leftarrow> curPosP;
      expect TokStory;
      name \<leftarrow> expectString;
      let node = (zero_StoryNode\<lparr>st_Pos := pos, st_Name := name\<rparr>);
      expect TokLBrace;
      node \<leftarrow> untilP TokRBrace (\<lambda>node. branch
              [(at [TokPriority], do { advanceP; v \<leftarrow> expectInt; retP (node\<lparr>st_Priority := Some v\<rparr>) }),
               (at [TokAllowInterruption], do { advanceP; v \<leftarrow> expectBool; retP (node\<lparr>st_AllowInterruption := Some v\<rparr>) }),
               (at [TokOnBegin], do { x \<leftarrow> parseLifecycleBlock; retP (node\<lparr>st_OnBegin := Some x\<rparr>) }),
               (at [TokOnComplete], do { x \<leftarrow> parseOnCompleteBlock; retP (node\<lparr>st_OnComplete := Some x\<rparr>) }),
               (at [TokOnFail], do { x \<leftarrow> parseOnFailBlock; retP (node\<lparr>st_OnFail := Some x\<rparr>) }),
               (at [TokRequiredBadges], do { x \<leftarrow> parseRequiredBadges; retP (node\<lparr>st_RequiredBadges := Some x\<rparr>) }),
               (at [TokStartTrigger], do { advanceP; v \<leftarrow> expectString; retP (node\<lparr>st_StartTrigger := Some v\<rparr>) }),
               (at [TokCompleteTrigger], do { advanceP; v \<leftarrow> expectString; retP (node\<lparr>st_CompleteTrigger := Some v\<rparr>) }),
               (at [TokStoryline], do { sl \<leftarrow> parseStoryline; retP (node\<lparr>st_Storylines := st_Storylines node @ [sl]\<rparr>) }),
               (at [TokFor], do {
                  fl \<leftarrow> parseForLoop_story;
                  retP (node\<lparr>st_ForLoops := st_ForLoops node @ opt_list fl\<rparr>) }),
               (at [TokUse], do {
                  us \<leftarrow> parseUseStatement;
                  retP (node\<lparr>st_UseStatements := st_UseStatements node @ opt_list us\<rparr>) })]
              (unexpected ''unexpected token %s in story block'' node)) node;
      expect TokRBrace;
      retP node }"

section \<open>Definitions\<close>

definition parseDefaultSender :: "DefaultSenderNode parser" where
  "parseDefaultSender =
    do {
      pos \<leftarrow> curPosP;
      expect TokDefault;
      expect TokSender;
      let node = (zero_DefaultSenderNode\<lparr>ds_Pos := pos\<rparr>);
      node \<leftarrow> branch [(at [TokString], do { x \<leftarrow> expectString; retP (node\<lparr>ds_Name := x\<rparr>) })] (retP node);
      expect TokLBrace;
      node \<leftarrow> untilP TokRBrace (\<lambda>node. branch
              [(at [TokFromEmail], do { advanceP; x \<leftarrow> expectString; retP (node\<lparr>ds_FromEmail := x\<rparr>) }),
               (at [TokFromName], do { advanceP; x \<leftarrow> expectString; retP (node\<lparr>ds_FromName := x\<rparr>) }),
               (at [TokReplyTo], do { advanceP; x \<leftarrow> expectString; retP (node\<lparr>ds_ReplyTo := x\<rparr>) })]
              (unexpected ''unexpected token %s in default sender block'' node)) node;
      expect TokRBrace;
      retP node }"

definition parseLinksBlock :: "LinksBlockNode parser" where
  "parseLinksBlock =
    do {
      pos \<leftarrow> curPosP;
      expect TokLinks;
      let node = (zero_LinksBlockNode\<lparr>lk_Pos := pos, lk_Links := []\<rparr>);
      expect TokLBrace;
      node \<leftarrow> untilP TokRBrace (\<lambda>node. branch
              [(at [TokIdent], do {
                  name \<leftarrow> advanceLiteral;
                  expect TokEquals;
                  value \<leftarrow> expectString;
                  retP (node\<lparr>lk_Links := gomap_put name value (lk_Links node)\<rparr>) })]
              (unexpected ''expected link name identifier in links block, got %s'' node)) node;
      expect TokRBrace;
      retP node }"

definition parsePatternDef :: "PatternDefNode option parser" where
  "parsePatternDef =
    do {
      pos \<leftarrow> curPosP;
      expect TokPattern;
      nameTok \<leftarrow> curTok;
      branch
        [((\<lambda>p. \<not> at [TokIdent] p), do { errorfP ''expected pattern name, got %s'' (\<lambda>t. [AKind (Kind t)]); retP None })]
        (do {
            advanceP;
            let node = (zero_PatternDefNode\<lparr>pat_Pos := pos, pat_Name := Literal nameTok\<rparr>);
            expect TokLParen;
            node \<leftarrow> untilP TokRParen (\<lambda>node. branch
                    [(isIdentLike, do { x \<leftarrow> advanceIdentLike; retP (node\<lparr>pat_Params := pat_Params node @ [x]\<rparr>) }),
                     (at [TokComma], do { advanceP; retP node })]
                    (unexpected ''expected parameter name or ')', got %s'' node)) node;
            expect TokRParen;
            expect TokLBrace;
            node \<leftarrow> untilP TokRBrace (\<lambda>node. branch
                    [(at [TokEnactment], do {
                        en \<leftarrow> parseEnactment;
                        retP (node\<lparr>pat_Enactments := pat_Enactments node @ [en]\<rparr>) }),
                     (at [TokScene], do { sc \<leftarrow> parseScene; retP (node\<lparr>pat_Scenes := pat_Scenes node @ [sc]\<rparr>) }),
                     (at [TokScenes], do { x \<leftarrow> parseScenesRange; retP (node\<lparr>pat_ScenesRange := Some x\<rparr>) }),
                     (at [TokOn], do {
                        tr \<leftarrow> parseTrigger;
                        retP (node\<lparr>pat_Triggers := pat_Triggers node @ opt_list tr\<rparr>) }),
                     (at [TokUse], do {
                        errorfP ''nested 'use' in pattern definitions is not supported'' (\<lambda>_. []);
                        advanceP;
                        retP node })]
                    (unexpected ''unexpected token %s in pattern body'' node)) node;
            expect TokRBrace;
            retP (Some node) }) }"

definition parsePolicyDef :: "PolicyDefNode option parser" where
  "parsePolicyDef =
    do {
      pos \<leftarrow> curPosP;
      expect TokPolicy;
      nameTok \<leftarrow> curTok;
      branch
        [((\<lambda>p. \<not> at [TokIdent] p), do { errorfP ''expected policy name, got %s'' (\<lambda>t. [AKind (Kind t)]); retP None })]
        (do {
            advanceP;
            let node = (zero_PolicyDefNode\<lparr>pol_Pos := pos, pol_Name := Literal nameTok\<rparr>);
            expect TokLParen;
            node \<leftarrow> untilP TokRParen (\<lambda>node. branch
                    [(isIdentLike, do { x \<leftarrow> advanceIdentLike; retP (node\<lparr>pol_Params := pol_Params node @ [x]\<rparr>) }),
                     (at [TokComma], do { advanceP; retP node })]
                    (unexpected ''expected parameter name or ')', got %s'' node)) node;
            expect TokRParen;
            expect TokLBrace;
            node \<leftarrow> untilP TokRBrace (\<lambda>node. branch
                    [(at [TokOn], do {
                        tr \<leftarrow> parseTrigger;
                        retP (node\<lparr>pol_Triggers := pol_Triggers node @ opt_list tr\<rparr>) })]
                    (unexpected ''unexpected token %s in policy body (expected 'on')'' node)) node;
            expect TokRBrace;
            retP (Some node) }) }"

definition parseSceneDefaults :: "SceneDefaultsNode parser" where
  "parseSceneDefaults =
    do {
      pos \<leftarrow> curPosP;
      expect TokSceneDefaults;
      let node = (zero_SceneDefaultsNode\<lparr>sd_Pos := pos\<rparr>);
      expect TokLBrace;
      node \<leftarrow> untilP TokRBrace (\<lambda>node. branch
              [(at [TokOn], do {
                  tr \<leftarrow> parseTrigger;
                  retP (node\<lparr>sd_Triggers := sd_Triggers node @ opt_list tr\<rparr>) }),
               (at [TokUse], do {
                  us \<leftarrow> parseUseStatement;
                  retP (node\<lparr>sd_UseStatements := sd_UseStatements node @ opt_list us\<rparr>) })]
              (unexpected ''expected 'on' or 'use' in scene_defaults block, got %s'' node)) node;
      expect TokRBrace;
      retP node }"

definition parseEnactmentDefaults :: "EnactmentDefaultsNode parser" where
  "parseEnactmentDefaults =
    do {
      pos \<leftarrow> curPosP;
      expect TokEnactmentDefaults;
      let node = (zero_EnactmentDefaultsNode\<lparr>ed_Pos := pos\<rparr>);
      expect TokLBrace;
      node \<leftarrow> untilP TokRBrace (\<lambda>node. branch
              [(at [TokOn], do {
                  tr \<leftarrow> parseTrigger;
                  retP (node\<lparr>ed_Triggers := ed_Triggers node @ opt_list tr\<rparr>) }),
               (at [TokUse], do {
                  us \<leftarrow> parseUseStatement;
                  retP (node\<lparr>ed_UseStatements := ed_UseStatements node @ opt_list us\<rparr>) })]
              (unexpected ''expected 'on' or 'use' in enactment_defaults block, got %s'' node)) node;
      expect TokRBrace;
      retP node }"

section \<open>Campaigns\<close>

definition parseCampaignAudience :: "CampaignAudienceNode parser" where
  "parseCampaignAudience =
    do {
      pos \<leftarrow> curPosP;
      advanceP;
      let node = (zero_CampaignAudienceNode\<lparr>ca_Pos := pos\<rparr>);
      expect TokLBrace;
      node \<leftarrow> untilP TokRBrace (\<lambda>node. branch
              [(at [TokMustHave], do {
                  advanceP;
                  x \<leftarrow> parseStringListOrSingle;
                  retP (node\<lparr>ca_MustHave := ca_MustHave node @ x\<rparr>) }),
               (at [TokMustNotHave], do {
                  advanceP;
                  x \<leftarrow> parseStringListOrSingle;
                  retP (node\<lparr>ca_MustNotHave := ca_MustNotHave node @ x\<rparr>) })]
              (unexpected ''unexpected token %s in audience block'' node)) node;
      expect TokRBrace;
      retP node }"

definition parseCampaignOnClick :: "CampaignClickRuleNode parser" where
  "parseCampaignOnClick =
    do {
      pos \<leftarrow> curPosP;
      expect TokOnClick;
      let urlPat = '''';
      urlPat \<leftarrow> branch [(at [TokString], do { urlPat \<leftarrow> expectString; retP urlPat })] (retP urlPat);
      let rule = (zero_CampaignClickRuleNode\<lparr>cr_Pos := pos, cr_URLPattern := urlPat\<rparr>);
      expect TokLBrace;
      rule \<leftarrow> untilP TokRBrace (\<lambda>rule. branch
              [(at [TokGiveBadge], do { advanceP; x \<leftarrow> expectString; retP (rule\<lparr>cr_AwardBadge := x\<rparr>) })]
              (unexpected ''unexpected token %s in on_click block'' rule)) rule;
      expect TokRBrace;
      retP rule }"

definition parseCampaign :: "CampaignNode parser" where
  "parseCampaign =
    do {
      pos \<leftarrow> curPosP;
      expect TokCampaign;
      name \<leftarrow> expectString;
      let node = (zero_CampaignNode\<lparr>cp_Pos := pos, cp_Name := name\<rparr>);
      expect TokLBrace;
      node \<leftarrow> untilP TokRBrace (\<lambda>node. branch
              [(at [TokSubject], do { advanceP; x \<leftarrow> expectStringOrIdent; retP (node\<lparr>cp_Subject := x\<rparr>) }),
               (at [TokBody], do { advanceP; x \<leftarrow> expectStringOrIdent; retP (node\<lparr>cp_Body := x\<rparr>) }),
               (at [TokFromEmail], do { advanceP; x \<leftarrow> expectStringOrIdent; retP (node\<lparr>cp_FromEmail := x\<rparr>) }),
               (at [TokFromName], do { advanceP; x \<leftarrow> expectStringOrIdent; retP (node\<lparr>cp_FromName := x\<rparr>) }),
               (at [TokReplyTo], do { advanceP; x \<leftarrow> expectStringOrIdent; retP (node\<lparr>cp_ReplyTo := x\<rparr>) }),
               (at [TokContextPack], do {
                  advanceP;
                  x \<leftarrow> expectString;
                  retP (node\<lparr>cp_ContextPackRefs := cp_ContextPackRefs node @ [x]\<rparr>) }),
               (at [TokSubjectGen], do { advanceP; x \<leftarrow> expectString; retP (node\<lparr>cp_SubjectGen := x\<rparr>) }),
               (at [TokBodyGen], do { advanceP; x \<leftarrow> expectString; retP (node\<lparr>cp_BodyGen := x\<rparr>) }),
               (at [TokAudience], do { x \<leftarrow> parseCampaignAudience; retP (node\<lparr>cp_Audience := Some x\<rparr>) }),
               (at [TokOnClick], do {
                  rule \<leftarrow> parseCampaignOnClick;
                  retP (node\<lparr>cp_OnClick := cp_OnClick node @ [rule]\<rparr>) })]
              (unexpected ''unexpected token %s in campaign block'' node)) node;
      expect TokRBrace;
      retP node }"

end
