(* ===== verification/ParserShop.thy ===== *)
theory ParserShop
  imports ParserScript
begin

text \<open>
  The parser of funnels and sites (\<open>src/scripting/parser.go\<close>).
\<close>

section \<open>Funnels\<close>

definition parseAIContext :: "AIContextNode parser" where
  "parseAIContext =
    do {
      pos \<leftarrow> curPosP;
      expect TokAI;
      expect TokContext;
      let node = (zero_AIContextNode\<lparr>ai_Pos := pos\<rparr>);
      node \<leftarrow> branch
        [(at [TokGlobal], do { let node = node\<lparr>ai_Mode := ''global''\<rparr>; advanceP; retP node }),
         (at [TokExtend], do { let node = node\<lparr>ai_Mode := ''extend''\<rparr>; advanceP; retP node })]
        (retP node);
      node \<leftarrow> forP (\<lambda>_. at [TokString, TokIdent]) (\<lambda>node. branch
              [(at [TokString], do {
                  val \<leftarrow> expectString;
                  branch
                    [((\<lambda>_. prefix ''http://'' val \<or> prefix ''https://'' val), retP (node\<lparr>ai_ContextURLs := ai_ContextURLs node @ [val]\<rparr>))]
                    (retP (node\<lparr>ai_ContextRefs := ai_ContextRefs node @ [val]\<rparr>)) })]
              (do { x \<leftarrow> advanceLiteral; retP (node\<lparr>ai_ContextRefs := ai_ContextRefs node @ [x]\<rparr>) })) node;
      retP node }"

definition parsePDFConfig :: "PDFConfigNode parser" where
  "parsePDFConfig =
    do {
      pos \<leftarrow> curPosP;
      expect TokPdf;
      let node = (zero_PDFConfigNode\<lparr>pdf_Pos := pos\<rparr>);
      node \<leftarrow> branch [(at [TokNew], do { advanceP; retP (node\<lparr>pdf_AIGenerated := True\<rparr>) })] (retP node);
      node \<leftarrow> branch
        [(at [TokAI], do { x \<leftarrow> parseAIContext; retP (node\<lparr>pdf_AIContext := Some x\<rparr>) })]
        (retP node);
      retP node }"

definition parseLeadMagnet :: "LeadMagnetNode parser" where
  "parseLeadMagnet =
    do {
      pos \<leftarrow> curPosP;
      expect TokLeadMagnet;
      let node = (zero_LeadMagnetNode\<lparr>lm_Pos := pos\<rparr>);
      expect TokLBrace;
      node \<leftarrow> untilP TokRBrace (\<lambda>node. branch
              [(at [TokType], do {
                  advanceP;
                  branch
                    [(at [TokString], do { x \<leftarrow> advanceLiteral; retP (node\<lparr>lm_AssetType := x\<rparr>) })]
                    (do { x \<leftarrow> advanceIdentLike; retP (node\<lparr>lm_AssetType := x\<rparr>) }) }),
               (at [TokReference], do {
                  advanceP;
                  ref \<leftarrow> branch
                    [(at [TokString], do { ref \<leftarrow> advanceLiteral; retP ref })]
                    (do { ref \<leftarrow> advanceIdentLike; retP ref });
                  branch
                    [((\<lambda>_. ref \<noteq> []), retP (node\<lparr>lm_References := lm_References node @ [ref]\<rparr>))]
                    (retP node) }),
               (at [TokContext], do {
                  advanceP;
                  branch
                    [(at [TokString], do { x \<leftarrow> advanceLiteral; retP (node\<lparr>lm_Instruction := x\<rparr>) })]
                    (do { x \<leftarrow> advanceIdentLike; retP (node\<lparr>lm_Instruction := x\<rparr>) }) }),
               (at [TokTheme], do {
                  advanceP;
                  branch
                    [(at [TokString], do { x \<leftarrow> advanceLiteral; retP (node\<lparr>lm_Theme := x\<rparr>) })]
                    (do { x \<leftarrow> advanceIdentLike; retP (node\<lparr>lm_Theme := x\<rparr>) }) })]
              (unexpected ''unexpected token %s in lead_magnet block'' node)) node;
      expect TokRBrace;
      retP node }"

definition parseBlock :: "BlockNode parser" where
  "parseBlock =
    do {
      pos \<leftarrow> curPosP;
      expect TokBlock;
      sectionID \<leftarrow> expectString;
      let node = (zero_BlockNode\<lparr>bl_Pos := pos, bl_SectionID := sectionID\<rparr>);
      expect TokLBrace;
      node \<leftarrow> untilP TokRBrace (\<lambda>node. branch
              [(at [TokType], do {
                  advanceP;
                  branch
                    [(at [TokVideo], do { x \<leftarrow> advanceLiteral; retP (node\<lparr>bl_BlockType := x\<rparr>) }),
                     (at [TokString], do { x \<leftarrow> expectString; retP (node\<lparr>bl_BlockType := x\<rparr>) }),
                     (isIdentLike, do { x \<leftarrow> advanceIdentLike; retP (node\<lparr>bl_BlockType := x\<rparr>) })]
                    (unexpected ''expected block type value, got %s'' node) }),
               (at [TokSourceURL], do { advanceP; x \<leftarrow> expectString; retP (node\<lparr>bl_SourceURL := x\<rparr>) }),
               (at [TokAutoplay], do {
                  advanceP;
                  branch
                    [(at [TokBool], do {
                        x \<leftarrow> curLiteral;
                        let node = node\<lparr>bl_Autoplay := (x = ''true'')\<rparr>;
                        advanceP;
                        retP node }),
                     (at [TokTrue], do { advanceP; retP (node\<lparr>bl_Autoplay := True\<rparr>) }),
                     (at [TokFalse], do { advanceP; retP (node\<lparr>bl_Autoplay := False\<rparr>) })]
                    (retP (node\<lparr>bl_Autoplay := True\<rparr>)) }),
               (at [TokLength], do {
                  advanceP;
                  pos' \<leftarrow> curPosP;
                  let node = node\<lparr>bl_ContentGen := orNew (zero_ContentGenNode\<lparr>cg_Pos := pos'\<rparr>) (bl_ContentGen node)\<rparr>;
                  branch
                    [(at [TokString], do {
                        x \<leftarrow> expectString;
                        retP (node\<lparr>bl_ContentGen := map_option (\<lambda>b. b\<lparr>cg_Length := x\<rparr>) (bl_ContentGen node)\<rparr>) }),
                     (isIdentLike, do {
                        x \<leftarrow> advanceIdentLike;
                        retP (node\<lparr>bl_ContentGen := map_option (\<lambda>b. b\<lparr>cg_Length := x\<rparr>) (bl_ContentGen node)\<rparr>) })]
                    (unexpected ''expected length value, got %s'' node) }),
               (at [TokPrompt], do {
                  advanceP;
                  pos' \<leftarrow> curPosP;
                  let node = node\<lparr>bl_ContentGen := orNew (zero_ContentGenNode\<lparr>cg_Pos := pos'\<rparr>) (bl_ContentGen node)\<rparr>;
                  x \<leftarrow> expectString;
                  retP (node\<lparr>bl_ContentGen := map_option (\<lambda>b. b\<lparr>cg_PromptAppend := x\<rparr>) (bl_ContentGen node)\<rparr>) }),
               (at [TokContext], do {
                  advanceP;
                  pos' \<leftarrow> curPosP;
                  let node = node\<lparr>bl_ContentGen := orNew (zero_ContentGenNode\<lparr>cg_Pos := pos'\<rparr>) (bl_ContentGen node)\<rparr>;
                  branch
                    [(at [TokString], do {
                        x \<leftarrow> advanceLiteral;
                        retP (node\<lparr>bl_ContentGen := map_option (\<lambda>b. b\<lparr>cg_ContextURLs := cg_ContextURLs b @ [x]\<rparr>) (bl_ContentGen node)\<rparr>) }),
                     (isIdentLike, do {
                        x \<leftarrow> advanceIdentLike;
                        retP (node\<lparr>bl_ContentGen := map_option (\<lambda>b. b\<lparr>cg_ContextURLs := cg_ContextURLs b @ [x]\<rparr>) (bl_ContentGen node)\<rparr>) })]
                    (unexpected ''expected context URL string, got %s'' node) }),
               (at [TokIdent], branch
                    [(at_literal ''section_id'', do {
                        advanceP;
                        branch
                          [(at [TokString], do { x \<leftarrow> advanceLiteral; retP (node\<lparr>bl_SectionID := x\<rparr>) }),
                           (isIdentLike, do { x \<leftarrow> advanceIdentLike; retP (node\<lparr>bl_SectionID := x\<rparr>) })]
                          (retP node) })]
                    (unexpected ''unexpected token %s in block'' node)),
               (at [TokAI], do { x \<leftarrow> parseAIContext; retP (node\<lparr>bl_AIContext := Some x\<rparr>) }),
               (at [TokMediaRef], do { advanceP; x \<leftarrow> expectString; retP (node\<lparr>bl_MediaPublicId := x\<rparr>) }),
               (at [TokPlayerPreset], do { advanceP; x \<leftarrow> expectString; retP (node\<lparr>bl_PlayerPresetId := x\<rparr>) })]
              (unexpected ''unexpected token %s in block'' node)) node;
      expect TokRBrace;
      retP node }"

definition parseFormField :: "FormFieldNode option parser" where
  "parseFormField = do {
     pos \<leftarrow> curPosP;
     expect TokField;
     let node = (zero_FormFieldNode\<lparr>ff_Pos := pos\<rparr>);
     r \<leftarrow> branch
       [(at [TokString], do { x \<leftarrow> expectString; retP (Some (node\<lparr>ff_FieldName := x\<rparr>)) }),
        (isIdentLike, do { x \<leftarrow> advanceIdentLike; retP (Some (node\<lparr>ff_FieldName := x\<rparr>)) }),
        (at [TokEmail], do { advanceP; retP (Some (node\<lparr>ff_FieldName := ''email''\<rparr>)) })]
       (unexpected ''expected field name, got %s'' None);
     case r of None \<Rightarrow> retP None
       | Some node \<Rightarrow> do {
           node \<leftarrow> branch
             [(at [TokCustom], do {
                 let node = node\<lparr>ff_FieldType := ''custom''\<rparr>;
                 advanceP;
                 node \<leftarrow> branch
                   [(at [TokString], do { x \<leftarrow> expectString; retP (node\<lparr>ff_CustomField := x\<rparr>) }),
                    (isIdentLike, do { x \<leftarrow> advanceIdentLike; retP (node\<lparr>ff_CustomField := x\<rparr>) })]
                   (retP node);
                 retP (if ff_CustomField node \<noteq> [] \<and> ff_FieldName node = ff_CustomField node then node
                       else if ff_CustomField node \<noteq> [] then node\<lparr>ff_FieldName := ff_CustomField node\<rparr>
                       else node) }),
              (at [TokString], do { x \<leftarrow> expectString; retP (node\<lparr>ff_FieldType := x\<rparr>) }),
              (at [TokEmail], do { advanceP; retP (node\<lparr>ff_FieldType := ''email''\<rparr>) })]
             (retP node);
           let node = (if ff_FieldType node = [] then node\<lparr>ff_FieldType := ff_FieldName node\<rparr> else node);
           node \<leftarrow> branch
             [(at [TokRequired], do { advanceP; retP (node\<lparr>ff_Required := True\<rparr>) })]
             (retP node);
           retP (Some node) } }"

definition parseOrderBump :: "OrderBumpNode parser" where
  "parseOrderBump =
    do {
      pos \<leftarrow> curPosP;
      expect TokOrderBump;
      name \<leftarrow> expectString;
      let node = (zero_OrderBumpNode\<lparr>ob_Pos := pos, ob_Name := name\<rparr>);
      expect TokLBrace;
      node \<leftarrow> untilP TokRBrace (\<lambda>node. branch
              [(at [TokOffer], do { advanceP; x \<leftarrow> expectString; retP (node\<lparr>ob_OfferID := x\<rparr>) }),
               (at [TokIdent], do {
                  ident \<leftarrow> curLiteral;
                  advanceP;
                  branch
                    [((\<lambda>_. ident = ''text''), do { x \<leftarrow> expectString; retP (node\<lparr>ob_Text := x\<rparr>) })]
                    (do {
                        errorfP ''unexpected identifier %q in order_bump block'' (\<lambda>_. [AStr ident]);
                        retP node }) })]
              (unexpected ''unexpected token %s in order_bump block'' node)) node;
      expect TokRBrace;
      retP node }"

definition parseForm :: "FormNode parser" where
  "parseForm =
    do {
      pos \<leftarrow> curPosP;
      expect TokForm;
      name \<leftarrow> expectString;
      let node = (zero_FormNode\<lparr>fm_Pos := pos, fm_Name := name\<rparr>);
      expect TokLBrace;
      node \<leftarrow> untilP TokRBrace (\<lambda>node. branch
              [(at [TokType], do {
                  advanceP;
                  branch
                    [(at [TokString], do { x \<leftarrow> expectString; retP (node\<lparr>fm_FormType := x\<rparr>) }),
                     (at [TokCheckout], do { let node = node\<lparr>fm_FormType := ''checkout''\<rparr>; advanceP; retP node }),
                     (at [TokLeadCapture], do { let node = node\<lparr>fm_FormType := ''lead_capture''\<rparr>; advanceP; retP node }),
                     (at [TokUpsell], do { let node = node\<lparr>fm_FormType := ''upsell''\<rparr>; advanceP; retP node }),
                     (at [TokOneClickUpsell], do {
                        let node = node\<lparr>fm_FormType := ''one_click_upsell''\<rparr>;
                        advanceP;
                        retP node }),
                     (isIdentLike, do { x \<leftarrow> advanceIdentLike; retP (node\<lparr>fm_FormType := x\<rparr>) })]
                    (unexpected ''expected form type, got %s'' node) }),
               (at [TokProductId], do { advanceP; x \<leftarrow> expectString; retP (node\<lparr>fm_ProductID := x\<rparr>) }),
               (at [TokOffer], do { advanceP; x \<leftarrow> expectString; retP (node\<lparr>fm_OfferID := x\<rparr>) }),
               (at [TokOrderBump], do { ob \<leftarrow> parseOrderBump; retP (node\<lparr>fm_OrderBumps := fm_OrderBumps node @ [ob]\<rparr>) }),
               (at [TokField], do { ff \<leftarrow> parseFormField; retP (node\<lparr>fm_Fields := fm_Fields node @ opt_list ff\<rparr>) })]
              (unexpected ''unexpected token %s in form block'' node)) node;
      expect TokRBrace;
      retP node }"

definition parsePage :: "PageNode parser" where
  "parsePage =
    do {
      pos \<leftarrow> curPosP;
      expect TokPage;
      name \<leftarrow> expectString;
      let node = (zero_PageNode\<lparr>pg_Pos := pos, pg_Name := name\<rparr>);
      expect TokLBrace;
      node \<leftarrow> untilP TokRBrace (\<lambda>node. branch
              [(at [TokTemplate], do { advanceP; x \<leftarrow> expectString; retP (node\<lparr>pg_TemplateName := x\<rparr>) }),
               (at [TokAI], do { x \<leftarrow> parseAIContext; retP (node\<lparr>pg_AIContext := Some x\<rparr>) }),
               (at [TokBlock], do { b \<leftarrow> parseBlock; retP (node\<lparr>pg_Blocks := pg_Blocks node @ [b]\<rparr>) }),
               (at [TokForm], do { f \<leftarrow> parseForm; retP (node\<lparr>pg_Forms := pg_Forms node @ [f]\<rparr>) }),
               (at [TokLeadMagnet], do {
                  lm \<leftarrow> parseLeadMagnet;
                  retP (node\<lparr>pg_LeadMagnets := pg_LeadMagnets node @ [lm]\<rparr>) })]
              (unexpected ''unexpected token %s in page block'' node)) node;
      expect TokRBrace;
      retP node }"

definition parseStage :: "StageNode parser" where
  "parseStage =
    do {
      pos \<leftarrow> curPosP;
      expect TokStage;
      name \<leftarrow> expectString;
      let node = (zero_StageNode\<lparr>sg_Pos := pos, sg_Name := name\<rparr>);
      expect TokLBrace;
      node \<leftarrow> untilP TokRBrace (\<lambda>node. branch
              [(at [TokOrder], do { advanceP; v \<leftarrow> expectInt; retP (node\<lparr>sg_Order := Some v\<rparr>) }),
               (at [TokPath], do { advanceP; x \<leftarrow> expectString; retP (node\<lparr>sg_Path := x\<rparr>) }),
               (at [TokPage], do { pg \<leftarrow> parsePage; retP (node\<lparr>sg_Pages := sg_Pages node @ [pg]\<rparr>) }),
               (at [TokOn], do {
                  tr \<leftarrow> parseTrigger;
                  retP (node\<lparr>sg_Triggers := sg_Triggers node @ opt_list tr\<rparr>) }),
               (at [TokPdf], do { x \<leftarrow> parsePDFConfig; retP (node\<lparr>sg_PDFConfig := Some x\<rparr>) }),
               (at [TokLeadMagnet], do {
                  lm \<leftarrow> parseLeadMagnet;
                  retP (node\<lparr>sg_LeadMagnets := sg_LeadMagnets node @ [lm]\<rparr>) })]
              (unexpected ''unexpected token %s in stage block'' node)) node;
      expect TokRBrace;
      retP node }"

definition parseRoute :: "RouteNode parser" where
  "parseRoute =
    do {
      pos \<leftarrow> curPosP;
      expect TokRoute;
      name \<leftarrow> expectString;
      let node = (zero_RouteNode\<lparr>rt_Pos := pos, rt_Name := name\<rparr>);
      expect TokLBrace;
      node \<leftarrow> untilP TokRBrace (\<lambda>node. branch
              [(at [TokOrder], do { advanceP; v \<leftarrow> expectInt; retP (node\<lparr>rt_Order := Some v\<rparr>) }),
               (at [TokRequiredBadges], do { x \<leftarrow> parseRequiredBadges; retP (node\<lparr>rt_RequiredBadges := Some x\<rparr>) }),
               (at [TokMustHaveBadge], do {
                  advanceP;
                  badgeName \<leftarrow> expectString;
                  pos' \<leftarrow> curPosP;
                  let node = node\<lparr>rt_RequiredBadges := orNew (zero_RequiredBadgesNode\<lparr>rb_Pos := pos'\<rparr>) (rt_RequiredBadges node)\<rparr>;
                  retP (node\<lparr>rt_RequiredBadges := map_option (\<lambda>b. b\<lparr>rb_MustHave := rb_MustHave b @ [badgeName]\<rparr>) (rt_RequiredBadges node)\<rparr>) }),
               (at [TokMustNotHaveBadge], do {
                  advanceP;
                  badgeName \<leftarrow> expectString;
                  pos' \<leftarrow> curPosP;
                  let node = node\<lparr>rt_RequiredBadges := orNew (zero_RequiredBadgesNode\<lparr>rb_Pos := pos'\<rparr>) (rt_RequiredBadges node)\<rparr>;
                  retP (node\<lparr>rt_RequiredBadges := map_option (\<lambda>b. b\<lparr>rb_MustNotHave := rb_MustNotHave b @ [badgeName]\<rparr>) (rt_RequiredBadges node)\<rparr>) }),
               (at [TokStage], do { s \<leftarrow> parseStage; retP (node\<lparr>rt_Stages := rt_Stages node @ [s]\<rparr>) })]
              (unexpected ''unexpected token %s in route block'' node)) node;
      expect TokRBrace;
      retP node }"

definition parseFunnel :: "FunnelNode parser" where
  "parseFunnel =
    do {
      pos \<leftarrow> curPosP;
      expect TokFunnel;
      name \<leftarrow> expectString;
      let node = (zero_FunnelNode\<lparr>fn_Pos := pos, fn_Name := name\<rparr>);
      expect TokLBrace;
      node \<leftarrow> untilP TokRBrace (\<lambda>node. branch
              [(at [TokDomain], do { advanceP; x \<leftarrow> expectString; retP (node\<lparr>fn_Domain := x\<rparr>) }),
               (at [TokAI], do { x \<leftarrow> parseAIContext; retP (node\<lparr>fn_AIContext := Some x\<rparr>) }),
               (at [TokRoute], do { r \<leftarrow> parseRoute; retP (node\<lparr>fn_Routes := fn_Routes node @ [r]\<rparr>) })]
              (unexpected ''unexpected token %s in funnel block'' node)) node;
      expect TokRBrace;
      retP node }"

section \<open>Sites\<close>

definition parseSEOBlock :: "SEONode parser" where
  "parseSEOBlock =
    do {
      pos \<leftarrow> curPosP;
      expect TokSEO;
      let node = (zero_SEONode\<lparr>seo_Pos := pos\<rparr>);
      expect TokLBrace;
      node \<leftarrow> untilP TokRBrace (\<lambda>node. branch
              [(at [TokTitle], do { advanceP; x \<leftarrow> expectString; retP (node\<lparr>seo_MetaTitle := x\<rparr>) }),
               (at [TokDescription], do { advanceP; x \<leftarrow> expectString; retP (node\<lparr>seo_MetaDescription := x\<rparr>) }),
               (at [TokIdent], do {
                  ident \<leftarrow> curLiteral;
                  advanceP;
                  branch
                    [((\<lambda>_. ident = ''og_image'' \<or> ident = ''image''), do { x \<leftarrow> expectString; retP (node\<lparr>seo_OpenGraphImageURL := x\<rparr>) })]
                    (do {
                        errorfP ''unexpected identifier %q in seo block'' (\<lambda>_. [AStr ident]);
                        retP node }) })]
              (unexpected ''unexpected token %s in seo block'' node)) node;
      expect TokRBrace;
      retP node }"

definition parseNavLinks :: "string gomap \<Rightarrow> string gomap parser" where
  "parseNavLinks links =
    untilP TokRBrace (\<lambda>links. do {
            label \<leftarrow> expectString;
            expect TokEquals;
            path \<leftarrow> expectString;
            let links = gomap_put label path links;
            optionally [TokComma];
            retP links }) links"

definition parseNavigationBlock :: "NavigationNode parser" where
  "parseNavigationBlock =
    do {
      pos \<leftarrow> curPosP;
      expect TokNavigation;
      let node = (zero_NavigationNode\<lparr>nv_Pos := pos, nv_HeaderLinks := [], nv_FooterLinks := []\<rparr>);
      expect TokLBrace;
      node \<leftarrow> untilP TokRBrace (\<lambda>node. branch
              [(at [TokHeader], do {
                  advanceP;
                  expect TokLBrace;
                  x \<leftarrow> parseNavLinks (nv_HeaderLinks node);
                  let node = node\<lparr>nv_HeaderLinks := x\<rparr>;
                  expect TokRBrace;
                  retP node }),
               (at [TokFooter], do {
                  advanceP;
                  expect TokLBrace;
                  x \<leftarrow> parseNavLinks (nv_FooterLinks node);
                  let node = node\<lparr>nv_FooterLinks := x\<rparr>;
                  expect TokRBrace;
                  retP node })]
              (unexpected ''unexpected token %s in navigation block'' node)) node;
      expect TokRBrace;
      retP node }"

definition parseSite :: "SiteNode parser" where
  "parseSite =
    do {
      pos \<leftarrow> curPosP;
      expect TokSite;
      name \<leftarrow> expectString;
      let node = (zero_SiteNode\<lparr>si_Pos := pos, si_Name := name\<rparr>);
      expect TokLBrace;
      node \<leftarrow> untilP TokRBrace (\<lambda>node. branch
              [(at [TokDomain], do { advanceP; x \<leftarrow> expectString; retP (node\<lparr>si_Domain := x\<rparr>) }),
               (at [TokTheme], do { advanceP; x \<leftarrow> expectString; retP (node\<lparr>si_Theme := x\<rparr>) }),
               (at [TokSEO], do { x \<leftarrow> parseSEOBlock; retP (node\<lparr>si_SEO := Some x\<rparr>) }),
               (at [TokNavigation], do { x \<leftarrow> parseNavigationBlock; retP (node\<lparr>si_Navigation := Some x\<rparr>) }),
               (at [TokPage], do { pg \<leftarrow> parsePage; retP (node\<lparr>si_Pages := si_Pages node @ [pg]\<rparr>) })]
              (unexpected ''unexpected token %s in site block'' node)) node;
      expect TokRBrace;
      retP node }"

end
