(* ===== verification/ParserCourse.thy ===== *)
theory ParserCourse
  imports ParserScript
begin

text \<open>
  The parser of courses, products, offers and quizzes (\<open>src/scripting/parser.go\<close>).
\<close>

section \<open>Courses and products\<close>

definition parseStringArray :: "string list parser" where
  "parseStringArray = parseStringList"

definition parseLMSContentGen :: "LMSContentGenNode parser" where
  "parseLMSContentGen =
    do {
      pos \<leftarrow> curPosP;
      advanceP;
      let node = (zero_LMSContentGenNode\<lparr>lcg_Pos := pos\<rparr>);
      expect TokLBrace;
      node \<leftarrow> untilP TokRBrace (\<lambda>node. branch
              [(at [TokIdent], do {
                  ident \<leftarrow> curLiteral;
                  advanceP;
                  branch
                    [((\<lambda>_. ident = ''instruction''), do { x \<leftarrow> expectString; retP (node\<lparr>lcg_Instruction := x\<rparr>) }),
                     ((\<lambda>_. ident = ''references''), do { x \<leftarrow> parseStringArray; retP (node\<lparr>lcg_References := x\<rparr>) }),
                     ((\<lambda>_. ident = ''theme''), do { x \<leftarrow> expectString; retP (node\<lparr>lcg_Theme := x\<rparr>) })]
                    (do {
                        errorfP ''unexpected identifier %q in content_gen block'' (\<lambda>_. [AStr ident]);
                        retP node }) }),
               (at [TokReference], do { advanceP; x \<leftarrow> parseStringArray; retP (node\<lparr>lcg_References := x\<rparr>) }),
               (at [TokTheme], do {
                  advanceP;
                  branch
                    [(at [TokString], do { x \<leftarrow> expectString; retP (node\<lparr>lcg_Theme := x\<rparr>) }),
                     (isIdentLike, do { x \<leftarrow> advanceIdentLike; retP (node\<lparr>lcg_Theme := x\<rparr>) })]
                    (retP node) })]
              (unexpected ''unexpected token %s in content_gen block'' node)) node;
      expect TokRBrace;
      retP node }"

definition parseDescriptionGen :: "DescriptionGenNode parser" where
  "parseDescriptionGen =
    do {
      pos \<leftarrow> curPosP;
      expect TokDescriptionGen;
      let node = (zero_DescriptionGenNode\<lparr>dg_Pos := pos\<rparr>);
      expect TokLBrace;
      node \<leftarrow> untilP TokRBrace (\<lambda>node. branch
              [(at [TokIdent], do {
                  ident \<leftarrow> curLiteral;
                  advanceP;
                  branch
                    [((\<lambda>_. ident = ''instruction''), do { x \<leftarrow> expectString; retP (node\<lparr>dg_Instruction := x\<rparr>) }),
                     ((\<lambda>_. ident = ''references''), do { x \<leftarrow> parseStringArray; retP (node\<lparr>dg_References := x\<rparr>) })]
                    (do {
                        errorfP ''unexpected identifier %q in description_gen block'' (\<lambda>_. [AStr ident]);
                        retP node }) }),
               (at [TokReference], do { advanceP; x \<leftarrow> parseStringArray; retP (node\<lparr>dg_References := x\<rparr>) })]
              (unexpected ''unexpected token %s in description_gen block'' node)) node;
      expect TokRBrace;
      retP node }"

definition parseLMSQuestion :: "LMSQuestionNode parser" where
  "parseLMSQuestion =
    do {
      pos \<leftarrow> curPosP;
      expect TokQuestion;
      title \<leftarrow> expectString;
      let node = (zero_LMSQuestionNode\<lparr>lqn_Pos := pos, lqn_Title := title, lqn_Type := ''multiple_choice''\<rparr>);
      node \<leftarrow> branch
        [(at [TokString], do { x \<leftarrow> expectString; retP (node\<lparr>lqn_Slug := x\<rparr>) })]
        (retP node);
      expect TokLBrace;
      node \<leftarrow> untilP TokRBrace (\<lambda>node. branch
              [(at [TokType], do {
                  advanceP;
                  branch
                    [(at [TokMultipleChoice], do { let node = node\<lparr>lqn_Type := ''multiple_choice''\<rparr>; advanceP; retP node }),
                     (at [TokShortAnswer], do { let node = node\<lparr>lqn_Type := ''short_answer''\<rparr>; advanceP; retP node }),
                     (at [TokString], do { x \<leftarrow> expectString; retP (node\<lparr>lqn_Type := x\<rparr>) }),
                     (isIdentLike, do { x \<leftarrow> advanceIdentLike; retP (node\<lparr>lqn_Type := x\<rparr>) })]
                    (retP node) }),
               (at [TokTitle], do { advanceP; x \<leftarrow> expectString; retP (node\<lparr>lqn_Title := x\<rparr>) }),
               (at [TokOptions], do { advanceP; x \<leftarrow> parseStringArray; retP (node\<lparr>lqn_Options := x\<rparr>) }),
               (at [TokAnswer], do {
                  advanceP;
                  branch
                    [(at [TokInt], do { x \<leftarrow> expectInt; retP (node\<lparr>lqn_Answer := (AnswerIndex x)\<rparr>) }),
                     (at [TokString], do { x \<leftarrow> expectString; retP (node\<lparr>lqn_Answer := (AnswerText x)\<rparr>) })]
                    (retP node) })]
              (unexpected ''unexpected token %s in question block'' node)) node;
      expect TokRBrace;
      retP node }"

definition parseLMSQuiz :: "LMSQuizNode parser" where
  "parseLMSQuiz =
    do {
      pos \<leftarrow> curPosP;
      expect TokQuiz;
      title \<leftarrow> expectString;
      let node = (zero_LMSQuizNode\<lparr>lq_Pos := pos, lq_Title := title\<rparr>);
      node \<leftarrow> branch [(at [TokString], do { x \<leftarrow> expectString; retP (node\<lparr>lq_Slug := x\<rparr>) })] (retP node);
      expect TokLBrace;
      node \<leftarrow> untilP TokRBrace (\<lambda>node. branch
              [(at [TokTitle], do { advanceP; x \<leftarrow> expectString; retP (node\<lparr>lq_Title := x\<rparr>) }),
               (at [TokPassThreshold], do { advanceP; x \<leftarrow> expectInt; retP (node\<lparr>lq_PassThreshold := x\<rparr>) }),
               (at [TokMaxAttempts], do { advanceP; x \<leftarrow> expectInt; retP (node\<lparr>lq_MaxAttempts := x\<rparr>) }),
               (at [TokQuestion], do { q \<leftarrow> parseLMSQuestion; retP (node\<lparr>lq_Questions := lq_Questions node @ [q]\<rparr>) })]
              (unexpected ''unexpected token %s in quiz block'' node)) node;
      expect TokRBrace;
      retP node }"

definition parseLesson :: "LessonNode parser" where
  "parseLesson =
    do {
      pos \<leftarrow> curPosP;
      expect TokLesson;
      title \<leftarrow> expectString;
      let node = (zero_LessonNode\<lparr>ls_Pos := pos, ls_Title := title\<rparr>);
      node \<leftarrow> branch [(at [TokString], do { x \<leftarrow> expectString; retP (node\<lparr>ls_Slug := x\<rparr>) })] (retP node);
      expect TokLBrace;
      node \<leftarrow> untilP TokRBrace (\<lambda>node. branch
              [(at [TokTitle], do { advanceP; x \<leftarrow> expectString; retP (node\<lparr>ls_Title := x\<rparr>) }),
               (at [TokOrder], do { advanceP; x \<leftarrow> expectInt; retP (node\<lparr>ls_Order := x\<rparr>) }),
               (at [TokVideoURL], do { advanceP; x \<leftarrow> expectString; retP (node\<lparr>ls_VideoURL := x\<rparr>) }),
               (at [TokContent], do { advanceP; x \<leftarrow> expectString; retP (node\<lparr>ls_ContentHTML := x\<rparr>) }),
               (at [TokDraft], do {
                  advanceP;
                  branch
                    [(at [TokBool], do {
                        x \<leftarrow> curLiteral;
                        let node = node\<lparr>ls_IsDraft := (x = ''true'')\<rparr>;
                        advanceP;
                        retP node })]
                    (retP (node\<lparr>ls_IsDraft := True\<rparr>)) }),
               (at [TokIsDraft], do {
                  advanceP;
                  branch
                    [(at [TokBool], do {
                        x \<leftarrow> curLiteral;
                        let node = node\<lparr>ls_IsDraft := (x = ''true'')\<rparr>;
                        advanceP;
                        retP node })]
                    (retP (node\<lparr>ls_IsDraft := True\<rparr>)) }),
               (at [TokMediaRef], do { advanceP; x \<leftarrow> expectString; retP (node\<lparr>ls_MediaPublicId := x\<rparr>) }),
               (at [TokLMSDuration], do { advanceP; x \<leftarrow> expectString; retP (node\<lparr>ls_Duration := x\<rparr>) }),
               (at [TokIsFree], do {
                  advanceP;
                  branch
                    [(at [TokBool], do {
                        x \<leftarrow> curLiteral;
                        let node = node\<lparr>ls_IsFree := (x = ''true'')\<rparr>;
                        advanceP;
                        retP node })]
                    (retP (node\<lparr>ls_IsFree := True\<rparr>)) }),
               (at [TokDripDays], do { advanceP; x \<leftarrow> expectInt; retP (node\<lparr>ls_DripDays := x\<rparr>) }),
               (at [TokDripHours], do { advanceP; x \<leftarrow> expectInt; retP (node\<lparr>ls_DripHours := x\<rparr>) }),
               (at [TokDripMinutes], do { advanceP; x \<leftarrow> expectInt; retP (node\<lparr>ls_DripMinutes := x\<rparr>) }),
               (at [TokContentGen], do { x \<leftarrow> parseLMSContentGen; retP (node\<lparr>ls_ContentGen := Some x\<rparr>) }),
               (at [TokDescriptionGen], do { x \<leftarrow> parseLMSContentGen; retP (node\<lparr>ls_ContentGen := Some x\<rparr>) }),
               (at [TokDurationKw], do { advanceP; x \<leftarrow> expectString; retP (node\<lparr>ls_Duration := x\<rparr>) }),
               (at [TokIdent], do {
                  ident \<leftarrow> curLiteral;
                  advanceP;
                  branch
                    [((\<lambda>_. ident = ''video_mode''), branch
                          [(at [TokString], do { x \<leftarrow> expectString; retP (node\<lparr>ls_VideoMode := x\<rparr>) }),
                           (isIdentLike, do { x \<leftarrow> advanceIdentLike; retP (node\<lparr>ls_VideoMode := x\<rparr>) })]
                          (retP node)),
                     ((\<lambda>_. ident = ''video_stub_script''), do { x \<leftarrow> expectString; retP (node\<lparr>ls_VideoStubScript := x\<rparr>) }),
                     ((\<lambda>_. ident = ''video_stub_description''), do { x \<leftarrow> expectString; retP (node\<lparr>ls_VideoStubDescription := x\<rparr>) }),
                     ((\<lambda>_. ident = ''content_markdown''), do { x \<leftarrow> expectString; retP (node\<lparr>ls_ContentMarkdown := x\<rparr>) })]
                    (do {
                        errorfP ''unexpected identifier %q in lesson block'' (\<lambda>_. [AStr ident]);
                        retP node }) })]
              (unexpected ''unexpected token %s in lesson block'' node)) node;
      expect TokRBrace;
      retP node }"

definition parseModule :: "ModuleNode parser" where
  "parseModule =
    do {
      pos \<leftarrow> curPosP;
      expect TokModule;
      title \<leftarrow> expectString;
      let node = (zero_ModuleNode\<lparr>mo_Pos := pos, mo_Title := title\<rparr>);
      node \<leftarrow> branch [(at [TokString], do { x \<leftarrow> expectString; retP (node\<lparr>mo_Slug := x\<rparr>) })] (retP node);
      expect TokLBrace;
      node \<leftarrow> untilP TokRBrace (\<lambda>node. branch
              [(at [TokTitle], do { advanceP; x \<leftarrow> expectString; retP (node\<lparr>mo_Title := x\<rparr>) }),
               (at [TokOrder], do { advanceP; x \<leftarrow> expectInt; retP (node\<lparr>mo_Order := x\<rparr>) }),
               (at [TokLesson], do { l \<leftarrow> parseLesson; retP (node\<lparr>mo_Lessons := mo_Lessons node @ [l]\<rparr>) }),
               (at [TokQuiz], do { q \<leftarrow> parseLMSQuiz; retP (node\<lparr>mo_Quizzes := mo_Quizzes node @ [q]\<rparr>) })]
              (unexpected ''unexpected token %s in module block'' node)) node;
      expect TokRBrace;
      retP node }"

definition parseCourseCertConfig :: "CourseCertConfigNode parser" where
  "parseCourseCertConfig =
    do {
      pos \<leftarrow> curPosP;
      expect TokCertificate;
      let node = (zero_CourseCertConfigNode\<lparr>cc_Pos := pos\<rparr>);
      expect TokLBrace;
      node \<leftarrow> untilP TokRBrace (\<lambda>node. branch
              [(at [TokEnabled], do {
                  advanceP;
                  branch
                    [(at [TokBool, TokTrue, TokFalse], do {
                        x \<leftarrow> curLiteral;
                        let node = node\<lparr>cc_Enabled := (x = ''true'')\<rparr>;
                        advanceP;
                        retP node })]
                    (retP (node\<lparr>cc_Enabled := True\<rparr>)) }),
               (at [TokTitle], do { advanceP; x \<leftarrow> expectString; retP (node\<lparr>cc_Title := x\<rparr>) }),
               (at [TokIdent], do {
                  ident \<leftarrow> curLiteral;
                  advanceP;
                  branch
                    [((\<lambda>_. ident = ''template_name''), do { x \<leftarrow> expectString; retP (node\<lparr>cc_TemplateName := x\<rparr>) }),
                     ((\<lambda>_. ident = ''title''), do { x \<leftarrow> expectString; retP (node\<lparr>cc_Title := x\<rparr>) }),
                     ((\<lambda>_. ident = ''logo_url''), do { x \<leftarrow> expectString; retP (node\<lparr>cc_LogoURL := x\<rparr>) }),
                     ((\<lambda>_. ident = ''accent_color''), do { x \<leftarrow> expectString; retP (node\<lparr>cc_AccentColor := x\<rparr>) }),
                     ((\<lambda>_. ident = ''enabled''), branch
                          [(at [TokBool, TokTrue, TokFalse], do {
                              x \<leftarrow> curLiteral;
                              let node = node\<lparr>cc_Enabled := (x = ''true'')\<rparr>;
                              advanceP;
                              retP node })]
                          (retP (node\<lparr>cc_Enabled := True\<rparr>)))]
                    (do {
                        errorfP ''unexpected identifier %q in certificate config'' (\<lambda>_. [AStr ident]);
                        retP node }) })]
              (unexpected ''unexpected token %s in certificate config'' node)) node;
      expect TokRBrace;
      retP node }"

definition parseCourseDecl :: "CourseDeclNode parser" where
  "parseCourseDecl =
    do {
      pos \<leftarrow> curPosP;
      expect TokCourse;
      name \<leftarrow> expectString;
      let node = (zero_CourseDeclNode\<lparr>co_Pos := pos, co_Name := name\<rparr>);
      expect TokLBrace;
      node \<leftarrow> untilP TokRBrace (\<lambda>node. branch
              [(at [TokDescription], do { advanceP; x \<leftarrow> expectString; retP (node\<lparr>co_Description := x\<rparr>) }),
               (at [TokInstructor], do { advanceP; x \<leftarrow> expectString; retP (node\<lparr>co_Instructor := x\<rparr>) }),
               (at [TokModule], do { m \<leftarrow> parseModule; retP (node\<lparr>co_Modules := co_Modules node @ [m]\<rparr>) }),
               (at [TokDescriptionGen], do { x \<leftarrow> parseDescriptionGen; retP (node\<lparr>co_DescriptionGen := Some x\<rparr>) }),
               (at [TokCertificate], do { x \<leftarrow> parseCourseCertConfig; retP (node\<lparr>co_CertConfig := Some x\<rparr>) }),
               (at [TokReference], do {
                  advanceP;
                  x \<leftarrow> expectString;
                  retP (node\<lparr>co_References := co_References node @ [x]\<rparr>) }),
               (at [TokAudience], do { advanceP; x \<leftarrow> expectString; retP (node\<lparr>co_Audience := x\<rparr>) }),
               (at [TokOutcome], do { advanceP; x \<leftarrow> expectString; retP (node\<lparr>co_Outcome := x\<rparr>) }),
               (at [TokTone], do { advanceP; x \<leftarrow> expectString; retP (node\<lparr>co_Tone := x\<rparr>) }),
               (at [TokDefaultMedia], do {
                  advanceP;
                  branch
                    [(at [TokString], do { x \<leftarrow> expectString; retP (node\<lparr>co_DefaultMedia := x\<rparr>) }),
                     (isIdentLike, do { x \<leftarrow> advanceIdentLike; retP (node\<lparr>co_DefaultMedia := x\<rparr>) })]
                    (retP node) }),
               (at [TokGenMode], do {
                  advanceP;
                  branch
                    [(at [TokString], do { x \<leftarrow> expectString; retP (node\<lparr>co_Mode := x\<rparr>) }),
                     (isIdentLike, do { x \<leftarrow> advanceIdentLike; retP (node\<lparr>co_Mode := x\<rparr>) })]
                    (retP node) }),
               (at [TokTheme], do {
                  advanceP;
                  branch
                    [(at [TokString], do { x \<leftarrow> expectString; retP (node\<lparr>co_ThumbnailURL := x\<rparr>) }),
                     (isIdentLike, do { x \<leftarrow> advanceIdentLike; retP (node\<lparr>co_ThumbnailURL := x\<rparr>) })]
                    (retP node) }),
               (at [TokIdent], do {
                  ident \<leftarrow> curLiteral;
                  advanceP;
                  branch
                    [((\<lambda>_. ident = ''description''), do { x \<leftarrow> expectString; retP (node\<lparr>co_Description := x\<rparr>) }),
                     ((\<lambda>_. ident = ''instructor''), do { x \<leftarrow> expectString; retP (node\<lparr>co_Instructor := x\<rparr>) }),
                     ((\<lambda>_. ident = ''thumbnail''), branch
                          [(at [TokString], do { x \<leftarrow> expectString; retP (node\<lparr>co_ThumbnailURL := x\<rparr>) }),
                           (isIdentLike, do { x \<leftarrow> advanceIdentLike; retP (node\<lparr>co_ThumbnailURL := x\<rparr>) })]
                          (retP node)),
                     ((\<lambda>_. ident = ''status''), branch
                          [(at [TokString], do { x \<leftarrow> expectString; retP (node\<lparr>co_Status := x\<rparr>) }),
                           (isIdentLike, do { x \<leftarrow> advanceIdentLike; retP (node\<lparr>co_Status := x\<rparr>) })]
                          (retP node)),
                     ((\<lambda>_. ident = ''audience''), do { x \<leftarrow> expectString; retP (node\<lparr>co_Audience := x\<rparr>) }),
                     ((\<lambda>_. ident = ''outcome''), do { x \<leftarrow> expectString; retP (node\<lparr>co_Outcome := x\<rparr>) }),
                     ((\<lambda>_. ident = ''tone''), do { x \<leftarrow> expectString; retP (node\<lparr>co_Tone := x\<rparr>) }),
                     ((\<lambda>_. ident = ''extra_context''), do { x \<leftarrow> expectString; retP (node\<lparr>co_ExtraContext := x\<rparr>) }),
                     ((\<lambda>_. ident = ''default_media''), branch
                          [(at [TokString], do { x \<leftarrow> expectString; retP (node\<lparr>co_DefaultMedia := x\<rparr>) }),
                           (isIdentLike, do { x \<leftarrow> advanceIdentLike; retP (node\<lparr>co_DefaultMedia := x\<rparr>) })]
                          (retP node)),
                     ((\<lambda>_. ident = ''mode''), branch
                          [(at [TokString], do { x \<leftarrow> expectString; retP (node\<lparr>co_Mode := x\<rparr>) }),
                           (isIdentLike, do { x \<leftarrow> advanceIdentLike; retP (node\<lparr>co_Mode := x\<rparr>) })]
                          (retP node))]
                    (do {
                        errorfP ''unexpected identifier %q in course block'' (\<lambda>_. [AStr ident]);
                        retP node }) })]
              (unexpected ''unexpected token %s in course block'' node)) node;
      expect TokRBrace;
      retP node }"

definition parseProductDecl :: "ProductDeclNode parser" where
  "parseProductDecl =
    do {
      pos \<leftarrow> curPosP;
      expect TokProduct;
      name \<leftarrow> expectString;
      let node = (zero_ProductDeclNode\<lparr>pd_Pos := pos, pd_Name := name\<rparr>);
      expect TokLBrace;
      node \<leftarrow> untilP TokRBrace (\<lambda>node. branch
              [(at [TokType], do {
                  advanceP;
                  branch
                    [(at [TokString], do { x \<leftarrow> expectString; retP (node\<lparr>pd_ProductType := x\<rparr>) }),
                     (isIdentLike, do { x \<leftarrow> advanceIdentLike; retP (node\<lparr>pd_ProductType := x\<rparr>) })]
                    (unexpected ''expected product type, got %s'' node) }),
               (at [TokDescription], do { advanceP; x \<leftarrow> expectString; retP (node\<lparr>pd_Description := x\<rparr>) }),
               (at [TokModule], do { m \<leftarrow> parseModule; retP (node\<lparr>pd_Modules := pd_Modules node @ [m]\<rparr>) }),
               (at [TokTitle], do { advanceP; x \<leftarrow> expectString; retP (node\<lparr>pd_Title := x\<rparr>) }),
               (at [TokInstructor], do { advanceP; x \<leftarrow> expectString; retP (node\<lparr>pd_Instructor := x\<rparr>) }),
               (at [TokTheme], do {
                  advanceP;
                  branch
                    [(at [TokString], do { x \<leftarrow> expectString; retP (node\<lparr>pd_ThumbnailURL := x\<rparr>) }),
                     (isIdentLike, do { x \<leftarrow> advanceIdentLike; retP (node\<lparr>pd_ThumbnailURL := x\<rparr>) })]
                    (retP node) }),
               (at [TokDescriptionGen], do { x \<leftarrow> parseDescriptionGen; retP (node\<lparr>pd_DescriptionGen := Some x\<rparr>) }),
               (at [TokIdent], do {
                  ident \<leftarrow> curLiteral;
                  advanceP;
                  branch
                    [((\<lambda>_. ident = ''description''), do { x \<leftarrow> expectString; retP (node\<lparr>pd_Description := x\<rparr>) }),
                     ((\<lambda>_. ident = ''thumbnail''), branch
                          [(at [TokString], do { x \<leftarrow> expectString; retP (node\<lparr>pd_ThumbnailURL := x\<rparr>) }),
                           (isIdentLike, do { x \<leftarrow> advanceIdentLike; retP (node\<lparr>pd_ThumbnailURL := x\<rparr>) })]
                          (retP node)),
                     ((\<lambda>_. ident = ''status''), branch
                          [(at [TokString], do { x \<leftarrow> expectString; retP (node\<lparr>pd_Status := x\<rparr>) }),
                           (isIdentLike, do { x \<leftarrow> advanceIdentLike; retP (node\<lparr>pd_Status := x\<rparr>) })]
                          (retP node)),
                     ((\<lambda>_. ident = ''instructor''), do { x \<leftarrow> expectString; retP (node\<lparr>pd_Instructor := x\<rparr>) }),
                     ((\<lambda>_. ident = ''title''), do { x \<leftarrow> expectString; retP (node\<lparr>pd_Title := x\<rparr>) })]
                    (do {
                        errorfP ''unexpected identifier %q in product block'' (\<lambda>_. [AStr ident]);
                        retP node }) })]
              (unexpected ''unexpected token %s in product block'' node)) node;
      expect TokRBrace;
      retP node }"

section \<open>Offers and quizzes\<close>

definition parseOfferLifecycleBlock :: "LifecycleBlock parser" where
  "parseOfferLifecycleBlock =
    do {
      pos \<leftarrow> curPosP;
      let node = (zero_LifecycleBlock\<lparr>lb_Pos := pos\<rparr>);
      expect TokLBrace;
      node \<leftarrow> untilP TokRBrace (\<lambda>node. branch
              [(at [TokDo], do {
                  advanceP;
                  branch
                    [(at [TokGiveBadge], do {
                        advanceP;
                        name \<leftarrow> expectString;
                        pos' \<leftarrow> curPosP;
                        let node = node\<lparr>lb_BadgeTransaction := orNew (zero_BadgeTransactionNode\<lparr>bt_Pos := pos'\<rparr>) (lb_BadgeTransaction node)\<rparr>;
                        retP (node\<lparr>lb_BadgeTransaction := map_option (\<lambda>b. b\<lparr>bt_GiveBadges := bt_GiveBadges b @ [name]\<rparr>) (lb_BadgeTransaction node)\<rparr>) }),
                     (at [TokRemoveBadge], do {
                        advanceP;
                        name \<leftarrow> expectString;
                        pos' \<leftarrow> curPosP;
                        let node = node\<lparr>lb_BadgeTransaction := orNew (zero_BadgeTransactionNode\<lparr>bt_Pos := pos'\<rparr>) (lb_BadgeTransaction node)\<rparr>;
                        retP (node\<lparr>lb_BadgeTransaction := map_option (\<lambda>b. b\<lparr>bt_RemoveBadges := bt_RemoveBadges b @ [name]\<rparr>) (lb_BadgeTransaction node)\<rparr>) }),
                     (at [TokStartStory], do { advanceP; expectString; retP node })]
                    (unexpected ''unexpected action %s in offer on_purchase'' node) })]
              (unexpected ''expected 'do' in offer on_purchase block, got %s'' node)) node;
      expect TokRBrace;
      retP node }"

definition parseOfferDecl :: "OfferDeclNode parser" where
  "parseOfferDecl =
    do {
      pos \<leftarrow> curPosP;
      expect TokOffer;
      name \<leftarrow> expectString;
      let node = (zero_OfferDeclNode\<lparr>off_Pos := pos, off_Name := name, off_Currency := ''usd''\<rparr>);
      expect TokLBrace;
      node \<leftarrow> untilP TokRBrace (\<lambda>node. branch
              [(at [TokPricingModel], do {
                  advanceP;
                  branch
                    [(at [TokString], do { x \<leftarrow> expectString; retP (node\<lparr>off_PricingModel := x\<rparr>) }),
                     (isIdentLike, do { x \<leftarrow> advanceIdentLike; retP (node\<lparr>off_PricingModel := x\<rparr>) })]
                    (unexpected ''expected pricing model, got %s'' node) }),
               (at [TokPrice], do {
                  advanceP;
                  branch
                    [(at [TokFloat], do { x \<leftarrow> expectFloat; retP (node\<lparr>off_Price := x\<rparr>) }),
                     (at [TokInt], do { x \<leftarrow> expectInt; retP (node\<lparr>off_Price := float_of_int x\<rparr>) })]
                    (unexpected ''expected price value, got %s'' node) }),
               (at [TokCurrency], do { advanceP; x \<leftarrow> expectString; retP (node\<lparr>off_Currency := x\<rparr>) }),
               (at [TokIncludesProduct], do {
                  advanceP;
                  x \<leftarrow> expectString;
                  retP (node\<lparr>off_IncludedProducts := off_IncludedProducts node @ [x]\<rparr>) }),
               (at [TokGrantsBadge], do {
                  advanceP;
                  x \<leftarrow> expectString;
                  retP (node\<lparr>off_GrantedBadges := off_GrantedBadges node @ [x]\<rparr>) }),
               (at [TokOn], do {
                  advanceP;
                  branch
                    [(at [TokPurchase], do {
                        advanceP;
                        x \<leftarrow> parseOfferLifecycleBlock;
                        retP (node\<lparr>off_OnPurchase := Some x\<rparr>) })]
                    (unexpected ''expected 'purchase' after 'on' in offer block, got %s'' node) })]
              (unexpected ''unexpected token %s in offer block'' node)) node;
      expect TokRBrace;
      retP node }"

definition parseActionNode :: "ActionNode option parser" where
  "parseActionNode =
    do {
      pos \<leftarrow> curPosP;
      let node = (set_ac_Pos pos zero_ActionNode);
      r \<leftarrow> branch
        [(at [TokGiveBadge], do {
            advanceP;
            badgeName \<leftarrow> expectString;
            retP (Some (set_ac_BadgeTransaction (Some (zero_BadgeTransactionNode\<lparr>bt_GiveBadges := [badgeName]\<rparr>)) node)) }),
         (at [TokRemoveBadge], do {
            advanceP;
            badgeName \<leftarrow> expectString;
            retP (Some (set_ac_BadgeTransaction (Some (zero_BadgeTransactionNode\<lparr>bt_RemoveBadges := [badgeName]\<rparr>)) node)) }),
         (at [TokStartStory], do {
            advanceP;
            let node = (set_ac_ActionType ''start_story'' node);
            x \<leftarrow> expectString;
            retP (Some (set_ac_Target x node)) }),
         (at [TokJumpToStage], do {
            advanceP;
            let node = (set_ac_ActionType ''jump_to_stage'' node);
            x \<leftarrow> expectString;
            retP (Some (set_ac_Target x node)) })]
        (unexpected ''unexpected action %s'' None);
      case r of None \<Rightarrow> retP None
        | Some node \<Rightarrow> retP (Some node) }"

definition parseScoreRule :: "ScoreRuleNode parser" where
  "parseScoreRule =
    do {
      pos \<leftarrow> curPosP;
      let node = (zero_ScoreRuleNode\<lparr>sru_Pos := pos\<rparr>);
      node \<leftarrow> branch
        [(at [TokElse], do { advanceP; retP (node\<lparr>sru_Operator := ''else''\<rparr>) })]
        (do {
            advanceP;
            optionally [TokScore];
            node \<leftarrow> branch
              [(at [TokGT], retP (node\<lparr>sru_Operator := ''>''\<rparr>)),
               (at [TokLT], retP (node\<lparr>sru_Operator := ''<''\<rparr>)),
               (at [TokGTEQ], retP (node\<lparr>sru_Operator := ''>=''\<rparr>)),
               (at [TokLTEQ], retP (node\<lparr>sru_Operator := ''<=''\<rparr>)),
               (at [TokEQEQ], retP (node\<lparr>sru_Operator := ''==''\<rparr>))]
              (do {
                  errorfP ''expected comparison operator, got %s'' (\<lambda>t. [AKind (Kind t)]);
                  retP node });
            advanceP;
            x \<leftarrow> expectInt;
            retP (node\<lparr>sru_Threshold := x\<rparr>) });
      expect TokLBrace;
      node \<leftarrow> untilP TokRBrace (\<lambda>node. branch
              [(at [TokDo], do {
                  advanceP;
                  action \<leftarrow> parseActionNode;
                  retP (node\<lparr>sru_Actions := sru_Actions node @ opt_list action\<rparr>) })]
              (unexpected ''unexpected token %s in score rule block'' node)) node;
      expect TokRBrace;
      retP node }"

definition parseQuizOnComplete :: "QuizOnCompleteNode parser" where
  "parseQuizOnComplete =
    do {
      pos \<leftarrow> curPosP;
      let node = (zero_QuizOnCompleteNode\<lparr>qc_Pos := pos\<rparr>);
      expect TokLBrace;
      node \<leftarrow> untilP TokRBrace (\<lambda>node. branch
              [(at [TokIf, TokElseIf, TokElse], do {
                  rule \<leftarrow> parseScoreRule;
                  retP (node\<lparr>qc_ScoreRules := qc_ScoreRules node @ [rule]\<rparr>) })]
              (unexpected ''unexpected token %s in quiz on_complete block'' node)) node;
      expect TokRBrace;
      retP node }"

definition parseAnswer :: "AnswerNode parser" where
  "parseAnswer =
    do {
      pos \<leftarrow> curPosP;
      expect TokAnswer;
      text \<leftarrow> expectString;
      let node = (zero_AnswerNode\<lparr>an_Pos := pos, an_Text := text\<rparr>);
      node \<leftarrow> branch
        [(at [TokAddScore], do { advanceP; x \<leftarrow> expectInt; retP (node\<lparr>an_AddScore := x\<rparr>) })]
        (retP node);
      retP node }"

definition parseQuestion :: "QuestionNode parser" where
  "parseQuestion =
    do {
      pos \<leftarrow> curPosP;
      expect TokQuestion;
      text \<leftarrow> expectString;
      let node = (zero_QuestionNode\<lparr>qn_Pos := pos, qn_Text := text\<rparr>);
      expect TokLBrace;
      node \<leftarrow> untilP TokRBrace (\<lambda>node. branch
              [(at [TokAnswer], do { a \<leftarrow> parseAnswer; retP (node\<lparr>qn_Answers := qn_Answers node @ [a]\<rparr>) })]
              (unexpected ''unexpected token %s in question block'' node)) node;
      expect TokRBrace;
      retP node }"

definition parseQuiz :: "QuizNode parser" where
  "parseQuiz =
    do {
      pos \<leftarrow> curPosP;
      expect TokQuiz;
      name \<leftarrow> expectString;
      let node = (zero_QuizNode\<lparr>qz_Pos := pos, qz_Name := name\<rparr>);
      expect TokLBrace;
      node \<leftarrow> untilP TokRBrace (\<lambda>node. branch
              [(at [TokQuestion], do { q \<leftarrow> parseQuestion; retP (node\<lparr>qz_Questions := qz_Questions node @ [q]\<rparr>) }),
               (at [TokOn], do {
                  advanceP;
                  branch
                    [((\<lambda>p. at [TokOnComplete] p \<or> isIdentLike p \<and> at_literal ''complete'' p), do {
                        advanceP;
                        x \<leftarrow> parseQuizOnComplete;
                        retP (node\<lparr>qz_OnComplete := Some x\<rparr>) })]
                    (unexpected ''expected 'complete' after 'on' in quiz block, got %s'' node) })]
              (unexpected ''unexpected token %s in quiz block'' node)) node;
      expect TokRBrace;
      retP node }"

end
