(* ===== verification/ParserVideo.thy ===== *)
theory ParserVideo
  imports ParserBase
begin

text \<open>
  The parser of media, player presets, channels and webhooks (\<open>src/scripting/parser_video.go\<close>).
\<close>

section \<open>Media\<close>

definition parseChapterDecl :: "ChapterDeclNode parser" where
  "parseChapterDecl =
    do {
      pos \<leftarrow> curPosP;
      expect TokChapter;
      title \<leftarrow> expectString;
      let node = (zero_ChapterDeclNode\<lparr>ch_Pos := pos, ch_Title := title\<rparr>);
      expect TokLBrace;
      node \<leftarrow> untilP TokRBrace (\<lambda>node. branch
              [(at [TokStartSec], do { advanceP; x \<leftarrow> expectInt; retP (node\<lparr>ch_StartSec := x\<rparr>) }),
               (at [TokEndSec], do { advanceP; x \<leftarrow> expectInt; retP (node\<lparr>ch_EndSec := x\<rparr>) })]
              (unexpected ''unexpected token %s in chapter block'' node)) node;
      expect TokRBrace;
      retP node }"

definition parseTurnstileDecl :: "InteractionDeclNode parser" where
  "parseTurnstileDecl =
    do {
      pos \<leftarrow> curPosP;
      expect TokTurnstile;
      let node = (zero_InteractionDeclNode\<lparr>inr_Pos := pos, inr_Kind := ''turnstile''\<rparr>);
      expect TokLBrace;
      node \<leftarrow> untilP TokRBrace (\<lambda>node. branch
              [(at [TokStartSec], do { advanceP; x \<leftarrow> expectInt; retP (node\<lparr>inr_StartSec := x\<rparr>) }),
               (at [TokEndSec], do { advanceP; x \<leftarrow> expectInt; retP (node\<lparr>inr_EndSec := x\<rparr>) }),
               (at [TokRequired], do { advanceP; retP (node\<lparr>inr_Required := True\<rparr>) }),
               (at [TokField], do {
                  advanceP;
                  branch
                    [(at [TokString], do { x \<leftarrow> expectString; retP (node\<lparr>inr_Fields := inr_Fields node @ [x]\<rparr>) }),
                     (isIdentLike, do { x \<leftarrow> advanceIdentLike; retP (node\<lparr>inr_Fields := inr_Fields node @ [x]\<rparr>) })]
                    (retP node) })]
              (unexpected ''unexpected token %s in turnstile block'' node)) node;
      expect TokRBrace;
      retP node }"

definition parseCTADecl :: "InteractionDeclNode parser" where
  "parseCTADecl =
    do {
      pos \<leftarrow> curPosP;
      expect TokCTA;
      let node = (zero_InteractionDeclNode\<lparr>inr_Pos := pos, inr_Kind := ''cta''\<rparr>);
      expect TokLBrace;
      node \<leftarrow> untilP TokRBrace (\<lambda>node. branch
              [(at [TokStartSec], do { advanceP; x \<leftarrow> expectInt; retP (node\<lparr>inr_StartSec := x\<rparr>) }),
               (at [TokEndSec], do { advanceP; x \<leftarrow> expectInt; retP (node\<lparr>inr_EndSec := x\<rparr>) }),
               (at [TokIdent], branch
                    [(at_literal ''text'', do { advanceP; x \<leftarrow> expectString; retP (node\<lparr>inr_Text := x\<rparr>) }),
                     (at_literal ''url'', do { advanceP; x \<leftarrow> expectString; retP (node\<lparr>inr_URL := x\<rparr>) }),
                     (at_literal ''button_text'', do { advanceP; x \<leftarrow> expectString; retP (node\<lparr>inr_ButtonText := x\<rparr>) })]
                    (do {
                        errorfP ''unexpected identifier %q in cta block'' (\<lambda>t. [AStr (Literal t)]);
                        advanceP;
                        retP node }))]
              (unexpected ''unexpected token %s in cta block'' node)) node;
      expect TokRBrace;
      retP node }"

definition parseAnnotationDecl :: "InteractionDeclNode parser" where
  "parseAnnotationDecl =
    do {
      pos \<leftarrow> curPosP;
      expect TokAnnotation;
      let node = (zero_InteractionDeclNode\<lparr>inr_Pos := pos, inr_Kind := ''annotation''\<rparr>);
      expect TokLBrace;
      node \<leftarrow> untilP TokRBrace (\<lambda>node. branch
              [(at [TokStartSec], do { advanceP; x \<leftarrow> expectInt; retP (node\<lparr>inr_StartSec := x\<rparr>) }),
               (at [TokEndSec], do { advanceP; x \<leftarrow> expectInt; retP (node\<lparr>inr_EndSec := x\<rparr>) }),
               (at [TokIdent], branch
                    [(at_literal ''text'', do { advanceP; x \<leftarrow> expectString; retP (node\<lparr>inr_Text := x\<rparr>) }),
                     (at_literal ''url'', do { advanceP; x \<leftarrow> expectString; retP (node\<lparr>inr_URL := x\<rparr>) })]
                    (do {
                        errorfP ''unexpected identifier %q in annotation block'' (\<lambda>t. [AStr (Literal t)]);
                        advanceP;
                        retP node }))]
              (unexpected ''unexpected token %s in annotation block'' node)) node;
      expect TokRBrace;
      retP node }"

definition parseBadgeRuleDecl :: "BadgeRuleDeclNode parser" where
  "parseBadgeRuleDecl =
    do {
      pos \<leftarrow> curPosP;
      expect TokBadgeRule;
      let node = (zero_BadgeRuleDeclNode\<lparr>br_Pos := pos, br_Enabled := True\<rparr>);
      expect TokLBrace;
      node \<leftarrow> untilP TokRBrace (\<lambda>node. branch
              [(at [TokIdent], branch
                    [(at_literal ''event'', do {
                        advanceP;
                        branch
                          [(at [TokString], do { x \<leftarrow> expectString; retP (node\<lparr>br_EventName := x\<rparr>) }),
                           (isIdentLike, do { x \<leftarrow> advanceIdentLike; retP (node\<lparr>br_EventName := x\<rparr>) })]
                          (retP node) }),
                     (at_literal ''badge'', do { advanceP; x \<leftarrow> expectString; retP (node\<lparr>br_BadgeName := x\<rparr>) })]
                    (do {
                        errorfP ''unexpected identifier %q in badge_rule block'' (\<lambda>t. [AStr (Literal t)]);
                        advanceP;
                        retP node })),
               (at [TokOperator], do {
                  advanceP;
                  branch
                    [(at [TokString], do { x \<leftarrow> expectString; retP (node\<lparr>br_Operator := x\<rparr>) }),
                     (at [TokGT, TokLT, TokGTEQ, TokLTEQ], do { x \<leftarrow> advanceLiteral; retP (node\<lparr>br_Operator := x\<rparr>) })]
                    (retP node) }),
               (at [TokThreshold], do { advanceP; x \<leftarrow> expectInt; retP (node\<lparr>br_Threshold := x\<rparr>) }),
               (at [TokBadge], do { advanceP; x \<leftarrow> expectString; retP (node\<lparr>br_BadgeName := x\<rparr>) }),
               (at [TokEnabled], do { advanceP; x \<leftarrow> parseBool; retP (node\<lparr>br_Enabled := x\<rparr>) }),
               (at [TokProgress], do { advanceP; retP (node\<lparr>br_EventName := ''progress''\<rparr>) }),
               (at [TokComplete], do { advanceP; retP (node\<lparr>br_EventName := ''complete''\<rparr>) })]
              (unexpected ''unexpected token %s in badge_rule block'' node)) node;
      expect TokRBrace;
      retP node }"

definition parseMediaDecl :: "MediaDeclNode parser" where
  "parseMediaDecl =
    do {
      pos \<leftarrow> curPosP;
      expect TokMedia;
      name \<leftarrow> expectString;
      let node = (zero_MediaDeclNode\<lparr>md_Pos := pos, md_Name := name\<rparr>);
      expect TokLBrace;
      node \<leftarrow> untilP TokRBrace (\<lambda>node. branch
              [(at [TokTitle], do { advanceP; x \<leftarrow> expectString; retP (node\<lparr>md_Title := x\<rparr>) }),
               (at [TokDescription], do { advanceP; x \<leftarrow> expectString; retP (node\<lparr>md_Description := x\<rparr>) }),
               (at [TokType], do {
                  advanceP;
                  branch
                    [(at [TokString], do { x \<leftarrow> expectString; retP (node\<lparr>md_Kind := x\<rparr>) }),
                     (isIdentLike, do { x \<leftarrow> advanceIdentLike; retP (node\<lparr>md_Kind := x\<rparr>) })]
                    (retP node) }),
               (at [TokSourceURL], do { advanceP; x \<leftarrow> expectString; retP (node\<lparr>md_SourceURL := x\<rparr>) }),
               (at [TokPosterURL], do { advanceP; x \<leftarrow> expectString; retP (node\<lparr>md_PosterURL := x\<rparr>) }),
               (at [TokPlayerPreset], do { advanceP; x \<leftarrow> expectString; retP (node\<lparr>md_PlayerPreset := x\<rparr>) }),
               (at [TokTags], do {
                  advanceP;
                  forP (\<lambda>_. at [TokString]) (\<lambda>node. do { x \<leftarrow> expectString; retP (node\<lparr>md_Tags := md_Tags node @ [x]\<rparr>) }) node }),
               (at [TokChapter], do { ch \<leftarrow> parseChapterDecl; retP (node\<lparr>md_Chapters := md_Chapters node @ [ch]\<rparr>) }),
               (at [TokTurnstile], do {
                  inter \<leftarrow> parseTurnstileDecl;
                  retP (node\<lparr>md_Interactions := md_Interactions node @ [inter]\<rparr>) }),
               (at [TokCTA], do {
                  inter \<leftarrow> parseCTADecl;
                  retP (node\<lparr>md_Interactions := md_Interactions node @ [inter]\<rparr>) }),
               (at [TokAnnotation], do {
                  inter \<leftarrow> parseAnnotationDecl;
                  retP (node\<lparr>md_Interactions := md_Interactions node @ [inter]\<rparr>) }),
               (at [TokBadgeRule], do {
                  br \<leftarrow> parseBadgeRuleDecl;
                  retP (node\<lparr>md_BadgeRules := md_BadgeRules node @ [br]\<rparr>) }),
               (at [TokIdent], branch
                    [(at_literal ''folder'', do { advanceP; x \<leftarrow> expectString; retP (node\<lparr>md_Folder := x\<rparr>) })]
                    (unexpected ''unexpected token %s in media block'' node))]
              (unexpected ''unexpected token %s in media block'' node)) node;
      expect TokRBrace;
      retP node }"

definition parsePlayerPresetDecl :: "PlayerPresetDeclNode parser" where
  "parsePlayerPresetDecl =
    do {
      pos \<leftarrow> curPosP;
      expect TokPlayerPreset;
      name \<leftarrow> expectString;
      let node = (zero_PlayerPresetDeclNode\<lparr>pp_Pos := pos, pp_Name := name\<rparr>);
      expect TokLBrace;
      node \<leftarrow> untilP TokRBrace (\<lambda>node. branch
              [(at [TokPlayerColor], do { advanceP; x \<leftarrow> expectString; retP (node\<lparr>pp_PlayerColor := x\<rparr>) }),
               (at [TokAutoplay], do { advanceP; x \<leftarrow> parseBool; retP (node\<lparr>pp_Autoplay := x\<rparr>) }),
               (at [TokIdent], branch
                    [(at_literal ''show_controls'', do { advanceP; x \<leftarrow> parseBool; retP (node\<lparr>pp_ShowControls := x\<rparr>) }),
                     (at_literal ''show_rewind'', do { advanceP; x \<leftarrow> parseBool; retP (node\<lparr>pp_ShowRewind := x\<rparr>) }),
                     (at_literal ''show_fast_forward'', do { advanceP; x \<leftarrow> parseBool; retP (node\<lparr>pp_ShowFastForward := x\<rparr>) }),
                     (at_literal ''show_skip'', do { advanceP; x \<leftarrow> parseBool; retP (node\<lparr>pp_ShowSkip := x\<rparr>) }),
                     (at_literal ''show_download'', do { advanceP; x \<leftarrow> parseBool; retP (node\<lparr>pp_ShowDownload := x\<rparr>) }),
                     (at_literal ''hide_progress_bar'', do { advanceP; x \<leftarrow> parseBool; retP (node\<lparr>pp_HideProgressBar := x\<rparr>) }),
                     (at_literal ''show_big_play_button'', do { advanceP; x \<leftarrow> parseBool; retP (node\<lparr>pp_ShowBigPlayButton := x\<rparr>) }),
                     (at_literal ''allow_fullscreen'', do { advanceP; x \<leftarrow> parseBool; retP (node\<lparr>pp_AllowFullscreen := x\<rparr>) }),
                     (at_literal ''allow_playback_rate'', do { advanceP; x \<leftarrow> parseBool; retP (node\<lparr>pp_AllowPlaybackRate := x\<rparr>) }),
                     (at_literal ''allow_seeking'', do { advanceP; x \<leftarrow> parseBool; retP (node\<lparr>pp_AllowSeeking := x\<rparr>) }),
                     (at_literal ''muted_default'', do { advanceP; x \<leftarrow> parseBool; retP (node\<lparr>pp_MutedDefault := x\<rparr>) }),
                     (at_literal ''disable_pause'', do { advanceP; x \<leftarrow> parseBool; retP (node\<lparr>pp_DisablePause := x\<rparr>) }),
                     (at_literal ''loop'', do { advanceP; x \<leftarrow> parseBool; retP (node\<lparr>pp_Loop := x\<rparr>) }),
                     (at_literal ''rounded_player'', do { advanceP; x \<leftarrow> parseBool; retP (node\<lparr>pp_RoundedPlayer := x\<rparr>) }),
                     (at_literal ''end_behavior'', do {
                        advanceP;
                        branch
                          [(at [TokString], do { x \<leftarrow> expectString; retP (node\<lparr>pp_EndBehavior := x\<rparr>) }),
                           (isIdentLike, do { x \<leftarrow> advanceIdentLike; retP (node\<lparr>pp_EndBehavior := x\<rparr>) })]
                          (retP node) }),
                     (at_literal ''chapter_style'', do {
                        advanceP;
                        branch
                          [(at [TokString], do { x \<leftarrow> expectString; retP (node\<lparr>pp_ChapterStyle := x\<rparr>) }),
                           (isIdentLike, do { x \<leftarrow> advanceIdentLike; retP (node\<lparr>pp_ChapterStyle := x\<rparr>) })]
                          (retP node) }),
                     (at_literal ''chapter_position'', do {
                        advanceP;
                        branch
                          [(at [TokString], do { x \<leftarrow> expectString; retP (node\<lparr>pp_ChapterPosition := x\<rparr>) }),
                           (isIdentLike, do { x \<leftarrow> advanceIdentLike; retP (node\<lparr>pp_ChapterPosition := x\<rparr>) })]
                          (retP node) }),
                     (at_literal ''chapter_click_jump'', do { advanceP; x \<leftarrow> parseBool; retP (node\<lparr>pp_ChapterClickJump := x\<rparr>) })]
                    (do {
                        errorfP ''unexpected identifier %q in player_preset block'' (\<lambda>t. [AStr (Literal t)]);
                        advanceP;
                        retP node }))]
              (unexpected ''unexpected token %s in player_preset block'' node)) node;
      expect TokRBrace;
      retP node }"

definition parseChannelDecl :: "ChannelDeclNode parser" where
  "parseChannelDecl =
    do {
      pos \<leftarrow> curPosP;
      expect TokChannel;
      name \<leftarrow> expectString;
      let node = (zero_ChannelDeclNode\<lparr>cn_Pos := pos, cn_Name := name\<rparr>);
      expect TokLBrace;
      node \<leftarrow> untilP TokRBrace (\<lambda>node. branch
              [(at [TokTitle], do { advanceP; x \<leftarrow> expectString; retP (node\<lparr>cn_Title := x\<rparr>) }),
               (at [TokDescription], do { advanceP; x \<leftarrow> expectString; retP (node\<lparr>cn_Description := x\<rparr>) }),
               (at [TokIdent], branch
                    [(at_literal ''layout'', do {
                        advanceP;
                        branch
                          [(at [TokString], do { x \<leftarrow> expectString; retP (node\<lparr>cn_Layout := x\<rparr>) }),
                           (isIdentLike, do { x \<leftarrow> advanceIdentLike; retP (node\<lparr>cn_Layout := x\<rparr>) })]
                          (retP node) }),
                     (at_literal ''items'', do {
                        advanceP;
                        forP (\<lambda>_. at [TokString]) (\<lambda>node. do { x \<leftarrow> expectString; retP (node\<lparr>cn_Items := cn_Items node @ [x]\<rparr>) }) node })]
                    (do {
                        errorfP ''unexpected identifier %q in channel block'' (\<lambda>t. [AStr (Literal t)]);
                        advanceP;
                        retP node })),
               (at [TokTheme], do {
                  advanceP;
                  branch
                    [(at [TokString], do { x \<leftarrow> expectString; retP (node\<lparr>cn_Theme := x\<rparr>) }),
                     (isIdentLike, do { x \<leftarrow> advanceIdentLike; retP (node\<lparr>cn_Theme := x\<rparr>) })]
                    (retP node) })]
              (unexpected ''unexpected token %s in channel block'' node)) node;
      expect TokRBrace;
      retP node }"

definition parseMediaWebhookDecl :: "MediaWebhookDeclNode parser" where
  "parseMediaWebhookDecl =
    do {
      pos \<leftarrow> curPosP;
      expect TokMediaWebhook;
      name \<leftarrow> expectString;
      let node = (zero_MediaWebhookDeclNode\<lparr>mw_Pos := pos, mw_Name := name, mw_Enabled := True\<rparr>);
      expect TokLBrace;
      node \<leftarrow> untilP TokRBrace (\<lambda>node. branch
              [(at [TokIdent], branch
                    [(at_literal ''url'', do { advanceP; x \<leftarrow> expectString; retP (node\<lparr>mw_URL := x\<rparr>) }),
                     (at_literal ''event_types'', do {
                        advanceP;
                        forP (\<lambda>_. at [TokString]) (\<lambda>node. do {
                              x \<leftarrow> expectString;
                              retP (node\<lparr>mw_EventTypes := mw_EventTypes node @ [x]\<rparr>) }) node })]
                    (do {
                        errorfP ''unexpected identifier %q in media_webhook block'' (\<lambda>t. [AStr (Literal t)]);
                        advanceP;
                        retP node })),
               (at [TokEnabled], do { advanceP; x \<leftarrow> parseBool; retP (node\<lparr>mw_Enabled := x\<rparr>) })]
              (unexpected ''unexpected token %s in media_webhook block'' node)) node;
      expect TokRBrace;
      retP node }"

end
