(* ===== verification/Parser.thy ===== *)
theory Parser
  imports ParserShop ParserCourse ParserVideo
begin

text \<open>
  The root of the parser (\<open>Parse\<close> of \<open>src/scripting/parser.go\<close>).
\<close>

section \<open>The root\<close>

text \<open>One round of the loop of \<open>Parse\<close>: a declaration, or a token that starts none.\<close>

definition parseDeclaration :: "ScriptAST \<Rightarrow> ScriptAST parser" where
  "parseDeclaration ast = branch
     [(at [TokDefault], do { x \<leftarrow> parseDefaultSender; retP (ast\<lparr>ast_DefaultSenders := ast_DefaultSenders ast @ [x]\<rparr>) }),
      (at [TokLinks], do { x \<leftarrow> parseLinksBlock; retP (ast\<lparr>ast_Links := Some x\<rparr>) }),
      (at [TokPattern], do { x \<leftarrow> parsePatternDef; retP (ast\<lparr>ast_Patterns := ast_Patterns ast @ opt_list x\<rparr>) }),
      (at [TokPolicy], do { x \<leftarrow> parsePolicyDef; retP (ast\<lparr>ast_Policies := ast_Policies ast @ opt_list x\<rparr>) }),
      (at [TokData], do { x \<leftarrow> parseDataBlock; retP (ast\<lparr>ast_DataBlocks := ast_DataBlocks ast @ opt_list x\<rparr>) }),
      (at [TokSceneDefaults], do { x \<leftarrow> parseSceneDefaults; retP (ast\<lparr>ast_SceneDefaults := Some x\<rparr>) }),
      (at [TokEnactmentDefaults], do { x \<leftarrow> parseEnactmentDefaults; retP (ast\<lparr>ast_EnactmentDefaults := Some x\<rparr>) }),
      (at [TokStory], do { x \<leftarrow> parseStory; retP (ast\<lparr>ast_Stories := ast_Stories ast @ [x]\<rparr>) }),
      (at [TokFunnel], do { x \<leftarrow> parseFunnel; retP (ast\<lparr>ast_Funnels := ast_Funnels ast @ [x]\<rparr>) }),
      (at [TokCourse], do { x \<leftarrow> parseCourseDecl; retP (ast\<lparr>ast_Courses := ast_Courses ast @ [x]\<rparr>) }),
      (at [TokProduct], do { x \<leftarrow> parseProductDecl; retP (ast\<lparr>ast_Products := ast_Products ast @ [x]\<rparr>) }),
      (at [TokOffer], do { x \<leftarrow> parseOfferDecl; retP (ast\<lparr>ast_Offers := ast_Offers ast @ [x]\<rparr>) }),
      (at [TokQuiz], do { x \<leftarrow> parseQuiz; retP (ast\<lparr>ast_Quizzes := ast_Quizzes ast @ [x]\<rparr>) }),
      (at [TokSite], do { x \<leftarrow> parseSite; retP (ast\<lparr>ast_Sites := ast_Sites ast @ [x]\<rparr>) }),
      (at [TokMedia], do { x \<leftarrow> parseMediaDecl; retP (ast\<lparr>ast_MediaDecls := ast_MediaDecls ast @ [x]\<rparr>) }),
      (at [TokPlayerPreset], do { x \<leftarrow> parsePlayerPresetDecl; retP (ast\<lparr>ast_PlayerPresets := ast_PlayerPresets ast @ [x]\<rparr>) }),
      (at [TokChannel], do { x \<leftarrow> parseChannelDecl; retP (ast\<lparr>ast_ChannelDecls := ast_ChannelDecls ast @ [x]\<rparr>) }),
      (at [TokMediaWebhook], do { x \<leftarrow> parseMediaWebhookDecl; retP (ast\<lparr>ast_MediaWebhookDecls := ast_MediaWebhookDecls ast @ [x]\<rparr>) }),
      (at [TokCampaign], do { x \<leftarrow> parseCampaign; retP (ast\<lparr>ast_Campaigns := ast_Campaigns ast @ [x]\<rparr>) })]
     (unexpected ''expected 'story', 'funnel', 'site', 'course', 'product', 'offer', 'quiz', 'media', 'player_preset', 'channel', 'media_webhook', 'campaign', 'default', 'links', 'pattern', 'policy', 'data', 'scene_defaults', or 'enactment_defaults', got %s'' ast)"

definition Parse :: "ScriptAST parser" where
  "Parse = do {
     pos \<leftarrow> curPosP;
     forP (\<lambda>_ p. \<not> atEnd p) parseDeclaration (zero_ScriptAST\<lparr>ast_Pos := pos\<rparr>) }"

end
