(* ===== verification/ParserLists.thy ===== *)
theory ParserLists
  imports ParserRules Parser
begin

text \<open>
  The two loops of the parser that need not end: \<open>parseStringList\<close> and \<open>parseNavLinks\<close>
  (\<open>src/scripting/parser.go\<close>) consume only the tokens they expect and report any other one
  without skipping it. Here is exactly when they return.
\<close>

section \<open>The tokens ahead\<close>

lemma rest_Cons: "\<not> atEnd p \<Longrightarrow> rest p = cur p # rest (p\<lparr>ps_pos := ps_pos p + 1\<rparr>)"
  by (auto simp: rest_def atEnd_def cur_def Cons_nth_drop_Suc)

lemma rest_error [simp]: "rest (p\<lparr>ps_errors := e\<rparr>) = rest p" "rest (p\<lparr>ps_hung := h\<rparr>) = rest p"
  by (simp_all add: rest_def)

lemma cur_error [simp]: "cur (p\<lparr>ps_errors := e\<rparr>) = cur p" "atEnd (p\<lparr>ps_errors := e\<rparr>) = atEnd p"
  by (simp_all add: cur_def atEnd_def)

lemma at_end_rest: "atEnd p \<longleftrightarrow> rest p = [] \<or> Kind (hd (rest p)) = TokEOF"
  by (cases "ps_pos p < length (ps_tokens p)") (auto simp: atEnd_def rest_def hd_drop_conv_nth)

lemma cur_rest: "cur p = (case rest p of [] \<Rightarrow> \<lparr>Kind = TokEOF, Literal = [], tok_Pos = zero_Pos\<rparr> | t # _ \<Rightarrow> t)"
  by (auto simp: cur_def rest_def Cons_nth_drop_Suc [symmetric] split: list.splits)

lemma at_simp [simp]: "at [k] p \<longleftrightarrow> Kind (cur p) = k"
  by (simp add: at_def)

lemma run_expect:
  "run_state (expect k) p =
     (if Kind (cur p) = k then run_state advanceP p
      else (\<lparr>Kind = TokIllegal, Literal = [], tok_Pos = tok_Pos (cur p)\<rparr>,
            p\<lparr>ps_errors := ps_errors p @ [errorAt (tok_Pos (cur p)) ''expected %s, got %s (%q)''
               [AKind k, AKind (Kind (cur p)), AStr (Literal (cur p))]]\<rparr>))"
  by (simp add: expect_def run_errorfP)

text \<open>A loop whose condition never fails does not end.\<close>

lemma while_option_None:
  assumes "P s" and "\<And>s. P s \<Longrightarrow> b s" and "\<And>s. P s \<Longrightarrow> P (f s)"
  shows "while_option b f s = None"
proof (cases "while_option b f s")
  case (Some t)
  have "P t" by (rule while_option_rule [where P = P, OF _ Some]) (use assms in auto)
  with assms(2) while_option_stop [OF Some] show ?thesis by blast
qed

lemma forP_hangs:
  assumes "P (x, p)" and "\<And>x p. P (x, p) \<Longrightarrow> \<not> ps_hung p \<and> c x p"
    and "\<And>x p. P (x, p) \<Longrightarrow> P (run_state (body x) p)"
  shows "ps_hung (snd (run_state (forP c body x) p))"
proof -
  have "while_option (\<lambda>(x, p). \<not> ps_hung p \<and> c x p) (\<lambda>(x, p). run_state (body x) p) (x, p) = None"
    by (rule while_option_None [where P = P]) (use assms in auto)
  then show ?thesis by (simp add: forP_def)
qed

section \<open>A loop that skips some kinds of tokens\<close>

text \<open>What a round of such a loop does with the tokens it consumes.\<close>

definition skip_loop :: "(Token \<Rightarrow> bool) \<Rightarrow> TokenKind \<Rightarrow> ('a \<Rightarrow> 'a parser) \<Rightarrow> bool" where
  "skip_loop eat stop body \<longleftrightarrow>
     (\<forall>t. Kind t = stop \<or> Kind t = TokEOF \<longrightarrow> \<not> eat t)
     \<and> (\<forall>x p. \<not> ps_hung p \<longrightarrow> \<not> atEnd p \<longrightarrow>
          \<not> ps_hung (snd (run_state (body x) p)) \<and> grows p (snd (run_state (body x) p))
          \<and> (\<exists>k. ps_pos (snd (run_state (body x) p)) = ps_pos p + k \<and> k \<le> length (rest p)
               \<and> list_all eat (take k (rest p)) \<and> (eat (cur p) \<longrightarrow> 0 < k)))"

lemma skips_to_drop: "list_all eat (take k ts) \<Longrightarrow> skips_to eat stop (drop k ts) = skips_to eat stop ts"
proof (induction ts arbitrary: k)
  case (Cons t ts)
  then show ?case by (cases k) (auto simp: skips_to_def)
qed simp

lemma not_skips_to:
  assumes "\<not> skips_to eat stop ts" and "\<And>t. Kind t = stop \<or> Kind t = TokEOF \<Longrightarrow> \<not> eat t"
  obtains t us where "ts = t # us" "Kind t \<noteq> stop" "Kind t \<noteq> TokEOF"
proof (cases ts)
  case (Cons t us)
  with assms have "Kind t \<noteq> stop" "Kind t \<noteq> TokEOF" by (auto simp: skips_to_def)
  with Cons that show ?thesis by blast
qed (use assms in \<open>simp add: skips_to_def\<close>)

lemma skip_round:
  assumes "skip_loop eat stop body" and "\<not> ps_hung p" and "\<not> atEnd p"
  obtains k where "\<not> ps_hung (snd (run_state (body x) p))" "grows p (snd (run_state (body x) p))"
    "ps_pos (snd (run_state (body x) p)) = ps_pos p + k" "k \<le> length (rest p)"
    "skips_to eat stop (rest (snd (run_state (body x) p))) = skips_to eat stop (rest p)"
    "eat (cur p) \<Longrightarrow> 0 < k"
proof -
  let ?q = "snd (run_state (body x) p)"
  from assms obtain k where k: "\<not> ps_hung ?q" "grows p ?q" "ps_pos ?q = ps_pos p + k" "k \<le> length (rest p)"
    "list_all eat (take k (rest p))" "eat (cur p) \<longrightarrow> 0 < k"
    unfolding skip_loop_def by blast
  then have "rest ?q = drop k (rest p)" by (simp add: rest_def grows_def add.commute)
  with k skips_to_drop [of eat k "rest p" stop] show ?thesis using that by simp
qed

lemma skip_loop_hangs:
  assumes loop: "skip_loop eat stop body" and "\<not> ps_hung p" and "\<not> skips_to eat stop (rest p)"
  shows "ps_hung (snd (run_state (untilP stop body x) p))"
proof -
  let ?P = "\<lambda>(x :: 'a, p). \<not> ps_hung p \<and> \<not> skips_to eat stop (rest p)"
  have ahead: "\<not> at [stop] q \<and> \<not> atEnd q" if "\<not> skips_to eat stop (rest q)" for q
  proof -
    have "\<And>t. Kind t = stop \<or> Kind t = TokEOF \<Longrightarrow> \<not> eat t" using loop by (auto simp: skip_loop_def)
    from not_skips_to [OF that this] obtain t us where "rest q = t # us" "Kind t \<noteq> stop" "Kind t \<noteq> TokEOF" .
    then show ?thesis by (simp add: cur_rest at_end_rest)
  qed
  show ?thesis
    unfolding untilP_def
  proof (rule forP_hangs [where P = ?P])
    fix y q assume q: "?P (y, q)"
    then show "\<not> ps_hung q \<and> \<not> at [stop] q \<and> \<not> atEnd q" using ahead by auto
    from q ahead have "\<not> ps_hung q" "\<not> atEnd q" by auto
    from skip_round [OF loop this, of y] q show "?P (run_state (body y) q)"
      by (auto simp: split_beta)
  qed (use assms in simp)
qed

lemma skip_loop_returns:
  assumes loop: "skip_loop eat stop body" and p: "live p" "skips_to eat stop (rest p)"
  shows "live (snd (run_state (untilP stop body x) p)) \<and> grows p (snd (run_state (untilP stop body x) p))"
  unfolding untilP_def
proof (rule forP_returns [where Q = "\<lambda>q. skips_to eat stop (rest q)", OF _ p])
  fix x q assume q: "live q" "skips_to eat stop (rest q)" "\<not> at [stop] q \<and> \<not> atEnd q"
  let ?r = "snd (run_state (body x) q)"
  have "rest q = cur q # rest (q\<lparr>ps_pos := ps_pos q + 1\<rparr>)" using q(3) by (intro rest_Cons) simp
  with q(2,3) have "eat (cur q)" by (auto simp: skips_to_def atEnd_iff split: if_splits)
  with skip_round [OF loop, of q x] q obtain k where k: "\<not> ps_hung ?r" "grows q ?r" "ps_pos ?r = ps_pos q + k"
    "k \<le> length (rest q)" "skips_to eat stop (rest ?r)" "0 < k" by (auto simp: live_def)
  with q(1) show "live ?r \<and> grows q ?r \<and> skips_to eat stop (rest ?r) \<and> ps_pos q < ps_pos ?r"
    by (auto simp: live_def grows_def rest_def)
qed

section \<open>The rounds of the two loops\<close>

text \<open>
  A computation that only skips tokens the loop consumes, and skips one when a token of
  some kinds is ahead.
\<close>

definition skims :: "(Token \<Rightarrow> bool) \<Rightarrow> TokenKind set \<Rightarrow> 'a parser \<Rightarrow> bool" where
  "skims eat kinds m \<longleftrightarrow> (\<forall>p. \<not> ps_hung p \<longrightarrow>
     \<not> ps_hung (snd (run_state m p)) \<and> grows p (snd (run_state m p))
     \<and> (\<exists>k. ps_pos (snd (run_state m p)) = ps_pos p + k \<and> k \<le> length (rest p)
          \<and> list_all eat (take k (rest p)) \<and> (Kind (cur p) \<in> kinds \<and> \<not> atEnd p \<longrightarrow> 0 < k)))"

lemma skims_retP: "skims eat {} (retP x)"
  by (simp add: skims_def)

lemma skims_expect: "(\<And>t. Kind t = kind \<Longrightarrow> eat t) \<Longrightarrow> skims eat {kind} (expect kind)"
  unfolding skims_def
proof (intro allI impI)
  fix p :: Parser assume eat: "\<And>t. Kind t = kind \<Longrightarrow> eat t" and p: "\<not> ps_hung p"
  show "\<not> ps_hung (snd (run_state (expect kind) p)) \<and> grows p (snd (run_state (expect kind) p))
     \<and> (\<exists>k. ps_pos (snd (run_state (expect kind) p)) = ps_pos p + k \<and> k \<le> length (rest p)
          \<and> list_all eat (take k (rest p)) \<and> (Kind (cur p) \<in> {kind} \<and> \<not> atEnd p \<longrightarrow> 0 < k))"
  proof (cases "Kind (cur p) = kind \<and> \<not> atEnd p")
    case True
    with p eat rest_Cons [of p] show ?thesis
      by (auto simp: run_expect run_advanceP grows_def intro!: exI [of _ 1])
  next
    case False
    with p show ?thesis by (auto simp: run_expect run_advanceP grows_def)
  qed
qed

lemma skims_optionally: "(\<And>t. Kind t = kind \<Longrightarrow> eat t) \<Longrightarrow> skims eat {kind} (optionally [kind])"
  unfolding skims_def
proof (intro allI impI)
  fix p :: Parser assume eat: "\<And>t. Kind t = kind \<Longrightarrow> eat t" and p: "\<not> ps_hung p"
  show "\<not> ps_hung (snd (run_state (optionally [kind]) p)) \<and> grows p (snd (run_state (optionally [kind]) p))
     \<and> (\<exists>k. ps_pos (snd (run_state (optionally [kind]) p)) = ps_pos p + k \<and> k \<le> length (rest p)
          \<and> list_all eat (take k (rest p)) \<and> (Kind (cur p) \<in> {kind} \<and> \<not> atEnd p \<longrightarrow> 0 < k))"
  proof (cases "Kind (cur p) = kind \<and> \<not> atEnd p")
    case True
    with p eat rest_Cons [of p] show ?thesis
      by (auto simp: optionally_def run_advanceP grows_def intro!: exI [of _ 1])
  next
    case False
    with p show ?thesis by (auto simp: optionally_def run_advanceP grows_def)
  qed
qed

lemma skims_bind:
  assumes m: "skims eat A m" and f: "\<And>x. skims eat B (f x)"
  shows "skims eat (A \<union> B) (m \<bind> f)"
  unfolding skims_def
proof (intro allI impI)
  fix p :: Parser assume p: "\<not> ps_hung p"
  let ?q = "snd (run_state m p)" and ?r = "snd (run_state (m \<bind> f) p)"
  obtain j where j: "\<not> ps_hung ?q" "grows p ?q" "ps_pos ?q = ps_pos p + j" "j \<le> length (rest p)"
    "list_all eat (take j (rest p))" "Kind (cur p) \<in> A \<and> \<not> atEnd p \<longrightarrow> 0 < j"
    using m p unfolding skims_def by blast
  obtain k where k: "\<not> ps_hung ?r" "grows ?q ?r" "ps_pos ?r = ps_pos ?q + k" "k \<le> length (rest ?q)"
    "list_all eat (take k (rest ?q))" "Kind (cur ?q) \<in> B \<and> \<not> atEnd ?q \<longrightarrow> 0 < k"
    using f j(1) unfolding skims_def run_bindP by blast
  have q: "rest ?q = drop j (rest p)" using j(2,3) by (simp add: rest_def grows_def add.commute)
  have "0 < j + k" if "Kind (cur p) \<in> A \<union> B" "\<not> atEnd p"
  proof (cases "j = 0")
    case True
    with j(2,3) have "ps_pos ?q = ps_pos p" "ps_tokens ?q = ps_tokens p" by (auto simp: grows_def)
    then have "cur ?q = cur p" "atEnd ?q = atEnd p" by (simp_all add: cur_def atEnd_def)
    with True that j(6) k(6) show ?thesis by auto
  qed simp
  moreover have "list_all eat (take (j + k) (rest p))"
    using j(5) k(5) q by (simp add: take_add)
  moreover have "grows p ?r" using j(2) k(2) by (rule grows_trans)
  ultimately show "\<not> ps_hung ?r \<and> grows p ?r
      \<and> (\<exists>k. ps_pos ?r = ps_pos p + k \<and> k \<le> length (rest p)
           \<and> list_all eat (take k (rest p)) \<and> (Kind (cur p) \<in> A \<union> B \<and> \<not> atEnd p \<longrightarrow> 0 < k))"
    using j(3,4) k(1,3,4) q by (intro conjI exI [of _ "j + k"]) auto
qed

lemma skims_expectString:
  assumes "\<And>t. Kind t = TokString \<Longrightarrow> eat t"
  shows "skims eat {TokString} expectString"
proof -
  have "skims eat ({TokString} \<union> {}) expectString"
    unfolding expectString_def by (intro skims_bind skims_expect skims_retP assms)
  then show ?thesis by simp
qed

lemma skim_loop:
  assumes body: "\<And>x. skims eat kinds (body x)" and eat: "\<And>t. eat t \<longleftrightarrow> Kind t \<in> kinds"
    and "stop \<notin> kinds" and "TokEOF \<notin> kinds"
  shows "skip_loop eat stop body"
  unfolding skip_loop_def
proof (intro conjI allI impI)
  fix x and p :: Parser assume p: "\<not> ps_hung p" "\<not> atEnd p"
  let ?q = "snd (run_state (body x) p)"
  from body p(1) obtain k where "\<not> ps_hung ?q" "grows p ?q" "ps_pos ?q = ps_pos p + k" "k \<le> length (rest p)"
    "list_all eat (take k (rest p))" "Kind (cur p) \<in> kinds \<and> \<not> atEnd p \<longrightarrow> 0 < k"
    unfolding skims_def by blast
  with p eat show "\<not> ps_hung ?q" "grows p ?q"
    "\<exists>k. ps_pos ?q = ps_pos p + k \<and> k \<le> length (rest p) \<and> list_all eat (take k (rest p)) \<and> (eat (cur p) \<longrightarrow> 0 < k)"
    by auto
qed (use assms in auto)

lemma string_list_loop:
  "skip_loop list_token TokRBracket (\<lambda>list. do { x \<leftarrow> expectString; let list = list @ [x]; optionally [TokComma]; retP list })"
proof (rule skim_loop [where kinds = "{TokString} \<union> ({TokComma} \<union> {})"])
  fix list :: "string list"
  show "skims list_token ({TokString} \<union> ({TokComma} \<union> {}))
      (do { x \<leftarrow> expectString; let list = list @ [x]; optionally [TokComma]; retP list })"
    unfolding Let_def
    by (intro skims_bind skims_expectString skims_optionally skims_retP) (simp_all add: list_token_def)
qed (auto simp: list_token_def)

lemma nav_links_loop:
  "skip_loop nav_token TokRBrace (\<lambda>links. do {
     label \<leftarrow> expectString; expect TokEquals; path \<leftarrow> expectString;
     let links = gomap_put label path links; optionally [TokComma]; retP links })"
proof (rule skim_loop [where kinds = "{TokString} \<union> ({TokEquals} \<union> ({TokString} \<union> ({TokComma} \<union> {})))"])
  fix links :: "string gomap"
  show "skims nav_token ({TokString} \<union> ({TokEquals} \<union> ({TokString} \<union> ({TokComma} \<union> {})))) (do {
     label \<leftarrow> expectString; expect TokEquals; path \<leftarrow> expectString;
     let links = gomap_put label path links; optionally [TokComma]; retP links })"
    unfolding Let_def
    by (intro skims_bind skims_expectString skims_expect skims_optionally skims_retP) (simp_all add: nav_token_def)
qed (auto simp: nav_token_def)

section \<open>When the methods return\<close>

lemma rest_expect:
  assumes "kind \<noteq> TokEOF"
  shows "rest (snd (run_state (expect kind) p)) = skip_one kind (rest p)"
proof -
  have "\<not> atEnd p" if "Kind (cur p) = kind" using that assms by (simp add: atEnd_iff)
  then show ?thesis
    using assms rest_Cons [of p]
    by (cases "rest p") (auto simp: run_expect run_advanceP cur_rest atEnd_iff skip_one_def)
qed

lemma hung_expect [simp]: "ps_hung (snd (run_state (expect kind) p)) = ps_hung p"
  by (simp add: run_expect run_advanceP)

lemma live_expect: "live p \<Longrightarrow> live (snd (run_state (expect kind) p))"
  by (auto simp: live_def run_expect run_advanceP atEnd_def)

lemma skip_loop_iff:
  assumes "skip_loop eat stop body" and "live p"
  shows "ps_hung (snd (run_state (untilP stop body x) p)) \<longleftrightarrow> \<not> skips_to eat stop (rest p)"
  using skip_loop_returns [OF assms, of x] skip_loop_hangs [OF assms(1), of p x] assms(2)
  by (auto simp: live_def)

theorem parseStringList_returns:
  assumes "live p"
  shows "ps_hung (snd (run_state parseStringList p)) \<longleftrightarrow> \<not> list_ready (rest p)"
  using skip_loop_iff [OF string_list_loop live_expect [OF assms]]
  by (simp add: parseStringList_def list_ready_def rest_expect run_bindP del: run_state_bind)

theorem parseNavLinks_returns:
  assumes "live p"
  shows "ps_hung (snd (run_state (parseNavLinks links) p)) \<longleftrightarrow> \<not> nav_closed (rest p)"
  using skip_loop_iff [OF nav_links_loop assms] by (simp add: parseNavLinks_def)

section \<open>Computations that return behind good tokens\<close>

definition returns_when :: "(Token list \<Rightarrow> bool) \<Rightarrow> 'a parser \<Rightarrow> bool" where
  "returns_when R m \<longleftrightarrow> (\<forall>p. live p \<longrightarrow> R (rest p) \<longrightarrow>
     live (snd (run_state m p)) \<and> grows p (snd (run_state m p)))"

lemma grows_expect: "grows p (snd (run_state (expect kind) p))"
  by (auto simp: run_expect run_advanceP grows_def)

lemma returns_expect: "returns_when R (expect kind)"
  by (simp add: returns_when_def live_expect grows_expect)

lemma returns_retP: "returns_when R (retP x)"
  by (simp add: returns_when_def)

lemma returns_bind:
  assumes "returns_when R m" and "\<And>x. returns_when (\<lambda>_. True) (f x)"
  shows "returns_when R (m \<bind> f)"
  unfolding returns_when_def
proof (intro allI impI)
  fix p :: Parser assume p: "live p" "R (rest p)"
  let ?q = "snd (run_state m p)" and ?r = "snd (run_state (m \<bind> f) p)"
  have q: "live ?q" "grows p ?q" using assms(1) p by (auto simp: returns_when_def)
  with assms(2) have "live ?r" "grows ?q ?r" unfolding returns_when_def run_bindP by blast+
  with q grows_trans show "live ?r \<and> grows p ?r" by blast
qed

lemma returns_expect_bind:
  assumes "kind \<noteq> TokEOF" and "\<And>ts. R ts \<Longrightarrow> R' (skip_one kind ts)" and "\<And>x. returns_when R' (f x)"
  shows "returns_when R (expect kind \<bind> f)"
  unfolding returns_when_def
proof (intro allI impI)
  fix p :: Parser assume p: "live p" "R (rest p)"
  let ?q = "snd (run_state (expect kind) p)" and ?r = "snd (run_state (expect kind \<bind> f) p)"
  have "live ?q" "R' (rest ?q)" "grows p ?q"
    using p assms(1,2) by (simp_all add: live_expect rest_expect grows_expect)
  moreover from this assms(3) have "live ?r" "grows ?q ?r" unfolding returns_when_def run_bindP by blast+
  ultimately show "live ?r \<and> grows p ?r" using grows_trans by blast
qed

lemma returns_skip_loop: "skip_loop eat stop body \<Longrightarrow> returns_when (skips_to eat stop) (untilP stop body x)"
  unfolding returns_when_def by (intro allI impI) (rule skip_loop_returns)

lemma returns_string_list: "returns_when list_ready parseStringList"
  unfolding parseStringList_def Let_def [of "[]"]
  by (intro returns_expect_bind [where R' = list_closed] returns_bind returns_skip_loop string_list_loop
      returns_expect returns_retP) (simp_all add: list_ready_def)

lemma returns_nav_links: "returns_when nav_ready (expect TokLBrace \<bind> (\<lambda>_. parseNavLinks links))"
  unfolding parseNavLinks_def
  by (intro returns_expect_bind [where R' = nav_closed] returns_skip_loop nav_links_loop) (simp_all add: nav_ready_def)

lemma returns_single_or_list: "returns_when single_or_list_ready parseStringListOrSingle"
  unfolding returns_when_def
proof (intro allI impI)
  fix p :: Parser assume p: "live p" "single_or_list_ready (rest p)"
  show "live (snd (run_state parseStringListOrSingle p)) \<and> grows p (snd (run_state parseStringListOrSingle p))"
  proof (cases "at [TokLBracket] p")
    case True
    with p(2) have "list_ready (rest p)"
      by (auto simp: single_or_list_ready_def list_ready_def skip_one_def cur_rest split: list.splits)
    with True p(1) returns_string_list show ?thesis
      by (simp add: parseStringListOrSingle_def returns_when_def)
  next
    case False
    with p(1) live_expect [of p TokString] grows_expect [of p TokString] show ?thesis
      by (simp add: parseStringListOrSingle_def expectString_def run_bindP del: run_state_bind)
  qed
qed

end
