(* ===== verification/ParserReturns.thy ===== *)
theory ParserReturns
  imports ParserLists
begin

text \<open>
  Every method of the parser returns on a token stream whose string lists are well formed,
  whatever else is wrong with it.
\<close>

section \<open>Lists behind their keywords\<close>

lemma after_keyword:
  assumes "ok p" and "\<not> atEnd p"
  shows "ready_after (cur p) (rest (snd (run_state advanceP p)))"
  using assms lists_ok_nth [of "ps_tokens p" "ps_pos p"]
  by (simp add: ok_def atEnd_def cur_def rest_def run_advanceP)

lemma eats_ready:
  assumes "\<And>p us. t p \<Longrightarrow> ready_after (cur p) us \<Longrightarrow> R us" and "returns_when R m"
    and "\<And>x. runs (n - 1) (\<lambda>_. True) (f x)"
  shows "eats n t (advanceP \<bind> (\<lambda>_. m \<bind> f))"
proof -
  have eq: "advanceP \<bind> (\<lambda>_. m \<bind> f) = (advanceP \<bind> (\<lambda>_. m)) \<bind> f" by simp
  have "eats n t (advanceP \<bind> (\<lambda>_. m))"
    unfolding eats_def
  proof (intro allI impI)
    fix p assume p: "ok p" "t p" "\<not> atEnd p"
    let ?q = "snd (run_state advanceP p)" and ?r = "snd (run_state (advanceP \<bind> (\<lambda>_. m)) p)"
    have q: "live ?q" "grows p ?q" "ps_pos p < ps_pos ?q"
      using p by (auto simp: run_advanceP live_def ok_def grows_def atEnd_def)
    from after_keyword [OF p(1,3)] assms(1) p(2) have "R (rest ?q)" by blast
    with assms(2) q(1) have r: "live ?r" "grows ?q ?r" unfolding returns_when_def run_bindP by blast+
    with q p(1) show "ok ?r \<and> grows p ?r \<and> ps_pos p < ps_pos ?r"
      using grows_trans by (auto simp: ok_iff grows_def)
  qed
  then show ?thesis unfolding eq using assms(3) by (rule eats_bind)
qed

lemma eats_lists:
  "(\<And>x. runs (n - 1) (\<lambda>_. True) (f x)) \<Longrightarrow>
    eats n (\<lambda>p. t p \<and> at [TokTags] p) (advanceP \<bind> (\<lambda>_. parseStringList \<bind> f))"
  "(\<And>x. runs (n - 1) (\<lambda>_. True) (f x)) \<Longrightarrow>
    eats n (\<lambda>p. t p \<and> at [TokOptions] p) (advanceP \<bind> (\<lambda>_. parseStringArray \<bind> f))"
  "(\<And>x. runs (n - 1) (\<lambda>_. True) (f x)) \<Longrightarrow>
    eats n (\<lambda>p. t p \<and> at [TokReference] p) (advanceP \<bind> (\<lambda>_. parseStringArray \<bind> f))"
  "x = ''references'' \<Longrightarrow> (\<And>x. runs (n - 1) (\<lambda>_. True) (f x)) \<Longrightarrow>
    eats n (\<lambda>p. (t p \<and> at [TokIdent] p) \<and> Literal (cur p) = x) (advanceP \<bind> (\<lambda>_. parseStringArray \<bind> f))"
  "(\<And>x. runs (n - 1) (\<lambda>_. True) (f x)) \<Longrightarrow>
    eats n (\<lambda>p. t p \<and> at [TokMustHave] p) (advanceP \<bind> (\<lambda>_. parseStringListOrSingle \<bind> f))"
  "(\<And>x. runs (n - 1) (\<lambda>_. True) (f x)) \<Longrightarrow>
    eats n (\<lambda>p. t p \<and> at [TokMustNotHave] p) (advanceP \<bind> (\<lambda>_. parseStringListOrSingle \<bind> f))"
  unfolding parseStringArray_def
  by (rule eats_ready [OF _ returns_string_list] eats_ready [OF _ returns_single_or_list];
      simp add: ready_after_def)+

lemma eats_nav:
  assumes "\<And>x. runs (n - 1) (\<lambda>_. True) (f x)" and "k = TokHeader \<or> k = TokFooter"
  shows "eats n (\<lambda>p. t p \<and> at [k] p) (advanceP \<bind> (\<lambda>_. expect TokLBrace \<bind> (\<lambda>_. parseNavLinks l \<bind> f)))"
proof -
  have eq: "expect TokLBrace \<bind> (\<lambda>_. parseNavLinks l \<bind> f) = (expect TokLBrace \<bind> (\<lambda>_. parseNavLinks l)) \<bind> f"
    by simp
  show ?thesis
    unfolding eq using assms
    by (intro eats_ready [OF _ returns_nav_links]) (auto simp: ready_after_def)
qed

text \<open>A branch on a word that was read before the cursor moved.\<close>

lemma branch_word: "branch (((\<lambda>_. c), m) # cs) d = (if c then m else branch cs d)"
  by (rule state_ext) simp

lemma eats_word:
  "eats n t (advanceP \<bind> (\<lambda>_. d)) \<Longrightarrow> eats n t (advanceP \<bind> (\<lambda>_. branch [] d))"
  "(c \<Longrightarrow> eats n t (advanceP \<bind> (\<lambda>_. m))) \<Longrightarrow> eats n t (advanceP \<bind> (\<lambda>_. branch cs d)) \<Longrightarrow>
    eats n t (advanceP \<bind> (\<lambda>_. branch (((\<lambda>_. c), m) # cs) d))"
proof -
  have "branch [] d = d" by simp
  then show "eats n t (advanceP \<bind> (\<lambda>_. d)) \<Longrightarrow> eats n t (advanceP \<bind> (\<lambda>_. branch [] d))" by simp
qed (cases c; simp only: branch_word if_True if_False)

lemma eats_optional:
  "(\<And>x. eats n (\<lambda>_. True) (f x)) \<Longrightarrow> (\<And>x. runs n (\<lambda>_. True) (f x)) \<Longrightarrow> eats n t (optionally ks \<bind> f)"
  by (rule eats_bind_second) (rule runs_optionally)

lemma eats_report:
  "(\<And>x. eats n (\<lambda>_. True) (f x)) \<Longrightarrow> (\<And>x. runs n (\<lambda>_. True) (f x)) \<Longrightarrow> eats n t (errorfP fmt args \<bind> f)"
  by (rule eats_bind_second) (rule runs_errorfP)

lemma runs_for_strings:
  "(\<And>x. eats n (\<lambda>p. True \<and> at [TokString] p) (body x)) \<Longrightarrow> runs n t (forP (\<lambda>_. at [TokString]) body x)"
  "(\<And>x. eats n (\<lambda>p. True \<and> at [TokString, TokIdent] p) (body x)) \<Longrightarrow>
    runs n t (forP (\<lambda>_. at [TokString, TokIdent]) body x)"
  unfolding simp_thms by (rule runs_forP; (unfold at_def atEnd_iff; auto; fail | assumption))+

lemmas navs = eats_nav [OF _ disjI1 [OF refl]] eats_nav [OF _ disjI2 [OF refl]]

lemmas heads = eats_optional eats_report runs_for_strings navs eats_lists eats_word eats_bind_gets

lemmas binds = eats_expect eats_bind runs_bind

section \<open>Stories\<close>

lemma runs_parseDuration [parser_rules]: "runs n t parseDuration" "runs n t parseVarsMap"
  unfolding parseDuration_def parseVarsMap_def by (intro heads parser_rules binds; assumption)+

lemma badge_methods [parser_rules]:
  "runs n t parseRequiredBadges"
  "eats n t parseRequiredBadges"
  unfolding parseRequiredBadges_def
  by (intro heads parser_rules binds; assumption)+

lemma runs_of_eats:
  assumes "eats n t m" and "\<And>p. ok p \<Longrightarrow> atEnd p \<Longrightarrow> ok (snd (run_state m p)) \<and> grows p (snd (run_state m p))"
  shows "runs n t m"
  using assms unfolding runs_def eats_def by blast

lemma condition_body:
  assumes "\<And>j. j < k \<Longrightarrow> runs j (\<lambda>_. True) parse" and "\<And>j. j < k \<Longrightarrow> eats j (\<lambda>_. True) parse"
  shows "runs k (\<lambda>_. True) (parseConditionBody parse) \<and> eats k (\<lambda>_. True) (parseConditionBody parse)"
proof -
  have eats: "eats k (\<lambda>_. True) (parseConditionBody parse)"
  proof (cases k)
    case (Suc j)
    show ?thesis
      unfolding parseConditionBody_def parseConditionChain_def parseChildren_def Suc
      by (intro heads parser_rules binds) (simp_all add: assms Suc)
  qed (simp add: eats_0)
  then have "runs k (\<lambda>_. True) (parseConditionBody parse)"
    by (rule runs_of_eats) (simp add: parseConditionBody_def unexpected_def run_errorfP run_advanceP ok_def grows_def atEnd_iff)
  with eats show ?thesis by blast
qed

lemma action_body:
  assumes "\<And>j. j < k \<Longrightarrow> runs j (\<lambda>_. True) parse" and "\<And>j. j < k \<Longrightarrow> eats j (\<lambda>_. True) parse"
  shows "runs k (\<lambda>_. True) (parseActionBody parse) \<and> eats k (\<lambda>_. True) (parseActionBody parse)"
proof -
  have eats: "eats k (\<lambda>_. True) (parseActionBody parse)"
  proof (cases k)
    case (Suc j)
    show ?thesis
      unfolding parseActionBody_def parseRetryModifiers_def Suc
      by (intro heads parser_rules binds) (simp_all add: assms Suc)
  qed (simp add: eats_0)
  then have "runs k (\<lambda>_. True) (parseActionBody parse)"
    by (rule runs_of_eats) (simp add: parseActionBody_def Let_def run_errorfP run_advanceP ok_def grows_def atEnd_iff)
  with eats show ?thesis by blast
qed

lemma recursive_methods [parser_rules]:
  "runs n t parseCondition" "eats n t parseCondition" "runs n t parseAction" "eats n t parseAction"
  unfolding parseCondition_def parseAction_def
  by (rule recP_returns, rule condition_body action_body, blast, blast)+

lemma trigger_methods [parser_rules]:
  "runs n t parseTrigger"
  "eats n (\<lambda>p. t p \<and> at [TokOn] p) parseTrigger"
  unfolding parseTrigger_def
  by (intro heads parser_rules binds; assumption)+

lemma lifecycle_methods [parser_rules]:
  "runs n t parseLifecycleBlock"
  "eats n t parseLifecycleBlock"
  "runs n t parseOnCompleteBlock"
  "eats n t parseOnCompleteBlock"
  "runs n t parseOnFailBlock"
  "eats n t parseOnFailBlock"
  "runs n t parseConditionalRoute"
  "eats n t parseConditionalRoute"
  "runs n t parseCertificate"
  "eats n (\<lambda>p. t p \<and> at [TokCertificate] p) parseCertificate"
  "runs n t parseDataObjectLiteral"
  "eats n (\<lambda>p. t p \<and> at [TokLBrace] p) parseDataObjectLiteral"
  unfolding parseLifecycleBlock_def parseOnCompleteBlock_def parseOnFailBlock_def
    parseConditionalRoute_def parseCertificate_def parseDataObjectLiteral_def
  by (intro heads parser_rules binds; assumption)+

lemma storyline_end_methods [parser_rules]:
  "runs n t parseStorylineCompleteBlock"
  "eats n t parseStorylineCompleteBlock"
  "runs n t parseStorylineFailBlock"
  "eats n t parseStorylineFailBlock"
  unfolding parseStorylineCompleteBlock_def parseStorylineFailBlock_def
  by (intro heads parser_rules binds; assumption)+

lemma scene_methods [parser_rules]:
  "runs n t parseScene"
  "eats n (\<lambda>p. t p \<and> at [TokScene] p) parseScene"
  "runs n t parseScenesRange"
  "eats n (\<lambda>p. t p \<and> at [TokScenes] p) parseScenesRange"
  unfolding parseScene_def parseScenesRange_def
  by (intro heads parser_rules binds; assumption)+

lemma runs_parseUseArgs [parser_rules]: "eats n t parseUseArg" "runs n t (parseUseArgs us)" "runs n t (parseUseTarget us)"
  unfolding parseUseArg_def parseUseArgs_def parseUseTarget_def
  by ((intro heads parser_rules binds)?; auto simp: atEnd_iff split: prod.splits)+

lemma use_methods [parser_rules]:
  "runs n t parseUseStatement"
  "eats n (\<lambda>p. t p \<and> at [TokUse] p) parseUseStatement"
  "runs n t parseEnactment"
  "eats n (\<lambda>p. t p \<and> at [TokEnactment] p) parseEnactment"
  "runs n t parseDataBlock"
  "eats n (\<lambda>p. t p \<and> at [TokData] p) parseDataBlock"
  unfolding parseUseStatement_def parseEnactment_def parseDataBlock_def
  by (intro heads parser_rules binds; assumption)+

lemma loop_methods [parser_rules]:
  "(\<And>x. eats n (\<lambda>_. True) (body x)) \<Longrightarrow> runs n t (forLoop body)"
  "(\<And>x. eats (n - 1) (\<lambda>_. True) (body x)) \<Longrightarrow> eats n (\<lambda>p. t p \<and> at [TokFor] p) (forLoop body)"
  unfolding forLoop_def by (intro heads parser_rules binds; assumption)+

lemma storyline_methods [parser_rules]:
  "runs n t parseForLoop_storyline" "eats n (\<lambda>p. t p \<and> at [TokFor] p) parseForLoop_storyline"
  "runs n t parseStoryline" "eats n (\<lambda>p. t p \<and> at [TokStoryline] p) parseStoryline"
  "runs n t parseForLoop_story" "eats n (\<lambda>p. t p \<and> at [TokFor] p) parseForLoop_story"
  "runs n t parseStory" "eats n (\<lambda>p. t p \<and> at [TokStory] p) parseStory"
  unfolding parseForLoop_storyline_def parseStoryline_def parseForLoop_story_def parseStory_def
  by (intro heads parser_rules binds; assumption)+

lemma definition_methods [parser_rules]:
  "runs n t parseDefaultSender"
  "eats n (\<lambda>p. t p \<and> at [TokDefault] p) parseDefaultSender"
  "runs n t parseLinksBlock"
  "eats n (\<lambda>p. t p \<and> at [TokLinks] p) parseLinksBlock"
  "runs n t parsePatternDef"
  "eats n (\<lambda>p. t p \<and> at [TokPattern] p) parsePatternDef"
  "runs n t parsePolicyDef"
  "eats n (\<lambda>p. t p \<and> at [TokPolicy] p) parsePolicyDef"
  "runs n t parseSceneDefaults"
  "eats n (\<lambda>p. t p \<and> at [TokSceneDefaults] p) parseSceneDefaults"
  "runs n t parseEnactmentDefaults"
  "eats n (\<lambda>p. t p \<and> at [TokEnactmentDefaults] p) parseEnactmentDefaults"
  "runs n t parseCampaignAudience"
  "eats n t parseCampaignAudience"
  "runs n t parseCampaignOnClick"
  "eats n (\<lambda>p. t p \<and> at [TokOnClick] p) parseCampaignOnClick"
  unfolding parseDefaultSender_def parseLinksBlock_def parsePatternDef_def parsePolicyDef_def
    parseSceneDefaults_def parseEnactmentDefaults_def parseCampaignAudience_def
    parseCampaignOnClick_def
  by (intro heads parser_rules binds; assumption)+

lemma campaign_methods [parser_rules]:
  "runs n t parseCampaign"
  "eats n (\<lambda>p. t p \<and> at [TokCampaign] p) parseCampaign"
  unfolding parseCampaign_def
  by (intro heads parser_rules binds; assumption)+

section \<open>Funnels and sites\<close>

lemma block_methods [parser_rules]:
  "runs n t parseAIContext"
  "eats n (\<lambda>p. t p \<and> at [TokAI] p) parseAIContext"
  "runs n t parseLeadMagnet"
  "eats n (\<lambda>p. t p \<and> at [TokLeadMagnet] p) parseLeadMagnet"
  "runs n t parseFormField"
  "eats n (\<lambda>p. t p \<and> at [TokField] p) parseFormField"
  "runs n t parseOrderBump"
  "eats n (\<lambda>p. t p \<and> at [TokOrderBump] p) parseOrderBump"
  "runs n t parseSEOBlock"
  "eats n (\<lambda>p. t p \<and> at [TokSEO] p) parseSEOBlock"
  unfolding parseAIContext_def parseLeadMagnet_def parseFormField_def parseOrderBump_def
    parseSEOBlock_def
  by (intro heads parser_rules binds; assumption)+

lemma page_methods [parser_rules]:
  "runs n t parsePDFConfig"
  "eats n (\<lambda>p. t p \<and> at [TokPdf] p) parsePDFConfig"
  "runs n t parseBlock"
  "eats n (\<lambda>p. t p \<and> at [TokBlock] p) parseBlock"
  "runs n t parseForm"
  "eats n (\<lambda>p. t p \<and> at [TokForm] p) parseForm"
  unfolding parsePDFConfig_def parseBlock_def parseForm_def
  by (intro heads parser_rules binds; assumption)+

lemma stage_methods [parser_rules]:
  "runs n t parsePage"
  "eats n (\<lambda>p. t p \<and> at [TokPage] p) parsePage"
  "runs n t parseStage"
  "eats n (\<lambda>p. t p \<and> at [TokStage] p) parseStage"
  "runs n t parseRoute"
  "eats n (\<lambda>p. t p \<and> at [TokRoute] p) parseRoute"
  "runs n t parseFunnel"
  "eats n (\<lambda>p. t p \<and> at [TokFunnel] p) parseFunnel"
  "runs n t parseNavigationBlock"
  "eats n (\<lambda>p. t p \<and> at [TokNavigation] p) parseNavigationBlock"
  "runs n t parseSite"
  "eats n (\<lambda>p. t p \<and> at [TokSite] p) parseSite"
  unfolding parsePage_def parseStage_def parseRoute_def parseFunnel_def parseNavigationBlock_def
    parseSite_def
  by (intro heads parser_rules binds; assumption)+

section \<open>Courses, products, offers and quizzes\<close>

lemma lesson_methods [parser_rules]:
  "runs n t parseLMSContentGen"
  "eats n t parseLMSContentGen"
  "runs n t parseDescriptionGen"
  "eats n (\<lambda>p. t p \<and> at [TokDescriptionGen] p) parseDescriptionGen"
  "runs n t parseLMSQuestion"
  "eats n (\<lambda>p. t p \<and> at [TokQuestion] p) parseLMSQuestion"
  "runs n t parseLMSQuiz"
  "eats n (\<lambda>p. t p \<and> at [TokQuiz] p) parseLMSQuiz"
  "runs n t parseCourseCertConfig"
  "eats n (\<lambda>p. t p \<and> at [TokCertificate] p) parseCourseCertConfig"
  unfolding parseLMSContentGen_def parseDescriptionGen_def parseLMSQuestion_def parseLMSQuiz_def
    parseCourseCertConfig_def
  by (intro heads parser_rules binds; assumption)+

lemma course_methods [parser_rules]:
  "runs n t parseLesson"
  "eats n (\<lambda>p. t p \<and> at [TokLesson] p) parseLesson"
  "runs n t parseModule"
  "eats n (\<lambda>p. t p \<and> at [TokModule] p) parseModule"
  "runs n t parseCourseDecl"
  "eats n (\<lambda>p. t p \<and> at [TokCourse] p) parseCourseDecl"
  "runs n t parseProductDecl"
  "eats n (\<lambda>p. t p \<and> at [TokProduct] p) parseProductDecl"
  unfolding parseLesson_def parseModule_def parseCourseDecl_def parseProductDecl_def
  by (intro heads parser_rules binds; assumption)+

lemma offer_methods [parser_rules]:
  "runs n t parseOfferLifecycleBlock"
  "eats n (\<lambda>p. t p \<and> at [TokLBrace] p) parseOfferLifecycleBlock"
  "runs n t parseOfferDecl"
  "eats n (\<lambda>p. t p \<and> at [TokOffer] p) parseOfferDecl"
  "runs n t parseActionNode"
  "runs n t parseAnswer"
  "eats n (\<lambda>p. t p \<and> at [TokAnswer] p) parseAnswer"
  "runs n t parseQuestion"
  "eats n (\<lambda>p. t p \<and> at [TokQuestion] p) parseQuestion"
  unfolding parseOfferLifecycleBlock_def parseOfferDecl_def parseActionNode_def parseAnswer_def
    parseQuestion_def
  by (intro heads parser_rules binds; assumption)+

lemma quiz_methods [parser_rules]:
  "runs n t parseScoreRule"
  "runs n t parseQuizOnComplete"
  "eats n (\<lambda>p. t p \<and> at [TokLBrace] p) parseQuizOnComplete"
  "runs n t parseQuiz"
  "eats n (\<lambda>p. t p \<and> at [TokQuiz] p) parseQuiz"
  unfolding parseScoreRule_def parseQuizOnComplete_def parseQuiz_def
  by (intro heads parser_rules binds; assumption)+

section \<open>Media\<close>

lemma media_methods [parser_rules]:
  "runs n t parseChapterDecl"
  "eats n (\<lambda>p. t p \<and> at [TokChapter] p) parseChapterDecl"
  "runs n t parseTurnstileDecl"
  "eats n (\<lambda>p. t p \<and> at [TokTurnstile] p) parseTurnstileDecl"
  "runs n t parseCTADecl"
  "eats n (\<lambda>p. t p \<and> at [TokCTA] p) parseCTADecl"
  "runs n t parseAnnotationDecl"
  "eats n (\<lambda>p. t p \<and> at [TokAnnotation] p) parseAnnotationDecl"
  "runs n t parseBadgeRuleDecl"
  "eats n (\<lambda>p. t p \<and> at [TokBadgeRule] p) parseBadgeRuleDecl"
  "runs n t parsePlayerPresetDecl"
  "eats n (\<lambda>p. t p \<and> at [TokPlayerPreset] p) parsePlayerPresetDecl"
  "runs n t parseChannelDecl"
  "eats n (\<lambda>p. t p \<and> at [TokChannel] p) parseChannelDecl"
  "runs n t parseMediaWebhookDecl"
  "eats n (\<lambda>p. t p \<and> at [TokMediaWebhook] p) parseMediaWebhookDecl"
  unfolding parseChapterDecl_def parseTurnstileDecl_def parseCTADecl_def parseAnnotationDecl_def
    parseBadgeRuleDecl_def parsePlayerPresetDecl_def parseChannelDecl_def
    parseMediaWebhookDecl_def
  by (intro heads parser_rules binds; assumption)+

lemma media_decl_methods [parser_rules]:
  "runs n t parseMediaDecl"
  "eats n (\<lambda>p. t p \<and> at [TokMedia] p) parseMediaDecl"
  unfolding parseMediaDecl_def
  by (intro heads parser_rules binds; assumption)+

section \<open>The root\<close>

lemma runs_Parse: "runs n t Parse"
  unfolding Parse_def parseDeclaration_def by (intro heads parser_rules binds) (simp add: atEnd_iff)+

lemma forP_stop:
  assumes "\<not> ps_hung (snd (run_state (forP c body x) p))"
  shows "\<not> c (fst (run_state (forP c body x) p)) (snd (run_state (forP c body x) p))"
proof (cases "while_option (\<lambda>(x, p). \<not> ps_hung p \<and> c x p) (\<lambda>(x, p). run_state (body x) p) (x, p)")
  case (Some r)
  with while_option_stop [OF Some] forP_end [OF Some] assms show ?thesis by (cases r) auto
qed (use assms in \<open>simp add: forP_def\<close>)

text \<open>
  C6: The parser returns on every token stream whose string lists are well formed, whatever else
  is wrong with it: it reads the stream to its end and every diagnostic it reports is an
  error.
\<close>

theorem Parse_returns:
  assumes "lists_ok tokens"
  shows "\<not> ps_hung (snd (run_state Parse (NewParser tokens)))
    \<and> atEnd (snd (run_state Parse (NewParser tokens)))
    \<and> all_errors (ps_errors (snd (run_state Parse (NewParser tokens))))"
proof -
  let ?p = "NewParser tokens" and ?q = "snd (run_state Parse (NewParser tokens))"
  have "ok ?p" using assms by (simp add: NewParser_def ok_def)
  then have q: "ok ?q" "grows ?p ?q" using runs_Parse [of "tokens_left ?p" "\<lambda>_. True"] by (auto simp: runs_def)
  then have "\<not> ps_hung ?q" by (simp add: ok_def)
  moreover from this have "atEnd ?q" unfolding Parse_def run_bindP using forP_stop by fastforce
  moreover have "all_errors (ps_errors ?q)" using q(2) by (auto simp: grows_def NewParser_def)
  ultimately show ?thesis by blast
qed

definition tok :: "TokenKind \<Rightarrow> string \<Rightarrow> Token" where
  "tok kind lit = \<lparr>Kind = kind, Literal = lit, tok_Pos = zero_Pos\<rparr>"

text \<open>A stream that is no script, with one well-formed list in it.\<close>

definition broken_stream :: "Token list" where
  "broken_stream = [tok TokStory ''story'', tok TokRBrace [], tok TokTags ''tags'', tok TokLBracket [],
     tok TokString ''vip'', tok TokRBracket [], tok TokOn ''on'', tok TokEOF []]"

lemma Parse_returns_witness:
  "\<not> ps_hung (snd (run_state Parse (NewParser broken_stream)))
    \<and> atEnd (snd (run_state Parse (NewParser broken_stream)))
    \<and> all_errors (ps_errors (snd (run_state Parse (NewParser broken_stream))))"
  by (rule Parse_returns)
    (simp add: broken_stream_def tok_def ready_after_def list_ready_def skip_one_def skips_to_def list_token_def)

section \<open>A list that hangs the service\<close>

lemma hung_expects [simp]:
  "ps_hung p \<Longrightarrow> ps_hung (snd (run_state (expect kind) p))"
  "ps_hung p \<Longrightarrow> ps_hung (snd (run_state (untilP kind body x) p))"
  by (simp, simp add: untilP_def forP_def while_option_unfold)

lemma hangs_in_first_round:
  assumes "ps_hung (snd (run_state (body x) p))" and "\<not> ps_hung p" and "\<not> at [kind] p" and "\<not> atEnd p"
  shows "ps_hung (snd (run_state (untilP kind body x) p))"
  using assms by (simp add: untilP_def forP_def while_option_unfold [of _ _ "(x, p)"] while_option_unfold split_beta)

text \<open>A parser in front of the token number \<open>k\<close> of a stream.\<close>

definition before :: "Token list \<Rightarrow> nat \<Rightarrow> Parser" where
  "before ts k = (NewParser ts)\<lparr>ps_pos := k\<rparr>"

lemma before_simps [simp]:
  "NewParser ts = before ts 0" "(before ts k)\<lparr>ps_pos := n\<rparr> = before ts n" "ps_pos (before ts k) = k"
  "\<not> ps_hung (before ts k)" "rest (before ts k) = drop k ts" "ps_tokens (before ts k) = ts"
  by (simp_all add: before_def NewParser_def rest_def)

lemma cur_before: "k < length ts \<Longrightarrow> cur (before ts k) = ts ! k"
  by (simp add: cur_def)

text \<open>The kinds of the tokens from number \<open>k\<close> on.\<close>

primrec kinds_at :: "nat \<Rightarrow> TokenKind list \<Rightarrow> Token list \<Rightarrow> bool" where
  "kinds_at k [] ts \<longleftrightarrow> True"
| "kinds_at k (kind # kinds) ts \<longleftrightarrow> k < length ts \<and> Kind (ts ! k) = kind \<and> kinds_at (Suc k) kinds ts"

lemma run_before [simp]:
  assumes "k < length ts"
  shows "Kind (ts ! k) = kind \<Longrightarrow> kind \<noteq> TokEOF \<Longrightarrow> run_state (expect kind) (before ts k) = (ts ! k, before ts (Suc k))"
    and "Kind (ts ! k) = TokString \<Longrightarrow> run_state expectString (before ts k) = (Literal (ts ! k), before ts (Suc k))"
    and "Kind (ts ! k) \<noteq> TokEOF \<Longrightarrow> run_state advanceP (before ts k) = (ts ! k, before ts (Suc k))"
  using assms by (simp_all add: expectString_def run_expect run_advanceP cur_before atEnd_iff)

lemma live_before: "k \<le> length ts \<Longrightarrow> live (before ts k)"
  by (simp add: live_def)

lemma scene_hangs:
  assumes "kinds_at k [TokScene, TokString, TokLBrace, TokTags] ts" and "\<not> list_ready (drop (Suc (Suc (Suc (Suc k)))) ts)"
  shows "ps_hung (snd (run_state parseScene (before ts k)))"
proof -
  have "ps_hung (snd (run_state parseStringList (before ts (Suc (Suc (Suc (Suc k)))))))"
    using assms by (subst parseStringList_returns) (simp_all add: live_before)
  with assms(1) show ?thesis
    by (simp add: parseScene_def hangs_in_first_round cur_before atEnd_iff split_beta)
qed

lemma enactment_hangs:
  assumes "kinds_at k [TokEnactment, TokString, TokLBrace, TokScene, TokString, TokLBrace, TokTags] ts"
    and "\<not> list_ready (drop (Suc (Suc (Suc (Suc (Suc (Suc (Suc k))))))) ts)"
  shows "ps_hung (snd (run_state parseEnactment (before ts k)))"
proof -
  have "ps_hung (snd (run_state parseScene (before ts (Suc (Suc (Suc k))))))"
    using assms by (intro scene_hangs) simp_all
  with assms(1) show ?thesis
    by (simp add: parseEnactment_def hangs_in_first_round cur_before atEnd_iff split_beta)
qed

lemma storyline_hangs:
  assumes "kinds_at k [TokStoryline, TokString, TokLBrace, TokEnactment, TokString, TokLBrace,
      TokScene, TokString, TokLBrace, TokTags] ts"
    and "\<not> list_ready (drop (Suc (Suc (Suc (Suc (Suc (Suc (Suc (Suc (Suc (Suc k)))))))))) ts)"
  shows "ps_hung (snd (run_state parseStoryline (before ts k)))"
proof -
  have "ps_hung (snd (run_state parseEnactment (before ts (Suc (Suc (Suc k))))))"
    using assms by (intro enactment_hangs) simp_all
  with assms(1) show ?thesis
    by (simp add: parseStoryline_def hangs_in_first_round cur_before atEnd_iff split_beta)
qed

lemma story_hangs:
  assumes "kinds_at k [TokStory, TokString, TokLBrace, TokStoryline, TokString, TokLBrace,
      TokEnactment, TokString, TokLBrace, TokScene, TokString, TokLBrace, TokTags] ts"
    and "\<not> list_ready (drop (Suc (Suc (Suc (Suc (Suc (Suc (Suc (Suc (Suc (Suc (Suc (Suc (Suc k))))))))))))) ts)"
  shows "ps_hung (snd (run_state parseStory (before ts k)))"
proof -
  have "ps_hung (snd (run_state parseStoryline (before ts (Suc (Suc (Suc k))))))"
    using assms by (intro storyline_hangs) simp_all
  with assms(1) show ?thesis
    by (simp add: parseStory_def hangs_in_first_round cur_before atEnd_iff split_beta)
qed

text \<open>
  The parser never returns on a script whose first scene gives its tags as anything but a
  closed list: a loop reports the same token for ever, and the service with it. The
  shortest such script writes \<open>tags "vip"\<close> for \<open>tags ["vip"]\<close>.
\<close>

theorem tags_hang:
  assumes "kinds_at 0 [TokStory, TokString, TokLBrace, TokStoryline, TokString, TokLBrace,
      TokEnactment, TokString, TokLBrace, TokScene, TokString, TokLBrace, TokTags] tokens"
    and "\<not> list_ready (drop 13 tokens)"
  shows "ps_hung (snd (run_state Parse (NewParser tokens)))"
proof -
  have "ps_hung (snd (run_state parseStory (before tokens 0)))"
    using assms by (intro story_hangs) (simp_all add: numeral_eq_Suc)
  with assms(1) have "ps_hung (snd (run_state (parseDeclaration x) (before tokens 0)))" for x
    by (simp add: parseDeclaration_def cur_before split_beta)
  with assms(1) show ?thesis
    by (simp add: Parse_def forP_def while_option_unfold [of _ _ "(_, before tokens 0)"] while_option_unfold
        cur_before atEnd_iff split_beta)
qed

text \<open>The tokens of a script with one scene, tagged with these tokens.\<close>

definition tagged_scene :: "Token list \<Rightarrow> Token list" where
  "tagged_scene tags =
     [tok TokStory ''story'', tok TokString ''S'', tok TokLBrace ''{'',
      tok TokStoryline ''storyline'', tok TokString ''L'', tok TokLBrace ''{'',
      tok TokEnactment ''enactment'', tok TokString ''E'', tok TokLBrace ''{'',
      tok TokScene ''scene'', tok TokString ''x'', tok TokLBrace ''{'', tok TokTags ''tags''] @ tags
     @ [tok TokRBrace ''}'', tok TokRBrace ''}'', tok TokRBrace ''}'', tok TokRBrace ''}'', tok TokEOF []]"

lemma tags_hang_witness:
  "ps_hung (snd (run_state Parse (NewParser (tagged_scene [tok TokString ''vip'']))))"
  by (rule tags_hang)
    (simp_all add: tagged_scene_def tok_def list_ready_def skip_one_def skips_to_def list_token_def)

end
