(* ===== verification/Script.thy ===== *)
theory Script
  imports Lexer CompileProps ParserReturns
begin

text \<open>
  The two ends of the pipeline of \<open>src/scripting/scripting.go\<close>: \<open>ParseScript\<close>, from the source
  text to the tree, and \<open>CompileScript\<close>, from the source text to the entities.
\<close>

text \<open>None when the parser does not return.\<close>

definition ParseScript :: "unicode \<Rightarrow> string \<Rightarrow> ParseResult option" where
  "ParseScript u src =
     (let (tokens, lexErrors) = Tokenize u (NewLexer src);
          (ast, p) = run_state Parse (NewParser tokens) in
      if ps_hung p then None
      else Some \<lparr>pr_AST = ast, pr_Diagnostics = lexErrors @ ps_errors p\<rparr>)"

lemma ParseScript_None: "ParseScript u src = None
  \<longleftrightarrow> ps_hung (snd (run_state Parse (NewParser (fst (Tokenize u (NewLexer src))))))"
  by (simp add: ParseScript_def split_beta)

text \<open>A result with nothing but diagnostics.\<close>

definition reported :: "Diagnostics \<Rightarrow> CompileResult" where
  "reported ds = \<lparr>res_Stories = [], res_Funnels = [], res_Sites = [], res_Products = [], res_Offers = [],
     res_Assets = [], res_MediaEntities = [], res_PlayerPresets = [], res_Channels = [],
     res_MediaWebhooks = [], res_Quizzes = [], res_CertificateTemplates = [], res_Campaigns = [],
     res_Badges = [], res_Tags = [], res_Diagnostics = ds\<rparr>"

text \<open>
  \<open>CompileScript\<close>, for the ids still to be drawn and the random prefix of the session. None when
  the parser does not return or the compiler stops with a nil dereference.
\<close>

definition CompileScript :: "Context \<Rightarrow> unicode \<Rightarrow> nat \<Rightarrow> string \<Rightarrow> string \<Rightarrow> CompileResult option" where
  "CompileScript cx u oids session src =
     (case ParseScript u src of
        None \<Rightarrow> None
      | Some parsed \<Rightarrow>
          (let vr = ValidateScript parsed in
           if HasErrors (vr_Diagnostics vr) then Some (reported (vr_Diagnostics vr))
           else
             (case vr_Symbols vr of
                None \<Rightarrow> None
              | Some symbols \<Rightarrow>
                  (let (result, s) = run_state (Compile cx symbols (vr_AST vr)) (NewCompiler oids 0 session) in
                   if cs_panicked s then None else Some result))))"

text \<open>
  C12: The diagnostics of the whole pipeline, from the source text on. The first stage that
  reports an error is the last one to run, and its report comes after the warnings before it.
  A script that passes every stage is compiled, unless a funnel stage has a trigger with a
  jump to an enactment, which stops the program; then the report holds only the products of
  offers that are not declared, and all warnings of the earlier stages are gone.
\<close>

theorem CompileScript_diagnostics:
  "map_option res_Diagnostics (CompileScript cx u oids session src) =
     (case ParseScript u src of
        None \<Rightarrow> None
      | Some pr \<Rightarrow>
          if HasErrors (pr_Diagnostics pr) then Some (pr_Diagnostics pr)
          else let (ast, ds1) = Expand (pr_AST pr); ds2 = snd (Validate ast) in
            if HasErrors ds1 then Some (pr_Diagnostics pr @ ds1)
            else if HasErrors ds2 then Some (pr_Diagnostics pr @ ds1 @ ds2)
            else if list_ex funnel_jumps (ast_Funnels ast) then None
            else Some (missing_products ast))"
proof (cases "ParseScript u src")
  case (Some pr)
  obtain ast ds1 where e: "Expand (pr_AST pr) = (ast, ds1)" by (cases "Expand (pr_AST pr)") auto
  obtain sy ds2 where v: "Validate ast = (sy, ds2)" by (cases "Validate ast") auto
  have "res_Diagnostics (fst (run_state (Compile cx sy ast) (NewCompiler oids 0 session))) = missing_products ast"
    if "\<not> HasErrors ds2"
    using that v by (intro Compile_errors) simp
  moreover have "cs_panicked (snd (run_state (Compile cx sy ast) (NewCompiler oids 0 session)))
      \<longleftrightarrow> list_ex funnel_jumps (ast_Funnels ast)"
    by (rule Compile_stops)
  ultimately show ?thesis
    using e v
    by (auto simp: Some CompileScript_def ValidateScript_def ExpandScript_def reported_def Let_def split_beta)
qed (simp add: CompileScript_def)

end
