(* ===== verification/StoryGraph.thy ===== *)
theory StoryGraph
  imports Compiler "HOL-Library.Multiset"
begin

text \<open>
  How the story engine reads a story back (\<open>hydrateStoryGraph\<close>, \<open>hydrateEnactment\<close>,
  \<open>loadScene\<close> and the helpers of \<open>src/routes/story_engine.go\<close>). The collections of the
  database are lists of documents in the order in which a query returns them; a query that
  fails is one that finds nothing, as in the code. Arrays hold no null entries.

  The list given to \<open>sort.Slice\<close> is sorted by insertion, which is stable, up to length
  twelve; longer lists are sorted by a function that the store carries.
\<close>

section \<open>The collections\<close>

record User =
  usr_PublicId :: string
  usr_Email :: string
  usr_UnsubscribedAt :: "int option"

record Store =
  db_Stories :: "Story list"
  db_Storylines :: "Storyline list"
  db_Enactments :: "Enactment list"
  db_Scenes :: "Scene list"
  db_Messages :: "Message list"
  db_Triggers :: "Trigger list"
  db_Actions :: "Action list"
  db_Users :: "User list"
  db_sortActs :: "Enactment list \<Rightarrow> Enactment list"
  db_sortStorylines :: "Storyline list \<Rightarrow> Storyline list"

text \<open>\<open>Find(bson.M{"_id": id, "subscriber_id": tid}).One(\<dots>)\<close>\<close>

definition find_owned ::
  "('e \<Rightarrow> ObjectId) \<Rightarrow> ('e \<Rightarrow> string) \<Rightarrow> 'e list \<Rightarrow> string \<Rightarrow> ObjectId \<Rightarrow> 'e option" where
  "find_owned oid owner docs tid i = find (\<lambda>d. oid d = i \<and> owner d = tid) docs"

definition sliceSort :: "('e \<Rightarrow> int) \<Rightarrow> ('e list \<Rightarrow> 'e list) \<Rightarrow> 'e list \<Rightarrow> 'e list" where
  "sliceSort key long xs = (if length xs \<le> 12 then sort_key key xs else long xs)"

section \<open>Reading a story back\<close>

definition loadScene :: "Store \<Rightarrow> string \<Rightarrow> ObjectId \<Rightarrow> Scene option" where
  "loadScene db tid i =
     (case find_owned scn_Id scn_SubscriberId (db_Scenes db) tid i of
        None \<Rightarrow> None
      | Some sc \<Rightarrow>
          (case (scn_Message sc, scn_MessageId sc) of
             (None, Some r) \<Rightarrow>
               Some (sc\<lparr>scn_Message := find_owned msg_Id msg_SubscriberId (db_Messages db) tid (ci_Id r)\<rparr>)
           | _ \<Rightarrow> Some sc))"

definition hydrateTrigger :: "Store \<Rightarrow> string \<Rightarrow> ObjectId \<Rightarrow> Trigger option" where
  "hydrateTrigger db tid i =
     (case find_owned trg_Id trg_SubscriberId (db_Triggers db) tid i of
        None \<Rightarrow> None
      | Some tr \<Rightarrow>
          (case (trg_DoAction tr, trg_DoActionId tr) of
             (None, Some r) \<Rightarrow>
               Some (tr\<lparr>trg_DoAction := find_owned act_Id act_SubscriberId (db_Actions db) tid (ci_Id r)\<rparr>)
           | _ \<Rightarrow> Some tr))"

definition hydrateEnactment :: "Store \<Rightarrow> string \<Rightarrow> Enactment \<Rightarrow> Enactment" where
  "hydrateEnactment db tid en =
     en\<lparr>ent_SendScene := (case (ent_SendScene en, ent_SendSceneId en) of
          (None, Some r) \<Rightarrow> loadScene db tid (ci_Id r) | (sc, _) \<Rightarrow> sc),
        ent_SendScenes := (case (ent_SendScenes en, ent_SendScenesIds en) of
          ([], Some r) \<Rightarrow> List.map_filter (loadScene db tid) (cis_Ids r) | (scs, _) \<Rightarrow> scs),
        ent_OnEvent := (case (ent_OnEvent en, ent_OnEventIds en) of
          ([], Some r) \<Rightarrow> foldl addEvent [] (List.map_filter (hydrateTrigger db tid) (cis_Ids r))
        | (m, _) \<Rightarrow> m)\<rparr>"

definition loadAct :: "Store \<Rightarrow> string \<Rightarrow> ObjectId \<Rightarrow> Enactment option" where
  "loadAct db tid i =
     map_option (hydrateEnactment db tid) (find_owned ent_Id ent_SubscriberId (db_Enactments db) tid i)"

definition hydrateStoryline :: "Store \<Rightarrow> string \<Rightarrow> Storyline \<Rightarrow> Storyline" where
  "hydrateStoryline db tid sl =
     (case (stl_Acts sl, stl_ActIds sl) of
        ([], Some r) \<Rightarrow>
          sl\<lparr>stl_Acts := sliceSort ent_NaturalOrder (db_sortActs db)
               (List.map_filter (loadAct db tid) (cis_Ids r))\<rparr>
      | _ \<Rightarrow> sl)"

text \<open>One id of the list: a storyline that is present already is passed over.\<close>

definition addStoryline :: "Store \<Rightarrow> string \<Rightarrow> Storyline list \<Rightarrow> ObjectId \<Rightarrow> Storyline list" where
  "addStoryline db tid sls i =
     (case find_owned stl_Id stl_SubscriberId (db_Storylines db) tid i of
        None \<Rightarrow> sls
      | Some sl \<Rightarrow>
          if List.member (map stl_PublicId sls) (stl_PublicId sl) then sls
          else sls @ [hydrateStoryline db tid sl])"

definition hydrateStoryGraph :: "Store \<Rightarrow> Story \<Rightarrow> Story" where
  "hydrateStoryGraph db story =
     (case sto_StorylineIds story of
        None \<Rightarrow> story
      | Some r \<Rightarrow>
          if cis_Ids r = [] then story
          else story\<lparr>sto_Storylines := sliceSort stl_NaturalOrder (db_sortStorylines db)
                 (foldl (addStoryline db (sto_SubscriberId story)) (sto_Storylines story) (cis_Ids r))\<rparr>)"

section \<open>What a step sends and how long it waits\<close>

definition getSceneFromEnactment :: "Enactment \<Rightarrow> nat \<Rightarrow> Scene option" where
  "getSceneFromEnactment en idx =
     (if idx < length (ent_SendScenes en) then Some (ent_SendScenes en ! idx)
      else if idx = 0 then ent_SendScene en else None)"

definition zero_content :: MessageContent where
  "zero_content = \<lparr>mc_Id = Oid 0, mc_PublicId = [], mc_SubscriberId = [], mc_CreatorId = Oid 0,
     mc_Subject = [], mc_Body = [], mc_FromEmail = [], mc_FromName = [], mc_ReplyTo = [],
     mc_GivenVars = [], mc_EmailGenConfig = None, mc_Template = None, mc_TemplateId = None\<rparr>"

definition getSceneContent :: "Scene \<Rightarrow> MessageContent option" where
  "getSceneContent scene =
     (case Option.bind (scn_Message scene) msg_Content of
        Some c \<Rightarrow> Some c
      | None \<Rightarrow>
          if scn_Subject scene \<noteq> [] \<or> scn_Body scene \<noteq> []
          then Some (zero_content\<lparr>mc_Subject := scn_Subject scene, mc_Body := scn_Body scene,
                       mc_FromEmail := scn_FromEmail scene, mc_FromName := scn_FromName scene,
                       mc_ReplyTo := scn_ReplyTo scene\<rparr>)
          else None)"

definition waitSecondsOf :: "Timeframe \<Rightarrow> int" where
  "waitSecondsOf wu =
     (if List.member [''seconds'', ''second''] (tf_TimeUnit wu) then tf_Amount wu
      else if List.member [''minutes'', ''minute''] (tf_TimeUnit wu) then wrap64 (tf_Amount wu * 60)
      else if List.member [''hours'', ''hour''] (tf_TimeUnit wu) then wrap64 (tf_Amount wu * 3600)
      else wrap64 (tf_Amount wu * 60))"

text \<open>The parameter \<open>onSent\<close> is the constant \<open>pkgmodels.OnSent\<close>.\<close>

definition getOnSentWait :: "string \<Rightarrow> Enactment \<Rightarrow> int \<times> string" where
  "getOnSentWait onSent en =
     (case map_of (ent_OnEvent en) onSent of
        None \<Rightarrow> (30, ''mark_complete'')
      | Some [] \<Rightarrow> (30, ''mark_complete'')
      | Some (tr # _) \<Rightarrow>
          (case trg_DoAction tr of
             None \<Rightarrow> (30, ''mark_complete'')
           | Some act \<Rightarrow>
               (case act_When act of
                  None \<Rightarrow> (30, ''mark_complete'')
                | Some w \<Rightarrow>
                    (case aw_WaitUntil w of None \<Rightarrow> 30 | Some wu \<Rightarrow> waitSecondsOf wu,
                     act_ActionName act))))"


section \<open>Nothing of another tenant\<close>

lemma find_owned_SomeD: "find_owned oid owner docs tid i = Some d \<Longrightarrow> d \<in> set docs \<and> oid d = i \<and> owner d = tid"
  by (auto simp: find_owned_def find_Some_iff)

text \<open>The sorting functions of the store sort.\<close>

definition sorts :: "('e \<Rightarrow> int) \<Rightarrow> ('e list \<Rightarrow> 'e list) \<Rightarrow> bool" where
  "sorts key f \<longleftrightarrow> (\<forall>xs. mset (f xs) = mset xs \<and> sorted (map key (f xs)))"

definition store_sorts :: "Store \<Rightarrow> bool" where
  "store_sorts db \<longleftrightarrow> sorts ent_NaturalOrder (db_sortActs db) \<and> sorts stl_NaturalOrder (db_sortStorylines db)"

lemma sliceSort_sorts:
  assumes "sorts key f"
  shows "mset (sliceSort key f xs) = mset xs" and "sorted (map key (sliceSort key f xs))"
  using assms by (auto simp: sliceSort_def sorts_def)

lemma sliceSort_set: "sorts key f \<Longrightarrow> set (sliceSort key f xs) = set xs"
  by (metis sliceSort_sorts(1) set_mset_mset)

text \<open>Documents as the deployer stores them: references only, no embedded documents.\<close>

definition stripped :: "Store \<Rightarrow> bool" where
  "stripped db \<longleftrightarrow>
     list_all (\<lambda>sl. stl_Acts sl = []) (db_Storylines db)
     \<and> list_all (\<lambda>en. ent_SendScene en = None \<and> ent_SendScenes en = [] \<and> ent_OnEvent en = []) (db_Enactments db)
     \<and> list_all (\<lambda>sc. scn_Message sc = None) (db_Scenes db)
     \<and> list_all (\<lambda>tr. trg_DoAction tr = None) (db_Triggers db)"

definition scene_owned :: "string \<Rightarrow> Scene \<Rightarrow> bool" where
  "scene_owned tid sc \<longleftrightarrow>
     scn_SubscriberId sc = tid \<and> (case scn_Message sc of None \<Rightarrow> True | Some m \<Rightarrow> msg_SubscriberId m = tid)"

definition trigger_owned :: "string \<Rightarrow> Trigger \<Rightarrow> bool" where
  "trigger_owned tid tr \<longleftrightarrow>
     trg_SubscriberId tr = tid \<and> (case trg_DoAction tr of None \<Rightarrow> True | Some a \<Rightarrow> act_SubscriberId a = tid)"

definition act_owned :: "string \<Rightarrow> Enactment \<Rightarrow> bool" where
  "act_owned tid en \<longleftrightarrow>
     ent_SubscriberId en = tid
     \<and> (case ent_SendScene en of None \<Rightarrow> True | Some sc \<Rightarrow> scene_owned tid sc)
     \<and> list_all (scene_owned tid) (ent_SendScenes en)
     \<and> list_all (\<lambda>(t, trs). list_all (trigger_owned tid) trs) (ent_OnEvent en)"

definition storyline_owned :: "string \<Rightarrow> Storyline \<Rightarrow> bool" where
  "storyline_owned tid sl \<longleftrightarrow> stl_SubscriberId sl = tid \<and> list_all (act_owned tid) (stl_Acts sl)"

text \<open>
  What a stored document embeds belongs to the tenant of the document. A deployed document embeds nothing; the
  story builder embeds what it has looked up for the caller.
\<close>

definition embeds_own :: "Store \<Rightarrow> bool" where
  "embeds_own db \<longleftrightarrow>
     list_all (\<lambda>sl. storyline_owned (stl_SubscriberId sl) sl) (db_Storylines db)
     \<and> list_all (\<lambda>en. act_owned (ent_SubscriberId en) en) (db_Enactments db)
     \<and> list_all (\<lambda>sc. scene_owned (scn_SubscriberId sc) sc) (db_Scenes db)
     \<and> list_all (\<lambda>tr. trigger_owned (trg_SubscriberId tr) tr) (db_Triggers db)"

lemma stripped_embeds_own: "stripped db \<Longrightarrow> embeds_own db"
  by (simp add: stripped_def embeds_own_def storyline_owned_def act_owned_def scene_owned_def trigger_owned_def list_all_iff)

lemma found_owned:
  assumes "embeds_own db"
  shows "find_owned stl_Id stl_SubscriberId (db_Storylines db) tid i = Some sl \<Longrightarrow> storyline_owned tid sl"
    and "find_owned ent_Id ent_SubscriberId (db_Enactments db) tid i = Some en \<Longrightarrow> act_owned tid en"
    and "find_owned scn_Id scn_SubscriberId (db_Scenes db) tid i = Some sc \<Longrightarrow> scene_owned tid sc"
    and "find_owned trg_Id trg_SubscriberId (db_Triggers db) tid i = Some tr \<Longrightarrow> trigger_owned tid tr"
  using assms by (auto simp: embeds_own_def list_all_iff dest!: find_owned_SomeD)

lemma loadScene_owned:
  assumes "embeds_own db" and "loadScene db tid i = Some sc"
  shows "scene_owned tid sc"
proof -
  obtain d where d: "find_owned scn_Id scn_SubscriberId (db_Scenes db) tid i = Some d"
    using assms(2) by (auto simp: loadScene_def split: option.splits)
  then have "scene_owned tid d" by (rule found_owned(3) [OF assms(1)])
  with d assms(2) show ?thesis
    by (auto simp: loadScene_def scene_owned_def dest: find_owned_SomeD split: option.splits)
qed

lemma hydrateTrigger_owned:
  assumes "embeds_own db" and "hydrateTrigger db tid i = Some tr"
  shows "trigger_owned tid tr"
proof -
  obtain d where d: "find_owned trg_Id trg_SubscriberId (db_Triggers db) tid i = Some d"
    using assms(2) by (auto simp: hydrateTrigger_def split: option.splits)
  then have "trigger_owned tid d" by (rule found_owned(4) [OF assms(1)])
  with d assms(2) show ?thesis
    by (auto simp: hydrateTrigger_def trigger_owned_def dest: find_owned_SomeD split: option.splits)
qed

lemma addEvent_all:
  "list_all (\<lambda>(t, trs). list_all P trs) m \<Longrightarrow> P tr \<Longrightarrow> list_all (\<lambda>(t, trs). list_all P trs) (addEvent m tr)"
proof -
  assume all: "list_all (\<lambda>(t, trs). list_all P trs) m" and "P tr"
  let ?old = "case map_of m (trg_TriggerType tr) of None \<Rightarrow> [] | Some trs \<Rightarrow> trs"
  have "list_all P (?old @ [tr])"
    using all \<open>P tr\<close>
    by (cases "map_of m (trg_TriggerType tr)") (auto simp: list_all_iff dest!: map_of_SomeD)
  moreover have "list_all (\<lambda>(t, trs). list_all P trs) (gomap_put k v m)" if "list_all P v" for k v
    using all that by (induction m) auto
  ultimately show ?thesis by (simp add: addEvent_def)
qed

lemma addEvents_all:
  "list_all (\<lambda>(t, trs). list_all P trs) m \<Longrightarrow> list_all P trs \<Longrightarrow>
   list_all (\<lambda>(t, trs). list_all P trs) (foldl addEvent m trs)"
  by (induction trs arbitrary: m) (auto intro: addEvent_all)

lemma list_all_map_filter: "(\<And>x y. f x = Some y \<Longrightarrow> P y) \<Longrightarrow> list_all P (List.map_filter f xs)"
  by (auto simp: list_all_iff List.map_filter_def)

lemma loadAct_owned:
  assumes "embeds_own db" and "loadAct db tid i = Some en"
  shows "act_owned tid en"
proof -
  obtain d where d: "find_owned ent_Id ent_SubscriberId (db_Enactments db) tid i = Some d"
    "en = hydrateEnactment db tid d" using assms(2) by (auto simp: loadAct_def)
  have e: "act_owned tid d" using found_owned(2) [OF assms(1) d(1)] .
  have "list_all (scene_owned tid) (List.map_filter (loadScene db tid) is)"
    and "list_all (\<lambda>(t, trs). list_all (trigger_owned tid) trs)
           (foldl addEvent [] (List.map_filter (hydrateTrigger db tid) is))" for "is"
    using loadScene_owned [OF assms(1)] hydrateTrigger_owned [OF assms(1)]
    by (auto intro!: list_all_map_filter addEvents_all)
  then show ?thesis
    using e loadScene_owned [OF assms(1)]
    by (auto simp: act_owned_def d(2) hydrateEnactment_def split: option.splits list.splits)
qed

lemma hydrateStoryline_owned:
  assumes "embeds_own db" and "store_sorts db" and "find_owned stl_Id stl_SubscriberId (db_Storylines db) tid i = Some sl"
  shows "storyline_owned tid (hydrateStoryline db tid sl)"
proof -
  have "list_all (act_owned tid) (sliceSort ent_NaturalOrder (db_sortActs db) (List.map_filter (loadAct db tid) is))" for "is"
  proof -
    have "list_all (act_owned tid) (List.map_filter (loadAct db tid) is)"
      using loadAct_owned [OF assms(1)] by (rule list_all_map_filter)
    moreover have "set (sliceSort ent_NaturalOrder (db_sortActs db) xs) = set xs" for xs
      using assms(2) by (simp add: store_sorts_def sliceSort_set)
    ultimately show ?thesis by (simp add: list_all_iff)
  qed
  with found_owned(1) [OF assms(1,3)] show ?thesis
    by (auto simp: storyline_owned_def hydrateStoryline_def split: option.splits list.splits)
qed

lemma addStorylines_owned:
  assumes "embeds_own db" and "store_sorts db"
  shows "set (foldl (addStoryline db tid) sls is) \<subseteq> set sls \<union> {sl. storyline_owned tid sl}"
proof (induction "is" arbitrary: sls)
  case (Cons i "is")
  have "set (addStoryline db tid sls i) \<subseteq> set sls \<union> {sl. storyline_owned tid sl}"
    using hydrateStoryline_owned [OF assms] by (auto simp: addStoryline_def split: option.splits)
  with Cons [of "addStoryline db tid sls i"] show ?case by auto
qed simp

text \<open>
  C29: Reading a story back pulls in no other tenant's data, if the stored documents embed only parts of
  their own tenant: every storyline that was not embedded in the story belongs to the story's own tenant,
  and so does everything below it, the enactments, scenes, messages, triggers and actions, whatever
  ids the documents refer to.
\<close>

theorem hydrateStoryGraph_owned:
  assumes "embeds_own db" and "store_sorts db" and "sl \<in> set (sto_Storylines (hydrateStoryGraph db story))"
  shows "sl \<in> set (sto_Storylines story) \<or> storyline_owned (sto_SubscriberId story) sl"
  using assms(3) addStorylines_owned [OF assms(1,2)] assms(2)
  by (auto simp: hydrateStoryGraph_def sliceSort_set store_sorts_def split: option.splits if_splits)

section \<open>Complete, without duplicates and in order\<close>

lemma hydrateStoryline_PublicId [simp]: "stl_PublicId (hydrateStoryline db tid sl) = stl_PublicId sl"
  by (auto simp: hydrateStoryline_def split: option.splits list.splits)

lemma addStoryline_ids:
  "distinct (map stl_PublicId sls) \<Longrightarrow> distinct (map stl_PublicId (addStoryline db tid sls i))"
  by (auto simp: addStoryline_def split: option.splits)

lemma addStorylines_ids:
  "distinct (map stl_PublicId sls) \<Longrightarrow> distinct (map stl_PublicId (foldl (addStoryline db tid) sls is))"
  by (induction "is" arbitrary: sls) (auto intro: addStoryline_ids)

lemma addStorylines_keep: "set sls \<subseteq> set (foldl (addStoryline db tid) sls is)"
proof (induction "is" arbitrary: sls)
  case (Cons i "is")
  have "set sls \<subseteq> set (addStoryline db tid sls i)" by (auto simp: addStoryline_def split: option.splits)
  with Cons [of "addStoryline db tid sls i"] show ?case by auto
qed simp

lemma addStorylines_found:
  assumes "i \<in> set is" and "find_owned stl_Id stl_SubscriberId (db_Storylines db) tid i = Some sl"
  shows "stl_PublicId sl \<in> stl_PublicId ` set (foldl (addStoryline db tid) sls is)"
  using assms(1)
proof (induction "is" arbitrary: sls)
  case (Cons j "is")
  show ?case
  proof (cases "j = i")
    case True
    have "stl_PublicId sl \<in> stl_PublicId ` set (addStoryline db tid sls i)"
      using assms(2) by (auto simp: addStoryline_def)
    with True addStorylines_keep [of "addStoryline db tid sls i" db tid "is"] show ?thesis by auto
  qed (use Cons in simp)
qed simp

text \<open>
  Reading a story back is complete, ordered and free of duplicates: the storylines come
  in their natural order, no two share a public id, the embedded ones are all kept, and every
  referenced storyline the tenant owns is there.
\<close>

theorem hydrateStoryGraph_union:
  assumes "store_sorts db" and "sto_StorylineIds story = Some r" and "cis_Ids r \<noteq> []"
    and "distinct (map stl_PublicId (sto_Storylines story))"
  shows "let sls = sto_Storylines (hydrateStoryGraph db story) in
    sorted (map stl_NaturalOrder sls) \<and> distinct (map stl_PublicId sls)
    \<and> set (sto_Storylines story) \<subseteq> set sls
    \<and> list_all (\<lambda>i. case find_owned stl_Id stl_SubscriberId (db_Storylines db) (sto_SubscriberId story) i of
         None \<Rightarrow> True | Some sl \<Rightarrow> stl_PublicId sl \<in> stl_PublicId ` set sls) (cis_Ids r)"
proof -
  let ?sls = "foldl (addStoryline db (sto_SubscriberId story)) (sto_Storylines story) (cis_Ids r)"
  let ?out = "sliceSort stl_NaturalOrder (db_sortStorylines db) ?sls"
  have s: "sorts stl_NaturalOrder (db_sortStorylines db)" using assms(1) by (simp add: store_sorts_def)
  have out: "sto_Storylines (hydrateStoryGraph db story) = ?out"
    using assms(2,3) by (simp add: hydrateStoryGraph_def)
  have "mset (map stl_PublicId ?out) = mset (map stl_PublicId ?sls)"
    using sliceSort_sorts(1) [OF s] by simp
  then have "distinct (map stl_PublicId ?out)"
    using addStorylines_ids [OF assms(4)] by (metis mset_eq_imp_distinct_iff)
  moreover have "sorted (map stl_NaturalOrder ?out)" by (rule sliceSort_sorts(2) [OF s])
  moreover have "set ?out = set ?sls" by (rule sliceSort_set [OF s])
  ultimately show ?thesis
    using addStorylines_keep addStorylines_found
    by (auto simp: out Let_def list_all_iff split: option.splits)
qed

text \<open>A store with one storyline of each of two tenants, sorted by \<open>sort_key\<close>.\<close>

definition empty_store :: Store where
  "empty_store = \<lparr>db_Stories = [], db_Storylines = [], db_Enactments = [], db_Scenes = [],
     db_Messages = [], db_Triggers = [], db_Actions = [], db_Users = [],
     db_sortActs = sort_key ent_NaturalOrder, db_sortStorylines = sort_key stl_NaturalOrder\<rparr>"

definition plain_storyline :: "nat \<Rightarrow> string \<Rightarrow> string \<Rightarrow> int \<Rightarrow> Storyline" where
  "plain_storyline n pid tid order =
     \<lparr>stl_Id = Oid n, stl_PublicId = pid, stl_SubscriberId = tid, stl_CreatorId = Oid 0,
      stl_Name = pid, stl_NaturalOrder = order, stl_RequiredUserBadges = no_badges,
      stl_OnBegin = None, stl_OnComplete = no_storyline_end, stl_OnFail = no_storyline_end,
      stl_Acts = [], stl_ActIds = None\<rparr>"

definition plain_story :: "nat \<Rightarrow> string \<Rightarrow> string \<Rightarrow> ObjectId list \<Rightarrow> Story" where
  "plain_story n name tid is =
     \<lparr>sto_Id = Oid n, sto_PublicId = name, sto_SubscriberId = tid, sto_CreatorId = Oid 0,
      sto_Name = name, sto_Priority = 0, sto_AllowInterruption = False, sto_OnBegin = None,
      sto_OnComplete = no_story_end, sto_OnFail = no_story_end, sto_RequiredUserBadges = no_badges,
      sto_StartTrigger = None, sto_CompleteTrigger = None, sto_Storylines = [],
      sto_StorylineIds = Some \<lparr>cis_CollectionName = ''storylines'', cis_Ids = is\<rparr>, sto_TenantID = None\<rparr>"

definition two_tenants :: Store where
  "two_tenants = empty_store\<lparr>db_Storylines :=
     [plain_storyline 1 ''mine'' ''t'' 2, plain_storyline 2 ''theirs'' ''u'' 1, plain_storyline 3 ''first'' ''t'' 1]\<rparr>"

lemma two_tenants_sorts: "store_sorts two_tenants" "stripped two_tenants"
  by (simp_all add: store_sorts_def sorts_def two_tenants_def empty_store_def stripped_def plain_storyline_def)

lemma hydrate_two_tenants:
  "sto_Storylines (hydrateStoryGraph two_tenants (plain_story 9 ''S'' ''t'' [Oid 1, Oid 2, Oid 3]))
   = [plain_storyline 3 ''first'' ''t'' 1, plain_storyline 1 ''mine'' ''t'' 2]"
  by (simp add: hydrateStoryGraph_def plain_story_def two_tenants_def empty_store_def
      addStoryline_def find_owned_def plain_storyline_def hydrateStoryline_def sliceSort_def)

lemma hydrateStoryGraph_owned_witness:
  "storyline_owned ''t'' (plain_storyline 1 ''mine'' ''t'' 2)"
proof -
  have "plain_storyline 1 ''mine'' ''t'' 2
      \<in> set (sto_Storylines (hydrateStoryGraph two_tenants (plain_story 9 ''S'' ''t'' [Oid 1, Oid 2, Oid 3])))"
    unfolding hydrate_two_tenants by simp
  from hydrateStoryGraph_owned [OF stripped_embeds_own [OF two_tenants_sorts(2)] two_tenants_sorts(1) this] show ?thesis
    by (simp add: plain_story_def)
qed

lemma hydrateStoryGraph_union_witness:
  "sorted (map stl_NaturalOrder
     (sto_Storylines (hydrateStoryGraph two_tenants (plain_story 9 ''S'' ''t'' [Oid 1, Oid 2, Oid 3]))))"
  using hydrateStoryGraph_union [OF two_tenants_sorts(1), of "plain_story 9 ''S'' ''t'' [Oid 1, Oid 2, Oid 3]"
      "\<lparr>cis_CollectionName = ''storylines'', cis_Ids = [Oid 1, Oid 2, Oid 3]\<rparr>"]
  by (simp add: Let_def plain_story_def)

section \<open>How long a step waits\<close>

text \<open>
  A wait written in days is never waited out: whatever strings the constants of the unit
  names are, the seconds the engine reads from a compiled wait of some days are at most an
  hour for each day.
\<close>

theorem wait_days_too_short:
  assumes "List.member [''d'', ''days''] (du_Unit dur)" and "0 < du_Amount dur"
    and "in_int64 (du_Amount dur * 3600)"
  shows "\<exists>wu. aw_WaitUntil (compileActionWhen cx dur) = Some wu
    \<and> waitSecondsOf wu \<le> du_Amount dur * 3600 \<and> waitSecondsOf wu < du_Amount dur * 86400"
proof -
  have "in_int64 (du_Amount dur * 60)" using assms(2,3) by (auto simp: in_int64_def)
  then show ?thesis
    using assms by (simp add: compileActionWhen_def waitSecondsOf_def wrap64_id)
qed

lemma wait_days_too_short_witness:
  "\<exists>wu. aw_WaitUntil (compileActionWhen \<lparr>cx_pk = id, cx_SecondPriority = 2, cx_subscriberID = ''t'', cx_creatorID = Oid 0,
     cx_now = (\<lambda>_. 0), cx_lower = id, cx_int64 = (\<lambda>_. 0)\<rparr> \<lparr>du_Pos = zero_Pos, du_Amount = 2, du_Unit = ''d'', du_RawValue = ''2d''\<rparr>) = Some wu
    \<and> waitSecondsOf wu < 172800"
  using wait_days_too_short [of "\<lparr>du_Pos = zero_Pos, du_Amount = 2, du_Unit = ''d'', du_RawValue = ''2d''\<rparr>"
      "\<lparr>cx_pk = id, cx_SecondPriority = 2, cx_subscriberID = ''t'', cx_creatorID = Oid 0,
     cx_now = (\<lambda>_. 0), cx_lower = id, cx_int64 = (\<lambda>_. 0)\<rparr>"]
  by (auto simp: in_int64_def)

end
