(* ===== verification/Ownership.thy ===== *)
theory Ownership
  imports CompileProps StoryGraph
begin

text \<open>
  Whose the compiled entities are: everything a compilation returns belongs to the subscriber it
  was given, down to the scenes and actions of a story and the pages of a funnel.
\<close>

section \<open>What a run returns\<close>

lemma yields_then: "yields m P \<Longrightarrow> (\<And>x. P x \<Longrightarrow> yields (k x) Q) \<Longrightarrow> yields (m \<bind> k) Q"
  by (simp add: yields_def split_beta)

lemma yields_each: "(\<And>x. yields (f x) P) \<Longrightarrow> yields (mapC f xs) (list_all P)"
  by (induction xs) (auto intro!: yields_ret yields_then)

lemma yields_numbered: "(\<And>i x. yields (f i x) P) \<Longrightarrow> yields (numberedC f xs) (list_all P)"
  by (auto simp: numberedC_def intro!: yields_each split: prod.splits)

lemma yields_folded: "P b \<Longrightarrow> (\<And>b x. P b \<Longrightarrow> yields (f b x) P) \<Longrightarrow> yields (foldC f b xs) P"
  by (induction xs arbitrary: b) (auto intro!: yields_ret yields_then)

lemma yields_lists: "(\<And>x. yields (f x) (list_all P)) \<Longrightarrow> yields (mapC f xs) (\<lambda>xss. list_all P (concat xss))"
  by (induction xs) (auto intro!: yields_ret yields_then)

section \<open>Stories\<close>

lemma list_all_entries: "list_all (\<lambda>(k, v). P v) (map (\<lambda>(k, v). (k, f v)) m) \<longleftrightarrow> list_all (\<lambda>(k, v). P (f v)) m"
  by (induction m) auto

definition action_owned :: "string \<Rightarrow> Action \<Rightarrow> bool" where
  "action_owned tid a \<longleftrightarrow> act_SubscriberId a = tid"

abbreviation sid :: "Context \<Rightarrow> string" where
  "sid \<equiv> cx_subscriberID"

lemma newAction_owned: "yields (newAction cx) (action_owned (sid cx))"
  by (auto simp: newAction_def action_owned_def intro!: yields_intros)

lemma action_owned_simps [simp]:
  "action_owned t (a\<lparr>act_ActionName := x1\<rparr>) = action_owned t a"
  "action_owned t (a\<lparr>act_ExtraActions := x2\<rparr>) = action_owned t a"
  "action_owned t (a\<lparr>act_NextEnactment := x3\<rparr>) = action_owned t a"
  "action_owned t (a\<lparr>act_NextEnactmentId := x4\<rparr>) = action_owned t a"
  "action_owned t (a\<lparr>act_AdvanceToNextStoryline := x5\<rparr>) = action_owned t a"
  "action_owned t (a\<lparr>act_EndStory := x5\<rparr>) = action_owned t a"
  "action_owned t (a\<lparr>act_Unsubscribe := x5\<rparr>) = action_owned t a"
  "action_owned t (a\<lparr>act_BadgeTransaction := x6\<rparr>) = action_owned t a"
  "action_owned t (a\<lparr>act_BadgeTransactionIds := x7\<rparr>) = action_owned t a"
  "action_owned t (a\<lparr>act_When := x8\<rparr>) = action_owned t a"
  "action_owned t (a\<lparr>act_SendImmediate := x9\<rparr>) = action_owned t a"
  "action_owned t (addActionName a n) = action_owned t a"
  by (simp_all add: action_owned_def addActionName_def)

lemma yields_if: "yields m Q \<Longrightarrow> yields n Q \<Longrightarrow> yields (if b then m else n) Q"
  by simp

lemma setBadgeTransaction_owned: "action_owned t a \<Longrightarrow> yields (setBadgeTransaction cx bt a) (action_owned t)"
  by (auto simp: setBadgeTransaction_def intro!: yields_intros)

lemma compileActionCase_owned: "action_owned t a \<Longrightarrow> yields (compileActionCase cx sc an a) (action_owned t)"
  unfolding compileActionCase_def Let_def panic_def
  by (intro yields_if; (cases sc)?)
    (auto intro!: yields_intros setBadgeTransaction_owned split: option.splits)

lemma compileActionRest_owned: "action_owned t a \<Longrightarrow> yields (compileActionRest cx an a) (action_owned t)"
  by (auto simp: compileActionRest_def Let_def intro!: yields_intros setBadgeTransaction_owned split: option.splits)

lemma compileActions_owned: "yields (compileActions cx sc ans) (pred_option (action_owned (sid cx)))"
proof -
  have "yields (foldC (compileAction cx sc) a ans) (action_owned (sid cx))" if "action_owned (sid cx) a" for a
    using that unfolding compileAction_def
    by (rule yields_folded) (rule yields_then [OF compileActionCase_owned compileActionRest_owned], simp_all)
  then show ?thesis
    unfolding compileActions_def
    by (auto intro!: yields_ret yields_then [OF newAction_owned] yields_then [where P = "action_owned (sid cx)"])
qed

lemma newTrigger_owner: "yields (newTrigger cx t u v) (\<lambda>tr. trg_SubscriberId tr = sid cx)"
  by (auto simp: newTrigger_def intro!: yields_intros)

lemma attach_owned:
  "trg_SubscriberId tr = tid \<Longrightarrow> trg_DoAction tr = None \<Longrightarrow> pred_option (action_owned tid) act
    \<Longrightarrow> trigger_owned tid (attachActions cx nodes act tr)"
  by (cases act) (auto simp: attachActions_def trigger_owned_def action_owned_def)

lemma within_owned: "pred_option (action_owned tid) act \<Longrightarrow> pred_option (action_owned tid) (map_option (applyWithin cx w) act)"
  by (cases act) (auto simp: applyWithin_def action_owned_def split: option.splits)

lemma newTrigger_fresh: "yields (newTrigger cx t u v) (\<lambda>tr. trg_SubscriberId tr = sid cx \<and> trg_DoAction tr = None)"
  by (auto simp: newTrigger_def intro!: yields_intros)

lemma compileMainTrigger_owned: "yields (compileMainTrigger cx sc node) (trigger_owned (sid cx))"
proof -
  have new: "yields (case mapTriggerType cx node of (t, u, v) \<Rightarrow> newTrigger cx t u v)
      (\<lambda>tr. trg_SubscriberId tr = sid cx \<and> trg_DoAction tr = None)"
    by (auto intro: newTrigger_fresh split: prod.splits)
  show ?thesis
    unfolding compileMainTrigger_def Let_def
    by (rule yields_then [OF new], rule yields_bind, rule yields_bind, rule yields_then [OF compileActions_owned],
        rule yields_ret) (auto intro!: attach_owned within_owned)
qed

lemma compileElseTrigger_owned: "yields (compileElseTrigger cx sc node) (trigger_owned (sid cx))"
proof -
  have new: "yields (case mapTriggerType cx node of (t, u, v) \<Rightarrow> newTrigger cx (cx_pk cx ''Else'') u v)
      (\<lambda>tr. trg_SubscriberId tr = sid cx \<and> trg_DoAction tr = None)"
    by (auto intro: newTrigger_fresh split: prod.splits)
  show ?thesis
    unfolding compileElseTrigger_def
    by (rule yields_then [OF new], rule yields_then [OF compileActions_owned], rule yields_ret) (auto intro!: attach_owned)
qed

lemma compileTrigger_owned: "yields (compileTrigger cx sc node) (list_all (trigger_owned (sid cx)))"
  unfolding compileTrigger_def
  by (auto intro!: yields_then [OF compileMainTrigger_owned] yields_then [OF compileElseTrigger_owned] yields_ret)

lemma compileSceneAt_owned: "yields (compileSceneAt cx key node) (scene_owned (sid cx))"
proof -
  have "yields (compileScene cx node) (scene_owned (sid cx))"
    by (auto simp: compileScene_def scene_owned_def intro!: yields_intros)
  then show ?thesis
    unfolding compileSceneAt_def by (rule yields_then) (auto intro!: yields_intros)
qed

lemma compileEnactmentAt_owned: "yields (compileEnactmentAt cx story sl i node) (act_owned (sid cx))"
proof -
  have "yields (compileEnactment cx story sl i node) (act_owned (sid cx))"
    unfolding compileEnactment_def
    by (rule yields_bind, rule yields_bind, rule yields_then [OF yields_each [OF compileSceneAt_owned]],
        rule yields_then [OF yields_lists [OF compileTrigger_owned]], rule yields_ret)
      (auto simp: act_owned_def addEvents_all split: list.splits)
  then show ?thesis
    unfolding compileEnactmentAt_def by (rule yields_then) (auto intro!: yields_intros)
qed

lemma resolveEnactmentRef_owner [simp]: "act_SubscriberId (resolveEnactmentRef cx story sl m a) = act_SubscriberId a"
  by (auto simp: resolveEnactmentRef_def Let_def split: option.splits)

lemma linkEnactments_owned:
  "list_all (act_owned tid) acts \<Longrightarrow> list_all (act_owned tid) (linkEnactments cx story sl m nodes acts)"
proof -
  have "act_owned tid (linkEnactment (resolveEnactmentRef cx story sl m) en)" if en: "act_owned tid en" for en
  proof -
    have "trigger_owned tid (tr\<lparr>trg_DoAction := map_option (resolveEnactmentRef cx story sl m) (trg_DoAction tr)\<rparr>)"
      if "trigger_owned tid tr" for tr
      using that by (cases "trg_DoAction tr") (auto simp: trigger_owned_def)
    then have "list_all (trigger_owned tid) (map (\<lambda>tr. tr\<lparr>trg_DoAction := map_option (resolveEnactmentRef cx story sl m) (trg_DoAction tr)\<rparr>) trs)"
      if "list_all (trigger_owned tid) trs" for trs
      using that by (auto simp: list_all_iff)
    then show ?thesis
      using en by (auto simp: act_owned_def linkEnactment_def list_all_entries) (auto simp: list_all_iff)
  qed
  then show "list_all (act_owned tid) acts \<Longrightarrow> ?thesis"
    by (auto simp: linkEnactments_def Let_def list_all_iff)
qed

lemma compileStorylineAt_owned: "yields (compileStorylineAt cx story i node) (storyline_owned (sid cx))"
proof -
  have "yields (compileStoryline cx story i node) (storyline_owned (sid cx))"
    unfolding compileStoryline_def
    by (rule yields_bind, rule yields_bind, rule yields_bind, rule yields_bind, rule yields_bind, rule yields_bind,
        rule yields_then [OF yields_numbered [OF compileEnactmentAt_owned]], rule yields_bind, rule yields_ret)
      (simp add: storyline_owned_def linkEnactments_owned)
  then show ?thesis
    unfolding compileStorylineAt_def by (rule yields_then) (auto intro!: yields_intros)
qed

definition story_owned :: "string \<Rightarrow> Story \<Rightarrow> bool" where
  "story_owned tid st \<longleftrightarrow> sto_SubscriberId st = tid \<and> list_all (storyline_owned tid) (sto_Storylines st)"

lemma list_all_mapI: "list_all P xs \<Longrightarrow> (\<And>x. P x \<Longrightarrow> P (f x)) \<Longrightarrow> list_all P (map f xs)"
  by (auto simp: list_all_iff)

lemma linkStorylines_owned:
  "list_all (storyline_owned tid) sls \<Longrightarrow> list_all (storyline_owned tid) (linkStorylines cx story m nodes sls)"
proof (induction nodes arbitrary: sls)
  case (Cons node nodes)
  have "storyline_owned tid (linkStoryline cx story m node sl)" if "storyline_owned tid sl" for sl
    using that by (simp add: storyline_owned_def linkStoryline_def)
  with Cons.prems have "list_all (storyline_owned tid) (case map_of m (child_key story (sl_Name node)) of None \<Rightarrow> sls
      | Some i \<Rightarrow> map (\<lambda>sl. if stl_Id sl = i then linkStoryline cx story m node sl else sl) sls)"
    by (auto intro!: list_all_mapI split: option.splits)
  from Cons.IH [OF this] show ?case by (simp add: linkStorylines_def)
qed (simp add: linkStorylines_def)

lemma compileStoryAt_owned: "yields (compileStoryAt cx node) (story_owned (sid cx))"
proof -
  have "yields (compileStory cx node) (story_owned (sid cx))"
    unfolding compileStory_def
    by (rule yields_bind, rule yields_bind, rule yields_bind, rule yields_bind, rule yields_bind, rule yields_bind,
        rule yields_bind, rule yields_bind, rule yields_then [OF yields_numbered [OF compileStorylineAt_owned]],
        rule yields_bind, rule yields_ret)
      (simp add: story_owned_def linkStorylines_owned)
  then show ?thesis
    unfolding compileStoryAt_def by (rule yields_then) (auto intro!: yields_intros)
qed

lemma yields_each_on:
  assumes "list_all P xs" and f: "\<And>x. P x \<Longrightarrow> yields (f x) Q"
  shows "yields (mapC f xs) (list_all Q)"
  using assms(1)
proof (induction xs)
  case (Cons x xs)
  then have head: "yields (f x) Q" and tail: "yields (mapC f xs) (list_all Q)" by (simp_all add: f)
  show ?case by (auto intro!: yields_then [OF head] yields_then [OF tail] yields_ret)
qed (simp add: yields_ret)

lemma compileStories_yields:
  assumes "\<And>node. yields (compileStoryAt cx node) P" and link: "\<And>p. P (snd p) \<Longrightarrow> yields (linkStory cx p) P"
  shows "yields (compileStories cx nodes) (list_all P)"
proof -
  have "yields (mapC (linkStory cx) (zip nodes sts)) (list_all P)" if "list_all P sts" for sts
    by (rule yields_each_on [where P = "\<lambda>p. P (snd p)", OF _ link])
      (use that in \<open>auto simp: list_all_iff dest: set_zip_rightD\<close>)
  then show ?thesis
    unfolding compileStories_def by (intro yields_then [OF yields_each [OF assms(1)]])
qed

lemma compileStories_owned: "yields (compileStories cx nodes) (list_all (story_owned (sid cx)))"
proof (rule compileStories_yields [OF compileStoryAt_owned])
  show "yields (linkStory cx p) (story_owned (sid cx))" if "story_owned (sid cx) (snd p)" for p
    using that by (cases p) (auto simp: linkStory_def story_owned_def intro!: yields_intros)
qed

section \<open>Funnels and sites\<close>

definition page_owned :: "string \<Rightarrow> FunnelPage \<Rightarrow> bool" where
  "page_owned tid p \<longleftrightarrow> pag_SubscriberId p = tid \<and> list_all (\<lambda>b. blk_SubscriberId b = tid) (pag_Blocks p)
     \<and> list_all (\<lambda>f. frm_SubscriberId f = tid) (pag_Forms p)"

definition stage_owned :: "string \<Rightarrow> FunnelStage \<Rightarrow> bool" where
  "stage_owned tid st \<longleftrightarrow> stg_SubscriberId st = tid \<and> list_all (page_owned tid) (stg_Pages st)
     \<and> list_all (trigger_owned tid) (stg_Triggers st)"

definition route_owned :: "string \<Rightarrow> FunnelRoute \<Rightarrow> bool" where
  "route_owned tid r \<longleftrightarrow> rou_SubscriberId r = tid \<and> list_all (stage_owned tid) (rou_Stages r)"

definition funnel_owned :: "string \<Rightarrow> Funnel \<Rightarrow> bool" where
  "funnel_owned tid f \<longleftrightarrow> fun_SubscriberId f = tid \<and> list_all (route_owned tid) (fun_Routes f)
     \<and> list_all (route_owned tid) (fun_PublishedRoutes f)"

definition site_owned :: "string \<Rightarrow> Site \<Rightarrow> bool" where
  "site_owned tid s \<longleftrightarrow> sit_SubscriberId s = tid \<and> list_all (page_owned tid) (sit_Pages s)"

lemma compilePage_owned: "yields (compilePage cx node) (page_owned (sid cx))"
proof -
  have "yields (compileBlock cx b) (\<lambda>b. blk_SubscriberId b = sid cx)"
    and "yields (compileForm cx f) (\<lambda>f. frm_SubscriberId f = sid cx)" for b f
    by (auto simp: compileBlock_def compileForm_def intro!: yields_intros)
  then show ?thesis
    unfolding compilePage_def
    by (intro yields_bind [where m = newObjectId] yields_bind [where m = "generatePublicID _"]
        yields_then [OF yields_each] yields_ret) (auto simp: page_owned_def intro!: list_all_mapI)
qed

lemma compileStageAt_owned: "yields (compileStageAt cx f r i node) (stage_owned (sid cx))"
proof -
  have "yields (compileStage cx i node) (stage_owned (sid cx))"
    unfolding compileStage_def
    by (rule yields_bind, rule yields_bind, rule yields_then [OF yields_each [OF compilePage_owned]],
        rule yields_then [OF yields_lists [OF compileTrigger_owned]], rule yields_bind, rule yields_bind, rule yields_ret)
      (auto simp: stage_owned_def page_owned_def intro!: list_all_mapI)
  then show ?thesis
    unfolding compileStageAt_def by (rule yields_then) (auto intro!: yields_intros)
qed

lemma compileRoute_owned: "yields (compileRoute cx f i node) (route_owned (sid cx))"
  unfolding compileRoute_def
  by (rule yields_bind, rule yields_bind, rule yields_bind,
      rule yields_then [OF yields_numbered [OF compileStageAt_owned]], rule yields_ret)
    (auto simp: route_owned_def stage_owned_def intro!: list_all_mapI)

lemma compileFunnel_owned: "yields (compileFunnel cx node) (funnel_owned (sid cx))"
  unfolding compileFunnel_def Let_def
  by (rule yields_bind, rule yields_bind, rule yields_then [OF yields_numbered [OF compileRoute_owned]],
      rule yields_bind, rule yields_bind, rule yields_ret)
    (auto simp: funnel_owned_def route_owned_def intro!: list_all_mapI)

lemma compileSite_owned: "yields (compileSite cx node) (site_owned (sid cx))"
  unfolding compileSite_def
  by (rule yields_bind, rule yields_bind, rule yields_then [OF yields_each [OF compilePage_owned]], rule yields_ret)
    (simp add: site_owned_def)

section \<open>The other declarations\<close>

lemma declarations_owned:
  "yields (compileProductAt cx pd) (\<lambda>p. pro_SubscriberId p = sid cx)"
  "yields (compileCourseAt cx co) (\<lambda>p. pro_SubscriberId p = sid cx)"
  "yields (compileOfferAt cx off) (\<lambda>x. ofr_SubscriberId x = sid cx)"
  "yields (compileMediaAt cx md) (\<lambda>m. med_SubscriberId m = sid cx)"
  "yields (compilePresetAt cx pp) (\<lambda>p. pre_SubscriberId p = sid cx)"
  "yields (compileChannelDecl cx cn) (\<lambda>c. mcn_SubscriberId c = sid cx)"
  "yields (compileMediaWebhookDecl cx mw) (\<lambda>w. mwh_SubscriberId w = sid cx)"
  "yields (compileCampaign cx cp) (\<lambda>c. cam_SubscriberId c = sid cx)"
proof -
  have product: "yields (compileProduct cx pd) (\<lambda>p. pro_SubscriberId p = sid cx)" for pd
    by (auto simp: compileProduct_def intro!: yields_intros)
  then show "yields (compileProductAt cx pd) (\<lambda>p. pro_SubscriberId p = sid cx)"
    unfolding compileProductAt_def putProduct_def by (rule yields_then) (auto intro!: yields_intros)
  have "yields (compileCourseDecl cx co) (\<lambda>p. pro_SubscriberId p = sid cx)"
    unfolding compileCourseDecl_def Let_def by (rule yields_then [OF product]) (auto intro!: yields_intros)
  then show "yields (compileCourseAt cx co) (\<lambda>p. pro_SubscriberId p = sid cx)"
    unfolding compileCourseAt_def putProduct_def by (rule yields_then) (auto intro!: yields_intros)
  have "yields (compileOffer cx off) (\<lambda>x. ofr_SubscriberId x = sid cx)"
    by (auto simp: compileOffer_def intro!: yields_intros)
  then show "yields (compileOfferAt cx off) (\<lambda>x. ofr_SubscriberId x = sid cx)"
    unfolding compileOfferAt_def by (rule yields_then) (auto intro!: yields_intros)
  have "yields (compileMediaDecl cx md) (\<lambda>m. med_SubscriberId m = sid cx)"
    by (auto simp: compileMediaDecl_def intro!: yields_intros)
  then show "yields (compileMediaAt cx md) (\<lambda>m. med_SubscriberId m = sid cx)"
    unfolding compileMediaAt_def by (rule yields_then) (auto intro!: yields_intros)
  have "yields (compilePlayerPresetDecl cx pp) (\<lambda>p. pre_SubscriberId p = sid cx)"
    by (auto simp: compilePlayerPresetDecl_def intro!: yields_intros)
  then show "yields (compilePresetAt cx pp) (\<lambda>p. pre_SubscriberId p = sid cx)"
    unfolding compilePresetAt_def by (rule yields_then) (auto intro!: yields_intros)
qed (auto simp: compileChannelDecl_def compileMediaWebhookDecl_def compileCampaign_def intro!: yields_intros)

section \<open>A whole compilation\<close>

text \<open>The badges, tags, assets, quizzes and certificate templates collected on the way.\<close>

definition state_owned :: "string \<Rightarrow> CState \<Rightarrow> bool" where
  "state_owned tid s \<longleftrightarrow>
     list_all (\<lambda>(_, b). bdg_SubscriberId b = tid) (cs_badges s)
     \<and> list_all (\<lambda>(_, t). tag_SubscriberId t = tid) (cs_tags s)
     \<and> list_all (\<lambda>a. asset_SubscriberId a = tid) (cs_pendingAssets s)
     \<and> list_all (\<lambda>q. qui_SubscriberId q = tid) (cs_pendingQuizzes s)
     \<and> list_all (\<lambda>c. cer_SubscriberId c = tid) (cs_certTemplates s)"

definition result_owned :: "string \<Rightarrow> CompileResult \<Rightarrow> bool" where
  "result_owned tid r \<longleftrightarrow>
     list_all (story_owned tid) (res_Stories r) \<and> list_all (funnel_owned tid) (res_Funnels r)
     \<and> list_all (site_owned tid) (res_Sites r)
     \<and> list_all (\<lambda>p. pro_SubscriberId p = tid) (res_Products r) \<and> list_all (\<lambda>x. ofr_SubscriberId x = tid) (res_Offers r)
     \<and> list_all (\<lambda>a. asset_SubscriberId a = tid) (res_Assets r) \<and> list_all (\<lambda>m. med_SubscriberId m = tid) (res_MediaEntities r)
     \<and> list_all (\<lambda>p. pre_SubscriberId p = tid) (res_PlayerPresets r) \<and> list_all (\<lambda>c. mcn_SubscriberId c = tid) (res_Channels r)
     \<and> list_all (\<lambda>w. mwh_SubscriberId w = tid) (res_MediaWebhooks r) \<and> list_all (\<lambda>q. qui_SubscriberId q = tid) (res_Quizzes r)
     \<and> list_all (\<lambda>c. cer_SubscriberId c = tid) (res_CertificateTemplates r)
     \<and> list_all (\<lambda>c. cam_SubscriberId c = tid) (res_Campaigns r)
     \<and> list_all (\<lambda>(_, b). bdg_SubscriberId b = tid) (res_Badges r) \<and> list_all (\<lambda>(_, t). tag_SubscriberId t = tid) (res_Tags r)"

lemma list_all_put: "list_all (\<lambda>(_, v). P v) m \<Longrightarrow> P x \<Longrightarrow> list_all (\<lambda>(_, v). P v) (gomap_put k x m)"
  by (induction m) auto

interpretation owners: full_relation "\<lambda>s s'. state_owned (sid cx) s \<longrightarrow> state_owned (sid cx) s'" cx for cx
  by unfold_locales (auto simp: state_owned_def intro: list_all_put)

text \<open>A run that keeps the state owned and returns what satisfies a predicate.\<close>

definition makes :: "string \<Rightarrow> 'a compiler \<Rightarrow> ('a \<Rightarrow> bool) \<Rightarrow> bool" where
  "makes tid m P \<longleftrightarrow> (\<forall>s. state_owned tid s \<longrightarrow> state_owned tid (snd (run_state m s)) \<and> P (fst (run_state m s)))"

lemma makes_bind: "makes tid m P \<Longrightarrow> (\<And>x. P x \<Longrightarrow> makes tid (k x) Q) \<Longrightarrow> makes tid (m \<bind> k) Q"
  by (simp add: makes_def split_beta)

lemma makes_of: "keeps (\<lambda>s s'. state_owned tid s \<longrightarrow> state_owned tid s') m \<Longrightarrow> yields m P \<Longrightarrow> makes tid m P"
  by (simp add: makes_def keeps_def yields_def)

lemma makes_any: "keeps (\<lambda>s s'. state_owned tid s \<longrightarrow> state_owned tid s') m \<Longrightarrow> makes tid m (\<lambda>_. True)"
  by (simp add: makes_def keeps_def)

lemma state_owned_maps [simp]:
  "state_owned tid (s\<lparr>cs_mediaMap := m1\<rparr>) = state_owned tid s"
  "state_owned tid (s\<lparr>cs_presetMap := m2\<rparr>) = state_owned tid s"
  "state_owned tid (s\<lparr>cs_productMap := m3\<rparr>) = state_owned tid s"
  "state_owned tid (s\<lparr>cs_offerMap := m4\<rparr>) = state_owned tid s"
  by (simp_all add: state_owned_def)

lemma declarations_kept:
  "keeps (\<lambda>s s'. state_owned (sid cx) s \<longrightarrow> state_owned (sid cx) s') (compileMediaAt cx md)"
  "keeps (\<lambda>s s'. state_owned (sid cx) s \<longrightarrow> state_owned (sid cx) s') (compilePresetAt cx pp)"
  "keeps (\<lambda>s s'. state_owned (sid cx) s \<longrightarrow> state_owned (sid cx) s') (compileProductAt cx pd)"
  "keeps (\<lambda>s s'. state_owned (sid cx) s \<longrightarrow> state_owned (sid cx) s') (compileCourseAt cx co)"
  "keeps (\<lambda>s s'. state_owned (sid cx) s \<longrightarrow> state_owned (sid cx) s') (compileOfferAt cx off)"
  unfolding compileMediaAt_def compilePresetAt_def compileProductAt_def compileCourseAt_def putProduct_def compileOfferAt_def
  by (auto intro!: owners.bind owners.basic owners.media owners.products owners.offer owners.modify)

lemma Compile_owned: "makes (sid cx) (Compile cx sy ast) (result_owned (sid cx))"
  unfolding Compile_def
  by (rule makes_bind [OF makes_any [OF owners.precreate(1)]], rule makes_bind [OF makes_any [OF owners.precreate(2)]],
      rule makes_bind [OF makes_of [OF owners.loops(1) [OF declarations_kept(1)] yields_each [OF declarations_owned(4)]]],
      rule makes_bind [OF makes_of [OF owners.loops(1) [OF declarations_kept(2)] yields_each [OF declarations_owned(5)]]],
      rule makes_bind [OF makes_of [OF owners.stories compileStories_owned]],
      rule makes_bind [OF makes_of [OF owners.loops(1) [OF owners.funnels(2)] yields_each [OF compileFunnel_owned]]],
      rule makes_bind [OF makes_of [OF owners.loops(1) [OF owners.pages(4)] yields_each [OF compileSite_owned]]],
      rule makes_bind [OF makes_of [OF owners.loops(1) [OF declarations_kept(3)] yields_each [OF declarations_owned(1)]]],
      rule makes_bind [OF makes_of [OF owners.loops(1) [OF declarations_kept(4)] yields_each [OF declarations_owned(2)]]],
      rule makes_bind [OF makes_of [OF owners.loops(1) [OF declarations_kept(5)] yields_each [OF declarations_owned(3)]]],
      rule makes_bind [OF makes_of [OF owners.loops(1) [OF owners.media(6)] yields_each [OF declarations_owned(6)]]],
      rule makes_bind [OF makes_of [OF owners.loops(1) [OF owners.media(7)] yields_each [OF declarations_owned(7)]]],
      rule makes_bind [OF makes_of [OF owners.loops(1) [OF owners.media(8)] yields_each [OF declarations_owned(8)]]])
    (simp add: makes_def result_owned_def state_owned_def)

lemma Compile_result_owned:
  "result_owned (sid cx) (fst (run_state (Compile cx sy ast) (NewCompiler oids counter session)))"
  using Compile_owned [of cx sy ast] by (simp add: makes_def) (simp add: state_owned_def NewCompiler_def)

text \<open>The compiler leaves the tenant of a story empty.\<close>

lemma compileStories_tenant: "yields (compileStories cx nodes) (list_all (\<lambda>st. sto_TenantID st = None))"
proof (rule compileStories_yields)
  have "yields (compileStory cx node) (\<lambda>st. sto_TenantID st = None)" for node
    by (auto simp: compileStory_def intro!: yields_intros)
  then show "yields (compileStoryAt cx node) (\<lambda>st. sto_TenantID st = None)" for node
    unfolding compileStoryAt_def by (rule yields_then) (auto intro!: yields_intros)
  show "yields (linkStory cx p) (\<lambda>st. sto_TenantID st = None)" if "sto_TenantID (snd p) = None" for p
    using that by (cases p) (auto simp: linkStory_def intro!: yields_intros)
qed

text \<open>What a compilation returns, as a whole: owned, and its stories without a tenant.\<close>

definition untenanted :: "CompileResult \<Rightarrow> bool" where
  "untenanted r \<longleftrightarrow> list_all (\<lambda>st. sto_TenantID st = None) (res_Stories r)"

lemma Compile_untenanted: "yields (Compile cx sy ast) untenanted"
  unfolding Compile_def
  by (rule yields_bind, rule yields_bind, rule yields_bind, rule yields_bind,
      rule yields_then [OF compileStories_tenant], rule yields_bind, rule yields_bind, rule yields_bind,
      rule yields_bind, rule yields_bind, rule yields_bind, rule yields_bind, rule yields_bind)
    (simp add: untenanted_def yields_def)

end
