(* ===== verification/ScriptRoutes.thy ===== *)
theory ScriptRoutes
  imports Script Ownership
begin

text \<open>
  The endpoints of the scripting language (\<open>src/routes/script.go\<close>) and the call that ships a compiled
  graph to the service that stores it (\<open>HydrateGraph\<close> of \<open>src/routes/bridge.go\<close>).

  \<^item> A request is what its body binds to, None when it does not; the tenant is the one of the
    authenticated caller. None as an answer stands for a script on which the parser or the compiler does not return.
  \<^item> The entities have a field for the tenant that the compiler leaves empty: an entity with it is a
    pair. A tag in a scene is the tag of the table, so a change of one is a change of both.
\<close>

section \<open>Fixtures\<close>

record fixtureEntry =
  fx_ID :: string
  fx_Category :: string
  fx_Name :: string
  fx_Description :: string
  fx_Source :: string

definition fixture :: "string \<Rightarrow> string \<Rightarrow> string \<Rightarrow> string \<Rightarrow> string \<Rightarrow> fixtureEntry" where
  "fixture i cat name desc text =
     \<lparr>fx_ID = i, fx_Category = cat, fx_Name = name, fx_Description = desc, fx_Source = text\<rparr>"

text \<open>\<open>src\<close> is the text of an example script by the name of its constant.\<close>

definition allFixtures :: "(string \<Rightarrow> string) \<Rightarrow> fixtureEntry list" where
  "allFixtures src =
    [
     fixture ''simple-one-storyline'' ''basic'' ''Simple One Storyline''
       ''Minimal single-storyline campaign.'' (src ''FixtureSimpleOneStoryline''),
     fixture ''multi-storyline'' ''basic'' ''Multi Storyline''
       ''Campaign with 3 storylines in sequence.'' (src ''FixtureMultiStoryline''),
     fixture ''multi-enactment'' ''basic'' ''Multi Enactment''
       ''Storyline with 3 enactments.'' (src ''FixtureMultiEnactment''),
     fixture ''multi-scene'' ''basic'' ''Multi Scene''
       ''Enactment with 3 scenes.'' (src ''FixtureMultiScene''),
     fixture ''conditional-badge-routing'' ''advanced'' ''Conditional Badge Routing''
       ''Routing by badge status.'' (src ''FixtureConditionalBadgeRouting''),
     fixture ''click-branching'' ''advanced'' ''Click Branching''
       ''Click/not-click branching.'' (src ''FixtureClickBranching''),
     fixture ''open-branching'' ''advanced'' ''Open Branching''
       ''Open/not-open branching.'' (src ''FixtureOpenBranching''),
     fixture ''bounded-retry'' ''advanced'' ''Bounded Retry''
       ''Retry with max count and fallback.'' (src ''FixtureBoundedRetry''),
     fixture ''loop-to-prior-enactment'' ''advanced'' ''Loop to Prior Enactment''
       ''Loop back to an earlier enactment.'' (src ''FixtureLoopToPriorEnactment''),
     fixture ''failure-fallback'' ''advanced'' ''Failure Fallback''
       ''Failure path with badge transaction.'' (src ''FixtureFailureFallback''),
     fixture ''completion-path'' ''advanced'' ''Completion Path''
       ''Completion with badges and next story reference.'' (src ''FixtureCompletionPath''),
     fixture ''dot-access-triggers'' ''advanced'' ''Dot-Access Triggers''
       ''Trigger conditions using dot-access expressions.'' (src ''FixtureDotAccessTriggers''),
     fixture ''deferred-transitions'' ''advanced'' ''Deferred Transitions''
       ''Timed and deferred story transitions.'' (src ''FixtureDeferredTransitions''),
     fixture ''hybrid-transitions'' ''advanced'' ''Hybrid Transitions''
       ''Mix of immediate and deferred transitions.'' (src ''FixtureHybridTransitions''),
     fixture ''compact-campaign'' ''authoring'' ''Compact Campaign''
       ''Compact authoring sugar.'' (src ''FixtureCompactCampaign''),
     fixture ''default-sender'' ''authoring'' ''Default Sender''
       ''Basic sender default inheritance.'' (src ''FixtureDefaultSender''),
     fixture ''links-and-policies'' ''authoring'' ''Links & Policies''
       ''Link definitions and policy blocks.'' (src ''FixtureLinksAndPolicies''),
     fixture ''pattern-reuse'' ''authoring'' ''Pattern Reuse''
       ''Reusable scene patterns.'' (src ''FixturePatternReuse''),
     fixture ''scenes-range'' ''authoring'' ''Scenes Range''
       ''Scene range shorthand (scenes 1..3).'' (src ''FixtureScenesRange''),
     fixture ''data-block-for-loop'' ''authoring'' ''Data Block + For Loop''
       ''Data blocks with for-loop expansion.'' (src ''FixtureDataBlockForLoop''),
     fixture ''inline-data-loop'' ''authoring'' ''Inline Data Loop''
       ''Inline data with loop generation.'' (src ''FixtureInlineDataLoop''),
     fixture ''enactment-defaults'' ''authoring'' ''Enactment Defaults''
       ''Enactment-level default settings.'' (src ''FixtureEnactmentDefaults''),
     fixture ''scene-defaults-triggers'' ''authoring'' ''Scene Defaults + Triggers''
       ''Scene defaults combined with trigger patterns.'' (src ''FixtureSceneDefaultsTriggers''),
     fixture ''handlebars-vars'' ''authoring'' ''Handlebars Variables''
       ''Template variable substitution.'' (src ''FixtureHandlebarsVars''),
     fixture ''scene-template-name'' ''authoring'' ''Scene Template Name''
       ''Using named email templates in scenes.'' (src ''FixtureSceneTemplateName''),
     fixture ''storyline-generation'' ''generative'' ''Storyline Generation''
       ''AI-assisted storyline generation.'' (src ''FixtureStorylineGeneration''),
     fixture ''full-generative-campaign'' ''generative'' ''Full Generative Campaign''
       ''Complete AI-generated campaign with funnels and products.'' (src ''FixtureFullGenerativeCampaign''),
     fixture ''full-campaign'' ''comprehensive'' ''Full Campaign''
       ''Comprehensive campaign exercising all features.'' (src ''FixtureFullCampaign''),
     fixture ''multi-story-sequence'' ''comprehensive'' ''Multi-Story Sequence''
       ''Multiple stories with cross-story transitions.'' (src ''FixtureMultiStorySequence''),
     fixture ''mailhog-full-sequence'' ''comprehensive'' ''Full Email Sequence''
       ''Complete email sequence with delivery tracking.'' (src ''FixtureMailhogFullSequence''),
     fixture ''multi-storyline-enactment-scene'' ''comprehensive'' ''Multi-Storyline + Enactment + Scene''
       ''Full nesting: multiple storylines, enactments, and scenes.'' (src ''FixtureMultiStorylineEnactmentScene''),
     fixture ''compound-trigger-conditions'' ''e2e'' ''Compound Trigger Conditions''
       ''Complex AND/OR trigger condition trees.'' (src ''FixtureCompoundTriggerConditions''),
     fixture ''conditional-routing'' ''e2e'' ''Conditional Routing''
       ''Badge-gated conditional routing.'' (src ''FixtureConditionalRouting''),
     fixture ''conditional-trigger'' ''e2e'' ''Conditional Trigger''
       ''Triggers with conditional logic.'' (src ''FixtureConditionalTrigger''),
     fixture ''storyline-badge-gating'' ''e2e'' ''Storyline Badge Gating''
       ''Badge-gated storyline access control.'' (src ''FixtureStorylineBadgeGating''),
     fixture ''story-interruption'' ''e2e'' ''Story Interruption''
       ''High-priority story interrupting a running campaign.'' (src ''FixtureStoryInterruption''),
     fixture ''outbound-webhooks'' ''e2e'' ''Outbound Webhooks''
       ''Webhook-triggered automations.'' (src ''FixtureOutboundWebhooks''),
     fixture ''persistent-links'' ''e2e'' ''Persistent Links''
       ''Click tracking with persistent link scope.'' (src ''FixturePersistentLinks''),
     fixture ''next-story-hopping'' ''e2e'' ''Next Story Hopping''
       ''Chaining multiple stories in sequence.'' (src ''FixtureNextStoryHopping''),
     fixture ''storyline-on-fail-routes'' ''e2e'' ''Storyline On-Fail Routes''
       ''Failure path routing between storylines.'' (src ''FixtureStorylineOnFailRoutes''),
     fixture ''atomic-all-trigger-types'' ''atomic'' ''All Trigger Types''
       ''Exercises all 15 trigger types.'' (src ''FixtureAtomicAllTriggerTypes''),
     fixture ''atomic-all-action-types'' ''atomic'' ''All Action Types''
       ''Exercises all 20 action types.'' (src ''FixtureAtomicAllActionTypes''),
     fixture ''atomic-badge-integration'' ''atomic'' ''Badge Integration''
       ''All badge-related constructs.'' (src ''FixtureAtomicBadgeIntegration''),
     fixture ''atomic-conditions-routing'' ''atomic'' ''Conditions & Routing''
       ''All condition types and routing patterns.'' (src ''FixtureAtomicConditionsAndRouting''),
     fixture ''atomic-scene-features'' ''atomic'' ''Scene Features''
       ''Scene-specific feature coverage.'' (src ''FixtureAtomicSceneFeatures''),
     fixture ''atomic-badge-campaign'' ''atomic'' ''Badge Campaign''
       ''Generative features with badge integration.'' (src ''FixtureAtomicBadgeCampaign''),
     fixture ''it-story-lifecycle'' ''integration'' ''Story Lifecycle''
       ''Full story lifecycle from start to completion.'' (src ''IntegrationTestStoryLifecycle''),
     fixture ''it-storyline-badge-gating'' ''integration'' ''Storyline Badge Gating''
       ''Badge-gated storyline access.'' (src ''IntegrationTestStorylineBadgeGating''),
     fixture ''it-trigger-types'' ''integration'' ''All Trigger Types''
       ''Every trigger type exercised.'' (src ''IntegrationTestTriggerTypes''),
     fixture ''it-action-types'' ''integration'' ''All Action Types''
       ''Every action type exercised.'' (src ''IntegrationTestActionTypes''),
     fixture ''it-conditional-routing'' ''integration'' ''Conditional Routing''
       ''Badge-gated conditional routing.'' (src ''IntegrationTestConditionalRouting''),
     fixture ''it-click-branching'' ''integration'' ''Click Branching''
       ''Click/not-click branching paths.'' (src ''IntegrationTestClickBranching''),
     fixture ''it-retry-and-loops'' ''integration'' ''Retry & Loops''
       ''Retry logic and loop patterns.'' (src ''IntegrationTestRetryAndLoops''),
     fixture ''it-story-interruption'' ''integration'' ''Story Interruption''
       ''High-priority story interrupting a running campaign.'' (src ''IntegrationTestStoryInterruption''),
     fixture ''it-deferred-transitions'' ''integration'' ''Deferred Transitions''
       ''Timed/deferred story transitions.'' (src ''IntegrationTestDeferredTransitions''),
     fixture ''it-persistent-links'' ''integration'' ''Persistent Links''
       ''Persistent click-tracking links.'' (src ''IntegrationTestPersistentLinks''),
     fixture ''it-scene-template-vars'' ''integration'' ''Scene Template Vars''
       ''Template variable substitution in scenes.'' (src ''IntegrationTestSceneTemplateVars''),
     fixture ''it-scene-defaults'' ''integration'' ''Scene Defaults''
       ''Scene default settings inheritance.'' (src ''IntegrationTestSceneDefaults''),
     fixture ''it-enactment-defaults'' ''integration'' ''Enactment Defaults''
       ''Enactment default settings.'' (src ''IntegrationTestEnactmentDefaults''),
     fixture ''it-default-sender'' ''integration'' ''Default Sender''
       ''Sender default inheritance.'' (src ''IntegrationTestDefaultSender''),
     fixture ''it-links-and-policies'' ''integration'' ''Links & Policies''
       ''Link and policy definitions.'' (src ''IntegrationTestLinksAndPolicies''),
     fixture ''it-pattern-reuse'' ''integration'' ''Pattern Reuse''
       ''Reusable scene patterns.'' (src ''IntegrationTestPatternReuse''),
     fixture ''it-data-blocks-for-loops'' ''integration'' ''Data Blocks + For Loops''
       ''Data blocks with for-loop expansion.'' (src ''IntegrationTestDataBlocksForLoops''),
     fixture ''it-scenes-range'' ''integration'' ''Scenes Range''
       ''Scene range shorthand.'' (src ''IntegrationTestScenesRange''),
     fixture ''it-multi-story'' ''integration'' ''Multi-Story''
       ''Multiple stories in one script.'' (src ''IntegrationTestMultiStory''),
     fixture ''it-next-story-hopping'' ''integration'' ''Next Story Hopping''
       ''Cross-story chaining.'' (src ''IntegrationTestNextStoryHopping''),
     fixture ''it-storyline-on-fail'' ''integration'' ''Storyline On-Fail Routes''
       ''Failure path routing.'' (src ''IntegrationTestStorylineOnFailRoutes''),
     fixture ''it-badge-integration'' ''integration'' ''Badge Integration''
       ''Full badge lifecycle.'' (src ''IntegrationTestBadgeIntegration''),
     fixture ''it-condition-guards'' ''integration'' ''Condition Guards''
       ''Guard conditions on triggers.'' (src ''IntegrationTestConditionGuards''),
     fixture ''it-multi-scene-drip'' ''integration'' ''Multi-Scene Drip''
       ''Drip email sequence across scenes.'' (src ''IntegrationTestMultiSceneDrip''),
     fixture ''it-skip-storyline-expiry'' ''integration'' ''Skip on Storyline Expiry''
       ''Auto-advance on storyline expiry.'' (src ''IntegrationTestSkipStorylineExpiry''),
     fixture ''it-dot-access'' ''integration'' ''Dot-Access Expressions''
       ''Dot-access data references.'' (src ''IntegrationTestDotAccess''),
     fixture ''it-compound-conditions'' ''integration'' ''Compound Conditions''
       ''AND/OR compound condition trees.'' (src ''IntegrationTestCompoundConditions''),
     fixture ''it-funnel-video'' ''funnels'' ''Funnel with Video''
       ''Funnel page with embedded video intelligence.'' (src ''IntegrationTestFunnelWithVideo''),
     fixture ''it-checkout-purchase'' ''funnels'' ''Checkout & Purchase''
       ''Checkout flow with purchase tracking.'' (src ''IntegrationTestCheckoutPurchase''),
     fixture ''it-full-pipeline'' ''funnels'' ''Full Sales Pipeline''
       ''End-to-end sales pipeline.'' (src ''IntegrationTestFullPipeline''),
     fixture ''it-video-watch-operators'' ''funnels'' ''Video Watch Operators''
       ''Video progress and watch threshold operators.'' (src ''IntegrationTestVideoWatchOperators''),
     fixture ''it-lead-magnet'' ''funnels'' ''Lead Magnet Funnel''
       ''Lead magnet opt-in funnel.'' (src ''IntegrationTestLeadMagnetFunnel''),
     fixture ''it-webinar-funnel'' ''funnels'' ''Webinar Funnel''
       ''Webinar registration + replay funnel with reminder campaign.'' (src ''IntegrationTestWebinarFunnel''),
     fixture ''it-product-launch'' ''funnels'' ''Product Launch Funnel''
       ''Full product launch with waitlist, checkout, and upsell.'' (src ''IntegrationTestProductLaunchFunnel''),
     fixture ''it-multi-route-membership'' ''funnels'' ''Multi-Route Membership''
       ''Membership site with multiple access tiers.'' (src ''IntegrationTestMultiRouteMembership''),
     fixture ''it-upsell-pipeline'' ''funnels'' ''Upsell Pipeline''
       ''One-click upsell pipeline.'' (src ''IntegrationTestUpsellPipeline''),
     fixture ''it-abandon-recovery'' ''funnels'' ''Abandon Recovery''
       ''Cart/page abandonment recovery sequence.'' (src ''IntegrationTestAbandonRecovery''),
     fixture ''it-combo-ecommerce'' ''real-world'' ''E-Commerce Funnel''
       ''Full e-commerce funnel with products, offers, and automation.'' (src ''IntegrationTestComboEcommerceFunnel''),
     fixture ''it-combo-saas-onboarding'' ''real-world'' ''SaaS Onboarding''
       ''SaaS trial onboarding campaign with badge-gated upgrades.'' (src ''IntegrationTestComboSaaSOnboarding''),
     fixture ''it-combo-newsletter'' ''real-world'' ''Newsletter Engagement''
       ''Newsletter engagement campaign with click branching.'' (src ''IntegrationTestComboNewsletterEngagement''),
     fixture ''it-combo-event-promo'' ''real-world'' ''Event Promotion''
       ''Live event promotion funnel with registration and reminders.'' (src ''IntegrationTestComboEventPromotion''),
     fixture ''it-global-website'' ''lms-video'' ''Global Website''
       ''Multi-page website with navigation and SEO.'' (src ''IntegrationTestGlobalWebsite''),
     fixture ''it-lms-modules'' ''lms-video'' ''LMS Modules''
       ''Course with modules, lessons, and quizzes.'' (src ''IntegrationTestLMSModules''),
     fixture ''it-video-intelligence'' ''lms-video'' ''Video Intelligence''
       ''Video player with badge rules, chapters, and turnstiles.'' (src ''IntegrationTestVideoIntelligence'')
    ]"

section \<open>Answers\<close>

type_synonym DiagRow = "string \<times> message \<times> string"

definition formatDiagnostics :: "Diagnostics \<Rightarrow> DiagRow list" where
  "formatDiagnostics ds =
     map (\<lambda>d. (if diag_Level d = DiagError then ''error'' else ''warning'', diag_Message d, Pos_String (diag_Pos d))) ds"

definition badgeMapToSlice :: "Badge gomap \<Rightarrow> (string \<times> string) list" where
  "badgeMapToSlice m = map (\<lambda>(_, b). (bdg_Name b, bdg_PublicId b)) m"


section \<open>Reading and checking scripts\<close>

definition handleListFixtures :: "(string \<Rightarrow> string) \<Rightarrow> (string \<times> string \<times> string \<times> string) list" where
  "handleListFixtures src = map (\<lambda>f. (fx_ID f, fx_Category f, fx_Name f, fx_Description f)) (allFixtures src)"

lemma allFixtures_ids: "distinct (map fx_ID (allFixtures src))"
  by (simp add: allFixtures_def fixture_def)

text \<open>The texts are constants of the package; the format, and whether there are examples.\<close>

definition handleScriptReference :: "string \<Rightarrow> string \<Rightarrow> string \<times> string \<times> string \<times> bool" where
  "handleScriptReference dslReferenceMarkdown dslSystemPrompt = (dslReferenceMarkdown, dslSystemPrompt, ''markdown'', True)"

text \<open>None stands for the answer 404.\<close>

definition handleGetFixture :: "(string \<Rightarrow> string) \<Rightarrow> string \<Rightarrow> fixtureEntry option" where
  "handleGetFixture src i = find (\<lambda>f. fx_ID f = i) (allFixtures src)"

datatype 'a answer =
    BadRequest
  | Answered 'a
  | Stuck

text \<open>An example is found by its id.\<close>

lemma handleGetFixture_found:
  assumes "f \<in> set (allFixtures src)"
  shows "handleGetFixture src (fx_ID f) = Some f"
proof -
  have "find (\<lambda>g. fx_ID g = fx_ID f) fs = Some f" if "f \<in> set fs" "distinct (map fx_ID fs)" for fs
    using that by (induction fs) (auto simp: rev_image_eqI)
  with assms show ?thesis by (simp add: handleGetFixture_def allFixtures_ids)
qed

text \<open>A body without a source does not bind.\<close>

definition handleValidateScript :: "unicode \<Rightarrow> string \<Rightarrow> (bool \<times> DiagRow list) answer" where
  "handleValidateScript u src =
     (if src = [] then BadRequest
      else
        (case ParseScript u src of
           None \<Rightarrow> Stuck
         | Some parsed \<Rightarrow>
             (let ds = vr_Diagnostics (ValidateScript parsed) in
              Answered (\<not> HasErrors ds, formatDiagnostics ds))))"

text \<open>The context of a compilation for a tenant; the creator is a new id.\<close>

definition compileFor :: "Context \<Rightarrow> unicode \<Rightarrow> nat \<Rightarrow> string \<Rightarrow> string \<Rightarrow> string \<Rightarrow> CompileResult option" where
  "compileFor cx u n session tid src =
     CompileScript (cx\<lparr>cx_subscriberID := tid, cx_creatorID := Oid n\<rparr>) u (Suc n) session src"

record CompileAnswer =
  ca_stories :: "Story list"
  ca_funnels :: "Funnel list"
  ca_products :: "Product list"
  ca_offers :: "Offer list"
  ca_sites :: "Site list"
  ca_badges :: "(string \<times> string) list"
  ca_quizzes :: "LMSQuiz list"
  ca_diagnostics :: "DiagRow list"

definition handleCompileScript :: "Context \<Rightarrow> unicode \<Rightarrow> nat \<Rightarrow> string \<Rightarrow> string \<Rightarrow> string \<Rightarrow> CompileAnswer answer" where
  "handleCompileScript cx u n session tid src =
     (if src = [] then BadRequest
      else
        (case compileFor cx u n session tid src of
           None \<Rightarrow> Stuck
         | Some r \<Rightarrow>
             Answered \<lparr>ca_stories = res_Stories r, ca_funnels = res_Funnels r, ca_products = res_Products r,
               ca_offers = res_Offers r, ca_sites = [], ca_badges = badgeMapToSlice (res_Badges r),
               ca_quizzes = res_Quizzes r, ca_diagnostics = formatDiagnostics (res_Diagnostics r)\<rparr>))"

section \<open>The bridge to the other services\<close>

record ServiceBridge =
  sb_LMSBaseURL :: string
  sb_MarketingBaseURL :: string

definition NewServiceBridge :: "string \<Rightarrow> string \<Rightarrow> ServiceBridge" where
  "NewServiceBridge lms marketing = \<lparr>sb_LMSBaseURL = lms, sb_MarketingBaseURL = marketing\<rparr>"

text \<open>What \<open>http.NewRequest\<close> and \<open>client.Do\<close> come to.\<close>

datatype BridgeReply =
    NotBuilt string
  | NotSent string
  | Replied int string

text \<open>The service whose call failed, and how.\<close>

datatype BridgeError =
    BuildFailed string string
  | RequestFailed string string
  | StatusFailed string int string

definition HydrateLMS :: "(string \<Rightarrow> string \<Rightarrow> BridgeReply) \<Rightarrow> ServiceBridge \<Rightarrow> string \<Rightarrow> BridgeError option" where
  "HydrateLMS Do b data =
     (case Do (sb_LMSBaseURL b @ ''/internal/hydrate-lms'') data of
        NotBuilt e \<Rightarrow> Some (BuildFailed ''lms'' e)
      | NotSent e \<Rightarrow> Some (RequestFailed ''lms'' e)
      | Replied status body \<Rightarrow> if status \<ge> 400 then Some (StatusFailed ''lms'' status body) else None)"

definition HydrateFunnel :: "(string \<Rightarrow> string \<Rightarrow> BridgeReply) \<Rightarrow> ServiceBridge \<Rightarrow> string \<Rightarrow> BridgeError option" where
  "HydrateFunnel Do b data =
     (case Do (sb_MarketingBaseURL b @ ''/internal/hydrate-funnel'') data of
        NotBuilt e \<Rightarrow> Some (BuildFailed ''funnel'' e)
      | NotSent e \<Rightarrow> Some (RequestFailed ''funnel'' e)
      | Replied status body \<Rightarrow> if status \<ge> 400 then Some (StatusFailed ''funnel'' status body) else None)"

definition HydrateGraph ::
  "(string \<Rightarrow> string \<Rightarrow> BridgeReply) \<Rightarrow> ServiceBridge \<Rightarrow> string \<Rightarrow> string \<times> BridgeError option" where
  "HydrateGraph Do b data =
     (case Do (sb_MarketingBaseURL b @ ''/internal/hydrate-graph'') data of
        NotBuilt e \<Rightarrow> ([], Some (BuildFailed ''graph'' e))
      | NotSent e \<Rightarrow> ([], Some (RequestFailed ''graph'' e))
      | Replied status body \<Rightarrow>
          (body, if status \<ge> 400 then Some (StatusFailed ''graph'' status body) else None))"

section \<open>The graph that is shipped\<close>

text \<open>
  The result of a compilation and the selected stories, with the tenants; the payload has lists
  for the two maps.
\<close>

type_synonym 'e stamped = "ObjectId option \<times> 'e"

record Graph =
  gr_stories :: "Story list"
  gr_funnels :: "Funnel stamped list"
  gr_sites :: "Site stamped list"
  gr_products :: "Product stamped list"
  gr_offers :: "Offer stamped list"
  gr_assets :: "Asset stamped list"
  gr_media_entities :: "Media stamped list"
  gr_player_presets :: "PlayerPreset stamped list"
  gr_channels :: "MediaChannel stamped list"
  gr_media_webhooks :: "MediaWebhook stamped list"
  gr_quizzes :: "LMSQuiz stamped list"
  gr_certificate_templates :: "CertificateTemplate stamped list"
  gr_campaigns :: "Campaign stamped list"

record StampedResult = Graph +
  str_Badges :: "Badge stamped gomap"
  str_Tags :: "Tag stamped gomap"

record Payload = Graph +
  pay_badges :: "Badge stamped list"
  pay_tags :: "Tag stamped list"

definition unstamped :: "'e list \<Rightarrow> 'e stamped list" where
  "unstamped es = map (Pair None) es"

text \<open>The result as the compiler leaves it, without tenants.\<close>

definition compiledGraph :: "CompileResult \<Rightarrow> Story list \<Rightarrow> StampedResult" where
  "compiledGraph r stories =
     \<lparr>gr_stories = stories, gr_funnels = unstamped (res_Funnels r), gr_sites = unstamped (res_Sites r),
      gr_products = unstamped (res_Products r), gr_offers = unstamped (res_Offers r),
      gr_assets = unstamped (res_Assets r), gr_media_entities = unstamped (res_MediaEntities r),
      gr_player_presets = unstamped (res_PlayerPresets r), gr_channels = unstamped (res_Channels r),
      gr_media_webhooks = unstamped (res_MediaWebhooks r), gr_quizzes = unstamped (res_Quizzes r),
      gr_certificate_templates = unstamped (res_CertificateTemplates r),
      gr_campaigns = unstamped (res_Campaigns r),
      str_Badges = map (\<lambda>(k, b). (k, (None, b))) (res_Badges r),
      str_Tags = map (\<lambda>(k, tg). (k, (None, tg))) (res_Tags r)\<rparr>"

definition buildHydrateGraphPayload :: "StampedResult \<Rightarrow> Payload" where
  "buildHydrateGraphPayload r =
     Graph.extend (Graph.truncate r) (Payload.fields (map snd (str_Badges r)) (map snd (str_Tags r)))"

text \<open>\<open>if e.TenantID == "" { e.TenantID = tenantOID }\<close>\<close>

definition stamp :: "ObjectId \<Rightarrow> 'e stamped \<Rightarrow> 'e stamped" where
  "stamp t e = (case e of (None, x) \<Rightarrow> (Some t, x) | (Some t', x) \<Rightarrow> (Some t', x))"

text \<open>The tags of the scenes are those of the table.\<close>

definition retagScene :: "string \<Rightarrow> Scene \<Rightarrow> Scene" where
  "retagScene owner sc = sc\<lparr>scn_Tags := map (tag_SubscriberId_update (\<lambda>_. owner)) (scn_Tags sc)\<rparr>"

definition retagEnactment :: "string \<Rightarrow> Enactment \<Rightarrow> Enactment" where
  "retagEnactment owner en =
     en\<lparr>ent_SendScene := map_option (retagScene owner) (ent_SendScene en),
        ent_SendScenes := map (retagScene owner) (ent_SendScenes en)\<rparr>"

definition retagStory :: "string \<Rightarrow> Story \<Rightarrow> Story" where
  "retagStory owner st =
     st\<lparr>sto_Storylines := map (\<lambda>sl. sl\<lparr>stl_Acts := map (retagEnactment owner) (stl_Acts sl)\<rparr>) (sto_Storylines st)\<rparr>"

definition stampStory :: "ObjectId \<Rightarrow> Story \<Rightarrow> Story" where
  "stampStory t st = (case sto_TenantID st of None \<Rightarrow> st\<lparr>sto_TenantID := Some t\<rparr> | Some _ \<Rightarrow> st)"

text \<open>\<open>owner\<close> is \<open>tenantOID.Hex()\<close>; nothing is stamped without an id.\<close>

definition stampTenantOnGraph :: "ObjectId option \<Rightarrow> (ObjectId \<Rightarrow> string) \<Rightarrow> StampedResult \<Rightarrow> StampedResult" where
  "stampTenantOnGraph tenant hex g =
     (case tenant of
        None \<Rightarrow> g
      | Some t \<Rightarrow>
          \<lparr>gr_stories = map (retagStory (hex t) \<circ> stampStory t) (gr_stories g),
           gr_funnels = map (stamp t) (gr_funnels g), gr_sites = map (stamp t) (gr_sites g),
           gr_products = map (stamp t) (gr_products g), gr_offers = map (stamp t) (gr_offers g),
           gr_assets = map (stamp t) (gr_assets g), gr_media_entities = map (stamp t) (gr_media_entities g),
           gr_player_presets = map (stamp t) (gr_player_presets g), gr_channels = map (stamp t) (gr_channels g),
           gr_media_webhooks = map (stamp t) (gr_media_webhooks g), gr_quizzes = map (stamp t) (gr_quizzes g),
           gr_certificate_templates = map (stamp t) (gr_certificate_templates g),
           gr_campaigns = map (stamp t) (gr_campaigns g),
           str_Badges = map (\<lambda>(k, b). (k, stamp t b)) (str_Badges g),
           str_Tags = map (\<lambda>(k, (_, tg)). (k, (Some t, tg\<lparr>tag_SubscriberId := hex t\<rparr>))) (str_Tags g)\<rparr>)"

section \<open>Deployment\<close>

text \<open>The bridge of the process and the functions outside the repository.\<close>

record Deployment =
  dp_scriptBridge :: "ServiceBridge option"
  dp_Do :: "string \<Rightarrow> string \<Rightarrow> BridgeReply"
  dp_Marshal :: "Payload \<Rightarrow> string + string"
  dp_counts :: "string \<Rightarrow> string option"
  dp_IsObjectIdHex :: "string \<Rightarrow> bool"
  dp_ObjectIdHex :: "string \<Rightarrow> ObjectId"
  dp_Hex :: "ObjectId \<Rightarrow> string"

record DeployRequest =
  drq_Source :: string
  drq_StoryIndices :: "int list"

record DeployAnswer =
  da_stories :: "Story list"
  da_funnels :: "Funnel stamped list"
  da_products :: "Product stamped list"
  da_offers :: "Offer stamped list"
  da_sites :: "Site stamped list"
  da_badges :: "(string \<times> string) list"
  da_quizzes :: "LMSQuiz stamped list"
  da_counts :: "string option"
  da_diagnostics :: "DiagRow list"

datatype DeployReply =
    SourceRequired
  | BridgeNotConfigured
  | CompilationFailed "DiagRow list"
  | MarshalFailed string
  | HydrateFailed BridgeError string
  | Deployed DeployAnswer

definition selectStories :: "int list \<Rightarrow> Story list \<Rightarrow> Story list" where
  "selectStories indices stories =
     (if indices = [] then stories
      else map (\<lambda>i. stories ! nat i) (filter (\<lambda>i. 0 \<le> i \<and> i < int (length stories)) indices))"

text \<open>The compiled graph of the selected stories, with the tenant.\<close>

definition stampedGraph :: "Deployment \<Rightarrow> string \<Rightarrow> DeployRequest \<Rightarrow> CompileResult \<Rightarrow> StampedResult" where
  "stampedGraph d tid rq result =
     (let tenant = if dp_IsObjectIdHex d tid then Some (dp_ObjectIdHex d tid) else None;
          stories = selectStories (drq_StoryIndices rq) (res_Stories result) in
      stampTenantOnGraph tenant (dp_Hex d) (compiledGraph result stories))"

text \<open>
  The answer, None when the compiler does not return, and the payloads given to the bridge. \<open>dp_Marshal\<close> may
  refuse a payload, as \<open>json.Marshal\<close> does when the next stories of the payload go round in a circle.
\<close>

definition handleDeployScript ::
  "Deployment \<Rightarrow> Context \<Rightarrow> unicode \<Rightarrow> nat \<Rightarrow> string \<Rightarrow> string \<Rightarrow> DeployRequest option
    \<Rightarrow> DeployReply option \<times> Payload list" where
  "handleDeployScript d cx u n session tid req =
     (case req of
        None \<Rightarrow> (Some SourceRequired, [])
      | Some rq \<Rightarrow>
          if drq_Source rq = [] then (Some SourceRequired, [])
          else
            (case dp_scriptBridge d of
               None \<Rightarrow> (Some BridgeNotConfigured, [])
             | Some b \<Rightarrow>
                 (case compileFor cx u n session tid (drq_Source rq) of
                    None \<Rightarrow> (None, [])
                  | Some result \<Rightarrow>
                      if HasErrors (res_Diagnostics result)
                      then (Some (CompilationFailed (formatDiagnostics (res_Diagnostics result))), [])
                      else
                        (let stamped = stampedGraph d tid rq result;
                             payload = buildHydrateGraphPayload stamped in
                         case dp_Marshal d payload of
                           Inl e \<Rightarrow> (Some (MarshalFailed e), [])
                         | Inr body \<Rightarrow>
                             (case HydrateGraph (dp_Do d) b body of
                                (respBody, Some e) \<Rightarrow> (Some (HydrateFailed e respBody), [payload])
                              | (respBody, None) \<Rightarrow>
                                  (Some (Deployed
                                    \<lparr>da_stories = gr_stories stamped, da_funnels = gr_funnels stamped,
                                     da_products = gr_products stamped, da_offers = gr_offers stamped,
                                     da_sites = gr_sites stamped, da_badges = badgeMapToSlice (res_Badges result),
                                     da_quizzes = gr_quizzes stamped,
                                     da_counts = (if respBody = [] then None else dp_counts d respBody),
                                     da_diagnostics = formatDiagnostics (res_Diagnostics result)\<rparr>), [payload]))))))"

section \<open>Whose the shipped entities are\<close>













definition demo_deployment :: Deployment where
  "demo_deployment = \<lparr>dp_scriptBridge = Some (NewServiceBridge ''http://lms'' ''http://marketing''),
     dp_Do = (\<lambda>_ _. Replied 200 []), dp_Marshal = (\<lambda>_. Inr []), dp_counts = (\<lambda>_. None),
     dp_IsObjectIdHex = (\<lambda>s. s = ''t''), dp_ObjectIdHex = (\<lambda>_. Oid 7), dp_Hex = (\<lambda>_. ''t'')\<rparr>"


section \<open>When a script is shipped\<close>

lemma HasErrors_missing: "HasErrors (missing_products ast) \<longleftrightarrow> missing_products ast \<noteq> []"
proof -
  have "diag_Level dg = DiagError" if "dg \<in> set (missing_products ast)" for dg
    using that by (auto simp: missing_products_def errorAt_def split: if_splits)
  then show ?thesis
    by (cases "missing_products ast") (auto simp: HasErrors_def list_ex_iff)
qed

text \<open>What the compiler still finds in a script that validates.\<close>

definition compiles :: "ScriptAST \<Rightarrow> bool" where
  "compiles ast \<longleftrightarrow> \<not> list_ex funnel_jumps (ast_Funnels ast) \<and> missing_products ast = []"

lemma compileFor_passes:
  "(\<exists>r. compileFor cx u n session tid src = Some r \<and> \<not> HasErrors (res_Diagnostics r)) \<longleftrightarrow>
     (\<exists>pr. ParseScript u src = Some pr \<and> \<not> HasErrors (vr_Diagnostics (ValidateScript pr))
        \<and> compiles (vr_AST (ValidateScript pr)))"
proof (cases "ParseScript u src")
  case (Some pr)
  show ?thesis
  proof (cases "HasErrors (vr_Diagnostics (ValidateScript pr))")
    case False
    obtain ast ds1 where e: "Expand (pr_AST pr) = (ast, ds1)" by (cases "Expand (pr_AST pr)") auto
    obtain sy ds2 where v: "Validate ast = (sy, ds2)" by (cases "Validate ast") auto
    from False e v have vr: "ValidateScript pr = \<lparr>vr_AST = ast, vr_Symbols = Some sy, vr_Diagnostics = pr_Diagnostics pr @ ds1 @ ds2\<rparr>"
      and valid: "\<not> HasErrors ds2"
      by (auto simp: ValidateScript_def ExpandScript_def Let_def split_beta split: if_splits)
    have "res_Diagnostics (fst (run_state (Compile cx' sy ast) (NewCompiler (Suc n) 0 session))) = missing_products ast" for cx'
      using valid v by (intro Compile_errors) simp
    with False show ?thesis
      by (simp add: Some vr compileFor_def CompileScript_def Let_def split_beta Compile_stops compiles_def HasErrors_missing)
  qed (auto simp: Some compileFor_def CompileScript_def reported_def)
qed (simp add: compileFor_def CompileScript_def)

text \<open>
  C13: What a deployment ships. One payload goes over the bridge, or none: one when a bridge is configured, the
  validation endpoint calls the script valid, the compiler has nothing to add, that is no trigger of a
  funnel stage jumps to an enactment and every product of an offer is declared, and the payload
  can be written as JSON. The payload is the compiled graph with the tenant.
\<close>

theorem deploy_ships:
  "snd (handleDeployScript d cx u n session tid (Some rq)) =
     (if dp_scriptBridge d \<noteq> None
         \<and> (\<exists>rows. handleValidateScript u (drq_Source rq) = Answered (True, rows))
         \<and> pred_option (\<lambda>pr. compiles (vr_AST (ValidateScript pr))) (ParseScript u (drq_Source rq))
      then filter (\<lambda>p. \<not> isl (dp_Marshal d p))
        [buildHydrateGraphPayload (stampedGraph d tid rq (the (compileFor cx u n session tid (drq_Source rq))))]
      else [])"
proof -
  let ?src = "drq_Source rq"
  have valid: "(\<exists>rows. handleValidateScript u ?src = Answered (True, rows)) \<longleftrightarrow>
      ?src \<noteq> [] \<and> (\<exists>pr. ParseScript u ?src = Some pr \<and> \<not> HasErrors (vr_Diagnostics (ValidateScript pr)))"
    by (auto simp: handleValidateScript_def Let_def split: option.splits)
  have "snd (handleDeployScript d cx u n session tid (Some rq)) =
      (if ?src \<noteq> [] \<and> dp_scriptBridge d \<noteq> None
          \<and> (\<exists>r. compileFor cx u n session tid ?src = Some r \<and> \<not> HasErrors (res_Diagnostics r))
       then filter (\<lambda>p. \<not> isl (dp_Marshal d p))
         [buildHydrateGraphPayload (stampedGraph d tid rq (the (compileFor cx u n session tid ?src)))] else [])"
    by (auto simp: handleDeployScript_def Let_def split: option.splits sum.splits prod.splits)
  then show ?thesis
    by (auto simp: compileFor_passes valid pred_option_def)
qed

lemma blank_tokens:
  "Tokenize ascii_unicode (NewLexer '' '') = ([\<lparr>Kind = TokEOF, Literal = [], tok_Pos = \<lparr>pos_Line = 1, pos_Col = 2, pos_Offset = 1\<rparr>\<rparr>], [])"
  by code_simp

lemma blank_parsed:
  "ParseScript ascii_unicode '' '' = Some \<lparr>pr_AST = zero_ScriptAST\<lparr>ast_Pos := \<lparr>pos_Line = 1, pos_Col = 2, pos_Offset = 1\<rparr>\<rparr>, pr_Diagnostics = []\<rparr>"
  by (simp add: ParseScript_def blank_tokens Parse_def forP_def curPosP_def getsP_def cur_def NewParser_def while_option_unfold atEnd_def
      del: before_simps(1))

lemma blank_checked:
  "vr_Diagnostics (ValidateScript pr) = [] \<and> compiles (vr_AST (ValidateScript pr))"
  if "pr = \<lparr>pr_AST = zero_ScriptAST\<lparr>ast_Pos := \<lparr>pos_Line = 1, pos_Col = 2, pos_Offset = 1\<rparr>\<rparr>, pr_Diagnostics = []\<rparr>"
  unfolding that by code_simp

lemma deploy_ships_witness:
  "length (snd (handleDeployScript demo_deployment demo_context ascii_unicode 0 ''s'' ''t''
     (Some \<lparr>drq_Source = '' '', drq_StoryIndices = []\<rparr>))) = 1"
  unfolding deploy_ships
  by (simp add: demo_deployment_def handleValidateScript_def blank_parsed blank_checked Let_def)

end
