(* ===== verification/CourseProps.thy ===== *)
theory CourseProps
  imports CompileProps
begin

text \<open>
  What a course declaration compiles to: the modules and lessons in the order they are
  written, and a quiz entity for every quiz, tied to the product and the module.
\<close>

definition moduleSlug :: "Context \<Rightarrow> ModuleNode \<Rightarrow> string" where
  "moduleSlug cx m = orElse (mo_Slug m) (slugOf cx (mo_Title m))"

definition quizSlug :: "Context \<Rightarrow> LMSQuizNode \<Rightarrow> string" where
  "quizSlug cx q = orElse (lq_Slug q) (slugOf cx (lq_Title q))"

text \<open>The product, the module and the slug of every pending quiz.\<close>

definition quiz_keys :: "CState \<Rightarrow> (ObjectId \<times> string \<times> string) list" where
  "quiz_keys s = map (\<lambda>q. (qui_ProductID q, qui_ModuleSlug q, qui_Slug q)) (cs_pendingQuizzes s)"

lemma numberedC_appends:
  assumes "\<And>i x s. l (snd (run_state (f i x) s)) = l s @ k x"
  shows "l (snd (run_state (numberedC f xs) s)) = l s @ concat (map k xs)"
proof -
  have "l (snd (run_state (numberedC f xs) s)) = l s @ concat (map (\<lambda>(i, x). k x) (zip [0..<length xs] xs))"
    unfolding numberedC_def
    by (rule mapC_appends [where g = "\<lambda>_. ()" and k = "\<lambda>_ (i, x). k x"])
      (use assms in \<open>auto simp: keeps_def split: prod.splits\<close>)
  also have "map (\<lambda>(i, x). k x) (zip [0..<length xs] xs) = map k xs" by (rule nth_equalityI) auto
  finally show ?thesis .
qed

text \<open>The slug of the first quiz whose slug is not empty.\<close>

definition firstSlug :: "string list \<Rightarrow> string" where
  "firstSlug slugs = foldl orElse [] slugs"

lemma compileQuizzes:
  "fst (run_state (foldC (compileQuizAt cx ms pid) qs nodes) s) = foldl orElse qs (map (quizSlug cx) nodes)
   \<and> quiz_keys (snd (run_state (foldC (compileQuizAt cx ms pid) qs nodes) s))
     = quiz_keys s @ map (\<lambda>q. (pid, ms, quizSlug cx q)) nodes"
  by (induction nodes arbitrary: qs s)
    (simp_all add: compileQuizAt_def compileLMSQuiz_def newObjectId_def generatePublicID_def split_beta
      Let_def quizSlug_def [symmetric] quiz_keys_def)

lemma compileCourseModule_run:
  "cmo_QuizSlug (fst (run_state (compileCourseModule cx pid i m) s)) = firstSlug (map (quizSlug cx) (mo_Quizzes m))"
  "map cle_Slug (cmo_Lessons (fst (run_state (compileCourseModule cx pid i m) s))) = map ls_Slug (mo_Lessons m)"
  "cmo_Slug (fst (run_state (compileCourseModule cx pid i m) s)) = moduleSlug cx m"
  "quiz_keys (snd (run_state (compileCourseModule cx pid i m) s))
    = quiz_keys s @ map (\<lambda>q. (pid, moduleSlug cx m, quizSlug cx q)) (mo_Quizzes m)"
  by (auto simp: compileCourseModule_def Let_def split_beta compileQuizzes firstSlug_def moduleSlug_def
      numbered_def compileCourseLesson_def intro!: nth_equalityI)

lemma compileModules_quizzes: "quiz_keys (snd (run_state (numberedC compileModule ms) s)) = quiz_keys s"
proof -
  have "preserves quiz_keys (numberedC compileModule ms)"
    by (auto simp: compileModule_def compileLesson_def newObjectId_def keeps_def [of _ "State _"] quiz_keys_def
        intro!: preserves_intros)
  then show ?thesis by (rule preserves_run)
qed

text \<open>
  A course becomes a product whose course modules have the lessons of the modules in order,
  whose number of lessons is right, and whose quizzes all become pending entities that name
  the product and the slug of their module; the module itself names only the first quiz.
\<close>

theorem compileCourseDecl_course:
  "let p = fst (run_state (compileCourseDecl cx node) s); s' = snd (run_state (compileCourseDecl cx node) s) in
   map (\<lambda>m. map cle_Slug (cmo_Lessons m)) (pro_CourseModules p) = map (\<lambda>m. map ls_Slug (mo_Lessons m)) (co_Modules node)
   \<and> map cmo_Slug (pro_CourseModules p) = map (moduleSlug cx) (co_Modules node)
   \<and> map cmo_QuizSlug (pro_CourseModules p)
     = map (\<lambda>m. firstSlug (map (quizSlug cx) (mo_Quizzes m))) (co_Modules node)
   \<and> pro_TotalLessons p = int (length (concat (map mo_Lessons (co_Modules node))))
   \<and> quiz_keys s' = quiz_keys s @ concat (map (\<lambda>m. map (\<lambda>q. (pro_Id p, moduleSlug cx m, quizSlug cx q)) (mo_Quizzes m))
       (co_Modules node))"
proof -
  let ?ms = "co_Modules node" and ?pid = "Oid (cs_oids s)"
  define s1 where "s1 = snd (run_state (numberedC compileModule ?ms)
    (snd (run_state (generatePublicID ''product'') (snd (run_state newObjectId s)))))"
  define cms where "cms = run_state (numberedC (compileCourseModule cx ?pid) ?ms) s1"
  have views: "map (\<lambda>m. map cle_Slug (cmo_Lessons m)) (fst cms) = map (\<lambda>m. map ls_Slug (mo_Lessons m)) ?ms"
    "map cmo_Slug (fst cms) = map (moduleSlug cx) ?ms"
    "map cmo_QuizSlug (fst cms) = map (\<lambda>m. firstSlug (map (quizSlug cx) (mo_Quizzes m))) ?ms"
    unfolding cms_def
    by (rule numberedC_outputs [where g = "\<lambda>_. ()" and k = "\<lambda>_ m. map ls_Slug (mo_Lessons m)"]
        numberedC_outputs [where g = "\<lambda>_. ()" and k = "\<lambda>_. moduleSlug cx"]
        numberedC_outputs [where g = "\<lambda>_. ()" and k = "\<lambda>_ m. firstSlug (map (quizSlug cx) (mo_Quizzes m))"],
        simp add: keeps_def, simp add: compileCourseModule_run)+
  have lens: "map (\<lambda>m. length (cmo_Lessons m)) (fst cms) = map (\<lambda>m. length (mo_Lessons m)) ?ms"
    using arg_cong [OF views(1), of "map length"] by (simp add: comp_def)
  have "(\<Sum>m\<leftarrow>cs. int (length (cmo_Lessons m))) = int (sum_list (map (\<lambda>m. length (cmo_Lessons m)) cs))" for cs :: "CourseModule list"
    by (induction cs) simp_all
  then have total: "(\<Sum>m\<leftarrow>fst cms. int (length (cmo_Lessons m))) = int (length (concat (map mo_Lessons ?ms)))"
    by (simp add: lens length_concat comp_def)
  have keys: "quiz_keys (snd cms) = quiz_keys s
      @ concat (map (\<lambda>m. map (\<lambda>q. (?pid, moduleSlug cx m, quizSlug cx q)) (mo_Quizzes m)) ?ms)"
    using numberedC_appends [of quiz_keys "compileCourseModule cx ?pid"
        "\<lambda>m. map (\<lambda>q. (?pid, moduleSlug cx m, quizSlug cx q)) (mo_Quizzes m)" ?ms s1]
    by (simp add: cms_def s1_def compileCourseModule_run compileModules_quizzes)
      (simp add: quiz_keys_def newObjectId_def generatePublicID_def Let_def)
  have cert: "quiz_keys (snd (run_state (optC (compileCertConfig cx p) c) t)) = quiz_keys t" for p c t
    by (cases c) (simp_all add: optC_def compileCertConfig_def newObjectId_def generatePublicID_def Let_def quiz_keys_def)
  show ?thesis
    using views total keys
    by (simp add: compileCourseDecl_def compileProduct_def courseProduct_def split_beta Let_def cert
        cms_def s1_def newObjectId_def)
qed

end
