(* ===== verification/Prices.thy ===== *)
theory Prices
  imports CompilerCourses CompilerProps Complex_Main
begin

text \<open>
  The amount of an offer: \<open>int64(node.Price * 100)\<close> of \<open>compileOffer\<close> rounds twice and then cuts
  off, so a price in whole cents becomes the amount in cents or one cent less.
\<close>

section \<open>The rounding error of a float\<close>

lemma powi_le_iff: "(2::real) powi i \<le> 2 powi j \<longleftrightarrow> i \<le> j"
  using power_int_strict_increasing [of j i "2::real"] power_int_increasing [of i j "2::real"] by force

lemma halved: "2 ^ 53 \<le> x \<Longrightarrow> 2 ^ 52 \<le> x / (2::real)"
  by simp

lemma below: "x \<le> 2 ^ 113 \<Longrightarrow> \<bar>y - x\<bar> \<le> 1 / 2 \<Longrightarrow> y < (2 ^ 114 :: real)"
  by (drule abs_le_D1) simp

lemma bits_0 [simp]: "bits 0 = 0"
  by (simp add: bits.simps)

lemma bits_bounds: "n < 2 ^ bits n \<and> (0 < n \<longrightarrow> 2 ^ bits n \<le> 2 * n)"
proof (induction n rule: bits.induct)
  case (1 n)
  show ?case
  proof (cases "n = 0")
    case False
    then have "n div 2 < 2 ^ bits (n div 2)" and "0 < n div 2 \<longrightarrow> 2 ^ bits (n div 2) \<le> 2 * (n div 2)"
      using 1 by auto
    moreover have "bits n = Suc (bits (n div 2))" using False by (subst bits.simps) simp
    moreover have "n div 2 = 0 \<Longrightarrow> n = 1" using False by auto
    ultimately show ?thesis by (cases "n div 2 = 0") auto
  qed simp
qed

lemma round_even_near:
  assumes "0 < d"
  shows "\<bar>real (round_even n d) - real n / real d\<bar> \<le> 1 / 2"
proof -
  let ?q = "n div d" and ?r = "n mod d"
  have n: "real n = real ?q * real d + real ?r"
    by (metis div_mult_mod_eq of_nat_add of_nat_mult)
  have r: "?r < d" using assms by simp
  define t where "t = real ?r / real d"
  have v: "real n / real d = real ?q + t"
    using assms by (simp add: n t_def add_divide_distrib)
  have low: "t \<le> 1 / 2" if "2 * ?r \<le> d"
    using that assms by (simp add: t_def field_simps)
  have high: "1 / 2 \<le> t \<and> t < 1" if "d \<le> 2 * ?r"
    using that assms r by (simp add: t_def field_simps)
  have "0 \<le> t" by (simp add: t_def)
  show ?thesis
  proof (cases "2 * ?r > d \<or> 2 * ?r = d \<and> odd ?q")
    case True
    then have "round_even n d = ?q + 1" by (simp add: round_even_def Let_def)
    with True high show ?thesis by (auto simp: v abs_if)
  next
    case False
    then have "round_even n d = ?q" by (auto simp: round_even_def Let_def)
    moreover have "2 * ?r \<le> d" using False by auto
    ultimately show ?thesis using low \<open>0 \<le> t\<close> by (simp add: v)
  qed
qed

lemma scale_down_value:
  assumes "0 < d" and "scale_down n d e = (a, b)"
  shows "0 < b \<and> real a / real b = real n / real d / 2 powi e"
  using assms by (auto simp: scale_down_def power_int_def field_simps split: if_splits)

text \<open>The exponent chosen leaves at least 53 digits before the point, unless it is the smallest one.\<close>

lemma float_exp_digits:
  assumes "0 < n" and "0 < d" and "- 1074 < float_exp n d"
  shows "2 ^ 52 \<le> real n / real d / 2 powi float_exp n d"
proof -
  define e where "e = int (bits n) - int (bits d) - 53"
  obtain a b where ab: "scale_down n d e = (a, b)" by (cases "scale_down n d e")
  have b: "0 < b" and v: "real a / real b = real n / real d / 2 powi e"
    using scale_down_value [OF assms(2) ab] by auto
  have fe: "float_exp n d = (if b * 2 ^ 53 \<le> a then e + 1 else e)"
    using assms(3) by (simp add: float_exp_def e_def [symmetric] ab Let_def split: if_splits)
  have "(2::real) ^ bits n \<le> 2 * real n"
    using bits_bounds [of n] assms(1) by (metis of_nat_le_iff of_nat_mult of_nat_numeral of_nat_power)
  moreover have "real d \<le> 2 ^ bits d"
    using bits_bounds [of d] by (metis less_imp_le of_nat_le_iff of_nat_numeral of_nat_power)
  ultimately have "(2::real) ^ bits n / 2 / 2 ^ bits d \<le> real n / real d"
    using assms(2) by (intro frac_le) auto
  moreover have "(2::real) ^ bits n / 2 / 2 ^ bits d = 2 ^ 52 * 2 powi e"
    by (simp add: e_def power_int_diff)
  ultimately have "2 ^ 52 * 2 powi e \<le> real n / real d" by simp
  then have low: "2 ^ 52 \<le> real n / real d / 2 powi e"
    by (subst pos_le_divide_eq) simp_all
  show ?thesis
  proof (cases "b * 2 ^ 53 \<le> a")
    case True
    then have "real b * 2 ^ 53 \<le> real a" by (metis of_nat_le_iff of_nat_mult of_nat_numeral of_nat_power)
    then have "2 ^ 53 \<le> real a / real b" using b by (subst pos_le_divide_eq) (simp_all add: mult.commute)
    then have "2 ^ 52 \<le> real n / real d / 2 powi e / 2" unfolding v by (rule halved)
    moreover have "real n / real d / 2 powi (e + 1) = real n / real d / 2 powi e / 2"
      by (simp add: power_int_add)
    ultimately show ?thesis using True by (simp only: fe if_True)
  next
    case False
    with low show ?thesis by (simp only: fe if_False)
  qed
qed

lemma bits_le:
  assumes "n < 2 ^ k"
  shows "bits n \<le> k"
proof (cases "n = 0")
  case False
  then have "(2::nat) ^ bits n < 2 ^ Suc k" using bits_bounds [of n] assms by auto
  then have "bits n < Suc k" by (rule power_less_imp_less_exp [rotated]) simp
  then show ?thesis by simp
qed simp

lemma float_exp_range:
  assumes "0 < n" and "0 < d" and "1 / 128 \<le> real n / real d"
  shows "- 61 \<le> float_exp n d"
proof -
  define e where "e = int (bits n) - int (bits d) - 53"
  have "real n \<le> 2 ^ bits n"
    using bits_bounds [of n] by (metis less_imp_le of_nat_le_iff of_nat_numeral of_nat_power)
  moreover have "(2::real) ^ bits d \<le> 2 * real d"
    using bits_bounds [of d] assms(2) by (metis of_nat_le_iff of_nat_mult of_nat_numeral of_nat_power)
  ultimately have "real n / real d \<le> 2 ^ bits n / (2 ^ bits d / 2)"
    by (intro frac_le) auto
  also have "\<dots> = 2 powi (e + 54)" by (simp add: e_def power_int_diff power_int_add)
  finally have "real n / real d \<le> 2 powi (e + 54)" .
  moreover have "2 powi (- 7) = (1 / 128 :: real)" by (simp add: power_int_def power_divide)
  ultimately have "2 powi (- 7) \<le> (2::real) powi (e + 54)" using assms(3) by linarith
  then have "- 7 \<le> e + 54" by (simp only: powi_le_iff)
  moreover have "e \<le> float_exp n d"
    by (auto simp: float_exp_def e_def [symmetric] Let_def split: prod.splits)
  ultimately show ?thesis by simp
qed

text \<open>The float nearest to a number between 1/128 and \<open>2 ^ 52\<close>.\<close>

lemma float_of_ratio_near:
  assumes "0 < d" and "1 / 128 \<le> real n / real d" and "real n / real d \<le> 2 ^ 52"
  shows "\<exists>m e. float_of_ratio n d = Finite (int m) e
    \<and> \<bar>real m * 2 powi e - real n / real d\<bar> \<le> real n / real d / 2 ^ 53"
proof -
  have n: "0 < n" using assms by (cases "n = 0") auto
  define e where "e = float_exp n d"
  obtain a b where ab: "scale_down n d e = (a, b)" by (cases "scale_down n d e")
  have b: "0 < b" and v: "real a / real b = real n / real d / 2 powi e"
    using scale_down_value [OF assms(1) ab] by auto
  define m where "m = round_even a b"
  have low: "- 61 \<le> e" using float_exp_range [OF n assms(1,2)] by (simp add: e_def)
  have "2 ^ 52 \<le> real n / real d / 2 powi e"
    using float_exp_digits [OF n assms(1)] low by (simp add: e_def)
  then have p: "2 ^ 52 * 2 powi e \<le> real n / real d" by (subst (asm) pos_le_divide_eq) simp_all
  with assms(3) have "2 powi e \<le> (2::real) powi 0" by simp
  then have high: "e \<le> 0" by (simp only: powi_le_iff)
  have near: "\<bar>real m - real n / real d / 2 powi e\<bar> \<le> 1 / 2"
    using round_even_near [OF b, of a] by (simp add: m_def v)
  have "real m < 2 ^ 114"
  proof -
    have "real n / real d / 2 powi e \<le> 2 ^ 52 / 2 powi (- 61)"
      using assms(3) low by (intro frac_le) (simp_all only: powi_le_iff, simp_all)
    also have "\<dots> = 2 ^ 113" by (simp add: power_int_def power_divide)
    finally show ?thesis using near by (rule below)
  qed
  then have "m < 2 ^ 114" by (metis of_nat_less_iff of_nat_numeral of_nat_power)
  then have "bits m \<le> 114" by (rule bits_le)
  moreover have "nat (e + 1074) \<le> 1074" using high by simp
  ultimately have "float_of_ratio n d = Finite (int m) e"
    using n by (simp add: float_of_ratio_def e_def [symmetric] ab m_def [symmetric] Let_def)
  moreover have "\<bar>real m * 2 powi e - real n / real d\<bar> \<le> real n / real d / 2 ^ 53"
  proof -
    have "real m * 2 powi e - real n / real d = (real m - real n / real d / 2 powi e) * 2 powi e"
      by (simp add: left_diff_distrib)
    then have "\<bar>real m * 2 powi e - real n / real d\<bar> = \<bar>real m - real n / real d / 2 powi e\<bar> * 2 powi e"
      by (simp add: abs_mult)
    also have "\<dots> \<le> 1 / 2 * 2 powi e" using near by (intro mult_right_mono) auto
    finally show ?thesis using p by simp
  qed
  ultimately show ?thesis by blast
qed

section \<open>Prices in whole cents\<close>

lemma trunc_int_floor: "0 \<le> m \<Longrightarrow> trunc_int m e = \<lfloor>real_of_int m * 2 powi e\<rfloor>"
proof (cases "0 \<le> e")
  case True
  then have "real_of_int m * 2 powi e = real_of_int (m * 2 ^ nat e)" by (simp add: power_int_def)
  then show ?thesis using True by (simp add: trunc_int_def del: of_int_mult)
next
  case False
  assume "0 \<le> m"
  have "real_of_int m * 2 powi e = real_of_int m / real_of_int (2 ^ nat (- e))"
    using False by (simp add: power_int_def field_simps)
  then show ?thesis using False \<open>0 \<le> m\<close>
    by (simp only: trunc_int_def floor_divide_of_int_eq if_False if_True)
qed

lemma float_of_dyadic_near:
  assumes "1 / 128 \<le> real k * 2 powi e" and "real k * 2 powi e \<le> 2 ^ 52"
  shows "\<exists>m' e'. float_of_dyadic k e = Finite (int m') e'
    \<and> \<bar>real m' * 2 powi e' - real k * 2 powi e\<bar> \<le> real k * 2 powi e / 2 ^ 53"
proof (cases "0 \<le> e")
  case True
  then have v: "real (k * 2 ^ nat e) / real 1 = real k * 2 powi e" by (simp add: power_int_def)
  show ?thesis using float_of_ratio_near [of 1 "k * 2 ^ nat e"] assms True
    unfolding v float_of_dyadic_def by simp
next
  case False
  then have v: "real k / real (2 ^ nat (- e)) = real k * 2 powi e" by (simp add: power_int_def field_simps)
  show ?thesis using float_of_ratio_near [of "2 ^ nat (- e)" k] assms False
    unfolding v float_of_dyadic_def by simp
qed

text \<open>A price of \<open>n / d\<close> that is \<open>c\<close> cents.\<close>

lemma priceCents_whole:
  assumes "0 < d" and "n * 100 = c * d" and "c \<le> 2 ^ 50"
  shows "priceCents cx (float_of_ratio n d) = int c \<or> priceCents cx (float_of_ratio n d) = int c - 1"
proof (cases "c = 0")
  case True
  then have "n = 0" using assms by simp
  then show ?thesis using True
    by (simp add: priceCents_def float_times_def float_of_ratio_def float_zero_def float_of_dyadic_def
        trunc_int_def in_int64_def)
next
  case False
  define v where "v = real n / real d"
  have v: "100 * v = real c"
  proof -
    have "real n * 100 = real c * real d" using assms(2) by (metis of_nat_mult of_nat_numeral)
    then show ?thesis using assms(1) by (simp add: v_def field_simps)
  qed
  have c: "1 \<le> real c \<and> real c \<le> 2 ^ 50"
    using False assms(3) by auto
  obtain m e where f: "float_of_ratio n d = Finite (int m) e"
    and f_near: "\<bar>real m * 2 powi e - v\<bar> \<le> v / 2 ^ 53"
    using float_of_ratio_near [OF assms(1), of n] c v unfolding v_def [symmetric] by auto
  define x where "x = real (m * 100) * 2 powi e"
  have "\<bar>x - real c\<bar> \<le> real c / 2 ^ 53"
  proof -
    have "x - real c = 100 * (real m * 2 powi e - v)" by (simp add: x_def v [symmetric] algebra_simps)
    then have "\<bar>x - real c\<bar> = 100 * \<bar>real m * 2 powi e - v\<bar>" by (simp only: abs_mult abs_numeral)
    with f_near v show ?thesis by simp
  qed
  moreover have "real c / 2 ^ 53 \<le> 1 / 8" using c by simp
  ultimately have x_close: "\<bar>x - real c\<bar> \<le> 1 / 8" by (rule order_trans)
  have x_range: "1 / 128 \<le> x" "x \<le> 2 ^ 52" using abs_le_D1 [OF x_close] abs_le_D2 [OF x_close] c by simp_all
  obtain m' e' where g: "float_of_dyadic (m * 100) e = Finite (int m') e'"
    and g_near: "\<bar>real m' * 2 powi e' - x\<bar> \<le> x / 2 ^ 53"
    using float_of_dyadic_near [of "m * 100" e] x_range unfolding x_def [symmetric] by auto
  define y where "y = real m' * 2 powi e'"
  have y: "real c - 1 < y" "y < real c + 1"
  proof -
    have "x / 2 ^ 53 \<le> 1 / 2" using x_range by simp
    with g_near have "\<bar>y - x\<bar> \<le> 1 / 2" unfolding y_def by (rule order_trans)
    then show "real c - 1 < y" "y < real c + 1" using x_close by (simp_all only: abs_le_iff) simp_all
  qed
  have t: "trunc_int (int m') e' = \<lfloor>y\<rfloor>" by (simp add: trunc_int_floor y_def)
  have "\<lfloor>y\<rfloor> = int c \<or> \<lfloor>y\<rfloor> = int c - 1" using y by linarith
  moreover have "in_int64 (int c)" "in_int64 (int c - 1)" using assms(3) by (simp_all add: in_int64_def)
  ultimately show ?thesis
    by (auto simp: priceCents_def float_times_def f g t nat_mult_distrib)
qed

text \<open>
  C37: The amount of an offer whose price is written with two digits for the cents, up to
  \<open>2 ^ 50\<close> cents, is the price in cents or one cent less: twenty-nine cents become twenty-eight.
\<close>

theorem compileOffer_amount:
  assumes "list_all ascii_digit whole" and "list_all ascii_digit cents" and "length cents = 2"
    and "off_Price node = fst (ParseFloat (whole @ ''.'' @ cents))"
    and "digits_val (whole @ cents) \<le> 2 ^ 50"
  shows "ofr_Amount (fst (run_state (compileOffer cx node) s))
      \<in> {int (digits_val (whole @ cents)), int (digits_val (whole @ cents)) - 1}"
proof -
  have dot: "\<not> ascii_digit CHR ''.''" by (simp add: ascii_digit_def)
  have "takeWhile ascii_digit (whole @ ''.'' @ cents) = whole"
    using assms(1) dot by (simp add: list_all_iff takeWhile_append2)
  then have "off_Price node = float_of_ratio (digits_val (whole @ cents)) 100"
    using assms(2-4) by (auto simp: ParseFloat_def Let_def)
  then show ?thesis
    using priceCents_whole [of 100 "digits_val (whole @ cents)" "digits_val (whole @ cents)" cx] assms(5)
    by (auto simp: compileOffer_def split_beta)
qed

definition cheap_offer :: OfferDeclNode where
  "cheap_offer = zero_OfferDeclNode\<lparr>off_Price := fst (ParseFloat ''0.29'')\<rparr>"

lemma compileOffer_amount_witness:
  "ofr_Amount (fst (run_state (compileOffer demo_context cheap_offer) (NewCompiler 1 0 ''x''))) \<in> {29, 28}"
proof -
  have "digits_val (''0'' @ ''29'') = 29" by code_simp
  with compileOffer_amount [of "''0''" "''29''" cheap_offer demo_context "NewCompiler 1 0 ''x''"]
  show ?thesis by (simp add: cheap_offer_def ascii_digit_def)
qed

lemma cent_lost: "priceCents cx (float_of_ratio 1999 100) = 1998"
  by (simp add: priceCents_def float_of_ratio_def float_exp_def scale_down_def round_even_def
      float_times_def float_of_dyadic_def trunc_int_def in_int64_def bits.simps [of "numeral w" for w]
      bits.simps [of "Suc 0"] Let_def)

text \<open>An offer of 19.99 is an offer of 1998 cents.\<close>

theorem compileOffer_cent_lost:
  "ofr_Amount (fst (run_state (compileOffer cx (node\<lparr>off_Price := fst (ParseFloat ''19.99'')\<rparr>)) s)) = 1998"
proof -
  have "digits_val ''1999'' = 1999" by code_simp
  then have "fst (ParseFloat ''19.99'') = float_of_ratio 1999 100"
    by (simp add: ParseFloat_def ascii_digit_def Let_def)
  then show ?thesis by (simp add: compileOffer_def split_beta cent_lost)
qed

end
