(* ===== verification/Engine.thy ===== *)
theory Engine
  imports StoryGraph Mail Mongo
begin

text \<open>
  The story engine (\<open>src/routes/story_engine.go\<close>) and the click trigger of
  \<open>src/routes/tracking.go\<close>: sessions, the start command, the advancement of a session and
  the sweep. A handler is a function on the collections it writes (\<open>World\<close>); the documents
  it only reads are a \<open>Store\<close>. Packages outside this repository (the send authority, the
  mailer, the id generators) are the fields of \<open>Outside\<close>. A \<open>Run\<close> holds what one execution
  meets: the time and which of its writes and sends succeed.

  A time is a number of nanoseconds; BSON keeps milliseconds.
\<close>

section \<open>State\<close>

datatype Status = Active | Completed | Superseded

record StorySession =
  ss_Id :: ObjectId
  ss_PublicId :: string
  ss_UserPublicId :: string
  ss_SubscriberId :: string
  ss_StoryId :: ObjectId
  ss_StoryName :: string
  ss_StorylineIdx :: nat
  ss_EnactmentIdx :: nat
  ss_SentAt :: int
  ss_WaitSeconds :: int
  ss_NextAction :: string
  ss_Status :: Status
  ss_CommandKey :: string
  ss_CreatedAt :: int

record EmailSend =
  es_PublicId :: string
  es_TenantID :: "ObjectId option"
  es_To :: string
  es_Subject :: string
  es_ContactPublicID :: string
  es_StoryPublicID :: string
  es_StoryName :: string
  es_StorylineIdx :: nat
  es_EnactmentIdx :: nat
  es_MessageID :: string

record Email =
  em_From :: string
  em_To :: string
  em_Raw :: string

record World =
  w_oids :: nat
  w_pids :: nat
  w_sessions :: "StorySession list"
  w_emailSends :: "EmailSend list"
  w_outbox :: "Email list"

record AuthRequest =
  aq_TenantID :: "ObjectId option"
  aq_Email :: string
  aq_Purpose :: string
  aq_UnsubURL :: string

record Outside =
  ox_OnSent :: string
  ox_OnClick :: string
  ox_authorize :: "AuthRequest \<Rightarrow> bool"
  ox_UnsubURL :: "string \<Rightarrow> string \<Rightarrow> string"
  ox_AppendUnsubFooter :: "string \<Rightarrow> string \<Rightarrow> string \<Rightarrow> string"
  ox_TenantPostalAddress :: "string \<Rightarrow> string"
  ox_ReplyCorrelation :: "string \<Rightarrow> string \<times> string"
  ox_UnsubHeaders :: "string \<Rightarrow> string gomap"
  ox_ObjectIdHex :: "string \<Rightarrow> ObjectId option"
  ox_PublicId :: "nat \<Rightarrow> string"
  ox_PublicBaseURL :: string
  ox_encodeTrackingToken :: "string \<Rightarrow> string \<Rightarrow> string \<Rightarrow> string"

record Run =
  run_sentAt :: int
  run_createdAt :: int
  run_insert :: bool
  run_update :: bool
  run_row :: bool
  run_send :: bool

definition baseURL :: "Outside \<Rightarrow> string" where
  "baseURL ox = (if ox_PublicBaseURL ox = [] then ''http://localhost'' else ox_PublicBaseURL ox)"

section \<open>Sending one step\<close>

definition recordStoryEmailSend ::
  "Outside \<Rightarrow> Run \<Rightarrow> Story \<Rightarrow> string \<Rightarrow> string \<Rightarrow> string \<Rightarrow> string \<Rightarrow> nat \<Rightarrow> nat \<Rightarrow> World \<Rightarrow> EmailSend \<times> World" where
  "recordStoryEmailSend ox run story subscriberId user toEmail subject slIdx enIdx w =
     (let pid = ox_PublicId ox (w_pids w);
          send = \<lparr>es_PublicId = pid,
            es_TenantID = (case sto_TenantID story of None \<Rightarrow> ox_ObjectIdHex ox subscriberId | Some t \<Rightarrow> Some t),
            es_To = toEmail, es_Subject = subject, es_ContactPublicID = user,
            es_StoryPublicID = sto_PublicId story, es_StoryName = sto_Name story,
            es_StorylineIdx = slIdx, es_EnactmentIdx = enIdx,
            es_MessageID = fst (ox_ReplyCorrelation ox pid)\<rparr> in
      (send, w\<lparr>w_pids := Suc (w_pids w),
               w_emailSends := (if run_row run then w_emailSends w @ [send] else w_emailSends w)\<rparr>))"

definition storyReplyHeaders :: "Outside \<Rightarrow> EmailSend \<Rightarrow> string \<Rightarrow> string \<Rightarrow> string \<times> string gomap" where
  "storyReplyHeaders ox send sceneReplyTo unsubURL =
     (let headers = ox_UnsubHeaders ox unsubURL;
          (msgID, verpReplyTo) = ox_ReplyCorrelation ox (es_PublicId send);
          headers = (if msgID \<noteq> [] then gomap_put ''Message-ID'' msgID headers else headers) in
      (if sceneReplyTo = [] then verpReplyTo else sceneReplyTo, headers))"

definition sendStoryEmail ::
  "Run \<Rightarrow> string \<Rightarrow> string \<Rightarrow> string \<Rightarrow> string \<Rightarrow> string \<Rightarrow> string gomap \<Rightarrow> World \<Rightarrow> World" where
  "sendStoryEmail run from to subject htmlBody replyTo headers w =
     (if run_send run then
        w\<lparr>w_outbox := w_outbox w @ [\<lparr>em_From = defaultFrom from, em_To = to,
            em_Raw = storyMessage from to subject htmlBody replyTo headers\<rparr>]\<rparr>
      else w)"

text \<open>The row, the body and the message of one step.\<close>

definition sendScene ::
  "Outside \<Rightarrow> Run \<Rightarrow> Story \<Rightarrow> string \<Rightarrow> string \<Rightarrow> string \<Rightarrow> MessageContent \<Rightarrow> nat \<Rightarrow> nat \<Rightarrow> World \<Rightarrow> World" where
  "sendScene ox run story subscriberId user toEmail content slIdx enIdx w =
     (let (send, w1) = recordStoryEmailSend ox run story subscriberId user toEmail (mc_Subject content) slIdx enIdx w;
          body = RewriteLinksForTracking (ox_encodeTrackingToken ox) (mc_Body content) user (baseURL ox) (es_PublicId send);
          body = injectOpenPixel body (baseURL ox) (es_PublicId send);
          unsubURL = ox_UnsubURL ox (baseURL ox) user;
          body = ox_AppendUnsubFooter ox body unsubURL (ox_TenantPostalAddress ox subscriberId);
          (replyTo, headers) = storyReplyHeaders ox send (mc_ReplyTo content) unsubURL in
      sendStoryEmail run (mc_FromEmail content) toEmail (mc_Subject content) body replyTo headers w1)"

definition userEmail :: "User option \<Rightarrow> string \<Rightarrow> string" where
  "userEmail user pid =
     (case user of
        Some u \<Rightarrow> if usr_Email u \<noteq> [] then usr_Email u else pid @ ''@story.internal''
      | None \<Rightarrow> pid @ ''@story.internal'')"

definition findUser :: "Store \<Rightarrow> string \<Rightarrow> User option" where
  "findUser db pid = find (\<lambda>u. usr_PublicId u = pid) (db_Users db)"

definition authorized :: "Outside \<Rightarrow> string \<Rightarrow> string \<Rightarrow> string \<Rightarrow> bool" where
  "authorized ox subscriberId user toEmail =
     ox_authorize ox \<lparr>aq_TenantID = ox_ObjectIdHex ox subscriberId, aq_Email = toEmail,
       aq_Purpose = ''story'', aq_UnsubURL = ox_UnsubURL ox (baseURL ox) user\<rparr>"

section \<open>Starting a story\<close>

datatype StartError =
  StoryNotFound | NoStorylines | NoEnactments | NoScene | NoContent | SendRefused | InsertFailed

text \<open>What a start command is about to do once its checks have passed.\<close>

record StartPlan =
  sp_Story :: Story
  sp_Content :: MessageContent
  sp_ToEmail :: string
  sp_Wait :: int
  sp_Next :: string

definition planStart :: "Outside \<Rightarrow> Store \<Rightarrow> string \<Rightarrow> string \<Rightarrow> string \<Rightarrow> StartError + StartPlan" where
  "planStart ox db storyName subscriberId user =
     (let stories = filter (\<lambda>s. sto_Name s = storyName \<and> sto_SubscriberId s = subscriberId) (db_Stories db) in
      if stories = [] then Inl StoryNotFound
      else
        (let story = hydrateStoryGraph db (last stories) in
         case sto_Storylines story of
           [] \<Rightarrow> Inl NoStorylines
         | sl # _ \<Rightarrow>
             (case stl_Acts sl of
                [] \<Rightarrow> Inl NoEnactments
              | en # _ \<Rightarrow>
                  (case getSceneFromEnactment en 0 of
                     None \<Rightarrow> Inl NoScene
                   | Some scene \<Rightarrow>
                       (case getSceneContent scene of
                          None \<Rightarrow> Inl NoContent
                        | Some content \<Rightarrow>
                            (let toEmail = userEmail (findUser db user) user;
                                 (wait, next) = getOnSentWait (ox_OnSent ox) en in
                             if \<not> authorized ox subscriberId user toEmail then Inl SendRefused
                             else Inr \<lparr>sp_Story = story, sp_Content = content, sp_ToEmail = toEmail,
                                        sp_Wait = wait, sp_Next = next\<rparr>))))))"

definition newSession :: "Outside \<Rightarrow> Run \<Rightarrow> StartPlan \<Rightarrow> string \<Rightarrow> string \<Rightarrow> string \<Rightarrow> string \<Rightarrow> World \<Rightarrow> StorySession" where
  "newSession ox run plan storyName subscriberId user key w =
     \<lparr>ss_Id = Oid (w_oids w), ss_PublicId = ox_PublicId ox (w_pids w), ss_UserPublicId = user,
      ss_SubscriberId = subscriberId, ss_StoryId = sto_Id (sp_Story plan), ss_StoryName = storyName,
      ss_StorylineIdx = 0, ss_EnactmentIdx = 0, ss_SentAt = run_sentAt run,
      ss_WaitSeconds = sp_Wait plan, ss_NextAction = sp_Next plan, ss_Status = Active,
      ss_CommandKey = key, ss_CreatedAt = run_createdAt run\<rparr>"

text \<open>The sparse unique index: rows without a command key are not indexed.\<close>

definition duplicateKey :: "StorySession \<Rightarrow> World \<Rightarrow> bool" where
  "duplicateKey s w \<longleftrightarrow>
     ss_CommandKey s \<noteq> [] \<and> list_ex (\<lambda>t. ss_CommandKey t = ss_CommandKey s) (w_sessions w)"

definition insertSession :: "StorySession \<Rightarrow> World \<Rightarrow> World" where
  "insertSession s w =
     w\<lparr>w_sessions := w_sessions w @
         [s\<lparr>ss_SentAt := bsonTime (ss_SentAt s), ss_CreatedAt := bsonTime (ss_CreatedAt s)\<rparr>]\<rparr>"

definition supersedeOthers :: "string \<Rightarrow> string \<Rightarrow> ObjectId \<Rightarrow> World \<Rightarrow> World" where
  "supersedeOthers user storyName i w =
     w\<lparr>w_sessions := map (\<lambda>s.
         if ss_UserPublicId s = user \<and> ss_StoryName s = storyName \<and> ss_Status s = Active \<and> ss_Id s \<noteq> i
         then s\<lparr>ss_Status := Superseded\<rparr> else s) (w_sessions w)\<rparr>"

definition takeIds :: "World \<Rightarrow> World" where
  "takeIds w = w\<lparr>w_oids := Suc (w_oids w), w_pids := Suc (w_pids w)\<rparr>"

definition StartStoryForUserCmd ::
  "Outside \<Rightarrow> Store \<Rightarrow> Run \<Rightarrow> string \<Rightarrow> string \<Rightarrow> string \<Rightarrow> string \<Rightarrow> World \<Rightarrow> StartError option \<times> World" where
  "StartStoryForUserCmd ox db run storyName subscriberId user key w =
     (case planStart ox db storyName subscriberId user of
        Inl e \<Rightarrow> (Some e, w)
      | Inr plan \<Rightarrow>
          (let session = newSession ox run plan storyName subscriberId user key w;
               w = takeIds w in
           if \<not> run_insert run then (Some InsertFailed, w)
           else if duplicateKey session w then (None, w)
           else
             (let w = insertSession session w;
                  w = (if run_update run then supersedeOthers user storyName (ss_Id session) w else w) in
              (None, sendScene ox run (sp_Story plan) subscriberId user (sp_ToEmail plan) (sp_Content plan) 0 0 w))))"

definition StartStoryForUser ::
  "Outside \<Rightarrow> Store \<Rightarrow> Run \<Rightarrow> string \<Rightarrow> string \<Rightarrow> string \<Rightarrow> World \<Rightarrow> StartError option \<times> World" where
  "StartStoryForUser ox db run storyName subscriberId user w =
     StartStoryForUserCmd ox db run storyName subscriberId user [] w"

section \<open>Advancing a session\<close>

definition markSessionComplete :: "Run \<Rightarrow> StorySession \<Rightarrow> World \<Rightarrow> World" where
  "markSessionComplete run s w =
     (if run_update run then
        (case updateFirst (\<lambda>t. ss_PublicId t = ss_PublicId s) (\<lambda>t. t\<lparr>ss_Status := Completed\<rparr>) (w_sessions w) of
           None \<Rightarrow> w | Some sessions \<Rightarrow> w\<lparr>w_sessions := sessions\<rparr>)
      else w)"

record StepPlan =
  st_plan_Story :: Story
  st_plan_Content :: MessageContent
  st_plan_ToEmail :: string
  st_plan_Idx :: nat
  st_plan_Wait :: int
  st_plan_Next :: string

datatype Decision = Ignore | Complete | Step StepPlan

definition planAdvance :: "Outside \<Rightarrow> Store \<Rightarrow> StorySession \<Rightarrow> Decision" where
  "planAdvance ox db s =
     (if ss_NextAction s \<noteq> ''next_scene'' then Complete
      else
        (case find (\<lambda>st. sto_Id st = ss_StoryId s) (db_Stories db) of
           None \<Rightarrow> Ignore
         | Some st \<Rightarrow>
             (let story = hydrateStoryGraph db st; nextIdx = ss_EnactmentIdx s + 1 in
              if ss_StorylineIdx s \<ge> length (sto_Storylines story) then Complete
              else
                (let sl = sto_Storylines story ! ss_StorylineIdx s in
                 if nextIdx \<ge> length (stl_Acts sl) then Complete
                 else
                   (let en = stl_Acts sl ! nextIdx in
                    case Option.bind (getSceneFromEnactment en 0) getSceneContent of
                      None \<Rightarrow> Complete
                    | Some content \<Rightarrow>
                        (let user = findUser db (ss_UserPublicId s) in
                         if Option.bind user usr_UnsubscribedAt \<noteq> None then Complete
                         else
                           (let (wait, next) = getOnSentWait (ox_OnSent ox) en in
                            Step \<lparr>st_plan_Story = story, st_plan_Content = content,
                                  st_plan_ToEmail = userEmail user (ss_UserPublicId s),
                                  st_plan_Idx = nextIdx, st_plan_Wait = wait, st_plan_Next = next\<rparr>)))))))"

definition moveTo :: "Run \<Rightarrow> StepPlan \<Rightarrow> StorySession \<Rightarrow> StorySession" where
  "moveTo run plan t =
     t\<lparr>ss_EnactmentIdx := st_plan_Idx plan, ss_SentAt := bsonTime (run_sentAt run),
       ss_WaitSeconds := st_plan_Wait plan, ss_NextAction := st_plan_Next plan\<rparr>"

text \<open>The compare-and-set before the send: None when another actor has moved the session.\<close>

definition claimStep :: "Run \<Rightarrow> StorySession \<Rightarrow> StepPlan \<Rightarrow> World \<Rightarrow> World option" where
  "claimStep run s plan w =
     (if run_update run then
        map_option (\<lambda>sessions. w\<lparr>w_sessions := sessions\<rparr>)
          (updateFirst
            (\<lambda>t. ss_PublicId t = ss_PublicId s \<and> ss_Status t = Active
               \<and> ss_EnactmentIdx t = ss_EnactmentIdx s \<and> ss_SentAt t = ss_SentAt s)
            (moveTo run plan)
            (w_sessions w))
      else None)"

definition sendStep :: "Outside \<Rightarrow> Run \<Rightarrow> StorySession \<Rightarrow> StepPlan \<Rightarrow> World \<Rightarrow> World" where
  "sendStep ox run s plan w =
     (if authorized ox (ss_SubscriberId s) (ss_UserPublicId s) (st_plan_ToEmail plan)
      then sendScene ox run (st_plan_Story plan) (ss_SubscriberId s) (ss_UserPublicId s)
             (st_plan_ToEmail plan) (st_plan_Content plan) (ss_StorylineIdx s) (st_plan_Idx plan) w
      else w)"

definition advanceSession :: "Outside \<Rightarrow> Store \<Rightarrow> Run \<Rightarrow> StorySession \<Rightarrow> World \<Rightarrow> World" where
  "advanceSession ox db run s w =
     (case planAdvance ox db s of
        Ignore \<Rightarrow> w
      | Complete \<Rightarrow> markSessionComplete run s w
      | Step plan \<Rightarrow>
          (case claimStep run s plan w of
             None \<Rightarrow> w
           | Some w' \<Rightarrow> sendStep ox run s plan w'))"

definition expired :: "int \<Rightarrow> StorySession \<Rightarrow> bool" where
  "expired now s \<longleftrightarrow> \<not> now < ss_SentAt s + wrap64 (ss_WaitSeconds s * 1000000000)"

text \<open>One pass of the sweep: the sessions are read first, each is advanced with its own run.\<close>

definition advanceExpiredSessions ::
  "Outside \<Rightarrow> Store \<Rightarrow> (nat \<Rightarrow> Run) \<Rightarrow> int \<Rightarrow> World \<Rightarrow> World" where
  "advanceExpiredSessions ox db runs now w =
     foldl (\<lambda>w (i, s). if expired now s then advanceSession ox db (runs i) s w else w) w
       (let active = filter (\<lambda>s. ss_Status s = Active) (w_sessions w) in zip [0..<length active] active)"

definition rewindSession :: "int \<Rightarrow> StorySession \<Rightarrow> World \<Rightarrow> World" where
  "rewindSession seconds s w =
     (case updateFirst (\<lambda>t. ss_Id t = ss_Id s)
        (\<lambda>t. t\<lparr>ss_SentAt := bsonTime (ss_SentAt s + wrap64 (wrap64 (- seconds) * 1000000000))\<rparr>) (w_sessions w) of
        None \<Rightarrow> w | Some sessions \<Rightarrow> w\<lparr>w_sessions := sessions\<rparr>)"

text \<open>The test hook; None is the answer 400.\<close>

definition HandleTestTickStories ::
  "Outside \<Rightarrow> Store \<Rightarrow> (nat \<Rightarrow> Run) \<Rightarrow> int \<Rightarrow> int \<Rightarrow> string \<Rightarrow> World \<Rightarrow> World option" where
  "HandleTestTickStories ox db runs now seconds user w =
     (if seconds \<le> 0 then None
      else
        (let sessions = filter (\<lambda>s. ss_Status s = Active \<and> (user = [] \<or> ss_UserPublicId s = user)) (w_sessions w) in
         Some (advanceExpiredSessions ox db runs now (foldl (\<lambda>w s. rewindSession seconds s w) w sessions))))"

section \<open>Clicks\<close>

definition clickMatches :: "Outside \<Rightarrow> string \<Rightarrow> Trigger \<Rightarrow> bool" where
  "clickMatches ox url tr \<longleftrightarrow>
     trg_TriggerType tr = ox_OnClick ox \<and> trg_UserActionValue tr \<noteq> []
     \<and> contains_str (trg_UserActionValue tr) url"

definition fireClickTrigger :: "Outside \<Rightarrow> Store \<Rightarrow> Run \<Rightarrow> string \<Rightarrow> string \<Rightarrow> World \<Rightarrow> World" where
  "fireClickTrigger ox db run user url w =
     (case find (\<lambda>s. ss_UserPublicId s = user \<and> ss_Status s = Active) (w_sessions w) of
        None \<Rightarrow> w
      | Some s \<Rightarrow>
          (case find (\<lambda>st. sto_Id st = ss_StoryId s) (db_Stories db) of
             None \<Rightarrow> w
           | Some st \<Rightarrow>
               (let story = hydrateStoryGraph db st in
                if ss_StorylineIdx s \<ge> length (sto_Storylines story) then w
                else
                  (let acts = stl_Acts (sto_Storylines story ! ss_StorylineIdx s) in
                   if ss_EnactmentIdx s \<ge> length acts then w
                   else
                     (case find (clickMatches ox url) (concat (map snd (ent_OnEvent (acts ! ss_EnactmentIdx s)))) of
                        None \<Rightarrow> w
                      | Some tr \<Rightarrow>
                          (case trg_DoAction tr of
                             None \<Rightarrow> w
                           | Some a \<Rightarrow>
                               (if prefix ''mark_complete'' (act_ActionName a) then markSessionComplete run s w
                                else if prefix ''next_scene'' (act_ActionName a)
                                then advanceSession ox db run (s\<lparr>ss_NextAction := ''next_scene''\<rparr>) w
                                else w)))))))"

end
