(* ===== verification/EngineProps.thy ===== *)
theory EngineProps
  imports Engine
begin

text \<open>
  One command at a time: what a start command does on every path, and that a session which
  keeps being advanced comes to its end.
\<close>

section \<open>Sends leave the sessions alone\<close>

lemma sendScene_sessions [simp]: "w_sessions (sendScene ox run st sub user to c i j w) = w_sessions w"
  by (simp add: sendScene_def recordStoryEmailSend_def sendStoryEmail_def Let_def split_beta)

lemma sendStep_sessions [simp]: "w_sessions (sendStep ox run s plan w) = w_sessions w"
  by (simp add: sendStep_def)

lemma takeIds_fields [simp]:
  "w_sessions (takeIds w) = w_sessions w" "w_emailSends (takeIds w) = w_emailSends w"
  "w_outbox (takeIds w) = w_outbox w" "w_oids (takeIds w) = Suc (w_oids w)" "w_pids (takeIds w) = Suc (w_pids w)"
  by (simp_all add: takeIds_def)

lemma duplicateKey_takeIds [simp]: "duplicateKey s (takeIds w) = duplicateKey s w"
  by (simp add: duplicateKey_def)

lemma newSession_fields [simp]:
  "ss_CommandKey (newSession ox run plan name sub user key w) = key"
  "ss_Id (newSession ox run plan name sub user key w) = Oid (w_oids w)"
  "ss_PublicId (newSession ox run plan name sub user key w) = ox_PublicId ox (w_pids w)"
  "ss_Status (newSession ox run plan name sub user key w) = Active"
  "ss_UserPublicId (newSession ox run plan name sub user key w) = user"
  "ss_StoryName (newSession ox run plan name sub user key w) = name"
  "ss_EnactmentIdx (newSession ox run plan name sub user key w) = 0"
  by (simp_all add: newSession_def)

text \<open>What the world holds that a user can see: sessions, tracking rows and mails.\<close>

definition visible :: "World \<Rightarrow> StorySession list \<times> EmailSend list \<times> Email list" where
  "visible w = (w_sessions w, w_emailSends w, w_outbox w)"

lemma visible_takeIds [simp]: "visible (takeIds w) = visible w"
  by (simp add: visible_def)

section \<open>Starting\<close>

text \<open>
  A start command that fails leaves no trace: whatever the reason, no session is added
  or superseded, no tracking row is written and no mail is sent.
\<close>

theorem start_fails_without_trace:
  assumes "fst (StartStoryForUserCmd ox db run name sub user key w) \<noteq> None"
  shows "visible (snd (StartStoryForUserCmd ox db run name sub user key w)) = visible w"
  using assms by (auto simp: StartStoryForUserCmd_def Let_def split: sum.splits if_splits)

text \<open>
  A start command is idempotent: when a session carries its command key already, running
  it again, at any time and whatever succeeds or fails, changes no session, writes no row and
  sends nothing.
\<close>

theorem start_replay:
  assumes "key \<noteq> []" and "list_ex (\<lambda>t. ss_CommandKey t = key) (w_sessions w)"
  shows "visible (snd (StartStoryForUserCmd ox db run name sub user key w)) = visible w"
  using assms
  by (auto simp: StartStoryForUserCmd_def Let_def duplicateKey_def split: sum.splits)

definition active_in :: "string \<Rightarrow> string \<Rightarrow> World \<Rightarrow> StorySession list" where
  "active_in user name w =
     filter (\<lambda>s. ss_UserPublicId s = user \<and> ss_StoryName s = name \<and> ss_Status s = Active) (w_sessions w)"

lemma filter_map_inactive:
  assumes "list_all (\<lambda>s. ss_Id s \<noteq> i) ss"
  shows "filter (\<lambda>s. ss_UserPublicId s = user \<and> ss_StoryName s = name \<and> ss_Status s = Active)
    (map (\<lambda>s. if ss_UserPublicId s = user \<and> ss_StoryName s = name \<and> ss_Status s = Active \<and> ss_Id s \<noteq> i
              then s\<lparr>ss_Status := Superseded\<rparr> else s) ss) = []"
  using assms by (induction ss) auto

text \<open>
  A start command that goes through leaves the user with exactly one active session of
  the story, the new one at the first step, waiting as long as that step says.
\<close>

theorem start_one_active:
  assumes "planStart ox db name sub user = Inr plan" and "run_insert run" and "run_update run"
    and "\<not> (key \<noteq> [] \<and> list_ex (\<lambda>t. ss_CommandKey t = key) (w_sessions w))"
    and "list_all (\<lambda>t. ss_Id t \<noteq> Oid (w_oids w)) (w_sessions w)"
  shows "let (err, w') = StartStoryForUserCmd ox db run name sub user key w in
    err = None \<and> (\<exists>s. active_in user name w' = [s] \<and> ss_EnactmentIdx s = 0 \<and> ss_CommandKey s = key
      \<and> ss_WaitSeconds s = sp_Wait plan \<and> ss_NextAction s = sp_Next plan)"
proof -
  let ?s = "newSession ox run plan name sub user key w"
  have dup: "\<not> duplicateKey ?s w" using assms(4) by (simp add: duplicateKey_def)
  have "active_in user name (supersedeOthers user name (ss_Id ?s) (insertSession ?s (takeIds w)))
      = [?s\<lparr>ss_SentAt := bsonTime (ss_SentAt ?s), ss_CreatedAt := bsonTime (ss_CreatedAt ?s)\<rparr>]"
    using assms(5)
    by (simp add: active_in_def supersedeOthers_def insertSession_def filter_map_inactive)
  then show ?thesis
    using assms(1-3) dup
    by (simp add: StartStoryForUserCmd_def Let_def active_in_def newSession_def)
qed

section \<open>Updating one session\<close>

text \<open>The session with a public id.\<close>

definition session_of :: "string \<Rightarrow> World \<Rightarrow> StorySession option" where
  "session_of pid w = find (\<lambda>t. ss_PublicId t = pid) (w_sessions w)"

lemma session_of_split:
  "session_of pid w = Some s \<longleftrightarrow>
   (\<exists>as bs. w_sessions w = as @ s # bs \<and> ss_PublicId s = pid \<and> list_all (\<lambda>t. ss_PublicId t \<noteq> pid) as)"
proof
  assume "session_of pid w = Some s"
  then obtain i where i: "i < length (w_sessions w)" "ss_PublicId (w_sessions w ! i) = pid" "s = w_sessions w ! i"
    "\<And>j. j < i \<Longrightarrow> ss_PublicId (w_sessions w ! j) \<noteq> pid"
    by (auto simp: session_of_def find_Some_iff)
  then show "\<exists>as bs. w_sessions w = as @ s # bs \<and> ss_PublicId s = pid \<and> list_all (\<lambda>t. ss_PublicId t \<noteq> pid) as"
    by (intro exI [of _ "take i (w_sessions w)"] exI [of _ "drop (Suc i) (w_sessions w)"])
      (auto simp: id_take_nth_drop [symmetric] list_all_length)
next
  assume "\<exists>as bs. w_sessions w = as @ s # bs \<and> ss_PublicId s = pid \<and> list_all (\<lambda>t. ss_PublicId t \<noteq> pid) as"
  then obtain as bs where "w_sessions w = as @ s # bs" "ss_PublicId s = pid" "list_all (\<lambda>t. ss_PublicId t \<noteq> pid) as"
    by blast
  moreover have "find (\<lambda>t. ss_PublicId t = pid) (as @ s # bs) = Some s"
    if "list_all (\<lambda>t. ss_PublicId t \<noteq> pid) as" and "ss_PublicId s = pid" for as
    using that by (induction as) auto
  ultimately show "session_of pid w = Some s" by (simp add: session_of_def)
qed

lemma complete_session:
  assumes "session_of pid w = Some s" and "run_update run"
  shows "session_of pid (markSessionComplete run s w) = Some (s\<lparr>ss_Status := Completed\<rparr>)"
proof -
  obtain as bs where ab: "w_sessions w = as @ s # bs" "ss_PublicId s = pid" "list_all (\<lambda>t. ss_PublicId t \<noteq> pid) as"
    using assms(1) unfolding session_of_split by blast
  then have "updateFirst (\<lambda>t. ss_PublicId t = ss_PublicId s) (\<lambda>t. t\<lparr>ss_Status := Completed\<rparr>) (w_sessions w)
      = Some (as @ s\<lparr>ss_Status := Completed\<rparr> # bs)"
    by (simp add: updateFirst_at)
  then show ?thesis
    using ab(2,3) assms(2) unfolding session_of_split markSessionComplete_def by auto
qed

lemma moveTo_fields [simp]:
  "ss_Id (moveTo run plan s) = ss_Id s" "ss_PublicId (moveTo run plan s) = ss_PublicId s"
  "ss_Status (moveTo run plan s) = ss_Status s" "ss_CommandKey (moveTo run plan s) = ss_CommandKey s"
  "ss_StoryId (moveTo run plan s) = ss_StoryId s" "ss_StorylineIdx (moveTo run plan s) = ss_StorylineIdx s"
  "ss_EnactmentIdx (moveTo run plan s) = st_plan_Idx plan"
  by (simp_all add: moveTo_def)

lemma claim_session:
  assumes "session_of pid w = Some s" and "run_update run" and "ss_Status s = Active"
  shows "\<exists>w'. claimStep run s plan w = Some w'
    \<and> session_of pid w' = Some (moveTo run plan s)"
proof -
  let ?f = "moveTo run plan"
  obtain as bs where ab: "w_sessions w = as @ s # bs" "ss_PublicId s = pid" "list_all (\<lambda>t. ss_PublicId t \<noteq> pid) as"
    using assms(1) unfolding session_of_split by blast
  have "updateFirst (\<lambda>t. ss_PublicId t = ss_PublicId s \<and> ss_Status t = Active
      \<and> ss_EnactmentIdx t = ss_EnactmentIdx s \<and> ss_SentAt t = ss_SentAt s) ?f (w_sessions w) = Some (as @ ?f s # bs)"
    unfolding ab(1) using ab(2,3) assms(3) by (intro updateFirst_at) (auto simp: list_all_iff)
  then show ?thesis
    using ab(2,3) assms(2) unfolding session_of_split claimStep_def by auto
qed

section \<open>Every session comes to its end\<close>

text \<open>Advance a session, if it is still active, several times in a row.\<close>

primrec advances :: "Outside \<Rightarrow> Store \<Rightarrow> (nat \<Rightarrow> Run) \<Rightarrow> nat \<Rightarrow> string \<Rightarrow> World \<Rightarrow> World" where
  "advances ox db runs 0 pid w = w"
| "advances ox db runs (Suc n) pid w =
     (case session_of pid w of
        None \<Rightarrow> w
      | Some s \<Rightarrow>
          if ss_Status s = Active then advances ox db runs n pid (advanceSession ox db (runs n) s w) else w)"

text \<open>The number of steps of the storyline a session is in.\<close>

definition steps_of :: "Store \<Rightarrow> StorySession \<Rightarrow> nat" where
  "steps_of db s =
     (case find (\<lambda>st. sto_Id st = ss_StoryId s) (db_Stories db) of
        None \<Rightarrow> 0
      | Some st \<Rightarrow>
          let sls = sto_Storylines (hydrateStoryGraph db st) in
          if ss_StorylineIdx s < length sls then length (stl_Acts (sls ! ss_StorylineIdx s)) else 0)"

definition story_known :: "Store \<Rightarrow> StorySession \<Rightarrow> bool" where
  "story_known db s \<longleftrightarrow> find (\<lambda>st. sto_Id st = ss_StoryId s) (db_Stories db) \<noteq> None"

lemma planAdvance_Step:
  assumes "planAdvance ox db s = Step plan"
  shows "st_plan_Idx plan = Suc (ss_EnactmentIdx s) \<and> Suc (ss_EnactmentIdx s) < steps_of db s"
  using assms
  by (auto simp: planAdvance_def steps_of_def Let_def split: if_splits option.splits prod.splits)

lemma planAdvance_Ignore: "story_known db s \<Longrightarrow> planAdvance ox db s \<noteq> Ignore"
  by (auto simp: planAdvance_def story_known_def Let_def split: option.splits prod.splits)

lemma steps_of_moveTo [simp]: "steps_of db (moveTo run plan s) = steps_of db s"
  by (simp add: steps_of_def cong: option.case_cong if_cong)

lemma session_of_sendStep [simp]: "session_of pid (sendStep ox run s plan w) = session_of pid w"
  by (simp add: session_of_def)

text \<open>
  C30: A session comes to its end: while its story exists, advancing it over and over, with
  any mixture of refused and failed sends, finishes it after at most as many advances as the
  storyline has steps left, and one when none is left.
\<close>

theorem advances_finish:
  assumes "session_of pid w = Some s" and "story_known db s" and "\<And>i. run_update (runs i)"
    and "steps_of db s \<le> ss_EnactmentIdx s + n" and "0 < n"
  shows "\<exists>s'. session_of pid (advances ox db runs n pid w) = Some s' \<and> ss_Status s' \<noteq> Active"
  using assms(1,2,4,5)
proof (induction n arbitrary: w s)
  case (Suc n)
  show ?case
  proof (cases "ss_Status s = Active")
    case active: True
    consider "planAdvance ox db s = Complete" | plan where "planAdvance ox db s = Step plan"
      using planAdvance_Ignore [OF Suc.prems(2), of ox] by (cases "planAdvance ox db s") auto
    then show ?thesis
    proof cases
      case 1
      have fin: "session_of pid (advances ox db runs n pid v) = Some s'"
        if "session_of pid v = Some s'" and "ss_Status s' = Completed" for v s'
        using that by (cases n) auto
      show ?thesis
        using Suc.prems(1) active 1 fin [OF complete_session [OF Suc.prems(1) assms(3)]]
        by (simp add: advanceSession_def)
    next
      case (2 plan)
      obtain w' where w': "claimStep (runs n) s plan w = Some w'"
        "session_of pid w' = Some (moveTo (runs n) plan s)"
        using claim_session [OF Suc.prems(1) assms(3) active] by blast
      note idx = planAdvance_Step [OF 2]
      have "\<exists>s'. session_of pid (advances ox db runs n pid (sendStep ox (runs n) s plan w')) = Some s' \<and> ss_Status s' \<noteq> Active"
      proof (rule Suc.IH)
        show "0 < n" using idx Suc.prems(3) by simp
        show "story_known db (moveTo (runs n) plan s)"
          using Suc.prems(2) by (simp add: story_known_def)
        show "steps_of db (moveTo (runs n) plan s) \<le> ss_EnactmentIdx (moveTo (runs n) plan s) + n"
          using idx Suc.prems(3) by simp
      qed (simp add: w'(2))
      then show ?thesis
        using Suc.prems(1) active 2 w'(1) by (simp add: advanceSession_def)
    qed
  next
    case False
    with Suc.prems(1) show ?thesis by simp
  qed
qed simp

section \<open>A refused step is lost\<close>

text \<open>
  When the send authority refuses a step, the session has moved on all the same: the step
  is marked as reached, no mail of it is sent and no row is written, and no later advance of
  the session plans it again.
\<close>

theorem refused_step_lost:
  assumes "session_of pid w = Some s" and "ss_Status s = Active" and "run_update run"
    and "planAdvance ox db s = Step plan"
    and "\<not> authorized ox (ss_SubscriberId s) (ss_UserPublicId s) (st_plan_ToEmail plan)"
  shows "let w' = advanceSession ox db run s w in
    w_emailSends w' = w_emailSends w \<and> w_outbox w' = w_outbox w
    \<and> (\<exists>s'. session_of pid w' = Some s' \<and> ss_EnactmentIdx s' = Suc (ss_EnactmentIdx s)
        \<and> (\<forall>db' plan'. planAdvance ox db' s' = Step plan' \<longrightarrow> st_plan_Idx plan' \<noteq> Suc (ss_EnactmentIdx s)))"
proof -
  obtain w' where w': "claimStep run s plan w = Some w'"
    "session_of pid w' = Some (moveTo run plan s)"
    using claim_session [OF assms(1,3,2)] by blast
  have "w_emailSends w' = w_emailSends w" "w_outbox w' = w_outbox w"
    using w'(1) by (auto simp: claimStep_def split: if_splits)
  moreover have "advanceSession ox db run s w = w'"
    using assms(4,5) w'(1) by (simp add: advanceSession_def sendStep_def)
  moreover have "st_plan_Idx plan' \<noteq> Suc (ss_EnactmentIdx s)"
    if "planAdvance ox db' (moveTo run plan s) = Step plan'" for db' plan'
    using planAdvance_Step [OF that] planAdvance_Step [OF assms(4)] by simp
  ultimately show ?thesis
    using w'(2) planAdvance_Step [OF assms(4)] unfolding Let_def
    by (intro conjI exI [of _ "moveTo run plan s"]) auto
qed

section \<open>A small story\<close>

text \<open>A story of two steps with embedded documents, and a world without sessions.\<close>

definition demo_outside :: "bool \<Rightarrow> Outside" where
  "demo_outside allow =
     \<lparr>ox_OnSent = ''OnSent'', ox_OnClick = ''OnClick'', ox_authorize = (\<lambda>r. allow),
      ox_UnsubURL = (\<lambda>base user. base @ ''/u/'' @ user), ox_AppendUnsubFooter = (\<lambda>body url addr. body @ url),
      ox_TenantPostalAddress = (\<lambda>t. []), ox_ReplyCorrelation = (\<lambda>pid. ([], [])),
      ox_UnsubHeaders = (\<lambda>url. [(''List-Unsubscribe'', url)]), ox_ObjectIdHex = (\<lambda>t. None),
      ox_PublicId = itoa_nat, ox_PublicBaseURL = [], ox_encodeTrackingToken = (\<lambda>url user send. [])\<rparr>"

definition demo_run :: Run where
  "demo_run = \<lparr>run_sentAt = 0, run_createdAt = 0, run_insert = True, run_update = True,
     run_row = True, run_send = True\<rparr>"

definition demo_scene :: "string \<Rightarrow> Scene" where
  "demo_scene subject =
     \<lparr>scn_Id = Oid 0, scn_PublicId = subject, scn_SubscriberId = ''t'', scn_CreatorId = Oid 0,
      scn_Name = subject, scn_Message = None, scn_MessageId = None, scn_Subject = subject,
      scn_Body = ''hello'', scn_FromEmail = [], scn_FromName = [], scn_ReplyTo = [],
      scn_Tags = [], scn_TagsIds = None\<rparr>"

definition next_scene_action :: Action where
  "next_scene_action =
     \<lparr>act_Id = Oid 0, act_PublicId = [], act_SubscriberId = ''t'', act_CreatorId = Oid 0,
      act_ActionName = ''next_scene'', act_ExtraActions = [], act_NextEnactment = None,
      act_NextEnactmentId = None, act_AdvanceToNextStoryline = False, act_EndStory = False,
      act_Unsubscribe = False, act_BadgeTransaction = None, act_BadgeTransactionIds = None,
      act_When = Some \<lparr>aw_WaitType = [], aw_WaitUntil = Some \<lparr>tf_Amount = 5, tf_TimeUnit = ''seconds''\<rparr>\<rparr>,
      act_SendImmediate = None\<rparr>"

definition sent_trigger :: Trigger where
  "sent_trigger =
     \<lparr>trg_Id = Oid 0, trg_PublicId = [], trg_SubscriberId = ''t'', trg_CreatorId = Oid 0,
      trg_TriggerType = ''OnSent'', trg_UserAction = [], trg_UserActionValue = [],
      trg_MarkComplete = False, trg_MarkFailed = False, trg_Priority = 0, trg_PersistScope = [],
      trg_RequiredBadges = no_badges, trg_WatchBlockID = [], trg_WatchOperator = [],
      trg_WatchPercent = 0, trg_DoAction = Some next_scene_action, trg_DoActionId = None\<rparr>"

definition demo_act :: "string \<Rightarrow> Enactment" where
  "demo_act name =
     \<lparr>ent_Id = Oid 0, ent_PublicId = name, ent_SubscriberId = ''t'', ent_CreatorId = Oid 0,
      ent_Name = name, ent_Level = 1, ent_NaturalOrder = 1, ent_SkipToNextStorylineOnExpiry = False,
      ent_SendScene = Some (demo_scene name), ent_SendSceneId = None, ent_SendScenes = [],
      ent_SendScenesIds = None, ent_OnEvent = [(''OnSent'', [sent_trigger])], ent_OnEventIds = None\<rparr>"

definition demo_story :: Story where
  "demo_story = (plain_story 1 ''S'' ''t'' [])\<lparr>sto_Storylines :=
     [(plain_storyline 2 ''L'' ''t'' 1)\<lparr>stl_Acts := [demo_act ''one'', demo_act ''two'']\<rparr>]\<rparr>"

definition demo_store :: Store where
  "demo_store = empty_store\<lparr>db_Stories := [demo_story]\<rparr>"

definition no_world :: World where
  "no_world = \<lparr>w_oids = 1, w_pids = 0, w_sessions = [], w_emailSends = [], w_outbox = []\<rparr>"

definition demo_started :: World where
  "demo_started = snd (StartStoryForUserCmd (demo_outside True) demo_store demo_run ''S'' ''t'' ''u'' ''k'' no_world)"

definition demo_session :: StorySession where
  "demo_session = hd (w_sessions demo_started)"

definition demo_plan :: StartPlan where
  "demo_plan = projr (planStart (demo_outside True) demo_store ''S'' ''t'' ''u'')"

lemma demo_started: "session_of ''0'' demo_started = Some demo_session" "ss_Status demo_session = Active"
  "ss_EnactmentIdx demo_session = 0" "steps_of demo_store demo_session = 2" "story_known demo_store demo_session"
  "planStart (demo_outside True) demo_store ''S'' ''t'' ''u'' = Inr demo_plan"
  by code_simp+

lemma start_fails_without_trace_witness:
  "visible (snd (StartStoryForUserCmd (demo_outside False) demo_store demo_run ''S'' ''t'' ''u'' ''k'' no_world)) = visible no_world"
proof (rule start_fails_without_trace)
  show "fst (StartStoryForUserCmd (demo_outside False) demo_store demo_run ''S'' ''t'' ''u'' ''k'' no_world) \<noteq> None"
    by code_simp
qed

lemma start_replay_witness:
  "visible (snd (StartStoryForUserCmd (demo_outside True) demo_store demo_run ''S'' ''t'' ''u'' ''k'' demo_started)) = visible demo_started"
proof (rule start_replay)
  show "list_ex (\<lambda>t. ss_CommandKey t = ''k'') (w_sessions demo_started)" by code_simp
qed simp

lemma start_one_active_witness:
  "let (err, w') = StartStoryForUserCmd (demo_outside True) demo_store demo_run ''S'' ''t'' ''u'' ''k2'' demo_started in
    err = None \<and> (\<exists>s. active_in ''u'' ''S'' w' = [s] \<and> ss_EnactmentIdx s = 0 \<and> ss_CommandKey s = ''k2''
      \<and> ss_WaitSeconds s = sp_Wait demo_plan \<and> ss_NextAction s = sp_Next demo_plan)"
  by (rule start_one_active) (simp add: demo_started, code_simp+)

lemma advances_finish_witness:
  "\<exists>s'. session_of ''0'' (advances (demo_outside True) demo_store (\<lambda>i. demo_run) 2 ''0'' demo_started) = Some s'
    \<and> ss_Status s' \<noteq> Active"
  by (rule advances_finish [of _ _ demo_session]) (simp_all add: demo_started demo_run_def)

definition demo_step :: StepPlan where
  "demo_step = (case planAdvance (demo_outside False) demo_store demo_session of Step p \<Rightarrow> p)"

lemma refused_step_lost_witness:
  "w_outbox (advanceSession (demo_outside False) demo_store demo_run demo_session demo_started) = w_outbox demo_started"
proof -
  have "planAdvance (demo_outside False) demo_store demo_session = Step demo_step" by code_simp
  moreover have "\<not> authorized (demo_outside False) (ss_SubscriberId demo_session) (ss_UserPublicId demo_session) (st_plan_ToEmail demo_step)"
    by code_simp
  ultimately show ?thesis
    using refused_step_lost [OF demo_started(1,2), of demo_run "demo_outside False" demo_store demo_step]
    by (simp add: demo_run_def Let_def)
qed

end
