(* ===== verification/Interleaving.thy ===== *)
theory Interleaving
  imports EngineProps
begin

text \<open>
  Many actors at once: replicas of the service that run start commands, sweeps, the test
  hook and click handlers on one database. Each handler of \<open>Engine\<close> is cut into steps where
  the code talks to the database or the mailer; between two steps of one actor any step of
  another may come, the documents a handler reads may change at any time, and a sweep or a
  click may hold a session it read long ago. The log of the step emails is a ghost: it notes
  the session and the index of every step the code goes on to send.
\<close>

section \<open>Steps\<close>

datatype task =
  Starting string string string string StartPlan
| Started StorySession StartPlan
| FirstSend StorySession StartPlan
| Advancing StorySession
| Planned StorySession Decision
| Claimed StorySession StepPlan

record System =
  sys_db :: Store
  sys_world :: World
  sys_tasks :: "task multiset"
  sys_log :: "(string \<times> nat) list"

definition replace_task :: "task \<Rightarrow> task multiset \<Rightarrow> task multiset \<Rightarrow> task multiset" where
  "replace_task t ts pool = pool - {#t#} + ts"

inductive sys_step :: "Outside \<Rightarrow> System \<Rightarrow> System \<Rightarrow> bool" for ox :: Outside where
  change_documents: "sys_step ox \<sigma> (\<sigma>\<lparr>sys_db := db\<rparr>)"
| start_plan: "planStart ox (sys_db \<sigma>) name sub user = Inr plan \<Longrightarrow>
    sys_step ox \<sigma> (\<sigma>\<lparr>sys_tasks := sys_tasks \<sigma> + {#Starting name sub user key plan#}\<rparr>)"
| start_insert: "Starting name sub user key plan \<in># sys_tasks \<sigma> \<Longrightarrow>
    session = newSession ox run plan name sub user key (sys_world \<sigma>) \<Longrightarrow>
    \<not> duplicateKey session (sys_world \<sigma>) \<Longrightarrow>
    sys_step ox \<sigma> (\<sigma>\<lparr>sys_world := insertSession session (takeIds (sys_world \<sigma>)),
      sys_tasks := replace_task (Starting name sub user key plan) {#Started session plan#} (sys_tasks \<sigma>)\<rparr>)"
| start_refused: "Starting name sub user key plan \<in># sys_tasks \<sigma> \<Longrightarrow>
    sys_step ox \<sigma> (\<sigma>\<lparr>sys_world := takeIds (sys_world \<sigma>),
      sys_tasks := replace_task (Starting name sub user key plan) {#} (sys_tasks \<sigma>)\<rparr>)"
| supersede: "Started s plan \<in># sys_tasks \<sigma> \<Longrightarrow>
    w = (if run_update (run :: Run) then supersedeOthers (ss_UserPublicId s) (ss_StoryName s) (ss_Id s) (sys_world \<sigma>)
         else sys_world \<sigma>) \<Longrightarrow>
    sys_step ox \<sigma> (\<sigma>\<lparr>sys_world := w, sys_tasks := replace_task (Started s plan) {#FirstSend s plan#} (sys_tasks \<sigma>)\<rparr>)"
| first_send: "FirstSend s plan \<in># sys_tasks \<sigma> \<Longrightarrow>
    sys_step ox \<sigma> (\<sigma>\<lparr>sys_world := sendScene ox run (sp_Story plan) (ss_SubscriberId s) (ss_UserPublicId s)
        (sp_ToEmail plan) (sp_Content plan) 0 0 (sys_world \<sigma>),
      sys_tasks := replace_task (FirstSend s plan) {#} (sys_tasks \<sigma>),
      sys_log := sys_log \<sigma> @ [(ss_PublicId s, 0)]\<rparr>)"
| read_session: "s \<in> set (w_sessions (sys_world \<sigma>)) \<Longrightarrow> ss_Status s = Active \<Longrightarrow>
    t = Advancing s \<or> t = Advancing (s\<lparr>ss_NextAction := ''next_scene''\<rparr>) \<or> t = Planned s Complete \<Longrightarrow>
    sys_step ox \<sigma> (\<sigma>\<lparr>sys_tasks := sys_tasks \<sigma> + {#t#}\<rparr>)"
| plan_advance: "Advancing s \<in># sys_tasks \<sigma> \<Longrightarrow>
    sys_step ox \<sigma> (\<sigma>\<lparr>sys_tasks := replace_task (Advancing s) {#Planned s (planAdvance ox (sys_db \<sigma>) s)#} (sys_tasks \<sigma>)\<rparr>)"
| ignore_session: "Planned s Ignore \<in># sys_tasks \<sigma> \<Longrightarrow>
    sys_step ox \<sigma> (\<sigma>\<lparr>sys_tasks := replace_task (Planned s Ignore) {#} (sys_tasks \<sigma>)\<rparr>)"
| complete_session: "Planned s Complete \<in># sys_tasks \<sigma> \<Longrightarrow>
    sys_step ox \<sigma> (\<sigma>\<lparr>sys_world := markSessionComplete run s (sys_world \<sigma>),
      sys_tasks := replace_task (Planned s Complete) {#} (sys_tasks \<sigma>)\<rparr>)"
| claim: "Planned s (Step plan) \<in># sys_tasks \<sigma> \<Longrightarrow> claimStep run s plan (sys_world \<sigma>) = Some w \<Longrightarrow>
    sys_step ox \<sigma> (\<sigma>\<lparr>sys_world := w, sys_tasks := replace_task (Planned s (Step plan)) {#Claimed s plan#} (sys_tasks \<sigma>)\<rparr>)"
| claim_lost: "Planned s (Step plan) \<in># sys_tasks \<sigma> \<Longrightarrow> claimStep run s plan (sys_world \<sigma>) = None \<Longrightarrow>
    sys_step ox \<sigma> (\<sigma>\<lparr>sys_tasks := replace_task (Planned s (Step plan)) {#} (sys_tasks \<sigma>)\<rparr>)"
| send_step: "Claimed s plan \<in># sys_tasks \<sigma> \<Longrightarrow>
    sys_step ox \<sigma> (\<sigma>\<lparr>sys_world := sendStep ox run s plan (sys_world \<sigma>),
      sys_tasks := replace_task (Claimed s plan) {#} (sys_tasks \<sigma>),
      sys_log := (if authorized ox (ss_SubscriberId s) (ss_UserPublicId s) (st_plan_ToEmail plan)
                  then sys_log \<sigma> @ [(ss_PublicId s, st_plan_Idx plan)] else sys_log \<sigma>)\<rparr>)"
| rewind: "sys_step ox \<sigma> (\<sigma>\<lparr>sys_world := rewindSession seconds s (sys_world \<sigma>)\<rparr>)"

inductive reachable :: "Outside \<Rightarrow> System \<Rightarrow> bool" for ox :: Outside where
  init: "w_sessions (sys_world \<sigma>) = [] \<Longrightarrow> sys_tasks \<sigma> = {#} \<Longrightarrow> sys_log \<sigma> = [] \<Longrightarrow> reachable ox \<sigma>"
| step: "reachable ox \<sigma> \<Longrightarrow> sys_step ox \<sigma> \<sigma>' \<Longrightarrow> reachable ox \<sigma>'"

section \<open>Positions only move forward\<close>

text \<open>The step emails that are sent or about to be sent.\<close>

fun task_credits :: "task \<Rightarrow> (string \<times> nat) multiset" where
  "task_credits (Started s plan) = {#(ss_PublicId s, 0)#}"
| "task_credits (FirstSend s plan) = {#(ss_PublicId s, 0)#}"
| "task_credits (Claimed s plan) = {#(ss_PublicId s, st_plan_Idx plan)#}"
| "task_credits _ = {#}"

definition credits :: "System \<Rightarrow> (string \<times> nat) multiset" where
  "credits \<sigma> = mset (sys_log \<sigma>) + \<Sum>\<^sub># (image_mset task_credits (sys_tasks \<sigma>))"

text \<open>The positions of the sessions, by public id.\<close>

definition positions :: "World \<Rightarrow> (string \<times> nat) list" where
  "positions w = map (\<lambda>s. (ss_PublicId s, ss_EnactmentIdx s)) (w_sessions w)"

definition once_each :: "System \<Rightarrow> bool" where
  "once_each \<sigma> \<longleftrightarrow>
     distinct (map fst (positions (sys_world \<sigma>)))
     \<and> (\<forall>x. count (credits \<sigma>) x \<le> 1)
     \<and> (\<forall>(p, k) \<in># credits \<sigma>. \<exists>i. (p, i) \<in> set (positions (sys_world \<sigma>)) \<and> k \<le> i)"

definition fresh_ids :: "Outside \<Rightarrow> System \<Rightarrow> bool" where
  "fresh_ids ox \<sigma> \<longleftrightarrow>
     (\<forall>s \<in> set (w_sessions (sys_world \<sigma>)). \<exists>n < w_pids (sys_world \<sigma>). ss_PublicId s = ox_PublicId ox n)"

definition plans_next :: "System \<Rightarrow> bool" where
  "plans_next \<sigma> \<longleftrightarrow>
     (\<forall>s plan. Planned s (Step plan) \<in># sys_tasks \<sigma> \<longrightarrow> st_plan_Idx plan = Suc (ss_EnactmentIdx s))"

lemma positions_simps [simp]:
  "positions (takeIds w) = positions w"
  "positions (supersedeOthers user name i w) = positions w"
  "positions (markSessionComplete run s w) = positions w"
  "positions (rewindSession seconds s w) = positions w"
  "positions (sendScene ox run st sub user to c n m w) = positions w"
  "positions (sendStep ox run s plan w) = positions w"
  "positions (insertSession s w) = positions w @ [(ss_PublicId s, ss_EnactmentIdx s)]"
proof -
  have upd: "map (\<lambda>s. (ss_PublicId s, ss_EnactmentIdx s)) ys = map (\<lambda>s. (ss_PublicId s, ss_EnactmentIdx s)) xs"
    if "updateFirst P f xs = Some ys" and "\<And>t. ss_PublicId (f t) = ss_PublicId t \<and> ss_EnactmentIdx (f t) = ss_EnactmentIdx t"
    for P f and xs ys :: "StorySession list"
    using updateFirst_Some [OF that(1)] that(2) by auto
  show "positions (markSessionComplete run s w) = positions w"
    by (auto simp: positions_def markSessionComplete_def split: option.splits intro: upd)
  show "positions (rewindSession seconds s w) = positions w"
    by (auto simp: positions_def rewindSession_def split: option.splits intro: upd)
qed (simp_all add: positions_def supersedeOthers_def insertSession_def comp_def if_distrib cong: if_cong)

lemma claimStep_positions:
  assumes "claimStep run s plan w = Some w'" and "st_plan_Idx plan = Suc (ss_EnactmentIdx s)"
  shows "\<exists>as bs. positions w = as @ (ss_PublicId s, ss_EnactmentIdx s) # bs
    \<and> positions w' = as @ (ss_PublicId s, Suc (ss_EnactmentIdx s)) # bs \<and> w_pids w' = w_pids w"
proof -
  obtain ys where ys: "w' = w\<lparr>w_sessions := ys\<rparr>"
    "updateFirst (\<lambda>t. ss_PublicId t = ss_PublicId s \<and> ss_Status t = Active
       \<and> ss_EnactmentIdx t = ss_EnactmentIdx s \<and> ss_SentAt t = ss_SentAt s) (moveTo run plan) (w_sessions w) = Some ys"
    using assms(1) by (auto simp: claimStep_def split: if_splits)
  from updateFirst_Some [OF ys(2)] obtain as x bs where x: "w_sessions w = as @ x # bs"
    "ys = as @ moveTo run plan x # bs" "ss_PublicId x = ss_PublicId s" "ss_EnactmentIdx x = ss_EnactmentIdx s" by blast
  let ?p = "map (\<lambda>s. (ss_PublicId s, ss_EnactmentIdx s))"
  show ?thesis
    using x assms(2) by (intro exI [of _ "?p as"] exI [of _ "?p bs"]) (simp add: ys(1) positions_def)
qed

text \<open>The positions of one world are reached again, or passed, in another.\<close>

definition passed :: "World \<Rightarrow> World \<Rightarrow> bool" where
  "passed w w' \<longleftrightarrow> (\<forall>(p, i) \<in> set (positions w). \<exists>i'. (p, i') \<in> set (positions w') \<and> i \<le> i')"

lemma passed_same: "positions w' = positions w \<Longrightarrow> passed w w'"
  by (auto simp: passed_def)

lemma passedD:
  "passed w w' \<Longrightarrow> (p, i) \<in> set (positions w) \<Longrightarrow> k \<le> i \<Longrightarrow> \<exists>i'. (p, i') \<in> set (positions w') \<and> k \<le> i'"
proof -
  assume "passed w w'" and pi: "(p, i) \<in> set (positions w)" and k: "k \<le> i"
  then have "\<exists>i'. (p, i') \<in> set (positions w') \<and> i \<le> i'" unfolding passed_def by fastforce
  with k show ?thesis by (meson order_trans)
qed

lemma once_each_less:
  assumes "once_each \<sigma>" and "credits \<sigma>' \<subseteq># credits \<sigma>" and "passed (sys_world \<sigma>) (sys_world \<sigma>')"
    and "distinct (map fst (positions (sys_world \<sigma>')))"
  shows "once_each \<sigma>'"
proof -
  have "\<exists>i. (p, i) \<in> set (positions (sys_world \<sigma>')) \<and> k \<le> i" if c: "(p, k) \<in># credits \<sigma>'" for p k
  proof -
    have "(p, k) \<in># credits \<sigma>" using c assms(2) by (rule mset_subset_eqD [rotated])
    then obtain i where "(p, i) \<in> set (positions (sys_world \<sigma>))" "k \<le> i"
      using assms(1) by (auto simp: once_each_def)
    then show ?thesis by (rule passedD [OF assms(3)])
  qed
  moreover have "count (credits \<sigma>') x \<le> 1" for x
    using assms(1) mset_subset_eq_count [OF assms(2), of x] order_trans unfolding once_each_def by blast
  ultimately show ?thesis using assms(4) by (auto simp: once_each_def)
qed

lemma once_each_more:
  assumes "once_each \<sigma>" and "credits \<sigma>' = add_mset (p, k) (credits \<sigma>)" and "passed (sys_world \<sigma>) (sys_world \<sigma>')"
    and "distinct (map fst (positions (sys_world \<sigma>')))"
    and "(p, k) \<in> set (positions (sys_world \<sigma>'))"
    and "\<And>i. (p, i) \<in> set (positions (sys_world \<sigma>)) \<Longrightarrow> i < k"
  shows "once_each \<sigma>'"
proof -
  have "(p, k) \<notin># credits \<sigma>" using assms(1,6) by (fastforce simp: once_each_def)
  then have "count (credits \<sigma>') x \<le> 1" for x
    using assms(1) by (cases x) (auto simp: assms(2) once_each_def not_in_iff)
  moreover have "\<exists>i. (q, i) \<in> set (positions (sys_world \<sigma>')) \<and> l \<le> i" if "(q, l) \<in># credits \<sigma>'" for q l
  proof (cases "(q, l) = (p, k)")
    case False
    with that have "(q, l) \<in># credits \<sigma>" by (auto simp: assms(2))
    then obtain i where "(q, i) \<in> set (positions (sys_world \<sigma>))" "l \<le> i"
      using assms(1) by (auto simp: once_each_def)
    then show ?thesis by (rule passedD [OF assms(3)])
  qed (use assms(5) in auto)
  ultimately show ?thesis using assms(4) by (auto simp: once_each_def)
qed

lemma credits_task:
  assumes "t \<in># sys_tasks \<sigma>" and "sys_log \<sigma>' = sys_log \<sigma> @ l"
    and "sys_tasks \<sigma>' = replace_task t ts (sys_tasks \<sigma>)"
  shows "credits \<sigma>' + task_credits t = credits \<sigma> + mset l + \<Sum>\<^sub># (image_mset task_credits ts)"
proof -
  obtain rest where "sys_tasks \<sigma> = add_mset t rest" using assms(1) by (metis multi_member_split)
  then show ?thesis by (simp add: credits_def assms(2,3) replace_task_def)
qed


section \<open>The invariant\<close>

definition sound :: "Outside \<Rightarrow> System \<Rightarrow> bool" where
  "sound ox \<sigma> \<longleftrightarrow> once_each \<sigma> \<and> fresh_ids ox \<sigma> \<and> plans_next \<sigma>"

lemma pids_simps [simp]:
  "w_pids (supersedeOthers user name i w) = w_pids w" "w_pids (markSessionComplete run s w) = w_pids w"
  "w_pids (rewindSession seconds s w) = w_pids w" "w_pids (insertSession s w) = w_pids w"
  "w_pids w \<le> w_pids (sendScene ox run st sub user to c n m w)"
  "w_pids w \<le> w_pids (sendStep ox run s plan w)"
  by (simp_all add: supersedeOthers_def markSessionComplete_def rewindSession_def insertSession_def
      sendStep_def sendScene_def recordStoryEmailSend_def sendStoryEmail_def Let_def split_beta split: option.split)

text \<open>Freshness in terms of the positions.\<close>

lemma fresh_ids_iff:
  "fresh_ids ox \<sigma> \<longleftrightarrow> (\<forall>p \<in> set (map fst (positions (sys_world \<sigma>))). \<exists>n < w_pids (sys_world \<sigma>). p = ox_PublicId ox n)"
  by (auto simp: fresh_ids_def positions_def)

lemma fresh_ids_keep:
  assumes "fresh_ids ox \<sigma>" and "map fst (positions (sys_world \<sigma>')) = map fst (positions (sys_world \<sigma>))"
    and "w_pids (sys_world \<sigma>) \<le> w_pids (sys_world \<sigma>')"
  shows "fresh_ids ox \<sigma>'"
  using assms unfolding fresh_ids_iff by (metis order_less_le_trans)

lemma plans_next_replace:
  assumes "plans_next \<sigma>" and "sys_tasks \<sigma>' = replace_task t ts (sys_tasks \<sigma>)"
    and "\<And>s plan. Planned s (Step plan) \<in># ts \<Longrightarrow> st_plan_Idx plan = Suc (ss_EnactmentIdx s)"
  shows "plans_next \<sigma>'"
  using assms by (auto simp: plans_next_def replace_task_def dest: in_diffD)

text \<open>A step that adds no email to come and leaves the positions alone.\<close>

lemma sound_quiet:
  assumes "sound ox \<sigma>" and "t \<in># sys_tasks \<sigma>" and "sys_tasks \<sigma>' = replace_task t ts (sys_tasks \<sigma>)"
    and "sys_log \<sigma>' = sys_log \<sigma> @ l"
    and "mset l + \<Sum>\<^sub># (image_mset task_credits ts) \<subseteq># task_credits t"
    and "positions (sys_world \<sigma>') = positions (sys_world \<sigma>)" and "w_pids (sys_world \<sigma>) \<le> w_pids (sys_world \<sigma>')"
    and "\<And>s plan. Planned s (Step plan) \<in># ts \<Longrightarrow> st_plan_Idx plan = Suc (ss_EnactmentIdx s)"
  shows "sound ox \<sigma>'"
proof -
  have "credits \<sigma>' + task_credits t = credits \<sigma> + (mset l + \<Sum>\<^sub># (image_mset task_credits ts))"
    using credits_task [OF assms(2,4,3)] by (simp add: add.assoc)
  also have "\<dots> \<subseteq># credits \<sigma> + task_credits t" using assms(5) by simp
  finally have "credits \<sigma>' \<subseteq># credits \<sigma>" by simp
  then have "once_each \<sigma>'"
    using assms(1,6) by (intro once_each_less [of \<sigma> \<sigma>']) (auto simp: sound_def once_each_def passed_same)
  then show ?thesis
    using assms fresh_ids_keep [of ox \<sigma> \<sigma>'] plans_next_replace [of \<sigma> \<sigma>' t ts] by (simp add: sound_def)
qed

lemma sound_insert:
  assumes "sound ox \<sigma>" and "inj (ox_PublicId ox)" and "t \<in># sys_tasks \<sigma>" and "task_credits t = {#}"
    and "session = newSession ox run plan name sub user key (sys_world \<sigma>)"
    and "\<sigma>' = \<sigma>\<lparr>sys_world := insertSession session (takeIds (sys_world \<sigma>)),
      sys_tasks := replace_task t {#Started session plan#} (sys_tasks \<sigma>)\<rparr>"
  shows "sound ox \<sigma>'"
proof -
  let ?p = "ox_PublicId ox (w_pids (sys_world \<sigma>))"
  have pos: "positions (sys_world \<sigma>') = positions (sys_world \<sigma>) @ [(?p, 0)]"
    by (simp add: assms(5,6))
  have new: "?p \<notin> set (map fst (positions (sys_world \<sigma>)))"
    using assms(1,2) unfolding sound_def fresh_ids_iff by (metis injD less_irrefl)
  have "credits \<sigma>' = add_mset (?p, 0) (credits \<sigma>)"
    using credits_task [OF assms(3), of \<sigma>' "[]" "{#Started session plan#}"] assms(4)
    by (simp add: assms(5,6))
  moreover have "passed (sys_world \<sigma>) (sys_world \<sigma>')" by (auto simp: passed_def pos)
  ultimately have "once_each \<sigma>'"
    using assms(1) new
    by (intro once_each_more [of \<sigma> \<sigma>' ?p 0]) (force simp: sound_def once_each_def pos)+
  moreover have "fresh_ids ox \<sigma>'"
    using assms(1) unfolding sound_def fresh_ids_iff pos by (auto simp: assms(5,6) less_Suc_eq)
  moreover have "plans_next \<sigma>'"
    using assms(1) plans_next_replace [of \<sigma> \<sigma>' t "{#Started session plan#}"] by (simp add: sound_def assms(6))
  ultimately show ?thesis by (simp add: sound_def)
qed

lemma sound_claim:
  assumes "sound ox \<sigma>" and "Planned s (Step plan) \<in># sys_tasks \<sigma>"
    and "claimStep run s plan (sys_world \<sigma>) = Some w"
    and "\<sigma>' = \<sigma>\<lparr>sys_world := w, sys_tasks := replace_task (Planned s (Step plan)) {#Claimed s plan#} (sys_tasks \<sigma>)\<rparr>"
  shows "sound ox \<sigma>'"
proof -
  have idx: "st_plan_Idx plan = Suc (ss_EnactmentIdx s)"
    using assms(1,2) by (auto simp: sound_def plans_next_def)
  from claimStep_positions [OF assms(3) this] obtain as bs where
    pos: "positions (sys_world \<sigma>) = as @ (ss_PublicId s, ss_EnactmentIdx s) # bs"
    and pos': "positions (sys_world \<sigma>') = as @ (ss_PublicId s, Suc (ss_EnactmentIdx s)) # bs"
    and pids: "w_pids (sys_world \<sigma>') = w_pids (sys_world \<sigma>)" by (auto simp: assms(4))
  have dist: "distinct (map fst (as @ (ss_PublicId s, ss_EnactmentIdx s) # bs))"
    using assms(1) by (simp add: sound_def once_each_def pos)
  then have other: "ss_PublicId s \<notin> fst ` set as" "ss_PublicId s \<notin> fst ` set bs" by auto
  have "credits \<sigma>' = add_mset (ss_PublicId s, st_plan_Idx plan) (credits \<sigma>)"
    using credits_task [OF assms(2), of \<sigma>' "[]" "{#Claimed s plan#}"] by (simp add: assms(4))
  moreover have "passed (sys_world \<sigma>) (sys_world \<sigma>')" by (fastforce simp: passed_def pos pos')
  moreover have "i < st_plan_Idx plan" if "(ss_PublicId s, i) \<in> set (positions (sys_world \<sigma>))" for i
  proof -
    have "(ss_PublicId s, i) \<notin> set as" "(ss_PublicId s, i) \<notin> set bs" using other by force+
    with that have "i = ss_EnactmentIdx s" by (simp add: pos)
    with idx show ?thesis by simp
  qed
  moreover have "distinct (map fst (positions (sys_world \<sigma>')))" using dist by (simp add: pos')
  moreover have "once_each \<sigma>" using assms(1) by (simp add: sound_def)
  ultimately have "once_each \<sigma>'"
    using idx by (intro once_each_more [of \<sigma> \<sigma>' "ss_PublicId s" "st_plan_Idx plan"]) (simp_all add: pos')
  moreover have "fresh_ids ox \<sigma>'"
    by (rule fresh_ids_keep [of ox \<sigma>]) (use assms(1) pids in \<open>simp_all add: sound_def pos pos'\<close>)
  moreover have "plans_next \<sigma>'"
    using assms(1) plans_next_replace [of \<sigma> \<sigma>' "Planned s (Step plan)" "{#Claimed s plan#}"]
    by (simp add: sound_def assms(4))
  ultimately show ?thesis by (simp add: sound_def)
qed

lemma sound_add:
  assumes "sound ox \<sigma>" and "task_credits t = {#}" and "\<And>s plan. t \<noteq> Planned s (Step plan)"
  shows "sound ox (\<sigma>\<lparr>sys_tasks := sys_tasks \<sigma> + {#t#}\<rparr>)"
proof -
  let ?\<sigma> = "\<sigma>\<lparr>sys_tasks := sys_tasks \<sigma> + {#t#}\<rparr>"
  have "credits ?\<sigma> = credits \<sigma>" using assms(2) by (simp add: credits_def)
  then have "once_each ?\<sigma>" using assms(1) by (simp add: sound_def once_each_def)
  moreover have "plans_next ?\<sigma>" using assms(1,3) by (auto simp: sound_def plans_next_def)
  ultimately show ?thesis using assms(1) by (simp add: sound_def fresh_ids_def)
qed

lemma sound_step:
  assumes "sys_step ox \<sigma> \<sigma>'" and "sound ox \<sigma>" and "inj (ox_PublicId ox)"
  shows "sound ox \<sigma>'"
  using assms(1)
proof cases
  case (change_documents db)
  with assms(2) show ?thesis
    by (simp add: sound_def once_each_def fresh_ids_def plans_next_def credits_def)
next
  case (start_plan name sub user plan key)
  then show ?thesis by (simp only:) (rule sound_add [OF assms(2)], simp_all)
next
  case (start_insert name sub user key plan session run)
  then show ?thesis by (intro sound_insert [OF assms(2,3)]) auto
next
  case (claim s plan run w)
  then show ?thesis by (intro sound_claim [OF assms(2)])
next
  case (read_session s t)
  from read_session(4) have "task_credits t = {#}" "\<And>s plan. t \<noteq> Planned s (Step plan)" by auto
  then show ?thesis unfolding read_session(1) by (rule sound_add [OF assms(2)])
next
  case (rewind seconds s)
  with assms(2) show ?thesis
    by (auto simp: sound_def once_each_def fresh_ids_iff plans_next_def credits_def)
next
  case (start_refused name sub user key plan)
  then show ?thesis
    by (intro sound_quiet [OF assms(2), of "Starting name sub user key plan" _ "{#}" "[]"]) simp_all
next
  case (supersede s plan w run)
  then show ?thesis
    by (intro sound_quiet [OF assms(2), of "Started s plan" _ "{#FirstSend s plan#}" "[]"]) simp_all
next
  case (first_send s plan run)
  then show ?thesis
    by (intro sound_quiet [OF assms(2), of "FirstSend s plan" _ "{#}" "[(ss_PublicId s, 0)]"]) simp_all
next
  case (plan_advance s)
  then show ?thesis
    by (intro sound_quiet [OF assms(2), of "Advancing s" _ "{#Planned s (planAdvance ox (sys_db \<sigma>) s)#}" "[]"])
      (auto simp: planAdvance_Step)
next
  case (ignore_session s)
  then show ?thesis
    by (intro sound_quiet [OF assms(2), of "Planned s Ignore" _ "{#}" "[]"]) simp_all
next
  case (complete_session s run)
  then show ?thesis
    by (intro sound_quiet [OF assms(2), of "Planned s Complete" _ "{#}" "[]"]) simp_all
next
  case (claim_lost s plan run)
  then show ?thesis
    by (intro sound_quiet [OF assms(2), of "Planned s (Step plan)" _ "{#}" "[]"]) simp_all
next
  case (send_step s plan run)
  then show ?thesis
    by (intro sound_quiet [OF assms(2), of "Claimed s plan" _ "{#}"
        "if authorized ox (ss_SubscriberId s) (ss_UserPublicId s) (st_plan_ToEmail plan)
         then [(ss_PublicId s, st_plan_Idx plan)] else []"]) simp_all
qed

lemma sound_reachable: "reachable ox \<sigma> \<Longrightarrow> inj (ox_PublicId ox) \<Longrightarrow> sound ox \<sigma>"
proof (induction rule: reachable.induct)
  case (init \<sigma>)
  then show ?case
    by (simp add: sound_def once_each_def fresh_ids_def plans_next_def credits_def positions_def)
qed (simp add: sound_step)

text \<open>
  C1: No step email is sent twice: however the replicas of the service, the sweeps, the test
  hook, the clicks and the start commands interleave, and whatever happens to the documents in
  between, each step of a session is sent at most once, if public ids do not repeat.
\<close>

theorem step_sent_once:
  assumes "reachable ox \<sigma>" and "inj (ox_PublicId ox)"
  shows "distinct (sys_log \<sigma>)"
proof -
  have "count (mset (sys_log \<sigma>)) x \<le> 1" for x
    using sound_reachable [OF assms] by (cases x) (auto simp: sound_def once_each_def credits_def intro: add_leD1)
  then show ?thesis
    by (metis count_mset distinct_count_atmost_1 le_0_eq le_Suc_eq One_nat_def count_mset_0_iff not_less_eq_eq)
qed

section \<open>What a session keeps\<close>

definition continues :: "StorySession \<Rightarrow> StorySession \<Rightarrow> bool" where
  "continues s s' \<longleftrightarrow>
     ss_PublicId s' = ss_PublicId s \<and> ss_CommandKey s' = ss_CommandKey s
     \<and> (ss_Status s \<noteq> Active \<longrightarrow> ss_Status s' \<noteq> Active)"

lemma continues_refl [simp]: "continues s s" "list_all2 continues ss ss"
  by (simp_all add: continues_def list_all2_refl)

lemma updateFirst_continues:
  assumes "updateFirst P f ss = Some ss'" and "\<And>s. continues s (f s)"
  shows "list_all2 continues ss ss'"
  using updateFirst_Some [OF assms(1)] assms(2) by (auto intro!: list_all2_appendI)

lemma world_continues:
  "list_all2 continues (w_sessions w) (w_sessions (supersedeOthers user name i w))"
  "list_all2 continues (w_sessions w) (w_sessions (markSessionComplete run s w))"
  "list_all2 continues (w_sessions w) (w_sessions (rewindSession seconds s w))"
  "claimStep run s plan w = Some w' \<Longrightarrow> list_all2 continues (w_sessions w) (w_sessions w')"
proof -
  show "list_all2 continues (w_sessions w) (w_sessions (supersedeOthers user name i w))"
    by (auto simp: supersedeOthers_def list_all2_conv_all_nth continues_def)
  show "list_all2 continues (w_sessions w) (w_sessions (markSessionComplete run s w))"
    by (auto simp: markSessionComplete_def continues_def split: option.splits intro: updateFirst_continues)
  show "list_all2 continues (w_sessions w) (w_sessions (rewindSession seconds s w))"
    by (auto simp: rewindSession_def continues_def split: option.splits intro: updateFirst_continues)
  show "list_all2 continues (w_sessions w) (w_sessions w')" if "claimStep run s plan w = Some w'"
    using that by (auto simp: claimStep_def continues_def split: if_splits intro: updateFirst_continues)
qed

lemma kept:
  "list_all2 continues ss ss' \<Longrightarrow> \<exists>old new. ss' = old @ new \<and> list_all2 continues ss old \<and> (new = [] \<or> Q new)"
  by (intro exI [of _ ss'] exI [of _ "[]"]) simp

text \<open>Every step keeps the sessions there are and adds at most one, with a key of its own.\<close>

lemma step_continues:
  assumes "sys_step ox \<sigma> \<sigma>'"
  shows "\<exists>old new. w_sessions (sys_world \<sigma>') = old @ new \<and> list_all2 continues (w_sessions (sys_world \<sigma>)) old
    \<and> (new = [] \<or> (\<exists>s t. new = [t] \<and> ss_CommandKey t = ss_CommandKey s \<and> \<not> duplicateKey s (sys_world \<sigma>)))"
  using assms
proof cases
  case (start_insert name sub user key plan session run)
  then show ?thesis
    by (intro exI [of _ "w_sessions (sys_world \<sigma>)"] exI) (auto simp: insertSession_def)
qed (rule kept; simp add: world_continues)+

text \<open>
  C38: A session that has ended, completed or superseded, never becomes active again, whatever
  steps follow.
\<close>

theorem ended_stays_ended:
  assumes "(sys_step ox)\<^sup>*\<^sup>* \<sigma> \<sigma>'" and "i < length (w_sessions (sys_world \<sigma>))"
    and "ss_Status (w_sessions (sys_world \<sigma>) ! i) \<noteq> Active"
  shows "i < length (w_sessions (sys_world \<sigma>'))
    \<and> ss_PublicId (w_sessions (sys_world \<sigma>') ! i) = ss_PublicId (w_sessions (sys_world \<sigma>) ! i)
    \<and> ss_Status (w_sessions (sys_world \<sigma>') ! i) \<noteq> Active"
  using assms(1)
proof (induction rule: rtranclp_induct)
  case (step \<sigma>1 \<sigma>2)
  from step_continues [OF step.hyps(2)] obtain old new where
    "w_sessions (sys_world \<sigma>2) = old @ new" "list_all2 continues (w_sessions (sys_world \<sigma>1)) old" by blast
  with step.IH show ?case
    by (auto simp: list_all2_conv_all_nth continues_def nth_append)
qed (use assms(2,3) in simp)

definition command_keys :: "System \<Rightarrow> string list" where
  "command_keys \<sigma> = filter (\<lambda>k. k \<noteq> []) (map ss_CommandKey (w_sessions (sys_world \<sigma>)))"

text \<open>
  C22: A command starts at most one session: in every state the service can reach, however
  its replicas interleave, no two sessions carry the same command key.
\<close>

theorem command_key_once:
  assumes "reachable ox \<sigma>"
  shows "distinct (command_keys \<sigma>)"
  using assms
proof (induction rule: reachable.induct)
  case (step \<sigma> \<sigma>')
  from step_continues [OF step.hyps(2)] obtain old new where
    o: "w_sessions (sys_world \<sigma>') = old @ new" "list_all2 continues (w_sessions (sys_world \<sigma>)) old"
    and n: "new = [] \<or> (\<exists>s t. new = [t] \<and> ss_CommandKey t = ss_CommandKey s \<and> \<not> duplicateKey s (sys_world \<sigma>))"
    by blast
  have "map ss_CommandKey old = map ss_CommandKey (w_sessions (sys_world \<sigma>))"
    using o(2) by (auto simp: list_all2_conv_all_nth continues_def intro!: nth_equalityI)
  with n step.IH show ?case
    by (auto simp: command_keys_def o(1) duplicateKey_def list_ex_iff)
qed (simp add: command_keys_def)

section \<open>Two starts at once\<close>

text \<open>The steps of a start command, in the world they find, while any other tasks go on.\<close>

definition system :: "Store \<Rightarrow> World \<Rightarrow> task multiset \<Rightarrow> (string \<times> nat) list \<Rightarrow> System" where
  "system db w ts log = \<lparr>sys_db = db, sys_world = w, sys_tasks = ts, sys_log = log\<rparr>"

lemma system_surj: "\<sigma> = system (sys_db \<sigma>) (sys_world \<sigma>) (sys_tasks \<sigma>) (sys_log \<sigma>)"
  by (simp add: system_def)

lemma system_simps [simp]:
  "sys_db (system db w ts log) = db" "sys_world (system db w ts log) = w"
  "sys_tasks (system db w ts log) = ts" "sys_log (system db w ts log) = log"
  by (simp_all add: system_def)

definition started :: "Outside \<Rightarrow> StartPlan \<Rightarrow> string \<Rightarrow> string \<Rightarrow> string \<Rightarrow> string \<Rightarrow> World \<Rightarrow> StorySession" where
  "started ox plan name sub user key w = newSession ox demo_run plan name sub user key w"

lemma started_fields [simp]:
  "ss_Id (started ox plan name sub user key w) = Oid (w_oids w)"
  "ss_PublicId (started ox plan name sub user key w) = ox_PublicId ox (w_pids w)"
  "ss_UserPublicId (started ox plan name sub user key w) = user"
  "ss_StoryName (started ox plan name sub user key w) = name"
  "ss_SubscriberId (started ox plan name sub user key w) = sub"
  "ss_CommandKey (started ox plan name sub user key w) = key"
  "ss_Status (started ox plan name sub user key w) = Active"
  by (simp_all add: started_def newSession_def)

definition sent_first :: "Outside \<Rightarrow> StartPlan \<Rightarrow> string \<Rightarrow> string \<Rightarrow> World \<Rightarrow> World" where
  "sent_first ox plan sub user w =
     sendScene ox demo_run (sp_Story plan) sub user (sp_ToEmail plan) (sp_Content plan) 0 0 w"

lemma sent_first_simps [simp]:
  "w_sessions (sent_first ox plan sub user w) = w_sessions w"
  "length (w_outbox (sent_first ox plan sub user w)) = Suc (length (w_outbox w))"
  by (simp_all add: sent_first_def sendScene_def recordStoryEmailSend_def sendStoryEmail_def demo_run_def Let_def split_beta)

lemma command_steps:
  "planStart ox db name sub user = Inr plan \<Longrightarrow>
   sys_step ox (system db w ts log) (system db w (add_mset (Starting name sub user key plan) ts) log)"
  "\<not> duplicateKey (started ox plan name sub user key w) w \<Longrightarrow>
   sys_step ox (system db w (add_mset (Starting name sub user key plan) ts) log)
     (system db (insertSession (started ox plan name sub user key w) (takeIds w))
       (add_mset (Started (started ox plan name sub user key w) plan) ts) log)"
  "sys_step ox (system db w (add_mset (Started s plan) ts) log)
     (system db (supersedeOthers (ss_UserPublicId s) (ss_StoryName s) (ss_Id s) w) (add_mset (FirstSend s plan) ts) log)"
  "sys_step ox (system db w (add_mset (FirstSend s plan) ts) log)
     (system db (sent_first ox plan (ss_SubscriberId s) (ss_UserPublicId s) w) ts (log @ [(ss_PublicId s, 0)]))"
  using sys_step.start_plan [of ox "system db w ts log" name sub user plan key]
    sys_step.start_insert [of name sub user key plan "system db w (add_mset (Starting name sub user key plan) ts) log"
      "started ox plan name sub user key w" ox demo_run]
    sys_step.supersede [of s plan "system db w (add_mset (Started s plan) ts) log" _ demo_run ox]
    sys_step.first_send [of s plan "system db w (add_mset (FirstSend s plan) ts) log" ox demo_run]
  by (simp_all add: system_def replace_task_def started_def sent_first_def demo_run_def)

text \<open>Both commands have inserted their sessions, and then each has superseded the others.\<close>

definition inserted :: "Outside \<Rightarrow> StartPlan \<Rightarrow> string \<Rightarrow> string \<Rightarrow> string \<Rightarrow> string \<Rightarrow> World \<Rightarrow> World" where
  "inserted ox plan name sub user key w = insertSession (started ox plan name sub user key w) (takeIds w)"

definition crossed :: "Outside \<Rightarrow> StartPlan \<Rightarrow> string \<Rightarrow> string \<Rightarrow> string \<Rightarrow> string \<Rightarrow> string \<Rightarrow> World \<Rightarrow> World" where
  "crossed ox plan name sub user k1 k2 w =
     supersedeOthers user name (Oid (Suc (w_oids w))) (supersedeOthers user name (Oid (w_oids w))
       (inserted ox plan name sub user k2 (inserted ox plan name sub user k1 w)))"

definition unused :: "World \<Rightarrow> string \<Rightarrow> bool" where
  "unused w k \<longleftrightarrow> k = [] \<or> list_all (\<lambda>s. ss_CommandKey s \<noteq> k) (w_sessions w)"

lemma run_then: "(sys_step ox)\<^sup>*\<^sup>* \<sigma> \<sigma>' \<Longrightarrow> sys_step ox \<sigma>' \<sigma>'' \<Longrightarrow> (sys_step ox)\<^sup>*\<^sup>* \<sigma> \<sigma>''"
  by (rule rtranclp.rtrancl_into_rtrancl)

lemma two_starts:
  assumes plan: "planStart ox db name sub user = Inr plan"
    and keys: "unused w k1" "unused w k2" "k1 \<noteq> k2 \<or> k1 = []"
    and s1: "s1 = started ox plan name sub user k1 w"
    and s2: "s2 = started ox plan name sub user k2 (inserted ox plan name sub user k1 w)"
  shows "(sys_step ox)\<^sup>*\<^sup>* (system db w ts log)
    (system db (crossed ox plan name sub user k1 k2 w) (add_mset (FirstSend s2 plan) (add_mset (FirstSend s1 plan) ts)) log)"
proof -
  let ?start = "\<lambda>k. Starting name sub user k plan" and ?w1 = "inserted ox plan name sub user k1 w"
  have free: "\<not> duplicateKey s1 w" "\<not> duplicateKey s2 ?w1"
    using keys by (auto simp: s1 s2 duplicateKey_def unused_def inserted_def insertSession_def takeIds_def list_ex_iff list_all_iff)
  have "sys_step ox (system db w ts log) (system db w (add_mset (?start k2) ts) log)"
    "sys_step ox (system db w (add_mset (?start k2) ts) log) (system db w (add_mset (?start k1) (add_mset (?start k2) ts)) log)"
    by (rule command_steps(1) [OF plan])+
  moreover have "sys_step ox (system db w (add_mset (?start k1) (add_mset (?start k2) ts)) log)
      (system db ?w1 (add_mset (?start k2) (add_mset (Started s1 plan) ts)) log)"
    using command_steps(2) [OF free(1) [unfolded s1], of db "add_mset (?start k2) ts" log]
    by (simp add: s1 inserted_def add_mset_commute)
  moreover have "sys_step ox (system db ?w1 (add_mset (?start k2) (add_mset (Started s1 plan) ts)) log)
      (system db (inserted ox plan name sub user k2 ?w1) (add_mset (Started s1 plan) (add_mset (Started s2 plan) ts)) log)"
    using command_steps(2) [OF free(2) [unfolded s2], of db "add_mset (Started s1 plan) ts" log]
    by (simp add: s2 add_mset_commute inserted_def [of ox plan name sub user k2])
  moreover have "sys_step ox (system db (inserted ox plan name sub user k2 ?w1) (add_mset (Started s1 plan) (add_mset (Started s2 plan) ts)) log)
      (system db (supersedeOthers user name (ss_Id s1) (inserted ox plan name sub user k2 ?w1))
        (add_mset (Started s2 plan) (add_mset (FirstSend s1 plan) ts)) log)"
    using command_steps(3) [of ox db _ s1 plan "add_mset (Started s2 plan) ts" log] by (simp add: s1 add_mset_commute)
  moreover have "sys_step ox (system db (supersedeOthers user name (ss_Id s1) (inserted ox plan name sub user k2 ?w1))
        (add_mset (Started s2 plan) (add_mset (FirstSend s1 plan) ts)) log)
      (system db (crossed ox plan name sub user k1 k2 w) (add_mset (FirstSend s2 plan) (add_mset (FirstSend s1 plan) ts)) log)"
    using command_steps(3) [of ox db _ s2 plan "add_mset (FirstSend s1 plan) ts" log]
    by (simp add: s1 s2 crossed_def inserted_def [of ox plan name sub user k1 w] takeIds_def insertSession_def)
  ultimately show ?thesis by (meson rtranclp.rtrancl_into_rtrancl rtranclp.rtrancl_refl)
qed

lemma crossed_sessions:
  "w_sessions (crossed ox plan name sub user k1 k2 w)
   = map (\<lambda>s. if ss_UserPublicId s = user \<and> ss_StoryName s = name \<and> ss_Status s = Active then s\<lparr>ss_Status := Superseded\<rparr> else s)
       (w_sessions (inserted ox plan name sub user k2 (inserted ox plan name sub user k1 w)))"
  by (auto simp: crossed_def supersedeOthers_def)

lemma inserted_simps:
  "w_sessions (inserted ox plan name sub user key w) = w_sessions w
     @ [(started ox plan name sub user key w)\<lparr>ss_SentAt := bsonTime (ss_SentAt (started ox plan name sub user key w)),
          ss_CreatedAt := bsonTime (ss_CreatedAt (started ox plan name sub user key w))\<rparr>]"
  "w_pids (inserted ox plan name sub user key w) = Suc (w_pids w)"
  "w_outbox (inserted ox plan name sub user key w) = w_outbox w"
  by (simp_all add: inserted_def insertSession_def takeIds_def)

lemma filter_map_none: "(\<And>x. \<not> P (f x)) \<Longrightarrow> filter P (map f xs) = []"
  by (induction xs) simp_all

lemma crossed_idle:
  "filter (\<lambda>s. ss_UserPublicId s = user \<and> ss_StoryName s = name \<and> ss_Status s = Active)
     (w_sessions (crossed ox plan name sub user k1 k2 w)) = []"
  unfolding crossed_sessions by (rule filter_map_none) simp

lemma crossed_new:
  "map (\<lambda>s. (ss_CommandKey s, ss_UserPublicId s, ss_StoryName s, ss_Status s))
     (drop (length (w_sessions w)) (w_sessions (crossed ox plan name sub user k1 k2 w)))
   = [(k1, user, name, Superseded), (k2, user, name, Superseded)]"
  unfolding crossed_sessions inserted_simps map_append append_assoc
  by (simp only: drop_append length_map diff_self_eq_0 drop_0 drop_all order_refl append.simps list.map) simp

lemma crossed_outbox: "w_outbox (crossed ox plan name sub user k1 k2 w) = w_outbox w"
  by (simp add: crossed_def supersedeOthers_def inserted_simps)

text \<open>
  C39: Any two start commands of a user for the same story can cancel each other when they run at the same
  time: from every state in which the story can be started for the user and the two command keys have not
  been used, the service can go on so that both commands are done and both first emails are sent, but each
  has superseded the session of the other, and the user has no active session of the story. The
  database and the mailer never fail on the way.
\<close>

theorem concurrent_starts_cancel:
  assumes "planStart ox (sys_db \<sigma>) name sub user = Inr plan"
    and "unused (sys_world \<sigma>) k1" and "unused (sys_world \<sigma>) k2" and "k1 \<noteq> k2 \<or> k1 = []"
  shows "\<exists>\<sigma>'. (sys_step ox)\<^sup>*\<^sup>* \<sigma> \<sigma>' \<and> sys_tasks \<sigma>' = sys_tasks \<sigma>
    \<and> sys_log \<sigma>' = sys_log \<sigma> @ [(ox_PublicId ox (w_pids (sys_world \<sigma>)), 0), (ox_PublicId ox (Suc (w_pids (sys_world \<sigma>))), 0)]
    \<and> length (w_outbox (sys_world \<sigma>')) = length (w_outbox (sys_world \<sigma>)) + 2
    \<and> map (\<lambda>s. (ss_CommandKey s, ss_UserPublicId s, ss_StoryName s, ss_Status s))
         (drop (length (w_sessions (sys_world \<sigma>))) (w_sessions (sys_world \<sigma>')))
       = [(k1, user, name, Superseded), (k2, user, name, Superseded)]
    \<and> filter (\<lambda>s. ss_UserPublicId s = user \<and> ss_StoryName s = name \<and> ss_Status s = Active) (w_sessions (sys_world \<sigma>')) = []"
proof -
  let ?w = "sys_world \<sigma>" and ?db = "sys_db \<sigma>" and ?ts = "sys_tasks \<sigma>" and ?log = "sys_log \<sigma>"
  let ?s1 = "started ox plan name sub user k1 ?w" and ?s2 = "started ox plan name sub user k2 (inserted ox plan name sub user k1 ?w)"
  let ?c = "crossed ox plan name sub user k1 k2 ?w" and ?p = "\<lambda>n. ox_PublicId ox n"
  let ?last = "system ?db (sent_first ox plan sub user (sent_first ox plan sub user ?c)) ?ts
    (?log @ [(?p (w_pids ?w), 0), (?p (Suc (w_pids ?w)), 0)])"
  have ready: "(sys_step ox)\<^sup>*\<^sup>* \<sigma> (system ?db ?c (add_mset (FirstSend ?s1 plan) (add_mset (FirstSend ?s2 plan) ?ts)) ?log)"
    using two_starts [OF assms HOL.refl HOL.refl, of ?ts ?log]
    by (simp only: system_surj [symmetric] add_mset_commute [of "FirstSend ?s2 plan"])
  have first: "sys_step ox (system ?db ?c (add_mset (FirstSend ?s1 plan) (add_mset (FirstSend ?s2 plan) ?ts)) ?log)
      (system ?db (sent_first ox plan sub user ?c) (add_mset (FirstSend ?s2 plan) ?ts) (?log @ [(?p (w_pids ?w), 0)]))"
    using command_steps(4) [of ox ?db ?c ?s1] by (simp only: started_fields)
  have second: "sys_step ox (system ?db (sent_first ox plan sub user ?c) (add_mset (FirstSend ?s2 plan) ?ts) (?log @ [(?p (w_pids ?w), 0)])) ?last"
    using command_steps(4) [of ox ?db "sent_first ox plan sub user ?c" ?s2 plan ?ts "?log @ [(?p (w_pids ?w), 0)]"]
    by (simp only: started_fields inserted_simps append_assoc append.simps)
  have run: "(sys_step ox)\<^sup>*\<^sup>* \<sigma> ?last"
    by (rule run_then [OF run_then [OF ready first] second])
  show ?thesis
    by (rule exI [of _ ?last], rule conjI [OF run])
      (simp add: crossed_outbox crossed_idle crossed_new)
qed

section \<open>An example\<close>

text \<open>Two commands of one user, from an empty database.\<close>

definition demo_crossed :: World where
  "demo_crossed = crossed (demo_outside True) demo_plan ''S'' ''t'' ''u'' ''k1'' ''k2'' no_world"

definition first_session :: StorySession where
  "first_session = started (demo_outside True) demo_plan ''S'' ''t'' ''u'' ''k1'' no_world"

definition second_session :: StorySession where
  "second_session = started (demo_outside True) demo_plan ''S'' ''t'' ''u'' ''k2''
     (inserted (demo_outside True) demo_plan ''S'' ''t'' ''u'' ''k1'' no_world)"

definition demo_send :: "World \<Rightarrow> World" where
  "demo_send w = sent_first (demo_outside True) demo_plan ''t'' ''u'' w"

definition demo_log :: "(string \<times> nat) list" where
  "demo_log = [(ss_PublicId first_session, 0)]"

lemma demo_init: "reachable (demo_outside True) (system demo_store no_world {#} [])"
  by (rule reachable.init) (simp_all add: no_world_def)

lemma reachable_run: "(sys_step ox)\<^sup>*\<^sup>* \<sigma> \<sigma>' \<Longrightarrow> reachable ox \<sigma> \<Longrightarrow> reachable ox \<sigma>'"
  by (induction rule: rtranclp_induct) (auto intro: reachable.step)

lemma demo_keys: "unused no_world k"
  by (simp add: unused_def no_world_def)

lemma demo_sending:
  "sys_step (demo_outside True) (system demo_store demo_crossed {#FirstSend first_session demo_plan, FirstSend second_session demo_plan#} [])
     (system demo_store (demo_send demo_crossed) {#FirstSend second_session demo_plan#} demo_log)"
  using command_steps(4) [of "demo_outside True" demo_store demo_crossed first_session demo_plan
      "{#FirstSend second_session demo_plan#}" "[]"]
  by (simp add: demo_send_def demo_log_def first_session_def)

lemma demo_reached:
  "reachable (demo_outside True) (system demo_store (demo_send demo_crossed) {#FirstSend second_session demo_plan#} demo_log)"
proof -
  have "(sys_step (demo_outside True))\<^sup>*\<^sup>* (system demo_store no_world {#} [])
      (system demo_store demo_crossed {#FirstSend first_session demo_plan, FirstSend second_session demo_plan#} [])"
    using two_starts [OF demo_started(6) demo_keys demo_keys _ first_session_def second_session_def, of "{#}" "[]"]
    by (simp add: demo_crossed_def add_mset_commute)
  from reachable_run [OF this demo_init] demo_sending show ?thesis by (rule reachable.step)
qed

lemma demo_ids: "inj (ox_PublicId (demo_outside True))"
  by (auto simp: demo_outside_def inj_on_def itoa_nat_inject)

lemma concurrent_starts_cancel_witness:
  "\<exists>\<sigma>'. (sys_step (demo_outside True))\<^sup>*\<^sup>* (system demo_store no_world {#} []) \<sigma>'
    \<and> map (\<lambda>s. (ss_CommandKey s, ss_UserPublicId s, ss_StoryName s, ss_Status s)) (w_sessions (sys_world \<sigma>'))
      = [(''k1'', ''u'', ''S'', Superseded), (''k2'', ''u'', ''S'', Superseded)]"
proof -
  let ?\<sigma> = "system demo_store no_world {#} []"
  have "planStart (demo_outside True) (sys_db ?\<sigma>) ''S'' ''t'' ''u'' = Inr demo_plan"
    by (simp only: system_simps demo_started(6))
  note run = concurrent_starts_cancel [OF this, of "''k1''" "''k2''"]
  have "unused (sys_world ?\<sigma>) k" for k by (simp only: system_simps demo_keys)
  from run [OF this this] obtain \<sigma>' where "(sys_step (demo_outside True))\<^sup>*\<^sup>* ?\<sigma> \<sigma>'"
    "map (\<lambda>s. (ss_CommandKey s, ss_UserPublicId s, ss_StoryName s, ss_Status s))
        (drop (length (w_sessions (sys_world ?\<sigma>))) (w_sessions (sys_world \<sigma>')))
      = [(''k1'', ''u'', ''S'', Superseded), (''k2'', ''u'', ''S'', Superseded)]"
    by auto
  moreover have "length (w_sessions (sys_world ?\<sigma>)) = 0" by (simp add: no_world_def)
  ultimately show ?thesis by (intro exI [of _ \<sigma>']) (simp only: drop_0 simp_thms)
qed

lemma step_sent_once_witness:
  "distinct (sys_log (system demo_store (demo_send demo_crossed) {#FirstSend second_session demo_plan#} demo_log))"
  by (rule step_sent_once [OF demo_reached demo_ids])

lemma command_key_once_witness:
  "distinct (command_keys (system demo_store (demo_send demo_crossed) {#FirstSend second_session demo_plan#} demo_log))"
  by (rule command_key_once [OF demo_reached])

lemma ended_stays_ended_witness:
  "ss_Status (w_sessions (sys_world (system demo_store (demo_send demo_crossed) {#FirstSend second_session demo_plan#} demo_log)) ! 0) \<noteq> Active"
proof -
  have "0 < length (w_sessions demo_crossed)" "ss_Status (w_sessions demo_crossed ! 0) \<noteq> Active"
    by (simp_all add: demo_crossed_def crossed_sessions inserted_simps no_world_def)
  then show ?thesis
    using ended_stays_ended [OF r_into_rtranclp [of "sys_step (demo_outside True)", OF demo_sending], of 0] by simp
qed

end
