(* ===== verification/Documents.thy ===== *)
theory Documents
  imports Effects Mongo Entities
begin

text \<open>
  The documents of the database as BSON values, the queries and updates the handlers of
  \<open>src/routes\<close> send, and the collections with their unique indexes
  (\<open>src/routes/indexes.go\<close>).

  \<^item> A document is an association list; a filter is a list of conditions on paths. A path
    leads through documents and, as in the database, through the documents of an array or
    to the element of an index. A condition on a value that is an array holds also when it
    holds of an element, and a missing value reads as null.
  \<^item> An update is a list of changes; when one of them does not fit the document, the
    document stays as it is.
\<close>

section \<open>Values\<close>

datatype Bson =
    BNull
  | BBool bool
  | BInt int
  | BStr string
  | BTime int
  | BOid ObjectId
  | BArr "Bson list"
  | BDoc "(string \<times> Bson) list"

type_synonym Doc = "(string \<times> Bson) list"

definition getField :: "string \<Rightarrow> Doc \<Rightarrow> Bson" where
  "getField k d = (case map_of d k of None \<Rightarrow> BNull | Some v \<Rightarrow> v)"

text \<open>A path component that is the index of an array element.\<close>

definition arrayIndex :: "string \<Rightarrow> nat option" where
  "arrayIndex k =
     (if k \<noteq> [] \<and> list_all (\<lambda>c. 48 \<le> (of_char c :: nat) \<and> (of_char c :: nat) \<le> 57) k
      then Some (foldl (\<lambda>n c. 10 * n + (of_char c - 48)) 0 k) else None)"

section \<open>Queries\<close>

type_synonym Path = "string list"

text \<open>The values a path leads to.\<close>

fun reach :: "Path \<Rightarrow> Bson \<Rightarrow> Bson list" where
  "reach [] v = [v]"
| "reach (k # ks) (BDoc d) = (case map_of d k of None \<Rightarrow> [] | Some v \<Rightarrow> reach ks v)"
| "reach (k # ks) (BArr xs) =
     concat (map (\<lambda>x. case x of
         BDoc d \<Rightarrow> (case map_of d k of None \<Rightarrow> [] | Some v \<Rightarrow> reach ks v) | _ \<Rightarrow> []) xs)
     @ (case arrayIndex k of
          None \<Rightarrow> [] | Some i \<Rightarrow> if i < length xs then reach ks (xs ! i) else [])"
| "reach (k # ks) v = []"

datatype Test = Is Bson | OneOf "Bson list" | NoneOf "Bson list"

definition equals :: "Bson list \<Rightarrow> Bson \<Rightarrow> bool" where
  "equals vs v \<longleftrightarrow> list_ex (\<lambda>w. w = v \<or> (case w of BArr xs \<Rightarrow> v \<in> set xs | _ \<Rightarrow> False)) vs \<or> v = BNull \<and> vs = []"

fun holds :: "Bson \<Rightarrow> Path \<times> Test \<Rightarrow> bool" where
  "holds b (p, Is v) = equals (reach p b) v"
| "holds b (p, OneOf vs) = list_ex (equals (reach p b)) vs"
| "holds b (p, NoneOf vs) = (\<not> list_ex (equals (reach p b)) vs)"

type_synonym Filter = "(Path \<times> Test) list"

definition matches :: "Filter \<Rightarrow> Bson \<Rightarrow> bool" where
  "matches f b = list_all (holds b) f"

section \<open>Updates\<close>

text \<open>The value at a path is replaced; missing documents on the way are created.\<close>

fun editPath :: "Path \<Rightarrow> (Bson option \<Rightarrow> Bson option) \<Rightarrow> Bson option \<Rightarrow> Bson option" where
  "editPath [] f v = f v"
| "editPath (k # ks) f None = map_option (\<lambda>w. BDoc [(k, w)]) (editPath ks f None)"
| "editPath (k # ks) f (Some (BDoc d)) = map_option (\<lambda>w. BDoc (gomap_put k w d)) (editPath ks f (map_of d k))"
| "editPath (k # ks) f (Some (BArr xs)) =
     (case arrayIndex k of
        None \<Rightarrow> None
      | Some i \<Rightarrow> map_option (\<lambda>w. BArr ((xs @ replicate (Suc i - length xs) BNull)[i := w]))
          (editPath ks f (if i < length xs then Some (xs ! i) else None)))"
| "editPath (k # ks) f (Some v) = None"

text \<open>The value at a path is removed, or those elements of it that satisfy a predicate.\<close>

fun unsetPath :: "Path \<Rightarrow> Bson \<Rightarrow> Bson" where
  "unsetPath [k] (BDoc d) = BDoc (filter (\<lambda>(k', _). k' \<noteq> k) d)"
| "unsetPath (k # ks) (BDoc d) = (case map_of d k of None \<Rightarrow> BDoc d | Some v \<Rightarrow> BDoc (gomap_put k (unsetPath ks v) d))"
| "unsetPath p v = v"

fun pullPath :: "Path \<Rightarrow> (Bson \<Rightarrow> bool) \<Rightarrow> Bson \<Rightarrow> Bson option" where
  "pullPath [] P (BArr xs) = Some (BArr (filter (\<lambda>x. \<not> P x) xs))"
| "pullPath [] P v = None"
| "pullPath (k # ks) P (BDoc d) =
     (case map_of d k of None \<Rightarrow> Some (BDoc d) | Some v \<Rightarrow> map_option (\<lambda>w. BDoc (gomap_put k w d)) (pullPath ks P v))"
| "pullPath (k # ks) P v = Some v"

datatype Change =
    Put Path Bson
  | Unset Path
  | Push Path "Bson list"
  | Pull Path "Bson \<Rightarrow> bool"

definition pushAll :: "Bson list \<Rightarrow> Bson option \<Rightarrow> Bson option" where
  "pushAll vs old = (case old of None \<Rightarrow> Some (BArr vs) | Some (BArr xs) \<Rightarrow> Some (BArr (xs @ vs)) | _ \<Rightarrow> None)"

fun change :: "Change \<Rightarrow> Bson \<Rightarrow> Bson option" where
  "change (Put p v) b = editPath p (\<lambda>_. Some v) (Some b)"
| "change (Unset p) b = Some (unsetPath p b)"
| "change (Push p vs) b = editPath p (pushAll vs) (Some b)"
| "change (Pull p P) b = pullPath p P b"

fun changes :: "Change list \<Rightarrow> Bson \<Rightarrow> Bson option" where
  "changes [] b = Some b"
| "changes (c # cs) b = Option.bind (change c b) (changes cs)"

text \<open>On a document; None when a change does not fit.\<close>

definition updated :: "Change list \<Rightarrow> Doc \<Rightarrow> Doc option" where
  "updated cs d = (case changes cs (BDoc d) of Some (BDoc d') \<Rightarrow> Some d' | _ \<Rightarrow> None)"

section \<open>Unique indexes\<close>

datatype Coll =
    StoryCollection | StorylineCollection | EnactmentCollection | SceneCollection | MessageCollection
  | MessageContentCollection | TriggerCollection | ActionCollection | BadgeCollection | TagCollection
  | TemplateVariablesCollection | UserCollection | OfferCollection | EmailListCollection
  | storySessionCollection | PageBlockCollection | FunnelStageCollection | AssetCollection | MediaCollection
  | MediaChannelCollection | ProductCollection | CertificateCollection

definition storyGraphCollections :: "Coll list" where
  "storyGraphCollections = [StoryCollection, StorylineCollection, EnactmentCollection, SceneCollection,
     MessageCollection, MessageContentCollection, TriggerCollection, ActionCollection, BadgeCollection,
     TagCollection, TemplateVariablesCollection, UserCollection]"

text \<open>
  The unique indexes of a collection, by their keys; the creation of an index succeeds or falls
  back to one that is not unique.
\<close>

definition EnsureStoryGraphIndexes :: "(Coll \<Rightarrow> bool) \<Rightarrow> Coll \<Rightarrow> string list list" where
  "EnsureStoryGraphIndexes created c =
     (if List.member storyGraphCollections c \<and> created c then [[''subscriber_id'', ''public_id'']] else [])"

definition EnsureIdentityIndexes :: "bool \<Rightarrow> Coll \<Rightarrow> string list list" where
  "EnsureIdentityIndexes created c = (if c = UserCollection \<and> created then [[''tenant_id'', ''email'']] else [])"

text \<open>A sparse index has the documents with at least one of its keys.\<close>

definition indexed :: "string list \<Rightarrow> Doc \<Rightarrow> bool" where
  "indexed ks d \<longleftrightarrow> list_ex (\<lambda>k. map_of d k \<noteq> None) ks"

definition clash :: "string list list \<Rightarrow> Doc \<Rightarrow> Doc \<Rightarrow> bool" where
  "clash uniq a b \<longleftrightarrow> getField ''_id'' a = getField ''_id'' b
     \<or> list_ex (\<lambda>ks. indexed ks a \<and> indexed ks b \<and> map (\<lambda>k. getField k a) ks = map (\<lambda>k. getField k b) ks) uniq"

section \<open>Operations on a collection\<close>

text \<open>\<open>Update\<close>: the first document that matches; refused when it does not fit or would clash.\<close>

definition updateDoc :: "string list list \<Rightarrow> (Doc \<Rightarrow> bool) \<Rightarrow> Change list \<Rightarrow> Doc list \<Rightarrow> db_error option \<times> Doc list" where
  "updateDoc uniq P cs docs =
     (case find P docs of
        None \<Rightarrow> (Some NotFound, docs)
      | Some d \<Rightarrow>
          (case updated cs d of
             None \<Rightarrow> (Some (DbError ''write error''), docs)
           | Some d' \<Rightarrow>
               if list_ex (clash uniq d') (remove1 d docs) then (Some DuplicateKey, docs)
               else updateOne P (\<lambda>_. d') docs))"

text \<open>\<open>UpdateAll\<close>: in order, up to the first document that does not fit.\<close>

fun updateDocs :: "(Doc \<Rightarrow> bool) \<Rightarrow> Change list \<Rightarrow> Doc list \<Rightarrow> db_error option \<times> Doc list" where
  "updateDocs P cs [] = (None, [])"
| "updateDocs P cs (d # ds) =
     (if P d then
        (case updated cs d of
           None \<Rightarrow> (Some (DbError ''write error''), d # ds)
         | Some d' \<Rightarrow> (let (e, ds') = updateDocs P cs ds in (e, d' # ds')))
      else (let (e, ds') = updateDocs P cs ds in (e, d # ds')))"

text \<open>\<open>Remove\<close>: the first document that matches.\<close>

fun removeDoc :: "(Doc \<Rightarrow> bool) \<Rightarrow> Doc list \<Rightarrow> db_error option \<times> Doc list" where
  "removeDoc P [] = (Some NotFound, [])"
| "removeDoc P (d # ds) = (if P d then (None, ds) else (let (e, ds') = removeDoc P ds in (e, d # ds')))"

end
