(* ===== verification/DocStore.thy ===== *)
theory DocStore
  imports Documents StoryGraph
begin

text \<open>
  The handlers' side of the database: the collections as a state, the operations of the driver
  on them, what the packages outside the repository are asked for, and the three updates of
  \<open>src/routes/update_allowlists.go\<close>.

  A handler is run behind the authentication of the tenants: it is given the tenant in both
  forms it can ask for, and the values the request binds to. An operation of the database
  is done, refused, or done with its answer lost.
\<close>

section \<open>Who asks, and what is answered\<close>

text \<open>\<open>auth.GetTenantID\<close>, \<open>auth.GetTenantObjectID\<close> and \<open>auth.GetAccountUserID\<close>\<close>

record Caller =
  ca_Tenant :: string
  ca_TenantOid :: ObjectId
  ca_Account :: string

datatype Answer =
    AStr string
  | ANum int
  | ABool bool
  | ANull
  | ANone
  | ADoc Doc
  | ADocs "Doc list"
  | AStory Story
  | AStories "Story list"
  | AContact Doc bool
  | AContacts "(Doc \<times> bool) list"
  | AStats "(string \<times> int) list"

type_synonym Reply = "nat \<times> (string \<times> Answer) list"

text \<open>What the body of a registration binds to.\<close>

record registerUserRequest =
  rr_Email :: string
  rr_FirstName :: string
  rr_MiddleName :: string
  rr_LastName :: string
  rr_Phone :: string
  rr_ListID :: string
  rr_Subscribed :: bool
  rr_SubscriberID :: string
  rr_Domain :: string

section \<open>What is outside the repository\<close>

text \<open>
  The binding of a struct and its document are the driver's: \<open>bk_struct\<close> is the document as
  it is read into the struct of its collection, \<open>bk_zero\<close> the struct no document was read into.
  \<open>bk_SanitizeUpdate\<close> is \<open>db.SanitizeUpdate\<close>; \<open>bk_contact\<close> is the struct of a contact with the names,
  the phone, the subscription and the list of a registration; \<open>bk_consent\<close> reads the fields of a
  contact that say what it has subscribed to; \<open>bk_Assign\<close> and \<open>bk_Remove\<close> are those of the package
  \<open>badges\<close>, on all collections.
\<close>

record Backend =
  bk_db :: "nat \<Rightarrow> db_reply"
  bk_now :: "nat \<Rightarrow> int"
  bk_publicId :: "nat \<Rightarrow> string"
  bk_unique :: "Coll \<Rightarrow> string list list"
  bk_created :: string
  bk_struct :: "Coll \<Rightarrow> Doc \<Rightarrow> Doc"
  bk_zero :: "Coll \<Rightarrow> Doc"
  bk_Story :: "Doc \<Rightarrow> Story"
  bk_Storyline :: "Doc \<Rightarrow> Storyline"
  bk_Enactment :: "Doc \<Rightarrow> Enactment"
  bk_Scene :: "Doc \<Rightarrow> Scene"
  bk_Message :: "Doc \<Rightarrow> Message"
  bk_Trigger :: "Doc \<Rightarrow> Trigger"
  bk_Action :: "Doc \<Rightarrow> Action"
  bk_sortActs :: "Enactment list \<Rightarrow> Enactment list"
  bk_sortStorylines :: "Storyline list \<Rightarrow> Storyline list"
  bk_SanitizeUpdate :: "Doc \<Rightarrow> string list \<Rightarrow> string + Doc"
  bk_NormalizeBadgeKind :: "string \<Rightarrow> string"
  bk_BadgeKindAchievement :: string
  bk_BadgeKindContactLabel :: string
  bk_ContactCreationBlocked :: "nat \<Rightarrow> ObjectId \<Rightarrow> bool"
  bk_ApplyHold :: "nat \<Rightarrow> Doc \<Rightarrow> Doc"
  bk_consent :: "Doc \<Rightarrow> bool \<times> bool option \<times> string"
  bk_Assign :: "nat \<Rightarrow> Bson \<Rightarrow> Bson \<Rightarrow> Bson \<Rightarrow> string \<Rightarrow> (Coll \<Rightarrow> Doc list) \<Rightarrow> string option \<times> (Coll \<Rightarrow> Doc list)"
  bk_Remove :: "nat \<Rightarrow> Bson \<Rightarrow> Bson \<Rightarrow> Bson \<Rightarrow> string \<Rightarrow> (Coll \<Rightarrow> Doc list) \<Rightarrow> string option \<times> (Coll \<Rightarrow> Doc list)"
  bk_contact :: "registerUserRequest \<Rightarrow> ObjectId option \<Rightarrow> Doc"
  bk_ObjectIdHex :: "string \<Rightarrow> ObjectId option"
  bk_Hex :: "ObjectId \<Rightarrow> string"

section \<open>State\<close>

record Docs =
  dx_reads :: nat
  dx_oids :: nat
  dx_colls :: "Coll \<Rightarrow> Doc list"
  dx_invalidated :: "ObjectId list"

type_synonym 'a docs = "(Docs, 'a) state"

definition tick :: "nat docs" where
  "tick = State (\<lambda>s. (dx_reads s, s\<lparr>dx_reads := Suc (dx_reads s)\<rparr>))"

definition timeNow :: "Backend \<Rightarrow> int docs" where
  "timeNow bk = do { n \<leftarrow> tick; ret (bk_now bk n) }"

definition NewObjectId :: "ObjectId docs" where
  "NewObjectId = State (\<lambda>s. (Oid (dx_oids s), s\<lparr>dx_oids := Suc (dx_oids s)\<rparr>))"

definition GeneratePublicId :: "Backend \<Rightarrow> string docs" where
  "GeneratePublicId bk = do { n \<leftarrow> tick; ret (bk_publicId bk n) }"

definition Invalidate :: "ObjectId \<Rightarrow> unit docs" where
  "Invalidate t = modifies (\<lambda>s. s\<lparr>dx_invalidated := dx_invalidated s @ [t]\<rparr>)"

section \<open>The operations of the driver\<close>

text \<open>One write on a collection: the error the driver returns, if any.\<close>

definition putColl :: "Coll \<Rightarrow> Doc list \<Rightarrow> Docs \<Rightarrow> Docs" where
  "putColl c docs s = s\<lparr>dx_colls := (dx_colls s)(c := docs)\<rparr>"

definition writeColl :: "Backend \<Rightarrow> Coll \<Rightarrow> (Doc list \<Rightarrow> db_error option \<times> Doc list) \<Rightarrow> db_error option docs" where
  "writeColl bk c w = do {
     n \<leftarrow> tick;
     let run = State (\<lambda>s. let (e, docs) = w (dx_colls s c) in (e, putColl c docs s));
     case bk_db bk n of
       Done \<Rightarrow> run
     | Refused e \<Rightarrow> ret (Some (DbError e))
     | Lost e \<Rightarrow> do { _ \<leftarrow> run; ret (Some (DbError e)) }
   }"

definition readColl :: "Backend \<Rightarrow> Coll \<Rightarrow> (Doc list \<Rightarrow> db_error + 'a) \<Rightarrow> (db_error + 'a) docs" where
  "readColl bk c q = do {
     n \<leftarrow> tick;
     case bk_db bk n of
       Done \<Rightarrow> asks (\<lambda>s. q (dx_colls s c))
     | Refused e \<Rightarrow> ret (Inl (DbError e))
     | Lost e \<Rightarrow> ret (Inl (DbError e))
   }"

abbreviation sat :: "Filter \<Rightarrow> Doc \<Rightarrow> bool" where
  "sat f d \<equiv> matches f (BDoc d)"

definition FindOne :: "Backend \<Rightarrow> Coll \<Rightarrow> Filter \<Rightarrow> (db_error + Doc) docs" where
  "FindOne bk c f = readColl bk c (\<lambda>docs.
     case find (sat f) docs of None \<Rightarrow> Inl NotFound | Some d \<Rightarrow> Inr (bk_struct bk c d))"

text \<open>\<open>All(&items)\<close> whose error is not looked at: nothing is read then.\<close>

definition FindAll :: "Backend \<Rightarrow> Coll \<Rightarrow> Filter \<Rightarrow> Doc list docs" where
  "FindAll bk c f = do {
     r \<leftarrow> readColl bk c (\<lambda>docs. Inr (map (bk_struct bk c) (filter (sat f) docs)));
     ret (case r of Inl _ \<Rightarrow> [] | Inr items \<Rightarrow> items)
   }"

text \<open>\<open>Count()\<close> whose error is not looked at.\<close>

definition Count :: "Backend \<Rightarrow> Coll \<Rightarrow> Filter \<Rightarrow> nat docs" where
  "Count bk c f = do {
     r \<leftarrow> readColl bk c (\<lambda>docs. Inr (length (filter (sat f) docs)));
     ret (case r of Inl _ \<Rightarrow> 0 | Inr n \<Rightarrow> n)
   }"

definition Insert :: "Backend \<Rightarrow> Coll \<Rightarrow> Doc \<Rightarrow> db_error option docs" where
  "Insert bk c d = writeColl bk c (insertRow (clash (bk_unique bk c)) d)"

definition Update :: "Backend \<Rightarrow> Coll \<Rightarrow> Filter \<Rightarrow> Change list \<Rightarrow> db_error option docs" where
  "Update bk c f cs = writeColl bk c (updateDoc (bk_unique bk c) (sat f) cs)"

definition UpdateAll :: "Backend \<Rightarrow> Coll \<Rightarrow> Filter \<Rightarrow> Change list \<Rightarrow> db_error option docs" where
  "UpdateAll bk c f cs = writeColl bk c (updateDocs (sat f) cs)"

definition Remove :: "Backend \<Rightarrow> Coll \<Rightarrow> Filter \<Rightarrow> db_error option docs" where
  "Remove bk c f = writeColl bk c (removeDoc (sat f))"

text \<open>The number of documents that were removed; none when the driver reports an error.\<close>

definition RemoveAll :: "Backend \<Rightarrow> Coll \<Rightarrow> Filter \<Rightarrow> nat docs" where
  "RemoveAll bk c f = do {
     n \<leftarrow> asks (\<lambda>s. length (filter (sat f) (dx_colls s c)));
     e \<leftarrow> writeColl bk c (\<lambda>docs. (None, filter (\<lambda>d. \<not> sat f d) docs));
     ret (if e = None then n else 0)
   }"

section \<open>Answers\<close>

definition answer :: "nat \<Rightarrow> (string \<times> Answer) list \<Rightarrow> Reply docs" where
  "answer code body = ret (code, body)"

definition refuse :: "nat \<Rightarrow> string \<Rightarrow> Reply docs" where
  "refuse code msg = answer code [(''error'', AStr msg)]"

definition ok :: "Reply docs" where
  "ok = answer 200 [(''status'', AStr ''ok'')]"

section \<open>Filters\<close>

definition field :: "string \<Rightarrow> Bson \<Rightarrow> Path \<times> Test" where
  "field k v = ([k], Is v)"

text \<open>\<open>"subscriber_id": auth.GetTenantID(c)\<close> and \<open>"tenant_id": auth.GetTenantObjectID(c)\<close>\<close>

definition subscriber :: "Caller \<Rightarrow> Path \<times> Test" where
  "subscriber who = field ''subscriber_id'' (BStr (ca_Tenant who))"

definition tenant :: "Caller \<Rightarrow> Path \<times> Test" where
  "tenant who = field ''tenant_id'' (BOid (ca_TenantOid who))"

definition public :: "string \<Rightarrow> Path \<times> Test" where
  "public i = field ''public_id'' (BStr i)"

text \<open>\<open>"timestamps.deleted_at": nil\<close>\<close>

definition alive :: "Path \<times> Test" where
  "alive = ([''timestamps'', ''deleted_at''], Is BNull)"

section \<open>Updates through the allowlists\<close>

definition storyUpdateFields :: "string list" where
  "storyUpdateFields = [''name'', ''storyline_ids'', ''priority'', ''allow_interruption'', ''on_complete'', ''on_fail'',
     ''on_begin'', ''must_have'', ''must_not_have'', ''required_user_badges'', ''start_trigger'', ''complete_trigger'',
     ''next_story'', ''next_story_id'']"

definition storylineUpdateFields :: "string list" where
  "storylineUpdateFields = [''name'', ''natural_order'', ''act_ids'', ''must_have'', ''must_not_have'',
     ''required_user_badges'', ''badge_transaction'', ''next_storyline'', ''next_storyline_id'', ''conditional_routes'',
     ''on_complete_begin'', ''on_fail_begin'', ''on_begin'']"

definition enactmentUpdateFields :: "string list" where
  "enactmentUpdateFields = [''name'', ''level'', ''natural_order'', ''badge_transaction'', ''next_storyline_id'',
     ''send_scene'', ''send_scenes_ids'', ''skip_storyline_on_expiry'', ''trigger_ids'']"

definition sceneUpdateFields :: "string list" where
  "sceneUpdateFields = [''name'', ''message_id'', ''tags_ids'', ''subject'', ''body'', ''from_email'', ''from_name'',
     ''reply_to'', ''vars'']"

definition messageUpdateFields :: "string list" where
  "messageUpdateFields = [''name'', ''content'', ''vars'']"

definition messageContentUpdateFields :: "string list" where
  "messageContentUpdateFields = [''subject'', ''reply_to'', ''from_email'', ''from_name'', ''body'', ''template_id'',
     ''given_vars'', ''email_gen_config'']"

definition triggerUpdateFields :: "string list" where
  "triggerUpdateFields = [''name'', ''trigger_type'', ''user_action_type'', ''user_action_value'',
     ''then_do_this_action_id'', ''priority'', ''mark_complete'', ''mark_failed'', ''persist_scope'', ''must_have'',
     ''must_not_have'', ''required_badges'', ''watch_block_id'', ''watch_operator'', ''watch_percent'']"

definition actionUpdateFields :: "string list" where
  "actionUpdateFields = [''action_name'', ''when'', ''next_enactment_id'', ''end_story'', ''advance_to_next_storyline'',
     ''send_immediate'', ''badge_transaction_ids'', ''unsubscribe'', ''extra_actions'']"

definition badgeUpdateFields :: "string list" where
  "badgeUpdateFields = [''name'', ''description'', ''kind'']"

definition tagUpdateFields :: "string list" where
  "tagUpdateFields = [''name'', ''description'']"

definition templateVarFields :: "string list" where
  "templateVarFields = [''name'', ''value'', ''description'', ''default_value'']"

definition contactUpdateFields :: "string list" where
  "contactUpdateFields = [''name'', ''email'', ''phone_number'', ''personal_tags'', ''custom_fields'',
     ''preferred_locale'', ''subscribed'', ''email_list'', ''middle_name'', ''first_name'', ''last_name'', ''phone'']"

text \<open>\<open>bson.M{"$set": set}\<close>\<close>

definition setAll :: "Doc \<Rightarrow> Change list" where
  "setAll d = map (\<lambda>(k, v). Put [k] v) d"

text \<open>The answer that was written, if the update was refused.\<close>

definition applySanitizedUpdateWhere :: "Backend \<Rightarrow> Coll \<Rightarrow> string list \<Rightarrow> Filter \<Rightarrow> string + Doc \<Rightarrow> Reply option docs" where
  "applySanitizedUpdateWhere bk c allowed f body =
     (case body of
        Inl _ \<Rightarrow> ret (Some (400, [(''error'', AStr ''invalid request body'')]))
      | Inr raw \<Rightarrow>
          (case bk_SanitizeUpdate bk raw allowed of
             Inl e \<Rightarrow> ret (Some (400, [(''error'', AStr e)]))
           | Inr sets \<Rightarrow> do {
               err \<leftarrow> Update bk c f (setAll sets);
               ret (if err = None then None else Some (404, [(''error'', AStr ''not found'')]))
             }))"

definition applySanitizedUpdate :: "Backend \<Rightarrow> Caller \<Rightarrow> string \<Rightarrow> Coll \<Rightarrow> string list \<Rightarrow> string + Doc \<Rightarrow> Reply option docs" where
  "applySanitizedUpdate bk who i c allowed body = applySanitizedUpdateWhere bk c allowed [public i, subscriber who] body"

definition applySanitizedContactUpdate :: "Backend \<Rightarrow> Caller \<Rightarrow> string \<Rightarrow> Coll \<Rightarrow> string list \<Rightarrow> string + Doc \<Rightarrow> Reply option docs" where
  "applySanitizedContactUpdate bk who i c allowed body = applySanitizedUpdateWhere bk c allowed [public i, tenant who] body"

text \<open>What the handlers of an update do with it.\<close>

definition updateReply :: "Reply option docs \<Rightarrow> Reply docs" where
  "updateReply m = do { r \<leftarrow> m; case r of Some reply \<Rightarrow> ret reply | None \<Rightarrow> ok }"

end
