(* ===== verification/StoryStore.thy ===== *)
theory StoryStore
  imports DocStore
begin

text \<open>
  The endpoints of the story builder (\<open>src/routes/story.go\<close>): one definition per handler, in the
  order of the file. Most are one of a few shapes, which come first: a list, one document, a
  new document, an update through an allowlist, a soft deletion, a removal.

  A document in an answer is the document of the struct that is answered.
\<close>

section \<open>Shapes\<close>

definition listItems :: "Backend \<Rightarrow> Coll \<Rightarrow> Filter \<Rightarrow> string \<Rightarrow> Reply docs" where
  "listItems bk c f key = do { items \<leftarrow> FindAll bk c f; answer 200 [(key, ADocs items)] }"

definition getItem :: "Backend \<Rightarrow> Coll \<Rightarrow> Filter \<Rightarrow> string \<Rightarrow> Reply docs" where
  "getItem bk c f key = do {
     found \<leftarrow> FindOne bk c f;
     case found of
       Inl _ \<Rightarrow> refuse 404 (key @ '' not found'')
     | Inr item \<Rightarrow> answer 200 [(key, ADoc item)]
   }"

text \<open>\<open>item.SoftDeletes.CreatedAt = now()\<close>\<close>

definition createdAt :: "Backend \<Rightarrow> int \<Rightarrow> Doc \<Rightarrow> Doc" where
  "createdAt bk now d = gomap_put ''timestamps''
     (BDoc (gomap_put (bk_created bk) (BTime (bsonTime now)) (case getField ''timestamps'' d of BDoc t \<Rightarrow> t | _ \<Rightarrow> []))) d"

text \<open>The id, the public id and the time of a new document; its owner is set before.\<close>

definition identified :: "Backend \<Rightarrow> Doc \<Rightarrow> Doc docs" where
  "identified bk d = do {
     i \<leftarrow> NewObjectId;
     p \<leftarrow> GeneratePublicId bk;
     now \<leftarrow> timeNow bk;
     ret (createdAt bk now (gomap_put ''public_id'' (BStr p) (gomap_put ''_id'' (BOid i) d)))
   }"

definition ownedBy :: "Caller \<Rightarrow> Doc \<Rightarrow> Doc" where
  "ownedBy who d = gomap_put ''subscriber_id'' (BStr (ca_Tenant who)) d"

text \<open>The error of the insertion is not looked at.\<close>

definition createItem :: "Backend \<Rightarrow> Caller \<Rightarrow> Coll \<Rightarrow> string \<Rightarrow> Doc \<Rightarrow> Reply docs" where
  "createItem bk who c key d = do {
     item \<leftarrow> identified bk (ownedBy who d);
     _ \<leftarrow> Insert bk c item;
     answer 200 [(key, ADoc item)]
   }"

definition deletion :: "int \<Rightarrow> Change list" where
  "deletion now = [Put [''timestamps'', ''deleted_at''] (BTime (bsonTime now))]"

definition softDelete :: "Backend \<Rightarrow> Coll \<Rightarrow> Filter \<Rightarrow> Reply docs" where
  "softDelete bk c f = do { now \<leftarrow> timeNow bk; _ \<leftarrow> Update bk c f (deletion now); ok }"

definition removeItem :: "Backend \<Rightarrow> Coll \<Rightarrow> Filter \<Rightarrow> Reply docs" where
  "removeItem bk c f = do { _ \<leftarrow> Remove bk c f; ok }"

definition setStatus :: "Backend \<Rightarrow> Coll \<Rightarrow> Filter \<Rightarrow> string \<Rightarrow> Reply docs" where
  "setStatus bk c f st = do { _ \<leftarrow> Update bk c f [Put [''status''] (BStr st)]; ok }"

text \<open>An update whose result is read back; when nothing is found the zero struct is answered.\<close>

definition readBack :: "Backend \<Rightarrow> Coll \<Rightarrow> Filter \<Rightarrow> Doc docs" where
  "readBack bk c f = do {
     r \<leftarrow> FindOne bk c f;
     ret (case r of Inl _ \<Rightarrow> bk_zero bk c | Inr d \<Rightarrow> d)
   }"

section \<open>Reading a story for the editor\<close>

text \<open>
  \<open>Find(\<dots>).One(&x)\<close> whose error is only passed over: the document the query finds, read into its struct.
  Every such read may fail by itself.
\<close>

definition readOne :: "Backend \<Rightarrow> Coll \<Rightarrow> (Doc \<Rightarrow> 'e) \<Rightarrow> ('e list \<Rightarrow> 'e option) \<Rightarrow> 'e option docs" where
  "readOne bk c read query = do {
     r \<leftarrow> readColl bk c (\<lambda>docs. case query (map read docs) of None \<Rightarrow> Inl NotFound | Some x \<Rightarrow> Inr x);
     ret (case r of Inl _ \<Rightarrow> None | Inr x \<Rightarrow> Some x)
   }"

definition find_public ::
  "('e \<Rightarrow> string) \<Rightarrow> ('e \<Rightarrow> string) \<Rightarrow> 'e list \<Rightarrow> string \<Rightarrow> string \<Rightarrow> 'e option" where
  "find_public pid owner docs tid p = find (\<lambda>d. pid d = p \<and> owner d = tid) docs"

text \<open>A loop over ids that passes over those whose document is not read.\<close>

definition readAll :: "(ObjectId \<Rightarrow> 'e option docs) \<Rightarrow> ObjectId list \<Rightarrow> 'e list docs" where
  "readAll f ids = do { found \<leftarrow> mapC f ids; ret (List.map_filter id found) }"

text \<open>
  \<open>loadScene\<close> and \<open>hydrateEnactment\<close> of \<open>src/routes/story_engine.go\<close>, read by read; the theory of the
  engine has them on one state of the collections.
\<close>

definition readScene :: "Backend \<Rightarrow> string \<Rightarrow> ObjectId \<Rightarrow> Scene option docs" where
  "readScene bk tid i = do {
     found \<leftarrow> readOne bk SceneCollection (bk_Scene bk) (\<lambda>docs. find_owned scn_Id scn_SubscriberId docs tid i);
     case found of
       None \<Rightarrow> ret None
     | Some sc \<Rightarrow>
         (case (scn_Message sc, scn_MessageId sc) of
            (None, Some r) \<Rightarrow> do {
              msg \<leftarrow> readOne bk MessageCollection (bk_Message bk)
                (\<lambda>docs. find_owned msg_Id msg_SubscriberId docs tid (ci_Id r));
              ret (Some (sc\<lparr>scn_Message := msg\<rparr>))
            }
          | _ \<Rightarrow> ret (Some sc))
   }"

definition readTrigger :: "Backend \<Rightarrow> string \<Rightarrow> ObjectId \<Rightarrow> Trigger option docs" where
  "readTrigger bk tid i = do {
     found \<leftarrow> readOne bk TriggerCollection (bk_Trigger bk) (\<lambda>docs. find_owned trg_Id trg_SubscriberId docs tid i);
     case found of
       None \<Rightarrow> ret None
     | Some tr \<Rightarrow>
         (case (trg_DoAction tr, trg_DoActionId tr) of
            (None, Some r) \<Rightarrow> do {
              act \<leftarrow> readOne bk ActionCollection (bk_Action bk)
                (\<lambda>docs. find_owned act_Id act_SubscriberId docs tid (ci_Id r));
              ret (Some (tr\<lparr>trg_DoAction := act\<rparr>))
            }
          | _ \<Rightarrow> ret (Some tr))
   }"

definition readEnactment :: "Backend \<Rightarrow> string \<Rightarrow> Enactment \<Rightarrow> Enactment docs" where
  "readEnactment bk tid en = do {
     scene \<leftarrow> (case (ent_SendScene en, ent_SendSceneId en) of
         (None, Some r) \<Rightarrow> readScene bk tid (ci_Id r) | (sc, _) \<Rightarrow> ret sc);
     scenes \<leftarrow> (case (ent_SendScenes en, ent_SendScenesIds en) of
         ([], Some r) \<Rightarrow> readAll (readScene bk tid) (cis_Ids r) | (scs, _) \<Rightarrow> ret scs);
     events \<leftarrow> (case (ent_OnEvent en, ent_OnEventIds en) of
         ([], Some r) \<Rightarrow> do { trs \<leftarrow> readAll (readTrigger bk tid) (cis_Ids r); ret (foldl addEvent [] trs) }
       | (m, _) \<Rightarrow> ret m);
     ret (en\<lparr>ent_SendScene := scene, ent_SendScenes := scenes, ent_OnEvent := events\<rparr>)
   }"

text \<open>The parts of \<open>hydrateStory\<close>; a part whose read fails stays as it was.\<close>

definition mergeStoryline :: "Backend \<Rightarrow> string \<Rightarrow> Storyline list \<Rightarrow> ObjectId \<Rightarrow> Storyline list docs" where
  "mergeStoryline bk tid sls i = do {
     found \<leftarrow> readOne bk StorylineCollection (bk_Storyline bk) (\<lambda>docs. find_owned stl_Id stl_SubscriberId docs tid i);
     ret (case found of
            None \<Rightarrow> sls
          | Some sl \<Rightarrow> if List.member (map stl_PublicId sls) (stl_PublicId sl) then sls else sls @ [sl])
   }"

definition freshScene :: "Backend \<Rightarrow> string \<Rightarrow> Scene \<Rightarrow> Scene docs" where
  "freshScene bk tid sc = do {
     found \<leftarrow> readOne bk SceneCollection (bk_Scene bk)
       (\<lambda>docs. find_public scn_PublicId scn_SubscriberId docs tid (scn_PublicId sc));
     ret (case found of None \<Rightarrow> sc | Some fresh \<Rightarrow> fresh)
   }"

definition freshAct :: "Backend \<Rightarrow> string \<Rightarrow> Enactment \<Rightarrow> Enactment docs" where
  "freshAct bk tid en = do {
     found \<leftarrow> readOne bk EnactmentCollection (bk_Enactment bk)
       (\<lambda>docs. find_public ent_PublicId ent_SubscriberId docs tid (ent_PublicId en));
     case found of
       None \<Rightarrow> ret en
     | Some d \<Rightarrow> do {
         fresh \<leftarrow> readEnactment bk tid d;
         scene \<leftarrow> optC (\<lambda>sc. if scn_PublicId sc \<noteq> [] then freshScene bk tid sc else ret sc) (ent_SendScene fresh);
         scenes \<leftarrow> mapC (freshScene bk tid) (ent_SendScenes fresh);
         ret (fresh\<lparr>ent_SendScene := scene, ent_SendScenes := scenes\<rparr>)
       }
   }"

definition withActs :: "Backend \<Rightarrow> string \<Rightarrow> Storyline \<Rightarrow> Storyline docs" where
  "withActs bk tid sl =
     (case (stl_Acts sl, stl_ActIds sl) of
        ([], Some r) \<Rightarrow> do {
          acts \<leftarrow> readAll (\<lambda>i. readOne bk EnactmentCollection (bk_Enactment bk)
            (\<lambda>docs. find_owned ent_Id ent_SubscriberId docs tid i)) (cis_Ids r);
          ret (sl\<lparr>stl_Acts := sliceSort ent_NaturalOrder (bk_sortActs bk) acts\<rparr>)
        }
      | _ \<Rightarrow> ret sl)"

definition freshStoryline :: "Backend \<Rightarrow> string \<Rightarrow> Storyline \<Rightarrow> Storyline docs" where
  "freshStoryline bk tid sl = do {
     found \<leftarrow> readOne bk StorylineCollection (bk_Storyline bk)
       (\<lambda>docs. find_public stl_PublicId stl_SubscriberId docs tid (stl_PublicId sl));
     case found of
       None \<Rightarrow> ret sl
     | Some d \<Rightarrow> do {
         fresh \<leftarrow> withActs bk tid d;
         acts \<leftarrow> mapC (freshAct bk tid) (stl_Acts fresh);
         ret (fresh\<lparr>stl_Acts := acts\<rparr>)
       }
   }"

definition hydrateStory :: "Backend \<Rightarrow> Story \<Rightarrow> Story docs" where
  "hydrateStory bk story =
     (let tid = sto_SubscriberId story in do {
        merged \<leftarrow> (case sto_StorylineIds story of
            None \<Rightarrow> ret (sto_Storylines story)
          | Some r \<Rightarrow> foldC (mergeStoryline bk tid) (sto_Storylines story) (cis_Ids r));
        sls \<leftarrow> mapC (freshStoryline bk tid) merged;
        ret (story\<lparr>sto_Storylines := sliceSort stl_NaturalOrder (bk_sortStorylines bk) sls\<rparr>)
      })"

section \<open>Stories\<close>

definition handleGetStories :: "Backend \<Rightarrow> Caller \<Rightarrow> Reply docs" where
  "handleGetStories bk who = do {
     items \<leftarrow> FindAll bk StoryCollection [subscriber who, alive];
     stories \<leftarrow> mapC (\<lambda>d. hydrateStory bk (bk_Story bk d)) items;
     answer 200 [(''stories'', AStories stories)]
   }"

definition handleGetStory :: "Backend \<Rightarrow> Caller \<Rightarrow> string \<Rightarrow> Reply docs" where
  "handleGetStory bk who i = do {
     found \<leftarrow> FindOne bk StoryCollection [public i, subscriber who];
     case found of
       Inl _ \<Rightarrow> refuse 404 ''story not found''
     | Inr item \<Rightarrow> do {
         story \<leftarrow> hydrateStory bk (bk_Story bk item);
         answer 200 [(''story'', AStory story)]
       }
   }"

definition handleCreateStory :: "Backend \<Rightarrow> Caller \<Rightarrow> string + Doc \<Rightarrow> Reply docs" where
  "handleCreateStory bk who body =
     (case body of
        Inl _ \<Rightarrow> refuse 400 ''invalid data''
      | Inr d \<Rightarrow> createItem bk who StoryCollection ''story'' d)"

definition handleUpdateStory :: "Backend \<Rightarrow> Caller \<Rightarrow> string \<Rightarrow> string + Doc \<Rightarrow> Reply docs" where
  "handleUpdateStory bk who i body = updateReply (applySanitizedUpdate bk who i StoryCollection storyUpdateFields body)"

definition handleDeleteStory :: "Backend \<Rightarrow> Caller \<Rightarrow> string \<Rightarrow> Reply docs" where
  "handleDeleteStory bk who i = softDelete bk StoryCollection [public i, subscriber who]"

definition handleDeleteAllStories :: "Backend \<Rightarrow> Caller \<Rightarrow> Reply docs" where
  "handleDeleteAllStories bk who = do {
     now \<leftarrow> timeNow bk;
     _ \<leftarrow> UpdateAll bk StoryCollection [subscriber who] (deletion now);
     ok
   }"

definition handlePurgeStory :: "Backend \<Rightarrow> Caller \<Rightarrow> string \<Rightarrow> Reply docs" where
  "handlePurgeStory bk who i = do {
     found \<leftarrow> FindOne bk StoryCollection [public i, subscriber who];
     case found of
       Inl _ \<Rightarrow> refuse 404 ''story not found''
     | Inr story \<Rightarrow> do {
         removed \<leftarrow> RemoveAll bk storySessionCollection [field ''story_id'' (getField ''_id'' story), subscriber who];
         answer 200 [(''status'', AStr ''ok''), (''sessions_removed'', ANum (int removed))]
       }
   }"

definition handleStartStory :: "Backend \<Rightarrow> Caller \<Rightarrow> string \<Rightarrow> Reply docs" where
  "handleStartStory bk who i = setStatus bk StoryCollection [public i, subscriber who] ''active''"

definition handleStopStory :: "Backend \<Rightarrow> Caller \<Rightarrow> string \<Rightarrow> Reply docs" where
  "handleStopStory bk who i = setStatus bk StoryCollection [public i, subscriber who] ''stopped''"

definition handleAddStorylineToStory :: "Backend \<Rightarrow> Caller \<Rightarrow> string \<Rightarrow> string \<Rightarrow> Reply docs" where
  "handleAddStorylineToStory bk who storyId storylineId = do {
     found \<leftarrow> FindOne bk StorylineCollection [public storylineId, subscriber who];
     case found of
       Inl _ \<Rightarrow> refuse 404 ''storyline not found''
     | Inr sl \<Rightarrow> do {
         _ \<leftarrow> Update bk StoryCollection [public storyId, subscriber who] [Push [''storylines''] [BDoc sl]];
         changed \<leftarrow> readBack bk StoryCollection [public storyId, subscriber who];
         answer 200 [(''story'', ADoc changed)]
       }
   }"

text \<open>The storylines embedded in a story.\<close>

definition embedded :: "Doc \<Rightarrow> Bson list" where
  "embedded d = (case getField ''storylines'' d of BArr xs \<Rightarrow> xs | _ \<Rightarrow> [])"

definition handleMergeStories :: "Backend \<Rightarrow> Caller \<Rightarrow> string \<Rightarrow> string option \<Rightarrow> Reply docs" where
  "handleMergeStories bk who targetId body =
     (case body of
        None \<Rightarrow> refuse 400 ''from_story_id is required''
      | Some fromId \<Rightarrow>
          if fromId = [] then refuse 400 ''from_story_id is required''
          else if fromId = targetId then refuse 400 ''cannot merge a story into itself''
          else do {
            src \<leftarrow> FindOne bk StoryCollection [public fromId, subscriber who];
            case src of
              Inl _ \<Rightarrow> refuse 404 ''source story not found''
            | Inr src \<Rightarrow> do {
                target \<leftarrow> FindOne bk StoryCollection [public targetId, subscriber who];
                case target of
                  Inl _ \<Rightarrow> refuse 404 ''target story not found''
                | Inr _ \<Rightarrow>
                    if embedded src = [] then refuse 400 ''source story has no storylines to merge''
                    else do {
                      _ \<leftarrow> Update bk StoryCollection [public targetId, subscriber who]
                        [Push [''storylines''] (embedded src)];
                      changed \<leftarrow> readBack bk StoryCollection [public targetId, subscriber who];
                      answer 200 [(''story'', ADoc changed), (''merged_storylines'', ANum (int (length (embedded src))))]
                    }
              }
          })"

definition handleRemoveStorylineFromStory :: "Backend \<Rightarrow> Caller \<Rightarrow> string \<Rightarrow> string \<Rightarrow> Reply docs" where
  "handleRemoveStorylineFromStory bk who storyId storylineId = do {
     let pull = Pull [''storylines''] (matches [public storylineId, subscriber who]);
     found \<leftarrow> FindOne bk StorylineCollection [public storylineId, subscriber who];
     let pulls = (case found of
         Inl _ \<Rightarrow> [pull]
       | Inr sl \<Rightarrow> [pull, Pull [''storyline_ids'', ''bson_ids''] (\<lambda>v. v = getField ''_id'' sl)]);
     _ \<leftarrow> Update bk StoryCollection [public storyId, subscriber who] pulls;
     changed \<leftarrow> readBack bk StoryCollection [public storyId, subscriber who];
     answer 200 [(''story'', ADoc changed)]
   }"

section \<open>Storylines\<close>

definition handleGetStorylines :: "Backend \<Rightarrow> Caller \<Rightarrow> Reply docs" where
  "handleGetStorylines bk who = listItems bk StorylineCollection [subscriber who, alive] ''storylines''"

definition handleGetStoryline :: "Backend \<Rightarrow> Caller \<Rightarrow> string \<Rightarrow> Reply docs" where
  "handleGetStoryline bk who i = getItem bk StorylineCollection [public i, subscriber who] ''storyline''"

definition handleCreateStoryline :: "Backend \<Rightarrow> Caller \<Rightarrow> Doc \<Rightarrow> Reply docs" where
  "handleCreateStoryline bk who d = createItem bk who StorylineCollection ''storyline'' d"

definition handleUpdateStoryline :: "Backend \<Rightarrow> Caller \<Rightarrow> string \<Rightarrow> string + Doc \<Rightarrow> Reply docs" where
  "handleUpdateStoryline bk who i body =
     updateReply (applySanitizedUpdate bk who i StorylineCollection storylineUpdateFields body)"

definition handleDeleteStoryline :: "Backend \<Rightarrow> Caller \<Rightarrow> string \<Rightarrow> Reply docs" where
  "handleDeleteStoryline bk who i = softDelete bk StorylineCollection [public i, subscriber who]"

definition handleStartStoryline :: "Backend \<Rightarrow> Caller \<Rightarrow> string \<Rightarrow> Reply docs" where
  "handleStartStoryline bk who i = setStatus bk StorylineCollection [public i, subscriber who] ''active''"

definition handleStopStoryline :: "Backend \<Rightarrow> Caller \<Rightarrow> string \<Rightarrow> Reply docs" where
  "handleStopStoryline bk who i = setStatus bk StorylineCollection [public i, subscriber who] ''stopped''"

definition handleAddEnactmentToStoryline :: "Backend \<Rightarrow> Caller \<Rightarrow> string \<Rightarrow> string \<Rightarrow> Reply docs" where
  "handleAddEnactmentToStoryline bk who storylineId enactmentId = do {
     found \<leftarrow> FindOne bk EnactmentCollection [public enactmentId, subscriber who];
     case found of
       Inl _ \<Rightarrow> refuse 404 ''enactment not found''
     | Inr en \<Rightarrow> do {
         _ \<leftarrow> Update bk StorylineCollection [public storylineId, subscriber who] [Push [''acts''] [BDoc en]];
         changed \<leftarrow> readBack bk StorylineCollection [public storylineId, subscriber who];
         answer 200 [(''storyline'', ADoc changed)]
       }
   }"

definition handleRemoveEnactmentFromStoryline :: "Backend \<Rightarrow> Caller \<Rightarrow> string \<Rightarrow> string \<Rightarrow> Reply docs" where
  "handleRemoveEnactmentFromStoryline bk who storylineId enactmentId = do {
     _ \<leftarrow> Update bk StorylineCollection [public storylineId, subscriber who]
       [Pull [''acts''] (matches [public enactmentId, subscriber who])];
     changed \<leftarrow> readBack bk StorylineCollection [public storylineId, subscriber who];
     answer 200 [(''storyline'', ADoc changed)]
   }"

end
