(* ===== verification/StoryParts.thy ===== *)
theory StoryParts
  imports StoryStore
begin

text \<open>
  The endpoints of the story builder below the storylines (\<open>src/routes/story.go\<close>): enactments,
  scenes, messages and their contents, triggers, actions, badges, labels and template variables.
\<close>

section \<open>Enactments\<close>

definition handleGetEnactments :: "Backend \<Rightarrow> Caller \<Rightarrow> Reply docs" where
  "handleGetEnactments bk who = listItems bk EnactmentCollection [subscriber who, alive] ''enactments''"

definition handleGetEnactment :: "Backend \<Rightarrow> Caller \<Rightarrow> string \<Rightarrow> Reply docs" where
  "handleGetEnactment bk who i = getItem bk EnactmentCollection [public i, subscriber who] ''enactment''"

definition handleCreateEnactment :: "Backend \<Rightarrow> Caller \<Rightarrow> Doc \<Rightarrow> Reply docs" where
  "handleCreateEnactment bk who d = createItem bk who EnactmentCollection ''enactment'' d"

definition handleUpdateEnactment :: "Backend \<Rightarrow> Caller \<Rightarrow> string \<Rightarrow> string + Doc \<Rightarrow> Reply docs" where
  "handleUpdateEnactment bk who i body = 
     updateReply (applySanitizedUpdate bk who i EnactmentCollection enactmentUpdateFields body)"

definition handleDeleteEnactment :: "Backend \<Rightarrow> Caller \<Rightarrow> string \<Rightarrow> Reply docs" where
  "handleDeleteEnactment bk who i = softDelete bk EnactmentCollection [public i, subscriber who]"

definition handleStartEnactment :: "Backend \<Rightarrow> Caller \<Rightarrow> string \<Rightarrow> Reply docs" where
  "handleStartEnactment bk who i = setStatus bk EnactmentCollection [public i, subscriber who] ''active''"

definition handleStopEnactment :: "Backend \<Rightarrow> Caller \<Rightarrow> string \<Rightarrow> Reply docs" where
  "handleStopEnactment bk who i = setStatus bk EnactmentCollection [public i, subscriber who] ''stopped''"

definition triggerType :: "Doc \<Rightarrow> string" where
  "triggerType tr = (case getField ''trigger_type'' tr of BStr t \<Rightarrow> t | _ \<Rightarrow> [])"

text \<open>
  \<open>"trigger." + eventKey\<close> is a path: the database splits it at every dot.
\<close>

fun splitDots :: "string \<Rightarrow> Path" where
  "splitDots [] = [[]]"
| "splitDots (c # cs) =
     (if c = CHR ''.'' then [] # splitDots cs
      else (case splitDots cs of [] \<Rightarrow> [[c]] | p # ps \<Rightarrow> (c # p) # ps))"

definition handleAddTriggerToEnactment :: "Backend \<Rightarrow> Caller \<Rightarrow> string \<Rightarrow> string \<Rightarrow> Reply docs" where
  "handleAddTriggerToEnactment bk who enactmentId triggerId = do {
     found \<leftarrow> FindOne bk TriggerCollection [public triggerId, subscriber who];
     case found of
       Inl _ \<Rightarrow> refuse 404 ''trigger not found''
     | Inr tr \<Rightarrow> do {
         let eventKey = (if triggerType tr = [] then ''default'' else triggerType tr);
         _ \<leftarrow> Update bk EnactmentCollection [public enactmentId, subscriber who]
           [Push (''trigger'' # splitDots eventKey) [BDoc tr]];
         changed \<leftarrow> readBack bk EnactmentCollection [public enactmentId, subscriber who];
         answer 200 [(''enactment'', ADoc changed)]
       }
   }"

text \<open>The keys of the map \<open>en.OnEvent\<close>; their order is that of the iteration.\<close>

definition eventKeys :: "Doc \<Rightarrow> string list" where
  "eventKeys en = (case getField ''trigger'' en of BDoc m \<Rightarrow> map fst m | _ \<Rightarrow> [])"

definition handleRemoveTriggerFromEnactment :: "Backend \<Rightarrow> Caller \<Rightarrow> string \<Rightarrow> string \<Rightarrow> Reply docs" where
  "handleRemoveTriggerFromEnactment bk who enactmentId triggerId = do {
     found \<leftarrow> FindOne bk EnactmentCollection [public enactmentId, subscriber who];
     case found of
       Inl _ \<Rightarrow> refuse 404 ''enactment not found''
     | Inr en \<Rightarrow> do {
         foldC (\<lambda>_ key. do {
             _ \<leftarrow> Update bk EnactmentCollection [public enactmentId, subscriber who]
               [Pull (''trigger'' # splitDots key) (matches [public triggerId])];
             ret ()
           }) () (eventKeys en);
         ok
       }
   }"

definition handleSetEnactmentScene :: "Backend \<Rightarrow> Caller \<Rightarrow> string \<Rightarrow> string \<Rightarrow> Reply docs" where
  "handleSetEnactmentScene bk who enactmentId sceneId = do {
     found \<leftarrow> FindOne bk SceneCollection [public sceneId, subscriber who];
     case found of
       Inl _ \<Rightarrow> refuse 404 ''scene not found''
     | Inr scene \<Rightarrow> do {
         _ \<leftarrow> Update bk EnactmentCollection [public enactmentId, subscriber who] [Put [''send_scene''] (BDoc scene)];
         changed \<leftarrow> readBack bk EnactmentCollection [public enactmentId, subscriber who];
         answer 200 [(''enactment'', ADoc changed)]
       }
   }"

definition handleRemoveEnactmentScene :: "Backend \<Rightarrow> Caller \<Rightarrow> string \<Rightarrow> Reply docs" where
  "handleRemoveEnactmentScene bk who enactmentId = do {
     _ \<leftarrow> Update bk EnactmentCollection [public enactmentId, subscriber who] [Unset [''send_scene'']];
     ok
   }"

section \<open>Scenes\<close>

definition handleGetScenes :: "Backend \<Rightarrow> Caller \<Rightarrow> Reply docs" where
  "handleGetScenes bk who = listItems bk SceneCollection [subscriber who, alive] ''scenes''"

definition handleGetScene :: "Backend \<Rightarrow> Caller \<Rightarrow> string \<Rightarrow> Reply docs" where
  "handleGetScene bk who i = getItem bk SceneCollection [public i, subscriber who] ''scene''"

definition handleCreateScene :: "Backend \<Rightarrow> Caller \<Rightarrow> Doc \<Rightarrow> Reply docs" where
  "handleCreateScene bk who d = createItem bk who SceneCollection ''scene'' d"

definition handleUpdateScene :: "Backend \<Rightarrow> Caller \<Rightarrow> string \<Rightarrow> string + Doc \<Rightarrow> Reply docs" where
  "handleUpdateScene bk who i body = 
     updateReply (applySanitizedUpdate bk who i SceneCollection sceneUpdateFields body)"

definition handleDeleteScene :: "Backend \<Rightarrow> Caller \<Rightarrow> string \<Rightarrow> Reply docs" where
  "handleDeleteScene bk who i = softDelete bk SceneCollection [public i, subscriber who]"

text \<open>\<open>"kind": bson.M{"$in": []string{pkgmodels.BadgeKindContactLabel, "label"}}\<close>\<close>

definition labelKind :: "Backend \<Rightarrow> Path \<times> Test" where
  "labelKind bk = ([''kind''], OneOf [BStr (bk_BadgeKindContactLabel bk), BStr ''label''])"

text \<open>A label that is added to or removed from an array of a scene or a message.\<close>

definition addTag :: "Backend \<Rightarrow> Caller \<Rightarrow> Coll \<Rightarrow> string \<Rightarrow> string \<Rightarrow> string \<Rightarrow> Reply docs" where
  "addTag bk who c array i tagId = do {
     found \<leftarrow> FindOne bk BadgeCollection [public tagId, tenant who, labelKind bk];
     case found of
       Inl _ \<Rightarrow> refuse 404 ''tag not found''
     | Inr tag \<Rightarrow> do { _ \<leftarrow> Update bk c [public i, subscriber who] [Push [array] [BDoc tag]]; ok }
   }"

definition removeTag :: "Backend \<Rightarrow> Caller \<Rightarrow> Coll \<Rightarrow> string \<Rightarrow> string \<Rightarrow> string \<Rightarrow> Reply docs" where
  "removeTag bk who c array i tagId = do {
     _ \<leftarrow> Update bk c [public i, subscriber who] [Pull [array] (matches [public tagId])];
     ok
   }"

definition handleAddTagToScene :: "Backend \<Rightarrow> Caller \<Rightarrow> string \<Rightarrow> string \<Rightarrow> Reply docs" where
  "handleAddTagToScene bk who i tagId = addTag bk who SceneCollection ''tags'' i tagId"

definition handleRemoveTagFromScene :: "Backend \<Rightarrow> Caller \<Rightarrow> string \<Rightarrow> string \<Rightarrow> Reply docs" where
  "handleRemoveTagFromScene bk who i tagId = removeTag bk who SceneCollection ''tags'' i tagId"

definition handleSetSceneMessage :: "Backend \<Rightarrow> Caller \<Rightarrow> string \<Rightarrow> string \<Rightarrow> Reply docs" where
  "handleSetSceneMessage bk who i messageId = do {
     found \<leftarrow> FindOne bk MessageCollection [public messageId, subscriber who];
     case found of
       Inl _ \<Rightarrow> refuse 404 ''message not found''
     | Inr msg \<Rightarrow> do { _ \<leftarrow> Update bk SceneCollection [public i, subscriber who] [Put [''message''] (BDoc msg)]; ok }
   }"

definition handleRemoveSceneMessage :: "Backend \<Rightarrow> Caller \<Rightarrow> string \<Rightarrow> Reply docs" where
  "handleRemoveSceneMessage bk who i = do {
     _ \<leftarrow> Update bk SceneCollection [public i, subscriber who] [Unset [''message'']];
     ok
   }"

section \<open>Messages\<close>

definition handleGetMessages :: "Backend \<Rightarrow> Caller \<Rightarrow> Reply docs" where
  "handleGetMessages bk who = listItems bk MessageCollection [subscriber who, alive] ''messages''"

definition handleGetMessage :: "Backend \<Rightarrow> Caller \<Rightarrow> string \<Rightarrow> Reply docs" where
  "handleGetMessage bk who i = getItem bk MessageCollection [public i, subscriber who] ''message''"

text \<open>The name, the content, and the content under its other name.\<close>

definition handleCreateMessage :: "Backend \<Rightarrow> Caller \<Rightarrow> (string \<times> Bson option \<times> Bson option) option \<Rightarrow> Reply docs" where
  "handleCreateMessage bk who body =
     (case body of
        None \<Rightarrow> refuse 400 ''invalid request body''
      | Some (name, content, messageContent) \<Rightarrow>
          (let named = gomap_put ''name'' (BStr name) (bk_zero bk MessageCollection);
               item = (case content of
                   Some v \<Rightarrow> gomap_put ''content'' v named
                 | None \<Rightarrow> (case messageContent of Some v \<Rightarrow> gomap_put ''content'' v named | None \<Rightarrow> named)) in
           createItem bk who MessageCollection ''message'' item))"

definition handleUpdateMessage :: "Backend \<Rightarrow> Caller \<Rightarrow> string \<Rightarrow> string + Doc \<Rightarrow> Reply docs" where
  "handleUpdateMessage bk who i body = 
     updateReply (applySanitizedUpdate bk who i MessageCollection messageUpdateFields body)"

definition handleDeleteMessage :: "Backend \<Rightarrow> Caller \<Rightarrow> string \<Rightarrow> Reply docs" where
  "handleDeleteMessage bk who i = softDelete bk MessageCollection [public i, subscriber who]"

definition handleAddTagToMessage :: "Backend \<Rightarrow> Caller \<Rightarrow> string \<Rightarrow> string \<Rightarrow> Reply docs" where
  "handleAddTagToMessage bk who i tagId = addTag bk who MessageCollection ''vars'' i tagId"

definition handleRemoveTagFromMessage :: "Backend \<Rightarrow> Caller \<Rightarrow> string \<Rightarrow> string \<Rightarrow> Reply docs" where
  "handleRemoveTagFromMessage bk who i tagId = removeTag bk who MessageCollection ''vars'' i tagId"

section \<open>MessageContents\<close>

definition handleGetMessageContents :: "Backend \<Rightarrow> Caller \<Rightarrow> Reply docs" where
  "handleGetMessageContents bk who = listItems bk MessageContentCollection [subscriber who] ''message_contents''"

definition handleGetMessageContent :: "Backend \<Rightarrow> Caller \<Rightarrow> string \<Rightarrow> Reply docs" where
  "handleGetMessageContent bk who i = getItem bk MessageContentCollection [public i, subscriber who] ''message_content''"

definition handleCreateMessageContent :: "Backend \<Rightarrow> Caller \<Rightarrow> Doc \<Rightarrow> Reply docs" where
  "handleCreateMessageContent bk who d = createItem bk who MessageContentCollection ''message_content'' d"

definition handleUpdateMessageContent :: "Backend \<Rightarrow> Caller \<Rightarrow> string \<Rightarrow> string + Doc \<Rightarrow> Reply docs" where
  "handleUpdateMessageContent bk who i body = 
     updateReply (applySanitizedUpdate bk who i MessageContentCollection messageContentUpdateFields body)"

definition handleDeleteMessageContent :: "Backend \<Rightarrow> Caller \<Rightarrow> string \<Rightarrow> Reply docs" where
  "handleDeleteMessageContent bk who i = removeItem bk MessageContentCollection [public i, subscriber who]"

section \<open>Triggers\<close>

definition handleGetTriggers :: "Backend \<Rightarrow> Caller \<Rightarrow> Reply docs" where
  "handleGetTriggers bk who = listItems bk TriggerCollection [subscriber who] ''triggers''"

definition handleGetTrigger :: "Backend \<Rightarrow> Caller \<Rightarrow> string \<Rightarrow> Reply docs" where
  "handleGetTrigger bk who i = getItem bk TriggerCollection [public i, subscriber who] ''trigger''"

definition handleCreateTrigger :: "Backend \<Rightarrow> Caller \<Rightarrow> Doc \<Rightarrow> Reply docs" where
  "handleCreateTrigger bk who d = createItem bk who TriggerCollection ''trigger'' d"

definition handleUpdateTrigger :: "Backend \<Rightarrow> Caller \<Rightarrow> string \<Rightarrow> string + Doc \<Rightarrow> Reply docs" where
  "handleUpdateTrigger bk who i body = 
     updateReply (applySanitizedUpdate bk who i TriggerCollection triggerUpdateFields body)"

definition handleDeleteTrigger :: "Backend \<Rightarrow> Caller \<Rightarrow> string \<Rightarrow> Reply docs" where
  "handleDeleteTrigger bk who i = removeItem bk TriggerCollection [public i, subscriber who]"

section \<open>Actions\<close>

definition handleGetActions :: "Backend \<Rightarrow> Caller \<Rightarrow> Reply docs" where
  "handleGetActions bk who = listItems bk ActionCollection [subscriber who] ''actions''"

definition handleGetAction :: "Backend \<Rightarrow> Caller \<Rightarrow> string \<Rightarrow> Reply docs" where
  "handleGetAction bk who i = getItem bk ActionCollection [public i, subscriber who] ''action''"

definition handleCreateAction :: "Backend \<Rightarrow> Caller \<Rightarrow> Doc \<Rightarrow> Reply docs" where
  "handleCreateAction bk who d = createItem bk who ActionCollection ''action'' d"

definition handleUpdateAction :: "Backend \<Rightarrow> Caller \<Rightarrow> string \<Rightarrow> string + Doc \<Rightarrow> Reply docs" where
  "handleUpdateAction bk who i body = 
     updateReply (applySanitizedUpdate bk who i ActionCollection actionUpdateFields body)"

definition handleDeleteAction :: "Backend \<Rightarrow> Caller \<Rightarrow> string \<Rightarrow> Reply docs" where
  "handleDeleteAction bk who i = removeItem bk ActionCollection [public i, subscriber who]"

section \<open>Badges\<close>

definition noLabelKind :: "Backend \<Rightarrow> Path \<times> Test" where
  "noLabelKind bk = ([''kind''], NoneOf [BStr (bk_BadgeKindContactLabel bk), BStr ''label''])"

definition handleGetBadges :: "Backend \<Rightarrow> Caller \<Rightarrow> Reply docs" where
  "handleGetBadges bk who = listItems bk BadgeCollection [tenant who, noLabelKind bk, alive] ''badges''"

definition handleGetBadge :: "Backend \<Rightarrow> Caller \<Rightarrow> string \<Rightarrow> Reply docs" where
  "handleGetBadge bk who i = getItem bk BadgeCollection [public i, tenant who, alive] ''badge''"

definition ownedTwice :: "Caller \<Rightarrow> Doc \<Rightarrow> Doc" where
  "ownedTwice who d = gomap_put ''tenant_id'' (BOid (ca_TenantOid who)) d"

definition kindOf :: "Doc \<Rightarrow> string" where
  "kindOf d = (case getField ''kind'' d of BStr k \<Rightarrow> k | _ \<Rightarrow> [])"

definition handleCreateBadge :: "Backend \<Rightarrow> Caller \<Rightarrow> string + Doc \<Rightarrow> Reply docs" where
  "handleCreateBadge bk who body =
     (case body of
        Inl _ \<Rightarrow> refuse 400 ''invalid badge''
      | Inr d \<Rightarrow>
          (let kind = (if kindOf d = [] then bk_BadgeKindAchievement bk else bk_NormalizeBadgeKind bk (kindOf d)) in
           if kindOf d \<noteq> [] \<and> kind = [] then refuse 400 ''kind must be achievement, contact_label, or system_state''
           else createItem bk who BadgeCollection ''badge'' (ownedTwice who (gomap_put ''kind'' (BStr kind) d))))"

text \<open>The kind of an update, normalised; no kind when it is not a known one.\<close>

definition normalizedSet :: "Backend \<Rightarrow> Doc \<Rightarrow> Doc option" where
  "normalizedSet bk sets =
     (case map_of sets ''kind'' of
        Some (BStr kind) \<Rightarrow>
          (let kind = bk_NormalizeBadgeKind bk kind in
           if kind = [] then None else Some (gomap_put ''kind'' (BStr kind) sets))
      | _ \<Rightarrow> Some sets)"

definition handleUpdateBadge :: "Backend \<Rightarrow> Caller \<Rightarrow> string \<Rightarrow> string + Doc \<Rightarrow> Reply docs" where
  "handleUpdateBadge bk who i body =
     (case body of
        Inl _ \<Rightarrow> refuse 400 ''invalid request body''
      | Inr raw \<Rightarrow>
          (case bk_SanitizeUpdate bk raw badgeUpdateFields of
             Inl e \<Rightarrow> refuse 400 e
           | Inr sets \<Rightarrow>
               (case normalizedSet bk sets of
                  None \<Rightarrow> refuse 400 ''invalid badge kind''
                | Some sets \<Rightarrow> do {
                    err \<leftarrow> Update bk BadgeCollection [public i, tenant who] (setAll sets);
                    if err \<noteq> None then refuse 404 ''badge not found'' else ok
                  })))"

text \<open>
  The contacts that hold the badge and the offers that grant it, of the owner in one form or the other.
\<close>

definition offersGranting :: "Backend \<Rightarrow> Caller \<Rightarrow> Doc \<Rightarrow> nat docs" where
  "offersGranting bk who badge = do {
     n \<leftarrow> Count bk OfferCollection [field ''granted_badges'' (getField ''name'' badge), subscriber who, alive];
     if n = 0
     then Count bk OfferCollection [field ''granted_badges'' (getField ''name'' badge),
            field ''tenant_id'' (getField ''tenant_id'' badge), alive]
     else ret n
   }"

definition handleDeleteBadge :: "Backend \<Rightarrow> Caller \<Rightarrow> string \<Rightarrow> Reply docs" where
  "handleDeleteBadge bk who i = do {
     found \<leftarrow> FindOne bk BadgeCollection [public i, subscriber who, alive];
     case found of
       Inl _ \<Rightarrow> refuse 404 ''badge not found''
     | Inr badge \<Rightarrow> do {
         holders \<leftarrow> Count bk UserCollection [field ''badges'' (getField ''_id'' badge), alive];
         offers \<leftarrow> offersGranting bk who badge;
         if holders > 0 \<or> offers > 0
         then answer 409 [(''error'', AStr ''badge is still referenced; remove it from contacts and offers first''),
                (''contacts_holding'', ANum (int holders)), (''offers_granting'', ANum (int offers))]
         else do {
           now \<leftarrow> timeNow bk;
           _ \<leftarrow> Update bk BadgeCollection [field ''_id'' (getField ''_id'' badge)] (deletion now);
           ok
         }
       }
   }"

text \<open>A call of the package \<open>badges\<close>, on all collections.\<close>

type_synonym badgeCall = "nat \<Rightarrow> Bson \<Rightarrow> Bson \<Rightarrow> Bson \<Rightarrow> string \<Rightarrow> (Coll \<Rightarrow> Doc list) \<Rightarrow> string option \<times> (Coll \<Rightarrow> Doc list)"

definition callBadges :: "badgeCall \<Rightarrow> Bson \<Rightarrow> Bson \<Rightarrow> Bson \<Rightarrow> string \<Rightarrow> string option docs" where
  "callBadges f t user badge actor = do {
     n \<leftarrow> tick;
     State (\<lambda>s. let (e, cs) = f n t user badge actor (dx_colls s) in (e, s\<lparr>dx_colls := cs\<rparr>))
   }"

text \<open>The badge and the contact a request names, or the answer that one of them is missing.\<close>

definition badgeAndUser :: "Backend \<Rightarrow> Caller \<Rightarrow> string \<Rightarrow> string \<Rightarrow> (Doc \<Rightarrow> Doc \<Rightarrow> Reply docs) \<Rightarrow> Reply docs" where
  "badgeAndUser bk who userPub badgePub k = do {
     badge \<leftarrow> FindOne bk BadgeCollection [public badgePub, subscriber who];
     case badge of
       Inl _ \<Rightarrow> refuse 404 ''badge not found''
     | Inr badge \<Rightarrow> do {
         user \<leftarrow> FindOne bk UserCollection [public userPub, tenant who];
         case user of Inl _ \<Rightarrow> refuse 404 ''user not found'' | Inr user \<Rightarrow> k badge user
       }
   }"

definition handleAssignBadgeToUser :: "Backend \<Rightarrow> Caller \<Rightarrow> string \<Rightarrow> string \<Rightarrow> Reply docs" where
  "handleAssignBadgeToUser bk who userPub badgePub = badgeAndUser bk who userPub badgePub (\<lambda>badge user. do {
     err \<leftarrow> callBadges (bk_Assign bk) (getField ''tenant_id'' user) (getField ''_id'' user) (getField ''_id'' badge)
       (ca_Account who);
     if err \<noteq> None then refuse 500 ''badge assignment failed''
     else answer 200 [(''status'', AStr ''ok''),
       (''badge_id'', AStr (case getField ''_id'' badge of BOid i \<Rightarrow> bk_Hex bk i | _ \<Rightarrow> []))]
   })"

definition handleRemoveBadgeFromUser :: "Backend \<Rightarrow> Caller \<Rightarrow> string \<Rightarrow> string \<Rightarrow> Reply docs" where
  "handleRemoveBadgeFromUser bk who userPub badgePub = badgeAndUser bk who userPub badgePub (\<lambda>badge user. do {
     err \<leftarrow> callBadges (bk_Remove bk) (getField ''tenant_id'' user) (getField ''_id'' user) (getField ''_id'' badge)
       (ca_Account who);
     if err \<noteq> None then refuse 500 ''badge removal failed'' else ok
   })"

section \<open>Labels\<close>

definition handleGetTags :: "Backend \<Rightarrow> Caller \<Rightarrow> Reply docs" where
  "handleGetTags bk who = listItems bk BadgeCollection [tenant who, labelKind bk, alive] ''tags''"

definition handleGetTag :: "Backend \<Rightarrow> Caller \<Rightarrow> string \<Rightarrow> Reply docs" where
  "handleGetTag bk who i = getItem bk BadgeCollection [public i, tenant who, labelKind bk] ''tag''"

text \<open>The name and the description.\<close>

definition handleCreateTag :: "Backend \<Rightarrow> Caller \<Rightarrow> (string \<times> string) option \<Rightarrow> Reply docs" where
  "handleCreateTag bk who body =
     (case body of
        None \<Rightarrow> refuse 400 ''name is required''
      | Some (name, description) \<Rightarrow>
          if name = [] then refuse 400 ''name is required''
          else do {
            item \<leftarrow> identified bk (ownedBy who (ownedTwice who (gomap_put ''kind'' (BStr (bk_BadgeKindContactLabel bk))
              (gomap_put ''description'' (BStr description) (gomap_put ''name'' (BStr name) (bk_zero bk BadgeCollection))))));
            err \<leftarrow> Insert bk BadgeCollection item;
            if err \<noteq> None then refuse 409 ''contact label already exists''
            else answer 200 [(''tag'', ADoc item)]
          })"

definition handleUpdateTag :: "Backend \<Rightarrow> Caller \<Rightarrow> string \<Rightarrow> string + Doc \<Rightarrow> Reply docs" where
  "handleUpdateTag bk who i body =
     (case body of
        Inl _ \<Rightarrow> refuse 400 ''invalid request body''
      | Inr raw \<Rightarrow>
          (case bk_SanitizeUpdate bk raw tagUpdateFields of
             Inl e \<Rightarrow> refuse 400 e
           | Inr sets \<Rightarrow> do {
               err \<leftarrow> Update bk BadgeCollection [public i, tenant who, labelKind bk] (setAll sets);
               if err \<noteq> None then refuse 404 ''contact label not found'' else ok
             }))"

definition handleDeleteTag :: "Backend \<Rightarrow> Caller \<Rightarrow> string \<Rightarrow> Reply docs" where
  "handleDeleteTag bk who i = do {
     now \<leftarrow> timeNow bk;
     err \<leftarrow> Update bk BadgeCollection [public i, tenant who, labelKind bk, alive] (deletion now);
     if err \<noteq> None then refuse 404 ''tag not found'' else ok
   }"

section \<open>TemplateVariables\<close>

definition handleGetTemplateVariables :: "Backend \<Rightarrow> Caller \<Rightarrow> Reply docs" where
  "handleGetTemplateVariables bk who = listItems bk TemplateVariablesCollection [subscriber who] ''template_variables''"

definition handleGetTemplateVariable :: "Backend \<Rightarrow> Caller \<Rightarrow> string \<Rightarrow> Reply docs" where
  "handleGetTemplateVariable bk who i = getItem bk TemplateVariablesCollection [public i, subscriber who] ''template_variable''"

text \<open>
  The body binds to a map, which stays nil when it cannot be read; an assignment to it panics,
  which the server answers with 500 and an empty body.
\<close>

definition handleCreateTemplateVariable :: "Backend \<Rightarrow> Caller \<Rightarrow> Doc option \<Rightarrow> Reply docs" where
  "handleCreateTemplateVariable bk who body =
     (case body of
        None \<Rightarrow> do { _ \<leftarrow> NewObjectId; answer 500 [] }
      | Some d \<Rightarrow> do {
          i \<leftarrow> NewObjectId;
          p \<leftarrow> GeneratePublicId bk;
          let item = ownedBy who (gomap_put ''public_id'' (BStr p) (gomap_put ''_id'' (BOid i) d));
          _ \<leftarrow> Insert bk TemplateVariablesCollection item;
          answer 200 [(''template_variable'', ADoc item)]
        })"

definition handleUpdateTemplateVariable :: "Backend \<Rightarrow> Caller \<Rightarrow> string \<Rightarrow> string + Doc \<Rightarrow> Reply docs" where
  "handleUpdateTemplateVariable bk who i body = 
     updateReply (applySanitizedUpdate bk who i TemplateVariablesCollection templateVarFields body)"

definition handleDeleteTemplateVariable :: "Backend \<Rightarrow> Caller \<Rightarrow> string \<Rightarrow> Reply docs" where
  "handleDeleteTemplateVariable bk who i = removeItem bk TemplateVariablesCollection [public i, subscriber who]"

end
