(* ===== verification/StoryContacts.thy ===== *)
theory StoryContacts
  imports StoryParts
begin

text \<open>
  The endpoints of \<open>src/routes/story.go\<close> for the contacts of a tenant, their registration, the
  lists and the counts.
\<close>

section \<open>Contacts\<close>

definition toContactResponse :: "Backend \<Rightarrow> Doc \<Rightarrow> Doc \<times> bool" where
  "toContactResponse bk item =
     (let (subscribed, consent, digest) = bk_consent bk item;
          requestedConsent = (consent = Some True) in
      (item, \<not> subscribed \<and> \<not> requestedConsent \<and> digest \<noteq> []))"

definition handleGetUsers :: "Backend \<Rightarrow> Caller \<Rightarrow> Reply docs" where
  "handleGetUsers bk who = do {
     items \<leftarrow> FindAll bk UserCollection [tenant who, alive];
     answer 200 [(''users'', AContacts (map (toContactResponse bk) items))]
   }"

definition contact :: "Doc \<times> bool \<Rightarrow> Answer" where
  "contact r = AContact (fst r) (snd r)"

definition handleGetUser :: "Backend \<Rightarrow> Caller \<Rightarrow> string \<Rightarrow> Reply docs" where
  "handleGetUser bk who i = do {
     found \<leftarrow> FindOne bk UserCollection [public i, tenant who, alive];
     case found of
       Inl _ \<Rightarrow> refuse 404 ''user not found''
     | Inr item \<Rightarrow> answer 200 [(''user'', contact (toContactResponse bk item))]
   }"

text \<open>The dash in a message.\<close>

definition contactLimit :: string where
  "contactLimit = ''contact limit reached '' @ [CHR 0xE2, CHR 0x80, CHR 0x94] @ '' upgrade your plan to add more contacts''"

text \<open>The tenant of the caller is set, so the two tests for an empty one are left out.\<close>

definition handleCreateUser :: "Backend \<Rightarrow> Caller \<Rightarrow> Doc \<Rightarrow> Reply docs" where
  "handleCreateUser bk who d = do {
     blocked \<leftarrow> (if fst (bk_consent bk d)
       then do { n \<leftarrow> tick; ret (bk_ContactCreationBlocked bk n (ca_TenantOid who)) } else ret False);
     if blocked
     then answer 402 [(''error'', AStr contactLimit), (''code'', AStr ''contact_limit_reached'')]
     else do {
       item \<leftarrow> identified bk (ownedTwice who d);
       _ \<leftarrow> Insert bk UserCollection item;
       Invalidate (ca_TenantOid who);
       answer 200 [(''user'', ADoc item)]
     }
   }"

definition handleUpdateUser :: "Backend \<Rightarrow> Caller \<Rightarrow> string \<Rightarrow> string + Doc \<Rightarrow> Reply docs" where
  "handleUpdateUser bk who i body =
     updateReply (applySanitizedContactUpdate bk who i UserCollection contactUpdateFields body)"

definition handleDeleteUser :: "Backend \<Rightarrow> Caller \<Rightarrow> string \<Rightarrow> Reply docs" where
  "handleDeleteUser bk who i = softDelete bk UserCollection [public i, tenant who]"

definition handleDeleteAllUsers :: "Backend \<Rightarrow> Caller \<Rightarrow> Reply docs" where
  "handleDeleteAllUsers bk who = do {
     now \<leftarrow> timeNow bk;
     _ \<leftarrow> UpdateAll bk UserCollection [tenant who] (deletion now);
     ok
   }"

definition handleGetUserDetail :: "Backend \<Rightarrow> Caller \<Rightarrow> string \<Rightarrow> Reply docs" where
  "handleGetUserDetail bk who i = do {
     item \<leftarrow> readBack bk UserCollection [public i, tenant who];
     answer 200 [(''user'', contact (toContactResponse bk item)), (''campaign'', ANull), (''hot_triggers'', ANone),
       (''pending_emails'', ANone)]
   }"

definition handleAddUserToStory :: "Reply docs" where
  "handleAddUserToStory = ok"

section \<open>Registration\<close>

text \<open>
  The tenant of a public request: that of the token, of the API key, or of the verified domain,
  as the packages \<open>auth\<close> and \<open>publicchannel\<close> resolve them.
\<close>

definition resolveRegistrationTenant :: "ObjectId option \<Rightarrow> ObjectId option \<Rightarrow> ObjectId option \<Rightarrow> ObjectId option" where
  "resolveRegistrationTenant byJWT byAPIKey byDomain =
     (case byJWT of Some t \<Rightarrow> Some t | None \<Rightarrow> (case byAPIKey of Some t \<Rightarrow> Some t | None \<Rightarrow> byDomain))"

definition sameContact :: "ObjectId \<Rightarrow> string \<Rightarrow> Filter" where
  "sameContact t email = [field ''tenant_id'' (BOid t), field ''email'' (BStr email), alive]"

definition insertContact :: "Backend \<Rightarrow> ObjectId \<Rightarrow> registerUserRequest \<Rightarrow> Reply docs" where
  "insertContact bk t req = do {
     i \<leftarrow> NewObjectId;
     p \<leftarrow> GeneratePublicId bk;
     let d = bk_contact bk req (bk_ObjectIdHex bk (rr_ListID req));
     now \<leftarrow> timeNow bk;
     n \<leftarrow> tick;
     let item = bk_ApplyHold bk n (createdAt bk now (gomap_put ''email'' (BStr (rr_Email req))
       (gomap_put ''tenant_id'' (BOid t) (gomap_put ''public_id'' (BStr p) (gomap_put ''_id'' (BOid i) d)))));
     err \<leftarrow> Insert bk UserCollection item;
     if err \<noteq> None then refuse 500 ''failed to create contact''
     else do { Invalidate t; answer 200 [(''user'', ADoc item)] }
   }"

definition registerContact :: "Backend \<Rightarrow> ObjectId \<Rightarrow> registerUserRequest \<Rightarrow> Reply docs" where
  "registerContact bk t req =
     (if rr_SubscriberID req \<noteq> [] \<and> rr_SubscriberID req \<noteq> bk_Hex bk t
      then refuse 403 ''subscriber_id does not match authenticated tenant''
      else if rr_Email req = [] then refuse 400 ''email is required''
      else do {
        existing \<leftarrow> Count bk UserCollection (sameContact t (rr_Email req));
        if existing > 0 then refuse 409 ''contact already exists for this tenant''
        else insertContact bk t req
      })"

definition HandleRegisterUser ::
  "Backend \<Rightarrow> ObjectId option \<Rightarrow> ObjectId option \<Rightarrow> (string \<Rightarrow> ObjectId option) \<Rightarrow> registerUserRequest option \<Rightarrow> Reply docs" where
  "HandleRegisterUser bk byJWT byAPIKey byDomain body =
     (case body of
        None \<Rightarrow> refuse 400 ''invalid request body''
      | Some req \<Rightarrow>
          (case resolveRegistrationTenant byJWT byAPIKey (byDomain (rr_Domain req)) of
             None \<Rightarrow> refuse 401 ''unresolved tenant: provide a tenant token, API key, or verified domain''
           | Some t \<Rightarrow> registerContact bk t req))"

section \<open>Lists\<close>

definition handleGetEmailLists :: "Backend \<Rightarrow> Caller \<Rightarrow> Reply docs" where
  "handleGetEmailLists bk who = listItems bk EmailListCollection [subscriber who] ''lists''"

definition handleGetEmailList :: "Backend \<Rightarrow> Caller \<Rightarrow> string \<Rightarrow> Reply docs" where
  "handleGetEmailList bk who i =
     (case bk_ObjectIdHex bk i of
        None \<Rightarrow> refuse 404 ''list not found''
      | Some oid \<Rightarrow> getItem bk EmailListCollection [field ''_id'' (BOid oid), subscriber who] ''list'')"

definition handleCreateEmailList :: "Backend \<Rightarrow> Caller \<Rightarrow> Doc \<Rightarrow> Reply docs" where
  "handleCreateEmailList bk who d = do {
     i \<leftarrow> NewObjectId;
     p \<leftarrow> GeneratePublicId bk;
     let item = ownedBy who (gomap_put ''public_id'' (BStr p) (gomap_put ''_id'' (BOid i) d));
     _ \<leftarrow> Insert bk EmailListCollection item;
     answer 200 [(''list'', ADoc item)]
   }"

definition handleDeleteEmailList :: "Backend \<Rightarrow> Caller \<Rightarrow> string \<Rightarrow> Reply docs" where
  "handleDeleteEmailList bk who i = removeItem bk EmailListCollection [public i, subscriber who]"

section \<open>Fixed answers and counts\<close>

definition handleGetPendingEmails :: "Reply docs" where
  "handleGetPendingEmails = answer 200 [(''scheduled_emails'', ANone), (''instant_emails'', ANone), (''total'', ANum 0)]"

definition handleGetHotTriggers :: "Reply docs" where
  "handleGetHotTriggers = answer 200 [(''hot_triggers'', ANone), (''total'', ANum 0)]"

definition countSessions :: "Backend \<Rightarrow> Caller \<Rightarrow> string \<Rightarrow> nat docs" where
  "countSessions bk who st = Count bk storySessionCollection [subscriber who, field ''status'' (BStr st)]"

text \<open>The collections that are counted, in the order of the answer.\<close>

definition counted :: "(string \<times> Coll) list" where
  "counted = [(''campaigns'', StoryCollection), (''storylines'', StorylineCollection), (''messages'', MessageCollection),
     (''contacts'', UserCollection), (''badges'', BadgeCollection), (''triggers'', TriggerCollection)]"

definition handleStatsOverview :: "Backend \<Rightarrow> Caller \<Rightarrow> Reply docs" where
  "handleStatsOverview bk who = do {
     activeSessions \<leftarrow> countSessions bk who ''active'';
     completedSessions \<leftarrow> countSessions bk who ''completed'';
     counts \<leftarrow> mapC (\<lambda>(name, c). do { n \<leftarrow> Count bk c [subscriber who, alive]; ret (name, int n) }) counted;
     answer 200 [(''status'', AStr ''OK''),
       (''stats'', AStats (counts @ [(''active_enrollments'', int activeSessions), (''completed_stories'', int completedSessions)]))]
   }"

definition handleStatsStub :: "Reply docs" where
  "handleStatsStub = answer 200 [(''status'', AStr ''OK''), (''data'', ANone)]"

definition handleAdminReset :: "Reply docs" where
  "handleAdminReset = ok"

end
