(* ===== verification/StoryRoutes.thy ===== *)
theory StoryRoutes
  imports StoryContacts
begin

text \<open>
  The table of the endpoints of the story builder (\<open>RegisterStoryRoutes\<close> in \<open>src/routes/story.go\<close>), and
  the service as a system that answers requests of the tenants.

  A handler gets the values of the path's parameters in their order. The statistics of one
  story (\<open>story_stats.go\<close>) are not modelled.
\<close>

section \<open>Requests\<close>

text \<open>
  What the body of a request binds to: a struct or the error, the struct that is left when the error
  is not looked at, a map or the error, a map or nil, and single fields of a struct, empty
  when the binding failed.
\<close>

record Body =
  bo_struct :: "string + Doc"
  bo_left :: Doc
  bo_map :: "string + Doc"
  bo_object :: "Doc option"
  bo_ok :: bool
  bo_field :: "string \<Rightarrow> string"
  bo_value :: "string \<Rightarrow> Bson option"

type_synonym Handler = "(nat \<Rightarrow> string) \<Rightarrow> Body \<Rightarrow> Reply docs"

type_synonym Route = "string \<times> string list \<times> Handler"

definition storyRoutes :: "Backend \<Rightarrow> Caller \<Rightarrow> Route list" where
  "storyRoutes bk who = [
     (''GET'', [''stories''], \<lambda>p b. handleGetStories bk who),
     (''GET'', [''story'', '':id''], \<lambda>p b. handleGetStory bk who (p 0)),
     (''POST'', [''story''], \<lambda>p b. handleCreateStory bk who (bo_struct b)),
     (''PUT'', [''story'', '':id''], \<lambda>p b. handleUpdateStory bk who (p 0) (bo_map b)),
     (''DELETE'', [''story'', '':id''], \<lambda>p b. handleDeleteStory bk who (p 0)),
     (''DELETE'', [''stories''], \<lambda>p b. handleDeleteAllStories bk who),
     (''DELETE'', [''story'', '':id'', ''purge''], \<lambda>p b. handlePurgeStory bk who (p 0)),
     (''PUT'', [''story'', '':id'', ''start''], \<lambda>p b. handleStartStory bk who (p 0)),
     (''PUT'', [''story'', '':id'', ''stop''], \<lambda>p b. handleStopStory bk who (p 0)),
     (''POST'', [''story'', '':id'', ''storylines'', '':storylineId''], \<lambda>p b. handleAddStorylineToStory bk who (p 0) (p 1)),
     (''DELETE'', [''story'', '':id'', ''storylines'', '':storylineId''], \<lambda>p b. handleRemoveStorylineFromStory bk who (p 0) (p 1)),
     (''POST'', [''story'', '':id'', ''merge''], \<lambda>p b. handleMergeStories bk who (p 0) (if bo_ok b then Some (bo_field b ''from_story_id'') else None)),
     (''GET'', [''storylines''], \<lambda>p b. handleGetStorylines bk who),
     (''GET'', [''storyline'', '':id''], \<lambda>p b. handleGetStoryline bk who (p 0)),
     (''POST'', [''storyline''], \<lambda>p b. handleCreateStoryline bk who (bo_left b)),
     (''PUT'', [''storyline'', '':id''], \<lambda>p b. handleUpdateStoryline bk who (p 0) (bo_map b)),
     (''DELETE'', [''storyline'', '':id''], \<lambda>p b. handleDeleteStoryline bk who (p 0)),
     (''PUT'', [''storyline'', '':id'', ''start''], \<lambda>p b. handleStartStoryline bk who (p 0)),
     (''PUT'', [''storyline'', '':id'', ''stop''], \<lambda>p b. handleStopStoryline bk who (p 0)),
     (''POST'', [''storyline'', '':id'', ''enactments''], \<lambda>p b. handleAddEnactmentToStoryline bk who (p 0) (bo_field b ''enactment_id'')),
     (''DELETE'', [''storyline'', '':id'', ''enactments'', '':enactmentId''], \<lambda>p b. handleRemoveEnactmentFromStoryline bk who (p 0) (p 1)),
     (''GET'', [''enactments''], \<lambda>p b. handleGetEnactments bk who),
     (''GET'', [''enactment'', '':id''], \<lambda>p b. handleGetEnactment bk who (p 0)),
     (''POST'', [''enactment''], \<lambda>p b. handleCreateEnactment bk who (bo_left b)),
     (''PUT'', [''enactment'', '':id''], \<lambda>p b. handleUpdateEnactment bk who (p 0) (bo_map b)),
     (''DELETE'', [''enactment'', '':id''], \<lambda>p b. handleDeleteEnactment bk who (p 0)),
     (''PUT'', [''enactment'', '':id'', ''start''], \<lambda>p b. handleStartEnactment bk who (p 0)),
     (''PUT'', [''enactment'', '':id'', ''stop''], \<lambda>p b. handleStopEnactment bk who (p 0)),
     (''POST'', [''enactment'', '':id'', ''trigger''], \<lambda>p b. handleAddTriggerToEnactment bk who (p 0) (bo_field b ''trigger_id'')),
     (''DELETE'', [''enactment'', '':id'', ''trigger'', '':triggerId''], \<lambda>p b. handleRemoveTriggerFromEnactment bk who (p 0) (p 1)),
     (''POST'', [''enactment'', '':id'', ''scene'', '':sceneId''], \<lambda>p b. handleSetEnactmentScene bk who (p 0) (p 1)),
     (''DELETE'', [''enactment'', '':id'', ''scene''], \<lambda>p b. handleRemoveEnactmentScene bk who (p 0))]"

definition sceneRoutes :: "Backend \<Rightarrow> Caller \<Rightarrow> Route list" where
  "sceneRoutes bk who = [
     (''GET'', [''scenes''], \<lambda>p b. handleGetScenes bk who),
     (''GET'', [''scene'', '':id''], \<lambda>p b. handleGetScene bk who (p 0)),
     (''POST'', [''scene''], \<lambda>p b. handleCreateScene bk who (bo_left b)),
     (''PUT'', [''scene'', '':id''], \<lambda>p b. handleUpdateScene bk who (p 0) (bo_map b)),
     (''DELETE'', [''scene'', '':id''], \<lambda>p b. handleDeleteScene bk who (p 0)),
     (''POST'', [''scene'', '':id'', ''tag''], \<lambda>p b. handleAddTagToScene bk who (p 0) (bo_field b ''tag_id'')),
     (''DELETE'', [''scene'', '':id'', ''tag'', '':tagId''], \<lambda>p b. handleRemoveTagFromScene bk who (p 0) (p 1)),
     (''POST'', [''scene'', '':id'', ''message'', '':messageId''], \<lambda>p b. handleSetSceneMessage bk who (p 0) (p 1)),
     (''DELETE'', [''scene'', '':id'', ''message''], \<lambda>p b. handleRemoveSceneMessage bk who (p 0)),
     (''GET'', [''messages''], \<lambda>p b. handleGetMessages bk who),
     (''GET'', [''message'', '':id''], \<lambda>p b. handleGetMessage bk who (p 0)),
     (''POST'', [''message''], \<lambda>p b. handleCreateMessage bk who (if bo_ok b then Some (bo_field b ''name'', bo_value b ''content'', bo_value b ''message_content'') else None)),
     (''PUT'', [''message'', '':id''], \<lambda>p b. handleUpdateMessage bk who (p 0) (bo_map b)),
     (''DELETE'', [''message'', '':id''], \<lambda>p b. handleDeleteMessage bk who (p 0)),
     (''POST'', [''message'', '':id'', ''tag''], \<lambda>p b. handleAddTagToMessage bk who (p 0) (bo_field b ''tag_id'')),
     (''DELETE'', [''message'', '':id'', ''tag'', '':tagId''], \<lambda>p b. handleRemoveTagFromMessage bk who (p 0) (p 1)),
     (''GET'', [''message_contents''], \<lambda>p b. handleGetMessageContents bk who),
     (''GET'', [''message_content'', '':id''], \<lambda>p b. handleGetMessageContent bk who (p 0)),
     (''POST'', [''message_content''], \<lambda>p b. handleCreateMessageContent bk who (bo_left b)),
     (''PUT'', [''message_content'', '':id''], \<lambda>p b. handleUpdateMessageContent bk who (p 0) (bo_map b)),
     (''DELETE'', [''message_content'', '':id''], \<lambda>p b. handleDeleteMessageContent bk who (p 0)),
     (''GET'', [''triggers''], \<lambda>p b. handleGetTriggers bk who),
     (''GET'', [''trigger'', '':id''], \<lambda>p b. handleGetTrigger bk who (p 0)),
     (''POST'', [''trigger''], \<lambda>p b. handleCreateTrigger bk who (bo_left b)),
     (''PUT'', [''trigger'', '':id''], \<lambda>p b. handleUpdateTrigger bk who (p 0) (bo_map b)),
     (''DELETE'', [''trigger'', '':id''], \<lambda>p b. handleDeleteTrigger bk who (p 0)),
     (''GET'', [''actions''], \<lambda>p b. handleGetActions bk who),
     (''GET'', [''action'', '':id''], \<lambda>p b. handleGetAction bk who (p 0)),
     (''POST'', [''action''], \<lambda>p b. handleCreateAction bk who (bo_left b)),
     (''PUT'', [''action'', '':id''], \<lambda>p b. handleUpdateAction bk who (p 0) (bo_map b)),
     (''DELETE'', [''action'', '':id''], \<lambda>p b. handleDeleteAction bk who (p 0))]"

definition contactRoutes :: "Backend \<Rightarrow> Caller \<Rightarrow> Route list" where
  "contactRoutes bk who = [
     (''GET'', [''badges''], \<lambda>p b. handleGetBadges bk who),
     (''GET'', [''badge'', '':id''], \<lambda>p b. handleGetBadge bk who (p 0)),
     (''POST'', [''badge''], \<lambda>p b. handleCreateBadge bk who (bo_struct b)),
     (''PUT'', [''badge'', '':id''], \<lambda>p b. handleUpdateBadge bk who (p 0) (bo_map b)),
     (''DELETE'', [''badge'', '':id''], \<lambda>p b. handleDeleteBadge bk who (p 0)),
     (''PUT'', [''user_badge'', ''user'', '':userId'', ''badge'', '':badgeId''], \<lambda>p b. handleAssignBadgeToUser bk who (p 0) (p 1)),
     (''DELETE'', [''user_badge'', ''user'', '':userId'', ''badge'', '':badgeId''], \<lambda>p b. handleRemoveBadgeFromUser bk who (p 0) (p 1)),
     (''GET'', [''tags''], \<lambda>p b. handleGetTags bk who),
     (''GET'', [''tag'', '':id''], \<lambda>p b. handleGetTag bk who (p 0)),
     (''POST'', [''tag''], \<lambda>p b. handleCreateTag bk who (if bo_ok b then Some (bo_field b ''name'', bo_field b ''description'') else None)),
     (''PUT'', [''tag'', '':id''], \<lambda>p b. handleUpdateTag bk who (p 0) (bo_map b)),
     (''DELETE'', [''tag'', '':id''], \<lambda>p b. handleDeleteTag bk who (p 0)),
     (''GET'', [''template_variables''], \<lambda>p b. handleGetTemplateVariables bk who),
     (''GET'', [''template_variable'', '':id''], \<lambda>p b. handleGetTemplateVariable bk who (p 0)),
     (''POST'', [''template_variable''], \<lambda>p b. handleCreateTemplateVariable bk who (bo_object b)),
     (''PUT'', [''template_variable'', '':id''], \<lambda>p b. handleUpdateTemplateVariable bk who (p 0) (bo_map b)),
     (''DELETE'', [''template_variable'', '':id''], \<lambda>p b. handleDeleteTemplateVariable bk who (p 0)),
     (''GET'', [''users''], \<lambda>p b. handleGetUsers bk who),
     (''GET'', [''user'', '':id''], \<lambda>p b. handleGetUser bk who (p 0)),
     (''POST'', [''user''], \<lambda>p b. handleCreateUser bk who (bo_left b)),
     (''PUT'', [''user'', '':id''], \<lambda>p b. handleUpdateUser bk who (p 0) (bo_map b)),
     (''DELETE'', [''user'', '':id''], \<lambda>p b. handleDeleteUser bk who (p 0)),
     (''DELETE'', [''users''], \<lambda>p b. handleDeleteAllUsers bk who),
     (''GET'', [''user'', '':id'', ''detail''], \<lambda>p b. handleGetUserDetail bk who (p 0)),
     (''POST'', [''user'', '':id'', ''story'', '':storyId''], \<lambda>p b. handleAddUserToStory),
     (''GET'', [''creator'', ''lists''], \<lambda>p b. handleGetEmailLists bk who),
     (''GET'', [''creator'', ''list'', '':id''], \<lambda>p b. handleGetEmailList bk who (p 0)),
     (''POST'', [''creator'', ''list''], \<lambda>p b. handleCreateEmailList bk who (bo_left b)),
     (''DELETE'', [''creator'', ''list'', '':id''], \<lambda>p b. handleDeleteEmailList bk who (p 0)),
     (''GET'', [''emails'', ''pending''], \<lambda>p b. handleGetPendingEmails),
     (''GET'', [''hot-triggers''], \<lambda>p b. handleGetHotTriggers),
     (''GET'', [''stats''], \<lambda>p b. handleStatsOverview bk who),
     (''GET'', [''stats'', ''story''], \<lambda>p b. handleStatsStub),
     (''GET'', [''stats'', ''storyline''], \<lambda>p b. handleStatsStub),
     (''GET'', [''stats'', ''storyline'', '':id''], \<lambda>p b. handleStatsStub),
     (''GET'', [''stats'', ''enactment''], \<lambda>p b. handleStatsStub),
     (''GET'', [''stats'', ''enactment'', '':id''], \<lambda>p b. handleStatsStub),
     (''GET'', [''stats'', ''message''], \<lambda>p b. handleStatsStub),
     (''GET'', [''stats'', ''message'', '':id''], \<lambda>p b. handleStatsStub),
     (''GET'', [''stats'', ''badge''], \<lambda>p b. handleStatsStub),
     (''GET'', [''stats'', ''badge'', '':id''], \<lambda>p b. handleStatsStub),
     (''GET'', [''stats'', ''trigger''], \<lambda>p b. handleStatsStub),
     (''GET'', [''stats'', ''trigger'', '':id''], \<lambda>p b. handleStatsStub),
     (''GET'', [''stats'', ''email''], \<lambda>p b. handleStatsStub),
     (''GET'', [''stats'', ''email'', '':id''], \<lambda>p b. handleStatsStub),
     (''GET'', [''stats'', ''user''], \<lambda>p b. handleStatsStub),
     (''GET'', [''stats'', ''user'', '':id''], \<lambda>p b. handleStatsStub),
     (''GET'', [''stats'', ''link''], \<lambda>p b. handleStatsStub),
     (''GET'', [''stats'', ''link'', '':id''], \<lambda>p b. handleStatsStub),
     (''GET'', [''stats'', ''spam''], \<lambda>p b. handleStatsStub),
     (''GET'', [''stats'', ''fail''], \<lambda>p b. handleStatsStub),
     (''GET'', [''stats'', ''validate''], \<lambda>p b. handleStatsStub),
     (''GET'', [''stats'', ''ab''], \<lambda>p b. handleStatsStub),
     (''GET'', [''stats'', ''ab'', '':id''], \<lambda>p b. handleStatsStub),
     (''POST'', [''admin'', ''reset''], \<lambda>p b. handleAdminReset)]"

definition RegisterStoryRoutes :: "Backend \<Rightarrow> Caller \<Rightarrow> Route list" where
  "RegisterStoryRoutes bk who = storyRoutes bk who @ sceneRoutes bk who @ contactRoutes bk who"

section \<open>The service\<close>

text \<open>One request of one of the callers, to one of the routes or to the public registration.\<close>

inductive story_step :: "Backend \<Rightarrow> Caller set \<Rightarrow> Docs \<Rightarrow> Docs \<Rightarrow> bool" for bk :: Backend and W :: "Caller set" where
  request: "who \<in> W \<Longrightarrow> (meth, path, handler) \<in> set (RegisterStoryRoutes bk who)
    \<Longrightarrow> story_step bk W s (snd (run_state (handler p b) s))"
| register: "who \<in> W \<Longrightarrow> story_step bk W s (snd (run_state (registerContact bk (ca_TenantOid who) req) s))"

end
