(* ===== verification/StoryFrames.thy ===== *)
theory StoryFrames
  imports StoryRoutes
begin

text \<open>
  What every handler of the story builder leaves alone: the documents of other tenants, and the
  unique indexes. Each operation of the driver is one of a few writes on one collection; a
  locale collects what these writes respect, and each route is proved to respect it.
\<close>

section \<open>Fields an update does not touch\<close>

definition ownerFields :: "string list" where
  "ownerFields = [''_id'', ''subscriber_id'', ''tenant_id'']"

fun changePath :: "Change \<Rightarrow> Path" where
  "changePath (Put p v) = p"
| "changePath (Unset p) = p"
| "changePath (Push p vs) = p"
| "changePath (Pull p P) = p"

text \<open>The changes are below fields of a list.\<close>

definition within :: "string list \<Rightarrow> Change list \<Rightarrow> bool" where
  "within ks cs \<longleftrightarrow> list_all (\<lambda>c. changePath c \<noteq> [] \<and> hd (changePath c) \<in> set ks) cs"

lemma lookup_put [simp]: "map_of (gomap_put k v d) k' = (if k' = k then Some v else map_of d k')"
  by (auto simp: update_conv)

lemma editPath_other:
  assumes "editPath (k # ks) f (Some (BDoc d)) = Some b"
  shows "\<exists>d'. b = BDoc d' \<and> (\<forall>k'. k' \<noteq> k \<longrightarrow> map_of d' k' = map_of d k')"
  using assms by auto

lemma map_of_filter_key: "k' \<noteq> k \<Longrightarrow> map_of (filter (\<lambda>(x, _). x \<noteq> k) d) k' = map_of d k'"
  by (induction d) auto

lemma unsetPath_other: "\<exists>d'. unsetPath (k # ks) (BDoc d) = BDoc d' \<and> (\<forall>k'. k' \<noteq> k \<longrightarrow> map_of d' k' = map_of d k')"
  by (cases ks) (auto simp: map_of_filter_key split: option.splits)

lemma pullPath_other:
  assumes "pullPath (k # ks) P (BDoc d) = Some b"
  shows "\<exists>d'. b = BDoc d' \<and> (\<forall>k'. k' \<noteq> k \<longrightarrow> map_of d' k' = map_of d k')"
  using assms by (auto split: option.splits)

lemma change_other:
  assumes "change c (BDoc d) = Some b" and "changePath c \<noteq> []"
  shows "\<exists>d'. b = BDoc d' \<and> (\<forall>k'. k' \<noteq> hd (changePath c) \<longrightarrow> map_of d' k' = map_of d k')"
proof -
  obtain k ks where p: "changePath c = k # ks" using assms(2) by (cases "changePath c") auto
  show ?thesis
  proof (cases c)
    case (Put q v)
    with assms p editPath_other [of k ks _ d b] show ?thesis by simp
  next
    case (Unset q)
    with assms p unsetPath_other [of k ks d] show ?thesis by auto
  next
    case (Push q vs)
    with assms p editPath_other [of k ks _ d b] show ?thesis by simp
  next
    case (Pull q P)
    with assms p pullPath_other [of k ks P d b] show ?thesis by simp
  qed
qed

lemma changes_other:
  assumes "changes cs (BDoc d) = Some b" and "within ks cs"
  shows "\<exists>d'. b = BDoc d' \<and> (\<forall>k. k \<notin> set ks \<longrightarrow> map_of d' k = map_of d k)"
  using assms
proof (induction cs arbitrary: d)
  case Nil
  then show ?case by (intro exI [of _ d]) simp
next
  case (Cons c cs)
  then obtain b' where b': "change c (BDoc d) = Some b'" "changes cs b' = Some b" by (auto simp: bind_eq_Some_conv)
  have c: "changePath c \<noteq> []" "hd (changePath c) \<in> set ks" "within ks cs"
    using Cons.prems(2) by (simp_all add: within_def)
  from change_other [OF b'(1) c(1)] obtain d' where d': "b' = BDoc d'"
    "\<forall>k'. k' \<noteq> hd (changePath c) \<longrightarrow> map_of d' k' = map_of d k'" by blast
  from Cons.IH [OF _ c(3), of d'] b'(2) d'(1) obtain d'' where "b = BDoc d''"
    "\<forall>k. k \<notin> set ks \<longrightarrow> map_of d'' k = map_of d' k" by blast
  moreover from c(2) have "k \<noteq> hd (changePath c)" if "k \<notin> set ks" for k using that by auto
  ultimately show ?case using d'(2) by auto
qed

lemma updated_other:
  "updated cs d = Some d' \<Longrightarrow> within ks cs \<Longrightarrow> k \<notin> set ks \<Longrightarrow> map_of d' k = map_of d k"
  using changes_other [of cs d "BDoc d'" ks] by (auto simp: updated_def split: option.splits Bson.splits)

text \<open>A condition on a field sees the field only.\<close>

lemma sat_Nil [simp]: "sat [] d"
  by (simp add: matches_def)

lemma sat_Cons [simp]: "sat (c # f) d \<longleftrightarrow> holds (BDoc d) c \<and> sat f d"
  by (simp add: matches_def)

lemma holds_field_cong: "map_of d k = map_of d' k \<Longrightarrow> holds (BDoc d) (field k v) = holds (BDoc d') (field k v)"
  by (simp add: field_def)

lemma holds_put [simp]: "holds (BDoc (gomap_put k v d)) (field k v)"
  by (simp add: field_def equals_def)

section \<open>Owners\<close>

definition owned :: "Caller \<Rightarrow> Doc \<Rightarrow> bool" where
  "owned who d \<longleftrightarrow> holds (BDoc d) (subscriber who) \<or> holds (BDoc d) (tenant who)"

lemma owned_cong:
  "map_of d ''subscriber_id'' = map_of d' ''subscriber_id'' \<Longrightarrow> map_of d ''tenant_id'' = map_of d' ''tenant_id''
    \<Longrightarrow> owned who d = owned who d'"
  unfolding owned_def subscriber_def tenant_def
  using holds_field_cong [of d "''subscriber_id''" d'] holds_field_cong [of d "''tenant_id''" d'] by blast

definition others :: "Caller \<Rightarrow> Doc list \<Rightarrow> Doc list" where
  "others who docs = filter (\<lambda>d. \<not> owned who d) docs"

lemma others_append [simp]: "others who (xs @ ys) = others who xs @ others who ys"
  by (simp add: others_def)

section \<open>Unique indexes\<close>

text \<open>No two documents of a collection clash.\<close>

definition unclashing :: "string list list \<Rightarrow> Doc list \<Rightarrow> bool" where
  "unclashing uniq docs \<longleftrightarrow> sorted_wrt (\<lambda>a b. \<not> clash uniq a b) docs"

lemma clash_sym: "clash uniq a b \<longleftrightarrow> clash uniq b a"
  unfolding clash_def list_ex_iff by (intro arg_cong2 [where f = "(\<or>)"] bex_cong) (auto simp: eq_commute)

lemma clash_cong:
  assumes "map_of a ''_id'' = map_of a' ''_id''" and "\<And>ks k. ks \<in> set uniq \<Longrightarrow> k \<in> set ks \<Longrightarrow> map_of a k = map_of a' k"
  shows "clash uniq a b = clash uniq a' b"
proof -
  have "indexed ks a = indexed ks a'" "map (\<lambda>k. getField k a) ks = map (\<lambda>k. getField k a') ks" if "ks \<in> set uniq" for ks
    using assms(2) [OF that] by (auto simp: indexed_def getField_def list_ex_iff)
  then show ?thesis using assms(1) by (auto simp: clash_def getField_def list_ex_iff)
qed

lemma unclashing_snoc:
  "unclashing uniq docs \<Longrightarrow> \<not> list_ex (clash uniq d) docs \<Longrightarrow> unclashing uniq (docs @ [d])"
  using clash_sym by (auto simp: unclashing_def sorted_wrt_append list_ex_iff)

lemma unclashing_filter: "unclashing uniq docs \<Longrightarrow> unclashing uniq (filter P docs)"
  by (simp add: unclashing_def sorted_wrt_filter)

lemma unclashing_replace:
  assumes "unclashing uniq (as @ d # bs)" and "\<not> list_ex (clash uniq d') (as @ bs)"
  shows "unclashing uniq (as @ d' # bs)"
proof -
  have new: "\<not> clash uniq d' y" if "y \<in> set as \<or> y \<in> set bs" for y
    using assms(2) that unfolding list_ex_iff by auto
  have "\<not> clash uniq y d'" if "y \<in> set as" for y
    using new [of y] that by (subst clash_sym) simp
  with new assms(1) show ?thesis unfolding unclashing_def sorted_wrt_append by simp
qed

lemma unclashing_same:
  assumes "unclashing uniq docs" and "list_all2 (\<lambda>d d'. \<forall>b. clash uniq d b = clash uniq d' b) docs docs'"
  shows "unclashing uniq docs'"
  using assms(2,1)
proof (induction rule: list_all2_induct)
  case (Cons d ds d' ds')
  have "\<not> clash uniq d' y'" if "y' \<in> set ds'" for y'
  proof -
    from that obtain i where i: "i < length ds'" "y' = ds' ! i" by (auto simp: in_set_conv_nth)
    define y where "y = ds ! i"
    have y: "y \<in> set ds" "\<forall>b. clash uniq y b = clash uniq y' b"
      using Cons.hyps(2) i list_all2_nthD2 [OF Cons.hyps(2) i(1)] by (simp_all add: y_def list_all2_lengthD)
    have "\<not> clash uniq d y" using Cons.prems y(1) by (simp add: unclashing_def)
    also have "clash uniq d y = clash uniq d' y" using Cons.hyps(1) by simp
    also have "\<dots> = clash uniq y d'" by (rule clash_sym)
    also have "\<dots> = clash uniq y' d'" using y(2) by simp
    also have "\<dots> = clash uniq d' y'" by (rule clash_sym)
    finally show ?thesis .
  qed
  with Cons show ?case by (auto simp: unclashing_def)
qed simp

section \<open>The writes\<close>

text \<open>
  A document as the handlers leave it: its id was drawn, so a condition on the id finds it only, and
  the field of its owner is no array, so a condition on the owner says what is read from it.
\<close>

definition ownerKey :: "Coll \<Rightarrow> string" where
  "ownerKey c = (if c = UserCollection then ''tenant_id'' else ''subscriber_id'')"

definition tidy :: "Coll \<Rightarrow> Doc \<Rightarrow> bool" where
  "tidy c d \<longleftrightarrow> (\<exists>i. getField ''_id'' d = BOid i) \<and> (\<forall>xs. getField (ownerKey c) d \<noteq> BArr xs)"

lemma find_split:
  assumes "find P docs = Some d"
  obtains as bs where "docs = as @ d # bs" and "P d" and "list_all (\<lambda>x. \<not> P x) as"
proof -
  have "\<exists>as bs. docs = as @ d # bs \<and> P d \<and> list_all (\<lambda>x. \<not> P x) as"
    using assms
  proof (induction docs)
    case (Cons x xs)
    show ?case
    proof (cases "P x")
      case True
      with Cons.prems show ?thesis by (intro exI [of _ "[]"] exI [of _ xs]) simp
    next
      case False
      with Cons obtain as bs where "xs = as @ d # bs \<and> P d \<and> list_all (\<lambda>x. \<not> P x) as" by auto
      with False show ?thesis by (intro exI [of _ "x # as"] exI [of _ bs]) simp
    qed
  qed simp
  then show ?thesis using that by blast
qed

lemma updateDoc_cases:
  obtains (same) "snd (updateDoc uniq P cs docs) = docs" "fst (updateDoc uniq P cs docs) \<noteq> None"
  | (changed) as d d' bs where "docs = as @ d # bs" "P d" "updated cs d = Some d'" "\<not> list_ex (clash uniq d') (as @ bs)"
      "snd (updateDoc uniq P cs docs) = as @ d' # bs" "list_all (\<lambda>x. \<not> P x) as" "fst (updateDoc uniq P cs docs) = None"
proof (cases "find P docs")
  case None
  then show ?thesis by (intro same) (simp_all add: updateDoc_def)
next
  case (Some d)
  from find_split [OF this] obtain as bs where s: "docs = as @ d # bs" "P d" "list_all (\<lambda>x. \<not> P x) as" .
  then have "d \<notin> set as" by (auto simp: list_all_iff)
  then have rest: "remove1 d docs = as @ bs" by (simp add: s(1) remove1_append)
  show ?thesis
  proof (cases "updated cs d")
    case None
    then show ?thesis using Some by (intro same) (simp_all add: updateDoc_def)
  next
    case u: (Some d')
    show ?thesis
    proof (cases "list_ex (clash uniq d') (as @ bs)")
      case True
      then show ?thesis using Some u rest by (intro same) (simp_all add: updateDoc_def)
    next
      case False
      then show ?thesis using Some u rest s updateFirst_at [of P as d "\<lambda>_. d'" bs]
        by (intro changed [of as d bs d']) (simp_all add: updateDoc_def updateOne_def)
    qed
  qed
qed

lemma updateDocs_list_all2:
  assumes "\<And>d d'. P d \<Longrightarrow> updated cs d = Some d' \<Longrightarrow> T d d'" and "\<And>d. T d d"
  shows "list_all2 T docs (snd (updateDocs P cs docs))"
  using assms by (induction docs) (auto simp: list_all2_refl split_beta split: option.splits)

lemma removeDoc_filter: "\<exists>as bs. (docs = as @ bs \<and> snd (removeDoc P docs) = docs)
    \<or> (\<exists>d. docs = as @ d # bs \<and> P d \<and> snd (removeDoc P docs) = as @ bs)"
proof (induction docs)
  case (Cons d ds)
  show ?case
  proof (cases "P d")
    case True
    then show ?thesis by (intro exI [of _ "[]"] exI [of _ ds]) auto
  next
    case False
    from Cons obtain as bs where "(ds = as @ bs \<and> snd (removeDoc P ds) = ds)
        \<or> (\<exists>d. ds = as @ d # bs \<and> P d \<and> snd (removeDoc P ds) = as @ bs)" by blast
    with False show ?thesis by (intro exI [of _ "d # as"] exI [of _ bs]) (auto simp: split_beta)
  qed
qed simp

section \<open>The frame of a tenant\<close>

definition sound :: "Coll \<Rightarrow> string list list \<Rightarrow> Doc list \<Rightarrow> bool" where
  "sound c uniq docs \<longleftrightarrow> unclashing uniq docs \<and> list_all (tidy c) docs"

definition collections_ok :: "Backend \<Rightarrow> Docs \<Rightarrow> bool" where
  "collections_ok bk s \<longleftrightarrow> (\<forall>c. sound c (bk_unique bk c) (dx_colls s c))"

text \<open>Changes that do not touch the id and the owner.\<close>

definition safe :: "Change list \<Rightarrow> bool" where
  "safe cs \<longleftrightarrow> list_all (\<lambda>c. changePath c \<noteq> [] \<and> hd (changePath c) \<notin> set ownerFields) cs"

lemma safe_owner:
  assumes "safe cs" and "updated cs d = Some d'" and "k \<in> set ownerFields"
  shows "map_of d' k = map_of d k"
proof -
  let ?ks = "map (\<lambda>c. hd (changePath c)) cs"
  have "within ?ks cs" "k \<notin> set ?ks" using assms(1,3) by (auto simp: safe_def within_def list_all_iff)
  from updated_other [OF assms(2) this] show ?thesis .
qed

lemma safe_tidy: "safe cs \<Longrightarrow> updated cs d = Some d' \<Longrightarrow> tidy c d' = tidy c d"
  using safe_owner [of cs d d'] by (auto simp: tidy_def ownerKey_def getField_def ownerFields_def)

lemma safe_owned: "safe cs \<Longrightarrow> updated cs d = Some d' \<Longrightarrow> owned who d' = owned who d"
  using safe_owner [of cs d d'] by (intro owned_cong) (simp_all add: ownerFields_def)

text \<open>What is relied on of the packages outside the repository.\<close>

definition scoped :: "(Coll \<Rightarrow> string list list) \<Rightarrow> badgeCall \<Rightarrow> bool" where
  "scoped uniq f \<longleftrightarrow> (\<forall>n who user badge actor cs. (\<forall>c. sound c (uniq c) (cs c)) \<longrightarrow>
     (let cs' = snd (f n (BOid (ca_TenantOid who)) user badge actor cs) in
      \<forall>c. sound c (uniq c) (cs' c) \<and> others who (cs' c) = others who (cs c)))"

text \<open>
  The indexes are those the service creates. \<open>SanitizeUpdate\<close> lets only fields of the allowlist
  through. Reading a document into its struct keeps the id and, for a contact, the tenant. A hold changes
  neither id nor owner of a contact. The package \<open>badges\<close> keeps the indexes and
  writes documents of the tenant it is given.
\<close>

definition backend_ok :: "Backend \<Rightarrow> bool" where
  "backend_ok bk \<longleftrightarrow>
     (\<exists>a b. \<forall>c. bk_unique bk c = EnsureStoryGraphIndexes a c @ EnsureIdentityIndexes b c)
     \<and> (\<forall>raw allowed d. bk_SanitizeUpdate bk raw allowed = Inr d \<longrightarrow> fst ` set d \<subseteq> set allowed)
     \<and> (\<forall>c d. getField ''_id'' (bk_struct bk c d) = getField ''_id'' d)
     \<and> (\<forall>t d. getField ''tenant_id'' d = BOid t \<longrightarrow> getField ''tenant_id'' (bk_struct bk UserCollection d) = BOid t)
     \<and> (\<forall>n d k. k \<in> set ownerFields \<longrightarrow> map_of (bk_ApplyHold bk n d) k = map_of d k)
     \<and> scoped (bk_unique bk) (bk_Assign bk) \<and> scoped (bk_unique bk) (bk_Remove bk)"

text \<open>The invariant is kept, and the documents of others are those they were.\<close>

definition apart :: "Backend \<Rightarrow> Caller \<Rightarrow> Docs \<Rightarrow> Docs \<Rightarrow> bool" where
  "apart bk who s s' \<longleftrightarrow> (backend_ok bk \<and> collections_ok bk s \<longrightarrow>
     collections_ok bk s' \<and> (\<forall>c. others who (dx_colls s' c) = others who (dx_colls s c)))"

lemma index_keys:
  assumes "backend_ok bk" and "ks \<in> set (bk_unique bk c)"
  shows "''timestamps'' \<notin> set ks"
proof -
  obtain a b where "bk_unique bk c = EnsureStoryGraphIndexes a c @ EnsureIdentityIndexes b c"
    using assms(1) unfolding backend_ok_def by blast
  with assms(2) show ?thesis by (auto simp: EnsureStoryGraphIndexes_def EnsureIdentityIndexes_def split: if_splits)
qed

section \<open>The operations keep the frame\<close>

text \<open>A filter that asks for the owner.\<close>

definition asksOwner :: "Caller \<Rightarrow> Filter \<Rightarrow> bool" where
  "asksOwner who f \<longleftrightarrow> subscriber who \<in> set f \<or> tenant who \<in> set f"

lemma asksOwner_owned: "asksOwner who f \<Longrightarrow> sat f d \<Longrightarrow> owned who d"
  by (auto simp: asksOwner_def owned_def matches_def list_all_iff)

lemma asksOwner_simps [simp]:
  "asksOwner who (subscriber who # f)" "asksOwner who (tenant who # f)"
  "asksOwner who (public i # f) = asksOwner who f"
  by (auto simp: asksOwner_def public_def subscriber_def tenant_def field_def)

lemma asksOwner_field: "k \<notin> {''subscriber_id'', ''tenant_id''} \<Longrightarrow> asksOwner who (field k v # f) = asksOwner who f"
  by (auto simp: asksOwner_def subscriber_def tenant_def field_def)

lemma others_owned [simp]: "owned who d \<Longrightarrow> others who (d # ds) = others who ds"
  by (simp add: others_def)

lemma insert_frame:
  assumes "sound c u docs" and "owned who d" and "tidy c d"
  shows "sound c u (snd (insertRow (clash u) d docs)) \<and> others who (snd (insertRow (clash u) d docs)) = others who docs"
  using assms unclashing_snoc [of u docs d] by (auto simp: sound_def insertRow_def others_def)

lemma update_frame:
  assumes "sound c u docs" and "safe cs" and own: "\<And>d. d \<in> set docs \<Longrightarrow> P d \<Longrightarrow> owned who d"
  shows "sound c u (snd (updateDoc u P cs docs)) \<and> others who (snd (updateDoc u P cs docs)) = others who docs"
proof (cases rule: updateDoc_cases [of u P cs docs])
  case same
  then show ?thesis using assms(1) by simp
next
  case (changed as d d' bs)
  then have "owned who d" using own by simp
  then have "owned who d'" using safe_owned [OF assms(2) changed(3)] by simp
  moreover have "tidy c d'" using assms(1) safe_tidy [OF assms(2) changed(3)] changed(1) by (simp add: sound_def)
  moreover have "sound c u (as @ d # bs)" using assms(1) changed(1) by simp
  ultimately have "sound c u (as @ d' # bs) \<and> others who (as @ d' # bs) = others who (as @ d # bs)"
    using unclashing_replace [of u as d bs d'] changed(4) \<open>owned who d\<close> by (simp add: sound_def others_def)
  then show ?thesis unfolding changed(5) by (simp only: changed(1))
qed

lemma remove_frame:
  assumes "sound c u docs" and own: "\<And>d. P d \<Longrightarrow> owned who d"
  shows "sound c u (snd (removeDoc P docs)) \<and> others who (snd (removeDoc P docs)) = others who docs"
proof -
  from removeDoc_filter [of docs P] obtain as bs where
    "(docs = as @ bs \<and> snd (removeDoc P docs) = docs) \<or> (\<exists>d. docs = as @ d # bs \<and> P d \<and> snd (removeDoc P docs) = as @ bs)"
    by blast
  then show ?thesis
  proof (elim disjE exE conjE)
    fix d assume d: "docs = as @ d # bs" "P d" "snd (removeDoc P docs) = as @ bs"
    with assms(1) show ?thesis
      using own [OF d(2)] by (auto simp: sound_def unclashing_def sorted_wrt_append others_def)
  qed (use assms(1) in simp)
qed

lemma deletion_safe [simp]: "safe (deletion now)"
  by (simp add: safe_def deletion_def ownerFields_def)

lemma deleteAll_frame:
  assumes "sound c u docs" and "\<And>ks. ks \<in> set u \<Longrightarrow> ''timestamps'' \<notin> set ks" and own: "\<And>d. P d \<Longrightarrow> owned who d"
  shows "sound c u (snd (updateDocs P (deletion now) docs)) \<and> others who (snd (updateDocs P (deletion now) docs)) = others who docs"
proof -
  let ?T = "\<lambda>d d'. (\<forall>b. clash u d b = clash u d' b) \<and> tidy c d' = tidy c d \<and> owned who d' = owned who d \<and> (d = d' \<or> owned who d)"
  have all2: "list_all2 ?T docs (snd (updateDocs P (deletion now) docs))"
  proof (rule updateDocs_list_all2)
    fix d d' assume d: "P d" "updated (deletion now) d = Some d'"
    have "within [''timestamps''] (deletion now)" by (simp add: within_def deletion_def)
    note other = updated_other [OF d(2) this]
    have "map_of d k = map_of d' k" if "ks \<in> set u" "k \<in> set ks" for ks k
      using other [of k] assms(2) [OF that(1)] that(2) by (cases "k = ''timestamps''") auto
    then have "clash u d b = clash u d' b" for b
      using other [of "''_id''"] by (intro clash_cong) simp_all
    then show "?T d d'"
      using safe_tidy [OF deletion_safe d(2)] safe_owned [OF deletion_safe d(2)] own [OF d(1)] by simp
  qed simp
  have "unclashing u (snd (updateDocs P (deletion now) docs))"
    by (rule unclashing_same [of u docs]) (use assms(1) all2 in \<open>auto simp: sound_def elim: list_all2_mono\<close>)
  moreover have "list_all (tidy c) docs \<Longrightarrow> list_all (tidy c) ys \<and> others who ys = others who docs" if "list_all2 ?T docs ys" for ys
    using that by (induction rule: list_all2_induct) (auto simp: others_def)
  ultimately show ?thesis using assms(1) all2 by (simp add: sound_def)
qed

end
