(* ===== verification/StoryIsolation.thy ===== *)
theory StoryIsolation
  imports StoryFrames
begin

text \<open>
  What every endpoint of the story builder keeps, if the writes it consists of keep it: a locale
  with one law for each kind of write, the handlers in it, and the separation of the tenants as the
  relation it is used for.
\<close>

section \<open>What holds of the values the handlers read and write\<close>

lemma yields_case:
  "(\<And>x. yields (f x) Q) \<Longrightarrow> (\<And>y. yields (g y) Q) \<Longrightarrow> yields (case r of Inl x \<Rightarrow> f x | Inr y \<Rightarrow> g y) Q"
  by (cases r) simp_all

lemma owned_put:
  "owned who (gomap_put ''subscriber_id'' (BStr (ca_Tenant who)) d)"
  "owned who (gomap_put ''tenant_id'' (BOid (ca_TenantOid who)) d)"
  by (simp_all add: owned_def subscriber_def tenant_def)

text \<open>The value of the field that says whose a document is; a new document has an id, and the caller there.\<close>

definition ownerOf :: "Coll \<Rightarrow> Doc \<Rightarrow> Bson" where
  "ownerOf c d = getField (ownerKey c) d"

definition callerOwner :: "Caller \<Rightarrow> Coll \<Rightarrow> Bson" where
  "callerOwner who c = (if c = UserCollection then BOid (ca_TenantOid who) else BStr (ca_Tenant who))"

definition possessed :: "Caller \<Rightarrow> Coll \<Rightarrow> Doc \<Rightarrow> bool" where
  "possessed who c d \<longleftrightarrow> ownerOf c d = callerOwner who c"

definition proper :: "Caller \<Rightarrow> Coll \<Rightarrow> Doc \<Rightarrow> bool" where
  "proper who c d \<longleftrightarrow> possessed who c d \<and> (\<exists>i. getField ''_id'' d = BOid i)"

lemma proper_tidy: "proper who c d \<Longrightarrow> owned who d \<and> tidy c d"
  by (auto simp: proper_def possessed_def tidy_def ownerOf_def callerOwner_def ownerKey_def owned_def subscriber_def tenant_def
      field_def equals_def getField_def split: if_splits option.splits)

lemma possessed_owner:
  "c \<noteq> UserCollection \<Longrightarrow> possessed who c (ownedBy who d)" "possessed who UserCollection (ownedTwice who d)"
  by (simp_all add: possessed_def ownerOf_def callerOwner_def ownerKey_def ownedBy_def ownedTwice_def getField_def)

lemma possessed_put:
  "k \<notin> {''subscriber_id'', ''tenant_id''} \<Longrightarrow> possessed who c (gomap_put k v d) = possessed who c d"
  by (auto simp: possessed_def ownerOf_def ownerKey_def getField_def)

lemma proper_put: "k \<notin> set ownerFields \<Longrightarrow> proper who c (gomap_put k v d) = proper who c d"
  by (auto simp: proper_def possessed_put ownerFields_def getField_def)

lemma proper_id: "proper who c (gomap_put ''_id'' (BOid i) d) = possessed who c d"
  by (simp add: proper_def possessed_put getField_def)

lemma proper_createdAt: "proper who c (createdAt bk now d) = proper who c d"
  by (simp add: createdAt_def proper_put ownerFields_def)

lemma proper_new [simp]:
  "c \<noteq> UserCollection \<Longrightarrow> proper who c (ownedBy who (gomap_put ''public_id'' p (gomap_put ''_id'' (BOid i) d)))"
  using possessed_owner(1) [of c who "gomap_put ''public_id'' p (gomap_put ''_id'' (BOid i) d)"]
  by (simp add: proper_def getField_def ownedBy_def)

lemma identified_proper: "possessed who c d \<Longrightarrow> yields (identified bk d) (proper who c)"
  unfolding identified_def by (intro yields_intros) (simp add: proper_createdAt proper_put proper_id ownerFields_def)

lemma safe_setAll: "fst ` set d \<inter> set ownerFields = {} \<Longrightarrow> safe (setAll d)"
  by (auto simp: safe_def setAll_def list_all_iff)

lemma fields_safe: "fst ` set d \<subseteq> set allowed \<Longrightarrow> set allowed \<inter> set ownerFields = {} \<Longrightarrow> safe (setAll d)"
  by (rule safe_setAll) blast

lemma sanitized_fields: "backend_ok bk \<Longrightarrow> bk_SanitizeUpdate bk raw allowed = Inr sets \<Longrightarrow> fst ` set sets \<subseteq> set allowed"
  unfolding backend_ok_def by blast

lemma sanitized_safe:
  "backend_ok bk \<Longrightarrow> bk_SanitizeUpdate bk raw allowed = Inr sets \<Longrightarrow> set allowed \<inter> set ownerFields = {} \<Longrightarrow> safe (setAll sets)"
  by (rule fields_safe [OF sanitized_fields])

lemmas allowlists = storyUpdateFields_def storylineUpdateFields_def enactmentUpdateFields_def sceneUpdateFields_def
  messageUpdateFields_def messageContentUpdateFields_def triggerUpdateFields_def actionUpdateFields_def
  badgeUpdateFields_def tagUpdateFields_def templateVarFields_def contactUpdateFields_def

section \<open>A relation every write keeps\<close>

lemma colls_stay [preserves_intros]:
  "preserves dx_colls tick" "preserves dx_colls NewObjectId" "preserves dx_colls (readColl bk c q)"
  by (auto simp: preserves_def tick_def NewObjectId_def readColl_def split_beta split: db_reply.split)

lemma reads_stay [preserves_intros]:
  "preserves dx_colls (timeNow bk)" "preserves dx_colls (GeneratePublicId bk)" "preserves dx_colls (Invalidate t)"
  "preserves dx_colls (FindOne bk c f)" "preserves dx_colls (FindAll bk c f)" "preserves dx_colls (Count bk c f)"
  "preserves dx_colls (readBack bk c f)" "preserves dx_colls (identified bk d)"
  unfolding timeNow_def GeneratePublicId_def Invalidate_def FindOne_def FindAll_def Count_def readBack_def identified_def
  by (auto intro!: preserves_intros preserves_modifies)

lemma parts_stay [preserves_intros]:
  "preserves dx_colls (readOne bk c read query)" "preserves dx_colls (readScene bk tid i)"
  "preserves dx_colls (readTrigger bk tid i)" "preserves dx_colls (readEnactment bk tid en)"
  "preserves dx_colls (freshScene bk tid sc)" "preserves dx_colls (freshAct bk tid en)"
  "preserves dx_colls (withActs bk tid sl)" "preserves dx_colls (freshStoryline bk tid sl)"
proof -
  show one: "preserves dx_colls (readOne bk c read query)" for c and read :: "Doc \<Rightarrow> 'x" and query
    unfolding readOne_def by (intro preserves_intros)
  show scene: "preserves dx_colls (readScene bk tid i)" for i
    unfolding readScene_def by (auto intro!: preserves_intros one split: option.split)
  show trigger: "preserves dx_colls (readTrigger bk tid i)" for i
    unfolding readTrigger_def by (auto intro!: preserves_intros one split: option.split)
  show act: "preserves dx_colls (readEnactment bk tid en)" for en
    unfolding readEnactment_def readAll_def by (auto intro!: preserves_intros scene trigger split: option.split list.split)
  show freshScene: "preserves dx_colls (freshScene bk tid sc)" for sc
    unfolding freshScene_def by (intro preserves_intros one)
  show freshAct: "preserves dx_colls (freshAct bk tid en)" for en
    unfolding freshAct_def by (auto intro!: preserves_intros one act freshScene split: option.split)
  show acts: "preserves dx_colls (withActs bk tid sl)" for sl
    unfolding withActs_def readAll_def by (auto intro!: preserves_intros one split: option.split list.split)
  show "preserves dx_colls (freshStoryline bk tid sl)" for sl
    unfolding freshStoryline_def by (auto intro!: preserves_intros one acts freshAct split: option.split)
qed

lemma hydrate_stays [preserves_intros]: "preserves dx_colls (hydrateStory bk story)"
  unfolding hydrateStory_def mergeStoryline_def Let_def by (auto intro!: preserves_intros split: option.split)

lemma offers_stay: "preserves dx_colls (offersGranting bk who badge)"
  unfolding offersGranting_def by (auto intro!: preserves_intros)

lemma found_document:
  assumes "run_state (FindOne bk c f) s = (Inr item, s1)"
  shows "\<exists>d\<in>set (dx_colls s c). sat f d \<and> item = bk_struct bk c d"
proof -
  obtain n s2 where t: "run_state tick s = (n, s2)" by fastforce
  have "dx_colls s2 = dx_colls s" using keepsD [OF colls_stay(1) t] .
  with assms show ?thesis
    by (auto simp: FindOne_def readColl_def t find_Some_iff split: db_reply.splits option.splits)
qed

text \<open>What is said of the values that are written holds of a backend that does what is documented.\<close>

locale store_relation = step_relation R
  for R :: "Docs \<Rightarrow> Docs \<Rightarrow> bool" and bk :: Backend and who :: Caller +
  assumes effects: "dx_colls s' = dx_colls s \<Longrightarrow> R s s'"
    and inserted: "(backend_ok bk \<Longrightarrow> proper who c d)
      \<Longrightarrow> R s (putColl c (snd (insertRow (clash (bk_unique bk c)) d (dx_colls s c))) s)"
    and changed: "asksOwner who f \<Longrightarrow> (backend_ok bk \<Longrightarrow> safe cs)
      \<Longrightarrow> R s (putColl c (snd (updateDoc (bk_unique bk c) (sat f) cs (dx_colls s c))) s)"
    and deleted: "(backend_ok bk \<Longrightarrow> \<exists>d\<in>set (dx_colls s c). owned who d \<and> getField ''_id'' d = i)
      \<Longrightarrow> R s (putColl c (snd (updateDoc (bk_unique bk c) (sat [field ''_id'' i]) (deletion now) (dx_colls s c))) s)"
    and deletedAll: "asksOwner who f \<Longrightarrow> R s (putColl c (snd (updateDocs (sat f) (deletion now) (dx_colls s c))) s)"
    and removed: "asksOwner who f \<Longrightarrow> R s (putColl c (snd (removeDoc (sat f) (dx_colls s c))) s)"
    and removedAll: "asksOwner who f \<Longrightarrow> R s (putColl c (filter (\<lambda>d. \<not> sat f d) (dx_colls s c)) s)"
    and called: "g = bk_Assign bk \<or> g = bk_Remove bk \<Longrightarrow> d \<in> set (dx_colls s UserCollection)
      \<Longrightarrow> holds (BDoc d) (tenant who) \<Longrightarrow> t = getField ''tenant_id'' (bk_struct bk UserCollection d)
      \<Longrightarrow> R s (s\<lparr>dx_colls := snd (g n t user badge actor (dx_colls s))\<rparr>)"
begin

lemma reads: "preserves dx_colls m \<Longrightarrow> keeps R m"
  by (simp add: keeps_def effects)

lemmas reading [preserves_intros] = colls_stay [THEN reads] reads_stay [THEN reads] hydrate_stays [THEN reads]

lemma written_at:
  assumes "\<And>s'. dx_colls s' = dx_colls s \<Longrightarrow> R s' (putColl c (snd (w (dx_colls s' c))) s')"
  shows "R s (snd (run_state (writeColl bk c w) s))"
proof -
  obtain n s1 where t: "run_state tick s = (n, s1)" by fastforce
  have s1: "dx_colls s1 = dx_colls s" using keepsD [OF colls_stay(1) t] .
  have "R s (putColl c (snd (w (dx_colls s1 c))) s1)"
    by (rule trans [OF effects [OF s1] assms [OF s1]])
  with effects [OF s1] show ?thesis
    by (simp add: writeColl_def Let_def t split_beta split: db_reply.split)
qed

lemma written: "(\<And>s. R s (putColl c (snd (w (dx_colls s c))) s)) \<Longrightarrow> keeps R (writeColl bk c w)"
  unfolding keeps_def using written_at by blast

lemma writes [preserves_intros]:
  "(backend_ok bk \<Longrightarrow> proper who c d) \<Longrightarrow> keeps R (Insert bk c d)"
  "asksOwner who f \<Longrightarrow> (backend_ok bk \<Longrightarrow> safe cs) \<Longrightarrow> keeps R (Update bk c f cs)"
  "asksOwner who f \<Longrightarrow> keeps R (UpdateAll bk c f (deletion now))"
  "asksOwner who f \<Longrightarrow> keeps R (Remove bk c f)"
  unfolding Insert_def Update_def UpdateAll_def Remove_def
  by (blast intro: written inserted changed deletedAll removed)+

lemma removal [preserves_intros]: "asksOwner who f \<Longrightarrow> keeps R (RemoveAll bk c f)"
  unfolding RemoveAll_def by (intro preserves_intros written) (simp add: removedAll)

section \<open>The shapes\<close>

lemma branches [preserves_intros]:
  "(\<And>x. keeps R (f x)) \<Longrightarrow> (\<And>y. keeps R (g y)) \<Longrightarrow> keeps R (case r of Inl x \<Rightarrow> f x | Inr y \<Rightarrow> g y)"
  "keeps R m \<Longrightarrow> (\<And>y. keeps R (h y)) \<Longrightarrow> keeps R (case p of None \<Rightarrow> m | Some y \<Rightarrow> h y)"
  "keeps R m \<Longrightarrow> keeps R m' \<Longrightarrow> keeps R (if b then m else m')"
  by (simp_all split: sum.split option.split)

lemma answers [preserves_intros]:
  "keeps R (answer code body)" "keeps R (refuse code msg)" "keeps R ok"
  unfolding answer_def refuse_def ok_def by (rule preserves_intros)+

lemma items [preserves_intros]: "keeps R (listItems bk c f key)" "keeps R (getItem bk c f key)"
  unfolding listItems_def getItem_def by (intro preserves_intros)+

lemma safe_simps [simp]: "safe []" "safe (c # cs) \<longleftrightarrow> changePath c \<noteq> [] \<and> hd (changePath c) \<notin> set ownerFields \<and> safe cs"
  by (simp_all add: safe_def)

lemma new:
  assumes "possessed who c d" and "\<And>item. proper who c item \<Longrightarrow> keeps R (k item)"
  shows "keeps R (identified bk d \<bind> k)"
  by (rule bind_yields [OF reads_stay(8) [THEN reads] identified_proper]) (use assms in auto)

lemma created [preserves_intros]: "c \<noteq> UserCollection \<Longrightarrow> keeps R (createItem bk who c key d)"
  unfolding createItem_def by (intro new [OF possessed_owner(1)] bind writes answers)

lemma edited [preserves_intros]:
  "asksOwner who f \<Longrightarrow> keeps R (softDelete bk c f)" "asksOwner who f \<Longrightarrow> keeps R (removeItem bk c f)"
  "asksOwner who f \<Longrightarrow> keeps R (setStatus bk c f st)"
  unfolding softDelete_def removeItem_def setStatus_def
  by (intro preserves_intros; simp add: ownerFields_def)+

lemma sanitized [preserves_intros]:
  assumes "set allowed \<inter> set ownerFields = {}"
  shows "asksOwner who f \<Longrightarrow> keeps R (applySanitizedUpdateWhere bk c allowed f body)"
    "keeps R (applySanitizedUpdate bk who i c allowed body)" "keeps R (applySanitizedContactUpdate bk who i c allowed body)"
proof -
  show "keeps R (applySanitizedUpdateWhere bk c allowed f body)" if "asksOwner who f" for f
    unfolding applySanitizedUpdateWhere_def using that sanitized_safe [OF _ _ assms]
    by (auto intro!: preserves_intros split: sum.split)
  then show "keeps R (applySanitizedUpdate bk who i c allowed body)" "keeps R (applySanitizedContactUpdate bk who i c allowed body)"
    by (simp_all add: applySanitizedUpdate_def applySanitizedContactUpdate_def)
qed

lemma replied [preserves_intros]: "keeps R m \<Longrightarrow> keeps R (updateReply m)"
  unfolding updateReply_def by (intro preserves_intros)

lemma labelled [preserves_intros]: "keeps R (addTag bk who c array i tagId)" if "array \<notin> set ownerFields"
  unfolding addTag_def using that by (intro preserves_intros; simp)

lemma unlabelled [preserves_intros]: "keeps R (removeTag bk who c array i tagId)" if "array \<notin> set ownerFields"
  unfolding removeTag_def using that by (intro preserves_intros; simp)

section \<open>The endpoints\<close>

lemmas endpoint_simps = allowlists ownerFields_def asksOwner_field Let_def split_beta

lemma stories [preserves_intros]:
  "keeps R (handleGetStories bk who)" "keeps R (handleGetStory bk who i)" "keeps R (handleCreateStory bk who body)"
  "keeps R (handleUpdateStory bk who i body)" "keeps R (handleDeleteStory bk who i)"
  "keeps R (handleDeleteAllStories bk who)" "keeps R (handlePurgeStory bk who i)"
  "keeps R (handleStartStory bk who i)" "keeps R (handleStopStory bk who i)"
  "keeps R (handleAddStorylineToStory bk who i j)" "keeps R (handleMergeStories bk who i fromId)"
  "keeps R (handleRemoveStorylineFromStory bk who i j)"
  unfolding handleGetStories_def handleGetStory_def handleCreateStory_def handleUpdateStory_def handleDeleteStory_def
    handleDeleteAllStories_def handlePurgeStory_def handleStartStory_def handleStopStory_def
    handleAddStorylineToStory_def handleMergeStories_def handleRemoveStorylineFromStory_def
  by (auto simp: endpoint_simps intro!: preserves_intros split: sum.split)

lemma storylines [preserves_intros]:
  "keeps R (handleGetStorylines bk who)" "keeps R (handleGetStoryline bk who i)"
  "keeps R (handleCreateStoryline bk who d)" "keeps R (handleUpdateStoryline bk who i body)"
  "keeps R (handleDeleteStoryline bk who i)" "keeps R (handleStartStoryline bk who i)"
  "keeps R (handleStopStoryline bk who i)" "keeps R (handleAddEnactmentToStoryline bk who i j)"
  "keeps R (handleRemoveEnactmentFromStoryline bk who i j)"
  unfolding handleGetStorylines_def handleGetStoryline_def handleCreateStoryline_def handleUpdateStoryline_def
    handleDeleteStoryline_def handleStartStoryline_def handleStopStoryline_def
    handleAddEnactmentToStoryline_def handleRemoveEnactmentFromStoryline_def
  by (auto simp: endpoint_simps intro!: preserves_intros)

lemma enactments [preserves_intros]:
  "keeps R (handleGetEnactments bk who)" "keeps R (handleGetEnactment bk who i)"
  "keeps R (handleCreateEnactment bk who d)" "keeps R (handleUpdateEnactment bk who i body)"
  "keeps R (handleDeleteEnactment bk who i)" "keeps R (handleStartEnactment bk who i)"
  "keeps R (handleStopEnactment bk who i)" "keeps R (handleAddTriggerToEnactment bk who i j)"
  "keeps R (handleRemoveTriggerFromEnactment bk who i j)" "keeps R (handleSetEnactmentScene bk who i j)"
  "keeps R (handleRemoveEnactmentScene bk who i)"
  unfolding handleGetEnactments_def handleGetEnactment_def handleCreateEnactment_def handleUpdateEnactment_def
    handleDeleteEnactment_def handleStartEnactment_def handleStopEnactment_def
    handleAddTriggerToEnactment_def handleRemoveTriggerFromEnactment_def handleSetEnactmentScene_def
    handleRemoveEnactmentScene_def
  by (auto simp: endpoint_simps intro!: preserves_intros)

lemma scenes [preserves_intros]:
  "keeps R (handleGetScenes bk who)" "keeps R (handleGetScene bk who i)" "keeps R (handleCreateScene bk who d)"
  "keeps R (handleUpdateScene bk who i body)" "keeps R (handleDeleteScene bk who i)"
  "keeps R (handleAddTagToScene bk who i j)" "keeps R (handleRemoveTagFromScene bk who i j)"
  "keeps R (handleSetSceneMessage bk who i j)" "keeps R (handleRemoveSceneMessage bk who i)"
  unfolding handleGetScenes_def handleGetScene_def handleCreateScene_def handleUpdateScene_def handleDeleteScene_def
    handleAddTagToScene_def handleRemoveTagFromScene_def handleSetSceneMessage_def
    handleRemoveSceneMessage_def
  by (auto simp: endpoint_simps intro!: preserves_intros)

lemma messages [preserves_intros]:
  "keeps R (handleGetMessages bk who)" "keeps R (handleGetMessage bk who i)"
  "keeps R (handleCreateMessage bk who req)" "keeps R (handleUpdateMessage bk who i body)"
  "keeps R (handleDeleteMessage bk who i)" "keeps R (handleAddTagToMessage bk who i j)"
  "keeps R (handleRemoveTagFromMessage bk who i j)" "keeps R (handleGetMessageContents bk who)"
  "keeps R (handleGetMessageContent bk who i)" "keeps R (handleCreateMessageContent bk who d)"
  "keeps R (handleUpdateMessageContent bk who i body)" "keeps R (handleDeleteMessageContent bk who i)"
  unfolding handleGetMessages_def handleGetMessage_def handleCreateMessage_def handleUpdateMessage_def
    handleDeleteMessage_def handleAddTagToMessage_def handleRemoveTagFromMessage_def
    handleGetMessageContents_def handleGetMessageContent_def handleCreateMessageContent_def
    handleUpdateMessageContent_def handleDeleteMessageContent_def
  by (auto simp: endpoint_simps intro!: preserves_intros)

lemma triggers [preserves_intros]:
  "keeps R (handleGetTriggers bk who)" "keeps R (handleGetTrigger bk who i)"
  "keeps R (handleCreateTrigger bk who d)" "keeps R (handleUpdateTrigger bk who i body)"
  "keeps R (handleDeleteTrigger bk who i)" "keeps R (handleGetActions bk who)"
  "keeps R (handleGetAction bk who i)" "keeps R (handleCreateAction bk who d)"
  "keeps R (handleUpdateAction bk who i body)" "keeps R (handleDeleteAction bk who i)"
  unfolding handleGetTriggers_def handleGetTrigger_def handleCreateTrigger_def handleUpdateTrigger_def
    handleDeleteTrigger_def handleGetActions_def handleGetAction_def handleCreateAction_def
    handleUpdateAction_def handleDeleteAction_def
  by (auto simp: endpoint_simps intro!: preserves_intros)

lemma normalized_safe:
  assumes "backend_ok bk" and "bk_SanitizeUpdate bk raw badgeUpdateFields = Inr sets" and "normalizedSet bk sets = Some sets'"
  shows "safe (setAll sets')"
proof -
  have "sets' = sets \<or> (\<exists>v. sets' = gomap_put ''kind'' v sets)"
    using assms(3) by (auto simp: normalizedSet_def Let_def split: option.splits Bson.splits if_splits)
  then have "fst ` set sets' \<subseteq> insert ''kind'' (fst ` set sets)"
  proof (elim disjE exE)
    fix v assume v: "sets' = gomap_put ''kind'' v sets"
    show ?thesis unfolding v dom_update by simp
  qed auto
  also have "\<dots> \<subseteq> set badgeUpdateFields"
    using sanitized_fields [OF assms(1,2)] by (simp add: badgeUpdateFields_def)
  finally show ?thesis by (rule fields_safe) (simp add: badgeUpdateFields_def ownerFields_def)
qed

lemma labels [preserves_intros]:
  "keeps R (handleGetBadges bk who)" "keeps R (handleGetBadge bk who i)"
  "keeps R (handleCreateBadge bk who body)" "keeps R (handleGetTags bk who)" "keeps R (handleGetTag bk who i)"
  "keeps R (handleDeleteTag bk who i)"
  unfolding handleGetBadges_def handleGetBadge_def handleCreateBadge_def handleGetTags_def handleGetTag_def
    handleDeleteTag_def
  by (auto simp: endpoint_simps intro!: preserves_intros)

lemma kinds [preserves_intros]: "keeps R (handleUpdateBadge bk who i body)" "keeps R (handleUpdateTag bk who i body)"
proof -
  have "safe (setAll sets)" if "backend_ok bk" "bk_SanitizeUpdate bk raw tagUpdateFields = Inr sets" for raw sets
    using sanitized_safe [OF that] by (simp add: tagUpdateFields_def ownerFields_def)
  then show "keeps R (handleUpdateTag bk who i body)"
    unfolding handleUpdateTag_def by (auto intro!: answers bind branches(3) writes(2) split: sum.split)
  have "keeps R (Update bk BadgeCollection [public i, tenant who] (setAll sets') \<bind> (\<lambda>err.
      if err \<noteq> None then refuse 404 msg else ok))"
    if "bk_SanitizeUpdate bk raw badgeUpdateFields = Inr sets" "normalizedSet bk sets = Some sets'" for raw sets sets' msg
    by (rule bind [OF writes(2) branches(3)]) (simp_all add: answers normalized_safe [OF _ that])
  then show "keeps R (handleUpdateBadge bk who i body)"
    unfolding handleUpdateBadge_def by (simp add: answers split: sum.split option.split)
qed

lemma newLabel [preserves_intros]: "keeps R (handleCreateTag bk who req)"
proof -
  have "keeps R (identified bk (ownedBy who d) \<bind> (\<lambda>item. do {
      err \<leftarrow> Insert bk BadgeCollection item;
      if err \<noteq> None then refuse 409 msg else answer 200 [(''tag'', ADoc item)] }))" for d msg
    by (rule new [OF possessed_owner(1) [of BadgeCollection]]) (auto intro!: preserves_intros)
  then show ?thesis unfolding handleCreateTag_def by (auto intro!: answers split: option.split)
qed

lemma variables [preserves_intros]:
  "keeps R (handleGetTemplateVariables bk who)" "keeps R (handleGetTemplateVariable bk who i)"
  "keeps R (handleCreateTemplateVariable bk who opt)" "keeps R (handleUpdateTemplateVariable bk who i body)"
  "keeps R (handleDeleteTemplateVariable bk who i)"
  unfolding handleGetTemplateVariables_def handleGetTemplateVariable_def handleCreateTemplateVariable_def
    handleUpdateTemplateVariable_def handleDeleteTemplateVariable_def
  by (auto simp: endpoint_simps intro!: preserves_intros)

lemma contacts [preserves_intros]:
  "keeps R (handleGetUsers bk who)" "keeps R (handleGetUser bk who i)" "keeps R (handleUpdateUser bk who i body)"
  "keeps R (handleDeleteUser bk who i)" "keeps R (handleDeleteAllUsers bk who)"
  "keeps R (handleGetUserDetail bk who i)" "keeps R handleAddUserToStory" "keeps R (handleGetEmailLists bk who)"
  "keeps R (handleGetEmailList bk who i)" "keeps R (handleCreateEmailList bk who d)"
  "keeps R (handleDeleteEmailList bk who i)" "keeps R handleGetPendingEmails" "keeps R handleGetHotTriggers"
  "keeps R (countSessions bk who i)" "keeps R (handleStatsOverview bk who)" "keeps R handleStatsStub"
  "keeps R handleAdminReset"
  unfolding handleGetUsers_def handleGetUser_def handleUpdateUser_def handleDeleteUser_def handleDeleteAllUsers_def
    handleGetUserDetail_def handleAddUserToStory_def handleGetEmailLists_def handleGetEmailList_def
    handleCreateEmailList_def handleDeleteEmailList_def handleGetPendingEmails_def handleGetHotTriggers_def
    countSessions_def handleStatsOverview_def handleStatsStub_def handleAdminReset_def
  by (auto simp: endpoint_simps intro!: preserves_intros)

lemma newContact [preserves_intros]: "keeps R (handleCreateUser bk who d)"
proof -
  have "keeps R (identified bk (ownedTwice who d) \<bind> (\<lambda>item. do {
      _ \<leftarrow> Insert bk UserCollection item; Invalidate (ca_TenantOid who); answer 200 [(''user'', ADoc item)] }))" for d
    by (rule new [OF possessed_owner(2)]) (auto intro!: preserves_intros)
  then show ?thesis unfolding handleCreateUser_def
    by (intro bind [OF branches(3) branches(3)] answers basic reading bind [OF reading(1) basic(1)])
qed

lemma held: "backend_ok bk \<Longrightarrow> proper who c (bk_ApplyHold bk n d) = proper who c d"
  by (auto simp: backend_ok_def proper_def possessed_def ownerOf_def ownerKey_def getField_def ownerFields_def)

lemma registration [preserves_intros]: "keeps R (registerContact bk (ca_TenantOid who) req)"
proof -
  have "proper who UserCollection (bk_ApplyHold bk n (createdAt bk now (gomap_put ''email'' e
      (gomap_put ''tenant_id'' (BOid (ca_TenantOid who)) (gomap_put ''public_id'' p (gomap_put ''_id'' (BOid i) d))))))"
    if "backend_ok bk" for n now e p i d
    using that by (simp add: held proper_createdAt proper_put ownerFields_def)
      (simp add: proper_def possessed_def ownerOf_def callerOwner_def ownerKey_def getField_def)
  then show ?thesis
    unfolding registerContact_def insertContact_def Let_def by (auto intro!: preserves_intros)
qed

lemma called_at:
  assumes "g = bk_Assign bk \<or> g = bk_Remove bk"
    and "d \<in> set (dx_colls s UserCollection)" and "holds (BDoc d) (tenant who)"
  shows "R s (snd (run_state (callBadges g (getField ''tenant_id'' (bk_struct bk UserCollection d)) user badge actor) s))"
proof -
  obtain n s1 where t: "run_state tick s = (n, s1)" by fastforce
  have s1: "dx_colls s1 = dx_colls s" using keepsD [OF colls_stay(1) t] .
  have "R s1 (s1\<lparr>dx_colls := snd (g n (getField ''tenant_id'' (bk_struct bk UserCollection d)) user badge actor (dx_colls s1))\<rparr>)"
    by (rule called [OF assms(1) _ assms(3)]) (simp_all add: s1 assms(2))
  with effects [OF s1] show ?thesis by (auto simp: callBadges_def t split_beta intro: trans)
qed

lemma membership:
  assumes "g = bk_Assign bk \<or> g = bk_Remove bk" and "\<And>badge user r. keeps R (k badge user r)"
  shows "keeps R (badgeAndUser bk who i j (\<lambda>badge user.
    callBadges g (getField ''tenant_id'' user) (getField ''_id'' user) (getField ''_id'' badge) actor \<bind> k badge user))"
  unfolding keeps_def badgeAndUser_def
proof (intro allI)
  fix s
  obtain badge s1 where badge: "run_state (FindOne bk BadgeCollection [public j, subscriber who]) s = (badge, s1)" by fastforce
  obtain user s2 where user: "run_state (FindOne bk UserCollection [public i, tenant who]) s1 = (user, s2)" by fastforce
  have s1: "R s s1" and s2: "R s s2" and same: "dx_colls s2 = dx_colls s1"
    using keepsD [OF reads_stay(4) badge] keepsD [OF reads_stay(4) user] by (auto intro: effects)
  let ?k = "\<lambda>badge user. callBadges g (getField ''tenant_id'' user) (getField ''_id'' user) (getField ''_id'' badge) actor
    \<bind> k badge user"
  have "R s (snd (run_state (?k b u) s2))" if u: "user = Inr u" for b u
  proof -
    obtain d where d: "d \<in> set (dx_colls s2 UserCollection)" "sat [public i, tenant who] d" "u = bk_struct bk UserCollection d"
      using found_document [OF user [unfolded u]] same by auto
    have "R s2 (snd (run_state (callBadges g (getField ''tenant_id'' u) (getField ''_id'' u) (getField ''_id'' b) actor) s2))"
      unfolding d(3) by (rule called_at [OF assms(1) d(1)]) (use d(2) in simp)
    then show ?thesis using s2 assms(2) [unfolded keeps_def] by (auto simp: split_beta intro: trans)
  qed
  with s1 s2 show "R s (snd (run_state (FindOne bk BadgeCollection [public j, subscriber who] \<bind> (\<lambda>badge. case badge of
      Inl _ \<Rightarrow> refuse 404 ''badge not found''
    | Inr badge \<Rightarrow> FindOne bk UserCollection [public i, tenant who] \<bind> (\<lambda>user. case user of
        Inl _ \<Rightarrow> refuse 404 ''user not found'' | Inr user \<Rightarrow> ?k badge user))) s))"
    by (auto simp: badge user refuse_def answer_def split: sum.split)
qed

lemma memberships [preserves_intros]:
  "keeps R (handleAssignBadgeToUser bk who i j)" "keeps R (handleRemoveBadgeFromUser bk who i j)"
  unfolding handleAssignBadgeToUser_def handleRemoveBadgeFromUser_def
  by (rule membership; simp add: answers)+

lemma deletedBadge [preserves_intros]: "keeps R (handleDeleteBadge bk who i)"
  unfolding keeps_def
proof (intro allI)
  fix s
  obtain found s1 where found: "run_state (FindOne bk BadgeCollection [public i, subscriber who, alive]) s = (found, s1)"
    by fastforce
  have s1: "dx_colls s1 = dx_colls s" using keepsD [OF reads_stay(4) found] .
  show "R s (snd (run_state (handleDeleteBadge bk who i) s))"
  proof (cases found)
    case (Inl e)
    then show ?thesis using effects [OF s1] by (simp add: handleDeleteBadge_def found refuse_def answer_def)
  next
    case (Inr badge)
    obtain d where d: "d \<in> set (dx_colls s BadgeCollection)" "sat [public i, subscriber who, alive] d"
      "badge = bk_struct bk BadgeCollection d"
      using found_document [OF found [unfolded Inr]] by blast
    obtain holders s2 where holders:
      "run_state (Count bk UserCollection [field ''badges'' (getField ''_id'' badge), alive]) s1 = (holders, s2)" by fastforce
    obtain offers s3 where offers: "run_state (offersGranting bk who badge) s2 = (offers, s3)" by fastforce
    obtain now s4 where now: "run_state (timeNow bk) s3 = (now, s4)" by fastforce
    have s3: "dx_colls s3 = dx_colls s"
      using keepsD [OF offers_stay offers] keepsD [OF reads_stay(6) holders] s1 by simp
    have s4: "dx_colls s4 = dx_colls s" using keepsD [OF reads_stay(1) now] s3 by simp
    have own: "\<exists>d\<in>set (dx_colls s' BadgeCollection). owned who d \<and> getField ''_id'' d = getField ''_id'' badge"
      if "dx_colls s' = dx_colls s4" "backend_ok bk" for s'
      using that d s4 by (auto simp: owned_def backend_ok_def)
    have "R s4 (snd (run_state (Update bk BadgeCollection [field ''_id'' (getField ''_id'' badge)] (deletion now)) s4))"
      unfolding Update_def by (rule written_at) (rule deleted [OF own])
    with effects [OF s4] have "R s (snd (run_state (Update bk BadgeCollection [field ''_id'' (getField ''_id'' badge)] (deletion now)) s4))"
      by (rule trans)
    with effects [OF s3] show ?thesis
      by (simp add: handleDeleteBadge_def found Inr holders offers now answer_def ok_def split_beta)
  qed
qed

text \<open>The whole table.\<close>

lemma routes: "(meth, path, handler) \<in> set (RegisterStoryRoutes bk who) \<Longrightarrow> keeps R (handler p b)"
proof -
  have "list_all (\<lambda>(meth, path, handler). keeps R (handler p b)) (storyRoutes bk who)"
    by (simp add: storyRoutes_def stories storylines enactments)
  moreover have "list_all (\<lambda>(meth, path, handler). keeps R (handler p b)) (sceneRoutes bk who)"
    by (simp add: sceneRoutes_def scenes messages triggers)
  moreover have "list_all (\<lambda>(meth, path, handler). keeps R (handler p b)) (contactRoutes bk who)"
    by (simp add: contactRoutes_def labels kinds newLabel variables contacts newContact memberships deletedBadge)
  ultimately show "keeps R (handler p b)" if "(meth, path, handler) \<in> set (RegisterStoryRoutes bk who)"
    using that by (auto simp: RegisterStoryRoutes_def list_all_iff)
qed

end

section \<open>The tenants are kept apart\<close>

lemma apart_put:
  assumes "sound c (bk_unique bk c) (dx_colls s c) \<Longrightarrow> backend_ok bk
    \<Longrightarrow> sound c (bk_unique bk c) docs' \<and> others who docs' = others who (dx_colls s c)"
  shows "apart bk who s (putColl c docs' s)"
  using assms by (auto simp: apart_def collections_ok_def putColl_def)

lemma ids_differ:
  assumes "unclashing u docs" and "x \<in> set docs" and "y \<in> set docs" and "getField ''_id'' x = getField ''_id'' y"
  shows "x = y"
proof -
  have "clash u a b" if "getField ''_id'' a = getField ''_id'' b" for a b
    using that by (simp add: clash_def)
  with assms show ?thesis
    by (auto simp: unclashing_def sorted_wrt_iff_nth_less in_set_conv_nth) (metis linorder_neqE_nat)
qed

lemma only_found:
  assumes "sound c u docs" and "d \<in> set docs" and "owned who d" and "getField ''_id'' d = i"
    and "x \<in> set docs" and "sat [field ''_id'' i] x"
  shows "owned who x"
proof -
  have "tidy c x" using assms(1,5) by (auto simp: sound_def list_all_iff)
  moreover have "tidy c d" using assms(1,2) by (auto simp: sound_def list_all_iff)
  ultimately have "getField ''_id'' x = getField ''_id'' d"
    using assms(4,6) by (auto simp: tidy_def getField_def field_def equals_def split: option.splits)
  with ids_differ [of u docs x d] assms(1-3,5) show ?thesis by (simp add: sound_def)
qed

lemma badges_apart:
  assumes "g = bk_Assign bk \<or> g = bk_Remove bk"
    and d: "d \<in> set (dx_colls s UserCollection)" "holds (BDoc d) (tenant who)"
    and t: "t = getField ''tenant_id'' (bk_struct bk UserCollection d)"
  shows "apart bk who s (s\<lparr>dx_colls := snd (g n t user badge actor (dx_colls s))\<rparr>)"
  unfolding apart_def
proof (intro impI, elim conjE)
  assume ok: "backend_ok bk" "collections_ok bk s"
  have "tidy UserCollection d"
    using ok(2) d(1) by (auto simp: collections_ok_def sound_def list_all_iff)
  then have "getField ''tenant_id'' d = BOid (ca_TenantOid who)"
    using d(2) by (auto simp: tidy_def ownerKey_def tenant_def field_def equals_def getField_def split: option.splits Bson.splits)
  then have t: "t = BOid (ca_TenantOid who)" using t ok(1) by (simp add: backend_ok_def)
  have g: "scoped (bk_unique bk) g" using assms(1) ok(1) unfolding backend_ok_def by blast
  have "\<forall>c. sound c (bk_unique bk c) (dx_colls s c)" using ok(2) by (simp add: collections_ok_def)
  from g [unfolded scoped_def, rule_format, OF this [rule_format]]
  show "collections_ok bk (s\<lparr>dx_colls := snd (g n t user badge actor (dx_colls s))\<rparr>)
    \<and> (\<forall>c. others who (dx_colls (s\<lparr>dx_colls := snd (g n t user badge actor (dx_colls s))\<rparr>) c) = others who (dx_colls s c))"
    unfolding t by (simp add: collections_ok_def Let_def)
qed

lemma removeAll_frame:
  assumes "sound c u docs" and "\<And>d. P d \<Longrightarrow> owned who d"
  shows "sound c u (filter (\<lambda>d. \<not> P d) docs) \<and> others who (filter (\<lambda>d. \<not> P d) docs) = others who docs"
proof -
  have "(\<not> P d \<and> \<not> owned who d) = (\<not> owned who d)" for d using assms(2) by blast
  then show ?thesis using assms(1) by (simp add: sound_def unclashing_filter list_all_iff others_def)
qed

interpretation tenants: store_relation "apart bk who" bk who for bk who
proof unfold_locales
  fix s t u :: Docs and c :: Coll
  show "apart bk who s s" by (simp add: apart_def)
  show "apart bk who s t \<Longrightarrow> apart bk who t u \<Longrightarrow> apart bk who s u" by (simp add: apart_def)
  show "dx_colls t = dx_colls s \<Longrightarrow> apart bk who s t" by (simp add: apart_def collections_ok_def)
  show "apart bk who s (putColl c (snd (insertRow (clash (bk_unique bk c)) d (dx_colls s c))) s)"
    if "backend_ok bk \<Longrightarrow> proper who c d" for d
    by (rule apart_put, erule insert_frame) (use that proper_tidy in \<open>simp_all\<close>)
  show "apart bk who s (putColl c (snd (updateDoc (bk_unique bk c) (sat f) cs (dx_colls s c))) s)"
    if "asksOwner who f" "backend_ok bk \<Longrightarrow> safe cs" for f cs
    by (rule apart_put, erule update_frame) (simp_all add: that(2) asksOwner_owned [OF that(1)])
  show "apart bk who s (putColl c (snd (updateDoc (bk_unique bk c) (sat [field ''_id'' i]) (deletion now) (dx_colls s c))) s)"
    if own: "backend_ok bk \<Longrightarrow> \<exists>d\<in>set (dx_colls s c). owned who d \<and> getField ''_id'' d = i" for i now
  proof (rule apart_put)
    assume ok: "sound c (bk_unique bk c) (dx_colls s c)" "backend_ok bk"
    obtain d where d: "d \<in> set (dx_colls s c)" "owned who d" "getField ''_id'' d = i" using own [OF ok(2)] by blast
    show "sound c (bk_unique bk c) (snd (updateDoc (bk_unique bk c) (sat [field ''_id'' i]) (deletion now) (dx_colls s c)))
        \<and> others who (snd (updateDoc (bk_unique bk c) (sat [field ''_id'' i]) (deletion now) (dx_colls s c)))
          = others who (dx_colls s c)"
      by (rule update_frame [OF ok(1) deletion_safe only_found [OF ok(1) d]])
  qed
  show "apart bk who s (putColl c (snd (updateDocs (sat f) (deletion now) (dx_colls s c))) s)" if "asksOwner who f" for f now
    by (rule apart_put, erule deleteAll_frame) (simp_all add: index_keys asksOwner_owned [OF that])
  show "apart bk who s (putColl c (snd (removeDoc (sat f) (dx_colls s c))) s)" if "asksOwner who f" for f
    by (rule apart_put, erule remove_frame) (rule asksOwner_owned [OF that])
  show "apart bk who s (putColl c (filter (\<lambda>d. \<not> sat f d) (dx_colls s c)) s)" if "asksOwner who f" for f
    by (rule apart_put, erule removeAll_frame) (rule asksOwner_owned [OF that])
qed (rule badges_apart)

section \<open>Owners stay\<close>

text \<open>
  Every document is one that was there, with the id and the owner it had, or belongs to one of the
  callers.
\<close>

definition same_owner :: "Coll \<Rightarrow> Doc \<Rightarrow> Doc \<Rightarrow> bool" where
  "same_owner c d d' \<longleftrightarrow> getField ''_id'' d = getField ''_id'' d' \<and> ownerOf c d = ownerOf c d'"

definition heirs :: "Caller set \<Rightarrow> (Coll \<Rightarrow> Doc list) \<Rightarrow> (Coll \<Rightarrow> Doc list) \<Rightarrow> bool" where
  "heirs W cs cs' \<longleftrightarrow> (\<forall>c. list_all (\<lambda>d'. (\<exists>d\<in>set (cs c). same_owner c d d') \<or> (\<exists>who\<in>W. ownerOf c d' = callerOwner who c)) (cs' c))"

lemma same_owner_refl [simp]: "same_owner c d d"
  by (simp add: same_owner_def)

lemma same_owner_in: "d \<in> set docs \<Longrightarrow> \<exists>d'\<in>set docs. same_owner c d' d"
  by (rule bexI [of _ d]) simp_all

lemma heirs_refl: "heirs W cs cs"
  by (auto simp: heirs_def list_all_iff same_owner_in)

lemma heirs_trans: "heirs W cs cs' \<Longrightarrow> heirs W cs' cs'' \<Longrightarrow> heirs W cs cs''"
  unfolding heirs_def list_all_iff same_owner_def by metis

lemma heirs_mono: "heirs W cs cs' \<Longrightarrow> W \<subseteq> V \<Longrightarrow> heirs V cs cs'"
  unfolding heirs_def list_all_iff by blast

text \<open>The package \<open>badges\<close> gives a badge to a contact, and takes it away; it hands no document over.\<close>

definition badges_keep_owners :: "Backend \<Rightarrow> bool" where
  "badges_keep_owners bk \<longleftrightarrow> (\<forall>n t user badge actor cs.
     heirs {} cs (snd (bk_Assign bk n t user badge actor cs)) \<and> heirs {} cs (snd (bk_Remove bk n t user badge actor cs)))"

definition inherits :: "Backend \<Rightarrow> Caller \<Rightarrow> Docs \<Rightarrow> Docs \<Rightarrow> bool" where
  "inherits bk who s s' \<longleftrightarrow> (backend_ok bk \<and> badges_keep_owners bk \<longrightarrow> heirs {who} (dx_colls s) (dx_colls s'))"

lemma inherits_put:
  assumes "\<And>d'. backend_ok bk \<Longrightarrow> d' \<in> set docs' \<Longrightarrow> (\<exists>d\<in>set (dx_colls s c). same_owner c d d') \<or> possessed who c d'"
  shows "inherits bk who s (putColl c docs' s)"
  using assms by (auto simp: inherits_def heirs_def list_all_iff putColl_def possessed_def same_owner_in)

lemma safe_same_owner: "safe cs \<Longrightarrow> updated cs d = Some d' \<Longrightarrow> same_owner c d d'"
  using safe_owner [of cs d d'] by (auto simp: same_owner_def ownerOf_def ownerKey_def getField_def ownerFields_def)

lemma update_same_owner:
  assumes "safe cs" and "d' \<in> set (snd (updateDoc u P cs docs))"
  shows "\<exists>d\<in>set docs. same_owner c d d'"
proof (cases rule: updateDoc_cases [of u P cs docs])
  case same
  then show ?thesis using assms(2) by (simp add: same_owner_in)
next
  case (changed as d e bs)
  then show ?thesis
    using assms(2) safe_same_owner [OF assms(1) changed(3), of c] same_owner_in [of d' docs c] by auto
qed

lemma updates_same_owner:
  assumes "safe cs" and "d' \<in> set (snd (updateDocs P cs docs))"
  shows "\<exists>d\<in>set docs. same_owner c d d'"
proof -
  have "list_all2 (same_owner c) docs (snd (updateDocs P cs docs))"
    by (rule updateDocs_list_all2) (simp_all add: safe_same_owner [OF assms(1)])
  with assms(2) show ?thesis by (auto simp: list_all2_conv_all_nth in_set_conv_nth Bex_def)
qed

lemma remove_subset: "set (snd (removeDoc P docs)) \<subseteq> set docs"
  using removeDoc_filter [of docs P] by auto

interpretation owners_stay: store_relation "inherits bk who" bk who for bk who
proof unfold_locales
  fix s t u :: Docs and c :: Coll
  show "inherits bk who s s" by (simp add: inherits_def heirs_refl)
  show "inherits bk who s t \<Longrightarrow> inherits bk who t u \<Longrightarrow> inherits bk who s u"
    unfolding inherits_def using heirs_trans by blast
  show "dx_colls t = dx_colls s \<Longrightarrow> inherits bk who s t" by (simp add: inherits_def heirs_refl)
  show "inherits bk who s (putColl c (snd (insertRow (clash (bk_unique bk c)) d (dx_colls s c))) s)"
    if "backend_ok bk \<Longrightarrow> proper who c d" for d
    by (rule inherits_put) (use that in \<open>auto simp: insertRow_def proper_def same_owner_in split: if_splits\<close>)
  show "inherits bk who s (putColl c (snd (updateDoc (bk_unique bk c) (sat f) cs (dx_colls s c))) s)"
    if "asksOwner who f" "backend_ok bk \<Longrightarrow> safe cs" for f cs
    by (rule inherits_put) (rule disjI1, rule update_same_owner [OF that(2)])
  show "inherits bk who s (putColl c (snd (updateDoc (bk_unique bk c) (sat [field ''_id'' i]) (deletion now) (dx_colls s c))) s)"
    if "backend_ok bk \<Longrightarrow> \<exists>d\<in>set (dx_colls s c). owned who d \<and> getField ''_id'' d = i" for i now
    by (rule inherits_put) (rule disjI1, rule update_same_owner [OF deletion_safe])
  show "inherits bk who s (putColl c (snd (updateDocs (sat f) (deletion now) (dx_colls s c))) s)" if "asksOwner who f" for f now
    by (rule inherits_put) (rule disjI1, rule updates_same_owner [OF deletion_safe])
  show "inherits bk who s (putColl c (snd (removeDoc (sat f) (dx_colls s c))) s)" if "asksOwner who f" for f
    by (rule inherits_put) (use remove_subset in \<open>auto intro: same_owner_in\<close>)
  show "inherits bk who s (putColl c (filter (\<lambda>d. \<not> sat f d) (dx_colls s c)) s)" if "asksOwner who f" for f
    by (rule inherits_put) (auto intro: same_owner_in)
  show "inherits bk who s (s\<lparr>dx_colls := snd (g n t user badge actor (dx_colls s))\<rparr>)"
    if "g = bk_Assign bk \<or> g = bk_Remove bk" for g n t user badge actor
    using that by (auto simp: inherits_def badges_keep_owners_def intro: heirs_mono [of "{}"])
qed

end
