(* ===== verification/StoryDemo.thy ===== *)
theory StoryDemo
  imports StoryIsolation
begin

text \<open>
  A backend to compute with, and the documents of two tenants: the examples of the properties of the
  story builder run on them.
\<close>

section \<open>Reading a document into its struct\<close>

definition strField :: "string \<Rightarrow> Doc \<Rightarrow> string" where
  "strField k d = (case getField k d of BStr t \<Rightarrow> t | _ \<Rightarrow> [])"

definition oidField :: "Doc \<Rightarrow> ObjectId" where
  "oidField d = (case getField ''_id'' d of BOid i \<Rightarrow> i | _ \<Rightarrow> Oid 0)"

definition intField :: "string \<Rightarrow> Doc \<Rightarrow> int" where
  "intField k d = (case getField k d of BInt n \<Rightarrow> n | _ \<Rightarrow> 0)"

definition idsField :: "string \<Rightarrow> Doc \<Rightarrow> BsonCollectionIds option" where
  "idsField k d = (case getField k d of
     BArr xs \<Rightarrow> Some \<lparr>cis_CollectionName = k,
       cis_Ids = concat (map (\<lambda>x. case x of BOid i \<Rightarrow> [i] | _ \<Rightarrow> []) xs)\<rparr> | _ \<Rightarrow> None)"

definition demo_Story :: "Doc \<Rightarrow> Story" where
  "demo_Story d = \<lparr>sto_Id = oidField d, sto_PublicId = strField ''public_id'' d,
     sto_SubscriberId = strField ''subscriber_id'' d, sto_CreatorId = Oid 0, sto_Name = strField ''name'' d,
     sto_Priority = intField ''priority'' d, sto_AllowInterruption = False, sto_OnBegin = None, sto_OnComplete = no_story_end,
     sto_OnFail = no_story_end, sto_RequiredUserBadges = no_badges, sto_StartTrigger = None, sto_CompleteTrigger = None,
     sto_Storylines = [], sto_StorylineIds = idsField ''storyline_ids'' d, sto_TenantID = None\<rparr>"

definition demo_Storyline :: "Doc \<Rightarrow> Storyline" where
  "demo_Storyline d = \<lparr>stl_Id = oidField d, stl_PublicId = strField ''public_id'' d,
     stl_SubscriberId = strField ''subscriber_id'' d, stl_CreatorId = Oid 0, stl_Name = strField ''name'' d,
     stl_NaturalOrder = intField ''natural_order'' d, stl_RequiredUserBadges = no_badges, stl_OnBegin = None,
     stl_OnComplete = no_storyline_end, stl_OnFail = no_storyline_end, stl_Acts = [], stl_ActIds = idsField ''act_ids'' d\<rparr>"

definition demo_Enactment :: "Doc \<Rightarrow> Enactment" where
  "demo_Enactment d = \<lparr>ent_Id = oidField d, ent_PublicId = strField ''public_id'' d,
     ent_SubscriberId = strField ''subscriber_id'' d, ent_CreatorId = Oid 0, ent_Name = strField ''name'' d,
     ent_Level = intField ''level'' d, ent_NaturalOrder = intField ''natural_order'' d, ent_SkipToNextStorylineOnExpiry = False,
     ent_SendScene = None, ent_SendSceneId = None, ent_SendScenes = [], ent_SendScenesIds = idsField ''send_scenes_ids'' d,
     ent_OnEvent = [], ent_OnEventIds = None\<rparr>"

definition demo_Scene :: "Doc \<Rightarrow> Scene" where
  "demo_Scene d = \<lparr>scn_Id = oidField d, scn_PublicId = strField ''public_id'' d,
     scn_SubscriberId = strField ''subscriber_id'' d, scn_CreatorId = Oid 0, scn_Name = strField ''name'' d,
     scn_Message = None,
     scn_MessageId = (case getField ''message_id'' d of BOid i \<Rightarrow> Some \<lparr>ci_CollectionName = ''messages'', ci_Id = i\<rparr> | _ \<Rightarrow> None),
     scn_Subject = strField ''subject'' d, scn_Body = strField ''body'' d, scn_FromEmail = [], scn_FromName = [],
     scn_ReplyTo = [], scn_Tags = [], scn_TagsIds = None\<rparr>"

definition demo_Message :: "Doc \<Rightarrow> Message" where
  "demo_Message d = \<lparr>msg_Id = oidField d, msg_PublicId = strField ''public_id'' d,
     msg_SubscriberId = strField ''subscriber_id'' d, msg_CreatorId = Oid 0, msg_Content = None\<rparr>"

definition demo_Trigger :: "Doc \<Rightarrow> Trigger" where
  "demo_Trigger d = \<lparr>trg_Id = oidField d, trg_PublicId = strField ''public_id'' d,
     trg_SubscriberId = strField ''subscriber_id'' d, trg_CreatorId = Oid 0, trg_TriggerType = strField ''trigger_type'' d,
     trg_UserAction = [], trg_UserActionValue = [], trg_MarkComplete = False, trg_MarkFailed = False, trg_Priority = 0,
     trg_PersistScope = [], trg_RequiredBadges = no_badges, trg_WatchBlockID = [], trg_WatchOperator = [],
     trg_WatchPercent = 0, trg_DoAction = None, trg_DoActionId = None\<rparr>"

definition demo_Action :: "Doc \<Rightarrow> Action" where
  "demo_Action d = \<lparr>act_Id = oidField d, act_PublicId = strField ''public_id'' d,
     act_SubscriberId = strField ''subscriber_id'' d, act_CreatorId = Oid 0, act_ActionName = strField ''action_name'' d,
     act_ExtraActions = [], act_NextEnactment = None, act_NextEnactmentId = None, act_AdvanceToNextStoryline = False,
     act_EndStory = False, act_Unsubscribe = False, act_BadgeTransaction = None, act_BadgeTransactionIds = None,
     act_When = None, act_SendImmediate = None\<rparr>"

section \<open>The backend\<close>

definition demo_contact :: "registerUserRequest \<Rightarrow> ObjectId option \<Rightarrow> Doc" where
  "demo_contact req l = [(''name'', BDoc [(''first'', BStr (rr_FirstName req)), (''last'', BStr (rr_LastName req))]),
     (''phone'', BStr (rr_Phone req)), (''subscribed'', BBool (rr_Subscribed req))]"

definition demo_unique :: "Coll \<Rightarrow> string list list" where
  "demo_unique c = EnsureStoryGraphIndexes (\<lambda>_. True) c @ EnsureIdentityIndexes True c"

text \<open>A membership is an id in the array \<open>badges\<close> of a contact.\<close>

definition assign_badge :: badgeCall where
  "assign_badge n t user badge actor cs =
     (let (e, docs) = updateDoc (demo_unique UserCollection) (sat [field ''_id'' user, field ''tenant_id'' t])
        [Push [''badges''] [badge]] (cs UserCollection) in
      (map_option (\<lambda>_. ''not found'') e, cs(UserCollection := docs)))"

definition remove_badge :: badgeCall where
  "remove_badge n t user badge actor cs =
     (let (e, docs) = updateDoc (demo_unique UserCollection) (sat [field ''_id'' user, field ''tenant_id'' t])
        [Pull [''badges''] (\<lambda>b. b = badge)] (cs UserCollection) in
      (map_option (\<lambda>_. ''not found'') e, cs(UserCollection := docs)))"

text \<open>\<open>reply\<close> is what the database does.\<close>

definition demo_backend :: "(nat \<Rightarrow> db_reply) \<Rightarrow> Backend" where
  "demo_backend reply = \<lparr>bk_db = reply, bk_now = int, bk_publicId = (\<lambda>n. replicate (Suc n) CHR ''p''),
     bk_unique = demo_unique, bk_created = ''created_at'', bk_struct = (\<lambda>c d. d), bk_zero = (\<lambda>c. []),
     bk_Story = demo_Story, bk_Storyline = demo_Storyline, bk_Enactment = demo_Enactment, bk_Scene = demo_Scene,
     bk_Message = demo_Message, bk_Trigger = demo_Trigger, bk_Action = demo_Action,
     bk_sortActs = sort_key ent_NaturalOrder, bk_sortStorylines = sort_key stl_NaturalOrder,
     bk_SanitizeUpdate = (\<lambda>raw allowed. Inr (filter (\<lambda>(k, _). List.member allowed k) raw)),
     bk_NormalizeBadgeKind = (\<lambda>k. if List.member [''achievement'', ''contact_label''] k then k else []),
     bk_BadgeKindAchievement = ''achievement'', bk_BadgeKindContactLabel = ''contact_label'',
     bk_ContactCreationBlocked = (\<lambda>_ _. False), bk_ApplyHold = (\<lambda>_ d. d), bk_consent = (\<lambda>_. (False, None, [])),
     bk_Assign = assign_badge, bk_Remove = remove_badge,
     bk_contact = demo_contact, bk_ObjectIdHex = (\<lambda>_. None), bk_Hex = (\<lambda>_. ''id'')\<rparr>"

lemma demo_simps [simp]:
  "bk_db (demo_backend r) = r" "bk_unique (demo_backend r) = demo_unique" "bk_struct (demo_backend r) c d = d"
  "bk_now (demo_backend r) n = int n" "bk_publicId (demo_backend r) n = replicate (Suc n) CHR ''p''"
  "bk_created (demo_backend r) = ''created_at''" "bk_zero (demo_backend r) c = []" "bk_Story (demo_backend r) = demo_Story"
  "bk_Storyline (demo_backend r) = demo_Storyline" "bk_Enactment (demo_backend r) = demo_Enactment"
  "bk_Scene (demo_backend r) = demo_Scene" "bk_Message (demo_backend r) = demo_Message"
  "bk_Trigger (demo_backend r) = demo_Trigger" "bk_Action (demo_backend r) = demo_Action"
  "bk_SanitizeUpdate (demo_backend r) raw allowed = Inr (filter (\<lambda>(k, _). List.member allowed k) raw)"
  "bk_ApplyHold (demo_backend r) n d = d" "bk_consent (demo_backend r) d = (False, None, [])"
  "bk_Assign (demo_backend r) = assign_badge" "bk_Remove (demo_backend r) = remove_badge"
  "bk_contact (demo_backend r) = demo_contact" "bk_ObjectIdHex (demo_backend r) h = None" "bk_Hex (demo_backend r) i = ''id''"
  by (simp_all add: demo_backend_def)

lemma demo_badges: "scoped demo_unique assign_badge" "scoped demo_unique remove_badge"
proof -
  have "\<forall>c. sound c (demo_unique c) ((cs(UserCollection := snd (updateDoc (demo_unique UserCollection)
        (sat [field ''_id'' user, field ''tenant_id'' (BOid (ca_TenantOid who))]) ch (cs UserCollection)))) c)
      \<and> others who ((cs(UserCollection := snd (updateDoc (demo_unique UserCollection)
        (sat [field ''_id'' user, field ''tenant_id'' (BOid (ca_TenantOid who))]) ch (cs UserCollection)))) c) = others who (cs c)"
    if "\<forall>c. sound c (demo_unique c) (cs c)" "safe ch" for cs user who ch
    using that update_frame [of UserCollection "demo_unique UserCollection" "cs UserCollection" ch
        "sat [field ''_id'' user, field ''tenant_id'' (BOid (ca_TenantOid who))]" who]
    by (simp add: owned_def tenant_def)
  then show "scoped demo_unique assign_badge" "scoped demo_unique remove_badge"
    by (simp_all add: scoped_def assign_badge_def remove_badge_def Let_def split_beta ownerFields_def)
qed

lemma demo_ok: "backend_ok (demo_backend r)"
  unfolding backend_ok_def demo_simps using demo_badges
  by (intro conjI exI [of _ "\<lambda>_. True"] exI [of _ True]) (auto simp: demo_unique_def)

lemma demo_keep_owners: "badges_keep_owners (demo_backend r)"
proof -
  have "heirs {} cs (cs(UserCollection := snd (updateDoc u P ch (cs UserCollection))))" if "safe ch" for cs u P ch
    using update_same_owner [OF that] by (auto simp: heirs_def list_all_iff same_owner_in)
  then show ?thesis
    by (simp add: badges_keep_owners_def assign_badge_def remove_badge_def Let_def split_beta ownerFields_def)
qed

section \<open>Two tenants\<close>

definition alice :: Caller where
  "alice = \<lparr>ca_Tenant = ''alice'', ca_TenantOid = Oid 1, ca_Account = ''a''\<rparr>"

definition bob :: Caller where
  "bob = \<lparr>ca_Tenant = ''bob'', ca_TenantOid = Oid 2, ca_Account = ''b''\<rparr>"

definition storyDoc :: "Caller \<Rightarrow> nat \<Rightarrow> string \<Rightarrow> Doc" where
  "storyDoc who i p = [(''_id'', BOid (Oid i)), (''public_id'', BStr p), (''subscriber_id'', BStr (ca_Tenant who)),
     (''name'', BStr p)]"

definition contactDoc :: "Caller \<Rightarrow> nat \<Rightarrow> string \<Rightarrow> Doc" where
  "contactDoc who i p = [(''_id'', BOid (Oid i)), (''public_id'', BStr p), (''tenant_id'', BOid (ca_TenantOid who)),
     (''email'', BStr p)]"

definition badgeDoc :: "Caller \<Rightarrow> nat \<Rightarrow> string \<Rightarrow> Doc" where
  "badgeDoc who i p = [(''_id'', BOid (Oid i)), (''public_id'', BStr p), (''subscriber_id'', BStr (ca_Tenant who)),
     (''tenant_id'', BOid (ca_TenantOid who)), (''name'', BStr p), (''kind'', BStr ''achievement'')]"

definition demo_docs :: Docs where
  "demo_docs = \<lparr>dx_reads = 0, dx_oids = 100, dx_colls = (\<lambda>c.
     if c = StoryCollection then [storyDoc alice 10 ''s1'', storyDoc bob 11 ''s1'']
     else if c = UserCollection then [contactDoc alice 20 ''u1'', contactDoc bob 21 ''u2'']
     else if c = BadgeCollection then [badgeDoc alice 30 ''b1''] else []), dx_invalidated = []\<rparr>"

lemma demo_docs_ok: "collections_ok (demo_backend r) demo_docs"
  by (simp add: collections_ok_def sound_def demo_docs_def unclashing_def tidy_def storyDoc_def contactDoc_def badgeDoc_def
      ownerKey_def getField_def clash_def demo_unique_def EnsureStoryGraphIndexes_def EnsureIdentityIndexes_def
      storyGraphCollections_def indexed_def alice_def bob_def)

end
