(* ===== verification/StoryReads.thy ===== *)
theory StoryReads
  imports StoryDemo
begin

text \<open>
  What a tenant reads from the story builder depends on its own documents only: two databases that
  agree on the documents of a tenant give the same answers to its requests for data, those
  that put a story together from its parts included.
\<close>

section \<open>Reading a struct\<close>

text \<open>
  The owner a struct is read with is the field of its document; a story that is read keeps it.
\<close>

definition reads_owner :: "Backend \<Rightarrow> bool" where
  "reads_owner bk \<longleftrightarrow>
     (\<forall>d. stl_SubscriberId (bk_Storyline bk d) = strField ''subscriber_id'' d)
     \<and> (\<forall>d. ent_SubscriberId (bk_Enactment bk d) = strField ''subscriber_id'' d)
     \<and> (\<forall>d. scn_SubscriberId (bk_Scene bk d) = strField ''subscriber_id'' d)
     \<and> (\<forall>d. msg_SubscriberId (bk_Message bk d) = strField ''subscriber_id'' d)
     \<and> (\<forall>d. trg_SubscriberId (bk_Trigger bk d) = strField ''subscriber_id'' d)
     \<and> (\<forall>d. act_SubscriberId (bk_Action bk d) = strField ''subscriber_id'' d)
     \<and> (\<forall>d. sto_SubscriberId (bk_Story bk (bk_struct bk StoryCollection d)) = strField ''subscriber_id'' d)"

lemma demo_reads_owner: "reads_owner (demo_backend r)"
  by (simp add: reads_owner_def demo_Story_def demo_Storyline_def demo_Enactment_def demo_Scene_def demo_Message_def
      demo_Trigger_def demo_Action_def)

lemma strField_owned: "t \<noteq> [] \<Longrightarrow> strField k d = t \<Longrightarrow> holds (BDoc d) (field k (BStr t))"
  by (auto simp: strField_def getField_def field_def equals_def split: option.splits Bson.splits)

lemma filter_map_cong:
  assumes "filter P xs = filter P ys" and "\<And>d. Q (f d) \<Longrightarrow> P d"
  shows "filter Q (map f xs) = filter Q (map f ys)"
proof -
  have "filter Q (map f zs) = map f (filter (\<lambda>d. Q (f d)) (filter P zs))" for zs
    using assms(2) by (auto simp: filter_map comp_def intro!: arg_cong [where f = "map f"] filter_cong)
  note split = this
  show ?thesis unfolding split assms(1) ..
qed

lemma find_conj_filter: "find (\<lambda>d. P d \<and> Q d) xs = find P (filter Q xs)"
  by (induction xs) auto

lemma find_owned_cong:
  "filter (\<lambda>d. owner d = t) xs = filter (\<lambda>d. owner d = t) ys \<Longrightarrow> find_owned oid owner xs t = find_owned oid owner ys t"
  "filter (\<lambda>d. owner d = t) xs = filter (\<lambda>d. owner d = t) ys \<Longrightarrow> find_public pid owner xs t = find_public pid owner ys t"
  by (simp_all add: fun_eq_iff find_owned_def find_public_def find_conj_filter)

section \<open>Runs on two databases\<close>

text \<open>Two databases that agree on the documents of a tenant.\<close>

definition alike :: "Caller \<Rightarrow> Docs \<Rightarrow> Docs \<Rightarrow> bool" where
  "alike who s s' \<longleftrightarrow> dx_reads s = dx_reads s'
     \<and> (\<forall>c. filter (owned who) (dx_colls s c) = filter (owned who) (dx_colls s' c))"

definition blind :: "Backend \<Rightarrow> Caller \<Rightarrow> 'a docs \<Rightarrow> bool" where
  "blind bk who m \<longleftrightarrow> (\<forall>s s'. alike who s s' \<and> collections_ok bk s \<and> collections_ok bk s' \<longrightarrow>
     fst (run_state m s) = fst (run_state m s') \<and> alike who (snd (run_state m s)) (snd (run_state m s'))
     \<and> dx_colls (snd (run_state m s)) = dx_colls s)"

named_theorems blind_intros

lemma blind_ret [blind_intros]: "blind bk who (ret x)"
  by (simp add: blind_def)

lemma ok_same: "dx_colls s' = dx_colls s \<Longrightarrow> collections_ok bk s' = collections_ok bk s"
  by (simp add: collections_ok_def)

lemma blind_bind_sure:
  assumes "blind bk who m" and "\<And>s. collections_ok bk s \<Longrightarrow> Q (fst (run_state m s))"
    and "\<And>x. Q x \<Longrightarrow> blind bk who (k x)"
  shows "blind bk who (m \<bind> k)"
  unfolding blind_def
proof (intro allI impI, elim conjE)
  fix s s' assume ok: "alike who s s'" "collections_ok bk s" "collections_ok bk s'"
  obtain x t where t: "run_state m s = (x, t)" by fastforce
  obtain x' t' where t': "run_state m s' = (x', t')" by fastforce
  have "alike who s' s" using ok(1) by (simp add: alike_def)
  then have "x' = x" "alike who t t'" "dx_colls t = dx_colls s" "dx_colls t' = dx_colls s'"
    using assms(1) [unfolded blind_def, rule_format, of s s'] assms(1) [unfolded blind_def, rule_format, of s' s] ok t t' by simp_all
  moreover have "Q x" using assms(2) [OF ok(2)] t by simp
  ultimately show "fst (run_state (m \<bind> k) s) = fst (run_state (m \<bind> k) s')
      \<and> alike who (snd (run_state (m \<bind> k) s)) (snd (run_state (m \<bind> k) s'))
      \<and> dx_colls (snd (run_state (m \<bind> k) s)) = dx_colls s"
    using assms(3) [OF \<open>Q x\<close>, unfolded blind_def, rule_format, of t t'] ok ok_same [of t s bk] ok_same [of t' s' bk] t t' by simp
qed

lemma blind_bind [blind_intros]: "blind bk who m \<Longrightarrow> (\<And>x. blind bk who (k x)) \<Longrightarrow> blind bk who (m \<bind> k)"
  by (rule blind_bind_sure [where Q = "\<lambda>_. True"]) simp_all

lemma blind_mapC_on: "(\<And>x. x \<in> set xs \<Longrightarrow> blind bk who (f x)) \<Longrightarrow> blind bk who (mapC f xs)"
  by (induction xs) (auto intro!: blind_intros)

lemma blind_mapC [blind_intros]: "(\<And>x. blind bk who (f x)) \<Longrightarrow> blind bk who (mapC f xs)"
  by (rule blind_mapC_on)

lemma blind_foldC [blind_intros]: "(\<And>b x. blind bk who (f b x)) \<Longrightarrow> blind bk who (foldC f b xs)"
  by (induction xs arbitrary: b) (auto intro!: blind_intros)

lemma blind_optC [blind_intros]: "(\<And>x. blind bk who (f x)) \<Longrightarrow> blind bk who (optC f m)"
  by (auto simp: optC_def intro!: blind_intros split: option.split)

lemma blind_branches [blind_intros]:
  "(\<And>x. blind bk who (f x)) \<Longrightarrow> (\<And>y. blind bk who (g y)) \<Longrightarrow> blind bk who (case r of Inl x \<Rightarrow> f x | Inr y \<Rightarrow> g y)"
  "blind bk who m \<Longrightarrow> (\<And>y. blind bk who (h y)) \<Longrightarrow> blind bk who (case p of None \<Rightarrow> m | Some y \<Rightarrow> h y)"
  by (simp_all split: sum.split option.split)

lemma blind_tick [blind_intros]: "blind bk who tick"
  by (auto simp: blind_def tick_def alike_def)

text \<open>A filter that asks for the owner finds documents of the owner.\<close>

lemma filter_owned:
  assumes "asksOwner who f"
  shows "filter (sat f) docs = filter (sat f) (filter (owned who) docs)"
    "find (sat f) docs = find (sat f) (filter (owned who) docs)"
proof -
  have both: "(sat f d \<and> owned who d) = sat f d" "(owned who d \<and> sat f d) = sat f d" for d
    using asksOwner_owned [OF assms, of d] by auto
  show "filter (sat f) docs = filter (sat f) (filter (owned who) docs)" by (simp add: both)
  show "find (sat f) docs = find (sat f) (filter (owned who) docs)"
    using find_conj_filter [of "sat f" "owned who" docs] unfolding both .
qed

lemma blind_readColl:
  assumes "\<And>docs docs'. filter (owned who) docs = filter (owned who) docs' \<Longrightarrow> q docs = q docs'"
  shows "blind bk who (readColl bk c q)"
proof -
  have "blind bk who (asks (\<lambda>s. q (dx_colls s c)))"
    unfolding blind_def by (simp add: alike_def) (blast intro: assms)
  then show ?thesis
    unfolding readColl_def by (intro blind_intros) (auto intro: blind_intros split: db_reply.split)
qed

lemma blind_queries [blind_intros]:
  assumes "asksOwner who f"
  shows "blind bk who (FindOne bk c f)" "blind bk who (FindAll bk c f)" "blind bk who (Count bk c f)"
proof -
  have all: "filter (sat f) docs = filter (sat f) docs'" "find (sat f) docs = find (sat f) docs'"
    if "filter (owned who) docs = filter (owned who) docs'" for docs docs'
    using filter_owned [OF assms, of docs] filter_owned [OF assms, of docs'] that by simp_all
  show "blind bk who (FindOne bk c f)" unfolding FindOne_def by (rule blind_readColl, drule all(2)) simp
  show "blind bk who (FindAll bk c f)" unfolding FindAll_def
    by (intro blind_bind blind_ret blind_readColl, drule all(1)) simp
  show "blind bk who (Count bk c f)" unfolding Count_def
    by (intro blind_bind blind_ret blind_readColl, drule all(1)) simp
qed

section \<open>The requests for data\<close>

lemma blind_answers [blind_intros]: "blind bk who (answer code body)" "blind bk who (refuse code msg)" "blind bk who ok"
  unfolding answer_def refuse_def ok_def by (rule blind_ret)+

lemma blind_items [blind_intros]:
  "asksOwner who f \<Longrightarrow> blind bk who (listItems bk c f key)" "asksOwner who f \<Longrightarrow> blind bk who (getItem bk c f key)"
  "asksOwner who f \<Longrightarrow> blind bk who (readBack bk c f)"
  unfolding listItems_def getItem_def readBack_def by (intro blind_intros; assumption)+

text \<open>A story that was found belongs to the tenant, and is put together from its documents.\<close>

definition own_story :: "Backend \<Rightarrow> Caller \<Rightarrow> Doc \<Rightarrow> bool" where
  "own_story bk who item \<longleftrightarrow> sto_SubscriberId (bk_Story bk item) = ca_Tenant who"

lemma own_story_found:
  assumes "reads_owner bk" and "collections_ok bk s" and "d \<in> set (dx_colls s StoryCollection)" and "holds (BDoc d) (subscriber who)"
  shows "own_story bk who (bk_struct bk StoryCollection d)"
proof -
  have "tidy StoryCollection d" using assms(2,3) by (auto simp: collections_ok_def sound_def list_all_iff)
  then have "strField ''subscriber_id'' d = ca_Tenant who"
    using assms(4) by (auto simp: tidy_def ownerKey_def subscriber_def field_def equals_def getField_def strField_def
        split: option.splits Bson.splits)
  with assms(1) show ?thesis by (simp add: reads_owner_def own_story_def)
qed

text \<open>Every query of a story's parts asks for the tenant.\<close>

lemma owned_strField: "strField ''subscriber_id'' d = ca_Tenant who \<Longrightarrow> ca_Tenant who \<noteq> [] \<Longrightarrow> owned who d"
  using strField_owned [of "ca_Tenant who" "''subscriber_id''" d] by (simp add: owned_def subscriber_def)

lemma blind_readOne:
  assumes "ca_Tenant who \<noteq> []" and "\<And>d. owner (read d) = strField ''subscriber_id'' d"
  shows "blind bk who (readOne bk c read (\<lambda>docs. find_owned oid owner docs (ca_Tenant who) i))"
    "blind bk who (readOne bk c read (\<lambda>docs. find_public pid owner docs (ca_Tenant who) p))"
proof -
  have same: "filter (\<lambda>x. owner x = ca_Tenant who) (map read docs) = filter (\<lambda>x. owner x = ca_Tenant who) (map read docs')"
    if "filter (owned who) docs = filter (owned who) docs'" for docs docs'
    by (rule filter_map_cong [OF that]) (simp add: assms owned_strField)
  note queries = find_owned_cong(1) [OF same, of _ _ oid] find_owned_cong(2) [OF same, of _ _ pid]
  show "blind bk who (readOne bk c read (\<lambda>docs. find_owned oid owner docs (ca_Tenant who) i))"
    unfolding readOne_def by (intro blind_bind blind_ret blind_readColl) (drule queries(1), simp)
  show "blind bk who (readOne bk c read (\<lambda>docs. find_public pid owner docs (ca_Tenant who) p))"
    unfolding readOne_def by (intro blind_bind blind_ret blind_readColl) (drule queries(2), simp)
qed

lemma blind_parts:
  assumes own: "reads_owner bk" and tenant: "ca_Tenant who \<noteq> []"
  shows "blind bk who (readScene bk (ca_Tenant who) i)" "blind bk who (readTrigger bk (ca_Tenant who) i)"
    "blind bk who (freshScene bk (ca_Tenant who) sc)" "blind bk who (mergeStoryline bk (ca_Tenant who) sls i)"
    "blind bk who (withActs bk (ca_Tenant who) sl)"
  unfolding readScene_def readTrigger_def freshScene_def mergeStoryline_def withActs_def readAll_def
  by (auto intro!: blind_intros blind_readOne [OF tenant] own [unfolded reads_owner_def, THEN conjunct1, rule_format]
      split: option.split list.split simp: own [unfolded reads_owner_def])

lemma blind_enactment:
  assumes own: "reads_owner bk" and tenant: "ca_Tenant who \<noteq> []"
  shows "blind bk who (readEnactment bk (ca_Tenant who) en)"
  unfolding readEnactment_def readAll_def
  by (auto intro!: blind_intros blind_parts [OF assms] split: option.split list.split)

lemma blind_act:
  assumes own: "reads_owner bk" and tenant: "ca_Tenant who \<noteq> []"
  shows "blind bk who (freshAct bk (ca_Tenant who) en)"
  unfolding freshAct_def
  by (auto intro!: blind_intros blind_enactment [OF assms] blind_parts [OF assms] blind_readOne [OF tenant]
      split: option.split simp: own [unfolded reads_owner_def])

lemma blind_storyline:
  assumes own: "reads_owner bk" and tenant: "ca_Tenant who \<noteq> []"
  shows "blind bk who (freshStoryline bk (ca_Tenant who) sl)"
  unfolding freshStoryline_def
  by (auto intro!: blind_intros blind_act [OF assms] blind_parts [OF assms] blind_readOne [OF tenant]
      split: option.split simp: own [unfolded reads_owner_def])

lemma blind_hydrate:
  assumes "reads_owner bk" and "ca_Tenant who \<noteq> []" and "own_story bk who item"
  shows "blind bk who (hydrateStory bk (bk_Story bk item))"
  unfolding hydrateStory_def Let_def assms(3) [unfolded own_story_def]
  by (intro blind_intros blind_storyline [OF assms(1,2)] blind_parts [OF assms(1,2)])

lemma found_all:
  assumes "fst (run_state (FindAll bk c f) s) = items" and "item \<in> set items"
  shows "\<exists>d\<in>set (dx_colls s c). sat f d \<and> item = bk_struct bk c d"
proof -
  obtain n s2 where t: "run_state tick s = (n, s2)" by fastforce
  have "dx_colls s2 = dx_colls s" using keepsD [OF colls_stay(1) t] .
  with assms show ?thesis
    by (auto simp: FindAll_def readColl_def t split_beta split: db_reply.splits)
qed

lemma blind_stories:
  assumes "reads_owner bk" and "ca_Tenant who \<noteq> []"
  shows "blind bk who (handleGetStories bk who)" "blind bk who (handleGetStory bk who i)"
proof -
  show "blind bk who (handleGetStories bk who)"
    unfolding handleGetStories_def
  proof (rule blind_bind_sure [where Q = "list_all (own_story bk who)"])
    show "list_all (own_story bk who) (fst (run_state (FindAll bk StoryCollection [subscriber who, alive]) s))"
      if "collections_ok bk s" for s
      unfolding list_all_iff
    proof
      fix item assume "item \<in> set (fst (run_state (FindAll bk StoryCollection [subscriber who, alive]) s))"
      from found_all [OF HOL.refl this] own_story_found [OF assms(1) that] show "own_story bk who item" by auto
    qed
    show "blind bk who (mapC (\<lambda>d. hydrateStory bk (bk_Story bk d)) items \<bind> (\<lambda>stories. answer 200 [(''stories'', AStories stories)]))"
      if "list_all (own_story bk who) items" for items
      using that by (auto intro!: blind_bind blind_answers blind_mapC_on blind_hydrate [OF assms] simp: list_all_iff)
  qed (simp add: blind_intros)
  show "blind bk who (handleGetStory bk who i)"
    unfolding handleGetStory_def
  proof (rule blind_bind_sure [where Q = "\<lambda>r. case r of Inl _ \<Rightarrow> True | Inr d \<Rightarrow> own_story bk who d"])
    show "case fst (run_state (FindOne bk StoryCollection [public i, subscriber who]) s) of
        Inl _ \<Rightarrow> True | Inr d \<Rightarrow> own_story bk who d" if ok: "collections_ok bk s" for s
    proof -
      obtain r s1 where run: "run_state (FindOne bk StoryCollection [public i, subscriber who]) s = (r, s1)" by fastforce
      show ?thesis
      proof (cases r)
        case (Inr item)
        from found_document [OF run [unfolded Inr]] own_story_found [OF assms(1) ok] run Inr show ?thesis by auto
      qed (simp add: run)
    qed
    show "blind bk who (case r of Inl _ \<Rightarrow> refuse 404 ''story not found'' | Inr item \<Rightarrow> do {
        story \<leftarrow> hydrateStory bk (bk_Story bk item);
        answer 200 [(''story'', AStory story)] })"
      if "case r of Inl _ \<Rightarrow> True | Inr d \<Rightarrow> own_story bk who d" for r
    proof (cases r)
      case (Inr item)
      with that show ?thesis by (auto intro!: blind_intros blind_hydrate [OF assms])
    qed (simp add: blind_intros)
  qed (simp add: blind_intros)
qed

lemma blind_gets:
  "blind bk who (handleGetStorylines bk who)" "blind bk who (handleGetStoryline bk who i)"
  "blind bk who (handleGetEnactments bk who)" "blind bk who (handleGetEnactment bk who i)"
  "blind bk who (handleGetScenes bk who)" "blind bk who (handleGetScene bk who i)"
  "blind bk who (handleGetMessages bk who)" "blind bk who (handleGetMessage bk who i)"
  "blind bk who (handleGetMessageContents bk who)" "blind bk who (handleGetMessageContent bk who i)"
  "blind bk who (handleGetTriggers bk who)" "blind bk who (handleGetTrigger bk who i)"
  "blind bk who (handleGetActions bk who)" "blind bk who (handleGetAction bk who i)"
  "blind bk who (handleGetBadges bk who)" "blind bk who (handleGetBadge bk who i)"
  "blind bk who (handleGetTags bk who)" "blind bk who (handleGetTag bk who i)"
  "blind bk who (handleGetTemplateVariables bk who)" "blind bk who (handleGetTemplateVariable bk who i)"
  unfolding handleGetStorylines_def handleGetStoryline_def handleGetEnactments_def handleGetEnactment_def
    handleGetScenes_def handleGetScene_def handleGetMessages_def handleGetMessage_def handleGetMessageContents_def
    handleGetMessageContent_def handleGetTriggers_def handleGetTrigger_def handleGetActions_def handleGetAction_def
    handleGetBadges_def handleGetBadge_def handleGetTags_def handleGetTag_def handleGetTemplateVariables_def
    handleGetTemplateVariable_def
  by (intro blind_items; simp)+

lemma blind_contacts:
  "blind bk who (handleGetUsers bk who)" "blind bk who (handleGetUser bk who i)" "blind bk who (handleGetUserDetail bk who i)"
  "blind bk who (handleGetEmailLists bk who)" "blind bk who (handleGetEmailList bk who i)"
  "blind bk who handleGetPendingEmails" "blind bk who handleGetHotTriggers" "blind bk who handleStatsStub"
  unfolding handleGetUsers_def handleGetUser_def handleGetUserDetail_def handleGetEmailLists_def handleGetEmailList_def
    handleGetPendingEmails_def handleGetHotTriggers_def handleStatsStub_def
  by (auto intro!: blind_intros simp: asksOwner_field)

lemma blind_stats: "blind bk who (handleStatsOverview bk who)"
  unfolding handleStatsOverview_def countSessions_def by (intro blind_intros) (auto intro!: blind_intros)

lemma blind_routes:
  assumes "reads_owner bk" and "ca_Tenant who \<noteq> []"
    and "(''GET'', path, handler) \<in> set (RegisterStoryRoutes bk who)"
  shows "blind bk who (handler p b)"
proof -
  let ?Q = "\<lambda>(meth, path, handler). meth = ''GET'' \<longrightarrow> blind bk who (handler p b)"
  have "list_all ?Q (storyRoutes bk who)"
    by (simp add: storyRoutes_def blind_stories [OF assms(1,2)] blind_gets)
  moreover have "list_all ?Q (sceneRoutes bk who)" by (simp add: sceneRoutes_def blind_gets)
  moreover have "list_all ?Q (contactRoutes bk who)" by (simp add: contactRoutes_def blind_gets blind_contacts blind_stats)
  ultimately show ?thesis using assms(3) by (auto simp: RegisterStoryRoutes_def list_all_iff)
qed

text \<open>
  C7: What a tenant reads depends on its own documents only: two databases that agree on the
  documents of the tenant give the same answer to every request for data, whatever documents of other
  tenants they hold and whatever references the tenant's documents have to them; a story is put
  together from documents of the tenant.
\<close>

theorem reads_isolated:
  assumes "(''GET'', path, handler) \<in> set (RegisterStoryRoutes bk who)"
    and "reads_owner bk" and "ca_Tenant who \<noteq> []"
    and "collections_ok bk s" and "collections_ok bk s'" and "dx_reads s = dx_reads s'"
    and "\<And>c. filter (owned who) (dx_colls s c) = filter (owned who) (dx_colls s' c)"
  shows "fst (run_state (handler p b) s) = fst (run_state (handler p b) s')"
  using blind_routes [OF assms(2,3,1)] assms(4-7) unfolding blind_def alike_def by blast

text \<open>A database without the documents of the other tenant.\<close>

definition alone :: Docs where
  "alone = demo_docs\<lparr>dx_colls := (\<lambda>c. filter (owned alice) (dx_colls demo_docs c))\<rparr>"

lemma alone_ok: "collections_ok (demo_backend r) alone"
  using demo_docs_ok [of r]
  by (auto simp: collections_ok_def alone_def sound_def unclashing_filter list_all_iff)

lemma getStories_route: "(''GET'', [''stories''], \<lambda>p b. handleGetStories bk who) \<in> set (RegisterStoryRoutes bk who)"
  unfolding RegisterStoryRoutes_def storyRoutes_def by simp

theorem reads_isolated_witness:
  "fst (run_state (handleGetStories (demo_backend (\<lambda>_. Done)) alice) demo_docs)
    = fst (run_state (handleGetStories (demo_backend (\<lambda>_. Done)) alice) alone)"
  by (rule reads_isolated [OF getStories_route demo_reads_owner _ demo_docs_ok alone_ok])
    (simp_all add: alice_def alone_def)

end
