(* ===== verification/StoryProps.thy ===== *)
theory StoryProps
  imports StoryReads
begin

text \<open>
  The properties of the story builder: every run keeps the unique indexes and leaves the documents
  of other tenants alone; what a tenant reads depends on its own documents; what an update
  and a new document do; and where the answer of an endpoint does not say what happened.
\<close>

section \<open>Runs of the service\<close>

definition strangers :: "Caller set \<Rightarrow> Doc list \<Rightarrow> Doc list" where
  "strangers W docs = filter (\<lambda>d. \<forall>who\<in>W. \<not> owned who d) docs"

lemma strangers_others: "who \<in> W \<Longrightarrow> strangers W docs = strangers W (others who docs)"
  by (auto simp: strangers_def others_def intro: filter_cong)

lemma story_step_apart: "story_step bk W s s' \<Longrightarrow> \<exists>who\<in>W. apart bk who s s'"
proof (induction rule: story_step.induct)
  case (request who meth path handler s p b)
  then have "keeps (apart bk who) (handler p b)" by (intro tenants.routes)
  with request show ?case unfolding keeps_def by blast
next
  case (register who s req)
  then show ?case using tenants.registration [unfolded keeps_def] by blast
qed

lemma story_run:
  assumes "(story_step bk W)\<^sup>*\<^sup>* s s'" and "backend_ok bk" and "collections_ok bk s"
  shows "collections_ok bk s' \<and> (\<forall>c. strangers W (dx_colls s' c) = strangers W (dx_colls s c))"
  using assms(1)
proof (induction rule: rtranclp_induct)
  case (step s' s'')
  from story_step_apart [OF step.hyps(2)] obtain who where who: "who \<in> W" "apart bk who s' s''" by blast
  with step.IH assms(2) have "collections_ok bk s''" "\<forall>c. others who (dx_colls s'' c) = others who (dx_colls s' c)"
    by (simp_all add: apart_def)
  then have "strangers W (dx_colls s'' c) = strangers W (dx_colls s' c)" for c
    using strangers_others [OF who(1)] by metis
  with step.IH \<open>collections_ok bk s''\<close> show ?case by simp
qed (simp add: assms(3))

lemma story_step_inherits: "story_step bk W s s' \<Longrightarrow> \<exists>who\<in>W. inherits bk who s s'"
proof (induction rule: story_step.induct)
  case (request who meth path handler s p b)
  then have "keeps (inherits bk who) (handler p b)" by (intro owners_stay.routes)
  with request show ?case unfolding keeps_def by blast
next
  case (register who s req)
  then show ?case using owners_stay.registration [unfolded keeps_def] by blast
qed

lemma story_heirs:
  assumes "(story_step bk W)\<^sup>*\<^sup>* s s'" and "backend_ok bk" and "badges_keep_owners bk"
  shows "heirs W (dx_colls s) (dx_colls s')"
  using assms(1)
proof (induction rule: rtranclp_induct)
  case (step s' s'')
  from story_step_inherits [OF step.hyps(2)] obtain who where "who \<in> W" "inherits bk who s' s''" by blast
  then have "heirs W (dx_colls s') (dx_colls s'')"
    using assms(2,3) by - (rule heirs_mono [of "{who}"], simp_all add: inherits_def)
  with step.IH show ?case by (rule heirs_trans)
qed (rule heirs_refl)

text \<open>
  C10: In every run of the story builder, of any requests of any tenants with any failures of the
  database, the unique indexes are kept (no two stories, contacts or badges of one tenant with one
  public id, no two contacts of one tenant with one address), and owners are not given away: every document is one that
  was there, with the id and the owner it had, or its owner is one of the callers, whatever owner
  the body of a request names. The package \<open>badges\<close> is taken to hand no document over.
\<close>

theorem store_keys_unique:
  assumes "(story_step bk W)\<^sup>*\<^sup>* s s'" and "backend_ok bk" and "badges_keep_owners bk" and "collections_ok bk s"
  shows "collections_ok bk s' \<and> heirs W (dx_colls s) (dx_colls s')"
  using story_run [OF assms(1,2,4)] story_heirs [OF assms(1-3)] by blast

text \<open>
  C2: The tenants of the story builder are kept apart: whatever the tenants of a set ask of
  any endpoint, in any order and with any failures of the database, the documents that belong to none of
  them are the same afterwards, in every collection.
\<close>

theorem tenants_apart:
  assumes "(story_step bk W)\<^sup>*\<^sup>* s s'" and "backend_ok bk" and "collections_ok bk s"
  shows "filter (\<lambda>d. \<forall>who\<in>W. \<not> owned who d) (dx_colls s' c) = filter (\<lambda>d. \<forall>who\<in>W. \<not> owned who d) (dx_colls s c)"
  using story_run [OF assms] by (simp add: strangers_def)

section \<open>An example of a run\<close>

definition no_body :: Body where
  "no_body = \<lparr>bo_struct = Inl ''EOF'', bo_left = [], bo_map = Inl ''EOF'', bo_object = None, bo_ok = False,
     bo_field = (\<lambda>_. []), bo_value = (\<lambda>_. None)\<rparr>"

definition after_deleteAll :: Docs where
  "after_deleteAll = snd (run_state (handleDeleteAllStories (demo_backend (\<lambda>_. Done)) alice) demo_docs)"

lemma deleteAll_route:
  "(''DELETE'', [''stories''], \<lambda>p b. handleDeleteAllStories bk who) \<in> set (RegisterStoryRoutes bk who)"
  unfolding RegisterStoryRoutes_def storyRoutes_def by simp

lemma deleteAll_run: "(story_step (demo_backend (\<lambda>_. Done)) {alice})\<^sup>*\<^sup>* demo_docs after_deleteAll"
  using story_step.request [OF _ deleteAll_route, of alice "{alice}" "demo_backend (\<lambda>_. Done)" demo_docs]
  unfolding after_deleteAll_def by (intro r_into_rtranclp) simp

lemma deleteAll_stories: "dx_colls after_deleteAll StoryCollection
  = [storyDoc alice 10 ''s1'' @ [(''timestamps'', BDoc [(''deleted_at'', BTime (bsonTime 0))])], storyDoc bob 11 ''s1'']"
  by (simp add: after_deleteAll_def handleDeleteAllStories_def timeNow_def tick_def UpdateAll_def writeColl_def ok_def answer_def
      Let_def demo_docs_def putColl_def subscriber_def field_def storyDoc_def alice_def bob_def matches_def equals_def deletion_def
      updated_def split_beta)

theorem store_keys_unique_witness:
  "collections_ok (demo_backend (\<lambda>_. Done)) after_deleteAll \<and> heirs {alice} (dx_colls demo_docs) (dx_colls after_deleteAll)
    \<and> dx_colls after_deleteAll StoryCollection \<noteq> dx_colls demo_docs StoryCollection"
  using store_keys_unique [OF deleteAll_run demo_ok demo_keep_owners demo_docs_ok]
  by (simp add: deleteAll_stories) (simp add: demo_docs_def storyDoc_def)

theorem tenants_apart_witness:
  "filter (\<lambda>d. \<forall>who\<in>{alice}. \<not> owned who d) (dx_colls after_deleteAll StoryCollection) = [storyDoc bob 11 ''s1'']"
  using tenants_apart [OF deleteAll_run demo_ok demo_docs_ok, of StoryCollection]
  by (simp add: demo_docs_def storyDoc_def owned_def subscriber_def tenant_def field_def equals_def alice_def bob_def)

section \<open>Updates\<close>

lemma setAll_changes: "changes (setAll sets) (BDoc d) = Some (BDoc (foldl (\<lambda>d (k, v). gomap_put k v d) d sets))"
  by (induction sets arbitrary: d) (auto simp: setAll_def)

lemma setAll_updated: "updated (setAll sets) d = Some (foldl (\<lambda>d (k, v). gomap_put k v d) d sets)"
  by (simp add: updated_def setAll_changes)

lemma map_of_puts: "map_of (foldl (\<lambda>d (k, v). gomap_put k v d) d sets) = map_of d ++ map_of (rev sets)"
proof (induction sets arbitrary: d)
  case (Cons x xs)
  then show ?case by (cases x) (auto simp: fun_eq_iff map_add_def split: option.split)
qed simp

lemma Update_cases:
  assumes "run_state (Update bk c f cs) s = (e, s')"
  obtains (same) "dx_colls s' = dx_colls s" "e \<noteq> None"
  | (changed) as d d' bs where "dx_colls s c = as @ d # bs" "sat f d" "list_all (\<lambda>x. \<not> sat f x) as" "updated cs d = Some d'"
      "dx_colls s' = (dx_colls s)(c := as @ d' # bs)"
proof -
  obtain n s1 where t: "run_state tick s = (n, s1)" by fastforce
  have s1: "dx_colls s1 = dx_colls s" using keepsD [OF colls_stay(1) t] .
  let ?u = "updateDoc (bk_unique bk c) (sat f) cs (dx_colls s c)"
  have "dx_colls s' = dx_colls s \<and> e \<noteq> None
    \<or> dx_colls s' = (dx_colls s)(c := snd ?u) \<and> (fst ?u \<noteq> None \<longrightarrow> e \<noteq> None)"
    using assms s1 by (auto simp: Update_def writeColl_def Let_def t split_beta putColl_def split: db_reply.splits)
  then show ?thesis
    by (cases rule: updateDoc_cases [of "bk_unique bk c" "sat f" cs "dx_colls s c"]) (auto intro: same changed)
qed

text \<open>
  C20: An update of an element of a story changes one document and only listed fields: either
  nothing is stored and the answer is an error, or the first document with the public id that belongs to
  the tenant gets the values the body has for the fields of the allowlist, and every other
  field and document is the same.
\<close>

theorem update_outcome:
  assumes "backend_ok bk" and "run_state (applySanitizedUpdate bk who i c allowed body) s = (r, s')"
  shows "dx_colls s' = dx_colls s \<and> r \<noteq> None
    \<or> (\<exists>raw sets as d d' bs. body = Inr raw \<and> bk_SanitizeUpdate bk raw allowed = Inr sets \<and> fst ` set sets \<subseteq> set allowed
        \<and> dx_colls s c = as @ d # bs \<and> sat [public i, subscriber who] d \<and> list_all (\<lambda>x. \<not> sat [public i, subscriber who] x) as
        \<and> map_of d' = map_of d ++ map_of (rev sets) \<and> dx_colls s' = (dx_colls s)(c := as @ d' # bs))"
proof (cases body)
  case (Inr raw)
  show ?thesis
  proof (cases "bk_SanitizeUpdate bk raw allowed")
    case (Inl e)
    with Inr assms(2) show ?thesis by (auto simp: applySanitizedUpdate_def applySanitizedUpdateWhere_def)
  next
    case sets: (Inr sets)
    obtain e where run: "run_state (Update bk c [public i, subscriber who] (setAll sets)) s = (e, s')"
      and r: "r = (if e = None then None else Some (404, [(''error'', AStr ''not found'')]))"
      using assms(2) Inr sets by (auto simp: applySanitizedUpdate_def applySanitizedUpdateWhere_def split_beta prod_eq_iff)
    from run show ?thesis
    proof (cases rule: Update_cases)
      case same
      with r show ?thesis by auto
    next
      case (changed as d d' bs)
      then have "map_of d' = map_of d ++ map_of (rev sets)" by (auto simp: setAll_updated map_of_puts)
      with changed Inr sets sanitized_fields [OF assms(1) sets] show ?thesis by blast
    qed
  qed
qed (use assms(2) in \<open>auto simp: applySanitizedUpdate_def applySanitizedUpdateWhere_def\<close>)

text \<open>A story that a tenant renames; the owner in the body is not looked at.\<close>

definition rename :: "string + Doc" where
  "rename = Inr [(''name'', BStr ''new''), (''subscriber_id'', BStr ''bob'')]"

theorem update_outcome_witness:
  "\<exists>d'. dx_colls (snd (run_state (applySanitizedUpdate (demo_backend (\<lambda>_. Done)) alice ''s1'' StoryCollection storyUpdateFields rename) demo_docs))
      StoryCollection = [d', storyDoc bob 11 ''s1'']
    \<and> getField ''name'' d' = BStr ''new'' \<and> getField ''subscriber_id'' d' = BStr ''alice''"
proof -
  let ?run = "run_state (applySanitizedUpdate (demo_backend (\<lambda>_. Done)) alice ''s1'' StoryCollection storyUpdateFields rename) demo_docs"
  have r: "fst ?run = None"
    by (simp add: rename_def applySanitizedUpdate_def applySanitizedUpdateWhere_def Update_def writeColl_def tick_def Let_def
        demo_docs_def updateDoc_def storyDoc_def alice_def bob_def public_def subscriber_def field_def equals_def
        storyUpdateFields_def split_beta updateOne_def clash_def demo_unique_def EnsureStoryGraphIndexes_def
        EnsureIdentityIndexes_def storyGraphCollections_def indexed_def getField_def setAll_def updated_def)
  from update_outcome [OF demo_ok, of "\<lambda>_. Done" alice "''s1''" StoryCollection storyUpdateFields rename demo_docs "fst ?run" "snd ?run"] r
  obtain sets as d d' bs where o: "\<forall>raw. rename = Inr raw \<longrightarrow> sets = filter (\<lambda>(k, _). List.member storyUpdateFields k) raw"
    and s: "dx_colls demo_docs StoryCollection = as @ d # bs" "sat [public ''s1'', subscriber alice] d"
      "map_of d' = map_of d ++ map_of (rev sets)" "dx_colls (snd ?run) = (dx_colls demo_docs)(StoryCollection := as @ d' # bs)"
    by (auto simp: rename_def)
  have sets: "sets = [(''name'', BStr ''new'')]" using o by (simp add: rename_def storyUpdateFields_def)
  have "as = [] \<and> d = storyDoc alice 10 ''s1'' \<and> bs = [storyDoc bob 11 ''s1'']"
    using s(1,2) by (cases as) (auto simp: demo_docs_def storyDoc_def public_def subscriber_def field_def equals_def alice_def bob_def
        Cons_eq_append_conv)
  with s(3,4) sets show ?thesis
    by (intro exI [of _ d']) (simp add: getField_def storyDoc_def alice_def)
qed

section \<open>The life of a storyline\<close>

text \<open>What the operations do on a database that does what it is asked.\<close>

definition ticked :: "Docs \<Rightarrow> Docs" where
  "ticked s = s\<lparr>dx_reads := Suc (dx_reads s)\<rparr>"

lemma run_tick [simp]: "run_state tick s = (dx_reads s, ticked s)"
  by (simp add: tick_def ticked_def)

lemma ticked_simps [simp]:
  "dx_colls (ticked s) = dx_colls s" "dx_oids (ticked s) = dx_oids s" "dx_reads (ticked s) = Suc (dx_reads s)"
  by (simp_all add: ticked_def)

lemma done_runs:
  assumes "bk_db bk (dx_reads s) = Done"
  shows "run_state (writeColl bk c w) s = (fst (w (dx_colls s c)), putColl c (snd (w (dx_colls s c))) (ticked s))"
    and "run_state (FindOne bk c f) s
      = (case find (sat f) (dx_colls s c) of None \<Rightarrow> Inl NotFound | Some d \<Rightarrow> Inr (bk_struct bk c d), ticked s)"
    and "run_state (FindAll bk c f) s = (map (bk_struct bk c) (filter (sat f) (dx_colls s c)), ticked s)"
    and "run_state (Count bk c f) s = (length (filter (sat f) (dx_colls s c)), ticked s)"
  using assms by (simp_all add: writeColl_def readColl_def FindOne_def FindAll_def Count_def Let_def split_beta)

lemma colls_put [simp]: "dx_colls (putColl c docs s) = (dx_colls s)(c := docs)"
  "dx_reads (putColl c docs s) = dx_reads s" "dx_oids (putColl c docs s) = dx_oids s"
  by (simp_all add: putColl_def)

lemma run_NewObjectId [simp]: "run_state NewObjectId s = (Oid (dx_oids s), s\<lparr>dx_oids := Suc (dx_oids s)\<rparr>)"
  by (simp add: NewObjectId_def)

text \<open>The document of a creation.\<close>

definition newItem :: "Backend \<Rightarrow> Docs \<Rightarrow> Doc \<Rightarrow> Doc" where
  "newItem bk s d = createdAt bk (bk_now bk (Suc (dx_reads s))) (gomap_put ''public_id'' (BStr (bk_publicId bk (dx_reads s)))
     (gomap_put ''_id'' (BOid (Oid (dx_oids s))) d))"

lemma run_identified: "run_state (identified bk d) s
    = (newItem bk s d, ticked (ticked (s\<lparr>dx_oids := Suc (dx_oids s)\<rparr>)))"
  by (simp add: identified_def newItem_def GeneratePublicId_def timeNow_def)

lemma newItem_fields:
  "map_of (newItem bk s d) ''_id'' = Some (BOid (Oid (dx_oids s)))"
  "map_of (newItem bk s d) ''public_id'' = Some (BStr (bk_publicId bk (dx_reads s)))"
  "k \<notin> {''_id'', ''public_id'', ''timestamps''} \<Longrightarrow> map_of (newItem bk s d) k = map_of d k"
  by (simp_all add: newItem_def createdAt_def)

text \<open>A new element with a fresh id and a fresh public id clashes with nothing.\<close>

lemma fresh_item:
  assumes "backend_ok bk" and "c \<noteq> UserCollection"
    and "map_of d ''subscriber_id'' = Some (BStr (ca_Tenant who))"
    and "getField ''_id'' x \<noteq> BOid (Oid (dx_oids s))" and "\<not> sat [public (bk_publicId bk (dx_reads s)), subscriber who] x"
  shows "\<not> clash (bk_unique bk c) (newItem bk s d) x"
proof -
  obtain a b where u: "bk_unique bk c = EnsureStoryGraphIndexes a c @ EnsureIdentityIndexes b c"
    using assms(1) unfolding backend_ok_def by blast
  have "getField ''subscriber_id'' x \<noteq> BStr (ca_Tenant who) \<or> getField ''public_id'' x \<noteq> BStr (bk_publicId bk (dx_reads s))"
    using assms(5) by (auto simp: public_def subscriber_def field_def equals_def getField_def split: option.splits)
  then show ?thesis
    using assms(2,3,4) by (auto simp: u clash_def EnsureStoryGraphIndexes_def EnsureIdentityIndexes_def getField_def newItem_fields)
qed

lemma find_after: "list_all (\<lambda>x. \<not> P x) as \<Longrightarrow> P d \<Longrightarrow> find P (as @ d # bs) = Some d"
  by (induction as) auto

text \<open>The database does what it is asked, and the ids that are drawn next are fresh.\<close>

definition fresh_for :: "Backend \<Rightarrow> Caller \<Rightarrow> Coll \<Rightarrow> Docs \<Rightarrow> bool" where
  "fresh_for bk who c s \<longleftrightarrow> list_all (\<lambda>x. getField ''_id'' x \<noteq> BOid (Oid (dx_oids s))
     \<and> \<not> sat [public (bk_publicId bk (dx_reads s)), subscriber who] x) (dx_colls s c)"

definition after_create :: "Backend \<Rightarrow> Caller \<Rightarrow> Coll \<Rightarrow> Doc \<Rightarrow> Docs \<Rightarrow> Docs" where
  "after_create bk who c d s = putColl c (dx_colls s c @ [newItem bk s (ownedBy who d)])
     (ticked (ticked (ticked (s\<lparr>dx_oids := Suc (dx_oids s)\<rparr>))))"

lemma create_run:
  assumes "\<And>n. bk_db bk n = Done" and "backend_ok bk" and "c \<noteq> UserCollection" and "fresh_for bk who c s"
  shows "run_state (createItem bk who c key d) s
    = ((200, [(key, ADoc (newItem bk s (ownedBy who d)))]), after_create bk who c d s)"
proof -
  have "map_of (ownedBy who d) ''subscriber_id'' = Some (BStr (ca_Tenant who))" by (simp add: ownedBy_def)
  from fresh_item [OF assms(2,3) this] assms(4)
  have "\<not> list_ex (clash (bk_unique bk c) (newItem bk s (ownedBy who d))) (dx_colls s c)"
    by (auto simp: fresh_for_def list_all_iff list_ex_iff)
  then show ?thesis
    by (simp add: createItem_def run_identified Insert_def done_runs(1) assms(1) insertRow_def answer_def after_create_def)
qed

lemma item_sat:
  "sat [public (bk_publicId bk (dx_reads s)), subscriber who] (newItem bk s (ownedBy who d))"
  by (simp add: public_def subscriber_def field_def equals_def newItem_fields ownedBy_def)

definition deletedItem :: "int \<Rightarrow> Doc \<Rightarrow> Doc" where
  "deletedItem now d = gomap_put ''timestamps'' (case getField ''timestamps'' d of
     BDoc t \<Rightarrow> BDoc (gomap_put ''deleted_at'' (BTime (bsonTime now)) t) | v \<Rightarrow> v) d"

lemma updated_deletion:
  "map_of d ''timestamps'' = Some (BDoc t) \<Longrightarrow> updated (deletion now) d = Some (deletedItem now d)"
  by (simp add: updated_def deletion_def deletedItem_def getField_def)

lemma delete_new:
  assumes works: "\<And>n. bk_db bk n = Done" and "backend_ok bk"
    and none: "list_all (\<lambda>x. \<not> sat f x) docs" and sat: "sat f item" and t: "map_of item ''timestamps'' = Some (BDoc t)"
    and "\<not> list_ex (clash (bk_unique bk c) item) docs" and s: "dx_colls s c = docs @ [item]"
  shows "run_state (softDelete bk c f) s
    = ((200, [(''status'', AStr ''ok'')]), putColl c (docs @ [deletedItem (bk_now bk (dx_reads s)) item]) (ticked (ticked s)))"
proof -
  let ?item = "deletedItem (bk_now bk (dx_reads s)) item"
  have "item \<notin> set docs" using none sat by (auto simp: list_all_iff)
  then have rest: "remove1 item (docs @ [item]) = docs" by (simp add: remove1_append)
  have "clash (bk_unique bk c) ?item x = clash (bk_unique bk c) item x" for x
  proof (rule clash_cong)
    show "map_of ?item k = map_of item k" if "ks \<in> set (bk_unique bk c)" "k \<in> set ks" for ks k
      using index_keys [OF assms(2) that(1)] that(2) by (cases "k = ''timestamps''") (auto simp: deletedItem_def)
  qed (simp add: deletedItem_def)
  then have "clash (bk_unique bk c) ?item = clash (bk_unique bk c) item" by (rule ext)
  then have "updateDoc (bk_unique bk c) (sat f) (deletion (bk_now bk (dx_reads s))) (docs @ [item]) = (None, docs @ [?item])"
    using find_after [OF none sat, of "[]"] updateFirst_at [OF none sat, of "\<lambda>_. ?item" "[]"] assms(6)
    by (simp add: updateDoc_def updated_deletion [OF t] rest updateOne_def)
  then show ?thesis
    by (simp add: softDelete_def timeNow_def Update_def done_runs(1) works s ok_def answer_def)
qed

text \<open>
  C28: The life of a storyline, when the database does its work, the ids drawn are new and the body has no
  timestamps: a creation stores the body as a new document of the tenant, which its
  id and the list of storylines give from then on; a deletion takes it off the list, but its id
  still gives it, with the time of its deletion.
\<close>

theorem storyline_life:
  assumes works: "\<And>n. bk_db bk n = Done" and "backend_ok bk" and fresh: "fresh_for bk who StorylineCollection s"
    and "bk_created bk \<noteq> ''deleted_at''" and "map_of d ''timestamps'' = None"
    and item: "item = newItem bk s (ownedBy who d)" and p: "p = bk_publicId bk (dx_reads s)"
    and s1: "s1 = snd (run_state (handleCreateStoryline bk who d) s)"
    and s2: "s2 = snd (run_state (handleDeleteStoryline bk who p) s1)"
    and old: "old = map (bk_struct bk StorylineCollection) (filter (sat [subscriber who, alive]) (dx_colls s StorylineCollection))"
  shows "fst (run_state (handleCreateStoryline bk who d) s) = (200, [(''storyline'', ADoc item)])
    \<and> fst (run_state (handleGetStoryline bk who p) s1) = (200, [(''storyline'', ADoc (bk_struct bk StorylineCollection item))])
    \<and> fst (run_state (handleGetStorylines bk who) s1)
        = (200, [(''storylines'', ADocs (old @ [bk_struct bk StorylineCollection item]))])
    \<and> fst (run_state (handleGetStorylines bk who) s2) = (200, [(''storylines'', ADocs old)])
    \<and> (\<exists>now. fst (run_state (handleGetStoryline bk who p) s2)
        = (200, [(''storyline'', ADoc (bk_struct bk StorylineCollection (deletedItem now item)))]))"
proof -
  let ?c = StorylineCollection let ?docs = "dx_colls s ?c" let ?f = "[public p, subscriber who]"
  have none: "list_all (\<lambda>x. \<not> sat ?f x) ?docs" using fresh by (auto simp: fresh_for_def list_all_iff p)
  have created: "run_state (handleCreateStoryline bk who d) s = ((200, [(''storyline'', ADoc item)]), after_create bk who ?c d s)"
    using create_run [OF works assms(2) _ fresh] by (simp add: handleCreateStoryline_def item)
  have docs1: "dx_colls s1 ?c = ?docs @ [item]" by (simp add: s1 created after_create_def item)
  have sat: "sat ?f item" using item_sat [of bk s who d] by (simp add: item p)
  have stamps: "map_of item ''timestamps'' = Some (BDoc [(bk_created bk, BTime (bsonTime (bk_now bk (Suc (dx_reads s)))))])"
    using assms(5) by (simp add: item newItem_def createdAt_def ownedBy_def getField_def)
  have living: "sat [subscriber who, alive] item"
    using sat assms(4) stamps by (simp add: alive_def equals_def)
  have clash: "\<not> list_ex (clash (bk_unique bk ?c) item) ?docs"
    using fresh fresh_item [OF assms(2), of ?c "ownedBy who d" who _ s]
    by (auto simp: fresh_for_def list_all_iff list_ex_iff item ownedBy_def)
  obtain now where docs2: "dx_colls s2 ?c = ?docs @ [deletedItem now item]"
    using delete_new [OF works assms(2) none sat stamps clash docs1] by (simp add: s2 handleDeleteStoryline_def p)
  have sat2: "sat ?f (deletedItem now item)"
    using sat by (simp add: deletedItem_def public_def subscriber_def field_def)
  have dead: "\<not> sat [subscriber who, alive] (deletedItem now item)"
    using stamps by (simp add: deletedItem_def getField_def alive_def equals_def)
  show ?thesis
    using living dead find_after [OF none sat, of "[]"] find_after [OF none sat2, of "[]"]
    by (simp add: created handleGetStoryline_def handleGetStorylines_def getItem_def listItems_def done_runs works
        answer_def docs1 docs2 old exI [of _ now])
qed

definition line_body :: Doc where
  "line_body = [(''name'', BStr ''line'')]"

theorem storyline_life_witness:
  "fst (run_state (handleGetStorylines (demo_backend (\<lambda>_. Done)) alice)
      (snd (run_state (handleCreateStoryline (demo_backend (\<lambda>_. Done)) alice line_body) demo_docs)))
    = (200, [(''storylines'', ADocs [newItem (demo_backend (\<lambda>_. Done)) demo_docs (ownedBy alice line_body)])])"
  using storyline_life [where bk = "demo_backend (\<lambda>_. Done)" and who = alice and s = demo_docs and d = line_body,
      OF _ demo_ok _ _ _ HOL.refl HOL.refl HOL.refl HOL.refl HOL.refl]
  by (simp add: fresh_for_def line_body_def) (simp add: demo_docs_def)

section \<open>Contacts that are not stored\<close>

lemma email_clash:
  assumes "List.member uniq [''tenant_id'', ''email'']" and "x \<in> set docs"
    and "getField ''tenant_id'' x = BOid t" and "getField ''email'' x = BStr e"
    and "map_of d ''tenant_id'' = Some (BOid t)" and "map_of d ''email'' = Some (BStr e)"
  shows "insertRow (clash uniq) d docs = (Some DuplicateKey, docs)"
proof -
  have "indexed [''tenant_id'', ''email''] x" using assms(4) by (auto simp: indexed_def getField_def split: option.splits)
  then have "clash uniq d x"
    using assms by (auto simp: clash_def list_ex_iff List.member_iff indexed_def getField_def intro!: bexI [of _ "[''tenant_id'', ''email'']"])
  then show ?thesis using assms(2) by (auto simp: insertRow_def list_ex_iff)
qed

text \<open>
  The address of a contact can be used once, and the answers do not say so: a contact that is created
  with the address of another contact of the tenant is answered as created, but it is not stored; and
  a visitor whose contact was deleted cannot register again, since the deleted contact keeps the
  address: every attempt is answered with a failure of the server.
\<close>

theorem contact_address_once:
  assumes works: "\<And>n. bk_db bk n = Done" and index: "List.member (bk_unique bk UserCollection) [''tenant_id'', ''email'']"
    and x: "x \<in> set (dx_colls s UserCollection)" "getField ''tenant_id'' x = BOid (ca_TenantOid who)" "getField ''email'' x = BStr e"
    and d: "map_of d ''email'' = Some (BStr e)" "\<not> fst (bk_consent bk d)"
    and req: "rr_Email req = e" "e \<noteq> []" "rr_SubscriberID req = []"
    and dead: "list_all (\<lambda>y. sat [field ''tenant_id'' (BOid (ca_TenantOid who)), field ''email'' (BStr e)] y \<longrightarrow> \<not> holds (BDoc y) alive)
      (dx_colls s UserCollection)"
    and hold: "\<And>n d k. k \<in> {''tenant_id'', ''email''} \<Longrightarrow> map_of (bk_ApplyHold bk n d) k = map_of d k"
  shows "fst (run_state (handleCreateUser bk who d) s) = (200, [(''user'', ADoc (newItem bk s (ownedTwice who d)))])
    \<and> dx_colls (snd (run_state (handleCreateUser bk who d) s)) = dx_colls s
    \<and> fst (run_state (registerContact bk (ca_TenantOid who) req) s) = (500, [(''error'', AStr ''failed to create contact'')])
    \<and> dx_colls (snd (run_state (registerContact bk (ca_TenantOid who) req) s)) = dx_colls s"
proof -
  have refused: "insertRow (clash (bk_unique bk UserCollection)) d (dx_colls s UserCollection) = (Some DuplicateKey, dx_colls s UserCollection)"
    if "map_of d ''tenant_id'' = Some (BOid (ca_TenantOid who))" "map_of d ''email'' = Some (BStr e)" for d
    by (rule email_clash [OF index x that])
  have none: "filter (sat (sameContact (ca_TenantOid who) e)) (dx_colls s UserCollection) = []"
    using dead by (auto simp: filter_empty_conv sameContact_def list_all_iff)
  have "fst (run_state (handleCreateUser bk who d) s) = (200, [(''user'', ADoc (newItem bk s (ownedTwice who d)))])
      \<and> dx_colls (snd (run_state (handleCreateUser bk who d) s)) = dx_colls s"
    using d refused [of "newItem bk s (ownedTwice who d)"]
    by (simp add: handleCreateUser_def run_identified Insert_def done_runs(1) works newItem_fields ownedTwice_def
        Invalidate_def answer_def)
  moreover have "fst (run_state (registerContact bk (ca_TenantOid who) req) s) = (500, [(''error'', AStr ''failed to create contact'')])
      \<and> dx_colls (snd (run_state (registerContact bk (ca_TenantOid who) req) s)) = dx_colls s"
    using req none by (simp add: registerContact_def insertContact_def done_runs works GeneratePublicId_def timeNow_def Insert_def
        Let_def refused hold createdAt_def refuse_def answer_def)
  ultimately show ?thesis by blast
qed

text \<open>A contact of a tenant that was deleted.\<close>

definition gone_docs :: Docs where
  "gone_docs = demo_docs\<lparr>dx_colls := (dx_colls demo_docs)(UserCollection :=
     [contactDoc alice 20 ''u1'' @ [(''timestamps'', BDoc [(''deleted_at'', BTime 5)])]])\<rparr>"

definition visitor :: registerUserRequest where
  "visitor = \<lparr>rr_Email = ''u1'', rr_FirstName = ''Ann'', rr_MiddleName = [], rr_LastName = ''Lee'', rr_Phone = [], rr_ListID = [],
     rr_Subscribed = True, rr_SubscriberID = [], rr_Domain = []\<rparr>"

theorem contact_address_once_witness:
  "fst (fst (run_state (registerContact (demo_backend (\<lambda>_. Done)) (ca_TenantOid alice) visitor) gone_docs)) = 500
    \<and> fst (fst (run_state (handleCreateUser (demo_backend (\<lambda>_. Done)) alice [(''email'', BStr ''u1'')]) gone_docs)) = 200"
  using contact_address_once [where bk = "demo_backend (\<lambda>_. Done)" and s = gone_docs and who = alice and e = "''u1''"
      and d = "[(''email'', BStr ''u1'')]" and req = visitor
      and x = "contactDoc alice 20 ''u1'' @ [(''timestamps'', BDoc [(''deleted_at'', BTime 5)])]"]
  by (simp add: gone_docs_def visitor_def contactDoc_def getField_def alive_def equals_def demo_unique_def
      EnsureIdentityIndexes_def EnsureStoryGraphIndexes_def storyGraphCollections_def)

section \<open>Badges\<close>

lemma find_only:
  assumes "b \<in> set docs" and "P b" and "\<And>x. x \<in> set docs \<Longrightarrow> P x \<Longrightarrow> x = b"
  shows "find P docs = Some b"
proof (cases "find P docs")
  case None
  then show ?thesis using assms(1,2) by (auto simp: find_None_iff)
next
  case (Some x)
  then have "x \<in> set docs" "P x" by (auto simp: find_Some_iff)
  then show ?thesis using assms(3) Some by blast
qed

lemma unclashing_rest:
  assumes "unclashing u docs" and "b \<in> set docs"
  shows "\<not> list_ex (clash u b) (remove1 b docs)"
proof -
  obtain as bs where docs: "docs = as @ b # bs" using assms(2) by (auto dest: split_list)
  have "clash u b b" by (simp add: clash_def)
  then have "b \<notin> set as" using assms(1) by (auto simp: docs unclashing_def sorted_wrt_append)
  then have "remove1 b docs = as @ bs" by (simp add: docs remove1_append)
  moreover have "\<not> clash u b x" if "x \<in> set as \<or> x \<in> set bs" for x
  proof -
    have "\<not> clash u x b \<or> \<not> clash u b x" using that assms(1) by (auto simp: docs unclashing_def sorted_wrt_append)
    then show ?thesis using clash_sym by blast
  qed
  ultimately show ?thesis by (auto simp: list_ex_iff)
qed

text \<open>Deleting a document by its id.\<close>

lemma delete_by_id:
  assumes "backend_ok bk" and "sound c (bk_unique bk c) docs" and "b \<in> set docs" and "map_of b ''timestamps'' = Some (BDoc t)"
  shows "deletedItem now b \<in> set (snd (updateDoc (bk_unique bk c) (sat [field ''_id'' (getField ''_id'' b)]) (deletion now) docs))"
proof -
  let ?P = "sat [field ''_id'' (getField ''_id'' b)]" let ?u = "bk_unique bk c"
  have tidy: "tidy c x" if "x \<in> set docs" for x using that assms(2) by (auto simp: sound_def list_all_iff)
  have P: "?P x \<longleftrightarrow> x = b" if "x \<in> set docs" for x
  proof
    assume "?P x"
    then have "getField ''_id'' x = getField ''_id'' b"
      using tidy [OF that] tidy [OF assms(3)]
      by (auto simp: tidy_def field_def equals_def getField_def split: option.splits)
    then show "x = b" using assms(2) by (intro ids_differ [OF _ that assms(3), of ?u]) (simp_all add: sound_def)
  next
    assume "x = b"
    then show "?P x" using tidy [OF assms(3)] by (auto simp: tidy_def field_def equals_def getField_def split: option.splits)
  qed
  have find: "find ?P docs = Some b"
    by (rule find_only [where P = ?P, OF assms(3) P [OF assms(3), THEN iffD2, OF HOL.refl] P [THEN iffD1]])
  from find_split [OF find] obtain as bs where s: "docs = as @ b # bs" "?P b" "list_all (\<lambda>x. \<not> ?P x) as" .
  have "clash ?u (deletedItem now b) x = clash ?u b x" for x
  proof (rule clash_cong)
    show "map_of (deletedItem now b) k = map_of b k" if "ks \<in> set ?u" "k \<in> set ks" for ks k
      using index_keys [OF assms(1) that(1)] that(2) by (cases "k = ''timestamps''") (auto simp: deletedItem_def)
  qed (simp add: deletedItem_def)
  then have same: "clash ?u (deletedItem now b) = clash ?u b" by (rule ext)
  have "\<not> list_ex (clash ?u b) (remove1 b docs)" using unclashing_rest assms(2,3) by (auto simp: sound_def)
  then show ?thesis
    using find updateFirst_at [where P = ?P and f = "\<lambda>_. deletedItem now b" and bs = bs, OF s(3,2)]
    by (simp add: updateDoc_def updated_deletion [OF assms(4)] same updateOne_def s(1))
qed

text \<open>
  A badge that a contact holds is deleted all the same when the count of its holders fails: the failed
  count is taken for zero, the answer is ok, and the contact is left with a badge that is deleted. When the count
  succeeds the deletion is refused.
\<close>

theorem held_badge_deleted:
  assumes db: "bk_db bk (dx_reads s) = Done" "bk_db bk (dx_reads s + 5) = Done"
    and backend: "backend_ok bk" "collections_ok bk s"
    and b: "find (sat [public i, subscriber who, alive]) (dx_colls s BadgeCollection) = Some b"
      "map_of b ''timestamps'' = Some (BDoc t)"
    and u: "u \<in> set (dx_colls s UserCollection)" "sat [field ''badges'' (getField ''_id'' b), alive] u"
    and offers: "dx_colls s OfferCollection = []"
    and run: "run_state (handleDeleteBadge bk who i) s = (reply, s')"
  shows "if bk_db bk (Suc (dx_reads s)) = Done then fst reply = 409 \<and> dx_colls s' = dx_colls s
    else fst reply = 200 \<and> (\<exists>now. deletedItem now b \<in> set (dx_colls s' BadgeCollection)) \<and> u \<in> set (dx_colls s' UserCollection)"
proof -
  let ?badge = "bk_struct bk BadgeCollection b"
  have id: "getField ''_id'' ?badge = getField ''_id'' b" using backend(1) by (simp add: backend_ok_def)
  have find: "run_state (FindOne bk BadgeCollection [public i, subscriber who, alive]) s = (Inr ?badge, ticked s)"
    using done_runs(2) [where bk = bk and s = s and c = BadgeCollection] db(1) b(1) by simp
  have none: "run_state (Count bk OfferCollection f) s1 = (0, ticked s1)" if "dx_colls s1 = dx_colls s" for f s1
    using that offers by (cases "bk_db bk (dx_reads s1)") (simp_all add: Count_def readColl_def)
  have b_in: "b \<in> set (dx_colls s BadgeCollection)" using b(1) by (auto simp: find_Some_iff)
  have sound: "sound BadgeCollection (bk_unique bk BadgeCollection) (dx_colls s BadgeCollection)"
    using backend(2) by (simp add: collections_ok_def)
  show ?thesis
  proof (cases "bk_db bk (Suc (dx_reads s)) = Done")
    case True
    have "filter (sat [field ''badges'' (getField ''_id'' b), alive]) (dx_colls s UserCollection) \<noteq> []"
      using u by (auto simp: filter_empty_conv)
    with True run show ?thesis
      by (auto simp: handleDeleteBadge_def find id done_runs offersGranting_def none answer_def)
  next
    case False
    then have "run_state (Count bk UserCollection f) (ticked s) = (0, ticked (ticked s))" for f
      by (cases "bk_db bk (Suc (dx_reads s))") (simp_all add: Count_def readColl_def)
    moreover have "bk_db bk (Suc (Suc (Suc (Suc (Suc (dx_reads s)))))) = Done" using db(2) by (simp add: numeral_eq_Suc)
    ultimately have "fst reply = 200 \<and> s' = putColl BadgeCollection (snd (updateDoc (bk_unique bk BadgeCollection)
        (sat [field ''_id'' (getField ''_id'' b)]) (deletion (bk_now bk (Suc (Suc (Suc (Suc (dx_reads s))))))) (dx_colls s BadgeCollection)))
        (ticked (ticked (ticked (ticked (ticked (ticked s))))))"
      using run by (auto simp: handleDeleteBadge_def find id offersGranting_def none answer_def timeNow_def Update_def done_runs(1)
          ok_def)
    with False show ?thesis using delete_by_id [OF backend(1) sound b_in b(2)] u(1) by auto
  qed
qed

text \<open>A contact with a badge, and a database that fails when the holders are counted.\<close>

definition holder_docs :: Docs where
  "holder_docs = demo_docs\<lparr>dx_colls := (dx_colls demo_docs)(
     BadgeCollection := [badgeDoc alice 30 ''b1'' @ [(''timestamps'', BDoc [(''created_at'', BTime 1)])]],
     UserCollection := [contactDoc alice 20 ''u1'' @ [(''badges'', BArr [BOid (Oid 30)])]])\<rparr>"

definition slow_count :: "nat \<Rightarrow> db_reply" where
  "slow_count n = (if n = 1 then Refused ''timeout'' else Done)"

lemma holder_docs_ok: "collections_ok (demo_backend r) holder_docs"
  by (simp add: collections_ok_def sound_def holder_docs_def demo_docs_def unclashing_def tidy_def storyDoc_def contactDoc_def badgeDoc_def
      ownerKey_def getField_def clash_def demo_unique_def EnsureStoryGraphIndexes_def EnsureIdentityIndexes_def
      storyGraphCollections_def indexed_def alice_def bob_def)

theorem held_badge_deleted_witness:
  "fst (fst (run_state (handleDeleteBadge (demo_backend slow_count) alice ''b1'') holder_docs)) = 200
    \<and> fst (fst (run_state (handleDeleteBadge (demo_backend (\<lambda>_. Done)) alice ''b1'') holder_docs)) = 409"
proof -
  note simps = holder_docs_def demo_docs_def badgeDoc_def contactDoc_def public_def subscriber_def field_def alive_def equals_def
    alice_def slow_count_def getField_def
  note held = held_badge_deleted [where s = holder_docs and who = alice and i = "''b1''" and t = "[(''created_at'', BTime 1)]"
      and b = "badgeDoc alice 30 ''b1'' @ [(''timestamps'', BDoc [(''created_at'', BTime 1)])]"
      and u = "contactDoc alice 20 ''u1'' @ [(''badges'', BArr [BOid (Oid 30)])]",
      OF _ _ demo_ok holder_docs_ok _ _ _ _ _ surjective_pairing]
  from held [of slow_count] held [of "\<lambda>_. Done"] show ?thesis by (simp add: simps)
qed

end
