(* ===== verification/StoryEditor.thy ===== *)
theory StoryEditor
  imports StoryReads
begin

text \<open>
  A story as the editor reads it (\<open>hydrateStory\<close> in \<open>src/routes/story.go\<close>) beside the same story as
  the engine reads it (\<open>hydrateStoryGraph\<close> in \<open>src/routes/story_engine.go\<close>).
\<close>

section \<open>When the database answers every read\<close>

text \<open>The collections as the structs that are read from them.\<close>

definition storeOf :: "Backend \<Rightarrow> (Coll \<Rightarrow> Doc list) \<Rightarrow> Store" where
  "storeOf bk cs = \<lparr>db_Stories = map (bk_Story bk) (cs StoryCollection),
     db_Storylines = map (bk_Storyline bk) (cs StorylineCollection),
     db_Enactments = map (bk_Enactment bk) (cs EnactmentCollection),
     db_Scenes = map (bk_Scene bk) (cs SceneCollection), db_Messages = map (bk_Message bk) (cs MessageCollection),
     db_Triggers = map (bk_Trigger bk) (cs TriggerCollection), db_Actions = map (bk_Action bk) (cs ActionCollection),
     db_Users = [], db_sortActs = bk_sortActs bk, db_sortStorylines = bk_sortStorylines bk\<rparr>"

text \<open>What the editor shows when no read fails: \<open>hydrateStory\<close> on one state of the collections.\<close>

definition shownMerge :: "Store \<Rightarrow> string \<Rightarrow> Storyline list \<Rightarrow> ObjectId \<Rightarrow> Storyline list" where
  "shownMerge db tid sls i =
     (case find_owned stl_Id stl_SubscriberId (db_Storylines db) tid i of
        None \<Rightarrow> sls
      | Some sl \<Rightarrow> if List.member (map stl_PublicId sls) (stl_PublicId sl) then sls else sls @ [sl])"

definition shownScene :: "Store \<Rightarrow> string \<Rightarrow> Scene \<Rightarrow> Scene" where
  "shownScene db tid sc =
     (case find_public scn_PublicId scn_SubscriberId (db_Scenes db) tid (scn_PublicId sc) of
        None \<Rightarrow> sc | Some fresh \<Rightarrow> fresh)"

definition shownAct :: "Store \<Rightarrow> string \<Rightarrow> Enactment \<Rightarrow> Enactment" where
  "shownAct db tid en =
     (case find_public ent_PublicId ent_SubscriberId (db_Enactments db) tid (ent_PublicId en) of
        None \<Rightarrow> en
      | Some d \<Rightarrow>
          (let fresh = hydrateEnactment db tid d in
           fresh\<lparr>ent_SendScene := map_option (\<lambda>sc. if scn_PublicId sc \<noteq> [] then shownScene db tid sc else sc)
                   (ent_SendScene fresh),
                 ent_SendScenes := map (shownScene db tid) (ent_SendScenes fresh)\<rparr>))"

definition shownActs :: "Store \<Rightarrow> string \<Rightarrow> Storyline \<Rightarrow> Storyline" where
  "shownActs db tid sl =
     (case (stl_Acts sl, stl_ActIds sl) of
        ([], Some r) \<Rightarrow> sl\<lparr>stl_Acts := sliceSort ent_NaturalOrder (db_sortActs db)
          (List.map_filter (find_owned ent_Id ent_SubscriberId (db_Enactments db) tid) (cis_Ids r))\<rparr>
      | _ \<Rightarrow> sl)"

definition shownStoryline :: "Store \<Rightarrow> string \<Rightarrow> Storyline \<Rightarrow> Storyline" where
  "shownStoryline db tid sl =
     (case find_public stl_PublicId stl_SubscriberId (db_Storylines db) tid (stl_PublicId sl) of
        None \<Rightarrow> sl
      | Some d \<Rightarrow> (let fresh = shownActs db tid d in fresh\<lparr>stl_Acts := map (shownAct db tid) (stl_Acts fresh)\<rparr>))"

definition shownStory :: "Store \<Rightarrow> Story \<Rightarrow> Story" where
  "shownStory db story =
     (let tid = sto_SubscriberId story;
          merged = (case sto_StorylineIds story of
              None \<Rightarrow> sto_Storylines story
            | Some r \<Rightarrow> foldl (shownMerge db tid) (sto_Storylines story) (cis_Ids r)) in
      story\<lparr>sto_Storylines := sliceSort stl_NaturalOrder (db_sortStorylines db) (map (shownStoryline db tid) merged)\<rparr>)"

text \<open>A read of the given collections with a given result, which leaves them as they are.\<close>

definition settles :: "(Coll \<Rightarrow> Doc list) \<Rightarrow> 'a docs \<Rightarrow> 'a \<Rightarrow> bool" where
  "settles cs m v \<longleftrightarrow> (\<forall>s. dx_colls s = cs \<longrightarrow> fst (run_state m s) = v \<and> dx_colls (snd (run_state m s)) = cs)"

lemma settles_ret: "x = v \<Longrightarrow> settles cs (ret x) v"
  by (simp add: settles_def)

lemma settles_bind: "settles cs m v \<Longrightarrow> settles cs (k v) w \<Longrightarrow> settles cs (m \<bind> k) w"
  by (simp add: settles_def split_beta)

lemma settles_mapC: "(\<And>x. settles cs (f x) (g x)) \<Longrightarrow> settles cs (mapC f xs) (map g xs)"
  by (induction xs) (auto intro!: settles_bind settles_ret)

lemma settles_readAll:
  "(\<And>x. settles cs (f x) (g x)) \<Longrightarrow> settles cs (readAll f xs) (List.map_filter g xs)"
  unfolding readAll_def
  by (rule settles_bind [OF settles_mapC]) (auto intro!: settles_ret simp: List.map_filter_def comp_def filter_map)

lemma settles_foldC:
  "(\<And>b x. settles cs (f b x) (g b x)) \<Longrightarrow> settles cs (foldC f b xs) (foldl g b xs)"
  by (induction xs arbitrary: b) (auto intro!: settles_bind settles_ret)

lemma settles_optC: "(\<And>x. settles cs (f x) (g x)) \<Longrightarrow> settles cs (optC f m) (map_option g m)"
  by (auto simp: optC_def intro!: settles_bind settles_ret split: option.split)

lemma settles_readOne:
  assumes "\<And>n. bk_db bk n = Done"
  shows "settles cs (readOne bk c read query) (query (map read (cs c)))"
  using assms by (auto simp: settles_def readOne_def readColl_def tick_def split: option.split)

lemma settles_readScene:
  assumes "\<And>n. bk_db bk n = Done"
  shows "settles cs (readScene bk tid i) (loadScene (storeOf bk cs) tid i)"
  unfolding readScene_def loadScene_def storeOf_def Store.select_convs
  by (rule settles_bind [OF settles_readOne [OF assms]])
    (auto intro!: settles_ret settles_bind [OF settles_readOne [OF assms]] split: option.split)

lemma settles_readTrigger:
  assumes "\<And>n. bk_db bk n = Done"
  shows "settles cs (readTrigger bk tid i) (hydrateTrigger (storeOf bk cs) tid i)"
  unfolding readTrigger_def hydrateTrigger_def storeOf_def Store.select_convs
  by (rule settles_bind [OF settles_readOne [OF assms]])
    (auto intro!: settles_ret settles_bind [OF settles_readOne [OF assms]] split: option.split)

lemma settles_readEnactment:
  assumes "\<And>n. bk_db bk n = Done"
  shows "settles cs (readEnactment bk tid en) (hydrateEnactment (storeOf bk cs) tid en)"
proof -
  have scene: "settles cs (case (ent_SendScene en, ent_SendSceneId en) of (None, Some r) \<Rightarrow> readScene bk tid (ci_Id r) | (sc, _) \<Rightarrow> ret sc)
      (case (ent_SendScene en, ent_SendSceneId en) of (None, Some r) \<Rightarrow> loadScene (storeOf bk cs) tid (ci_Id r) | (sc, _) \<Rightarrow> sc)"
    by (auto intro!: settles_ret settles_readScene [OF assms] split: option.split)
  have scenes: "settles cs (case (ent_SendScenes en, ent_SendScenesIds en) of
        ([], Some r) \<Rightarrow> readAll (readScene bk tid) (cis_Ids r) | (scs, _) \<Rightarrow> ret scs)
      (case (ent_SendScenes en, ent_SendScenesIds en) of
        ([], Some r) \<Rightarrow> List.map_filter (loadScene (storeOf bk cs) tid) (cis_Ids r) | (scs, _) \<Rightarrow> scs)"
    by (auto intro!: settles_ret settles_readAll settles_readScene [OF assms] split: option.split list.split)
  have events: "settles cs (case (ent_OnEvent en, ent_OnEventIds en) of
        ([], Some r) \<Rightarrow> do { trs \<leftarrow> readAll (readTrigger bk tid) (cis_Ids r); ret (foldl addEvent [] trs) } | (m, _) \<Rightarrow> ret m)
      (case (ent_OnEvent en, ent_OnEventIds en) of
        ([], Some r) \<Rightarrow> foldl addEvent [] (List.map_filter (hydrateTrigger (storeOf bk cs) tid) (cis_Ids r)) | (m, _) \<Rightarrow> m)"
    by (auto intro!: settles_ret settles_bind [OF settles_readAll [OF settles_readTrigger [OF assms]]] split: option.split list.split)
  show ?thesis
    unfolding readEnactment_def hydrateEnactment_def
    by (rule settles_bind [OF scene], rule settles_bind [OF scenes], rule settles_bind [OF events], rule settles_ret [OF refl])
qed

lemma settles_freshScene:
  assumes "\<And>n. bk_db bk n = Done"
  shows "settles cs (freshScene bk tid sc) (shownScene (storeOf bk cs) tid sc)"
  unfolding freshScene_def shownScene_def storeOf_def Store.select_convs
  by (rule settles_bind [OF settles_readOne [OF assms]]) (rule settles_ret [OF refl])

lemma settles_freshAct:
  assumes "\<And>n. bk_db bk n = Done"
  shows "settles cs (freshAct bk tid en) (shownAct (storeOf bk cs) tid en)"
proof -
  have scene: "settles cs (if scn_PublicId sc \<noteq> [] then freshScene bk tid sc else ret sc)
      (if scn_PublicId sc \<noteq> [] then shownScene (storeOf bk cs) tid sc else sc)" for sc
    by (simp add: settles_freshScene [OF assms] settles_ret)
  have acts: "db_Enactments (storeOf bk cs) = map (bk_Enactment bk) (cs EnactmentCollection)" by (simp add: storeOf_def)
  show ?thesis
    unfolding freshAct_def shownAct_def Let_def acts
    by (rule settles_bind [OF settles_readOne [OF assms]])
      (auto intro!: settles_ret settles_bind [OF settles_readEnactment [OF assms]] settles_bind [OF settles_optC [OF scene]]
        settles_bind [OF settles_mapC [OF settles_freshScene [OF assms]]] split: option.split)
qed

lemma settles_withActs:
  assumes "\<And>n. bk_db bk n = Done"
  shows "settles cs (withActs bk tid sl) (shownActs (storeOf bk cs) tid sl)"
  unfolding withActs_def shownActs_def storeOf_def Store.select_convs
  by (auto intro!: settles_ret settles_bind [OF settles_readAll [OF settles_readOne [OF assms]]] split: option.split list.split)

lemma settles_freshStoryline:
  assumes "\<And>n. bk_db bk n = Done"
  shows "settles cs (freshStoryline bk tid sl) (shownStoryline (storeOf bk cs) tid sl)"
proof -
  have lines: "db_Storylines (storeOf bk cs) = map (bk_Storyline bk) (cs StorylineCollection)" by (simp add: storeOf_def)
  show ?thesis
    unfolding freshStoryline_def shownStoryline_def Let_def lines
    by (rule settles_bind [OF settles_readOne [OF assms]])
      (auto intro!: settles_ret settles_bind [OF settles_withActs [OF assms]]
        settles_bind [OF settles_mapC [OF settles_freshAct [OF assms]]] split: option.split)
qed

lemma settles_merge:
  assumes "\<And>n. bk_db bk n = Done"
  shows "settles cs (mergeStoryline bk tid sls i) (shownMerge (storeOf bk cs) tid sls i)"
  unfolding mergeStoryline_def shownMerge_def storeOf_def Store.select_convs
  by (rule settles_bind [OF settles_readOne [OF assms]]) (rule settles_ret [OF refl])

lemma hydrateStory_shows:
  assumes "\<And>n. bk_db bk n = Done"
  shows "fst (run_state (hydrateStory bk story) s) = shownStory (storeOf bk (dx_colls s)) story"
proof -
  let ?cs = "dx_colls s" and ?tid = "sto_SubscriberId story"
  have merged: "settles ?cs (case sto_StorylineIds story of None \<Rightarrow> ret (sto_Storylines story)
        | Some r \<Rightarrow> foldC (mergeStoryline bk ?tid) (sto_Storylines story) (cis_Ids r))
      (case sto_StorylineIds story of None \<Rightarrow> sto_Storylines story
        | Some r \<Rightarrow> foldl (shownMerge (storeOf bk ?cs) ?tid) (sto_Storylines story) (cis_Ids r))"
    by (auto intro!: settles_ret settles_foldC settles_merge [OF assms] split: option.split)
  have "settles ?cs (hydrateStory bk story) (shownStory (storeOf bk ?cs) story)"
    unfolding hydrateStory_def shownStory_def Let_def
    by (rule settles_bind [OF merged], rule settles_bind [OF settles_mapC [OF settles_freshStoryline [OF assms]]])
      (rule settles_ret, simp add: storeOf_def)
  then show ?thesis by (simp add: settles_def)
qed

section \<open>Stories a script deployed\<close>

lemma find_public_SomeD: "find_public pid owner docs tid p = Some d \<Longrightarrow> d \<in> set docs \<and> pid d = p \<and> owner d = tid"
  by (auto simp: find_public_def find_Some_iff)

lemma find_public_finds: "d \<in> set docs \<Longrightarrow> owner d = tid \<Longrightarrow> \<exists>d'. find_public pid owner docs tid (pid d) = Some d'"
  by (cases "find_public pid owner docs tid (pid d)") (auto simp: find_public_def find_None_iff)

lemma merged_stored:
  assumes "sl \<in> set (foldl (shownMerge db tid) sls ids)"
  shows "sl \<in> set sls \<or> sl \<in> set (db_Storylines db) \<and> stl_SubscriberId sl = tid"
  using assms
proof (induction ids arbitrary: sls)
  case (Cons i ids)
  then have "sl \<in> set (shownMerge db tid sls i) \<or> sl \<in> set (db_Storylines db) \<and> stl_SubscriberId sl = tid" by simp
  then show ?case by (auto simp: shownMerge_def dest!: find_owned_SomeD split: option.splits if_splits)
qed simp

lemma loadScene_stored:
  "loadScene db tid i = Some sc \<Longrightarrow> \<exists>d\<in>set (db_Scenes db). scn_PublicId sc = scn_PublicId d \<and> scn_SubscriberId d = tid"
  by (auto simp: loadScene_def dest!: find_owned_SomeD split: option.splits prod.splits)

lemma shownScene_stored:
  assumes "d \<in> set (db_Scenes db)" and "scn_PublicId sc = scn_PublicId d" and "scn_SubscriberId d = tid"
  shows "shownScene db tid sc \<in> set (db_Scenes db)"
proof -
  obtain d' where "find_public scn_PublicId scn_SubscriberId (db_Scenes db) tid (scn_PublicId d) = Some d'"
    using find_public_finds [where owner = scn_SubscriberId, OF assms(1,3)] by blast
  then show ?thesis using assms(2) by (auto simp: shownScene_def dest: find_public_SomeD)
qed

lemma hydrated_scenes:
  assumes "stripped db" and "en \<in> set (db_Enactments db)" and "sc \<in> set (ent_SendScenes (hydrateEnactment db tid en))"
  shows "shownScene db tid sc \<in> set (db_Scenes db)"
proof -
  have "ent_SendScenes en = []" using assms(1,2) by (auto simp: stripped_def list_all_iff)
  then obtain i where "loadScene db tid i = Some sc"
    using assms(3) by (auto simp: hydrateEnactment_def List.map_filter_def split: option.splits)
  from loadScene_stored [OF this] shownScene_stored show ?thesis by blast
qed

lemma shownAct_scenes:
  assumes "stripped db" and "a \<in> set (db_Enactments db)" and "ent_SubscriberId a = tid"
    and "sc \<in> set (ent_SendScenes (shownAct db tid a))"
  shows "sc \<in> set (db_Scenes db)"
proof -
  obtain d where d: "find_public ent_PublicId ent_SubscriberId (db_Enactments db) tid (ent_PublicId a) = Some d"
    using find_public_finds [where owner = ent_SubscriberId, OF assms(2,3)] by blast
  then have "d \<in> set (db_Enactments db)" by (auto dest: find_public_SomeD)
  with assms(1,4) d show ?thesis by (auto simp: shownAct_def Let_def intro: hydrated_scenes)
qed

lemma shownActs_stored:
  assumes "stripped db" and "store_sorts db" and "d \<in> set (db_Storylines db)" and "a \<in> set (stl_Acts (shownActs db tid d))"
  shows "a \<in> set (db_Enactments db) \<and> ent_SubscriberId a = tid"
proof -
  have none: "stl_Acts d = []" using assms(1,3) by (auto simp: stripped_def list_all_iff)
  have sorts: "sorts ent_NaturalOrder (db_sortActs db)" using assms(2) by (simp add: store_sorts_def)
  obtain i where "find_owned ent_Id ent_SubscriberId (db_Enactments db) tid i = Some a"
    using assms(4) none
    by (auto simp: shownActs_def sliceSort_set [OF sorts] List.map_filter_def split: option.splits)
  from find_owned_SomeD [OF this] show ?thesis by blast
qed

lemma shown_bare:
  assumes db: "stripped db" "store_sorts db" and "sto_Storylines story = []"
    and sl: "sl \<in> set (sto_Storylines (shownStory db story))" and en: "en \<in> set (stl_Acts sl)"
    and sc: "sc \<in> set (ent_SendScenes en)"
  shows "scn_Message sc = None \<and> sc \<in> set (db_Scenes db)"
proof -
  let ?tid = "sto_SubscriberId story"
  have sorts: "sorts stl_NaturalOrder (db_sortStorylines db)" using db(2) by (simp add: store_sorts_def)
  obtain m where m: "m \<in> set (db_Storylines db)" "stl_SubscriberId m = ?tid" "sl = shownStoryline db ?tid m"
    using sl assms(3) merged_stored [of _ db ?tid "[]"]
    by (auto simp: shownStory_def Let_def sliceSort_set [OF sorts] split: option.splits)
  obtain d where d: "find_public stl_PublicId stl_SubscriberId (db_Storylines db) ?tid (stl_PublicId m) = Some d"
    using find_public_finds [where owner = stl_SubscriberId, OF m(1,2)] by blast
  then have "d \<in> set (db_Storylines db)" by (auto dest: find_public_SomeD)
  moreover obtain a where a: "a \<in> set (stl_Acts (shownActs db ?tid d))" "en = shownAct db ?tid a"
    using en m(3) d by (auto simp: shownStoryline_def Let_def)
  ultimately have "a \<in> set (db_Enactments db) \<and> ent_SubscriberId a = ?tid" using shownActs_stored [OF db] by blast
  with shownAct_scenes [OF db(1)] sc a(2) have "sc \<in> set (db_Scenes db)" by blast
  with db(1) show ?thesis by (auto simp: stripped_def list_all_iff)
qed

text \<open>
  C32: The editor shows the steps of a story that a script deployed without their messages: when the database
  answers every read and its documents embed none of their parts, every scene of the story is the stored document,
  read again by its public id, and its message, which is stored by reference, is not resolved; the engine, which
  sends the story, resolves it.
\<close>

theorem editor_loses_messages:
  assumes "\<And>n. bk_db bk n = Done" and "stripped (storeOf bk (dx_colls s))" and "store_sorts (storeOf bk (dx_colls s))"
    and "sto_Storylines story = []" and "sl \<in> set (sto_Storylines (fst (run_state (hydrateStory bk story) s)))"
    and "en \<in> set (stl_Acts sl)" and "sc \<in> set (ent_SendScenes en)"
  shows "scn_Message sc = None \<and> sc \<in> bk_Scene bk ` set (dx_colls s SceneCollection)"
proof -
  have "sl \<in> set (sto_Storylines (shownStory (storeOf bk (dx_colls s)) story))"
    using assms(5) hydrateStory_shows [of bk, OF assms(1)] by simp
  from shown_bare [OF assms(2-4) this assms(6,7)] show ?thesis by (simp add: storeOf_def)
qed

section \<open>An example\<close>

definition deployed :: "Coll \<Rightarrow> Doc list" where
  "deployed c =
     (let part = (\<lambda>i p rest. [(''_id'', BOid (Oid i)), (''public_id'', BStr p), (''subscriber_id'', BStr ''alice'')] @ rest) in
      if c = StorylineCollection then [part 51 ''l'' [(''act_ids'', BArr [BOid (Oid 52)])]]
      else if c = EnactmentCollection then [part 52 ''e'' [(''send_scenes_ids'', BArr [BOid (Oid 53)])]]
      else if c = SceneCollection then [part 53 ''s'' [(''message_id'', BOid (Oid 54))]]
      else if c = MessageCollection then [part 54 ''m'' []] else [])"

definition deployed_db :: Store where
  "deployed_db = storeOf (demo_backend (\<lambda>_. Done)) deployed"

definition deployed_story :: Story where
  "deployed_story = demo_Story [(''_id'', BOid (Oid 50)), (''public_id'', BStr ''story''), (''subscriber_id'', BStr ''alice''),
     (''storyline_ids'', BArr [BOid (Oid 51)])]"

definition messages_of :: "Story \<Rightarrow> string option list" where
  "messages_of story = concat (map (\<lambda>sl. concat (map (\<lambda>en. map (\<lambda>sc. map_option msg_PublicId (scn_Message sc)) (ent_SendScenes en))
     (stl_Acts sl))) (sto_Storylines story))"

lemmas demo_decoders = demo_Story_def demo_Storyline_def demo_Enactment_def demo_Scene_def demo_Message_def strField_def
  oidField_def idsField_def intField_def getField_def

lemma deployed_simps:
  "db_Storylines deployed_db = map demo_Storyline (deployed StorylineCollection)"
  "db_Enactments deployed_db = map demo_Enactment (deployed EnactmentCollection)"
  "db_Scenes deployed_db = map demo_Scene (deployed SceneCollection)" "db_Messages deployed_db = map demo_Message (deployed MessageCollection)"
  "db_Triggers deployed_db = []" "db_Actions deployed_db = []"
  "db_sortActs deployed_db = sort_key ent_NaturalOrder" "db_sortStorylines deployed_db = sort_key stl_NaturalOrder"
  by (simp_all add: deployed_db_def storeOf_def deployed_def demo_backend_def)

lemma sorts_insertion: "sorts key (sort_key key)"
  by (simp add: sorts_def)

definition deployed_docs :: Docs where
  "deployed_docs = demo_docs\<lparr>dx_colls := deployed\<rparr>"

theorem editor_loses_messages_witness:
  "messages_of (hydrateStoryGraph deployed_db deployed_story) = [Some ''m'']
    \<and> messages_of (fst (run_state (hydrateStory (demo_backend (\<lambda>_. Done)) deployed_story) deployed_docs)) = [None]"
proof -
  let ?bk = "demo_backend (\<lambda>_. Done)"
  have db: "storeOf ?bk (dx_colls deployed_docs) = deployed_db" by (simp add: deployed_db_def deployed_docs_def)
  have works: "bk_db ?bk n = Done" for n by (simp add: demo_backend_def)
  have strip: "stripped (storeOf ?bk (dx_colls deployed_docs))" "store_sorts (storeOf ?bk (dx_colls deployed_docs))"
    unfolding db
    by (simp_all add: stripped_def store_sorts_def deployed_simps deployed_def Let_def demo_decoders sorts_insertion)
  have engine: "messages_of (hydrateStoryGraph deployed_db deployed_story) = [Some ''m'']"
    by (simp add: messages_of_def hydrateStoryGraph_def deployed_story_def addStoryline_def find_owned_def hydrateStoryline_def
        loadAct_def hydrateEnactment_def loadScene_def deployed_simps deployed_def Let_def demo_decoders sliceSort_def List.map_filter_def)
  have shown: "fst (run_state (hydrateStory ?bk deployed_story) deployed_docs) = shownStory deployed_db deployed_story"
    using hydrateStory_shows [of ?bk, OF works] by (simp add: db)
  obtain sl en sc where parts: "sto_Storylines (shownStory deployed_db deployed_story) = [sl]" "stl_Acts sl = [en]" "ent_SendScenes en = [sc]"
    by (simp add: shownStory_def deployed_story_def shownMerge_def shownStoryline_def shownActs_def shownAct_def find_public_def
        find_owned_def hydrateEnactment_def loadScene_def deployed_simps deployed_def Let_def demo_decoders sliceSort_def List.map_filter_def)
  have bare: "sto_Storylines deployed_story = []" by (simp add: deployed_story_def demo_Story_def)
  have "scn_Message sc = None"
    using editor_loses_messages [OF works strip bare, of sl en sc] by (simp add: shown parts)
  with engine show ?thesis by (simp add: messages_of_def shown parts)
qed

end
