(* ===== verification/HydratorText.thy ===== *)
theory HydratorText
  imports GoStrings Documents
begin

text \<open>
  The text the content worker of \<open>src/hydrator/hydrator.go\<close> handles: what it strips from generated
  HTML, what it escapes, the strings of a certificate in five languages, and the certificate
  that is used when nothing was generated. The date of a completion is printed in the time zone
  of the server, so its text is a parameter.
\<close>

section \<open>Lines\<close>

definition nl :: string where
  "nl = [CHR 0x0A]"

definition dq :: string where
  "dq = [CHR 0x22]"

definition quoted :: "string \<Rightarrow> string" where
  "quoted s = dq @ s @ dq"

fun unlines :: "string list \<Rightarrow> string" where
  "unlines [] = []"
| "unlines [l] = l"
| "unlines (l # ls) = l @ nl @ unlines ls"

section \<open>Generated HTML\<close>

definition fence :: string where
  "fence = ''```''"

definition stripCodeFences :: "string \<Rightarrow> string" where
  "stripCodeFences s =
     (let s = trim_space s;
          s = (if prefix fence s then
                 (case dropWhile (\<lambda>c. c \<noteq> CHR 0x0A) s of _ # rest \<Rightarrow> rest | [] \<Rightarrow> drop 3 s)
               else s);
          s = trim_space s;
          s = (if suffix fence s then take (length s - 3) s else s)
      in trim_space s)"

definition stripUnsafeHTML :: "string \<Rightarrow> string" where
  "stripUnsafeHTML html =
     (let html = replace_all ''<script'' ''<!-- script'' html;
          html = replace_all ''</script>'' ''-->'' html;
          html = replace_all ''<form'' ''<!-- form'' html;
          html = replace_all ''</form>'' ''-->'' html;
          html = replace_all ''<iframe'' ''<!-- iframe'' html;
          html = replace_all ''</iframe>'' ''-->'' html
      in html)"

definition escapeHTMLBasic :: "string \<Rightarrow> string" where
  "escapeHTMLBasic s =
     (let s = replace_all ''&'' ''&amp;'' s;
          s = replace_all ''<'' ''&lt;'' s;
          s = replace_all ''>'' ''&gt;'' s;
          s = replace_all dq ''&quot;'' s
      in s)"

section \<open>Certificates\<close>

record certStrings =
  cz_EyebrowCompletion :: string
  cz_LineCertifies :: string
  cz_LineCompleted :: string
  cz_LineOnDate :: string
  cz_LabelCertificateID :: string
  cz_PromptLanguageHint :: string

text \<open>The letters beyond ASCII, in UTF-8.\<close>

definition latin :: "nat \<Rightarrow> string" where
  "latin r = encode_rune r"

definition certStringTable :: "(string \<times> certStrings) list" where
  "certStringTable =
    [(''en'', \<lparr>cz_EyebrowCompletion = ''Certificate of Completion'', cz_LineCertifies = ''This certifies that'',
        cz_LineCompleted = ''has successfully completed'', cz_LineOnDate = ''on'', cz_LabelCertificateID = ''Certificate ID'',
        cz_PromptLanguageHint = ''Render all user-facing strings in English.''\<rparr>),
     (''es'', \<lparr>cz_EyebrowCompletion = ''Certificado de Finalizaci'' @ latin 0xF3 @ ''n'', cz_LineCertifies = ''Esto certifica que'',
        cz_LineCompleted = ''ha completado con '' @ latin 0xE9 @ ''xito'', cz_LineOnDate = ''el'',
        cz_LabelCertificateID = ''ID del certificado'',
        cz_PromptLanguageHint = ''Render all user-facing strings in Spanish.''\<rparr>),
     (''pt'', \<lparr>cz_EyebrowCompletion = ''Certificado de Conclus'' @ latin 0xE3 @ ''o'', cz_LineCertifies = ''Isto certifica que'',
        cz_LineCompleted = ''concluiu com sucesso'', cz_LineOnDate = ''em'', cz_LabelCertificateID = ''ID do certificado'',
        cz_PromptLanguageHint = ''Render all user-facing strings in Portuguese.''\<rparr>),
     (''fr'', \<lparr>cz_EyebrowCompletion = ''Certificat de R'' @ latin 0xE9 @ ''ussite'', cz_LineCertifies = ''Ceci certifie que'',
        cz_LineCompleted = ''a compl'' @ latin 0xE9 @ ''t'' @ latin 0xE9 @ '' avec succ'' @ latin 0xE8 @ ''s'', cz_LineOnDate = ''le'',
        cz_LabelCertificateID = ''Identifiant du certificat'',
        cz_PromptLanguageHint = ''Render all user-facing strings in French.''\<rparr>),
     (''de'', \<lparr>cz_EyebrowCompletion = ''Abschlusszertifikat'',
        cz_LineCertifies = ''Dies best'' @ latin 0xE4 @ ''tigt, dass'',
        cz_LineCompleted = ''erfolgreich abgeschlossen hat'', cz_LineOnDate = ''am'', cz_LabelCertificateID = ''Zertifikat-ID'',
        cz_PromptLanguageHint = ''Render all user-facing strings in German.''\<rparr>)]"

definition certEnglish :: certStrings where
  "certEnglish = (case map_of certStringTable ''en'' of Some s \<Rightarrow> s
     | None \<Rightarrow> \<lparr>cz_EyebrowCompletion = [], cz_LineCertifies = [], cz_LineCompleted = [], cz_LineOnDate = [],
         cz_LabelCertificateID = [], cz_PromptLanguageHint = []\<rparr>)"

text \<open>The language of a locale like \<open>es-MX\<close>: the part before a hyphen that is not the first character.\<close>

definition languageOf :: "string \<Rightarrow> string option" where
  "languageOf locale =
     (let l = takeWhile (\<lambda>c. c \<noteq> CHR ''-'') locale in
      if CHR ''-'' \<in> set locale \<and> l \<noteq> [] then Some l else None)"

definition pickCertStrings :: "string \<Rightarrow> certStrings" where
  "pickCertStrings locale =
     (case map_of certStringTable locale of
        Some s \<Rightarrow> s
      | None \<Rightarrow>
          (case Option.bind (languageOf locale) (map_of certStringTable) of
             Some s \<Rightarrow> s
           | None \<Rightarrow> certEnglish))"

text \<open>What is read of a certificate. The id is the document's, as it is.\<close>

record certificate =
  cf_Id :: Bson
  cf_TenantID :: "ObjectId option"
  cf_PublicId :: string
  cf_ContactName :: string
  cf_CourseTitle :: string
  cf_CompletedAt :: int
  cf_Template :: string
  cf_GenStatus :: string
  cf_Locale :: string

definition buildCertificatePrompt :: "(int \<Rightarrow> string) \<Rightarrow> certificate \<Rightarrow> string \<times> string" where
  "buildCertificatePrompt date cert =
     (let strs = pickCertStrings (cf_Locale cert);
          systemPrompt = unlines
            [''You are a certificate designer for online learning platforms.'',
             ''You produce elegant, professional certificate HTML suitable for PDF rendering.'',
             [],
             ''Rules:'',
             ''- Output a single-page certificate layout in clean HTML + inline CSS'',
             ''- Use a formal, professional design with borders and elegant typography'',
             ''- Page size: A4 landscape (297mm x 210mm)'',
             ''- Do NOT include <script>, <form>, or interactive elements'',
             ''- Do NOT use external fonts or images '' @ latin 0x2014 @ '' use system fonts (Georgia, Times New Roman, Arial)'',
             ''- '' @ cz_PromptLanguageHint strs];
          tmpl = (if cf_Template cert = [] then ''default'' else cf_Template cert)
      in (unlines
            [''Generate an HTML certificate with these details:'',
             [],
             ''Recipient Name: '' @ cf_ContactName cert,
             ''Course Title: '' @ cf_CourseTitle cert,
             ''Completion Date: '' @ date (cf_CompletedAt cert),
             ''Certificate ID: '' @ cf_PublicId cert,
             ''Template Style: '' @ tmpl,
             [],
             ''The certificate should feel premium and worth framing.''],
          systemPrompt))"

definition orText :: "string \<Rightarrow> string \<Rightarrow> string" where
  "orText s other = (if trim_space s = [] then other else trim_space s)"

definition certificateStyle :: "string list" where
  "certificateStyle =
     [''<!DOCTYPE html>'',
      ''<html><head><meta charset='' @ quoted ''utf-8'' @ ''><title>Certificate</title>'',
      ''<style>'',
      ''@page { size: A4 landscape; margin: 0; }'',
      ''body { font-family: Georgia, '' @ quoted ''Times New Roman'' @ '', serif; color: #1a1a2e; margin: 0; padding: 0; }'',
      ''.frame { width: 277mm; height: 190mm; margin: 10mm; padding: 18mm; border: 4px double #0f3460; text-align: center; box-sizing: border-box; }'',
      ''.eyebrow { font-size: 14pt; letter-spacing: 6px; text-transform: uppercase; color: #0f3460; margin-bottom: 18mm; }'',
      ''.recipient { font-size: 36pt; font-weight: 600; margin: 6mm 0; }'',
      ''.line { font-size: 13pt; color: #444; margin: 4mm 0; }'',
      ''.course { font-size: 22pt; font-style: italic; margin: 8mm 0; color: #0f3460; }'',
      ''.meta { margin-top: 18mm; font-size: 10pt; color: #555; display: flex; justify-content: space-between; }'',
      ''</style></head>'']"

definition division :: "string \<Rightarrow> string \<Rightarrow> string" where
  "division cls s = ''<div class='' @ quoted cls @ ''>'' @ s @ ''</div>''"

definition buildCertificateHTMLFallback :: "(int \<Rightarrow> string) \<Rightarrow> certificate \<Rightarrow> string" where
  "buildCertificateHTMLFallback date cert =
     (let strs = pickCertStrings (cf_Locale cert);
          completedDate = date (cf_CompletedAt cert);
          recipient = orText (cf_ContactName cert) ''Student'';
          title = orText (cf_CourseTitle cert) ''Course Completion''
      in unlines (certificateStyle @
        [''<body><div class='' @ quoted ''frame'' @ ''>'',
         division ''eyebrow'' (escapeHTMLBasic (cz_EyebrowCompletion strs)),
         division ''line'' (escapeHTMLBasic (cz_LineCertifies strs)),
         division ''recipient'' (escapeHTMLBasic recipient),
         division ''line'' (escapeHTMLBasic (cz_LineCompleted strs)),
         division ''course'' (escapeHTMLBasic title),
         division ''line'' (escapeHTMLBasic (cz_LineOnDate strs) @ '' '' @ completedDate),
         division ''meta'' (''<span>'' @ escapeHTMLBasic (cz_LabelCertificateID strs) @ '': '' @ cf_PublicId cert
           @ ''</span><span>'' @ completedDate @ ''</span>''),
         ''</div></body></html>'']))"

section \<open>What is stripped\<close>

text \<open>
  An occurrence of a pattern whose tail avoids the first character of the replacement is in the text
  already.
\<close>

lemma prefix_replace_all:
  "new \<noteq> [] \<Longrightarrow> hd new \<notin> set q \<Longrightarrow> prefix q (replace_all old new s) \<Longrightarrow> prefix q s"
proof (induction old new s arbitrary: q rule: replace_all.induct)
  case (2 old new c s)
  then show ?case by (cases new; cases q) (auto split: if_splits)
qed simp

lemma contains_replace_all:
  assumes "\<And>t. contains_str (a # q) (new @ t) = contains_str (a # q) t"
    and "new \<noteq> []" and "hd new \<notin> set q" and "\<not> contains_str (a # q) s \<or> old = a # q"
  shows "\<not> contains_str (a # q) (replace_all old new s)"
  using assms
proof (induction old new s rule: replace_all.induct)
  case (2 old new c s)
  show ?case
  proof (cases "old \<noteq> [] \<and> prefix old (c # s)")
    case True
    have "\<not> contains_str (a # q) (drop (length old) (c # s)) \<or> old = a # q"
      using 2(6) by (auto simp: contains_str_iff sublist_def) (metis append.assoc append_take_drop_id append_Cons)
    with 2 True show ?thesis by simp
  next
    case False
    then have "\<not> prefix (a # q) (c # replace_all old new s)"
      using 2(5,6) prefix_replace_all [OF 2(4,5), of old s] by auto
    with 2 False show ?thesis by auto
  qed
qed simp

text \<open>The opening tags of what a page must not hold.\<close>

definition unsafe_tags :: "string list" where
  "unsafe_tags = [''<script'', ''<form'', ''<iframe'']"

lemma unsafe_step:
  assumes "old = tag \<or> \<not> contains_str tag s" and "tag \<in> set unsafe_tags"
    and "new \<in> {''<!-- script'', ''<!-- form'', ''<!-- iframe'', ''-->''}"
  shows "\<not> contains_str tag (replace_all old new s)"
proof -
  obtain q where q: "tag = CHR ''<'' # q" "q \<in> {''script'', ''form'', ''iframe''}"
    using assms(2) by (auto simp: unsafe_tags_def)
  show ?thesis unfolding q(1)
    by (rule contains_replace_all) (use assms(1,3) q in auto)
qed

text \<open>
  No opening tag of a script, a form or an inline frame is left, in lower case as the function looks
  for it: a later replacement does not put together what an earlier one took apart.
\<close>

lemma stripUnsafeHTML_tags:
  "list_all (\<lambda>tag. \<not> contains_str tag (stripUnsafeHTML html)) unsafe_tags"
proof -
  have "\<not> contains_str tag (stripUnsafeHTML html)" if "tag \<in> set unsafe_tags" for tag
    using that by (auto simp: stripUnsafeHTML_def unsafe_step unsafe_tags_def)
  then show ?thesis by (simp add: list_all_iff)
qed

text \<open>A browser reads a tag in any case, and so the upper case of one goes through.\<close>

lemma stripUnsafeHTML_case: "stripUnsafeHTML ''<SCRIPT src=//x></SCRIPT>'' = ''<SCRIPT src=//x></SCRIPT>''"
  by code_simp

section \<open>What is escaped\<close>

definition entity :: "char \<Rightarrow> string" where
  "entity c =
     (if c = CHR ''&'' then ''&amp;'' else if c = CHR ''<'' then ''&lt;'' else if c = CHR ''>'' then ''&gt;''
      else if c = CHR 0x22 then ''&quot;'' else [c])"

lemma replace_all_char: "replace_all [c] new s = concat (map (\<lambda>x. if x = c then new else [x]) s)"
  by (induction s) auto

text \<open>
  The four replacements, one after the other, are one pass that gives each character its entity: the
  ampersand of an entity is not escaped again.
\<close>

lemma escapeHTMLBasic_entities: "escapeHTMLBasic s = concat (map entity s)"
proof (induction s)
  case Nil
  then show ?case by (simp add: escapeHTMLBasic_def dq_def)
next
  case (Cons c s)
  then show ?case
    by (simp add: escapeHTMLBasic_def dq_def replace_all_char entity_def del: replace_all.simps)
qed

text \<open>The characters that open, close or quote markup.\<close>

definition markup :: "char \<Rightarrow> bool" where
  "markup c \<longleftrightarrow> c \<in> {CHR ''<'', CHR ''>'', CHR 0x22}"

lemma filter_entities: "filter markup (concat (map entity s)) = []"
  by (induction s) (auto simp: entity_def markup_def)

lemma filter_unlines: "filter markup (unlines ls) = concat (map (filter markup) ls)"
  by (induction ls rule: unlines.induct) (simp_all add: nl_def markup_def)

text \<open>
  C40: The name of a student and the title of a course add no markup to the certificate that is
  used when none was generated: its angle brackets and quotes are the same whatever they are.
\<close>

theorem fallback_markup:
  "filter markup (buildCertificateHTMLFallback date (cert\<lparr>cf_ContactName := name, cf_CourseTitle := title\<rparr>))
     = filter markup (buildCertificateHTMLFallback date cert)"
  unfolding buildCertificateHTMLFallback_def Let_def
  by (simp add: filter_unlines division_def escapeHTMLBasic_entities filter_entities)

end
