(* ===== verification/Hydrator.thy ===== *)
theory Hydrator
  imports HydratorText DocStore
begin

text \<open>
  The content worker of \<open>src/hydrator/hydrator.go\<close>: every thirty seconds a job looks for documents
  that wait for generated content, takes each in hand, asks a language model, and writes the
  result or the failure back.

  \<^item> Outside are the database (\<open>DocStore\<close>), the language model, the pages of the web, the service
    that renders PDF files, the object store and the queue of jobs: each is a function of the number
    of the call, so it may answer anything at any time.
  \<^item> A document is read by the tags of its struct; a value of another type leaves the field
    at zero.
\<close>

section \<open>What is outside\<close>

text \<open>
  The request could not be built, there was no answer, or there was one: its status, the bytes that
  could be read, and the error that ended the reading.
\<close>

datatype HttpReply = NoRequest string | NoAnswer string | Answered nat string "string option"

datatype PdfRequest =
    Generate string string string  \<comment> \<open>the markdown, the title and the theme\<close>
  | FromHtml string string  \<comment> \<open>the HTML and the title\<close>

text \<open>
  \<open>hx_candidates\<close> reads an answer of the language model: the parts of each candidate, a text and
  whether it is a thought. \<open>hx_date\<close> is \<open>Format("January 2, 2006")\<close> in the server's time zone and
  \<open>hx_quote\<close> is \<open>strconv.Quote\<close>.
\<close>

record Services =
  hx_bk :: Backend
  hx_session :: bool
  hx_key :: string
  hx_gemini :: "nat \<Rightarrow> string \<Rightarrow> string \<Rightarrow> string \<Rightarrow> HttpReply"
  hx_candidates :: "string \<Rightarrow> string + (string \<times> bool) list list"
  hx_get :: "nat \<Rightarrow> string \<Rightarrow> HttpReply"
  hx_pdf :: "nat \<Rightarrow> PdfRequest \<Rightarrow> HttpReply"
  hx_Storage :: bool
  hx_upload :: "nat \<Rightarrow> string \<Rightarrow> string \<Rightarrow> string + string"
  hx_enqueue :: "nat \<Rightarrow> string option"
  hx_date :: "int \<Rightarrow> string"
  hx_quote :: "string \<Rightarrow> string"

section \<open>State\<close>

text \<open>The documents, and what was asked of the renderer, the object store and the queue.\<close>

datatype JobCall = SweepAt int int | Prune int

record Hydration =
  hy_docs :: Docs
  hy_pdfs :: "PdfRequest list"
  hy_uploads :: "(string \<times> string) list"
  hy_jobs :: "JobCall list"

type_synonym 'a hydration = "(Hydration, 'a) state"

definition onDocs :: "'a docs \<Rightarrow> 'a hydration" where
  "onDocs m = State (\<lambda>s. let (x, d) = run_state m (hy_docs s) in (x, s\<lparr>hy_docs := d\<rparr>))"

definition now :: "Services \<Rightarrow> int hydration" where
  "now hx = onDocs (timeNow (hx_bk hx))"

text \<open>\<open>Find(\<dots>).Limit(n).All(&items)\<close>; on an error nothing is done.\<close>

definition FindLimit :: "Services \<Rightarrow> Coll \<Rightarrow> Filter \<Rightarrow> nat \<Rightarrow> Doc list hydration" where
  "FindLimit hx c f n = onDocs (do {
     r \<leftarrow> readColl (hx_bk hx) c (\<lambda>docs. Inr (take n (filter (sat f) docs)));
     ret (case r of Inl _ \<Rightarrow> [] | Inr items \<Rightarrow> items) })"

definition byId :: "Bson \<Rightarrow> Filter" where
  "byId i = [field ''_id'' i]"

text \<open>\<open>UpdateId(id, bson.M{"$set": \<dots>})\<close>, whose error is not looked at.\<close>

definition UpdateId :: "Services \<Rightarrow> Coll \<Rightarrow> Bson \<Rightarrow> (Path \<times> Bson) list \<Rightarrow> unit hydration" where
  "UpdateId hx c i sets = onDocs (do {
     _ \<leftarrow> Update (hx_bk hx) c (byId i) (map (\<lambda>(p, v). Put p v) sets);
     ret () })"

definition forEach :: "'a list \<Rightarrow> ('a \<Rightarrow> ('s, unit) state) \<Rightarrow> ('s, unit) state" where
  "forEach xs f = do { _ \<leftarrow> mapC f xs; ret () }"

definition numbers :: "'a list \<Rightarrow> (nat \<times> 'a) list" where
  "numbers xs = zip [0..<length xs] xs"

section \<open>Reading a document\<close>

definition asStr :: "Bson \<Rightarrow> string" where
  "asStr v = (case v of BStr s \<Rightarrow> s | _ \<Rightarrow> [])"

definition asInt :: "Bson \<Rightarrow> int" where
  "asInt v = (case v of BInt n \<Rightarrow> n | _ \<Rightarrow> 0)"

text \<open>The zero of \<open>time.Time\<close>, in seconds before the epoch.\<close>

definition asTime :: "Bson \<Rightarrow> int" where
  "asTime v = (case v of BTime t \<Rightarrow> t | _ \<Rightarrow> - 62135596800000000000)"

definition asOid :: "Bson \<Rightarrow> ObjectId option" where
  "asOid v = (case v of BOid i \<Rightarrow> Some i | _ \<Rightarrow> None)"

definition asStrs :: "Bson \<Rightarrow> string list" where
  "asStrs v = (case v of BArr xs \<Rightarrow> map asStr xs | _ \<Rightarrow> [])"

definition asItems :: "Bson \<Rightarrow> Bson list" where
  "asItems v = (case v of BArr xs \<Rightarrow> xs | _ \<Rightarrow> [])"

text \<open>An embedded struct, and a pointer to one.\<close>

definition asDoc :: "Bson \<Rightarrow> Doc" where
  "asDoc v = (case v of BDoc d \<Rightarrow> d | _ \<Rightarrow> [])"

definition asPtr :: "(Doc \<Rightarrow> 'a) \<Rightarrow> Bson \<Rightarrow> 'a option" where
  "asPtr rd v = (case v of BDoc d \<Rightarrow> Some (rd d) | _ \<Rightarrow> None)"

abbreviation str :: "string \<Rightarrow> Doc \<Rightarrow> string" where
  "str k d \<equiv> asStr (getField k d)"

record contentGen =
  cg_Length :: string
  cg_PromptAppend :: string
  cg_ContextURLs :: "string list"

definition read_contentGen :: "Doc \<Rightarrow> contentGen" where
  "read_contentGen d = \<lparr>cg_Length = str ''length'' d, cg_PromptAppend = str ''prompt_append'' d,
     cg_ContextURLs = asStrs (getField ''context_urls'' d)\<rparr>"

record aiContext =
  ax_ContextURLs :: "string list"

definition read_aiContext :: "Doc \<Rightarrow> aiContext" where
  "read_aiContext d = \<lparr>ax_ContextURLs = asStrs (getField ''context_urls'' d)\<rparr>"

record pdfConfig =
  pf_AIContext :: "aiContext option"

definition read_pdfConfig :: "Doc \<Rightarrow> pdfConfig" where
  "read_pdfConfig d = \<lparr>pf_AIContext = asPtr read_aiContext (getField ''ai_context'' d)\<rparr>"

record genConfig =
  gn_AssetType :: string
  gn_Instruction :: string
  gn_References :: "string list"
  gn_Theme :: string

definition read_genConfig :: "Doc \<Rightarrow> genConfig" where
  "read_genConfig d = \<lparr>gn_AssetType = str ''asset_type'' d, gn_Instruction = str ''instruction'' d,
     gn_References = asStrs (getField ''references'' d), gn_Theme = str ''theme'' d\<rparr>"

record pageBlock =
  pb_Id :: Bson
  pb_SectionID :: string
  pb_ContentGen :: "contentGen option"
  pb_AIContext :: "aiContext option"

definition read_pageBlock :: "Doc \<Rightarrow> pageBlock" where
  "read_pageBlock d = \<lparr>pb_Id = getField ''_id'' d, pb_SectionID = str ''section_id'' d,
     pb_ContentGen = asPtr read_contentGen (getField ''content_gen'' d),
     pb_AIContext = asPtr read_aiContext (getField ''ai_context'' d)\<rparr>"

record funnelStage =
  fs_Id :: Bson
  fs_PublicId :: string
  fs_Name :: string
  fs_PDFConfig :: "pdfConfig option"

definition read_funnelStage :: "Doc \<Rightarrow> funnelStage" where
  "read_funnelStage d = \<lparr>fs_Id = getField ''_id'' d, fs_PublicId = str ''public_id'' d, fs_Name = str ''name'' d,
     fs_PDFConfig = asPtr read_pdfConfig (getField ''pdf_config'' d)\<rparr>"

record asset =
  ast_Id :: Bson
  ast_PublicId :: string
  ast_TenantID :: "ObjectId option"
  ast_FileName :: string
  ast_GenConfig :: "genConfig option"

definition read_asset :: "Doc \<Rightarrow> asset" where
  "read_asset d = \<lparr>ast_Id = getField ''_id'' d, ast_PublicId = str ''public_id'' d,
     ast_TenantID = asOid (getField ''tenant_id'' d), ast_FileName = str ''file_name'' d,
     ast_GenConfig = asPtr read_genConfig (getField ''gen_config'' d)\<rparr>"

record mediaItem =
  mi_Id :: Bson
  mi_Title :: string
  mi_Description :: string
  mi_Kind :: string
  mi_DurationSec :: int

definition read_mediaItem :: "Doc \<Rightarrow> mediaItem" where
  "read_mediaItem d = \<lparr>mi_Id = getField ''_id'' d, mi_Title = str ''title'' d, mi_Description = str ''description'' d,
     mi_Kind = str ''kind'' d, mi_DurationSec = asInt (getField ''duration_sec'' d)\<rparr>"

record mediaChannel =
  mh_Id :: Bson
  mh_Title :: string
  mh_Layout :: string
  mh_Items :: "Bson list"

definition read_mediaChannel :: "Doc \<Rightarrow> mediaChannel" where
  "read_mediaChannel d = \<lparr>mh_Id = getField ''_id'' d, mh_Title = str ''title'' d, mh_Layout = str ''layout'' d,
     mh_Items = asItems (getField ''items'' d)\<rparr>"

text \<open>\<open>contentGenConfig\<close> and \<open>descGenConfig\<close> have the same fields.\<close>

record contentGenConfig =
  cc_Instruction :: string
  cc_References :: "string list"

definition read_contentGenConfig :: "Doc \<Rightarrow> contentGenConfig" where
  "read_contentGenConfig d = \<lparr>cc_Instruction = str ''instruction'' d, cc_References = asStrs (getField ''references'' d)\<rparr>"

record courseLesson =
  cl_Title :: string
  cl_Order :: int
  cl_ContentGenStatus :: string
  cl_ContentGenConfig :: "contentGenConfig option"

definition read_courseLesson :: "Doc \<Rightarrow> courseLesson" where
  "read_courseLesson d = \<lparr>cl_Title = str ''title'' d, cl_Order = asInt (getField ''order'' d),
     cl_ContentGenStatus = str ''content_gen_status'' d,
     cl_ContentGenConfig = asPtr read_contentGenConfig (getField ''content_gen_config'' d)\<rparr>"

record courseModule =
  cm_Title :: string
  cm_Order :: int
  cm_Lessons :: "courseLesson list"

definition read_courseModule :: "Doc \<Rightarrow> courseModule" where
  "read_courseModule d = \<lparr>cm_Title = str ''title'' d, cm_Order = asInt (getField ''order'' d),
     cm_Lessons = map (read_courseLesson \<circ> asDoc) (asItems (getField ''lessons'' d))\<rparr>"

record lmsProduct =
  lp_Id :: Bson
  lp_Name :: string
  lp_Description :: string
  lp_InstructorName :: string
  lp_CourseModules :: "courseModule list"
  lp_DescriptionGenConfig :: "contentGenConfig option"

definition read_lmsProduct :: "Doc \<Rightarrow> lmsProduct" where
  "read_lmsProduct d = \<lparr>lp_Id = getField ''_id'' d, lp_Name = str ''name'' d, lp_Description = str ''description'' d,
     lp_InstructorName = str ''instructor_name'' d,
     lp_CourseModules = map (read_courseModule \<circ> asDoc) (asItems (getField ''course_modules'' d)),
     lp_DescriptionGenConfig = asPtr read_contentGenConfig (getField ''description_gen_config'' d)\<rparr>"

definition read_certificate :: "Doc \<Rightarrow> certificate" where
  "read_certificate d = \<lparr>cf_Id = getField ''_id'' d, cf_TenantID = asOid (getField ''tenant_id'' d),
     cf_PublicId = str ''public_id'' d, cf_ContactName = str ''contact_name'' d, cf_CourseTitle = str ''course_title'' d,
     cf_CompletedAt = asTime (getField ''completed_at'' d), cf_Template = str ''template'' d,
     cf_GenStatus = str ''gen_status'' d, cf_Locale = str ''locale'' d\<rparr>"

section \<open>Asking the services\<close>

text \<open>A call has a number of its own; the calls of the database are counted with it.\<close>

definition callNo :: "nat hydration" where
  "callNo = onDocs tick"

text \<open>\<open>io.ReadAll(io.LimitReader(body, 50000))\<close>: an error after the limit is not seen.\<close>

definition readLimited :: "nat \<Rightarrow> string \<Rightarrow> string option \<Rightarrow> string option" where
  "readLimited n body err = (if err \<noteq> None \<and> length body < n then None else Some (take n body))"

definition fetchURL :: "Services \<Rightarrow> string \<Rightarrow> string hydration" where
  "fetchURL hx url = do {
     n \<leftarrow> callNo;
     ret (case hx_get hx n url of
       Answered _ body err \<Rightarrow>
         (case readLimited 50000 body err of
            None \<Rightarrow> []
          | Some text \<Rightarrow> ''--- Source: '' @ url @ '' ---'' @ nl @ text @ nl @ nl)
     | _ \<Rightarrow> []) }"

definition fetchContextFromURLs :: "Services \<Rightarrow> string list \<Rightarrow> string hydration" where
  "fetchContextFromURLs hx urls = do { parts \<leftarrow> mapC (fetchURL hx) urls; ret (concat parts) }"

text \<open>The texts of the first candidate that are no thoughts.\<close>

definition candidateText :: "(string \<times> bool) list list \<Rightarrow> string" where
  "candidateText cs = (case cs of [] \<Rightarrow> [] | parts # _ \<Rightarrow> concat (map fst (filter (\<lambda>(_, thought). \<not> thought) parts)))"

definition callGeminiAPIWithSystem :: "Services \<Rightarrow> string \<Rightarrow> string \<Rightarrow> string \<Rightarrow> (string + string) hydration" where
  "callGeminiAPIWithSystem hx key prompt system = do {
     n \<leftarrow> callNo;
     ret (case hx_gemini hx n key prompt system of
       NoRequest e \<Rightarrow> Inl e
     | NoAnswer e \<Rightarrow> Inl (''gemini API call failed: '' @ e)
     | Answered status body err \<Rightarrow>
         (case err of
            Some e \<Rightarrow> Inl e
          | None \<Rightarrow>
              if status \<noteq> 200 then Inl (''gemini API returned status '' @ itoa_nat status @ '': '' @ body)
              else
                (case hx_candidates hx body of
                   Inl e \<Rightarrow> Inl e
                 | Inr cs \<Rightarrow>
                     if candidateText cs = [] then Inl ''empty response from Gemini'' else Inr (candidateText cs)))) }"

definition callGeminiAPI :: "Services \<Rightarrow> string \<Rightarrow> string \<Rightarrow> (string + string) hydration" where
  "callGeminiAPI hx key prompt = callGeminiAPIWithSystem hx key prompt
     ''You are an expert web content generator. Generate clean, professional HTML content for marketing pages. Focus on high-converting copy that drives action.''"

text \<open>A request to the renderer, which is on record.\<close>

definition postPdf :: "Services \<Rightarrow> PdfRequest \<Rightarrow> HttpReply hydration" where
  "postPdf hx req = do {
     n \<leftarrow> callNo;
     _ \<leftarrow> modifies (\<lambda>s. s\<lparr>hy_pdfs := hy_pdfs s @ [req]\<rparr>);
     ret (hx_pdf hx n req) }"

definition UploadObject :: "Services \<Rightarrow> string \<Rightarrow> string \<Rightarrow> (string + string) hydration" where
  "UploadObject hx path bytes = do {
     n \<leftarrow> callNo;
     _ \<leftarrow> modifies (\<lambda>s. s\<lparr>hy_uploads := hy_uploads s @ [(path, bytes)]\<rparr>);
     ret (hx_upload hx n path bytes) }"

definition no_key :: string where
  "no_key = ''GEMINI_API_KEY not configured''"

definition no_storage :: string where
  "no_storage = ''GCS not configured (set GCP_PROJECT_ID + GOOGLE_APPLICATION_CREDENTIALS)''"

section \<open>What is asked for\<close>

text \<open>A line that is there when its value is.\<close>

definition lineIf :: "string \<Rightarrow> string \<Rightarrow> string" where
  "lineIf label s = (if s = [] then [] else label @ s @ nl)"

definition contextBlock :: "string \<Rightarrow> string" where
  "contextBlock ctx = (if ctx = [] then [] else nl @ ''Context:'' @ nl @ ctx @ nl)"

definition generateBlockContent :: "Services \<Rightarrow> pageBlock \<Rightarrow> (string + string) hydration" where
  "generateBlockContent hx block =
     (if hx_key hx = [] then ret (Inl no_key)
      else do {
        ctx \<leftarrow> fetchContextFromURLs hx
          ((case pb_ContentGen block of None \<Rightarrow> [] | Some g \<Rightarrow> cg_ContextURLs g)
           @ (case pb_AIContext block of None \<Rightarrow> [] | Some a \<Rightarrow> ax_ContextURLs a));
        callGeminiAPI hx (hx_key hx)
          (''Generate HTML content for a web page section.'' @ nl @ nl
           @ lineIf ''Section: '' (pb_SectionID block)
           @ (case pb_ContentGen block of None \<Rightarrow> []
              | Some g \<Rightarrow> lineIf ''Length: '' (cg_Length g) @ lineIf ''Instructions: '' (cg_PromptAppend g))
           @ contextBlock ctx
           @ unlines [[], ''Rules:'', ''- Return ONLY the HTML content. No markdown, no code fences.'',
               ''- Use INLINE STYLES on every element. No CSS class names.'',
               ''- Do NOT generate <form>, <input>, or <button type='' @ quoted ''submit'' @ ''> elements.'',
               ''- Do NOT wrap in <html>, <head>, or <body> tags.'']) })"

definition generatePDFContent :: "Services \<Rightarrow> funnelStage \<Rightarrow> (string + string) hydration" where
  "generatePDFContent hx stage =
     (if hx_key hx = [] then ret (Inl no_key)
      else do {
        ctx \<leftarrow> (case Option.bind (fs_PDFConfig stage) pf_AIContext of
                  None \<Rightarrow> ret [] | Some a \<Rightarrow> fetchContextFromURLs hx (ax_ContextURLs a));
        callGeminiAPI hx (hx_key hx)
          (''Generate content for a PDF lead magnet/guide.'' @ nl @ nl
           @ ''Stage: '' @ fs_Name stage @ nl
           @ contextBlock ctx
           @ nl @ ''Return well-structured content suitable for a professional PDF guide. Use headers, bullet points, and clear sections.'') })"

definition generateAsset :: "Services \<Rightarrow> genConfig \<Rightarrow> (string + string) hydration" where
  "generateAsset hx cfg =
     (if hx_key hx = [] then ret (Inl no_key)
      else do {
        refText \<leftarrow> fetchContextFromURLs hx (gn_References cfg);
        markdown \<leftarrow> callGeminiAPIWithSystem hx (hx_key hx)
          (''Create a professional '' @ gn_AssetType cfg @ '' PDF document.'' @ nl @ nl
           @ (if gn_Instruction cfg = [] then [] else ''Instructions: '' @ gn_Instruction cfg @ nl @ nl)
           @ (if refText = [] then [] else ''Use the following source material as context:'' @ nl @ nl @ refText @ nl @ nl)
           @ ''Format the output as clean markdown. Return ONLY the markdown content, no explanations or code fences.'')
          ''You are an expert content creator specializing in high-value lead magnets, worksheets, and guides.'';
        (case markdown of
           Inl e \<Rightarrow> ret (Inl (''gemini generation failed: '' @ e))
         | Inr markdown \<Rightarrow> do {
             reply \<leftarrow> postPdf hx (Generate markdown
               (if gn_Instruction cfg \<noteq> [] \<and> length (gn_Instruction cfg) < 60 then gn_Instruction cfg else gn_AssetType cfg)
               (gn_Theme cfg));
             ret (case reply of
               Answered status body err \<Rightarrow>
                 (case err of
                    Some e \<Rightarrow> Inl e
                  | None \<Rightarrow> if status \<noteq> 200 then Inl (''pdf service error: '' @ body) else Inr body)
             | NoRequest e \<Rightarrow> Inl (''pdf service unavailable: '' @ e)
             | NoAnswer e \<Rightarrow> Inl (''pdf service unavailable: '' @ e)) }) })"

definition generateMediaSummary :: "Services \<Rightarrow> mediaItem \<Rightarrow> (string + string) hydration" where
  "generateMediaSummary hx m =
     (if hx_key hx = [] then ret (Inl no_key)
      else callGeminiAPIWithSystem hx (hx_key hx)
        (''Generate a structured summary of the following media content.'' @ nl @ nl
         @ lineIf ''Title: '' (mi_Title m) @ lineIf ''Description: '' (mi_Description m) @ lineIf ''Media Type: '' (mi_Kind m)
         @ (if 0 < mi_DurationSec m then ''Duration: '' @ itoa (mi_DurationSec m) @ '' seconds'' @ nl else [])
         @ unlines [[], ''Output Rules:'', ''- Return ONLY clean markdown.'',
             ''- Structure: ## Overview, ## Key Topics, ## Chapters (if applicable).'', ''- Keep the tone professional.''])
        ''You are an expert content analyst. Produce clear, structured summaries of video and audio content. Output must be clean markdown.'')"

definition instructionOf :: "contentGenConfig option \<Rightarrow> string" where
  "instructionOf c = (case c of None \<Rightarrow> [] | Some c \<Rightarrow> cc_Instruction c)"

definition buildLessonPrompt :: "lmsProduct \<Rightarrow> courseModule \<Rightarrow> courseLesson \<Rightarrow> string \<times> string" where
  "buildLessonPrompt product md lesson =
     (unlines
        [''Course: '' @ lp_Name product,
         ''Course Description: '' @ lp_Description product,
         ''Module: '' @ cm_Title md @ '' (Module '' @ itoa (cm_Order md) @ '' of ''
           @ itoa_nat (length (lp_CourseModules product)) @ '')'',
         ''Lesson: '' @ cl_Title lesson @ '' (Lesson '' @ itoa (cl_Order lesson) @ '' of ''
           @ itoa_nat (length (cm_Lessons md)) @ '' in this module)'',
         [],
         ''Lesson Generation Instructions: '' @ instructionOf (cl_ContentGenConfig lesson),
         [],
         ''Write the complete lesson content for this lesson.''],
      unlines
        [''You are an expert course content writer for online learning platforms.'',
         ''You produce well-structured, engaging lesson content in clean HTML format.'',
         [],
         ''Rules:'',
         ''- Output ONLY the HTML body content (no <html>, <head>, or <body> tags)'',
         ''- Use semantic HTML: <h2>, <h3>, <p>, <ul>, <ol>, <li>, <code>, <pre>, <blockquote>, <strong>, <em>'',
         ''- Do NOT include <form>, <script>, <iframe>, <style>, <link> tags'',
         ''- Target 800-2000 words depending on topic complexity''])"

definition buildCourseDescriptionPrompt :: "lmsProduct \<Rightarrow> string \<times> string" where
  "buildCourseDescriptionPrompt product =
     (unlines
        [''Course Title: '' @ lp_Name product,
         ''Instructor: '' @ lp_InstructorName product,
         [],
         ''Course Structure:'',
         concat (map (\<lambda>m. ''- '' @ cm_Title m @ '' ('' @ itoa_nat (length (cm_Lessons m)) @ '' lessons)'' @ nl
           @ concat (map (\<lambda>l. ''  - '' @ cl_Title l @ nl) (cm_Lessons m))) (lp_CourseModules product)),
         [],
         ''Generation Instructions: '' @ instructionOf (lp_DescriptionGenConfig product),
         [],
         ''Write the course description.''],
      unlines
        [''You are a marketing copywriter for online course platforms.'',
         ''Write compelling, clear course descriptions that convert browsers into students.'',
         [],
         ''Rules:'',
         ''- Write 2-4 paragraphs (150-400 words total)'',
         ''- Use plain text with basic HTML formatting only: <p>, <strong>, <em>, <ul>, <li>'',
         ''- Do NOT use <h1>-<h6> tags (the title is displayed separately)'',
         ''- Do NOT include pricing, enrollment CTAs, or instructor bio''])"

text \<open>The references of a configuration, read and put after the prompt.\<close>

definition withReferences :: "Services \<Rightarrow> contentGenConfig option \<Rightarrow> string \<Rightarrow> string hydration" where
  "withReferences hx cfg prompt =
     (case cfg of
        None \<Rightarrow> ret prompt
      | Some c \<Rightarrow>
          if cc_References c = [] then ret prompt
          else do {
            ctx \<leftarrow> fetchContextFromURLs hx (cc_References c);
            ret (if ctx = [] then prompt else prompt @ nl @ nl @ ''Reference material:'' @ nl @ ctx) })"

end
