(* ===== verification/HydratorWork.thy ===== *)
theory HydratorWork
  imports Hydrator
begin

text \<open>
  The eight passes of the content worker and the job that runs them (\<open>processPending\<dots>\<close>,
  \<open>runHydrationPass\<close> and \<open>Start\<close> of \<open>src/hydrator/hydrator.go\<close>). A document moves from
  \<open>pending\<close> through \<open>processing\<close> to \<open>completed\<close> (\<open>ready\<close> for a transcript) or \<open>failed\<close>.
\<close>

section \<open>Statuses\<close>

definition pending :: "Path \<Rightarrow> Filter" where
  "pending p = [(p, Is (BStr ''pending'')), alive]"

definition updated_at :: Path where
  "updated_at = [''timestamps'', ''updated_at'']"

section \<open>Blocks of pages, PDF files of stages, assets\<close>

definition hydrateBlock :: "Services \<Rightarrow> pageBlock \<Rightarrow> unit hydration" where
  "hydrateBlock hx block = do {
     _ \<leftarrow> UpdateId hx PageBlockCollection (pb_Id block) [([''content_gen'', ''status''], BStr ''processing'')];
     content \<leftarrow> generateBlockContent hx block;
     (case content of
        Inl e \<Rightarrow> UpdateId hx PageBlockCollection (pb_Id block)
          [([''content_gen'', ''status''], BStr ''failed''),
           ([''rendered_content''], BStr (''<!-- generation failed: '' @ e @ '' -->''))]
      | Inr content \<Rightarrow> do {
          t \<leftarrow> now hx;
          UpdateId hx PageBlockCollection (pb_Id block)
            [([''content_gen'', ''status''], BStr ''completed''), ([''rendered_content''], BStr content),
             (updated_at, BTime (bsonTime t))] }) }"

definition processPendingBlocks :: "Services \<Rightarrow> unit hydration" where
  "processPendingBlocks hx =
     (if \<not> hx_session hx then ret ()
      else do {
        blocks \<leftarrow> FindLimit hx PageBlockCollection (pending [''content_gen'', ''status'']) 10;
        forEach (map read_pageBlock blocks) (hydrateBlock hx) })"

definition hydratePDF :: "Services \<Rightarrow> funnelStage \<Rightarrow> unit hydration" where
  "hydratePDF hx stage = do {
     _ \<leftarrow> UpdateId hx FunnelStageCollection (fs_Id stage) [([''pdf_config'', ''status''], BStr ''processing'')];
     content \<leftarrow> generatePDFContent hx stage;
     (case content of
        Inl e \<Rightarrow> UpdateId hx FunnelStageCollection (fs_Id stage) [([''pdf_config'', ''status''], BStr ''failed'')]
      | Inr content \<Rightarrow> do {
          t \<leftarrow> now hx;
          UpdateId hx FunnelStageCollection (fs_Id stage)
            [([''pdf_config'', ''status''], BStr ''completed''),
             ([''pdf_config'', ''file_url''], BStr (''/generated/pdf_'' @ fs_PublicId stage @ ''.pdf'')),
             (updated_at, BTime (bsonTime t))] }) }"

definition processPendingPDFs :: "Services \<Rightarrow> unit hydration" where
  "processPendingPDFs hx =
     (if \<not> hx_session hx then ret ()
      else do {
        stages \<leftarrow> FindLimit hx FunnelStageCollection (pending [''pdf_config'', ''status'']) 5;
        forEach (map read_funnelStage stages) (hydratePDF hx) })"

text \<open>The folder of a tenant in the object store.\<close>

definition folder :: "Services \<Rightarrow> ObjectId option \<Rightarrow> string" where
  "folder hx t = (case t of None \<Rightarrow> [] | Some i \<Rightarrow> bk_Hex (hx_bk hx) i)"

definition assetFailed :: "Services \<Rightarrow> asset \<Rightarrow> string \<Rightarrow> unit hydration" where
  "assetFailed hx a e = UpdateId hx AssetCollection (ast_Id a)
     [([''gen_config'', ''status''], BStr ''failed''), ([''gen_config'', ''error_msg''], BStr e)]"

definition hydrateAsset :: "Services \<Rightarrow> asset \<Rightarrow> unit hydration" where
  "hydrateAsset hx a =
     (case ast_GenConfig a of
        None \<Rightarrow> ret ()
      | Some cfg \<Rightarrow> do {
          _ \<leftarrow> UpdateId hx AssetCollection (ast_Id a) [([''gen_config'', ''status''], BStr ''processing'')];
          pdf \<leftarrow> generateAsset hx cfg;
          (case pdf of
             Inl e \<Rightarrow> assetFailed hx a e
           | Inr pdf \<Rightarrow>
               (let fileName = (if ast_FileName a = [] then gn_AssetType cfg @ ''-'' @ ast_PublicId a @ ''.pdf''
                                else ast_FileName a) in
                if \<not> hx_Storage hx then assetFailed hx a no_storage
                else do {
                  url \<leftarrow> UploadObject hx (folder hx (ast_TenantID a) @ ''/assets/'' @ fileName) pdf;
                  (case url of
                     Inl e \<Rightarrow> assetFailed hx a (''GCS upload failed: '' @ e)
                   | Inr url \<Rightarrow> do {
                       t \<leftarrow> now hx;
                       UpdateId hx AssetCollection (ast_Id a)
                         [([''gen_config'', ''status''], BStr ''completed''), ([''file_url''], BStr url),
                          ([''file_name''], BStr fileName), ([''file_type''], BStr ''application/pdf''),
                          ([''file_size''], BInt (int (length pdf))), (updated_at, BTime (bsonTime t))] }) })) })"

definition processPendingAssets :: "Services \<Rightarrow> unit hydration" where
  "processPendingAssets hx =
     (if \<not> hx_session hx then ret ()
      else do {
        assets \<leftarrow> FindLimit hx AssetCollection (pending [''gen_config'', ''status'']) 5;
        forEach (map read_asset assets) (hydrateAsset hx) })"

section \<open>Media and channels\<close>

definition hydrateMedia :: "Services \<Rightarrow> mediaItem \<Rightarrow> unit hydration" where
  "hydrateMedia hx m = do {
     _ \<leftarrow> UpdateId hx MediaCollection (mi_Id m) [([''transcript'', ''status''], BStr ''processing'')];
     summary \<leftarrow> generateMediaSummary hx m;
     (case summary of
        Inl e \<Rightarrow> UpdateId hx MediaCollection (mi_Id m) [([''transcript'', ''status''], BStr ''failed'')]
      | Inr summary \<Rightarrow> do {
          t \<leftarrow> now hx;
          UpdateId hx MediaCollection (mi_Id m)
            [([''transcript'', ''status''], BStr ''ready''), ([''transcript'', ''text''], BStr summary),
             ([''transcript'', ''generated''], BBool True), (updated_at, BTime (bsonTime t))] }) }"

definition processPendingMediaTranscripts :: "Services \<Rightarrow> unit hydration" where
  "processPendingMediaTranscripts hx =
     (if \<not> hx_session hx then ret ()
      else do {
        items \<leftarrow> FindLimit hx MediaCollection (pending [''transcript'', ''status'']) 5;
        forEach (map read_mediaItem items) (hydrateMedia hx) })"

definition hydrateChannel :: "Services \<Rightarrow> mediaChannel \<Rightarrow> unit hydration" where
  "hydrateChannel hx ch = do {
     _ \<leftarrow> UpdateId hx MediaChannelCollection (mh_Id ch) [([''description_status''], BStr ''processing'')];
     description \<leftarrow> callGeminiAPIWithSystem hx (hx_key hx)
       (''Write a description for a video channel titled '' @ hx_quote hx (mh_Title ch)
        @ (if mh_Layout ch = [] then [] else '' (layout: '' @ mh_Layout ch @ '')'')
        @ (if mh_Items ch = [] then [] else '' with '' @ itoa_nat (length (mh_Items ch)) @ '' videos''))
       ''You are a content strategist for video platforms. Write engaging channel descriptions that help viewers understand what content the channel offers. Keep it to 2-3 paragraphs, professional but approachable. Output plain text, no HTML.'';
     (case description of
        Inl e \<Rightarrow> UpdateId hx MediaChannelCollection (mh_Id ch) [([''description_status''], BStr ''failed'')]
      | Inr description \<Rightarrow> do {
          t \<leftarrow> now hx;
          UpdateId hx MediaChannelCollection (mh_Id ch)
            [([''description''], BStr description), ([''description_status''], BStr ''completed''),
             (updated_at, BTime (bsonTime t))] }) }"

definition processPendingChannelDescriptions :: "Services \<Rightarrow> unit hydration" where
  "processPendingChannelDescriptions hx =
     (if \<not> hx_session hx then ret ()
      else do {
        channels \<leftarrow> FindLimit hx MediaChannelCollection (pending [''description_status'']) 5;
        if hx_key hx = [] then ret () else forEach (map read_mediaChannel channels) (hydrateChannel hx) })"

section \<open>Lessons and courses\<close>

definition updateLessonField :: "Services \<Rightarrow> Bson \<Rightarrow> nat \<Rightarrow> nat \<Rightarrow> (Path \<times> Bson) list \<Rightarrow> unit hydration" where
  "updateLessonField hx productId moduleIdx lessonIdx sets =
     UpdateId hx ProductCollection productId
       (map (\<lambda>(k, v). ([''course_modules'', itoa_nat moduleIdx, ''lessons'', itoa_nat lessonIdx] @ k, v)) sets)"

definition hydrateLesson :: "Services \<Rightarrow> lmsProduct \<Rightarrow> nat \<Rightarrow> courseModule \<Rightarrow> nat \<Rightarrow> courseLesson \<Rightarrow> unit hydration" where
  "hydrateLesson hx product mi md li lesson =
     (if cl_ContentGenStatus lesson \<noteq> ''pending'' then ret ()
      else do {
        _ \<leftarrow> updateLessonField hx (lp_Id product) mi li [([''content_gen_status''], BStr ''processing'')];
        userPrompt \<leftarrow> withReferences hx (cl_ContentGenConfig lesson) (fst (buildLessonPrompt product md lesson));
        content \<leftarrow> callGeminiAPIWithSystem hx (hx_key hx) userPrompt (snd (buildLessonPrompt product md lesson));
        (case content of
           Inl e \<Rightarrow> updateLessonField hx (lp_Id product) mi li
             [([''content_gen_status''], BStr ''failed''), ([''content_gen_config'', ''error_msg''], BStr e)]
         | Inr content \<Rightarrow> updateLessonField hx (lp_Id product) mi li
             [([''content_html''], BStr (stripUnsafeHTML content)), ([''content_gen_status''], BStr ''completed'')]) })"

definition hydrateLessons :: "Services \<Rightarrow> lmsProduct \<Rightarrow> unit hydration" where
  "hydrateLessons hx product =
     forEach (numbers (lp_CourseModules product)) (\<lambda>(mi, md).
       forEach (numbers (cm_Lessons md)) (\<lambda>(li, lesson). hydrateLesson hx product mi md li lesson))"

definition processPendingLessonContent :: "Services \<Rightarrow> unit hydration" where
  "processPendingLessonContent hx =
     (if \<not> hx_session hx then ret ()
      else do {
        products \<leftarrow> FindLimit hx ProductCollection (pending [''course_modules'', ''lessons'', ''content_gen_status'']) 5;
        if hx_key hx = [] then ret () else forEach (map read_lmsProduct products) (hydrateLessons hx) })"

definition hydrateCourse :: "Services \<Rightarrow> lmsProduct \<Rightarrow> unit hydration" where
  "hydrateCourse hx product = do {
     _ \<leftarrow> UpdateId hx ProductCollection (lp_Id product) [([''description_gen_status''], BStr ''processing'')];
     userPrompt \<leftarrow> withReferences hx (lp_DescriptionGenConfig product) (fst (buildCourseDescriptionPrompt product));
     description \<leftarrow> callGeminiAPIWithSystem hx (hx_key hx) userPrompt (snd (buildCourseDescriptionPrompt product));
     (case description of
        Inl e \<Rightarrow> UpdateId hx ProductCollection (lp_Id product)
          [([''description_gen_status''], BStr ''failed''), ([''description_gen_config'', ''error_msg''], BStr e)]
      | Inr description \<Rightarrow> do {
          t \<leftarrow> now hx;
          UpdateId hx ProductCollection (lp_Id product)
            [([''description''], BStr description), ([''description_gen_status''], BStr ''completed''),
             (updated_at, BTime (bsonTime t))] }) }"

definition processPendingCourseDescriptions :: "Services \<Rightarrow> unit hydration" where
  "processPendingCourseDescriptions hx =
     (if \<not> hx_session hx then ret ()
      else do {
        products \<leftarrow> FindLimit hx ProductCollection (pending [''description_gen_status'']) 5;
        if hx_key hx = [] then ret () else forEach (map read_lmsProduct products) (hydrateCourse hx) })"

section \<open>Certificates\<close>

definition certificateFailed :: "Services \<Rightarrow> certificate \<Rightarrow> string \<Rightarrow> unit hydration" where
  "certificateFailed hx cert e = UpdateId hx CertificateCollection (cf_Id cert)
     [([''gen_status''], BStr ''failed''), ([''gen_error_msg''], BStr e)]"

text \<open>The HTML of a certificate: what was generated, or the fixed template.\<close>

definition certificateHTML :: "Services \<Rightarrow> certificate \<Rightarrow> string hydration" where
  "certificateHTML hx cert =
     (if hx_key hx = [] then ret (stripUnsafeHTML (buildCertificateHTMLFallback (hx_date hx) cert))
      else do {
        generated \<leftarrow> callGeminiAPIWithSystem hx (hx_key hx)
          (fst (buildCertificatePrompt (hx_date hx) cert)) (snd (buildCertificatePrompt (hx_date hx) cert));
        ret (stripUnsafeHTML (case generated of
          Inl e \<Rightarrow> buildCertificateHTMLFallback (hx_date hx) cert | Inr html \<Rightarrow> stripCodeFences html)) })"

definition uploadCertificate :: "Services \<Rightarrow> certificate \<Rightarrow> string \<Rightarrow> unit hydration" where
  "uploadCertificate hx cert pdf =
     (if \<not> hx_Storage hx then certificateFailed hx cert no_storage
      else do {
        url \<leftarrow> UploadObject hx (folder hx (cf_TenantID cert) @ ''/certs/cert_'' @ cf_PublicId cert @ ''.pdf'') pdf;
        (case url of
           Inl e \<Rightarrow> certificateFailed hx cert (''GCS upload failed: '' @ e)
         | Inr url \<Rightarrow> do {
             t \<leftarrow> now hx;
             UpdateId hx CertificateCollection (cf_Id cert)
               [([''asset_url''], BStr url), ([''gen_status''], BStr ''completed''), ([''gen_error_msg''], BStr []),
                (updated_at, BTime (bsonTime t))] }) })"

definition hydrateCertificate :: "Services \<Rightarrow> certificate \<Rightarrow> unit hydration" where
  "hydrateCertificate hx cert = do {
     t \<leftarrow> now hx;
     _ \<leftarrow> UpdateId hx CertificateCollection (cf_Id cert)
       [([''gen_status''], BStr ''processing''), (updated_at, BTime (bsonTime t))];
     html \<leftarrow> certificateHTML hx cert;
     reply \<leftarrow> postPdf hx (FromHtml html (cf_CourseTitle cert));
     (case reply of
        NoRequest e \<Rightarrow> certificateFailed hx cert (''PDF service error: '' @ e)
      | NoAnswer e \<Rightarrow> certificateFailed hx cert (''PDF service error: '' @ e)
      | Answered status body err \<Rightarrow>
          if status \<noteq> 200 then
            certificateFailed hx cert (''PDF service returned '' @ itoa_nat status @ '': '' @ body)
          else if err \<noteq> None \<or> body = [] then certificateFailed hx cert ''empty PDF body''
          else uploadCertificate hx cert body) }"

definition processPendingCertificates :: "Services \<Rightarrow> unit hydration" where
  "processPendingCertificates hx =
     (if \<not> hx_session hx then ret ()
      else do {
        certs \<leftarrow> FindLimit hx CertificateCollection (pending [''gen_status'']) 5;
        forEach (map read_certificate certs) (hydrateCertificate hx) })"

text \<open>Called by a test to skip the wait for the next sweep.\<close>

definition RunCertsNow :: "Services \<Rightarrow> unit hydration" where
  "RunCertsNow = processPendingCertificates"

section \<open>The job\<close>

definition runHydrationPass :: "Services \<Rightarrow> unit hydration" where
  "runHydrationPass hx = do {
     _ \<leftarrow> processPendingBlocks hx;
     _ \<leftarrow> processPendingPDFs hx;
     _ \<leftarrow> processPendingAssets hx;
     _ \<leftarrow> processPendingMediaTranscripts hx;
     _ \<leftarrow> processPendingChannelDescriptions hx;
     _ \<leftarrow> processPendingLessonContent hx;
     _ \<leftarrow> processPendingCourseDescriptions hx;
     processPendingCertificates hx }"

definition second :: int where
  "second = 1000000000"

definition HydratorInterval :: int where
  "HydratorInterval = 30 * second"

definition EnqueueSweep :: "Services \<Rightarrow> int \<Rightarrow> int \<Rightarrow> string option hydration" where
  "EnqueueSweep hx at interval = do {
     n \<leftarrow> callNo;
     _ \<leftarrow> modifies (\<lambda>s. s\<lparr>hy_jobs := hy_jobs s @ [SweepAt at interval]\<rparr>);
     ret (hx_enqueue hx n) }"

text \<open>The handler of the job: the next run is arranged first, and an error of that ends this one.\<close>

definition hydrateSweep :: "Services \<Rightarrow> int \<Rightarrow> string option hydration" where
  "hydrateSweep hx runAt = do {
     t \<leftarrow> now hx;
     err \<leftarrow> EnqueueSweep hx (t + HydratorInterval) HydratorInterval;
     (if err \<noteq> None then ret err
      else do {
        _ \<leftarrow> runHydrationPass hx;
        _ \<leftarrow> (if runAt div second mod 3600 < HydratorInterval div second
              then modifies (\<lambda>s. s\<lparr>hy_jobs := hy_jobs s @ [Prune (24 * 3600 * second)]\<rparr>) else ret ());
        ret None }) }"

end
