(* ===== verification/HydratorProps.thy ===== *)
theory HydratorProps
  imports HydratorWork StoryFrames
begin

text \<open>
  What the content worker leaves alone and what it brings about. A locale states what the calls of
  one pass have in common; it is interpreted twice, for the documents a pass does not take
  in hand and for what reaches the renderer.
\<close>

section \<open>The updates of the worker\<close>

definition final_status :: "Bson \<Rightarrow> bool" where
  "final_status v \<longleftrightarrow> v \<in> {BStr ''completed'', BStr ''failed'', BStr ''ready''}"

definition statusFields :: "string list" where
  "statusFields = [''status'', ''description_status'', ''content_gen_status'', ''description_gen_status'', ''gen_status'']"

text \<open>The id and the owner stay, nothing is put back to \<open>pending\<close>, and of the time stamps one is set.\<close>

definition proper_sets :: "(Path \<times> Bson) list \<Rightarrow> bool" where
  "proper_sets sets \<longleftrightarrow> list_all (\<lambda>(p, v). p \<noteq> [] \<and> hd p \<notin> set ownerFields
     \<and> (hd p = ''timestamps'' \<longrightarrow> p = updated_at)
     \<and> (last p \<in> set statusFields \<longrightarrow> v = BStr ''processing'' \<or> final_status v)) sets"

text \<open>HTML without one of the tags that are looked for, which are in lower case.\<close>

definition safe_pdf :: "PdfRequest \<Rightarrow> bool" where
  "safe_pdf req = (case req of
     Generate _ _ _ \<Rightarrow> True
   | FromHtml html _ \<Rightarrow> list_all (\<lambda>tag. \<not> contains_str tag html) unsafe_tags)"

locale worker = step_relation R
  for R :: "Hydration \<Rightarrow> Hydration \<Rightarrow> bool" and hx :: Services and mine :: "Coll \<Rightarrow> Bson \<Rightarrow> bool" +
  assumes counted: "R s (s\<lparr>hy_docs := (hy_docs s)\<lparr>dx_reads := Suc (dx_reads (hy_docs s))\<rparr>\<rparr>)"
    and posted: "safe_pdf req \<Longrightarrow> R s (s\<lparr>hy_pdfs := hy_pdfs s @ [req]\<rparr>)"
    and uploaded: "R s (s\<lparr>hy_uploads := hy_uploads s @ [(p, b)]\<rparr>)"
    and updated: "proper_sets sets \<Longrightarrow> mine c i \<Longrightarrow> keeps R (UpdateId hx c i sets)"
begin

lemma callNo [preserves_intros]: "keeps R callNo"
  by (simp add: keeps_def callNo_def onDocs_def tick_def counted)

lemma now [preserves_intros]: "keeps R (now hx)"
proof -
  have "now hx = do { n \<leftarrow> callNo; ret (bk_now (hx_bk hx) n) }"
    by (rule state_ext) (simp add: now_def timeNow_def callNo_def onDocs_def split_beta Let_def)
  then show ?thesis by (auto intro!: preserves_intros)
qed

lemma posts: "safe_pdf req \<Longrightarrow> keeps R (postPdf hx req)"
  unfolding postPdf_def by (auto intro!: preserves_intros modify posted)

lemma uploads [preserves_intros]: "keeps R (UploadObject hx p b)"
  unfolding UploadObject_def by (auto intro!: preserves_intros modify uploaded)

lemma fetches [preserves_intros]: "keeps R (fetchContextFromURLs hx urls)"
  unfolding fetchContextFromURLs_def fetchURL_def by (auto intro!: preserves_intros)

lemma asks_model [preserves_intros]:
  "keeps R (callGeminiAPIWithSystem hx key prompt system)" "keeps R (callGeminiAPI hx key prompt)"
  unfolding callGeminiAPI_def callGeminiAPIWithSystem_def by (auto intro!: preserves_intros)

lemma generators [preserves_intros]:
  "keeps R (generateBlockContent hx block)" "keeps R (generatePDFContent hx stage)" "keeps R (generateAsset hx cfg)"
  "keeps R (generateMediaSummary hx m)" "keeps R (withReferences hx ctx prompt)" "keeps R (certificateHTML hx cert)"
  unfolding generateBlockContent_def generatePDFContent_def generateAsset_def generateMediaSummary_def
    withReferences_def certificateHTML_def
  by (auto intro!: preserves_intros posts simp: safe_pdf_def split: option.splits sum.splits)

lemma forEach: "(\<And>x. x \<in> set xs \<Longrightarrow> keeps R (f x)) \<Longrightarrow> keeps R (forEach xs f)"
proof -
  assume "\<And>x. x \<in> set xs \<Longrightarrow> keeps R (f x)"
  then have "keeps R (mapC f xs)" by (induction xs) (auto intro!: preserves_intros)
  then show ?thesis unfolding forEach_def by (auto intro!: preserves_intros)
qed

lemmas sets_simps = proper_sets_def ownerFields_def statusFields_def final_status_def updated_at_def

lemma block: "mine PageBlockCollection (pb_Id b) \<Longrightarrow> keeps R (hydrateBlock hx b)"
  unfolding hydrateBlock_def by (auto intro!: preserves_intros updated split: sum.splits) (simp_all add: sets_simps)

lemma stage: "mine FunnelStageCollection (fs_Id st) \<Longrightarrow> keeps R (hydratePDF hx st)"
  unfolding hydratePDF_def by (auto intro!: preserves_intros updated split: sum.splits) (simp_all add: sets_simps)

lemma asset: "mine AssetCollection (ast_Id a) \<Longrightarrow> keeps R (hydrateAsset hx a)"
  unfolding hydrateAsset_def assetFailed_def Let_def
  by (auto intro!: preserves_intros updated split: sum.splits option.splits) (simp_all add: sets_simps)

lemma media: "mine MediaCollection (mi_Id m) \<Longrightarrow> keeps R (hydrateMedia hx m)"
  unfolding hydrateMedia_def by (auto intro!: preserves_intros updated split: sum.splits) (simp_all add: sets_simps)

lemma channel: "mine MediaChannelCollection (mh_Id ch) \<Longrightarrow> keeps R (hydrateChannel hx ch)"
  unfolding hydrateChannel_def by (auto intro!: preserves_intros updated split: sum.splits) (simp_all add: sets_simps)

lemma lessons: "mine ProductCollection (lp_Id p) \<Longrightarrow> keeps R (hydrateLessons hx p)"
  unfolding hydrateLessons_def hydrateLesson_def updateLessonField_def
  by (auto intro!: preserves_intros forEach updated split: sum.splits prod.splits) (simp_all add: sets_simps)

lemma course: "mine ProductCollection (lp_Id p) \<Longrightarrow> keeps R (hydrateCourse hx p)"
  unfolding hydrateCourse_def by (auto intro!: preserves_intros updated split: sum.splits) (simp_all add: sets_simps)

lemma certificateFails: "mine CertificateCollection (cf_Id cert) \<Longrightarrow> keeps R (certificateFailed hx cert e)"
  unfolding certificateFailed_def by (rule updated) (simp_all add: sets_simps)

lemma certificateUploads: "mine CertificateCollection (cf_Id cert) \<Longrightarrow> keeps R (uploadCertificate hx cert pdf)"
  unfolding uploadCertificate_def
  by (auto intro!: preserves_intros updated certificateFails split: sum.splits) (simp_all add: sets_simps)

lemma html_safe: "yields (certificateHTML hx cert) (\<lambda>html. safe_pdf (FromHtml html title))"
  unfolding certificateHTML_def by (auto intro!: yields_intros simp: safe_pdf_def stripUnsafeHTML_tags)

lemma certificate: "mine CertificateCollection (cf_Id cert) \<Longrightarrow> keeps R (hydrateCertificate hx cert)"
  unfolding hydrateCertificate_def
  by (intro preserves_intros updated bind_yields [OF generators(6) html_safe])
    (auto intro!: preserves_intros posts certificateFails certificateUploads simp: sets_simps split: HttpReply.splits)

lemma finds: "keeps R (FindLimit hx c f n)"
proof -
  have "FindLimit hx c f n = do { m \<leftarrow> callNo; ds \<leftarrow> asks (\<lambda>s. dx_colls (hy_docs s) c);
      ret (case bk_db (hx_bk hx) m of Done \<Rightarrow> take n (filter (sat f) ds) | _ \<Rightarrow> []) }"
    by (rule state_ext) (simp add: FindLimit_def readColl_def callNo_def onDocs_def tick_def split: db_reply.split)
  then show ?thesis by (auto intro!: preserves_intros)
qed

text \<open>When every document may be changed, whole passes are in the relation.\<close>

lemma runHydrationPass:
  assumes "\<And>c i. mine c i"
  shows "keeps R (runHydrationPass hx)"
  unfolding runHydrationPass_def processPendingBlocks_def processPendingPDFs_def processPendingAssets_def
    processPendingMediaTranscripts_def processPendingChannelDescriptions_def processPendingLessonContent_def
    processPendingCourseDescriptions_def processPendingCertificates_def
  by (auto intro!: preserves_intros finds forEach block stage asset media channel lessons course certificate assms)

end

section \<open>The documents a pass does not take in hand\<close>

abbreviation idOf :: "Doc \<Rightarrow> Bson" where
  "idOf d \<equiv> getField ''_id'' d"

text \<open>Every document has an id of its own.\<close>

definition ids_ok :: "Doc list \<Rightarrow> bool" where
  "ids_ok docs \<longleftrightarrow> distinct (map idOf docs) \<and> list_all (\<lambda>d. \<exists>i. idOf d = BOid i) docs"

abbreviation colls :: "Hydration \<Rightarrow> Coll \<Rightarrow> Doc list" where
  "colls s \<equiv> dx_colls (hy_docs s)"

definition row :: "(Doc \<Rightarrow> bool) \<Rightarrow> Doc \<Rightarrow> Doc \<Rightarrow> bool" where
  "row P d d' \<longleftrightarrow> idOf d' = idOf d \<and> (d' = d \<or> P d)"

definition rows :: "(Coll \<Rightarrow> Doc \<Rightarrow> bool) \<Rightarrow> Hydration \<Rightarrow> Hydration \<Rightarrow> bool" where
  "rows P s s' \<longleftrightarrow> ((\<forall>c. ids_ok (colls s c)) \<longrightarrow> (\<forall>c. list_all2 (row (P c)) (colls s c) (colls s' c)))"

lemma row_refl: "row P d d"
  by (simp add: row_def)

lemma rows_ids: "list_all2 (row P) docs docs' \<Longrightarrow> map idOf docs' = map idOf docs"
  by (induction rule: list_all2_induct) (auto simp: row_def)

lemma ids_ok_map: "map idOf docs' = map idOf docs \<Longrightarrow> ids_ok docs \<Longrightarrow> ids_ok docs'"
proof -
  assume m: "map idOf docs' = map idOf docs" and ok: "ids_ok docs"
  have "idOf ` set docs' = idOf ` set docs" using arg_cong [OF m, of set] by simp
  then have "\<exists>d'\<in>set docs. idOf d = idOf d'" if "d \<in> set docs'" for d using that by blast
  then have "\<exists>i. idOf d = BOid i" if "d \<in> set docs'" for d
    using that ok unfolding ids_ok_def list_all_iff by metis
  with m ok show ?thesis by (simp add: ids_ok_def list_all_iff)
qed

lemma rows_refl: "rows P s s"
  by (simp add: rows_def list_all2_refl row_refl)

lemma rows_trans: "rows P s t \<Longrightarrow> rows P t u \<Longrightarrow> rows P s u"
proof -
  assume st: "rows P s t" and tu: "rows P t u"
  have "list_all2 (row (P c)) (colls s c) (colls u c)" if ok: "\<forall>c. ids_ok (colls s c)" for c
  proof -
    have 1: "list_all2 (row (P c)) (colls s c) (colls t c)" for c using st ok by (simp add: rows_def)
    have "\<forall>c. ids_ok (colls t c)" using ids_ok_map [OF rows_ids [OF 1]] ok by blast
    with tu have "list_all2 (row (P c)) (colls t c) (colls u c)" by (simp add: rows_def)
    with 1 show ?thesis by (rule list_all2_trans [rotated]) (auto simp: row_def)
  qed
  then show ?thesis by (simp add: rows_def)
qed

lemma byId_sat: "idOf d = BOid i \<Longrightarrow> sat (byId v) d \<Longrightarrow> v = idOf d"
  by (auto simp: byId_def field_def matches_def equals_def getField_def split: option.splits)

lemma proper_sets_keep:
  assumes "updated (map (\<lambda>(p, v). Put p v) sets) d = Some d'" and "proper_sets sets" and "k \<in> set ownerFields"
  shows "map_of d' k = map_of d k"
  by (rule updated_other [OF assms(1), of "map (hd \<circ> fst) sets"])
    (use assms(2,3) in \<open>auto simp: within_def proper_sets_def list_all_iff intro!: rev_image_eqI\<close>)

lemma rows_changed:
  assumes "proper_sets sets" and "\<And>d. idOf d = i \<Longrightarrow> P c d"
  shows "rows P s (s\<lparr>hy_docs := putColl c (snd (updateDoc uniq (sat (byId i)) (map (\<lambda>(p, v). Put p v) sets) (colls s c))) (hy_docs s)\<rparr>)"
proof -
  have "list_all2 (row (P c)) (colls s c) (snd (updateDoc uniq (sat (byId i)) (map (\<lambda>(p, v). Put p v) sets) (colls s c)))"
    if ok: "ids_ok (colls s c)"
  proof (rule updateDoc_cases [of uniq "sat (byId i)" "map (\<lambda>(p, v). Put p v) sets" "colls s c"])
    fix as d d' bs
    assume docs: "colls s c = as @ d # bs" "sat (byId i) d" "updated (map (\<lambda>(p, v). Put p v) sets) d = Some d'"
      "snd (updateDoc uniq (sat (byId i)) (map (\<lambda>(p, v). Put p v) sets) (colls s c)) = as @ d' # bs"
    obtain j where "idOf d = BOid j" using ok docs(1) by (auto simp: ids_ok_def)
    then have "P c d" using byId_sat docs(2) assms(2) by metis
    moreover have "idOf d' = idOf d"
      using proper_sets_keep [OF docs(3) assms(1), of "''_id''"] by (simp add: ownerFields_def getField_def)
    ultimately have "row (P c) d d'" by (simp add: row_def)
    then show ?thesis unfolding docs(4) by (simp add: docs(1) list_all2_append list_all2_refl row_refl)
  qed (simp add: list_all2_refl row_refl)
  then show ?thesis by (simp add: rows_def putColl_def list_all2_refl row_refl)
qed

lemma UpdateId_step:
  assumes refl: "\<And>s. R s s" and trans: "\<And>s t u. R s t \<Longrightarrow> R t u \<Longrightarrow> R s u"
    and counted: "\<And>s. R s (s\<lparr>hy_docs := (hy_docs s)\<lparr>dx_reads := Suc (dx_reads (hy_docs s))\<rparr>\<rparr>)"
    and changed: "\<And>s. R s (s\<lparr>hy_docs := putColl c (snd (updateDoc (bk_unique (hx_bk hx) c) (sat (byId i))
        (map (\<lambda>(p, v). Put p v) sets) (colls s c))) (hy_docs s)\<rparr>)"
  shows "keeps R (UpdateId hx c i sets)"
proof -
  have "R s (snd (run_state (UpdateId hx c i sets) s))" for s
    using counted [of s] trans [OF counted changed, of s]
    by (auto simp: UpdateId_def onDocs_def Update_def writeColl_def tick_def Let_def split_beta split: db_reply.splits)
  then show ?thesis by (simp add: keeps_def)
qed

lemma rows_same: "colls s' = colls s \<Longrightarrow> rows P s s'"
  by (simp add: rows_def list_all2_refl row_refl)

interpretation rows: worker "rows P" hx "\<lambda>c i. \<forall>d. idOf d = i \<longrightarrow> P c d" for P hx
proof
  fix sets :: "(Path \<times> Bson) list" and c i
  assume "proper_sets sets" and "\<forall>d. idOf d = i \<longrightarrow> P c d"
  then show "keeps (rows P) (UpdateId hx c i sets)"
    by - (rule UpdateId_step [where R = "rows P", OF rows_refl rows_trans rows_same rows_changed], simp_all)
next
  fix s t u assume "rows P s t" "rows P t u"
  then show "rows P s u" by (rule rows_trans)
qed (simp_all add: rows_same)

text \<open>The documents that wait, by the queries of the passes.\<close>

definition due :: "Coll \<Rightarrow> Doc \<Rightarrow> bool" where
  "due c d =
     (case c of
        PageBlockCollection \<Rightarrow> sat (pending [''content_gen'', ''status'']) d
      | FunnelStageCollection \<Rightarrow> sat (pending [''pdf_config'', ''status'']) d
      | AssetCollection \<Rightarrow> sat (pending [''gen_config'', ''status'']) d
      | MediaCollection \<Rightarrow> sat (pending [''transcript'', ''status'']) d
      | MediaChannelCollection \<Rightarrow> sat (pending [''description_status'']) d
      | ProductCollection \<Rightarrow> sat (pending [''course_modules'', ''lessons'', ''content_gen_status'']) d
          \<or> sat (pending [''description_gen_status'']) d
      | CertificateCollection \<Rightarrow> sat (pending [''gen_status'']) d
      | _ \<Rightarrow> False)"

lemma FindLimit_run:
  obtains docs s1 where "run_state (FindLimit hx c f n) s = (docs, s1)" "colls s1 = colls s"
    "docs = [] \<or> docs = take n (filter (sat f) (colls s c))"
    "bk_db (hx_bk hx) (dx_reads (hy_docs s)) = Done \<Longrightarrow> docs = take n (filter (sat f) (colls s c))"
  by (cases "bk_db (hx_bk hx) (dx_reads (hy_docs s))")
    (auto simp: FindLimit_def onDocs_def readColl_def tick_def intro!: that)

lemma rows_weaken:
  assumes "rows P s s'" and "\<And>c d. (\<forall>c. ids_ok (colls s c)) \<Longrightarrow> d \<in> set (colls s c) \<Longrightarrow> P c d \<Longrightarrow> Q c d"
  shows "rows Q s s'"
proof -
  have "list_all2 (row (Q c)) (colls s c) (colls s' c)" if ok: "\<forall>c. ids_ok (colls s c)" for c
  proof (rule list.rel_mono_strong)
    show "list_all2 (row (P c)) (colls s c) (colls s' c)" using assms(1) ok by (simp add: rows_def)
  qed (use assms(2) [OF ok] in \<open>auto simp: row_def\<close>)
  then show ?thesis by (simp add: rows_def)
qed

lemma pass_frame:
  assumes work: "\<And>docs P. (\<And>d d'. d' \<in> set docs \<Longrightarrow> idOf d = idOf d' \<Longrightarrow> P c d) \<Longrightarrow> keeps (rows P) (k docs)"
    and due: "\<And>d. sat f d \<Longrightarrow> due c d"
  shows "keeps (rows due) (if \<not> hx_session hx then ret () else do { docs \<leftarrow> FindLimit hx c f n; k docs })"
proof -
  have "rows due s (snd (run_state (do { docs \<leftarrow> FindLimit hx c f n; k docs }) s))" for s
  proof -
    obtain docs s1 where r: "run_state (FindLimit hx c f n) s = (docs, s1)" "colls s1 = colls s"
      "docs = [] \<or> docs = take n (filter (sat f) (colls s c))"
      using FindLimit_run [of hx c f n s] by metis
    define P where "P c' d \<longleftrightarrow> c' = c \<and> (\<exists>d'\<in>set docs. idOf d = idOf d')" for c' d
    have docs: "d' \<in> set (colls s c) \<and> sat f d'" if "d' \<in> set docs" for d'
      using r(3) that by (auto dest: in_set_takeD)
    have "keeps (rows P) (k docs)" by (rule work) (auto simp: P_def)
    then have "rows P s1 (snd (run_state (k docs) s1))" by (simp add: keeps_def)
    with r(2) have "rows P s (snd (run_state (k docs) s1))" by (simp add: rows_def)
    then have "rows due s (snd (run_state (k docs) s1))"
    proof (rule rows_weaken)
      fix c' d
      assume ok: "\<forall>c. ids_ok (colls s c)" and d: "d \<in> set (colls s c')" and p: "P c' d"
      from p obtain d' where d': "c' = c" "d' \<in> set docs" "idOf d = idOf d'" by (auto simp: P_def)
      have "inj_on idOf (set (colls s c))" using ok by (simp add: ids_ok_def distinct_map)
      with d d' docs have "d = d'" by (auto dest: inj_onD)
      with d' docs due show "due c' d" by simp
    qed
    with r(1) show ?thesis by simp
  qed
  then show ?thesis by (simp add: keeps_def rows_refl)
qed

lemmas read_simps = read_pageBlock_def read_funnelStage_def read_asset_def read_mediaItem_def read_mediaChannel_def
  read_lmsProduct_def read_certificate_def

lemma passes_frame:
  "keeps (rows due) (processPendingBlocks hx)"
  "keeps (rows due) (processPendingPDFs hx)"
  "keeps (rows due) (processPendingAssets hx)"
  "keeps (rows due) (processPendingMediaTranscripts hx)"
  "keeps (rows due) (processPendingChannelDescriptions hx)"
  "keeps (rows due) (processPendingLessonContent hx)"
  "keeps (rows due) (processPendingCourseDescriptions hx)"
  "keeps (rows due) (processPendingCertificates hx)"
  unfolding processPendingBlocks_def processPendingPDFs_def processPendingAssets_def processPendingMediaTranscripts_def
    processPendingChannelDescriptions_def processPendingLessonContent_def processPendingCourseDescriptions_def
    processPendingCertificates_def
  by (rule pass_frame; auto simp: due_def read_simps
      intro!: rows.forEach rows.block rows.stage rows.asset rows.media rows.channel rows.lessons rows.course
        rows.certificate rows.basic)+

lemma runHydrationPass_frame: "keeps (rows due) (runHydrationPass hx)"
  unfolding runHydrationPass_def by (intro rows.bind passes_frame)

text \<open>A run of passes, each with what the services do at its time.\<close>

definition hydrate_all :: "Services list \<Rightarrow> Hydration \<Rightarrow> Hydration" where
  "hydrate_all hxs s = foldl (\<lambda>s hx. snd (run_state (runHydrationPass hx) s)) s hxs"

lemma hydrate_all_rows: "rows due s (hydrate_all hxs s)"
proof (induction hxs arbitrary: s)
  case (Cons hx hxs)
  have "rows due s (snd (run_state (runHydrationPass hx) s))"
    using runHydrationPass_frame by (simp add: keeps_def)
  with Cons.IH show ?case by (simp add: hydrate_all_def) (rule rows_trans)
qed (simp add: hydrate_all_def rows_refl)

text \<open>
  C14: Whatever the services answer and however often the worker runs, a document of any collection
  that is not waiting for content stays as it is, in its place, and one that waits keeps its id.
\<close>

theorem hydration_leaves_rest:
  assumes "\<forall>c. ids_ok (colls s c)"
  shows "list_all2 (\<lambda>d d'. idOf d' = idOf d \<and> (d' = d \<or> due c d)) (colls s c) (colls (hydrate_all hxs s) c)"
  using hydrate_all_rows [of s hxs] assms by (simp add: rows_def row_def [abs_def])

text \<open>So a certificate that was taken in hand and not finished is never taken up again.\<close>

lemma processing_never_retried:
  assumes "\<forall>c. ids_ok (colls s c)" and "d \<in> set (colls s CertificateCollection)"
    and "getField ''gen_status'' d = BStr ''processing''"
  shows "d \<in> set (colls (hydrate_all hxs s) CertificateCollection)"
proof -
  have "list_all2 (row (due CertificateCollection)) (colls s CertificateCollection)
      (colls (hydrate_all hxs s) CertificateCollection)"
    using hydrate_all_rows [of s hxs] assms(1) by (simp add: rows_def)
  then obtain d' where "d' \<in> set (colls (hydrate_all hxs s) CertificateCollection)" "row (due CertificateCollection) d d'"
    using assms(2) by (metis in_set_conv_nth list_all2_conv_all_nth)
  moreover have "\<not> due CertificateCollection d"
    using assms(3) by (auto simp: due_def pending_def matches_def equals_def getField_def split: option.splits)
  ultimately show ?thesis by (simp add: row_def)
qed

section \<open>What reaches the renderer\<close>

definition asked :: "Hydration \<Rightarrow> Hydration \<Rightarrow> bool" where
  "asked s s' \<longleftrightarrow> (\<exists>new. hy_pdfs s' = hy_pdfs s @ new \<and> list_all safe_pdf new)"

lemma asked_same: "hy_pdfs s' = hy_pdfs s \<Longrightarrow> asked s s'"
  by (simp add: asked_def)

lemma asked_trans: "asked s t \<Longrightarrow> asked t u \<Longrightarrow> asked s u"
  unfolding asked_def by auto

interpretation asked: worker asked hx "\<lambda>_ _. True" for hx
proof
  fix s t u assume "asked s t" "asked t u"
  then show "asked s u" by (rule asked_trans)
next
  fix sets :: "(Path \<times> Bson) list" and c i
  show "keeps asked (UpdateId hx c i sets)"
    by (rule UpdateId_step [where R = asked, OF asked_same asked_trans asked_same asked_same]) simp_all
qed (simp_all add: asked_def)

text \<open>
  C23: The HTML a pass sends to the renderer of certificates, generated or not, has no opening tag
  of a script, a form or an inline frame in lower case in it, whatever the model answers. Nothing is said of tags
  written in other ways: \<open>stripUnsafeHTML\<close> lets them through (\<open>stripUnsafeHTML_case\<close>).
\<close>

theorem rendered_html_safe:
  "\<exists>new. hy_pdfs (snd (run_state (runHydrationPass hx) s)) = hy_pdfs s @ new \<and> list_all safe_pdf new"
  using asked.runHydrationPass [of hx] by (simp add: keeps_def asked_def)

section \<open>A file nobody makes\<close>

text \<open>The pass over the stages asks for no file and uploads none, and sets an address all the same.\<close>

lemma processPendingPDFs_documents:
  fixes g :: "Hydration \<Rightarrow> 'g"
  assumes docs: "\<And>s d. g (s\<lparr>hy_docs := d\<rparr>) = g s"
  shows "preserves g (processPendingPDFs hx)"
proof -
  have stays: "preserves g (onDocs m)" for m :: "'x docs"
    by (simp add: keeps_def onDocs_def split_beta Let_def docs)
  show ?thesis
    unfolding processPendingPDFs_def forEach_def hydratePDF_def generatePDFContent_def fetchContextFromURLs_def
      fetchURL_def callGeminiAPI_def callGeminiAPIWithSystem_def callNo_def now_def FindLimit_def UpdateId_def
    by (auto intro!: preserves_intros stays split: sum.splits option.splits)
qed

lemma processPendingPDFs_no_file:
  "preserves hy_pdfs (processPendingPDFs hx)" "preserves hy_uploads (processPendingPDFs hx)"
  by (rule processPendingPDFs_documents; simp)+

section \<open>A certificate is made or has failed\<close>

definition stamp_ok :: "Doc \<Rightarrow> bool" where
  "stamp_ok d = (case map_of d ''timestamps'' of None \<Rightarrow> True | Some (BDoc t) \<Rightarrow> True | _ \<Rightarrow> False)"

abbreviation certs :: "Hydration \<Rightarrow> Doc list" where
  "certs s \<equiv> colls s CertificateCollection"

definition certs_ok :: "Hydration \<Rightarrow> bool" where
  "certs_ok s \<longleftrightarrow> (\<forall>c. ids_ok (colls s c)) \<and> list_all stamp_ok (certs s)"

definition settled :: "Hydration \<Rightarrow> Bson \<Rightarrow> bool" where
  "settled s i \<longleftrightarrow> (\<exists>d\<in>set (certs s). idOf d = i \<and> final_status (getField ''gen_status'' d))"

text \<open>The certificates stay updatable and keep their ids.\<close>

definition steady :: "Hydration \<Rightarrow> Hydration \<Rightarrow> bool" where
  "steady s s' \<longleftrightarrow> (certs_ok s \<longrightarrow> certs_ok s' \<and> map idOf (certs s') = map idOf (certs s))"

lemma stamps_kept:
  assumes "changes (map (\<lambda>(p, v). Put p v) sets) (BDoc d) = Some (BDoc d')" and "proper_sets sets" and "stamp_ok d"
  shows "stamp_ok d'"
  using assms
proof (induction sets arbitrary: d)
  case (Cons pv sets)
  obtain p v where pv: "pv = (p, v)" by fastforce
  obtain k ks where p: "p = k # ks" using Cons.prems(2) pv by (cases p) (auto simp: proper_sets_def)
  obtain d1 where d1: "change (Put p v) (BDoc d) = Some (BDoc d1)" "changes (map (\<lambda>(p, v). Put p v) sets) (BDoc d1) = Some (BDoc d')"
    using Cons.prems(1) pv p by (auto simp: Option.bind_eq_Some_conv)
  have "stamp_ok d1"
  proof (cases "k = ''timestamps''")
    case True
    then have "p = updated_at" using Cons.prems(2) pv p by (simp add: proper_sets_def)
    with d1(1) Cons.prems(3) show ?thesis
      by (auto simp: updated_at_def stamp_ok_def split: option.splits Bson.splits)
  next
    case False
    with d1(1) Cons.prems(3) show ?thesis by (auto simp: p stamp_ok_def)
  qed
  with d1(2) Cons show ?case by (simp add: proper_sets_def)
qed simp

lemma steady_rows:
  assumes "rows (\<lambda>_ _. True) s s'" and "list_all stamp_ok (certs s) \<Longrightarrow> list_all stamp_ok (certs s')"
  shows "steady s s'"
proof -
  have "certs_ok s' \<and> map idOf (certs s') = map idOf (certs s)" if ok: "certs_ok s"
  proof -
    have m: "map idOf (colls s' c) = map idOf (colls s c)" for c
      using assms(1) ok by (auto simp: rows_def certs_ok_def intro: rows_ids)
    then have "ids_ok (colls s' c)" for c using ok ids_ok_map [OF m] by (simp add: certs_ok_def)
    with m assms(2) ok show ?thesis by (simp add: certs_ok_def)
  qed
  then show ?thesis by (simp add: steady_def)
qed

lemma steady_same: "colls s' = colls s \<Longrightarrow> steady s s'"
  by (simp add: steady_def certs_ok_def)

lemma steady_trans: "steady s t \<Longrightarrow> steady t u \<Longrightarrow> steady s u"
  by (simp add: steady_def)

lemma steady_ids:
  "steady s s' \<Longrightarrow> certs_ok s \<Longrightarrow> certs_ok s' \<and> idOf ` set (certs s') = idOf ` set (certs s)"
  unfolding steady_def by (metis list.set_map)

lemma steady_changed:
  assumes "proper_sets sets"
  shows "steady s (s\<lparr>hy_docs := putColl c (snd (updateDoc uniq (sat (byId i)) (map (\<lambda>(p, v). Put p v) sets) (colls s c))) (hy_docs s)\<rparr>)"
proof (rule steady_rows [OF rows_changed [OF assms]])
  assume ok: "list_all stamp_ok (certs s)"
  have "list_all stamp_ok (snd (updateDoc uniq (sat (byId i)) (map (\<lambda>(p, v). Put p v) sets) (certs s)))"
  proof (rule updateDoc_cases [of uniq "sat (byId i)" "map (\<lambda>(p, v). Put p v) sets" "certs s"])
    fix as d d' bs
    assume docs: "certs s = as @ d # bs" "updated (map (\<lambda>(p, v). Put p v) sets) d = Some d'"
      "snd (updateDoc uniq (sat (byId i)) (map (\<lambda>(p, v). Put p v) sets) (certs s)) = as @ d' # bs"
    have "stamp_ok d'"
      by (rule stamps_kept [OF _ assms]) (use docs ok in \<open>auto simp: updated_def split: option.splits Bson.splits\<close>)
    with ok show ?thesis unfolding docs(3) by (simp add: docs(1))
  qed (simp add: ok)
  with ok show "list_all stamp_ok (certs (s\<lparr>hy_docs := putColl c (snd (updateDoc uniq (sat (byId i))
      (map (\<lambda>(p, v). Put p v) sets) (colls s c))) (hy_docs s)\<rparr>))"
    by (simp add: putColl_def)
qed simp

interpretation steady: worker steady hx "\<lambda>_ _. True" for hx
proof
  fix s t u assume "steady s t" "steady t u"
  then show "steady s u" by (rule steady_trans)
next
  fix sets :: "(Path \<times> Bson) list" and c i
  assume "proper_sets sets"
  then show "keeps steady (UpdateId hx c i sets)"
    by - (rule UpdateId_step [where R = steady, OF steady_same steady_trans steady_same steady_changed], simp_all)
qed (simp_all add: steady_same)

text \<open>A run after which the certificate of an id, if it is there, is made or has failed.\<close>

definition finishes :: "Bson \<Rightarrow> Hydration \<Rightarrow> Hydration \<Rightarrow> bool" where
  "finishes i s s' \<longleftrightarrow> steady s s' \<and> (certs_ok s \<and> i \<in> idOf ` set (certs s) \<longrightarrow> settled s' i)"

lemma finishes_then:
  assumes "keeps steady m" and "\<And>x. keeps (finishes i) (k x)"
  shows "keeps (finishes i) (m \<bind> k)"
proof -
  have step: "finishes i s u" if st: "steady s t" and tu: "finishes i t u" for s t u
  proof -
    have "certs_ok t \<and> i \<in> idOf ` set (certs t)" if "certs_ok s" "i \<in> idOf ` set (certs s)"
      using steady_ids [OF st] that by simp
    with st tu show ?thesis by (auto simp: finishes_def intro: steady_trans)
  qed
  have "finishes i s (snd (run_state (m \<bind> k) s))" for s
    using step [of s "snd (run_state m s)"] assms by (simp add: keeps_def split_beta)
  then show ?thesis by (simp add: keeps_def)
qed

lemma updateDoc_only:
  assumes ok: "ids_ok docs" and i: "i \<in> idOf ` set docs"
    and fits: "\<And>d. d \<in> set docs \<Longrightarrow> \<exists>d'. updated cs d = Some d' \<and> idOf d' = idOf d \<and> Q d'"
  shows "\<exists>d'\<in>set (snd (updateDoc [] (sat (byId i)) cs docs)). idOf d' = i \<and> Q d'"
proof -
  from i obtain d0 where d0: "d0 \<in> set docs" "idOf d0 = i" by blast
  with ok obtain j where "i = BOid j" by (auto simp: ids_ok_def list_all_iff)
  with d0 have "sat (byId i) d0" by (auto simp: byId_def field_def matches_def equals_def getField_def split: option.splits)
  with d0(1) obtain d where fd: "find (sat (byId i)) docs = Some d" by (cases "find (sat (byId i)) docs") (auto simp: find_None_iff)
  from find_split [OF fd] obtain as bs where s: "docs = as @ d # bs" "sat (byId i) d" "list_all (\<lambda>x. \<not> sat (byId i) x) as" .
  then have d: "d \<in> set docs" by simp
  with ok obtain k where "idOf d = BOid k" by (auto simp: ids_ok_def list_all_iff)
  with s(2) have id: "idOf d = i" using byId_sat by metis
  from fits [OF d] obtain d' where d': "updated cs d = Some d'" "idOf d' = idOf d" "Q d'" by blast
  have "d \<notin> set as" using s by (auto simp: list_all_iff)
  then have rest: "remove1 d docs = as @ bs" by (simp add: s(1) remove1_append)
  have "\<not> list_ex (clash [] d') (as @ bs)"
    using ok d'(2) by (auto simp: clash_def s(1) ids_ok_def list_ex_iff image_iff)
  then have "snd (updateDoc [] (sat (byId i)) cs docs) = as @ d' # bs"
    using fd d'(1) rest s updateFirst_at [of "sat (byId i)" as d "\<lambda>_. d'" bs]
    by (simp add: updateDoc_def updateOne_def)
  with d' id show ?thesis by simp
qed

lemma finishes_update:
  assumes up: "\<And>n. bk_db (hx_bk hx) n = Done" and free: "bk_unique (hx_bk hx) CertificateCollection = []"
    and proper: "proper_sets sets"
    and fits: "\<And>d. stamp_ok d \<Longrightarrow>
      (case updated (map (\<lambda>(p, v). Put p v) sets) d of None \<Rightarrow> False | Some d' \<Rightarrow> final_status (getField ''gen_status'' d'))"
  shows "keeps (finishes i) (UpdateId hx CertificateCollection i sets)"
proof -
  have "settled (snd (run_state (UpdateId hx CertificateCollection i sets) s)) i"
    if ok: "certs_ok s" and i: "i \<in> idOf ` set (certs s)" for s
  proof -
    have "\<exists>d'\<in>set (snd (updateDoc [] (sat (byId i)) (map (\<lambda>(p, v). Put p v) sets) (certs s))).
        idOf d' = i \<and> final_status (getField ''gen_status'' d')"
    proof (rule updateDoc_only [OF _ i])
      show "ids_ok (certs s)" using ok by (simp add: certs_ok_def)
      fix d assume "d \<in> set (certs s)"
      then have "stamp_ok d" using ok by (simp add: certs_ok_def list_all_iff)
      from fits [OF this] obtain d' where d': "updated (map (\<lambda>(p, v). Put p v) sets) d = Some d'"
        "final_status (getField ''gen_status'' d')" by (auto split: option.splits)
      moreover have "idOf d' = idOf d"
        using proper_sets_keep [OF d'(1) proper, of "''_id''"] by (simp add: ownerFields_def getField_def)
      ultimately show "\<exists>d'. updated (map (\<lambda>(p, v). Put p v) sets) d = Some d' \<and> idOf d' = idOf d
          \<and> final_status (getField ''gen_status'' d')" by blast
    qed
    then show ?thesis
      by (simp add: settled_def UpdateId_def onDocs_def Update_def writeColl_def tick_def up free putColl_def Let_def split_beta)
  qed
  moreover have "keeps steady (UpdateId hx CertificateCollection i sets)" by (rule steady.updated [OF proper TrueI])
  ultimately show ?thesis by (simp add: keeps_def finishes_def)
qed

lemma certificate_finishes:
  assumes up: "\<And>n. bk_db (hx_bk hx) n = Done" and free: "bk_unique (hx_bk hx) CertificateCollection = []"
  shows "keeps (finishes (cf_Id cert)) (hydrateCertificate hx cert)"
proof -
  have failed: "keeps (finishes (cf_Id cert)) (certificateFailed hx cert e)" for e
    unfolding certificateFailed_def
    by (rule finishes_update [OF up free])
      (auto simp: proper_sets_def ownerFields_def statusFields_def final_status_def updated_def getField_def)
  have completed: "keeps (finishes (cf_Id cert)) (UpdateId hx CertificateCollection (cf_Id cert)
      [([''asset_url''], BStr url), ([''gen_status''], BStr ''completed''), ([''gen_error_msg''], BStr []), (updated_at, BTime t)])" for url t
    by (rule finishes_update [OF up free])
      (auto simp: proper_sets_def ownerFields_def statusFields_def final_status_def updated_def getField_def
        updated_at_def stamp_ok_def split: option.splits Bson.splits)
  have uploads: "keeps (finishes (cf_Id cert)) (uploadCertificate hx cert pdf)" for pdf
    unfolding uploadCertificate_def
    by (auto intro!: finishes_then steady.uploads steady.now failed completed split: sum.splits)
  have posts: "keeps steady (postPdf hx req)" for req
    unfolding postPdf_def by (intro steady.bind steady.callNo steady.modify steady.basic) (simp_all add: steady_same)
  have claim: "keeps steady (UpdateId hx CertificateCollection (cf_Id cert)
      [([''gen_status''], BStr ''processing''), (updated_at, BTime t)])" for t
    by (rule steady.updated) (simp_all add: proper_sets_def ownerFields_def statusFields_def updated_at_def)
  show ?thesis
    unfolding hydrateCertificate_def
    by (intro finishes_then steady.now claim steady.generators(6) posts)
      (auto intro!: failed uploads split: HttpReply.splits)
qed

lemma settled_other:
  assumes "i \<noteq> cf_Id cert" and "certs_ok s" and "settled s i"
  shows "settled (snd (run_state (hydrateCertificate hx cert) s)) i"
proof -
  have "keeps (rows (\<lambda>_ d. idOf d \<noteq> i)) (hydrateCertificate hx cert)"
    by (rule rows.certificate) (use assms(1) in auto)
  with assms(2) have "list_all2 (row (\<lambda>d. idOf d \<noteq> i)) (certs s) (certs (snd (run_state (hydrateCertificate hx cert) s)))"
    by (simp add: keeps_def rows_def certs_ok_def)
  moreover obtain d where d: "d \<in> set (certs s)" "idOf d = i" "final_status (getField ''gen_status'' d)"
    using assms(3) by (auto simp: settled_def)
  ultimately obtain d' where d': "d' \<in> set (certs (snd (run_state (hydrateCertificate hx cert) s)))" "row (\<lambda>d. idOf d \<noteq> i) d d'"
    by (metis in_set_conv_nth list_all2_conv_all_nth)
  with d have "d' = d" by (simp add: row_def)
  with d d'(1) show ?thesis by (auto simp: settled_def)
qed

lemma certificates_settle:
  assumes up: "\<And>n. bk_db (hx_bk hx) n = Done" and free: "bk_unique (hx_bk hx) CertificateCollection = []"
    and "certs_ok s" and "settled s i \<or> i \<in> cf_Id ` set cs \<and> i \<in> idOf ` set (certs s)"
  shows "settled (snd (run_state (mapC (hydrateCertificate hx) cs) s)) i"
  using assms(3,4)
proof (induction cs arbitrary: s)
  case (Cons cert cs)
  let ?t = "snd (run_state (hydrateCertificate hx cert) s)"
  have f: "finishes (cf_Id cert) s ?t" using certificate_finishes [OF up free] by (simp add: keeps_def)
  then have t: "certs_ok ?t" "idOf ` set (certs ?t) = idOf ` set (certs s)"
    using Cons.prems(1) steady_ids [of s ?t] by (simp_all add: finishes_def)
  have "settled ?t i \<or> i \<in> cf_Id ` set cs \<and> i \<in> idOf ` set (certs ?t)"
  proof (cases "i = cf_Id cert")
    case True
    have "i \<in> idOf ` set (certs s)" using Cons.prems(2) by (auto simp: settled_def)
    with f True Cons.prems(1) show ?thesis by (simp add: finishes_def)
  next
    case False
    then show ?thesis using Cons.prems(2) t(2) settled_other [OF False Cons.prems(1)] by auto
  qed
  from Cons.IH [OF t(1) this] show ?case by (simp add: split_beta)
qed simp

text \<open>
  C19: When the database does its work, every one of the first five certificates that wait is made or
  has failed after a pass, whatever the model, the renderer and the object store answer.
\<close>

theorem certificates_settled:
  assumes "hx_session hx" and "\<And>n. bk_db (hx_bk hx) n = Done" and "bk_unique (hx_bk hx) CertificateCollection = []"
    and "certs_ok s" and "d \<in> set (take 5 (filter (sat (pending [''gen_status''])) (certs s)))"
  shows "settled (snd (run_state (RunCertsNow hx) s)) (idOf d)"
proof -
  obtain docs s1 where r: "run_state (FindLimit hx CertificateCollection (pending [''gen_status'']) 5) s = (docs, s1)"
    "colls s1 = colls s" "docs = take 5 (filter (sat (pending [''gen_status''])) (certs s))"
    using FindLimit_run [of hx CertificateCollection "pending [''gen_status'']" 5 s] assms(2) by metis
  have "d \<in> set (certs s)" using assms(5) by (auto dest: in_set_takeD)
  with assms(5) r have "idOf d \<in> cf_Id ` set (map read_certificate docs) \<and> idOf d \<in> idOf ` set (certs s1)"
    by (force simp: read_certificate_def)
  moreover have "certs_ok s1" using assms(4) r(2) by (simp add: certs_ok_def)
  ultimately have "settled (snd (run_state (mapC (hydrateCertificate hx) (map read_certificate docs)) s1)) (idOf d)"
    by (intro certificates_settle [OF assms(2,3)]) auto
  with r(1) show ?thesis
    by (simp add: RunCertsNow_def processPendingCertificates_def forEach_def assms(1) split_beta)
qed

end
