(* ===== verification/HydratorExamples.thy ===== *)
theory HydratorExamples
  imports HydratorProps StoryDemo
begin

text \<open>
  Services to compute with: a model that writes a page with a script in it, a renderer that prints
  it and an object store. The properties of the content worker are applied to two certificates, one that
  waits and one a stopped worker left behind.
\<close>

definition demo_services :: "(nat \<Rightarrow> db_reply) \<Rightarrow> Services" where
  "demo_services reply = \<lparr>hx_bk = demo_backend reply, hx_session = True, hx_key = ''k'',
     hx_gemini = (\<lambda>n key prompt system. Answered 200 ''{}'' None),
     hx_candidates = (\<lambda>body. Inr [[(''let me think'', True), (''<p>well done</p><script>'', False)]]),
     hx_get = (\<lambda>n url. NoAnswer ''refused''), hx_pdf = (\<lambda>n req. Answered 200 ''%PDF'' None), hx_Storage = True,
     hx_upload = (\<lambda>n path pdf. Inr (''https://store/'' @ path)), hx_enqueue = (\<lambda>_. None),
     hx_date = (\<lambda>_. ''May 1, 2026''), hx_quote = quoted\<rparr>"

lemma demo_services_simps [simp]:
  "hx_bk (demo_services r) = demo_backend r" "hx_session (demo_services r)"
  by (simp_all add: demo_services_def)

definition certDoc :: "nat \<Rightarrow> string \<Rightarrow> Doc" where
  "certDoc i st = [(''_id'', BOid (Oid i)), (''tenant_id'', BOid (Oid 1)), (''public_id'', BStr ''c''),
     (''contact_name'', BStr ''Ann''), (''course_title'', BStr ''Film''), (''gen_status'', BStr st)]"

definition demo_hydration :: Hydration where
  "demo_hydration = \<lparr>hy_docs = \<lparr>dx_reads = 0, dx_oids = 100, dx_colls = (\<lambda>c.
       if c = CertificateCollection then [certDoc 40 ''processing'', certDoc 41 ''pending''] else []), dx_invalidated = []\<rparr>,
     hy_pdfs = [], hy_uploads = [], hy_jobs = []\<rparr>"

lemma demo_certs [simp]: "certs demo_hydration = [certDoc 40 ''processing'', certDoc 41 ''pending'']"
  by (simp add: demo_hydration_def)

lemma certs_demo_ids: "ids_ok (colls demo_hydration c)"
  by (simp add: demo_hydration_def ids_ok_def certDoc_def getField_def)

lemma demo_certs_ok: "certs_ok demo_hydration"
  by (simp add: certs_ok_def certs_demo_ids stamp_ok_def certDoc_def)

lemma demo_waits: "sat (pending [''gen_status'']) (certDoc 41 ''pending'')" "\<not> sat (pending [''gen_status'']) (certDoc 40 ''processing'')"
  by (simp_all add: pending_def alive_def matches_def equals_def certDoc_def)

theorem hydration_leaves_rest_witness:
  "list_all2 (\<lambda>d d'. idOf d' = idOf d \<and> (d' = d \<or> due CertificateCollection d))
     [certDoc 40 ''processing'', certDoc 41 ''pending'']
     (certs (hydrate_all [demo_services (\<lambda>_. Done), demo_services (\<lambda>_. Refused ''down'')] demo_hydration))"
  using hydration_leaves_rest [of demo_hydration CertificateCollection
      "[demo_services (\<lambda>_. Done), demo_services (\<lambda>_. Refused ''down'')]"] certs_demo_ids
  by simp

theorem certificates_settled_witness:
  "settled (snd (run_state (RunCertsNow (demo_services (\<lambda>_. Done))) demo_hydration)) (BOid (Oid 41))"
proof -
  have "idOf (certDoc 41 ''pending'') = BOid (Oid 41)" by (simp add: certDoc_def getField_def)
  moreover have "settled (snd (run_state (RunCertsNow (demo_services (\<lambda>_. Done))) demo_hydration)) (idOf (certDoc 41 ''pending''))"
    by (rule certificates_settled)
      (simp_all add: demo_certs_ok demo_waits demo_unique_def EnsureStoryGraphIndexes_def EnsureIdentityIndexes_def
        storyGraphCollections_def)
  ultimately show ?thesis by simp
qed

text \<open>The database stops answering after the certificate was taken in hand: it stays so through every later pass.\<close>

definition left_behind :: Hydration where
  "left_behind = snd (run_state (hydrateCertificate (demo_services (\<lambda>n. if n = 1 then Done else Refused ''down''))
     (read_certificate (certDoc 41 ''pending''))) demo_hydration)"

lemmas run_demo = left_behind_def hydrateCertificate_def certificateHTML_def callGeminiAPIWithSystem_def postPdf_def
  uploadCertificate_def UploadObject_def certificateFailed_def UpdateId_def Update_def writeColl_def now_def timeNow_def
  callNo_def onDocs_def tick_def putColl_def demo_services_def demo_hydration_def read_certificate_def candidateText_def

lemma colls_left:
  "colls left_behind c = (if c = CertificateCollection
     then [certDoc 40 ''processing'', gomap_put ''timestamps'' (BDoc [(''updated_at'', BTime 0)])
             (gomap_put ''gen_status'' (BStr ''processing'') (certDoc 41 ''pending''))] else [])"
  by (simp add: run_demo Let_def) (simp add: updateDoc_def byId_def field_def matches_def equals_def certDoc_def getField_def
    updated_def updated_at_def clash_def demo_unique_def EnsureStoryGraphIndexes_def EnsureIdentityIndexes_def
    storyGraphCollections_def updateOne_def bsonTime_def)

lemma certificate_left_behind:
  "\<exists>d. idOf d = BOid (Oid 41) \<and> d \<in> set (certs (hydrate_all hxs left_behind))
     \<and> getField ''gen_status'' d = BStr ''processing''"
proof -
  let ?d = "gomap_put ''timestamps'' (BDoc [(''updated_at'', BTime 0)]) (gomap_put ''gen_status'' (BStr ''processing'') (certDoc 41 ''pending''))"
  let ?hx = "demo_services (\<lambda>n. if n = 1 then Done else Refused ''down'')"
  have c: "certs left_behind = [certDoc 40 ''processing'', ?d]"
    by (simp add: colls_left)
  have ok: "\<forall>c. ids_ok (colls left_behind c)" 
    by (simp add: colls_left ids_ok_def getField_def) (simp add: certDoc_def)
  have "?d \<in> set (certs (hydrate_all hxs left_behind))"
    by (rule processing_never_retried) (simp_all add: ok c getField_def)
  then show ?thesis by (intro exI [of _ ?d]) (simp add: certDoc_def getField_def)
qed

end
