(* ===== verification/Spec2Isabelle.thy ===== *)
theory Spec2Isabelle
  imports BillingExamples ScriptRoutes CourseProps Prices Interleaving StoryProps StoryEditor HydratorExamples
begin

text \<open>
  A verification library for the scripting language, the story builder, the story engine, the hydrator and the
  platform billing of the Sentanyl core service (Go). This theory is the root: it imports every other one and ends with the
  property that joins the compiler and the engine.

  \<^bold>\<open>The program.\<close> An author describes email stories, funnels, sites, products and campaigns
  in a script. \<open>src/scripting\<close> turns the text into entities: the lexer (\<open>lexer.go\<close>,
  \<open>token.go\<close>) makes tokens, the parser (\<open>parser.go\<close>, \<open>parser_video.go\<close>) the tree of
  \<open>ast.go\<close>, the expander (\<open>expander.go\<close>) rewrites compact constructs into plain ones, the
  validator (\<open>validator.go\<close>) checks names, references and structure, and the compiler
  (\<open>compiler.go\<close>) builds the entities; \<open>scripting.go\<close> runs these stages and stops at the
  first that reports an error. The endpoints of \<open>src/routes/script.go\<close> check, compile and deploy a script:
  a deployment marks the entities with the tenant and ships them over the bridge (\<open>src/routes/bridge.go\<close>)
  to the service that stores them. The hydrator (\<open>src/hydrator/hydrator.go\<close>) is a job that fills in the texts, summaries,
  files and certificates of stored entities that are pending. The endpoints of the story builder
  (\<open>src/routes/story.go\<close>, with \<open>update_allowlists.go\<close> and \<open>indexes.go\<close>) let a tenant read and edit them, with
  its badges, contacts and lists. The story engine
  (\<open>src/routes/story_engine.go\<close>) starts a session for a user and a story, reads the story
  back from the database, sends one email per step, and moves sessions on when their wait
  is over or a tracked link is clicked (\<open>src/routes/tracking.go\<close>).
  Platform billing charges the tenants of the service: handlers of the tenants
  (\<open>src/routes/platform_billing.go\<close>) change the subscription through the client of the payment
  service (\<open>src/internal/billing/stripe.go\<close>) and record each change as an intent, the webhook
  (\<open>src/routes/platform_webhook.go\<close>) brings the tenant's row in line with what the payment
  service reports, and a sweep (\<open>src/routes/plan_change_intent.go\<close>) settles what was lost between.

  \<^bold>\<open>Theories and code.\<close>
  \<^item> \<open>Prelude\<close>, \<open>GoStrings\<close>, \<open>GoFloat\<close>: Go's maps, pointers, 64-bit integers, byte strings,
    UTF-8, the functions of \<open>strings\<close>, \<open>strconv\<close> and \<open>unicode\<close> in use, and the floats of prices.
  \<^item> \<open>Effects\<close>, \<open>Mongo\<close>: code that threads a state, and the relations it keeps; the updates of a
    collection the engine and billing use, with their errors.
  \<^item> \<open>Tokens\<close>, \<open>Diagnostics\<close>, \<open>Lexer\<close>: \<open>token.go\<close>, \<open>diagnostics.go\<close>, \<open>lexer.go\<close>; the record
    \<open>Lexer\<close> is the struct, one definition for every method.
  \<^item> \<open>ParserBase\<close>, \<open>ParserStory\<close>, \<open>ParserScript\<close>, \<open>ParserShop\<close>, \<open>ParserCourse\<close>, \<open>ParserVideo\<close>,
    \<open>Parser\<close>: \<open>parser.go\<close> and \<open>parser_video.go\<close>, one definition for every method in the state
    monad over the struct \<open>Parser\<close>; \<open>ParserRules\<close>, \<open>ParserLists\<close>, \<open>ParserReturns\<close>: when it returns.
  \<^item> \<open>Ast\<close>: the nodes of \<open>ast.go\<close> with all their fields.
  \<^item> \<open>Tables\<close>: the loop that fills a table of definitions, for the expander and the validator.
  \<^item> \<open>Subst\<close>, \<open>Clone\<close>, \<open>Expander\<close>: \<open>expander.go\<close>, its string functions, its clone functions
    and its passes.
  \<^item> \<open>Validator\<close>: \<open>validator.go\<close>, the three passes over stories, funnels and sites.
  \<^item> \<open>Entities\<close>, \<open>Catalog\<close>: the entities a script compiles to.
  \<^item> \<open>Compiler\<close>, \<open>CompilerFunnels\<close>, \<open>CompilerCourses\<close>, \<open>CompilerMedia\<close>: \<open>compiler.go\<close> in the
    state monad over the fields of the \<open>Compiler\<close> struct: stories; funnels and sites; products,
    courses, quizzes and offers; media and campaigns and the method \<open>Compile\<close>.
  \<^item> \<open>CompilerProps\<close>, \<open>Linking\<close>, \<open>CompileProps\<close>, \<open>CourseProps\<close>, \<open>Prices\<close>: badge guards and actions;
    jumps; references, reports and stops of a whole compilation; courses; amounts of offers.
  \<^item> \<open>Pipeline\<close>, \<open>Script\<close>: \<open>scripting.go\<close>, the stages after the parser; \<open>ParseScript\<close> and \<open>CompileScript\<close>.
  \<^item> \<open>Ownership\<close>: whose the entities of a compilation are. \<open>ScriptRoutes\<close>: \<open>script.go\<close> and \<open>bridge.go\<close>.
  \<^item> \<open>StoryGraph\<close>, \<open>Mail\<close>, \<open>Engine\<close>, \<open>EngineProps\<close>: reading a story back, the text of a mail,
    and the handlers of \<open>story_engine.go\<close> as functions on the collections they write.
  \<^item> \<open>Interleaving\<close>: the same handlers cut into atomic steps, run by any number of replicas.
  \<^item> \<open>Documents\<close>, \<open>DocStore\<close>: documents, queries, updates and unique indexes (\<open>indexes.go\<close>), the operations of
    the driver on the state \<open>Docs\<close>, the allowlists (\<open>update_allowlists.go\<close>); the record \<open>Backend\<close> holds what is
    outside the repository. \<open>StoryStore\<close>, \<open>StoryParts\<close>, \<open>StoryContacts\<close>: one definition per handler of
    \<open>story.go\<close>; \<open>StoryRoutes\<close>: the table of the endpoints and the service as a step relation.
  \<^item> \<open>StoryFrames\<close>, \<open>StoryIsolation\<close>: what the writes on a collection leave alone, and a locale in which
    every endpoint keeps a relation that its writes keep. \<open>StoryDemo\<close>: a backend and documents for examples.
    \<open>StoryReads\<close>, \<open>StoryEditor\<close>, \<open>StoryProps\<close>: what is read; the editor's reads, which can fail one by one,
    and what they show when all are answered; what changes.
  \<^item> \<open>HydratorText\<close>, \<open>Hydrator\<close>, \<open>HydratorWork\<close>: \<open>hydrator.go\<close> on the same state \<open>Docs\<close>: cleaning of
    generated text and the certificate template; the structs, calls and prompts; the passes and the job.
    \<open>HydratorProps\<close>, \<open>HydratorExamples\<close>: what a pass changes, and examples.
  \<^item> \<open>Stripe\<close>: \<open>stripe.go\<close>, with the network as a function of the call's position; the record \<open>Calls\<close>
    keeps what was asked. \<open>Billing\<close>: the rows, the intents and the sweep of \<open>plan_change_intent.go\<close>;
    the record \<open>Platform\<close> holds the collections. \<open>BillingHandlers\<close>: \<open>platform_billing.go\<close>.
    \<open>PlatformWebhook\<close>: \<open>platform_webhook.go\<close>.
  \<^item> \<open>BillingFrames\<close>: every write of the four files as one of a few kinds, and two locales in which each
    operation keeps what those kinds keep. \<open>BillingProps\<close>: the relations that are kept, and the system of
    overlapping deliveries, requests and sweeps; \<open>PlanProps\<close>, \<open>ScheduleProps\<close>: changes of the plan,
    scheduled changes; \<open>BillingExamples\<close>: these properties on an example.

  \<^bold>\<open>What the lemmas show.\<close> The lexer ends on every input, its offsets and literals are those of
  the source, and string literals are read back. The parser
  returns on every token stream whose lists are closed, with the whole stream read, and loops
  forever on some that have an open list. The expander leaves a tree without its
  constructs, is the identity on plain scripts and binds arguments as written. The validator
  reports an error exactly for the scripts a definition without symbol tables calls ill
  formed, if names have no colon. What the validator accepts, the story compiler compiles without an error, with
  every jump and every next story linked, badge guards that mean what conjunctive conditions
  say, and merged actions. A whole compilation reports exactly the products of offers that are
  not declared, stops exactly on jumps in funnels, and leads every reference to a medium to the
  public id of the medium; the amount of an offer is right up to a cent. The engine sends no step of a session twice and creates no two
  sessions for one command key, whatever the interleaving; a start leaves one active session,
  a failed one no trace, but two concurrent starts can supersede each other; sessions end; reading a story back
  stays within the tenant if stored documents embed only parts of their own tenant; no header
  can be injected into a mail. In every run of the story builder the unique indexes are kept, every document
  keeps its owner or belongs to a caller, and the documents of other tenants stay as they are; what a tenant reads depends on its documents only; an
  update changes listed fields of one document of the tenant. A deployment ships one payload exactly when a
  bridge is configured, the validation endpoint accepts the script, the compiler finds nothing more and the payload can be
  written as JSON, and all of it belongs to the
  caller. A hydration pass changes only pending documents and only the fields of its kind, leaves each
  certificate completed or failed when the database does its work, and sends no generated HTML with a script tag in lower case
  to the renderer. In every run of billing the keys of its collections stay unique,
  the rows of the tenants stay well typed, an intent is settled at most once, and failed payments
  do not restart the grace clock; a processed event is not processed again, no price is changed
  without an intent, two changes are never scheduled at once, and a call of the payment service is
  tried at most three times with one idempotency key. The properties of kind \<open>error\<close> state where the code does not do
  what it means to.

  \<^bold>\<open>Bounds.\<close> A loop is structural or has a measure (bytes left, size of a node). The
  loops of the parser may run forever: they are \<open>while_option\<close>, and a run that does not end
  sets the flag \<open>ps_hung\<close>; its recursive methods (conditions and actions) are unfolded once
  more than there are tokens left, which \<open>recP_returns\<close> shows is never reached. An \<open>int\<close> of the
  language is an unbounded integer except where the program can overflow it (literals, prices, durations, waits), where \<open>wrap64\<close> or \<open>in_int64\<close> is written out.

  \<^bold>\<open>Parameters.\<close> The Unicode tables above Latin-1, the iteration order of Go's maps (the order of an
  association list), the sort of lists longer than twelve, the clock, a conversion of a float that
  is out of range, the constants of the package \<open>models\<close>, the ids \<open>bson\<close> draws, the send authority, the
  mailer, and the failures of reads and writes: an operation of the database is done, refused, or done with
  its answer lost. For billing also the answers of the network, the signature check, the JSON decoders
  and the package \<open>plans\<close>; for the story builder the authentication, the binding of requests, the reading of a
  document into its struct, \<open>db.SanitizeUpdate\<close>, and the packages \<open>badges\<close> and \<open>plans\<close>, with what is relied on as
  \<open>backend_ok\<close>, \<open>badges_keep_owners\<close> and \<open>reads_owner\<close>. For the hydrator the language model, the web, the renderer, the object store and
  the job queue, each a function of the number of the call; for a deployment the encoding as JSON, the other
  service, and the hexadecimal form of ids; the texts of the examples and of the language reference. What a request of the story builder
  does is not interrupted by other requests.

  \<^bold>\<open>Not modelled.\<close>
  Of billing, the page with its status, which only reads, the handler that forces a state in tests, and the
  connection of a tenant's own account. Of the story builder, the statistics of one story. The HTTP handlers of
  tenants, domains and generated scripts, which bind requests and call packages outside this repository; the texts of
  the fixtures, which are example scripts; the commands that repair a database once.
\<close>

section \<open>From a script to the engine\<close>

text \<open>Runs of a sequence are read by their two projections, as in the theories of the compiler.\<close>

declare run_state_bind [simp del] run_bind [simp]












end
